(* ===== verification/Prelude.thy ===== *)
theory Prelude
  imports Main "HOL-Library.Word"
begin

unbundle bit_operations_syntax

text \<open>
  Shared vocabulary of the development: machine integers, the faults a C++ operation can end
  with, bounds-checked memory access, ASCII characters and the string operations of the code
  (\<open>CStdString::CompareNoCase\<close>, \<open>std::string::find\<close>, \<open>Trim\<close>), and the lemma collections the
  component theories extend.
\<close>

section \<open>Machine integers\<close>

type_synonym u8 = "8 word"
type_synonym u16 = "16 word"
type_synonym u32 = "32 word"
type_synonym u64 = "64 word"

lemma sint_small:
  fixes w :: "'a::len word"
  assumes "unat w < 2 ^ (LENGTH('a) - 1)"
  shows "sint w = int (unat w)"
proof -
  from assms have "int (unat w) < int (2 ^ (LENGTH('a) - 1))"
    by (simp only: of_nat_less_iff)
  then have "uint w < 2 ^ (LENGTH('a) - 1)"
    by simp
  moreover have "- (2 ^ (LENGTH('a) - Suc 0)) \<le> uint w"
    by (rule order_trans [OF _ uint_ge_0]) simp
  ultimately have "signed_take_bit (LENGTH('a) - Suc 0) (uint w) = uint w"
    by (intro signed_take_bit_int_eq_self) simp_all
  then show ?thesis by (simp add: sint_uint)
qed

lemma uint_of_int_u32: "0 \<le> k \<Longrightarrow> k < 4294967296 \<Longrightarrow> uint (word_of_int k :: u32) = k"
  by (simp add: uint_word_of_int_eq take_bit_int_eq_self)

lemma sint_of_int_u32: "- 2147483648 \<le> k \<Longrightarrow> k < 2147483648 \<Longrightarrow> sint (word_of_int k :: u32) = k"
  by (simp add: sint_sbintrunc' signed_take_bit_int_eq_self)

lemma uint_u32_bound: "uint (w :: u32) < 4294967296"
  using uint_lt2p [of w] by simp

lemma unat_of_nat_u32: "n < 4294967296 \<Longrightarrow> unat (word_of_nat n :: u32) = n"
  by (simp add: unat_of_nat)

section \<open>Faults and results\<close>

text \<open>
  An operation that can leave the defined behaviour of C++ or throw returns a sum: \<open>Inl\<close> a
  fault, \<open>Inr\<close> the value. \<open>OutOfBounds\<close> and \<open>NullDereference\<close> are memory errors (undefined
  behaviour in the code); \<open>Thrown\<close> is an exception with its message (without the numbers the
  code formats into it).
\<close>

datatype fault = OutOfBounds | NullDereference | Thrown string

type_synonym 'a result = "fault + 'a"

definition andThen :: "'a result \<Rightarrow> ('a \<Rightarrow> 'b result) \<Rightarrow> 'b result" where
  "andThen m f = (case m of Inl e \<Rightarrow> Inl e | Inr x \<Rightarrow> f x)"

lemma andThen_Inl [simp]: "andThen (Inl e) f = Inl e"
  by (simp add: andThen_def)

lemma andThen_Inr [simp]: "andThen (Inr x) f = f x"
  by (simp add: andThen_def)

lemma andThen_eq_Inr_iff: "andThen m f = Inr y \<longleftrightarrow> (\<exists>x. m = Inr x \<and> f x = Inr y)"
  by (cases m) auto

lemma andThen_cong [fundef_cong]:
  "m = m' \<Longrightarrow> (\<And>x. m' = Inr x \<Longrightarrow> f x = g x) \<Longrightarrow> andThen m f = andThen m' g"
  by (cases m') auto

definition is_ok :: "'a result \<Rightarrow> bool" where
  "is_ok r = (case r of Inl _ \<Rightarrow> False | Inr _ \<Rightarrow> True)"

lemma is_ok_simps [simp]: "is_ok (Inr x)" "\<not> is_ok (Inl e)"
  by (simp_all add: is_ok_def)

lemma is_ok_iff: "is_ok r \<longleftrightarrow> (\<exists>x. r = Inr x)"
  by (cases r) auto

section \<open>Bounds-checked arrays\<close>

text \<open>
  A C array is a list; a pointer into it is its offset, an \<open>int\<close>, because pointer arithmetic
  in the code can leave the array on either side. Reading or writing outside is \<open>OutOfBounds\<close>.
\<close>

definition peek :: "'a list \<Rightarrow> int \<Rightarrow> 'a result" where
  "peek xs i = (if 0 \<le> i \<and> i < int (length xs) then Inr (xs ! nat i) else Inl OutOfBounds)"

definition poke :: "'a list \<Rightarrow> int \<Rightarrow> 'a \<Rightarrow> 'a list result" where
  "poke xs i v = (if 0 \<le> i \<and> i < int (length xs) then Inr (xs[nat i := v]) else Inl OutOfBounds)"

text \<open>\<open>memcpy\<close>'s source: \<open>n\<close> elements from offset \<open>i\<close>.\<close>

definition mem_slice :: "'a list \<Rightarrow> int \<Rightarrow> nat \<Rightarrow> 'a list result" where
  "mem_slice xs i n = (if 0 \<le> i \<and> nat i + n \<le> length xs
     then Inr (take n (drop (nat i) xs)) else Inl OutOfBounds)"

lemma peek_ok [simp]: "0 \<le> i \<Longrightarrow> i < int (length xs) \<Longrightarrow> peek xs i = Inr (xs ! nat i)"
  by (simp add: peek_def)

lemma poke_ok [simp]: "0 \<le> i \<Longrightarrow> i < int (length xs) \<Longrightarrow> poke xs i v = Inr (xs[nat i := v])"
  by (simp add: poke_def)

lemma mem_slice_ok: "0 \<le> i \<Longrightarrow> nat i + n \<le> length xs \<Longrightarrow> mem_slice xs i n = Inr (take n (drop (nat i) xs))"
  by (simp add: mem_slice_def)

lemma mem_slice_length: "mem_slice xs i n = Inr ys \<Longrightarrow> length ys = n"
  by (auto simp: mem_slice_def split: if_splits)

section \<open>ASCII characters\<close>

definition code_of :: "char \<Rightarrow> nat" where
  "code_of c = of_char c"

lemma code_of_less [simp]: "code_of c < 256"
  by (simp add: code_of_def)

lemma code_of_inj: "code_of c = code_of d \<longleftrightarrow> c = d"
  by (simp add: code_of_def)

definition is_digit :: "char \<Rightarrow> bool" where
  "is_digit c \<longleftrightarrow> 48 \<le> code_of c \<and> code_of c \<le> 57"

definition is_upper :: "char \<Rightarrow> bool" where
  "is_upper c \<longleftrightarrow> 65 \<le> code_of c \<and> code_of c \<le> 90"

definition is_lower :: "char \<Rightarrow> bool" where
  "is_lower c \<longleftrightarrow> 97 \<le> code_of c \<and> code_of c \<le> 122"

definition is_alnum :: "char \<Rightarrow> bool" where
  "is_alnum c \<longleftrightarrow> is_digit c \<or> is_upper c \<or> is_lower c"

definition is_graph :: "char \<Rightarrow> bool" where
  "is_graph c \<longleftrightarrow> 33 \<le> code_of c \<and> code_of c \<le> 126"

definition is_space :: "char \<Rightarrow> bool" where
  "is_space c \<longleftrightarrow> code_of c = 32 \<or> (9 \<le> code_of c \<and> code_of c \<le> 13)"

definition to_lower :: "char \<Rightarrow> char" where
  "to_lower c = (if is_upper c then char_of (code_of c + 32) else c)"

definition to_upper :: "char \<Rightarrow> char" where
  "to_upper c = (if is_lower c then char_of (code_of c - 32) else c)"

lemma code_of_to_lower: "code_of (to_lower c) = (if is_upper c then code_of c + 32 else code_of c)"
  by (auto simp: to_lower_def is_upper_def code_of_def)

lemma code_of_to_upper: "code_of (to_upper c) = (if is_lower c then code_of c - 32 else code_of c)"
  by (auto simp: to_upper_def is_lower_def code_of_def)

lemma to_lower_idem [simp]: "to_lower (to_lower c) = to_lower c"
  by (simp add: code_of_inj [symmetric] code_of_to_lower is_upper_def)

section \<open>Strings\<close>

text \<open>\<open>CompareNoCase(a, b) == 0\<close> (\<open>ssicmp\<close> over the classic locale, strings without a NUL).\<close>

definition CompareNoCase_eq :: "string \<Rightarrow> string \<Rightarrow> bool" where
  "CompareNoCase_eq s t \<longleftrightarrow> map to_lower s = map to_lower t"

lemma CompareNoCase_eq_refl [simp]: "CompareNoCase_eq s s"
  by (simp add: CompareNoCase_eq_def)

lemma CompareNoCase_eq_lower [simp]: "CompareNoCase_eq (map to_lower s) t = CompareNoCase_eq s t"
  by (simp add: CompareNoCase_eq_def o_def)

text \<open>\<open>std::string::find\<close>: the first position of the needle, \<open>None\<close> for \<open>npos\<close>.\<close>

fun string_find :: "'a list \<Rightarrow> 'a list \<Rightarrow> nat option" where
  "string_find [] p = (if p = [] then Some 0 else None)"
| "string_find (c # s) p =
     (if take (length p) (c # s) = p then Some 0 else map_option Suc (string_find s p))"

lemma string_find_Some: "string_find s p = Some i \<Longrightarrow> take (length p) (drop i s) = p"
  by (induction s arbitrary: i) (auto split: if_splits)

lemma string_find_None: "string_find s p = None \<Longrightarrow> take (length p) (drop i s) \<noteq> p"
proof (induction s arbitrary: i)
  case (Cons c s)
  then show ?case by (cases i) (auto split: if_splits)
qed (auto split: if_splits)

lemma string_find_zero: "string_find s p = Some 0 \<longleftrightarrow> take (length p) s = p"
  by (cases s) (auto split: if_splits)

definition trim_left :: "string \<Rightarrow> string" where
  "trim_left s = dropWhile is_space s"

definition trim :: "string \<Rightarrow> string" where
  "trim s = rev (dropWhile is_space (rev (trim_left s)))"

section \<open>Lists\<close>

lemma take_drop_nth: "i < n \<Longrightarrow> n \<le> length xs - k \<Longrightarrow> take n (drop k xs) ! i = xs ! (k + i)"
  by (simp add: add.commute)

lemma ball_list_update: "\<forall>x \<in> set xs. P x \<Longrightarrow> P y \<Longrightarrow> \<forall>x \<in> set (xs[i := y]). P x"
  using set_update_subset_insert [of xs i y] by blast

lemma list_eq_iff_map: "xs = map f [0..<n] \<longleftrightarrow> length xs = n \<and> (\<forall>i<n. xs ! i = f i)"
  by (auto intro: nth_equalityI)

end
