(* ===== verification/MemScan.thy ===== *)
theory MemScan
  imports Prelude
begin

text \<open>
  Reading a packet through pointers. The memory is a list of characters, a pointer its index, and every
  dereference outside the list is a fault. \<open>orkbasecxx/MemUtils.cpp\<close> and the parsing utilities of the
  capture plugins are built from these loops.
\<close>

section \<open>Loops over memory\<close>

text \<open>\<open>while (p(*c) \<and> c < limit) c++\<close>: the character is read before the limit is tested.\<close>

fun scan_rest :: "(char \<Rightarrow> bool) \<Rightarrow> string \<Rightarrow> int \<Rightarrow> int \<Rightarrow> int result" where
  "scan_rest p [] c limit = Inl OutOfBounds"
| "scan_rest p (x # rest) c limit = (if p x \<and> c < limit then scan_rest p rest (c + 1) limit else Inr c)"

definition scan :: "(char \<Rightarrow> bool) \<Rightarrow> string \<Rightarrow> int \<Rightarrow> int \<Rightarrow> int result" where
  "scan p mem c limit =
     (if 0 \<le> c \<and> c \<le> int (length mem) then scan_rest p (drop (nat c) mem) c limit else Inl OutOfBounds)"

text \<open>\<open>while (c < limit \<and> p(*c)) c++\<close>: the limit is tested first.\<close>

fun bounded_scan_rest :: "(char \<Rightarrow> bool) \<Rightarrow> string \<Rightarrow> int \<Rightarrow> int \<Rightarrow> int result" where
  "bounded_scan_rest p [] c limit = (if c < limit then Inl OutOfBounds else Inr c)"
| "bounded_scan_rest p (x # rest) c limit = (if c < limit \<and> p x then bounded_scan_rest p rest (c + 1) limit else Inr c)"

definition bounded_scan :: "(char \<Rightarrow> bool) \<Rightarrow> string \<Rightarrow> int \<Rightarrow> int \<Rightarrow> int result" where
  "bounded_scan p mem c limit =
     (if 0 \<le> c \<and> c \<le> int (length mem) then bounded_scan_rest p (drop (nat c) mem) c limit
      else if c < limit then Inl OutOfBounds else Inr c)"

text \<open>\<open>while (p(*c)) c++\<close>: no limit.\<close>

definition unbounded_scan :: "(char \<Rightarrow> bool) \<Rightarrow> string \<Rightarrow> int \<Rightarrow> int result" where
  "unbounded_scan p mem c = scan p mem c (int (length mem) + 1)"

text \<open>The characters from one pointer up to another.\<close>

definition between :: "string \<Rightarrow> int \<Rightarrow> int \<Rightarrow> string" where
  "between mem a b = take (nat (b - a)) (drop (nat a) mem)"

section \<open>Comparing\<close>

text \<open>\<open>strncasecmp(s, ptr, n) = 0\<close>: stops at the first difference and at a NUL that both have.\<close>

fun strncasecmp_eq :: "nat \<Rightarrow> string \<Rightarrow> string \<Rightarrow> int \<Rightarrow> bool result" where
  "strncasecmp_eq 0 s mem ptr = Inr True"
| "strncasecmp_eq (Suc n) [] mem ptr = andThen (peek mem ptr) (\<lambda>c. Inr (code_of c = 0))"
| "strncasecmp_eq (Suc n) (x # s) mem ptr =
     andThen (peek mem ptr) (\<lambda>c.
     if to_lower c \<noteq> to_lower x then Inr False
     else if code_of c = 0 then Inr True
     else strncasecmp_eq n s mem (ptr + 1))"

text \<open>\<open>memchr(s, c, len)\<close>, and \<open>memnchr\<close>, which takes either case of \<open>c\<close>: the first match, if any.\<close>

fun mem_chr :: "(char \<Rightarrow> bool) \<Rightarrow> string \<Rightarrow> int \<Rightarrow> nat \<Rightarrow> int option result" where
  "mem_chr p mem s 0 = Inr None"
| "mem_chr p mem s (Suc len) = andThen (peek mem s) (\<lambda>c. if p c then Inr (Some s) else mem_chr p mem (s + 1) len)"

definition memchr :: "string \<Rightarrow> int \<Rightarrow> char \<Rightarrow> nat \<Rightarrow> int option result" where
  "memchr mem s c len = mem_chr (\<lambda>x. x = c) mem s len"

definition memnchr :: "string \<Rightarrow> int \<Rightarrow> char \<Rightarrow> nat \<Rightarrow> int option result" where
  "memnchr mem s c len = mem_chr (\<lambda>x. x = to_lower c \<or> x = to_upper c) mem s len"

text \<open>
  The search loops of the code: try \<open>matches\<close> at \<open>ptr\<close>, else go on at the next character that \<open>next_char\<close>
  accepts before \<open>stop\<close>. At most \<open>stop - ptr\<close> rounds are needed, which is the fuel.
\<close>

fun search_loop :: "nat \<Rightarrow> (int \<Rightarrow> bool result) \<Rightarrow> (char \<Rightarrow> bool) \<Rightarrow> string \<Rightarrow> int \<Rightarrow> int \<Rightarrow> int option result" where
  "search_loop 0 matches next_char mem ptr stop = Inr None"
| "search_loop (Suc n) matches next_char mem ptr stop =
     (if ptr \<ge> stop then Inr None
      else andThen (matches ptr) (\<lambda>found.
        if found then Inr (Some ptr)
        else andThen (mem_chr next_char mem (ptr + 1) (nat (stop - ptr - 1))) (\<lambda>r.
          case r of None \<Rightarrow> Inr None | Some ptr' \<Rightarrow> search_loop n matches next_char mem ptr' stop)))"

definition search :: "(int \<Rightarrow> bool result) \<Rightarrow> (char \<Rightarrow> bool) \<Rightarrow> string \<Rightarrow> int \<Rightarrow> int \<Rightarrow> int option result" where
  "search matches next_char mem start stop = search_loop (nat (stop - start)) matches next_char mem start stop"

section \<open>Lemmas\<close>

text \<open>A packet that ends at \<open>limit\<close> with a NUL behind it.\<close>

definition terminated :: "string \<Rightarrow> int \<Rightarrow> bool" where
  "terminated mem limit \<longleftrightarrow> 0 \<le> limit \<and> limit < int (length mem) \<and> code_of (mem ! nat limit) = 0"

lemma terminatedD: "terminated mem limit \<Longrightarrow> 0 \<le> limit \<and> limit < int (length mem)"
  by (simp add: terminated_def)

lemma scan_rest_ok:
  "int (length rest) + c > limit \<Longrightarrow> c \<le> limit \<Longrightarrow> \<exists>c'. scan_rest p rest c limit = Inr c' \<and> c \<le> c' \<and> c' \<le> limit \<and>
     (\<forall>i. c \<le> i \<and> i < c' \<longrightarrow> p (rest ! nat (i - c))) \<and> (c' < limit \<longrightarrow> \<not> p (rest ! nat (c' - c)))"
proof (induction p rest c limit rule: scan_rest.induct)
  case (2 p x rest c limit)
  show ?case
  proof (cases "p x \<and> c < limit")
    case True
    with 2 obtain c' where c': "scan_rest p rest (c + 1) limit = Inr c'" "c + 1 \<le> c'" "c' \<le> limit"
      "\<forall>i. c + 1 \<le> i \<and> i < c' \<longrightarrow> p (rest ! nat (i - (c + 1)))" "c' < limit \<longrightarrow> \<not> p (rest ! nat (c' - (c + 1)))" by auto
    have shift: "(x # rest) ! nat (i - c) = rest ! nat (i - (c + 1))" if "c + 1 \<le> i" for i
    proof -
      have "nat (i - c) = Suc (nat (i - (c + 1)))" using that by simp
      then show ?thesis by simp
    qed
    have "p ((x # rest) ! nat (i - c))" if "c \<le> i" "i < c'" for i
      using that c'(4) True shift [of i] by (cases "i = c") auto
    with c' True shift [of c'] show ?thesis by auto
  next
    case False
    with 2 show ?thesis by auto
  qed
qed auto

lemma scan_ok:
  assumes "0 \<le> c" "c \<le> limit" "limit < int (length mem)"
  shows "\<exists>c'. scan p mem c limit = Inr c' \<and> c \<le> c' \<and> c' \<le> limit \<and> (\<forall>i. c \<le> i \<and> i < c' \<longrightarrow> p (mem ! nat i)) \<and>
    (c' < limit \<longrightarrow> \<not> p (mem ! nat c'))"
proof -
  have at: "drop (nat c) mem ! nat (i - c) = mem ! nat i" if "c \<le> i" for i
    using that assms by (simp add: nat_diff_distrib)
  from scan_rest_ok [of limit "drop (nat c) mem" c p] assms obtain c' where
    "scan_rest p (drop (nat c) mem) c limit = Inr c'" "c \<le> c'" "c' \<le> limit"
    "\<forall>i. c \<le> i \<and> i < c' \<longrightarrow> p (drop (nat c) mem ! nat (i - c))" "c' < limit \<longrightarrow> \<not> p (drop (nat c) mem ! nat (c' - c))"
    by (auto simp: of_nat_diff)
  with at [of c'] at assms show ?thesis by (auto simp: scan_def)
qed

lemma bounded_scan_rest_ok:
  "int (length rest) + c \<ge> limit \<Longrightarrow> c \<le> limit \<Longrightarrow>
   \<exists>c'. bounded_scan_rest p rest c limit = Inr c' \<and> c \<le> c' \<and> c' \<le> limit \<and>
     (\<forall>i. c \<le> i \<and> i < c' \<longrightarrow> p (rest ! nat (i - c))) \<and> (c' < limit \<longrightarrow> \<not> p (rest ! nat (c' - c)))"
proof (induction p rest c limit rule: bounded_scan_rest.induct)
  case (2 p x rest c limit)
  show ?case
  proof (cases "c < limit \<and> p x")
    case True
    with 2 obtain c' where c': "bounded_scan_rest p rest (c + 1) limit = Inr c'" "c + 1 \<le> c'" "c' \<le> limit"
      "\<forall>i. c + 1 \<le> i \<and> i < c' \<longrightarrow> p (rest ! nat (i - (c + 1)))" "c' < limit \<longrightarrow> \<not> p (rest ! nat (c' - (c + 1)))" by auto
    have shift: "(x # rest) ! nat (i - c) = rest ! nat (i - (c + 1))" if "c + 1 \<le> i" for i
    proof -
      have "nat (i - c) = Suc (nat (i - (c + 1)))" using that by simp
      then show ?thesis by simp
    qed
    have "p ((x # rest) ! nat (i - c))" if "c \<le> i" "i < c'" for i
      using that c'(4) True shift [of i] by (cases "i = c") auto
    with c' True shift [of c'] show ?thesis by auto
  next
    case False
    with 2 show ?thesis by auto
  qed
qed auto

lemma bounded_scan_ok:
  assumes "0 \<le> c" "c \<le> limit" "limit \<le> int (length mem)"
  shows "\<exists>c'. bounded_scan p mem c limit = Inr c' \<and> c \<le> c' \<and> c' \<le> limit \<and> (\<forall>i. c \<le> i \<and> i < c' \<longrightarrow> p (mem ! nat i)) \<and>
    (c' < limit \<longrightarrow> \<not> p (mem ! nat c'))"
proof -
  have at: "drop (nat c) mem ! nat (i - c) = mem ! nat i" if "c \<le> i" for i
    using that assms by (simp add: nat_diff_distrib)
  from bounded_scan_rest_ok [of limit "drop (nat c) mem" c p] assms obtain c' where
    "bounded_scan_rest p (drop (nat c) mem) c limit = Inr c'" "c \<le> c'" "c' \<le> limit"
    "\<forall>i. c \<le> i \<and> i < c' \<longrightarrow> p (drop (nat c) mem ! nat (i - c))" "c' < limit \<longrightarrow> \<not> p (drop (nat c) mem ! nat (c' - c))"
    by (auto simp: of_nat_diff)
  with at [of c'] at assms show ?thesis by (auto simp: bounded_scan_def)
qed

text \<open>A loop without a limit stops at the terminator of the packet when the test fails on NUL.\<close>

lemma unbounded_scan_ok:
  assumes "0 \<le> c" "c \<le> limit" "terminated mem limit" "\<not> p (char_of (0 :: nat))"
  shows "\<exists>c'. unbounded_scan p mem c = Inr c' \<and> c \<le> c' \<and> c' \<le> limit \<and> (\<forall>i. c \<le> i \<and> i < c' \<longrightarrow> p (mem ! nat i))"
proof -
  have nul: "\<not> p (mem ! nat limit)"
  proof -
    have "mem ! nat limit = char_of (0 :: nat)"
      using assms(3) by (simp add: terminated_def code_of_def flip: code_of_inj)
    then show ?thesis using assms(4) by simp
  qed
  have stops: "int (length rest) + c > limit \<Longrightarrow> c \<le> limit \<Longrightarrow> \<not> p (rest ! nat (limit - c)) \<Longrightarrow> limit < big \<Longrightarrow>
     \<exists>c'. scan_rest p rest c big = Inr c' \<and> c \<le> c' \<and> c' \<le> limit \<and> (\<forall>i. c \<le> i \<and> i < c' \<longrightarrow> p (rest ! nat (i - c)))"
    for rest c big
  proof (induction rest arbitrary: c)
    case (Cons x rest)
    show ?case
    proof (cases "p x")
      case True
      then have "c < limit" using Cons.prems by (cases "c = limit") auto
      then have nat: "nat (i - c) = Suc (nat (i - (c + 1)))" if "c + 1 \<le> i" for i using that by simp
      have "\<not> p (rest ! nat (limit - (c + 1)))" using Cons.prems nat [of limit] \<open>c < limit\<close> by simp
      with Cons.IH [of "c + 1"] Cons.prems \<open>c < limit\<close> obtain c' where c': "scan_rest p rest (c + 1) big = Inr c'"
        "c + 1 \<le> c'" "c' \<le> limit" "\<forall>i. c + 1 \<le> i \<and> i < c' \<longrightarrow> p (rest ! nat (i - (c + 1)))" by auto
      have "p ((x # rest) ! nat (i - c))" if "c \<le> i" "i < c'" for i
        using that c'(4) True nat [of i] by (cases "i = c") auto
      with c' True \<open>c < limit\<close> Cons.prems show ?thesis by auto
    next
      case False
      then show ?thesis using Cons.prems by auto
    qed
  qed simp
  have at: "drop (nat c) mem ! nat (i - c) = mem ! nat i" if "c \<le> i" for i
    using that assms(1) terminatedD [OF assms(3)] assms(2) by (simp add: nat_diff_distrib)
  have "int (length (drop (nat c) mem)) + c > limit" "limit < int (length mem) + 1"
    using assms(1,2) terminatedD [OF assms(3)] by (auto simp: of_nat_diff)
  from stops [OF this(1) assms(2) _ this(2)] at [OF assms(2)] nul obtain c' where
    "scan_rest p (drop (nat c) mem) c (int (length mem) + 1) = Inr c'" "c \<le> c'" "c' \<le> limit"
    "\<forall>i. c \<le> i \<and> i < c' \<longrightarrow> p (drop (nat c) mem ! nat (i - c))" by auto
  with at assms(1,2) terminatedD [OF assms(3)] show ?thesis by (auto simp: unbounded_scan_def scan_def)
qed

lemma mem_chr_ok:
  "0 \<le> s \<Longrightarrow> s + int len \<le> int (length mem) \<Longrightarrow> \<exists>r. mem_chr p mem s len = Inr r \<and>
     (case r of None \<Rightarrow> \<forall>i. s \<le> i \<and> i < s + int len \<longrightarrow> \<not> p (mem ! nat i)
      | Some s' \<Rightarrow> s \<le> s' \<and> s' < s + int len \<and> p (mem ! nat s') \<and> (\<forall>i. s \<le> i \<and> i < s' \<longrightarrow> \<not> p (mem ! nat i)))"
proof (induction len arbitrary: s)
  case (Suc len)
  show ?case
  proof (cases "p (mem ! nat s)")
    case True
    then show ?thesis using Suc.prems by auto
  next
    case False
    from Suc.IH [of "s + 1"] Suc.prems obtain r where r: "mem_chr p mem (s + 1) len = Inr r"
      "case r of None \<Rightarrow> \<forall>i. s + 1 \<le> i \<and> i < s + 1 + int len \<longrightarrow> \<not> p (mem ! nat i)
      | Some s' \<Rightarrow> s + 1 \<le> s' \<and> s' < s + 1 + int len \<and> p (mem ! nat s') \<and> (\<forall>i. s + 1 \<le> i \<and> i < s' \<longrightarrow> \<not> p (mem ! nat i))"
      by auto
    have step: "\<not> p (mem ! nat i)" if "s \<le> i" "s + 1 \<le> i \<Longrightarrow> \<not> p (mem ! nat i)" for i
      using that False by (cases "i = s") auto
    show ?thesis
    proof (cases r)
      case None
      have "\<not> p (mem ! nat i)" if "s \<le> i" "i < s + int (Suc len)" for i
        using step [of i] that r(2) None by (cases "s + 1 \<le> i") auto
      with r(1) None False Suc.prems show ?thesis by simp
    next
      case (Some s')
      have "\<not> p (mem ! nat i)" if "s \<le> i" "i < s'" for i
        using step [of i] that r(2) Some by (cases "s + 1 \<le> i") auto
      with r Some False Suc.prems show ?thesis by simp
    qed
  qed
qed auto

text \<open>The search finds the first match among the start and the later positions with an accepted character.\<close>

definition candidate :: "(char \<Rightarrow> bool) \<Rightarrow> string \<Rightarrow> int \<Rightarrow> int \<Rightarrow> bool" where
  "candidate next_char mem start q \<longleftrightarrow> q = start \<or> start < q \<and> next_char (mem ! nat q)"

definition first_match :: "(int \<Rightarrow> bool result) \<Rightarrow> (char \<Rightarrow> bool) \<Rightarrow> string \<Rightarrow> int \<Rightarrow> int \<Rightarrow> int option \<Rightarrow> bool" where
  "first_match matches next_char mem start stop r \<longleftrightarrow> (case r of
     None \<Rightarrow> \<forall>q. candidate next_char mem start q \<and> q < stop \<longrightarrow> matches q = Inr False
   | Some p \<Rightarrow> p < stop \<and> candidate next_char mem start p \<and> matches p = Inr True \<and>
       (\<forall>q. candidate next_char mem start q \<and> q < p \<longrightarrow> matches q = Inr False))"

lemma first_match_None: "first_match m c mem start stop None \<Longrightarrow> candidate c mem start q \<Longrightarrow> q < stop \<Longrightarrow> m q = Inr False"
  by (simp add: first_match_def)

lemma first_match_Some:
  assumes "first_match m c mem start stop (Some p)"
  shows "start \<le> p" "p < stop" "m p = Inr True" "candidate c mem start p"
  using assms by (auto simp: first_match_def candidate_def)

lemma first_match_before:
  "first_match m c mem start stop (Some p) \<Longrightarrow> candidate c mem start q \<Longrightarrow> q < p \<Longrightarrow> m q = Inr False"
  by (simp add: first_match_def)

lemma first_match_later:
  assumes "first_match matches next_char mem ptr' stop r" "ptr < ptr'" "next_char (mem ! nat ptr')"
    and "matches ptr = Inr False" "\<forall>i. ptr < i \<and> i < ptr' \<longrightarrow> \<not> next_char (mem ! nat i)"
  shows "first_match matches next_char mem ptr stop r"
proof -
  have cand: "candidate next_char mem ptr q \<longleftrightarrow> q = ptr \<or> candidate next_char mem ptr' q" for q
    using assms(2,3,5) by (cases "q < ptr'"; cases "q = ptr'") (auto simp: candidate_def)
  show ?thesis
    using assms(1,2,4) by (auto simp: first_match_def cand split: option.splits)
qed

lemma search_loop_ok:
  assumes safe: "\<And>ptr. start \<le> ptr \<Longrightarrow> ptr < stop \<Longrightarrow> \<exists>b. matches ptr = Inr b"
    and stop: "stop \<le> int (length mem)" and start: "0 \<le> start"
  shows "start \<le> ptr \<Longrightarrow> ptr \<le> stop \<Longrightarrow> nat (stop - ptr) \<le> n \<Longrightarrow>
    \<exists>r. search_loop n matches next_char mem ptr stop = Inr r \<and> first_match matches next_char mem ptr stop r"
proof (induction n arbitrary: ptr)
  case 0
  then show ?case by (auto simp: first_match_def candidate_def)
next
  case (Suc n)
  show ?case
  proof (cases "ptr < stop")
    case True
    then obtain b where b: "matches ptr = Inr b" using safe Suc.prems(1) by blast
    show ?thesis
    proof (cases b)
      case True
      then show ?thesis using b \<open>ptr < stop\<close> by (auto simp: first_match_def candidate_def)
    next
      case False
      from mem_chr_ok [of "ptr + 1" "nat (stop - ptr - 1)" mem next_char] start Suc.prems stop True
      obtain r where r: "mem_chr next_char mem (ptr + 1) (nat (stop - ptr - 1)) = Inr r"
        "case r of None \<Rightarrow> \<forall>i. ptr + 1 \<le> i \<and> i < stop \<longrightarrow> \<not> next_char (mem ! nat i)
         | Some s' \<Rightarrow> ptr + 1 \<le> s' \<and> s' < stop \<and> next_char (mem ! nat s') \<and>
             (\<forall>i. ptr + 1 \<le> i \<and> i < s' \<longrightarrow> \<not> next_char (mem ! nat i))"
        by (auto simp: algebra_simps split: option.splits)
      show ?thesis
      proof (cases r)
        case None
        then show ?thesis using b False r True by (auto simp: first_match_def candidate_def)
      next
        case (Some p')
        with r(2) have p': "ptr < p'" "p' < stop" "next_char (mem ! nat p')"
          "\<forall>i. ptr < i \<and> i < p' \<longrightarrow> \<not> next_char (mem ! nat i)" by auto
        have "start \<le> p'" "p' \<le> stop" "nat (stop - p') \<le> n" using Suc.prems p' by linarith+
        from Suc.IH [OF this] obtain r' where r': "search_loop n matches next_char mem p' stop = Inr r'"
          "first_match matches next_char mem p' stop r'" by blast
        have "first_match matches next_char mem ptr stop r'"
          using first_match_later [OF r'(2) p'(1,3) _ p'(4)] b False by simp
        then show ?thesis using b False r(1) Some r'(1) True by simp
      qed
    qed
  next
    case False
    then show ?thesis using Suc.prems by (auto simp: first_match_def candidate_def)
  qed
qed

lemma search_ok:
  assumes "\<And>ptr. start \<le> ptr \<Longrightarrow> ptr < stop \<Longrightarrow> \<exists>b. matches ptr = Inr b" "stop \<le> int (length mem)" "0 \<le> start" "start \<le> stop"
  shows "\<exists>r. search matches next_char mem start stop = Inr r \<and> first_match matches next_char mem start stop r"
  unfolding search_def by (rule search_loop_ok [OF assms(1-3)]) (use assms(4) in simp_all)

text \<open>Comparing at a pointer inside a terminated packet stays inside it when the name has no NUL.\<close>

lemma strncasecmp_terminated:
  assumes mem: "terminated mem stop"
  shows "list_all (\<lambda>c. code_of c \<noteq> 0) s \<Longrightarrow> n \<le> length s \<Longrightarrow> 0 \<le> ptr \<Longrightarrow> ptr \<le> stop \<Longrightarrow>
    \<exists>b. strncasecmp_eq n s mem ptr = Inr b \<and>
    (b \<longleftrightarrow> ptr + int n \<le> stop \<and> map to_lower (take n (drop (nat ptr) mem)) = map to_lower (take n s))"
proof (induction n arbitrary: s ptr)
  case (Suc n)
  then obtain x t where s: "s = x # t" and x: "code_of x \<noteq> 0" by (cases s) auto
  let ?c = "mem ! nat ptr"
  have ptr: "0 \<le> ptr" "ptr < int (length mem)" using Suc.prems terminatedD [OF mem] by auto
  define r where "r = drop (nat (ptr + 1)) mem"
  have cell: "drop (nat ptr) mem = ?c # r"
    using ptr by (simp add: r_def Cons_nth_drop_Suc nat_add_distrib)
  show ?case
  proof (cases "to_lower ?c = to_lower x")
    case True
    have "code_of ?c \<noteq> 0"
      using x arg_cong [OF True, of code_of] by (auto simp: code_of_to_lower is_upper_def split: if_splits)
    then have "ptr < stop" using mem Suc.prems(4) by (cases "ptr = stop") (auto simp: terminated_def)
    then have "list_all (\<lambda>c. code_of c \<noteq> 0) t" "n \<le> length t" "0 \<le> ptr + 1" "ptr + 1 \<le> stop"
      using Suc.prems s by simp_all
    from Suc.IH [OF this, folded r_def] obtain b where
      "strncasecmp_eq n t mem (ptr + 1) = Inr b"
      "b \<longleftrightarrow> ptr + 1 + int n \<le> stop \<and> map to_lower (take n r) = map to_lower (take n t)" by blast
    then show ?thesis using True ptr \<open>code_of ?c \<noteq> 0\<close> by (simp add: s cell algebra_simps)
  next
    case False
    then show ?thesis using ptr by (intro exI [of _ False]) (simp add: s cell)
  qed
qed auto

end
