(* ===== verification/StringUtils.thy ===== *)
theory StringUtils
  imports Prelude
begin

text \<open>
  The string helpers of \<open>orkbasecxx/Utils.{h,cpp}\<close>: conversions between integers and decimal strings
  (over a model of the C library's \<open>strtol\<close>), tokenizing, phone numbers, hexadecimal, file names and
  the counter behind tracking identifiers.
\<close>

section \<open>Decimal numbers\<close>

definition digit_char :: "nat \<Rightarrow> char" where
  "digit_char d = char_of (48 + d)"

definition digit_value :: "char \<Rightarrow> nat" where
  "digit_value c = code_of c - 48"

text \<open>\<open>%u\<close>\<close>

fun decimal :: "nat \<Rightarrow> string" where
  "decimal n = (if n < 10 then [digit_char n] else decimal (n div 10) @ [digit_char (n mod 10)])"

declare decimal.simps [simp del]

definition IntToString :: "int \<Rightarrow> string" where
  "IntToString i = (if i < 0 then CHR ''-'' # decimal (nat (- i)) else decimal (nat i))"

definition digits_value :: "string \<Rightarrow> nat" where
  "digits_value ds = foldl (\<lambda>v c. 10 * v + digit_value c) 0 ds"

text \<open>
  \<open>strtol(s, &end, 10)\<close> of the C library, on a 64-bit \<open>long\<close>: leading white space, a sign, digits; the
  value saturates, and the second result is the rest that \<open>end\<close> points to (all of \<open>s\<close> when there is no digit).
\<close>

definition strtol :: "string \<Rightarrow> int \<times> string" where
  "strtol s =
     (let t = trim_left s;
          neg = (take 1 t = ''-'');
          u = (if t \<noteq> [] \<and> (hd t = CHR ''-'' \<or> hd t = CHR ''+'') then tl t else t);
          ds = takeWhile is_digit u;
          v = (if neg then - int (digits_value ds) else int (digits_value ds))
      in if ds = [] then (0, s)
         else (max (- (2 ^ 63)) (min (2 ^ 63 - 1) v), dropWhile is_digit u))"

text \<open>What a C function sees of a string: the characters before the first NUL.\<close>

definition c_str :: "string \<Rightarrow> string" where
  "c_str s = takeWhile (\<lambda>c. code_of c \<noteq> 0) s"

definition StringToInt :: "string \<Rightarrow> int result" where
  "StringToInt s =
     (case strtol (c_str s) of (v, rest) \<Rightarrow>
        if rest \<noteq> [] then Inl (Thrown ''StringToInt: invalid integer'')
        else Inr (sint (word_of_int v :: u32)))"

lemma code_of_digit_char: "d < 10 \<Longrightarrow> code_of (digit_char d) = 48 + d"
  by (simp add: digit_char_def code_of_def)

lemma digit_char_props [simp]:
  "d < 10 \<Longrightarrow> is_digit (digit_char d)" "d < 10 \<Longrightarrow> digit_value (digit_char d) = d"
  by (simp_all add: is_digit_def digit_value_def code_of_digit_char)

lemma decimal_digits: "list_all is_digit (decimal n)"
  by (induction n rule: decimal.induct) (subst decimal.simps, simp)

lemma decimal_nonempty [simp]: "decimal n \<noteq> []"
  by (subst decimal.simps) simp

lemma digits_value_append [simp]: "digits_value (ds @ [c]) = 10 * digits_value ds + digit_value c"
  by (simp add: digits_value_def)

lemma digits_value_decimal [simp]: "digits_value (decimal n) = n"
proof (induction n rule: decimal.induct)
  case (1 n)
  then show ?case
    by (subst decimal.simps) (simp add: digits_value_def [of "[_]"])
qed

lemma digit_not: "is_digit c \<Longrightarrow> \<not> is_space c \<and> c \<noteq> CHR ''-'' \<and> c \<noteq> CHR ''+'' \<and> code_of c \<noteq> 0"
  by (auto simp: is_digit_def is_space_def code_of_def)

lemma trim_left_id: "s = [] \<or> \<not> is_space (hd s) \<Longrightarrow> trim_left s = s"
  by (cases s) (auto simp: trim_left_def)

lemma strtol_digits:
  assumes "list_all is_digit ds" "ds \<noteq> []"
  shows "strtol ds = (min (2 ^ 63 - 1) (int (digits_value ds)), [])"
    and "strtol (CHR ''-'' # ds) = (max (- (2 ^ 63)) (- int (digits_value ds)), [])"
proof -
  from assms obtain c cs where ds: "ds = c # cs" by (cases ds) auto
  with assms have c: "\<not> is_space c" "c \<noteq> CHR ''-''" "c \<noteq> CHR ''+''" by (auto dest: digit_not)
  have all: "takeWhile is_digit ds = ds" "dropWhile is_digit ds = []"
    using assms(1) by (simp_all add: list_all_iff)
  have "trim_left ds = ds" using c ds by (simp add: trim_left_id)
  then show "strtol ds = (min (2 ^ 63 - 1) (int (digits_value ds)), [])"
    using c all by (simp add: strtol_def Let_def ds)
  have "trim_left (CHR ''-'' # ds) = CHR ''-'' # ds"
    by (rule trim_left_id) (simp add: is_space_def code_of_def)
  then show "strtol (CHR ''-'' # ds) = (max (- (2 ^ 63)) (- int (digits_value ds)), [])"
    using assms(2) by (simp add: strtol_def Let_def all)
qed

lemma StringToInt_IntToString:
  assumes "- 2147483648 \<le> i" "i < 2147483648"
  shows "StringToInt (IntToString i) = Inr i"
proof -
  have "c_str (decimal n) = decimal n" "c_str (CHR ''-'' # decimal n) = CHR ''-'' # decimal n" for n
    using decimal_digits [of n] by (auto simp: c_str_def list_all_iff code_of_def [of "CHR ''-''"] dest: digit_not)
  moreover have "sint (word_of_int i :: u32) = i" using assms by (rule sint_of_int_u32)
  ultimately show ?thesis
    using assms strtol_digits [OF decimal_digits decimal_nonempty, of "nat i"]
      strtol_digits [OF decimal_digits decimal_nonempty, of "nat (- i)"]
    by (simp add: StringToInt_def IntToString_def)
qed

section \<open>Tests and tokens\<close>

definition StringIsDigit :: "string \<Rightarrow> bool" where
  "StringIsDigit s = list_all is_digit s"

definition StringIsPhoneNumber :: "string \<Rightarrow> bool" where
  "StringIsPhoneNumber s = list_all (\<lambda>c. is_digit c \<or> c \<in> set ''-*#()'') s"

text \<open>\<open>ChopToken\<close> sets the token and shortens the string when it finds the separator.\<close>

definition ChopToken :: "string \<Rightarrow> string \<Rightarrow> (string \<times> string) option" where
  "ChopToken separator s =
     (case string_find s separator of
        Some pos \<Rightarrow> Some (take pos s, drop (pos + length separator) s)
      | None \<Rightarrow> None)"

fun matches_any :: "string \<Rightarrow> string list \<Rightarrow> bool" where
  "matches_any s [] \<longleftrightarrow> False"
| "matches_any s (element # elements) \<longleftrightarrow> CompareNoCase_eq element s \<or> matches_any s elements"

definition MatchesStringList :: "string \<Rightarrow> string list \<Rightarrow> bool" where
  "MatchesStringList s stringList \<longleftrightarrow> (if length s = 0 then False else matches_any s stringList)"

definition hex_index :: "char \<Rightarrow> nat option" where
  "hex_index c = (if is_digit c then Some (code_of c - 48)
     else if 65 \<le> code_of c \<and> code_of c \<le> 70 then Some (code_of c - 55) else None)"

fun hex_loop :: "string \<Rightarrow> string \<Rightarrow> string" where
  "hex_loop out (a # b # rest) =
     (case (hex_index a, hex_index b) of
        (Some p, Some q) \<Rightarrow>
          let asciiVal = 16 * p + q
          in if asciiVal > 47 \<and> asciiVal < 58 then hex_loop (out @ [char_of asciiVal]) rest
             else if length out > 0 then out
             else hex_loop out rest
      | _ \<Rightarrow> hex_loop out rest)"
| "hex_loop out _ = out"

definition HexToString :: "string \<Rightarrow> string" where
  "HexToString hexInput = (if odd (length hexInput) then ''Invalid Hex'' else hex_loop [] hexInput)"

lemma find_space_less: "string_find s '' '' = Some pos \<Longrightarrow> pos < length s"
  using string_find_Some [of s "'' ''" pos] by (cases "pos < length s") auto

function tokens :: "string \<Rightarrow> string list" where
  "tokens input =
     (case string_find input '' '' of
        Some pos \<Rightarrow> take pos input # tokens (drop (pos + 1) input)
      | None \<Rightarrow> [input])"
  by auto
termination by (relation "measure length") (auto dest: find_space_less)

declare tokens.simps [simp del]

definition StringTokenizeToList :: "string \<Rightarrow> string list" where
  "StringTokenizeToList input = tokens (trim input)"

section \<open>Phone numbers\<close>

definition GetRevertedNormalizedPhoneNumber :: "string \<Rightarrow> string" where
  "GetRevertedNormalizedPhoneNumber input = filter (\<lambda>c. c \<notin> set ''-+() '') (rev input)"

definition CompareNormalizedPhoneNumbers :: "string \<Rightarrow> string \<Rightarrow> bool" where
  "CompareNormalizedPhoneNumbers input1 input2 =
     (let n1 = GetRevertedNormalizedPhoneNumber input1;
          n2 = GetRevertedNormalizedPhoneNumber input2;
          minLen = min (length n1) (length n2)
      in if minLen < 6 then CompareNoCase_eq n1 n2
         else take minLen n1 = take minLen n2)"

section \<open>File names\<close>

fun reverse_find :: "char \<Rightarrow> string \<Rightarrow> nat option" where
  "reverse_find c [] = None"
| "reverse_find c (d # s) =
     (case reverse_find c s of Some i \<Rightarrow> Some (Suc i) | None \<Rightarrow> if d = c then Some 0 else None)"

definition last_separator :: "string \<Rightarrow> nat option" where
  "last_separator path =
     (case reverse_find (CHR ''/'') path of Some i \<Rightarrow> Some i | None \<Rightarrow> reverse_find (CHR 0x5C) path)"

definition FileBaseName :: "string \<Rightarrow> string" where
  "FileBaseName path =
     (case last_separator path of
        Some i \<Rightarrow> if length path > 3 then drop (i + 1) path else path
      | None \<Rightarrow> path)"

definition FilePath :: "string \<Rightarrow> string" where
  "FilePath path =
     (case last_separator path of
        Some i \<Rightarrow> if length path > 3 then take (i + 1) path else []
      | None \<Rightarrow> [])"

definition FileStripExtension :: "string \<Rightarrow> string" where
  "FileStripExtension filename =
     (case reverse_find (CHR ''.'') filename of Some i \<Rightarrow> take i filename | None \<Rightarrow> filename)"

text \<open>\<open>strchr\<close> also finds the terminating NUL of \<open>file_ok_chars\<close>.\<close>

definition file_ok_char :: "char \<Rightarrow> bool" where
  "file_ok_char c \<longleftrightarrow> is_alnum c \<or> c \<in> set ''-.@_'' \<or> code_of c = 0"

definition hex_digit :: "nat \<Rightarrow> char" where
  "hex_digit d = (if d < 10 then char_of (48 + d) else char_of (55 + d))"

fun FileEscapeName :: "string \<Rightarrow> string" where
  "FileEscapeName [] = []"
| "FileEscapeName (c # s) =
     (if file_ok_char c then c # FileEscapeName s
      else CHR 0x25 # hex_digit (code_of c div 16) # hex_digit (code_of c mod 16) # FileEscapeName s)"

section \<open>Tracking identifiers\<close>

text \<open>\<open>AlphaCounter\<close>: the state is \<open>m_counter\<close>.\<close>

definition AlphaCounter_GetNext :: "nat \<Rightarrow> string \<times> nat" where
  "AlphaCounter_GetNext m_counter =
     (let counter = (if m_counter + 1 \<ge> 26 * 26 * 26 * 26 then 0 else m_counter + 1);
          remains = counter mod (26 * 26 * 26);
          remains2 = remains mod (26 * 26)
      in ([char_of (counter div (26 * 26 * 26) + 65), char_of (remains div (26 * 26) + 65),
           char_of (remains2 div 26 + 65), char_of (remains2 mod 26 + 65)], counter))"

section \<open>Lemmas\<close>

lemma tokens_join: "concat (map (\<lambda>t. t @ '' '') (butlast (tokens s))) @ last (tokens s) = s \<and> tokens s \<noteq> []"
proof (induction s rule: tokens.induct)
  case (1 s)
  show ?case
  proof (cases "string_find s '' ''")
    case None
    then show ?thesis by (subst (1 2 3) tokens.simps) simp
  next
    case (Some pos)
    let ?rest = "drop (pos + 1) s"
    have "tokens s = take pos s # tokens ?rest"
      by (subst tokens.simps) (simp add: Some)
    moreover have "take pos s @ '' '' @ ?rest = s"
      using string_find_Some [OF Some] find_space_less [OF Some]
      by (metis One_nat_def append_take_drop_id drop_drop length_Cons list.size(3) add.commute)
    ultimately show ?thesis using 1 [OF Some] by simp
  qed
qed

lemma string_find_char:
  "string_find s [c] = Some i \<Longrightarrow> c \<notin> set (take i s) \<and> i < length s \<and> s ! i = c"
  "string_find s [c] = None \<Longrightarrow> c \<notin> set s"
  by (induction s arbitrary: i) (auto split: if_splits)

lemma tokens_no_space: "t \<in> set (tokens s) \<Longrightarrow> CHR '' '' \<notin> set t"
proof (induction s rule: tokens.induct)
  case (1 s)
  then show ?case
    by (subst (asm) (2) tokens.simps) (auto split: option.splits dest: string_find_char)
qed

lemma reverse_find_less: "reverse_find c s = Some i \<Longrightarrow> i < length s \<and> s ! i = c"
  by (induction s arbitrary: i) (auto split: option.splits if_splits)

lemma hex_digit_not_ok: "d < 16 \<Longrightarrow> file_ok_char (hex_digit d)"
  by (auto simp: file_ok_char_def hex_digit_def is_alnum_def is_digit_def is_upper_def is_lower_def code_of_def)

text \<open>The reader of escaped names, the specification that \<open>FileEscapeName\<close> is checked against.\<close>

definition hex_val :: "char \<Rightarrow> nat" where
  "hex_val c = (if is_digit c then code_of c - 48 else code_of c - 55)"

fun unescape :: "string \<Rightarrow> string" where
  "unescape (c # s) =
     (if c = CHR 0x25 then
        (case s of a # b # rest \<Rightarrow> char_of (16 * hex_val a + hex_val b) # unescape rest | _ \<Rightarrow> [])
      else c # unescape s)"
| "unescape [] = []"

lemma hex_val_digit: "d < 16 \<Longrightarrow> hex_val (hex_digit d) = d"
  by (auto simp: hex_val_def hex_digit_def is_digit_def code_of_def)

lemma code_of_div: "code_of c div 16 < 16" "code_of c mod 16 < 16"
  using code_of_less [of c] by linarith+

lemma char_of_code [simp]: "char_of (code_of c) = c"
  by (simp add: code_of_def)

lemma unescape_FileEscapeName: "unescape (FileEscapeName s) = s"
proof (induction s)
  case (Cons c s)
  have "\<not> file_ok_char (CHR 0x25)"
    by (simp add: file_ok_char_def is_alnum_def is_digit_def is_upper_def is_lower_def code_of_def)
  moreover have "16 * (code_of c div 16) + code_of c mod 16 = code_of c" by simp
  ultimately show ?case
    using Cons by (auto simp: hex_val_digit code_of_div)
qed simp

section \<open>Properties\<close>

text \<open>Every 32-bit integer survives being printed with \<open>IntToString\<close> and read with \<open>StringToInt\<close>,
  the extreme values included.\<close>

theorem int_string_round_trip:
  assumes "- 2147483648 \<le> i" "i < 2147483648"
  shows "StringToInt (IntToString i) = Inr i"
  using assms by (rule StringToInt_IntToString)

theorem int_string_round_trip_witness: "StringToInt (IntToString (- 2147483648)) = Inr (- 2147483648)"
  by (rule int_string_round_trip) simp_all

text \<open>C37: Escaping a file name loses nothing and leaves nothing unsafe: the original is recovered by reading
  the \<open>%xx\<close> sequences back, so different names never escape to the same file, and every character
  of the escaped name is \<open>%\<close> or one of the allowed ones.\<close>

theorem FileEscapeName_injective:
  "inj FileEscapeName \<and> list_all (\<lambda>c. c = CHR 0x25 \<or> file_ok_char c) (FileEscapeName s)"
proof
  show "inj FileEscapeName" by (metis injI unescape_FileEscapeName)
  show "list_all (\<lambda>c. c = CHR 0x25 \<or> file_ok_char c) (FileEscapeName s)"
    by (induction s) (auto simp: hex_digit_not_ok code_of_div)
qed

text \<open>Tokenizing terminates and splits at every space: the tokens contain no space and, joined with
  single spaces, give back the trimmed input. A file path splits into \<open>FilePath\<close> and
  \<open>FileBaseName\<close> without loss.\<close>

theorem tokenize_and_split_lossless:
  "concat (map (\<lambda>t. t @ '' '') (butlast (StringTokenizeToList s))) @ last (StringTokenizeToList s) = trim s \<and>
   list_all (\<lambda>t. CHR '' '' \<notin> set t) (StringTokenizeToList s) \<and>
   FilePath path @ FileBaseName path = path"
  using tokens_join [of "trim s"] tokens_no_space [of _ "trim s"]
  by (auto simp: StringTokenizeToList_def list_all_iff FilePath_def FileBaseName_def split: option.split)

lemma common_suffix:
  "take (min (length x) (length y)) (rev x) = take (min (length x) (length y)) (rev y) \<longleftrightarrow>
   (\<exists>p. x = p @ y) \<or> (\<exists>p. y = p @ x)"
proof
  assume eq: "take (min (length x) (length y)) (rev x) = take (min (length x) (length y)) (rev y)"
  show "(\<exists>p. x = p @ y) \<or> (\<exists>p. y = p @ x)"
  proof (cases "length x \<le> length y")
    case True
    with eq have "rev y = rev x @ drop (length x) (rev y)"
      by (metis append_take_drop_id length_rev min.absorb1 take_all_iff order_refl)
    then have "y = rev (drop (length x) (rev y)) @ x" by (metis rev_append rev_rev_ident)
    then show ?thesis by blast
  next
    case False
    with eq have "rev x = rev y @ drop (length y) (rev x)"
      by (metis append_take_drop_id length_rev min.absorb2 nle_le take_all_iff order_refl)
    then have "x = rev (drop (length y) (rev x)) @ y" by (metis rev_append rev_rev_ident)
    then show ?thesis by blast
  qed
qed auto

text \<open>The digits and letters of a number, in their order.\<close>

definition bare_number :: "string \<Rightarrow> string" where
  "bare_number s = filter (\<lambda>c. c \<notin> set ''-+() '') s"

lemma reverted: "GetRevertedNormalizedPhoneNumber s = rev (bare_number s)"
  unfolding GetRevertedNormalizedPhoneNumber_def bare_number_def by (rule rev_filter [symmetric])

lemma CompareNoCase_eq_rev: "CompareNoCase_eq (rev s) (rev t) = CompareNoCase_eq s t"
  by (simp add: CompareNoCase_eq_def rev_map [symmetric])

text \<open>Two phone numbers match exactly when, with punctuation removed, they are equal up to case (if
  one has fewer than six characters) or one is a suffix of the other; the comparison is symmetric.\<close>

theorem phone_numbers_match_iff:
  "CompareNormalizedPhoneNumbers a b =
     (if min (length (bare_number a)) (length (bare_number b)) < 6
      then CompareNoCase_eq (bare_number a) (bare_number b)
      else (\<exists>p. bare_number a = p @ bare_number b) \<or> (\<exists>p. bare_number b = p @ bare_number a)) \<and>
   CompareNormalizedPhoneNumbers a b = CompareNormalizedPhoneNumbers b a"
proof -
  have main: "CompareNormalizedPhoneNumbers a b =
     (if min (length (bare_number a)) (length (bare_number b)) < 6
      then CompareNoCase_eq (bare_number a) (bare_number b)
      else (\<exists>p. bare_number a = p @ bare_number b) \<or> (\<exists>p. bare_number b = p @ bare_number a))" for a b
    unfolding CompareNormalizedPhoneNumbers_def reverted Let_def length_rev CompareNoCase_eq_rev common_suffix
    by (rule refl)
  have "CompareNormalizedPhoneNumbers a b = CompareNormalizedPhoneNumbers b a"
    unfolding CompareNormalizedPhoneNumbers_def Let_def min.commute [of "length (GetRevertedNormalizedPhoneNumber a)"]
    by (auto simp: CompareNoCase_eq_def)
  with main show ?thesis by blast
qed

end
