(* ===== verification/NamedEnum.thy ===== *)
theory NamedEnum
  imports Prelude
begin

text \<open>
  Enumerations with names. The code converts between an enumeration and its names with an
  \<open>if\<close>/\<open>else if\<close> chain of \<open>CompareNoCase\<close> in one direction and a \<open>switch\<close> in the other; both are
  tables here, read in the order of the code. The locale states what the users of the pair rely
  on, and a check on the two tables gives it.
\<close>

fun no_case_lookup :: "(string \<times> 'e) list \<Rightarrow> 'e \<Rightarrow> string \<Rightarrow> 'e" where
  "no_case_lookup [] dflt s = dflt"
| "no_case_lookup ((name, e) # table) dflt s =
     (if CompareNoCase_eq s name then e else no_case_lookup table dflt s)"

fun switch :: "('k \<times> 'v) list \<Rightarrow> 'v \<Rightarrow> 'k \<Rightarrow> 'v" where
  "switch [] dflt k = dflt"
| "switch ((k', v) # cases) dflt k = (if k = k' then v else switch cases dflt k)"

locale named_enum =
  fixes to_string :: "'e \<Rightarrow> string" and to_enum :: "string \<Rightarrow> 'e" and named :: "'e list"
  assumes round_trip: "e \<in> set named \<Longrightarrow> to_enum (to_string e) = e"
    and ignores_case: "CompareNoCase_eq s t \<Longrightarrow> to_enum s = to_enum t"
    and recognised: "to_enum s \<in> set named \<Longrightarrow> CompareNoCase_eq s (to_string (to_enum s))"
begin

lemma to_enum_iff: "e \<in> set named \<Longrightarrow> to_enum s = e \<longleftrightarrow> CompareNoCase_eq s (to_string e)"
  using round_trip ignores_case recognised by metis

lemma to_string_distinct:
  "e \<in> set named \<Longrightarrow> e' \<in> set named \<Longrightarrow> CompareNoCase_eq (to_string e) (to_string e') \<Longrightarrow> e = e'"
  using round_trip ignores_case by metis

lemma to_string_inj: "inj_on to_string (set named)"
  using round_trip by (metis inj_on_inverseI)

text \<open>Reading a name and printing it again gives the name in its canonical case, whatever was read.\<close>

lemma canonical: "to_enum s \<in> set named \<Longrightarrow> to_enum (to_string (to_enum s)) = to_enum s"
  by (rule round_trip)

end

section \<open>Tables\<close>

text \<open>
  The check on the two tables: the names differ by more than case, each is the one the \<open>switch\<close>
  prints, and the default is not among the named values.
\<close>

definition table_ok :: "(string \<times> 'e) list \<Rightarrow> 'e \<Rightarrow> ('e \<Rightarrow> string) \<Rightarrow> bool" where
  "table_ok table dflt to_string \<longleftrightarrow>
     distinct (map (\<lambda>(name, _). map to_lower name) table) \<and>
     list_all (\<lambda>(name, e). to_string e = name \<and> e \<noteq> dflt) table"

lemma no_case_lookup_cong: "CompareNoCase_eq s t \<Longrightarrow> no_case_lookup table dflt s = no_case_lookup table dflt t"
  by (induction table) (auto simp: CompareNoCase_eq_def)

lemma no_case_lookup_cases:
  "no_case_lookup table dflt s = dflt \<or>
   (\<exists>name. (name, no_case_lookup table dflt s) \<in> set table \<and> CompareNoCase_eq s name)"
proof (induction table)
  case (Cons p table)
  then show ?case by (cases p) force
qed simp

lemma no_case_lookup_distinct:
  assumes "distinct (map (\<lambda>(name, _). map to_lower name) table)" "(name, e) \<in> set table"
  shows "no_case_lookup table dflt name = e"
  using assms
proof (induction table)
  case (Cons p table)
  obtain n x where p: "p = (n, x)" by fastforce
  show ?case
  proof (cases "CompareNoCase_eq name n")
    case True
    with Cons.prems have "(name, e) \<notin> set table"
      by (force simp: p CompareNoCase_eq_def)
    with True Cons.prems show ?thesis by (simp add: p)
  next
    case False
    with Cons show ?thesis by (auto simp: p)
  qed
qed simp

lemma table_named_enum:
  assumes ok: "table_ok table dflt to_string" and "to_enum = no_case_lookup table dflt"
    and "named = map snd table"
  shows "named_enum to_string to_enum named"
proof
  fix e
  assume "e \<in> set named"
  then obtain name where "(name, e) \<in> set table" by (auto simp: assms(3))
  with ok show "to_enum (to_string e) = e"
    by (auto simp: table_ok_def list_all_iff assms(2) intro: no_case_lookup_distinct)
next
  fix s
  assume "to_enum s \<in> set named"
  with ok have "to_enum s \<noteq> dflt" by (auto simp: table_ok_def list_all_iff assms(3))
  with no_case_lookup_cases [of table dflt s] obtain name where
    "(name, to_enum s) \<in> set table" "CompareNoCase_eq s name" by (auto simp: assms(2))
  with ok show "CompareNoCase_eq s (to_string (to_enum s))"
    by (auto simp: table_ok_def list_all_iff)
qed (simp add: assms(2) no_case_lookup_cong)

text \<open>Evaluation: the lookup as an exact lookup among the lower-case names.\<close>

definition lower_names :: "(string \<times> 'e) list \<Rightarrow> (string \<times> 'e) list" where
  "lower_names table = map (\<lambda>(name, e). (map to_lower name, e)) table"

lemma no_case_lookup_lower:
  "no_case_lookup table dflt s = (case map_of (lower_names table) (map to_lower s) of None \<Rightarrow> dflt | Some e \<Rightarrow> e)"
  by (induction table) (auto simp: lower_names_def CompareNoCase_eq_def)

end
