(* ===== verification/NetUtils.thy ===== *)
theory NetUtils
  imports StringUtils NamedEnum
begin

text \<open>
  The network helpers of \<open>orkbasecxx/Utils.{h,cpp}\<close>: IPv4 addresses in dotted notation, lists of TCP
  addresses, CIDR ranges, and the mapping of RTP payload types. An address is its four bytes in
  memory order or, where the code takes \<open>ntohl(s_addr)\<close>, the 32-bit value in host order.
\<close>

section \<open>Dotted notation\<close>

definition dotted :: "nat \<times> nat \<times> nat \<times> nat \<Rightarrow> string" where
  "dotted ip = (case ip of (a, b, c, d) \<Rightarrow>
     decimal a @ ''.'' @ decimal b @ ''.'' @ decimal c @ ''.'' @ decimal d)"

text \<open>
  \<open>inet_ntopV4\<close>: the number of characters printed (\<open>tmp\<close> has 16 bytes) is compared with \<open>size\<close>; the
  string copied to \<open>dst\<close>, or \<open>None\<close> for NULL.
\<close>

definition inet_ntopV4 :: "nat \<times> nat \<times> nat \<times> nat \<Rightarrow> int \<Rightarrow> string option" where
  "inet_ntopV4 src dst_size =
     (let tmp = take 15 (dotted src)
      in if int (length tmp) \<ge> dst_size then None else Some tmp)"

text \<open>
  The loop of \<open>inet_pton4\<close> over the characters left: \<open>tmp\<close>, the index \<open>tp\<close>, \<open>saw_digit\<close> and \<open>octets\<close>.
  \<open>Inr None\<close> is the result 0.
\<close>

fun pton4_loop :: "string \<Rightarrow> nat list \<Rightarrow> int \<Rightarrow> bool \<Rightarrow> nat \<Rightarrow> nat list option result" where
  "pton4_loop [] tmp tp saw_digit octets = Inr (if octets < 4 then None else Some tmp)"
| "pton4_loop (ch # src) tmp tp saw_digit octets =
     (if is_digit ch then
        andThen (peek tmp tp) (\<lambda>old.
        let val = old * 10 + digit_value ch in
        if val > 255 then Inr None
        else andThen (poke tmp tp val) (\<lambda>tmp'.
        if \<not> saw_digit then
          (if octets + 1 > 4 then Inr None else pton4_loop src tmp' tp True (octets + 1))
        else pton4_loop src tmp' tp saw_digit octets))
      else if ch = CHR ''.'' \<and> saw_digit then
        (if octets = 4 then Inr None
         else andThen (poke tmp (tp + 1) 0) (\<lambda>tmp'. pton4_loop src tmp' (tp + 1) False octets))
      else Inr None)"

text \<open>\<open>inet_pton4\<close>; \<open>garbage\<close> is what the uninitialised array \<open>tmp\<close> holds after its first element.\<close>

definition inet_pton4 :: "nat list \<Rightarrow> string \<Rightarrow> nat list option result" where
  "inet_pton4 garbage src = pton4_loop (c_str src) (0 # garbage) 0 False 0"

section \<open>TCP addresses\<close>

record TcpAddress =
  addr_ip :: u32
  addr_port :: u16

definition AddAddress :: "u32 \<Rightarrow> u16 \<Rightarrow> TcpAddress list \<Rightarrow> TcpAddress list" where
  "AddAddress ip port m_addresses = m_addresses @ [\<lparr>addr_ip = ip, addr_port = port\<rparr>]"

fun HasAddress :: "u32 \<Rightarrow> u16 \<Rightarrow> TcpAddress list \<Rightarrow> bool" where
  "HasAddress ip port [] = False"
| "HasAddress ip port (a # as) = (if addr_ip a = ip \<and> addr_port a = port then True else HasAddress ip port as)"

definition HasAddressOrAdd :: "u32 \<Rightarrow> u16 \<Rightarrow> TcpAddress list \<Rightarrow> bool \<times> TcpAddress list" where
  "HasAddressOrAdd ip port m_addresses =
     (if HasAddress ip port m_addresses = False then (False, AddAddress ip port m_addresses)
      else (True, m_addresses))"

section \<open>CIDR ranges\<close>

record IpRanges =
  m_asciiIpRanges :: "string list"
  m_ipRangePrefixes :: "u32 list"
  m_ipRangeBitWidths :: "u32 list"

text \<open>\<open>ntohl\<close> of the address whose bytes in memory are given.\<close>

definition host_order :: "nat list \<Rightarrow> u32" where
  "host_order bytes =
     ((word_of_nat (bytes ! 0) * 256 + word_of_nat (bytes ! 1)) * 256 + word_of_nat (bytes ! 2)) * 256 + word_of_nat (bytes ! 3)"

text \<open>One entry of \<open>Compute\<close>: its prefix and bit width.\<close>

definition compute_entry :: "nat list \<Rightarrow> string \<Rightarrow> (u32 \<times> u32) result" where
  "compute_entry garbage entry =
     andThen
       (case string_find entry ''/'' of
          Some slashPosition \<Rightarrow>
            if slashPosition > 0 then
              (case StringToInt (drop (slashPosition + 1) entry) of
                 Inl _ \<Rightarrow> Inl (Thrown ''IpRanges: invalid CIDR prefix length'')
               | Inr n \<Rightarrow>
                   let cidrPrefixLength = (word_of_int n :: u32)
                   in if cidrPrefixLength < 1 \<or> cidrPrefixLength > 32
                      then Inl (Thrown ''IpRanges: invalid CIDR prefix length'')
                      else Inr (take slashPosition entry, cidrPrefixLength))
            else Inr (entry, 32)
        | None \<Rightarrow> Inr (entry, 32)) (\<lambda>(cidrIpAddressString, cidrPrefixLength).
     andThen (inet_pton4 garbage cidrIpAddressString) (\<lambda>parsed.
     case parsed of
       None \<Rightarrow> Inl (Thrown ''invalid IP range'')
     | Some bytes \<Rightarrow>
         let rangeBitWidth = 32 - cidrPrefixLength
         in Inr (drop_bit (unat rangeBitWidth) (host_order bytes), rangeBitWidth)))"

fun compute_loop :: "nat list \<Rightarrow> string list \<Rightarrow> IpRanges \<Rightarrow> IpRanges result" where
  "compute_loop garbage [] r = Inr r"
| "compute_loop garbage (entry # entries) r =
     andThen (compute_entry garbage entry) (\<lambda>(prefix, width).
     compute_loop garbage entries
       (r\<lparr>m_ipRangePrefixes := m_ipRangePrefixes r @ [prefix],
          m_ipRangeBitWidths := m_ipRangeBitWidths r @ [width]\<rparr>))"

definition IpRanges_Compute :: "nat list \<Rightarrow> IpRanges \<Rightarrow> IpRanges result" where
  "IpRanges_Compute garbage r =
     compute_loop garbage (m_asciiIpRanges r) (r\<lparr>m_ipRangePrefixes := [], m_ipRangeBitWidths := []\<rparr>)"

text \<open>The iterators advance together; \<open>bitWidthIt\<close> past its end would be undefined behaviour.\<close>

fun matches_loop :: "u32 list \<Rightarrow> u32 list \<Rightarrow> u32 \<Rightarrow> bool result" where
  "matches_loop [] widths ip = Inr False"
| "matches_loop (prefix # prefixes) [] ip = Inl OutOfBounds"
| "matches_loop (prefix # prefixes) (bitWidth # widths) ip =
     (if drop_bit (unat bitWidth) ip = prefix then Inr True else matches_loop prefixes widths ip)"

definition IpRanges_Matches :: "IpRanges \<Rightarrow> u32 \<Rightarrow> bool result" where
  "IpRanges_Matches r ip = matches_loop (m_ipRangePrefixes r) (m_ipRangeBitWidths r) ip"

definition IpRanges_Empty :: "IpRanges \<Rightarrow> bool" where
  "IpRanges_Empty r \<longleftrightarrow> m_asciiIpRanges r = []"

section \<open>RTP payload types\<close>

definition ciFind :: "string \<Rightarrow> string \<Rightarrow> nat option" where
  "ciFind haystack needle = string_find (map to_upper haystack) (map to_upper needle)"

fun first_codec :: "(string \<times> int) list \<Rightarrow> string \<Rightarrow> int" where
  "first_codec [] sdp = 0"
| "first_codec ((codec, pt) # codecs) sdp = (if ciFind sdp codec \<noteq> None then pt else first_codec codecs sdp)"

definition GetOrekaRtpPayloadTypeForSdpRtpMap :: "string \<Rightarrow> int" where
  "GetOrekaRtpPayloadTypeForSdpRtpMap = first_codec
     [(''opus'', 60), (''AMR/8000'', 61), (''AMR-WB'', 62), (''iLBC'', 63), (''SILK/8000'', 64),
      (''SILK/16000'', 64), (''speex'', 66), (''telephone-event'', 67), (''AAL2-G726-32'', 0), (''G726-32'', 2)]"

definition RtpPayloadTypeEnumToString :: "int \<Rightarrow> string" where
  "RtpPayloadTypeEnumToString = switch
     [(0, ''PCMU''), (2, ''G721/G726-32''), (3, ''GSM''), (4, ''G723''), (8, ''PCMA''), (9, ''G722''),
      (18, ''G729''), (60, ''opus''), (61, ''AMR-NB''), (62, ''AMR-WB''), (63, ''iLBC''), (64, ''SILK''),
      (66, ''speex''), (67, ''telephone-event''), (1, ''reserved''), (19, ''reserved''), (5, ''DVI4''),
      (6, ''DVI4''), (16, ''DVI4''), (17, ''DVI4''), (7, ''LPC''), (10, ''L16''), (11, ''L16''),
      (12, ''QCELP''), (13, ''CN''), (14, ''MPA''), (15, ''G728''), (25, ''CELB''), (26, ''JPEG''),
      (28, ''nv''), (32, ''MPV''), (33, ''MP2T''), (34, ''H263'')] ''unknown''"

section \<open>Dotted notation, abstractly\<close>

definition is_octet :: "string \<Rightarrow> nat \<Rightarrow> bool" where
  "is_octet ds v \<longleftrightarrow> ds \<noteq> [] \<and> list_all is_digit ds \<and> digits_value ds = v \<and> v \<le> 255"

text \<open>A string is the bytes \<open>vs\<close> written in decimal (leading zeros allowed), separated by dots.\<close>

fun written_as :: "string \<Rightarrow> nat list \<Rightarrow> bool" where
  "written_as s [] \<longleftrightarrow> False"
| "written_as s [v] \<longleftrightarrow> is_octet s v"
| "written_as s (v # w # vs) \<longleftrightarrow> (\<exists>ds rest. s = ds @ CHR ''.'' # rest \<and> is_octet ds v \<and> written_as rest (w # vs))"

text \<open>Reading the rest of an octet: early overflow is the same as overflow at the end.\<close>

definition digits_from :: "nat \<Rightarrow> string \<Rightarrow> nat" where
  "digits_from v ds = foldl (\<lambda>v c. 10 * v + digit_value c) v ds"

lemma digits_from_Cons [simp]: "digits_from v (c # ds) = digits_from (10 * v + digit_value c) ds"
  "digits_from v [] = v"
  by (simp_all add: digits_from_def)

lemma digits_from_ge: "v \<le> digits_from v ds"
proof (induction ds arbitrary: v)
  case (Cons c ds)
  have "v \<le> 10 * v + digit_value c" by simp
  with Cons [of "10 * v + digit_value c"] show ?case by simp
qed simp

lemma pton4_rest_of_octet:
  assumes "list_all is_digit ds" "rest = [] \<or> \<not> is_digit (hd rest)" "k < length tmp" "tmp ! k \<le> 255"
  shows "pton4_loop (ds @ rest) tmp (int k) True n =
     (if digits_from (tmp ! k) ds > 255 then Inr None
      else pton4_loop rest (tmp[k := digits_from (tmp ! k) ds]) (int k) True n)"
  using assms
proof (induction ds arbitrary: tmp)
  case Nil
  then show ?case by simp
next
  case (Cons c ds)
  let ?v = "tmp ! k * 10 + digit_value c"
  show ?case
  proof (cases "?v > 255")
    case True
    then show ?thesis
      using Cons.prems digits_from_ge [of ?v ds] by (simp add: mult.commute)
  next
    case False
    with Cons.IH [of "tmp[k := ?v]"] Cons.prems show ?thesis by (simp add: mult.commute)
  qed
qed

lemma pton4_octet:
  assumes ds: "list_all is_digit ds" "ds \<noteq> []" and rest: "rest = [] \<or> \<not> is_digit (hd rest)"
    and k: "k < length tmp" "tmp ! k = 0" "k < 4"
  shows "pton4_loop (ds @ rest) tmp (int k) False k =
     (if digits_value ds > 255 then Inr None
      else pton4_loop rest (tmp[k := digits_value ds]) (int k) True (k + 1))"
proof -
  from ds obtain c cs where cs: "ds = c # cs" by (cases ds) auto
  have val: "digits_value ds = digits_from (digit_value c) cs"
    by (simp add: digits_value_def digits_from_def cs)
  have "digit_value c \<le> 255" using code_of_less [of c] unfolding digit_value_def by linarith
  with ds rest k val pton4_rest_of_octet [of cs rest k "tmp[k := digit_value c]" "k + 1"]
  show ?thesis by (simp add: cs)
qed

lemma digit_split: "\<exists>ds rest. s = ds @ rest \<and> list_all is_digit ds \<and> (rest = [] \<or> \<not> is_digit (hd rest))"
proof (intro exI conjI)
  show "s = takeWhile is_digit s @ dropWhile is_digit s" by simp
  show "list_all is_digit (takeWhile is_digit s)" by (simp add: list_all_iff) (metis set_takeWhileD)
  show "dropWhile is_digit s = [] \<or> \<not> is_digit (hd (dropWhile is_digit s))" using hd_dropWhile by blast
qed

lemma dot_not_digit [simp]: "\<not> is_digit CHR ''.''"
  by (simp add: is_digit_def code_of_def)

lemma is_octet_prefix:
  assumes "ds @ rest = ds' @ rest'" "list_all is_digit ds" "list_all is_digit ds'"
    "rest = [] \<or> \<not> is_digit (hd rest)" "rest' = [] \<or> \<not> is_digit (hd rest')"
  shows "ds = ds'" "rest = rest'"
proof -
  have tw: "takeWhile is_digit (xs @ ys) = xs" if "list_all is_digit xs" "ys = [] \<or> \<not> is_digit (hd ys)" for xs ys
    using that by (cases ys) (simp_all add: list_all_iff takeWhile_tail)
  show "ds = ds'" using tw [of ds rest] tw [of ds' rest'] assms by metis
  with assms(1) show "rest = rest'" by simp
qed

lemma written_as_split:
  assumes "list_all is_digit ds" "rest = [] \<or> \<not> is_digit (hd rest)"
  shows "written_as (ds @ rest) [v] \<longleftrightarrow> rest = [] \<and> is_octet ds v"
    and "written_as (ds @ rest) (v # w # vs) \<longleftrightarrow>
      (\<exists>rest'. rest = CHR ''.'' # rest' \<and> is_octet ds v \<and> written_as rest' (w # vs))"
proof -
  show "written_as (ds @ rest) [v] \<longleftrightarrow> rest = [] \<and> is_octet ds v"
    using assms by (cases rest) (auto simp: is_octet_def)
  show "written_as (ds @ rest) (v # w # vs) \<longleftrightarrow>
      (\<exists>rest'. rest = CHR ''.'' # rest' \<and> is_octet ds v \<and> written_as rest' (w # vs))" (is "?l = ?r")
  proof
    assume ?l
    then obtain ds' r where eq: "ds @ rest = ds' @ CHR ''.'' # r" "is_octet ds' v" "written_as r (w # vs)" by auto
    then have "list_all is_digit ds'" by (simp add: is_octet_def)
    with is_octet_prefix [OF eq(1) assms(1) this assms(2)] eq show ?r by auto
  qed auto
qed

lemma written_as_octet:
  assumes "list_all is_digit ds" "rest = [] \<or> \<not> is_digit (hd rest)" "written_as (ds @ rest) vs"
  obtains vs' where "vs = digits_value ds # vs'" "ds \<noteq> []" "digits_value ds \<le> 255"
    "if vs' = [] then rest = [] else (\<exists>rest'. rest = CHR ''.'' # rest' \<and> written_as rest' vs')"
proof -
  from assms(3) obtain v vs' where vs: "vs = v # vs'" by (cases vs) auto
  show thesis
  proof (cases vs')
    case Nil
    with assms written_as_split(1) [OF assms(1,2), of v] vs that [of "[]"] show thesis
      by (auto simp: is_octet_def)
  next
    case (Cons w ws)
    with assms(3) written_as_split(2) [OF assms(1,2), of v w ws] vs that [of vs'] show thesis
      by (auto simp: is_octet_def)
  qed
qed

lemma take_update_Suc: "k < length xs \<Longrightarrow> take (Suc k) (xs[k := x]) = take k xs @ [x]"
  by (simp add: take_Suc_conv_app_nth)

text \<open>Either the string is a list of octets and their values are stored, or the result is 0; nothing faults.\<close>

lemma pton4_loop_written:
  assumes "length tmp = 4" "k < 4" "tmp ! k = 0"
  shows "\<exists>r. pton4_loop s tmp (int k) False k = Inr r \<and>
     (\<forall>b. r = Some b \<longleftrightarrow> (\<exists>vs. length vs = 4 - k \<and> written_as s vs \<and> b = take k tmp @ vs))"
  using assms
proof (induction "3 - k" arbitrary: k s tmp rule: less_induct)
  case less
  obtain ds rest where s: "s = ds @ rest" "list_all is_digit ds" "rest = [] \<or> \<not> is_digit (hd rest)"
    using digit_split [of s] by blast
  note written = written_as_octet [OF s(2,3)]
  show ?case
  proof (cases "ds = [] \<or> digits_value ds > 255")
    case True
    then have "pton4_loop s tmp (int k) False k = Inr None"
      using less.prems pton4_octet [OF s(2) _ s(3), of k tmp] s by (cases "ds = []"; cases rest) auto
    moreover have "\<not> written_as s vs" for vs
    proof
      assume "written_as s vs"
      with s(1) have "written_as (ds @ rest) vs" by simp
      then show False by (rule written) (use True in simp)
    qed
    ultimately show ?thesis by simp
  next
    case False
    let ?v = "digits_value ds" and ?tmp = "tmp[k := digits_value ds]"
    have step: "pton4_loop s tmp (int k) False k = pton4_loop rest ?tmp (int k) True (k + 1)"
      using False less.prems pton4_octet [OF s(2) _ s(3), of k tmp] s(1) by simp
    show ?thesis
    proof (cases rest)
      case Nil
      have "(\<exists>vs. length vs = 4 - k \<and> written_as s vs \<and> b = take k tmp @ vs) \<longleftrightarrow> k = 3 \<and> b = ?tmp" for b
      proof
        assume "\<exists>vs. length vs = 4 - k \<and> written_as s vs \<and> b = take k tmp @ vs"
        then obtain vs where vs: "length vs = 4 - k" "written_as s vs" "b = take k tmp @ vs" by blast
        from vs(2) s(1) have "written_as (ds @ rest) vs" by simp
        then obtain vs' where "vs = ?v # vs'" "if vs' = [] then rest = []
            else (\<exists>rest'. rest = CHR ''.'' # rest' \<and> written_as rest' vs')" by (rule written)
        with Nil have "vs = [?v]" by (cases "vs' = []") simp_all
        with vs less.prems take_update_Suc [of k tmp ?v] show "k = 3 \<and> b = ?tmp" by simp
      next
        assume "k = 3 \<and> b = ?tmp"
        with less.prems take_update_Suc [of k tmp ?v] False s Nil
        show "\<exists>vs. length vs = 4 - k \<and> written_as s vs \<and> b = take k tmp @ vs"
          by (intro exI [of _ "[?v]"]) (simp add: is_octet_def)
      qed
      then show ?thesis unfolding step using less.prems Nil by auto
    next
      case (Cons c cs)
      with s(3) have c: "\<not> is_digit c" by simp
      show ?thesis
      proof (cases "c = CHR ''.'' \<and> k \<noteq> 3")
        case bad: False
        then have "pton4_loop rest ?tmp (int k) True (k + 1) = Inr None" using Cons c by auto
        moreover have "\<not> (length vs = 4 - k \<and> written_as s vs)" for vs
        proof
          assume vs: "length vs = 4 - k \<and> written_as s vs"
          with s(1) have "written_as (ds @ rest) vs" by simp
          then obtain vs' where "vs = ?v # vs'" "if vs' = [] then rest = []
              else (\<exists>rest'. rest = CHR ''.'' # rest' \<and> written_as rest' vs')" by (rule written)
          with bad vs Cons less.prems(2) show False by (cases "vs' = []") auto
        qed
        ultimately show ?thesis unfolding step by blast
      next
        case good: True
        let ?tmp' = "?tmp[Suc k := 0]"
        have k: "3 - Suc k < 3 - k" "length ?tmp' = 4" "Suc k < 4" "?tmp' ! Suc k = 0"
          using good less.prems by auto
        have "pton4_loop rest ?tmp (int k) True (k + 1) = pton4_loop cs ?tmp' (int (Suc k)) False (Suc k)"
          using Cons c good less.prems by (simp add: nat_add_distrib add.commute)
        moreover obtain r where r: "pton4_loop cs ?tmp' (int (Suc k)) False (Suc k) = Inr r"
          "\<forall>b. r = Some b \<longleftrightarrow> (\<exists>vs. length vs = 4 - Suc k \<and> written_as cs vs \<and> b = take (Suc k) ?tmp' @ vs)"
          using less.hyps [OF k] by blast
        moreover have "(\<exists>vs. length vs = 4 - Suc k \<and> written_as cs vs \<and> b = take (Suc k) ?tmp' @ vs) \<longleftrightarrow>
          (\<exists>vs. length vs = 4 - k \<and> written_as s vs \<and> b = take k tmp @ vs)" for b
        proof -
          have pre: "take (Suc k) ?tmp' = take k tmp @ [?v]"
            using less.prems by (simp add: take_update_Suc)
          show ?thesis
          proof
            assume "\<exists>vs. length vs = 4 - Suc k \<and> written_as cs vs \<and> b = take (Suc k) ?tmp' @ vs"
            then obtain vs where vs: "length vs = 4 - Suc k" "written_as cs vs" "b = take k tmp @ ?v # vs"
              by (auto simp: pre)
            then obtain w ws where "vs = w # ws" by (cases vs) auto
            with vs False s Cons good have "written_as s (?v # vs)" by (auto simp: is_octet_def)
            with vs less.prems(2) show "\<exists>vs. length vs = 4 - k \<and> written_as s vs \<and> b = take k tmp @ vs"
              by (intro exI [of _ "?v # vs"]) simp
          next
            assume "\<exists>vs. length vs = 4 - k \<and> written_as s vs \<and> b = take k tmp @ vs"
            then obtain vs where vs: "length vs = 4 - k" "written_as s vs" "b = take k tmp @ vs" by blast
            from vs(2) s(1) have "written_as (ds @ rest) vs" by simp
            then obtain vs' where vs': "vs = ?v # vs'" "if vs' = [] then rest = []
                else (\<exists>rest'. rest = CHR ''.'' # rest' \<and> written_as rest' vs')" by (rule written)
            with Cons have "written_as cs vs'" by (cases "vs' = []") auto
            with vs vs'(1) show "\<exists>vs. length vs = 4 - Suc k \<and> written_as cs vs \<and> b = take (Suc k) ?tmp' @ vs"
              by (auto simp: pre)
          qed
        qed
        ultimately show ?thesis unfolding step by auto
      qed
    qed
  qed
qed

lemma inet_pton4_written:
  assumes "length garbage = 3"
  shows "\<exists>r. inet_pton4 garbage s = Inr r \<and>
     (\<forall>b. r = Some b \<longleftrightarrow> length b = 4 \<and> written_as (c_str s) b)"
  using pton4_loop_written [of "0 # garbage" 0 "c_str s"] assms by (auto simp: inet_pton4_def)

lemma is_octet_decimal: "n \<le> 255 \<Longrightarrow> is_octet (decimal n) n"
  by (simp add: is_octet_def decimal_digits)

lemma written_as_Cons:
  "is_octet ds v \<Longrightarrow> written_as rest (w # vs) \<Longrightarrow> written_as (ds @ CHR ''.'' # rest) (v # w # vs)"
  by auto

lemma written_as_dotted:
  "a \<le> 255 \<Longrightarrow> b \<le> 255 \<Longrightarrow> c \<le> 255 \<Longrightarrow> d \<le> 255 \<Longrightarrow> written_as (dotted (a, b, c, d)) [a, b, c, d]"
  unfolding dotted_def prod.case append_assoc append_Cons append_Nil
  by (intro written_as_Cons is_octet_decimal) (simp_all add: is_octet_decimal)

lemma c_str_id: "list_all (\<lambda>c. code_of c \<noteq> 0) s \<Longrightarrow> c_str s = s"
  by (auto simp: c_str_def list_all_iff)

lemma c_str_dotted: "c_str (dotted ip) = dotted ip"
proof (rule c_str_id)
  have "list_all (\<lambda>c. code_of c \<noteq> 0) (decimal n)" for n
    using decimal_digits [of n] by (auto simp: list_all_iff dest: digit_not)
  then show "list_all (\<lambda>c. code_of c \<noteq> 0) (dotted ip)"
    by (simp add: dotted_def code_of_def split: prod.split)
qed

lemma length_decimal_octet: "n \<le> 255 \<Longrightarrow> length (decimal n) \<le> 3"
  by (subst decimal.simps, subst decimal.simps, subst decimal.simps) auto

lemma inet_ntopV4_dotted:
  assumes "a \<le> 255" "b \<le> 255" "c \<le> 255" "d \<le> 255"
  shows "inet_ntopV4 (a, b, c, d) 16 = Some (dotted (a, b, c, d))"
proof -
  have "length (dotted (a, b, c, d)) \<le> 15"
    using assms length_decimal_octet [of a] length_decimal_octet [of b] length_decimal_octet [of c]
      length_decimal_octet [of d] by (simp add: dotted_def)
  then show ?thesis by (simp add: inet_ntopV4_def Let_def)
qed

section \<open>Ranges, abstractly\<close>

lemma matches_loop_iff:
  "length prefixes = length widths \<Longrightarrow> matches_loop prefixes widths ip =
     Inr (list_ex (\<lambda>(p, w). drop_bit (unat w) ip = p) (zip prefixes widths))"
  by (induction prefixes widths rule: list_induct2) auto

lemma compute_loop_ok:
  assumes "list_all2 (\<lambda>e pw. compute_entry garbage e = Inr pw) entries pws"
  shows "compute_loop garbage entries r = Inr (r\<lparr>m_ipRangePrefixes := m_ipRangePrefixes r @ map fst pws,
     m_ipRangeBitWidths := m_ipRangeBitWidths r @ map snd pws\<rparr>)"
  using assms
proof (induction entries arbitrary: pws r)
  case (Cons e entries)
  then show ?case by (cases pws) auto
qed simp

lemma drop_bit_eq_iff:
  "n \<le> 32 \<Longrightarrow> drop_bit n (x :: u32) = drop_bit n y \<longleftrightarrow> (\<forall>i. n \<le> i \<and> i < 32 \<longrightarrow> bit x i = bit y i)"
proof
  assume eq: "drop_bit n x = drop_bit n y"
  show "\<forall>i. n \<le> i \<and> i < 32 \<longrightarrow> bit x i = bit y i"
  proof (intro allI impI)
    fix i
    assume "n \<le> i \<and> i < 32"
    moreover have "bit (drop_bit n x) (i - n) = bit (drop_bit n y) (i - n)" using eq by simp
    ultimately show "bit x i = bit y i" by (simp add: bit_drop_bit_eq)
  qed
next
  assume eq: "\<forall>i. n \<le> i \<and> i < 32 \<longrightarrow> bit x i = bit y i"
  show "drop_bit n x = drop_bit n y"
  proof (rule bit_word_eqI)
    fix i
    have "bit x (n + i) = bit y (n + i)"
      using eq by (cases "n + i < 32") (auto dest: bit_imp_le_length)
    then show "bit (drop_bit n x) i = bit (drop_bit n y) i" by (simp add: bit_drop_bit_eq)
  qed
qed

text \<open>A range as written in the configuration: an address and a prefix length.\<close>

definition cidr :: "string \<times> nat \<Rightarrow> string" where
  "cidr r = (case r of (a, n) \<Rightarrow> a @ ''/'' @ IntToString (int n))"

definition cidr_ok :: "nat list \<Rightarrow> string \<times> nat \<Rightarrow> bool" where
  "cidr_ok garbage r = (case r of (a, n) \<Rightarrow>
     a \<noteq> [] \<and> CHR ''/'' \<notin> set a \<and> 1 \<le> n \<and> n \<le> 32 \<and> (\<exists>bytes. inet_pton4 garbage a = Inr (Some bytes)))"

definition cidr_address :: "nat list \<Rightarrow> string \<Rightarrow> u32" where
  "cidr_address garbage a = (case inet_pton4 garbage a of Inr (Some bytes) \<Rightarrow> host_order bytes | _ \<Rightarrow> 0)"

definition in_cidr :: "nat list \<Rightarrow> u32 \<Rightarrow> string \<times> nat \<Rightarrow> bool" where
  "in_cidr garbage ip r = (case r of (a, n) \<Rightarrow>
     \<forall>i. 32 - n \<le> i \<and> i < 32 \<longrightarrow> bit ip i = bit (cidr_address garbage a) i)"

lemma string_find_sep:
  "CHR ''/'' \<notin> set a \<Longrightarrow> string_find (a @ CHR ''/'' # s) ''/'' = Some (length a)"
  by (induction a) auto

lemma compute_entry_cidr:
  assumes "cidr_ok garbage (a, n)"
  shows "compute_entry garbage (cidr (a, n)) =
     Inr (drop_bit (32 - n) (cidr_address garbage a), word_of_nat (32 - n))"
proof -
  from assms obtain bytes where ok: "a \<noteq> []" "CHR ''/'' \<notin> set a" "1 \<le> n" "n \<le> 32"
      and bytes: "inet_pton4 garbage a = Inr (Some bytes)" by (auto simp: cidr_ok_def)
  have find: "string_find (cidr (a, n)) ''/'' = Some (length a)"
    using string_find_sep [OF ok(2)] by (simp add: cidr_def)
  have num: "StringToInt (drop (length a + 1) (cidr (a, n))) = Inr (int n)"
    using ok by (simp add: cidr_def StringToInt_IntToString)
  have le: "\<not> ((word_of_nat n :: u32) < 1 \<or> word_of_nat n > (32 :: u32))"
    using ok by (simp add: word_less_nat_alt unat_of_nat_u32 not_less)
  have width: "(32 :: u32) - word_of_nat n = word_of_nat (32 - n)" using ok by (simp add: of_nat_diff)
  have "unat (word_of_nat (32 - n) :: u32) = 32 - n" by (rule unat_of_nat_u32) simp
  with find num le width bytes ok show ?thesis
    by (simp add: compute_entry_def Let_def cidr_def cidr_address_def)
qed

section \<open>Properties\<close>

text \<open>C28: \<open>inet_pton4\<close> never writes outside its four-byte array and accepts exactly the strings that are four
  decimal numbers of at most 255 separated by single dots, storing their values; printing an address
  with \<open>inet_ntopV4\<close> and parsing it back gives the address.\<close>

theorem inet_pton4_exact:
  assumes "length garbage = 3"
  shows "(\<exists>r. inet_pton4 garbage s = Inr r \<and>
       (\<forall>bytes. r = Some bytes \<longleftrightarrow> length bytes = 4 \<and> written_as (c_str s) bytes)) \<and>
     (a \<le> 255 \<and> b \<le> 255 \<and> c \<le> 255 \<and> d \<le> 255 \<longrightarrow>
       (\<exists>printed. inet_ntopV4 (a, b, c, d) 16 = Some printed \<and> inet_pton4 garbage printed = Inr (Some [a, b, c, d])))"
proof (intro conjI impI)
  show "\<exists>r. inet_pton4 garbage s = Inr r \<and>
       (\<forall>bytes. r = Some bytes \<longleftrightarrow> length bytes = 4 \<and> written_as (c_str s) bytes)"
    by (rule inet_pton4_written [OF assms])
  assume ip: "a \<le> 255 \<and> b \<le> 255 \<and> c \<le> 255 \<and> d \<le> 255"
  then have "written_as (c_str (dotted (a, b, c, d))) [a, b, c, d]"
    by (simp add: c_str_dotted written_as_dotted del: written_as.simps)
  then have "inet_pton4 garbage (dotted (a, b, c, d)) = Inr (Some [a, b, c, d])"
    using inet_pton4_written [OF assms, of "dotted (a, b, c, d)"] by (auto simp del: written_as.simps)
  with ip inet_ntopV4_dotted [of a b c d]
  show "\<exists>printed. inet_ntopV4 (a, b, c, d) 16 = Some printed \<and> inet_pton4 garbage printed = Inr (Some [a, b, c, d])"
    by blast
qed

theorem inet_pton4_exact_witness:
  "\<exists>printed. inet_ntopV4 (192, 168, 0, 254) 16 = Some printed \<and>
     inet_pton4 [7, 8, 9] printed = Inr (Some [192, 168, 0, 254])"
  using inet_pton4_exact [of "[7, 8, 9]" "''''" 192 168 0 254] by simp

text \<open>C29: After \<open>Compute\<close>, \<open>Matches\<close> accepts exactly the addresses of the configured ranges: an address
  matches when, for one of the ranges \<open>a.b.c.d/n\<close>, its \<open>n\<close> leading bits are those of the range's
  address. Prefixes and widths stay in step, so the loop over the two lists never runs off.\<close>

theorem IpRanges_matches_cidr:
  assumes "m_asciiIpRanges r = map cidr ranges" "list_all (cidr_ok garbage) ranges"
  shows "\<exists>r'. IpRanges_Compute garbage r = Inr r' \<and>
     IpRanges_Matches r' ip = Inr (list_ex (in_cidr garbage ip) ranges)"
proof -
  define pw where "pw = (\<lambda>(a, n). (drop_bit (32 - n) (cidr_address garbage a), word_of_nat (32 - n) :: u32))"
  have "list_all2 (\<lambda>e pw. compute_entry garbage e = Inr pw) (map cidr ranges) (map pw ranges)"
    using assms(2) by (auto simp: list_all2_map1 list_all2_map2 list_all2_same list_all_iff pw_def compute_entry_cidr)
  from compute_loop_ok [OF this]
  have compute: "IpRanges_Compute garbage r = Inr (r\<lparr>m_ipRangePrefixes := map fst (map pw ranges),
      m_ipRangeBitWidths := map snd (map pw ranges)\<rparr>)"
    by (simp add: IpRanges_Compute_def assms(1))
  have "(drop_bit (unat (snd (pw x))) ip = fst (pw x)) = in_cidr garbage ip x" if "x \<in> set ranges" for x
  proof -
    obtain a n where x: "x = (a, n)" by fastforce
    have "unat (word_of_nat (32 - n) :: u32) = 32 - n" by (rule unat_of_nat_u32) simp
    then show ?thesis by (simp add: x pw_def in_cidr_def drop_bit_eq_iff)
  qed
  then have "list_ex (\<lambda>(p, w). drop_bit (unat w) ip = p) (zip (map fst (map pw ranges)) (map snd (map pw ranges)))
      = list_ex (in_cidr garbage ip) ranges"
    unfolding zip_map_fst_snd by (auto simp: list_ex_iff split_def)
  then show ?thesis
    using compute by (simp add: IpRanges_Matches_def matches_loop_iff)
qed

theorem IpRanges_matches_cidr_witness:
  "\<exists>r'. IpRanges_Compute [0, 0, 0] \<lparr>m_asciiIpRanges = [''10.0.0.0/8''], m_ipRangePrefixes = [], m_ipRangeBitWidths = []\<rparr>
       = Inr r' \<and>
     IpRanges_Matches r' 0x0A010203 = Inr (list_ex (in_cidr [0, 0, 0] 0x0A010203) [(''10.0.0.0'', 8)])"
proof (rule IpRanges_matches_cidr)
  show "m_asciiIpRanges \<lparr>m_asciiIpRanges = [''10.0.0.0/8''], m_ipRangePrefixes = [], m_ipRangeBitWidths = []\<rparr>
      = map cidr [(''10.0.0.0'', 8)]" by code_simp
  have "inet_pton4 [0, 0, 0] ''10.0.0.0'' = Inr (Some [10, 0, 0, 0])" by code_simp
  then show "list_all (cidr_ok [0, 0, 0]) [(''10.0.0.0'', 8)]" by (simp add: cidr_ok_def)
qed

end
