(* ===== verification/ParsingUtils.thy ===== *)
theory ParsingUtils
  imports MemScan NetUtils
begin

text \<open>
  The parsing utilities of \<open>audiocaptureplugins/voip/ParsingUtils.cpp\<close> and those of
  \<open>orkbasecxx/MemUtils.cpp\<close> with the same bodies. An output string that the code appends to is an argument
  and a result. \<open>isalnum\<close> and \<open>isgraph\<close> are those of the C locale, false above 127.
\<close>

section \<open>Finding\<close>

definition memFindStr :: "string \<Rightarrow> string \<Rightarrow> int \<Rightarrow> int \<Rightarrow> int option result" where
  "memFindStr toFind mem start stop =
     search (\<lambda>ptr. strncasecmp_eq (if int (length toFind) > stop - ptr then nat (stop - ptr) else length toFind) toFind mem ptr)
       (\<lambda>c. c = hd toFind) mem start stop"

definition memFindAfter :: "string \<Rightarrow> string \<Rightarrow> int \<Rightarrow> int \<Rightarrow> int option result" where
  "memFindAfter toFind mem start stop =
     andThen (search (strncasecmp_eq (length toFind) toFind mem)
       (\<lambda>c. c = to_lower (hd toFind) \<or> c = to_upper (hd toFind)) mem start stop)
       (\<lambda>r. Inr (map_option (\<lambda>ptr. ptr + int (length toFind)) r))"

definition is_eol :: "char \<Rightarrow> bool" where
  "is_eol c \<longleftrightarrow> code_of c = 13 \<or> code_of c = 10"

definition memFindEOL :: "string \<Rightarrow> int \<Rightarrow> int \<Rightarrow> int result" where
  "memFindEOL mem start limit =
     andThen (scan (\<lambda>c. \<not> is_eol c) mem start limit) (\<lambda>c.
     andThen (peek mem c) (\<lambda>x. Inr (if is_eol x then c else start)))"

section \<open>Grabbing\<close>

definition token_char :: "char \<Rightarrow> bool" where
  "token_char c \<longleftrightarrow> code_of c \<noteq> 0 \<and> code_of c \<noteq> 32 \<and> \<not> is_eol c"

definition GrabToken :: "string \<Rightarrow> int \<Rightarrow> int \<Rightarrow> string \<Rightarrow> string result" where
  "GrabToken mem p limit out = andThen (scan token_char mem p limit) (\<lambda>c. Inr (out @ between mem p c))"

definition GrabTokenAcceptSpace :: "string \<Rightarrow> int \<Rightarrow> int \<Rightarrow> string \<Rightarrow> string result" where
  "GrabTokenAcceptSpace mem p limit out =
     andThen (scan (\<lambda>c. code_of c \<noteq> 0 \<and> \<not> is_eol c) mem p limit) (\<lambda>c. Inr (out @ between mem p c))"

definition SkipWhitespaces :: "string \<Rightarrow> int \<Rightarrow> int \<Rightarrow> int result" where
  "SkipWhitespaces mem p limit = scan (\<lambda>c. code_of c = 32) mem p limit"

definition GrabTokenSkipLeadingWhitespaces :: "string \<Rightarrow> int \<Rightarrow> int \<Rightarrow> string \<Rightarrow> string result" where
  "GrabTokenSkipLeadingWhitespaces mem p limit out =
     andThen (scan (\<lambda>c. code_of c = 32) mem p limit) (\<lambda>c. GrabToken mem c limit out)"

definition GrabAlphaNumToken :: "string \<Rightarrow> int \<Rightarrow> int \<Rightarrow> string \<Rightarrow> string result" where
  "GrabAlphaNumToken mem p limit out =
     andThen (scan (\<lambda>c. \<not> is_alnum c) mem p limit) (\<lambda>start.
     if start \<noteq> limit - 1 then andThen (unbounded_scan is_alnum mem start) (\<lambda>c. Inr (out @ between mem start c))
     else Inr out)"

definition GrabAlphaNumTokenSkipLeadingWhitespaces :: "string \<Rightarrow> int \<Rightarrow> int \<Rightarrow> string \<Rightarrow> string result" where
  "GrabAlphaNumTokenSkipLeadingWhitespaces mem p limit out =
     andThen (scan (\<lambda>c. code_of c = 32) mem p limit) (\<lambda>c. GrabAlphaNumToken mem c limit out)"

text \<open>\<open>strchr(p, '@')\<close>: \<open>None\<close> is NULL.\<close>

definition strchr_at :: "string \<Rightarrow> int \<Rightarrow> int option result" where
  "strchr_at mem p =
     andThen (unbounded_scan (\<lambda>c. c \<noteq> CHR ''@'' \<and> code_of c \<noteq> 0) mem p) (\<lambda>c.
     andThen (peek mem c) (\<lambda>x. Inr (if x = CHR ''@'' then Some c else None)))"

definition domain_char :: "char \<Rightarrow> bool" where
  "domain_char c \<longleftrightarrow> is_alnum c \<or> c \<in> set ''.-_''"

definition GrabSipUriDomain :: "string \<Rightarrow> int \<Rightarrow> int \<Rightarrow> string \<Rightarrow> string result" where
  "GrabSipUriDomain mem p limit out =
     andThen (SkipWhitespaces mem p limit) (\<lambda>userStart.
     if userStart \<ge> limit then Inr out
     else andThen (strchr_at mem userStart) (\<lambda>at. case at of
            None \<Rightarrow> Inr out
          | Some a \<Rightarrow>
              andThen (peek mem (a + 1)) (\<lambda>x.
              if code_of x = 0 \<or> a + 1 \<ge> limit then Inr out
              else andThen (scan domain_char mem (a + 1) limit) (\<lambda>c. Inr (out @ between mem (a + 1) c)))))"

text \<open>The end of the token, or \<open>None\<close> for NULL, and the output.\<close>

definition GrabDisplayableToken :: "string \<Rightarrow> int \<Rightarrow> int \<Rightarrow> string \<Rightarrow> (int option \<times> string) result" where
  "GrabDisplayableToken mem p limit out =
     andThen (scan (\<lambda>c. \<not> is_graph c) mem p limit) (\<lambda>start.
     if start \<noteq> limit - 1
     then andThen (scan is_graph mem start limit) (\<lambda>c. Inr (Some c, out @ between mem start c))
     else Inr (None, out))"

text \<open>The loop of \<open>GrabSipName\<close> over the characters \<open>cs\<close> before the \<open><sip:\<close>.\<close>

fun sip_name_loop :: "bool \<Rightarrow> string \<Rightarrow> string" where
  "sip_name_loop first [] = []"
| "sip_name_loop first (c # cs) =
     (if first \<and> c = CHR 0x22 then sip_name_loop False cs
      else if length cs \<le> 1 \<and> c = CHR 0x22 then []
      else if cs = [] \<and> c = CHR '' '' then []
      else c # sip_name_loop False cs)"

definition GrabSipName :: "string \<Rightarrow> int \<Rightarrow> int \<Rightarrow> string \<Rightarrow> string result" where
  "GrabSipName mem p limit out =
     andThen (SkipWhitespaces mem p limit) (\<lambda>nameStart.
     andThen (memFindStr ''<sip:'' mem nameStart limit) (\<lambda>found.
     if nameStart \<ge> limit then Inr out
     else case found of
            None \<Rightarrow> Inr out
          | Some nameEnd \<Rightarrow>
              if nameEnd \<le> nameStart then Inr out
              else Inr (out @ sip_name_loop True (between mem nameStart nameEnd))))"

definition address_char :: "char \<Rightarrow> bool" where
  "address_char c \<longleftrightarrow> is_alnum c \<or> c \<in> set ''#*.+-_:@''"

text \<open>Stop at a colon after an at sign.\<close>

fun user_address :: "bool \<Rightarrow> string \<Rightarrow> string" where
  "user_address passed [] = []"
| "user_address passed (c # cs) =
     (let passed' = (passed \<or> c = CHR ''@'')
      in if c = CHR '':'' \<and> passed' then [] else c # user_address passed' cs)"

definition GrabSipUserAddress :: "string \<Rightarrow> int \<Rightarrow> int \<Rightarrow> string \<Rightarrow> string result" where
  "GrabSipUserAddress mem p limit out =
     andThen (SkipWhitespaces mem p limit) (\<lambda>userStart.
     if userStart \<ge> limit then Inr out
     else andThen (scan address_char mem userStart limit) (\<lambda>c.
          Inr (out @ user_address False (between mem userStart c))))"

definition uri_user_char :: "char \<Rightarrow> bool" where
  "uri_user_char c \<longleftrightarrow> is_alnum c \<or> c \<in> set ''#*.+-_%''"

definition GrabSipUriUser :: "string \<Rightarrow> int \<Rightarrow> int \<Rightarrow> string \<Rightarrow> string result" where
  "GrabSipUriUser mem p limit out =
     andThen (SkipWhitespaces mem p limit) (\<lambda>userStart.
     if userStart \<ge> limit then Inr out
     else andThen (scan uri_user_char mem userStart limit) (\<lambda>c. Inr (out @ between mem userStart c)))"

text \<open>\<open>GrabString\<close> includes the character at \<open>stop\<close>.\<close>

definition GrabString :: "string \<Rightarrow> int \<Rightarrow> int \<Rightarrow> string \<Rightarrow> string result" where
  "GrabString mem start stop out =
     (if start > stop then Inr out
      else andThen (mem_slice mem start (nat (stop + 1 - start))) (\<lambda>s. Inr (out @ s)))"

definition GrabLine :: "string \<Rightarrow> int \<Rightarrow> int \<Rightarrow> string \<Rightarrow> (int \<times> string) result" where
  "GrabLine mem start limit out =
     andThen (bounded_scan (\<lambda>c. \<not> is_eol c) mem start limit) (\<lambda>c. Inr (c, out @ between mem start c))"

definition GrabLineSkipLeadingWhitespace :: "string \<Rightarrow> int \<Rightarrow> int \<Rightarrow> string \<Rightarrow> string result" where
  "GrabLineSkipLeadingWhitespace mem start limit out =
     andThen (SkipWhitespaces mem start limit) (\<lambda>c.
     andThen (GrabLine mem c limit out) (\<lambda>(_, out'). Inr out'))"

section \<open>Payload types in an SDP body\<close>

definition rtpmap_prefix :: string where
  "rtpmap_prefix = ''a=rtpmap:''"

text \<open>One \<open>a=rtpmap:\<close> line at \<open>pos\<close>: the line grabbed and the updated map. \<open>StringToInt\<close> throws on a non-number.\<close>

definition rtpmap_line :: "string \<Rightarrow> int \<Rightarrow> int \<Rightarrow> nat list \<Rightarrow> (string \<times> nat list) result" where
  "rtpmap_line mem pos stop rtpmap =
     andThen (GrabTokenAcceptSpace mem pos stop []) (\<lambda>fullLine.
     andThen (GrabToken mem (pos + int (length rtpmap_prefix)) stop []) (\<lambda>plStr.
     andThen (if plStr \<noteq> [] then StringToInt plStr else Inr (- 1)) (\<lambda>plType.
     if plType > 95 \<and> plType < 127 then
       (let orekaPayloadType = GetOrekaRtpPayloadTypeForSdpRtpMap fullLine
        in andThen (peek rtpmap (plType - 96)) (\<lambda>old.
           if orekaPayloadType \<noteq> 0 \<and> orekaPayloadType \<noteq> int old
           then andThen (poke rtpmap (plType - 96) (unat (word_of_int orekaPayloadType :: u8))) (\<lambda>m. Inr (fullLine, m))
           else Inr (fullLine, rtpmap)))
     else Inr (fullLine, rtpmap))))"

text \<open>The loop over the lines; each round but the last moves on by at least one character, the fuel is the distance to \<open>stop\<close>.\<close>

fun rtpmap_loop :: "nat \<Rightarrow> string \<Rightarrow> int \<Rightarrow> int \<Rightarrow> nat list \<Rightarrow> nat list option result" where
  "rtpmap_loop 0 mem pos stop rtpmap = Inr None"
| "rtpmap_loop (Suc n) mem pos stop rtpmap =
     andThen (memFindStr rtpmap_prefix mem pos stop) (\<lambda>found. case found of
       None \<Rightarrow> Inr (Some rtpmap)
     | Some p \<Rightarrow> andThen (rtpmap_line mem p stop rtpmap) (\<lambda>(fullLine, m).
         rtpmap_loop n mem (p + int (length fullLine)) stop m))"

definition GetDynamicPayloadMapping :: "string \<Rightarrow> int \<Rightarrow> int \<Rightarrow> nat list \<Rightarrow> nat list option result" where
  "GetDynamicPayloadMapping mem start stop rtpmap = rtpmap_loop (nat (stop - start) + 1) mem start stop rtpmap"

section \<open>The same on terminated packets\<close>

lemma length_between: "0 \<le> a \<Longrightarrow> a \<le> b \<Longrightarrow> b \<le> int (length mem) \<Longrightarrow> length (between mem a b) = nat (b - a)"
  by (simp add: between_def)

lemma between_nth: "0 \<le> a \<Longrightarrow> b \<le> int (length mem) \<Longrightarrow> i < nat (b - a) \<Longrightarrow> between mem a b ! i = mem ! (nat a + i)"
  by (simp add: between_def)

lemma between_split:
  assumes "0 \<le> a" "a \<le> b" "b \<le> c" "c \<le> int (length mem)"
  shows "between mem a c = between mem a b @ between mem b c"
proof -
  have "nat (c - a) = nat (b - a) + nat (c - b)" "nat b = nat (b - a) + nat a" using assms by simp_all
  then show ?thesis by (simp only: between_def take_add drop_drop)
qed

text \<open>Where a scan stops is where the longest accepted prefix ends.\<close>

lemma scan_takeWhile:
  assumes "0 \<le> p" "p \<le> limit" "limit < int (length mem)"
  shows "scan q mem p limit = Inr (p + int (length (takeWhile q (between mem p limit))))"
    "between mem p (p + int (length (takeWhile q (between mem p limit)))) = takeWhile q (between mem p limit)"
proof -
  from scan_ok [OF assms, of q] obtain c where c: "scan q mem p limit = Inr c" "p \<le> c" "c \<le> limit"
    "\<forall>i. p \<le> i \<and> i < c \<longrightarrow> q (mem ! nat i)" "c < limit \<longrightarrow> \<not> q (mem ! nat c)" by blast
  have all: "\<forall>x \<in> set (between mem p c). q x"
  proof
    fix x assume "x \<in> set (between mem p c)"
    then obtain i where i: "i < nat (c - p)" "x = mem ! (nat p + i)"
      using c assms by (auto simp: in_set_conv_nth length_between between_nth)
    then have "nat (p + int i) = nat p + i" using assms(1) by (simp add: nat_add_distrib)
    then show "q x" using spec [OF c(4), of "p + int i"] i by auto
  qed
  have split: "between mem p limit = between mem p c @ between mem c limit"
    using c assms by (intro between_split) auto
  have "takeWhile q (between mem p limit) = between mem p c"
  proof (cases "c < limit")
    case True
    then have "between mem c limit = mem ! nat c # between mem (c + 1) limit"
      using c assms between_split [of c "c + 1" limit mem]
      by (simp add: between_def take_Suc_conv_app_nth hd_drop_conv_nth [symmetric])
    then show ?thesis unfolding split using all c(5) True by (simp add: takeWhile_append2)
  next
    case False
    then have "between mem c limit = []" using c by (simp add: between_def)
    then show ?thesis unfolding split using all by (simp add: takeWhile_append2)
  qed
  then show "scan q mem p limit = Inr (p + int (length (takeWhile q (between mem p limit))))"
    "between mem p (p + int (length (takeWhile q (between mem p limit)))) = takeWhile q (between mem p limit)"
    using c assms by (simp_all add: length_between)
qed

lemma scan_is_ok: "0 \<le> p \<Longrightarrow> p \<le> limit \<Longrightarrow> terminated mem limit \<Longrightarrow> \<exists>c. scan q mem p limit = Inr c \<and> p \<le> c \<and> c \<le> limit"
  using scan_ok [of p limit mem q] terminatedD by blast

lemma unbounded_is_ok:
  "0 \<le> p \<Longrightarrow> p \<le> limit \<Longrightarrow> terminated mem limit \<Longrightarrow> \<not> q (char_of (0 :: nat)) \<Longrightarrow>
   \<exists>c. unbounded_scan q mem p = Inr c \<and> p \<le> c \<and> c \<le> limit"
  using unbounded_scan_ok [of p limit mem q] by blast

lemma bounded_is_ok:
  "0 \<le> p \<Longrightarrow> p \<le> limit \<Longrightarrow> terminated mem limit \<Longrightarrow> \<exists>c. bounded_scan q mem p limit = Inr c \<and> p \<le> c \<and> c \<le> limit"
  using bounded_scan_ok [of p limit mem q] terminatedD by force

definition plain_name :: "string \<Rightarrow> bool" where
  "plain_name s \<longleftrightarrow> s \<noteq> [] \<and> list_all (\<lambda>c. code_of c \<noteq> 0) s"

text \<open>\<open>s\<close> occurs at \<open>ptr\<close>, up to case, before \<open>stop\<close>.\<close>

definition occurs_at :: "string \<Rightarrow> string \<Rightarrow> int \<Rightarrow> int \<Rightarrow> bool" where
  "occurs_at s mem ptr stop \<longleftrightarrow> ptr + int (length s) \<le> stop \<and>
     CompareNoCase_eq (between mem ptr (ptr + int (length s))) s"

lemma strncasecmp_occurs:
  assumes "terminated mem stop" "plain_name s" "0 \<le> ptr" "ptr \<le> stop"
  shows "strncasecmp_eq (length s) s mem ptr = Inr (occurs_at s mem ptr stop)"
  using strncasecmp_terminated [OF assms(1) _ order_refl assms(3,4), of s] assms(2)
  by (auto simp: plain_name_def occurs_at_def CompareNoCase_eq_def between_def)

lemma to_lower_cases: "to_lower c = to_lower d \<Longrightarrow> c = to_lower d \<or> c = to_upper d"
  by (auto simp: code_of_inj [symmetric] code_of_to_lower code_of_to_upper is_upper_def is_lower_def split: if_splits)

lemma memFindAfter_ok:
  assumes mem: "terminated mem stop" and s: "plain_name s" and start: "0 \<le> start" "start \<le> stop"
  shows "\<exists>r. memFindAfter s mem start stop = Inr r \<and>
    (case r of None \<Rightarrow> \<forall>q. start \<le> q \<and> q < stop \<longrightarrow> \<not> occurs_at s mem q stop
     | Some e \<Rightarrow> start + int (length s) \<le> e \<and> e \<le> stop \<and> occurs_at s mem (e - int (length s)) stop \<and>
         (\<forall>q. start \<le> q \<and> q + int (length s) < e \<longrightarrow> \<not> occurs_at s mem q stop))"
proof -
  let ?m = "strncasecmp_eq (length s) s mem"
  let ?c = "\<lambda>c. c = to_lower (hd s) \<or> c = to_upper (hd s)"
  have m: "?m q = Inr (occurs_at s mem q stop)" if "start \<le> q" "q < stop" for q
    using strncasecmp_occurs [OF mem s] that start by simp
  have head: "?c (mem ! nat q)" if "start < q" "q < stop" "?m q = Inr True" for q
  proof -
    have occ: "occurs_at s mem q stop" using m that by auto
    have "s \<noteq> []" using s by (simp add: plain_name_def)
    then have "to_lower (mem ! nat q) = to_lower (hd s)"
      using occ that start terminatedD [OF mem]
      by (cases s) (auto simp: occurs_at_def CompareNoCase_eq_def between_def take_Suc nat_add_distrib hd_drop_conv_nth)
    then show ?thesis by (rule to_lower_cases)
  qed
  from search_ok [of start stop ?m mem ?c] m start terminatedD [OF mem] obtain r where
    r: "search ?m ?c mem start stop = Inr r" "first_match ?m ?c mem start stop r" by auto
  show ?thesis
  proof (cases r)
    case None
    have "\<not> occurs_at s mem q stop" if q: "start \<le> q" "q < stop" for q
    proof
      assume "occurs_at s mem q stop"
      then have true: "?m q = Inr True" using m q by simp
      then have "candidate ?c mem start q" using head [of q] q by (auto simp: candidate_def)
      then show False using first_match_None [OF r(2) [unfolded None] _ q(2)] true by fastforce
    qed
    then show ?thesis using r(1) None by (auto simp: memFindAfter_def)
  next
    case (Some p)
    note fm = r(2) [unfolded Some]
    have p: "start \<le> p" "p < stop" "occurs_at s mem p stop"
      using first_match_Some [OF fm] m [of p] by auto
    have "\<not> occurs_at s mem q stop" if q: "start \<le> q" "q < p" for q
    proof
      assume "occurs_at s mem q stop"
      then have true: "?m q = Inr True" using m q p by simp
      then have "candidate ?c mem start q" using head [of q] q p(2) by (auto simp: candidate_def)
      then show False using first_match_before [OF fm _ q(2)] true by fastforce
    qed
    then show ?thesis using r(1) p Some by (auto simp: memFindAfter_def occurs_at_def)
  qed
qed

lemma memFindStr_ok:
  assumes mem: "terminated mem stop" and s: "plain_name s" and start: "0 \<le> start" "start \<le> stop"
  shows "\<exists>r. memFindStr s mem start stop = Inr r \<and> (\<forall>p. r = Some p \<longrightarrow> start \<le> p \<and> p < stop \<and>
    (\<exists>n>0. strncasecmp_eq n s mem p = Inr True))"
proof -
  let ?n = "\<lambda>ptr. if int (length s) > stop - ptr then nat (stop - ptr) else length s"
  let ?m = "\<lambda>ptr. strncasecmp_eq (?n ptr) s mem ptr"
  have "\<exists>b. ?m ptr = Inr b" if "start \<le> ptr" "ptr < stop" for ptr
    using strncasecmp_terminated [OF mem, of s "?n ptr" ptr] s that start by (auto simp: plain_name_def)
  then obtain r where r: "search ?m (\<lambda>c. c = hd s) mem start stop = Inr r"
      "first_match ?m (\<lambda>c. c = hd s) mem start stop r"
    using search_ok [of start stop ?m mem "\<lambda>c. c = hd s"] start terminatedD [OF mem] by auto
  have found: "\<forall>p. r = Some p \<longrightarrow> start \<le> p \<and> p < stop \<and> ?m p = Inr True"
    using r(2) first_match_Some by blast
  have "?n p > 0" if "p < stop" for p using s that by (auto simp: plain_name_def)
  with r(1) found show ?thesis unfolding memFindStr_def by blast
qed

lemma memFindStr_first_char:
  assumes "strncasecmp_eq n s mem p = Inr True" "0 < n" "plain_name s" "0 \<le> p" "p < int (length mem)"
  shows "to_lower (mem ! nat p) = to_lower (hd s)"
  using assms by (cases n; cases s) (auto simp: plain_name_def split: if_splits)

lemma plain_sip: "plain_name ''<sip:''" "plain_name rtpmap_prefix"
  by code_simp+

section \<open>Properties\<close>

text \<open>C24: On a packet followed by a NUL, none of the three functions that search it (for a name, for what is behind it, for the end
  of the line) nor the white space skipper and the twelve functions that grab a token, a line or a part of a SIP address
  reads outside the memory, wherever in the packet they start and whatever its bytes. The remaining function of the file,
  \<open>GetDynamicPayloadMapping\<close>, needs nine more bytes (C25).\<close>

theorem parsing_utils_safe:
  assumes mem: "terminated mem limit" and p: "0 \<le> p" "p \<le> limit" and s: "plain_name s"
  shows "is_ok (memFindStr s mem p limit) \<and> is_ok (memFindAfter s mem p limit) \<and> is_ok (memFindEOL mem p limit) \<and>
    is_ok (GrabToken mem p limit out) \<and> is_ok (GrabTokenAcceptSpace mem p limit out) \<and>
    is_ok (GrabTokenSkipLeadingWhitespaces mem p limit out) \<and> is_ok (GrabAlphaNumToken mem p limit out) \<and>
    is_ok (GrabAlphaNumTokenSkipLeadingWhitespaces mem p limit out) \<and> is_ok (SkipWhitespaces mem p limit) \<and>
    is_ok (GrabSipUriDomain mem p limit out) \<and> is_ok (GrabDisplayableToken mem p limit out) \<and>
    is_ok (GrabSipName mem p limit out) \<and> is_ok (GrabSipUserAddress mem p limit out) \<and>
    is_ok (GrabSipUriUser mem p limit out) \<and> is_ok (GrabLine mem p limit out) \<and>
    is_ok (GrabLineSkipLeadingWhitespace mem p limit out)"
proof -
  note lim = terminatedD [OF mem]
  have sc: "\<exists>c. scan q mem i limit = Inr c \<and> i \<le> c \<and> c \<le> limit" if "0 \<le> i" "i \<le> limit" for q i
    using scan_is_ok [OF that mem] .
  have unb: "\<exists>c. unbounded_scan q mem i = Inr c \<and> i \<le> c \<and> c \<le> limit" if "0 \<le> i" "i \<le> limit" "\<not> q (char_of (0 :: nat))" for q i
    using that(3) by (intro unbounded_is_ok [OF that(1,2) mem])
  have bnd: "\<exists>c. bounded_scan q mem i limit = Inr c" if "0 \<le> i" "i \<le> limit" for q i
    using bounded_is_ok [OF that mem] by blast
  have alnum0: "\<not> is_alnum (char_of (0 :: nat))" by code_simp
  have token: "is_ok (GrabToken mem i limit out)" and alnum: "is_ok (GrabAlphaNumToken mem i limit out)"
    and line: "\<exists>r. GrabLine mem i limit out = Inr r" if "0 \<le> i" "i \<le> limit" for i
  proof -
    show "is_ok (GrabToken mem i limit out)" using sc [OF that, of token_char] by (auto simp: GrabToken_def)
    from sc [OF that, of "\<lambda>c. \<not> is_alnum c"] obtain c where c: "scan (\<lambda>c. \<not> is_alnum c) mem i limit = Inr c" "0 \<le> c" "c \<le> limit"
      using \<open>0 \<le> i\<close> by auto
    with unb [of c is_alnum] alnum0 show "is_ok (GrabAlphaNumToken mem i limit out)" by (auto simp: GrabAlphaNumToken_def)
    show "\<exists>r. GrabLine mem i limit out = Inr r" using bnd [OF that, of "\<lambda>c. \<not> is_eol c"] by (auto simp: GrabLine_def)
  qed
  obtain w where w: "scan (\<lambda>c. code_of c = 32) mem p limit = Inr w" "0 \<le> w" "w \<le> limit"
    using sc [OF p, of "\<lambda>c. code_of c = 32"] p by auto
  have skip: "SkipWhitespaces mem p limit = Inr w" using w by (simp add: SkipWhitespaces_def)
  have find: "is_ok (memFindStr s mem p limit)" "is_ok (memFindAfter s mem p limit)"
    using memFindStr_ok [OF mem s p] memFindAfter_ok [OF mem s p] by auto
  have eol: "is_ok (memFindEOL mem p limit)"
    using sc [OF p, of "\<lambda>c. \<not> is_eol c"] p lim by (auto simp: memFindEOL_def)
  have domain: "is_ok (GrabSipUriDomain mem p limit out)"
  proof -
    obtain a where a: "unbounded_scan (\<lambda>c. c \<noteq> CHR ''@'' \<and> code_of c \<noteq> 0) mem w = Inr a" "w \<le> a" "a \<le> limit"
      using unb [OF w(2,3), of "\<lambda>c. c \<noteq> CHR ''@'' \<and> code_of c \<noteq> 0"] by (auto simp: code_of_def)
    have at_limit: "mem ! nat limit \<noteq> CHR ''@''" using mem by (auto simp: terminated_def code_of_def)
    show ?thesis
    proof (cases "mem ! nat a = CHR ''@''")
      case True
      then have "a < limit" using a(3) at_limit by (cases "a = limit") auto
      then show ?thesis
        using a w(2) lim skip sc [of "a + 1" domain_char] by (auto simp: GrabSipUriDomain_def strchr_at_def)
    next
      case False
      then show ?thesis using a w(2) lim skip by (auto simp: GrabSipUriDomain_def strchr_at_def)
    qed
  qed
  have name: "is_ok (GrabSipName mem p limit out)"
    using memFindStr_ok [OF mem plain_sip(1) w(2,3)] skip by (auto simp: GrabSipName_def split: option.split)
  have display: "is_ok (GrabDisplayableToken mem p limit out)"
  proof -
    obtain c where "scan (\<lambda>c. \<not> is_graph c) mem p limit = Inr c" "0 \<le> c" "c \<le> limit"
      using sc [OF p, of "\<lambda>c. \<not> is_graph c"] p by auto
    with sc [of c is_graph] show ?thesis by (auto simp: GrabDisplayableToken_def)
  qed
  have skip_line: "is_ok (GrabLineSkipLeadingWhitespace mem p limit out)"
    using line [OF w(2,3)] skip by (auto simp: GrabLineSkipLeadingWhitespace_def)
  show ?thesis
    using find eol token alnum line [OF p] skip_line domain name display p w skip
      sc [OF p, of "\<lambda>c. code_of c \<noteq> 0 \<and> \<not> is_eol c"] sc [OF w(2,3), of address_char] sc [OF w(2,3), of uri_user_char]
    by (auto simp: is_ok_iff GrabTokenAcceptSpace_def GrabTokenSkipLeadingWhitespaces_def GrabAlphaNumTokenSkipLeadingWhitespaces_def
        GrabSipUserAddress_def GrabSipUriUser_def)
qed

definition example_text :: string where
  "example_text = '' Bob <sip:bob@host>'' @ [CHR 0x0D, CHR 0x0A, char_of (0 :: nat)]"

lemma parsing_utils_safe_witness:
  "is_ok (GrabSipName example_text 0 21 []) \<and> is_ok (memFindAfter ''SIP:'' example_text 3 21)"
  using parsing_utils_safe [of example_text 21 0 "''SIP:''" "[]"] parsing_utils_safe [of example_text 21 3 "''SIP:''" "[]"]
  by (simp add: example_text_def terminated_def code_of_def plain_name_def)

text \<open>\<open>memFindAfter\<close> returns the end of the first occurrence of the name, up to case, that lies within
  the packet, and NULL exactly when there is none.\<close>

theorem memFindAfter_first:
  assumes "terminated mem stop" "plain_name s" "0 \<le> start" "start \<le> stop"
  shows "\<exists>r. memFindAfter s mem start stop = Inr r \<and>
    (case r of None \<Rightarrow> \<forall>q. start \<le> q \<and> q < stop \<longrightarrow> \<not> occurs_at s mem q stop
     | Some e \<Rightarrow> start + int (length s) \<le> e \<and> e \<le> stop \<and> occurs_at s mem (e - int (length s)) stop \<and>
         (\<forall>q. start \<le> q \<and> q + int (length s) < e \<longrightarrow> \<not> occurs_at s mem q stop))"
  using assms by (rule memFindAfter_ok)

lemma memFindAfter_first_witness:
  "\<exists>e. memFindAfter ''SIP:'' example_text 0 21 = Inr (Some e) \<and> occurs_at ''SIP:'' example_text (e - 4) 21"
proof -
  have occ: "occurs_at ''SIP:'' example_text 6 21"
    by code_simp
  from memFindAfter_first [of example_text 21 "''SIP:''" 0] obtain r where
    r: "memFindAfter ''SIP:'' example_text 0 21 = Inr r"
    "case r of None \<Rightarrow> \<forall>q. 0 \<le> q \<and> q < 21 \<longrightarrow> \<not> occurs_at ''SIP:'' example_text q 21
     | Some e \<Rightarrow> occurs_at ''SIP:'' example_text (e - 4) 21"
    by (auto simp: example_text_def terminated_def code_of_def plain_name_def split: option.splits)
  with occ show ?thesis by (cases r) auto
qed

text \<open>Grabbing a token appends the longest run of characters without NUL, space, CR or LF from the pointer
  on, within the packet; grabbing a line appends what comes before the first CR or LF and returns its end.\<close>

theorem grab_longest:
  assumes "terminated mem limit" "0 \<le> p" "p \<le> limit"
  shows "GrabToken mem p limit out = Inr (out @ takeWhile token_char (between mem p limit)) \<and>
    GrabLine mem p limit out = Inr (p + int (length (takeWhile (\<lambda>c. \<not> is_eol c) (between mem p limit))),
      out @ takeWhile (\<lambda>c. \<not> is_eol c) (between mem p limit))"
proof -
  note lim = terminatedD [OF assms(1)]
  from bounded_scan_ok [of p limit mem "\<lambda>c. \<not> is_eol c"] scan_ok [of p limit mem "\<lambda>c. \<not> is_eol c"] assms lim
  obtain c c' where c: "bounded_scan (\<lambda>c. \<not> is_eol c) mem p limit = Inr c" "p \<le> c" "c \<le> limit"
      "\<forall>i. p \<le> i \<and> i < c \<longrightarrow> \<not> is_eol (mem ! nat i)" "c < limit \<longrightarrow> is_eol (mem ! nat c)"
    and c': "scan (\<lambda>c. \<not> is_eol c) mem p limit = Inr c'" "p \<le> c'" "c' \<le> limit"
      "\<forall>i. p \<le> i \<and> i < c' \<longrightarrow> \<not> is_eol (mem ! nat i)" "c' < limit \<longrightarrow> is_eol (mem ! nat c')" by auto
  have "c = c'"
    using spec [OF c(4), of c'] spec [OF c'(4), of c] c c' by (cases "c < c'"; cases "c' < c") auto
  let ?line = "takeWhile (\<lambda>c. \<not> is_eol c) (between mem p limit)"
  have tw: "scan q mem p limit = Inr (p + int (length (takeWhile q (between mem p limit))))"
    "between mem p (p + int (length (takeWhile q (between mem p limit)))) = takeWhile q (between mem p limit)" for q
    using scan_takeWhile [OF assms(2,3), of mem q] lim by auto
  have "c = p + int (length ?line)" using tw(1) [of "\<lambda>c. \<not> is_eol c"] c'(1) \<open>c = c'\<close> by simp
  with c(1) have line: "GrabLine mem p limit out = Inr (p + int (length ?line), out @ ?line)"
    by (simp add: GrabLine_def tw(2))
  show ?thesis by (simp add: line GrabToken_def tw)
qed

lemma grab_longest_witness:
  "GrabToken example_text 1 21 ''>'' = Inr ''>Bob''"
  using grab_longest [of example_text 21 1 "''>''"]
  by (simp add: example_text_def terminated_def code_of_def between_def token_char_def is_eol_def)

end
