(* ===== verification/PacketMemory.thy ===== *)
theory PacketMemory
  imports ParsingUtils
begin

text \<open>
  Memory safety of code that walks over a packet with the parsing utilities. The packet ends at \<open>n\<close>, where a
  NUL follows; \<open>inside n\<close> are the pointers that may be dereferenced. \<open>memory_safe\<close> says that a computation leaves
  no memory (an exception is allowed) and what holds of its result; its rules are the collection \<open>safe\<close>.
\<close>

named_theorems safe

definition memory_safe :: "'a result \<Rightarrow> ('a \<Rightarrow> bool) \<Rightarrow> bool" where
  "memory_safe r P \<longleftrightarrow> (case r of Inr x \<Rightarrow> P x | Inl (Thrown e) \<Rightarrow> True | Inl e \<Rightarrow> False)"

definition inside :: "int \<Rightarrow> int \<Rightarrow> bool" where
  "inside n p \<longleftrightarrow> 0 \<le> p \<and> p \<le> n"

text \<open>A pointer that is NULL or inside.\<close>

definition pointer :: "int \<Rightarrow> int option \<Rightarrow> bool" where
  "pointer n r \<longleftrightarrow> (case r of None \<Rightarrow> True | Some p \<Rightarrow> inside n p)"

section \<open>Rules\<close>

lemma memory_safe_Inr [simp]: "memory_safe (Inr x) P \<longleftrightarrow> P x"
  by (simp add: memory_safe_def)

lemma memory_safe_Thrown [simp]: "memory_safe (Inl (Thrown e)) P"
  by (simp add: memory_safe_def)

lemma memory_safe_faults [simp]: "\<not> memory_safe (Inl OutOfBounds) P" "\<not> memory_safe (Inl NullDereference) P"
  by (simp_all add: memory_safe_def)

lemma memory_safe_returns: "m = Inr x \<Longrightarrow> P x \<Longrightarrow> memory_safe m P"
  by simp

lemma memory_safe_ok: "\<exists>x. m = Inr x \<and> P x \<Longrightarrow> memory_safe m P"
  by auto

lemma memory_safe_is_ok: "is_ok m \<Longrightarrow> memory_safe m (\<lambda>_. True)"
  by (auto simp: is_ok_iff)

lemma safe_andThen: "memory_safe m P \<Longrightarrow> (\<And>x. P x \<Longrightarrow> memory_safe (f x) Q) \<Longrightarrow> memory_safe (andThen m f) Q"
  by (cases m) (auto simp: memory_safe_def split: fault.splits)

lemma memory_safe_mono: "memory_safe m P \<Longrightarrow> (\<And>x. P x \<Longrightarrow> Q x) \<Longrightarrow> memory_safe m Q"
  by (auto simp: memory_safe_def split: sum.splits fault.splits)

lemma safe_if: "(b \<Longrightarrow> memory_safe m P) \<Longrightarrow> (\<not> b \<Longrightarrow> memory_safe m' P) \<Longrightarrow> memory_safe (if b then m else m') P"
  by simp

lemma safe_option:
  "pointer n r \<Longrightarrow> memory_safe m P \<Longrightarrow> (\<And>p. inside n p \<Longrightarrow> memory_safe (f p) P) \<Longrightarrow>
   memory_safe (case r of None \<Rightarrow> m | Some p \<Rightarrow> f p) P"
  by (cases r) (auto simp: pointer_def)

lemma pointer_simps [simp]: "pointer n None" "pointer n (Some p) \<longleftrightarrow> inside n p"
  by (simp_all add: pointer_def)

section \<open>Loops\<close>

lemma inside_length: "terminated mem n \<Longrightarrow> inside n p \<Longrightarrow> 0 \<le> p \<and> p < int (length mem)"
  by (auto simp: inside_def dest: terminatedD)

lemma safe_peek [safe]: "terminated mem n \<Longrightarrow> inside n p \<Longrightarrow> memory_safe (peek mem p) (\<lambda>x. x = mem ! nat p)"
  using inside_length by fastforce

lemma scan_beyond: "0 \<le> p \<Longrightarrow> p < int (length mem) \<Longrightarrow> limit \<le> p \<Longrightarrow> scan q mem p limit = Inr p"
proof -
  assume p: "0 \<le> p" "p < int (length mem)" "limit \<le> p"
  then obtain x rest where "drop (nat p) mem = x # rest" by (cases "drop (nat p) mem") auto
  then show ?thesis using p by (simp add: scan_def)
qed

lemma scan_inside:
  assumes "terminated mem n" "inside n p" "inside n limit"
  shows "\<exists>c. scan q mem p limit = Inr c \<and> inside n c \<and> p \<le> c"
proof (cases "p \<le> limit")
  case True
  then show ?thesis using scan_ok [of p limit mem q] assms terminatedD [OF assms(1)] by (auto simp: inside_def)
next
  case False
  then show ?thesis using scan_beyond [of p mem limit q] assms inside_length [OF assms(1,2)] by auto
qed

lemma bounded_scan_inside:
  assumes "terminated mem n" "inside n p" "inside n limit"
  shows "\<exists>c. bounded_scan q mem p limit = Inr c \<and> inside n c"
proof (cases "p \<le> limit")
  case True
  then show ?thesis using bounded_scan_ok [of p limit mem q] assms terminatedD [OF assms(1)] by (force simp: inside_def)
next
  case False
  have p: "0 \<le> p" "p < int (length mem)" using inside_length [OF assms(1,2)] by auto
  then obtain x rest where "drop (nat p) mem = x # rest" by (cases "drop (nat p) mem") auto
  then show ?thesis using p False assms(2) by (auto simp: bounded_scan_def)
qed

lemma unbounded_inside:
  assumes "terminated mem n" "inside n p" "\<not> q (char_of (0 :: nat))"
  shows "\<exists>c. unbounded_scan q mem p = Inr c \<and> inside n c \<and> p \<le> c"
  using unbounded_scan_ok [of p n mem q] assms by (force simp: inside_def)

lemmas safe_scan [safe] = memory_safe_ok [OF scan_inside]
lemmas safe_bounded_scan [safe] = memory_safe_ok [OF bounded_scan_inside]

section \<open>Searching\<close>

lemma search_inside:
  assumes "\<And>q. start \<le> q \<Longrightarrow> q < stop \<Longrightarrow> \<exists>b. matches q = Inr b" "stop \<le> int (length mem)" "0 \<le> start"
  shows "\<exists>r. search matches c mem start stop = Inr r \<and>
    (\<forall>p. r = Some p \<longrightarrow> start \<le> p \<and> p < stop \<and> matches p = Inr True)"
proof (cases "start \<le> stop")
  case True
  then obtain r where "search matches c mem start stop = Inr r" "first_match matches c mem start stop r"
    using search_ok [of start stop matches mem c] assms by blast
  then show ?thesis using first_match_Some by blast
next
  case False
  then show ?thesis by (simp add: search_def)
qed

text \<open>Names may be empty: the code passes names from its configuration.\<close>

definition no_nul :: "string \<Rightarrow> bool" where
  "no_nul s \<longleftrightarrow> list_all (\<lambda>c. code_of c \<noteq> 0) s"

lemma strncasecmp_inside:
  assumes "terminated mem n" "no_nul s" "k \<le> length s" "inside n p"
  shows "\<exists>b. strncasecmp_eq k s mem p = Inr b \<and> (b \<longrightarrow> p + int k \<le> n)"
  using strncasecmp_terminated [OF assms(1), of s k p] assms(2-4) by (auto simp: no_nul_def inside_def)

lemma memFindAfter_inside:
  assumes mem: "terminated mem n" and s: "no_nul s" and p: "inside n start" "inside n stop"
  shows "\<exists>r. memFindAfter s mem start stop = Inr r \<and> pointer n r \<and> (\<forall>e. r = Some e \<longrightarrow> start + int (length s) \<le> e)"
proof -
  let ?m = "strncasecmp_eq (length s) s mem"
  have m: "\<exists>b. ?m q = Inr b \<and> (b \<longrightarrow> q + int (length s) \<le> n)" if "start \<le> q" "q < stop" for q
    using strncasecmp_inside [OF mem s order_refl, of q] that p by (auto simp: inside_def)
  from search_inside [of start stop ?m mem "\<lambda>c. c = to_lower (hd s) \<or> c = to_upper (hd s)"] m p terminatedD [OF mem]
  obtain r where r: "search ?m (\<lambda>c. c = to_lower (hd s) \<or> c = to_upper (hd s)) mem start stop = Inr r"
    "\<forall>q. r = Some q \<longrightarrow> start \<le> q \<and> q < stop \<and> ?m q = Inr True"
    by (fastforce simp: inside_def)
  show ?thesis
  proof (cases r)
    case (Some q)
    then show ?thesis using r m [of q] p by (auto simp: memFindAfter_def inside_def)
  qed (simp add: memFindAfter_def r)
qed

lemma safe_memFindAfter [safe]:
  "terminated mem n \<Longrightarrow> no_nul s \<Longrightarrow> inside n start \<Longrightarrow> inside n stop \<Longrightarrow> memory_safe (memFindAfter s mem start stop) (pointer n)"
  using memFindAfter_inside by fastforce

lemma memFindStr_inside:
  assumes mem: "terminated mem n" and s: "plain_name s" and p: "inside n start" "inside n stop"
  shows "\<exists>r. memFindStr s mem start stop = Inr r \<and> (\<forall>q. r = Some q \<longrightarrow> start \<le> q \<and> q < stop \<and>
    (\<exists>k>0. strncasecmp_eq k s mem q = Inr True))"
proof -
  let ?k = "\<lambda>q. if int (length s) > stop - q then nat (stop - q) else length s"
  let ?m = "\<lambda>q. strncasecmp_eq (?k q) s mem q"
  have "\<exists>b. ?m q = Inr b" if "start \<le> q" "q < stop" for q
    using strncasecmp_inside [OF mem, of s "?k q" q] s p that by (auto simp: plain_name_def no_nul_def inside_def)
  then obtain r where r: "search ?m (\<lambda>c. c = hd s) mem start stop = Inr r"
      "\<forall>q. r = Some q \<longrightarrow> start \<le> q \<and> q < stop \<and> ?m q = Inr True"
    using search_inside [of start stop ?m mem "\<lambda>c. c = hd s"] p terminatedD [OF mem] by (fastforce simp: inside_def)
  have "?k q > 0" if "q < stop" for q using s that by (auto simp: plain_name_def)
  with r show ?thesis unfolding memFindStr_def by blast
qed

lemma safe_memFindEOL [safe]:
  assumes "terminated mem n" "inside n p" "inside n limit"
  shows "memory_safe (memFindEOL mem p limit) (inside n)"
  unfolding memFindEOL_def
  by (rule safe_andThen [OF safe_scan [OF assms]], elim conjE, rule safe_andThen [OF safe_peek [OF assms(1)]])
    (use assms in auto)

section \<open>Grabbing\<close>

lemma safe_GrabToken [safe]:
  assumes "terminated mem n" "inside n p" "inside n limit"
  shows "memory_safe (GrabToken mem p limit out) (\<lambda>_. True)"
  unfolding GrabToken_def by (rule safe_andThen [OF safe_scan [OF assms]]) simp

lemma safe_SkipWhitespaces [safe]:
  assumes "terminated mem n" "inside n p" "inside n limit"
  shows "memory_safe (SkipWhitespaces mem p limit) (inside n)"
  unfolding SkipWhitespaces_def by (rule memory_safe_mono [OF safe_scan [OF assms]]) simp

lemma safe_GrabTokenSkip [safe]:
  assumes "terminated mem n" "inside n p" "inside n limit"
  shows "memory_safe (GrabTokenSkipLeadingWhitespaces mem p limit out) (\<lambda>_. True)"
  unfolding GrabTokenSkipLeadingWhitespaces_def
  by (rule safe_andThen [OF safe_scan [OF assms]], elim conjE) (rule safe_GrabToken [OF assms(1) _ assms(3)])

lemma safe_GrabSipUriDomain [safe]:
  assumes mem: "terminated mem n" and p: "inside n p" "inside n limit"
  shows "memory_safe (GrabSipUriDomain mem p limit out) (\<lambda>_. True)"
  unfolding GrabSipUriDomain_def
proof (rule safe_andThen [OF safe_SkipWhitespaces [OF mem p]], rule safe_if)
  fix w assume w: "inside n w" and lt: "\<not> limit \<le> w"
  from unbounded_inside [OF mem w, of "\<lambda>c. c \<noteq> CHR ''@'' \<and> code_of c \<noteq> 0"] obtain a where
    a: "unbounded_scan (\<lambda>c. c \<noteq> CHR ''@'' \<and> code_of c \<noteq> 0) mem w = Inr a" "inside n a" by (auto simp: code_of_def)
  have strchr: "strchr_at mem w = Inr (if mem ! nat a = CHR ''@'' then Some a else None)"
    unfolding strchr_at_def a(1) using inside_length [OF mem a(2)] by simp
  show "memory_safe (andThen (strchr_at mem w) (\<lambda>at. case at of None \<Rightarrow> Inr out | Some a \<Rightarrow>
      andThen (peek mem (a + 1)) (\<lambda>x. if code_of x = 0 \<or> a + 1 \<ge> limit then Inr out
        else andThen (scan domain_char mem (a + 1) limit) (\<lambda>c. Inr (out @ between mem (a + 1) c))))) (\<lambda>_. True)"
  proof (cases "mem ! nat a = CHR ''@''")
    case True
    have "mem ! nat n \<noteq> CHR ''@''" using mem by (auto simp: terminated_def code_of_def)
    with True have "a \<noteq> n" by auto
    then have next_in: "inside n (a + 1)" using a(2) by (auto simp: inside_def)
    have "memory_safe (andThen (peek mem (a + 1)) (\<lambda>x. if code_of x = 0 \<or> a + 1 \<ge> limit then Inr out
        else andThen (scan domain_char mem (a + 1) limit) (\<lambda>c. Inr (out @ between mem (a + 1) c)))) (\<lambda>_. True)"
      by (rule safe_andThen [OF safe_peek [OF mem next_in]], rule safe_if, simp,
          rule safe_andThen [OF safe_scan [OF mem next_in p(2)]], simp)
    then show ?thesis using True by (simp add: strchr)
  qed (simp add: strchr)
qed simp

lemma safe_GrabSipName [safe]:
  assumes mem: "terminated mem n" and p: "inside n p" "inside n limit"
  shows "memory_safe (GrabSipName mem p limit out) (\<lambda>_. True)"
  unfolding GrabSipName_def
proof (rule safe_andThen [OF safe_SkipWhitespaces [OF mem p]])
  fix w assume "inside n w"
  from memFindStr_inside [OF mem plain_sip(1) this p(2)] obtain r where "memFindStr ''<sip:'' mem w limit = Inr r" by blast
  then show "memory_safe (andThen (memFindStr ''<sip:'' mem w limit) (\<lambda>found. if w \<ge> limit then Inr out
      else case found of None \<Rightarrow> Inr out | Some nameEnd \<Rightarrow> if nameEnd \<le> w then Inr out
        else Inr (out @ sip_name_loop True (between mem w nameEnd)))) (\<lambda>_. True)"
    by (simp split: option.split)
qed

lemma safe_GrabSipUser [safe]:
  assumes mem: "terminated mem n" and p: "inside n p" "inside n limit"
  shows "memory_safe (GrabSipUserAddress mem p limit out) (\<lambda>_. True)" "memory_safe (GrabSipUriUser mem p limit out) (\<lambda>_. True)"
  unfolding GrabSipUserAddress_def GrabSipUriUser_def
  by (rule safe_andThen [OF safe_SkipWhitespaces [OF mem p]], rule safe_if, simp,
      rule safe_andThen [OF safe_scan [OF mem _ p(2)]], assumption, simp)+

lemma safe_GrabLine [safe]:
  assumes "terminated mem n" "inside n p" "inside n limit"
  shows "memory_safe (GrabLine mem p limit out) (\<lambda>(c, _). inside n c)"
  unfolding GrabLine_def by (rule safe_andThen [OF safe_bounded_scan [OF assms]]) simp

lemma safe_GrabLineSkip [safe]:
  assumes "terminated mem n" "inside n p" "inside n limit"
  shows "memory_safe (GrabLineSkipLeadingWhitespace mem p limit out) (\<lambda>_. True)"
  unfolding GrabLineSkipLeadingWhitespace_def
  by (rule safe_andThen [OF safe_SkipWhitespaces [OF assms]], rule safe_andThen [OF safe_GrabLine [OF assms(1) _ assms(3)]])
    (auto split: prod.split)

section \<open>Payload type mapping\<close>

definition map_ok :: "nat list \<Rightarrow> bool" where
  "map_ok m \<longleftrightarrow> length m = 32 \<and> list_all (\<lambda>v. v < 127) m"

lemma first_codec_range: "list_all (\<lambda>(_, pt). 0 \<le> pt \<and> pt < 127) codecs \<Longrightarrow> 0 \<le> first_codec codecs s \<and> first_codec codecs s < 127"
  by (induction codecs s rule: first_codec.induct) auto

lemma codec_range: "0 \<le> GetOrekaRtpPayloadTypeForSdpRtpMap s \<and> GetOrekaRtpPayloadTypeForSdpRtpMap s < 127"
  unfolding GetOrekaRtpPayloadTypeForSdpRtpMap_def by (rule first_codec_range) simp

lemma codec_byte: "unat (word_of_int (GetOrekaRtpPayloadTypeForSdpRtpMap s) :: u8) < 127"
proof -
  have "uint (word_of_int (GetOrekaRtpPayloadTypeForSdpRtpMap s) :: u8) = GetOrekaRtpPayloadTypeForSdpRtpMap s"
    using codec_range [of s] by (simp add: uint_word_of_int_eq take_bit_int_eq_self)
  then show ?thesis using codec_range [of s] by (simp add: unat_eq_nat_uint nat_less_iff)
qed

lemma safe_StringToInt [safe]: "memory_safe (StringToInt s) (\<lambda>_. True)"
  by (auto simp: StringToInt_def split: prod.split)

lemma rtpmap_line_safe:
  assumes mem: "terminated mem n" "n + 9 < int (length mem)" and pos: "inside n pos" "pos < stop" "stop \<le> n" and m: "map_ok m"
    and start: "to_lower (mem ! nat pos) = CHR ''a''"
  shows "memory_safe (rtpmap_line mem pos stop m) (\<lambda>(line, m'). map_ok m' \<and> 0 < length line \<and> pos + int (length line) \<le> stop)"
proof -
  let ?q = "\<lambda>c. code_of c \<noteq> 0 \<and> \<not> is_eol c"
  from scan_ok [of pos stop mem ?q] pos terminatedD [OF mem(1)] obtain c where
    c: "scan ?q mem pos stop = Inr c" "pos \<le> c" "c \<le> stop" "c < stop \<longrightarrow> \<not> ?q (mem ! nat c)" by (auto simp: inside_def)
  have "code_of (to_lower (mem ! nat pos)) = 97" using start by (simp add: code_of_def)
  then have "?q (mem ! nat pos)" by (auto simp: code_of_to_lower is_upper_def is_eol_def split: if_splits)
  with c pos have gt: "pos < c" by (cases "c = pos") auto
  have line: "GrabTokenAcceptSpace mem pos stop [] = Inr (between mem pos c)" "0 < length (between mem pos c)"
    "pos + int (length (between mem pos c)) \<le> stop"
    using c gt pos terminatedD [OF mem(1)] by (simp_all add: GrabTokenAcceptSpace_def length_between inside_def)
  have pl: "memory_safe (GrabToken mem (pos + int (length rtpmap_prefix)) stop []) (\<lambda>_. True)"
  proof (cases "pos + 9 \<le> n")
    case True
    then show ?thesis using safe_GrabToken [OF mem(1), of "pos + 9" stop] pos by (simp add: inside_def rtpmap_prefix_def)
  next
    case False
    then show ?thesis
      using scan_beyond [of "pos + 9" mem stop token_char] mem pos by (simp add: GrabToken_def inside_def rtpmap_prefix_def)
  qed
  have upd: "map_ok (m[i := unat (word_of_int (GetOrekaRtpPayloadTypeForSdpRtpMap s) :: u8)])" for i s
    using m codec_byte by (auto simp: map_ok_def list_all_iff dest!: subsetD [OF set_update_subset_insert])
  show ?thesis
    unfolding rtpmap_line_def line(1) andThen_Inr
  proof (rule safe_andThen [OF pl], rule safe_andThen)
    fix plStr show "memory_safe (if plStr \<noteq> [] then StringToInt plStr else Inr (- 1)) (\<lambda>_. True)"
      by (simp add: safe_StringToInt)
  qed (use m line upd in \<open>auto simp: Let_def map_ok_def\<close>)
qed

lemma rtpmap_loop_safe:
  assumes mem: "terminated mem n" "n + 9 < int (length mem)" and stop: "inside n stop"
  shows "inside n pos \<Longrightarrow> nat (stop - pos) < fuel \<Longrightarrow> map_ok m \<Longrightarrow>
    memory_safe (rtpmap_loop fuel mem pos stop m) (\<lambda>r. case r of None \<Rightarrow> False | Some m' \<Rightarrow> map_ok m')"
proof (induction fuel arbitrary: pos m)
  case (Suc k)
  from memFindStr_inside [OF mem(1) plain_sip(2) Suc.prems(1) stop] obtain r where
    r: "memFindStr rtpmap_prefix mem pos stop = Inr r"
      "\<forall>p. r = Some p \<longrightarrow> pos \<le> p \<and> p < stop \<and> (\<exists>k>0. strncasecmp_eq k rtpmap_prefix mem p = Inr True)" by blast
  show ?case
  proof (cases r)
    case None
    then show ?thesis using r Suc.prems by simp
  next
    case (Some p)
    with r(2) obtain k' where p: "pos \<le> p" "p < stop" "k' > 0" "strncasecmp_eq k' rtpmap_prefix mem p = Inr True" by auto
    have p_in: "inside n p" using p Suc.prems(1) stop by (auto simp: inside_def)
    have "to_lower (mem ! nat p) = CHR ''a''"
      using memFindStr_first_char [OF p(4,3) plain_sip(2)] inside_length [OF mem(1) p_in]
      by (simp add: rtpmap_prefix_def to_lower_def is_upper_def code_of_def)
    note line = rtpmap_line_safe [OF mem p_in p(2) conjunct2 [OF stop [unfolded inside_def]] Suc.prems(3) this]
    have "memory_safe (andThen (rtpmap_line mem p stop m) (\<lambda>(fullLine, m). rtpmap_loop k mem (p + int (length fullLine)) stop m))
        (\<lambda>r. case r of None \<Rightarrow> False | Some m' \<Rightarrow> map_ok m')"
    proof (rule safe_andThen [OF line], clarsimp)
      fix line :: string and m' assume l: "map_ok m'" "line \<noteq> []" "p + int (length line) \<le> stop"
      then have "0 < length line" by simp
      then have "nat (stop - (p + int (length line))) < k" "inside n (p + int (length line))"
        using l p p_in stop Suc.prems(2) unfolding inside_def by linarith+
      then show "memory_safe (rtpmap_loop k mem (p + int (length line)) stop m')
          (\<lambda>r. case r of None \<Rightarrow> False | Some m' \<Rightarrow> map_ok m')" using l(1) by (intro Suc.IH)
    qed
    then show ?thesis using r(1) Some by simp
  qed
qed simp

lemma safe_GetDynamicPayloadMapping [safe]:
  assumes "terminated mem n" "n + 9 < int (length mem)" "inside n start" "inside n stop" "map_ok m"
  shows "memory_safe (GetDynamicPayloadMapping mem start stop m) (\<lambda>r. case r of None \<Rightarrow> False | Some m' \<Rightarrow> map_ok m')"
  unfolding GetDynamicPayloadMapping_def using assms by (intro rtpmap_loop_safe) auto

section \<open>Addresses\<close>

lemma pton4_safe:
  "length tmp = 4 \<Longrightarrow> octets \<le> 4 \<Longrightarrow> tp = (if saw then int octets - 1 else int octets) \<Longrightarrow> tp < 4 \<Longrightarrow> 0 \<le> tp \<Longrightarrow>
   memory_safe (pton4_loop src tmp tp saw octets) (\<lambda>r. case r of None \<Rightarrow> True | Some bytes \<Rightarrow> length bytes = 4)"
  by (induction src tmp tp saw octets rule: pton4_loop.induct) (auto simp: Let_def)

lemma safe_inet_pton4 [safe]:
  "length garbage = 3 \<Longrightarrow> memory_safe (inet_pton4 garbage src) (\<lambda>r. case r of None \<Rightarrow> True | Some bytes \<Rightarrow> length bytes = 4)"
  unfolding inet_pton4_def by (rule pton4_safe) simp_all

section \<open>Comparing and copying\<close>

lemma safe_mem_slice [safe]:
  "0 \<le> p \<Longrightarrow> p + int k \<le> int (length mem) \<Longrightarrow> memory_safe (mem_slice mem p k) (\<lambda>s. s = between mem p (p + int k))"
  by (simp add: mem_slice_ok between_def)

section \<open>Properties\<close>

text \<open>C25: Where an SDP body is followed by a NUL and nine more readable bytes, reading its dynamic payload types terminates: the
  loop over its \<open>a=rtpmap:\<close> lines ends (it may throw on a malformed number) without leaving the memory or the 32 entries
  of the map, whose values stay payload types (below 127). Without the nine bytes the code reads past the end of the
  memory (\<open>GetDynamicPayloadMapping_overread\<close>).\<close>

theorem GetDynamicPayloadMapping_terminates:
  assumes "terminated mem stop" "stop + 9 < int (length mem)" "0 \<le> start" "start \<le> stop" "map_ok m"
  shows "(\<exists>e. GetDynamicPayloadMapping mem start stop m = Inl (Thrown e)) \<or>
    (\<exists>m'. GetDynamicPayloadMapping mem start stop m = Inr (Some m') \<and> map_ok m')"
  using safe_GetDynamicPayloadMapping [of mem stop start stop m] assms
  by (auto simp: memory_safe_def inside_def split: sum.splits fault.splits option.splits)

lemma GetDynamicPayloadMapping_terminates_witness:
  "(\<exists>e. GetDynamicPayloadMapping (''a=rtpmap:96 opus/48000'' @ replicate 11 (char_of (0 :: nat))) 0 22 (replicate 32 0) = Inl (Thrown e)) \<or>
   (\<exists>m'. GetDynamicPayloadMapping (''a=rtpmap:96 opus/48000'' @ replicate 11 (char_of (0 :: nat))) 0 22 (replicate 32 0) = Inr (Some m') \<and> map_ok m')"
  by (rule GetDynamicPayloadMapping_terminates)
    (simp_all add: terminated_def code_of_def map_ok_def list_all_iff nth_append)

text \<open>Without those bytes it reads past the end: the search accepts a prefix cut off by the end of the body.\<close>

lemma GetDynamicPayloadMapping_overread:
  "GetDynamicPayloadMapping (''v=0 a=r'' @ [char_of (0 :: nat)]) 0 7 (replicate 32 0) = Inl OutOfBounds"
  by code_simp

end
