(* ===== verification/StdMap.thy ===== *)
theory StdMap
  imports Prelude "HOL-Library.List_Lexorder" "HOL-Library.Char_ord"
begin

text \<open>
  \<open>std::map\<close> as the component code uses it: an association list in increasing order of its keys, which is the
  order of its iterators. \<open>insert\<close> keeps the value of a key that is already there.
\<close>

type_synonym ('k, 'v) std_map = "('k \<times> 'v) list"

definition map_find :: "'k \<Rightarrow> ('k, 'v) std_map \<Rightarrow> 'v option" where
  "map_find k m = map_of m k"

fun map_insert :: "'k::linorder \<Rightarrow> 'v \<Rightarrow> ('k, 'v) std_map \<Rightarrow> ('k, 'v) std_map" where
  "map_insert k v [] = [(k, v)]"
| "map_insert k v ((k', v') # m) =
     (if k < k' then (k, v) # (k', v') # m
      else if k = k' then (k', v') # m
      else (k', v') # map_insert k v m)"

definition map_erase :: "'k \<Rightarrow> ('k, 'v) std_map \<Rightarrow> ('k, 'v) std_map" where
  "map_erase k m = filter (\<lambda>(k', v). k' \<noteq> k) m"

text \<open>\<open>m[k] = v\<close>, and the change of a value through an iterator.\<close>

definition map_assign :: "'k::linorder \<Rightarrow> 'v \<Rightarrow> ('k, 'v) std_map \<Rightarrow> ('k, 'v) std_map" where
  "map_assign k v m = map_insert k v (map_erase k m)"

definition map_change :: "'k \<Rightarrow> ('v \<Rightarrow> 'v) \<Rightarrow> ('k, 'v) std_map \<Rightarrow> ('k, 'v) std_map" where
  "map_change k f m = map (\<lambda>(k', v). (k', if k' = k then f v else v)) m"

definition map_sorted :: "('k::linorder, 'v) std_map \<Rightarrow> bool" where
  "map_sorted m \<longleftrightarrow> sorted_wrt (<) (map fst m)"

named_theorems std_map

lemma map_find_Nil [std_map]: "map_find k [] = None"
  by (simp add: map_find_def)

lemma map_find_erase [std_map]: "map_find k' (map_erase k m) = (if k' = k then None else map_find k' m)"
  by (induction m) (auto simp: map_find_def map_erase_def)

lemma map_find_insert [std_map]:
  "map_sorted m \<Longrightarrow> map_find k' (map_insert k v m) =
     (if k' = k \<and> map_find k m = None then Some v else map_find k' m)"
proof (induction m)
  case (Cons a m)
  obtain x y where a: "a = (x, y)" by (cases a)
  have later: "map_of m k = None" if "k < x" using Cons.prems that a
    by (auto simp: map_sorted_def map_of_eq_None_iff)
  from Cons a later show ?case by (auto simp: map_find_def map_sorted_def)
qed (simp add: map_find_def)

lemma map_find_change [std_map]:
  "map_find k' (map_change k f m) = (if k' = k then map_option f (map_find k m) else map_find k' m)"
  by (induction m) (auto simp: map_find_def map_change_def)

lemma keys_insert: "fst ` set (map_insert k v m) = insert k (fst ` set m)"
  by (induction k v m rule: map_insert.induct) auto

lemma map_sorted_Nil [std_map]: "map_sorted []"
  by (simp add: map_sorted_def)

lemma map_sorted_insert [std_map]: "map_sorted m \<Longrightarrow> map_sorted (map_insert k v m)"
proof (induction m)
  case (Cons a m)
  obtain x y where a: "a = (x, y)" by (cases a)
  with Cons have IH: "map_sorted (map_insert k v m)" "\<forall>z \<in> fst ` set m. x < z" by (auto simp: map_sorted_def)
  then have "x < z" if "z \<in> fst ` set (map_insert k v m)" "x < k" for z using that by (auto simp: keys_insert)
  moreover have "k < z" if "k < x" "z \<in> fst ` set m" for z using that IH(2) by force
  ultimately show ?case using Cons.prems IH(1) a by (auto simp: map_sorted_def)
qed (simp add: map_sorted_def)

lemma map_sorted_erase [std_map]: "map_sorted m \<Longrightarrow> map_sorted (map_erase k m)"
  unfolding map_sorted_def map_erase_def by (induction m) (auto split: if_splits)

lemma map_sorted_change [std_map]: "map_sorted (map_change k f m) = map_sorted m"
proof -
  have "map fst (map_change k f m) = map fst m" by (simp add: map_change_def case_prod_beta)
  then show ?thesis by (simp add: map_sorted_def)
qed

lemma map_find_set: "map_find k m = Some v \<Longrightarrow> (k, v) \<in> set m"
  by (simp add: map_find_def map_of_SomeD)

lemma map_find_iff: "map_sorted m \<Longrightarrow> map_find k m = Some v \<longleftrightarrow> (k, v) \<in> set m"
proof -
  assume "map_sorted m"
  then have "distinct (map fst m)" unfolding map_sorted_def by (induction m) auto
  then show ?thesis by (simp add: map_find_def)
qed

lemma map_erase_None: "map_find k m = None \<Longrightarrow> map_erase k m = m"
  by (induction m) (auto simp: map_find_def map_erase_def split: if_splits)

lemma map_sorted_unique: "map_sorted m \<Longrightarrow> (k, v) \<in> set m \<Longrightarrow> (k, v') \<in> set m \<Longrightarrow> v = v'"
  using map_find_iff [of m k v] map_find_iff [of m k v'] by simp

end
