(* ===== verification/SipHeaders.thy ===== *)
theory SipHeaders
  imports StdMap
begin

text \<open>
  What the SIP parsers report to the sessions: \<open>audiocaptureplugins/voip/SipHeaders.{h,cpp}\<close>. An IPv4
  address is its value in host order. The records have the fields that the parsers fill in; the
  \<open>ToString\<close> methods only produce log text.
\<close>

record SipInviteInfo =
  m_sipMethod :: string
  m_senderIp :: u32
  m_originalSenderIp :: u32
  m_receiverIp :: u32
  m_fromRtpIp :: u32
  m_senderMac :: "u8 list"
  m_receiverMac :: "u8 list"
  m_fromRtpPort :: string
  m_from :: string
  m_to :: string
  m_callId :: string
  m_replacesId :: string
  m_requestUri :: string
  m_validated :: bool
  m_attrSendonly :: bool
  m_extractedFields :: "(string, string) std_map"
  m_telephoneEventPayloadType :: int
  m_fromDomain :: string
  m_toDomain :: string
  m_fromName :: string
  m_toName :: string
  m_userAgent :: string
  m_sipDialedNumber :: string
  m_sipRemoteParty :: string
  m_contact :: string
  m_contactName :: string
  m_contactDomain :: string
  m_SipGroupPickUpPatternDetected :: bool
  m_orekaRtpPayloadTypeMap :: "nat list"
  m_recvTime :: int

record SipFailureMessageInfo =
  m_senderIp :: u32
  m_receiverIp :: u32
  m_senderMac :: "u8 list"
  m_receiverMac :: "u8 list"
  m_callId :: string
  m_errorCode :: string
  m_errorString :: string

record Sip302MovedTemporarilyInfo =
  m_senderIp :: u32
  m_receiverIp :: u32
  m_from :: string
  m_to :: string
  m_contact :: string
  m_callId :: string
  m_fromDomain :: string
  m_toDomain :: string
  m_contactDomain :: string
  m_fromName :: string
  m_toName :: string
  m_contactName :: string

record SipByeInfo =
  m_callId :: string
  m_senderIp :: u32
  m_receiverIp :: u32
  m_from :: string
  m_to :: string
  m_fromDomain :: string
  m_toDomain :: string
  m_fromName :: string
  m_toName :: string

record SipNotifyInfo =
  m_callId :: string
  m_senderIp :: u32
  m_receiverIp :: u32
  m_dsp :: string
  m_onHoldMarker :: bool
  m_offHoldMarker :: bool
  m_pkey :: int

record Sip200OkInfo =
  m_callId :: string
  m_hasSdp :: bool
  m_mediaIp :: u32
  m_mediaPort :: string
  m_senderIp :: u32
  m_receiverIp :: u32
  m_from :: string
  m_to :: string
  m_extractedFields :: "(string, string) std_map"

record SipSubscribeInfo =
  m_callId :: string
  m_event :: string

record SipSessionProgressInfo =
  m_callId :: string
  m_mediaIp :: u32
  m_mediaPort :: string
  m_senderIp :: u32
  m_originalSenderIp :: u32
  m_receiverIp :: u32
  m_from :: string
  m_to :: string

record SipInfo =
  m_callId :: string
  m_dtmfDigit :: string
  m_cSeq :: string
  m_onDemand :: bool
  m_onDemandOff :: bool

record SipRefer =
  m_timestamp :: int
  m_senderIp :: u32
  m_receiverIp :: u32
  m_from :: string
  m_to :: string
  m_toDomain :: string
  m_fromDomain :: string
  m_fromName :: string
  m_toName :: string
  m_callId :: string
  m_referToParty :: string
  m_referredByParty :: string
  m_referredParty :: string
  m_origOrkUid :: string

record RtcpSrcDescriptionPacketInfo =
  m_sourceIp :: u32
  m_destIp :: u32
  m_sourcePort :: u16
  m_destPort :: u16
  m_cnameUsername :: string
  m_cnameDomain :: string

text \<open>The constructors set these; the parsers fill in the rest.\<close>

definition new_SipInviteInfo :: SipInviteInfo where
  "new_SipInviteInfo = \<lparr>m_sipMethod = '''', m_senderIp = 0, m_originalSenderIp = 0, m_receiverIp = 0, m_fromRtpIp = 0,
     m_senderMac = replicate 6 0, m_receiverMac = replicate 6 0, m_fromRtpPort = '''', m_from = '''', m_to = '''',
     m_callId = '''', m_replacesId = '''', m_requestUri = '''', m_validated = False, m_attrSendonly = False,
     m_extractedFields = [], m_telephoneEventPayloadType = 0, m_fromDomain = '''', m_toDomain = '''', m_fromName = '''',
     m_toName = '''', m_userAgent = '''', m_sipDialedNumber = '''', m_sipRemoteParty = '''', m_contact = '''', m_contactName = '''', m_contactDomain = '''',
     m_SipGroupPickUpPatternDetected = False, m_orekaRtpPayloadTypeMap = replicate 32 0, m_recvTime = 0\<rparr>"

end
