(* ===== verification/AudioChunk.thy ===== *)
theory AudioChunk
  imports Prelude
begin

text \<open>
  The audio chunk of \<open>orkbasecxx/AudioCapture.{h,cpp}\<close>: \<open>AudioChunkDetails\<close>, \<open>AudioChunk\<close> with its
  mono buffer and its per-channel buffers, and the operations that allocate, copy and free them.
  A \<open>void*\<close> buffer is a list of bytes, \<open>None\<close> where the pointer is NULL. Allocation is assumed to
  succeed. An operation that throws yields only the fault: the half-updated object is not kept.
\<close>

section \<open>Data\<close>

datatype AudioEncodingEnum =
    UnknownAudio | PcmAudio | AlawAudio | UlawAudio | GsmAudio | IlbcAudio | G722Audio
  | G721Audio | SilkAudio | OpusAudio | AmrNb | AmrWb | G729Audio | InvalidAudio

record AudioChunkDetails =
  m_marker :: u32
  m_encoding :: AudioEncodingEnum
  m_numBytes :: u32
  m_timestamp :: u32
  m_arrivalTimestamp :: u32
  m_sequenceNumber :: u32
  m_sampleRate :: u32
  m_rtpPayloadType :: u8
  m_channel :: u8

definition MEDIA_CHUNK_MARKER :: u32 where
  "MEDIA_CHUNK_MARKER = 0x2A2A2A2A"

definition MEDIA_CHUNK_EOS_MARKER :: u32 where
  "MEDIA_CHUNK_EOS_MARKER = 0x454F534D"

definition details_Clear :: AudioChunkDetails where
  "details_Clear = \<lparr>m_marker = MEDIA_CHUNK_MARKER, m_encoding = UnknownAudio, m_numBytes = 0,
     m_timestamp = 0, m_arrivalTimestamp = 0, m_sequenceNumber = 0, m_sampleRate = 8000,
     m_rtpPayloadType = - 1, m_channel = 0\<rparr>"

record AudioChunk =
  m_details :: AudioChunkDetails
  m_pBuffer :: "u8 list option"
  m_numChannels :: int
  m_pChannelAudio :: "u8 list option list option"

section \<open>Operations\<close>

definition new_AudioChunk :: AudioChunk where
  "new_AudioChunk = \<lparr>m_details = details_Clear, m_pBuffer = None, m_numChannels = 0,
     m_pChannelAudio = None\<rparr>"

definition new_AudioChunk_channels :: "int \<Rightarrow> AudioChunk" where
  "new_AudioChunk_channels numChannels =
     (let n = (if numChannels \<le> 0 then 1 else numChannels)
      in \<lparr>m_details = details_Clear\<lparr>m_channel := 100\<rparr>, m_pBuffer = None, m_numChannels = n,
          m_pChannelAudio = Some (replicate (nat n) None)\<rparr>)"

text \<open>
  \<open>FreeAll\<close> walks \<open>m_pChannelAudio[0 .. m_numChannels - 1]\<close> and then sets the array pointer (but
  not the channel count) to NULL.
\<close>

definition FreeAll :: "AudioChunk \<Rightarrow> AudioChunk result" where
  "FreeAll c =
     (let c1 = c\<lparr>m_pBuffer := None\<rparr>
      in if m_numChannels c1 = 0 then Inr c1
         else if m_numChannels c1 < 0 then Inr (c1\<lparr>m_pChannelAudio := None\<rparr>)
         else (case m_pChannelAudio c1 of
             None \<Rightarrow> Inl NullDereference
           | Some chans \<Rightarrow>
               if m_numChannels c1 \<le> int (length chans) then Inr (c1\<lparr>m_pChannelAudio := None\<rparr>)
               else Inl OutOfBounds))"

definition CreateMultiChannelBuffers :: "AudioChunkDetails \<Rightarrow> AudioChunk \<Rightarrow> AudioChunk result" where
  "CreateMultiChannelBuffers details c =
     (if m_numChannels c \<le> 0 then Inr c
      else (case m_pChannelAudio c of
          None \<Rightarrow> Inl NullDereference
        | Some chans \<Rightarrow>
            if m_numChannels c \<le> int (length chans)
            then Inr (c\<lparr>m_pChannelAudio :=
                   Some (replicate (nat (m_numChannels c)) (Some (replicate (unat (m_numBytes details)) 0))
                         @ drop (nat (m_numChannels c)) chans)\<rparr>)
            else Inl OutOfBounds))"

definition CreateBuffer :: "AudioChunkDetails \<Rightarrow> AudioChunk \<Rightarrow> AudioChunk result" where
  "CreateBuffer details c =
     andThen (FreeAll c) (\<lambda>c1.
     andThen (if m_numBytes details \<noteq> 0
              then CreateMultiChannelBuffers details
                     (c1\<lparr>m_pBuffer := Some (replicate (unat (m_numBytes details)) 0)\<rparr>)
              else Inr c1) (\<lambda>c2.
     if m_pBuffer c2 = None
     then Inl (Thrown ''AudioChunk::AudioChunk: could not calloc a buffer'')
     else Inr (c2\<lparr>m_details := details\<rparr>)))"

text \<open>
  \<open>SetBuffer(void*, AudioChunkDetails&)\<close>. The source is the memory readable from the pointer on;
  \<open>memcpy\<close> reads \<open>details.m_numBytes\<close> bytes of it.
\<close>

definition SetBuffer :: "u8 list option \<Rightarrow> AudioChunkDetails \<Rightarrow> AudioChunk \<Rightarrow> AudioChunk result" where
  "SetBuffer pBuffer details c =
     (let c1 = (if m_pBuffer c \<noteq> None
                then c\<lparr>m_pBuffer := None, m_details := (m_details c)\<lparr>m_numBytes := 0\<rparr>\<rparr> else c)
      in case pBuffer of
           None \<Rightarrow> Inr c1
         | Some src \<Rightarrow>
             if m_numBytes details = 0 then Inr c1
             else andThen (mem_slice src 0 (unat (m_numBytes details))) (\<lambda>bytes.
                  Inr (c1\<lparr>m_pBuffer := Some bytes, m_details := details\<rparr>)))"

definition SetBuffer_chan ::
  "u8 list option \<Rightarrow> AudioChunkDetails \<Rightarrow> int \<Rightarrow> AudioChunk \<Rightarrow> AudioChunk result" where
  "SetBuffer_chan pBuffer details chan c =
     (if chan > m_numChannels c \<or> chan < 1
      then Inl (Thrown ''AudioChunk::SetBuffer: invalid channel'')
      else (case m_pChannelAudio c of
          None \<Rightarrow> Inl NullDereference
        | Some chans \<Rightarrow>
            andThen (poke chans (chan - 1) None) (\<lambda>freed.
            (case pBuffer of
               None \<Rightarrow> Inr (c\<lparr>m_pChannelAudio := Some freed\<rparr>)
             | Some src \<Rightarrow>
                 if m_numBytes details = 0 then Inr (c\<lparr>m_pChannelAudio := Some freed\<rparr>)
                 else andThen (mem_slice src 0 (unat (m_numBytes details))) (\<lambda>bytes.
                      andThen (poke freed (chan - 1) (Some bytes)) (\<lambda>chans'.
                      Inr (c\<lparr>m_pChannelAudio := Some chans'\<rparr>)))))))"

definition GetNumSamples :: "AudioChunk \<Rightarrow> int result" where
  "GetNumSamples c =
     (case m_encoding (m_details c) of
        PcmAudio \<Rightarrow> Inr (sint (m_numBytes (m_details c) div 2))
      | AlawAudio \<Rightarrow> Inr (sint (m_numBytes (m_details c)))
      | UlawAudio \<Rightarrow> Inr (sint (m_numBytes (m_details c)))
      | _ \<Rightarrow> Inl (Thrown ''AudioChunk::GetNumSamples(): unknown encoding''))"

definition GetNumBytes :: "AudioChunk \<Rightarrow> int" where
  "GetNumBytes c = sint (m_numBytes (m_details c))"

section \<open>Samples as bytes\<close>

text \<open>\<open>(short*)\<close> casts of byte buffers on the little-endian targets of the code.\<close>

definition short_of_bytes :: "u8 \<Rightarrow> u8 \<Rightarrow> u16" where
  "short_of_bytes lo hi = push_bit 8 (ucast hi) OR ucast lo"

fun shorts_of_bytes :: "u8 list \<Rightarrow> u16 list" where
  "shorts_of_bytes (lo # hi # bs) = short_of_bytes lo hi # shorts_of_bytes bs"
| "shorts_of_bytes _ = []"

definition bytes_of_shorts :: "u16 list \<Rightarrow> u8 list" where
  "bytes_of_shorts ws = concat (map (\<lambda>w. [ucast w, ucast (drop_bit 8 w)]) ws)"

lemma bytes_of_shorts_simps [simp]:
  "bytes_of_shorts [] = []"
  "bytes_of_shorts (w # ws) = ucast w # ucast (drop_bit 8 w) # bytes_of_shorts ws"
  by (simp_all add: bytes_of_shorts_def)

lemma bytes_of_shorts_append: "bytes_of_shorts (xs @ ys) = bytes_of_shorts xs @ bytes_of_shorts ys"
  by (simp add: bytes_of_shorts_def)

lemma length_bytes_of_shorts [simp]: "length (bytes_of_shorts ws) = 2 * length ws"
  by (induction ws) auto

lemma take_bytes_of_shorts: "take (2 * n) (bytes_of_shorts ws) = bytes_of_shorts (take n ws)"
  by (induction ws arbitrary: n) (auto split: nat.split simp: take_Cons)

lemma drop_bytes_of_shorts: "drop (2 * n) (bytes_of_shorts ws) = bytes_of_shorts (drop n ws)"
  by (induction ws arbitrary: n) (auto split: nat.split simp: drop_Cons)

lemma short_of_bytes_split: "short_of_bytes (ucast w) (ucast (drop_bit 8 w)) = w"
  by (rule bit_word_eqI) (auto simp: short_of_bytes_def bit_simps)

lemma shorts_of_bytes_of_shorts [simp]: "shorts_of_bytes (bytes_of_shorts ws) = ws"
  by (induction ws) (simp_all add: short_of_bytes_split)

lemma length_shorts_of_bytes: "length (shorts_of_bytes bs) = length bs div 2"
  by (induction bs rule: shorts_of_bytes.induct) auto

section \<open>Well-formed chunks\<close>

text \<open>
  The shape every chunk has between operations: the mono buffer has exactly \<open>m_numBytes\<close> bytes,
  and the channel array exists exactly when the chunk has channels, with one slot each.
\<close>

definition wf_chunk :: "AudioChunk \<Rightarrow> bool" where
  "wf_chunk c \<longleftrightarrow>
     (case m_pBuffer c of None \<Rightarrow> m_numBytes (m_details c) = 0
      | Some b \<Rightarrow> length b = unat (m_numBytes (m_details c))) \<and>
     0 \<le> m_numChannels c \<and>
     (if m_numChannels c = 0 then m_pChannelAudio c = None
      else (\<exists>chans. m_pChannelAudio c = Some chans \<and> int (length chans) = m_numChannels c))"

lemma wf_new_AudioChunk [simp]: "wf_chunk new_AudioChunk"
  by (simp add: wf_chunk_def new_AudioChunk_def details_Clear_def)

lemma wf_new_AudioChunk_channels [simp]: "wf_chunk (new_AudioChunk_channels n)"
  by (simp add: wf_chunk_def new_AudioChunk_channels_def details_Clear_def Let_def)

lemma SetBuffer_ok:
  assumes "m_numBytes details \<noteq> 0" "unat (m_numBytes details) \<le> length src"
  shows "SetBuffer (Some src) details c =
     Inr (c\<lparr>m_pBuffer := Some (take (unat (m_numBytes details)) src), m_details := details\<rparr>)"
  using assms by (simp add: SetBuffer_def Let_def mem_slice_ok)

lemma SetBuffer_wf: "wf_chunk c \<Longrightarrow> SetBuffer src details c = Inr c' \<Longrightarrow> wf_chunk c'"
  by (auto simp: SetBuffer_def wf_chunk_def Let_def andThen_eq_Inr_iff
      split: option.splits if_splits dest: mem_slice_length)

lemma SetBuffer_chan_ok:
  assumes "wf_chunk c" "1 \<le> chan" "chan \<le> m_numChannels c"
    and "m_numBytes details \<noteq> 0" "unat (m_numBytes details) \<le> length src"
  shows "\<exists>chans. m_pChannelAudio c = Some chans \<and>
     SetBuffer_chan (Some src) details chan c =
       Inr (c\<lparr>m_pChannelAudio :=
          Some (chans[nat (chan - 1) := Some (take (unat (m_numBytes details)) src)])\<rparr>)"
proof -
  from assms obtain chans where "m_pChannelAudio c = Some chans" "int (length chans) = m_numChannels c"
    by (auto simp: wf_chunk_def split: if_splits)
  with assms show ?thesis by (simp add: SetBuffer_chan_def mem_slice_ok)
qed

lemma poke_length: "poke xs i v = Inr ys \<Longrightarrow> length ys = length xs"
  by (auto simp: poke_def split: if_splits)

lemma SetBuffer_chan_wf:
  "wf_chunk c \<Longrightarrow> SetBuffer_chan src details chan c = Inr c' \<Longrightarrow> wf_chunk c'"
  by (auto simp: SetBuffer_chan_def wf_chunk_def andThen_eq_Inr_iff
      split: option.splits if_splits dest!: poke_length)

lemma FreeAll_ok: "wf_chunk c \<Longrightarrow> FreeAll c = Inr (c\<lparr>m_pBuffer := None, m_pChannelAudio := None\<rparr>)"
  by (auto simp: FreeAll_def wf_chunk_def Let_def split: if_splits)

lemma CreateBuffer_mono:
  assumes "wf_chunk c" "m_numChannels c = 0" "m_numBytes details \<noteq> 0"
  shows "CreateBuffer details c =
     Inr (c\<lparr>m_pBuffer := Some (replicate (unat (m_numBytes details)) 0), m_details := details\<rparr>)"
  using assms by (simp add: CreateBuffer_def FreeAll_def CreateMultiChannelBuffers_def)

lemma CreateBuffer_multi:
  assumes "wf_chunk c" "0 < m_numChannels c" "m_numBytes details \<noteq> 0"
  shows "CreateBuffer details c = Inl NullDereference"
  using assms by (simp add: CreateBuffer_def FreeAll_ok CreateMultiChannelBuffers_def)

lemma GetNumSamples_pcm:
  "m_encoding (m_details c) = PcmAudio \<Longrightarrow> GetNumSamples c = Inr (int (unat (m_numBytes (m_details c)) div 2))"
proof -
  have "sint (w div 2) = int (unat w div 2)" for w :: u32
    using unsigned_less [of w, where ?'a = nat] by (simp add: sint_small unat_div_distrib)
  then show "m_encoding (m_details c) = PcmAudio \<Longrightarrow> ?thesis"
    by (simp add: GetNumSamples_def)
qed

end
