(* ===== verification/OrkSession.thy ===== *)
theory OrkSession
  imports NetUtils SipHeaders AudioChunk Complex_Main
begin

text \<open>
  Sessions: \<open>audiocaptureplugins/common/OrkSession.{h,cpp}\<close>. A session assigns RTP packets to channel 1
  or 2 by their stream and decides which side is local. \<open>Start\<close> and \<open>ReportMetadata\<close> are virtual: their
  effect on the session is a record of functions. The level of a decoded packet, floating point
  arithmetic in the code, is the parameter \<open>decoded_db\<close> (by decoder and packet).
\<close>

section \<open>Configuration and state\<close>

text \<open>The fields of \<open>AcpConfig\<close> that sessions read.\<close>

record AcpConfig =
  m_onDemandViaDtmfDigitsString :: string
  m_onDemandPauseViaDtmfDigitsString :: string
  m_rtpReportDtmf :: bool
  m_dtmfReportFullStringAsTag :: bool
  m_rtpEventPayloadTypeDefaultValue :: int
  m_rtpS1S2MappingDeterministic :: bool
  m_rtpS1S2MappingDeterministicS1IsLocal :: bool
  m_mediaGateways :: IpRanges
  m_sessionStartsOnS2ActivityDb :: real
  m_sipRemotePartyFrom200OKEnable :: bool

text \<open>The fields of the global \<open>CONFIG\<close> that sessions read.\<close>

record OrkConfig =
  m_lookBackRecording :: bool
  m_discardUnidirectionalCalls :: bool
  m_dtmfReportingDetailed :: bool
  m_holdResumeReportDuration :: bool
  m_holdResumeReportEvents :: bool
  m_speexPayloadTypes :: "string list"

record RtpPacketInfo =
  m_sourceMac :: "u8 list"
  m_destMac :: "u8 list"
  m_sourceIp :: u32
  m_destIp :: u32
  m_sourcePort :: u16
  m_destPort :: u16
  m_payloadType :: nat
  m_payload :: "u8 list"
  m_seqNum :: u16
  m_ssrc :: u32
  m_rtpTimestamp :: u32
  m_arrivalTimestamp :: int

record OrkSession =
  m_started :: bool
  m_stopped :: bool
  m_capturePort :: string
  m_trackingId :: string
  m_beginDate :: int
  m_keepRtp :: bool
  m_onDemand :: bool
  m_startWhenReceiveS2 :: bool
  m_nonLookBackSessionStarted :: bool
  m_dtmfDigitString :: string
  m_currentRtpEventTs :: u32
  m_telephoneEventPayloadType :: int
  m_orekaRtpPayloadTypeMap :: "nat list"
  m_numDecoders :: nat
  m_ctiDrivenSession :: bool
  m_lastRtpPacketSide1 :: "RtpPacketInfo option"
  m_lastRtpPacketSide2 :: "RtpPacketInfo option"
  m_localIp :: u32
  m_mappedS1S2 :: bool
  m_logMsg :: string

definition RTP_PAYLOAD_TYPE_MAX :: nat where
  "RTP_PAYLOAD_TYPE_MAX = 127"

definition new_OrkSession :: "OrkConfig \<Rightarrow> 'c AcpConfig_scheme \<Rightarrow> u32 \<Rightarrow> OrkSession" where
  "new_OrkSession CONFIG config localIp =
     \<lparr>m_started = False, m_stopped = False, m_capturePort = '''', m_trackingId = '''', m_beginDate = 0, m_keepRtp = m_lookBackRecording CONFIG,
      m_onDemand = False, m_startWhenReceiveS2 = False, m_nonLookBackSessionStarted = False,
      m_dtmfDigitString = '''', m_currentRtpEventTs = 0,
      m_telephoneEventPayloadType = m_rtpEventPayloadTypeDefaultValue config,
      m_orekaRtpPayloadTypeMap = map (\<lambda>i. i + 96) [0..<32],
      m_numDecoders = (if m_sessionStartsOnS2ActivityDb config \<noteq> 0 then RTP_PAYLOAD_TYPE_MAX else 0),
      m_ctiDrivenSession = False, m_lastRtpPacketSide1 = None, m_lastRtpPacketSide2 = None,
      m_localIp = localIp, m_mappedS1S2 = False, m_logMsg = ''''\<rparr>"

text \<open>Entries of the passed map that are 0 have not been seen in the SDP.\<close>

definition UpdateRtpPayloadMap :: "nat list \<Rightarrow> 'a OrkSession_scheme \<Rightarrow> 'a OrkSession_scheme" where
  "UpdateRtpPayloadMap rtpmap ss = ss\<lparr>m_orekaRtpPayloadTypeMap :=
     map2 (\<lambda>new old. if new \<noteq> 0 then new else old) rtpmap (m_orekaRtpPayloadTypeMap ss)\<rparr>"

definition IsMediaGateway :: "'c AcpConfig_scheme \<Rightarrow> u32 \<Rightarrow> bool result" where
  "IsMediaGateway config addr =
     (if \<not> IpRanges_Empty (m_mediaGateways config) then IpRanges_Matches (m_mediaGateways config) addr else Inr False)"

section \<open>Swapping channels\<close>

definition source_of :: "RtpPacketInfo option \<Rightarrow> u32 result" where
  "source_of p = (case p of None \<Rightarrow> Inl NullDereference | Some p \<Rightarrow> Inr (m_sourceIp p))"

definition ShouldSwapChannels :: "'c AcpConfig_scheme \<Rightarrow> 'a OrkSession_scheme \<Rightarrow> (bool \<times> 'a OrkSession_scheme) result" where
  "ShouldSwapChannels config ss =
     (let s1_shouldBeLocal = m_rtpS1S2MappingDeterministicS1IsLocal config;
          s2_shouldBeLocal = (\<not> s1_shouldBeLocal)
      in andThen (source_of (m_lastRtpPacketSide1 ss)) (\<lambda>ip1.
         andThen (source_of (m_lastRtpPacketSide2 ss)) (\<lambda>ip2.
         if \<not> IpRanges_Empty (m_mediaGateways config) then
           andThen (IsMediaGateway config ip1) (\<lambda>s1_isMediaGateway.
           andThen (IsMediaGateway config ip2) (\<lambda>s2_isMediaGateway.
           Inr (if s1_isMediaGateway \<and> s1_shouldBeLocal then (True, ss\<lparr>m_logMsg := ''s1 is a MediaGateway''\<rparr>)
                else if s2_isMediaGateway \<and> s2_shouldBeLocal then (True, ss\<lparr>m_logMsg := ''s2 is a MediaGateway''\<rparr>)
                else (False, ss))))
         else
           (let s1_isLocal = (ip1 = m_localIp ss);
                s2_isLocal = (ip2 = m_localIp ss)
            in Inr (if s2_isLocal \<and> s1_shouldBeLocal then (True, ss\<lparr>m_logMsg := ''s2 matches localip''\<rparr>)
                    else if s1_isLocal \<and> s2_shouldBeLocal then (True, ss\<lparr>m_logMsg := ''s1 matches localip''\<rparr>)
                    else (False, ss))))))"

section \<open>Channels\<close>

record 'a session_virtuals =
  v_Start :: "'a OrkSession_scheme \<Rightarrow> 'a OrkSession_scheme"
  v_ReportMetadata :: "'a OrkSession_scheme \<Rightarrow> 'a OrkSession_scheme"

text \<open>\<open>OrkSession::Start\<close> and \<open>OrkSession::ReportMetadata\<close> do nothing.\<close>

definition OrkSession_virtuals :: "'a session_virtuals" where
  "OrkSession_virtuals = \<lparr>v_Start = (\<lambda>ss. ss), v_ReportMetadata = (\<lambda>ss. ss)\<rparr>"

definition start_session :: "'a session_virtuals \<Rightarrow> OrkConfig \<Rightarrow> 'a OrkSession_scheme \<Rightarrow> 'a OrkSession_scheme" where
  "start_session v CONFIG ss =
     (let ss1 = v_ReportMetadata v (v_Start v ss)
      in if \<not> m_lookBackRecording CONFIG then ss1\<lparr>m_nonLookBackSessionStarted := True\<rparr> else ss1)"

definition same_stream :: "RtpPacketInfo \<Rightarrow> RtpPacketInfo \<Rightarrow> bool" where
  "same_stream p q \<longleftrightarrow> m_ssrc p = m_ssrc q \<and> m_destIp q = m_destIp p"

text \<open>The decoder of a packet: \<open>m_orekaRtpPayloadTypeMap[pt - 96]\<close>, then \<open>m_decoders.at(...)\<close>.\<close>

definition decoder_of :: "RtpPacketInfo \<Rightarrow> 'a OrkSession_scheme \<Rightarrow> nat result" where
  "decoder_of p ss =
     andThen (if m_payloadType p \<ge> 96 then peek (m_orekaRtpPayloadTypeMap ss) (int (m_payloadType p) - 96)
              else Inr (m_payloadType p)) (\<lambda>pt.
     if pt < m_numDecoders ss then Inr pt else Inl (Thrown ''vector::at''))"

text \<open>The results are the channel and \<open>*pIsFirstPacket\<close>.\<close>

definition DetectChannel :: "'a session_virtuals \<Rightarrow> (nat \<Rightarrow> RtpPacketInfo \<Rightarrow> real) \<Rightarrow> OrkConfig \<Rightarrow> 'c AcpConfig_scheme \<Rightarrow>
    RtpPacketInfo \<Rightarrow> 'a OrkSession_scheme \<Rightarrow> (int \<times> bool \<times> 'a OrkSession_scheme) result" where
  "DetectChannel v decoded_db CONFIG config rtpPacket ss =
     (case m_lastRtpPacketSide1 ss of
        None \<Rightarrow> Inr (1, True, ss\<lparr>m_lastRtpPacketSide1 := Some rtpPacket\<rparr>)
      | Some side1 \<Rightarrow>
     if same_stream rtpPacket side1 then Inr (1, False, ss)
     else case m_lastRtpPacketSide2 ss of
        None \<Rightarrow>
          (let ss1 = ss\<lparr>m_lastRtpPacketSide2 := Some rtpPacket\<rparr>
           in Inr (2, True,
                if m_sessionStartsOnS2ActivityDb config \<noteq> 0 then ss1
                else if m_discardUnidirectionalCalls CONFIG \<and> m_startWhenReceiveS2 ss1
                then start_session v CONFIG ss1 else ss1))
      | Some side2 \<Rightarrow>
     if same_stream rtpPacket side2 then
       (if \<not> m_started ss \<and> m_sessionStartsOnS2ActivityDb config \<noteq> 0 then
          andThen (decoder_of rtpPacket ss) (\<lambda>decoder.
          Inr (2, False, if decoded_db decoder rtpPacket > m_sessionStartsOnS2ActivityDb config
                         then start_session v CONFIG ss else ss))
        else Inr (2, False, ss))
     else Inr (0, False, ss))"

section \<open>The contract of the virtual methods\<close>

text \<open>Starting a session and reporting metadata leave the two sides, the payload map and the decoders alone.\<close>

definition sides_of :: "'a OrkSession_scheme \<Rightarrow> RtpPacketInfo option \<times> RtpPacketInfo option" where
  "sides_of ss = (m_lastRtpPacketSide1 ss, m_lastRtpPacketSide2 ss)"

definition decoders_ok :: "real \<Rightarrow> 'a OrkSession_scheme \<Rightarrow> bool" where
  "decoders_ok min_db ss \<longleftrightarrow> length (m_orekaRtpPayloadTypeMap ss) = 32 \<and>
     list_all (\<lambda>pt. pt < RTP_PAYLOAD_TYPE_MAX) (butlast (m_orekaRtpPayloadTypeMap ss)) \<and>
     (min_db \<noteq> 0 \<longrightarrow> m_numDecoders ss = RTP_PAYLOAD_TYPE_MAX)"

locale session_class =
  fixes v :: "'a session_virtuals"
  assumes start_sides: "sides_of (v_Start v ss) = sides_of ss"
    and start_decoders: "decoders_ok min_db (v_Start v ss) = decoders_ok min_db ss"
    and report_sides: "sides_of (v_ReportMetadata v ss) = sides_of ss"
    and report_decoders: "decoders_ok min_db (v_ReportMetadata v ss) = decoders_ok min_db ss"
begin

lemma start_session_sides: "sides_of (start_session v CONFIG ss) = sides_of ss"
  using start_sides report_sides by (simp add: start_session_def Let_def sides_of_def)

lemma start_session_decoders: "decoders_ok min_db (start_session v CONFIG ss) = decoders_ok min_db ss"
  using start_decoders report_decoders by (simp add: start_session_def Let_def decoders_ok_def)

end

text \<open>The stream of a packet, and the channel of a stream given those of the two sides.\<close>

definition stream_of :: "RtpPacketInfo \<Rightarrow> u32 \<times> u32" where
  "stream_of p = (m_ssrc p, m_destIp p)"

lemma same_stream_iff: "same_stream p q \<longleftrightarrow> stream_of p = stream_of q"
  by (auto simp: same_stream_def stream_of_def)

fun channel_of :: "(u32 \<times> u32) list \<Rightarrow> u32 \<times> u32 \<Rightarrow> int" where
  "channel_of [] i = 1"
| "channel_of (i1 # ids) i =
     (if i = i1 then 1
      else case filter (\<lambda>j. j \<noteq> i1) ids of [] \<Rightarrow> 2 | i2 # _ \<Rightarrow> if i = i2 then 2 else 0)"

text \<open>What the session remembers of the streams seen.\<close>

definition sides_after :: "(u32 \<times> u32) list \<Rightarrow> 'a OrkSession_scheme \<Rightarrow> bool" where
  "sides_after seen ss \<longleftrightarrow> (case seen of
     [] \<Rightarrow> sides_of ss = (None, None)
   | i1 # ids \<Rightarrow> map_option stream_of (m_lastRtpPacketSide1 ss) = Some i1 \<and>
       map_option stream_of (m_lastRtpPacketSide2 ss) =
         (case filter (\<lambda>j. j \<noteq> i1) ids of [] \<Rightarrow> None | i2 # _ \<Rightarrow> Some i2))"

lemma decoder_of_ok:
  assumes ok: "decoders_ok min_db ss" and min: "min_db \<noteq> 0" and pt: "m_payloadType p < 127"
  shows "\<exists>d. decoder_of p ss = Inr d"
proof -
  have len: "length (m_orekaRtpPayloadTypeMap ss) = 32"
    and small: "list_all (\<lambda>pt. pt < RTP_PAYLOAD_TYPE_MAX) (butlast (m_orekaRtpPayloadTypeMap ss))"
    and num: "m_numDecoders ss = RTP_PAYLOAD_TYPE_MAX" using ok min by (auto simp: decoders_ok_def)
  have "m_orekaRtpPayloadTypeMap ss ! (m_payloadType p - 96) < RTP_PAYLOAD_TYPE_MAX" if "96 \<le> m_payloadType p"
    using small len pt that by (auto simp: list_all_length nth_butlast)
  then show ?thesis
    using len num pt by (auto simp: decoder_of_def peek_def nat_diff_distrib' RTP_PAYLOAD_TYPE_MAX_def)
qed

context session_class begin

lemma DetectChannel_step:
  assumes sides: "sides_after seen ss" and ok: "decoders_ok (m_sessionStartsOnS2ActivityDb config) ss" and pt: "m_payloadType p < 127"
  shows "\<exists>first ss'. DetectChannel v db CONFIG config p ss = Inr (channel_of seen (stream_of p), first, ss') \<and>
     sides_after (seen @ [stream_of p]) ss' \<and> decoders_ok (m_sessionStartsOnS2ActivityDb config) ss'"
proof -
  have keep: "sides_after seen (start_session v CONFIG ss) = sides_after seen ss" for seen ss
    using start_session_sides [of CONFIG ss] by (simp add: sides_after_def sides_of_def split: list.split)
  note dec = decoder_of_ok [OF ok _ pt]
  show ?thesis
  proof (cases seen)
    case Nil
    then show ?thesis
      using sides ok by (auto simp: DetectChannel_def sides_after_def sides_of_def decoders_ok_def)
  next
    case (Cons i1 ids)
    with sides obtain side1 where side1: "m_lastRtpPacketSide1 ss = Some side1" "stream_of side1 = i1"
      by (auto simp: sides_after_def)
    show ?thesis
    proof (cases "stream_of p = i1")
      case True
      then show ?thesis
        using sides ok Cons side1
        by (auto simp: DetectChannel_def same_stream_iff sides_after_def)
    next
      case other: False
      show ?thesis
      proof (cases "filter (\<lambda>j. j \<noteq> i1) ids")
        case Nil
        with sides Cons have "m_lastRtpPacketSide2 ss = None" by (auto simp: sides_after_def)
        moreover have "sides_after (seen @ [stream_of p]) (ss\<lparr>m_lastRtpPacketSide2 := Some p\<rparr>)"
          using Cons Nil other side1 by (simp add: sides_after_def)
        moreover have "decoders_ok (m_sessionStartsOnS2ActivityDb config) (ss\<lparr>m_lastRtpPacketSide2 := Some p\<rparr>)" using ok by (simp add: decoders_ok_def)
        ultimately show ?thesis
          using Cons Nil other side1 keep start_session_decoders
          by (auto simp: DetectChannel_def same_stream_iff Let_def)
      next
        case two: (Cons i2 rest)
        with sides \<open>seen = i1 # ids\<close> obtain side2 where side2: "m_lastRtpPacketSide2 ss = Some side2" "stream_of side2 = i2"
          by (auto simp: sides_after_def)
        have later: "sides_after (seen @ [stream_of p]) ss" using sides two \<open>seen = i1 # ids\<close> by (simp add: sides_after_def)
        show ?thesis
          using dec \<open>seen = i1 # ids\<close> two other side1 side2 later ok keep start_session_decoders
          by (cases "m_sessionStartsOnS2ActivityDb config \<noteq> 0"; cases "stream_of p = i2")
            (fastforce simp: DetectChannel_def same_stream_iff)+
      qed
    qed
  qed
qed

end

fun detect_all :: "'a session_virtuals \<Rightarrow> (nat \<Rightarrow> RtpPacketInfo \<Rightarrow> real) \<Rightarrow> OrkConfig \<Rightarrow> 'c AcpConfig_scheme \<Rightarrow>
    RtpPacketInfo list \<Rightarrow> 'a OrkSession_scheme \<Rightarrow> (int list \<times> 'a OrkSession_scheme) result" where
  "detect_all v db CONFIG config [] ss = Inr ([], ss)"
| "detect_all v db CONFIG config (p # ps) ss =
     andThen (DetectChannel v db CONFIG config p ss) (\<lambda>(ch, _, ss1).
     andThen (detect_all v db CONFIG config ps ss1) (\<lambda>(chs, ss2). Inr (ch # chs, ss2)))"

lemma channel_of_prefix: "channel_of (xs @ i # ys) i = channel_of xs i"
  by (cases xs) (auto split: list.split)

context session_class begin

lemma detect_all_channels:
  "sides_after seen ss \<Longrightarrow> decoders_ok (m_sessionStartsOnS2ActivityDb config) ss \<Longrightarrow> \<forall>p \<in> set ps. m_payloadType p < 127 \<Longrightarrow>
   \<exists>ss'. detect_all v db CONFIG config ps ss =
     Inr (map (\<lambda>p. channel_of (seen @ map stream_of ps) (stream_of p)) ps, ss')"
proof (induction ps arbitrary: seen ss)
  case (Cons p ps)
  then obtain first ss1 where step: "DetectChannel v db CONFIG config p ss = Inr (channel_of seen (stream_of p), first, ss1)"
    "sides_after (seen @ [stream_of p]) ss1" "decoders_ok (m_sessionStartsOnS2ActivityDb config) ss1"
    using DetectChannel_step [of seen ss config p db CONFIG] by auto
  from Cons.IH [OF step(2,3)] Cons.prems(3) obtain ss2 where
    "detect_all v db CONFIG config ps ss1 =
      Inr (map (\<lambda>p'. channel_of (seen @ stream_of p # map stream_of ps) (stream_of p')) ps, ss2)" by auto
  then show ?case using step(1) by (simp add: channel_of_prefix)
qed simp

end

interpretation base_session: session_class OrkSession_virtuals
  by unfold_locales (simp_all add: OrkSession_virtuals_def)

lemma new_session_sides: "sides_after [] (new_OrkSession CONFIG config ip)"
  by (simp add: sides_after_def sides_of_def new_OrkSession_def)

lemma new_session_decoders: "decoders_ok (m_sessionStartsOnS2ActivityDb config) (new_OrkSession CONFIG config ip)"
proof -
  have "butlast (map (\<lambda>i. i + 96) [0..<32]) = map (\<lambda>i. i + 96) [0..<31::nat]"
    by code_simp
  then show ?thesis
    by (simp add: decoders_ok_def new_OrkSession_def RTP_PAYLOAD_TYPE_MAX_def list_all_iff)
qed

section \<open>Properties\<close>

text \<open>C22: For payload types below 127, a new session classifies every packet of any sequence without an
  exception: 1 for the stream (SSRC and destination address) of the first packet, 2 for the first other
  stream, 0 for every further stream, whatever the levels of the packets, as long as starting the session
  leaves the two sides and the decoders alone.\<close>

theorem DetectChannel_classifies:
  assumes "session_class v" "\<forall>p \<in> set ps. m_payloadType p < 127"
  shows "\<exists>ss'. detect_all v db CONFIG config ps (new_OrkSession CONFIG config ip) =
     Inr (map (\<lambda>p. channel_of (map stream_of ps) (stream_of p)) ps, ss')"
  using session_class.detect_all_channels [OF assms(1) new_session_sides new_session_decoders assms(2)] by simp

definition example_config :: "AcpConfig" where
  "example_config = \<lparr>m_onDemandViaDtmfDigitsString = ''*1'', m_onDemandPauseViaDtmfDigitsString = ''*2'',
     m_rtpReportDtmf = True, m_dtmfReportFullStringAsTag = False, m_rtpEventPayloadTypeDefaultValue = 101,
     m_rtpS1S2MappingDeterministic = False, m_rtpS1S2MappingDeterministicS1IsLocal = True,
     m_mediaGateways = \<lparr>m_asciiIpRanges = [], m_ipRangePrefixes = [], m_ipRangeBitWidths = []\<rparr>, m_sessionStartsOnS2ActivityDb = 0,
     m_sipRemotePartyFrom200OKEnable = False\<rparr>"

definition example_CONFIG :: "OrkConfig" where
  "example_CONFIG = \<lparr>m_lookBackRecording = False, m_discardUnidirectionalCalls = False, m_dtmfReportingDetailed = False,
     m_holdResumeReportDuration = False, m_holdResumeReportEvents = False, m_speexPayloadTypes = []\<rparr>"

definition example_packet :: "u32 \<Rightarrow> nat \<Rightarrow> RtpPacketInfo" where
  "example_packet ssrc pt = \<lparr>m_sourceMac = [], m_destMac = [], m_sourceIp = 1, m_destIp = 2, m_sourcePort = 0, m_destPort = 0, m_payloadType = pt, m_payload = [], m_seqNum = 0, m_ssrc = ssrc,
     m_rtpTimestamp = 0, m_arrivalTimestamp = 0\<rparr>"

lemma DetectChannel_classifies_witness:
  "\<exists>ss'. detect_all OrkSession_virtuals (\<lambda>_ _. 0) example_CONFIG example_config
      [example_packet 7 0, example_packet 7 0, example_packet 9 100, example_packet 8 0, example_packet 9 100]
      (new_OrkSession example_CONFIG example_config 0) = Inr ([1, 1, 2, 0, 2], ss')"
  using DetectChannel_classifies [OF base_session.session_class_axioms, of "[example_packet 7 0, example_packet 7 0,
      example_packet 9 100, example_packet 8 0, example_packet 9 100]" "\<lambda>_ _. 0" example_CONFIG example_config 0]
  by (simp add: example_packet_def stream_of_def)

text \<open>Payload type 127 indexes the vector of 127 decoders out of range.\<close>

lemma DetectChannel_127_throws:
  assumes "m_sessionStartsOnS2ActivityDb config \<noteq> 0"
  shows "decoder_of (example_packet 1 127) (new_OrkSession CONFIG config ip) = Inl (Thrown ''vector::at'')"
proof -
  have "map (\<lambda>i. i + 96) [0..<32] ! 31 = (127 :: nat)" by (simp add: nth_map)
  then show ?thesis
    using assms by (simp add: decoder_of_def example_packet_def new_OrkSession_def RTP_PAYLOAD_TYPE_MAX_def peek_def)
qed

definition swapped :: "'a OrkSession_scheme \<Rightarrow> 'a OrkSession_scheme" where
  "swapped ss = ss\<lparr>m_lastRtpPacketSide1 := m_lastRtpPacketSide2 ss, m_lastRtpPacketSide2 := m_lastRtpPacketSide1 ss\<rparr>"

definition at_gateway_or_local :: "'c AcpConfig_scheme \<Rightarrow> 'a OrkSession_scheme \<Rightarrow> RtpPacketInfo option \<Rightarrow> bool" where
  "at_gateway_or_local config ss p \<longleftrightarrow> (\<exists>q. p = Some q \<and>
     (if IpRanges_Empty (m_mediaGateways config) then m_sourceIp q = m_localIp ss
      else IpRanges_Matches (m_mediaGateways config) (m_sourceIp q) = Inr True))"

text \<open>Swapping settles the mapping: when \<open>ShouldSwapChannels\<close> asks for a swap, it does not ask again once
  the two sides are exchanged, except when both sides come from a media gateway (or, without gateways,
  both from the local address).\<close>

theorem ShouldSwapChannels_settles:
  assumes "ShouldSwapChannels config ss = Inr (True, ss1)"
    and "ShouldSwapChannels config (swapped ss) = Inr (True, ss2)"
  shows "at_gateway_or_local config ss (m_lastRtpPacketSide1 ss) \<and> at_gateway_or_local config ss (m_lastRtpPacketSide2 ss)"
  using assms
  by (auto simp: ShouldSwapChannels_def swapped_def at_gateway_or_local_def source_of_def IsMediaGateway_def Let_def
      andThen_eq_Inr_iff split: option.splits if_splits)

definition example_session :: OrkSession where
  "example_session = (new_OrkSession example_CONFIG example_config 1)\<lparr>m_lastRtpPacketSide1 := Some (example_packet 1 0),
     m_lastRtpPacketSide2 := Some (example_packet 2 0)\<rparr>"

lemma ShouldSwapChannels_settles_witness:
  "let ss = example_session in ShouldSwapChannels example_config ss = Inr (True, ss\<lparr>m_logMsg := ''s2 matches localip''\<rparr>) \<and>
     at_gateway_or_local example_config ss (Some (example_packet 1 0))"
proof -
  let ?ss = example_session
  have "ShouldSwapChannels example_config ?ss = Inr (True, ?ss\<lparr>m_logMsg := ''s2 matches localip''\<rparr>)"
       "ShouldSwapChannels example_config (swapped ?ss) = Inr (True, (swapped ?ss)\<lparr>m_logMsg := ''s2 matches localip''\<rparr>)"
    by (simp_all add: example_session_def swapped_def ShouldSwapChannels_def source_of_def example_config_def IpRanges_Empty_def
        new_OrkSession_def example_packet_def Let_def)
  from ShouldSwapChannels_settles [OF this] this(1) show ?thesis by (simp add: example_session_def)
qed

end
