(* ===== verification/CaptureEnums.thy ===== *)
theory CaptureEnums
  imports NamedEnum
begin

text \<open>
  The enumerations of capture events and file formats in \<open>orkbasecxx/AudioCapture.{h,cpp}\<close> and their
  conversions. The code passes the enumerations as \<open>int\<close>; a value outside the enumeration takes the
  default branch of the \<open>switch\<close>, like the enumerators it does not list.
\<close>

section \<open>Direction\<close>

datatype DirectionEnum = DirIn | DirOut | DirUnkn

definition DirectionToShortString :: "DirectionEnum \<Rightarrow> string" where
  "DirectionToShortString direction = switch [(DirIn, ''I''), (DirOut, ''O'')] ''U'' direction"

definition DirectionToString :: "DirectionEnum \<Rightarrow> string" where
  "DirectionToString direction = switch [(DirIn, ''in''), (DirOut, ''out'')] ''unkn'' direction"

definition DirectionToEnum :: "string \<Rightarrow> DirectionEnum" where
  "DirectionToEnum = no_case_lookup [(''in'', DirIn), (''out'', DirOut)] DirUnkn"

interpretation direction: named_enum DirectionToString DirectionToEnum "[DirIn, DirOut]"
  by (rule table_named_enum [OF _ DirectionToEnum_def]) code_simp+

section \<open>Local side\<close>

datatype LocalSideEnum = LocalSideUnkn | LocalSideSide1 | LocalSideSide2 | LocalSideBoth | LocalSideInvalid

definition LocalSideToString :: "LocalSideEnum \<Rightarrow> string" where
  "LocalSideToString localSideEnum = switch
     [(LocalSideUnkn, ''unknown''), (LocalSideSide1, ''side1''), (LocalSideSide2, ''side2''),
      (LocalSideBoth, ''both'')] ''invalid'' localSideEnum"

definition LocalSideToEnum :: "string \<Rightarrow> LocalSideEnum" where
  "LocalSideToEnum = no_case_lookup
     [(''unknown'', LocalSideUnkn), (''side1'', LocalSideSide1), (''side2'', LocalSideSide2),
      (''both'', LocalSideBoth)] LocalSideInvalid"

interpretation local_side: named_enum LocalSideToString LocalSideToEnum
  "[LocalSideUnkn, LocalSideSide1, LocalSideSide2, LocalSideBoth]"
  by (rule table_named_enum [OF _ LocalSideToEnum_def]) code_simp+

section \<open>Audio keep direction\<close>

datatype AudioKeepDirectionEnum =
    AudioKeepDirectionBoth | AudioKeepDirectionLocal | AudioKeepDirectionRemote | AudioKeepDirectionNone
  | AudioKeepDirectionInvalid

definition AudioKeepDirectionToString :: "AudioKeepDirectionEnum \<Rightarrow> string" where
  "AudioKeepDirectionToString audioKeepDirectionEnum = switch
     [(AudioKeepDirectionBoth, ''both''), (AudioKeepDirectionLocal, ''local''),
      (AudioKeepDirectionRemote, ''remote''), (AudioKeepDirectionNone, ''none'')]
     ''invalid'' audioKeepDirectionEnum"

definition AudioKeepDirectionToEnum :: "string \<Rightarrow> AudioKeepDirectionEnum" where
  "AudioKeepDirectionToEnum = no_case_lookup
     [(''both'', AudioKeepDirectionBoth), (''local'', AudioKeepDirectionLocal),
      (''remote'', AudioKeepDirectionRemote), (''none'', AudioKeepDirectionNone)] AudioKeepDirectionInvalid"

definition AudioKeepDirectionIsDefault :: "string \<Rightarrow> bool" where
  "AudioKeepDirectionIsDefault audioKeepDirectionString \<longleftrightarrow> CompareNoCase_eq audioKeepDirectionString ''both''"

interpretation keep_direction: named_enum AudioKeepDirectionToString AudioKeepDirectionToEnum
  "[AudioKeepDirectionBoth, AudioKeepDirectionLocal, AudioKeepDirectionRemote, AudioKeepDirectionNone]"
  by (rule table_named_enum [OF _ AudioKeepDirectionToEnum_def]) code_simp+

lemma AudioKeepDirectionIsDefault_iff:
  "AudioKeepDirectionIsDefault s \<longleftrightarrow> AudioKeepDirectionToEnum s = AudioKeepDirectionBoth"
  by (simp add: keep_direction.to_enum_iff AudioKeepDirectionIsDefault_def AudioKeepDirectionToString_def)

section \<open>Event types\<close>

datatype EventTypeEnum =
    EtUnknown | EtStart | EtStop | EtDirection | EtRemoteParty | EtLocalParty | EtLocalEntryPoint
  | EtKeyValue | EtLocalIp | EtRemoteIp | EtLocalMac | EtRemoteMac | EtOrkUid | EtEndMetadata
  | EtReady | EtUpdate | EtCallId | EtLocalSide | EtAudioKeepDirection | EtHold | EtResume | EtInvalid

definition event_types :: "(EventTypeEnum \<times> string) list" where
  "event_types =
     [(EtUnknown, ''unknown''), (EtStart, ''start''), (EtStop, ''stop''), (EtHold, ''hold''),
      (EtResume, ''resume''), (EtDirection, ''direction''), (EtRemoteParty, ''remoteparty''),
      (EtLocalParty, ''localparty''), (EtLocalEntryPoint, ''localentrypoint''), (EtKeyValue, ''keyvalue''),
      (EtLocalIp, ''localip''), (EtRemoteIp, ''remoteip''), (EtLocalMac, ''localmac''),
      (EtRemoteMac, ''remotemac''), (EtOrkUid, ''orkuid''), (EtEndMetadata, ''endmetadata''),
      (EtReady, ''ready''), (EtUpdate, ''update''), (EtCallId, ''callid''), (EtLocalSide, ''localside''),
      (EtAudioKeepDirection, ''audiokeepdirection'')]"

definition EventTypeToString :: "EventTypeEnum \<Rightarrow> string" where
  "EventTypeToString = switch event_types ''invalid''"

definition EventTypeToEnum :: "string \<Rightarrow> EventTypeEnum" where
  "EventTypeToEnum = no_case_lookup
     [(''start'', EtStart), (''stop'', EtStop), (''hold'', EtHold), (''resume'', EtResume),
      (''direction'', EtDirection), (''remoteparty'', EtRemoteParty), (''localparty'', EtLocalParty),
      (''localentrypoint'', EtLocalEntryPoint), (''keyvalue'', EtKeyValue), (''localip'', EtLocalIp),
      (''remoteip'', EtRemoteIp), (''localmac'', EtLocalMac), (''remotemac'', EtRemoteMac),
      (''orkuid'', EtOrkUid), (''endmetadata'', EtEndMetadata), (''ready'', EtReady),
      (''update'', EtUpdate), (''callid'', EtCallId), (''localside'', EtLocalSide),
      (''audiokeepdirection'', EtAudioKeepDirection)] EtUnknown"

definition proper_event_types :: "EventTypeEnum list" where
  "proper_event_types = map fst (tl event_types)"

interpretation event_type: named_enum EventTypeToString EventTypeToEnum proper_event_types
  by (rule table_named_enum [OF _ EventTypeToEnum_def]) code_simp+

section \<open>File formats\<close>

datatype FileFormatEnum = FfUnknown | FfNative | FfGsm | FfUlaw | FfAlaw | FfPcmWav | FfOpus | FfInvalid

definition FileFormatToEnum :: "string \<Rightarrow> FileFormatEnum" where
  "FileFormatToEnum = no_case_lookup
     [(''native'', FfNative), (''GSM'', FfGsm), (''ulaw'', FfUlaw), (''alaw'', FfAlaw),
      (''pcmwav'', FfPcmWav), (''opus'', FfOpus)] FfUnknown"

definition FileFormatToString :: "FileFormatEnum \<Rightarrow> string" where
  "FileFormatToString = switch
     [(FfNative, ''native''), (FfGsm, ''GSM''), (FfUlaw, ''ulaw''), (FfAlaw, ''alaw''),
      (FfPcmWav, ''pcmwav''), (FfOpus, ''opus'')] ''unknown''"

definition FileFormatGetExtension :: "FileFormatEnum \<Rightarrow> string result" where
  "FileFormatGetExtension = switch
     [(FfGsm, Inr ''.wav''), (FfUlaw, Inr ''.wav''), (FfAlaw, Inr ''.wav''), (FfPcmWav, Inr ''.wav''),
      (FfOpus, Inr ''.opus'')] (Inl (Thrown ''AudioTape::GetFileFormatExtension: unknown file format''))"

interpretation file_format: named_enum FileFormatToString FileFormatToEnum
  "[FfNative, FfGsm, FfUlaw, FfAlaw, FfPcmWav, FfOpus]"
  by (rule table_named_enum [OF _ FileFormatToEnum_def]) code_simp+

section \<open>Properties\<close>

text \<open>Every event type but \<open>EtUnknown\<close> and \<open>EtInvalid\<close> survives being written and read back, and a
  string is read as that type exactly when it is its name up to upper and lower case. Anything
  else, the name \<open>invalid\<close> that \<open>EtInvalid\<close> is written as included, is read as \<open>EtUnknown\<close>.\<close>

theorem EventType_codec:
  "EventTypeToEnum s = e \<longleftrightarrow>
     (if e = EtInvalid then False
      else if e = EtUnknown then list_all (\<lambda>e'. \<not> CompareNoCase_eq s (EventTypeToString e')) proper_event_types
      else CompareNoCase_eq s (EventTypeToString e))"
proof -
  have all: "e \<in> set proper_event_types \<longleftrightarrow> e \<noteq> EtUnknown \<and> e \<noteq> EtInvalid" for e
    by (cases e) (simp_all add: proper_event_types_def event_types_def)
  have "EventTypeToEnum s \<noteq> EtInvalid"
    by (simp add: EventTypeToEnum_def)
  with event_type.to_enum_iff [of _ s] show ?thesis
    unfolding list_all_iff Ball_def all by metis
qed

end
