(* ===== verification/Dtmf.thy ===== *)
theory Dtmf
  imports OrkSession CaptureEnums "HOL-Library.Signed_Division"
begin

text \<open>
  DTMF digits of a session: \<open>audiocaptureplugins/common/DtmfHandling.{h,cpp}\<close>, with the on-demand
  recording commands typed as digits, and the methods of \<open>VoIpSession\<close> that they trigger. An operation
  returns the capture events it reports, in order. The time is a parameter, in microseconds.
\<close>

section \<open>Digits\<close>

datatype DtmfDigitEnum =
    DtmfDigitZero | DtmfDigitOne | DtmfDigitTwo | DtmfDigitThree | DtmfDigitFour | DtmfDigitFive | DtmfDigitSix
  | DtmfDigitSeven | DtmfDigitEight | DtmfDigitNine | DtmfDigitStart | DtmfDigitSharp | DtmfDigitUnknown

fun DtmfDigit_value :: "DtmfDigitEnum \<Rightarrow> int" where
  "DtmfDigit_value DtmfDigitZero = 0"
| "DtmfDigit_value DtmfDigitOne = 1"
| "DtmfDigit_value DtmfDigitTwo = 2"
| "DtmfDigit_value DtmfDigitThree = 3"
| "DtmfDigit_value DtmfDigitFour = 4"
| "DtmfDigit_value DtmfDigitFive = 5"
| "DtmfDigit_value DtmfDigitSix = 6"
| "DtmfDigit_value DtmfDigitSeven = 7"
| "DtmfDigit_value DtmfDigitEight = 8"
| "DtmfDigit_value DtmfDigitNine = 9"
| "DtmfDigit_value DtmfDigitStart = 10"
| "DtmfDigit_value DtmfDigitSharp = 11"
| "DtmfDigit_value DtmfDigitUnknown = 12"

definition dtmf_digits :: "(string \<times> DtmfDigitEnum) list" where
  "dtmf_digits =
     [(''0'', DtmfDigitZero), (''1'', DtmfDigitOne), (''2'', DtmfDigitTwo), (''3'', DtmfDigitThree),
      (''4'', DtmfDigitFour), (''5'', DtmfDigitFive), (''6'', DtmfDigitSix), (''7'', DtmfDigitSeven),
      (''8'', DtmfDigitEight), (''9'', DtmfDigitNine), (''*'', DtmfDigitStart), (''#'', DtmfDigitSharp)]"

definition DtmfDigitToEnum :: "string \<Rightarrow> DtmfDigitEnum" where
  "DtmfDigitToEnum msg = no_case_lookup dtmf_digits DtmfDigitUnknown msg"

definition DtmfDigitToString :: "int \<Rightarrow> string" where
  "DtmfDigitToString msgEnum =
     switch (map (\<lambda>(name, e). (DtmfDigit_value e, name)) dtmf_digits) ''unknown'' msgEnum"

interpretation dtmf_digit: named_enum "\<lambda>e. DtmfDigitToString (DtmfDigit_value e)" DtmfDigitToEnum "map snd dtmf_digits"
  by (rule table_named_enum [OF _ ext [OF DtmfDigitToEnum_def] refl]) code_simp

section \<open>Reports\<close>

record CaptureEvent =
  ev_timestamp :: int
  ev_type :: EventTypeEnum
  ev_key :: string
  ev_value :: string
  ev_offsetMs :: int

definition new_CaptureEvent :: "EventTypeEnum \<Rightarrow> string \<Rightarrow> string \<Rightarrow> int \<Rightarrow> CaptureEvent" where
  "new_CaptureEvent t key val offset = \<lparr>ev_timestamp = 0, ev_type = t, ev_key = key, ev_value = val, ev_offsetMs = offset\<rparr>"

definition MarkAsOnDemand :: "string \<Rightarrow> 'a OrkSession_scheme \<Rightarrow> 'a OrkSession_scheme \<times> CaptureEvent list" where
  "MarkAsOnDemand side ss =
     (ss\<lparr>m_onDemand := True\<rparr>,
      if m_started ss
      then [new_CaptureEvent EtKeyValue ''ondemand'' ''true'' 0, new_CaptureEvent EtAudioKeepDirection '''' side 0,
            new_CaptureEvent EtUpdate '''' '''' 0]
      else [])"

definition MarkAsOnDemandOff :: "'a OrkSession_scheme \<Rightarrow> 'a OrkSession_scheme \<times> CaptureEvent list" where
  "MarkAsOnDemandOff ss =
     (ss\<lparr>m_onDemand := False\<rparr>,
      if m_started ss
      then [new_CaptureEvent EtKeyValue ''ondemand'' ''false'' 0, new_CaptureEvent EtUpdate '''' '''' 0] else [])"

definition TriggerOnDemandViaDtmf :: "'a OrkSession_scheme \<Rightarrow> 'a OrkSession_scheme \<times> CaptureEvent list" where
  "TriggerOnDemandViaDtmf ss = MarkAsOnDemand ''both'' (ss\<lparr>m_keepRtp := True\<rparr>)"

definition trigger_and_keep :: "'a OrkSession_scheme \<Rightarrow> 'a OrkSession_scheme \<times> CaptureEvent list" where
  "trigger_and_keep ss = (case TriggerOnDemandViaDtmf ss of (ss1, evs) \<Rightarrow> (ss1\<lparr>m_onDemand := True, m_keepRtp := True\<rparr>, evs))"

text \<open>The commands in the digit string (lines 137 to 220): the state is \<open>(m_onDemand, m_keepRtp)\<close>.\<close>

definition dtmf_commands :: "'c AcpConfig_scheme \<Rightarrow> 'a OrkSession_scheme \<Rightarrow> 'a OrkSession_scheme \<times> CaptureEvent list" where
  "dtmf_commands config ss =
     (if m_onDemandViaDtmfDigitsString config = [] then (ss, [])
      else
        let contains = (\<lambda>command. command \<noteq> [] \<and> string_find (m_dtmfDigitString ss) command \<noteq> None);
            stringIsOnDemandCommand = contains (m_onDemandViaDtmfDigitsString config);
            stringIsPauseCommand = contains (m_onDemandPauseViaDtmfDigitsString config);
            ss1 = (if stringIsOnDemandCommand \<or> stringIsPauseCommand then ss\<lparr>m_dtmfDigitString := []\<rparr> else ss);
            identical = (m_onDemandPauseViaDtmfDigitsString config = m_onDemandViaDtmfDigitsString config);
            stringIsOnDemandCommand' =
              (if identical \<and> stringIsOnDemandCommand \<and> m_keepRtp ss then False else stringIsOnDemandCommand);
            stringIsPauseCommand' =
              (if identical \<and> stringIsOnDemandCommand \<and> \<not> m_keepRtp ss then False else stringIsPauseCommand)
        in case (m_onDemand ss, m_keepRtp ss) of
             (False, False) \<Rightarrow> if stringIsOnDemandCommand' then trigger_and_keep ss1 else (ss1, [])
           | (False, True) \<Rightarrow>
               if stringIsOnDemandCommand' then trigger_and_keep ss1
               else if stringIsPauseCommand' then (ss1\<lparr>m_onDemand := False, m_keepRtp := False\<rparr>, []) else (ss1, [])
           | (True, False) \<Rightarrow> if stringIsOnDemandCommand' then trigger_and_keep ss1 else (ss1, [])
           | (True, True) \<Rightarrow>
               if stringIsPauseCommand' then (ss1\<lparr>m_onDemand := True, m_keepRtp := False\<rparr>, []) else (ss1, []))"

text \<open>\<open>%d\<close> of an \<open>unsigned int\<close> and \<open>%u\<close>.\<close>

definition fmt_d :: "u32 \<Rightarrow> string" where
  "fmt_d w = IntToString (sint w)"

definition fmt_u :: "u32 \<Rightarrow> string" where
  "fmt_u w = decimal (unat w)"

definition ms_since_begin :: "int \<Rightarrow> 'a OrkSession_scheme \<Rightarrow> int" where
  "ms_since_begin now_us ss =
     sint (word_of_int (((now_us - m_beginDate ss * 1000 * 1000) sdiv (1000 * 1000)) * 1000) :: u32)"

definition ReportDtmfDigit :: "OrkConfig \<Rightarrow> 'c AcpConfig_scheme \<Rightarrow> int \<Rightarrow> int \<Rightarrow> string \<Rightarrow> u32 \<Rightarrow> u32 \<Rightarrow> u32 \<Rightarrow> u32 \<Rightarrow>
    'a OrkSession_scheme \<Rightarrow> 'a OrkSession_scheme \<times> CaptureEvent list" where
  "ReportDtmfDigit CONFIG config now_us channel digitValue digitDuration digitVolume rtpEventTs rtpEventSeqNo ss =
     (let ss1 = (if length (m_dtmfDigitString ss) > 100 then ss\<lparr>m_dtmfDigitString := []\<rparr> else ss);
          ss2 = ss1\<lparr>m_dtmfDigitString := m_dtmfDigitString ss1 @ digitValue\<rparr>
      in case dtmf_commands config ss2 of (ss3, evs) \<Rightarrow>
         let rtpEvent = DtmfDigit_value (DtmfDigitToEnum digitValue);
             msDiff = ms_since_begin now_us ss3;
             detailed = (if m_dtmfReportingDetailed CONFIG
               then [new_CaptureEvent EtKeyValue (''RtpDtmfEvent_'' @ fmt_u rtpEventTs)
                 (''event:'' @ IntToString rtpEvent @ '' timestamp:'' @ fmt_u rtpEventTs @ '' duration:'' @ fmt_d digitDuration
                  @ '' volume:'' @ fmt_d digitVolume @ '' seqno:'' @ fmt_d rtpEventSeqNo @ '' offsetms:'' @ IntToString msDiff
                  @ '' channel:'' @ IntToString channel) 0]
               else []);
             tag = (if m_dtmfReportFullStringAsTag config
               then [new_CaptureEvent EtKeyValue ''dtmfstring'' (m_dtmfDigitString ss3) msDiff] else []);
             dtmfDigitEventValue = (if m_dtmfReportingDetailed CONFIG
               then digitValue @ ''_'' @ fmt_d digitVolume @ ''_'' @ fmt_d digitDuration @ ''_'' @ IntToString channel
               else digitValue)
         in (ss3, evs @ detailed @ tag @ [new_CaptureEvent EtKeyValue ''dtmfdigit'' dtmfDigitEventValue msDiff]))"

section \<open>RTP events\<close>

record RtpEventInfo =
  m_event :: nat
  m_end :: bool
  m_reserved :: bool
  m_volume :: nat
  m_duration :: nat
  m_startTimestamp :: u32

text \<open>The four bytes of an \<open>RtpEventPayloadFormat\<close>.\<close>

definition parse_event :: "u8 list \<Rightarrow> u32 \<Rightarrow> RtpEventInfo" where
  "parse_event payload rtpTimestamp =
     \<lparr>m_event = unat (payload ! 0), m_end = (payload ! 1 AND 0x80 \<noteq> 0), m_reserved = (payload ! 1 AND 0x40 \<noteq> 0),
      m_volume = unat (payload ! 1 AND 0x3F), m_duration = unat (payload ! 2) * 256 + unat (payload ! 3),
      m_startTimestamp = rtpTimestamp\<rparr>"

definition HandleRtpEvent :: "OrkConfig \<Rightarrow> 'c AcpConfig_scheme \<Rightarrow> int \<Rightarrow> int \<Rightarrow> u8 list \<Rightarrow> u32 \<Rightarrow> u32 \<Rightarrow>
    'a OrkSession_scheme \<Rightarrow> 'a OrkSession_scheme \<times> CaptureEvent list" where
  "HandleRtpEvent CONFIG config now_us channel payload rtpTimestamp seqNum ss =
     (if length payload < 4 then (ss, [])
      else
        let info = parse_event payload rtpTimestamp
        in if m_currentRtpEventTs ss \<noteq> m_startTimestamp info \<and> m_end info
           then ReportDtmfDigit CONFIG config now_us channel (DtmfDigitToString (int (m_event info)))
             (word_of_nat (m_duration info)) (word_of_nat (m_volume info)) (m_startTimestamp info) seqNum
             (ss\<lparr>m_currentRtpEventTs := m_startTimestamp info\<rparr>)
           else (ss, []))"

section \<open>Typed commands\<close>

text \<open>One digit after the other, each with its time and packet fields.\<close>

fun report_all :: "OrkConfig \<Rightarrow> 'c AcpConfig_scheme \<Rightarrow> (string \<times> int \<times> int \<times> u32 \<times> u32 \<times> u32 \<times> u32) list \<Rightarrow>
    'a OrkSession_scheme \<Rightarrow> 'a OrkSession_scheme \<times> CaptureEvent list" where
  "report_all CONFIG config [] ss = (ss, [])"
| "report_all CONFIG config ((digit, now, ch, dur, vol, ts, seq) # ds) ss =
     (case ReportDtmfDigit CONFIG config now ch digit dur vol ts seq ss of (ss1, evs) \<Rightarrow>
      case report_all CONFIG config ds ss1 of (ss2, evs') \<Rightarrow> (ss2, evs @ evs'))"

text \<open>The commands and what they do to \<open>(m_onDemand, m_keepRtp)\<close>.\<close>

datatype dtmf_command = CmdOnDemand | CmdPause

fun command_digits :: "'c AcpConfig_scheme \<Rightarrow> dtmf_command \<Rightarrow> string" where
  "command_digits config CmdOnDemand = m_onDemandViaDtmfDigitsString config"
| "command_digits config CmdPause = m_onDemandPauseViaDtmfDigitsString config"

fun command_effect :: "dtmf_command \<Rightarrow> bool \<times> bool \<Rightarrow> bool \<times> bool" where
  "command_effect CmdOnDemand _ = (True, True)"
| "command_effect CmdPause (onDemand, keepRtp) = (onDemand, False)"

definition recording_flags :: "'a OrkSession_scheme \<Rightarrow> bool \<times> bool" where
  "recording_flags ss = (m_onDemand ss, m_keepRtp ss)"

text \<open>Both commands are set, of at most 100 digits, and neither occurs in the other.\<close>

definition commands_ok :: "'c AcpConfig_scheme \<Rightarrow> bool" where
  "commands_ok config \<longleftrightarrow> (let c = m_onDemandViaDtmfDigitsString config; p = m_onDemandPauseViaDtmfDigitsString config in
     c \<noteq> [] \<and> p \<noteq> [] \<and> length c \<le> 100 \<and> length p \<le> 100 \<and> string_find c p = None \<and> string_find p c = None)"

lemma string_find_shorter: "length s < length p \<Longrightarrow> string_find s p = None"
  by (induction s) auto

lemma string_find_self: "p \<noteq> [] \<Longrightarrow> string_find p p = Some 0"
  by (cases p) auto

lemma string_find_prefix: "string_find s p = None \<Longrightarrow> string_find (take k s) p = None"
proof (induction s arbitrary: k)
  case (Cons c s)
  show ?case
  proof (cases k)
    case (Suc m)
    have "take (length p) (take k (c # s)) \<noteq> p"
      using Cons.prems by (cases "length p \<le> k") (auto simp: min_def split: if_splits)
    then show ?thesis using Cons Suc by (auto split: if_splits)
  qed (use Cons in \<open>auto split: if_splits\<close>)
qed simp

lemma command_find:
  assumes "commands_ok config"
  shows "string_find (command_digits config c) (command_digits config c') = (if c = c' then Some 0 else None)"
    "command_digits config c \<noteq> []" "length (command_digits config c) \<le> 100"
  using assms by (cases c; cases c'; simp add: commands_ok_def Let_def string_find_self)+

definition fresh_after :: "string \<Rightarrow> bool \<times> bool \<Rightarrow> 'a OrkSession_scheme \<Rightarrow> bool" where
  "fresh_after digits flags ss \<longleftrightarrow> m_dtmfDigitString ss = digits \<and> recording_flags ss = flags"

lemma trigger_and_keep_fields:
  "fst (trigger_and_keep ss) = ss\<lparr>m_onDemand := True, m_keepRtp := True\<rparr>"
  by (simp add: trigger_and_keep_def TriggerOnDemandViaDtmf_def MarkAsOnDemand_def)

lemma report_no_command:
  assumes ok: "commands_ok config" and ss: "fresh_after s flags ss" "length s \<le> 100"
    and none: "string_find (s @ d) (m_onDemandViaDtmfDigitsString config) = None"
      "string_find (s @ d) (m_onDemandPauseViaDtmfDigitsString config) = None"
  shows "fresh_after (s @ d) flags (fst (ReportDtmfDigit CONFIG config now ch d dur vol ts seq ss))"
proof -
  have "dtmf_commands config (ss\<lparr>m_dtmfDigitString := s @ d\<rparr>) = (ss\<lparr>m_dtmfDigitString := s @ d\<rparr>, [])"
    using none by (simp add: dtmf_commands_def Let_def split: bool.split)
  then show ?thesis
    using ss by (simp add: ReportDtmfDigit_def fresh_after_def recording_flags_def Let_def)
qed

lemma report_command:
  assumes ok: "commands_ok config" and ss: "fresh_after s flags ss" "length s \<le> 100"
    and whole: "s @ d = command_digits config c"
  shows "fresh_after [] (command_effect c flags) (fst (ReportDtmfDigit CONFIG config now ch d dur vol ts seq ss))"
proof -
  note find = command_find [OF ok]
  have c: "m_onDemandViaDtmfDigitsString config \<noteq> []" "m_onDemandPauseViaDtmfDigitsString config \<noteq> []"
    using ok by (simp_all add: commands_ok_def Let_def)
  then have ne: "m_onDemandPauseViaDtmfDigitsString config \<noteq> m_onDemandViaDtmfDigitsString config"
    using find(1) [of CmdOnDemand CmdPause] find(1) [of CmdOnDemand CmdOnDemand] by auto
  let ?ss = "ss\<lparr>m_dtmfDigitString := command_digits config c\<rparr>"
  have "fresh_after [] (command_effect c flags) (fst (dtmf_commands config ?ss))"
    using find(1) [of c CmdOnDemand] find(1) [of c CmdPause] c ne ss(1)
    by (cases c; cases "m_onDemand ss"; cases "m_keepRtp ss")
      (auto simp: dtmf_commands_def Let_def fresh_after_def recording_flags_def trigger_and_keep_fields)
  then show ?thesis
    using ss whole by (simp add: ReportDtmfDigit_def fresh_after_def Let_def case_prod_beta)
qed

lemma report_all_append:
  "fst (report_all CONFIG config (ds @ ds') ss) = fst (report_all CONFIG config ds' (fst (report_all CONFIG config ds ss)))"
proof (induction ds arbitrary: ss)
  case (Cons x ds)
  then show ?case by (cases x) (simp add: case_prod_beta)
qed simp

lemma typed_prefix:
  assumes ok: "commands_ok config"
  shows "concat (map fst ds) = take k (command_digits config c) \<Longrightarrow> k < length (command_digits config c) \<Longrightarrow>
    fresh_after [] flags ss \<Longrightarrow> fresh_after (take k (command_digits config c)) flags (fst (report_all CONFIG config ds ss))"
proof (induction ds arbitrary: k rule: rev_induct)
  case Nil
  then show ?case by auto
next
  case (snoc x ds)
  obtain d now ch dur vol ts seq where x: "x = (d, now, ch, dur, vol, ts, seq)" by (cases x) auto
  let ?c = "command_digits config c" and ?n = "length (concat (map fst ds))"
  have whole: "concat (map fst ds) @ d = take k ?c" using snoc.prems(1) x by simp
  have "?n + length d = length (take k ?c)" by (simp only: whole [symmetric] length_append)
  then have "?n + length d = k" using snoc.prems(2) by simp
  moreover have "concat (map fst ds) = take ?n (take k ?c)" using whole by (metis append_eq_conv_conj)
  ultimately have n: "?n \<le> k" "concat (map fst ds) = take ?n ?c" by (simp_all add: min_absorb1)
  then have pre: "fresh_after (take ?n ?c) flags (fst (report_all CONFIG config ds ss))"
    using snoc.prems by (intro snoc.IH) auto
  have short: "length (take ?n ?c) \<le> 100" using command_find(3) [OF ok, of c] by simp
  have none: "string_find (take k ?c) (command_digits config c') = None" for c'
  proof (cases "c' = c")
    case True
    then show ?thesis using snoc.prems(2) by (intro string_find_shorter) simp
  next
    case False
    then show ?thesis using command_find(1) [OF ok, of c c'] by (intro string_find_prefix) simp
  qed
  have "fresh_after (take ?n ?c @ d) flags (fst (ReportDtmfDigit CONFIG config now ch d dur vol ts seq
      (fst (report_all CONFIG config ds ss))))"
    using none [of CmdOnDemand] none [of CmdPause] whole n(2)
    by (intro report_no_command [OF ok pre short]) simp_all
  then show ?case
    using whole n(2) by (simp add: report_all_append x case_prod_beta)
qed

lemma typed_command:
  assumes ok: "commands_ok config" and ds: "concat (map fst ds) = command_digits config c" "\<forall>x \<in> set ds. fst x \<noteq> []"
    and ss: "fresh_after [] flags ss"
  shows "fresh_after [] (command_effect c flags) (fst (report_all CONFIG config ds ss))"
proof -
  let ?c = "command_digits config c"
  have "ds \<noteq> []" using ds(1) command_find(2) [OF ok, of c] by auto
  then obtain es x where ds': "ds = es @ [x]" by (metis rev_exhaust)
  obtain d now ch dur vol ts seq where x: "x = (d, now, ch, dur, vol, ts, seq)" by (cases x) auto
  let ?n = "length (concat (map fst es))"
  have whole: "concat (map fst es) @ d = ?c" and d: "d \<noteq> []" using ds ds' x by auto
  then have n: "?n < length ?c" "concat (map fst es) = take ?n ?c"
    by (metis length_append length_greater_0_conv less_add_same_cancel1, metis append_eq_conv_conj)
  have pre: "fresh_after (take ?n ?c) flags (fst (report_all CONFIG config es ss))"
    using n ss by (intro typed_prefix [OF ok]) auto
  have short: "length (take ?n ?c) \<le> 100" using command_find(3) [OF ok, of c] by simp
  have "fresh_after [] (command_effect c flags) (fst (ReportDtmfDigit CONFIG config now ch d dur vol ts seq
      (fst (report_all CONFIG config es ss))))"
    using whole n(2) by (intro report_command [OF ok pre short]) simp
  then show ?thesis by (simp add: ds' x report_all_append case_prod_beta)
qed

text \<open>C23: When neither of the two command strings occurs in the other, typing commands digit by digit drives
  the recording state exactly as an automaton over commands: on-demand starts recording from every state,
  pause stops it and remembers whether it was on demand, each takes effect at its last digit, no digit
  sequence in between changes the state, and no half-typed command is left over.\<close>

theorem typed_commands_refine:
  assumes "commands_ok config" "list_all2 (\<lambda>c ds. concat (map fst ds) = command_digits config c \<and> (\<forall>x \<in> set ds. fst x \<noteq> [])) cs typed"
    and "m_dtmfDigitString ss = []"
  shows "recording_flags (fst (report_all CONFIG config (concat typed) ss)) = fold command_effect cs (recording_flags ss) \<and>
     m_dtmfDigitString (fst (report_all CONFIG config (concat typed) ss)) = []"
proof -
  have "fresh_after [] (fold command_effect cs flags) (fst (report_all CONFIG config (concat typed) ss))"
    if "fresh_after [] flags ss" for flags ss
    using assms(2) that
  proof (induction cs typed arbitrary: flags ss rule: list_all2_induct)
    case (Cons c cs ds typed)
    then show ?case
      using typed_command [OF assms(1), of ds c flags ss CONFIG] by (simp add: report_all_append)
  qed simp
  from this [of "recording_flags ss" ss] assms(3) show ?thesis by (simp add: fresh_after_def)
qed

definition type_digits :: "string \<Rightarrow> (string \<times> int \<times> int \<times> u32 \<times> u32 \<times> u32 \<times> u32) list" where
  "type_digits = map (\<lambda>c. ([c], 0, 1, 0, 0, 0, 0))"

lemma typed_commands_refine_witness:
  "recording_flags (fst (report_all example_CONFIG example_config (concat [type_digits ''*1'', type_digits ''*2''])
     (new_OrkSession example_CONFIG example_config 0))) = (True, False)"
  using typed_commands_refine [of example_config "[CmdOnDemand, CmdPause]" "[type_digits ''*1'', type_digits ''*2'']"
     "new_OrkSession example_CONFIG example_config 0" example_CONFIG]
  by (simp add: commands_ok_def example_config_def type_digits_def new_OrkSession_def recording_flags_def)

section \<open>Bursts of RTP events\<close>

text \<open>The telephone-event packets of a session, each with its time, channel, payload, timestamp and sequence number.\<close>

fun handle_all :: "OrkConfig \<Rightarrow> 'c AcpConfig_scheme \<Rightarrow> (int \<times> int \<times> u8 list \<times> u32 \<times> u32) list \<Rightarrow>
    'a OrkSession_scheme \<Rightarrow> 'a OrkSession_scheme \<times> CaptureEvent list" where
  "handle_all CONFIG config [] ss = (ss, [])"
| "handle_all CONFIG config ((now, ch, payload, ts, seq) # ps) ss =
     (case HandleRtpEvent CONFIG config now ch payload ts seq ss of (ss1, evs) \<Rightarrow>
      case handle_all CONFIG config ps ss1 of (ss2, evs') \<Rightarrow> (ss2, evs @ evs'))"

definition reported_digits :: "CaptureEvent list \<Rightarrow> string list" where
  "reported_digits evs = map ev_value (filter (\<lambda>e. ev_key e = ''dtmfdigit'') evs)"

lemma reported_digits_simps [simp]:
  "reported_digits [] = []" "reported_digits (xs @ ys) = reported_digits xs @ reported_digits ys"
  by (simp_all add: reported_digits_def)

lemma trigger_reports_none: "reported_digits (snd (trigger_and_keep ss)) = []"
  by (simp add: trigger_and_keep_def TriggerOnDemandViaDtmf_def MarkAsOnDemand_def reported_digits_def new_CaptureEvent_def)

lemma commands_report_none: "reported_digits (snd (dtmf_commands config ss)) = []"
  by (simp add: dtmf_commands_def Let_def trigger_reports_none split: bool.split)

lemma dtmf_commands_ts: "m_currentRtpEventTs (fst (dtmf_commands config ss)) = m_currentRtpEventTs ss"
  by (simp add: dtmf_commands_def Let_def trigger_and_keep_fields split: bool.split)

lemma ReportDtmfDigit_reports:
  assumes "\<not> m_dtmfReportingDetailed CONFIG"
  shows "reported_digits (snd (ReportDtmfDigit CONFIG config now ch d dur vol ts seq ss)) = [d]"
    "m_currentRtpEventTs (fst (ReportDtmfDigit CONFIG config now ch d dur vol ts seq ss)) = m_currentRtpEventTs ss"
  using assms
  by (simp_all add: ReportDtmfDigit_def Let_def case_prod_beta dtmf_commands_ts commands_report_none)
    (simp add: reported_digits_def new_CaptureEvent_def)

lemma HandleRtpEvent_reports:
  assumes "\<not> m_dtmfReportingDetailed CONFIG" "4 \<le> length payload"
  shows "reported_digits (snd (HandleRtpEvent CONFIG config now ch payload ts seq ss)) =
      (if m_currentRtpEventTs ss \<noteq> ts \<and> payload ! 1 AND 0x80 \<noteq> 0 then [DtmfDigitToString (int (unat (payload ! 0)))] else [])"
    "m_currentRtpEventTs (fst (HandleRtpEvent CONFIG config now ch payload ts seq ss)) =
      (if payload ! 1 AND 0x80 \<noteq> 0 then ts else m_currentRtpEventTs ss)"
  using assms by (auto simp: HandleRtpEvent_def parse_event_def Let_def ReportDtmfDigit_reports)

text \<open>The packets of one key press: one timestamp and digit, the end bit set in at least one of them.\<close>

definition burst_ok :: "u32 \<times> nat \<Rightarrow> (int \<times> int \<times> u8 list \<times> u32 \<times> u32) list \<Rightarrow> bool" where
  "burst_ok press ps \<longleftrightarrow> (case press of (ts, d) \<Rightarrow>
     list_all (\<lambda>(now, ch, payload, ts', seq). 4 \<le> length payload \<and> unat (payload ! 0) = d \<and> ts' = ts) ps \<and>
     list_ex (\<lambda>(now, ch, payload, ts', seq). payload ! 1 AND 0x80 \<noteq> 0) ps)"

lemma handle_all_append:
  "handle_all CONFIG config (ps @ qs) ss =
    (let (ss1, evs) = handle_all CONFIG config ps ss; (ss2, evs') = handle_all CONFIG config qs ss1 in (ss2, evs @ evs'))"
proof (induction ps arbitrary: ss)
  case (Cons x ps)
  then show ?case by (cases x) (simp add: case_prod_beta Let_def)
qed (simp add: case_prod_beta Let_def)

lemma burst_reported_once:
  assumes "\<not> m_dtmfReportingDetailed CONFIG"
    and "list_all (\<lambda>(now, ch, payload, ts', seq). 4 \<le> length payload \<and> unat (payload ! 0) = d \<and> ts' = ts) ps"
  shows "reported_digits (snd (handle_all CONFIG config ps ss)) =
      (if m_currentRtpEventTs ss \<noteq> ts \<and> list_ex (\<lambda>(now, ch, payload, ts', seq). payload ! 1 AND 0x80 \<noteq> 0) ps
       then [DtmfDigitToString (int d)] else []) \<and>
     m_currentRtpEventTs (fst (handle_all CONFIG config ps ss)) =
      (if list_ex (\<lambda>(now, ch, payload, ts', seq). payload ! 1 AND 0x80 \<noteq> 0) ps then ts else m_currentRtpEventTs ss)"
  using assms(2)
proof (induction ps arbitrary: ss)
  case (Cons x ps)
  obtain now ch payload ts' seq where x: "x = (now, ch, payload, ts', seq)" by (cases x) auto
  from Cons.prems x have p: "4 \<le> length payload" "unat (payload ! 0) = d" "ts' = ts" by auto
  show ?case
    using Cons HandleRtpEvent_reports [OF assms(1) p(1), of config now ch ts seq ss] p
    by (auto simp: x case_prod_beta)
qed simp

text \<open>C35: Each key press is reported once: when the packets of a press share a timestamp that differs from the
  previous one's and at least one of them has the end bit, the digits reported are those pressed, in
  order, however often the packets of a press are retransmitted (with brief reports).\<close>

theorem rtp_events_reported_once:
  assumes "\<not> m_dtmfReportingDetailed CONFIG" "list_all2 burst_ok presses bursts"
    and "distinct_adj (m_currentRtpEventTs ss # map fst presses)"
  shows "reported_digits (snd (handle_all CONFIG config (concat bursts) ss)) =
    map (\<lambda>(ts, d). DtmfDigitToString (int d)) presses"
  using assms(2,3)
proof (induction presses bursts arbitrary: ss rule: list_all2_induct)
  case (Cons press presses ps bursts)
  obtain ts d where press: "press = (ts, d)" by fastforce
  let ?r = "handle_all CONFIG config ps ss"
  from Cons press have once: "reported_digits (snd ?r) = [DtmfDigitToString (int d)]" "m_currentRtpEventTs (fst ?r) = ts"
    using burst_reported_once [OF assms(1), of d ts ps config ss] by (auto simp: burst_ok_def)
  then have "reported_digits (snd (handle_all CONFIG config (concat bursts) (fst ?r))) =
      map (\<lambda>(ts, d). DtmfDigitToString (int d)) presses"
    using Cons.prems press by (intro Cons.IH) simp
  then show ?case using once(1) press by (simp add: handle_all_append case_prod_beta Let_def)
qed simp

lemma rtp_events_reported_once_witness:
  "reported_digits (snd (handle_all example_CONFIG example_config
      (concat [[(0, 1, [5, 0x0A, 0, 80], 160, 1), (0, 1, [5, 0x8A, 0, 160], 160, 2), (0, 1, [5, 0x8A, 0, 160], 160, 3)],
               [(0, 1, [11, 0x80, 1, 0], 960, 9)]]) (new_OrkSession example_CONFIG example_config 0))) =
    [DtmfDigitToString 5, DtmfDigitToString 11]"
  using rtp_events_reported_once [of example_CONFIG "[(160, 5), (960, 11)]"
      "[[(0, 1, [5, 0x0A, 0, 80], 160, 1), (0, 1, [5, 0x8A, 0, 160], 160, 2), (0, 1, [5, 0x8A, 0, 160], 160, 3)],
        [(0, 1, [11, 0x80, 1, 0], 960, 9)]]" "new_OrkSession example_CONFIG example_config 0" example_config]
  by (simp add: burst_ok_def example_CONFIG_def new_OrkSession_def)

end
