(* ===== verification/VoipTypes.thy ===== *)
theory VoipTypes
  imports Dtmf
begin

text \<open>
  The data of the VoIP sessions: \<open>audiocaptureplugins/voip/VoIpConfig.{h,cpp}\<close> and \<open>VoIpSession.h\<close>. The
  configuration records have the parameters that sessions read. A method of a session runs on a
  \<open>VoIpCall\<close>: the session with the part of the program that its methods reach (the endpoints, the party maps
  and the calls made to the capture callbacks). The clock, the local time and the decoders are parameters,
  in the record \<open>World\<close>.
\<close>

section \<open>Configuration\<close>

record VoIpConfig = AcpConfig +
  m_lanMasks :: "u32 list"
  m_rtpTrackUsingIpAddresses :: "u32 list"
  m_rtpSessionTimeoutSec :: int
  m_rtpSessionWithSignallingTimeoutSec :: int
  m_rtpSessionOnHoldTimeOutSec :: int
  m_rtpSessionWithSignallingInitialTimeoutSec :: int
  m_rtpDiscontinuityDetect :: bool
  m_rtpDiscontinuityMinSeqDelta :: int
  m_rtpTrackByUdpPortOnly :: bool
  m_rtpAllowMultipleMappings :: bool
  m_rtpSeqGapThreshold :: int
  m_sipUse200OkMediaAddress :: bool
  m_sipDynamicMediaAddress :: bool
  m_sipIgnoredMediaAddresses :: IpRanges
  m_sipNotifySupport :: bool
  m_sipReportNamesAsTags :: bool
  m_sipRequestUriAsLocalParty :: bool
  m_sipInviteCanPutOffHold :: bool
  m_sipCallPickUpSupport :: bool
  m_sipOnDemandFieldName :: string
  m_sipOnDemandFieldValue :: string
  m_sipOnDemandFieldValueOff :: string
  m_sipTrackMediaAddressOnSender :: bool
  m_sipAllowMetadataUpdateOnRtpChange :: bool
  m_sipAllowMediaAddressTransfer :: bool
  m_inInMode :: bool
  m_useMacIfNoLocalParty :: bool
  m_localPartyForceLocalIp :: bool
  m_localPartyForceLocalMac :: bool
  m_localPartyUseName :: bool
  m_partiesUseName :: bool
  m_skinnyIgnoreStopMediaTransmission :: bool
  m_skinnyIgnoreOpenReceiveChannelAck :: bool
  m_skinnyDynamicMediaAddress :: bool
  m_skinnyAllowCallInfoUpdate :: bool
  m_skinnyAllowLateCallInfo :: bool
  m_skinnyNameAsLocalParty :: bool
  m_skinnyCallInfoStopsPrevious :: bool
  m_skinnyCallInfoStopsPreviousToleranceSec :: int
  m_skinnyReportTags :: "string list"
  m_skinnyAllowMediaAddressTransfer :: bool
  m_skinnyRtpSearchesForCallInfo :: bool
  m_SkinnyTrackConferencesTransfers :: bool
  m_skinnyBehindNat :: bool
  m_skinnyIgnoreHold :: bool
  m_sangomaEnable :: bool
  m_sangomaTcpPortDelta :: int
  m_sangomaTxTcpPortStart :: int
  m_sipDomains :: "string list"
  m_sipDirectionReferenceIpAddresses :: IpRanges
  m_sipDirectionReferenceUserAgents :: "string list"
  m_lanIpRanges :: IpRanges
  m_mediaAddressBlockedIpRanges :: IpRanges
  m_mediaAddressAllowedIpRanges :: IpRanges
  m_dahdiIntercept :: bool
  m_holdReportStats :: bool
  m_trackRawRtpSessionInNonLookBackMode :: bool
  m_urlExtractorEnable :: bool
  m_remotePartyUseExtractedKey :: string
  m_rtpMinAmountOfPacketsBeforeStart :: int
  m_rtpBreakupOnStreamPause :: bool
  m_localPartyAddLocalIp :: bool
  m_rtpLogAllSsrc :: bool
  m_sipInfoDtmfRfc2976Detect :: bool
  m_mediaAddressUseSecondRtpAddress :: bool
  m_transferTimeOutInSec :: int
  m_rtpDtmfOnlyLocal :: bool
  m_localPartyNameMapEnable :: bool
  m_necVoipGatewayNames :: "string list"
  m_sipMetadataUseLastInvite :: bool

text \<open>Masks and addresses are compared as 32-bit values, so their byte order does not matter.\<close>

fun IsPartOfLan_loop :: "u32 list \<Rightarrow> u32 \<Rightarrow> bool" where
  "IsPartOfLan_loop [] addr = False"
| "IsPartOfLan_loop (m # ms) addr = (if addr AND m = addr then True else IsPartOfLan_loop ms addr)"

definition IsPartOfLan :: "VoIpConfig \<Rightarrow> u32 \<Rightarrow> bool" where
  "IsPartOfLan config addr = IsPartOfLan_loop (m_lanMasks config) addr"

definition IsRtpTrackingIpAddress :: "VoIpConfig \<Rightarrow> u32 \<Rightarrow> bool" where
  "IsRtpTrackingIpAddress config addr = list_ex (\<lambda>ip. addr = ip) (m_rtpTrackUsingIpAddresses config)"

section \<open>Addresses and numbers as text\<close>

definition octet :: "u32 \<Rightarrow> nat \<Rightarrow> nat" where
  "octet ip i = unat (drop_bit (24 - 8 * i) ip AND 0xFF)"

text \<open>\<open>inet_ntopV4\<close> into an array of 16 bytes.\<close>

definition ip_string :: "u32 \<Rightarrow> string" where
  "ip_string ip = dotted (octet ip 0, octet ip 1, octet ip 2, octet ip 3)"

text \<open>\<open>s_addr\<close>: the address in memory order, read as a little-endian number.\<close>

definition s_addr :: "u32 \<Rightarrow> u32" where
  "s_addr ip = word_of_nat (octet ip 0) + 256 * (word_of_nat (octet ip 1) +
     256 * (word_of_nat (octet ip 2) + 256 * word_of_nat (octet ip 3)))"

definition hex2 :: "u8 \<Rightarrow> string" where
  "hex2 b = [''0123456789abcdef'' ! (unat b div 16), ''0123456789abcdef'' ! (unat b mod 16)]"

fun MemMacToHumanReadable :: "u8 list \<Rightarrow> string \<Rightarrow> string" where
  "MemMacToHumanReadable [] output = output"
| "MemMacToHumanReadable (b # bs) output =
     MemMacToHumanReadable bs ((if output = [] then output else output @ '':'') @ hex2 b)"

section \<open>State\<close>

record UrlExtractionValue =
  url_value :: string
  url_timestamp :: int

record VoIpEndpointInfo =
  m_extension :: string
  m_latestCallId :: string
  m_ip :: u32
  m_skinnyPort :: u16
  m_lastConferencePressed :: int
  m_lastConnectedWithConference :: int
  ep_origOrkUid :: string
  m_urlExtractionMap :: "(string, UrlExtractionValue) std_map"
  m_preInviteNotifyRef :: "SipNotifyInfo option"

datatype ProtocolEnum = ProtRawRtp | ProtSip | ProtSkinny | ProtUnkn

text \<open>
  Times in seconds are \<open>int\<close>; \<open>OrkTimeValue\<close> is the number of microseconds. The fields that only mirror the
  log are left out.
\<close>

record VoIpSession = OrkSession +
  m_ipAndPort :: u64
  m_rtpIp :: u32
  m_callId :: string
  m_invite :: "SipInviteInfo option"
  m_creationDate :: int
  m_lastUpdated :: int
  m_lastKeepAlive :: int
  m_protocol :: ProtocolEnum
  m_remotePartyNecSip :: string
  m_localParty :: string
  m_remoteParty :: string
  m_localEntryPoint :: string
  m_localPartyName :: string
  m_remotePartyName :: string
  m_localPartyReported :: bool
  m_remotePartyReported :: bool
  m_rtcpLocalParty :: bool
  m_rtcpRemoteParty :: bool
  m_direction :: DirectionEnum
  m_localSide :: LocalSideEnum
  m_numRtpPackets :: int
  m_numIgnoredRtpPackets :: int
  m_metadataProcessed :: bool
  m_highestRtpSeqNumDelta :: int
  m_minRtpSeqDelta :: int
  m_minRtpTimestampDelta :: int
  m_rtpNumMissingPkts :: u32
  m_rtpNumSeqGaps :: u32
  m_endPointIp :: u32
  m_endPointSignallingPort :: u16
  m_skinnyPassThruPartyId :: int
  m_sipLastInvite :: int
  m_skinnyLastCallInfoTime :: int
  m_skinnyLineInstance :: int
  m_onHold :: bool
  m_mediaAddresses :: "u64 list"
  m_lastRtpStreamStart :: int
  m_holdDuration :: int
  m_holdBegin :: int
  m_sipDialedNumber :: string
  m_sipRemoteParty :: string
  m_isCallPickUp :: bool
  m_numAlienRtpPacketsS1 :: u32
  m_numAlienRtpPacketsS2 :: u32
  m_ssrcCandidate :: u32
  m_hasReceivedCallInfo :: bool
  m_lastRtpPacket :: "RtpPacketInfo option"
  m_remoteIp :: u32
  m_localMac :: "u8 list"
  m_remoteMac :: "u8 list"
  m_orkUid :: string
  m_hasDuplicateRtp :: bool
  m_rtpAddressList :: "TcpAddress list"
  m_invites :: "SipInviteInfo list"
  m_tags :: "(string, string) std_map"
  m_ssrcCandidateTimestamp :: u32
  m_loggedSsrcMap :: "(u32, int) std_map"
  m_lastSipInfo :: "SipInfo option"

text \<open>What the session methods reach outside the session.\<close>

datatype callback = EventCallback CaptureEvent string | AudioChunkCallback AudioChunk string

record Globals =
  m_endpoints :: "(u64, VoIpEndpointInfo) std_map"
  m_localPartyMap :: "(string, string) std_map"
  s_localPartyNameMap :: "(string, string) std_map"
  g_callbacks :: "callback list"

record VoIpCall = VoIpSession +
  v_env :: Globals

text \<open>
  The configuration, the clock of the current event in microseconds, \<open>apr_time_exp_lt\<close> (year, month, day,
  hour, minute and second of a time in seconds), the level of a decoded packet, and the values of the
  fields that the constructors of sessions and endpoints leave uninitialised.
\<close>

record Uninitialised =
  u_localIp :: u32
  u_remoteIp :: u32
  u_endPointIp :: u32
  u_endPointSignallingPort :: u16
  u_holdBegin :: int
  u_ssrcCandidateTimestamp :: u32
  u_endpointInfoIp :: u32
  u_endpointInfoPort :: u16

record World =
  DLLCONFIG :: VoIpConfig
  CONFIG :: OrkConfig
  now_us :: int
  local_time :: "int \<Rightarrow> int \<times> int \<times> int \<times> int \<times> int \<times> int"
  decoded_db :: "nat \<Rightarrow> RtpPacketInfo \<Rightarrow> real"
  uninit :: Uninitialised

definition time_now :: "World \<Rightarrow> int" where
  "time_now w = now_us w div 1000000"

definition sec_of :: "int \<Rightarrow> int" where
  "sec_of us = us div 1000000"

end
