(* ===== verification/VoipSession.thy ===== *)
theory VoipSession
  imports VoipTypes
begin

text \<open>
  The methods of one VoIP session: \<open>VoIpSession\<close> in \<open>audiocaptureplugins/voip/VoIpSession.cpp\<close>, lines 41 to
  1938, except \<open>AddRtpPacket\<close>. A method that dereferences the INVITE of the session, or that matches an address
  against ranges, can fault and returns a result.
\<close>

section \<open>Endpoints and party maps\<close>

definition Craft64bitMediaAddress :: "VoIpConfig \<Rightarrow> u32 \<Rightarrow> u16 \<Rightarrow> u64" where
  "Craft64bitMediaAddress config ip port =
     (if \<not> m_rtpTrackByUdpPortOnly config then push_bit 16 (ucast (s_addr ip)) OR ucast port else ucast port)"

definition GetVoIpEndpointInfo :: "VoIpConfig \<Rightarrow> Globals \<Rightarrow> u32 \<Rightarrow> u16 \<Rightarrow> VoIpEndpointInfo option" where
  "GetVoIpEndpointInfo config env ip port = map_find (Craft64bitMediaAddress config ip port) (m_endpoints env)"

definition GetVoIpEndpointInfoByIp :: "Globals \<Rightarrow> u32 \<Rightarrow> VoIpEndpointInfo option" where
  "GetVoIpEndpointInfoByIp env ip = map_option snd (List.find (\<lambda>(_, ep). m_ip ep = ip) (m_endpoints env))"

definition GetLocalPartyMap :: "Globals \<Rightarrow> string \<Rightarrow> string" where
  "GetLocalPartyMap env party = (case map_find party (m_localPartyMap env) of Some p \<Rightarrow> p | None \<Rightarrow> party)"

definition SaveLocalPartyMap :: "string \<Rightarrow> string \<Rightarrow> Globals \<Rightarrow> Globals" where
  "SaveLocalPartyMap oldparty newparty env = env\<lparr>m_localPartyMap := map_insert oldparty newparty (m_localPartyMap env)\<rparr>"

definition ClearLocalPartyMap :: "Globals \<Rightarrow> Globals" where
  "ClearLocalPartyMap env = env\<lparr>m_localPartyMap := []\<rparr>"

section \<open>Callbacks\<close>

definition capture :: "CaptureEvent \<Rightarrow> VoIpCall \<Rightarrow> VoIpCall" where
  "capture ev c = c\<lparr>v_env := (v_env c)\<lparr>g_callbacks := g_callbacks (v_env c) @ [EventCallback ev (m_capturePort c)]\<rparr>\<rparr>"

definition report :: "EventTypeEnum \<Rightarrow> string \<Rightarrow> VoIpCall \<Rightarrow> VoIpCall" where
  "report t val c = capture (new_CaptureEvent t '''' val 0) c"

definition key_value :: "string \<Rightarrow> string \<Rightarrow> VoIpCall \<Rightarrow> VoIpCall" where
  "key_value key val c = capture (new_CaptureEvent EtKeyValue key val 0) c"

definition send_all :: "VoIpCall \<times> CaptureEvent list \<Rightarrow> VoIpCall" where
  "send_all r = (case r of (c, evs) \<Rightarrow> fold capture evs c)"

section \<open>Construction\<close>

definition new_VoIpSession :: "World \<Rightarrow> string \<Rightarrow> VoIpSession" where
  "new_VoIpSession w trackingId =
    (let base = new_OrkSession (CONFIG w) (DLLCONFIG w) (u_localIp (uninit w)) in
    \<lparr>m_started = m_started base, m_stopped = m_stopped base, m_capturePort = m_capturePort base,
      m_trackingId = trackingId, m_beginDate = m_beginDate base,
      m_keepRtp = (if \<not> m_lookBackRecording (CONFIG w) then False else m_keepRtp base),
      m_onDemand = m_onDemand base, m_startWhenReceiveS2 = False, m_nonLookBackSessionStarted = False,
      m_dtmfDigitString = m_dtmfDigitString base, m_currentRtpEventTs = m_currentRtpEventTs base,
      m_telephoneEventPayloadType = m_telephoneEventPayloadType base,
      m_orekaRtpPayloadTypeMap = m_orekaRtpPayloadTypeMap base, m_numDecoders = m_numDecoders base,
      m_ctiDrivenSession = m_ctiDrivenSession base, m_lastRtpPacketSide1 = m_lastRtpPacketSide1 base,
      m_lastRtpPacketSide2 = m_lastRtpPacketSide2 base, m_localIp = m_localIp base, m_mappedS1S2 = False,
      m_logMsg = m_logMsg base, m_ipAndPort = 0, m_rtpIp = 0, m_callId = '''', m_invite = None,
      m_creationDate = now_us w, m_lastUpdated = time_now w, m_lastKeepAlive = time_now w, m_protocol = ProtUnkn,
      m_remotePartyNecSip = '''', m_localParty = '''', m_remoteParty = '''', m_localEntryPoint = '''',
      m_localPartyName = '''', m_remotePartyName = '''', m_localPartyReported = False,
      m_remotePartyReported = False, m_rtcpLocalParty = False, m_rtcpRemoteParty = False, m_direction = DirUnkn,
      m_localSide = LocalSideUnkn, m_numRtpPackets = 0, m_numIgnoredRtpPackets = 0, m_metadataProcessed = False,
      m_highestRtpSeqNumDelta = 0, m_minRtpSeqDelta = m_rtpDiscontinuityMinSeqDelta (DLLCONFIG w),
      m_minRtpTimestampDelta = m_rtpDiscontinuityMinSeqDelta (DLLCONFIG w) * 160, m_rtpNumMissingPkts = 0,
      m_rtpNumSeqGaps = 0, m_endPointIp = u_endPointIp (uninit w),
      m_endPointSignallingPort = u_endPointSignallingPort (uninit w), m_skinnyPassThruPartyId = 0,
      m_sipLastInvite = now_us w, m_skinnyLastCallInfoTime = now_us w, m_skinnyLineInstance = 0, m_onHold = False,
      m_mediaAddresses = [], m_lastRtpStreamStart = 0, m_holdDuration = 0, m_holdBegin = u_holdBegin (uninit w),
      m_sipDialedNumber = '''', m_sipRemoteParty = '''', m_isCallPickUp = False, m_numAlienRtpPacketsS1 = 0,
      m_numAlienRtpPacketsS2 = 0, m_ssrcCandidate = - 1, m_hasReceivedCallInfo = False, m_lastRtpPacket = None,
      m_remoteIp = u_remoteIp (uninit w), m_localMac = replicate 6 0, m_remoteMac = replicate 6 0, m_orkUid = '''',
      m_hasDuplicateRtp = False, m_rtpAddressList = [], m_invites = [], m_tags = [],
      m_ssrcCandidateTimestamp = u_ssrcCandidateTimestamp (uninit w), m_loggedSsrcMap = [], m_lastSipInfo = None\<rparr>)"

definition ProtocolToEnum :: "string \<Rightarrow> ProtocolEnum" where
  "ProtocolToEnum protocol =
     (if CompareNoCase_eq protocol ''RawRtp'' then ProtRawRtp
      else if CompareNoCase_eq protocol ''Sip'' then ProtSip
      else if CompareNoCase_eq protocol ''Skinny'' then ProtSkinny
      else ProtUnkn)"

fun ProtocolToString :: "ProtocolEnum \<Rightarrow> string" where
  "ProtocolToString ProtRawRtp = ''RawRtp''"
| "ProtocolToString ProtSip = ''Sip''"
| "ProtocolToString ProtSkinny = ''Skinny''"
| "ProtocolToString ProtUnkn = ''Unkn''"

section \<open>Starting and stopping\<close>

text \<open>\<open>%.nd\<close>.\<close>

definition fmt_precision :: "nat \<Rightarrow> int \<Rightarrow> string" where
  "fmt_precision n i = (if i < 0 then ''-'' else '''') @
     replicate (n - length (decimal (nat \<bar>i\<bar>))) (CHR ''0'') @ decimal (nat \<bar>i\<bar>)"

definition GenerateOrkUid :: "World \<Rightarrow> VoIpCall \<Rightarrow> VoIpCall" where
  "GenerateOrkUid w c =
     (case local_time w (m_beginDate c) of (year, month, day, hour, minute, second) \<Rightarrow>
      c\<lparr>m_orkUid := fmt_precision 4 year @ fmt_precision 2 month @ fmt_precision 2 day @ ''_'' @
         fmt_precision 2 hour @ fmt_precision 2 minute @ fmt_precision 2 second @ ''_'' @ m_trackingId c\<rparr>)"

definition SkinnyTrackConferencesTransfers :: "World \<Rightarrow> string \<Rightarrow> VoIpCall \<Rightarrow> VoIpCall" where
  "SkinnyTrackConferencesTransfers w port c =
     (let key = Craft64bitMediaAddress (DLLCONFIG w) (m_endPointIp c) (m_endPointSignallingPort c)
      in case GetVoIpEndpointInfo (DLLCONFIG w) (v_env c) (m_endPointIp c) (m_endPointSignallingPort c) of
        None \<Rightarrow> c
      | Some endpoint \<Rightarrow>
          if time_now w - m_lastConferencePressed endpoint > 3 \<and> time_now w - m_lastConnectedWithConference endpoint > 3
          then c\<lparr>v_env := (v_env c)\<lparr>m_endpoints :=
                 map_change key (\<lambda>ep. ep\<lparr>ep_origOrkUid := ''''\<rparr>) (m_endpoints (v_env c))\<rparr>\<rparr>
          else if ep_origOrkUid endpoint \<noteq> ''''
          then c\<lparr>v_env := (v_env c)\<lparr>g_callbacks := g_callbacks (v_env c) @
                 [EventCallback (new_CaptureEvent EtKeyValue ''orig-orkuid'' (ep_origOrkUid endpoint) 0) port]\<rparr>\<rparr>
          else c)"

definition VoIpSession_Start :: "World \<Rightarrow> VoIpCall \<Rightarrow> VoIpCall" where
  "VoIpSession_Start w c =
     (let c1 = c\<lparr>m_beginDate := time_now w\<rparr>;
          c2 = (if \<not> m_started c1 then GenerateOrkUid w c1 else c1);
          c3 = c2\<lparr>m_started := True\<rparr>;
          c4 = capture ((new_CaptureEvent EtStart '''' (m_trackingId c3) 0)\<lparr>ev_timestamp := m_beginDate c3\<rparr>) c3
      in if m_SkinnyTrackConferencesTransfers (DLLCONFIG w)
         then SkinnyTrackConferencesTransfers w (m_capturePort c4) c4 else c4)"

definition MatchesReferenceAddresses :: "World \<Rightarrow> u32 \<Rightarrow> bool result" where
  "MatchesReferenceAddresses w addr = IpRanges_Matches (m_sipDirectionReferenceIpAddresses (DLLCONFIG w)) addr"

definition is_local_side :: "World \<Rightarrow> VoIpCall \<Rightarrow> RtpPacketInfo \<Rightarrow> bool result" where
  "is_local_side w c p =
     andThen (MatchesReferenceAddresses w (m_sourceIp p)) (\<lambda>reference.
     Inr (\<not> reference \<or> GetVoIpEndpointInfoByIp (v_env c) (m_sourceIp p) \<noteq> None))"

definition stop_local_side :: "World \<Rightarrow> VoIpCall \<Rightarrow> VoIpCall result" where
  "stop_local_side w c =
     andThen (case m_lastRtpPacketSide1 c of
         None \<Rightarrow> Inr c
       | Some p \<Rightarrow> andThen (is_local_side w c p) (\<lambda>l. Inr (if l then c\<lparr>m_localSide := LocalSideSide1\<rparr> else c))) (\<lambda>c1.
     case m_lastRtpPacketSide2 c1 of
       None \<Rightarrow> Inr c1
     | Some p \<Rightarrow> andThen (is_local_side w c1 p) (\<lambda>l.
         Inr (if l then c1\<lparr>m_localSide :=
                  (if m_localSide c1 = LocalSideSide1 then LocalSideBoth else LocalSideSide2)\<rparr>
              else c1)))"

definition stop_extracted_party :: "World \<Rightarrow> VoIpCall \<Rightarrow> VoIpCall" where
  "stop_extracted_party w c =
     (if m_urlExtractorEnable (DLLCONFIG w) then
        (let endpoint = (case GetVoIpEndpointInfo (DLLCONFIG w) (v_env c) (m_localIp c) 0 of
               Some ep \<Rightarrow> Some ep
             | None \<Rightarrow> GetVoIpEndpointInfo (DLLCONFIG w) (v_env c) (m_remoteIp c) 0)
         in case endpoint of
              None \<Rightarrow> c
            | Some ep \<Rightarrow>
                (case map_find (m_remotePartyUseExtractedKey (DLLCONFIG w)) (m_urlExtractionMap ep) of
                   None \<Rightarrow> c
                 | Some v \<Rightarrow>
                     if url_timestamp v \<ge> sec_of (m_creationDate c) \<and> url_timestamp v \<le> m_lastUpdated c
                     then report EtRemoteParty (url_value v) (c\<lparr>m_remoteParty := url_value v\<rparr>)
                     else c))
      else c)"

definition VoIpSession_Stop :: "World \<Rightarrow> VoIpCall \<Rightarrow> VoIpCall result" where
  "VoIpSession_Stop w c =
     (if m_started c \<and> \<not> m_stopped c then
        andThen (stop_local_side w c) (\<lambda>c1.
          let c2 = stop_extracted_party w c1;
              c3 = report EtLocalSide (LocalSideToString (m_localSide c2)) c2;
              c4 = capture ((new_CaptureEvent EtStop '''' '''' 0)\<lparr>ev_timestamp := m_lastUpdated c3\<rparr>) c3
          in Inr (c4\<lparr>m_stopped := True\<rparr>))
      else Inr c)"

section \<open>Metadata\<close>

text \<open>\<open>m_localParty.Format("%s@%s", m_localParty, szLocalIp)\<close>, when so configured.\<close>

definition with_local_ip :: "World \<Rightarrow> VoIpCall \<Rightarrow> string \<Rightarrow> string" where
  "with_local_ip w c party =
     (if m_localPartyAddLocalIp (DLLCONFIG w) then party @ ''@'' @ ip_string (m_localIp c) else party)"

text \<open>The CNAME, with the first label of its domain in iN mode (a buffer of 256 characters).\<close>

definition rtcp_party :: "World \<Rightarrow> RtcpSrcDescriptionPacketInfo \<Rightarrow> string" where
  "rtcp_party w info =
     (if m_inInMode (DLLCONFIG w)
      then c_str (m_cnameUsername info) @ ''@'' @ takeWhile (\<lambda>ch. ch \<noteq> CHR ''.'') (take 255 (c_str (m_cnameDomain info)))
      else m_cnameUsername info)"

definition VoIpSession_ReportRtcpSrcDescription :: "World \<Rightarrow> RtcpSrcDescriptionPacketInfo \<Rightarrow> VoIpCall \<Rightarrow> VoIpCall" where
  "VoIpSession_ReportRtcpSrcDescription w info c =
     (if \<not> m_rtcpLocalParty c then
        let c1 = c\<lparr>m_rtcpLocalParty := True, m_localParty := GetLocalPartyMap (v_env c) (rtcp_party w info)\<rparr>
        in if m_localPartyReported c1
           then let c2 = c1\<lparr>m_localParty := with_local_ip w c1 (m_localParty c1)\<rparr> in report EtLocalParty (m_localParty c2) c2
           else c1
      else if \<not> m_rtcpRemoteParty c then
        if \<not> CompareNoCase_eq (rtcp_party w info) (m_localParty c)
        then let c1 = c\<lparr>m_rtcpRemoteParty := True, m_remoteParty := GetLocalPartyMap (v_env c) (rtcp_party w info)\<rparr>
             in if m_remotePartyReported c1 then report EtRemoteParty (m_remoteParty c1) c1 else c1
        else c
      else c)"

definition source_is_local :: "World \<Rightarrow> RtpPacketInfo \<Rightarrow> bool result" where
  "source_is_local w p =
     andThen (IsMediaGateway (DLLCONFIG w) (m_sourceIp p)) (\<lambda>source_gateway.
     if source_gateway then
       andThen (IsMediaGateway (DLLCONFIG w) (m_destIp p)) (\<lambda>dest_gateway.
       Inr (if dest_gateway then False else if IsPartOfLan (DLLCONFIG w) (m_destIp p) then False else True))
     else Inr (if IsPartOfLan (DLLCONFIG w) (m_sourceIp p) then True else False))"

definition raw_rtp_parties :: "World \<Rightarrow> u32 \<Rightarrow> u8 list \<Rightarrow> u32 \<Rightarrow> u8 list \<Rightarrow> VoIpCall \<Rightarrow> VoIpCall" where
  "raw_rtp_parties w localIp localMac remoteIp remoteMac c =
     (let c1 = (if \<not> m_rtcpLocalParty c
          then c\<lparr>m_localParty := (if m_useMacIfNoLocalParty (DLLCONFIG w)
                  then MemMacToHumanReadable localMac (m_localParty c)
                  else GetLocalPartyMap (v_env c) (ip_string localIp))\<rparr>
          else c);
          c2 = (if \<not> m_rtcpRemoteParty c1
          then c1\<lparr>m_remoteParty := GetLocalPartyMap (v_env c1) (ip_string remoteIp)\<rparr> else c1)
      in c2\<lparr>m_localIp := localIp, m_remoteIp := remoteIp, m_localMac := localMac, m_remoteMac := remoteMac\<rparr>)"

definition ProcessMetadataRawRtp :: "World \<Rightarrow> RtpPacketInfo \<Rightarrow> VoIpCall \<Rightarrow> VoIpCall result" where
  "ProcessMetadataRawRtp w p c =
     andThen (source_is_local w p) (\<lambda>sourceIsLocal.
       let c1 = c\<lparr>m_capturePort := (if m_sangomaEnable (DLLCONFIG w)
                    then IntToString (int (unat (m_sourcePort p)) mod 1000) else m_trackingId c)\<rparr>
       in Inr (if sourceIsLocal
               then raw_rtp_parties w (m_sourceIp p) (m_sourceMac p) (m_destIp p) (m_destMac p) c1
               else raw_rtp_parties w (m_destIp p) (m_destMac p) (m_sourceIp p) (m_sourceMac p) c1))"

definition MatchesSipDomain :: "World \<Rightarrow> string \<Rightarrow> bool" where
  "MatchesSipDomain w domain = list_ex (\<lambda>element. CompareNoCase_eq element domain) (m_sipDomains (DLLCONFIG w))"

definition IsInSkinnyReportingList :: "World \<Rightarrow> string \<Rightarrow> bool" where
  "IsInSkinnyReportingList w item = list_ex (\<lambda>element. CompareNoCase_eq element item) (m_skinnyReportTags (DLLCONFIG w))"

definition invite_of :: "VoIpCall \<Rightarrow> SipInviteInfo result" where
  "invite_of c = (case m_invite c of None \<Rightarrow> Inl NullDereference | Some i \<Rightarrow> Inr i)"

definition uses_request_uri :: "World \<Rightarrow> SipInviteInfo \<Rightarrow> bool" where
  "uses_request_uri w i \<longleftrightarrow> m_sipRequestUriAsLocalParty (DLLCONFIG w) \<and>
     \<not> CompareNoCase_eq (m_requestUri i) (SipInviteInfo.m_to i)"

definition default_names :: "VoIpCall \<Rightarrow> VoIpCall" where
  "default_names c =
     (let c1 = (if m_remotePartyName c = '''' then c\<lparr>m_remotePartyName := m_remoteParty c\<rparr> else c)
      in if m_localPartyName c1 = '''' then c1\<lparr>m_localPartyName := m_localParty c1\<rparr> else c1)"

definition request_uri_parties :: "SipInviteInfo \<Rightarrow> VoIpCall \<Rightarrow> VoIpCall" where
  "request_uri_parties i c =
     c\<lparr>m_localParty := GetLocalPartyMap (v_env c) (m_requestUri i),
       m_remoteParty := GetLocalPartyMap (v_env c) (SipInviteInfo.m_from i),
       m_direction := DirIn, m_localEntryPoint := SipInviteInfo.m_to i\<rparr>"

definition ProcessMetadataSipIncoming :: "World \<Rightarrow> VoIpCall \<Rightarrow> VoIpCall result" where
  "ProcessMetadataSipIncoming w c =
     andThen (invite_of c) (\<lambda>i.
       let c1 = (if uses_request_uri w i \<and> m_requestUri i \<noteq> '''' then request_uri_parties i c
                 else c\<lparr>m_remoteParty := GetLocalPartyMap (v_env c) (SipInviteInfo.m_from i),
                        m_localParty := GetLocalPartyMap (v_env c) (SipInviteInfo.m_to i), m_direction := DirIn\<rparr>);
           c2 = default_names (c1\<lparr>m_remotePartyName := SipInviteInfo.m_fromName i, m_localPartyName := SipInviteInfo.m_toName i\<rparr>)
       in Inr (c2\<lparr>m_localIp := SipInviteInfo.m_receiverIp i, m_remoteIp := SipInviteInfo.m_senderIp i,
                  m_capturePort := m_trackingId c2, m_localMac := SipInviteInfo.m_receiverMac i, m_remoteMac := SipInviteInfo.m_senderMac i\<rparr>))"

definition ProcessMetadataSipOutgoing :: "World \<Rightarrow> VoIpCall \<Rightarrow> VoIpCall result" where
  "ProcessMetadataSipOutgoing w c =
     andThen (invite_of c) (\<lambda>i.
       let c1 = (if uses_request_uri w i \<and> m_requestUri i \<noteq> '''' then request_uri_parties i c
                 else c\<lparr>m_remoteParty := GetLocalPartyMap (v_env c) (SipInviteInfo.m_to i),
                        m_localParty := GetLocalPartyMap (v_env c) (SipInviteInfo.m_from i), m_direction := DirOut\<rparr>);
           c2 = default_names (c1\<lparr>m_remotePartyName := SipInviteInfo.m_toName i, m_localPartyName := SipInviteInfo.m_fromName i\<rparr>)
       in Inr (c2\<lparr>m_localIp := SipInviteInfo.m_senderIp i, m_remoteIp := SipInviteInfo.m_receiverIp i,
                  m_capturePort := m_trackingId c2, m_localMac := SipInviteInfo.m_senderMac i, m_remoteMac := SipInviteInfo.m_receiverMac i\<rparr>))"

definition UpdateMetadataSkinny :: "World \<Rightarrow> VoIpCall \<Rightarrow> VoIpCall" where
  "UpdateMetadataSkinny w c =
     (let c1 = (if m_skinnyNameAsLocalParty (DLLCONFIG w) \<and> m_localPartyName c \<noteq> ''''
          then let c' = c\<lparr>m_localPartyName := with_local_ip w c (m_localPartyName c)\<rparr>
               in report EtLocalParty (m_localPartyName c') c'
          else let c' = c\<lparr>m_localParty := with_local_ip w c (m_localParty c)\<rparr>
               in report EtLocalParty (m_localParty c') c')
      in report EtUpdate '''' (report EtRemoteParty (m_remoteParty c1) c1))"

text \<open>
  The INVITE that \<open>UpdateMetadataSipOnRtpChange\<close> chooses: the last match before the first validated one.
  Its change of \<open>m_validated\<close> goes to the list of INVITEs; nothing reads the flag elsewhere.
\<close>

fun matching_invite :: "(SipInviteInfo \<Rightarrow> bool) \<Rightarrow> nat \<Rightarrow> SipInviteInfo list \<Rightarrow> nat option \<Rightarrow> nat option" where
  "matching_invite matches i [] chosen = chosen"
| "matching_invite matches i (v # vs) chosen =
     (if m_validated v then chosen
      else matching_invite matches (Suc i) vs (if matches v then Some i else chosen))"

definition report_names :: "World \<Rightarrow> VoIpCall \<Rightarrow> VoIpCall" where
  "report_names w c =
     (if m_sipReportNamesAsTags (DLLCONFIG w)
      then key_value ''remotename'' (m_remotePartyName c) (key_value ''localname'' (m_localPartyName c) c) else c)"

definition invite_metadata :: "World \<Rightarrow> SipInviteInfo \<Rightarrow> SipInviteInfo \<Rightarrow> VoIpCall \<Rightarrow> VoIpCall" where
  "invite_metadata w first invite c1 =
     (let c2 = (if uses_request_uri w first then request_uri_parties first c1
                else c1\<lparr>m_remoteParty := GetLocalPartyMap (v_env c1) (SipInviteInfo.m_from invite),
                        m_localParty := GetLocalPartyMap (v_env c1) (SipInviteInfo.m_to invite)\<rparr>);
          c3 = default_names (c2\<lparr>m_remotePartyName := SipInviteInfo.m_fromName first, m_localPartyName := SipInviteInfo.m_toName first\<rparr>);
          c4 = c3\<lparr>m_localIp := SipInviteInfo.m_receiverIp invite, m_localMac := SipInviteInfo.m_receiverMac invite\<rparr>;
          c5 = c4\<lparr>m_localParty := with_local_ip w c4 (m_localParty c4)\<rparr>;
          c6 = report EtRemoteParty (m_remoteParty c5) (report EtLocalParty (m_localParty c5) c5);
          c7 = report EtLocalIp (ip_string (m_localIp c6)) (report_names w c6)
      in report EtUpdate '''' c7)"

definition UpdateMetadataSipOnRtpChange :: "World \<Rightarrow> RtpPacketInfo \<Rightarrow> bool \<Rightarrow> VoIpCall \<Rightarrow> VoIpCall result" where
  "UpdateMetadataSipOnRtpChange w p sourceRtpAddressIsNew c =
     (case matching_invite (\<lambda>v. (if sourceRtpAddressIsNew then m_sourceIp p else m_destIp p) = SipInviteInfo.m_receiverIp v)
             0 (m_invites c) None of
        None \<Rightarrow> Inr c
      | Some k \<Rightarrow>
          let invite = m_invites c ! k;
              c1 = c\<lparr>m_invites := (m_invites c)[k := invite\<lparr>m_validated := True\<rparr>]\<rparr>
          in andThen (invite_of c1) (\<lambda>first. Inr (invite_metadata w first invite c1)))"

definition sip_incoming_or_outgoing :: "World \<Rightarrow> SipInviteInfo \<Rightarrow> VoIpCall \<Rightarrow> VoIpCall result" where
  "sip_incoming_or_outgoing w i c =
     (if m_asciiIpRanges (m_sipDirectionReferenceIpAddresses (DLLCONFIG w)) \<noteq> [] then
        andThen (MatchesReferenceAddresses w (SipInviteInfo.m_senderIp i)) (\<lambda>reference.
        if reference then ProcessMetadataSipIncoming w c else ProcessMetadataSipOutgoing w c)
      else if MatchesSipDomain w (SipInviteInfo.m_fromDomain i) \<and> MatchesSipDomain w (SipInviteInfo.m_toDomain i) then ProcessMetadataSipOutgoing w c
      else if MatchesSipDomain w (SipInviteInfo.m_fromDomain i) then ProcessMetadataSipOutgoing w c
      else if MatchesSipDomain w (SipInviteInfo.m_toDomain i) then ProcessMetadataSipIncoming w c
      else if MatchesStringList (m_userAgent i) (m_sipDirectionReferenceUserAgents (DLLCONFIG w))
      then ProcessMetadataSipIncoming w c
      else ProcessMetadataSipOutgoing w c)"

definition sip_overrides :: "SipInviteInfo \<Rightarrow> VoIpCall \<Rightarrow> VoIpCall" where
  "sip_overrides i c =
     (let c1 = (if m_SipGroupPickUpPatternDetected i then c\<lparr>m_direction := DirIn\<rparr> else c)
      in if m_sipRemoteParty c1 \<noteq> '''' then c1\<lparr>m_remoteParty := m_sipRemoteParty c1\<rparr> else c1)"

definition ProcessMetadataSip :: "World \<Rightarrow> VoIpCall \<Rightarrow> VoIpCall result" where
  "ProcessMetadataSip w c =
     (if m_sipDialedNumber c \<noteq> '''' then
        andThen (ProcessMetadataSipOutgoing w c) (\<lambda>c1.
        andThen (invite_of c1) (\<lambda>i.
        Inr (c1\<lparr>m_remoteParty := SipInviteInfo.m_sipDialedNumber i, m_localParty := SipInviteInfo.m_to i,
                m_direction := DirOut\<rparr>)))
      else
        andThen (invite_of c) (\<lambda>i.
        andThen (sip_incoming_or_outgoing w i c) (\<lambda>c1.
        andThen (invite_of c1) (\<lambda>i1. Inr (sip_overrides i1 c1)))))"

definition ProcessMetadataSkinny :: "World \<Rightarrow> RtpPacketInfo \<Rightarrow> VoIpCall \<Rightarrow> VoIpCall" where
  "ProcessMetadataSkinny w p c =
     (let c1 = c\<lparr>m_capturePort := m_trackingId c\<rparr>
      in if m_endPointIp c1 = m_destIp p
         then c1\<lparr>m_localIp := m_destIp p, m_remoteIp := m_sourceIp p, m_localMac := m_destMac p, m_remoteMac := m_sourceMac p\<rparr>
         else c1\<lparr>m_localIp := m_sourceIp p, m_remoteIp := m_destIp p, m_localMac := m_sourceMac p, m_remoteMac := m_destMac p\<rparr>)"

section \<open>Reporting\<close>

definition metadata_local_party :: "World \<Rightarrow> VoIpCall \<Rightarrow> VoIpCall" where
  "metadata_local_party w c =
     (let config = DLLCONFIG w;
          mapped = GetLocalPartyMap (v_env c);
          c1 = (if m_localPartyForceLocalIp config then c\<lparr>m_localParty := mapped (ip_string (m_localIp c))\<rparr>
                else if m_localParty c = '''' \<and> m_protocol c = ProtSkinny then
                  (case GetVoIpEndpointInfo config (v_env c) (m_endPointIp c) (m_endPointSignallingPort c) of
                     None \<Rightarrow> c
                   | Some ep \<Rightarrow> c\<lparr>m_localParty := mapped (m_extension ep)\<rparr>)
                else c);
          c2 = (if m_localParty c1 = ''''
                then c1\<lparr>m_localParty := (if m_useMacIfNoLocalParty config
                    then MemMacToHumanReadable (m_localMac c1) (m_localParty c1) else mapped (ip_string (m_localIp c1)))\<rparr>
                else c1)
      in if m_localPartyForceLocalMac config
         then c2\<lparr>m_localParty := mapped (MemMacToHumanReadable (m_localMac c2) '''')\<rparr> else c2)"

text \<open>\<open>operator[]\<close> adds an empty name for an address that is not in the map yet.\<close>

definition metadata_party_name_map :: "World \<Rightarrow> VoIpCall \<Rightarrow> VoIpCall" where
  "metadata_party_name_map w c =
     (if m_localPartyNameMapEnable (DLLCONFIG w) then
        let localIp = ip_string (m_localIp c);
            names = map_insert localIp '''' (s_localPartyNameMap (v_env c));
            temp = (case map_find localIp names of Some n \<Rightarrow> n | None \<Rightarrow> '''');
            c1 = c\<lparr>v_env := (v_env c)\<lparr>s_localPartyNameMap := names\<rparr>\<rparr>
        in if m_localPartyName c1 \<noteq> m_localParty c1 \<and> m_localPartyName c1 \<noteq> '''' \<and> m_localPartyName c1 \<noteq> temp
           then c1\<lparr>v_env := (v_env c1)\<lparr>s_localPartyNameMap := map_assign localIp (m_localPartyName c1) names\<rparr>\<rparr>
           else if temp \<noteq> '''' \<and> m_localPartyName c1 \<noteq> temp then c1\<lparr>m_localPartyName := temp\<rparr>
           else c1
      else c)"

definition report_local_party :: "World \<Rightarrow> VoIpCall \<Rightarrow> VoIpCall" where
  "report_local_party w c =
     (let config = DLLCONFIG w
      in if m_protocol c = ProtSkinny \<and> m_skinnyNameAsLocalParty config \<and> m_localPartyName c \<noteq> '''' \<or>
            (m_partiesUseName config \<or> m_localPartyUseName config) \<and> m_localPartyName c \<noteq> ''''
         then let c1 = c\<lparr>m_localPartyName := with_local_ip w c (m_localPartyName c)\<rparr>
              in (report EtLocalParty (m_localPartyName c1) c1)\<lparr>m_localPartyReported := True\<rparr>
         else let c1 = c\<lparr>m_localParty := with_local_ip w c (m_localParty c)\<rparr>
              in (report EtLocalParty (m_localParty c1) c1)\<lparr>m_localPartyReported := True\<rparr>)"

definition report_remote_party :: "World \<Rightarrow> VoIpCall \<Rightarrow> VoIpCall" where
  "report_remote_party w c =
     (report EtRemoteParty (if m_partiesUseName (DLLCONFIG w) \<and> m_remotePartyName c \<noteq> ''''
        then m_remotePartyName c else m_remoteParty c) c)\<lparr>m_remotePartyReported := True\<rparr>"

definition VoIpSession_ReportMetadata :: "World \<Rightarrow> VoIpCall \<Rightarrow> VoIpCall" where
  "VoIpSession_ReportMetadata w c =
     (let localIp = ip_string (m_localIp c);
          remoteIp = ip_string (m_remoteIp c);
          c1 = metadata_local_party w c;
          c2 = (if m_isCallPickUp c1
                then c1\<lparr>m_direction := (if m_direction c1 = DirIn then DirOut else DirIn)\<rparr> else c1);
          c3 = report_local_party w (metadata_party_name_map w c2);
          c4 = report_remote_party w c3;
          c5 = (if m_localEntryPoint c4 \<noteq> '''' then report EtLocalEntryPoint (m_localEntryPoint c4) c4 else c4);
          c6 = report EtDirection (DirectionToString (m_direction c5)) (report_names w c5);
          c7 = report EtRemoteIp remoteIp (report EtLocalIp localIp c6);
          c8 = report EtCallId (m_callId c7) (report EtOrkUid (m_orkUid c7) c7);
          c9 = (if m_onDemand c8 then key_value ''ondemand'' ''true'' c8 else c8);
          c10 = fold (\<lambda>(k, v). key_value k v) (m_tags c9) c9
      in report EtEndMetadata '''' c10)"

section \<open>Hold\<close>

definition hold_events :: "World \<Rightarrow> bool" where
  "hold_events w \<longleftrightarrow> m_holdResumeReportDuration (CONFIG w) \<or> m_holdResumeReportEvents (CONFIG w)"

definition GoOnHold :: "World \<Rightarrow> int \<Rightarrow> VoIpCall \<Rightarrow> VoIpCall" where
  "GoOnHold w onHoldTime c =
     (if \<not> m_started c then c
      else let c1 = c\<lparr>m_onHold := True, m_holdBegin := onHoldTime\<rparr>
           in if hold_events w then report EtHold (m_trackingId c1) c1 else c1)"

definition GoOffHold :: "World \<Rightarrow> int \<Rightarrow> VoIpCall \<Rightarrow> VoIpCall" where
  "GoOffHold w offHoldTime c =
     (let c1 = c\<lparr>m_lastUpdated := offHoldTime, m_onHold := False,
                 m_holdDuration := m_holdDuration c + (offHoldTime - m_holdBegin c)\<rparr>;
          c2 = (if m_holdReportStats (DLLCONFIG w) then key_value ''holdtime'' (IntToString (m_holdDuration c1)) c1 else c1)
      in if hold_events w then report EtResume (m_trackingId c2) c2 else c2)"

section \<open>SIP messages\<close>

definition VoIpSession_ReportSipBye :: "World \<Rightarrow> SipByeInfo \<Rightarrow> VoIpCall \<Rightarrow> VoIpCall" where
  "VoIpSession_ReportSipBye w bye c =
     (let to = SipByeInfo.m_to bye; from = SipByeInfo.m_from bye; mapped = GetLocalPartyMap (v_env c)
      in if m_dahdiIntercept (DLLCONFIG w) then
           if CompareNoCase_eq (m_localParty c) ''s'' then
             let c1 = c\<lparr>m_localParty := mapped (if \<not> CompareNoCase_eq (m_remoteParty c) to then to else from)\<rparr>
             in report EtLocalParty (m_localParty c1) c1
           else if CompareNoCase_eq (m_remoteParty c) ''s'' then
             let c1 = c\<lparr>m_remoteParty := (if \<not> CompareNoCase_eq (m_localParty c) (mapped to) then mapped to else mapped from)\<rparr>
             in report EtRemoteParty (m_remoteParty c1) c1
           else c
         else c)"

definition IsNecExternal :: "World \<Rightarrow> SipInviteInfo \<Rightarrow> bool result" where
  "IsNecExternal w i =
     andThen (IpRanges_Matches (m_sipDirectionReferenceIpAddresses (DLLCONFIG w)) (SipInviteInfo.m_senderIp i)) (\<lambda>reference.
     Inr (MatchesStringList (if reference then SipInviteInfo.m_from i else SipInviteInfo.m_to i)
            (m_necVoipGatewayNames (DLLCONFIG w))))"

definition VoIpSession_ReportSipNotify :: "World \<Rightarrow> SipNotifyInfo \<Rightarrow> VoIpCall \<Rightarrow> VoIpCall result" where
  "VoIpSession_ReportSipNotify w notify c =
     andThen (invite_of c) (\<lambda>i.
     andThen (IsNecExternal w i) (\<lambda>external.
     Inr (if external then
            if m_started c then
              let c1 = c\<lparr>m_remotePartyNecSip := m_dsp notify, m_sipRemoteParty := m_dsp notify\<rparr>
              in report EtRemoteParty (m_remotePartyNecSip c1) c1
            else c\<lparr>m_invite := Some (i\<lparr>SipInviteInfo.m_sipRemoteParty := m_dsp notify\<rparr>),
                   m_sipRemoteParty := m_dsp notify, m_remotePartyNecSip := m_dsp notify\<rparr>
          else c)))"

definition invite_contact :: "SipInviteInfo \<Rightarrow> VoIpCall \<Rightarrow> VoIpCall" where
  "invite_contact i c =
     (if CompareNoCase_eq (SipInviteInfo.m_from i) (SipInviteInfo.m_to i) \<and> SipInviteInfo.m_contact i \<noteq> ''''
      then let c1 = c\<lparr>m_remoteParty := GetLocalPartyMap (v_env c) (SipInviteInfo.m_contact i), m_direction := DirOut\<rparr>
           in report EtDirection (DirectionToString (m_direction c1)) (report EtRemoteParty (m_remoteParty c1) c1)
      else c)"

definition invite_remote_party :: "World \<Rightarrow> SipInviteInfo \<Rightarrow> VoIpCall \<Rightarrow> VoIpCall" where
  "invite_remote_party w i c =
     (let party = SipInviteInfo.m_sipRemoteParty i
      in if m_sipMethod i = ''INVITE'' \<and> party \<noteq> '''' \<or> m_sipRemotePartyFrom200OKEnable (DLLCONFIG w) \<and> party \<noteq> ''''
         then if m_sipRemoteParty c = '''' then c\<lparr>m_sipRemoteParty := party\<rparr>
              else if \<not> CompareNoCase_eq (m_sipRemoteParty c) party
              then c\<lparr>m_localEntryPoint := m_sipRemoteParty c, m_sipRemoteParty := party\<rparr>
              else c
         else c)"

text \<open>\<open>std::inserter\<close> keeps the tags that are already there.\<close>

definition invite_fields :: "SipInviteInfo \<Rightarrow> VoIpCall \<Rightarrow> VoIpCall" where
  "invite_fields i c =
     (let fields = SipInviteInfo.m_extractedFields i
      in if m_started c then fold (\<lambda>(k, v). key_value k v) fields c
         else c\<lparr>m_tags := fold (\<lambda>(k, v). map_insert k v) fields (m_tags c)\<rparr>)"

definition invite_on_demand :: "World \<Rightarrow> VoIpCall \<Rightarrow> VoIpCall" where
  "invite_on_demand w c =
     (if m_sipOnDemandFieldName (DLLCONFIG w) \<noteq> '''' then
        case map_find (m_sipOnDemandFieldName (DLLCONFIG w)) (m_tags c) of
          None \<Rightarrow> c
        | Some v \<Rightarrow> if string_find v (m_sipOnDemandFieldValue (DLLCONFIG w)) \<noteq> None
                    then c\<lparr>m_keepRtp := True, m_onDemand := True\<rparr> else c
      else c)"

definition VoIpSession_ReportSipInvite :: "World \<Rightarrow> SipInviteInfo \<Rightarrow> VoIpCall \<Rightarrow> VoIpCall" where
  "VoIpSession_ReportSipInvite w i c =
     (let c1 = (if m_sipMetadataUseLastInvite (DLLCONFIG w) \<or> m_invite c = None then c\<lparr>m_invite := Some i\<rparr> else c);
          c2 = invite_contact i c1;
          c3 = c2\<lparr>m_invites := i # m_invites c2\<rparr>;
          c4 = (if SipInviteInfo.m_telephoneEventPayloadType i \<noteq> 0
                then c3\<lparr>m_telephoneEventPayloadType := SipInviteInfo.m_telephoneEventPayloadType i\<rparr> else c3);
          c5 = UpdateRtpPayloadMap (SipInviteInfo.m_orekaRtpPayloadTypeMap i) (invite_remote_party w i c4)
      in invite_on_demand w (invite_fields i c5))"

definition VoIpSession_ReportSipInfo :: "World \<Rightarrow> SipInfo \<Rightarrow> VoIpCall \<Rightarrow> VoIpCall" where
  "VoIpSession_ReportSipInfo w info c =
     (if (case m_lastSipInfo c of None \<Rightarrow> False | Some l \<Rightarrow> CompareNoCase_eq (m_cSeq l) (m_cSeq info)) then c
      else
        let c1 = c\<lparr>m_lastSipInfo := Some info\<rparr>;
            c2 = (if m_dtmfDigit info \<noteq> '''' \<and> m_sipInfoDtmfRfc2976Detect (DLLCONFIG w)
                  then send_all (ReportDtmfDigit (CONFIG w) (DLLCONFIG w) (now_us w) 0 (m_dtmfDigit info) 0 0 0 0 c1) else c1);
            c3 = (if m_sipOnDemandFieldValue (DLLCONFIG w) \<noteq> '''' \<and> SipInfo.m_onDemand info
                  then send_all (MarkAsOnDemand ''both'' c2) else c2)
        in if m_sipOnDemandFieldValueOff (DLLCONFIG w) \<noteq> '''' \<and> m_onDemandOff info
           then send_all (MarkAsOnDemandOff c3) else c3)"

text \<open>The REFER is shared: the caller keeps the returned one.\<close>

definition VoIpSession_ReportSipRefer :: "SipRefer \<Rightarrow> VoIpCall \<Rightarrow> SipRefer \<times> VoIpCall" where
  "VoIpSession_ReportSipRefer info c =
     (let info' = info\<lparr>m_origOrkUid := m_orkUid c\<rparr> in (info', key_value ''orig-orkuid'' (m_origOrkUid info') c))"

definition VoIpSession_ReportSipErrorPacket :: "VoIpCall \<Rightarrow> VoIpCall" where
  "VoIpSession_ReportSipErrorPacket c = key_value ''failed'' ''true'' c"

section \<open>Queries\<close>

definition OrkUidMatches :: "string \<Rightarrow> VoIpSession \<Rightarrow> bool" where
  "OrkUidMatches oUid ss = CompareNoCase_eq (m_orkUid ss) oUid"

definition PartyMatches :: "string \<Rightarrow> VoIpSession \<Rightarrow> bool" where
  "PartyMatches party ss =
     (party \<noteq> '''' \<and> (CompareNoCase_eq (m_localParty ss) party \<or> CompareNoCase_eq (m_remoteParty ss) party))"

definition NativeCallIdMatches :: "string \<Rightarrow> VoIpSession \<Rightarrow> bool" where
  "NativeCallIdMatches callid ss = (callid \<noteq> '''' \<and> CompareNoCase_eq (m_callId ss) callid)"

definition IsMatchedLocalOrRemoteIp :: "u32 \<Rightarrow> VoIpSession \<Rightarrow> bool" where
  "IsMatchedLocalOrRemoteIp ip ss = (ip = m_localIp ss \<or> ip = m_remoteIp ss)"

section \<open>Skinny messages\<close>

text \<open>\<open>callingPartyName\<close> of the message and the source address of its packet.\<close>

definition VoIpSession_ReportSkinnyCallInfo :: "World \<Rightarrow> string \<Rightarrow> u32 \<Rightarrow> VoIpCall \<Rightarrow> VoIpCall" where
  "VoIpSession_ReportSkinnyCallInfo w partyName ip_src c =
     (let c1 = (if IsInSkinnyReportingList w ''localpartyname''
                then c\<lparr>m_tags := map_insert ''localpartyname'' partyName (m_tags c)\<rparr> else c)
      in if IsInSkinnyReportingList w ''callmanager''
         then c1\<lparr>m_tags := map_insert ''callmanager'' (ip_string ip_src) (m_tags c1)\<rparr> else c1)"

definition VoIpSession_ReportSkinnyCallStateMessage :: "World \<Rightarrow> u32 \<Rightarrow> VoIpCall \<Rightarrow> VoIpCall" where
  "VoIpSession_ReportSkinnyCallStateMessage w callState c =
     (if callState = 8 \<and> \<not> m_skinnyIgnoreHold (DLLCONFIG w) then GoOnHold w (time_now w) c else c)"

end
