(* ===== verification/VoipRtp.thy ===== *)
theory VoipRtp
  imports VoipSession
begin

text \<open>
  \<open>VoIpSession::AddRtpPacket\<close> (\<open>audiocaptureplugins/voip/VoIpSession.cpp\<close>, lines 1041 to 1468). The result is
  the returned boolean (False: the packet does not belong to the session), the packet, whose payload type
  the method may change, and the session. Sequence numbers and timestamps, \<open>double\<close> in the code, are
  exact integers.
\<close>

section \<open>The virtual methods\<close>

definition VoIpSession_virtuals :: "World \<Rightarrow> (_) session_virtuals" where
  "VoIpSession_virtuals w = \<lparr>v_Start = VoIpSession_Start w, v_ReportMetadata = VoIpSession_ReportMetadata w\<rparr>"

definition start_and_report :: "World \<Rightarrow> VoIpCall \<Rightarrow> VoIpCall" where
  "start_and_report w c = VoIpSession_ReportMetadata w (VoIpSession_Start w c)"

definition detect :: "World \<Rightarrow> RtpPacketInfo \<Rightarrow> VoIpCall \<Rightarrow> (int \<times> bool \<times> VoIpCall) result" where
  "detect w p c = DetectChannel (VoIpSession_virtuals w) (decoded_db w) (CONFIG w) (DLLCONFIG w) p c"

section \<open>Before the channel is known\<close>

definition log_ssrc :: "World \<Rightarrow> RtpPacketInfo \<Rightarrow> VoIpCall \<Rightarrow> VoIpCall" where
  "log_ssrc w p c =
     (if m_rtpLogAllSsrc (DLLCONFIG w) then c\<lparr>m_loggedSsrcMap := map_insert (m_ssrc p) 1 (m_loggedSsrcMap c)\<rparr> else c)"

definition process_metadata :: "World \<Rightarrow> RtpPacketInfo \<Rightarrow> VoIpCall \<Rightarrow> VoIpCall result" where
  "process_metadata w p c =
     (if \<not> m_metadataProcessed c then
        let c1 = c\<lparr>m_metadataProcessed := True\<rparr>
        in case m_protocol c1 of
             ProtRawRtp \<Rightarrow> ProcessMetadataRawRtp w p c1
           | ProtSip \<Rightarrow> ProcessMetadataSip w c1
           | ProtSkinny \<Rightarrow> Inr (ProcessMetadataSkinny w p c1)
           | ProtUnkn \<Rightarrow> Inr c1
      else Inr c)"

definition start_non_look_back :: "World \<Rightarrow> VoIpCall \<Rightarrow> VoIpCall" where
  "start_non_look_back w c =
     (if \<not> m_lookBackRecording (CONFIG w) \<and> \<not> m_nonLookBackSessionStarted c \<and>
         (m_protocol c \<noteq> ProtRawRtp \<or> m_trackRawRtpSessionInNonLookBackMode (DLLCONFIG w) \<and>
          m_numIgnoredRtpPackets c = m_rtpMinAmountOfPacketsBeforeStart (DLLCONFIG w))
      then if m_discardUnidirectionalCalls (CONFIG w) then c\<lparr>m_startWhenReceiveS2 := True\<rparr>
           else (start_and_report w c)\<lparr>m_nonLookBackSessionStarted := True\<rparr>
      else c)"

definition is_telephone_event :: "World \<Rightarrow> RtpPacketInfo \<Rightarrow> VoIpCall \<Rightarrow> bool" where
  "is_telephone_event w p c \<longleftrightarrow> m_protocol c = ProtSip \<and> m_rtpReportDtmf (DLLCONFIG w) \<and>
     m_telephoneEventPayloadType c \<noteq> 0 \<and> int (m_payloadType p) = m_telephoneEventPayloadType c"

definition telephone_event :: "World \<Rightarrow> RtpPacketInfo \<Rightarrow> VoIpCall \<Rightarrow> VoIpCall" where
  "telephone_event w p c =
     (if m_rtpDtmfOnlyLocal (DLLCONFIG w) \<and> m_sourceIp p \<noteq> m_localIp c then c
      else send_all (HandleRtpEvent (CONFIG w) (DLLCONFIG w) (now_us w) 0 (m_payload p) (m_rtpTimestamp p) (ucast (m_seqNum p)) c))"

definition ignored_packet :: "World \<Rightarrow> RtpPacketInfo \<Rightarrow> VoIpCall \<Rightarrow> VoIpCall result" where
  "ignored_packet w p c =
     andThen
       (if m_nonLookBackSessionStarted c then
          Inr (if time_now w - m_lastKeepAlive c > 1
               then report EtUnknown '''' (c\<lparr>m_lastKeepAlive := time_now w\<rparr>) else c)
        else andThen (detect w p c) (\<lambda>(_, _, c1). Inr c1)) (\<lambda>c1.
     Inr (c1\<lparr>m_lastUpdated := m_arrivalTimestamp p, m_numIgnoredRtpPackets := m_numIgnoredRtpPackets c1 + 1\<rparr>))"

definition start_kept :: "World \<Rightarrow> VoIpCall \<Rightarrow> VoIpCall" where
  "start_kept w c =
     (if \<not> m_lookBackRecording (CONFIG w) \<and> m_numRtpPackets c = 0 \<and> \<not> m_nonLookBackSessionStarted c
      then if m_discardUnidirectionalCalls (CONFIG w) then c\<lparr>m_startWhenReceiveS2 := True\<rparr> else start_and_report w c
      else c)"

definition not_of_endpoint :: "RtpPacketInfo \<Rightarrow> VoIpCall \<Rightarrow> bool" where
  "not_of_endpoint p c \<longleftrightarrow> m_protocol c = ProtSkinny \<and> m_sourceIp p \<noteq> m_endPointIp c \<and> m_destIp p \<noteq> m_endPointIp c"

text \<open>\<open>None\<close>: the packet is dismissed.\<close>

definition check_hold :: "World \<Rightarrow> RtpPacketInfo \<Rightarrow> VoIpCall \<Rightarrow> VoIpCall option" where
  "check_hold w p c =
     (if m_onHold c then
        case m_lastRtpPacket c of
          None \<Rightarrow> Some c
        | Some l \<Rightarrow>
            if m_payloadType p > 18 then None
            else if m_arrivalTimestamp p - m_arrivalTimestamp l > 1
            then Some (GoOffHold w (m_arrivalTimestamp p) c) else Some c
      else Some c)"

section \<open>Packets of an established side\<close>

definition seq_delta :: "RtpPacketInfo \<Rightarrow> RtpPacketInfo \<Rightarrow> int" where
  "seq_delta p l = uint (m_seqNum p) - uint (m_seqNum l)"

definition rtp_discontinuity :: "World \<Rightarrow> RtpPacketInfo \<Rightarrow> RtpPacketInfo \<Rightarrow> VoIpCall \<Rightarrow> bool" where
  "rtp_discontinuity w p l c \<longleftrightarrow> m_rtpDiscontinuityDetect (DLLCONFIG w) \<and>
     \<bar>seq_delta p l\<bar> > m_minRtpSeqDelta c \<and>
     \<bar>uint (m_rtpTimestamp p) - uint (m_rtpTimestamp l)\<bar> > m_minRtpTimestampDelta c"

definition seq_delta_after_reset :: "RtpPacketInfo \<Rightarrow> RtpPacketInfo \<Rightarrow> int" where
  "seq_delta_after_reset p l =
     (if uint (m_seqNum p) < uint (m_seqNum l) then 65536 - uint (m_seqNum l) + uint (m_seqNum p) else seq_delta p l)"

definition timestamp_delta :: "RtpPacketInfo \<Rightarrow> RtpPacketInfo \<Rightarrow> int" where
  "timestamp_delta p l = sint (m_rtpTimestamp p - m_rtpTimestamp l)"

datatype packet_outcome = Duplicate VoIpCall | NotOfSession VoIpCall | Accepted VoIpCall

definition highest_delta :: "int \<Rightarrow> VoIpCall \<Rightarrow> VoIpCall" where
  "highest_delta delta c = (if delta > m_highestRtpSeqNumDelta c then c\<lparr>m_highestRtpSeqNumDelta := delta\<rparr> else c)"

definition side1_packet :: "World \<Rightarrow> RtpPacketInfo \<Rightarrow> RtpPacketInfo \<Rightarrow> VoIpCall \<Rightarrow> packet_outcome" where
  "side1_packet w p l c =
     (if m_rtpTimestamp p = m_rtpTimestamp l then Duplicate (c\<lparr>m_hasDuplicateRtp := True\<rparr>)
      else if rtp_discontinuity w p l c then NotOfSession c
      else
        let pause = m_rtpBreakupOnStreamPause (DLLCONFIG w) \<and> \<bar>seq_delta p l\<bar> * 160 < timestamp_delta p l;
            delta = (if pause then seq_delta_after_reset p l else seq_delta p l)
        in if pause \<and> delta * 160 < timestamp_delta p l then NotOfSession c
           else
             let c1 = highest_delta delta c;
                 c2 = (if delta > 1 \<and> delta \<le> m_rtpSeqGapThreshold (DLLCONFIG w)
                       then c1\<lparr>m_rtpNumSeqGaps := m_rtpNumSeqGaps c1 + 1,
                               m_rtpNumMissingPkts := m_rtpNumMissingPkts c1 + word_of_int (delta - 1)\<rparr>
                       else c1)
             in Accepted (c2\<lparr>m_lastRtpPacketSide1 := Some p, m_numAlienRtpPacketsS1 := 0\<rparr>))"

definition side2_packet :: "World \<Rightarrow> RtpPacketInfo \<Rightarrow> RtpPacketInfo \<Rightarrow> VoIpCall \<Rightarrow> packet_outcome" where
  "side2_packet w p l c =
     (if m_rtpTimestamp p = m_rtpTimestamp l then Duplicate (c\<lparr>m_hasDuplicateRtp := True\<rparr>)
      else if rtp_discontinuity w p l c then NotOfSession c
      else
        let pause = m_rtpBreakupOnStreamPause (DLLCONFIG w);
            delta = (if pause then seq_delta_after_reset p l else seq_delta p l)
        in if pause \<and> delta * 160 < timestamp_delta p l then NotOfSession c
           else Accepted ((highest_delta delta c)\<lparr>m_lastRtpPacketSide2 := Some p, m_numAlienRtpPacketsS2 := 0\<rparr>))"

section \<open>Packets of neither side\<close>

definition alien_candidate :: "World \<Rightarrow> RtpPacketInfo \<Rightarrow> VoIpCall \<Rightarrow> VoIpCall" where
  "alien_candidate w p c =
     (if m_ssrcCandidate c = - 1
      then c\<lparr>m_ssrcCandidate := m_ssrc p, m_ssrcCandidateTimestamp := word_of_int (m_arrivalTimestamp p)\<rparr>
      else if m_ssrc p = m_ssrcCandidate c
      then c\<lparr>m_ssrcCandidateTimestamp := word_of_int (m_arrivalTimestamp p),
             m_numAlienRtpPacketsS1 := m_numAlienRtpPacketsS1 c + 1, m_numAlienRtpPacketsS2 := m_numAlienRtpPacketsS2 c + 1\<rparr>
      else log_ssrc w p
        (if time_now w - uint (m_ssrcCandidateTimestamp c) > 2
         then c\<lparr>m_ssrcCandidate := - 1, m_numAlienRtpPacketsS1 := 0, m_numAlienRtpPacketsS2 := 0\<rparr> else c))"

text \<open>The channel that the packet takes over, or \<open>None\<close> when it is dismissed.\<close>

definition alien_packet :: "World \<Rightarrow> RtpPacketInfo \<Rightarrow> VoIpCall \<Rightarrow> int option \<times> VoIpCall" where
  "alien_packet w p c =
     (let c1 = alien_candidate w p c
      in if m_numAlienRtpPacketsS1 c1 > 10
         then (Some 1, c1\<lparr>m_numAlienRtpPacketsS1 := 0, m_ssrcCandidate := - 1, m_lastRtpPacketSide1 := Some p,
                          m_mappedS1S2 := False, m_lastRtpStreamStart := time_now w\<rparr>)
         else if m_numAlienRtpPacketsS2 c1 > 10
         then (Some 2, c1\<lparr>m_numAlienRtpPacketsS2 := 0, m_ssrcCandidate := - 1, m_lastRtpPacketSide2 := Some p,
                          m_mappedS1S2 := False, m_lastRtpStreamStart := time_now w\<rparr>)
         else (None, c1))"

section \<open>Recorded packets\<close>

definition map_channels :: "World \<Rightarrow> int \<Rightarrow> VoIpCall \<Rightarrow> (int \<times> VoIpCall) result" where
  "map_channels w channel c =
     (if m_rtpS1S2MappingDeterministic (DLLCONFIG w) \<and> \<not> m_mappedS1S2 c \<and>
         m_lastRtpPacketSide1 c \<noteq> None \<and> m_lastRtpPacketSide2 c \<noteq> None
      then
        let c1 = c\<lparr>m_mappedS1S2 := True\<rparr>
        in if m_protocol c1 = ProtSip \<or> m_protocol c1 = ProtSkinny then
             andThen (ShouldSwapChannels (DLLCONFIG w) c1) (\<lambda>(swap, c2).
             Inr (if swap
                  then (channel mod 2 + 1, c2\<lparr>m_lastRtpPacketSide1 := m_lastRtpPacketSide2 c2,
                                              m_lastRtpPacketSide2 := m_lastRtpPacketSide1 c2\<rparr>)
                  else (channel, c2)))
           else Inr (channel, c1)
      else Inr (channel, c))"

definition count_packet :: "World \<Rightarrow> RtpPacketInfo \<Rightarrow> VoIpCall \<Rightarrow> VoIpCall result" where
  "count_packet w p c =
     (let c1 = c\<lparr>m_numRtpPackets := m_numRtpPackets c + 1, m_lastUpdated := m_arrivalTimestamp p\<rparr>;
          (hasSource, l1) = HasAddressOrAdd (m_sourceIp p) (m_sourcePort p) (m_rtpAddressList c1);
          (hasDest, l2) = HasAddressOrAdd (m_destIp p) (m_destPort p) l1;
          c2 = c1\<lparr>m_rtpAddressList := l2\<rparr>
      in if \<not> hasSource \<or> \<not> hasDest
         then if m_protocol c2 = ProtSip \<and> m_started c2 \<and> m_sipAllowMetadataUpdateOnRtpChange (DLLCONFIG w)
              then UpdateMetadataSipOnRtpChange w p hasDest c2 else Inr c2
         else Inr c2)"

definition start_enough_packets :: "World \<Rightarrow> VoIpCall \<Rightarrow> VoIpCall" where
  "start_enough_packets w c =
     (if m_protocol c = ProtRawRtp \<and> m_numRtpPackets c = m_rtpMinAmountOfPacketsBeforeStart (DLLCONFIG w) \<or>
         m_protocol c = ProtSkinny \<and> m_numRtpPackets c = 2 \<or>
         m_protocol c = ProtSip \<and> m_numRtpPackets c = (if m_discardUnidirectionalCalls (CONFIG w) then 1 else 2)
      then if m_lookBackRecording (CONFIG w)
           then if m_discardUnidirectionalCalls (CONFIG w) then c\<lparr>m_startWhenReceiveS2 := True\<rparr> else start_and_report w c
           else c
      else c)"

definition pt_SPEEX :: nat where
  "pt_SPEEX = 66"

definition speex_type :: "World \<Rightarrow> RtpPacketInfo \<Rightarrow> RtpPacketInfo" where
  "speex_type w p =
     (if decimal (m_payloadType p) \<in> set (m_speexPayloadTypes (CONFIG w)) then p\<lparr>m_payloadType := pt_SPEEX\<rparr> else p)"

definition send_chunk :: "RtpPacketInfo \<Rightarrow> int \<Rightarrow> VoIpCall \<Rightarrow> VoIpCall result" where
  "send_chunk p channel c =
     andThen (if m_payloadType p \<ge> 96 then peek (m_orekaRtpPayloadTypeMap c) (int (m_payloadType p) - 96)
              else Inr (m_payloadType p)) (\<lambda>pt.
     let details = details_Clear\<lparr>AudioChunkDetails.m_arrivalTimestamp := word_of_int (m_arrivalTimestamp p),
           m_numBytes := word_of_nat (length (m_payload p)), AudioChunkDetails.m_timestamp := m_rtpTimestamp p,
           m_sequenceNumber := ucast (m_seqNum p), m_channel := word_of_int channel, m_encoding := AlawAudio,
           m_rtpPayloadType := word_of_nat pt\<rparr>
     in andThen (SetBuffer (Some (m_payload p)) details new_AudioChunk) (\<lambda>chunk.
        Inr (c\<lparr>v_env := (v_env c)\<lparr>g_callbacks := g_callbacks (v_env c) @ [AudioChunkCallback chunk (m_capturePort c)]\<rparr>\<rparr>)))"

definition recorded_packet :: "World \<Rightarrow> RtpPacketInfo \<Rightarrow> int \<Rightarrow> VoIpCall \<Rightarrow> (bool \<times> RtpPacketInfo \<times> VoIpCall) result" where
  "recorded_packet w p channel c =
     andThen (map_channels w channel c) (\<lambda>(channel, c1).
     andThen (count_packet w p c1) (\<lambda>c2.
     let c3 = start_enough_packets w c2
     in if m_started c3
        then let p' = speex_type w p in andThen (send_chunk p' channel c3) (\<lambda>c4. Inr (True, p', c4))
        else Inr (True, p, c3)))"

text \<open>
  The packets of the two sides keep the payload type of their arrival (the code changes the shared
  packet); nothing reads the type of a stored packet.
\<close>

definition kept_packet :: "World \<Rightarrow> RtpPacketInfo \<Rightarrow> VoIpCall \<Rightarrow> (bool \<times> RtpPacketInfo \<times> VoIpCall) result" where
  "kept_packet w p c =
     (let c1 = start_kept w c
      in if not_of_endpoint p c1 then Inr (True, p, c1)
         else case check_hold w p c1 of
           None \<Rightarrow> Inr (True, p, c1)
         | Some c2 \<Rightarrow>
             andThen (detect w p (c2\<lparr>m_lastRtpPacket := Some p\<rparr>)) (\<lambda>(channel, first, c3).
             if channel = 0 then
               (case alien_packet w p c3 of
                  (None, c4) \<Rightarrow> Inr (True, p, c4)
                | (Some ch, c4) \<Rightarrow> recorded_packet w p ch c4)
             else if first then recorded_packet w p channel c3
             else
               case (if channel = 1 then m_lastRtpPacketSide1 c3 else m_lastRtpPacketSide2 c3) of
                 None \<Rightarrow> Inl NullDereference
               | Some l \<Rightarrow>
                   (case (if channel = 1 then side1_packet w p l c3 else side2_packet w p l c3) of
                      Duplicate c4 \<Rightarrow> Inr (True, p, c4)
                    | NotOfSession c4 \<Rightarrow> Inr (False, p, c4)
                    | Accepted c4 \<Rightarrow> recorded_packet w p channel c4)))"

definition AddRtpPacket :: "World \<Rightarrow> RtpPacketInfo \<Rightarrow> VoIpCall \<Rightarrow> (bool \<times> RtpPacketInfo \<times> VoIpCall) result" where
  "AddRtpPacket w p c =
     andThen (process_metadata w p (log_ssrc w p c)) (\<lambda>c1.
     let c2 = start_non_look_back w c1
     in if is_telephone_event w p c2 then Inr (True, p, telephone_event w p c2)
        else if \<not> m_keepRtp c2 then andThen (ignored_packet w p c2) (\<lambda>c3. Inr (True, p, c3))
        else kept_packet w p c2)"

end
