(* ===== verification/VoipFrame.thy ===== *)
theory VoipFrame
  imports VoipRtp
begin

text \<open>
  What the methods of a session leave alone: the identity of the session, by which the tables of sessions
  find it, and, for \<open>Start\<close> and \<open>ReportMetadata\<close>, the sides and decoders that channel detection relies on.
\<close>

definition identity_of :: "'a VoIpSession_scheme \<Rightarrow> string \<times> string \<times> u64 \<times> u64 list \<times> ProtocolEnum" where
  "identity_of ss = (m_trackingId ss, m_callId ss, m_ipAndPort ss, m_mediaAddresses ss, m_protocol ss)"

text \<open>Everything that one of the two contracts is about.\<close>

definition frame_of :: "VoIpCall \<Rightarrow> (string \<times> string \<times> u64 \<times> u64 list \<times> ProtocolEnum) \<times>
    (RtpPacketInfo option \<times> RtpPacketInfo option) \<times> nat list \<times> nat \<times> bool" where
  "frame_of c = (identity_of c, sides_of c, m_orekaRtpPayloadTypeMap c, m_numDecoders c, m_invite c = None)"

named_theorems frame

lemma frame_identity: "frame_of c' = frame_of c \<Longrightarrow> identity_of c' = identity_of c"
  by (simp add: frame_of_def)

lemma frame_capture [frame]: "frame_of (capture ev c) = frame_of c"
  by (simp add: frame_of_def capture_def identity_of_def sides_of_def)

lemma frame_report [frame]: "frame_of (report t v c) = frame_of c" "frame_of (key_value k v c) = frame_of c"
  by (simp_all add: report_def key_value_def frame)

lemma frame_fold: "(\<And>x c. frame_of (f x c) = frame_of c) \<Longrightarrow> frame_of (fold f xs c) = frame_of c"
  by (induction xs arbitrary: c) simp_all

lemma frame_send_all [frame]: "frame_of (send_all r) = frame_of (fst r)"
  by (cases r) (simp add: send_all_def frame_fold frame)

text \<open>Updates of other fields.\<close>

lemma frame_update [frame]:
  "frame_of (c\<lparr>v_env := e\<rparr>) = frame_of c" "frame_of (c\<lparr>m_started := b\<rparr>) = frame_of c"
  "frame_of (c\<lparr>m_stopped := b\<rparr>) = frame_of c" "frame_of (c\<lparr>m_beginDate := i\<rparr>) = frame_of c"
  "frame_of (c\<lparr>m_orkUid := s\<rparr>) = frame_of c" "frame_of (c\<lparr>m_localSide := l\<rparr>) = frame_of c"
  "frame_of (c\<lparr>m_localParty := s\<rparr>) = frame_of c" "frame_of (c\<lparr>m_remoteParty := s\<rparr>) = frame_of c"
  "frame_of (c\<lparr>m_localPartyName := s\<rparr>) = frame_of c" "frame_of (c\<lparr>m_remotePartyName := s\<rparr>) = frame_of c"
  "frame_of (c\<lparr>m_localPartyReported := b\<rparr>) = frame_of c" "frame_of (c\<lparr>m_remotePartyReported := b\<rparr>) = frame_of c"
  "frame_of (c\<lparr>m_direction := d\<rparr>) = frame_of c" "frame_of (c\<lparr>m_rtcpLocalParty := b\<rparr>) = frame_of c"
  "frame_of (c\<lparr>m_rtcpRemoteParty := b\<rparr>) = frame_of c" "frame_of (c\<lparr>m_capturePort := s\<rparr>) = frame_of c"
  "frame_of (c\<lparr>m_localIp := ip\<rparr>) = frame_of c" "frame_of (c\<lparr>m_remoteIp := ip\<rparr>) = frame_of c"
  "frame_of (c\<lparr>m_localMac := m\<rparr>) = frame_of c" "frame_of (c\<lparr>m_remoteMac := m\<rparr>) = frame_of c"
  "frame_of (c\<lparr>m_localEntryPoint := s\<rparr>) = frame_of c" "frame_of (c\<lparr>m_invites := vs\<rparr>) = frame_of c"
  "frame_of (c\<lparr>m_onHold := b\<rparr>) = frame_of c"
  "frame_of (c\<lparr>m_holdBegin := i\<rparr>) = frame_of c" "frame_of (c\<lparr>m_holdDuration := i\<rparr>) = frame_of c"
  "frame_of (c\<lparr>m_lastUpdated := i\<rparr>) = frame_of c" "frame_of (c\<lparr>m_tags := t\<rparr>) = frame_of c"
  "frame_of (c\<lparr>m_sipRemoteParty := s\<rparr>) = frame_of c" "frame_of (c\<lparr>m_remotePartyNecSip := s\<rparr>) = frame_of c"
  "frame_of (c\<lparr>m_telephoneEventPayloadType := i\<rparr>) = frame_of c" "frame_of (c\<lparr>m_keepRtp := b\<rparr>) = frame_of c"
  "frame_of (c\<lparr>m_onDemand := b\<rparr>) = frame_of c" "frame_of (c\<lparr>m_lastSipInfo := si\<rparr>) = frame_of c"
  "frame_of (c\<lparr>m_dtmfDigitString := s\<rparr>) = frame_of c" "frame_of (c\<lparr>m_currentRtpEventTs := ts\<rparr>) = frame_of c"
  "frame_of (c\<lparr>m_metadataProcessed := b\<rparr>) = frame_of c" "frame_of (c\<lparr>m_loggedSsrcMap := sm\<rparr>) = frame_of c"
  "frame_of (c\<lparr>m_startWhenReceiveS2 := b\<rparr>) = frame_of c" "frame_of (c\<lparr>m_nonLookBackSessionStarted := b\<rparr>) = frame_of c"
  "frame_of (c\<lparr>m_lastKeepAlive := i\<rparr>) = frame_of c" "frame_of (c\<lparr>m_numIgnoredRtpPackets := i\<rparr>) = frame_of c"
  "frame_of (c\<lparr>m_lastRtpPacket := p\<rparr>) = frame_of c" "frame_of (c\<lparr>m_numRtpPackets := i\<rparr>) = frame_of c"
  "frame_of (c\<lparr>m_rtpAddressList := as\<rparr>) = frame_of c"
  by (simp_all add: frame_of_def identity_of_def sides_of_def)

section \<open>Starting and reporting\<close>

lemma frame_if [frame]: "frame_of (if b then c1 else c2) = (if b then frame_of c1 else frame_of c2)"
  by simp

text \<open>Chains of \<open>let\<close>: the bindings of sessions one after the other, other bindings opened.\<close>

lemma frame_let_call:
  fixes t :: VoIpCall
  shows "(\<And>x. frame_of x = k \<Longrightarrow> frame_of (f x) = k) \<Longrightarrow> frame_of t = k \<Longrightarrow> frame_of (let x = t in f x) = k"
  by simp

lemma frame_let_value: "(\<And>x. frame_of (f x) = k) \<Longrightarrow> frame_of (let x = t in f x) = k"
  by simp

lemmas frame_let = frame_let_call frame_let_value

lemma frame_Start [frame]: "frame_of (VoIpSession_Start w c) = frame_of c"
  unfolding VoIpSession_Start_def
  by (rule frame_let)+
    (simp_all add: GenerateOrkUid_def SkinnyTrackConferencesTransfers_def Let_def frame split: prod.split option.split)

lemma frame_metadata_local_party [frame]: "frame_of (metadata_local_party w c) = frame_of c"
  unfolding metadata_local_party_def by (rule frame_let)+ (simp_all add: frame split: option.split)

lemma frame_metadata_party_name_map [frame]: "frame_of (metadata_party_name_map w c) = frame_of c"
  by (simp add: metadata_party_name_map_def Let_def frame)

lemma frame_ReportMetadata [frame]: "frame_of (VoIpSession_ReportMetadata w c) = frame_of c"
  unfolding VoIpSession_ReportMetadata_def
  by (rule frame_let)+ (simp_all add: report_local_party_def report_remote_party_def report_names_def Let_def
      frame frame_fold split: prod.split)

lemma decoders_ok_frame: "frame_of c' = frame_of c \<Longrightarrow> decoders_ok min_db c' = decoders_ok min_db c"
  by (simp add: frame_of_def decoders_ok_def)

lemma sides_of_frame: "frame_of c' = frame_of c \<Longrightarrow> sides_of c' = sides_of c"
  by (simp add: frame_of_def)

text \<open>The virtual methods of VoIP sessions keep the contract of channel detection.\<close>

interpretation voip_session: session_class "VoIpSession_virtuals w"
  by unfold_locales (simp_all add: VoIpSession_virtuals_def decoders_ok_frame [OF frame_Start] decoders_ok_frame [OF frame_ReportMetadata]
      sides_of_frame [OF frame_Start] sides_of_frame [OF frame_ReportMetadata])

section \<open>Well-formed sessions\<close>

text \<open>
  The payload map and the decoders fit channel detection, and a SIP session has an INVITE. With
  ranges whose lists have the same lengths, no method of such a session faults.
\<close>

definition wf_session :: "World \<Rightarrow> 'a VoIpSession_scheme \<Rightarrow> bool" where
  "wf_session w ss \<longleftrightarrow> decoders_ok (m_sessionStartsOnS2ActivityDb (DLLCONFIG w)) ss \<and>
     (m_protocol ss = ProtSip \<longrightarrow> m_invite ss \<noteq> None)"

definition ranges_ok :: "IpRanges \<Rightarrow> bool" where
  "ranges_ok r \<longleftrightarrow> length (m_ipRangePrefixes r) = length (m_ipRangeBitWidths r)"

definition config_ok :: "VoIpConfig \<Rightarrow> bool" where
  "config_ok config \<longleftrightarrow> ranges_ok (m_mediaGateways config) \<and> ranges_ok (m_sipDirectionReferenceIpAddresses config) \<and>
     ranges_ok (m_sipIgnoredMediaAddresses config) \<and> ranges_ok (m_lanIpRanges config) \<and>
     ranges_ok (m_mediaAddressBlockedIpRanges config) \<and> ranges_ok (m_mediaAddressAllowedIpRanges config)"

definition succeeds :: "'a result \<Rightarrow> ('a \<Rightarrow> bool) \<Rightarrow> bool" where
  "succeeds r P \<longleftrightarrow> (\<exists>x. r = Inr x \<and> P x)"

lemma succeeds_Inr [simp]: "succeeds (Inr x) P = P x" and succeeds_Inl [simp]: "\<not> succeeds (Inl e) P"
  by (simp_all add: succeeds_def)

lemma succeeds_andThen: "succeeds m Q \<Longrightarrow> (\<And>x. Q x \<Longrightarrow> succeeds (f x) P) \<Longrightarrow> succeeds (andThen m f) P"
  by (auto simp: succeeds_def)

lemma succeeds_mono: "succeeds m Q \<Longrightarrow> (\<And>x. Q x \<Longrightarrow> P x) \<Longrightarrow> succeeds m P"
  by (auto simp: succeeds_def)

lemma succeeds_if: "(b \<Longrightarrow> succeeds m P) \<Longrightarrow> (\<not> b \<Longrightarrow> succeeds n P) \<Longrightarrow> succeeds (if b then m else n) P"
  by simp

lemma Matches_succeeds: "ranges_ok r \<Longrightarrow> succeeds (IpRanges_Matches r ip) (\<lambda>_. True)"
proof -
  have "length ps = length ws \<Longrightarrow> succeeds (matches_loop ps ws ip) (\<lambda>_. True)" for ps ws
    by (induction ps ws rule: list_induct2) auto
  then show "ranges_ok r \<Longrightarrow> succeeds (IpRanges_Matches r ip) (\<lambda>_. True)"
    by (simp add: ranges_ok_def IpRanges_Matches_def)
qed

text \<open>The relation between a session before and after a method.\<close>

definition kept :: "World \<Rightarrow> VoIpCall \<Rightarrow> VoIpCall \<Rightarrow> bool" where
  "kept w c c' \<longleftrightarrow> identity_of c' = identity_of c \<and> (wf_session w c \<longrightarrow> wf_session w c')"

lemma kept_refl [simp]: "kept w c c" and kept_trans: "kept w c c1 \<Longrightarrow> kept w c1 c2 \<Longrightarrow> kept w c c2"
  by (auto simp: kept_def)

lemma frame_kept: "frame_of c' = frame_of c \<Longrightarrow> kept w c c'"
  by (auto simp: frame_of_def kept_def wf_session_def decoders_ok_def identity_of_def)

end
