(* ===== verification/VoipTables.thy ===== *)
theory VoipTables
  imports VoipFrame
begin

text \<open>
  The tables of sessions: \<open>VoIpSessions\<close> in \<open>audiocaptureplugins/voip/VoIpSession.cpp\<close>. Sessions are shared
  objects: a reference is the index of a session in the list of all sessions ever created. The maps
  \<open>m_byIpAndPort\<close> and \<open>m_byCallId\<close> hold references.
\<close>

section \<open>State\<close>

record VoIpSessions =
  objects :: "VoIpSession list"
  m_byIpAndPort :: "(u64, nat) std_map"
  m_byCallId :: "(string, nat) std_map"
  globals :: Globals
  m_skinnyGlobalNumbersList :: "(string, int) std_map"
  m_sipSubscribeMap :: "SipSubscribeInfo list"
  m_sipReferList :: "SipRefer list"
  m_alphaCounter :: nat
  lastHoldRemoteParty :: "string list"

text \<open>A program that has just started (\<open>Reset\<close> of the counter gives 0).\<close>

definition new_VoIpSessions :: "nat \<Rightarrow> VoIpSessions" where
  "new_VoIpSessions counter =
     \<lparr>objects = [], m_byIpAndPort = [], m_byCallId = [],
      globals = \<lparr>m_endpoints = [], m_localPartyMap = [], s_localPartyNameMap = [], g_callbacks = []\<rparr>,
      m_skinnyGlobalNumbersList = [], m_sipSubscribeMap = [], m_sipReferList = [], m_alphaCounter = counter,
      lastHoldRemoteParty = replicate 128 ''''\<rparr>"

section \<open>Calling a method\<close>

definition session :: "VoIpSessions \<Rightarrow> nat \<Rightarrow> VoIpSession" where
  "session st r = objects st ! r"

definition call_of :: "VoIpSessions \<Rightarrow> nat \<Rightarrow> VoIpCall" where
  "call_of st r = VoIpSession.extend (session st r) (VoIpCall.fields (globals st))"

definition return_of :: "nat \<Rightarrow> VoIpCall \<Rightarrow> VoIpSessions \<Rightarrow> VoIpSessions" where
  "return_of r c st = st\<lparr>objects := (objects st)[r := VoIpSession.truncate c], globals := v_env c\<rparr>"

definition call :: "(VoIpCall \<Rightarrow> VoIpCall) \<Rightarrow> nat \<Rightarrow> VoIpSessions \<Rightarrow> VoIpSessions" where
  "call f r st = return_of r (f (call_of st r)) st"

definition call_result :: "(VoIpCall \<Rightarrow> VoIpCall result) \<Rightarrow> nat \<Rightarrow> VoIpSessions \<Rightarrow> VoIpSessions result" where
  "call_result f r st = andThen (f (call_of st r)) (\<lambda>c. Inr (return_of r c st))"

text \<open>An assignment to fields of a session.\<close>

definition change :: "nat \<Rightarrow> (VoIpSession \<Rightarrow> VoIpSession) \<Rightarrow> VoIpSessions \<Rightarrow> VoIpSessions" where
  "change r f st = st\<lparr>objects := (objects st)[r := f (session st r)]\<rparr>"

text \<open>\<open>VoIpSessionRef newSession(new VoIpSession(trackingId))\<close>.\<close>

definition create_session :: "World \<Rightarrow> VoIpSessions \<Rightarrow> nat \<times> VoIpSessions" where
  "create_session w st =
     (case AlphaCounter_GetNext (m_alphaCounter st) of (trackingId, counter) \<Rightarrow>
      (length (objects st), st\<lparr>objects := objects st @ [new_VoIpSession w trackingId], m_alphaCounter := counter\<rparr>))"

section \<open>Finding sessions\<close>

definition findByMediaAddress :: "World \<Rightarrow> VoIpSessions \<Rightarrow> u32 \<Rightarrow> u16 \<Rightarrow> nat option" where
  "findByMediaAddress w st ip port = map_find (Craft64bitMediaAddress (DLLCONFIG w) ip port) (m_byIpAndPort st)"

definition findByEndpointIpUsingIpAndPort :: "VoIpSessions \<Rightarrow> u32 \<Rightarrow> nat option" where
  "findByEndpointIpUsingIpAndPort st ip =
     map_option snd (List.find (\<lambda>(_, r). m_endPointIp (session st r) = ip) (m_byIpAndPort st))"

definition findByEndpointIp :: "VoIpSessions \<Rightarrow> u32 \<Rightarrow> int \<Rightarrow> nat option" where
  "findByEndpointIp st ip passThruPartyId =
     map_option snd (List.find (\<lambda>(_, r). m_endPointIp (session st r) = ip \<and>
       (passThruPartyId = 0 \<or> m_skinnyPassThruPartyId (session st r) = passThruPartyId)) (m_byCallId st))"

fun newest_rtp_loop :: "VoIpSessions \<Rightarrow> u32 \<Rightarrow> nat list \<Rightarrow> int \<Rightarrow> nat option \<Rightarrow> nat option" where
  "newest_rtp_loop st ip [] latest found = found"
| "newest_rtp_loop st ip (r # rs) latest found =
     (if m_endPointIp (session st r) = ip then
        case m_lastRtpPacket (session st r) of
          Some p \<Rightarrow>
            if m_arrivalTimestamp p > latest then newest_rtp_loop st ip rs (m_arrivalTimestamp p) (Some r)
            else newest_rtp_loop st ip rs latest found
        | None \<Rightarrow> newest_rtp_loop st ip rs latest (Some r)
      else newest_rtp_loop st ip rs latest found)"

definition findNewestRtpByEndpointIp :: "VoIpSessions \<Rightarrow> u32 \<Rightarrow> nat option" where
  "findNewestRtpByEndpointIp st ip = newest_rtp_loop st ip (map snd (m_byIpAndPort st)) 0 None"

definition findByEndpointIpAndLineInstance :: "VoIpSessions \<Rightarrow> u32 \<Rightarrow> int \<Rightarrow> nat option" where
  "findByEndpointIpAndLineInstance st ip lineInstance =
     map_option snd (List.find (\<lambda>(_, r). m_endPointIp (session st r) = ip \<and>
       m_skinnyLineInstance (session st r) = lineInstance) (m_byCallId st))"

text \<open>The first of the candidates with the greatest time.\<close>

fun newest_loop :: "(nat \<Rightarrow> bool) \<Rightarrow> (nat \<Rightarrow> int) \<Rightarrow> nat list \<Rightarrow> nat option \<Rightarrow> nat option" where
  "newest_loop candidate time [] found = found"
| "newest_loop candidate time (r # rs) found =
     newest_loop candidate time rs
       (if candidate r then case found of None \<Rightarrow> Some r | Some s \<Rightarrow> if time r > time s then Some r else found
        else found)"

text \<open>A session without INVITE is dereferenced through a null pointer.\<close>

definition SipfindNewestBySenderIp :: "VoIpSessions \<Rightarrow> u32 \<Rightarrow> nat option result" where
  "SipfindNewestBySenderIp st ip =
     (let rs = map snd (m_byCallId st);
          sender = (\<lambda>r. map_option SipInviteInfo.m_senderIp (m_invite (session st r)))
      in if list_ex (\<lambda>r. sender r = None) rs then Inl NullDereference
         else Inr (newest_loop (\<lambda>r. sender r = Some ip) (\<lambda>r. m_sipLastInvite (session st r)) rs None))"

definition findNewestByEndpoint :: "World \<Rightarrow> VoIpSessions \<Rightarrow> u32 \<Rightarrow> u16 \<Rightarrow> nat option" where
  "findNewestByEndpoint w st ip port =
     newest_loop (\<lambda>r. m_endPointIp (session st r) = ip \<and>
         (m_skinnyBehindNat (DLLCONFIG w) \<longrightarrow> m_endPointSignallingPort (session st r) = port))
       (\<lambda>r. m_skinnyLastCallInfoTime (session st r)) (map snd (m_byCallId st)) None"

section \<open>Unlinking and stopping\<close>

definition RemoveFromMediaAddressMap :: "nat \<Rightarrow> u64 \<Rightarrow> VoIpSessions \<Rightarrow> VoIpSessions" where
  "RemoveFromMediaAddressMap r mediaAddress st =
     (if mediaAddress = 0 then st
      else case map_find mediaAddress (m_byIpAndPort st) of
        None \<Rightarrow> st
      | Some sessionOnMap \<Rightarrow>
          if sessionOnMap = r then st\<lparr>m_byIpAndPort := map_erase mediaAddress (m_byIpAndPort st)\<rparr> else st)"

text \<open>One REFER that has not timed out, for a session with the mapped parties of its INVITE.\<close>

definition tag_transfer :: "string \<Rightarrow> string \<Rightarrow> SipRefer \<Rightarrow> VoIpCall \<Rightarrow> VoIpCall" where
  "tag_transfer fromUser toUser refer c =
     (if SipRefer.m_timestamp refer - sec_of (m_creationDate c) > - 2 \<and> CompareNoCase_eq toUser (m_referToParty refer) \<and>
         (CompareNoCase_eq fromUser (m_referredByParty refer) \<or> CompareNoCase_eq fromUser (SipRefer.m_from refer) \<or>
          CompareNoCase_eq fromUser (SipRefer.m_to refer))
      then
        let c1 = key_value ''orig-orkuid'' (SipRefer.m_origOrkUid refer) c
        in if CompareNoCase_eq (m_remoteParty c1) (m_referredByParty refer)
           then let c2 = c1\<lparr>m_remoteParty := m_referredParty refer\<rparr> in report EtRemoteParty (m_remoteParty c2) c2
           else c1
      else c)"

definition TaggingSipTransferCalls :: "World \<Rightarrow> nat \<Rightarrow> VoIpSessions \<Rightarrow> VoIpSessions result" where
  "TaggingSipTransferCalls w r st =
     (let ss = session st r
      in if m_protocol ss \<noteq> ProtSip \<or> m_sipReferList st = [] \<or> m_numRtpPackets ss < 300 then Inr st
         else case m_invite ss of
           None \<Rightarrow> Inl NullDereference
         | Some i \<Rightarrow>
             let fromUser = GetLocalPartyMap (globals st) (SipInviteInfo.m_from i);
                 toUser = GetLocalPartyMap (globals st) (SipInviteInfo.m_to i);
                 live = filter (\<lambda>refer. \<not> time_now w - SipRefer.m_timestamp refer > m_transferTimeOutInSec (DLLCONFIG w)) (m_sipReferList st)
             in Inr (call (fold (tag_transfer fromUser toUser) live) r (st\<lparr>m_sipReferList := live\<rparr>)))"

definition VoIpSessions_Stop :: "World \<Rightarrow> nat \<Rightarrow> VoIpSessions \<Rightarrow> VoIpSessions result" where
  "VoIpSessions_Stop w r st =
     andThen (TaggingSipTransferCalls w r st) (\<lambda>st1.
     andThen (call_result (VoIpSession_Stop w) r st1) (\<lambda>st2.
     let st3 = (if m_callId (session st2 r) \<noteq> ''''
                then st2\<lparr>m_byCallId := map_erase (m_callId (session st2 r)) (m_byCallId st2)\<rparr> else st2);
         st4 = fold (RemoveFromMediaAddressMap r) (m_mediaAddresses (session st3 r)) st3
     in Inr (change r (\<lambda>ss. ss\<lparr>m_mediaAddresses := []\<rparr>) st4)))"

section \<open>Media addresses\<close>

definition replaces :: "World \<Rightarrow> VoIpSession \<Rightarrow> VoIpSession \<Rightarrow> bool" where
  "replaces w ss old \<longleftrightarrow> m_protocol old = ProtRawRtp \<or> m_numRtpPackets old = 0 \<or>
     m_protocol ss = ProtSkinny \<and> m_skinnyAllowMediaAddressTransfer (DLLCONFIG w) \<or>
     m_protocol ss = ProtSip \<and> m_sipAllowMediaAddressTransfer (DLLCONFIG w)"

definition media_address_allowed :: "World \<Rightarrow> u32 \<Rightarrow> bool result" where
  "media_address_allowed w ip =
     andThen (IpRanges_Matches (m_mediaAddressBlockedIpRanges (DLLCONFIG w)) ip) (\<lambda>blocked.
     if blocked then Inr False
     else if \<not> IpRanges_Empty (m_mediaAddressAllowedIpRanges (DLLCONFIG w))
     then IpRanges_Matches (m_mediaAddressAllowedIpRanges (DLLCONFIG w)) ip
     else Inr True)"

definition bind_media_address :: "World \<Rightarrow> nat \<Rightarrow> u32 \<Rightarrow> u64 \<Rightarrow> VoIpSessions \<Rightarrow> VoIpSessions" where
  "bind_media_address w r ip mediaAddress st =
     (let st1 = (if \<not> m_rtpAllowMultipleMappings (DLLCONFIG w)
                 then change r (\<lambda>ss. ss\<lparr>m_mediaAddresses := []\<rparr>)
                        (RemoveFromMediaAddressMap r (m_ipAndPort (session st r)) st)
                 else st);
          st2 = change r (\<lambda>ss. ss\<lparr>m_mediaAddresses := m_mediaAddresses ss @ [mediaAddress], m_ipAndPort := mediaAddress,
                                  m_rtpIp := ip\<rparr>) st1
      in st2\<lparr>m_byIpAndPort := map_insert (m_ipAndPort (session st2 r)) r (m_byIpAndPort st2)\<rparr>)"

definition SetMediaAddress :: "World \<Rightarrow> nat \<Rightarrow> u32 \<Rightarrow> u16 \<Rightarrow> VoIpSessions \<Rightarrow> VoIpSessions result" where
  "SetMediaAddress w r ip port st =
     (if port = 0 then Inr st
      else andThen (media_address_allowed w ip) (\<lambda>allowed.
        if \<not> allowed then Inr st
        else
          let mediaAddress = Craft64bitMediaAddress (DLLCONFIG w) ip port
          in case findByMediaAddress w st ip port of
               None \<Rightarrow> Inr (bind_media_address w r ip mediaAddress st)
             | Some old \<Rightarrow>
                 if CompareNoCase_eq (m_trackingId (session st old)) (m_trackingId (session st r)) then Inr st
                 else if replaces w (session st r) (session st old) then
                   andThen (if m_protocol (session st old) = ProtRawRtp then VoIpSessions_Stop w old st
                            else Inr (RemoveFromMediaAddressMap old mediaAddress st)) (\<lambda>st1.
                   Inr (bind_media_address w r ip mediaAddress st1))
                 else Inr st))"

end
