(* ===== verification/VoipMethods.thy ===== *)
theory VoipMethods
  imports VoipTables
begin

text \<open>
  The contract of the methods that the tables of sessions call: on a well-formed session they do not
  fault, and they keep its identity and its well-formedness. Each method is an instance.
\<close>

section \<open>The contract\<close>

locale session_method =
  fixes w :: World and ok :: bool and f :: "VoIpCall \<Rightarrow> VoIpCall result"
  assumes runs: "ok \<Longrightarrow> wf_session w c \<Longrightarrow> succeeds (f c) (kept w c)"

lemma session_method_frame:
  assumes "\<And>c. frame_of (g c) = frame_of c"
  shows "session_method w True (\<lambda>c. Inr (g c))"
  by unfold_locales (simp add: frame_kept assms)

section \<open>Hold, DTMF and messages\<close>

lemma frame_GoOnHold [frame]: "frame_of (GoOnHold w t c) = frame_of c"
  by (simp add: GoOnHold_def Let_def frame)

lemma frame_GoOffHold [frame]: "frame_of (GoOffHold w t c) = frame_of c"
  by (simp add: GoOffHold_def Let_def frame)

lemma frame_MarkAsOnDemand [frame]:
  "frame_of (fst (MarkAsOnDemand side c)) = frame_of c" "frame_of (fst (MarkAsOnDemandOff c)) = frame_of c"
  by (simp_all add: MarkAsOnDemand_def MarkAsOnDemandOff_def frame)

lemma frame_trigger_and_keep [frame]: "frame_of (fst (trigger_and_keep c)) = frame_of c"
  by (simp add: trigger_and_keep_def TriggerOnDemandViaDtmf_def MarkAsOnDemand_def frame split: prod.split)

lemma frame_dtmf_commands [frame]: "frame_of (fst (dtmf_commands config c)) = frame_of c"
  by (cases "m_onDemand c"; cases "m_keepRtp c") (simp_all add: dtmf_commands_def Let_def frame)

lemma frame_ReportDtmfDigit [frame]:
  "frame_of (fst (ReportDtmfDigit CONF config now ch digit dur vol ts seq c)) = frame_of c"
proof -
  have "frame_of (fst (case r of (ss3, evs) \<Rightarrow> (ss3, g ss3 evs))) = frame_of (fst r)"
    for r :: "VoIpCall \<times> CaptureEvent list" and g :: "VoIpCall \<Rightarrow> CaptureEvent list \<Rightarrow> CaptureEvent list"
    by (cases r) simp
  then show ?thesis
    unfolding ReportDtmfDigit_def Let_def by (simp add: frame)
qed

lemma frame_HandleRtpEvent [frame]: "frame_of (fst (HandleRtpEvent CONF config now ch payload ts seq c)) = frame_of c"
  by (simp add: HandleRtpEvent_def Let_def frame)

lemma frame_ReportSipInfo [frame]: "frame_of (VoIpSession_ReportSipInfo w info c) = frame_of c"
proof -
  have "frame_of (let c1 = c\<lparr>m_lastSipInfo := Some info\<rparr>;
            c2 = (if m_dtmfDigit info \<noteq> '''' \<and> m_sipInfoDtmfRfc2976Detect (DLLCONFIG w)
                  then send_all (ReportDtmfDigit (CONFIG w) (DLLCONFIG w) (now_us w) 0 (m_dtmfDigit info) 0 0 0 0 c1) else c1);
            c3 = (if m_sipOnDemandFieldValue (DLLCONFIG w) \<noteq> '''' \<and> SipInfo.m_onDemand info
                  then send_all (MarkAsOnDemand ''both'' c2) else c2)
        in if m_sipOnDemandFieldValueOff (DLLCONFIG w) \<noteq> '''' \<and> m_onDemandOff info
           then send_all (MarkAsOnDemandOff c3) else c3) = frame_of c"
    by (rule frame_let)+ (simp_all add: frame)
  then show ?thesis by (simp add: VoIpSession_ReportSipInfo_def)
qed

lemma frame_ReportSipBye [frame]: "frame_of (VoIpSession_ReportSipBye w bye c) = frame_of c"
  by (simp add: VoIpSession_ReportSipBye_def Let_def frame)

lemma frame_ReportRtcpSrcDescription [frame]: "frame_of (VoIpSession_ReportRtcpSrcDescription w info c) = frame_of c"
  by (simp add: VoIpSession_ReportRtcpSrcDescription_def Let_def frame)

lemma frame_ReportSkinnyCallInfo [frame]: "frame_of (VoIpSession_ReportSkinnyCallInfo w name ip c) = frame_of c"
  by (simp add: VoIpSession_ReportSkinnyCallInfo_def Let_def frame)

lemma frame_ReportSkinnyCallStateMessage [frame]: "frame_of (VoIpSession_ReportSkinnyCallStateMessage w s c) = frame_of c"
  by (simp add: VoIpSession_ReportSkinnyCallStateMessage_def frame)

lemma frame_UpdateMetadataSkinny [frame]: "frame_of (UpdateMetadataSkinny w c) = frame_of c"
  by (simp add: UpdateMetadataSkinny_def Let_def frame)

lemma frame_tag_transfer [frame]: "frame_of (tag_transfer from to refer c) = frame_of c"
  by (simp add: tag_transfer_def Let_def frame)

interpretation go_on_hold: session_method w True "\<lambda>c. Inr (GoOnHold w t c)"
  by (rule session_method_frame) (rule frame)

interpretation go_off_hold: session_method w True "\<lambda>c. Inr (GoOffHold w t c)"
  by (rule session_method_frame) (rule frame)

interpretation sip_info: session_method w True "\<lambda>c. Inr (VoIpSession_ReportSipInfo w info c)"
  by (rule session_method_frame) (rule frame)

interpretation sip_bye: session_method w True "\<lambda>c. Inr (VoIpSession_ReportSipBye w bye c)"
  by (rule session_method_frame) (rule frame)

interpretation sip_error: session_method w True "\<lambda>c. Inr (VoIpSession_ReportSipErrorPacket c)"
  by (rule session_method_frame) (simp add: VoIpSession_ReportSipErrorPacket_def frame)

interpretation sip_refer: session_method w True "\<lambda>c. Inr (snd (VoIpSession_ReportSipRefer refer c))"
  by (rule session_method_frame) (simp add: VoIpSession_ReportSipRefer_def Let_def frame)

interpretation rtcp: session_method w True "\<lambda>c. Inr (VoIpSession_ReportRtcpSrcDescription w info c)"
  by (rule session_method_frame) (rule frame)

interpretation skinny_call_info: session_method w True "\<lambda>c. Inr (VoIpSession_ReportSkinnyCallInfo w name ip c)"
  by (rule session_method_frame) (rule frame)

interpretation skinny_call_state: session_method w True "\<lambda>c. Inr (VoIpSession_ReportSkinnyCallStateMessage w s c)"
  by (rule session_method_frame) (rule frame)

interpretation skinny_metadata: session_method w True "\<lambda>c. Inr (UpdateMetadataSkinny w c)"
  by (rule session_method_frame) (rule frame)

interpretation tag_transfers: session_method w True "\<lambda>c. Inr (fold (tag_transfer from to) refers c)"
  by (rule session_method_frame) (simp add: frame_fold frame)

interpretation mark_on_demand: session_method w True "\<lambda>c. Inr (send_all (MarkAsOnDemand side c))"
  by (rule session_method_frame) (simp add: frame)

interpretation mark_on_demand_off: session_method w True "\<lambda>c. Inr (send_all (MarkAsOnDemandOff c))"
  by (rule session_method_frame) (simp add: frame)

section \<open>Stopping and NOTIFY\<close>

lemma frame_stop_extracted_party [frame]: "frame_of (stop_extracted_party w c) = frame_of c"
  by (simp add: stop_extracted_party_def Let_def frame split: option.split)

lemma is_local_side_succeeds: "config_ok (DLLCONFIG w) \<Longrightarrow> succeeds (is_local_side w c p) (\<lambda>_. True)"
  unfolding is_local_side_def MatchesReferenceAddresses_def config_ok_def
  by (rule succeeds_andThen [OF Matches_succeeds]) simp_all

lemma stop_local_side_frame:
  assumes "config_ok (DLLCONFIG w)"
  shows "succeeds (stop_local_side w c) (\<lambda>c'. frame_of c' = frame_of c)"
  unfolding stop_local_side_def
  by (rule succeeds_andThen [where Q = "\<lambda>c'. frame_of c' = frame_of c"])
    (auto split: option.split intro!: succeeds_andThen [OF is_local_side_succeeds [OF assms]] simp: frame)

lemma VoIpSession_Stop_frame:
  assumes "config_ok (DLLCONFIG w)"
  shows "succeeds (VoIpSession_Stop w c) (\<lambda>c'. frame_of c' = frame_of c)"
  unfolding VoIpSession_Stop_def
  by (intro succeeds_if succeeds_andThen [OF stop_local_side_frame [OF assms]]) (simp_all add: Let_def frame)

interpretation stop: session_method w "config_ok (DLLCONFIG w)" "VoIpSession_Stop w"
  by unfold_locales (blast intro: succeeds_mono VoIpSession_Stop_frame frame_kept)

lemma invite_of_succeeds: "m_invite c \<noteq> None \<Longrightarrow> succeeds (invite_of c) (\<lambda>i. m_invite c = Some i)"
  by (auto simp: invite_of_def)

lemma frame_has_invite: "frame_of c' = frame_of c \<Longrightarrow> m_invite c \<noteq> None \<Longrightarrow> m_invite c' \<noteq> None"
  by (auto simp: frame_of_def)

lemma VoIpSession_ReportSipNotify_kept:
  assumes "config_ok (DLLCONFIG w)" "m_invite c \<noteq> None"
  shows "succeeds (VoIpSession_ReportSipNotify w notify c) (\<lambda>c'. frame_of c' = frame_of c)"
proof -
  have ranges: "succeeds (IsNecExternal w i) (\<lambda>_. True)" for i
    unfolding IsNecExternal_def
    by (rule succeeds_andThen [OF Matches_succeeds]) (use assms(1) in \<open>simp_all add: config_ok_def\<close>)
  have invite: "frame_of (c\<lparr>m_invite := Some i\<rparr>) = frame_of c" for i
    using assms(2) by (simp add: frame_of_def identity_of_def sides_of_def)
  show ?thesis
    unfolding VoIpSession_ReportSipNotify_def
    by (rule succeeds_andThen [OF invite_of_succeeds [OF assms(2)]], rule succeeds_andThen [OF ranges])
      (simp add: Let_def frame invite)
qed

section \<open>INVITE\<close>

text \<open>The payload map of an INVITE as the SDP parser leaves it.\<close>

definition invite_ok :: "SipInviteInfo \<Rightarrow> bool" where
  "invite_ok i \<longleftrightarrow> length (SipInviteInfo.m_orekaRtpPayloadTypeMap i) = 32 \<and>
     list_all (\<lambda>pt. pt < RTP_PAYLOAD_TYPE_MAX) (SipInviteInfo.m_orekaRtpPayloadTypeMap i)"

lemma butlast_map2: "length xs = length ys \<Longrightarrow> butlast (map2 f xs ys) = map2 f (butlast xs) (butlast ys)"
  by (induction xs ys rule: list_induct2) auto

lemma UpdateRtpPayloadMap_decoders:
  assumes "invite_ok i" "decoders_ok min_db c"
  shows "decoders_ok min_db (UpdateRtpPayloadMap (SipInviteInfo.m_orekaRtpPayloadTypeMap i) c)"
proof -
  let ?new = "SipInviteInfo.m_orekaRtpPayloadTypeMap i" and ?old = "m_orekaRtpPayloadTypeMap c"
  have len: "length ?new = 32" "length ?old = 32" using assms by (auto simp: invite_ok_def decoders_ok_def)
  have "list_all (\<lambda>pt. pt < RTP_PAYLOAD_TYPE_MAX)
      (butlast (map2 (\<lambda>new old. if new \<noteq> 0 then new else old) ?new ?old))"
    using assms len by (auto simp: butlast_map2 invite_ok_def decoders_ok_def list_all_length nth_butlast)
  then show ?thesis using assms len by (simp add: decoders_ok_def UpdateRtpPayloadMap_def)
qed

lemma frame_invite_parts [frame]:
  "frame_of (invite_contact i c) = frame_of c" "frame_of (invite_remote_party w i c) = frame_of c"
  "frame_of (invite_fields i c) = frame_of c" "frame_of (invite_on_demand w c) = frame_of c"
  by (simp_all add: invite_contact_def invite_remote_party_def invite_fields_def invite_on_demand_def Let_def frame
      frame_fold split: option.split prod.split)

lemma VoIpSession_ReportSipInvite_kept:
  assumes "invite_ok i"
  shows "identity_of (VoIpSession_ReportSipInvite w i c) = identity_of c"
    and "decoders_ok min_db c \<Longrightarrow> decoders_ok min_db (VoIpSession_ReportSipInvite w i c)"
    and "m_invite (VoIpSession_ReportSipInvite w i c) \<noteq> None"
proof -
  define c1 where "c1 = (if m_sipMetadataUseLastInvite (DLLCONFIG w) \<or> m_invite c = None then c\<lparr>m_invite := Some i\<rparr> else c)"
  define c2 where "c2 = invite_contact i c1"
  define c3 where "c3 = c2\<lparr>m_invites := i # m_invites c2\<rparr>"
  define c4 where "c4 = (if SipInviteInfo.m_telephoneEventPayloadType i \<noteq> 0
    then c3\<lparr>m_telephoneEventPayloadType := SipInviteInfo.m_telephoneEventPayloadType i\<rparr> else c3)"
  define c5 where "c5 = UpdateRtpPayloadMap (SipInviteInfo.m_orekaRtpPayloadTypeMap i) (invite_remote_party w i c4)"
  have result: "VoIpSession_ReportSipInvite w i c = invite_on_demand w (invite_fields i c5)"
    by (simp add: VoIpSession_ReportSipInvite_def c5_def c4_def c3_def c2_def c1_def Let_def)
  have f4: "frame_of (invite_remote_party w i c4) = frame_of c1" by (simp add: c4_def c3_def c2_def frame)
  have f5: "frame_of (VoIpSession_ReportSipInvite w i c) = frame_of c5" by (simp add: result frame)
  have c1: "identity_of c1 = identity_of c" "decoders_ok min_db c1 = decoders_ok min_db c" "m_invite c1 \<noteq> None" for min_db
    by (auto simp: c1_def identity_of_def decoders_ok_def)
  have "identity_of c5 = identity_of c" "m_invite c5 \<noteq> None"
    using f4 c1 by (auto simp: c5_def UpdateRtpPayloadMap_def frame_of_def identity_of_def)
  then show "identity_of (VoIpSession_ReportSipInvite w i c) = identity_of c"
    "m_invite (VoIpSession_ReportSipInvite w i c) \<noteq> None"
    using f5 by (auto simp: frame_of_def)
  show "decoders_ok min_db (VoIpSession_ReportSipInvite w i c)" if "decoders_ok min_db c"
    using that by (simp add: c5_def c1 UpdateRtpPayloadMap_decoders [OF assms] decoders_ok_frame [OF f4] decoders_ok_frame [OF f5])
qed

interpretation sip_invite: session_method w "invite_ok i" "\<lambda>c. Inr (VoIpSession_ReportSipInvite w i c)"
  by unfold_locales (simp add: kept_def wf_session_def VoIpSession_ReportSipInvite_kept)

section \<open>Metadata of a new session\<close>

lemma frame_metadata_parts [frame]:
  "frame_of (default_names c) = frame_of c" "frame_of (request_uri_parties i c) = frame_of c"
  "frame_of (raw_rtp_parties w ip mac ip' mac' c) = frame_of c" "frame_of (ProcessMetadataSkinny w p c) = frame_of c"
  by (simp_all add: default_names_def request_uri_parties_def raw_rtp_parties_def ProcessMetadataSkinny_def Let_def frame)

lemma IsMediaGateway_succeeds: "ranges_ok (m_mediaGateways config) \<Longrightarrow> succeeds (IsMediaGateway config ip) (\<lambda>_. True)"
  by (simp add: IsMediaGateway_def Matches_succeeds)

lemma ProcessMetadataRawRtp_frame:
  assumes "config_ok (DLLCONFIG w)"
  shows "succeeds (ProcessMetadataRawRtp w p c) (\<lambda>c'. frame_of c' = frame_of c)"
proof -
  note gateway = IsMediaGateway_succeeds [of "DLLCONFIG w"]
  have "succeeds (source_is_local w p) (\<lambda>_. True)"
    unfolding source_is_local_def
    by (intro succeeds_andThen [OF gateway] succeeds_if) (use assms in \<open>simp_all add: config_ok_def\<close>)
  then show ?thesis
    unfolding ProcessMetadataRawRtp_def by (rule succeeds_andThen) (simp add: Let_def frame)
qed

lemma ProcessMetadataSipIncoming_frame:
  "m_invite c \<noteq> None \<Longrightarrow> succeeds (ProcessMetadataSipIncoming w c) (\<lambda>c'. frame_of c' = frame_of c)"
  unfolding ProcessMetadataSipIncoming_def
  by (rule succeeds_andThen [OF invite_of_succeeds]) (simp_all add: Let_def frame)

lemma ProcessMetadataSipOutgoing_frame:
  "m_invite c \<noteq> None \<Longrightarrow> succeeds (ProcessMetadataSipOutgoing w c) (\<lambda>c'. frame_of c' = frame_of c)"
  unfolding ProcessMetadataSipOutgoing_def
  by (rule succeeds_andThen [OF invite_of_succeeds]) (simp_all add: Let_def frame)

lemma sip_incoming_or_outgoing_frame:
  assumes "config_ok (DLLCONFIG w)" and invite: "m_invite c \<noteq> None"
  shows "succeeds (sip_incoming_or_outgoing w i c) (\<lambda>c'. frame_of c' = frame_of c)"
proof -
  have "succeeds (MatchesReferenceAddresses w ip) (\<lambda>_. True)" for ip
    using assms(1) by (simp add: MatchesReferenceAddresses_def config_ok_def Matches_succeeds)
  then show ?thesis
    unfolding sip_incoming_or_outgoing_def
    by (intro succeeds_if succeeds_andThen ProcessMetadataSipIncoming_frame ProcessMetadataSipOutgoing_frame invite)
qed

lemma ProcessMetadataSip_frame:
  assumes "config_ok (DLLCONFIG w)" and invite: "m_invite c \<noteq> None"
  shows "succeeds (ProcessMetadataSip w c) (\<lambda>c'. frame_of c' = frame_of c)"
proof -
  have last: "succeeds (andThen (invite_of c1) (\<lambda>i. Inr (g i))) (\<lambda>c'. frame_of c' = frame_of c)"
    if "frame_of c1 = frame_of c" "\<And>i. frame_of (g i) = frame_of c1" for c1 g
    using invite_of_succeeds [OF frame_has_invite [OF that(1) invite]] that by (auto simp: succeeds_def)
  have "frame_of (sip_overrides i c1) = frame_of c1" for i c1 by (simp add: sip_overrides_def Let_def frame)
  then show ?thesis
    unfolding ProcessMetadataSip_def
    by (intro succeeds_if succeeds_andThen [OF ProcessMetadataSipOutgoing_frame [OF invite]]
        succeeds_andThen [OF sip_incoming_or_outgoing_frame [OF assms]] succeeds_andThen [OF invite_of_succeeds [OF invite]] last)
      (simp_all add: frame)
qed

lemma process_metadata_frame:
  assumes "config_ok (DLLCONFIG w)" "wf_session w c"
  shows "succeeds (process_metadata w p c) (\<lambda>c'. frame_of c' = frame_of c)"
proof -
  let ?c = "c\<lparr>m_metadataProcessed := True\<rparr>"
  have f: "frame_of ?c = frame_of c" by (simp add: frame)
  have "m_protocol c = ProtSip \<Longrightarrow> m_invite ?c \<noteq> None" using assms(2) by (simp add: wf_session_def)
  then show ?thesis
    using ProcessMetadataRawRtp_frame [OF assms(1), of p ?c] ProcessMetadataSip_frame [OF assms(1), of ?c] f
    by (cases "m_protocol c") (auto simp: process_metadata_def Let_def frame)
qed

section \<open>RTP packets\<close>

text \<open>
  Seven bits of payload type; the entry 127 of the array of decoders, which does not exist, is looked up when sessions
  start on the activity of the second side.
\<close>

definition packet_ok :: "World \<Rightarrow> RtpPacketInfo \<Rightarrow> bool" where
  "packet_ok w p \<longleftrightarrow> m_payloadType p < 128 \<and> (m_sessionStartsOnS2ActivityDb (DLLCONFIG w) \<noteq> 0 \<longrightarrow> m_payloadType p < 127)"

lemma kept_sides:
  "kept w c (c'\<lparr>m_lastRtpPacketSide1 := p\<rparr>) = kept w c c'" "kept w c (c'\<lparr>m_lastRtpPacketSide2 := p\<rparr>) = kept w c c'"
  by (simp_all add: kept_def identity_of_def wf_session_def decoders_ok_def)

lemma kept_wf: "kept w c c' \<Longrightarrow> wf_session w c \<Longrightarrow> wf_session w c'"
  by (simp add: kept_def)

text \<open>Fields that channel detection and the alien packets change.\<close>

lemma kept_alien:
  "kept w c (c'\<lparr>m_ssrcCandidate := a\<rparr>) = kept w c c'" "kept w c (c'\<lparr>m_ssrcCandidateTimestamp := t\<rparr>) = kept w c c'"
  "kept w c (c'\<lparr>m_numAlienRtpPacketsS1 := a\<rparr>) = kept w c c'" "kept w c (c'\<lparr>m_numAlienRtpPacketsS2 := a\<rparr>) = kept w c c'"
  "kept w c (c'\<lparr>m_mappedS1S2 := b\<rparr>) = kept w c c'" "kept w c (c'\<lparr>m_lastRtpStreamStart := i\<rparr>) = kept w c c'" "kept w c (c'\<lparr>m_hasDuplicateRtp := b\<rparr>) = kept w c c'"
  "kept w c (c'\<lparr>m_highestRtpSeqNumDelta := i\<rparr>) = kept w c c'" "kept w c (c'\<lparr>m_rtpNumSeqGaps := a\<rparr>) = kept w c c'" "kept w c (c'\<lparr>m_rtpNumMissingPkts := a\<rparr>) = kept w c c'"
  "kept w c (c'\<lparr>m_logMsg := s\<rparr>) = kept w c c'"
  by (simp_all add: kept_def identity_of_def wf_session_def decoders_ok_def)

lemmas kept_updates = kept_alien kept_sides

lemma frame_start_session [frame]: "frame_of (start_session (VoIpSession_virtuals w) CONF c) = frame_of c"
  by (simp add: start_session_def VoIpSession_virtuals_def Let_def frame)

lemma frame_start_and_report [frame]: "frame_of (start_and_report w c) = frame_of c"
  by (simp add: start_and_report_def frame)

lemma kept_step: "kept w c c1 \<Longrightarrow> frame_of c2 = frame_of c1 \<Longrightarrow> kept w c c2"
  using kept_trans frame_kept by blast

text \<open>Detection keeps the session, and a channel it finds has a packet.\<close>

definition detected :: "World \<Rightarrow> VoIpCall \<Rightarrow> int \<times> bool \<times> VoIpCall \<Rightarrow> bool" where
  "detected w c = (\<lambda>(channel, first, c'). kept w c c' \<and> channel \<in> {0, 1, 2} \<and>
     (channel = 1 \<longrightarrow> m_lastRtpPacketSide1 c' \<noteq> None) \<and> (channel = 2 \<longrightarrow> m_lastRtpPacketSide2 c' \<noteq> None))"

lemma detect_detected:
  assumes "wf_session w c" "packet_ok w p"
  shows "succeeds (detect w p c) (detected w c)"
proof -
  have dec: "\<exists>d. decoder_of p c = Inr d" if "m_sessionStartsOnS2ActivityDb (DLLCONFIG w) \<noteq> 0"
    using decoder_of_ok [OF _ that, of c p] assms that by (simp add: wf_session_def packet_ok_def)
  have side2: "m_lastRtpPacketSide2 (start_session (VoIpSession_virtuals w) (CONFIG w) c') = m_lastRtpPacketSide2 c'" for c'
    using sides_of_frame [OF frame_start_session, of w "CONFIG w" c'] by (simp add: sides_of_def)
  have start: "kept w c (start_session (VoIpSession_virtuals w) (CONFIG w) c')" if "kept w c c'" for c'
    using kept_step [OF that frame_start_session] .
  show ?thesis
  proof (cases "m_lastRtpPacketSide1 c")
    case None
    then show ?thesis by (simp add: detect_def DetectChannel_def detected_def kept_updates)
  next
    case (Some s1)
    show ?thesis
    proof (cases "m_lastRtpPacketSide2 c")
      case None
      then show ?thesis using Some
        by (auto simp: detect_def DetectChannel_def detected_def kept_updates Let_def side2 start)
    next
      case two: (Some s2)
      with Some dec show ?thesis
        by (auto simp: detect_def DetectChannel_def detected_def side2 start)
    qed
  qed
qed

lemma frame_log_ssrc [frame]: "frame_of (log_ssrc w p c) = frame_of c"
  by (simp add: log_ssrc_def frame)

lemma kept_alien_packet: "kept w c (snd (alien_packet w p c))"
proof -
  have log: "kept w c (log_ssrc w p c') = kept w c c'" for c'
    using frame_log_ssrc [of w p c'] by (auto simp: kept_def frame_of_def wf_session_def decoders_ok_def identity_of_def)
  show ?thesis by (simp add: alien_packet_def alien_candidate_def Let_def log kept_updates)
qed

definition outcome_session :: "packet_outcome \<Rightarrow> VoIpCall" where
  "outcome_session out = (case out of Duplicate c \<Rightarrow> c | NotOfSession c \<Rightarrow> c | Accepted c \<Rightarrow> c)"

lemma kept_side_packets:
  "kept w c (outcome_session (side1_packet w p l c))" "kept w c (outcome_session (side2_packet w p l c))"
  by (simp_all add: side1_packet_def side2_packet_def highest_delta_def outcome_session_def Let_def kept_updates)

lemma map_channels_kept:
  assumes "config_ok (DLLCONFIG w)"
  shows "succeeds (map_channels w channel c) (\<lambda>(_, c'). kept w c c')"
proof -
  note gateway = IsMediaGateway_succeeds [of "DLLCONFIG w"]
  have swap: "succeeds (ShouldSwapChannels (DLLCONFIG w) c1) (\<lambda>(_, c2). kept w c c2)"
    if "m_lastRtpPacketSide1 c1 = Some p1" "m_lastRtpPacketSide2 c1 = Some p2" "kept w c c1" for c1 p1 p2
  proof -
    have "succeeds (IsMediaGateway (DLLCONFIG w) ip) (\<lambda>_. True)" for ip
      using gateway assms by (simp add: config_ok_def)
    then obtain g where "\<And>ip. IsMediaGateway (DLLCONFIG w) ip = Inr (g ip)" unfolding succeeds_def by metis
    then show ?thesis using that
      by (simp add: ShouldSwapChannels_def source_of_def Let_def kept_alien)
  qed
  show ?thesis
    unfolding map_channels_def Let_def
    by (intro succeeds_if) (auto intro!: succeeds_andThen [OF swap] simp: kept_updates split: if_splits)
qed

lemma frame_invite_metadata [frame]: "frame_of (invite_metadata w first invite c) = frame_of c"
proof -
  have names: "frame_of (report_names w c') = frame_of c'" for c' by (simp add: report_names_def frame)
  show ?thesis
    unfolding invite_metadata_def by (rule frame_let)+ (simp_all add: frame names)
qed

lemma UpdateMetadataSipOnRtpChange_frame:
  assumes "m_invite c \<noteq> None"
  shows "succeeds (UpdateMetadataSipOnRtpChange w p b c) (\<lambda>c'. frame_of c' = frame_of c)"
  using assms
  by (auto simp: UpdateMetadataSipOnRtpChange_def invite_of_def Let_def frame split: option.split)

lemma count_packet_kept:
  assumes "wf_session w c"
  shows "succeeds (count_packet w p c) (kept w c)"
proof -
  define c1 where "c1 = c\<lparr>m_numRtpPackets := m_numRtpPackets c + 1, m_lastUpdated := m_arrivalTimestamp p\<rparr>"
  have invite: "m_protocol c = ProtSip \<Longrightarrow> m_invite (c1\<lparr>m_rtpAddressList := l\<rparr>) \<noteq> None" for l
    using assms by (simp add: c1_def wf_session_def)
  have frame: "frame_of (c1\<lparr>m_rtpAddressList := l\<rparr>) = frame_of c" for l by (simp add: c1_def frame)
  have prot: "m_protocol (c1\<lparr>m_rtpAddressList := l\<rparr>) = m_protocol c" for l by (simp add: c1_def)
  have "succeeds (UpdateMetadataSipOnRtpChange w p b (c1\<lparr>m_rtpAddressList := l\<rparr>)) (kept w c)" if "m_protocol c = ProtSip" for b l
    using UpdateMetadataSipOnRtpChange_frame [OF invite [OF that]] by (rule succeeds_mono) (simp add: frame frame_kept)
  then show ?thesis
    unfolding count_packet_def Let_def c1_def [symmetric]
    by (auto split: prod.split simp: prot intro!: frame_kept frame)
qed

lemma frame_start_enough_packets [frame]: "frame_of (start_enough_packets w c) = frame_of c"
  by (simp add: start_enough_packets_def frame)

lemma SetBuffer_succeeds:
  "m_numBytes d = word_of_nat (length b) \<Longrightarrow> succeeds (SetBuffer (Some b) d new_AudioChunk) (\<lambda>_. True)"
  by (simp add: SetBuffer_def new_AudioChunk_def Let_def mem_slice_ok unat_of_nat mod_less_eq_dividend)

lemma send_chunk_frame:
  assumes "wf_session w c" "m_payloadType p < 128"
  shows "succeeds (send_chunk p channel c) (\<lambda>c'. frame_of c' = frame_of c)"
proof -
  have len: "length (m_orekaRtpPayloadTypeMap c) = 32" using assms(1) by (simp add: wf_session_def decoders_ok_def)
  have "succeeds (if m_payloadType p \<ge> 96 then peek (m_orekaRtpPayloadTypeMap c) (int (m_payloadType p) - 96)
       else Inr (m_payloadType p)) (\<lambda>_. True)"
    using assms(2) len by (simp add: peek_def)
  then show ?thesis
    unfolding send_chunk_def Let_def
    by (rule succeeds_andThen) (rule succeeds_andThen [OF SetBuffer_succeeds], simp_all add: frame)
qed

lemma recorded_packet_kept:
  assumes "config_ok (DLLCONFIG w)" "wf_session w c" "packet_ok w p"
  shows "succeeds (recorded_packet w p channel c) (\<lambda>(_, _, c'). kept w c c')"
  unfolding recorded_packet_def
proof (rule succeeds_andThen [OF map_channels_kept [OF assms(1)]], clarify)
  fix ch c1 assume c1: "kept w c c1"
  then have wf1: "wf_session w c1" using assms(2) by (rule kept_wf)
  show "succeeds (andThen (count_packet w p c1) (\<lambda>c2. let c3 = start_enough_packets w c2
        in if m_started c3 then let p' = speex_type w p in andThen (send_chunk p' ch c3) (\<lambda>c4. Inr (True, p', c4))
           else Inr (True, p, c3))) (\<lambda>(_, _, c'). kept w c c')"
  proof (rule succeeds_andThen [OF count_packet_kept [OF wf1]])
    fix c2 assume "kept w c1 c2"
    then have c2: "kept w c c2" using c1 kept_trans by blast
    let ?c3 = "start_enough_packets w c2"
    have c3: "kept w c ?c3" using kept_step [OF c2 frame_start_enough_packets] .
    have pt: "m_payloadType (speex_type w p) < 128" using assms(3) by (simp add: speex_type_def packet_ok_def pt_SPEEX_def)
    have "succeeds (send_chunk (speex_type w p) ch ?c3) (\<lambda>c'. frame_of c' = frame_of ?c3)"
      by (rule send_chunk_frame [OF kept_wf [OF c3 assms(2)] pt])
    then show "succeeds (let c3 = ?c3 in if m_started c3
           then let p' = speex_type w p in andThen (send_chunk p' ch c3) (\<lambda>c4. Inr (True, p', c4))
           else Inr (True, p, c3)) (\<lambda>(_, _, c'). kept w c c')"
      using c3 by (auto simp: Let_def intro!: succeeds_andThen elim: kept_step)
  qed
qed

lemma recorded_packet_from:
  assumes "config_ok (DLLCONFIG w)" "wf_session w c" "packet_ok w p" "kept w c c1"
  shows "succeeds (recorded_packet w p channel c1) (\<lambda>(_, _, c'). kept w c c')"
  using recorded_packet_kept [OF assms(1) kept_wf [OF assms(4,2)] assms(3)]
  by (rule succeeds_mono) (auto intro: kept_trans [OF assms(4)])

lemma check_hold_frame: "check_hold w p c = Some c' \<Longrightarrow> frame_of c' = frame_of c"
  by (auto simp: check_hold_def frame split: if_splits option.splits)

lemma kept_packet_kept:
  assumes "config_ok (DLLCONFIG w)" "wf_session w c" "packet_ok w p"
  shows "succeeds (kept_packet w p c) (\<lambda>(_, _, c'). kept w c c')"
proof -
  have start: "frame_of (start_kept w c) = frame_of c" by (simp add: start_kept_def frame)
  have channel: "succeeds (andThen (detect w p (c2\<lparr>m_lastRtpPacket := Some p\<rparr>)) g) (\<lambda>(_, _, c'). kept w c c')"
    if c2: "frame_of c2 = frame_of c"
      and g: "\<And>ch first c3. detected w (c2\<lparr>m_lastRtpPacket := Some p\<rparr>) (ch, first, c3) \<Longrightarrow> kept w c c3 \<Longrightarrow> wf_session w c3 \<Longrightarrow>
        succeeds (g (ch, first, c3)) (\<lambda>(_, _, c'). kept w c3 c')" for c2 g
  proof -
    let ?c = "c2\<lparr>m_lastRtpPacket := Some p\<rparr>"
    have f: "kept w c ?c" using c2 by (intro frame_kept) (simp add: frame)
    show ?thesis
    proof (rule succeeds_andThen [OF detect_detected [OF kept_wf [OF f assms(2)] assms(3)]])
      fix x assume x: "detected w ?c x"
      obtain ch first c3 where [simp]: "x = (ch, first, c3)" by (cases x)
      have c3: "kept w c c3" using x f kept_trans by (auto simp: detected_def)
      from g [OF x [simplified] c3 kept_wf [OF c3 assms(2)]]
      show "succeeds (g x) (\<lambda>(_, _, c'). kept w c c')" using c3 kept_trans by (auto elim!: succeeds_mono)
    qed
  qed
  note recorded = recorded_packet_from [OF assms(1) _ assms(3)]
  have alien: "succeeds (case alien_packet w p c3 of (None, c4) \<Rightarrow> Inr (True, p, c4) | (Some ch, c4) \<Rightarrow> recorded_packet w p ch c4)
      (\<lambda>(_, _, c'). kept w c3 c')" if "wf_session w c3" for c3
    using recorded [OF that kept_alien_packet [of w c3 p]] kept_alien_packet [of w c3 p]
    by (cases "alien_packet w p c3") (auto split: option.split)
  have side: "succeeds (case out of Duplicate c4 \<Rightarrow> Inr (True, p, c4) | NotOfSession c4 \<Rightarrow> Inr (False, p, c4)
       | Accepted c4 \<Rightarrow> recorded_packet w p ch c4) (\<lambda>(_, _, c'). kept w c3 c')"
    if "wf_session w c3" "kept w c3 (outcome_session out)" for c3 ch out
    using recorded [OF that] that(2) by (auto simp: outcome_session_def split: packet_outcome.split)
  show ?thesis
    unfolding kept_packet_def Let_def
    by (auto simp: frame_kept start detected_def intro!: succeeds_if channel alien recorded side kept_side_packets
        dest!: check_hold_frame split: option.split)
qed

lemma AddRtpPacket_kept:
  assumes "config_ok (DLLCONFIG w)" "wf_session w c" "packet_ok w p"
  shows "succeeds (AddRtpPacket w p c) (\<lambda>(_, _, c'). kept w c c')"
  unfolding AddRtpPacket_def
proof (rule succeeds_andThen [OF process_metadata_frame [OF assms(1)]])
  show "wf_session w (log_ssrc w p c)" using kept_wf [OF frame_kept [OF frame_log_ssrc] assms(2)] .
  fix c1 assume "frame_of c1 = frame_of (log_ssrc w p c)"
  then have c2: "frame_of (start_non_look_back w c1) = frame_of c" by (simp add: start_non_look_back_def frame)
  let ?c2 = "start_non_look_back w c1"
  have k2: "kept w c ?c2" using c2 by (rule frame_kept)
  have wf2: "wf_session w ?c2" using kept_wf [OF k2 assms(2)] .
  have event: "frame_of (telephone_event w p ?c2) = frame_of c" by (simp add: telephone_event_def frame c2)
  have ignored: "succeeds (ignored_packet w p ?c2) (kept w ?c2)"
  proof -
    have "succeeds (detect w p ?c2) (\<lambda>(_, _, c'). kept w ?c2 c')"
      using detect_detected [OF wf2 assms(3)] by (rule succeeds_mono) (auto simp: detected_def)
    then show ?thesis
      unfolding ignored_packet_def
      by (auto intro!: succeeds_andThen [where Q = "kept w ?c2"] frame_kept simp: frame elim!: kept_step)
        (auto simp: succeeds_def)
  qed
  have rest: "succeeds (kept_packet w p ?c2) (\<lambda>(_, _, c'). kept w c c')"
    using kept_packet_kept [OF assms(1) wf2 assms(3)] by (rule succeeds_mono) (auto intro: kept_trans [OF k2])
  have "succeeds (andThen (ignored_packet w p ?c2) (\<lambda>c3. Inr (True, p, c3))) (\<lambda>(_, _, c'). kept w c c')"
    using ignored by (rule succeeds_andThen) (auto intro: kept_trans [OF k2])
  then show "succeeds (let c2 = ?c2 in if is_telephone_event w p c2 then Inr (True, p, telephone_event w p c2)
        else if \<not> m_keepRtp c2 then andThen (ignored_packet w p c2) (\<lambda>c3. Inr (True, p, c3))
        else kept_packet w p c2) (\<lambda>(_, _, c'). kept w c c')"
    using rest frame_kept [OF event] by (simp add: Let_def)
qed

interpretation add_rtp_packet: session_method w "config_ok (DLLCONFIG w) \<and> packet_ok w p"
    "\<lambda>c. andThen (AddRtpPacket w p c) (\<lambda>(_, _, c'). Inr c')"
  by unfold_locales (auto intro!: succeeds_andThen [OF AddRtpPacket_kept])

end
