(* ===== verification/VoipCoherence.thy ===== *)
theory VoipCoherence
  imports VoipMethods
begin

text \<open>
  The invariant of the tables of sessions, and the operations on media addresses: every entry refers to a
  session that knows it by this address or call ID, so that stopping a session unlinks it.
\<close>

section \<open>The invariant\<close>

definition knows_address :: "World \<Rightarrow> VoIpSession \<Rightarrow> u64 \<Rightarrow> bool" where
  "knows_address w ss a \<longleftrightarrow> a \<in> set (m_mediaAddresses ss) \<and> (\<not> m_rtpAllowMultipleMappings (DLLCONFIG w) \<longrightarrow> a = m_ipAndPort ss)"

definition addresses_ok :: "VoIpSession \<Rightarrow> bool" where
  "addresses_ok ss \<longleftrightarrow> 0 \<notin> set (m_mediaAddresses ss) \<and> (m_mediaAddresses ss \<noteq> [] \<longrightarrow> m_ipAndPort ss \<in> set (m_mediaAddresses ss))"

text \<open>Entries under the empty call ID (of raw RTP sessions, see \<open>StopCapture\<close>) are not found again by \<open>Stop\<close>.\<close>

definition coherent :: "World \<Rightarrow> VoIpSessions \<Rightarrow> bool" where
  "coherent w st \<longleftrightarrow> map_sorted (m_byIpAndPort st) \<and> map_sorted (m_byCallId st) \<and>
     (\<forall>(a, r) \<in> set (m_byIpAndPort st). r < length (objects st) \<and> knows_address w (session st r) a) \<and>
     (\<forall>(cid, r) \<in> set (m_byCallId st). r < length (objects st) \<and> (cid = '''' \<or> m_callId (session st r) = cid)) \<and>
     (\<forall>ss \<in> set (objects st). addresses_ok ss)"

definition consistent :: "World \<Rightarrow> VoIpSessions \<Rightarrow> bool" where
  "consistent w st \<longleftrightarrow> coherent w st \<and> (\<forall>ss \<in> set (objects st). wf_session w ss)"

text \<open>Two states with the same tables, whose sessions have the same identities.\<close>

definition same_tables :: "VoIpSessions \<Rightarrow> VoIpSessions \<Rightarrow> bool" where
  "same_tables st st' \<longleftrightarrow> m_byIpAndPort st' = m_byIpAndPort st \<and> m_byCallId st' = m_byCallId st \<and>
     map identity_of (objects st') = map identity_of (objects st)"

lemma same_tables_refl [simp]: "same_tables st st"
  and same_tables_trans: "same_tables st st1 \<Longrightarrow> same_tables st1 st2 \<Longrightarrow> same_tables st st2"
  by (auto simp: same_tables_def)

lemma same_tables_length: "same_tables st st' \<Longrightarrow> length (objects st') = length (objects st)"
  unfolding same_tables_def by (metis length_map)

lemma same_tables_session:
  "same_tables st st' \<Longrightarrow> r < length (objects st) \<Longrightarrow> identity_of (session st' r) = identity_of (session st r)"
  unfolding same_tables_def session_def by (metis length_map nth_map)

lemma identity_fields:
  assumes "identity_of ss' = identity_of ss"
  shows "m_trackingId ss' = m_trackingId ss" "m_callId ss' = m_callId ss" "m_ipAndPort ss' = m_ipAndPort ss"
    "m_mediaAddresses ss' = m_mediaAddresses ss" "m_protocol ss' = m_protocol ss"
  using assms by (auto simp: identity_of_def)

lemma same_tables_coherent: "same_tables st st' \<Longrightarrow> coherent w st \<Longrightarrow> coherent w st'"
proof -
  assume same: "same_tables st st'" and coh: "coherent w st"
  have "identity_of (session st' r) = identity_of (session st r)" if "r < length (objects st)" for r
    using same_tables_session [OF same that] .
  note fields = identity_fields [OF this]
  have "addresses_ok ss" if "ss \<in> set (objects st')" for ss
  proof -
    from that same_tables_length [OF same] obtain r where r: "r < length (objects st)" "ss = session st' r"
      by (auto simp: in_set_conv_nth session_def)
    moreover have "session st r \<in> set (objects st)" using r by (simp add: session_def)
    ultimately show ?thesis using fields [OF r(1)] coh by (auto simp: coherent_def addresses_ok_def)
  qed
  moreover have "m_byIpAndPort st' = m_byIpAndPort st" "m_byCallId st' = m_byCallId st"
    using same by (auto simp: same_tables_def)
  ultimately show "coherent w st'"
    using coh fields same_tables_length [OF same] by (fastforce simp: coherent_def knows_address_def)
qed

section \<open>Calling a method\<close>

lemma identity_truncate [simp]: "identity_of (VoIpSession.truncate c) = identity_of c"
  and wf_truncate [simp]: "wf_session w (VoIpSession.truncate c) = wf_session w c"
  by (simp_all add: VoIpSession.truncate_def identity_of_def wf_session_def decoders_ok_def)

lemma identity_call_of [simp]: "identity_of (call_of st r) = identity_of (session st r)"
  and wf_call_of [simp]: "wf_session w (call_of st r) = wf_session w (session st r)"
  by (simp_all add: call_of_def VoIpSession.extend_def identity_of_def wf_session_def decoders_ok_def)

lemma same_tables_return:
  "identity_of c = identity_of (session st r) \<Longrightarrow> same_tables st (return_of r c st)"
  by (cases "r < length (objects st)")
    (simp_all add: same_tables_def return_of_def map_update session_def list_update_same_conv list_update_beyond)

lemma wf_return: "wf_session w c \<Longrightarrow> \<forall>ss \<in> set (objects st). wf_session w ss \<Longrightarrow>
   \<forall>ss \<in> set (objects (return_of r c st)). wf_session w ss"
  by (auto simp: return_of_def dest!: subsetD [OF set_update_subset_insert])

definition keeps_tables :: "World \<Rightarrow> VoIpSessions \<Rightarrow> VoIpSessions \<Rightarrow> bool" where
  "keeps_tables w st st' \<longleftrightarrow> consistent w st' \<and> same_tables st st'"

lemma kept_returns:
  assumes "kept w (call_of st r) c" "consistent w st" "r < length (objects st)"
  shows "keeps_tables w st (return_of r c st)"
proof -
  have "wf_session w (session st r)" using assms(2,3) by (simp add: consistent_def session_def)
  with assms(1) have c: "identity_of c = identity_of (session st r)" "wf_session w c" by (simp_all add: kept_def)
  from same_tables_return [OF c(1)] show ?thesis
    using assms(2) wf_return [OF c(2)] by (auto simp: keeps_tables_def consistent_def dest: same_tables_coherent)
qed

context session_method begin

lemma call_result_keeps:
  assumes "ok" "consistent w st" "r < length (objects st)"
  shows "succeeds (call_result f r st) (keeps_tables w st)"
proof -
  have "wf_session w (call_of st r)" using assms(2,3) by (simp add: consistent_def session_def)
  from runs [OF assms(1) this] show ?thesis
    unfolding call_result_def by (rule succeeds_andThen) (simp add: kept_returns [OF _ assms(2,3)])
qed

end

lemma call_as_result: "call g r st = st' \<longleftrightarrow> call_result (\<lambda>c. Inr (g c)) r st = Inr st'"
  by (simp add: call_def call_result_def)

lemma call_keeps:
  assumes "session_method w ok (\<lambda>c. Inr (g c))" "ok" "consistent w st" "r < length (objects st)"
  shows "keeps_tables w st (call g r st)"
  using session_method.call_result_keeps [OF assms] by (simp add: call_result_def call_def)

section \<open>Unlinking\<close>

lemma RemoveFromMediaAddressMap_index:
  "coherent w st \<Longrightarrow> m_byIpAndPort (RemoveFromMediaAddressMap r a st) =
     (if map_find a (m_byIpAndPort st) = Some r then map_erase a (m_byIpAndPort st) else m_byIpAndPort st)"
  by (force simp: RemoveFromMediaAddressMap_def coherent_def knows_address_def addresses_ok_def session_def
      dest!: map_find_set split: option.split)

lemma RemoveFromMediaAddressMap_rest [simp]:
  "objects (RemoveFromMediaAddressMap r a st) = objects st" "m_byCallId (RemoveFromMediaAddressMap r a st) = m_byCallId st"
  "session (RemoveFromMediaAddressMap r a st) r' = session st r'"
  by (simp_all add: RemoveFromMediaAddressMap_def session_def split: option.split)

lemma set_map_erase: "set (map_erase k m) = {(k', v) \<in> set m. k' \<noteq> k}"
  by (auto simp: map_erase_def)

lemma coherent_erase:
  assumes "coherent w st"
  shows "coherent w (st\<lparr>m_byIpAndPort := map_erase a (m_byIpAndPort st)\<rparr>)"
    "coherent w (st\<lparr>m_byCallId := map_erase cid (m_byCallId st)\<rparr>)"
  using assms by (auto simp: coherent_def session_def std_map set_map_erase)

lemma RemoveFromMediaAddressMap_coherent: "coherent w st \<Longrightarrow> coherent w (RemoveFromMediaAddressMap r a st)"
  by (simp add: RemoveFromMediaAddressMap_def coherent_erase split: option.split)

lemma fold_Remove_rest [simp]:
  "objects (fold (RemoveFromMediaAddressMap r) as st) = objects st" "m_byCallId (fold (RemoveFromMediaAddressMap r) as st) = m_byCallId st"
  by (induction as arbitrary: st) simp_all

lemma fold_Remove_coherent: "coherent w st \<Longrightarrow> coherent w (fold (RemoveFromMediaAddressMap r) as st)"
  by (induction as arbitrary: st) (simp_all add: RemoveFromMediaAddressMap_coherent)

text \<open>Removing a list of addresses removes the entries of the session for them, and nothing else.\<close>

lemma fold_Remove_set:
  "coherent w st \<Longrightarrow> set (m_byIpAndPort (fold (RemoveFromMediaAddressMap r) as st)) =
     {(a, r') \<in> set (m_byIpAndPort st). \<not> (r' = r \<and> a \<in> set as)}"
proof (induction as arbitrary: st)
  case (Cons a as)
  have sorted: "map_sorted (m_byIpAndPort st)" using Cons.prems by (simp add: coherent_def)
  have "set (m_byIpAndPort (RemoveFromMediaAddressMap r a st)) = {(a', r') \<in> set (m_byIpAndPort st). \<not> (r' = r \<and> a' = a)}"
    unfolding RemoveFromMediaAddressMap_index [OF Cons.prems]
    by (auto simp: set_map_erase map_find_iff [OF sorted] dest: map_sorted_unique [OF sorted])
  with Cons.IH [OF RemoveFromMediaAddressMap_coherent [OF Cons.prems], of r a] show ?case by auto
qed auto

section \<open>Stopping\<close>

lemma TaggingSipTransferCalls_keeps:
  assumes "consistent w st" "r < length (objects st)"
  shows "succeeds (TaggingSipTransferCalls w r st) (keeps_tables w st)"
proof -
  have same: "keeps_tables w st (st\<lparr>m_sipReferList := l\<rparr>)" for l
    using assms(1) by (simp add: keeps_tables_def same_tables_def consistent_def coherent_def session_def)
  have "keeps_tables w st (call (fold (tag_transfer from to) refers) r (st\<lparr>m_sipReferList := l\<rparr>))" for "from" to refers l
    using call_keeps [OF tag_transfers.session_method_axioms, of w "st\<lparr>m_sipReferList := l\<rparr>" r "from" to refers] assms(2) same [of l]
    by (auto simp: keeps_tables_def intro: same_tables_trans)
  moreover have "m_protocol (session st r) = ProtSip \<Longrightarrow> m_invite (session st r) \<noteq> None"
    using assms by (auto simp: consistent_def session_def wf_session_def)
  ultimately show ?thesis
    using assms by (auto simp: TaggingSipTransferCalls_def Let_def keeps_tables_def split: option.split)
qed

text \<open>The tables without the entries of a session.\<close>

definition unlinked :: "nat \<Rightarrow> VoIpSessions \<Rightarrow> VoIpSessions \<Rightarrow> bool" where
  "unlinked r st st' \<longleftrightarrow>
     set (m_byIpAndPort st') = {(a, r') \<in> set (m_byIpAndPort st). r' \<noteq> r} \<and>
     set (m_byCallId st') = {(cid, r') \<in> set (m_byCallId st). m_callId (session st r) = '''' \<or> cid \<noteq> m_callId (session st r)} \<and>
     length (objects st') = length (objects st) \<and> m_mediaAddresses (session st' r) = [] \<and>
     (\<forall>r' < length (objects st). r' \<noteq> r \<longrightarrow> identity_of (session st' r') = identity_of (session st r')) \<and>
     m_trackingId (session st' r) = m_trackingId (session st r) \<and> m_callId (session st' r) = m_callId (session st r) \<and>
     m_protocol (session st' r) = m_protocol (session st r)"

lemma clear_addresses:
  assumes "consistent w st" "r < length (objects st)" "\<forall>(a, r') \<in> set (m_byIpAndPort st). r' \<noteq> r"
  shows "consistent w (change r (\<lambda>ss. ss\<lparr>m_mediaAddresses := []\<rparr>) st)"
  using assms
  by (auto simp: consistent_def coherent_def change_def session_def nth_list_update wf_session_def decoders_ok_def
      knows_address_def addresses_ok_def dest!: subsetD [OF set_update_subset_insert])

lemma VoIpSessions_Stop_unlinks:
  assumes "config_ok (DLLCONFIG w)" "consistent w st" "r < length (objects st)"
  shows "succeeds (VoIpSessions_Stop w r st) (\<lambda>st'. consistent w st' \<and> unlinked r st st')"
  unfolding VoIpSessions_Stop_def
proof (rule succeeds_andThen [OF TaggingSipTransferCalls_keeps [OF assms(2,3)]])
  fix st1 assume st1: "keeps_tables w st st1"
  then have r1: "r < length (objects st1)" using assms(3) by (auto simp: keeps_tables_def dest: same_tables_length)
  have con1: "consistent w st1" using st1 by (simp add: keeps_tables_def)
  let ?rest = "\<lambda>st2. let st3 = (if m_callId (session st2 r) \<noteq> ''''
                then st2\<lparr>m_byCallId := map_erase (m_callId (session st2 r)) (m_byCallId st2)\<rparr> else st2);
         st4 = fold (RemoveFromMediaAddressMap r) (m_mediaAddresses (session st3 r)) st3
     in Inr (change r (\<lambda>ss. ss\<lparr>m_mediaAddresses := []\<rparr>) st4)"
  show "succeeds (andThen (call_result (VoIpSession_Stop w) r st1) ?rest) (\<lambda>st'. consistent w st' \<and> unlinked r st st')"
  proof (rule succeeds_andThen [OF stop.call_result_keeps [OF assms(1) con1 r1]])
    fix st2 assume "keeps_tables w st1 st2"
    then have con2: "consistent w st2" and same: "same_tables st st2"
      using st1 by (auto simp: keeps_tables_def intro: same_tables_trans)
    have r2: "r < length (objects st2)" using same assms(3) by (auto dest: same_tables_length)
    define st3 where "st3 = (if m_callId (session st2 r) \<noteq> ''''
                then st2\<lparr>m_byCallId := map_erase (m_callId (session st2 r)) (m_byCallId st2)\<rparr> else st2)"
    define st4 where "st4 = fold (RemoveFromMediaAddressMap r) (m_mediaAddresses (session st3 r)) st3"
    have obj: "objects st4 = objects st2" "objects st3 = objects st2" by (simp_all add: st4_def st3_def)
    have ses: "session st4 = session st2" "session st3 = session st2" by (simp_all add: session_def obj fun_eq_iff)
    have coh3: "coherent w st3" using con2 by (simp add: st3_def consistent_def coherent_erase)
    then have con4: "consistent w st4" using con2 obj by (simp add: st4_def consistent_def fold_Remove_coherent)
    have known: "a \<in> set (m_mediaAddresses (session st2 r))" if "(a, r) \<in> set (m_byIpAndPort st2)" for a
      using that con2 by (auto simp: consistent_def coherent_def knows_address_def)
    have by3: "m_byIpAndPort st3 = m_byIpAndPort st2" by (simp add: st3_def)
    have ip4: "set (m_byIpAndPort st4) = {(a, r') \<in> set (m_byIpAndPort st2). r' \<noteq> r}"
      unfolding st4_def fold_Remove_set [OF coh3] ses by3 using known by auto
    have call4: "set (m_byCallId st4) = {(cid, r') \<in> set (m_byCallId st2).
        m_callId (session st2 r) = '''' \<or> cid \<noteq> m_callId (session st2 r)}"
      by (auto simp: st4_def st3_def set_map_erase)
    let ?final = "change r (\<lambda>ss. ss\<lparr>m_mediaAddresses := []\<rparr>) st4"
    have "consistent w ?final" using con4 obj r2 ip4 by (intro clear_addresses) auto
    moreover have "unlinked r st ?final"
    proof -
      note id = identity_fields [OF same_tables_session [OF same assms(3)]]
      have "identity_of (session ?final r') = identity_of (session st r')" if "r' < length (objects st)" "r' \<noteq> r" for r'
        using that same_tables_session [OF same that(1)] same_tables_length [OF same]
        by (simp add: change_def session_def obj)
      then show ?thesis
        using ip4 call4 same id r2 obj by (auto simp: unlinked_def change_def session_def same_tables_def dest: map_eq_imp_length_eq)
    qed
    ultimately show "succeeds (?rest st2) (\<lambda>st'. consistent w st' \<and> unlinked r st st')"
      by (simp add: Let_def st3_def [symmetric] st4_def [symmetric])
  qed
qed

section \<open>Binding\<close>

lemma Craft64bitMediaAddress_port: "ucast (Craft64bitMediaAddress config ip port) = port"
  by (rule bit_word_eqI) (auto simp: Craft64bitMediaAddress_def bit_simps)

lemma Craft64bitMediaAddress_nonzero: "port \<noteq> 0 \<Longrightarrow> Craft64bitMediaAddress config ip port \<noteq> 0"
  using Craft64bitMediaAddress_port [of config ip port] by auto

definition grows :: "World \<Rightarrow> VoIpSessions \<Rightarrow> VoIpSessions \<Rightarrow> bool" where
  "grows w st st' \<longleftrightarrow> consistent w st' \<and> length (objects st) \<le> length (objects st')"

lemma grows_refl: "consistent w st \<Longrightarrow> grows w st st"
  and grows_trans: "grows w st st1 \<Longrightarrow> grows w st1 st2 \<Longrightarrow> grows w st st2"
  by (auto simp: grows_def)

lemma keeps_tables_grows: "keeps_tables w st st' \<Longrightarrow> grows w st st'"
  by (auto simp: keeps_tables_def grows_def dest: same_tables_length)

text \<open>The tables after binding a free address.\<close>

definition bound :: "World \<Rightarrow> nat \<Rightarrow> u32 \<Rightarrow> u64 \<Rightarrow> VoIpSessions \<Rightarrow> VoIpSessions \<Rightarrow> bool" where
  "bound w r ip a st st' \<longleftrightarrow>
     set (m_byIpAndPort st') = insert (a, r)
       {(a', r') \<in> set (m_byIpAndPort st). r' = r \<longrightarrow> m_rtpAllowMultipleMappings (DLLCONFIG w)} \<and>
     m_byCallId st' = m_byCallId st \<and> globals st' = globals st \<and> length (objects st') = length (objects st) \<and>
     m_ipAndPort (session st' r) = a \<and> m_rtpIp (session st' r) = ip \<and>
     (\<forall>r' < length (objects st). r' \<noteq> r \<longrightarrow> session st' r' = session st r')"

lemma set_map_insert:
  "map_find k m = None \<Longrightarrow> set (map_insert k v m) = insert (k, v) (set m)"
  by (induction k v m rule: map_insert.induct) (auto simp: map_find_def split: if_splits)

lemma bind_media_address_bound:
  assumes con: "consistent w st" and r: "r < length (objects st)" and a: "a \<noteq> 0" "map_find a (m_byIpAndPort st) = None"
  shows "consistent w (bind_media_address w r ip a st) \<and> bound w r ip a st (bind_media_address w r ip a st)"
proof -
  let ?single = "\<not> m_rtpAllowMultipleMappings (DLLCONFIG w)"
  let ?old = "m_ipAndPort (session st r)"
  define st0 where "st0 = (if ?single then RemoveFromMediaAddressMap r ?old st else st)"
  define upd where "upd = (\<lambda>ss :: VoIpSession. ss\<lparr>m_mediaAddresses := (if ?single then [] else m_mediaAddresses ss) @ [a],
     m_ipAndPort := a, m_rtpIp := ip\<rparr>)"
  have coh: "coherent w st" using con by (simp add: consistent_def)
  have coh0: "coherent w st0" using coh by (simp add: st0_def RemoveFromMediaAddressMap_coherent)
  have obj0: "objects st0 = objects st" "m_byCallId st0 = m_byCallId st" "globals st0 = globals st"
    by (simp_all add: st0_def RemoveFromMediaAddressMap_def split: option.split)
  have own: "a' = ?old" if "(a', r) \<in> set (m_byIpAndPort st)" ?single for a'
    using that coh by (auto simp: coherent_def knows_address_def)
  have set0: "set (m_byIpAndPort st0) = {(a', r') \<in> set (m_byIpAndPort st). r' = r \<longrightarrow> \<not> ?single}"
  proof (cases ?single)
    case True
    have "set (m_byIpAndPort (fold (RemoveFromMediaAddressMap r) [?old] st)) =
        {(a', r') \<in> set (m_byIpAndPort st). \<not> (r' = r \<and> a' \<in> set [?old])}" by (rule fold_Remove_set [OF coh])
    then show ?thesis using True own by (auto simp: st0_def)
  qed (simp add: st0_def)
  have free: "map_find a (m_byIpAndPort st0) = None"
  proof (rule ccontr)
    assume "map_find a (m_byIpAndPort st0) \<noteq> None"
    then obtain r' where "(a, r') \<in> set (m_byIpAndPort st0)" by (auto dest: map_find_set)
    then have "(a, r') \<in> set (m_byIpAndPort st)" using set0 by auto
    with a(2) coh show False by (simp add: coherent_def flip: map_find_iff)
  qed
  have result: "bind_media_address w r ip a st =
      st0\<lparr>objects := (objects st)[r := upd (session st r)], m_byIpAndPort := map_insert a r (m_byIpAndPort st0)\<rparr>"
    using r by (simp add: bind_media_address_def st0_def upd_def change_def session_def Let_def RemoveFromMediaAddressMap_def
        split: option.split)
  let ?st' = "bind_media_address w r ip a st"
  have ses: "session ?st' r' = (if r' = r then upd (session st r) else session st r')" if "r' < length (objects st)" for r'
    using that by (simp add: result session_def)
  have len': "length (objects ?st') = length (objects st)" by (simp add: result)
  have set': "set (m_byIpAndPort ?st') = insert (a, r) (set (m_byIpAndPort st0))"
    by (simp add: result set_map_insert [OF free])
  have "coherent w ?st'"
    unfolding coherent_def
  proof (intro conjI)
    show "map_sorted (m_byIpAndPort ?st')" using coh0 by (simp add: result coherent_def std_map)
    show "map_sorted (m_byCallId ?st')" using coh by (simp add: result coherent_def obj0)
    have old: "r' < length (objects st) \<and> knows_address w (session st r') a' \<and> (r' = r \<longrightarrow> \<not> ?single)"
      if "(a', r') \<in> set (m_byIpAndPort st0)" for a' r'
      using that set0 coh by (auto simp: coherent_def)
    show "\<forall>(a', r') \<in> set (m_byIpAndPort ?st'). r' < length (objects ?st') \<and> knows_address w (session ?st' r') a'"
      using r old unfolding set' len' by (auto simp: ses knows_address_def upd_def)
    show "\<forall>(cid, r') \<in> set (m_byCallId ?st'). r' < length (objects ?st') \<and> (cid = '''' \<or> m_callId (session ?st' r') = cid)"
    proof -
      have "m_callId (session ?st' r') = m_callId (session st r')" if "r' < length (objects st)" for r'
        using ses [OF that] by (simp add: upd_def)
      moreover have "m_byCallId ?st' = m_byCallId st" by (simp add: result obj0)
      ultimately show ?thesis unfolding len' using coh by (auto simp: coherent_def)
    qed
    show "\<forall>ss \<in> set (objects ?st'). addresses_ok ss"
      using coh r a(1) by (auto simp: coherent_def result upd_def addresses_ok_def session_def dest!: subsetD [OF set_update_subset_insert])
  qed
  moreover have "\<forall>ss \<in> set (objects ?st'). wf_session w ss"
    using con r by (auto simp: consistent_def result upd_def wf_session_def decoders_ok_def session_def
        dest!: subsetD [OF set_update_subset_insert])
  moreover have "bound w r ip a st ?st'"
    using set' set0 r ses by (auto simp: bound_def result obj0 session_def upd_def)
  ultimately show ?thesis by (simp add: consistent_def)
qed

lemma media_address_allowed_succeeds:
  "config_ok (DLLCONFIG w) \<Longrightarrow> succeeds (media_address_allowed w ip) (\<lambda>_. True)"
  unfolding media_address_allowed_def config_ok_def
  by (rule succeeds_andThen [OF Matches_succeeds]) (simp_all add: Matches_succeeds)

lemma SetMediaAddress_grows:
  assumes config: "config_ok (DLLCONFIG w)" and con: "consistent w st" and r: "r < length (objects st)"
  shows "succeeds (SetMediaAddress w r ip port st) (grows w st)"
proof (cases "port = 0")
  case False
  let ?a = "Craft64bitMediaAddress (DLLCONFIG w) ip port"
  have a: "?a \<noteq> 0" using False by (rule Craft64bitMediaAddress_nonzero)
  have bind: "grows w st (bind_media_address w r ip ?a st1)"
    if "grows w st st1" "map_find ?a (m_byIpAndPort st1) = None" for st1
  proof -
    have "consistent w st1" "r < length (objects st1)" using that r by (auto simp: grows_def)
    from bind_media_address_bound [OF this a that(2)] that(1) show ?thesis by (auto simp: grows_def bound_def)
  qed
  have steps: "succeeds (case findByMediaAddress w st ip port of
               None \<Rightarrow> Inr (bind_media_address w r ip ?a st)
             | Some old \<Rightarrow>
                 if CompareNoCase_eq (m_trackingId (session st old)) (m_trackingId (session st r)) then Inr st
                 else if replaces w (session st r) (session st old) then
                   andThen (if m_protocol (session st old) = ProtRawRtp then VoIpSessions_Stop w old st
                            else Inr (RemoveFromMediaAddressMap old ?a st)) (\<lambda>st1.
                   Inr (bind_media_address w r ip ?a st1))
                 else Inr st) (grows w st)"
  proof (cases "findByMediaAddress w st ip port")
    case None
    then show ?thesis using bind [OF grows_refl [OF con]] by (simp add: findByMediaAddress_def)
  next
    case (Some old)
    then have entry: "(?a, old) \<in> set (m_byIpAndPort st)" by (simp add: findByMediaAddress_def map_find_set)
    have sorted: "map_sorted (m_byIpAndPort st)" and old: "old < length (objects st)"
      using con entry by (auto simp: consistent_def coherent_def)
    have free: "map_find ?a (m_byIpAndPort st1) = None"
      if sub: "set (m_byIpAndPort st1) \<subseteq> set (m_byIpAndPort st)" and gone: "(?a, old) \<notin> set (m_byIpAndPort st1)" for st1
    proof (rule ccontr)
      assume "map_find ?a (m_byIpAndPort st1) \<noteq> None"
      then obtain r' where r': "(?a, r') \<in> set (m_byIpAndPort st1)" by (auto dest: map_find_set)
      then have "r' = old" using map_sorted_unique [OF sorted] sub entry by blast
      then show False using r' gone by simp
    qed
    have freed: "succeeds (if m_protocol (session st old) = ProtRawRtp then VoIpSessions_Stop w old st
         else Inr (RemoveFromMediaAddressMap old ?a st)) (\<lambda>st1. grows w st st1 \<and> map_find ?a (m_byIpAndPort st1) = None)"
    proof (rule succeeds_if)
      show "succeeds (VoIpSessions_Stop w old st) (\<lambda>st1. grows w st st1 \<and> map_find ?a (m_byIpAndPort st1) = None)"
        using VoIpSessions_Stop_unlinks [OF config con old]
        by (rule succeeds_mono) (auto simp: grows_def unlinked_def intro!: free)
      let ?st1 = "RemoveFromMediaAddressMap old ?a st"
      have coh: "coherent w st" using con by (simp add: consistent_def)
      from fold_Remove_set [OF coh, of old "[?a]"] have "map_find ?a (m_byIpAndPort ?st1) = None"
        by (intro free) auto
      then show "succeeds (Inr ?st1) (\<lambda>st1. grows w st st1 \<and> map_find ?a (m_byIpAndPort st1) = None)"
        using con by (simp add: grows_def consistent_def RemoveFromMediaAddressMap_coherent)
    qed
    show ?thesis
      unfolding Some option.case
      by (intro succeeds_if succeeds_andThen [OF freed]) (simp_all add: bind grows_refl con)
  qed
  show ?thesis
    unfolding SetMediaAddress_def if_not_P [OF False]
    by (rule succeeds_andThen [OF media_address_allowed_succeeds [OF config]])
      (use steps con in \<open>simp add: grows_refl Let_def\<close>)
qed (use con in \<open>simp add: SetMediaAddress_def grows_refl\<close>)

end
