(* ===== verification/VoipSip.thy ===== *)
theory VoipSip
  imports VoipCoherence
begin

text \<open>
  The handlers of SIP messages: \<open>VoIpSessions::ReportSip*\<close> in \<open>audiocaptureplugins/voip/VoIpSession.cpp\<close>,
  lines 1961 to 2372, and \<open>TrySessionCallPickUp\<close> (lines 4043 to 4056). A message found to
  be shared with a session (INVITE, REFER, NOTIFY) is passed by value after its last change.
\<close>

section \<open>INVITE\<close>

text \<open>\<open>int\<close> of a \<open>long\<close>.\<close>

definition to_int :: "int \<Rightarrow> int" where
  "to_int i = sint (word_of_int i :: u32)"

definition rtp_port_as_int :: "SipInviteInfo \<Rightarrow> int" where
  "rtp_port_as_int i =
     (case strtol (c_str (m_fromRtpPort i)) of (n, rest) \<Rightarrow> if rest \<noteq> '''' then 0 else to_int n)"

definition rtp_port :: "SipInviteInfo \<Rightarrow> u16" where
  "rtp_port i = (if rtp_port_as_int i > 0 \<and> rtp_port_as_int i < 65535 then word_of_int (rtp_port_as_int i) else 0)"

text \<open>The subscription is used up.\<close>

definition TrySessionCallPickUp :: "string \<Rightarrow> VoIpSessions \<Rightarrow> bool \<times> VoIpSessions" where
  "TrySessionCallPickUp replacesCallId st =
     (if list_ex (\<lambda>s. SipSubscribeInfo.m_callId s = replacesCallId) (m_sipSubscribeMap st)
      then (True, st\<lparr>m_sipSubscribeMap := filter (\<lambda>s. SipSubscribeInfo.m_callId s \<noteq> replacesCallId) (m_sipSubscribeMap st)\<rparr>)
      else (False, st))"

definition try_pick_up :: "World \<Rightarrow> SipInviteInfo \<Rightarrow> nat \<Rightarrow> VoIpSessions \<Rightarrow> VoIpSessions" where
  "try_pick_up w i r st =
     (if m_sipCallPickUpSupport (DLLCONFIG w) then
        case TrySessionCallPickUp (m_replacesId i) st of (found, st1) \<Rightarrow>
        if found then change r (\<lambda>ss. ss\<lparr>m_isCallPickUp := True\<rparr>) st1 else st1
      else st)"

text \<open>Going on or off hold for an INVITE to an existing session; True: the handler returns.\<close>

definition invite_hold :: "World \<Rightarrow> SipInviteInfo \<Rightarrow> nat \<Rightarrow> VoIpSessions \<Rightarrow> (bool \<times> VoIpSessions) result" where
  "invite_hold w i r st =
     (if m_attrSendonly i then Inr (True, call (GoOnHold w (m_recvTime i)) r st)
      else if m_onHold (session st r) \<and> m_sipInviteCanPutOffHold (DLLCONFIG w) then
        let st1 = change r (\<lambda>ss. ss\<lparr>m_lastUpdated := time_now w\<rparr>) (call (GoOffHold w (m_recvTime i)) r st)
        in andThen (SetMediaAddress w r (m_fromRtpIp i) (rtp_port i) st1) (\<lambda>st2. Inr (True, st2))
      else Inr (False, st))"

definition report_invite :: "World \<Rightarrow> SipInviteInfo \<Rightarrow> nat \<Rightarrow> VoIpSessions \<Rightarrow> VoIpSessions" where
  "report_invite w i r st = call (VoIpSession_ReportSipInvite w i) r (try_pick_up w i r st)"

text \<open>A session exists on the media address of the INVITE.\<close>

definition invite_on_media_address :: "World \<Rightarrow> SipInviteInfo \<Rightarrow> nat \<Rightarrow> VoIpSessions \<Rightarrow> (bool \<times> VoIpSessions) result" where
  "invite_on_media_address w i r st =
     (let ss = session st r; multiple = m_rtpAllowMultipleMappings (DLLCONFIG w)
      in if m_protocol ss = ProtRawRtp then Inr (False, st)
         else if m_protocol ss = ProtSip \<and> multiple then Inr (False, st)
         else if \<not> multiple \<and> \<not> CompareNoCase_eq (SipInviteInfo.m_callId i) (m_callId ss)
         then Inr (False, change r (\<lambda>ss. ss\<lparr>m_protocol := ProtRawRtp\<rparr>) st)
         else andThen (invite_hold w i r st) (\<lambda>(returns, st1).
              if returns then Inr (True, st1) else Inr (True, report_invite w i r st1)))"

text \<open>A session exists with the call ID of the INVITE; \<open>ipAndPort\<close> is the media address looked up before.\<close>

definition invite_on_call_id :: "World \<Rightarrow> SipInviteInfo \<Rightarrow> u64 \<Rightarrow> nat \<Rightarrow> VoIpSessions \<Rightarrow> VoIpSessions result" where
  "invite_on_call_id w i ipAndPort r st =
     andThen (invite_hold w i r st) (\<lambda>(returns, st1).
     if returns then Inr st1
     else
       andThen (if m_ipAndPort (session st1 r) \<noteq> ipAndPort \<and> m_sipDynamicMediaAddress (DLLCONFIG w) then
           andThen (SetMediaAddress w r (m_fromRtpIp i) (rtp_port i) st1) (\<lambda>st2.
           if m_sipTrackMediaAddressOnSender (DLLCONFIG w)
           then SetMediaAddress w r (SipInviteInfo.m_originalSenderIp i) (rtp_port i) st2 else Inr st2)
         else Inr st1) (\<lambda>st2.
       Inr (report_invite w i r st2)))"

text \<open>The NOTIFY that preceded the INVITE of an NEC phone is used once.\<close>

definition pre_invite_notify :: "World \<Rightarrow> SipInviteInfo \<Rightarrow> VoIpSessions \<Rightarrow> (SipInviteInfo \<times> VoIpSessions) result" where
  "pre_invite_notify w i st =
     (if m_sipNotifySupport (DLLCONFIG w) then
        andThen (IpRanges_Matches (m_sipDirectionReferenceIpAddresses (DLLCONFIG w)) (SipInviteInfo.m_senderIp i)) (\<lambda>reference.
        let ip = (if reference then SipInviteInfo.m_receiverIp i else SipInviteInfo.m_senderIp i);
            key = Craft64bitMediaAddress (DLLCONFIG w) ip 0
        in case GetVoIpEndpointInfo (DLLCONFIG w) (globals st) ip 0 of
             None \<Rightarrow> Inr (i, st)
           | Some ep \<Rightarrow>
               (case m_preInviteNotifyRef ep of
                  None \<Rightarrow> Inr (i, st)
                | Some notify \<Rightarrow>
                    andThen (IsNecExternal w i) (\<lambda>external.
                    Inr (if external
                         then (i\<lparr>SipInviteInfo.m_sipRemoteParty := m_dsp notify\<rparr>,
                               st\<lparr>globals := (globals st)\<lparr>m_endpoints :=
                                 map_change key (\<lambda>ep. ep\<lparr>m_preInviteNotifyRef := None\<rparr>) (m_endpoints (globals st))\<rparr>\<rparr>)
                         else (i, st)))))
      else Inr (i, st))"

definition report_new_session :: "World \<Rightarrow> SipInviteInfo \<Rightarrow> nat \<Rightarrow> VoIpSessions \<Rightarrow> VoIpSessions" where
  "report_new_session w i r st =
     change r (\<lambda>ss. ss\<lparr>m_sipLastInvite := now_us w\<rparr>) (call (VoIpSession_ReportSipInvite w i) r st)"

definition link_new_session :: "World \<Rightarrow> SipInviteInfo \<Rightarrow> nat \<Rightarrow> VoIpSessions \<Rightarrow> VoIpSessions result" where
  "link_new_session w i r st =
     andThen (SetMediaAddress w r (m_fromRtpIp i) (rtp_port i) st) (\<lambda>st1.
     andThen (if m_sipTrackMediaAddressOnSender (DLLCONFIG w)
              then SetMediaAddress w r (SipInviteInfo.m_originalSenderIp i) (rtp_port i) st1 else Inr st1) (\<lambda>st2.
     Inr (st2\<lparr>m_byCallId := map_insert (m_callId (session st2 r)) r (m_byCallId st2)\<rparr>)))"

definition invite_new_session :: "World \<Rightarrow> SipInviteInfo \<Rightarrow> VoIpSessions \<Rightarrow> VoIpSessions result" where
  "invite_new_session w i st =
     (case create_session w st of (r, st1) \<Rightarrow>
      let st2 = change r (\<lambda>ss. ss\<lparr>m_callId := SipInviteInfo.m_callId i, m_protocol := ProtSip,
                                  m_sipDialedNumber := SipInviteInfo.m_sipDialedNumber i\<rparr>) (try_pick_up w i r st1)
      in andThen (pre_invite_notify w i st2) (\<lambda>(i', st3).
         link_new_session w i' r (report_new_session w i' r st3)))"

text \<open>
  The inner declaration of \<open>session\<close> in line 1990 discards the result of the lookup on the sender; only the
  address of that lookup is kept.
\<close>

definition ReportSipInvite :: "World \<Rightarrow> SipInviteInfo \<Rightarrow> VoIpSessions \<Rightarrow> VoIpSessions result" where
  "ReportSipInvite w i st =
     andThen (IpRanges_Matches (m_sipIgnoredMediaAddresses (DLLCONFIG w)) (m_fromRtpIp i)) (\<lambda>ignored.
     if ignored then Inr st
     else
       let port = word_of_int (rtp_port_as_int i);
           found = findByMediaAddress w st (m_fromRtpIp i) port;
           ipAndPort = Craft64bitMediaAddress (DLLCONFIG w)
             (if found = None \<and> m_sipTrackMediaAddressOnSender (DLLCONFIG w) then SipInviteInfo.m_originalSenderIp i else m_fromRtpIp i) port
       in andThen (case found of None \<Rightarrow> Inr (False, st) | Some r \<Rightarrow> invite_on_media_address w i r st) (\<lambda>(returns, st1).
          if returns then Inr st1
          else case map_find (SipInviteInfo.m_callId i) (m_byCallId st1) of
            Some r \<Rightarrow> invite_on_call_id w i ipAndPort r st1
          | None \<Rightarrow> invite_new_session w i st1))"

section \<open>Other requests and responses\<close>

definition ReportSipSubscribe :: "SipSubscribeInfo \<Rightarrow> VoIpSessions \<Rightarrow> VoIpSessions" where
  "ReportSipSubscribe subscribe st =
     (let subs = (if length (m_sipSubscribeMap st) > 200 then tl (m_sipSubscribeMap st) else m_sipSubscribeMap st)
      in st\<lparr>m_sipSubscribeMap :=
           (if list_ex (\<lambda>s. SipSubscribeInfo.m_callId s = SipSubscribeInfo.m_callId subscribe) subs
            then subs else subs @ [subscribe])\<rparr>)"

text \<open>The log text reads the INVITE of the session.\<close>

definition ReportSipErrorPacket :: "World \<Rightarrow> SipFailureMessageInfo \<Rightarrow> VoIpSessions \<Rightarrow> VoIpSessions result" where
  "ReportSipErrorPacket w info st =
     (case map_find (SipFailureMessageInfo.m_callId info) (m_byCallId st) of
        None \<Rightarrow> Inr st
      | Some r \<Rightarrow>
          if m_errorCode info = ''407'' then Inr st
          else
            let st1 = call VoIpSession_ReportSipErrorPacket r st
            in andThen (invite_of (call_of st1 r)) (\<lambda>_. VoIpSessions_Stop w r st1))"

definition ReportSipSessionProgress :: "World \<Rightarrow> SipSessionProgressInfo \<Rightarrow> VoIpSessions \<Rightarrow> VoIpSessions result" where
  "ReportSipSessionProgress w info st =
     (case map_find (SipSessionProgressInfo.m_callId info) (m_byCallId st) of
        None \<Rightarrow> Inr st
      | Some r \<Rightarrow>
          let port = word_of_int (fst (strtol (c_str (SipSessionProgressInfo.m_mediaPort info))))
          in andThen (SetMediaAddress w r (SipSessionProgressInfo.m_mediaIp info) port st) (\<lambda>st1.
             if m_sipTrackMediaAddressOnSender (DLLCONFIG w) then SetMediaAddress w r (SipSessionProgressInfo.m_senderIp info) port st1 else Inr st1))"

definition ReportSip302MovedTemporarily :: "Sip302MovedTemporarilyInfo \<Rightarrow> VoIpSessions \<Rightarrow> VoIpSessions" where
  "ReportSip302MovedTemporarily info st = st\<lparr>globals :=
     SaveLocalPartyMap (Sip302MovedTemporarilyInfo.m_contact info) (Sip302MovedTemporarilyInfo.m_to info) (globals st)\<rparr>"

definition ReportSip200Ok :: "World \<Rightarrow> Sip200OkInfo \<Rightarrow> VoIpSessions \<Rightarrow> VoIpSessions result" where
  "ReportSip200Ok w info st =
     (case map_find (Sip200OkInfo.m_callId info) (m_byCallId st) of
        None \<Rightarrow> Inr st
      | Some r \<Rightarrow>
          let config = DLLCONFIG w;
              set = SetMediaAddress w r (Sip200OkInfo.m_mediaIp info) (word_of_int (fst (strtol (c_str (Sip200OkInfo.m_mediaPort info))))) st
          in if m_hasSdp info \<and> m_sipUse200OkMediaAddress config \<and> m_sipDynamicMediaAddress config then set
             else if m_hasSdp info \<and> m_sipUse200OkMediaAddress config \<and> m_numRtpPackets (session st r) = 0 then
               if m_rtpIp (session st r) = 0 \<or> m_rtpAllowMultipleMappings config then set
               else andThen (IpRanges_Matches (m_lanIpRanges config) (m_rtpIp (session st r))) (\<lambda>private.
                    if \<not> private then
                      andThen (IpRanges_Matches (m_lanIpRanges config) (Sip200OkInfo.m_mediaIp info)) (\<lambda>mediaPrivate.
                      if \<not> mediaPrivate then set else Inr st)
                    else set)
             else Inr st)"

definition ReportSipBye :: "World \<Rightarrow> SipByeInfo \<Rightarrow> VoIpSessions \<Rightarrow> VoIpSessions result" where
  "ReportSipBye w bye st =
     (case map_find (SipByeInfo.m_callId bye) (m_byCallId st) of
        None \<Rightarrow> Inr st
      | Some r \<Rightarrow> VoIpSessions_Stop w r (call (VoIpSession_ReportSipBye w bye) r st))"

fun notify_loop :: "World \<Rightarrow> VoIpSessions \<Rightarrow> u32 \<Rightarrow> nat list \<Rightarrow> nat option \<Rightarrow> nat option result" where
  "notify_loop w st receiverIp [] found = Inr found"
| "notify_loop w st receiverIp (r # rs) found =
     (case m_invite (session st r) of
        None \<Rightarrow> notify_loop w st receiverIp rs found
      | Some i \<Rightarrow>
          andThen (IpRanges_Matches (m_sipDirectionReferenceIpAddresses (DLLCONFIG w)) (SipInviteInfo.m_senderIp i)) (\<lambda>reference.
          let ip = (if reference then SipInviteInfo.m_receiverIp i else SipInviteInfo.m_senderIp i)
          in if ip = receiverIp \<and> (case found of None \<Rightarrow> True
                 | Some s \<Rightarrow> m_sipLastInvite (session st r) > m_sipLastInvite (session st s))
             then notify_loop w st receiverIp rs (Some r)
             else notify_loop w st receiverIp rs found))"

definition new_VoIpEndpointInfo :: "World \<Rightarrow> VoIpEndpointInfo" where
  "new_VoIpEndpointInfo w = \<lparr>m_extension = '''', m_latestCallId = '''', m_ip = u_endpointInfoIp (uninit w),
     m_skinnyPort = u_endpointInfoPort (uninit w), m_lastConferencePressed = 0, m_lastConnectedWithConference = 0, ep_origOrkUid = '''', m_urlExtractionMap = [],
     m_preInviteNotifyRef = None\<rparr>"

text \<open>The end of \<open>ReportSipNotify\<close>: the display is known.\<close>

definition deliver_notify :: "World \<Rightarrow> SipNotifyInfo \<Rightarrow> nat option \<Rightarrow> VoIpSessions \<Rightarrow> VoIpSessions result" where
  "deliver_notify w notify found st =
     (if length (m_dsp notify) < 4 then Inr st
      else case found of
        Some r \<Rightarrow> call_result (VoIpSession_ReportSipNotify w notify) r st
      | None \<Rightarrow>
          let key = Craft64bitMediaAddress (DLLCONFIG w) (SipNotifyInfo.m_receiverIp notify) 0;
              eps = map_insert key (new_VoIpEndpointInfo w) (m_endpoints (globals st))
          in Inr (st\<lparr>globals := (globals st)\<lparr>m_endpoints :=
               map_change key (\<lambda>ep. ep\<lparr>m_preInviteNotifyRef := Some notify\<rparr>) eps\<rparr>\<rparr>))"

definition ReportSipNotify :: "World \<Rightarrow> SipNotifyInfo \<Rightarrow> VoIpSessions \<Rightarrow> VoIpSessions result" where
  "ReportSipNotify w notify st =
     andThen (notify_loop w st (SipNotifyInfo.m_receiverIp notify) (map snd (m_byCallId st)) None) (\<lambda>found.
     let n1 = (if list_all is_alnum (m_dsp notify) then notify else notify\<lparr>m_dsp := ''''\<rparr>)
     in case (m_onHoldMarker n1, found) of
          (True, Some r) \<Rightarrow>
            andThen (poke (lastHoldRemoteParty st) (m_pkey n1) (m_sipRemoteParty (session st r))) (\<lambda>parties.
            Inr (st\<lparr>lastHoldRemoteParty := parties\<rparr>))
        | _ \<Rightarrow>
            andThen (if m_offHoldMarker n1 \<and> m_dsp n1 = ''''
                     then andThen (peek (lastHoldRemoteParty st) (m_pkey n1)) (\<lambda>party. Inr (n1\<lparr>m_dsp := party\<rparr>))
                     else Inr n1) (\<lambda>n2.
            deliver_notify w n2 found st))"

definition ReportSipInfo :: "World \<Rightarrow> SipInfo \<Rightarrow> VoIpSessions \<Rightarrow> VoIpSessions" where
  "ReportSipInfo w info st =
     (case map_find (SipInfo.m_callId info) (m_byCallId st) of
        None \<Rightarrow> st
      | Some r \<Rightarrow> call (VoIpSession_ReportSipInfo w info) r st)"

definition ReportSipRefer :: "SipRefer \<Rightarrow> VoIpSessions \<Rightarrow> VoIpSessions" where
  "ReportSipRefer info st =
     (case map_find (SipRefer.m_callId info) (m_byCallId st) of
        None \<Rightarrow> st
      | Some r \<Rightarrow>
          let info1 = info\<lparr>m_referToParty := GetLocalPartyMap (globals st) (m_referToParty info),
                           m_referredByParty := GetLocalPartyMap (globals st) (m_referredByParty info)\<rparr>;
              info2 = fst (VoIpSession_ReportSipRefer info1 (call_of st r));
              st1 = call (\<lambda>c. snd (VoIpSession_ReportSipRefer info1 c)) r st
          in st1\<lparr>m_sipReferList := m_sipReferList st1 @ [info2]\<rparr>)"

end
