(* ===== verification/VoipSkinny.thy ===== *)
theory VoipSkinny
  imports VoipSip
begin

text \<open>
  The handlers of Skinny messages: \<open>VoIpSessions\<close> in \<open>audiocaptureplugins/voip/VoIpSession.cpp\<close>, lines 2374
  to 2843 and 3262 to 3665. A handler gets the fields of its message and the addresses and ports of the
  packet, in host order.
\<close>

section \<open>Messages\<close>

record SkinnyPacket =
  ip_src :: u32
  ip_dest :: u32
  tcp_source :: u16
  tcp_dest :: u16

text \<open>The character arrays of a message as strings.\<close>

record SkCallInfo =
  callingPartyName :: string
  callingParty :: string
  calledPartyName :: string
  calledParty :: string
  lineInstance :: u32
  callId :: u32
  callType :: u32

definition SKINNY_CALL_TYPE_INBOUND :: u32 where "SKINNY_CALL_TYPE_INBOUND = 1"
definition SKINNY_CALL_TYPE_OUTBOUND :: u32 where "SKINNY_CALL_TYPE_OUTBOUND = 2"
definition SKINNY_CALL_TYPE_FORWARD :: u32 where "SKINNY_CALL_TYPE_FORWARD = 3"

definition GenerateSkinnyCallId :: "World \<Rightarrow> u32 \<Rightarrow> u16 \<Rightarrow> u32 \<Rightarrow> string" where
  "GenerateSkinnyCallId w ip port cid =
     (if m_skinnyBehindNat (DLLCONFIG w)
      then fmt_u cid @ ''@'' @ ip_string ip @ '','' @ decimal (unat port)
      else fmt_u cid @ ''@'' @ ip_string ip)"

section \<open>Endpoints\<close>

definition update_endpoints :: "((u64, VoIpEndpointInfo) std_map \<Rightarrow> (u64, VoIpEndpointInfo) std_map) \<Rightarrow> VoIpSessions \<Rightarrow> VoIpSessions" where
  "update_endpoints f st = st\<lparr>globals := (globals st)\<lparr>m_endpoints := f (m_endpoints (globals st))\<rparr>\<rparr>"

definition SetEndpointExtension :: "World \<Rightarrow> string \<Rightarrow> u32 \<Rightarrow> string \<Rightarrow> u16 \<Rightarrow> VoIpSessions \<Rightarrow> VoIpSessions" where
  "SetEndpointExtension w extension ip cid port st =
     (let key = Craft64bitMediaAddress (DLLCONFIG w) ip port;
          latest = (\<lambda>ep. if cid \<noteq> '''' then ep\<lparr>m_latestCallId := cid\<rparr> else ep)
      in case map_find key (m_endpoints (globals st)) of
           Some ep \<Rightarrow> update_endpoints (map_change key (\<lambda>ep. latest (ep\<lparr>m_extension := extension\<rparr>))) st
         | None \<Rightarrow> update_endpoints (map_insert key
             (latest ((new_VoIpEndpointInfo w)\<lparr>m_extension := extension, m_skinnyPort := port, m_ip := ip\<rparr>))) st)"

definition is_global_number :: "VoIpSessions \<Rightarrow> string \<Rightarrow> bool" where
  "is_global_number st number \<longleftrightarrow> map_find number (m_skinnyGlobalNumbersList st) \<noteq> None"

definition SaveSkinnyGlobalNumbersList :: "string \<Rightarrow> VoIpSessions \<Rightarrow> VoIpSessions" where
  "SaveSkinnyGlobalNumbersList number st = st\<lparr>m_skinnyGlobalNumbersList := map_insert number 0 (m_skinnyGlobalNumbersList st)\<rparr>"

definition UpdateEndpointWithCallInfo :: "World \<Rightarrow> SkCallInfo \<Rightarrow> SkinnyPacket \<Rightarrow> VoIpSessions \<Rightarrow> VoIpSessions" where
  "UpdateEndpointWithCallInfo w info p st =
     (let cid = GenerateSkinnyCallId w (ip_dest p) (tcp_dest p) (callId info);
          set = (\<lambda>number. if \<not> is_global_number st number then SetEndpointExtension w number (ip_dest p) cid (tcp_dest p) st else st)
      in if callType info = SKINNY_CALL_TYPE_INBOUND then set (calledParty info)
         else if callType info = SKINNY_CALL_TYPE_OUTBOUND then set (callingParty info)
         else if callType info = SKINNY_CALL_TYPE_FORWARD then set (calledParty info)
         else st)"

definition ReportSkinnyLineStat :: "World \<Rightarrow> string \<Rightarrow> SkinnyPacket \<Rightarrow> VoIpSessions \<Rightarrow> VoIpSessions" where
  "ReportSkinnyLineStat w lineDirNumber p st =
     (if length lineDirNumber > 1 then SetEndpointExtension w lineDirNumber (ip_dest p) '''' (tcp_dest p) st else st)"

section \<open>CallInfo\<close>

text \<open>Local and remote party, local name and direction; \<open>None\<close> keeps the direction.\<close>

definition call_parties :: "VoIpSessions \<Rightarrow> string \<Rightarrow> string \<Rightarrow> string \<Rightarrow> DirectionEnum option \<Rightarrow> VoIpSession \<Rightarrow> VoIpSession" where
  "call_parties st lp lpn rp direction ss =
     (let mapped = GetLocalPartyMap (globals st);
          s1 = (if \<not> is_global_number st lp then ss\<lparr>m_localParty := mapped lp\<rparr> else ss);
          s2 = s1\<lparr>m_localPartyName := mapped lpn\<rparr>;
          s3 = (if rp \<noteq> '''' then s2\<lparr>m_remoteParty := mapped rp\<rparr> else s2)
      in case direction of None \<Rightarrow> s3 | Some d \<Rightarrow> s3\<lparr>m_direction := d\<rparr>)"

definition forward_parties :: "World \<Rightarrow> VoIpSessions \<Rightarrow> SkCallInfo \<Rightarrow> VoIpSession \<Rightarrow> VoIpSession" where
  "forward_parties w st info ss =
     (let mapped = GetLocalPartyMap (globals st); lp = calledParty info; rp = callingParty info;
          s1 = (case GetVoIpEndpointInfo (DLLCONFIG w) (globals st) (m_endPointIp ss) (m_endPointSignallingPort ss) of
              None \<Rightarrow> ss
            | Some ep \<Rightarrow>
                if m_extension ep \<noteq> '''' then
                  let s = (if \<not> is_global_number st lp then ss\<lparr>m_localParty := mapped (m_extension ep)\<rparr> else ss)
                  in s\<lparr>m_localEntryPoint := lp\<rparr>
                else ss);
          s2 = s1\<lparr>m_localPartyName := mapped (calledPartyName info)\<rparr>;
          s3 = (if rp \<noteq> '''' then s2\<lparr>m_remoteParty := mapped rp\<rparr> else s2)
      in s3\<lparr>m_direction := DirIn\<rparr>)"

definition UpdateSessionWithCallInfo :: "World \<Rightarrow> VoIpSessions \<Rightarrow> SkCallInfo \<Rightarrow> VoIpSession \<Rightarrow> VoIpSession" where
  "UpdateSessionWithCallInfo w st info ss =
     (let s1 = ss\<lparr>m_skinnyLineInstance := sint (lineInstance info)\<rparr>
      in if m_hasReceivedCallInfo s1 \<and> calledParty info = callingParty info then s1
         else
           let s2 = s1\<lparr>m_hasReceivedCallInfo := True\<rparr>
           in if callType info = SKINNY_CALL_TYPE_INBOUND
              then call_parties st (calledParty info) (calledPartyName info) (callingParty info) (Some DirIn) s2
              else if callType info = SKINNY_CALL_TYPE_FORWARD then forward_parties w st info s2
              else if callType info = SKINNY_CALL_TYPE_OUTBOUND
              then call_parties st (callingParty info) (callingPartyName info) (calledParty info) (Some DirOut) s2
              else call_parties st (calledParty info) (calledPartyName info) (callingParty info) None s2)"

definition ReportMetadataUpdateSkinny :: "World \<Rightarrow> VoIpCall \<Rightarrow> VoIpCall" where
  "ReportMetadataUpdateSkinny w c =
     (let c1 = report_remote_party w c;
          c2 = (if m_localEntryPoint c1 \<noteq> '''' then report EtLocalEntryPoint (m_localEntryPoint c1) c1 else c1);
          c3 = report_names w c2
      in if m_started c3 then report EtUpdate (m_remoteParty c3) c3 else c3)"

definition update_call_info :: "World \<Rightarrow> SkCallInfo \<Rightarrow> nat \<Rightarrow> VoIpSessions \<Rightarrow> VoIpSessions" where
  "update_call_info w info r st = change r (UpdateSessionWithCallInfo w st info) st"

text \<open>CallInfo for a call that has a session.\<close>

definition existing_call_info :: "World \<Rightarrow> SkCallInfo \<Rightarrow> SkinnyPacket \<Rightarrow> nat \<Rightarrow> VoIpSessions \<Rightarrow> VoIpSessions" where
  "existing_call_info w info p r st =
     (let st1 = change r (\<lambda>ss. ss\<lparr>m_skinnyLastCallInfoTime := now_us w\<rparr>) st;
          oldVal = m_remoteParty (session st1 r);
          st2 = (if m_skinnyAllowCallInfoUpdate (DLLCONFIG w) then update_call_info w info r st1 else st1);
          st3 = call (VoIpSession_ReportSkinnyCallInfo w (callingPartyName info) (ip_src p)) r st2
      in if m_remoteParty (session st3 r) \<noteq> '''' \<and> oldVal \<noteq> m_remoteParty (session st3 r)
         then call (ReportMetadataUpdateSkinny w) r st3 else st3)"

text \<open>CallInfo for a session that RTP or media messages created.\<close>

definition late_call_info :: "World \<Rightarrow> SkCallInfo \<Rightarrow> SkinnyPacket \<Rightarrow> string \<Rightarrow> nat \<Rightarrow> VoIpSessions \<Rightarrow> VoIpSessions" where
  "late_call_info w info p cid r st =
     (let st1 = change r (\<lambda>ss. ss\<lparr>m_skinnyLastCallInfoTime := now_us w, m_callId := cid\<rparr>) st;
          st2 = call (UpdateMetadataSkinny w) r (update_call_info w info r st1);
          st3 = call (VoIpSession_ReportSkinnyCallInfo w (callingPartyName info) (ip_src p)) r st2
      in st3\<lparr>m_byCallId := map_insert (m_callId (session st3 r)) r (m_byCallId st3)\<rparr>)"

definition new_call_info :: "World \<Rightarrow> SkCallInfo \<Rightarrow> SkinnyPacket \<Rightarrow> string \<Rightarrow> VoIpSessions \<Rightarrow> VoIpSessions result" where
  "new_call_info w info p cid st =
     (case create_session w st of (r, st1) \<Rightarrow>
      let st2 = change r (\<lambda>ss. ss\<lparr>m_callId := cid, m_endPointIp := ip_dest p, m_endPointSignallingPort := tcp_dest p,
                                  m_protocol := ProtSkinny, m_skinnyLastCallInfoTime := now_us w\<rparr>) st1;
          st3 = call (VoIpSession_ReportSkinnyCallInfo w (callingPartyName info) (ip_src p)) r (update_call_info w info r st2)
      in andThen
          (if m_skinnyCallInfoStopsPrevious (DLLCONFIG w) then
             case findNewestRtpByEndpointIp st3 (ip_dest p) of
               None \<Rightarrow> Inr st3
             | Some previous \<Rightarrow>
                 if m_skinnyCallInfoStopsPreviousToleranceSec (DLLCONFIG w) = 0 then VoIpSessions_Stop w previous st3
                 else if time_now w - m_lastRtpStreamStart (session st3 previous)
                           \<le> m_skinnyCallInfoStopsPreviousToleranceSec (DLLCONFIG w)
                 then VoIpSessions_Stop w previous st3
                 else Inr st3
           else Inr st3) (\<lambda>st4.
         Inr (st4\<lparr>m_byCallId := map_insert (m_callId (session st4 r)) r (m_byCallId st4)\<rparr>)))"

definition ReportSkinnyCallInfo :: "World \<Rightarrow> SkCallInfo \<Rightarrow> SkinnyPacket \<Rightarrow> VoIpSessions \<Rightarrow> VoIpSessions result" where
  "ReportSkinnyCallInfo w info p st =
     (let cid = GenerateSkinnyCallId w (ip_dest p) (tcp_dest p) (callId info);
          st1 = UpdateEndpointWithCallInfo w info p st
      in case map_find cid (m_byCallId st1) of
           Some r \<Rightarrow> Inr (existing_call_info w info p r st1)
         | None \<Rightarrow>
             let late = (if m_skinnyAllowLateCallInfo (DLLCONFIG w) then findByEndpointIpUsingIpAndPort st1 (ip_dest p) else None)
             in case late of
                  Some r \<Rightarrow> if m_callId (session st1 r) = '''' then Inr (late_call_info w info p cid r st1)
                            else new_call_info w info p cid st1
                | None \<Rightarrow> new_call_info w info p cid st1)"

definition ReportSkinnyCallStateMessage :: "World \<Rightarrow> u32 \<Rightarrow> u32 \<Rightarrow> SkinnyPacket \<Rightarrow> VoIpSessions \<Rightarrow> VoIpSessions" where
  "ReportSkinnyCallStateMessage w callState cid p st =
     (case map_find (GenerateSkinnyCallId w (ip_dest p) (tcp_dest p) cid) (m_byCallId st) of
        None \<Rightarrow> st
      | Some r \<Rightarrow> call (VoIpSession_ReportSkinnyCallStateMessage w callState) r st)"

section \<open>Media messages\<close>

text \<open>
  A session for media without CallInfo: its endpoint and signalling port, the pass-through party, the endpoint
  record looked up for its extension, and its media address.
\<close>

definition new_media_session :: "World \<Rightarrow> u32 \<Rightarrow> u16 \<Rightarrow> u32 \<Rightarrow> VoIpEndpointInfo option \<Rightarrow> u32 \<Rightarrow> u16 \<Rightarrow> VoIpSessions \<Rightarrow> VoIpSessions result" where
  "new_media_session w endpointIp signallingPort passThruPartyId endpoint mediaIp mediaPort st =
     (case create_session w st of (r, st1) \<Rightarrow>
      let party = (case endpoint of Some ep \<Rightarrow> m_extension ep | None \<Rightarrow> ip_string endpointIp);
          st2 = change r (\<lambda>ss. ss\<lparr>m_endPointIp := endpointIp, m_endPointSignallingPort := signallingPort,
                  m_protocol := ProtSkinny, m_skinnyPassThruPartyId := sint passThruPartyId,
                  m_localParty := GetLocalPartyMap (globals st1) party\<rparr>) st1
      in SetMediaAddress w r mediaIp mediaPort st2)"

definition ReportSkinnyOpenReceiveChannelAck :: "World \<Rightarrow> u32 \<Rightarrow> u32 \<Rightarrow> u32 \<Rightarrow> SkinnyPacket \<Rightarrow> VoIpSessions \<Rightarrow> VoIpSessions result" where
  "ReportSkinnyOpenReceiveChannelAck w endpointIp endpointTcpPort passThruPartyId p st =
     (if m_skinnyIgnoreOpenReceiveChannelAck (DLLCONFIG w) then Inr st
      else case findNewestByEndpoint w st endpointIp (tcp_source p) of
        Some r \<Rightarrow>
          if m_ipAndPort (session st r) = 0 \<or> m_skinnyDynamicMediaAddress (DLLCONFIG w)
          then SetMediaAddress w r endpointIp (ucast endpointTcpPort)
                 (change r (\<lambda>ss. ss\<lparr>m_skinnyPassThruPartyId := sint passThruPartyId\<rparr>) st)
          else Inr st
      | None \<Rightarrow>
          if m_skinnyAllowLateCallInfo (DLLCONFIG w) \<and> findByEndpointIp st endpointIp 0 = None
          then new_media_session w endpointIp (tcp_source p) passThruPartyId
                 (GetVoIpEndpointInfo (DLLCONFIG w) (globals st) endpointIp (tcp_source p)) endpointIp (ucast endpointTcpPort) st
          else Inr st)"

definition ReportSkinnyStartMediaTransmission :: "World \<Rightarrow> u32 \<Rightarrow> u32 \<Rightarrow> u32 \<Rightarrow> SkinnyPacket \<Rightarrow> VoIpSessions \<Rightarrow> VoIpSessions result" where
  "ReportSkinnyStartMediaTransmission w remoteIp remoteTcpPort passThruPartyId p st =
     (case findNewestByEndpoint w st (ip_dest p) (tcp_dest p) of
        Some r \<Rightarrow>
          if m_ipAndPort (session st r) = 0 \<or> m_skinnyDynamicMediaAddress (DLLCONFIG w)
          then SetMediaAddress w r remoteIp (ucast remoteTcpPort)
                 (change r (\<lambda>ss. ss\<lparr>m_skinnyPassThruPartyId := sint passThruPartyId\<rparr>) st)
          else Inr st
      | None \<Rightarrow>
          if m_skinnyAllowLateCallInfo (DLLCONFIG w) \<and> findByEndpointIp st (ip_dest p) 0 = None
          then new_media_session w (ip_dest p) (tcp_dest p) passThruPartyId
                 (GetVoIpEndpointInfo (DLLCONFIG w) (globals st) (ip_dest p) (tcp_source p)) remoteIp (ucast remoteTcpPort) st
          else Inr st)"

definition ReportSkinnyStopMediaTransmission :: "World \<Rightarrow> u32 \<Rightarrow> u32 \<Rightarrow> SkinnyPacket \<Rightarrow> VoIpSessions \<Rightarrow> VoIpSessions result" where
  "ReportSkinnyStopMediaTransmission w conferenceId passThruPartyId p st =
     (if m_skinnyIgnoreStopMediaTransmission (DLLCONFIG w) then Inr st
      else
        let byConference = (if conferenceId \<noteq> 0
              then map_find (GenerateSkinnyCallId w (ip_dest p) (tcp_dest p) conferenceId) (m_byCallId st) else None);
            found = (if byConference = None \<and> passThruPartyId \<noteq> 0
              then findByEndpointIp st (ip_dest p) (sint passThruPartyId) else byConference)
        in case found of
             None \<Rightarrow> Inr st
           | Some r \<Rightarrow> if m_onHold (session st r) then Inr st else VoIpSessions_Stop w r st)"

section \<open>Soft keys\<close>

definition ReportSkinnySoftKeyHold :: "World \<Rightarrow> u32 \<Rightarrow> SkinnyPacket \<Rightarrow> VoIpSessions \<Rightarrow> VoIpSessions" where
  "ReportSkinnySoftKeyHold w cid p st =
     (if m_skinnyIgnoreHold (DLLCONFIG w) then st
      else case map_find (GenerateSkinnyCallId w (ip_src p) (tcp_source p) cid) (m_byCallId st) of
        None \<Rightarrow> st
      | Some r \<Rightarrow> call (GoOnHold w (time_now w)) r st)"

definition ReportSkinnySoftKeyResume :: "World \<Rightarrow> u32 \<Rightarrow> SkinnyPacket \<Rightarrow> VoIpSessions \<Rightarrow> VoIpSessions" where
  "ReportSkinnySoftKeyResume w cid p st =
     (case map_find (GenerateSkinnyCallId w (ip_src p) (tcp_source p) cid) (m_byCallId st) of
        None \<Rightarrow> st
      | Some r \<Rightarrow> change r (\<lambda>ss. ss\<lparr>m_lastUpdated := time_now w\<rparr>) (call (GoOffHold w (time_now w)) r st))"

definition ReportSkinnySoftKeyConfPressed :: "World \<Rightarrow> u32 \<Rightarrow> SkinnyPacket \<Rightarrow> VoIpSessions \<Rightarrow> VoIpSessions" where
  "ReportSkinnySoftKeyConfPressed w endpointIp p st =
     (let key = Craft64bitMediaAddress (DLLCONFIG w) endpointIp (tcp_source p)
      in case map_find key (m_endpoints (globals st)) of
           None \<Rightarrow> st
         | Some ep \<Rightarrow>
             (case map_find (m_latestCallId ep) (m_byCallId st) of
                None \<Rightarrow> st
              | Some r \<Rightarrow>
                  let uid = m_orkUid (session st r);
                      st1 = (if m_lastConnectedWithConference ep < m_lastConferencePressed ep \<or> m_lastConferencePressed ep = 0
                        then call (key_value ''orig-orkuid'' uid) r (update_endpoints (map_change key (\<lambda>ep. ep\<lparr>ep_origOrkUid := uid\<rparr>)) st)
                        else st)
                  in update_endpoints (map_change key (\<lambda>ep. ep\<lparr>m_lastConferencePressed := time_now w\<rparr>)) st1))"

definition ReportSkinnySoftKeySetConfConnected :: "World \<Rightarrow> u32 \<Rightarrow> SkinnyPacket \<Rightarrow> VoIpSessions \<Rightarrow> VoIpSessions" where
  "ReportSkinnySoftKeySetConfConnected w endpointIp p st =
     update_endpoints (map_change (Craft64bitMediaAddress (DLLCONFIG w) endpointIp (tcp_dest p))
       (\<lambda>ep. ep\<lparr>m_lastConnectedWithConference := time_now w\<rparr>)) st"

definition ReportSkinnySoftKeySetTransfConnected :: "World \<Rightarrow> u32 \<Rightarrow> SkinnyPacket \<Rightarrow> VoIpSessions \<Rightarrow> VoIpSessions result" where
  "ReportSkinnySoftKeySetTransfConnected w cid p st =
     (case map_find (GenerateSkinnyCallId w (ip_dest p) (tcp_dest p) cid) (m_byCallId st) of
        None \<Rightarrow> Inr st
      | Some r \<Rightarrow> VoIpSessions_Stop w r st)"

section \<open>RTP without media messages\<close>

text \<open>The result is the returned boolean and \<open>endpoint\<close>.\<close>

definition SkinnyFindMostLikelySessionForRtp :: "World \<Rightarrow> RtpPacketInfo \<Rightarrow> VoIpSessions \<Rightarrow>
    (bool \<times> VoIpEndpointInfo option \<times> VoIpSessions) result" where
  "SkinnyFindMostLikelySessionForRtp w p st =
     (let source = GetVoIpEndpointInfoByIp (globals st) (m_sourceIp p);
          srcmatch = (source \<noteq> None);
          endpoint = (if srcmatch then source else GetVoIpEndpointInfoByIp (globals st) (m_destIp p))
      in case endpoint of
           None \<Rightarrow> Inr (False, None, st)
         | Some ep \<Rightarrow>
             if m_latestCallId ep = '''' then Inr (False, endpoint, st)
             else case map_find (m_latestCallId ep) (m_byCallId st) of
               None \<Rightarrow> Inr (False, endpoint, st)
             | Some r \<Rightarrow>
                 if m_stopped (session st r) then Inr (False, endpoint, st)
                 else
                   let st1 = change r (\<lambda>ss. ss\<lparr>m_endPointSignallingPort := m_skinnyPort ep\<rparr>) st
                   in andThen (if srcmatch then SetMediaAddress w r (m_sourceIp p) (m_sourcePort p) st1
                               else SetMediaAddress w r (m_destIp p) (m_destPort p) st1) (\<lambda>st2.
                      Inr (True, endpoint, st2)))"

text \<open>\<open>latestSkinnyTimestamp\<close> starts at the current time, which its default constructor reads.\<close>

fun nat_loop :: "VoIpSessions \<Rightarrow> RtpPacketInfo \<Rightarrow> nat list \<Rightarrow> int \<Rightarrow> nat option \<Rightarrow> int \<times> nat option" where
  "nat_loop st p [] latest found = (latest, found)"
| "nat_loop st p (r # rs) latest found =
     (let ss = session st r
      in if (m_endPointIp ss = m_sourceIp p \<or> m_endPointIp ss = m_destIp p) \<and>
            m_skinnyLastCallInfoTime ss \<ge> latest \<and> m_ipAndPort ss = 0
         then nat_loop st p rs (m_skinnyLastCallInfoTime ss) (Some r)
         else nat_loop st p rs latest found)"

definition SkinnyFindMostLikelySessionForRtpBehindNat :: "World \<Rightarrow> RtpPacketInfo \<Rightarrow> VoIpSessions \<Rightarrow> (bool \<times> VoIpSessions) result" where
  "SkinnyFindMostLikelySessionForRtpBehindNat w p st =
     (case nat_loop st p (map snd (m_byCallId st)) (now_us w) None of
        (latest, None) \<Rightarrow> Inr (False, st)
      | (latest, Some r) \<Rightarrow>
          if sec_of (now_us w) - sec_of latest > 30 then Inr (False, st)
          else if m_stopped (session st r) then Inr (False, st)
          else andThen (if m_endPointIp (session st r) = m_sourceIp p
                        then SetMediaAddress w r (m_destIp p) (m_destPort p) st
                        else SetMediaAddress w r (m_sourceIp p) (m_sourcePort p) st) (\<lambda>st1.
               Inr (True, st1)))"

end
