(* ===== verification/UrlText.thy ===== *)
theory UrlText
  imports StringUtils
begin

text \<open>
  URL escapes as \<open>VoIpSessions::UnEscapeUrl\<close> (\<open>audiocaptureplugins/voip/VoIpSession.cpp\<close>) and the identical
  \<open>UrlSerializer::UnEscapeUrl\<close> (\<open>orkbasecxx/serializers/UrlSerializer.cpp\<close>) read them.
\<close>

text \<open>\<open>strtol(s, NULL, 16)\<close> of at most two characters, as a \<open>char\<close>.\<close>

definition xdigit_value :: "char \<Rightarrow> nat option" where
  "xdigit_value c =
     (if is_digit c then Some (code_of c - 48)
      else if code_of (to_upper c) \<ge> 65 \<and> code_of (to_upper c) \<le> 70 then Some (code_of (to_upper c) - 55)
      else None)"

fun xdigits :: "int \<Rightarrow> string \<Rightarrow> int" where
  "xdigits v [] = v"
| "xdigits v (c # cs) = (case xdigit_value c of None \<Rightarrow> v | Some d \<Rightarrow> xdigits (16 * v + int d) cs)"

definition escaped_char :: "char \<Rightarrow> char \<Rightarrow> char" where
  "escaped_char a b =
     (let t = trim_left (c_str [a, b])
      in char_of (nat ((case t of
           [] \<Rightarrow> 0
         | c # cs \<Rightarrow> if c = CHR ''-'' then - xdigits 0 cs else if c = CHR ''+'' then xdigits 0 cs else xdigits 0 t) mod 256)))"

text \<open>\<open>GetAt\<close> throws at the end of the string.\<close>

fun UnEscapeUrl :: "string \<Rightarrow> string \<Rightarrow> string result" where
  "UnEscapeUrl [] out = Inr out"
| "UnEscapeUrl (c # cs) out =
     (if c = CHR ''+'' then UnEscapeUrl cs (out @ '' '')
      else if c = CHR 0x25 then
        (case cs of
           [] \<Rightarrow> Inl (Thrown ''out_of_range'')
         | a # as \<Rightarrow>
             if a = CHR 0x25 then UnEscapeUrl as (out @ [CHR 0x25])
             else (case as of
                     [] \<Rightarrow> Inl (Thrown ''out_of_range'')
                   | b # bs \<Rightarrow> UnEscapeUrl bs (out @ [escaped_char a b])))
      else UnEscapeUrl cs (out @ [c]))"

end
