(* ===== verification/VoipDispatch.thy ===== *)
theory VoipDispatch
  imports VoipSkinny UrlText
begin

text \<open>
  RTP and RTCP packets, extracted URLs and the commands of the capture interface:
  \<open>VoIpSessions\<close> in \<open>audiocaptureplugins/voip/VoIpSession.cpp\<close>, lines 3704 to 4041 and 4059 to 4794.
\<close>

section \<open>RTCP\<close>

definition ReportRtcpSrcDescription :: "World \<Rightarrow> RtcpSrcDescriptionPacketInfo \<Rightarrow> VoIpSessions \<Rightarrow> bool \<times> VoIpSessions" where
  "ReportRtcpSrcDescription w info st =
     (case findByMediaAddress w st (RtcpSrcDescriptionPacketInfo.m_sourceIp info) (RtcpSrcDescriptionPacketInfo.m_sourcePort info - 1) of
        Some r \<Rightarrow> (True, call (VoIpSession_ReportRtcpSrcDescription w info) r st)
      | None \<Rightarrow>
          (case findByMediaAddress w st (RtcpSrcDescriptionPacketInfo.m_destIp info) (RtcpSrcDescriptionPacketInfo.m_destPort info - 1) of
             Some r \<Rightarrow> (True, call (VoIpSession_ReportRtcpSrcDescription w info) r st)
           | None \<Rightarrow> (False, st)))"

section \<open>RTP\<close>

text \<open>
  A Sangoma card taps both directions with the same addresses. \<open>s_addr ^= 1\<close> changes the first octet of the
  address.
\<close>

definition sangoma_packet :: "World \<Rightarrow> RtpPacketInfo \<Rightarrow> RtpPacketInfo" where
  "sangoma_packet w p =
     (if m_sangomaEnable (DLLCONFIG w) \<and> m_sourcePort p = m_destPort p then
        let p1 = (if m_sourceIp p = m_destIp p then p\<lparr>m_destIp := m_destIp p XOR 0x01000000\<rparr> else p);
            delta = m_sangomaTcpPortDelta (DLLCONFIG w)
        in if uint (m_sourcePort p) > m_sangomaTxTcpPortStart (DLLCONFIG w)
           then p1\<lparr>m_sourcePort := word_of_int (uint (m_sourcePort p) - delta), m_sourceIp := m_destIp p1, m_destIp := m_sourceIp p1\<rparr>
           else p1\<lparr>m_sourcePort := word_of_int (uint (m_sourcePort p) + delta)\<rparr>
      else p)"

text \<open>A packet given to the session found for one of its addresses: 1 when the session accepts it.\<close>

definition give_packet :: "World \<Rightarrow> nat option \<Rightarrow> RtpPacketInfo \<Rightarrow> VoIpSessions \<Rightarrow> (nat \<times> RtpPacketInfo \<times> VoIpSessions) result" where
  "give_packet w found p st =
     (case found of
        None \<Rightarrow> Inr (0, p, st)
      | Some r \<Rightarrow>
          andThen (AddRtpPacket w p (call_of st r)) (\<lambda>(belongs, p', c).
          if belongs then Inr (1, p', return_of r c st)
          else andThen (VoIpSessions_Stop w r (return_of r c st)) (\<lambda>st1. Inr (0, p', st1))))"

text \<open>With multiple mappings, the session with the newer INVITE takes the media address of the other.\<close>

definition take_over :: "World \<Rightarrow> RtpPacketInfo \<Rightarrow> nat \<Rightarrow> nat \<Rightarrow> VoIpSessions \<Rightarrow> VoIpSessions" where
  "take_over w p r1 r2 st =
     (if m_sipLastInvite (session st r1) > m_sipLastInvite (session st r2)
      then if m_numRtpPackets (session st r2) \<noteq> 1
           then st\<lparr>m_byIpAndPort := map_erase (Craft64bitMediaAddress (DLLCONFIG w) (m_destIp p) (m_destPort p)) (m_byIpAndPort st)\<rparr>
           else st
      else if m_numRtpPackets (session st r1) \<noteq> 1
           then st\<lparr>m_byIpAndPort := map_erase (Craft64bitMediaAddress (DLLCONFIG w) (m_sourceIp p) (m_sourcePort p)) (m_byIpAndPort st)\<rparr>
           else st)"

definition mergee :: "World \<Rightarrow> RtpPacketInfo \<Rightarrow> nat \<Rightarrow> nat \<Rightarrow> VoIpSessions \<Rightarrow> nat" where
  "mergee w p r1 r2 st =
     (let s1 = session st r1; s2 = session st r2
      in if IsRtpTrackingIpAddress (DLLCONFIG w) (m_sourceIp p) then r2
         else if IsRtpTrackingIpAddress (DLLCONFIG w) (m_destIp p) then r1
         else if m_protocol s1 = ProtRawRtp then r1
         else if m_protocol s2 = ProtRawRtp then r2
         else if m_numRtpPackets s1 < m_numRtpPackets s2 \<and> m_numRtpPackets s1 < 5 then r1
         else if m_numRtpPackets s2 < m_numRtpPackets s1 \<and> m_numRtpPackets s2 < 5 then r2
         else if m_direction s1 = DirOut then r2
         else r1)"

definition merge_sessions :: "World \<Rightarrow> RtpPacketInfo \<Rightarrow> nat \<Rightarrow> nat \<Rightarrow> VoIpSessions \<Rightarrow> VoIpSessions result" where
  "merge_sessions w p r1 r2 st =
     (if m_rtpAllowMultipleMappings (DLLCONFIG w) \<and> m_protocol (session st r1) = ProtSip \<and> m_protocol (session st r2) = ProtSip
      then Inr (take_over w p r1 r2 st)
      else VoIpSessions_Stop w (mergee w p r1 r2 st) st)"

text \<open>
  One session accepted the packet. \<open>r\<close> is the session found last, which is not the accepting one when the
  other was stopped for a discontinuity.
\<close>

definition track_session :: "World \<Rightarrow> RtpPacketInfo \<Rightarrow> bool \<Rightarrow> nat \<Rightarrow> VoIpSessions \<Rightarrow> VoIpSessions result" where
  "track_session w p sourceAddressIsTracked r st =
     andThen
       (if m_mediaAddressUseSecondRtpAddress (DLLCONFIG w) then
          if sourceAddressIsTracked then SetMediaAddress w r (m_destIp p) (m_destPort p) st
          else SetMediaAddress w r (m_sourceIp p) (m_sourcePort p) st
        else Inr st) (\<lambda>st1.
     if m_numRtpPackets (session st1 r) = 1 \<and> m_protocol (session st1 r) = ProtSip then
       if IsRtpTrackingIpAddress (DLLCONFIG w) (m_destIp p) then SetMediaAddress w r (m_destIp p) (m_destPort p) st1
       else if IsRtpTrackingIpAddress (DLLCONFIG w) (m_sourceIp p) then SetMediaAddress w r (m_sourceIp p) (m_sourcePort p) st1
       else Inr st1
     else Inr st1)"

text \<open>A new raw RTP session; \<open>endpoint\<close> is a Skinny endpoint of the packet.\<close>

definition raw_rtp_address :: "World \<Rightarrow> RtpPacketInfo \<Rightarrow> u32 \<times> u16" where
  "raw_rtp_address w p =
     (if IsRtpTrackingIpAddress (DLLCONFIG w) (m_sourceIp p) then (m_sourceIp p, m_sourcePort p)
      else if m_sangomaEnable (DLLCONFIG w) then (m_sourceIp p, m_sourcePort p)
      else (m_destIp p, m_destPort p))"

definition endpoint_parties :: "RtpPacketInfo \<Rightarrow> VoIpEndpointInfo \<Rightarrow> VoIpSession \<Rightarrow> VoIpSession" where
  "endpoint_parties p ep ss =
     ss\<lparr>m_localParty := m_extension ep, m_remoteParty := ip_string (if m_ip ep = m_sourceIp p then m_destIp p else m_sourceIp p)\<rparr>"

definition new_raw_session :: "World \<Rightarrow> RtpPacketInfo \<Rightarrow> VoIpEndpointInfo option \<Rightarrow> VoIpSessions \<Rightarrow> VoIpSessions result" where
  "new_raw_session w p endpoint st =
     (case create_session w st of (r, st1) \<Rightarrow>
      case raw_rtp_address w p of (ip, port) \<Rightarrow>
      andThen (SetMediaAddress w r ip port (change r (\<lambda>ss. ss\<lparr>m_protocol := ProtRawRtp, m_endPointIp := ip\<rparr>) st1)) (\<lambda>st2.
      andThen (AddRtpPacket w p (call_of st2 r)) (\<lambda>(_, p', c).
      let st3 = return_of r c st2
      in Inr (case endpoint of None \<Rightarrow> st3 | Some ep \<Rightarrow> change r (endpoint_parties p' ep) st3))))"

definition search_call_info :: "World \<Rightarrow> RtpPacketInfo \<Rightarrow> VoIpSessions \<Rightarrow> (bool \<times> VoIpEndpointInfo option \<times> VoIpSessions) result" where
  "search_call_info w p st =
     (if m_skinnyRtpSearchesForCallInfo (DLLCONFIG w) then
        if \<not> m_skinnyBehindNat (DLLCONFIG w) then SkinnyFindMostLikelySessionForRtp w p st
        else andThen (SkinnyFindMostLikelySessionForRtpBehindNat w p st) (\<lambda>(found, st1). Inr (found, None, st1))
      else Inr (False, None, st))"

definition unclaimed_packet :: "World \<Rightarrow> RtpPacketInfo \<Rightarrow> VoIpSessions \<Rightarrow> VoIpSessions result" where
  "unclaimed_packet w p st =
     (if m_lookBackRecording (CONFIG w) \<or> m_trackRawRtpSessionInNonLookBackMode (DLLCONFIG w) then
        andThen (search_call_info w p st) (\<lambda>(found, endpoint, st1).
        if found then Inr st1 else new_raw_session w p endpoint st1)
      else Inr st)"

text \<open>The packet went to the sessions of its source and its destination; \<open>n1\<close> and \<open>n2\<close> count their acceptance.\<close>

definition settle_packet :: "World \<Rightarrow> RtpPacketInfo \<Rightarrow> nat option \<Rightarrow> nat \<Rightarrow> nat option \<Rightarrow> nat \<Rightarrow> VoIpSessions \<Rightarrow> VoIpSessions result" where
  "settle_packet w p session1 n1 session2 n2 st =
     (case (session1, session2) of
        (Some r1, Some r2) \<Rightarrow>
          if n1 + n2 = 2 then if r1 \<noteq> r2 then merge_sessions w p r1 r2 st else Inr st
          else if n1 + n2 = 1 then track_session w p True r2 st
          else unclaimed_packet w p st
      | (Some r1, None) \<Rightarrow> if n1 = 1 then track_session w p True r1 st else unclaimed_packet w p st
      | (None, Some r2) \<Rightarrow> if n2 = 1 then track_session w p False r2 st else unclaimed_packet w p st
      | (None, None) \<Rightarrow> unclaimed_packet w p st)"

definition ReportRtpPacket :: "World \<Rightarrow> RtpPacketInfo \<Rightarrow> VoIpSessions \<Rightarrow> VoIpSessions result" where
  "ReportRtpPacket w packet st =
     (let p = sangoma_packet w packet;
          session1 = findByMediaAddress w st (m_sourceIp p) (m_sourcePort p)
      in andThen (give_packet w session1 p st) (\<lambda>(n1, p1, st1).
         let session2 = findByMediaAddress w st1 (m_destIp p1) (m_destPort p1)
         in andThen (give_packet w session2 p1 st1) (\<lambda>(n2, p2, st2).
            settle_packet w p2 session1 n1 session2 n2 st2)))"

section \<open>Extracted URLs\<close>

datatype UrlState = UrlStartState | UrlKeyState | UrlValueState | UrlErrorState

definition url_step :: "char \<Rightarrow> UrlState \<times> string \<times> string \<Rightarrow> UrlState \<times> string \<times> string" where
  "url_step c s =
     (case s of
        (UrlStartState, key, val) \<Rightarrow>
          if c = CHR ''&'' then (UrlStartState, key, val)
          else if is_alnum c then (UrlKeyState, [c], val)
          else (UrlErrorState, key, val)
      | (UrlKeyState, key, val) \<Rightarrow>
          if is_alnum c then (UrlKeyState, key @ [c], val)
          else if c = CHR ''='' then (UrlValueState, key, [])
          else (UrlErrorState, key, val)
      | (UrlValueState, key, val) \<Rightarrow>
          if c = CHR ''='' then (UrlErrorState, key, val)
          else if c = CHR ''&'' then (UrlStartState, key, val)
          else (UrlValueState, key, val @ [c])
      | (UrlErrorState, key, val) \<Rightarrow> (UrlErrorState, key, val))"

text \<open>A key and its value go to the endpoint of the address, on port 0.\<close>

definition store_url_value :: "World \<Rightarrow> u32 \<Rightarrow> string \<Rightarrow> string \<Rightarrow> VoIpSessions \<Rightarrow> VoIpSessions" where
  "store_url_value w ip key val st =
     (let address = Craft64bitMediaAddress (DLLCONFIG w) ip 0;
          entry = \<lparr>url_value = val, url_timestamp = time_now w\<rparr>
      in update_endpoints (case map_find address (m_endpoints (globals st)) of
           Some ep \<Rightarrow> map_change address (\<lambda>ep. ep\<lparr>m_urlExtractionMap := map_assign key entry (m_urlExtractionMap ep)\<rparr>)
         | None \<Rightarrow> map_insert address ((new_VoIpEndpointInfo w)\<lparr>m_ip := ip, m_urlExtractionMap := [(key, entry)]\<rparr>)) st)"

fun url_loop :: "World \<Rightarrow> u32 \<Rightarrow> string \<Rightarrow> UrlState \<times> string \<times> string \<Rightarrow> VoIpSessions \<Rightarrow> VoIpSessions result" where
  "url_loop w ip [] s st = Inr st"
| "url_loop w ip (c # cs) s st =
     (if fst s = UrlErrorState then Inr st
      else case url_step c s of (state, key, val) \<Rightarrow>
        if (state = UrlStartState \<or> cs = []) \<and> key \<noteq> '''' then
          andThen (UnEscapeUrl val []) (\<lambda>unescapedValue.
          url_loop w ip cs (state, [], []) (store_url_value w ip key unescapedValue st))
        else url_loop w ip cs (state, key, val) st)"

definition UrlExtraction :: "World \<Rightarrow> string \<Rightarrow> u32 \<Rightarrow> VoIpSessions \<Rightarrow> VoIpSessions result" where
  "UrlExtraction w input ip st = url_loop w ip (trim input) (UrlStartState, [], []) st"

section \<open>On-demand marker\<close>

fun latest_rtp_loop :: "VoIpSessions \<Rightarrow> nat list \<Rightarrow> int \<Rightarrow> nat option \<Rightarrow> nat option" where
  "latest_rtp_loop st [] latest chosen = chosen"
| "latest_rtp_loop st (r # rs) latest chosen =
     (if m_lastUpdated (session st r) > latest then latest_rtp_loop st rs (m_lastUpdated (session st r)) (Some r)
      else latest_rtp_loop st rs latest chosen)"

definition ReportOnDemandMarkerByIp :: "u32 \<Rightarrow> VoIpSessions \<Rightarrow> VoIpSessions" where
  "ReportOnDemandMarkerByIp ip st =
     (let onIp = filter (\<lambda>r. IsMatchedLocalOrRemoteIp ip (session st r) \<and> m_numRtpPackets (session st r) > 0) (map snd (m_byIpAndPort st))
      in case latest_rtp_loop st onIp 0 None of
           None \<Rightarrow> st
         | Some r \<Rightarrow> call (\<lambda>c. send_all (MarkAsOnDemand ''both'' c)) r (change r (\<lambda>ss. ss\<lparr>m_keepRtp := True\<rparr>) st))"

section \<open>Expiry\<close>

definition has_rtp :: "VoIpSession \<Rightarrow> bool" where
  "has_rtp ss \<longleftrightarrow> m_numRtpPackets ss \<noteq> 0 \<or> m_numIgnoredRtpPackets ss \<noteq> 0"

definition signalled_timeout :: "World \<Rightarrow> VoIpSession \<Rightarrow> int" where
  "signalled_timeout w ss =
     (if m_onHold ss then m_rtpSessionOnHoldTimeOutSec (DLLCONFIG w)
      else if has_rtp ss then m_rtpSessionWithSignallingTimeoutSec (DLLCONFIG w)
      else m_rtpSessionWithSignallingInitialTimeoutSec (DLLCONFIG w))"

definition expired_rtp :: "World \<Rightarrow> int \<Rightarrow> VoIpSession \<Rightarrow> bool" where
  "expired_rtp w now ss \<longleftrightarrow> now - m_lastUpdated ss >
     (if m_protocol ss = ProtRawRtp then m_rtpSessionTimeoutSec (DLLCONFIG w) else signalled_timeout w ss)"

definition expired_call :: "World \<Rightarrow> int \<Rightarrow> VoIpSession \<Rightarrow> bool" where
  "expired_call w now ss \<longleftrightarrow> now - m_lastUpdated ss > signalled_timeout w ss"

fun stop_each :: "World \<Rightarrow> nat list \<Rightarrow> VoIpSessions \<Rightarrow> VoIpSessions result" where
  "stop_each w [] st = Inr st"
| "stop_each w (r # rs) st = andThen (VoIpSessions_Stop w r st) (stop_each w rs)"

definition Hoover :: "World \<Rightarrow> int \<Rightarrow> VoIpSessions \<Rightarrow> VoIpSessions result" where
  "Hoover w now st =
     andThen (stop_each w (filter (\<lambda>r. expired_rtp w now (session st r)) (map snd (m_byIpAndPort st))) st) (\<lambda>st1.
     stop_each w (filter (\<lambda>r. expired_call w now (session st1 r)) (map snd (m_byCallId st1))) st1)"

definition StopAll :: "World \<Rightarrow> VoIpSessions \<Rightarrow> VoIpSessions result" where
  "StopAll w st = Hoover w (time_now w + 2 * m_rtpSessionOnHoldTimeOutSec (DLLCONFIG w)) st"

section \<open>Capture commands\<close>

text \<open>The first session, in the order of the media addresses, that matches.\<close>

definition find_session :: "(VoIpSession \<Rightarrow> bool) \<Rightarrow> VoIpSessions \<Rightarrow> nat option" where
  "find_session matches st = map_option snd (List.find (\<lambda>(_, r). matches (session st r)) (m_byIpAndPort st))"

text \<open>The commands return the \<open>m_orkUid\<close> of the session, or the empty string; the ones by \<open>orkuid\<close> nothing.\<close>

definition start_capture :: "(VoIpSession \<Rightarrow> bool) \<Rightarrow> string \<Rightarrow> VoIpSessions \<Rightarrow> string \<times> VoIpSessions" where
  "start_capture matches side st =
     (case find_session matches st of
        None \<Rightarrow> ('''', st)
      | Some r \<Rightarrow> (m_orkUid (session st r),
          call (\<lambda>c. send_all (MarkAsOnDemand side c)) r (change r (\<lambda>ss. ss\<lparr>m_keepRtp := True\<rparr>) st)))"

definition pause_capture :: "(VoIpSession \<Rightarrow> bool) \<Rightarrow> VoIpSessions \<Rightarrow> string \<times> VoIpSessions" where
  "pause_capture matches st =
     (case find_session matches st of
        None \<Rightarrow> ('''', st)
      | Some r \<Rightarrow> (m_orkUid (session st r), change r (\<lambda>ss. ss\<lparr>m_keepRtp := False\<rparr>) st))"

definition CopyMetadataToNewSession :: "VoIpSession \<Rightarrow> VoIpSession \<Rightarrow> VoIpSession" where
  "CopyMetadataToNewSession old new = new\<lparr>
     m_ipAndPort := m_ipAndPort old, m_rtpIp := m_rtpIp old, m_callId := m_callId old, m_invite := m_invite old,
     m_protocol := m_protocol old, m_remotePartyNecSip := m_remotePartyNecSip old, m_localParty := m_localParty old,
     m_remoteParty := m_remoteParty old, m_localEntryPoint := m_localEntryPoint old, m_localPartyName := m_localPartyName old,
     m_remotePartyName := m_remotePartyName old, m_localPartyReported := m_localPartyReported old,
     m_remotePartyReported := m_remotePartyReported old, m_rtcpLocalParty := m_rtcpLocalParty old,
     m_rtcpRemoteParty := m_rtcpRemoteParty old, m_direction := m_direction old, m_localSide := m_localSide old,
     m_endPointIp := m_endPointIp old, m_endPointSignallingPort := m_endPointSignallingPort old,
     m_skinnyPassThruPartyId := m_skinnyPassThruPartyId old, m_sipLastInvite := m_sipLastInvite old,
     m_skinnyLastCallInfoTime := m_skinnyLastCallInfoTime old, m_skinnyLineInstance := m_skinnyLineInstance old,
     m_mediaAddresses := m_mediaAddresses old, m_sipDialedNumber := m_sipDialedNumber old,
     m_sipRemoteParty := m_sipRemoteParty old, m_isCallPickUp := m_isCallPickUp old, m_ssrcCandidate := m_ssrcCandidate old,
     m_metadataProcessed := True\<rparr>"

definition format_qos :: "VoIpSession \<Rightarrow> string" where
  "format_qos ss = ''RtpNumPkts:'' @ IntToString (m_numRtpPackets ss) @
     '' RtpNumMissingPkts:'' @ IntToString (sint (m_rtpNumMissingPkts ss)) @
     '' RtpNumSeqGaps:'' @ IntToString (sint (m_rtpNumSeqGaps ss)) @
     '' RtpMaxSeqGap:'' @ IntToString (m_highestRtpSeqNumDelta ss)"

text \<open>The session goes on in a new one with its parties. The result is the uid and the quality of service, both empty when no session matches.\<close>

definition stop_capture :: "World \<Rightarrow> (VoIpSession \<Rightarrow> bool) \<Rightarrow> VoIpSessions \<Rightarrow> (string \<times> string \<times> VoIpSessions) result" where
  "stop_capture w matches st =
     (case find_session matches st of
        None \<Rightarrow> Inr ('''', '''', st)
      | Some r \<Rightarrow>
          (case create_session w st of (n, st1) \<Rightarrow>
           andThen (VoIpSessions_Stop w r (change n (CopyMetadataToNewSession (session st1 r)) st1)) (\<lambda>st2.
           let st3 = st2\<lparr>m_byIpAndPort := map_insert (m_ipAndPort (session st2 n)) n (m_byIpAndPort st2)\<rparr>
           in Inr (m_orkUid (session st r), format_qos (session st2 r),
                st3\<lparr>m_byCallId := map_insert (m_callId (session st3 n)) n (m_byCallId st3)\<rparr>))))"

definition StartCapture :: "string \<Rightarrow> string \<Rightarrow> VoIpSessions \<Rightarrow> string \<times> VoIpSessions" where
  "StartCapture party side = start_capture (PartyMatches party) side"

definition StartCaptureOrkuid :: "string \<Rightarrow> string \<Rightarrow> VoIpSessions \<Rightarrow> VoIpSessions" where
  "StartCaptureOrkuid uid side st = snd (start_capture (OrkUidMatches uid) side st)"

definition StartCaptureNativeCallId :: "string \<Rightarrow> string \<Rightarrow> VoIpSessions \<Rightarrow> string \<times> VoIpSessions" where
  "StartCaptureNativeCallId callid side = start_capture (NativeCallIdMatches callid) side"

definition PauseCapture :: "string \<Rightarrow> VoIpSessions \<Rightarrow> string \<times> VoIpSessions" where
  "PauseCapture party = pause_capture (PartyMatches party)"

definition PauseCaptureOrkuid :: "string \<Rightarrow> VoIpSessions \<Rightarrow> VoIpSessions" where
  "PauseCaptureOrkuid uid st = snd (pause_capture (OrkUidMatches uid) st)"

definition PauseCaptureNativeCallId :: "string \<Rightarrow> VoIpSessions \<Rightarrow> string \<times> VoIpSessions" where
  "PauseCaptureNativeCallId callid = pause_capture (NativeCallIdMatches callid)"

definition StopCapture :: "World \<Rightarrow> string \<Rightarrow> VoIpSessions \<Rightarrow> (string \<times> string \<times> VoIpSessions) result" where
  "StopCapture w party = stop_capture w (PartyMatches party)"

definition StopCaptureOrkuid :: "World \<Rightarrow> string \<Rightarrow> VoIpSessions \<Rightarrow> (string \<times> VoIpSessions) result" where
  "StopCaptureOrkuid w uid st = andThen (stop_capture w (OrkUidMatches uid) st) (\<lambda>(_, qos, st1). Inr (qos, st1))"

definition StopCaptureNativeCallId :: "World \<Rightarrow> string \<Rightarrow> VoIpSessions \<Rightarrow> (string \<times> string \<times> VoIpSessions) result" where
  "StopCaptureNativeCallId w callid = stop_capture w (NativeCallIdMatches callid)"

end
