(* ===== verification/VoipSipProps.thy ===== *)
theory VoipSipProps
  imports VoipSip
begin

text \<open>The handlers of SIP messages keep the tables consistent and do not fault.\<close>

section \<open>Steps of the handlers\<close>

lemma by_call_id_valid: "consistent w st \<Longrightarrow> map_find cid (m_byCallId st) = Some r \<Longrightarrow> r < length (objects st)"
  by (auto simp: consistent_def coherent_def dest!: map_find_set)

lemma by_address_valid: "consistent w st \<Longrightarrow> map_find a (m_byIpAndPort st) = Some r \<Longrightarrow> r < length (objects st)"
  by (auto simp: consistent_def coherent_def dest!: map_find_set)

lemma session_wf: "consistent w st \<Longrightarrow> r < length (objects st) \<Longrightarrow> wf_session w (session st r)"
  by (simp add: consistent_def session_def)

lemma consistent_other_fields:
  assumes "objects st' = objects st" "m_byIpAndPort st' = m_byIpAndPort st" "m_byCallId st' = m_byCallId st" "consistent w st"
  shows "grows w st st'"
  using assms by (simp add: grows_def consistent_def coherent_def session_def)

lemma change_keeps:
  assumes "\<And>ss. identity_of (f ss) = identity_of ss" "\<And>ss. wf_session w ss \<Longrightarrow> wf_session w (f ss)"
    "consistent w st" "r < length (objects st)"
  shows "keeps_tables w st (change r f st)"
proof -
  have "same_tables st (change r f st)"
    by (simp add: same_tables_def change_def map_update assms(1) session_def assms(4) list_update_same_conv)
  moreover have "\<forall>ss \<in> set (objects (change r f st)). wf_session w ss"
    using assms(2-4) by (auto simp: change_def consistent_def session_def dest!: subsetD [OF set_update_subset_insert])
  ultimately show ?thesis using assms(3) by (auto simp: keeps_tables_def consistent_def dest: same_tables_coherent)
qed

lemmas change_grows = keeps_tables_grows [OF change_keeps]
lemmas call_grows = keeps_tables_grows [OF call_keeps]

lemma call_result_grows:
  assumes "session_method w ok f" "ok" "consistent w st" "r < length (objects st)"
  shows "succeeds (call_result f r st) (grows w st)"
  using session_method.call_result_keeps [OF assms] by (rule succeeds_mono) (rule keeps_tables_grows)

lemma protocol_grows:
  assumes "consistent w st" "r < length (objects st)"
  shows "grows w st (change r (\<lambda>ss. ss\<lparr>m_protocol := ProtRawRtp\<rparr>) st)"
  using assms
  by (auto simp: grows_def consistent_def coherent_def change_def session_def nth_list_update wf_session_def
      decoders_ok_def knows_address_def addresses_ok_def dest!: subsetD [OF set_update_subset_insert])

text \<open>A chain of steps.\<close>

lemma grows_andThen:
  assumes "succeeds m (grows w st)" "\<And>st1. grows w st st1 \<Longrightarrow> succeeds (f st1) (grows w st1)"
  shows "succeeds (andThen m f) (grows w st)"
  using assms(1) by (rule succeeds_andThen) (metis assms(2) grows_trans succeeds_mono)

lemma grows_after: "grows w st st1 \<Longrightarrow> succeeds m (grows w st1) \<Longrightarrow> succeeds m (grows w st)"
  by (metis grows_trans succeeds_mono)

lemma grows_consistent: "grows w st st1 \<Longrightarrow> consistent w st1"
  and grows_valid: "grows w st st1 \<Longrightarrow> r < length (objects st) \<Longrightarrow> r < length (objects st1)"
  by (auto simp: grows_def)

section \<open>INVITE\<close>

lemma try_pick_up_grows:
  assumes "consistent w st" "r < length (objects st)"
  shows "grows w st (try_pick_up w i r st)"
proof -
  obtain found st1 where pick: "TrySessionCallPickUp (m_replacesId i) st = (found, st1)" by fastforce
  have st1: "grows w st st1"
    using pick by (intro consistent_other_fields assms) (auto simp: TrySessionCallPickUp_def split: if_splits)
  have "grows w st1 (change r (\<lambda>ss. ss\<lparr>m_isCallPickUp := True\<rparr>) st1)"
    by (rule change_grows [OF _ _ grows_consistent [OF st1] grows_valid [OF st1 assms(2)]])
      (simp_all add: identity_of_def wf_session_def decoders_ok_def)
  with st1 assms pick show ?thesis by (auto simp: try_pick_up_def grows_refl intro: grows_trans)
qed

lemma report_invite_grows:
  assumes "consistent w st" "r < length (objects st)" "invite_ok i"
  shows "grows w st (report_invite w i r st)"
proof -
  note pick = try_pick_up_grows [OF assms(1,2)]
  show ?thesis
    unfolding report_invite_def
    by (rule grows_trans [OF pick call_grows [OF sip_invite.session_method_axioms assms(3) grows_consistent [OF pick] grows_valid [OF pick assms(2)]]])
qed

lemma invite_hold_grows:
  assumes config: "config_ok (DLLCONFIG w)" and con: "consistent w st" "r < length (objects st)"
  shows "succeeds (invite_hold w i r st) (\<lambda>(_, st'). grows w st st')"
proof -
  have on: "grows w st (call (GoOnHold w (m_recvTime i)) r st)"
    by (rule call_grows [OF go_on_hold.session_method_axioms _ con]) simp
  have off: "grows w st (call (GoOffHold w (m_recvTime i)) r st)"
    by (rule call_grows [OF go_off_hold.session_method_axioms _ con]) simp
  let ?st1 = "change r (\<lambda>ss. ss\<lparr>m_lastUpdated := time_now w\<rparr>) (call (GoOffHold w (m_recvTime i)) r st)"
  have st1: "grows w st ?st1"
    by (rule grows_trans [OF off change_grows [OF _ _ grows_consistent [OF off] grows_valid [OF off con(2)]]])
      (simp_all add: identity_of_def wf_session_def decoders_ok_def)
  have "succeeds (SetMediaAddress w r (m_fromRtpIp i) (rtp_port i) ?st1) (grows w st)"
    by (rule grows_after [OF st1 SetMediaAddress_grows [OF config grows_consistent [OF st1] grows_valid [OF st1 con(2)]]])
  then show ?thesis
    using on con by (auto simp: invite_hold_def Let_def grows_refl intro: succeeds_andThen)
qed

lemma invite_on_media_address_grows:
  assumes config: "config_ok (DLLCONFIG w)" and con: "consistent w st" "r < length (objects st)" and i: "invite_ok i"
  shows "succeeds (invite_on_media_address w i r st) (\<lambda>(_, st'). grows w st st')"
proof -
  have "succeeds (andThen (invite_hold w i r st) (\<lambda>(returns, st1).
       if returns then Inr (True, st1) else Inr (True, report_invite w i r st1))) (\<lambda>(_, st'). grows w st st')"
  proof (rule succeeds_andThen [OF invite_hold_grows [OF config con]], clarify)
    fix returns st1 assume st1: "grows w st st1"
    from grows_trans [OF st1 report_invite_grows [OF grows_consistent [OF st1] grows_valid [OF st1 con(2)] i]] st1
    show "succeeds (if returns then Inr (True, st1) else Inr (True, report_invite w i r st1)) (\<lambda>(_, st'). grows w st st')"
      by simp
  qed
  then show ?thesis
    using protocol_grows [OF con] con by (auto simp: invite_on_media_address_def Let_def grows_refl)
qed

lemma invite_on_call_id_grows:
  assumes config: "config_ok (DLLCONFIG w)" and con: "consistent w st" "r < length (objects st)" and i: "invite_ok i"
  shows "succeeds (invite_on_call_id w i a r st) (grows w st)"
  unfolding invite_on_call_id_def
proof (rule succeeds_andThen [OF invite_hold_grows [OF config con]], clarify)
  fix returns st1 assume st1: "grows w st st1"
  have set: "succeeds (SetMediaAddress w r ip port st2) (grows w st2)" if "grows w st st2" for ip port st2
    by (rule SetMediaAddress_grows [OF config grows_consistent [OF that] grows_valid [OF that con(2)]])
  let ?set = "if m_ipAndPort (session st1 r) \<noteq> a \<and> m_sipDynamicMediaAddress (DLLCONFIG w) then
           andThen (SetMediaAddress w r (m_fromRtpIp i) (rtp_port i) st1) (\<lambda>st2.
           if m_sipTrackMediaAddressOnSender (DLLCONFIG w)
           then SetMediaAddress w r (SipInviteInfo.m_originalSenderIp i) (rtp_port i) st2 else Inr st2)
         else Inr st1"
  have set1: "succeeds ?set (grows w st1)"
    using set st1 by (auto intro!: succeeds_if grows_andThen dest: grows_trans simp: grows_refl grows_consistent)
  have "succeeds (andThen ?set (\<lambda>st2. Inr (report_invite w i r st2))) (grows w st1)"
  proof (rule grows_andThen [OF set1])
    fix st2 assume st2: "grows w st1 st2"
    show "succeeds (Inr (report_invite w i r st2)) (grows w st2)"
      using report_invite_grows [OF grows_consistent [OF st2] grows_valid [OF grows_trans [OF st1 st2] con(2)] i] by simp
  qed
  from grows_after [OF st1 this] st1
  show "succeeds (if returns then Inr st1 else andThen ?set (\<lambda>st2. Inr (report_invite w i r st2))) (grows w st)"
    by (intro succeeds_if) (simp_all only: succeeds_Inr)
qed

section \<open>New sessions\<close>

text \<open>The state has a new session and the same tables.\<close>

definition appended :: "VoIpSessions \<Rightarrow> VoIpSession \<Rightarrow> VoIpSessions \<Rightarrow> bool" where
  "appended st ss st' \<longleftrightarrow> objects st' = objects st @ [ss] \<and> m_byIpAndPort st' = m_byIpAndPort st \<and> m_byCallId st' = m_byCallId st"

lemma appended_session: "appended st ss st' \<Longrightarrow> session st' (length (objects st)) = ss"
  by (simp add: appended_def session_def)

lemma appended_change:
  "appended st ss st' \<Longrightarrow> appended st (f ss) (change (length (objects st)) f st')"
  by (simp add: appended_def change_def session_def)

lemma appended_call:
  "appended st ss st' \<Longrightarrow> appended st (VoIpSession.truncate (g (call_of st' (length (objects st))))) (call g (length (objects st)) st')"
  by (simp add: appended_def call_def return_of_def)

lemma appended_addresses_grows:
  assumes "appended st ss st'" "consistent w st" "wf_session w ss" "addresses_ok ss"
  shows "grows w st st'"
proof -
  have "session st' r = session st r" if "r < length (objects st)" for r
    using that assms(1) by (simp add: appended_def session_def nth_append)
  then show ?thesis
    using assms by (fastforce simp: grows_def consistent_def coherent_def appended_def)
qed

lemma appended_grows:
  "appended st ss st' \<Longrightarrow> consistent w st \<Longrightarrow> wf_session w ss \<Longrightarrow> m_mediaAddresses ss = [] \<Longrightarrow> grows w st st'"
  by (erule appended_addresses_grows) (simp_all add: addresses_ok_def)

lemma new_VoIpSession_ok:
  "wf_session w (new_VoIpSession w trackingId)" "decoders_ok (m_sessionStartsOnS2ActivityDb (DLLCONFIG w)) (new_VoIpSession w trackingId)"
  "m_mediaAddresses (new_VoIpSession w trackingId) = []"
  using new_session_decoders [where config = "DLLCONFIG w" and ?CONFIG = "CONFIG w" and ip = "u_localIp (uninit w)"]
  by (auto simp: wf_session_def decoders_ok_def new_VoIpSession_def Let_def)

lemma create_session_appended:
  "create_session w st = (r, st1) \<Longrightarrow> r = length (objects st) \<and> (\<exists>tid. appended st (new_VoIpSession w tid) st1)"
  by (auto simp: create_session_def appended_def split: prod.splits)

lemma try_pick_up_appended:
  assumes "appended st ss st1"
  shows "\<exists>b. appended st (if b then ss\<lparr>m_isCallPickUp := True\<rparr> else ss) (try_pick_up w i (length (objects st)) st1)"
proof -
  obtain found st2 where pick: "TrySessionCallPickUp (m_replacesId i) st1 = (found, st2)" by fastforce
  then have st2: "appended st ss st2"
    using assms by (auto simp: TrySessionCallPickUp_def appended_def split: if_splits)
  show ?thesis
    using appended_change [OF st2, of "\<lambda>ss. ss\<lparr>m_isCallPickUp := True\<rparr>"] st2 assms pick
    by (cases "m_sipCallPickUpSupport (DLLCONFIG w)"; cases found)
      (force intro: exI [of _ True] exI [of _ False] simp: try_pick_up_def)+
qed

lemma pre_invite_notify_appended:
  assumes "config_ok (DLLCONFIG w)" "appended st ss st1" "invite_ok i"
  shows "succeeds (pre_invite_notify w i st1) (\<lambda>(i', st'). appended st ss st' \<and> invite_ok i')"
proof -
  have ranges: "succeeds (IpRanges_Matches (m_sipDirectionReferenceIpAddresses (DLLCONFIG w)) ip) (\<lambda>_. True)" for ip
    using assms(1) by (simp add: config_ok_def Matches_succeeds)
  then have nec: "succeeds (IsNecExternal w i) (\<lambda>_. True)"
    unfolding IsNecExternal_def by (rule succeeds_andThen) simp
  have ok: "invite_ok (i\<lparr>SipInviteInfo.m_sipRemoteParty := s\<rparr>)" for s using assms(3) by (simp add: invite_ok_def)
  have env: "appended st ss (st1\<lparr>globals := e\<rparr>)" for e using assms(2) by (simp add: appended_def)
  show ?thesis
    unfolding pre_invite_notify_def Let_def
    using assms(2,3)
    by (auto intro!: succeeds_if succeeds_andThen [OF ranges] succeeds_andThen [OF nec] ok env split: option.split)
qed

lemma by_call_id_insert_grows:
  assumes "consistent w st" "r < length (objects st)"
  shows "grows w st (st\<lparr>m_byCallId := map_insert (m_callId (session st r)) r (m_byCallId st)\<rparr>)"
proof -
  have "set (map_insert k v m) \<subseteq> insert (k, v) (set m)" for k :: string and v :: nat and m
    by (induction k v m rule: map_insert.induct) auto
  from subsetD [OF this] show ?thesis
    using assms by (auto simp: grows_def consistent_def coherent_def std_map session_def dest!: \<open>\<And>c v m k. c \<in> set (map_insert k v m) \<Longrightarrow> _\<close>)
qed

lemma report_new_session_grows:
  assumes con: "consistent w st" and st1: "appended st ss st1" and i: "invite_ok i"
    and ss: "decoders_ok (m_sessionStartsOnS2ActivityDb (DLLCONFIG w)) ss" "m_mediaAddresses ss = []"
  shows "grows w st (report_new_session w i (length (objects st)) st1)"
    "length (objects st) < length (objects (report_new_session w i (length (objects st)) st1))"
proof -
  let ?r = "length (objects st)" and ?c = "VoIpSession_ReportSipInvite w i (call_of st1 (length (objects st)))"
  let ?ss = "(VoIpSession.truncate ?c)\<lparr>m_sipLastInvite := now_us w\<rparr>"
  have app: "appended st ?ss (report_new_session w i ?r st1)"
    unfolding report_new_session_def by (rule appended_change [OF appended_call [OF st1]])
  have same: "session st1 ?r = ss" by (rule appended_session [OF st1])
  have dec: "decoders_ok (m_sessionStartsOnS2ActivityDb (DLLCONFIG w)) (call_of st1 ?r)"
    using ss(1) same by (simp add: call_of_def VoIpSession.extend_def decoders_ok_def)
  have "identity_of ?c = identity_of ss"
    using VoIpSession_ReportSipInvite_kept(1) [OF i, of w "call_of st1 ?r"] same by simp
  then have "m_mediaAddresses ?ss = []" using ss(2) by (simp add: identity_of_def VoIpSession.truncate_def)
  moreover have "wf_session w ?ss"
    using VoIpSession_ReportSipInvite_kept(2) [OF i dec, of w] VoIpSession_ReportSipInvite_kept(3) [OF i, of w "call_of st1 ?r"]
    by (auto simp: wf_session_def decoders_ok_def VoIpSession.truncate_def)
  ultimately show "grows w st (report_new_session w i ?r st1)" using appended_grows [OF app con] by blast
  show "?r < length (objects (report_new_session w i ?r st1))" using app by (simp add: appended_def)
qed

lemma link_new_session_grows:
  assumes config: "config_ok (DLLCONFIG w)" and con: "consistent w st" "r < length (objects st)"
  shows "succeeds (link_new_session w i r st) (grows w st)"
  unfolding link_new_session_def
proof (rule grows_andThen [OF SetMediaAddress_grows [OF config con]], rule grows_andThen)
  fix st1 assume st1: "grows w st st1"
  note st1' = grows_consistent [OF st1] grows_valid [OF st1 con(2)]
  show "succeeds (if m_sipTrackMediaAddressOnSender (DLLCONFIG w)
      then SetMediaAddress w r (SipInviteInfo.m_originalSenderIp i) (rtp_port i) st1 else Inr st1) (grows w st1)"
    using SetMediaAddress_grows [OF config st1'] st1' by (simp add: grows_refl)
  fix st2 assume st2: "grows w st1 st2"
  show "succeeds (Inr (st2\<lparr>m_byCallId := map_insert (m_callId (session st2 r)) r (m_byCallId st2)\<rparr>)) (grows w st2)"
    using by_call_id_insert_grows [OF grows_consistent [OF st2] grows_valid [OF st2 st1'(2)]] by simp
qed

lemma invite_new_session_grows:
  assumes config: "config_ok (DLLCONFIG w)" and con: "consistent w st" and i: "invite_ok i"
  shows "succeeds (invite_new_session w i st) (grows w st)"
proof -
  obtain r st1 where create: "create_session w st = (r, st1)" by fastforce
  then obtain tid where r: "r = length (objects st)" and st1: "appended st (new_VoIpSession w tid) st1"
    using create_session_appended by blast
  obtain b where picked: "appended st (if b then (new_VoIpSession w tid)\<lparr>m_isCallPickUp := True\<rparr> else new_VoIpSession w tid)
      (try_pick_up w i r st1)" using try_pick_up_appended [OF st1] r by blast
  define upd where "upd = (\<lambda>ss :: VoIpSession. ss\<lparr>m_callId := SipInviteInfo.m_callId i, m_protocol := ProtSip,
                                  m_sipDialedNumber := SipInviteInfo.m_sipDialedNumber i\<rparr>)"
  define ss2 where "ss2 = upd (if b then (new_VoIpSession w tid)\<lparr>m_isCallPickUp := True\<rparr> else new_VoIpSession w tid)"
  have st2: "appended st ss2 (change r upd (try_pick_up w i r st1))"
    unfolding ss2_def r by (rule appended_change [OF picked [unfolded r]])
  have ss2: "decoders_ok (m_sessionStartsOnS2ActivityDb (DLLCONFIG w)) ss2" "m_mediaAddresses ss2 = []"
    using new_VoIpSession_ok [of w tid] by (auto simp: ss2_def upd_def decoders_ok_def)
  have "succeeds (andThen (pre_invite_notify w i (change r upd (try_pick_up w i r st1)))
      (\<lambda>(i', st3). link_new_session w i' r (report_new_session w i' r st3))) (grows w st)"
  proof (rule succeeds_andThen [OF pre_invite_notify_appended [OF config st2 i]], clarify)
    fix i' st3 assume "appended st ss2 st3" "invite_ok i'"
    note new = report_new_session_grows [OF con this ss2, folded r]
    show "succeeds (link_new_session w i' r (report_new_session w i' r st3)) (grows w st)"
      by (rule grows_after [OF new(1) link_new_session_grows [OF config grows_consistent [OF new(1)] new(2)]])
  qed
  then show ?thesis by (simp add: invite_new_session_def create upd_def Let_def)
qed

theorem ReportSipInvite_grows:
  assumes config: "config_ok (DLLCONFIG w)" and con: "consistent w st" and i: "invite_ok i"
  shows "succeeds (ReportSipInvite w i st) (grows w st)"
proof -
  have ignored: "succeeds (IpRanges_Matches (m_sipIgnoredMediaAddresses (DLLCONFIG w)) (m_fromRtpIp i)) (\<lambda>_. True)"
    using config by (simp add: config_ok_def Matches_succeeds)
  have found: "succeeds (case findByMediaAddress w st ip port of None \<Rightarrow> Inr (False, st)
      | Some r \<Rightarrow> invite_on_media_address w i r st) (\<lambda>(_, st1). grows w st st1)" for ip port
    using invite_on_media_address_grows [OF config con _ i] con by_address_valid
    by (auto simp: findByMediaAddress_def grows_refl split: option.split)
  have rest: "succeeds (if returns then Inr st1 else case map_find (SipInviteInfo.m_callId i) (m_byCallId st1) of
            Some r \<Rightarrow> invite_on_call_id w i a r st1 | None \<Rightarrow> invite_new_session w i st1) (grows w st)"
    if st1: "grows w st st1" for returns st1 a
  proof -
    note con1 = grows_consistent [OF st1]
    have "succeeds (case map_find (SipInviteInfo.m_callId i) (m_byCallId st1) of
            Some r \<Rightarrow> invite_on_call_id w i a r st1 | None \<Rightarrow> invite_new_session w i st1) (grows w st1)"
      using invite_on_call_id_grows [OF config con1 by_call_id_valid [OF con1] i] invite_new_session_grows [OF config con1 i]
      by (auto split: option.split)
    from grows_after [OF st1 this] st1 show ?thesis by (intro succeeds_if) (simp_all only: succeeds_Inr)
  qed
  show ?thesis
    unfolding ReportSipInvite_def Let_def
    by (rule succeeds_andThen [OF ignored], rule succeeds_if, simp add: grows_refl con, rule succeeds_andThen [OF found], clarify)
      (rule rest)
qed

section \<open>Other requests and responses\<close>

lemma ReportSipSubscribe_grows: "consistent w st \<Longrightarrow> grows w st (ReportSipSubscribe subscribe st)"
  by (rule consistent_other_fields) (simp_all add: ReportSipSubscribe_def Let_def)

lemma stop_after_call_grows:
  assumes "config_ok (DLLCONFIG w)" "session_method w True (\<lambda>c. Inr (g c))" "consistent w st" "r < length (objects st)"
  shows "succeeds (VoIpSessions_Stop w r (call g r st)) (grows w st)"
proof -
  have g: "grows w st (call g r st)" using call_grows [OF assms(2) _ assms(3,4)] by simp
  have "succeeds (VoIpSessions_Stop w r (call g r st)) (grows w (call g r st))"
    using VoIpSessions_Stop_unlinks [OF assms(1) grows_consistent [OF g] grows_valid [OF g assms(4)]]
    by (rule succeeds_mono) (simp add: grows_def unlinked_def)
  then show ?thesis by (rule grows_after [OF g])
qed

lemma ReportSipBye_grows:
  assumes "config_ok (DLLCONFIG w)" "consistent w st"
  shows "succeeds (ReportSipBye w bye st) (grows w st)"
  using stop_after_call_grows [OF assms(1) sip_bye.session_method_axioms assms(2) by_call_id_valid [OF assms(2)]] assms(2)
  by (auto simp: ReportSipBye_def grows_refl split: option.split)

text \<open>An error response for a call needs its INVITE, unless it asks for authentication.\<close>

definition failure_ok :: "SipFailureMessageInfo \<Rightarrow> VoIpSessions \<Rightarrow> bool" where
  "failure_ok info st \<longleftrightarrow> (case map_find (SipFailureMessageInfo.m_callId info) (m_byCallId st) of
     None \<Rightarrow> True | Some r \<Rightarrow> m_errorCode info = ''407'' \<or> m_invite (session st r) \<noteq> None)"

lemma ReportSipErrorPacket_cases:
  assumes "config_ok (DLLCONFIG w)" "consistent w st"
  shows "if failure_ok info st then succeeds (ReportSipErrorPacket w info st) (grows w st)
    else ReportSipErrorPacket w info st = Inl NullDereference"
proof (cases "map_find (SipFailureMessageInfo.m_callId info) (m_byCallId st)")
  case (Some r)
  note r = by_call_id_valid [OF assms(2) Some]
  let ?st1 = "call VoIpSession_ReportSipErrorPacket r st"
  have "frame_of (VoIpSession_ReportSipErrorPacket (call_of st r)) = frame_of (call_of st r)"
    by (simp add: VoIpSession_ReportSipErrorPacket_def frame)
  then have none: "m_invite (VoIpSession_ReportSipErrorPacket (call_of st r)) = None \<longleftrightarrow> m_invite (session st r) = None"
    by (auto simp: frame_of_def call_of_def VoIpSession.extend_def)
  have invite: "invite_of (call_of ?st1 r) = invite_of (VoIpSession_ReportSipErrorPacket (call_of st r))"
    using r by (auto simp: call_def return_of_def call_of_def session_def VoIpSession.extend_def VoIpSession.truncate_def invite_of_def)
  have run: "ReportSipErrorPacket w info st = (if m_errorCode info = ''407'' then Inr st
      else andThen (invite_of (VoIpSession_ReportSipErrorPacket (call_of st r))) (\<lambda>_. VoIpSessions_Stop w r ?st1))"
    using Some invite by (simp add: ReportSipErrorPacket_def Let_def)
  show ?thesis
    using run none Some grows_refl [OF assms(2)] stop_after_call_grows [OF assms(1) sip_error.session_method_axioms assms(2) r]
    by (cases "m_invite (session st r)") (auto simp: invite_of_def failure_ok_def)
qed (use assms(2) in \<open>simp add: ReportSipErrorPacket_def grows_refl failure_ok_def\<close>)

lemma ReportSipSessionProgress_grows:
  assumes "config_ok (DLLCONFIG w)" "consistent w st"
  shows "succeeds (ReportSipSessionProgress w info st) (grows w st)"
proof (cases "map_find (SipSessionProgressInfo.m_callId info) (m_byCallId st)")
  case (Some r)
  note r = by_call_id_valid [OF assms(2) Some]
  have "succeeds (SetMediaAddress w r ip port st1) (grows w st1)" if "grows w st st1" for ip port st1
    by (rule SetMediaAddress_grows [OF assms(1) grows_consistent [OF that] grows_valid [OF that r]])
  then show ?thesis
    using Some assms(2) by (auto simp: ReportSipSessionProgress_def Let_def grows_refl grows_consistent intro!: grows_andThen)
qed (use assms(2) in \<open>simp add: ReportSipSessionProgress_def grows_refl\<close>)

lemma ReportSip302MovedTemporarily_grows: "consistent w st \<Longrightarrow> grows w st (ReportSip302MovedTemporarily info st)"
  by (rule consistent_other_fields) (simp_all add: ReportSip302MovedTemporarily_def)

lemma ReportSip200Ok_grows:
  assumes "config_ok (DLLCONFIG w)" "consistent w st"
  shows "succeeds (ReportSip200Ok w info st) (grows w st)"
proof (cases "map_find (Sip200OkInfo.m_callId info) (m_byCallId st)")
  case (Some r)
  have lan: "succeeds (IpRanges_Matches (m_lanIpRanges (DLLCONFIG w)) ip) (\<lambda>_. True)" for ip
    using assms(1) by (simp add: config_ok_def Matches_succeeds)
  note set = SetMediaAddress_grows [OF assms(1,2) by_call_id_valid [OF assms(2) Some]]
  show ?thesis
    unfolding ReportSip200Ok_def Some option.case Let_def
    by (intro succeeds_if set succeeds_andThen [OF lan]) (simp_all add: grows_refl assms(2))
qed (use assms(2) in \<open>simp add: ReportSip200Ok_def grows_refl\<close>)

lemma ReportSipInfo_grows: "consistent w st \<Longrightarrow> grows w st (ReportSipInfo w info st)"
  using call_grows [OF sip_info.session_method_axioms] by_call_id_valid
  by (auto simp: ReportSipInfo_def grows_refl split: option.split)

lemma ReportSipRefer_grows: "consistent w st \<Longrightarrow> grows w st (ReportSipRefer info st)"
proof (cases "map_find (SipRefer.m_callId info) (m_byCallId st)")
  case (Some r)
  assume con: "consistent w st"
  have step: "grows w st (call (\<lambda>c. snd (VoIpSession_ReportSipRefer info' c)) r st)" for info'
    by (rule call_grows [OF sip_refer.session_method_axioms _ con by_call_id_valid [OF con Some]]) simp
  have list: "grows w st1 (st1\<lparr>m_sipReferList := l\<rparr>)" if "consistent w st1" for st1 l
    by (rule consistent_other_fields) (simp_all add: that)
  show ?thesis
    unfolding ReportSipRefer_def Some option.case Let_def
    by (rule grows_trans [OF step list [OF grows_consistent [OF step]]])
qed (simp add: ReportSipRefer_def grows_refl)

section \<open>NOTIFY\<close>

lemma notify_loop_finds:
  assumes "config_ok (DLLCONFIG w)" "\<forall>r. found = Some r \<longrightarrow> m_invite (session st r) \<noteq> None \<and> P r" "\<forall>r \<in> set rs. P r"
  shows "succeeds (notify_loop w st ip rs found) (\<lambda>found'. \<forall>r. found' = Some r \<longrightarrow> m_invite (session st r) \<noteq> None \<and> P r)"
  using assms(2,3)
proof (induction rs arbitrary: found)
  case (Cons r rs)
  have ranges: "succeeds (IpRanges_Matches (m_sipDirectionReferenceIpAddresses (DLLCONFIG w)) ip) (\<lambda>_. True)" for ip
    using assms(1) by (simp add: config_ok_def Matches_succeeds)
  from Cons show ?case
    by (auto simp: Let_def split: option.split intro!: succeeds_andThen [OF ranges])
qed simp

text \<open>The sessions that the address of a NOTIFY leads to, and the NOTIFYs that store or read a held party.\<close>

definition notify_matches :: "World \<Rightarrow> VoIpSessions \<Rightarrow> u32 \<Rightarrow> nat \<Rightarrow> bool" where
  "notify_matches w st ip r \<longleftrightarrow> (case m_invite (session st r) of
     None \<Rightarrow> False
   | Some i \<Rightarrow> ip = (if IpRanges_Matches (m_sipDirectionReferenceIpAddresses (DLLCONFIG w)) (SipInviteInfo.m_senderIp i) = Inr True
       then SipInviteInfo.m_receiverIp i else SipInviteInfo.m_senderIp i))"

lemma notify_loop_found:
  "notify_loop w st ip rs found = Inr found' \<Longrightarrow> found' \<noteq> None \<longleftrightarrow> found \<noteq> None \<or> (\<exists>r \<in> set rs. notify_matches w st ip r)"
proof (induction rs arbitrary: found)
  case (Cons r rs)
  show ?case
  proof (cases "m_invite (session st r)")
    case None
    then show ?thesis using Cons.IH [of found] Cons.prems by (auto simp: notify_matches_def)
  next
    case (Some i)
    then obtain reference where "IpRanges_Matches (m_sipDirectionReferenceIpAddresses (DLLCONFIG w)) (SipInviteInfo.m_senderIp i) = Inr reference"
      using Cons.prems by (auto simp: andThen_eq_Inr_iff)
    then show ?thesis
      using Cons.IH [of found] Cons.IH [of "Some r"] Cons.prems Some by (auto simp: notify_matches_def Let_def split: if_splits option.splits)
  qed
qed simp

definition uses_held_party :: "World \<Rightarrow> SipNotifyInfo \<Rightarrow> VoIpSessions \<Rightarrow> bool" where
  "uses_held_party w notify st \<longleftrightarrow>
     m_onHoldMarker notify \<and> (\<exists>(cid, r) \<in> set (m_byCallId st). notify_matches w st (SipNotifyInfo.m_receiverIp notify) r) \<or>
     m_offHoldMarker notify \<and> (m_dsp notify = '''' \<or> \<not> list_all is_alnum (m_dsp notify))"

definition notify_ok :: "World \<Rightarrow> SipNotifyInfo \<Rightarrow> VoIpSessions \<Rightarrow> bool" where
  "notify_ok w notify st \<longleftrightarrow>
     (uses_held_party w notify st \<longrightarrow> 0 \<le> m_pkey notify \<and> m_pkey notify < int (length (lastHoldRemoteParty st)))"

lemma deliver_notify_grows:
  assumes config: "config_ok (DLLCONFIG w)" and con: "consistent w st"
    and found: "\<forall>r. found = Some r \<longrightarrow> m_invite (session st r) \<noteq> None \<and> r < length (objects st)"
  shows "succeeds (deliver_notify w notify found st) (grows w st)"
proof (cases found)
  case None
  then show ?thesis
    unfolding deliver_notify_def Let_def
    by (auto intro: consistent_other_fields con simp: con grows_refl)
next
  case (Some r)
  then have r: "m_invite (call_of st r) \<noteq> None" "r < length (objects st)"
    using found by (auto simp: call_of_def VoIpSession.extend_def)
  have "succeeds (call_result (VoIpSession_ReportSipNotify w notify) r st) (grows w st)"
    unfolding call_result_def
    by (rule succeeds_andThen [OF VoIpSession_ReportSipNotify_kept [OF config r(1)]])
      (simp add: keeps_tables_grows [OF kept_returns [OF frame_kept con r(2)]])
  then show ?thesis using Some con by (simp add: deliver_notify_def grows_refl)
qed

lemma ReportSipNotify_cases:
  assumes config: "config_ok (DLLCONFIG w)" and con: "consistent w st"
  shows "if notify_ok w notify st then succeeds (ReportSipNotify w notify st) (grows w st)
    else ReportSipNotify w notify st = Inl OutOfBounds"
proof -
  have rs: "\<forall>r \<in> set (map snd (m_byCallId st)). r < length (objects st)"
    using con by (auto simp: consistent_def coherent_def)
  obtain found where loop: "notify_loop w st (SipNotifyInfo.m_receiverIp notify) (map snd (m_byCallId st)) None = Inr found"
    and found: "\<forall>r. found = Some r \<longrightarrow> m_invite (session st r) \<noteq> None \<and> r < length (objects st)"
    using notify_loop_finds [OF config _ rs, of None st "SipNotifyInfo.m_receiverIp notify"] by (auto simp: succeeds_def)
  have matches: "found \<noteq> None \<longleftrightarrow> (\<exists>(cid, r) \<in> set (m_byCallId st). notify_matches w st (SipNotifyInfo.m_receiverIp notify) r)"
    using notify_loop_found [OF loop] by (simp only: set_map bex_simps not_True_eq_False case_prod_unfold) simp
  have parties: "grows w st (st\<lparr>lastHoldRemoteParty := ps\<rparr>)" for ps
    by (rule consistent_other_fields) (simp_all add: con)
  let ?n = "if list_all is_alnum (m_dsp notify) then notify else notify\<lparr>m_dsp := ''''\<rparr>"
  let ?held = "m_onHoldMarker notify \<and> found \<noteq> None" and ?display = "m_offHoldMarker notify \<and> m_dsp ?n = ''''"
  have uses: "uses_held_party w notify st \<longleftrightarrow> ?held \<or> ?display"
    using matches by (auto simp: uses_held_party_def)
  note run = ReportSipNotify_def [of w notify st, unfolded loop andThen_Inr Let_def]
  have key: "m_pkey ?n = m_pkey notify" "m_onHoldMarker ?n = m_onHoldMarker notify" "m_offHoldMarker ?n = m_offHoldMarker notify" by simp_all
  consider r where "m_onHoldMarker notify" "found = Some r" | "\<not> ?held" ?display | "\<not> ?held" "\<not> ?display" by blast
  then show ?thesis
  proof cases
    case 1
    then show ?thesis using uses by (simp add: run notify_ok_def poke_def parties)
  next
    case 2
    then show ?thesis using uses deliver_notify_grows [OF config con found]
      by (cases "m_onHoldMarker notify"; cases found) (auto simp: run notify_ok_def peek_def)
  next
    case 3
    then show ?thesis using uses deliver_notify_grows [OF config con found]
      by (cases "m_onHoldMarker notify"; cases found) (auto simp: run notify_ok_def)
  qed
qed

end
