(* ===== verification/VoipSkinnyProps.thy ===== *)
theory VoipSkinnyProps
  imports VoipSkinny VoipSipProps
begin

text \<open>The handlers of Skinny messages keep the tables consistent and do not fault.\<close>

section \<open>Endpoints and parties\<close>

lemma update_endpoints_grows: "consistent w st \<Longrightarrow> grows w st (update_endpoints f st)"
  by (rule consistent_other_fields) (simp_all add: update_endpoints_def)

lemma endpoint_updates_grow:
  assumes "consistent w st"
  shows "grows w st (SetEndpointExtension w ext ip cid port st)" "grows w st (UpdateEndpointWithCallInfo w info p st)"
    "grows w st (ReportSkinnyLineStat w number p st)" "grows w st (ReportSkinnySoftKeySetConfConnected w ip p st)"
    "grows w st (SaveSkinnyGlobalNumbersList number st)"
proof -
  have set: "grows w st (SetEndpointExtension w ext ip cid port st)" for ext ip cid port
    by (simp add: SetEndpointExtension_def Let_def update_endpoints_grows assms split: option.split)
  then show "grows w st (SetEndpointExtension w ext ip cid port st)" .
  show "grows w st (UpdateEndpointWithCallInfo w info p st)" "grows w st (ReportSkinnyLineStat w number p st)"
    using set grows_refl [OF assms] by (simp_all add: UpdateEndpointWithCallInfo_def ReportSkinnyLineStat_def Let_def)
  show "grows w st (ReportSkinnySoftKeySetConfConnected w ip p st)"
    by (simp add: ReportSkinnySoftKeySetConfConnected_def update_endpoints_grows assms)
  show "grows w st (SaveSkinnyGlobalNumbersList number st)"
    by (rule consistent_other_fields) (simp_all add: SaveSkinnyGlobalNumbersList_def assms)
qed

lemma UpdateSessionWithCallInfo_same [simp]:
  "identity_of (UpdateSessionWithCallInfo w st info ss) = identity_of ss"
  "m_endPointIp (UpdateSessionWithCallInfo w st info ss) = m_endPointIp ss"
  "wf_session w' (UpdateSessionWithCallInfo w st info ss) = wf_session w' ss"
  by (simp_all add: UpdateSessionWithCallInfo_def call_parties_def forward_parties_def Let_def identity_of_def wf_session_def
      decoders_ok_def split: option.split)

lemma update_call_info_grows:
  "consistent w st \<Longrightarrow> r < length (objects st) \<Longrightarrow> grows w st (update_call_info w info r st)"
  unfolding update_call_info_def by (rule change_grows) simp_all

lemma frame_ReportMetadataUpdateSkinny [frame]: "frame_of (ReportMetadataUpdateSkinny w c) = frame_of c"
  unfolding ReportMetadataUpdateSkinny_def
  by (rule frame_let)+ (simp_all add: report_remote_party_def report_names_def frame)

interpretation skinny_update: session_method w True "\<lambda>c. Inr (ReportMetadataUpdateSkinny w c)"
  by (rule session_method_frame) (rule frame)

section \<open>CallInfo\<close>

lemma existing_call_info_grows:
  assumes con: "consistent w st" "r < length (objects st)"
  shows "grows w st (existing_call_info w info p r st)"
proof -
  let ?st1 = "change r (\<lambda>ss. ss\<lparr>m_skinnyLastCallInfoTime := now_us w\<rparr>) st"
  let ?st2 = "if m_skinnyAllowCallInfoUpdate (DLLCONFIG w) then update_call_info w info r ?st1 else ?st1"
  let ?st3 = "call (VoIpSession_ReportSkinnyCallInfo w (callingPartyName info) (ip_src p)) r ?st2"
  have st1: "grows w st ?st1"
    by (rule change_grows [OF _ _ con]) (simp_all add: identity_of_def wf_session_def decoders_ok_def)
  have st2: "grows w st ?st2"
    using grows_trans [OF st1 update_call_info_grows [OF grows_consistent [OF st1] grows_valid [OF st1 con(2)]]] st1 by simp
  have st3: "grows w st ?st3"
    by (rule grows_trans [OF st2 call_grows [OF skinny_call_info.session_method_axioms _ grows_consistent [OF st2] grows_valid [OF st2 con(2)]]]) simp
  have "grows w st (call (ReportMetadataUpdateSkinny w) r ?st3)"
    by (rule grows_trans [OF st3 call_grows [OF skinny_update.session_method_axioms _ grows_consistent [OF st3] grows_valid [OF st3 con(2)]]]) simp
  with st3 show ?thesis by (simp add: existing_call_info_def Let_def)
qed

text \<open>A session without call ID, which only entries under the empty call ID refer to, gets one.\<close>

lemma new_call_id_grows:
  assumes "consistent w st" "r < length (objects st)" "m_callId (session st r) = ''''"
  shows "grows w st (change r (\<lambda>ss. ss\<lparr>m_skinnyLastCallInfoTime := t, m_callId := cid\<rparr>) st)"
proof -
  have "cid' = ''''" if "(cid', r) \<in> set (m_byCallId st)" for cid'
    using that assms by (auto simp: consistent_def coherent_def)
  with assms show ?thesis
    by (auto simp: grows_def consistent_def coherent_def change_def session_def nth_list_update wf_session_def
        decoders_ok_def knows_address_def addresses_ok_def dest!: subsetD [OF set_update_subset_insert])
qed

lemma late_call_info_grows:
  assumes con: "consistent w st" "r < length (objects st)" "m_callId (session st r) = ''''"
  shows "grows w st (late_call_info w info p cid r st)"
proof -
  let ?st1 = "change r (\<lambda>ss. ss\<lparr>m_skinnyLastCallInfoTime := now_us w, m_callId := cid\<rparr>) st"
  let ?st2 = "update_call_info w info r ?st1"
  let ?st3 = "call (UpdateMetadataSkinny w) r ?st2"
  let ?st4 = "call (VoIpSession_ReportSkinnyCallInfo w (callingPartyName info) (ip_src p)) r ?st3"
  have st1: "grows w st ?st1" by (rule new_call_id_grows [OF con])
  have st2: "grows w st ?st2"
    by (rule grows_trans [OF st1 update_call_info_grows [OF grows_consistent [OF st1] grows_valid [OF st1 con(2)]]])
  have st3: "grows w st ?st3"
    by (rule grows_trans [OF st2 call_grows [OF skinny_metadata.session_method_axioms _ grows_consistent [OF st2] grows_valid [OF st2 con(2)]]]) simp
  have st4: "grows w st ?st4"
    by (rule grows_trans [OF st3 call_grows [OF skinny_call_info.session_method_axioms _ grows_consistent [OF st3] grows_valid [OF st3 con(2)]]]) simp
  show ?thesis
    unfolding late_call_info_def Let_def
    by (rule grows_trans [OF st4 by_call_id_insert_grows [OF grows_consistent [OF st4] grows_valid [OF st4 con(2)]]])
qed

section \<open>New sessions\<close>

text \<open>The state has a new well-formed session that no table refers to yet.\<close>

definition fresh :: "World \<Rightarrow> VoIpSessions \<Rightarrow> VoIpSessions \<Rightarrow> bool" where
  "fresh w st st' \<longleftrightarrow> (\<exists>ss. appended st ss st' \<and> wf_session w ss \<and> m_mediaAddresses ss = [])"

lemma fresh_create:
  "create_session w st = (r, st1) \<Longrightarrow> r = length (objects st) \<and> fresh w st st1"
  using create_session_appended [of w st r st1] new_VoIpSession_ok [of w] by (auto simp: fresh_def)

lemma fresh_change:
  assumes "fresh w st st1" "\<And>ss. wf_session w ss \<Longrightarrow> wf_session w (f ss)" "\<And>ss. m_mediaAddresses (f ss) = m_mediaAddresses ss"
  shows "fresh w st (change (length (objects st)) f st1)"
  using assms(1) appended_change [of st _ st1 f] assms(2,3) unfolding fresh_def by metis

lemma fresh_call:
  assumes "fresh w st st1" "\<And>c. frame_of (g c) = frame_of c"
  shows "fresh w st (call g (length (objects st)) st1)"
proof -
  from assms(1) obtain ss where ss: "appended st ss st1" "wf_session w ss" "m_mediaAddresses ss = []" by (auto simp: fresh_def)
  let ?c = "call_of st1 (length (objects st))"
  have same: "session st1 (length (objects st)) = ss" by (rule appended_session [OF ss(1)])
  have "kept w ?c (g ?c)" by (rule frame_kept [OF assms(2)])
  then have "wf_session w (g ?c)" "identity_of (g ?c) = identity_of ss"
    using ss(2) same by (simp_all add: kept_def)
  then show ?thesis
    using appended_call [OF ss(1), of g] ss(3) identity_fields(4) [of "g ?c" ss] by (auto simp: fresh_def VoIpSession.truncate_def
        wf_session_def decoders_ok_def identity_of_def)
qed

lemma fresh_update_call_info: "fresh w st st1 \<Longrightarrow> fresh w st (update_call_info w info (length (objects st)) st1)"
  unfolding update_call_info_def using identity_fields(4) [OF UpdateSessionWithCallInfo_same(1)] by (auto intro: fresh_change)

lemma fresh_grows:
  "fresh w st st1 \<Longrightarrow> consistent w st \<Longrightarrow> grows w st st1" "fresh w st st1 \<Longrightarrow> length (objects st) < length (objects st1)"
  using appended_grows by (auto simp: fresh_def appended_def)

lemma findNewestRtpByEndpointIp_valid:
  assumes "consistent w st" "findNewestRtpByEndpointIp st ip = Some r"
  shows "r < length (objects st)"
proof -
  have "newest_rtp_loop st ip rs latest found = Some r \<Longrightarrow> r \<in> set rs \<or> found = Some r" for rs latest found
    by (induction st ip rs latest found rule: newest_rtp_loop.induct) (auto split: if_splits option.splits)
  with assms show ?thesis by (fastforce simp: findNewestRtpByEndpointIp_def consistent_def coherent_def)
qed

lemma stop_grows:
  assumes "config_ok (DLLCONFIG w)" "consistent w st" "r < length (objects st)"
  shows "succeeds (VoIpSessions_Stop w r st) (grows w st)"
  using VoIpSessions_Stop_unlinks [OF assms] by (rule succeeds_mono) (simp add: grows_def unlinked_def)

lemma new_call_info_grows:
  assumes config: "config_ok (DLLCONFIG w)" and con: "consistent w st"
  shows "succeeds (new_call_info w info p cid st) (grows w st)"
proof -
  obtain r st1 where create: "create_session w st = (r, st1)" by fastforce
  then have r: "r = length (objects st)" and st1: "fresh w st st1" using fresh_create by blast+
  define st2 where "st2 = change r (\<lambda>ss. ss\<lparr>m_callId := cid, m_endPointIp := ip_dest p, m_endPointSignallingPort := tcp_dest p,
                                  m_protocol := ProtSkinny, m_skinnyLastCallInfoTime := now_us w\<rparr>) st1"
  define st3 where "st3 = call (VoIpSession_ReportSkinnyCallInfo w (callingPartyName info) (ip_src p)) r (update_call_info w info r st2)"
  have "fresh w st st2"
    unfolding st2_def r by (rule fresh_change [OF st1]) (simp_all add: wf_session_def decoders_ok_def)
  then have "fresh w st st3"
    unfolding st3_def r by (intro fresh_call fresh_update_call_info) (simp_all add: frame)
  note new = fresh_grows(1) [OF this con] fresh_grows(2) [OF this, folded r]
  have stop: "succeeds (VoIpSessions_Stop w previous st3) (grows w st3)" if "findNewestRtpByEndpointIp st3 (ip_dest p) = Some previous" for previous
    by (rule stop_grows [OF config grows_consistent [OF new(1)] findNewestRtpByEndpointIp_valid [OF grows_consistent [OF new(1)] that]])
  have insert: "succeeds (Inr (st4\<lparr>m_byCallId := map_insert (m_callId (session st4 r)) r (m_byCallId st4)\<rparr>)) (grows w st4)"
    if "grows w st3 st4" for st4
    using by_call_id_insert_grows [OF grows_consistent [OF that] grows_valid [OF that new(2)]] by simp
  have "succeeds (new_call_info w info p cid st) (grows w st3)"
    unfolding new_call_info_def create Let_def prod.case st2_def [symmetric] st3_def [symmetric]
    by (rule grows_andThen [OF _ insert])
      (auto simp: grows_refl grows_consistent [OF new(1)] stop split: option.split)
  then show ?thesis by (rule grows_after [OF new(1)])
qed

lemma find_member: "List.find P xs = Some x \<Longrightarrow> x \<in> set xs"
  by (auto simp: find_Some_iff)

lemma find_by_endpoint_valid:
  "consistent w st \<Longrightarrow> findByEndpointIpUsingIpAndPort st ip = Some r \<Longrightarrow> r < length (objects st)"
  "consistent w st \<Longrightarrow> findByEndpointIp st ip party = Some r \<Longrightarrow> r < length (objects st)"
  by (auto simp: findByEndpointIpUsingIpAndPort_def findByEndpointIp_def consistent_def coherent_def dest!: find_member)

lemma ReportSkinnyCallInfo_grows:
  assumes config: "config_ok (DLLCONFIG w)" and con: "consistent w st"
  shows "succeeds (ReportSkinnyCallInfo w info p st) (grows w st)"
proof -
  let ?st1 = "UpdateEndpointWithCallInfo w info p st"
  note st1 = endpoint_updates_grow(2) [OF con, of info p]
  note con1 = grows_consistent [OF st1]
  note late = find_by_endpoint_valid(1) [OF con1]
  have "succeeds (ReportSkinnyCallInfo w info p st) (grows w ?st1)"
    unfolding ReportSkinnyCallInfo_def Let_def
    by (auto simp: existing_call_info_grows late_call_info_grows late new_call_info_grows con1 config by_call_id_valid [OF con1]
        split: option.split)
  then show ?thesis by (rule grows_after [OF st1])
qed

lemma entries_valid:
  "consistent w st \<Longrightarrow> (a, r) \<in> set (m_byIpAndPort st) \<Longrightarrow> r < length (objects st)"
  "consistent w st \<Longrightarrow> (cid, r) \<in> set (m_byCallId st) \<Longrightarrow> r < length (objects st)"
  by (auto simp: consistent_def coherent_def)

lemma newest_loop_member: "newest_loop candidate time rs found = Some r \<Longrightarrow> r \<in> set rs \<or> found = Some r"
  by (induction candidate time rs found rule: newest_loop.induct) (auto split: if_splits option.splits)

lemma findNewestByEndpoint_valid:
  "consistent w st \<Longrightarrow> findNewestByEndpoint w' st ip port = Some r \<Longrightarrow> r < length (objects st)"
  using newest_loop_member entries_valid(2) by (fastforce simp: findNewestByEndpoint_def)

section \<open>Media messages\<close>

lemma new_media_session_grows:
  assumes config: "config_ok (DLLCONFIG w)" and con: "consistent w st"
  shows "succeeds (new_media_session w ip port party ep mediaIp mediaPort st) (grows w st)"
proof -
  obtain r st1 where create: "create_session w st = (r, st1)" by fastforce
  then have r: "r = length (objects st)" and st1: "fresh w st st1" using fresh_create by blast+
  have "fresh w st (change r (\<lambda>ss. ss\<lparr>m_endPointIp := ip, m_endPointSignallingPort := port, m_protocol := ProtSkinny,
      m_skinnyPassThruPartyId := i, m_localParty := s\<rparr>) st1)" for i s
    unfolding r by (rule fresh_change [OF st1]) (simp_all add: wf_session_def decoders_ok_def)
  note new = fresh_grows(1) [OF this con] fresh_grows(2) [OF this, folded r]
  show ?thesis
    unfolding new_media_session_def create Let_def prod.case
    by (rule grows_after [OF new(1) SetMediaAddress_grows [OF config grows_consistent [OF new(1)] new(2)]])
qed

lemma bind_party_grows:
  assumes config: "config_ok (DLLCONFIG w)" and con: "consistent w st" "r < length (objects st)"
  shows "succeeds (SetMediaAddress w r ip port (change r (\<lambda>ss. ss\<lparr>m_skinnyPassThruPartyId := party\<rparr>) st)) (grows w st)"
proof -
  have st1: "grows w st (change r (\<lambda>ss. ss\<lparr>m_skinnyPassThruPartyId := party\<rparr>) st)"
    by (rule change_grows [OF _ _ con]) (simp_all add: identity_of_def wf_session_def decoders_ok_def)
  show ?thesis
    by (rule grows_after [OF st1 SetMediaAddress_grows [OF config grows_consistent [OF st1] grows_valid [OF st1 con(2)]]])
qed

lemma media_messages_grow:
  assumes config: "config_ok (DLLCONFIG w)" and con: "consistent w st"
  shows "succeeds (ReportSkinnyOpenReceiveChannelAck w ip port party p st) (grows w st)"
    "succeeds (ReportSkinnyStartMediaTransmission w ip port party p st) (grows w st)"
  by (simp_all add: ReportSkinnyOpenReceiveChannelAck_def ReportSkinnyStartMediaTransmission_def bind_party_grows config con
      new_media_session_grows grows_refl findNewestByEndpoint_valid [OF con] split: option.split)

lemma ReportSkinnyStopMediaTransmission_grows:
  assumes config: "config_ok (DLLCONFIG w)" and con: "consistent w st"
  shows "succeeds (ReportSkinnyStopMediaTransmission w conference party p st) (grows w st)"
  using stop_grows [OF config con] find_by_endpoint_valid(2) [OF con] by_call_id_valid [OF con] grows_refl [OF con]
  by (auto simp: ReportSkinnyStopMediaTransmission_def Let_def split: option.split)

section \<open>Call state and soft keys\<close>

lemma ReportSkinnyCallStateMessage_grows: "consistent w st \<Longrightarrow> grows w st (ReportSkinnyCallStateMessage w s cid p st)"
  using call_grows [OF skinny_call_state.session_method_axioms] by_call_id_valid
  by (auto simp: ReportSkinnyCallStateMessage_def grows_refl split: option.split)

lemma ReportSkinnySoftKeyHold_grows: "consistent w st \<Longrightarrow> grows w st (ReportSkinnySoftKeyHold w cid p st)"
  using call_grows [OF go_on_hold.session_method_axioms] by_call_id_valid
  by (auto simp: ReportSkinnySoftKeyHold_def grows_refl split: option.split)

lemma ReportSkinnySoftKeyResume_grows:
  assumes con: "consistent w st"
  shows "grows w st (ReportSkinnySoftKeyResume w cid p st)"
proof -
  have "grows w st (change r (\<lambda>ss. ss\<lparr>m_lastUpdated := time_now w\<rparr>) (call (GoOffHold w (time_now w)) r st))"
    if r: "r < length (objects st)" for r
  proof -
    have off: "grows w st (call (GoOffHold w (time_now w)) r st)"
      by (rule call_grows [OF go_off_hold.session_method_axioms _ con r]) simp
    show ?thesis
      by (rule grows_trans [OF off change_grows [OF _ _ grows_consistent [OF off] grows_valid [OF off r]]])
        (simp_all add: identity_of_def wf_session_def decoders_ok_def)
  qed
  then show ?thesis
    using by_call_id_valid [OF con] grows_refl [OF con] by (auto simp: ReportSkinnySoftKeyResume_def split: option.split)
qed

interpretation report_key: session_method w True "\<lambda>c. Inr (key_value k v c)"
  by (rule session_method_frame) (rule frame)

lemma ReportSkinnySoftKeyConfPressed_grows:
  assumes con: "consistent w st"
  shows "grows w st (ReportSkinnySoftKeyConfPressed w ip p st)"
proof -
  have tagged: "grows w st (call (key_value k v) r (update_endpoints f st))" if r: "r < length (objects st)" for k v r f
  proof -
    note ends = update_endpoints_grows [OF con, of f]
    show ?thesis
      by (rule grows_trans [OF ends call_grows [OF report_key.session_method_axioms _ grows_consistent [OF ends] grows_valid [OF ends r]]]) simp
  qed
  have then_ends: "grows w st (update_endpoints f st1)" if "grows w st st1" for st1 f
    by (rule grows_trans [OF that update_endpoints_grows [OF grows_consistent [OF that]]])
  show ?thesis
    using tagged then_ends by_call_id_valid [OF con] grows_refl [OF con]
    by (auto simp: ReportSkinnySoftKeyConfPressed_def Let_def split: option.split)
qed

lemma ReportSkinnySoftKeySetTransfConnected_grows:
  assumes config: "config_ok (DLLCONFIG w)" and con: "consistent w st"
  shows "succeeds (ReportSkinnySoftKeySetTransfConnected w cid p st) (grows w st)"
  using stop_grows [OF config con] by_call_id_valid [OF con] grows_refl [OF con]
  by (auto simp: ReportSkinnySoftKeySetTransfConnected_def split: option.split)

section \<open>RTP without media messages\<close>

lemma SkinnyFindMostLikelySessionForRtp_grows:
  assumes config: "config_ok (DLLCONFIG w)" and con: "consistent w st"
  shows "succeeds (SkinnyFindMostLikelySessionForRtp w p st) (\<lambda>(_, _, st'). grows w st st')"
proof -
  have bind: "succeeds (andThen (SetMediaAddress w r ip port (change r (\<lambda>ss. ss\<lparr>m_endPointSignallingPort := q\<rparr>) st))
      (\<lambda>st2. Inr (True, ep, st2))) (\<lambda>(_, _, st'). grows w st st')" if r: "r < length (objects st)" for r ip port q and ep :: "VoIpEndpointInfo option"
  proof -
    have st1: "grows w st (change r (\<lambda>ss. ss\<lparr>m_endPointSignallingPort := q\<rparr>) st)"
      by (rule change_grows [OF _ _ con r]) (simp_all add: identity_of_def wf_session_def decoders_ok_def)
    show ?thesis
      by (rule succeeds_andThen [OF grows_after [OF st1 SetMediaAddress_grows [OF config grows_consistent [OF st1] grows_valid [OF st1 r]]]]) simp
  qed
  show ?thesis
    using bind by_call_id_valid [OF con] grows_refl [OF con]
    by (auto simp: SkinnyFindMostLikelySessionForRtp_def Let_def split: option.split)
qed

lemma nat_loop_member: "nat_loop st p rs latest found = (t, Some r) \<Longrightarrow> r \<in> set rs \<or> found = Some r"
  by (induction st p rs latest found rule: nat_loop.induct) (auto simp: Let_def split: if_splits)

lemma SkinnyFindMostLikelySessionForRtpBehindNat_grows:
  assumes config: "config_ok (DLLCONFIG w)" and con: "consistent w st"
  shows "succeeds (SkinnyFindMostLikelySessionForRtpBehindNat w p st) (\<lambda>(_, st'). grows w st st')"
proof (cases "nat_loop st p (map snd (m_byCallId st)) (now_us w) None")
  case (Pair latest found)
  show ?thesis
  proof (cases found)
    case (Some r)
    then have "r \<in> set (map snd (m_byCallId st))" using Pair by (auto dest!: nat_loop_member)
    then have r: "r < length (objects st)" using entries_valid(2) [OF con] by auto
    have "succeeds (andThen (SetMediaAddress w r ip port st) (\<lambda>st1. Inr (True, st1))) (\<lambda>(_, st'). grows w st st')" for ip port
      by (rule succeeds_andThen [OF SetMediaAddress_grows [OF config con r]]) simp
    then show ?thesis
      using Some Pair by (simp add: SkinnyFindMostLikelySessionForRtpBehindNat_def grows_refl con)
  qed (use Pair con in \<open>simp add: SkinnyFindMostLikelySessionForRtpBehindNat_def grows_refl\<close>)
qed

end
