(* ===== verification/VoipDispatchProps.thy ===== *)
theory VoipDispatchProps
  imports VoipDispatch VoipSkinnyProps
begin

text \<open>RTP packets and the commands of the capture interface keep the tables consistent and do not fault.\<close>

section \<open>RTP and RTCP\<close>

lemma ReportRtcpSrcDescription_grows:
  assumes "consistent w st"
  shows "grows w st (snd (ReportRtcpSrcDescription w info st))"
  using call_grows [OF rtcp.session_method_axioms _ assms] by_address_valid [OF assms] grows_refl [OF assms]
  by (auto simp: ReportRtcpSrcDescription_def findByMediaAddress_def split: option.split)

lemma recorded_packet_packet:
  "recorded_packet w p ch c = Inr (b, p', c') \<Longrightarrow> p' = p \<or> p' = speex_type w p"
  by (auto simp: recorded_packet_def Let_def andThen_eq_Inr_iff split: if_splits prod.splits)

lemma kept_packet_packet:
  "kept_packet w p c = Inr (b, p', c') \<Longrightarrow> p' = p \<or> p' = speex_type w p"
  by (auto simp: kept_packet_def Let_def andThen_eq_Inr_iff dest: recorded_packet_packet
      split: if_splits option.splits prod.splits packet_outcome.splits)

lemma AddRtpPacket_packet:
  "AddRtpPacket w p c = Inr (b, p', c') \<Longrightarrow> p' = p \<or> p' = speex_type w p"
  by (auto simp: AddRtpPacket_def Let_def andThen_eq_Inr_iff dest: kept_packet_packet split: if_splits)

lemma AddRtpPacket_grows:
  assumes "config_ok (DLLCONFIG w)" "packet_ok w p" "consistent w st" "r < length (objects st)"
  shows "succeeds (AddRtpPacket w p (call_of st r)) (\<lambda>(b, p', c). packet_ok w p' \<and> grows w st (return_of r c st))"
proof -
  have "wf_session w (call_of st r)" using assms(3,4) session_wf by simp
  then obtain b p' c where add: "AddRtpPacket w p (call_of st r) = Inr (b, p', c)" "kept w (call_of st r) c"
    using AddRtpPacket_kept [OF assms(1) _ assms(2), of "call_of st r"] by (auto simp: succeeds_def)
  then show ?thesis
    using AddRtpPacket_packet [OF add(1)] keeps_tables_grows [OF kept_returns [OF add(2) assms(3,4)]] assms(2)
    by (auto simp: speex_type_def packet_ok_def pt_SPEEX_def)
qed

lemma give_packet_grows:
  assumes config: "config_ok (DLLCONFIG w)" and p: "packet_ok w p" and con: "consistent w st"
    and found: "\<forall>r. found = Some r \<longrightarrow> r < length (objects st)"
  shows "succeeds (give_packet w found p st) (\<lambda>(n, p', st'). n \<le> 1 \<and> (found = None \<longrightarrow> n = 0) \<and> packet_ok w p' \<and> grows w st st')"
proof (cases found)
  case (Some r)
  then have r: "r < length (objects st)" using found by simp
  have step: "succeeds (if b then Inr (1, p', return_of r c st)
        else andThen (VoIpSessions_Stop w r (return_of r c st)) (\<lambda>st1. Inr (0, p', st1)))
      (\<lambda>(n, p', st'). n \<le> (1::nat) \<and> packet_ok w p' \<and> grows w st st')"
    if "packet_ok w p'" "grows w st (return_of r c st)" for b p' c
  proof -
    have stop: "succeeds (VoIpSessions_Stop w r (return_of r c st)) (grows w st)"
      by (rule grows_after [OF that(2) stop_grows [OF config grows_consistent [OF that(2)] grows_valid [OF that(2) r]]])
    show ?thesis
      by (rule succeeds_if) (use that in simp, rule succeeds_andThen [OF stop], use that in simp)
  qed
  show ?thesis
    unfolding give_packet_def Some option.case
    by (rule succeeds_andThen [OF AddRtpPacket_grows [OF config p con r]]) (clarify, rule succeeds_mono [OF step], auto)
qed (use con p in \<open>simp add: give_packet_def grows_refl\<close>)

lemma merge_sessions_grows:
  assumes config: "config_ok (DLLCONFIG w)" and con: "consistent w st" and r: "r1 < length (objects st)" "r2 < length (objects st)"
  shows "succeeds (merge_sessions w p r1 r2 st) (grows w st)"
proof -
  have erase: "grows w st (st\<lparr>m_byIpAndPort := map_erase a (m_byIpAndPort st)\<rparr>)" for a
    using con by (simp add: grows_def consistent_def coherent_erase)
  then have "grows w st (take_over w p r1 r2 st)" using grows_refl [OF con] by (simp add: take_over_def)
  moreover have "mergee w p r1 r2 st < length (objects st)" using r by (simp add: mergee_def Let_def)
  ultimately show ?thesis using stop_grows [OF config con] by (simp add: merge_sessions_def)
qed

lemma track_session_grows:
  assumes config: "config_ok (DLLCONFIG w)" and con: "consistent w st" and r: "r < length (objects st)"
  shows "succeeds (track_session w p tracked r st) (grows w st)"
proof -
  have set: "succeeds (SetMediaAddress w r ip port st1) (grows w st1)" if "grows w st st1" for ip port st1
    by (rule SetMediaAddress_grows [OF config grows_consistent [OF that] grows_valid [OF that r]])
  have "succeeds (if m_mediaAddressUseSecondRtpAddress (DLLCONFIG w) then
          if tracked then SetMediaAddress w r (m_destIp p) (m_destPort p) st
          else SetMediaAddress w r (m_sourceIp p) (m_sourcePort p) st
        else Inr st) (grows w st)"
    using set [OF grows_refl [OF con]] grows_refl [OF con] by simp
  then show ?thesis
    unfolding track_session_def
    by (rule grows_andThen) (simp add: set grows_refl grows_consistent)
qed

lemma new_raw_session_grows:
  assumes config: "config_ok (DLLCONFIG w)" and p: "packet_ok w p" and con: "consistent w st"
  shows "succeeds (new_raw_session w p endpoint st) (grows w st)"
proof -
  obtain r st1 where create: "create_session w st = (r, st1)" by fastforce
  obtain ip port where address: "raw_rtp_address w p = (ip, port)" by fastforce
  from create have r: "r = length (objects st)" and st1: "fresh w st st1" using fresh_create by blast+
  have "fresh w st (change r (\<lambda>ss. ss\<lparr>m_protocol := ProtRawRtp, m_endPointIp := ip\<rparr>) st1)"
    unfolding r by (rule fresh_change [OF st1]) (simp_all add: wf_session_def decoders_ok_def)
  note new = fresh_grows(1) [OF this con] fresh_grows(2) [OF this, folded r]
  have parties: "grows w st2 (case endpoint of None \<Rightarrow> st2 | Some ep \<Rightarrow> change r (endpoint_parties p' ep) st2)"
    if "consistent w st2" "r < length (objects st2)" for st2 p'
    using change_grows [OF _ _ that, of "endpoint_parties p' ep" for ep] grows_refl [OF that(1)]
    by (auto simp: endpoint_parties_def identity_of_def wf_session_def decoders_ok_def split: option.split)
  have add: "succeeds (andThen (AddRtpPacket w p (call_of st2 r)) (\<lambda>(_, p', c).
      let st3 = return_of r c st2
      in Inr (case endpoint of None \<Rightarrow> st3 | Some ep \<Rightarrow> change r (endpoint_parties p' ep) st3))) (grows w st2)"
    if "grows w (change r (\<lambda>ss. ss\<lparr>m_protocol := ProtRawRtp, m_endPointIp := ip\<rparr>) st1) st2" for st2
  proof -
    note st2 = grows_consistent [OF that] grows_valid [OF that new(2)]
    show ?thesis
    proof (rule succeeds_andThen [OF AddRtpPacket_grows [OF config p st2]], clarify)
      fix p' c assume st3: "grows w st2 (return_of r c st2)"
      show "succeeds (let st3 = return_of r c st2
        in Inr (case endpoint of None \<Rightarrow> st3 | Some ep \<Rightarrow> change r (endpoint_parties p' ep) st3)) (grows w st2)"
        unfolding Let_def succeeds_Inr
        by (rule grows_trans [OF st3 parties [OF grows_consistent [OF st3] grows_valid [OF st3 st2(2)]]])
    qed
  qed
  show ?thesis
    unfolding new_raw_session_def create address prod.case
    by (rule grows_after [OF new(1) grows_andThen [OF SetMediaAddress_grows [OF config grows_consistent [OF new(1)] new(2)] add]])
qed

lemma unclaimed_packet_grows:
  assumes config: "config_ok (DLLCONFIG w)" and p: "packet_ok w p" and con: "consistent w st"
  shows "succeeds (unclaimed_packet w p st) (grows w st)"
proof -
  have nat: "succeeds (andThen (SkinnyFindMostLikelySessionForRtpBehindNat w p st) (\<lambda>(found, st1). Inr (found, None, st1)))
      (\<lambda>(_, _ :: VoIpEndpointInfo option, st'). grows w st st')"
    by (rule succeeds_andThen [OF SkinnyFindMostLikelySessionForRtpBehindNat_grows [OF config con]]) auto
  have "succeeds (search_call_info w p st) (\<lambda>(_, _, st'). grows w st st')"
    using SkinnyFindMostLikelySessionForRtp_grows [OF config con] nat grows_refl [OF con] by (simp add: search_call_info_def)
  then have "succeeds (andThen (search_call_info w p st) (\<lambda>(found, endpoint, st1).
        if found then Inr st1 else new_raw_session w p endpoint st1)) (grows w st)"
    by (rule succeeds_andThen) (auto intro!: grows_after [OF _ new_raw_session_grows [OF config p]] dest: grows_consistent)
  then show ?thesis using grows_refl [OF con] by (simp add: unclaimed_packet_def)
qed

lemma found_address_valid: "consistent w st \<Longrightarrow> \<forall>r. findByMediaAddress w st ip port = Some r \<longrightarrow> r < length (objects st)"
  by (simp add: findByMediaAddress_def by_address_valid)

lemma settle_packet_grows:
  assumes config: "config_ok (DLLCONFIG w)" and p: "packet_ok w p" and con: "consistent w st"
    and valid: "\<forall>r. session1 = Some r \<longrightarrow> r < length (objects st)" "\<forall>r. session2 = Some r \<longrightarrow> r < length (objects st)"
  shows "succeeds (settle_packet w p session1 n1 session2 n2 st) (grows w st)"
  using valid by (auto simp: settle_packet_def merge_sessions_grows track_session_grows unclaimed_packet_grows config p con grows_refl
      split: option.split)

lemma ReportRtpPacket_grows:
  assumes config: "config_ok (DLLCONFIG w)" and packet: "packet_ok w packet" and con: "consistent w st"
  shows "succeeds (ReportRtpPacket w packet st) (grows w st)"
proof -
  let ?p = "sangoma_packet w packet"
  let ?session1 = "findByMediaAddress w st (m_sourceIp ?p) (m_sourcePort ?p)"
  let ?rest = "\<lambda>n1 p1 st1. let session2 = findByMediaAddress w st1 (m_destIp p1) (m_destPort p1)
      in andThen (give_packet w session2 p1 st1) (\<lambda>(n2, p2, st2). settle_packet w p2 ?session1 n1 session2 n2 st2)"
  have p: "packet_ok w ?p" using packet by (simp add: packet_ok_def sangoma_packet_def Let_def)
  have rest: "succeeds (?rest n1 p1 st1) (grows w st1)" if p1: "packet_ok w p1" and st1: "grows w st st1" for n1 p1 st1
  proof -
    note con1 = grows_consistent [OF st1]
    let ?session2 = "findByMediaAddress w st1 (m_destIp p1) (m_destPort p1)"
    have "succeeds (settle_packet w p2 ?session1 n1 ?session2 n2 st2) (grows w st1)"
      if p2: "packet_ok w p2" and st2: "grows w st1 st2" for n2 p2 st2
      using found_address_valid [OF con] found_address_valid [OF con1] grows_valid [OF grows_trans [OF st1 st2]] grows_valid [OF st2]
      by (intro grows_after [OF st2 settle_packet_grows [OF config p2 grows_consistent [OF st2]]]) blast+
    then show ?thesis
      unfolding Let_def
      by (intro succeeds_andThen [OF give_packet_grows [OF config p1 con1 found_address_valid [OF con1]]]) auto
  qed
  show ?thesis
    unfolding ReportRtpPacket_def Let_def
    by (intro succeeds_andThen [OF give_packet_grows [OF config p con found_address_valid [OF con]]])
      (use rest in \<open>auto simp: Let_def intro: grows_after\<close>)
qed

section \<open>URLs and markers\<close>

text \<open>Every escape is complete.\<close>

fun escapes_ok :: "string \<Rightarrow> bool" where
  "escapes_ok [] = True"
| "escapes_ok (c # cs) =
     (if c = CHR 0x25 then
        (case cs of
           [] \<Rightarrow> False
         | a # as \<Rightarrow> if a = CHR 0x25 then escapes_ok as else (case as of [] \<Rightarrow> False | b # bs \<Rightarrow> escapes_ok bs))
      else escapes_ok cs)"

lemma UnEscapeUrl_cases:
  "if escapes_ok val then \<exists>v. UnEscapeUrl val out = Inr v else UnEscapeUrl val out = Inl (Thrown ''out_of_range'')"
proof (induction val out rule: UnEscapeUrl.induct)
  case (2 c cs out)
  show ?case
  proof (cases "c = CHR 0x25")
    case percent: True
    show ?thesis
    proof (cases cs)
      case (Cons a as)
      show ?thesis
      proof (cases "a = CHR 0x25")
        case True
        then show ?thesis using 2(2) [OF _ percent Cons True] percent Cons by simp
      next
        case False
        then show ?thesis using 2(3) [OF _ percent Cons False] percent Cons by (cases as) simp_all
      qed
    qed (use percent in simp)
  next
    case False
    then show ?thesis using 2(1) 2(4) by (cases "c = CHR ''+''") simp_all
  qed
qed simp

text \<open>The values that the loop stores, in order.\<close>

fun url_values :: "string \<Rightarrow> UrlState \<times> string \<times> string \<Rightarrow> string list" where
  "url_values [] s = []"
| "url_values (c # cs) s =
     (if fst s = UrlErrorState then []
      else case url_step c s of (state, key, val) \<Rightarrow>
        if (state = UrlStartState \<or> cs = []) \<and> key \<noteq> '''' then val # url_values cs (state, [], [])
        else url_values cs (state, key, val))"

lemma store_url_value_grows: "consistent w st \<Longrightarrow> grows w st (store_url_value w ip key v st)"
  unfolding store_url_value_def Let_def by (rule update_endpoints_grows)

lemma url_loop_cases:
  "consistent w st \<Longrightarrow> if list_all escapes_ok (url_values cs s) then succeeds (url_loop w ip cs s st) (grows w st)
     else url_loop w ip cs s st = Inl (Thrown ''out_of_range'')"
proof (induction cs arbitrary: s st)
  case (Cons c cs)
  obtain state key val where step: "url_step c s = (state, key, val)" by (metis prod.exhaust)
  show ?case
  proof (cases "fst s \<noteq> UrlErrorState \<and> (state = UrlStartState \<or> cs = []) \<and> key \<noteq> ''''")
    case stored: True
    show ?thesis
    proof (cases "escapes_ok val")
      case True
      then obtain v where v: "UnEscapeUrl val [] = Inr v" using UnEscapeUrl_cases [of val "[]"] by auto
      let ?st = "store_url_value w ip key v st"
      have st: "grows w st ?st" by (rule store_url_value_grows [OF Cons.prems])
      have "url_loop w ip (c # cs) s st = url_loop w ip cs (state, [], []) ?st" using stored step v by simp
      moreover have "list_all escapes_ok (url_values (c # cs) s) = list_all escapes_ok (url_values cs (state, [], []))"
        using stored step True by simp
      ultimately show ?thesis
        using Cons.IH [OF grows_consistent [OF st], of "(state, [], [])"] grows_after [OF st] by (simp split: if_splits)
    next
      case False
      then show ?thesis using UnEscapeUrl_cases [of val "[]"] stored step by simp
    qed
  next
    case False
    then show ?thesis using Cons.IH [OF Cons.prems, of "(state, key, val)"] step grows_refl [OF Cons.prems]
      by (cases "fst s = UrlErrorState") auto
  qed
qed (simp add: grows_refl)

definition url_ok :: "string \<Rightarrow> bool" where
  "url_ok input \<longleftrightarrow> list_all escapes_ok (url_values (trim input) (UrlStartState, [], []))"

lemma UrlExtraction_cases:
  "consistent w st \<Longrightarrow> if url_ok input then succeeds (UrlExtraction w input ip st) (grows w st)
     else UrlExtraction w input ip st = Inl (Thrown ''out_of_range'')"
  unfolding UrlExtraction_def url_ok_def by (rule url_loop_cases)

lemma mark_kept_grows:
  assumes con: "consistent w st" "r < length (objects st)"
  shows "grows w st (call (\<lambda>c. send_all (MarkAsOnDemand side c)) r (change r (\<lambda>ss. ss\<lparr>m_keepRtp := True\<rparr>) st))"
proof -
  have st1: "grows w st (change r (\<lambda>ss. ss\<lparr>m_keepRtp := True\<rparr>) st)"
    by (rule change_grows [OF _ _ con]) (simp_all add: identity_of_def wf_session_def decoders_ok_def)
  show ?thesis
    by (rule grows_trans [OF st1 call_grows [OF mark_on_demand.session_method_axioms _ grows_consistent [OF st1] grows_valid [OF st1 con(2)]]]) simp
qed

lemma latest_rtp_loop_member: "latest_rtp_loop st rs latest chosen = Some r \<Longrightarrow> r \<in> set rs \<or> chosen = Some r"
  by (induction st rs latest chosen rule: latest_rtp_loop.induct) (auto split: if_splits)

lemma ReportOnDemandMarkerByIp_grows:
  assumes con: "consistent w st"
  shows "grows w st (ReportOnDemandMarkerByIp ip st)"
proof -
  have "r < length (objects st)" if "latest_rtp_loop st (filter P (map snd (m_byIpAndPort st))) 0 None = Some r" for P r
    using latest_rtp_loop_member [OF that] entries_valid(1) [OF con] by auto
  then show ?thesis
    using mark_kept_grows [OF con] grows_refl [OF con] by (auto simp: ReportOnDemandMarkerByIp_def Let_def split: option.split)
qed

section \<open>Expiry\<close>

lemma stop_each_grows:
  assumes "config_ok (DLLCONFIG w)" "consistent w st" "\<forall>r \<in> set rs. r < length (objects st)"
  shows "succeeds (stop_each w rs st) (grows w st)"
  using assms(2,3)
proof (induction rs arbitrary: st)
  case (Cons r rs)
  have "succeeds (stop_each w rs st1) (grows w st1)" if "grows w st st1" for st1
    using Cons.prems(2) grows_valid [OF that] by (intro Cons.IH grows_consistent [OF that]) auto
  then show ?case
    using Cons.prems by (auto intro!: grows_andThen stop_grows assms(1))
qed (simp add: grows_refl)

lemma Hoover_grows:
  assumes config: "config_ok (DLLCONFIG w)" and con: "consistent w st"
  shows "succeeds (Hoover w now st) (grows w st)"
  unfolding Hoover_def
proof (rule grows_andThen [OF stop_each_grows [OF config con]])
  show "\<forall>r \<in> set (filter (\<lambda>r. expired_rtp w now (session st r)) (map snd (m_byIpAndPort st))). r < length (objects st)"
    using entries_valid(1) [OF con] by auto
  fix st1 assume "grows w st st1"
  note con1 = grows_consistent [OF this]
  show "succeeds (stop_each w (filter (\<lambda>r. expired_call w now (session st1 r)) (map snd (m_byCallId st1))) st1) (grows w st1)"
    using entries_valid(2) [OF con1] by (intro stop_each_grows [OF config con1]) auto
qed

lemma StopAll_grows: "config_ok (DLLCONFIG w) \<Longrightarrow> consistent w st \<Longrightarrow> succeeds (StopAll w st) (grows w st)"
  unfolding StopAll_def by (rule Hoover_grows)

section \<open>Capture commands\<close>

lemma find_session_entry:
  assumes "consistent w st" "find_session matches st = Some r"
  shows "r < length (objects st)" "m_mediaAddresses (session st r) \<noteq> []" "matches (session st r)"
proof -
  obtain a where a: "(a, r) \<in> set (m_byIpAndPort st)" "matches (session st r)"
    using assms(2) by (auto simp: find_session_def find_Some_iff) (metis nth_mem)
  with assms(1) show "r < length (objects st)" "m_mediaAddresses (session st r) \<noteq> []" "matches (session st r)"
    by (auto simp: consistent_def coherent_def knows_address_def)
qed

lemma start_pause_capture_grows:
  assumes con: "consistent w st"
  shows "grows w st (snd (start_capture matches side st))" "grows w st (snd (pause_capture matches st))"
proof -
  have "grows w st (change r (\<lambda>ss. ss\<lparr>m_keepRtp := False\<rparr>) st)" if "r < length (objects st)" for r
    by (rule change_grows [OF _ _ con that]) (simp_all add: identity_of_def wf_session_def decoders_ok_def)
  with find_session_entry(1) [OF con] mark_kept_grows [OF con] grows_refl [OF con]
  show "grows w st (snd (start_capture matches side st))" "grows w st (snd (pause_capture matches st))"
    by (auto simp: start_capture_def pause_capture_def split: option.split)
qed

lemma by_address_insert_grows:
  assumes "consistent w st" "r < length (objects st)" "m_mediaAddresses (session st r) \<noteq> []"
  shows "grows w st (st\<lparr>m_byIpAndPort := map_insert (m_ipAndPort (session st r)) r (m_byIpAndPort st)\<rparr>)"
proof -
  have "set (map_insert k v m) \<subseteq> insert (k, v) (set m)" for k :: u64 and v :: nat and m
    by (induction k v m rule: map_insert.induct) auto
  then have new: "e = (m_ipAndPort (session st r), r) \<or> e \<in> set (m_byIpAndPort st)"
    if "e \<in> set (map_insert (m_ipAndPort (session st r)) r (m_byIpAndPort st))" for e using that by blast
  have "session st r \<in> set (objects st)" using assms(2) by (simp add: session_def)
  then have "knows_address w (session st r) (m_ipAndPort (session st r))"
    using assms by (auto simp: consistent_def coherent_def addresses_ok_def knows_address_def)
  then have "\<forall>(a, r') \<in> set (map_insert (m_ipAndPort (session st r)) r (m_byIpAndPort st)).
      r' < length (objects st) \<and> knows_address w (session st r') a"
    using assms(1,2) new by (fastforce simp: consistent_def coherent_def)
  with assms show ?thesis by (simp add: grows_def consistent_def coherent_def std_map session_def)
qed

text \<open>The session that goes on with the metadata of a well-formed one.\<close>

lemma CopyMetadataToNewSession_ok:
  assumes "wf_session w old" "addresses_ok old" "wf_session w new"
  shows "wf_session w (CopyMetadataToNewSession old new)" "addresses_ok (CopyMetadataToNewSession old new)"
    "m_mediaAddresses (CopyMetadataToNewSession old new) = m_mediaAddresses old"
  using assms by (simp_all add: CopyMetadataToNewSession_def wf_session_def decoders_ok_def addresses_ok_def)

lemma stop_capture_grows:
  assumes config: "config_ok (DLLCONFIG w)" and con: "consistent w st"
  shows "succeeds (stop_capture w matches st) (\<lambda>(_, _, st'). grows w st st')"
proof (cases "find_session matches st")
  case (Some r)
  note r = find_session_entry [OF con Some]
  obtain n st1 where create: "create_session w st = (n, st1)" by fastforce
  then obtain tid where n: "n = length (objects st)" and st1: "appended st (new_VoIpSession w tid) st1"
    using create_session_appended by blast
  have old: "session st1 r = session st r" using st1 r(1) by (simp add: appended_def session_def nth_append)
  let ?ss = "CopyMetadataToNewSession (session st1 r) (new_VoIpSession w tid)"
  let ?st2 = "change n (CopyMetadataToNewSession (session st1 r)) st1"
  have "session st r \<in> set (objects st)" using r(1) by (simp add: session_def)
  then have "wf_session w (session st1 r)" "addresses_ok (session st1 r)"
    using con by (auto simp: old consistent_def coherent_def)
  note ss = CopyMetadataToNewSession_ok [OF this new_VoIpSession_ok(1), of tid]
  have st2: "appended st ?ss ?st2" unfolding n by (rule appended_change [OF st1])
  note g2 = appended_addresses_grows [OF st2 con ss(1,2)]
  note con2 = grows_consistent [OF g2]
  have r2: "r < length (objects ?st2)" by (rule grows_valid [OF g2 r(1)])
  have n2: "n < length (objects ?st2)" "n \<noteq> r" using st2 r(1) by (auto simp: appended_def n)
  have m2: "m_mediaAddresses (session ?st2 n) \<noteq> []" using appended_session [OF st2] ss(3) r(2) old n by simp
  let ?rest = "\<lambda>st2. let st3 = st2\<lparr>m_byIpAndPort := map_insert (m_ipAndPort (session st2 n)) n (m_byIpAndPort st2)\<rparr>
           in Inr (m_orkUid (session st r), format_qos (session st2 r),
                st3\<lparr>m_byCallId := map_insert (m_callId (session st3 n)) n (m_byCallId st3)\<rparr>)"
  have "succeeds (andThen (VoIpSessions_Stop w r ?st2) ?rest) (\<lambda>(_, _, st'). grows w st st')"
  proof (rule succeeds_andThen [OF VoIpSessions_Stop_unlinks [OF config con2 r2]], elim conjE)
    fix st3 assume con3: "consistent w st3" and un: "unlinked r ?st2 st3"
    have g3: "grows w st st3" using g2 con3 un by (auto simp: grows_def unlinked_def)
    have n3: "n < length (objects st3)" using n2 un by (simp add: unlinked_def)
    have m3: "m_mediaAddresses (session st3 n) \<noteq> []"
      using un n2 m2 identity_fields(4) [of "session st3 n" "session ?st2 n"] by (simp add: unlinked_def)
    note g4 = grows_trans [OF g3 by_address_insert_grows [OF con3 n3 m3]]
    have n4: "n < length (objects (st3\<lparr>m_byIpAndPort := m\<rparr>))" for m using n3 by simp
    show "succeeds (?rest st3) (\<lambda>(_, _, st'). grows w st st')"
      unfolding Let_def succeeds_Inr prod.case
      by (rule grows_trans [OF g4 by_call_id_insert_grows [OF grows_consistent [OF g4] n4]])
  qed
  then show ?thesis unfolding stop_capture_def Some create option.case prod.case .
qed (use con in \<open>simp add: stop_capture_def grows_refl\<close>)

end
