(* ===== verification/VoipRun.thy ===== *)
theory VoipRun
  imports VoipDispatchProps
begin

text \<open>
  The session tables as a state machine: the messages, packets and commands that \<open>VoIp.cpp\<close> and the
  command processors hand to \<open>VoIpSessions\<close>, the states that sequences of them reach, and the invariant of
  these states. The clock of every event is in its \<open>World\<close>; the configuration is the same for all.
\<close>

section \<open>Events\<close>

datatype capture_key = ByParty string | ByOrkUid string | ByNativeCallId string

datatype voip_event =
    SipInvite SipInviteInfo
  | SipSubscribe SipSubscribeInfo
  | SipFailure SipFailureMessageInfo
  | SipProgress SipSessionProgressInfo
  | SipMoved Sip302MovedTemporarilyInfo
  | SipOk Sip200OkInfo
  | SipBye SipByeInfo
  | SipNotify SipNotifyInfo
  | SipInformation SipInfo
  | SipReferral SipRefer
  | SkinnyCallInfo SkCallInfo SkinnyPacket
  | SkinnyCallState u32 u32 SkinnyPacket
  | SkinnyOpenReceive u32 u32 u32 SkinnyPacket
  | SkinnyStartMedia u32 u32 u32 SkinnyPacket
  | SkinnyStopMedia u32 u32 SkinnyPacket
  | SkinnyLineStat string SkinnyPacket
  | SkinnyHold u32 SkinnyPacket
  | SkinnyResume u32 SkinnyPacket
  | SkinnyConfPressed u32 SkinnyPacket
  | SkinnyConfConnected u32 SkinnyPacket
  | SkinnyTransfConnected u32 SkinnyPacket
  | Rtp RtpPacketInfo
  | Rtcp RtcpSrcDescriptionPacketInfo
  | Url string u32
  | OnDemandMarker u32
  | Expire int
  | ExpireAll
  | StartCommand capture_key string
  | PauseCommand capture_key
  | StopCommand capture_key
  | MapParty string string
  | ClearParties
  | GlobalNumber string

definition handle_command :: "World \<Rightarrow> voip_event \<Rightarrow> VoIpSessions \<Rightarrow> VoIpSessions result" where
  "handle_command w e st =
     (case e of
        StartCommand (ByParty s) side \<Rightarrow> Inr (snd (StartCapture s side st))
      | StartCommand (ByOrkUid s) side \<Rightarrow> Inr (StartCaptureOrkuid s side st)
      | StartCommand (ByNativeCallId s) side \<Rightarrow> Inr (snd (StartCaptureNativeCallId s side st))
      | PauseCommand (ByParty s) \<Rightarrow> Inr (snd (PauseCapture s st))
      | PauseCommand (ByOrkUid s) \<Rightarrow> Inr (PauseCaptureOrkuid s st)
      | PauseCommand (ByNativeCallId s) \<Rightarrow> Inr (snd (PauseCaptureNativeCallId s st))
      | StopCommand (ByParty s) \<Rightarrow> andThen (StopCapture w s st) (\<lambda>(_, _, st1). Inr st1)
      | StopCommand (ByOrkUid s) \<Rightarrow> andThen (StopCaptureOrkuid w s st) (\<lambda>(_, st1). Inr st1)
      | StopCommand (ByNativeCallId s) \<Rightarrow> andThen (StopCaptureNativeCallId w s st) (\<lambda>(_, _, st1). Inr st1)
      | _ \<Rightarrow> Inr st)"

definition handle :: "World \<Rightarrow> voip_event \<Rightarrow> VoIpSessions \<Rightarrow> VoIpSessions result" where
  "handle w e st =
     (case e of
        SipInvite i \<Rightarrow> ReportSipInvite w i st
      | SipSubscribe i \<Rightarrow> Inr (ReportSipSubscribe i st)
      | SipFailure i \<Rightarrow> ReportSipErrorPacket w i st
      | SipProgress i \<Rightarrow> ReportSipSessionProgress w i st
      | SipMoved i \<Rightarrow> Inr (ReportSip302MovedTemporarily i st)
      | SipOk i \<Rightarrow> ReportSip200Ok w i st
      | SipBye i \<Rightarrow> ReportSipBye w i st
      | SipNotify i \<Rightarrow> ReportSipNotify w i st
      | SipInformation i \<Rightarrow> Inr (ReportSipInfo w i st)
      | SipReferral i \<Rightarrow> Inr (ReportSipRefer i st)
      | SkinnyCallInfo i p \<Rightarrow> ReportSkinnyCallInfo w i p st
      | SkinnyCallState s cid p \<Rightarrow> Inr (ReportSkinnyCallStateMessage w s cid p st)
      | SkinnyOpenReceive ip port party p \<Rightarrow> ReportSkinnyOpenReceiveChannelAck w ip port party p st
      | SkinnyStartMedia ip port party p \<Rightarrow> ReportSkinnyStartMediaTransmission w ip port party p st
      | SkinnyStopMedia conference party p \<Rightarrow> ReportSkinnyStopMediaTransmission w conference party p st
      | SkinnyLineStat number p \<Rightarrow> Inr (ReportSkinnyLineStat w number p st)
      | SkinnyHold cid p \<Rightarrow> Inr (ReportSkinnySoftKeyHold w cid p st)
      | SkinnyResume cid p \<Rightarrow> Inr (ReportSkinnySoftKeyResume w cid p st)
      | SkinnyConfPressed ip p \<Rightarrow> Inr (ReportSkinnySoftKeyConfPressed w ip p st)
      | SkinnyConfConnected ip p \<Rightarrow> Inr (ReportSkinnySoftKeySetConfConnected w ip p st)
      | SkinnyTransfConnected cid p \<Rightarrow> ReportSkinnySoftKeySetTransfConnected w cid p st
      | Rtp p \<Rightarrow> ReportRtpPacket w p st
      | Rtcp i \<Rightarrow> Inr (snd (ReportRtcpSrcDescription w i st))
      | Url input ip \<Rightarrow> UrlExtraction w input ip st
      | OnDemandMarker ip \<Rightarrow> Inr (ReportOnDemandMarkerByIp ip st)
      | Expire now \<Rightarrow> Hoover w now st
      | ExpireAll \<Rightarrow> StopAll w st
      | MapParty old new \<Rightarrow> Inr (st\<lparr>globals := SaveLocalPartyMap old new (globals st)\<rparr>)
      | ClearParties \<Rightarrow> Inr (st\<lparr>globals := ClearLocalPartyMap (globals st)\<rparr>)
      | GlobalNumber number \<Rightarrow> Inr (SaveSkinnyGlobalNumbersList number st)
      | _ \<Rightarrow> handle_command w e st)"

text \<open>
  What the packets themselves guarantee: an INVITE has the payload map that the parser builds (32 entries below 127, see
  \<open>reported_ok\<close>), an RTP packet a payload type of seven bits. The type 127, which has no decoder, is
  left out for the configurations that look decoders up here.
\<close>

definition delivered :: "World \<Rightarrow> voip_event \<Rightarrow> bool" where
  "delivered w e \<longleftrightarrow> (case e of SipInvite i \<Rightarrow> invite_ok i | Rtp p \<Rightarrow> packet_ok w p | _ \<Rightarrow> True)"

text \<open>
  The messages that the code does not survive, which the parsers do let through: an error response for a call without
  an INVITE, a NOTIFY whose line key is no index of the array of held parties and that stores or reads one, and a URL
  with an incomplete escape.
\<close>

definition fault_of :: "World \<Rightarrow> voip_event \<Rightarrow> VoIpSessions \<Rightarrow> fault option" where
  "fault_of w e st =
     (case e of
        SipFailure i \<Rightarrow> (if failure_ok i st then None else Some NullDereference)
      | SipNotify i \<Rightarrow> (if notify_ok w i st then None else Some OutOfBounds)
      | Url input ip \<Rightarrow> (if url_ok input then None else Some (Thrown ''out_of_range''))
      | _ \<Rightarrow> None)"

section \<open>Every event\<close>

lemma handle_command_grows:
  assumes config: "config_ok (DLLCONFIG w)" and con: "consistent w st"
  shows "succeeds (handle_command w e st) (grows w st)"
proof -
  note stop = stop_capture_grows [OF config con]
  have uid: "succeeds (StopCaptureOrkuid w s st) (\<lambda>(_, st'). grows w st st')" for s
    unfolding StopCaptureOrkuid_def by (rule succeeds_andThen [OF stop]) auto
  have "succeeds (andThen (StopCapture w s st) (\<lambda>(_, _, st1). Inr st1)) (grows w st)"
    "succeeds (andThen (StopCaptureOrkuid w s st) (\<lambda>(_, st1). Inr st1)) (grows w st)"
    "succeeds (andThen (StopCaptureNativeCallId w s st) (\<lambda>(_, _, st1). Inr st1)) (grows w st)" for s
    unfolding StopCapture_def StopCaptureNativeCallId_def
    by (rule succeeds_andThen [OF stop], force, rule succeeds_andThen [OF uid], force, rule succeeds_andThen [OF stop], force)
  with start_pause_capture_grows [OF con] grows_refl [OF con] show ?thesis
    by (cases e) (auto simp: handle_command_def StartCapture_def StartCaptureOrkuid_def StartCaptureNativeCallId_def
        PauseCapture_def PauseCaptureOrkuid_def PauseCaptureNativeCallId_def split: capture_key.split)
qed

lemma handle_cases:
  assumes config: "config_ok (DLLCONFIG w)" and con: "consistent w st" and sent: "delivered w e"
  shows "case fault_of w e st of None \<Rightarrow> succeeds (handle w e st) (grows w st) | Some f \<Rightarrow> handle w e st = Inl f"
proof -
  have globals: "grows w st (st\<lparr>globals := g\<rparr>)" for g
    by (rule consistent_other_fields) (simp_all add: con)
  note faults = ReportSipErrorPacket_cases [OF config con] ReportSipNotify_cases [OF config con] UrlExtraction_cases [OF con]
  show ?thesis
    using sent
    by (cases e)
      (use faults in \<open>simp_all add: handle_def fault_of_def delivered_def globals handle_command_grows config con ReportSipInvite_grows
        ReportSipSubscribe_grows ReportSipSessionProgress_grows ReportSip302MovedTemporarily_grows ReportSip200Ok_grows
        ReportSipBye_grows ReportSipInfo_grows ReportSipRefer_grows ReportSkinnyCallInfo_grows
        ReportSkinnyCallStateMessage_grows media_messages_grow ReportSkinnyStopMediaTransmission_grows endpoint_updates_grow
        ReportSkinnySoftKeyHold_grows ReportSkinnySoftKeyResume_grows ReportSkinnySoftKeyConfPressed_grows
        ReportSkinnySoftKeySetTransfConnected_grows ReportRtpPacket_grows ReportRtcpSrcDescription_grows
        ReportOnDemandMarkerByIp_grows Hoover_grows StopAll_grows split: if_splits\<close>)
qed

lemma handle_grows:
  assumes "config_ok (DLLCONFIG w)" "consistent w st" "delivered w e" "handle w e st = Inr st'"
  shows "grows w st st'"
  using handle_cases [OF assms(1-3)] assms(4) by (cases "fault_of w e st") simp_all

section \<open>Reachable states\<close>

inductive voip_reachable :: "VoIpConfig \<Rightarrow> VoIpSessions \<Rightarrow> bool" for config where
  start: "voip_reachable config (new_VoIpSessions counter)"
| event: "voip_reachable config st \<Longrightarrow> DLLCONFIG w = config \<Longrightarrow> delivered w e \<Longrightarrow> handle w e st = Inr st' \<Longrightarrow> voip_reachable config st'"

lemma consistent_config: "DLLCONFIG w' = DLLCONFIG w \<Longrightarrow> consistent w' st = consistent w st"
  by (simp add: consistent_def coherent_def wf_session_def knows_address_def)

lemma new_VoIpSessions_consistent: "consistent w (new_VoIpSessions counter)"
  by (simp add: consistent_def coherent_def new_VoIpSessions_def std_map)

lemma voip_reachable_consistent:
  assumes "voip_reachable config st" "config_ok config" "DLLCONFIG w = config"
  shows "consistent w st"
  using assms(1)
proof induction
  case (start counter)
  show ?case by (rule new_VoIpSessions_consistent)
next
  case (event st w' e st')
  have "consistent w' st" using consistent_config [of w' w] event assms(3) by simp
  with handle_grows [of w' st e st'] event assms have "grows w' st st'" by simp
  then show ?case using consistent_config [of w' w] event assms(3) by (simp add: grows_def)
qed

end
