(* ===== verification/VoipConfig.thy ===== *)
theory VoipConfig
  imports VoipFrame
begin

text \<open>
  The configuration of the VoIP plugin: \<open>audiocaptureplugins/voip/VoIpConfig.{h,cpp}\<close> and
  \<open>audiocaptureplugins/common/AcpConfig.{h,cpp}\<close>. \<open>VoIpSettings\<close> adds to the parameters that sessions read
  (\<open>VoIpConfig\<close> in \<open>VoipTypes\<close>) all others. Reading them from \<open>config.xml\<close> is in \<open>VoipConfigRead\<close>. \<open>garbage\<close> is the
  uninitialised memory that \<open>inet_pton4\<close> is given.
\<close>

section \<open>Parameters\<close>

datatype CtiMatchingCriteriaEnum =
    MatchLocalParty | MatchRemoteParty | MatchCtiRemoteParty | MatchUcid | MatchUcidTimestamp | MatchXrefci | MatchTag | MatchNone

record VoIpSettings = VoIpConfig +
  m_rtpS1MinNumPacketsBeforeStart :: int
  m_rtpS2MinNumPacketsBeforeStart :: int
  m_ctiDrivenEnable :: bool
  m_ctiDrivenMatchingTimeoutSec :: int
  m_ctiDrivenMatchingCriteria :: "string list"
  m_ctiDrivenStopIgnore :: bool
  m_ctiDrivenMatchingTapeMetadataTagPair :: "string list"
  m_ctiDrivenMatchingTapeTag :: string
  m_ctiDrivenMatchingMetadataTag :: string
  m_sipUcidFieldName :: string
  m_ctiDrivenEarlyStartReconsider :: bool
  m_ctiDrivenEarlyStartReconsiderTimeout :: int
  m_sipReportFullAddress :: bool
  m_ctiMatchingCriteriaList :: "CtiMatchingCriteriaEnum list"
  m_device :: string
  m_devices :: "string list"
  m_asciiLanMasks :: "string list"
  m_asciiRtpTrackUsingIpAddresses :: "string list"
  m_asciiAllowedIpRanges :: "string list"
  m_allowedIpRangePrefixes :: "u32 list"
  m_allowedIpRangeBitWidths :: "u32 list"
  m_asciiBlockedIpRanges :: "string list"
  m_blockedIpRangePrefixes :: "u32 list"
  m_blockedIpRangeBitWidths :: "u32 list"
  m_pcapFile :: string
  m_pcapDirectory :: string
  m_pcapRepeat :: bool
  m_sipDropIndirectInvite :: bool
  m_pcapSocketBufferSize :: int
  m_udpListenerSocketBufferSize :: int
  m_pcapFastReplay :: bool
  m_pcapFastReplaySleepUsPerSec :: int
  m_pcapTest :: bool
  m_pcapFilter :: string
  m_rtpDetectOnOddPorts :: bool
  m_rtpBlockedIpRanges :: IpRanges
  m_rtpPayloadTypeBlockList :: "(u32, u32) std_map"
  m_iax2Support :: bool
  m_iax2TreatCallerIdNameAsXUniqueId :: bool
  m_sipOverTcpSupport :: bool
  m_sipLogFailedCalls :: bool
  m_sipDetectSessionProgress :: bool
  m_sipIgnoreBye :: bool
  m_sipTreat200OkAsInvite :: bool
  m_sipAllowMultipleMediaAddresses :: bool
  m_sip302MovedTemporarilySupport :: bool
  m_sipDialedNumberFieldName :: string
  m_sipRemotePartyFieldName :: string
  m_sipGroupPickUpPattern :: string
  m_rtcpDetect :: bool
  m_cucm7_1Mode :: bool
  m_dnisNumbers :: "string list"
  m_sipExtractFields :: "string list"
  m_sipExtractKeyValues :: "string list"
  m_sangomaRxTcpPortStart :: int
  m_skinnyTcpPort :: int
  m_Iax2RewriteTimestamps :: bool
  m_urlExtractorPort :: int
  m_urlExtractorPattern :: string
  m_urlExtractorEndpointIsSender :: bool
  m_orekaEncapsulationMode :: bool
  m_orekaEncapsulationPort :: int
  m_orekaEncapsulationHost :: string
  m_onDemandTcpMarkerKey :: string
  m_onDemandTcpMarkerValue :: string
  m_udpMinPort :: int
  m_ipFragmentsReassemble :: bool
  m_necNotifyDispLine :: string
  m_necOnHoldMarker :: string
  m_necOffHoldMarker :: string
  m_mtuMaxSize :: int
  m_sipLocalPartyFieldName :: string

section \<open>Defaults\<close>

definition no_ranges :: IpRanges where
  "no_ranges = \<lparr>m_asciiIpRanges = [], m_ipRangePrefixes = [], m_ipRangeBitWidths = []\<rparr>"

definition standard_lan_ranges :: IpRanges where
  "standard_lan_ranges = no_ranges\<lparr>m_asciiIpRanges := [''10.0.0.0/8'', ''192.168.0.0/16'', ''172.16.0.0/20'']\<rparr>"

text \<open>
  \<open>VoIpConfig()\<close>, which calls \<open>Reset\<close> of both classes. The constructor leaves \<open>m_sangomaTcpPortDelta\<close>
  uninitialised.
\<close>

definition new_VoIpConfig :: "nat list \<Rightarrow> int \<Rightarrow> VoIpSettings result" where
  "new_VoIpConfig garbage delta =
     andThen (IpRanges_Compute garbage standard_lan_ranges) (\<lambda>lan. Inr \<lparr>
       m_onDemandViaDtmfDigitsString = '''', m_onDemandPauseViaDtmfDigitsString = '''', m_rtpReportDtmf = False,
       m_dtmfReportFullStringAsTag = False, m_rtpEventPayloadTypeDefaultValue = 0, m_rtpS1S2MappingDeterministic = False,
       m_rtpS1S2MappingDeterministicS1IsLocal = True, m_mediaGateways = no_ranges, m_sessionStartsOnS2ActivityDb = 0,
       m_sipRemotePartyFrom200OKEnable = False,
       m_lanMasks = [], m_rtpTrackUsingIpAddresses = [], m_rtpSessionTimeoutSec = 10,
       m_rtpSessionWithSignallingTimeoutSec = 10, m_rtpSessionOnHoldTimeOutSec = 1800,
       m_rtpSessionWithSignallingInitialTimeoutSec = 5 * 60, m_rtpDiscontinuityDetect = False,
       m_rtpDiscontinuityMinSeqDelta = 1000, m_rtpTrackByUdpPortOnly = False, m_rtpAllowMultipleMappings = True,
       m_rtpSeqGapThreshold = 500, m_sipUse200OkMediaAddress = True, m_sipDynamicMediaAddress = True,
       m_sipIgnoredMediaAddresses = no_ranges, m_sipNotifySupport = False, m_sipReportNamesAsTags = False,
       m_sipRequestUriAsLocalParty = True, m_sipInviteCanPutOffHold = False, m_sipCallPickUpSupport = False,
       m_sipOnDemandFieldName = ''X-record'', m_sipOnDemandFieldValue = '''', m_sipOnDemandFieldValueOff = '''',
       m_sipTrackMediaAddressOnSender = False, m_sipAllowMetadataUpdateOnRtpChange = False,
       m_sipAllowMediaAddressTransfer = False, m_inInMode = False, m_useMacIfNoLocalParty = False,
       m_localPartyForceLocalIp = False, m_localPartyForceLocalMac = False, m_localPartyUseName = False,
       m_partiesUseName = False, m_skinnyIgnoreStopMediaTransmission = True, m_skinnyIgnoreOpenReceiveChannelAck = False,
       m_skinnyDynamicMediaAddress = True, m_skinnyAllowCallInfoUpdate = True, m_skinnyAllowLateCallInfo = False,
       m_skinnyNameAsLocalParty = False, m_skinnyCallInfoStopsPrevious = False,
       m_skinnyCallInfoStopsPreviousToleranceSec = 3, m_skinnyReportTags = [], m_skinnyAllowMediaAddressTransfer = True,
       m_skinnyRtpSearchesForCallInfo = False, m_SkinnyTrackConferencesTransfers = False, m_skinnyBehindNat = False,
       m_skinnyIgnoreHold = False, m_sangomaEnable = False, m_sangomaTcpPortDelta = delta, m_sangomaTxTcpPortStart = 0,
       m_sipDomains = [], m_sipDirectionReferenceIpAddresses = no_ranges, m_sipDirectionReferenceUserAgents = [],
       m_lanIpRanges = lan, m_mediaAddressBlockedIpRanges = no_ranges, m_mediaAddressAllowedIpRanges = no_ranges,
       m_dahdiIntercept = False, m_holdReportStats = False, m_trackRawRtpSessionInNonLookBackMode = False,
       m_urlExtractorEnable = False, m_remotePartyUseExtractedKey = '''', m_rtpMinAmountOfPacketsBeforeStart = 50,
       m_rtpBreakupOnStreamPause = False, m_localPartyAddLocalIp = False, m_rtpLogAllSsrc = False,
       m_sipInfoDtmfRfc2976Detect = False, m_mediaAddressUseSecondRtpAddress = False, m_transferTimeOutInSec = 7200,
       m_rtpDtmfOnlyLocal = False, m_localPartyNameMapEnable = False,
       m_necVoipGatewayNames = [''sipphd'', ''trk001'', ''trk002''], m_sipMetadataUseLastInvite = False,
       m_rtpS1MinNumPacketsBeforeStart = 0, m_rtpS2MinNumPacketsBeforeStart = 0, m_ctiDrivenEnable = False,
       m_ctiDrivenMatchingTimeoutSec = 30, m_ctiDrivenMatchingCriteria = [], m_ctiDrivenStopIgnore = True,
       m_ctiDrivenMatchingTapeMetadataTagPair = [], m_ctiDrivenMatchingTapeTag = '''', m_ctiDrivenMatchingMetadataTag = '''',
       m_sipUcidFieldName = ''User-To-User'', m_ctiDrivenEarlyStartReconsider = False,
       m_ctiDrivenEarlyStartReconsiderTimeout = 2, m_sipReportFullAddress = False, m_ctiMatchingCriteriaList = [],
       m_device = '''', m_devices = [], m_asciiLanMasks = [''192.168.255.255'', ''10.255.255.255'', ''172.31.255.255''],
       m_asciiRtpTrackUsingIpAddresses = [], m_asciiAllowedIpRanges = [], m_allowedIpRangePrefixes = [],
       m_allowedIpRangeBitWidths = [], m_asciiBlockedIpRanges = [], m_blockedIpRangePrefixes = [],
       m_blockedIpRangeBitWidths = [], m_pcapFile = '''', m_pcapDirectory = '''', m_pcapRepeat = False,
       m_sipDropIndirectInvite = False, m_pcapSocketBufferSize = 67108864, m_udpListenerSocketBufferSize = 67108864,
       m_pcapFastReplay = True, m_pcapFastReplaySleepUsPerSec = 0, m_pcapTest = False, m_pcapFilter = '''',
       m_rtpDetectOnOddPorts = True, m_rtpBlockedIpRanges = no_ranges, m_rtpPayloadTypeBlockList = [], m_iax2Support = False,
       m_iax2TreatCallerIdNameAsXUniqueId = True, m_sipOverTcpSupport = True, m_sipLogFailedCalls = False,
       m_sipDetectSessionProgress = True, m_sipIgnoreBye = False, m_sipTreat200OkAsInvite = True,
       m_sipAllowMultipleMediaAddresses = False, m_sip302MovedTemporarilySupport = False, m_sipDialedNumberFieldName = '''',
       m_sipRemotePartyFieldName = '''', m_sipGroupPickUpPattern = '''', m_rtcpDetect = False, m_cucm7_1Mode = True,
       m_dnisNumbers = [], m_sipExtractFields = [], m_sipExtractKeyValues = [], m_sangomaRxTcpPortStart = 0,
       m_skinnyTcpPort = 2000, m_Iax2RewriteTimestamps = False, m_urlExtractorPort = 9080, m_urlExtractorPattern = '''',
       m_urlExtractorEndpointIsSender = True, m_orekaEncapsulationMode = False, m_orekaEncapsulationPort = 10002,
       m_orekaEncapsulationHost = '''', m_onDemandTcpMarkerKey = '''', m_onDemandTcpMarkerValue = '''', m_udpMinPort = 1024,
       m_ipFragmentsReassemble = False, m_necNotifyDispLine = ''Ind-DispLineN=3:Dsp:'',
       m_necOnHoldMarker = ''ffffff95ffffffdbffffff97ffffffaf'', m_necOffHoldMarker = ''ffffff89ffffff9effffff93ffffff9a'',
       m_mtuMaxSize = 18000, m_sipLocalPartyFieldName = ''x-Local-Extension:''\<rparr>)"


section \<open>Validation of the shared parameters\<close>

text \<open>One name of \<open>CtiDrivenMatchingCriteria\<close>. \<open>tag\<close> needs the pair of tags to match.\<close>

definition cti_criteria :: "string list \<Rightarrow> string \<Rightarrow> CtiMatchingCriteriaEnum" where
  "cti_criteria tagPair name =
     (if CompareNoCase_eq name ''localparty'' then MatchLocalParty
      else if CompareNoCase_eq name ''remoteparty'' then MatchRemoteParty
      else if CompareNoCase_eq name ''ctiremoteparty'' then MatchCtiRemoteParty
      else if CompareNoCase_eq name ''ucid'' then MatchUcid
      else if CompareNoCase_eq name ''ucid-timestamp'' then MatchUcidTimestamp
      else if CompareNoCase_eq name ''x-refci'' then MatchXrefci
      else if CompareNoCase_eq name ''tag'' then (if length tagPair = 2 then MatchTag else MatchNone)
      else MatchNone)"

fun cti_loop :: "string list \<Rightarrow> VoIpSettings \<Rightarrow> VoIpSettings" where
  "cti_loop [] s = s"
| "cti_loop (name # names) s =
     (let pair = m_ctiDrivenMatchingTapeMetadataTagPair s;
          criteria = cti_criteria pair name;
          s1 = (if criteria = MatchTag
                then s\<lparr>m_ctiDrivenMatchingTapeTag := hd pair, m_ctiDrivenMatchingMetadataTag := last pair\<rparr> else s)
      in cti_loop names
           (if criteria \<noteq> MatchNone then s1\<lparr>m_ctiMatchingCriteriaList := m_ctiMatchingCriteriaList s1 @ [criteria]\<rparr> else s1))"

definition default_criteria :: "VoIpSettings \<Rightarrow> VoIpSettings" where
  "default_criteria s = s\<lparr>m_ctiMatchingCriteriaList := m_ctiMatchingCriteriaList s @ [MatchUcid, MatchUcidTimestamp]\<rparr>"

definition cti_settings :: "VoIpSettings \<Rightarrow> VoIpSettings" where
  "cti_settings s =
     (if m_ctiDrivenEnable s then
        if m_ctiDrivenMatchingCriteria s \<noteq> [] then
          let s1 = cti_loop (m_ctiDrivenMatchingCriteria s) s
          in if m_ctiMatchingCriteriaList s1 = [] then default_criteria s1 else s1
        else default_criteria s
      else s)"

text \<open>The result also has the global \<open>CONFIG\<close>, of which one parameter is set. A thrown exception loses the settings.\<close>

definition AcpConfig_Validate :: "nat list \<Rightarrow> VoIpSettings \<times> OrkConfig \<Rightarrow> (VoIpSettings \<times> OrkConfig) result" where
  "AcpConfig_Validate garbage sc =
     (case sc of (s, c) \<Rightarrow>
      andThen (IpRanges_Compute garbage (m_mediaGateways s)) (\<lambda>gateways.
      let s1 = s\<lparr>m_mediaGateways := gateways\<rparr>;
          (s2, c2) = (if m_sessionStartsOnS2ActivityDb s1 \<noteq> 0
            then (s1\<lparr>m_rtpS1S2MappingDeterministic := True, m_rtpS1S2MappingDeterministicS1IsLocal := True\<rparr>,
                  c\<lparr>m_discardUnidirectionalCalls := True\<rparr>)
            else (s1, c));
          s3 = cti_settings s2
      in Inr (s3\<lparr>m_onDemandViaDtmfDigitsString := trim (m_onDemandViaDtmfDigitsString s3),
                 m_onDemandPauseViaDtmfDigitsString := trim (m_onDemandPauseViaDtmfDigitsString s3)\<rparr>, c2)))"

section \<open>Validation of the VoIP parameters\<close>

definition config_error :: "string \<Rightarrow> 'a result" where
  "config_error message = Inl (Thrown (''VoIpConfig: '' @ message))"

fun parse_addresses :: "nat list \<Rightarrow> string \<Rightarrow> string list \<Rightarrow> u32 list \<Rightarrow> u32 list result" where
  "parse_addresses garbage param [] out = Inr out"
| "parse_addresses garbage param (a # as) out =
     andThen (inet_pton4 garbage a) (\<lambda>parsed.
     case parsed of
       None \<Rightarrow> config_error (''invalid IP address in '' @ param @ '':'' @ a)
     | Some bytes \<Rightarrow> parse_addresses garbage param as (out @ [host_order bytes]))"

text \<open>
  The address part of an entry of \<open>AllowedIpRanges\<close> or \<open>BlockedIpRanges\<close>, with its prefix length. The length is an
  \<open>unsigned int\<close>, so a negative one is above 32.
\<close>

definition split_cidr :: "string \<Rightarrow> string \<Rightarrow> (string \<times> u32) result" where
  "split_cidr param entry =
     (case string_find entry ''/'' of
        Some slashPosition \<Rightarrow>
          if slashPosition > 0 then
            (case StringToInt (drop (slashPosition + 1) entry) of
               Inl _ \<Rightarrow> config_error (''invalid CIDR prefix length in '' @ param @ '':'' @ entry)
             | Inr n \<Rightarrow>
                 let cidrPrefixLength = (word_of_int n :: u32)
                 in if cidrPrefixLength < 1 \<or> cidrPrefixLength > 32
                    then config_error (''invalid CIDR prefix length in '' @ param @ '':'' @ entry)
                    else Inr (take slashPosition entry, cidrPrefixLength))
          else Inr (entry, 32)
      | None \<Rightarrow> Inr (entry, 32))"

definition cidr_range :: "nat list \<Rightarrow> string \<Rightarrow> string \<Rightarrow> string \<Rightarrow> (u32 \<times> u32) result" where
  "cidr_range garbage lengthParam param entry =
     andThen (split_cidr lengthParam entry) (\<lambda>(cidrIpAddressString, cidrPrefixLength).
     andThen (inet_pton4 garbage cidrIpAddressString) (\<lambda>parsed.
     case parsed of
       None \<Rightarrow> config_error (''invalid IP range in '' @ param @ '':'' @ entry)
     | Some bytes \<Rightarrow>
         let rangeBitWidth = 32 - cidrPrefixLength
         in Inr (drop_bit (unat rangeBitWidth) (host_order bytes), rangeBitWidth)))"

text \<open>The lists of prefixes and bit widths.\<close>

fun parse_ranges :: "nat list \<Rightarrow> string \<Rightarrow> string \<Rightarrow> string list \<Rightarrow> u32 list \<times> u32 list \<Rightarrow> (u32 list \<times> u32 list) result" where
  "parse_ranges garbage lengthParam param [] out = Inr out"
| "parse_ranges garbage lengthParam param (entry # entries) out =
     andThen (cidr_range garbage lengthParam param entry) (\<lambda>(prefix, width).
     parse_ranges garbage lengthParam param entries (fst out @ [prefix], snd out @ [width]))"

text \<open>The first failing check of a list of conditions and messages.\<close>

fun run_checks :: "(bool \<times> string) list \<Rightarrow> unit result" where
  "run_checks [] = Inr ()"
| "run_checks ((failed, message) # checks) = (if failed then config_error message else run_checks checks)"

definition sangoma_port_invalid :: "int \<Rightarrow> bool" where
  "sangoma_port_invalid port \<longleftrightarrow> port \<noteq> 0 \<and> (port > 65000 \<or> port < 2000 \<or> port mod 1000 \<noteq> 0)"

definition number_checks :: "VoIpSettings \<Rightarrow> (bool \<times> string) list" where
  "number_checks s =
     [(m_pcapSocketBufferSize s < 0,
         ''PcapSocketBufferSize must be a positive number (currently:'' @ IntToString (m_pcapSocketBufferSize s) @ '')''),
      (m_udpListenerSocketBufferSize s < 0,
         ''UdpListenerSocketBufferSize must be a positive number (currently:'' @ IntToString (m_udpListenerSocketBufferSize s) @ '')''),
      (m_rtpSeqGapThreshold s < 2, ''RtpSeqGapThreshold must be > 1 (currently:'' @ IntToString (m_rtpSeqGapThreshold s) @ '')''),
      (m_rtpSessionTimeoutSec s < 1,
         ''RtpSessionTimeoutSec must be > 0 (currently:'' @ IntToString (m_rtpSessionTimeoutSec s) @ '')''),
      (m_rtpSessionWithSignallingTimeoutSec s < 1,
         ''RtpSessionWithSignallingTimeoutSec must be > 0 (currently:'' @ IntToString (m_rtpSessionWithSignallingTimeoutSec s) @ '')''),
      (m_rtpSessionOnHoldTimeOutSec s < 1,
         ''RtpSessionOnHoldTimeOutSec must be > 0 (currently:'' @ IntToString (m_rtpSessionOnHoldTimeOutSec s) @ '')''),
      (m_rtpSessionWithSignallingInitialTimeoutSec s < 1,
         ''RtpSessionWithSignallingInitialTimeoutSec must be > 0 (currently:'' @
         IntToString (m_rtpSessionWithSignallingInitialTimeoutSec s) @ '')''),
      (m_skinnyTcpPort s < 1,
         ''SkinnyTcpPort must be > 0 (currently:'' @ IntToString (m_skinnyTcpPort s) @ '') please fix in config.xml''),
      (sangoma_port_invalid (m_sangomaRxTcpPortStart s),
         ''SangomaRxTcpPort must be between 2000 and 65000 and be a multiple of 1000 (currently:'' @
         IntToString (m_sangomaRxTcpPortStart s) @ '')''),
      (sangoma_port_invalid (m_sangomaTxTcpPortStart s),
         ''SangomaTxTcpPort must be between 2000 and 65000 and be a multiple of 1000 (currently:'' @
         IntToString (m_sangomaTxTcpPortStart s) @ '')''),
      (m_sangomaRxTcpPortStart s > m_sangomaTxTcpPortStart s,
         ''SangomaTxTcpPort should always be bigger than SangomaRxTcpPort'')]"

definition derived_settings :: "VoIpSettings \<Rightarrow> VoIpSettings" where
  "derived_settings s =
     (let s1 = (if m_sangomaRxTcpPortStart s > 0 \<and> m_sangomaTxTcpPortStart s > 0
          then s\<lparr>m_sangomaTcpPortDelta := m_sangomaTxTcpPortStart s - m_sangomaRxTcpPortStart s,
                 m_sangomaEnable := True, m_rtpDetectOnOddPorts := True\<rparr>
          else s);
          s2 = (if m_inInMode s1
          then s1\<lparr>m_rtcpDetect := True, m_sipExtractFields := m_sipExtractFields s1 @ [''ININCrn'']\<rparr> else s1);
          s3 = (if m_sipDirectionReferenceUserAgents s2 = []
          then s2\<lparr>m_sipDirectionReferenceUserAgents := [''Asterisk'']\<rparr> else s2)
      in if m_dahdiIntercept s3
         then s3\<lparr>m_sipAllowMultipleMediaAddresses := True, m_rtpDetectOnOddPorts := True,
                 m_sipRequestUriAsLocalParty := False, m_sipIgnoreBye := False\<rparr>
         else s3)"

definition final_settings :: "VoIpSettings \<Rightarrow> VoIpSettings" where
  "final_settings s =
     (let s1 = (if m_sipAllowMultipleMediaAddresses s then s\<lparr>m_rtpAllowMultipleMappings := True\<rparr> else s);
          s2 = (if m_sipOnDemandFieldName s1 \<noteq> ''''
          then s1\<lparr>m_sipExtractFields := m_sipExtractFields s1 @ [m_sipOnDemandFieldName s1]\<rparr> else s1)
      in if m_iax2Support s2 then s2\<lparr>m_rtpDetectOnOddPorts := False\<rparr> else s2)"

definition VoIpConfig_Validate :: "nat list \<Rightarrow> VoIpSettings \<times> OrkConfig \<Rightarrow> (VoIpSettings \<times> OrkConfig) result" where
  "VoIpConfig_Validate garbage sc =
     andThen (AcpConfig_Validate garbage sc) (\<lambda>(s, c).
     andThen (parse_addresses garbage ''LanMasks'' (m_asciiLanMasks s) []) (\<lambda>lanMasks.
     andThen (parse_addresses garbage ''RtpTrackUsingIpAddresses'' (m_asciiRtpTrackUsingIpAddresses s) []) (\<lambda>tracked.
     andThen (parse_ranges garbage ''AllowedIpRanges'' ''AllowedIpRanges'' (m_asciiAllowedIpRanges s) ([], [])) (\<lambda>allowed.
     andThen (parse_ranges garbage ''blockedIpRanges'' ''BlockedIpRanges'' (m_asciiBlockedIpRanges s) ([], [])) (\<lambda>blocked.
     let s1 = s\<lparr>m_lanMasks := lanMasks, m_rtpTrackUsingIpAddresses := tracked,
          m_allowedIpRangePrefixes := fst allowed, m_allowedIpRangeBitWidths := snd allowed,
          m_blockedIpRangePrefixes := fst blocked, m_blockedIpRangeBitWidths := snd blocked\<rparr>
     in andThen (run_checks (number_checks s1)) (\<lambda>_.
        let s2 = derived_settings s1
        in andThen (run_checks [(m_skinnyCallInfoStopsPreviousToleranceSec s2 < 0,
             ''SkinnyCallInfoStopsPreviousToleranceSec must be > 0 (currently:'' @
             IntToString (m_skinnyCallInfoStopsPreviousToleranceSec s2))]) (\<lambda>_.
           Inr (final_settings s2, c))))))))"

section \<open>Queries\<close>

text \<open>The prefix and width lists are walked together; a missing width is a fault.\<close>

fun blocked_loop :: "u32 list \<Rightarrow> u32 list \<Rightarrow> u32 \<Rightarrow> u32 \<Rightarrow> bool \<Rightarrow> bool result" where
  "blocked_loop prefixes widths src dest False = Inr False"
| "blocked_loop [] widths src dest True = Inr True"
| "blocked_loop (prefix # prefixes) [] src dest True = Inl OutOfBounds"
| "blocked_loop (prefix # prefixes) (bitWidth # widths) src dest True =
     blocked_loop prefixes widths src dest
       (\<not> (drop_bit (unat bitWidth) src = prefix \<or> drop_bit (unat bitWidth) dest = prefix))"

definition IsPacketWanted :: "VoIpSettings \<Rightarrow> u32 \<Rightarrow> u32 \<Rightarrow> bool result" where
  "IsPacketWanted s src dest =
     andThen
       (if m_allowedIpRangePrefixes s \<noteq> [] then
          andThen (matches_loop (m_allowedIpRangePrefixes s) (m_allowedIpRangeBitWidths s) src) (\<lambda>sourceWanted.
          if sourceWanted then matches_loop (m_allowedIpRangePrefixes s) (m_allowedIpRangeBitWidths s) dest else Inr False)
        else Inr True) (\<lambda>wanted.
     blocked_loop (m_blockedIpRangePrefixes s) (m_blockedIpRangeBitWidths s) src dest wanted)"

text \<open>\<open>CStdString::Equals\<close> ignores case.\<close>

definition IsDeviceWanted :: "VoIpSettings \<Rightarrow> string \<Rightarrow> bool" where
  "IsDeviceWanted s device \<longleftrightarrow>
     CompareNoCase_eq device (m_device s) \<or> list_ex (\<lambda>d. CompareNoCase_eq d device) (m_devices s)"

text \<open>\<open>PopulateIntMapFromCsv\<close>, given the elements of the list.\<close>

fun PopulateIntMapFromCsv :: "string list \<Rightarrow> (u32, u32) std_map \<Rightarrow> (u32, u32) std_map result" where
  "PopulateIntMapFromCsv [] intList = Inr intList"
| "PopulateIntMapFromCsv (element # elements) intList =
     andThen (StringToInt element) (\<lambda>elem. PopulateIntMapFromCsv elements (map_insert (word_of_int elem) 1 intList))"


section \<open>Lemmas\<close>

lemma config_error_not_Inr [simp]: "config_error message \<noteq> Inr x" "Inr x \<noteq> config_error message"
  by (simp_all add: config_error_def)

lemma cidr_range_compute_entry: "cidr_range garbage a b entry = Inr pw \<longleftrightarrow> compute_entry garbage entry = Inr pw"
  by (auto simp: cidr_range_def split_cidr_def compute_entry_def andThen_eq_Inr_iff Let_def
      split: option.splits sum.splits prod.splits if_splits)

lemma parse_ranges_iff:
  "parse_ranges garbage a b entries (ps, ws) = Inr r \<longleftrightarrow>
     (\<exists>pws. list_all2 (\<lambda>e pw. compute_entry garbage e = Inr pw) entries pws \<and> r = (ps @ map fst pws, ws @ map snd pws))"
proof (induction entries arbitrary: ps ws)
  case (Cons e es)
  have "parse_ranges garbage a b (e # es) (ps, ws) = Inr r \<longleftrightarrow>
      (\<exists>p w. compute_entry garbage e = Inr (p, w) \<and> parse_ranges garbage a b es (ps @ [p], ws @ [w]) = Inr r)"
    by (simp add: andThen_eq_Inr_iff cidr_range_compute_entry split_paired_Ex)
  also have "\<dots> \<longleftrightarrow> (\<exists>p w pws. compute_entry garbage e = Inr (p, w) \<and>
      list_all2 (\<lambda>e pw. compute_entry garbage e = Inr pw) es pws \<and> r = (ps @ p # map fst pws, ws @ w # map snd pws))"
    by (simp add: Cons.IH)
  also have "\<dots> \<longleftrightarrow> (\<exists>pws. list_all2 (\<lambda>e pw. compute_entry garbage e = Inr pw) (e # es) pws \<and>
      r = (ps @ map fst pws, ws @ map snd pws))" (is "?steps \<longleftrightarrow> ?all")
  proof
    assume ?steps
    then obtain p w pws where "compute_entry garbage e = Inr (p, w)" "list_all2 (\<lambda>e pw. compute_entry garbage e = Inr pw) es pws"
      "r = (ps @ p # map fst pws, ws @ w # map snd pws)" by blast
    then show ?all by (intro exI [of _ "(p, w) # pws"]) simp
  next
    assume ?all
    then obtain pws where pws: "list_all2 (\<lambda>e pw. compute_entry garbage e = Inr pw) (e # es) pws"
      "r = (ps @ map fst pws, ws @ map snd pws)" by blast
    then obtain p w pws' where "pws = (p, w) # pws'" by (cases pws) auto
    with pws show ?steps by auto
  qed
  finally show ?case .
qed auto

lemma blocked_loop_zip:
  "length ps = length ws \<Longrightarrow> blocked_loop ps ws src dest wanted =
     Inr (wanted \<and> \<not> list_ex (\<lambda>(p, w). drop_bit (unat w) src = p) (zip ps ws) \<and>
       \<not> list_ex (\<lambda>(p, w). drop_bit (unat w) dest = p) (zip ps ws))"
proof (induction ps arbitrary: ws wanted)
  case Nil
  then show ?case by (cases wanted) auto
next
  case (Cons p ps)
  then obtain w ws' where "ws = w # ws'" by (cases ws) auto
  with Cons show ?case by (cases wanted) auto
qed

lemma IsPacketWanted_zip:
  assumes "length (m_allowedIpRangePrefixes s) = length (m_allowedIpRangeBitWidths s)"
    "length (m_blockedIpRangePrefixes s) = length (m_blockedIpRangeBitWidths s)"
  defines "hit ps ws ip \<equiv> list_ex (\<lambda>(p, w). drop_bit (unat w) ip = p) (zip ps ws)"
  shows "IsPacketWanted s src dest = Inr (
     (m_allowedIpRangePrefixes s = [] \<or>
        hit (m_allowedIpRangePrefixes s) (m_allowedIpRangeBitWidths s) src \<and>
        hit (m_allowedIpRangePrefixes s) (m_allowedIpRangeBitWidths s) dest) \<and>
     \<not> hit (m_blockedIpRangePrefixes s) (m_blockedIpRangeBitWidths s) src \<and>
     \<not> hit (m_blockedIpRangePrefixes s) (m_blockedIpRangeBitWidths s) dest)"
  using assms(1,2) by (simp add: IsPacketWanted_def matches_loop_iff blocked_loop_zip hit_def)

text \<open>The address and the prefix length of an entry; an entry without a length stands for one address.\<close>

definition entry_parts :: "string \<Rightarrow> string \<times> nat" where
  "entry_parts entry =
     (case string_find entry ''/'' of
        Some slash \<Rightarrow> if slash > 0 then (take slash entry, case StringToInt (drop (slash + 1) entry) of Inr n \<Rightarrow> nat n | Inl _ \<Rightarrow> 0)
          else (entry, 32)
      | None \<Rightarrow> (entry, 32))"

definition in_entry :: "nat list \<Rightarrow> u32 \<Rightarrow> string \<Rightarrow> bool" where
  "in_entry garbage ip entry = in_cidr garbage ip (entry_parts entry)"

lemma prefix_length_word:
  assumes "\<not> (word_of_int n :: u32) < 1" "\<not> (word_of_int n :: u32) > 32" "- 2147483648 \<le> n" "n < 2147483648"
  shows "1 \<le> n" "n \<le> 32" "unat (word_of_int n :: u32) = nat n"
proof -
  have word: "uint (word_of_int n :: u32) = n mod 4294967296" by (simp add: uint_word_of_int)
  have small: "1 \<le> n mod 4294967296" "n mod 4294967296 \<le> 32" using assms(1,2) by (simp_all add: word_less_def word_le_def not_less word)
  have "\<not> n < 0"
  proof
    assume "n < 0"
    then have "(n + 4294967296) mod 4294967296 = n + 4294967296" using assms(3) by (intro mod_pos_pos_trivial) simp_all
    then show False using small assms(3) by simp
  qed
  then have n: "n mod 4294967296 = n" using assms(4) by (intro mod_pos_pos_trivial) simp_all
  show "1 \<le> n" "n \<le> 32" using small by (simp_all only: n)
  show "unat (word_of_int n :: u32) = nat n" by (simp add: unat_eq_nat_uint word n)
qed

lemma StringToInt_bounds: "StringToInt s = Inr n \<Longrightarrow> - 2147483648 \<le> n \<and> n < 2147483648"
  using sint_ge [where 'a = 32] sint_lt [where 'a = 32] by (auto simp: StringToInt_def split: prod.splits if_splits)

lemma compute_entry_matches:
  assumes "compute_entry garbage entry = Inr (prefix, width)"
  shows "(drop_bit (unat width) ip = prefix) = in_entry garbage ip entry"
proof -
  have split: "\<exists>a n. entry_parts entry = (a, n) \<and> n \<le> 32 \<and> (\<exists>len :: u32. unat len = n \<and>
      andThen (inet_pton4 garbage a) (\<lambda>parsed. case parsed of
        None \<Rightarrow> Inl (Thrown ''invalid IP range'')
      | Some bytes \<Rightarrow> Inr (drop_bit (unat (32 - len)) (host_order bytes), 32 - len)) = Inr (prefix, width))"
  proof (cases "\<exists>slash n. string_find entry ''/'' = Some slash \<and> slash > 0 \<and> StringToInt (drop (slash + 1) entry) = Inr n")
    case True
    then obtain slash n where slash: "string_find entry ''/'' = Some slash" "slash > 0"
      and n: "StringToInt (drop (slash + 1) entry) = Inr n" by blast
    have range: "\<not> (word_of_int n :: u32) < 1" "\<not> (word_of_int n :: u32) > 32"
      using assms slash n by (auto simp: compute_entry_def Let_def split: if_splits)
    note length = prefix_length_word [OF range] StringToInt_bounds [OF n]
    show ?thesis
      using assms slash n range length
      by (intro exI [of _ "take slash entry"] exI [of _ "nat n"] conjI exI [of _ "word_of_int n :: u32"])
        (simp_all add: compute_entry_def entry_parts_def Let_def)
  next
    case False
    then have "compute_entry garbage entry = andThen (inet_pton4 garbage entry) (\<lambda>parsed. case parsed of
        None \<Rightarrow> Inl (Thrown ''invalid IP range'')
      | Some bytes \<Rightarrow> Inr (drop_bit (unat (32 - 32 :: u32)) (host_order bytes), 32 - 32))"
      and "entry_parts entry = (entry, 32)"
      using assms by (auto simp: compute_entry_def entry_parts_def Let_def split: option.splits if_splits sum.splits)
    then show ?thesis using assms by (intro exI [of _ entry] exI [of _ 32] conjI exI [of _ "32 :: u32"]) simp_all
  qed
  then obtain a n len where parts: "entry_parts entry = (a, n)" and n: "n \<le> 32" "unat (len :: u32) = n"
    and run: "andThen (inet_pton4 garbage a) (\<lambda>parsed. case parsed of
        None \<Rightarrow> Inl (Thrown ''invalid IP range'')
      | Some bytes \<Rightarrow> Inr (drop_bit (unat (32 - len)) (host_order bytes), 32 - len)) = Inr (prefix, width)" by blast
  obtain bytes where bytes: "inet_pton4 garbage a = Inr (Some bytes)"
    and result: "prefix = drop_bit (unat (32 - len)) (host_order bytes)" "width = 32 - len"
    using run by (auto simp: andThen_eq_Inr_iff split: option.splits)
  have "unat (32 - len) = 32 - n" using n by (simp add: unat_sub word_le_nat_alt)
  then show ?thesis by (simp add: in_entry_def parts in_cidr_def cidr_address_def bytes result drop_bit_eq_iff)
qed

lemma parse_ranges_entries:
  assumes "parse_ranges garbage a b entries ([], []) = Inr (ps, ws)"
  shows "length ps = length ws" "ps = [] \<longleftrightarrow> entries = []"
    "list_ex (\<lambda>(p, w). drop_bit (unat w) ip = p) (zip ps ws) = list_ex (in_entry garbage ip) entries"
proof -
  obtain pws where all: "list_all2 (\<lambda>e pw. compute_entry garbage e = Inr pw) entries pws"
    and ps: "ps = map fst pws" "ws = map snd pws"
    using assms by (auto simp: parse_ranges_iff)
  then show "length ps = length ws" "ps = [] \<longleftrightarrow> entries = []" by (auto dest: list_all2_lengthD)
  from all have "list_ex (\<lambda>(p, w). drop_bit (unat w) ip = p) pws = list_ex (in_entry garbage ip) entries"
    by (induction rule: list_all2_induct) (auto dest: compute_entry_matches [of garbage _ _ _ ip])
  then show "list_ex (\<lambda>(p, w). drop_bit (unat w) ip = p) (zip ps ws) = list_ex (in_entry garbage ip) entries"
    by (simp add: ps zip_map_fst_snd)
qed


section \<open>What validation keeps and establishes\<close>

lemma cti_loop_ranges:
  "m_asciiAllowedIpRanges (cti_loop names s) = m_asciiAllowedIpRanges s"
  "m_asciiBlockedIpRanges (cti_loop names s) = m_asciiBlockedIpRanges s"
  "m_rtpBlockedIpRanges (cti_loop names s) = m_rtpBlockedIpRanges s"
  "VoIpConfig.truncate (cti_loop names s) = VoIpConfig.truncate s"
  by (induction names arbitrary: s) (simp_all add: Let_def VoIpConfig.truncate_def)

lemma cti_settings_ranges:
  "m_asciiAllowedIpRanges (cti_settings s) = m_asciiAllowedIpRanges s"
  "m_asciiBlockedIpRanges (cti_settings s) = m_asciiBlockedIpRanges s"
  "m_rtpBlockedIpRanges (cti_settings s) = m_rtpBlockedIpRanges s"
  "VoIpConfig.truncate (cti_settings s) = VoIpConfig.truncate s"
  by (simp_all add: cti_settings_def default_criteria_def Let_def cti_loop_ranges)
     (simp_all add: VoIpConfig.truncate_def cti_loop_ranges(4) [unfolded VoIpConfig.truncate_def])

text \<open>The lists of ranges that reading computes; validation computes the one of the media gateways.\<close>

definition ranges_read :: "VoIpSettings \<Rightarrow> bool" where
  "ranges_read s \<longleftrightarrow> ranges_ok (m_sipDirectionReferenceIpAddresses s) \<and> ranges_ok (m_sipIgnoredMediaAddresses s) \<and>
     ranges_ok (m_lanIpRanges s) \<and> ranges_ok (m_mediaAddressBlockedIpRanges s) \<and> ranges_ok (m_mediaAddressAllowedIpRanges s) \<and>
     ranges_ok (m_rtpBlockedIpRanges s)"

lemma compute_loop_ranges_ok: "compute_loop garbage entries r = Inr r' \<Longrightarrow> ranges_ok r \<Longrightarrow> ranges_ok r'"
  by (induction entries arbitrary: r) (auto simp: andThen_eq_Inr_iff ranges_ok_def)

lemma IpRanges_Compute_ok: "IpRanges_Compute garbage r = Inr r' \<Longrightarrow> ranges_ok r'"
  unfolding IpRanges_Compute_def by (erule compute_loop_ranges_ok) (simp add: ranges_ok_def)

lemma derived_settings_keeps:
  "m_allowedIpRangePrefixes (derived_settings s) = m_allowedIpRangePrefixes s"
  "m_allowedIpRangeBitWidths (derived_settings s) = m_allowedIpRangeBitWidths s"
  "m_blockedIpRangePrefixes (derived_settings s) = m_blockedIpRangePrefixes s"
  "m_blockedIpRangeBitWidths (derived_settings s) = m_blockedIpRangeBitWidths s"
  by (simp_all add: derived_settings_def Let_def)

lemma settings_keep_ascii:
  "m_asciiAllowedIpRanges (final_settings (derived_settings s)) = m_asciiAllowedIpRanges s"
  "m_asciiBlockedIpRanges (final_settings (derived_settings s)) = m_asciiBlockedIpRanges s"
  by (simp_all add: derived_settings_def final_settings_def Let_def)

lemma final_settings_keeps:
  "m_allowedIpRangePrefixes (final_settings s) = m_allowedIpRangePrefixes s"
  "m_allowedIpRangeBitWidths (final_settings s) = m_allowedIpRangeBitWidths s"
  "m_blockedIpRangePrefixes (final_settings s) = m_blockedIpRangePrefixes s"
  "m_blockedIpRangeBitWidths (final_settings s) = m_blockedIpRangeBitWidths s"
  by (simp_all add: final_settings_def Let_def)


lemma run_checks_iff: "run_checks checks = Inr u \<longleftrightarrow> list_all (\<lambda>(failed, _). \<not> failed) checks"
  by (induction checks rule: run_checks.induct) (auto simp: config_error_def)

lemma run_check_one: "\<not> failed \<Longrightarrow> run_checks [(failed, message)] = Inr ()"
  by simp

lemma AcpConfig_Validate_keeps:
  assumes "AcpConfig_Validate garbage (s, c) = Inr (s', c')"
  shows "m_asciiAllowedIpRanges s' = m_asciiAllowedIpRanges s" "m_asciiBlockedIpRanges s' = m_asciiBlockedIpRanges s"
    "ranges_ok (m_mediaGateways s')" "ranges_read s' = ranges_read s"
proof -
  obtain gateways s2 digits digits' where compute: "IpRanges_Compute garbage (m_mediaGateways s) = Inr gateways"
    and s2: "s2 = s\<lparr>m_mediaGateways := gateways\<rparr> \<or> s2 = s\<lparr>m_mediaGateways := gateways,
      m_rtpS1S2MappingDeterministic := True, m_rtpS1S2MappingDeterministicS1IsLocal := True\<rparr>"
    and s': "s' = (cti_settings s2)\<lparr>m_onDemandViaDtmfDigitsString := digits, m_onDemandPauseViaDtmfDigitsString := digits'\<rparr>"
  proof -
    obtain gateways where compute: "IpRanges_Compute garbage (m_mediaGateways s) = Inr gateways"
      using assms by (auto simp: AcpConfig_Validate_def andThen_eq_Inr_iff)
    show ?thesis
      using assms compute that [OF compute disjI2 [OF refl]] that [OF compute disjI1 [OF refl]]
      by (auto simp: AcpConfig_Validate_def Let_def split: if_splits)
  qed
  have "m_asciiAllowedIpRanges s2 = m_asciiAllowedIpRanges s" "m_asciiBlockedIpRanges s2 = m_asciiBlockedIpRanges s"
    "m_mediaGateways s2 = gateways" "ranges_read s2 = ranges_read s"
    using s2 by (auto simp: ranges_read_def)
  moreover have "m_mediaGateways (cti_settings x) = m_mediaGateways x" "ranges_read (cti_settings x) = ranges_read x" for x
    using cti_settings_ranges(3,4) [of x] by (simp_all add: VoIpConfig.truncate_def ranges_read_def)
  moreover have "ranges_read s' = ranges_read (cti_settings s2)"
    by (simp add: s' ranges_read_def)
  ultimately show "m_asciiAllowedIpRanges s' = m_asciiAllowedIpRanges s" "m_asciiBlockedIpRanges s' = m_asciiBlockedIpRanges s"
    "ranges_ok (m_mediaGateways s')" "ranges_read s' = ranges_read s"
    using IpRanges_Compute_ok [OF compute] by (simp_all add: s' cti_settings_ranges)
qed

text \<open>Validation, taken apart.\<close>

lemma VoIpConfig_Validate_Inr:
  assumes "VoIpConfig_Validate garbage (s, c) = Inr (s', c')"
  obtains s0 lan tracked allowed blocked s1
  where "AcpConfig_Validate garbage (s, c) = Inr (s0, c')"
    "parse_ranges garbage ''AllowedIpRanges'' ''AllowedIpRanges'' (m_asciiAllowedIpRanges s0) ([], []) = Inr allowed"
    "parse_ranges garbage ''blockedIpRanges'' ''BlockedIpRanges'' (m_asciiBlockedIpRanges s0) ([], []) = Inr blocked"
    "s1 = s0\<lparr>m_lanMasks := lan, m_rtpTrackUsingIpAddresses := tracked,
       m_allowedIpRangePrefixes := fst allowed, m_allowedIpRangeBitWidths := snd allowed,
       m_blockedIpRangePrefixes := fst blocked, m_blockedIpRangeBitWidths := snd blocked\<rparr>"
    "run_checks (number_checks s1) = Inr ()" "\<not> m_skinnyCallInfoStopsPreviousToleranceSec (derived_settings s1) < 0"
    "s' = final_settings (derived_settings s1)"
  using assms
  by (auto simp: VoIpConfig_Validate_def andThen_eq_Inr_iff Let_def simp del: run_checks.simps(2)
      simp: run_checks_iff [of "[_]"])

lemma VoIpConfig_Validate_config_ok:
  assumes "VoIpConfig_Validate garbage (s, c) = Inr (s', c')" "ranges_read s"
  shows "config_ok (VoIpConfig.truncate s') \<and> ranges_ok (m_rtpBlockedIpRanges s')"
proof (rule VoIpConfig_Validate_Inr [OF assms(1)])
  fix s0 lan tracked allowed blocked s1
  assume acp: "AcpConfig_Validate garbage (s, c) = Inr (s0, c')"
    and s1: "s1 = s0\<lparr>m_lanMasks := lan, m_rtpTrackUsingIpAddresses := tracked,
       m_allowedIpRangePrefixes := fst allowed, m_allowedIpRangeBitWidths := snd allowed,
       m_blockedIpRangePrefixes := fst blocked, m_blockedIpRangeBitWidths := snd blocked\<rparr>"
    and s': "s' = final_settings (derived_settings s1)"
  have "ranges_read s1" "ranges_ok (m_mediaGateways s1)"
    using AcpConfig_Validate_keeps [OF acp] assms(2) by (simp_all add: s1 ranges_read_def)
  then have "ranges_read s'" "ranges_ok (m_mediaGateways s')"
    by (simp_all add: s' derived_settings_def final_settings_def Let_def ranges_read_def)
  then show ?thesis by (simp add: config_ok_def ranges_read_def VoIpConfig.truncate_def)
qed


section \<open>The default settings\<close>

lemma IpRanges_Compute_none [simp]: "IpRanges_Compute garbage no_ranges = Inr no_ranges"
  by (simp add: IpRanges_Compute_def no_ranges_def)

lemma compute_entry_written:
  assumes "inet_pton4 garbage a = Inr (Some bytes)" "entry = cidr (a, n)" "a \<noteq> []" "CHR ''/'' \<notin> set a" "1 \<le> n" "n \<le> 32"
  shows "compute_entry garbage entry = Inr (drop_bit (32 - n) (host_order bytes), word_of_nat (32 - n))"
  using compute_entry_cidr [of garbage a n] assms by (simp add: cidr_ok_def cidr_address_def)

lemma written_addresses:
  "inet_pton4 [0, 0, 0] ''10.0.0.0'' = Inr (Some [10, 0, 0, 0])"
  "inet_pton4 [0, 0, 0] ''192.168.0.0'' = Inr (Some [192, 168, 0, 0])"
  "inet_pton4 [0, 0, 0] ''172.16.0.0'' = Inr (Some [172, 16, 0, 0])"
  "inet_pton4 [0, 0, 0] ''10.1.2.0'' = Inr (Some [10, 1, 2, 0])"
  "inet_pton4 [0, 0, 0] ''192.168.255.255'' = Inr (Some [192, 168, 255, 255])"
  "inet_pton4 [0, 0, 0] ''10.255.255.255'' = Inr (Some [10, 255, 255, 255])"
  "inet_pton4 [0, 0, 0] ''172.31.255.255'' = Inr (Some [172, 31, 255, 255])"
  by code_simp+

lemma written_ranges:
  "''10.0.0.0/8'' = cidr (''10.0.0.0'', 8)" "''192.168.0.0/16'' = cidr (''192.168.0.0'', 16)"
  "''172.16.0.0/20'' = cidr (''172.16.0.0'', 20)" "''10.1.2.0/24'' = cidr (''10.1.2.0'', 24)"
  by code_simp+

lemma IpRanges_Compute_lan:
  "IpRanges_Compute [0, 0, 0] standard_lan_ranges =
     Inr \<lparr>m_asciiIpRanges = [''10.0.0.0/8'', ''192.168.0.0/16'', ''172.16.0.0/20''],
       m_ipRangePrefixes = [10, 0xC0A8, 0xAC100], m_ipRangeBitWidths = [24, 16, 12]\<rparr>"
proof -
  note entries = compute_entry_written [OF written_addresses(1) written_ranges(1)]
    compute_entry_written [OF written_addresses(2) written_ranges(2)]
    compute_entry_written [OF written_addresses(3) written_ranges(3)]
  show ?thesis
    by (simp add: IpRanges_Compute_def standard_lan_ranges_def no_ranges_def entries host_order_def)
qed

definition default_settings :: VoIpSettings where
  "default_settings = (case new_VoIpConfig [0, 0, 0] 0 of Inr s \<Rightarrow> s | Inl _ \<Rightarrow> undefined)"

lemmas default_settings_simps = default_settings_def new_VoIpConfig_def IpRanges_Compute_lan

definition default_OrkConfig :: OrkConfig where
  "default_OrkConfig = \<lparr>m_lookBackRecording = True, m_discardUnidirectionalCalls = False, m_dtmfReportingDetailed = False,
     m_holdResumeReportDuration = False, m_holdResumeReportEvents = False, m_speexPayloadTypes = []\<rparr>"

lemma new_VoIpConfig_default: "new_VoIpConfig [0, 0, 0] 0 = Inr default_settings"
  by (simp add: default_settings_simps)

lemma default_config_ok: "config_ok (VoIpConfig.truncate default_settings)"
  by (simp add: default_settings_simps config_ok_def VoIpConfig.truncate_def ranges_ok_def no_ranges_def)

text \<open>The default settings with a blocked range are valid.\<close>

definition blocking_settings :: VoIpSettings where
  "blocking_settings = default_settings\<lparr>m_asciiBlockedIpRanges := [''10.1.2.0/24'']\<rparr>"

lemma blocking_settings_acp: "AcpConfig_Validate [0, 0, 0] (blocking_settings, c) = Inr (blocking_settings, c)"
  by (simp add: blocking_settings_def default_settings_simps AcpConfig_Validate_def cti_settings_def Let_def trim_def
      trim_left_def)

lemma blocking_settings_checks:
  "run_checks (number_checks (blocking_settings\<lparr>m_lanMasks := lan, m_rtpTrackUsingIpAddresses := tracked,
     m_allowedIpRangePrefixes := a, m_allowedIpRangeBitWidths := b, m_blockedIpRangePrefixes := p, m_blockedIpRangeBitWidths := q\<rparr>)) = Inr ()"
  by (simp add: blocking_settings_def default_settings_simps number_checks_def run_checks_iff sangoma_port_invalid_def)

lemma blocking_settings_parse:
  "parse_addresses [0, 0, 0] ''LanMasks'' [''192.168.255.255'', ''10.255.255.255'', ''172.31.255.255''] [] =
     Inr [0xC0A8FFFF, 0x0AFFFFFF, 0xAC1FFFFF]"
  "parse_ranges [0, 0, 0] ''blockedIpRanges'' ''BlockedIpRanges'' [''10.1.2.0/24''] ([], []) = Inr ([0x0A0102], [8])"
proof -
  show "parse_addresses [0, 0, 0] ''LanMasks'' [''192.168.255.255'', ''10.255.255.255'', ''172.31.255.255''] [] =
     Inr [0xC0A8FFFF, 0x0AFFFFFF, 0xAC1FFFFF]"
    by (simp add: written_addresses host_order_def)
  have "compute_entry [0, 0, 0] ''10.1.2.0/24'' = Inr (0x0A0102, 8)"
    using compute_entry_written [OF written_addresses(4) written_ranges(4)] by (simp add: host_order_def)
  then have "cidr_range [0, 0, 0] ''blockedIpRanges'' ''BlockedIpRanges'' ''10.1.2.0/24'' = Inr (0x0A0102, 8)"
    by (simp add: cidr_range_compute_entry)
  then show "parse_ranges [0, 0, 0] ''blockedIpRanges'' ''BlockedIpRanges'' [''10.1.2.0/24''] ([], []) = Inr ([0x0A0102], [8])"
    by simp
qed

lemma blocking_settings_valid: "\<exists>s'. VoIpConfig_Validate [0, 0, 0] (blocking_settings, c) = Inr (s', c)"
proof -
  have fields: "m_asciiLanMasks blocking_settings = [''192.168.255.255'', ''10.255.255.255'', ''172.31.255.255'']"
    "m_asciiRtpTrackUsingIpAddresses blocking_settings = []" "m_asciiAllowedIpRanges blocking_settings = []"
    "m_asciiBlockedIpRanges blocking_settings = [''10.1.2.0/24'']"
    by (simp_all add: blocking_settings_def default_settings_simps)
  have tolerance: "\<not> m_skinnyCallInfoStopsPreviousToleranceSec (derived_settings s) < 0"
    if "m_skinnyCallInfoStopsPreviousToleranceSec s = 3" for s
    using that by (simp add: derived_settings_def Let_def)
  have "m_skinnyCallInfoStopsPreviousToleranceSec blocking_settings = 3"
    by (simp add: blocking_settings_def default_settings_simps)
  then show ?thesis
    by (simp add: VoIpConfig_Validate_def blocking_settings_acp fields blocking_settings_parse blocking_settings_checks Let_def
        tolerance run_check_one del: run_checks.simps(2) parse_addresses.simps(2) parse_ranges.simps(2))
qed

end
