(* ===== verification/SipParsers.thy ===== *)
theory SipParsers
  imports PacketMemory VoipRun VoipConfig
begin

text \<open>
  The SIP parsers of \<open>audiocaptureplugins/voip/SipParsers.cpp\<close>. A parser looks at one UDP payload; its result says
  whether it recognised the packet and what it reports to the sessions, a \<open>voip_event\<close> (each parser reports at
  most once, as its last action). The memory is the captured frame, a pointer its offset, NULL is \<open>None\<close>.
  What only goes to the log is left out.
\<close>

section \<open>Extracting configured key-value pairs\<close>

definition IsAKeySeparator :: "char \<Rightarrow> bool" where
  "IsAKeySeparator c \<longleftrightarrow> c \<in> set ''=:<>''"

definition IsAFieldSeparator :: "char \<Rightarrow> bool" where
  "IsAFieldSeparator c \<longleftrightarrow> c \<in> set '';<>'' \<or> is_eol c"

text \<open>\<open>npos\<close> is \<open>None\<close>. A view is the text it shows; nothing is found in an empty view.\<close>

fun OrkStringViewFind :: "string \<Rightarrow> string \<Rightarrow> nat option" where
  "OrkStringViewFind [] key = None"
| "OrkStringViewFind (c # cs) key =
     (if take (length key) (c # cs) = key then Some 0 else map_option Suc (OrkStringViewFind cs key))"

text \<open>The value that follows a key: past the separators, up to the end of the field.\<close>

definition value_at :: "string \<Rightarrow> int \<Rightarrow> int \<Rightarrow> string result" where
  "value_at mem p lastChar =
     andThen (scan (\<lambda>c. IsAKeySeparator c \<or> c = CHR '' '') mem p lastChar) (\<lambda>resultBegin.
     andThen (scan (\<lambda>c. \<not> IsAFieldSeparator c \<and> code_of c \<noteq> 0) mem resultBegin lastChar) (\<lambda>resultEnd.
     Inr (between mem resultBegin resultEnd)))"

definition ExtractKeyValueFromField :: "string \<Rightarrow> int option \<Rightarrow> int \<Rightarrow> string \<Rightarrow> string result" where
  "ExtractKeyValueFromField mem header maxLength key =
     (case header of
        None \<Rightarrow> Inr []
      | Some p \<Rightarrow>
          andThen (scan (\<lambda>c. \<not> is_eol c) mem p (p + maxLength)) (\<lambda>lastChar.
          case OrkStringViewFind (between mem p lastChar) key of
            None \<Rightarrow> Inr []
          | Some l \<Rightarrow> value_at mem (p + int l + int (length key)) lastChar))"

text \<open>\<open>MemFindAfter\<close> of \<open>orkbasecxx/MemUtils.cpp\<close>: its \<open>memchr\<close> may look past \<open>stop\<close>.\<close>

fun find_after_loop :: "nat \<Rightarrow> string \<Rightarrow> string \<Rightarrow> int \<Rightarrow> int \<Rightarrow> int \<Rightarrow> int option result" where
  "find_after_loop 0 toFind mem start ptr stop = Inr None"
| "find_after_loop (Suc n) toFind mem start ptr stop =
     (if ptr \<ge> stop then Inr None
      else andThen (strncasecmp_eq (length toFind) toFind mem ptr) (\<lambda>found.
        if found then Inr (Some (ptr + int (length toFind)))
        else andThen (memchr mem (ptr + 1) (hd toFind) (nat (stop - start))) (\<lambda>r.
          case r of None \<Rightarrow> Inr None | Some ptr' \<Rightarrow> find_after_loop n toFind mem start ptr' stop)))"

definition MemFindAfter :: "string \<Rightarrow> string \<Rightarrow> int \<Rightarrow> int \<Rightarrow> int option result" where
  "MemFindAfter toFind mem start stop = find_after_loop (nat (stop - start)) toFind mem start start stop"

definition retrieve_field_position_in_payload :: "string \<Rightarrow> int \<Rightarrow> int \<Rightarrow> int option \<Rightarrow> string \<Rightarrow> int option result" where
  "retrieve_field_position_in_payload mem payload payloadLength firstChar fieldName =
     (case firstChar of
        Some p \<Rightarrow> Inr (Some p)
      | None \<Rightarrow> andThen (MemFindAfter fieldName mem payload (payload + payloadLength)) (\<lambda>r.
          Inr (map_option (\<lambda>p. p + int (length fieldName)) r)))"

text \<open>\<open>while ((buffer[i] == ' ' || buffer[i] == '\t') && i > 0) --i\<close>\<close>

fun back_over_blanks :: "string \<Rightarrow> nat \<Rightarrow> nat" where
  "back_over_blanks buffer 0 = 0"
| "back_over_blanks buffer (Suc i) =
     (if code_of (buffer ! Suc i) = 32 \<or> code_of (buffer ! Suc i) = 9 then back_over_blanks buffer i else Suc i)"

text \<open>
  The search for \<open>key:\<close> at the start of a line and then for \<open>name\<close> behind it: the offset in the payload after
  the name. The next line is a view made from a C string, up to the next NUL.
\<close>

definition found_extraction_area :: "string \<Rightarrow> string \<Rightarrow> string \<Rightarrow> int \<Rightarrow> nat \<Rightarrow> bool result" where
  "found_extraction_area mem buffer key start pos =
     (let i = back_over_blanks buffer pos
      in if i = 0 \<or> code_of (buffer ! (i - 1)) = 10
         then andThen (peek mem (start + int pos + int (length key))) (\<lambda>c. Inr (c = CHR '':'')) else Inr False)"

lemma unbounded_scan_range: "unbounded_scan p mem c = Inr c' \<Longrightarrow> 0 \<le> c \<and> c \<le> int (length mem)"
  by (auto simp: unbounded_scan_def scan_def split: if_splits)

function dotted_search :: "string \<Rightarrow> int \<Rightarrow> string \<Rightarrow> string \<Rightarrow> int \<Rightarrow> nat \<Rightarrow> int option result" where
  "dotted_search mem payload key name start len =
     (if len = 0 then Inr None
      else andThen (mem_slice mem start len) (\<lambda>buffer.
        case OrkStringViewFind buffer key of
          None \<Rightarrow> Inr None
        | Some pos \<Rightarrow>
            andThen (found_extraction_area mem buffer key start pos) (\<lambda>found.
            if found then
              (if pos + length key + 1 > len then Inl (Thrown ''out_of_range'')
               else Inr (map_option (\<lambda>l. start + int (pos + length key + 1) - payload + int l + int (length name))
                 (OrkStringViewFind (drop (pos + length key + 1) buffer) name)))
            else case OrkStringViewFind buffer [CHR 0x0A] of
              None \<Rightarrow> Inr None
            | Some nextLine \<Rightarrow>
                andThen (unbounded_scan (\<lambda>c. code_of c \<noteq> 0) mem (start + int nextLine + 1)) (\<lambda>e.
                dotted_search mem payload key name (start + int nextLine + 1) (nat (e - (start + int nextLine + 1)))))))"
  by pat_completeness auto
termination
proof (relation "measure (\<lambda>(mem, payload, key, name, start, len). nat (int (length mem) - start))")
  fix mem payload start
  fix key name buffer :: string and len nextLine :: nat and e :: int
  assume slice: "mem_slice mem start len = Inr buffer" "len \<noteq> 0"
    and scan: "unbounded_scan (\<lambda>c. code_of c \<noteq> 0) mem (start + int nextLine + 1) = Inr e"
  from slice have "start < int (length mem)" by (auto simp: mem_slice_def split: if_splits)
  with unbounded_scan_range [OF scan]
  show "((mem, payload, key, name, start + int nextLine + 1, nat (e - (start + int nextLine + 1))),
      (mem, payload, key, name, start, len)) \<in> measure (\<lambda>(mem, payload, key, name, start, len). nat (int (length mem) - start))"
    by simp
qed simp

declare dotted_search.simps [simp del]

definition extract_searched :: "string \<Rightarrow> int \<Rightarrow> nat \<Rightarrow> string \<Rightarrow> string result" where
  "extract_searched mem payload len x =
     andThen (if CHR ''.'' \<in> set x
              then dotted_search mem payload (takeWhile (\<lambda>c. c \<noteq> CHR ''.'') x) (tl (dropWhile (\<lambda>c. c \<noteq> CHR ''.'') x)) payload len
              else andThen (mem_slice mem payload len) (\<lambda>buffer.
                Inr (map_option (\<lambda>l. int l + int (length x)) (OrkStringViewFind buffer x)))) (\<lambda>location.
     case location of
       None \<Rightarrow> Inr []
     | Some l \<Rightarrow> value_at mem (payload + l) (payload + int len))"

text \<open>The standard field of a key: its position in the array, the length of the prefix and the name in the packet.\<close>

definition standard_field :: "string \<Rightarrow> (nat \<times> nat \<times> string) option" where
  "standard_field x =
     (if take 5 x = ''from.'' then Some (0, 5, ''from:'')
      else if take 3 x = ''to.'' then Some (1, 3, ''to:'')
      else if take 9 x = ''replaces.'' then Some (2, 9, ''replaces:'')
      else if take 8 x = ''contact.'' then Some (3, 8, ''contact:'')
      else None)"

definition extract_key :: "string \<Rightarrow> int \<Rightarrow> nat \<Rightarrow> string \<Rightarrow> int option list \<Rightarrow> (int option list \<times> string) result" where
  "extract_key mem payload len x fieldPosition =
     (case standard_field x of
        Some (i, prefix, name) \<Rightarrow>
          andThen (retrieve_field_position_in_payload mem payload (int len) (fieldPosition ! i) name) (\<lambda>p.
          case p of
            None \<Rightarrow> Inr (fieldPosition, [])
          | Some q \<Rightarrow>
              andThen (ExtractKeyValueFromField mem (Some q) (q - payload + int len) (drop prefix x)) (\<lambda>v.
              Inr (fieldPosition[i := Some q], v)))
      | None \<Rightarrow> andThen (extract_searched mem payload len x) (\<lambda>v. Inr (fieldPosition, v)))"

fun ExtractKeyValuesData :: "string list \<Rightarrow> string \<Rightarrow> int \<Rightarrow> nat \<Rightarrow> int option list \<Rightarrow> (string, string) std_map \<Rightarrow> (string, string) std_map result" where
  "ExtractKeyValuesData [] mem payload len fieldPosition keyValues = Inr keyValues"
| "ExtractKeyValuesData (x # xs) mem payload len fieldPosition keyValues =
     andThen (extract_key mem payload len x fieldPosition) (\<lambda>(fieldPosition', v).
     ExtractKeyValuesData xs mem payload len fieldPosition' (if v = [] then keyValues else map_insert x v keyValues))"

section \<open>Packets\<close>

text \<open>
  What a parser is given: the frame, the UDP payload, the end of the IP packet, the length in the UDP header,
  the addresses, the MAC addresses and the fragment offset.
\<close>

record SipPacket =
  p_mem :: string
  p_payload :: int
  p_packetEnd :: int
  p_udpLen :: u16
  p_src :: u32
  p_dest :: u32
  p_sourceMac :: "u8 list"
  p_destinationMac :: "u8 list"
  p_offset :: nat

text \<open>
  The configuration, \<open>time(NULL)\<close>, what the uninitialised array of \<open>inet_pton4\<close> holds and what the uninitialised
  \<open>m_pkey\<close> of a new \<open>SipNotifyInfo\<close> holds.
\<close>

record ParserEnv =
  pe_config :: VoIpSettings
  pe_now :: int
  pe_tmp :: "nat list"
  pe_pkey :: int

type_synonym parsed = "(bool \<times> voip_event option) result"

definition sip_length :: "SipPacket \<Rightarrow> int" where
  "sip_length pkt = int (unat (p_udpLen pkt)) - 8"

definition sip_end :: "SipPacket \<Rightarrow> int" where
  "sip_end pkt = p_payload pkt + sip_length pkt"

definition memcmp_eq :: "string \<Rightarrow> string \<Rightarrow> int \<Rightarrow> bool result" where
  "memcmp_eq name mem p = andThen (mem_slice mem p (length name)) (\<lambda>s. Inr (s = name))"

section \<open>Fields\<close>

text \<open>A header field by its name or, when that is missing, by the short form at the start of a line.\<close>

definition find_field :: "string \<Rightarrow> string \<Rightarrow> string \<Rightarrow> int \<Rightarrow> int \<Rightarrow> int option result" where
  "find_field name short mem start stop =
     andThen (memFindAfter name mem start stop) (\<lambda>field. case field of
       Some p \<Rightarrow> Inr (Some p)
     | None \<Rightarrow> memFindAfter (CHR 0x0A # short) mem start stop)"

definition from_field :: "string \<Rightarrow> int \<Rightarrow> int \<Rightarrow> int option result" where
  "from_field = find_field ''From:'' ''f:''"

definition to_field :: "string \<Rightarrow> int \<Rightarrow> int \<Rightarrow> int option result" where
  "to_field = find_field ''To:'' ''t:''"

definition call_id_field :: "string \<Rightarrow> int \<Rightarrow> int \<Rightarrow> int option result" where
  "call_id_field = find_field ''Call-ID:'' ''i:''"

definition contact_field :: "string \<Rightarrow> int \<Rightarrow> int \<Rightarrow> int option result" where
  "contact_field = find_field ''Contact:'' ''c:''"

text \<open>\<open>if (field) { \<dots> }\<close>\<close>

definition if_field :: "int option \<Rightarrow> 'a \<Rightarrow> (int \<Rightarrow> 'a result) \<Rightarrow> 'a result" where
  "if_field field unchanged f = (case field of None \<Rightarrow> Inr unchanged | Some p \<Rightarrow> f p)"

definition field_token :: "string \<Rightarrow> int option \<Rightarrow> int \<Rightarrow> string result" where
  "field_token mem field stop = if_field field [] (\<lambda>p. GrabTokenSkipLeadingWhitespaces mem p stop [])"

text \<open>The user part, as a full address when that is configured.\<close>

definition grab_user :: "ParserEnv \<Rightarrow> string \<Rightarrow> int \<Rightarrow> int \<Rightarrow> string result" where
  "grab_user env mem p stop =
     (if m_sipReportFullAddress (pe_config env) then GrabSipUserAddress mem p stop [] else GrabSipUriUser mem p stop [])"

text \<open>Where the user part starts: behind \<open>sip:\<close>, or at the field.\<close>

definition sip_user :: "string \<Rightarrow> int \<Rightarrow> int \<Rightarrow> int result" where
  "sip_user mem field stop =
     andThen (memFindAfter ''sip:'' mem field stop) (\<lambda>r. Inr (case r of None \<Rightarrow> field | Some p \<Rightarrow> p))"

text \<open>The display name, the user part and the domain of a field that ends at \<open>stop\<close>.\<close>

definition grab_party :: "(string \<Rightarrow> int \<Rightarrow> int \<Rightarrow> string result) \<Rightarrow> string \<Rightarrow> int \<Rightarrow> int \<Rightarrow> (string \<times> string \<times> string) result" where
  "grab_party user mem field stop =
     andThen (GrabSipName mem field stop []) (\<lambda>name.
     andThen (sip_user mem field stop) (\<lambda>p.
     andThen (user mem p stop) (\<lambda>party.
     andThen (GrabSipUriDomain mem p stop []) (\<lambda>domain.
     Inr (name, party, domain)))))"

definition from_party :: "(string \<Rightarrow> int \<Rightarrow> int \<Rightarrow> string result) \<Rightarrow> string \<Rightarrow> int option \<Rightarrow> int \<Rightarrow> (string \<times> string \<times> string) result" where
  "from_party user mem field stop =
     if_field field ([], [], []) (\<lambda>p. andThen (memFindEOL mem p stop) (\<lambda>fieldEnd. grab_party user mem p fieldEnd))"

definition to_party :: "(string \<Rightarrow> int \<Rightarrow> int \<Rightarrow> string result) \<Rightarrow> string \<Rightarrow> int option \<Rightarrow> int \<Rightarrow> (string \<times> string \<times> string) result" where
  "to_party user mem field stop =
     if_field field ([], [], []) (\<lambda>p. andThen (GrabLine mem p stop []) (\<lambda>(fieldEnd, line). grab_party user mem p fieldEnd))"

text \<open>The same without name and domain.\<close>

definition from_user :: "ParserEnv \<Rightarrow> string \<Rightarrow> int option \<Rightarrow> int \<Rightarrow> string result" where
  "from_user env mem field stop =
     if_field field [] (\<lambda>p. andThen (memFindEOL mem p stop) (\<lambda>fieldEnd.
       andThen (sip_user mem p fieldEnd) (\<lambda>q. grab_user env mem q fieldEnd)))"

definition to_user :: "ParserEnv \<Rightarrow> string \<Rightarrow> int option \<Rightarrow> int \<Rightarrow> string result" where
  "to_user env mem field stop =
     if_field field [] (\<lambda>p. andThen (GrabLine mem p stop []) (\<lambda>(fieldEnd, line).
       andThen (sip_user mem p fieldEnd) (\<lambda>q. grab_user env mem q fieldEnd)))"

text \<open>An address, when the text is one.\<close>

definition parse_address :: "ParserEnv \<Rightarrow> string \<Rightarrow> u32 option result" where
  "parse_address env s =
     (if s = [] then Inr None else andThen (inet_pton4 (pe_tmp env) s) (\<lambda>r. Inr (map_option host_order r)))"

section \<open>BYE\<close>

definition read_bye :: "ParserEnv \<Rightarrow> SipPacket \<Rightarrow> int \<Rightarrow> parsed" where
  "read_bye env pkt sipEnd =
     (let mem = p_mem pkt; payload = p_payload pkt
      in andThen (from_field mem payload sipEnd) (\<lambda>fromField.
         andThen (to_field mem payload sipEnd) (\<lambda>toField.
         andThen (call_id_field mem payload sipEnd) (\<lambda>callIdField.
         andThen (field_token mem callIdField sipEnd) (\<lambda>callId.
         andThen (from_party (grab_user env) mem fromField sipEnd) (\<lambda>(fromName, from, fromDomain).
         andThen (to_party (grab_user env) mem toField sipEnd) (\<lambda>(toName, to, toDomain).
         let info = \<lparr>SipByeInfo.m_callId = callId, m_senderIp = p_src pkt, m_receiverIp = p_dest pkt, m_from = from, m_to = to,
               m_fromDomain = fromDomain, m_toDomain = toDomain, m_fromName = fromName, m_toName = toName\<rparr>
         in Inr (True, if callIdField \<noteq> None \<and> \<not> m_sipIgnoreBye (pe_config env) then Some (SipBye info) else None))))))))"

definition TrySipBye :: "ParserEnv \<Rightarrow> SipPacket \<Rightarrow> parsed" where
  "TrySipBye env pkt =
     (if sip_length pkt < 4 \<or> sip_end pkt > p_packetEnd pkt then Inr (False, None)
      else andThen (memcmp_eq ''BYE'' (p_mem pkt) (p_payload pkt)) (\<lambda>matches.
           if matches then read_bye env pkt (sip_end pkt) else Inr (False, None)))"

section \<open>NOTIFY\<close>

text \<open>\<open>%.2x\<close> of a \<open>char\<close>: a negative one is widened to an \<open>int\<close> first.\<close>

definition hex_char :: "char \<Rightarrow> string" where
  "hex_char c = (if code_of c \<ge> 128 then ''ffffff'' else []) @ hex2 (word_of_nat (code_of c))"

text \<open>\<open>while (*p != ' ') p--\<close>\<close>

fun back_to_space :: "nat \<Rightarrow> string \<Rightarrow> int result" where
  "back_to_space 0 mem = andThen (peek mem 0) (\<lambda>c. if c = CHR '' '' then Inr 0 else Inl OutOfBounds)"
| "back_to_space (Suc i) mem =
     andThen (peek mem (int (Suc i))) (\<lambda>c. if c = CHR '' '' then Inr (int (Suc i)) else back_to_space i mem)"

text \<open>\<open>boost::starts_with\<close> on a C string, whose length is taken first.\<close>

definition c_string_starts :: "string \<Rightarrow> string \<Rightarrow> int \<Rightarrow> bool result" where
  "c_string_starts prefix mem p =
     andThen (unbounded_scan (\<lambda>c. code_of c \<noteq> 0) mem p) (\<lambda>e. Inr (take (length prefix) (between mem p e) = prefix))"

text \<open>The display text and its hexadecimal form.\<close>

definition notify_display :: "ParserEnv \<Rightarrow> string \<Rightarrow> int \<Rightarrow> int \<Rightarrow> string option result" where
  "notify_display env mem payload sipEnd =
     andThen (memFindAfter (m_necNotifyDispLine (pe_config env)) mem payload sipEnd) (\<lambda>field.
     andThen (case field of Some p \<Rightarrow> Inr (Some p) | None \<Rightarrow> memFindAfter (CHR 0x0A # ''t:'') mem payload sipEnd) (\<lambda>dspField.
     if_field dspField None (\<lambda>p.
       andThen (memFindAfter ''Content-Length: 50'' mem payload sipEnd) (\<lambda>contentLen.
       andThen (if_field contentLen p (\<lambda>q. back_to_space (nat (q + 50)) mem)) (\<lambda>p'.
       andThen (GrabTokenSkipLeadingWhitespaces mem p' sipEnd []) (\<lambda>dsp. Inr (Some dsp)))))))"

text \<open>\<open>sscanf("%d")\<close> leaves the number alone when there is no digit.\<close>

definition notify_pkey :: "ParserEnv \<Rightarrow> string \<Rightarrow> int \<Rightarrow> int \<Rightarrow> int result" where
  "notify_pkey env mem payload sipEnd =
     andThen (memFindAfter ''Ind-Pkey='' mem payload sipEnd) (\<lambda>field.
     andThen (case field of Some p \<Rightarrow> Inr (Some p) | None \<Rightarrow> memFindAfter ''Ind-Fkey='' mem payload sipEnd) (\<lambda>pkeyField.
     if_field pkeyField (pe_pkey env) (\<lambda>p.
       andThen (GrabTokenSkipLeadingWhitespaces mem p sipEnd []) (\<lambda>pkeyToken.
       case strtol pkeyToken of (v, rest) \<Rightarrow>
         Inr (if rest = pkeyToken then pe_pkey env else sint (word_of_int v :: u32))))))"

definition read_notify :: "ParserEnv \<Rightarrow> SipPacket \<Rightarrow> int \<Rightarrow> parsed" where
  "read_notify env pkt sipEnd =
     (let mem = p_mem pkt; payload = p_payload pkt; config = pe_config env
      in andThen (call_id_field mem payload sipEnd) (\<lambda>callIdField.
         andThen (field_token mem callIdField sipEnd) (\<lambda>callId.
         andThen (notify_display env mem payload sipEnd) (\<lambda>display.
         andThen (notify_pkey env mem payload sipEnd) (\<lambda>pkey.
         let hex = map_option (\<lambda>dsp. concat (map hex_char dsp)) display;
             info = \<lparr>SipNotifyInfo.m_callId = callId, m_senderIp = p_src pkt, m_receiverIp = p_dest pkt,
               m_dsp = (case display of None \<Rightarrow> [] | Some dsp \<Rightarrow> dsp), m_onHoldMarker = (hex = Some (m_necOnHoldMarker config)),
               m_offHoldMarker = (hex = Some (m_necOffHoldMarker config)), m_pkey = pkey\<rparr>
         in if callIdField \<noteq> None \<and> m_sipNotifySupport config then Inr (True, Some (SipNotify info)) else Inr (False, None))))))"

definition TrySipNotify :: "ParserEnv \<Rightarrow> SipPacket \<Rightarrow> parsed" where
  "TrySipNotify env pkt =
     (if sip_length pkt < 4 \<or> sip_end pkt > p_packetEnd pkt then Inr (False, None)
      else andThen (c_string_starts ''NOTIFY'' (p_mem pkt) (p_payload pkt)) (\<lambda>matches.
           if matches then read_notify env pkt (sip_end pkt) else Inr (False, None)))"

section \<open>INFO\<close>

text \<open>The two flags of an on-demand field: on and off.\<close>

definition on_demand_flags :: "ParserEnv \<Rightarrow> string \<Rightarrow> bool \<times> bool" where
  "on_demand_flags env field =
     (if CompareNoCase_eq field (m_sipOnDemandFieldValue (pe_config env)) then (True, False)
      else if CompareNoCase_eq field (m_sipOnDemandFieldValueOff (pe_config env)) then (False, True)
      else (False, False))"

definition read_info :: "ParserEnv \<Rightarrow> SipPacket \<Rightarrow> int \<Rightarrow> parsed" where
  "read_info env pkt sipEnd =
     (let mem = p_mem pkt; payload = p_payload pkt; config = pe_config env
      in andThen (call_id_field mem payload sipEnd) (\<lambda>callIdField.
         andThen (field_token mem callIdField sipEnd) (\<lambda>callId.
         if length callId < 1 then Inr (True, None)
         else andThen (memFindAfter ''CSeq:'' mem payload sipEnd) (\<lambda>cSeqField.
              andThen (field_token mem cSeqField sipEnd) (\<lambda>cSeq.
              andThen (memFindAfter ''Signal='' mem payload sipEnd) (\<lambda>signalField.
              andThen (field_token mem signalField sipEnd) (\<lambda>digit.
              andThen (memFindAfter (m_sipOnDemandFieldName config @ '':'') mem payload sipEnd) (\<lambda>recordField.
              andThen (if_field recordField (False, False) (\<lambda>p.
                andThen (GrabLineSkipLeadingWhitespace mem p sipEnd []) (\<lambda>field. Inr (on_demand_flags env field)))) (\<lambda>(on, off).
              Inr (True, Some (SipInformation \<lparr>SipInfo.m_callId = callId, m_dtmfDigit = digit, m_cSeq = cSeq,
                m_onDemand = on, m_onDemandOff = off\<rparr>)))))))))))"

definition TrySipInfo :: "ParserEnv \<Rightarrow> SipPacket \<Rightarrow> parsed" where
  "TrySipInfo env pkt =
     (if sip_length pkt < 5 \<or> sip_end pkt > p_packetEnd pkt then Inr (False, None)
      else andThen (memcmp_eq ''INFO'' (p_mem pkt) (p_payload pkt)) (\<lambda>matches.
           if matches then read_info env pkt (sip_end pkt) else Inr (False, None)))"

section \<open>Failed calls\<close>

definition is_failure :: "string \<Rightarrow> int \<Rightarrow> bool result" where
  "is_failure mem p =
     andThen (memcmp_eq ''SIP/2.0 4'' mem p) (\<lambda>e4. if e4 then Inr True
     else andThen (memcmp_eq ''SIP/2.0 5'' mem p) (\<lambda>e5. if e5 then Inr True
     else andThen (memcmp_eq ''SIP/2.0 6'' mem p) (\<lambda>e6. if e6 then Inr True
     else memcmp_eq ''CANCEL '' mem p)))"

text \<open>The code and the text of the response; the line after the code may start past the end of the message.\<close>

definition failure_code :: "string \<Rightarrow> int \<Rightarrow> int option \<Rightarrow> int \<Rightarrow> (string \<times> string) result" where
  "failure_code mem payload eCode sipEnd =
     andThen (memcmp_eq ''CANCEL '' mem payload) (\<lambda>cancel.
     if cancel then Inr (''CANCEL'', ''User Agent CANCEL'')
     else if_field eCode ([], []) (\<lambda>p.
       andThen (GrabTokenSkipLeadingWhitespaces mem p sipEnd []) (\<lambda>errorCode.
       andThen (GrabLine mem (p + int (length errorCode) + 1) sipEnd []) (\<lambda>(_, errorString).
       Inr (errorCode, errorString)))))"

definition read_failure :: "SipPacket \<Rightarrow> int \<Rightarrow> (string \<times> string \<times> string) result" where
  "read_failure pkt sipEnd =
     (let mem = p_mem pkt; payload = p_payload pkt
      in andThen (call_id_field mem payload sipEnd) (\<lambda>callIdField.
         andThen (memFindAfter ''SIP/2.0 '' mem payload sipEnd) (\<lambda>eCode.
         andThen (field_token mem callIdField sipEnd) (\<lambda>callId.
         andThen (failure_code mem payload eCode sipEnd) (\<lambda>(errorCode, errorString).
         Inr (callId, errorCode, errorString))))))"

definition TryLogFailedSip :: "ParserEnv \<Rightarrow> SipPacket \<Rightarrow> parsed" where
  "TryLogFailedSip env pkt =
     (if \<not> m_sipLogFailedCalls (pe_config env) then Inr (False, None)
      else if sip_length pkt < 9 \<or> sip_end pkt > p_packetEnd pkt then Inr (False, None)
      else andThen (is_failure (p_mem pkt) (p_payload pkt)) (\<lambda>failure.
           andThen (if failure then read_failure pkt (sip_end pkt) else Inr ([], [], [])) (\<lambda>(callId, errorCode, errorString).
           if callId = [] \<or> errorCode = [] then Inr (False, None)
           else Inr (True, Some (SipFailure \<lparr>SipFailureMessageInfo.m_senderIp = p_src pkt, m_receiverIp = p_dest pkt,
                  m_senderMac = p_sourceMac pkt, m_receiverMac = p_destinationMac pkt,
                  m_callId = callId, m_errorCode = errorCode, m_errorString = errorString\<rparr>)))))"

section \<open>183 Session Progress and 200 OK\<close>

text \<open>The media port and address that the SDP behind the call ID announces, when it has both lines.\<close>

definition read_sdp :: "ParserEnv \<Rightarrow> string \<Rightarrow> int option \<Rightarrow> int \<Rightarrow> (string \<times> (string \<times> u32) option) result" where
  "read_sdp env mem callIdField sipEnd =
     if_field callIdField ([], None) (\<lambda>p.
       andThen (GrabTokenSkipLeadingWhitespaces mem p sipEnd []) (\<lambda>callId.
       andThen (memFindAfter ''m=audio '' mem p sipEnd) (\<lambda>audioField.
       andThen (memFindAfter ''c=IN IP4 '' mem p sipEnd) (\<lambda>connectionAddressField.
       case (audioField, connectionAddressField) of
         (Some a, Some c) \<Rightarrow>
           andThen (GrabToken mem a sipEnd []) (\<lambda>mediaPort.
           andThen (GrabToken mem c sipEnd []) (\<lambda>connectionAddress.
           andThen (parse_address env connectionAddress) (\<lambda>ip.
           Inr (callId, Some (mediaPort, case ip of None \<Rightarrow> 0 | Some mediaIp \<Rightarrow> mediaIp)))))
       | _ \<Rightarrow> Inr (callId, None)))))"

definition read_session_progress :: "ParserEnv \<Rightarrow> SipPacket \<Rightarrow> int \<Rightarrow> parsed" where
  "read_session_progress env pkt sipEnd =
     (let mem = p_mem pkt; payload = p_payload pkt
      in andThen (from_field mem payload sipEnd) (\<lambda>fromField.
         andThen (to_field mem payload sipEnd) (\<lambda>toField.
         andThen (call_id_field mem payload sipEnd) (\<lambda>callIdField.
         andThen (read_sdp env mem callIdField sipEnd) (\<lambda>(callId, sdp).
         andThen (from_user env mem fromField sipEnd) (\<lambda>from.
         andThen (to_user env mem toField sipEnd) (\<lambda>to.
         case sdp of
           None \<Rightarrow> Inr (True, None)
         | Some (port, ip) \<Rightarrow> Inr (True, Some (SipProgress \<lparr>SipSessionProgressInfo.m_callId = callId, m_mediaIp = ip,
             m_mediaPort = port, m_senderIp = p_src pkt, m_originalSenderIp = p_src pkt, m_receiverIp = p_dest pkt,
             m_from = from, m_to = to\<rparr>)))))))))"

definition TrySipSessionProgress :: "ParserEnv \<Rightarrow> SipPacket \<Rightarrow> parsed" where
  "TrySipSessionProgress env pkt =
     (if sip_length pkt < 28 \<or> sip_end pkt > p_packetEnd pkt then Inr (False, None)
      else andThen (memcmp_eq ''SIP/2.0 183 Session Progress'' (p_mem pkt) (p_payload pkt)) (\<lambda>matches.
           if matches then read_session_progress env pkt (sip_end pkt) else Inr (False, None)))"

definition read_200_ok :: "ParserEnv \<Rightarrow> SipPacket \<Rightarrow> int \<Rightarrow> parsed" where
  "read_200_ok env pkt sipEnd =
     (let mem = p_mem pkt; payload = p_payload pkt
      in andThen (from_field mem payload sipEnd) (\<lambda>fromField.
         andThen (to_field mem payload sipEnd) (\<lambda>toField.
         andThen (call_id_field mem payload sipEnd) (\<lambda>callIdField.
         andThen (read_sdp env mem callIdField sipEnd) (\<lambda>(callId, sdp).
         andThen (from_user env mem fromField sipEnd) (\<lambda>from.
         andThen (to_user env mem toField sipEnd) (\<lambda>to.
         Inr (True, Some (SipOk \<lparr>Sip200OkInfo.m_callId = callId, m_hasSdp = (sdp \<noteq> None),
           m_mediaIp = (case sdp of None \<Rightarrow> 0 | Some (port, ip) \<Rightarrow> ip), m_mediaPort = (case sdp of None \<Rightarrow> [] | Some (port, ip) \<Rightarrow> port),
           m_senderIp = p_src pkt, m_receiverIp = p_dest pkt, m_from = from, m_to = to, m_extractedFields = []\<rparr>)))))))))"

definition TrySip200Ok :: "ParserEnv \<Rightarrow> SipPacket \<Rightarrow> parsed" where
  "TrySip200Ok env pkt =
     (if m_sipTreat200OkAsInvite (pe_config env) then Inr (False, None)
      else if sip_length pkt < 11 \<or> sip_end pkt > p_packetEnd pkt then Inr (False, None)
      else andThen (memcmp_eq ''SIP/2.0 200'' (p_mem pkt) (p_payload pkt)) (\<lambda>matches.
           if matches then read_200_ok env pkt (sip_end pkt) else Inr (False, None)))"

section \<open>302 Moved Temporarily\<close>

text \<open>The packet is dropped without a call ID. \<open>!info->m_contact\<close> tests a pointer, so a missing contact does not drop it.\<close>

definition read_302 :: "ParserEnv \<Rightarrow> SipPacket \<Rightarrow> int \<Rightarrow> parsed" where
  "read_302 env pkt sipEnd =
     (let mem = p_mem pkt; payload = p_payload pkt
      in andThen (from_field mem payload sipEnd) (\<lambda>fromField.
         andThen (to_field mem payload sipEnd) (\<lambda>toField.
         andThen (call_id_field mem payload sipEnd) (\<lambda>callIdField.
         andThen (contact_field mem payload sipEnd) (\<lambda>contactField.
         andThen (from_party (grab_user env) mem fromField sipEnd) (\<lambda>(fromName, from, fromDomain).
         andThen (to_party (grab_user env) mem toField sipEnd) (\<lambda>(toName, to, toDomain).
         andThen (to_party (grab_user env) mem contactField sipEnd) (\<lambda>(contactName, contact, contactDomain).
         andThen (field_token mem callIdField sipEnd) (\<lambda>callId.
         if callId = [] then Inr (True, None)
         else Inr (True, Some (SipMoved \<lparr>Sip302MovedTemporarilyInfo.m_senderIp = p_src pkt, m_receiverIp = p_dest pkt,
                m_from = from, m_to = to, m_contact = contact, m_callId = callId, m_fromDomain = fromDomain, m_toDomain = toDomain,
                m_contactDomain = contactDomain, m_fromName = fromName, m_toName = toName, m_contactName = contactName\<rparr>)))))))))))"

definition TrySip302MovedTemporarily :: "ParserEnv \<Rightarrow> SipPacket \<Rightarrow> parsed" where
  "TrySip302MovedTemporarily env pkt =
     (if \<not> m_sip302MovedTemporarilySupport (pe_config env) then Inr (False, None)
      else if sip_length pkt < 29 \<or> sip_end pkt > p_packetEnd pkt then Inr (False, None)
      else andThen (memcmp_eq ''SIP/2.0 302 Moved Temporarily'' (p_mem pkt) (p_payload pkt)) (\<lambda>matches.
           if matches then read_302 env pkt (sip_end pkt) else Inr (False, None)))"

section \<open>SUBSCRIBE\<close>

text \<open>The length in the UDP header is not compared with the packet.\<close>

definition TrySipSubscribe :: "ParserEnv \<Rightarrow> SipPacket \<Rightarrow> parsed" where
  "TrySipSubscribe env pkt =
     (let mem = p_mem pkt; payload = p_payload pkt; sipEnd = sip_end pkt
      in andThen (memcmp_eq ''SUBSCRIBE'' mem payload) (\<lambda>matches.
         if \<not> matches then Inr (False, None)
         else andThen (memFindAfter ''Event:'' mem payload sipEnd) (\<lambda>eventField.
              andThen (field_token mem eventField sipEnd) (\<lambda>event.
              andThen (call_id_field mem payload sipEnd) (\<lambda>callIdField.
              andThen (field_token mem callIdField sipEnd) (\<lambda>callId.
              Inr (True, if CompareNoCase_eq event ''pickup''
                         then Some (SipSubscribe \<lparr>SipSubscribeInfo.m_callId = callId, m_event = event\<rparr>) else None)))))))"

section \<open>REFER\<close>

text \<open>The user part behind \<open>sip:\<close> in a line, empty without \<open>sip:\<close>.\<close>

definition refer_party :: "string \<Rightarrow> int option \<Rightarrow> int \<Rightarrow> string result" where
  "refer_party mem field sipEnd =
     if_field field [] (\<lambda>p.
       andThen (memFindEOL mem p sipEnd) (\<lambda>fieldEnd.
       andThen (memFindAfter ''sip:'' mem p fieldEnd) (\<lambda>sipUser.
       if_field sipUser [] (\<lambda>q. GrabSipUriUser mem q fieldEnd []))))"

text \<open>The party that is transferred: the one of From and To that neither refers nor is referred to.\<close>

definition referred_party :: "string \<Rightarrow> string \<Rightarrow> string \<Rightarrow> string \<Rightarrow> string" where
  "referred_party from to referTo referredBy =
     (let other = (\<lambda>party. party \<noteq> [] \<and> \<not> CompareNoCase_eq party referTo \<and> \<not> CompareNoCase_eq party referredBy)
      in if other from then from else if other to then to else [])"

definition read_refer :: "ParserEnv \<Rightarrow> SipPacket \<Rightarrow> int \<Rightarrow> parsed" where
  "read_refer env pkt sipEnd =
     (let mem = p_mem pkt; payload = p_payload pkt; user = (\<lambda>mem p stop. GrabSipUriUser mem p stop [])
      in andThen (memFindAfter ''Refer-To:'' mem payload sipEnd) (\<lambda>referToField.
         andThen (memFindAfter ''Referred-By:'' mem payload sipEnd) (\<lambda>referredByField.
         andThen (call_id_field mem payload sipEnd) (\<lambda>callIdField.
         andThen (from_field mem payload sipEnd) (\<lambda>fromField.
         andThen (to_field mem payload sipEnd) (\<lambda>toField.
         andThen (field_token mem callIdField sipEnd) (\<lambda>callId.
         andThen (from_party user mem fromField sipEnd) (\<lambda>(fromName, from, fromDomain).
         andThen (to_party user mem toField sipEnd) (\<lambda>(toName, to, toDomain).
         andThen (refer_party mem referToField sipEnd) (\<lambda>referTo.
         andThen (refer_party mem referredByField sipEnd) (\<lambda>referredBy.
         Inr (True, Some (SipReferral \<lparr>SipRefer.m_timestamp = pe_now env, m_senderIp = p_src pkt, m_receiverIp = p_dest pkt,
           m_from = from, m_to = to, m_toDomain = toDomain, m_fromDomain = fromDomain, m_fromName = fromName, m_toName = toName,
           m_callId = callId, m_referToParty = referTo, m_referredByParty = referredBy,
           m_referredParty = referred_party from to referTo referredBy, m_origOrkUid = []\<rparr>)))))))))))))"

definition TrySipRefer :: "ParserEnv \<Rightarrow> SipPacket \<Rightarrow> parsed" where
  "TrySipRefer env pkt =
     (if sip_length pkt < 5 \<or> sip_end pkt > p_packetEnd pkt then Inr (False, None)
      else andThen (memcmp_eq ''REFER'' (p_mem pkt) (p_payload pkt)) (\<lambda>matches.
           if matches then read_refer env pkt (sip_end pkt) else Inr (False, None)))"

section \<open>INVITE\<close>

text \<open>The method of a packet that is read as an INVITE: ACK, and 200 OK and 183 when configured.\<close>

definition invite_method :: "ParserEnv \<Rightarrow> SipPacket \<Rightarrow> string option result" where
  "invite_method env pkt =
     (let matches = (\<lambda>name. memcmp_eq name (p_mem pkt) (p_payload pkt)); config = pe_config env
      in andThen (matches ''INVITE'') (\<lambda>invite. if invite then Inr (Some ''INVITE'')
         else andThen (matches ''ACK'') (\<lambda>ack. if ack then Inr (Some ''ACK'')
         else andThen (if m_sipTreat200OkAsInvite config then matches ''SIP/2.0 200'' else Inr False) (\<lambda>ok.
              if ok then Inr (Some ''200 OK'')
         else andThen (if m_sipDetectSessionProgress config then matches ''SIP/2.0 183 Session Progress'' else Inr False) (\<lambda>progress.
              Inr (if progress then Some ''SIP/2.0 183 Session Progress'' else None))))))"

text \<open>\<open>sipEnd\<close>: a first fragment that is not reassembled is read up to the end of the packet.\<close>

definition invite_end :: "ParserEnv \<Rightarrow> SipPacket \<Rightarrow> int" where
  "invite_end env pkt =
     (if \<not> m_ipFragmentsReassemble (pe_config env) \<and> sip_end pkt > p_packetEnd pkt \<and> p_offset pkt = 0
      then p_packetEnd pkt else sip_end pkt)"

text \<open>\<open>char *\<close> values compared with \<open><\<close>: NULL is below every pointer.\<close>

fun pointer_less :: "int option \<Rightarrow> int option \<Rightarrow> bool" where
  "pointer_less None (Some b) = True"
| "pointer_less (Some a) (Some b) = (a < b)"
| "pointer_less a None = False"

text \<open>The part of the SDP body about audio.\<close>

definition audio_section :: "string \<Rightarrow> int \<Rightarrow> int \<Rightarrow> (int \<times> int) result" where
  "audio_section mem payload sipEnd =
     andThen (memFindAfter ''m=audio'' mem payload sipEnd) (\<lambda>audioStart.
     andThen (memFindAfter ''m=video'' mem payload sipEnd) (\<lambda>videoStart.
     Inr (if pointer_less videoStart audioStart then (case audioStart of Some a \<Rightarrow> a | None \<Rightarrow> payload) else payload,
          if pointer_less audioStart videoStart then (case videoStart of Some v \<Rightarrow> v | None \<Rightarrow> sipEnd) else sipEnd)))"

definition configured_field :: "string \<Rightarrow> string \<Rightarrow> int \<Rightarrow> int \<Rightarrow> int option result" where
  "configured_field name mem start stop = (if name = [] then Inr None else memFindAfter (name @ '':'') mem start stop)"

definition invite_request_uri :: "ParserEnv \<Rightarrow> string \<Rightarrow> int \<Rightarrow> int \<Rightarrow> string result" where
  "invite_request_uri env mem payload sipEnd =
     (if \<not> m_sipRequestUriAsLocalParty (pe_config env) then Inr []
      else andThen (memFindAfter ''INVITE '' mem payload sipEnd) (\<lambda>sipUriAttribute. from_user env mem sipUriAttribute sipEnd))"

text \<open>The To field may have a telephone number instead.\<close>

definition invite_to :: "ParserEnv \<Rightarrow> string \<Rightarrow> int option \<Rightarrow> int \<Rightarrow> (string \<times> string \<times> string) result" where
  "invite_to env mem field sipEnd =
     if_field field ([], [], []) (\<lambda>p.
       andThen (GrabLine mem p sipEnd []) (\<lambda>(fieldEnd, line).
       andThen (GrabSipName mem p fieldEnd []) (\<lambda>name.
       andThen (memFindAfter ''sip:'' mem p fieldEnd) (\<lambda>sip.
       andThen (case sip of Some q \<Rightarrow> Inr (Some q) | None \<Rightarrow> memFindAfter ''tel:'' mem p fieldEnd) (\<lambda>sipUser.
       let q = (case sipUser of None \<Rightarrow> p | Some q \<Rightarrow> q)
       in andThen (grab_user env mem q fieldEnd) (\<lambda>party.
          andThen (GrabSipUriDomain mem q fieldEnd []) (\<lambda>domain.
          Inr (name, party, domain))))))))"

text \<open>The header fields.\<close>

definition invite_header :: "ParserEnv \<Rightarrow> SipPacket \<Rightarrow> int \<Rightarrow> int option \<Rightarrow> int option \<Rightarrow> SipInviteInfo \<Rightarrow> SipInviteInfo result" where
  "invite_header env pkt sipEnd fromField toField info =
     (let mem = p_mem pkt; payload = p_payload pkt; config = pe_config env
      in andThen (configured_field (m_sipDialedNumberFieldName config) mem payload sipEnd) (\<lambda>dialedNumber.
         andThen (configured_field (m_sipRemotePartyFieldName config) mem payload sipEnd) (\<lambda>sipRemoteParty.
         andThen (memFindAfter (m_sipLocalPartyFieldName config) mem payload sipEnd) (\<lambda>localExtensionField.
         andThen (memFindAfter (CHR 0x0A # ''User-Agent:'') mem payload sipEnd) (\<lambda>userAgentField.
         andThen (invite_request_uri env mem payload sipEnd) (\<lambda>requestUri.
         andThen (from_party (grab_user env) mem fromField sipEnd) (\<lambda>(fromName, from, fromDomain).
         andThen (invite_to env mem toField sipEnd) (\<lambda>(toName, to, toDomain).
         andThen (field_token mem dialedNumber sipEnd) (\<lambda>dialed.
         andThen (if_field sipRemoteParty [] (\<lambda>p. andThen (sip_user mem p sipEnd) (\<lambda>q. grab_user env mem q sipEnd))) (\<lambda>remote.
         andThen (field_token mem localExtensionField sipEnd) (\<lambda>localExtension.
         andThen (field_token mem userAgentField sipEnd) (\<lambda>userAgent.
         Inr (info\<lparr>m_requestUri := requestUri, SipInviteInfo.m_fromName := fromName, SipInviteInfo.m_fromDomain := fromDomain,
           SipInviteInfo.m_from := (if localExtension \<noteq> [] then localExtension else from),
           SipInviteInfo.m_toName := toName, SipInviteInfo.m_to := to, SipInviteInfo.m_toDomain := toDomain,
           m_SipGroupPickUpPatternDetected := (toField \<noteq> None \<and> m_sipGroupPickUpPattern config = to),
           SipInviteInfo.m_sipDialedNumber := dialed, SipInviteInfo.m_sipRemoteParty := remote, m_userAgent := userAgent\<rparr>)))))))))))))"

text \<open>The call ID, the media port and address behind it; the flag tells to drop an indirect INVITE.\<close>

definition invite_media :: "ParserEnv \<Rightarrow> SipPacket \<Rightarrow> int \<Rightarrow> int option \<Rightarrow> SipInviteInfo \<Rightarrow> (SipInviteInfo \<times> bool) result" where
  "invite_media env pkt sipEnd callIdField info =
     (let mem = p_mem pkt
      in if_field callIdField (info, False) (\<lambda>p.
         andThen (GrabTokenSkipLeadingWhitespaces mem p sipEnd []) (\<lambda>callId.
         andThen (memFindAfter ''m=audio '' mem p sipEnd) (\<lambda>audioField.
         andThen (memFindAfter ''c=IN IP4 '' mem p sipEnd) (\<lambda>connectionAddressField.
         andThen (if_field audioField [] (\<lambda>a. GrabToken mem a sipEnd [])) (\<lambda>port.
         andThen (if_field connectionAddressField [] (\<lambda>c. GrabToken mem c sipEnd [])) (\<lambda>connectionAddress.
         andThen (parse_address env connectionAddress) (\<lambda>ip.
         let info1 = info\<lparr>SipInviteInfo.m_callId := callId, m_fromRtpPort := port\<rparr>
         in Inr (case ip of
              None \<Rightarrow> (info1, False)
            | Some fromIp \<Rightarrow> (info1\<lparr>m_fromRtpIp := fromIp\<rparr>,
                m_sipDropIndirectInvite (pe_config env) \<and> fromIp \<noteq> p_src pkt))))))))))"

definition invite_replaces :: "string \<Rightarrow> int option \<Rightarrow> int \<Rightarrow> string result" where
  "invite_replaces mem replacesField sipEnd =
     andThen (field_token mem replacesField sipEnd) (\<lambda>content.
     Inr (if CHR '';'' \<in> set content then takeWhile (\<lambda>c. c \<noteq> CHR '';'') content else []))"

definition read_contact :: "ParserEnv \<Rightarrow> string \<Rightarrow> int option \<Rightarrow> int \<Rightarrow> SipInviteInfo \<Rightarrow> SipInviteInfo result" where
  "read_contact env mem contactField sipEnd info =
     (if m_sipMethod info \<noteq> ''INVITE'' then Inr info
      else andThen (to_party (grab_user env) mem contactField sipEnd) (\<lambda>(name, contact, domain).
           Inr (info\<lparr>SipInviteInfo.m_contactName := name, SipInviteInfo.m_contact := contact, SipInviteInfo.m_contactDomain := domain\<rparr>)))"

fun extract_fields :: "string list \<Rightarrow> string \<Rightarrow> int \<Rightarrow> int \<Rightarrow> (string, string) std_map \<Rightarrow> (string, string) std_map result" where
  "extract_fields [] mem payload sipEnd extracted = Inr extracted"
| "extract_fields (name # names) mem payload sipEnd extracted =
     andThen (memFindAfter (name @ '':'') mem payload sipEnd) (\<lambda>szField.
     andThen (if_field szField extracted (\<lambda>p.
       andThen (GrabLineSkipLeadingWhitespace mem p sipEnd []) (\<lambda>field. Inr (map_insert name field extracted)))) (\<lambda>extracted'.
     extract_fields names mem payload sipEnd extracted'))"

definition rtpmap_attribute :: string where
  "rtpmap_attribute = CHR 0x0A # ''a=rtpmap:''"

text \<open>
  The payload type of \<open>telephone-event\<close>, if a line announces it. Each round but the last moves on in the
  message: the fuel is the distance to its end, where the loop stops.
\<close>

fun telephone_event_loop :: "nat \<Rightarrow> string \<Rightarrow> int \<Rightarrow> int \<Rightarrow> int \<Rightarrow> int option result" where
  "telephone_event_loop 0 mem attribute audioSdpEnd sipEnd = Inr None"
| "telephone_event_loop (Suc n) mem attribute audioSdpEnd sipEnd =
     (if attribute \<ge> sipEnd then Inr None
      else andThen (GrabTokenSkipLeadingWhitespaces mem attribute audioSdpEnd []) (\<lambda>payloadType.
           andThen (memFindAfter (payloadType @ '' '') mem attribute audioSdpEnd) (\<lambda>nextStep.
           andThen (case nextStep of
               None \<Rightarrow> Inr False
             | Some p \<Rightarrow> if sipEnd - p \<ge> 15 then strncasecmp_eq 15 ''telephone-event'' mem p else Inr False) (\<lambda>event.
           if event then andThen (StringToInt payloadType) (\<lambda>v. Inr (Some v))
           else andThen (memFindAfter rtpmap_attribute mem attribute audioSdpEnd) (\<lambda>next_attribute.
                case next_attribute of
                  None \<Rightarrow> Inr None
                | Some p \<Rightarrow> telephone_event_loop n mem p audioSdpEnd sipEnd)))))"

text \<open>What the audio part of the SDP body says: the direction, \<open>telephone-event\<close> and the dynamic payload types.\<close>

definition invite_sdp :: "ParserEnv \<Rightarrow> SipPacket \<Rightarrow> int \<Rightarrow> SipInviteInfo \<Rightarrow> SipInviteInfo result" where
  "invite_sdp env pkt sipEnd info =
     (let mem = p_mem pkt
      in andThen (audio_section mem (p_payload pkt) sipEnd) (\<lambda>(audioSdpStart, audioSdpEnd).
         andThen (memFindAfter ''a=sendonly'' mem audioSdpStart audioSdpEnd) (\<lambda>attribSendonly.
         andThen (memFindAfter ''a=inactive'' mem audioSdpStart audioSdpEnd) (\<lambda>attribInactive.
         andThen (memFindAfter rtpmap_attribute mem audioSdpStart audioSdpEnd) (\<lambda>rtpmapAttribute.
         andThen (case rtpmapAttribute of
             Some p \<Rightarrow> if m_rtpReportDtmf (pe_config env)
                       then telephone_event_loop (nat (sipEnd - p)) mem p audioSdpEnd sipEnd else Inr None
           | None \<Rightarrow> Inr None) (\<lambda>telephoneEvent.
         andThen (if rtpmapAttribute \<noteq> None
                  then GetDynamicPayloadMapping mem audioSdpStart audioSdpEnd (SipInviteInfo.m_orekaRtpPayloadTypeMap info)
                  else Inr None) (\<lambda>payloadMap.
         Inr (info\<lparr>m_attrSendonly := (attribSendonly \<noteq> None \<or> attribInactive \<noteq> None),
           SipInviteInfo.m_telephoneEventPayloadType := (case telephoneEvent of None \<Rightarrow> SipInviteInfo.m_telephoneEventPayloadType info | Some v \<Rightarrow> v),
           SipInviteInfo.m_orekaRtpPayloadTypeMap := (case payloadMap of None \<Rightarrow> SipInviteInfo.m_orekaRtpPayloadTypeMap info | Some m \<Rightarrow> m)\<rparr>))))))))"

definition invite_addresses :: "ParserEnv \<Rightarrow> SipPacket \<Rightarrow> SipInviteInfo \<Rightarrow> SipInviteInfo" where
  "invite_addresses env pkt info =
     (let swap = (m_sipMethod info = ''200 OK'')
      in info\<lparr>m_fromRtpIp := (if m_fromRtpIp info = 0
                then (if m_dahdiIntercept (pe_config env) then p_dest pkt else p_src pkt) else m_fromRtpIp info),
              SipInviteInfo.m_senderIp := (if swap then p_dest pkt else p_src pkt),
              SipInviteInfo.m_receiverIp := (if swap then p_src pkt else p_dest pkt),
              SipInviteInfo.m_originalSenderIp := p_src pkt, m_recvTime := pe_now env,
              SipInviteInfo.m_senderMac := p_sourceMac pkt, SipInviteInfo.m_receiverMac := p_destinationMac pkt\<rparr>)"

text \<open>
  Messages are reported when they name both parties and the call; other methods than INVITE only with a media
  port. The array of positions has the one of Replaces in the place of Contact.
\<close>

definition read_invite :: "ParserEnv \<Rightarrow> SipPacket \<Rightarrow> int \<Rightarrow> string \<Rightarrow> parsed" where
  "read_invite env pkt sipEnd sipMethod =
     (let mem = p_mem pkt; payload = p_payload pkt; config = pe_config env
      in andThen (from_field mem payload sipEnd) (\<lambda>fromField.
         andThen (to_field mem payload sipEnd) (\<lambda>toField.
         andThen (call_id_field mem payload sipEnd) (\<lambda>callIdField.
         andThen (find_field ''Replaces:'' ''r:'' mem payload sipEnd) (\<lambda>replacesField.
         andThen (contact_field mem payload sipEnd) (\<lambda>contactField.
         andThen (invite_header env pkt sipEnd fromField toField (new_SipInviteInfo\<lparr>m_sipMethod := sipMethod\<rparr>)) (\<lambda>info1.
         andThen (invite_media env pkt sipEnd callIdField info1) (\<lambda>(info2, indirect).
         andThen (invite_replaces mem replacesField sipEnd) (\<lambda>replacesId.
         andThen (read_contact env mem contactField sipEnd (info2\<lparr>m_replacesId := replacesId\<rparr>)) (\<lambda>info3.
         andThen (extract_fields (m_sipExtractFields config) mem payload sipEnd []) (\<lambda>extracted.
         andThen (ExtractKeyValuesData (m_sipExtractKeyValues config) mem payload (nat (sip_length pkt))
           [fromField, toField, replacesField, replacesField] extracted) (\<lambda>extracted'.
         andThen (invite_sdp env pkt sipEnd (info3\<lparr>SipInviteInfo.m_extractedFields := extracted'\<rparr>)) (\<lambda>info4.
         let info = invite_addresses env pkt info4;
             complete = (SipInviteInfo.m_from info \<noteq> [] \<and> SipInviteInfo.m_to info \<noteq> [] \<and> SipInviteInfo.m_callId info \<noteq> [])
         in Inr (True, if \<not> indirect \<and> complete \<and> (sipMethod = ''INVITE'' \<or> m_fromRtpPort info \<noteq> [])
                       then Some (SipInvite info) else None))))))))))))))"

definition TrySipInvite :: "ParserEnv \<Rightarrow> SipPacket \<Rightarrow> parsed" where
  "TrySipInvite env pkt =
     (let sipEnd = invite_end env pkt
      in if sip_length pkt < 3 \<or> sipEnd > p_packetEnd pkt then Inr (False, None)
         else andThen (invite_method env pkt) (\<lambda>m. case m of
           None \<Rightarrow> Inr (False, None)
         | Some sipMethod \<Rightarrow> read_invite env pkt sipEnd sipMethod))"

end
