(* ===== verification/SipParsersProps.thy ===== *)
theory SipParsersProps
  imports SipParsers
begin

text \<open>
  The SIP parsers stay inside the memory of the packet, and what they report satisfies what the session
  handlers rely on.
\<close>

section \<open>Packets that can be parsed\<close>

text \<open>
  A NUL at \<open>n\<close>, not before the end of the packet, and 50 readable bytes from there (the start of the payload is
  compared with names of at most 29 characters, \<open>GetDynamicPayloadMapping\<close> reads 9 bytes past the message
  and \<open>TrySipNotify\<close> up to 50).
\<close>

definition packet_memory :: "SipPacket \<Rightarrow> int \<Rightarrow> bool" where
  "packet_memory pkt n \<longleftrightarrow> terminated (p_mem pkt) n \<and> inside n (p_payload pkt) \<and> inside n (p_packetEnd pkt) \<and>
     sip_end pkt \<le> n \<and> n + 50 < int (length (p_mem pkt))"

text \<open>Names from the configuration are C strings; no key names one of the four standard fields.\<close>

definition parser_env_ok :: "ParserEnv \<Rightarrow> bool" where
  "parser_env_ok env \<longleftrightarrow> length (pe_tmp env) = 3 \<and>
     list_all no_nul ([m_necNotifyDispLine (pe_config env), m_sipOnDemandFieldName (pe_config env),
       m_sipDialedNumberFieldName (pe_config env), m_sipRemotePartyFieldName (pe_config env),
       m_sipLocalPartyFieldName (pe_config env)] @ m_sipExtractFields (pe_config env)) \<and>
     list_all (\<lambda>x. standard_field x = None) (m_sipExtractKeyValues (pe_config env))"

lemma packet_memoryD:
  assumes "packet_memory pkt n"
  shows "terminated (p_mem pkt) n" "inside n (p_payload pkt)" "inside n (p_packetEnd pkt)" "sip_end pkt \<le> n" "n + 50 < int (length (p_mem pkt))"
  using assms by (auto simp: packet_memory_def)

lemma sip_end_inside: "packet_memory pkt n \<Longrightarrow> 0 \<le> sip_length pkt \<Longrightarrow> inside n (sip_end pkt)"
  by (auto simp: packet_memory_def inside_def sip_end_def)

lemma no_nul_literals [simp]:
  "no_nul ''From:''" "no_nul ''To:''" "no_nul ''Call-ID:''" "no_nul ''Contact:''" "no_nul ''sip:''" "no_nul ''tel:''"
  "no_nul (CHR 0x0A # ''t:'')" "no_nul (CHR 0x0A # ''f:'')" "no_nul (CHR 0x0A # ''i:'')" "no_nul (CHR 0x0A # ''c:'')"
  "no_nul (CHR 0x0A # ''r:'')" "no_nul ''Replaces:''" "no_nul ''Content-Length: 50''" "no_nul ''Ind-Pkey=''"
  "no_nul ''Ind-Fkey=''" "no_nul ''CSeq:''" "no_nul ''Signal=''" "no_nul ''SIP/2.0 ''" "no_nul ''m=audio ''"
  "no_nul ''c=IN IP4 ''" "no_nul ''Event:''" "no_nul ''Refer-To:''" "no_nul ''Referred-By:''" "no_nul ''m=audio''"
  "no_nul ''m=video''" "no_nul (CHR 0x0A # ''User-Agent:'')" "no_nul ''INVITE ''" "no_nul ''a=sendonly''"
  "no_nul ''a=inactive''" "no_nul rtpmap_attribute" "no_nul ''telephone-event''"
  by (simp_all add: no_nul_def code_of_def rtpmap_attribute_def)

lemma no_nul_append [simp]: "no_nul (a @ b) \<longleftrightarrow> no_nul a \<and> no_nul b"
  by (simp add: no_nul_def)

lemma no_nul_colon [simp]: "no_nul '':''" "no_nul '' ''"
  by (simp_all add: no_nul_def code_of_def)

section \<open>Fields\<close>

lemma safe_memcmp_eq [safe]:
  "packet_memory pkt n \<Longrightarrow> length name \<le> 50 \<Longrightarrow> memory_safe (memcmp_eq name (p_mem pkt) (p_payload pkt)) (\<lambda>_. True)"
  unfolding memcmp_eq_def
  by (rule safe_andThen [OF safe_mem_slice]) (auto simp: packet_memory_def inside_def)

lemma safe_find_field [safe]:
  assumes "terminated mem n" "no_nul name" "no_nul (CHR 0x0A # short)" "inside n start" "inside n stop"
  shows "memory_safe (find_field name short mem start stop) (pointer n)"
  unfolding find_field_def
  by (rule safe_andThen [OF safe_memFindAfter]) (use assms in \<open>auto intro: safe_memFindAfter split: option.split\<close>)

lemma safe_named_field [safe]:
  assumes "terminated mem n" "inside n start" "inside n stop"
  shows "memory_safe (from_field mem start stop) (pointer n)" "memory_safe (to_field mem start stop) (pointer n)"
    "memory_safe (call_id_field mem start stop) (pointer n)" "memory_safe (contact_field mem start stop) (pointer n)"
  using assms by (simp_all add: from_field_def to_field_def call_id_field_def contact_field_def safe_find_field)

lemma safe_if_field:
  "pointer n field \<Longrightarrow> P unchanged \<Longrightarrow> (\<And>p. inside n p \<Longrightarrow> memory_safe (f p) P) \<Longrightarrow> memory_safe (if_field field unchanged f) P"
  by (cases field) (auto simp: if_field_def)

lemma safe_field_token [safe]:
  "terminated mem n \<Longrightarrow> pointer n field \<Longrightarrow> inside n stop \<Longrightarrow> memory_safe (field_token mem field stop) (\<lambda>_. True)"
  unfolding field_token_def by (rule safe_if_field) (auto intro: safe_GrabTokenSkip)

lemma safe_grab_user [safe]:
  "terminated mem n \<Longrightarrow> inside n p \<Longrightarrow> inside n stop \<Longrightarrow> memory_safe (grab_user env mem p stop) (\<lambda>_. True)"
  unfolding grab_user_def by (auto intro: safe_GrabSipUser)

lemma safe_sip_user [safe]:
  "terminated mem n \<Longrightarrow> inside n p \<Longrightarrow> inside n stop \<Longrightarrow> memory_safe (sip_user mem p stop) (inside n)"
  unfolding sip_user_def
  by (rule safe_andThen [OF safe_memFindAfter]) (auto simp: pointer_def split: option.splits)

text \<open>What is asked of the function that grabs the user part.\<close>

definition user_safe :: "(string \<Rightarrow> int \<Rightarrow> int \<Rightarrow> string result) \<Rightarrow> string \<Rightarrow> int \<Rightarrow> bool" where
  "user_safe user mem n \<longleftrightarrow> (\<forall>p stop. inside n p \<and> inside n stop \<longrightarrow> memory_safe (user mem p stop) (\<lambda>_. True))"

lemma user_safe_grab: "terminated mem n \<Longrightarrow> user_safe (grab_user env) mem n"
    "terminated mem n \<Longrightarrow> user_safe (\<lambda>mem p stop. GrabSipUriUser mem p stop []) mem n"
  by (auto simp: user_safe_def intro: safe_grab_user safe_GrabSipUser)

lemma safe_grab_party [safe]:
  assumes "terminated mem n" "user_safe user mem n" "inside n p" "inside n stop"
  shows "memory_safe (grab_party user mem p stop) (\<lambda>_. True)"
  unfolding grab_party_def
  apply (rule safe_andThen [OF safe_GrabSipName [OF assms(1,3,4)]])
  apply (rule safe_andThen [OF safe_sip_user [OF assms(1,3,4)]])
  apply (rule safe_andThen [where P = "\<lambda>_. True"])
  subgoal using assms by (auto simp: user_safe_def)
  by (rule safe_andThen [OF safe_GrabSipUriDomain [OF assms(1) _ assms(4)]]) auto

lemma safe_party [safe]:
  assumes "terminated mem n" "user_safe user mem n" "pointer n field" "inside n stop"
  shows "memory_safe (from_party user mem field stop) (\<lambda>_. True)" "memory_safe (to_party user mem field stop) (\<lambda>_. True)"
  unfolding from_party_def to_party_def
   apply (rule safe_if_field [OF assms(3)], simp)
   apply (rule safe_andThen [OF safe_memFindEOL [OF assms(1) _ assms(4)]], assumption)
   apply (rule safe_grab_party; use assms in simp)
  apply (rule safe_if_field [OF assms(3)], simp)
  apply (rule safe_andThen [OF safe_GrabLine [OF assms(1) _ assms(4)]], assumption)
  apply (use assms in \<open>auto intro: safe_grab_party\<close>)
  done

lemma safe_user [safe]:
  assumes "terminated mem n" "pointer n field" "inside n stop"
  shows "memory_safe (from_user env mem field stop) (\<lambda>_. True)" "memory_safe (to_user env mem field stop) (\<lambda>_. True)"
  unfolding from_user_def to_user_def
   apply (rule safe_if_field [OF assms(2)], simp)
   apply (rule safe_andThen [OF safe_memFindEOL [OF assms(1) _ assms(3)]], assumption)
   apply (rule safe_andThen [OF safe_sip_user [OF assms(1)]], assumption, assumption)
   apply (rule safe_grab_user; use assms in simp)
  apply (rule safe_if_field [OF assms(2)], simp)
  apply (rule safe_andThen [OF safe_GrabLine [OF assms(1) _ assms(3)]], assumption)
  apply (use assms in \<open>auto intro: safe_grab_user safe_andThen [OF safe_sip_user]\<close>)
  done

lemma safe_parse_address [safe]: "length (pe_tmp env) = 3 \<Longrightarrow> memory_safe (parse_address env s) (\<lambda>_. True)"
  unfolding parse_address_def by (auto intro: safe_andThen [OF safe_inet_pton4])

section \<open>Parsers\<close>

lemma safe_case_prod: "(\<And>a b. memory_safe (f a b) P) \<Longrightarrow> memory_safe (case x of (a, b) \<Rightarrow> f a b) P"
  by (cases x) simp

lemma safe_case_prod': "(\<And>a b. x = (a, b) \<Longrightarrow> memory_safe (f a b) P) \<Longrightarrow> memory_safe (case x of (a, b) \<Rightarrow> f a b) P"
  by (cases x) simp

lemma safe_pair: "memory_safe (f a b) P \<Longrightarrow> memory_safe (case (a, b) of (x, y) \<Rightarrow> f x y) P"
  by simp

lemma safe_andThen_any: "memory_safe m (\<lambda>_. True) \<Longrightarrow> (\<And>x. memory_safe (f x) P) \<Longrightarrow> memory_safe (andThen m f) P"
  by (rule safe_andThen)

lemma read_bye_safe:
  assumes "terminated (p_mem pkt) n" "inside n (p_payload pkt)" "inside n sipEnd"
  shows "memory_safe (read_bye env pkt sipEnd) (\<lambda>_. True)"
  unfolding read_bye_def Let_def
  by ((rule safe_andThen, rule safe, (rule assms user_safe_grab | assumption | simp)+) | rule safe_case_prod | simp)+

lemma read_info_safe:
  assumes "parser_env_ok env" "terminated (p_mem pkt) n" "inside n (p_payload pkt)" "inside n sipEnd"
  shows "memory_safe (read_info env pkt sipEnd) (\<lambda>_. True)"
proof -
  have name: "no_nul (m_sipOnDemandFieldName (pe_config env) @ '':'')" using assms(1) by (simp add: parser_env_ok_def)
  show ?thesis
    unfolding read_info_def Let_def
    by (rule safe_if | (rule safe_andThen, rule safe, (rule assms name | assumption | (simp; fail))+) | rule safe_case_prod
      | (rule safe_if_field, assumption) | rule safe_andThen_any | (simp; fail))+
qed

lemma read_sdp_safe [safe]:
  assumes "length (pe_tmp env) = 3" "terminated mem n" "pointer n field" "inside n sipEnd"
  shows "memory_safe (read_sdp env mem field sipEnd) (\<lambda>_. True)"
  unfolding read_sdp_def
  by ((rule safe_andThen, rule safe, (rule assms | assumption | (simp; fail))+) | rule safe_pair
      | (rule safe_if_field, rule assms) | (rule safe_option, assumption) | (simp; fail))+

lemma read_session_progress_safe:
  assumes "length (pe_tmp env) = 3" "terminated (p_mem pkt) n" "inside n (p_payload pkt)" "inside n sipEnd"
  shows "memory_safe (read_session_progress env pkt sipEnd) (\<lambda>_. True)" "memory_safe (read_200_ok env pkt sipEnd) (\<lambda>_. True)"
  unfolding read_session_progress_def read_200_ok_def Let_def
  by ((rule safe_andThen, rule safe, (rule assms | assumption | (simp; fail))+) | rule safe_case_prod
    | (simp split: option.split; fail))+

lemma read_302_safe:
  assumes "terminated (p_mem pkt) n" "inside n (p_payload pkt)" "inside n sipEnd"
  shows "memory_safe (read_302 env pkt sipEnd) (\<lambda>_. True)"
  unfolding read_302_def Let_def
  by ((rule safe_andThen, rule safe, (rule assms user_safe_grab | assumption | simp)+) | rule safe_case_prod | simp)+

lemma scan_any_limit: "0 \<le> p \<Longrightarrow> p < int (length mem) \<Longrightarrow> limit \<le> p \<Longrightarrow> memory_safe (GrabTokenSkipLeadingWhitespaces mem p limit out) (\<lambda>_. True)"
  by (simp add: GrabTokenSkipLeadingWhitespaces_def GrabToken_def scan_beyond)

lemma safe_GrabLine_any:
  assumes "terminated mem n" "0 \<le> p" "inside n limit"
  shows "memory_safe (GrabLine mem p limit out) (\<lambda>_. True)"
proof (cases "p \<le> n")
  case True
  then show ?thesis using safe_GrabLine [of mem n p limit out] assms by (auto simp: inside_def intro: memory_safe_mono)
next
  case False
  then have "bounded_scan q mem p limit = Inr p" for q
    using assms by (cases "drop (nat p) mem") (auto simp: bounded_scan_def inside_def)
  then show ?thesis by (simp add: GrabLine_def)
qed

lemma is_failure_safe [safe]: "packet_memory pkt n \<Longrightarrow> memory_safe (is_failure (p_mem pkt) (p_payload pkt)) (\<lambda>_. True)"
  unfolding is_failure_def by (rule safe_if | (rule safe_andThen, rule safe_memcmp_eq) | rule safe_memcmp_eq | assumption | simp)+

lemma failure_code_safe [safe]:
  assumes "packet_memory pkt n" "pointer n eCode" "inside n sipEnd"
  shows "memory_safe (failure_code (p_mem pkt) (p_payload pkt) eCode sipEnd) (\<lambda>_. True)"
  unfolding failure_code_def
proof (rule safe_andThen [OF safe_memcmp_eq [OF assms(1)]], simp, rule safe_if, simp, rule safe_if_field [OF assms(2)], simp)
  note mem = packet_memoryD(1) [OF assms(1)]
  fix p assume p: "inside n p"
  show "memory_safe (andThen (GrabTokenSkipLeadingWhitespaces (p_mem pkt) p sipEnd []) (\<lambda>errorCode.
      andThen (GrabLine (p_mem pkt) (p + int (length errorCode) + 1) sipEnd []) (\<lambda>(_, errorString). Inr (errorCode, errorString)))) (\<lambda>_. True)"
    by (rule safe_andThen [OF safe_GrabTokenSkip [OF mem p assms(3)]],
        rule safe_andThen_any [OF safe_GrabLine_any [OF mem _ assms(3)]]) (use p in \<open>auto simp: inside_def\<close>)
qed

lemma read_failure_safe [safe]:
  assumes "packet_memory pkt n" "inside n sipEnd"
  shows "memory_safe (read_failure pkt sipEnd) (\<lambda>_. True)"
  unfolding read_failure_def Let_def
  by ((rule safe_andThen, rule safe, (rule assms packet_memoryD [OF assms(1)] | assumption | (simp; fail))+) | rule safe_case_prod | (simp; fail))+

lemma read_refer_safe:
  assumes "terminated (p_mem pkt) n" "inside n (p_payload pkt)" "inside n sipEnd"
  shows "memory_safe (read_refer env pkt sipEnd) (\<lambda>_. True)"
proof -
  have refer [safe]: "memory_safe (refer_party (p_mem pkt) field sipEnd) (\<lambda>_. True)" if "pointer n field" for field
    unfolding refer_party_def
    by ((rule safe_andThen, rule safe, (rule assms | assumption | (simp; fail))+)
      | (rule safe_if_field, (rule that | assumption)) | (rule safe_GrabSipUser, rule assms) | assumption | (simp; fail))+
  show ?thesis
    unfolding read_refer_def Let_def
    by ((rule safe_andThen, (rule refer | rule safe), (rule assms user_safe_grab | assumption | (simp; fail))+) | rule safe_case_prod | (simp; fail))+
qed

lemma TrySipSubscribe_safe:
  assumes "packet_memory pkt n" "0 \<le> sip_length pkt"
  shows "memory_safe (TrySipSubscribe env pkt) (\<lambda>_. True)"
  unfolding TrySipSubscribe_def Let_def
  by ((rule safe_andThen, rule safe, (rule assms packet_memoryD [OF assms(1)] sip_end_inside [OF assms] | assumption | (simp; fail))+)
    | rule safe_if | (simp; fail))+

section \<open>NOTIFY\<close>

lemma to_lower_blank: "to_lower c = CHR '' '' \<Longrightarrow> c = CHR '' ''"
  by (auto simp: to_lower_def is_upper_def code_of_def split: if_splits dest!: arg_cong [where f = code_of])

lemma back_to_space_safe:
  "i < length mem \<Longrightarrow> j \<le> i \<Longrightarrow> mem ! j = CHR '' '' \<Longrightarrow> memory_safe (back_to_space i mem) (\<lambda>p. 0 \<le> p \<and> p \<le> int i)"
proof (induction i)
  case (Suc i)
  then show ?case
    by (cases "j = Suc i") (auto intro: memory_safe_mono simp: nat_add_distrib)
qed auto

lemma memFindAfter_text:
  assumes mem: "terminated mem n" and s: "no_nul s" and p: "inside n start" "inside n stop"
    and e: "memFindAfter s mem start stop = Inr (Some e)"
  shows "start + int (length s) \<le> e \<and> e \<le> n \<and> map to_lower (take (length s) (drop (nat (e - int (length s))) mem)) = map to_lower s"
proof -
  let ?m = "strncasecmp_eq (length s) s mem" and ?c = "\<lambda>c. c = to_lower (hd s) \<or> c = to_upper (hd s)"
  have ok: "\<exists>b. ?m i = Inr b" if "start \<le> i" "i < stop" for i
    using strncasecmp_inside [OF mem s order_refl, of i] that p by (auto simp: inside_def)
  from e obtain i where i: "search ?m ?c mem start stop = Inr (Some i)" "e = i + int (length s)"
    by (auto simp: memFindAfter_def andThen_eq_Inr_iff)
  with search_inside [of start stop ?m mem ?c] ok p terminatedD [OF mem]
  have m: "start \<le> i" "i < stop" "?m i = Inr True" by (auto simp: inside_def)
  then have range: "0 \<le> i" "i \<le> n" using p by (auto simp: inside_def)
  from strncasecmp_terminated [OF mem s [unfolded no_nul_def] order_refl range] m(3) show ?thesis
    using i(2) m(1) by simp
qed

lemma memFindAfter_char:
  assumes "terminated mem n" "no_nul s" "inside n start" "inside n stop" "memFindAfter s mem start stop = Inr (Some e)" "j < length s"
  shows "to_lower (mem ! nat (e - int (length s - j))) = to_lower (s ! j)"
proof -
  from memFindAfter_text [OF assms(1-5)] have e: "start + int (length s) \<le> e" "e \<le> n"
    and shown: "map to_lower (take (length s) (drop (nat (e - int (length s))) mem)) = map to_lower s" by auto
  have range: "int (length s) \<le> e" "e < int (length mem)" using e assms(3) terminatedD [OF assms(1)] by (auto simp: inside_def)
  have "nat (e - int (length s - j)) = nat (e - int (length s)) + j" using range assms(6) by linarith
  then have "to_lower (mem ! nat (e - int (length s - j))) = map to_lower (take (length s) (drop (nat (e - int (length s))) mem)) ! j"
    using range assms(6) by simp
  then show ?thesis unfolding shown using assms(6) by simp
qed

lemma memFindAfter_blank:
  assumes "terminated mem n" "inside n start" "inside n stop" "memFindAfter ''Content-Length: 50'' mem start stop = Inr (Some q)"
  shows "3 \<le> q \<and> q \<le> n \<and> mem ! nat (q - 3) = CHR '' ''"
proof -
  have "start + 18 \<le> q" "q \<le> n" using memFindAfter_text [OF assms(1) _ assms(2-4)] by simp_all
  moreover have "to_lower (mem ! nat (q - 3)) = CHR '' ''"
    using memFindAfter_char [OF assms(1) _ assms(2-4), of 15] by (simp add: to_lower_def is_upper_def code_of_def)
  ultimately show ?thesis using assms(2) to_lower_blank by (auto simp: inside_def)
qed

lemma notify_display_safe [safe]:
  assumes env: "parser_env_ok env" and pkt: "packet_memory pkt n" and sipEnd: "inside n sipEnd"
  shows "memory_safe (notify_display env (p_mem pkt) (p_payload pkt) sipEnd) (\<lambda>_. True)"
proof -
  note mem = packet_memoryD [OF pkt]
  have name: "no_nul (m_necNotifyDispLine (pe_config env))" using env by (simp add: parser_env_ok_def)
  have skip: "memory_safe (GrabTokenSkipLeadingWhitespaces (p_mem pkt) p sipEnd []) (\<lambda>_. True)" if "0 \<le> p" "p \<le> n + 50" for p
  proof (cases "p \<le> n")
    case True
    then show ?thesis using that mem sipEnd by (intro safe_GrabTokenSkip) (auto simp: inside_def)
  next
    case False
    then show ?thesis using that mem sipEnd by (intro scan_any_limit) (auto simp: inside_def)
  qed
  have backwards: "memory_safe (if_field l p (\<lambda>q. back_to_space (nat (q + 50)) (p_mem pkt))) (\<lambda>p. 0 \<le> p \<and> p \<le> n + 50)"
    if "memFindAfter ''Content-Length: 50'' (p_mem pkt) (p_payload pkt) sipEnd = Inr l" "inside n p" for l p
  proof (cases l)
    case None
    then show ?thesis using that(2) by (simp add: if_field_def inside_def)
  next
    case (Some q)
    from memFindAfter_blank [OF mem(1,2) sipEnd that(1) [unfolded Some]]
    have q: "3 \<le> q" "q \<le> n" "p_mem pkt ! nat (q - 3) = CHR '' ''" by auto
    have "memory_safe (back_to_space (nat (q + 50)) (p_mem pkt)) (\<lambda>p. 0 \<le> p \<and> p \<le> int (nat (q + 50)))"
      by (rule back_to_space_safe [OF _ _ q(3)]) (use q mem(5) in auto)
    then show ?thesis using q Some by (auto simp: if_field_def intro: memory_safe_mono)
  qed
  have tail: "memory_safe (andThen (memFindAfter ''Content-Length: 50'' (p_mem pkt) (p_payload pkt) sipEnd) (\<lambda>contentLen.
      andThen (if_field contentLen p (\<lambda>q. back_to_space (nat (q + 50)) (p_mem pkt))) (\<lambda>p'.
      andThen (GrabTokenSkipLeadingWhitespaces (p_mem pkt) p' sipEnd []) (\<lambda>dsp. Inr (Some dsp))))) (\<lambda>_. True)"
    if p: "inside n p" for p
  proof -
    obtain len where len: "memFindAfter ''Content-Length: 50'' (p_mem pkt) (p_payload pkt) sipEnd = Inr len"
      using memFindAfter_inside [OF mem(1) _ mem(2) sipEnd, of "''Content-Length: 50''"] by auto
    show ?thesis
      unfolding len andThen_Inr
      by (rule safe_andThen [OF backwards [OF len p]], rule safe_andThen [OF skip]) auto
  qed
  show ?thesis
    unfolding notify_display_def
    by (rule safe_andThen [OF safe_memFindAfter [OF mem(1) name mem(2) sipEnd]],
        rule safe_andThen [where P = "pointer n"])
      (use mem sipEnd tail in \<open>auto intro: safe_memFindAfter safe_if_field split: option.split\<close>)
qed

lemma read_notify_safe:
  assumes "parser_env_ok env" "packet_memory pkt n" "inside n sipEnd"
  shows "memory_safe (read_notify env pkt sipEnd) (\<lambda>_. True)"
proof -
  note mem = packet_memoryD [OF assms(2)]
  have literal: "no_nul ''Ind-Fkey=''" by simp
  have pkey: "memory_safe (notify_pkey env (p_mem pkt) (p_payload pkt) sipEnd) (\<lambda>_. True)"
    unfolding notify_pkey_def
  proof (rule safe_andThen [OF safe_memFindAfter [OF mem(1) _ mem(2) assms(3)]], simp)
    fix f assume f: "pointer n f"
    have field: "memory_safe (case f of None \<Rightarrow> memFindAfter ''Ind-Fkey='' (p_mem pkt) (p_payload pkt) sipEnd | Some p \<Rightarrow> Inr (Some p)) (pointer n)"
      using f safe_memFindAfter [OF mem(1) literal mem(2) assms(3)] by (cases f) simp_all
    show "memory_safe (andThen (case f of None \<Rightarrow> memFindAfter ''Ind-Fkey='' (p_mem pkt) (p_payload pkt) sipEnd | Some p \<Rightarrow> Inr (Some p))
        (\<lambda>pkeyField. if_field pkeyField (pe_pkey env) (\<lambda>p. andThen (GrabTokenSkipLeadingWhitespaces (p_mem pkt) p sipEnd [])
          (\<lambda>pkeyToken. case strtol pkeyToken of (v, rest) \<Rightarrow>
            Inr (if rest = pkeyToken then pe_pkey env else sint (word_of_int v :: u32)))))) (\<lambda>_. True)"
      by (rule safe_andThen [OF field], rule safe_if_field, assumption, simp,
          rule safe_andThen [OF safe_GrabTokenSkip [OF mem(1) _ assms(3)]]) (auto split: prod.split)
  qed
  show ?thesis
    unfolding read_notify_def Let_def
    by ((rule safe_andThen, (rule pkey | rule safe), (rule assms mem | assumption | (simp; fail))+) | (simp; fail))+
qed

section \<open>Configured fields\<close>

lemma find_bound: "OrkStringViewFind view key = Some l \<Longrightarrow> l + length key \<le> length view \<and> (view \<noteq> [])"
proof (induction view key arbitrary: l rule: OrkStringViewFind.induct)
  case (2 c cs key)
  show ?case
  proof (cases "take (length key) (c # cs) = key")
    case True
    then have "length key \<le> length (c # cs)" by (metis length_take min.absorb_iff2)
    then show ?thesis using 2(2) True by simp
  next
    case False
    then show ?thesis using 2 by auto
  qed
qed simp

lemma safe_value_at [safe]:
  assumes "terminated mem n" "inside n p" "inside n q"
  shows "memory_safe (value_at mem p q) (\<lambda>_. True)"
  unfolding value_at_def
  by (rule safe_andThen [OF safe_scan [OF assms]], elim conjE, rule safe_andThen [OF safe_scan [OF assms(1) _ assms(3)]]) simp_all

lemma dotted_search_safe:
  "terminated mem n \<Longrightarrow> 0 \<le> start \<Longrightarrow> start + int len \<le> n \<Longrightarrow>
    memory_safe (dotted_search mem payload key name start len) (\<lambda>r. case r of None \<Rightarrow> True | Some l \<Rightarrow> inside n (payload + l))"
proof (induction mem payload key name start len rule: dotted_search.induct)
  case (1 mem payload key name start len)
  note mem = "1.prems"(1)
  define buffer where "buffer = take len (drop (nat start) mem)"
  have size: "length buffer = len" using "1.prems" terminatedD [OF mem] by (simp add: buffer_def)
  show ?case
  proof (cases "len = 0")
    case False
    have slice: "mem_slice mem start len = Inr buffer"
      unfolding buffer_def using "1.prems" terminatedD [OF mem] by (intro mem_slice_ok) auto
    show ?thesis
    proof (cases "OrkStringViewFind buffer key")
      case None
      then show ?thesis unfolding dotted_search.simps [of mem payload key name start len] by (simp add: slice)
    next
      case (Some pos)
      from find_bound [OF Some] size have pos: "pos + length key \<le> len" by simp
      have found: "inside n (payload + (start + int (pos + length key + 1) - payload + int l + int (length name)))"
        if "OrkStringViewFind (drop (pos + length key + 1) buffer) name = Some l" "pos + length key + 1 \<le> len" for l
        using find_bound [OF that(1)] size that(2) "1.prems" by (auto simp: inside_def)
      have line: "memory_safe (andThen (unbounded_scan (\<lambda>c. code_of c \<noteq> 0) mem (start + int nl + 1)) (\<lambda>e.
          dotted_search mem payload key name (start + int nl + 1) (nat (e - (start + int nl + 1)))))
          (\<lambda>r. case r of None \<Rightarrow> True | Some l \<Rightarrow> inside n (payload + l))"
        if nl: "OrkStringViewFind buffer [CHR 0x0A] = Some nl" and b: "found_extraction_area mem buffer key start pos = Inr False" for nl
      proof -
        have next_line: "inside n (start + int nl + 1)" using find_bound [OF nl] size "1.prems" by (auto simp: inside_def)
        from unbounded_inside [OF mem this, of "\<lambda>c. code_of c \<noteq> 0"] obtain e where
          e: "unbounded_scan (\<lambda>c. code_of c \<noteq> 0) mem (start + int nl + 1) = Inr e" "inside n e" "start + int nl + 1 \<le> e"
          by (auto simp: code_of_def)
        show ?thesis unfolding e(1) andThen_Inr
          by (rule "1.IH" [OF False slice Some b _ nl e(1) mem])
            (use next_line e in \<open>auto simp: inside_def\<close>)
      qed
      have "inside n (start + int pos + int (length key))" using pos "1.prems" by (auto simp: inside_def)
      from inside_length [OF mem this] have area: "\<exists>b. found_extraction_area mem buffer key start pos = Inr b"
        by (simp only: found_extraction_area_def Let_def peek_ok andThen_Inr split: if_split) blast
      then obtain b where b: "found_extraction_area mem buffer key start pos = Inr b" ..
      show ?thesis
        unfolding dotted_search.simps [of mem payload key name start len]
        using False Some b found line by (cases b) (auto simp: slice split: option.split)
    qed
  qed (simp add: dotted_search.simps)
qed

lemma extract_searched_safe [safe]:
  assumes "terminated mem n" "0 \<le> payload" "payload + int len \<le> n"
  shows "memory_safe (extract_searched mem payload len x) (\<lambda>_. True)"
proof -
  have pos: "memory_safe (if CHR ''.'' \<in> set x
      then dotted_search mem payload (takeWhile (\<lambda>c. c \<noteq> CHR ''.'') x) (tl (dropWhile (\<lambda>c. c \<noteq> CHR ''.'') x)) payload len
      else andThen (mem_slice mem payload len) (\<lambda>buffer. Inr (map_option (\<lambda>l. int l + int (length x)) (OrkStringViewFind buffer x))))
    (\<lambda>r. case r of None \<Rightarrow> True | Some l \<Rightarrow> inside n (payload + l))"
  proof (rule safe_if)
    show "memory_safe (dotted_search mem payload (takeWhile (\<lambda>c. c \<noteq> CHR ''.'') x) (tl (dropWhile (\<lambda>c. c \<noteq> CHR ''.'') x)) payload len)
      (\<lambda>r. case r of None \<Rightarrow> True | Some l \<Rightarrow> inside n (payload + l))"
      using assms by (intro dotted_search_safe) auto
    have slice: "mem_slice mem payload len = Inr (take len (drop (nat payload) mem))"
      using assms terminatedD [OF assms(1)] by (intro mem_slice_ok) auto
    show "memory_safe (andThen (mem_slice mem payload len) (\<lambda>buffer. Inr (map_option (\<lambda>l. int l + int (length x)) (OrkStringViewFind buffer x))))
      (\<lambda>r. case r of None \<Rightarrow> True | Some l \<Rightarrow> inside n (payload + l))"
      using assms by (auto simp: slice inside_def dest!: find_bound split: option.splits)
  qed
  show ?thesis
    unfolding extract_searched_def
    by (rule safe_andThen [OF pos]) (use assms in \<open>auto split: option.split intro!: safe_value_at simp: inside_def\<close>)
qed

lemma ExtractKeyValuesData_safe [safe]:
  assumes "terminated mem n" "0 \<le> payload" "payload + int len \<le> n"
  shows "list_all (\<lambda>x. standard_field x = None) xs \<Longrightarrow>
    memory_safe (ExtractKeyValuesData xs mem payload len positions extracted) (\<lambda>_. True)"
proof (induction xs arbitrary: positions extracted)
  case (Cons x xs)
  have key: "memory_safe (extract_key mem payload len x positions) (\<lambda>_. True)"
    using Cons.prems by (auto simp: extract_key_def intro: safe_andThen_any [OF extract_searched_safe [OF assms]])
  show ?case
    unfolding ExtractKeyValuesData.simps
    by (rule safe_andThen_any [OF key], rule safe_case_prod) (use Cons in simp)
qed simp

lemma extract_fields_safe [safe]:
  assumes "terminated mem n" "inside n payload" "inside n sipEnd"
  shows "list_all no_nul names \<Longrightarrow> memory_safe (extract_fields names mem payload sipEnd extracted) (\<lambda>_. True)"
proof (induction names arbitrary: extracted)
  case (Cons name names)
  have name: "no_nul (name @ '':'')" using Cons.prems by simp
  have field: "memory_safe (if_field f extracted (\<lambda>p. andThen (GrabLineSkipLeadingWhitespace mem p sipEnd [])
      (\<lambda>field. Inr (map_insert name field extracted)))) (\<lambda>_. True)" if "pointer n f" for f
    by (rule safe_if_field [OF that], simp, rule safe_andThen [OF safe_GrabLineSkip [OF assms(1) _ assms(3)]]) simp_all
  show ?case
    unfolding extract_fields.simps
    by (rule safe_andThen [OF safe_memFindAfter [OF assms(1) name assms(2,3)]], rule safe_andThen [OF field], assumption)
      (use Cons in simp)
qed simp

section \<open>INVITE\<close>

lemma scan_rest_chars: "scan_rest q rest c limit = Inr c' \<Longrightarrow> c \<le> c' \<and> list_all q (take (nat (c' - c)) rest)"
proof (induction q rest c limit rule: scan_rest.induct)
  case (2 q x rest c limit)
  show ?case
  proof (cases "q x \<and> c < limit")
    case True
    with 2 have "c + 1 \<le> c'" "list_all q (take (nat (c' - (c + 1))) rest)" by auto
    moreover from this(1) have "nat (c' - c) = Suc (nat (c' - (c + 1)))" by simp
    ultimately show ?thesis using True by simp
  next
    case False
    then show ?thesis using 2(2) by auto
  qed
qed simp

lemma GrabToken_no_nul: "GrabToken mem p limit [] = Inr s \<Longrightarrow> no_nul s"
proof -
  assume "GrabToken mem p limit [] = Inr s"
  then obtain c where "scan token_char mem p limit = Inr c" "s = between mem p c"
    by (auto simp: GrabToken_def andThen_eq_Inr_iff)
  then have "list_all token_char s" using scan_rest_chars by (auto simp: scan_def between_def split: if_splits)
  then show ?thesis by (auto simp: no_nul_def token_char_def list_all_iff)
qed

lemma safe_token_no_nul:
  assumes "terminated mem n" "inside n p" "inside n limit"
  shows "memory_safe (GrabTokenSkipLeadingWhitespaces mem p limit []) no_nul"
  using safe_GrabTokenSkip [OF assms, of "[]"]
  by (cases "GrabTokenSkipLeadingWhitespaces mem p limit []")
    (auto simp: memory_safe_def GrabTokenSkipLeadingWhitespaces_def andThen_eq_Inr_iff intro: GrabToken_no_nul)

lemma telephone_event_loop_safe [safe]:
  assumes mem: "terminated mem n" "inside n sdpEnd" "inside n sipEnd"
  shows "inside n p \<Longrightarrow> memory_safe (telephone_event_loop k mem p sdpEnd sipEnd) (\<lambda>_. True)"
proof (induction k arbitrary: p)
  case (Suc k)
  have event: "memory_safe (case r of None \<Rightarrow> Inr False
      | Some q \<Rightarrow> if sipEnd - q \<ge> 15 then strncasecmp_eq 15 ''telephone-event'' mem q else Inr False) (\<lambda>_. True)"
    if ptr: "pointer n r" for r
  proof (cases r)
    case (Some q)
    then obtain b where "strncasecmp_eq 15 ''telephone-event'' mem q = Inr b"
      using strncasecmp_inside [OF mem(1), of "''telephone-event''" 15 q] ptr Some by (auto simp: no_nul_def code_of_def)
    then show ?thesis using Some by (simp del: strncasecmp_eq.simps)
  qed simp
  have attr: "no_nul rtpmap_attribute" by simp
  have next_line: "memory_safe (andThen (memFindAfter rtpmap_attribute mem p sdpEnd) (\<lambda>a. case a of
      None \<Rightarrow> Inr None | Some q \<Rightarrow> telephone_event_loop k mem q sdpEnd sipEnd)) (\<lambda>_. True)"
    by (rule safe_andThen [OF safe_memFindAfter [OF mem(1) attr Suc.prems mem(2)]], rule safe_option, assumption)
      (simp_all add: Suc.IH)
  show ?case
    unfolding telephone_event_loop.simps
    apply (rule safe_if, simp)
    apply (rule safe_andThen [OF safe_token_no_nul [OF mem(1) Suc.prems mem(2)]])
    apply (rule safe_andThen [OF safe_memFindAfter [OF mem(1) _ Suc.prems mem(2)]], simp)
    apply (rule safe_andThen_any [OF event], assumption)
    apply (rule safe_if)
     apply (rule safe_andThen_any [OF safe_StringToInt], simp)
    apply (rule next_line)
    done
qed simp

lemma audio_section_safe [safe]:
  assumes "terminated mem n" "inside n payload" "inside n sipEnd"
  shows "memory_safe (audio_section mem payload sipEnd) (\<lambda>(a, b). inside n a \<and> inside n b)"
  unfolding audio_section_def
  by (rule safe_andThen [OF safe_memFindAfter [OF assms(1) _ assms(2,3)]], simp)+
    (use assms in \<open>auto simp: pointer_def split: option.splits\<close>)

lemma invite_sdp_safe:
  assumes pkt: "packet_memory pkt n" and sipEnd: "inside n sipEnd" and i: "map_ok (SipInviteInfo.m_orekaRtpPayloadTypeMap info)"
  shows "memory_safe (invite_sdp env pkt sipEnd info) (\<lambda>i. map_ok (SipInviteInfo.m_orekaRtpPayloadTypeMap i))"
proof -
  note mem = packet_memoryD [OF pkt]
  have event: "memory_safe (case r of Some p \<Rightarrow> if m_rtpReportDtmf (pe_config env)
      then telephone_event_loop (nat (sipEnd - p)) (p_mem pkt) p b sipEnd else Inr None | None \<Rightarrow> Inr None) (\<lambda>_. True)"
    if "pointer n r" "inside n b" for r b
    using that telephone_event_loop_safe [OF mem(1) that(2) sipEnd] by (cases r) auto
  have mapping: "memory_safe (if r \<noteq> None then GetDynamicPayloadMapping (p_mem pkt) a b (SipInviteInfo.m_orekaRtpPayloadTypeMap info)
      else Inr None) (\<lambda>r. case r of None \<Rightarrow> True | Some m \<Rightarrow> map_ok m)" if "inside n a" "inside n b" for r a b
    using memory_safe_mono [OF safe_GetDynamicPayloadMapping [OF mem(1) _ that i]] mem(5) by (auto split: option.splits)
  show ?thesis
    unfolding invite_sdp_def Let_def
    apply (rule safe_andThen [OF audio_section_safe [OF mem(1,2) sipEnd]])
    apply (rule safe_case_prod', simp only: prod.case, elim conjE)
    apply (rule safe_andThen [OF safe_memFindAfter [OF mem(1)]], simp, assumption, assumption)+
    apply (rule safe_andThen_any [OF event], assumption, assumption)
    apply (rule safe_andThen [OF mapping], assumption, assumption)
    using i by (auto split: option.splits)
qed

lemma invite_header_safe:
  assumes env: "parser_env_ok env" and pkt: "packet_memory pkt n" and ptr: "inside n sipEnd" "pointer n fromField" "pointer n toField"
  shows "memory_safe (invite_header env pkt sipEnd fromField toField info)
    (\<lambda>i. SipInviteInfo.m_orekaRtpPayloadTypeMap i = SipInviteInfo.m_orekaRtpPayloadTypeMap info)"
proof -
  note mem = packet_memoryD [OF pkt]
  have names: "no_nul (m_sipDialedNumberFieldName (pe_config env))" "no_nul (m_sipRemotePartyFieldName (pe_config env))"
    "no_nul (m_sipLocalPartyFieldName (pe_config env))" using env by (simp_all add: parser_env_ok_def)
  have configured: "memory_safe (configured_field name (p_mem pkt) (p_payload pkt) sipEnd) (pointer n)" if "no_nul name" for name
    using that mem ptr by (auto simp: configured_field_def intro: safe_memFindAfter)
  have uri: "memory_safe (invite_request_uri env (p_mem pkt) (p_payload pkt) sipEnd) (\<lambda>_. True)"
    unfolding invite_request_uri_def
    by (rule safe_if, simp, rule safe_andThen [OF safe_memFindAfter [OF mem(1) _ mem(2) ptr(1)]], simp)
      (rule safe_user [OF mem(1) _ ptr(1)])
  have to: "memory_safe (invite_to env (p_mem pkt) toField sipEnd) (\<lambda>_. True)"
  proof -
    have tel: "memory_safe (case r of Some q \<Rightarrow> Inr (Some q) | None \<Rightarrow> memFindAfter ''tel:'' (p_mem pkt) p e) (pointer n)"
      if "pointer n r" "inside n p" "inside n e" for r p e
      using that safe_memFindAfter [OF mem(1) no_nul_literals(6) that(2,3)] by (cases r) simp_all
    show ?thesis
      unfolding invite_to_def Let_def
      apply (rule safe_if_field [OF ptr(3)], simp)
      apply (rule safe_andThen [OF safe_GrabLine [OF mem(1) _ ptr(1)]], assumption, rule safe_case_prod', simp)
      apply (rule safe_andThen [OF safe_GrabSipName [OF mem(1)]], assumption, assumption)
      apply (rule safe_andThen [OF safe_memFindAfter [OF mem(1)]], simp, assumption, assumption)
      apply (rule safe_andThen [OF tel], assumption, assumption, assumption)
      apply (rule safe_andThen_any [OF safe_grab_user [OF mem(1)]], simp add: pointer_def split: option.splits, assumption)
      apply (rule safe_andThen_any [OF safe_GrabSipUriDomain [OF mem(1)]], simp add: pointer_def split: option.splits, assumption)
      apply simp
      done
  qed
  have remote: "memory_safe (if_field f [] (\<lambda>p. andThen (sip_user (p_mem pkt) p sipEnd) (\<lambda>q. grab_user env (p_mem pkt) q sipEnd))) (\<lambda>_. True)"
    if "pointer n f" for f
    by (rule safe_if_field [OF that], simp, rule safe_andThen [OF safe_sip_user [OF mem(1) _ ptr(1)]], assumption,
        rule safe_grab_user [OF mem(1) _ ptr(1)])
  show ?thesis
    unfolding invite_header_def Let_def
    by ((rule safe_andThen_any, rule uri to) | (rule safe_andThen, (rule configured remote | rule safe),
          (rule names mem ptr user_safe_grab | assumption | (simp; fail))+) | rule safe_case_prod | (simp; fail))+
qed

lemma invite_media_safe:
  assumes env: "parser_env_ok env" and pkt: "packet_memory pkt n" and ptr: "inside n sipEnd" "pointer n callIdField"
  shows "memory_safe (invite_media env pkt sipEnd callIdField info)
    (\<lambda>(i, _). SipInviteInfo.m_orekaRtpPayloadTypeMap i = SipInviteInfo.m_orekaRtpPayloadTypeMap info)"
proof -
  note mem = packet_memoryD [OF pkt]
  have token: "memory_safe (if_field f [] (\<lambda>a. GrabToken (p_mem pkt) a sipEnd [])) (\<lambda>_. True)" if "pointer n f" for f
    by (rule safe_if_field [OF that]) (auto intro: safe_GrabToken [OF mem(1) _ ptr(1)])
  have tmp: "length (pe_tmp env) = 3" using env by (simp add: parser_env_ok_def)
  show ?thesis
    unfolding invite_media_def Let_def
    apply (rule safe_if_field [OF ptr(2)], simp)
    by ((rule safe_andThen, (rule token | rule safe), (rule tmp mem ptr | assumption | (simp; fail))+) | (simp split: option.split; fail))+
qed

definition reported_ok :: "bool \<times> voip_event option \<Rightarrow> bool" where
  "reported_ok r \<longleftrightarrow> (case snd r of Some (SipInvite i) \<Rightarrow> invite_ok i | _ \<Rightarrow> True)"

lemma read_contact_safe:
  assumes pkt: "packet_memory pkt n" and ptr: "inside n sipEnd" "pointer n contactField"
  shows "memory_safe (read_contact env (p_mem pkt) contactField sipEnd info)
    (\<lambda>i. SipInviteInfo.m_orekaRtpPayloadTypeMap i = SipInviteInfo.m_orekaRtpPayloadTypeMap info)"
  unfolding read_contact_def
  by (rule safe_if, simp, rule safe_andThen_any [OF safe_party(2) [OF packet_memoryD(1) [OF pkt] user_safe_grab(1) ptr(2,1)]])
    (use packet_memoryD(1) [OF pkt] in \<open>auto split: prod.split\<close>)

lemma read_invite_safe:
  assumes env: "parser_env_ok env" and pkt: "packet_memory pkt n" "0 \<le> sip_length pkt" and sipEnd: "inside n sipEnd"
  shows "memory_safe (read_invite env pkt sipEnd sipMethod) reported_ok"
proof -
  note mem = packet_memoryD [OF pkt(1)]
  have names: "list_all no_nul (m_sipExtractFields (pe_config env))"
    "list_all (\<lambda>x. standard_field x = None) (m_sipExtractKeyValues (pe_config env))"
    using env by (simp_all add: parser_env_ok_def)
  have view: "0 \<le> p_payload pkt" "p_payload pkt + int (nat (sip_length pkt)) \<le> n"
    using mem(2,4) pkt(2) by (simp_all add: inside_def sip_end_def)
  have new: "map_ok (SipInviteInfo.m_orekaRtpPayloadTypeMap (new_SipInviteInfo\<lparr>m_sipMethod := sipMethod\<rparr>))"
    by (simp add: new_SipInviteInfo_def map_ok_def list_all_iff)
  have finished: "invite_ok (invite_addresses env pkt i)" if "map_ok (SipInviteInfo.m_orekaRtpPayloadTypeMap i)" for i
    using that by (simp add: invite_ok_def map_ok_def invite_addresses_def Let_def RTP_PAYLOAD_TYPE_MAX_def)
  have token: "memory_safe (invite_replaces (p_mem pkt) f sipEnd) (\<lambda>_. True)" if "pointer n f" for f
    unfolding invite_replaces_def by (rule safe_andThen [OF safe_field_token [OF mem(1) that sipEnd]]) simp
  show ?thesis
    unfolding read_invite_def Let_def
    apply ((rule safe_andThen, rule safe_named_field safe_find_field, rule mem, (rule mem sipEnd | (simp; fail))+)+)
    apply (rule safe_andThen [OF invite_header_safe [OF env pkt(1) sipEnd]], assumption, assumption)
    apply (rule safe_andThen [OF invite_media_safe [OF env pkt(1) sipEnd]], assumption)
    apply (rule safe_case_prod', simp only: prod.case)
    apply (rule safe_andThen_any [OF token], assumption)
    apply (rule safe_andThen [OF read_contact_safe [OF pkt(1) sipEnd]], assumption)
    apply (rule safe_andThen_any [OF extract_fields_safe [OF mem(1,2) sipEnd names(1)]])
    apply (rule safe_andThen_any [OF ExtractKeyValuesData_safe [OF mem(1) view names(2)]])
    apply (rule safe_andThen [OF invite_sdp_safe [OF pkt(1) sipEnd]])
    using new by (auto simp: reported_ok_def intro: finished)
qed

lemma TrySipInvite_safe:
  assumes "parser_env_ok env" "packet_memory pkt n"
  shows "memory_safe (TrySipInvite env pkt) reported_ok"
proof -
  have named: "memory_safe (invite_method env pkt) (\<lambda>_. True)"
    unfolding invite_method_def Let_def
    by (rule safe_if | (rule safe_andThen_any, rule safe_memcmp_eq [OF assms(2)]) | rule safe_andThen_any | rule safe_memcmp_eq [OF assms(2)]
      | (simp; fail))+
  have "inside n (invite_end env pkt)" if "3 \<le> sip_length pkt" "invite_end env pkt \<le> p_packetEnd pkt"
    using that assms(2) by (auto simp: invite_end_def packet_memory_def inside_def sip_end_def split: if_splits)
  then have "memory_safe (case m of None \<Rightarrow> Inr (False, None)
      | Some sipMethod \<Rightarrow> read_invite env pkt (invite_end env pkt) sipMethod) reported_ok"
    if "3 \<le> sip_length pkt" "invite_end env pkt \<le> p_packetEnd pkt" for m
    using that read_invite_safe [OF assms] by (cases m) (auto simp: reported_ok_def)
  with named show ?thesis
    unfolding TrySipInvite_def Let_def
    by (intro safe_if) (auto simp: reported_ok_def intro!: safe_andThen_any [OF named])
qed

text \<open>No other parser reports an INVITE.\<close>

definition no_invite :: "parsed \<Rightarrow> bool" where
  "no_invite m \<longleftrightarrow> (case m of Inr (_, Some (SipInvite i)) \<Rightarrow> False | _ \<Rightarrow> True)"

lemma no_invite_simps [simp]: "no_invite (Inl e)" "no_invite (Inr (b, None))"
  by (simp_all add: no_invite_def)

lemma no_invite_andThen: "(\<And>x. no_invite (f x)) \<Longrightarrow> no_invite (andThen m f)"
  by (cases m) simp_all

lemma no_invite_if_prod:
  "(b \<Longrightarrow> no_invite m) \<Longrightarrow> (\<not> b \<Longrightarrow> no_invite m') \<Longrightarrow> no_invite (if b then m else m')"
  "(\<And>a b. no_invite (g a b)) \<Longrightarrow> no_invite (case x of (a, b) \<Rightarrow> g a b)"
  "no_invite n \<Longrightarrow> (\<And>y. no_invite (h y)) \<Longrightarrow> no_invite (case z of None \<Rightarrow> n | Some y \<Rightarrow> h y)"
  by (auto split: prod.split option.split)

lemma no_invite_reported: "memory_safe m (\<lambda>_. True) \<Longrightarrow> no_invite m \<Longrightarrow> memory_safe m reported_ok"
  by (auto simp: memory_safe_def reported_ok_def no_invite_def split: sum.splits fault.splits option.splits voip_event.splits)

lemma other_parsers_no_invite:
  "no_invite (TrySipBye env pkt)" "no_invite (TrySipNotify env pkt)" "no_invite (TrySipInfo env pkt)"
  "no_invite (TryLogFailedSip env pkt)" "no_invite (TrySipSessionProgress env pkt)" "no_invite (TrySip200Ok env pkt)"
  "no_invite (TrySip302MovedTemporarily env pkt)" "no_invite (TrySipSubscribe env pkt)" "no_invite (TrySipRefer env pkt)"
  unfolding TrySipBye_def read_bye_def TrySipNotify_def read_notify_def TrySipInfo_def read_info_def TryLogFailedSip_def
    TrySipSessionProgress_def read_session_progress_def TrySip200Ok_def read_200_ok_def TrySip302MovedTemporarily_def
    read_302_def TrySipSubscribe_def TrySipRefer_def read_refer_def Let_def
  by (intro no_invite_andThen no_invite_if_prod; simp add: no_invite_def)+

lemma other_parsers_safe:
  assumes env: "parser_env_ok env" and pkt: "packet_memory pkt n"
  shows "memory_safe (TrySipBye env pkt) (\<lambda>_. True)" "memory_safe (TrySipNotify env pkt) (\<lambda>_. True)"
    "memory_safe (TrySipInfo env pkt) (\<lambda>_. True)" "memory_safe (TryLogFailedSip env pkt) (\<lambda>_. True)"
    "memory_safe (TrySipSessionProgress env pkt) (\<lambda>_. True)" "memory_safe (TrySip200Ok env pkt) (\<lambda>_. True)"
    "memory_safe (TrySip302MovedTemporarily env pkt) (\<lambda>_. True)" "memory_safe (TrySipRefer env pkt) (\<lambda>_. True)"
proof -
  note mem = packet_memoryD [OF pkt] and compare = safe_andThen_any [OF safe_memcmp_eq [OF pkt]]
  have tmp: "length (pe_tmp env) = 3" using env by (simp add: parser_env_ok_def)
  have sipEnd: "inside n (sip_end pkt)" if "k \<le> sip_length pkt" "0 \<le> k" for k using sip_end_inside [OF pkt] that by simp
  have notify: "memory_safe (c_string_starts ''NOTIFY'' (p_mem pkt) (p_payload pkt)) (\<lambda>_. True)"
    using unbounded_inside [OF mem(1,2), of "\<lambda>c. code_of c \<noteq> 0"] by (auto simp: c_string_starts_def code_of_def)
  show "memory_safe (TrySipBye env pkt) (\<lambda>_. True)" unfolding TrySipBye_def
    by (rule safe_if, simp, rule compare, simp) (use sipEnd [of 4] mem in \<open>auto intro: read_bye_safe\<close>)
  show "memory_safe (TrySipNotify env pkt) (\<lambda>_. True)" unfolding TrySipNotify_def
    by (rule safe_if, simp, rule safe_andThen_any [OF notify]) (use sipEnd [of 4] env pkt in \<open>auto intro: read_notify_safe\<close>)
  show "memory_safe (TrySipInfo env pkt) (\<lambda>_. True)" unfolding TrySipInfo_def
    by (rule safe_if, simp, rule compare, simp) (use sipEnd [of 5] env mem in \<open>auto intro: read_info_safe\<close>)
  show "memory_safe (TryLogFailedSip env pkt) (\<lambda>_. True)" unfolding TryLogFailedSip_def
  proof (rule safe_if, simp, rule safe_if, simp, rule safe_andThen_any [OF is_failure_safe [OF pkt]])
    fix failure assume "\<not> (sip_length pkt < 9 \<or> sip_end pkt > p_packetEnd pkt)"
    then have "memory_safe (if failure then read_failure pkt (sip_end pkt) else Inr ([], [], [])) (\<lambda>_. True)"
      using sipEnd [of 9] pkt by (auto intro: read_failure_safe)
    then show "memory_safe (andThen (if failure then read_failure pkt (sip_end pkt) else Inr ([], [], []))
        (\<lambda>(callId, errorCode, errorString). if callId = [] \<or> errorCode = [] then Inr (False, None)
           else Inr (True, Some (SipFailure \<lparr>SipFailureMessageInfo.m_senderIp = p_src pkt, m_receiverIp = p_dest pkt,
                  m_senderMac = p_sourceMac pkt, m_receiverMac = p_destinationMac pkt,
                  m_callId = callId, m_errorCode = errorCode, m_errorString = errorString\<rparr>)))) (\<lambda>_. True)"
      by (rule safe_andThen_any) (simp split: prod.split)
  qed
  show "memory_safe (TrySipSessionProgress env pkt) (\<lambda>_. True)" unfolding TrySipSessionProgress_def
    by (rule safe_if, simp, rule compare, simp) (use sipEnd [of 28] mem tmp in \<open>auto intro: read_session_progress_safe\<close>)
  show "memory_safe (TrySip200Ok env pkt) (\<lambda>_. True)" unfolding TrySip200Ok_def
    by (rule safe_if, simp, rule safe_if, simp, rule compare, simp) (use sipEnd [of 11] mem tmp in \<open>auto intro: read_session_progress_safe\<close>)
  show "memory_safe (TrySip302MovedTemporarily env pkt) (\<lambda>_. True)" unfolding TrySip302MovedTemporarily_def
    by (rule safe_if, simp, rule safe_if, simp, rule compare, simp) (use sipEnd [of 29] mem in \<open>auto intro: read_302_safe\<close>)
  show "memory_safe (TrySipRefer env pkt) (\<lambda>_. True)" unfolding TrySipRefer_def
    by (rule safe_if, simp, rule compare, simp) (use sipEnd [of 5] mem in \<open>auto intro: read_refer_safe\<close>)
qed

section \<open>Examples\<close>

definition example_env :: ParserEnv where
  "example_env = \<lparr>pe_config = default_settings, pe_now = 5, pe_tmp = [0, 0, 0], pe_pkey = 0\<rparr>"

text \<open>A message in a packet of its own, with a NUL and 60 more bytes behind it.\<close>

definition example_packet :: "string \<Rightarrow> SipPacket" where
  "example_packet message = \<lparr>p_mem = message @ replicate 60 (CHR 0x00), p_payload = 0, p_packetEnd = int (length message),
     p_udpLen = word_of_nat (length message) + 8, p_src = 1, p_dest = 2, p_sourceMac = [], p_destinationMac = [], p_offset = 0\<rparr>"

text \<open>Nothing compares the length in the UDP header of a SUBSCRIBE with the packet.\<close>

lemma subscribe_overread:
  "TrySipSubscribe example_env ((example_packet ''SUBSCRIBE'')\<lparr>p_mem := ''SUBSCRIBE'', p_udpLen := 100\<rparr>) = Inl OutOfBounds"
  by code_simp

text \<open>A key in the From field is searched up to the end of the line, wherever the packet ends.\<close>

lemma extract_overread:
  "extract_key (''INVITE From:a'' @ [CHR 0x00]) 0 13 ''from.tag'' [Some 12, None, None, None] = Inl OutOfBounds"
  by code_simp

text \<open>A 302 response without a Contact field is reported.\<close>

lemma moved_without_contact:
  "(case TrySip302MovedTemporarily (example_env\<lparr>pe_config := default_settings\<lparr>m_sip302MovedTemporarilySupport := True\<rparr>\<rparr>)
       (example_packet (''SIP/2.0 302 Moved Temporarily'' @ [CHR 0x0A] @ ''Call-ID: 7'' @ [CHR 0x0A])) of
      Inr (True, Some (SipMoved i)) \<Rightarrow> Sip302MovedTemporarilyInfo.m_contact i = [] | _ \<Rightarrow> False)"
  by code_simp

text \<open>A key that is indented is not at the start of a line: no blank is skipped.\<close>

lemma indented_key_not_found:
  "extract_searched (''x: 1'' @ [CHR 0x0A] @ '' key: v=2'' @ [CHR 0x0A, CHR 0x00]) 0 16 ''key.v'' = Inr []"
  "extract_searched (''x: 1'' @ [CHR 0x0A] @ ''key: v=2'' @ [CHR 0x0A, CHR 0x00]) 0 15 ''key.v'' = Inr ''2''"
  by code_simp+

end
