(* ===== verification/SkinnyEnums.thy ===== *)
theory SkinnyEnums
  imports NamedEnum
begin

text \<open>
  The Skinny message, soft key and soft key set enumerations of
  \<open>audiocaptureplugins/common/PacketHeaderDefs.{h,cpp}\<close>. The code prints them from the number found
  in a packet, so the printing functions take an \<open>int\<close>.
\<close>

section \<open>Messages\<close>

datatype SkinnyMessageEnum =
    SkOpenReceiveChannelAck | SkStartMediaTransmission | SkStopMediaTransmission | SkCallInfoMessage
  | SkLineStatMessage | SkCloseReceiveChannel | SkCcm5CallInfoMessage | SkSoftKeyEventMessage
  | SkSoftKeySetDescription | SkCallStateMessage | SkUnkn

fun SkinnyMessage_value :: "SkinnyMessageEnum \<Rightarrow> int" where
  "SkinnyMessage_value SkOpenReceiveChannelAck = 0x0022"
| "SkinnyMessage_value SkStartMediaTransmission = 0x008A"
| "SkinnyMessage_value SkStopMediaTransmission = 0x008B"
| "SkinnyMessage_value SkCallInfoMessage = 0x008F"
| "SkinnyMessage_value SkLineStatMessage = 0x0092"
| "SkinnyMessage_value SkCloseReceiveChannel = 0x0106"
| "SkinnyMessage_value SkCcm5CallInfoMessage = 0x14A"
| "SkinnyMessage_value SkSoftKeyEventMessage = 0x0026"
| "SkinnyMessage_value SkSoftKeySetDescription = 0x0110"
| "SkinnyMessage_value SkCallStateMessage = 0x0111"
| "SkinnyMessage_value SkUnkn = 0"

definition SkinnyMessageToEnum :: "string \<Rightarrow> SkinnyMessageEnum" where
  "SkinnyMessageToEnum = no_case_lookup
     [(''StartMediaTransmission'', SkStartMediaTransmission), (''StopMediaTransmission'', SkStopMediaTransmission),
      (''CallInfoMessage'', SkCallInfoMessage), (''OpenReceiveChannelAck'', SkOpenReceiveChannelAck),
      (''CloseReceiveChannel'', SkCloseReceiveChannel), (''LineStatMessage'', SkLineStatMessage),
      (''Ccm5CallInfoMessage'', SkCcm5CallInfoMessage), (''SoftKeyEventMessage'', SkSoftKeyEventMessage),
      (''SoftKeySetDescription'', SkSoftKeySetDescription)] SkUnkn"

definition SkinnyMessageToString :: "int \<Rightarrow> string" where
  "SkinnyMessageToString = switch (map (\<lambda>(e, s). (SkinnyMessage_value e, s))
     [(SkStartMediaTransmission, ''StartMediaTransmission''), (SkStopMediaTransmission, ''StopMediaTransmission''),
      (SkCallInfoMessage, ''CallInfoMessage''), (SkOpenReceiveChannelAck, ''OpenReceiveChannelAck''),
      (SkCloseReceiveChannel, ''CloseReceiveChannel''), (SkLineStatMessage, ''LineStatMessage''),
      (SkCcm5CallInfoMessage, ''Ccm5CallInfoMessage''), (SkSoftKeyEventMessage, ''SoftKeyEventMessage''),
      (SkSoftKeySetDescription, ''SoftKeySetDescription'')]) ''Unkn''"

definition skinny_messages :: "SkinnyMessageEnum list" where
  "skinny_messages =
     [SkStartMediaTransmission, SkStopMediaTransmission, SkCallInfoMessage, SkOpenReceiveChannelAck,
      SkCloseReceiveChannel, SkLineStatMessage, SkCcm5CallInfoMessage, SkSoftKeyEventMessage, SkSoftKeySetDescription]"

interpretation skinny_message: named_enum "\<lambda>e. SkinnyMessageToString (SkinnyMessage_value e)" SkinnyMessageToEnum
  skinny_messages
  by (rule table_named_enum [OF _ SkinnyMessageToEnum_def]) code_simp+

section \<open>Soft keys\<close>

datatype SoftKeyEventEnum =
    SkSoftKeyRedial | SkSoftKeyNewCall | SkSoftKeyHold | SkSoftKeyTrnsfer | SkSoftKeyCFwdAll | SkSoftKeyCFwdBusy
  | SkSoftKeyCFwdNoAnswer | SkSoftKeyBackSpace | SkSoftKeyEndCall | SkSoftKeyResume | SkSoftKeyAnswer
  | SkSoftKeyInfo | SkSoftKeyConfrn | SkSoftKeyPark | SkSoftKeyJoin | SkSoftKeyMeetMeConfrn
  | SkSoftKeyCallPickUp | SkSoftKeyGrpCallPickUp | SkSoftKeyUnkn

fun SoftKeyEvent_value :: "SoftKeyEventEnum \<Rightarrow> int" where
  "SoftKeyEvent_value SkSoftKeyRedial = 1"
| "SoftKeyEvent_value SkSoftKeyNewCall = 2"
| "SoftKeyEvent_value SkSoftKeyHold = 3"
| "SoftKeyEvent_value SkSoftKeyTrnsfer = 4"
| "SoftKeyEvent_value SkSoftKeyCFwdAll = 5"
| "SoftKeyEvent_value SkSoftKeyCFwdBusy = 6"
| "SoftKeyEvent_value SkSoftKeyCFwdNoAnswer = 7"
| "SoftKeyEvent_value SkSoftKeyBackSpace = 8"
| "SoftKeyEvent_value SkSoftKeyEndCall = 9"
| "SoftKeyEvent_value SkSoftKeyResume = 10"
| "SoftKeyEvent_value SkSoftKeyAnswer = 11"
| "SoftKeyEvent_value SkSoftKeyInfo = 12"
| "SoftKeyEvent_value SkSoftKeyConfrn = 13"
| "SoftKeyEvent_value SkSoftKeyPark = 14"
| "SoftKeyEvent_value SkSoftKeyJoin = 15"
| "SoftKeyEvent_value SkSoftKeyMeetMeConfrn = 16"
| "SoftKeyEvent_value SkSoftKeyCallPickUp = 17"
| "SoftKeyEvent_value SkSoftKeyGrpCallPickUp = 18"
| "SoftKeyEvent_value SkSoftKeyUnkn = 0"

text \<open>The chain of the code, with its second entries for \<open>Park\<close>, \<open>Join\<close> and \<open>MeetMeConfrn\<close>.\<close>

definition soft_key_names :: "(string \<times> SoftKeyEventEnum) list" where
  "soft_key_names =
     [(''Redial'', SkSoftKeyRedial), (''NewCall'', SkSoftKeyNewCall), (''Hold'', SkSoftKeyHold),
      (''Trnsfer'', SkSoftKeyTrnsfer), (''CFwdAll'', SkSoftKeyCFwdAll), (''CFwdBusy'', SkSoftKeyCFwdBusy),
      (''CFwdNoAnswer'', SkSoftKeyCFwdNoAnswer), (''BackSpace'', SkSoftKeyBackSpace),
      (''EndCall'', SkSoftKeyEndCall), (''Resume'', SkSoftKeyResume), (''Answer'', SkSoftKeyAnswer),
      (''Info'', SkSoftKeyInfo), (''Confrn'', SkSoftKeyConfrn), (''Park'', SkSoftKeyPark), (''Join'', SkSoftKeyJoin),
      (''MeetMeConfrn'', SkSoftKeyConfrn), (''Park'', SkSoftKeyPark), (''Join'', SkSoftKeyJoin),
      (''MeetMeConfrn'', SkSoftKeyMeetMeConfrn), (''CallPickUp'', SkSoftKeyCallPickUp),
      (''GrpCallPickUp'', SkSoftKeyGrpCallPickUp)]"

definition SoftKeyEventToEnum :: "string \<Rightarrow> SoftKeyEventEnum" where
  "SoftKeyEventToEnum = no_case_lookup soft_key_names SkSoftKeyUnkn"

definition SoftKeyEventToString :: "int \<Rightarrow> string" where
  "SoftKeyEventToString = switch (map (\<lambda>(e, s). (SoftKeyEvent_value e, s))
     [(SkSoftKeyRedial, ''Redial''), (SkSoftKeyNewCall, ''NewCall''), (SkSoftKeyHold, ''Hold''),
      (SkSoftKeyTrnsfer, ''Trnsfer''), (SkSoftKeyCFwdAll, ''CFwdAll''), (SkSoftKeyCFwdBusy, ''CFwdBusy''),
      (SkSoftKeyCFwdNoAnswer, ''CFwdNoAnswer''), (SkSoftKeyBackSpace, ''BackSpace''),
      (SkSoftKeyEndCall, ''EndCall''), (SkSoftKeyResume, ''Resume''), (SkSoftKeyAnswer, ''Answer''),
      (SkSoftKeyInfo, ''Info''), (SkSoftKeyConfrn, ''Confrn''), (SkSoftKeyPark, ''Park''), (SkSoftKeyJoin, ''Join''),
      (SkSoftKeyMeetMeConfrn, ''MeetMeConfrn''), (SkSoftKeyCallPickUp, ''CallPickUp''),
      (SkSoftKeyGrpCallPickUp, ''GrpCallPickUp'')]) ''Unknown''"

section \<open>Soft key sets\<close>

datatype SoftKeySetDescriptionEnum =
    SkSoftKeySetOnHook | SkSoftKeySetConnected | SkSoftKeySetOnHold | SkSoftKeySetRIngIn | SkSoftKeySetOffHook
  | SkSoftKeySetTransfer | SkSoftKeySetDigits | SkSoftKeySetConference | SkSoftKeySetRingOut
  | SkSoftKeySetOffHookFeature | SkSoftKeySetUnkn

fun SoftKeySetDescription_value :: "SoftKeySetDescriptionEnum \<Rightarrow> int" where
  "SoftKeySetDescription_value SkSoftKeySetOnHook = 0"
| "SoftKeySetDescription_value SkSoftKeySetConnected = 1"
| "SoftKeySetDescription_value SkSoftKeySetOnHold = 2"
| "SoftKeySetDescription_value SkSoftKeySetRIngIn = 3"
| "SoftKeySetDescription_value SkSoftKeySetOffHook = 4"
| "SoftKeySetDescription_value SkSoftKeySetTransfer = 5"
| "SoftKeySetDescription_value SkSoftKeySetDigits = 6"
| "SoftKeySetDescription_value SkSoftKeySetConference = 7"
| "SoftKeySetDescription_value SkSoftKeySetRingOut = 8"
| "SoftKeySetDescription_value SkSoftKeySetOffHookFeature = 9"
| "SoftKeySetDescription_value SkSoftKeySetUnkn = 10"

definition soft_key_sets :: "(SoftKeySetDescriptionEnum \<times> string) list" where
  "soft_key_sets =
     [(SkSoftKeySetOnHook, ''OnHook''), (SkSoftKeySetConnected, ''Connected''), (SkSoftKeySetOnHold, ''OnHold''),
      (SkSoftKeySetRIngIn, ''RingIn''), (SkSoftKeySetOffHook, ''OffHook''),
      (SkSoftKeySetTransfer, ''ConnectedWithTransfer''), (SkSoftKeySetDigits, ''DigitsAfterDialingFirstDigit''),
      (SkSoftKeySetConference, ''ConnectedWithConference''), (SkSoftKeySetRingOut, ''RingOut''),
      (SkSoftKeySetOffHookFeature, ''OnHookWithFeature'')]"

definition SoftKeySetDescriptionToEnum :: "string \<Rightarrow> SoftKeySetDescriptionEnum" where
  "SoftKeySetDescriptionToEnum = no_case_lookup (map (\<lambda>(e, s). (s, e)) soft_key_sets) SkSoftKeySetUnkn"

definition SoftKeySetDescriptionToString :: "int \<Rightarrow> string" where
  "SoftKeySetDescriptionToString =
     switch (map (\<lambda>(e, s). (SoftKeySetDescription_value e, s)) soft_key_sets) ''Unknown''"

interpretation soft_key_set: named_enum "\<lambda>e. SoftKeySetDescriptionToString (SoftKeySetDescription_value e)"
  SoftKeySetDescriptionToEnum "map fst soft_key_sets"
  by (rule table_named_enum [OF _ SoftKeySetDescriptionToEnum_def]) code_simp+

section \<open>Properties\<close>

lemma lower_soft_keys:
  "lower_names soft_key_names =
     [(''redial'', SkSoftKeyRedial), (''newcall'', SkSoftKeyNewCall), (''hold'', SkSoftKeyHold),
      (''trnsfer'', SkSoftKeyTrnsfer), (''cfwdall'', SkSoftKeyCFwdAll), (''cfwdbusy'', SkSoftKeyCFwdBusy),
      (''cfwdnoanswer'', SkSoftKeyCFwdNoAnswer), (''backspace'', SkSoftKeyBackSpace),
      (''endcall'', SkSoftKeyEndCall), (''resume'', SkSoftKeyResume), (''answer'', SkSoftKeyAnswer),
      (''info'', SkSoftKeyInfo), (''confrn'', SkSoftKeyConfrn), (''park'', SkSoftKeyPark), (''join'', SkSoftKeyJoin),
      (''meetmeconfrn'', SkSoftKeyConfrn), (''park'', SkSoftKeyPark), (''join'', SkSoftKeyJoin),
      (''meetmeconfrn'', SkSoftKeyMeetMeConfrn), (''callpickup'', SkSoftKeyCallPickUp),
      (''grpcallpickup'', SkSoftKeyGrpCallPickUp)]"
  by code_simp

lemma soft_key_strings:
  "map (\<lambda>n. map to_lower (SoftKeyEventToString n)) [0, 1, 2, 3, 4, 5, 6, 7, 8, 9, 10, 11, 12, 13, 14, 15, 16, 17, 18] =
      [''unknown'', ''redial'', ''newcall'', ''hold'', ''trnsfer'', ''cfwdall'', ''cfwdbusy'', ''cfwdnoanswer'',
       ''backspace'', ''endcall'', ''resume'', ''answer'', ''info'', ''confrn'', ''park'', ''join'',
       ''meetmeconfrn'', ''callpickup'', ''grpcallpickup'']"
  by code_simp

lemma soft_key_round:
  "SoftKeyEventToEnum (SoftKeyEventToString (SoftKeyEvent_value e)) =
     (if e = SkSoftKeyMeetMeConfrn then SkSoftKeyConfrn else e)"
  using soft_key_strings unfolding list.map list.inject
  by (cases e) (simp_all add: SoftKeyEventToEnum_def no_case_lookup_lower lower_soft_keys)

text \<open>The soft key conversions are not inverse to each other: every soft key survives being printed
  and read back except \<open>MeetMeConfrn\<close>, which is read back as \<open>Confrn\<close> because an earlier branch of
  the chain already compares with its name; no name is read as \<open>SkSoftKeyMeetMeConfrn\<close>.\<close>

theorem SoftKeyEvent_codec:
  "SoftKeyEventToEnum (SoftKeyEventToString (SoftKeyEvent_value e)) =
     (if e = SkSoftKeyMeetMeConfrn then SkSoftKeyConfrn else e) \<and>
   SoftKeyEventToEnum s \<noteq> SkSoftKeyMeetMeConfrn"
proof
  show "SoftKeyEventToEnum s \<noteq> SkSoftKeyMeetMeConfrn"
    by (simp add: SoftKeyEventToEnum_def soft_key_names_def)
qed (rule soft_key_round)

end
