(* ===== verification/SkinnyValidators.thy ===== *)
theory SkinnyValidators
  imports SkinnyEnums
begin

text \<open>
  The validators of Skinny messages in \<open>audiocaptureplugins/common/PacketHeaderDefs.cpp\<close>. Memory is a
  list of bytes, a struct pointer and \<open>packetEnd\<close> are addresses in it, and fields are read
  little-endian at their offsets in the struct (naturally aligned, so without padding).
\<close>

section \<open>Fields\<close>

definition read_u32 :: "u8 list \<Rightarrow> int \<Rightarrow> u32 result" where
  "read_u32 mem p =
     andThen (peek mem p) (\<lambda>b0. andThen (peek mem (p + 1)) (\<lambda>b1.
     andThen (peek mem (p + 2)) (\<lambda>b2. andThen (peek mem (p + 3)) (\<lambda>b3.
     Inr (ucast b0 OR push_bit 8 (ucast b1) OR push_bit 16 (ucast b2) OR push_bit 24 (ucast b3))))))"

section \<open>Strings\<close>

fun party_loop :: "nat \<Rightarrow> u8 list \<Rightarrow> int \<Rightarrow> bool result" where
  "party_loop 0 mem p = Inr False"
| "party_loop (Suc n) mem p =
     andThen (peek mem p) (\<lambda>c.
     if c = 0 then Inr True
     else if c < 32 \<or> (122 < c \<and> c < 192) then Inr False
     else party_loop n mem (p + 1))"

definition checkPartyString :: "u8 list \<Rightarrow> int \<Rightarrow> int \<Rightarrow> bool result" where
  "checkPartyString mem str n = party_loop (nat n) mem str"

section \<open>Messages\<close>

definition SkinnyValidateStartMediaTransmission :: "u8 list \<Rightarrow> int \<Rightarrow> int \<Rightarrow> bool result" where
  "SkinnyValidateStartMediaTransmission mem smt packetEnd =
     (if smt + 28 > packetEnd then Inr False
      else andThen (read_u32 mem (smt + 24)) (\<lambda>remoteTcpPort. Inr (\<not> uint remoteTcpPort > 65535)))"

definition SkinnyValidateCcm7_1StartMediaTransmission :: "u8 list \<Rightarrow> int \<Rightarrow> int \<Rightarrow> bool result" where
  "SkinnyValidateCcm7_1StartMediaTransmission mem smt packetEnd =
     (if smt + 44 > packetEnd then Inr False
      else andThen (read_u32 mem (smt + 40)) (\<lambda>remoteTcpPort. Inr (\<not> uint remoteTcpPort > 65535)))"

definition SkinnyValidateStopMediaTransmission :: "u8 list \<Rightarrow> int \<Rightarrow> int \<Rightarrow> bool result" where
  "SkinnyValidateStopMediaTransmission mem smt packetEnd = Inr (\<not> smt + 20 > packetEnd)"

text \<open>\<open>if(valid) valid = \<dots>\<close>\<close>

definition if_valid :: "bool result \<Rightarrow> bool result \<Rightarrow> bool result" where
  "if_valid v more = andThen v (\<lambda>valid. if valid then more else Inr False)"

definition SkinnyValidateCallInfo :: "u8 list \<Rightarrow> int \<Rightarrow> int \<Rightarrow> bool result" where
  "SkinnyValidateCallInfo mem sci packetEnd =
     (let valid = (if sci + 152 > packetEnd then Inr False
                   else andThen (read_u32 mem (sci + 148)) (\<lambda>callType. Inr (\<not> uint callType > 3)));
          valid = if_valid valid (checkPartyString mem (sci + 116) 24);
          valid = if_valid valid (checkPartyString mem (sci + 52) 24);
          valid = if_valid valid (checkPartyString mem (sci + 76) 40)
      in if_valid valid (checkPartyString mem (sci + 12) 40))"

definition SkinyValidateCallStateMessage :: "u8 list \<Rightarrow> int \<Rightarrow> int \<Rightarrow> bool result" where
  "SkinyValidateCallStateMessage mem sci packetEnd = Inr (\<not> sci + 24 > packetEnd)"

text \<open>The search for the NUL between the two parties: the number of characters before it.\<close>

fun skip_to_nul :: "u8 list \<Rightarrow> int result" where
  "skip_to_nul [] = Inl OutOfBounds"
| "skip_to_nul (c # cs) = (if c = 0 then Inr 0 else andThen (skip_to_nul cs) (\<lambda>n. Inr (n + 1)))"

definition SkinnyValidateCcm5CallInfo :: "u8 list \<Rightarrow> int \<Rightarrow> int \<Rightarrow> bool result" where
  "SkinnyValidateCcm5CallInfo mem sci packetEnd =
     (let valid = (if sci + 44 > packetEnd then Inr False
                   else andThen (read_u32 mem (sci + 20)) (\<lambda>callType. Inr (\<not> uint callType > 3)));
          partiesLen = packetEnd - sci - 44;
          valid = if_valid valid (checkPartyString mem (sci + 44) (sint (word_of_int partiesLen :: u32)))
      in if_valid valid
           (andThen (skip_to_nul (drop (nat (sci + 44)) mem)) (\<lambda>n.
            let skip = n + 1
            in checkPartyString mem (sci + 44 + n + 1) (sint (word_of_int (partiesLen - skip) :: u32)))))"

definition SkinnyValidateOpenReceiveChannelAck :: "u8 list \<Rightarrow> int \<Rightarrow> int \<Rightarrow> bool result" where
  "SkinnyValidateOpenReceiveChannelAck mem orca packetEnd =
     (if orca + 28 > packetEnd then Inr False
      else andThen (read_u32 mem (orca + 20)) (\<lambda>endpointTcpPort. Inr (\<not> uint endpointTcpPort > 65535)))"

definition SkinnyValidateCcm7_1SkOpenReceiveChannelAckStruct :: "u8 list \<Rightarrow> int \<Rightarrow> int \<Rightarrow> bool result" where
  "SkinnyValidateCcm7_1SkOpenReceiveChannelAckStruct mem orca packetEnd =
     (if orca + 40 > packetEnd then Inr False
      else andThen (read_u32 mem (orca + 36)) (\<lambda>endpointTcpPort. Inr (\<not> uint endpointTcpPort > 65535)))"

definition SkinnyValidateLineStat :: "u8 list \<Rightarrow> int \<Rightarrow> int \<Rightarrow> bool result" where
  "SkinnyValidateLineStat mem lineStat packetEnd =
     (let valid = Inr (\<not> lineStat + 80 > packetEnd);
          valid = if_valid valid (checkPartyString mem (lineStat + 40) 40)
      in if_valid valid (checkPartyString mem (lineStat + 16) 24))"

definition SkinnyValidateSoftKeyEvent :: "u8 list \<Rightarrow> int \<Rightarrow> int \<Rightarrow> bool result" where
  "SkinnyValidateSoftKeyEvent mem softKeyEvent packetEnd =
     (if softKeyEvent + 24 > packetEnd then Inr False
      else andThen (read_u32 mem (softKeyEvent + 12)) (\<lambda>event. Inr (\<not> (uint event > 18 \<or> uint event < 1))))"

definition SkinnyValidateSoftKeySetDescription :: "u8 list \<Rightarrow> int \<Rightarrow> int \<Rightarrow> bool result" where
  "SkinnyValidateSoftKeySetDescription mem description packetEnd =
     (if description + 24 > packetEnd then Inr False
      else andThen (read_u32 mem (description + 20)) (\<lambda>event. Inr (\<not> (uint event > 10 \<or> uint event < 0))))"

section \<open>Reading within the packet\<close>

definition in_packet :: "u8 list \<Rightarrow> int \<Rightarrow> int \<Rightarrow> bool" where
  "in_packet mem p packetEnd \<longleftrightarrow> 0 \<le> p \<and> packetEnd \<le> int (length mem) \<and> packetEnd - p < 2147483648"

lemma read_u32_ok: "0 \<le> p \<Longrightarrow> p + 4 \<le> int (length mem) \<Longrightarrow> \<exists>v. read_u32 mem p = Inr v"
  by (simp add: read_u32_def)

definition party_char :: "u8 \<Rightarrow> bool" where
  "party_char c \<longleftrightarrow> c \<noteq> 0 \<and> \<not> c < 32 \<and> \<not> (122 < c \<and> c < 192)"

text \<open>A party string is accepted when it is terminated within its field and every character before the NUL is allowed.\<close>

definition party_at :: "u8 list \<Rightarrow> nat \<Rightarrow> nat \<Rightarrow> bool" where
  "party_at mem p n \<longleftrightarrow> (\<exists>k<n. mem ! (p + k) = 0 \<and> (\<forall>j<k. party_char (mem ! (p + j))))"

lemma party_at_0 [simp]: "\<not> party_at mem p 0"
  by (simp add: party_at_def)

lemma party_at_Suc:
  "party_at mem p (Suc n) \<longleftrightarrow> mem ! p = 0 \<or> (party_char (mem ! p) \<and> party_at mem (Suc p) n)"
  unfolding party_at_def Ex_less_Suc2 All_less_Suc2 by auto

lemma party_loop_iff:
  "0 \<le> p \<Longrightarrow> nat p + n \<le> length mem \<Longrightarrow> party_loop n mem p = Inr (party_at mem (nat p) n)"
proof (induction n arbitrary: p)
  case (Suc n)
  then show ?case
    by (simp add: party_at_Suc nat_add_distrib) (auto simp: party_char_def)
qed simp

lemma checkPartyString_iff:
  assumes "0 \<le> p" "nat p + nat n \<le> length mem"
  shows "checkPartyString mem p n = Inr (party_at mem (nat p) (nat n))"
  using assms by (simp add: checkPartyString_def party_loop_iff)

lemma if_valid_ok: "\<exists>v. valid = Inr v \<Longrightarrow> \<exists>w. more = Inr w \<Longrightarrow> \<exists>v. if_valid valid more = Inr v"
  by (auto simp: if_valid_def)

lemma checkPartyString_ok: "0 \<le> p \<Longrightarrow> nat p + nat n \<le> length mem \<Longrightarrow> \<exists>v. checkPartyString mem p n = Inr v"
  by (simp add: checkPartyString_iff)

lemma skip_to_nul_ok:
  "k < length bs \<Longrightarrow> bs ! k = 0 \<Longrightarrow> \<forall>j<k. bs ! j \<noteq> 0 \<Longrightarrow> skip_to_nul bs = Inr (int k)"
proof (induction bs arbitrary: k)
  case (Cons b bs)
  show ?case
  proof (cases k)
    case 0
    with Cons.prems show ?thesis by simp
  next
    case (Suc k')
    then have "b \<noteq> 0" "\<forall>j<k'. bs ! j \<noteq> 0" using Cons.prems(3) by (auto simp: All_less_Suc2)
    with Suc Cons show ?thesis by simp
  qed
qed simp

lemma party_at_nul:
  assumes "party_at mem p n" "p + n \<le> length mem"
  obtains k where "k < n" "skip_to_nul (drop p mem) = Inr (int k)" "mem ! (p + k) = 0"
    "\<forall>j<k. party_char (mem ! (p + j))"
proof -
  from assms(1) obtain k where k: "k < n" "mem ! (p + k) = 0" "\<forall>j<k. party_char (mem ! (p + j))"
    by (auto simp: party_at_def)
  moreover have "skip_to_nul (drop p mem) = Inr (int k)"
    using k assms(2) by (intro skip_to_nul_ok) (auto simp: party_char_def)
  ultimately show thesis using that by blast
qed

text \<open>The two parties of a \<open>Ccm5CallInfo\<close>: one string after the other.\<close>

lemma Ccm5_iff:
  assumes "in_packet mem p packetEnd"
  shows "\<exists>valid. SkinnyValidateCcm5CallInfo mem p packetEnd = Inr valid \<and>
     (valid \<longrightarrow> (\<exists>k. p + 44 + int k + 1 \<le> packetEnd \<and> mem ! (nat p + 44 + k) = 0 \<and>
        (\<forall>j<k. party_char (mem ! (nat p + 44 + j))) \<and>
        party_at mem (nat p + 44 + k + 1) (nat (packetEnd - p - 44) - (k + 1))))"
proof (cases "p + 44 > packetEnd")
  case True
  then show ?thesis by (intro exI [of _ False]) (simp add: SkinnyValidateCcm5CallInfo_def if_valid_def)
next
  case False
  define n where "n = nat (packetEnd - p - 44)"
  have p: "0 \<le> p" "packetEnd \<le> int (length mem)" and n: "packetEnd - p - 44 = int n" "n < 2147483648"
      "nat (p + 44) = nat p + 44" "nat p + 44 + n \<le> length mem"
    using assms False by (auto simp: in_packet_def n_def nat_add_distrib)
  have sint_n: "sint (word_of_int (int m) :: u32) = int m" if "m \<le> n" for m
    using that n by (intro sint_of_int_u32) simp_all
  obtain v where v: "read_u32 mem (p + 20) = Inr v"
    using read_u32_ok [of "p + 20" mem] p False by auto
  have first: "checkPartyString mem (p + 44) (sint (word_of_int (int n) :: u32)) = Inr (party_at mem (nat p + 44) n)"
    using p n sint_n [of n] checkPartyString_iff [of "p + 44" "int n" mem] by simp
  show ?thesis
  proof (cases "\<not> uint v > 3 \<and> party_at mem (nat p + 44) n")
    case bad: False
    then have "SkinnyValidateCcm5CallInfo mem p packetEnd = Inr False"
      unfolding SkinnyValidateCcm5CallInfo_def Let_def n(1) first using False v
      by (auto simp: if_valid_def)
    then show ?thesis by (intro exI [of _ False]) simp
  next
    case good: True
    with n obtain k where k: "k < n" "skip_to_nul (drop (nat p + 44) mem) = Inr (int k)"
      "mem ! (nat p + 44 + k) = 0" "\<forall>j<k. party_char (mem ! (nat p + 44 + j))"
      using party_at_nul [of mem "nat p + 44" n] by auto
    define m where "m = n - (k + 1)"
    have m: "int n - (int k + 1) = int m" "m \<le> n" "nat p + 44 + k + 1 + m \<le> length mem"
      using k(1) n(4) by (simp_all add: m_def)
    have pk: "nat (p + 44 + int k + 1) = nat p + 44 + k + 1" using p by simp
    have second: "checkPartyString mem (p + 44 + int k + 1) (sint (word_of_int (int m) :: u32)) =
        Inr (party_at mem (nat p + 44 + k + 1) m)"
      unfolding sint_n [OF m(2)] using p m(3) checkPartyString_iff [of "p + 44 + int k + 1" "int m" mem]
      unfolding pk nat_int by linarith
    have "SkinnyValidateCcm5CallInfo mem p packetEnd = Inr (party_at mem (nat p + 44 + k + 1) m)"
      unfolding SkinnyValidateCcm5CallInfo_def Let_def n(1,3) first using good False v
      unfolding if_valid_def k(2) andThen_Inr m(1) second by simp
    moreover have "p + 44 + int k + 1 \<le> packetEnd" using k(1) n(1) by linarith
    ultimately show ?thesis unfolding n_def [symmetric] m_def using k(3,4) by blast
  qed
qed

section \<open>Properties\<close>

text \<open>C30: The Skinny validators never read outside the captured packet: whatever the bytes, for a message
  that starts inside the packet each of the eleven validators returns, and an accepted
  \<open>Ccm5CallInfo\<close> holds two NUL-terminated party strings of allowed characters, one after the
  other, both within the packet.\<close>

theorem skinny_validators_safe:
  assumes "in_packet mem p packetEnd"
  shows "is_ok (SkinnyValidateStartMediaTransmission mem p packetEnd) \<and>
    is_ok (SkinnyValidateCcm7_1StartMediaTransmission mem p packetEnd) \<and>
    is_ok (SkinnyValidateStopMediaTransmission mem p packetEnd) \<and>
    is_ok (SkinnyValidateCallInfo mem p packetEnd) \<and>
    is_ok (SkinyValidateCallStateMessage mem p packetEnd) \<and>
    is_ok (SkinnyValidateOpenReceiveChannelAck mem p packetEnd) \<and>
    is_ok (SkinnyValidateCcm7_1SkOpenReceiveChannelAckStruct mem p packetEnd) \<and>
    is_ok (SkinnyValidateLineStat mem p packetEnd) \<and>
    is_ok (SkinnyValidateSoftKeyEvent mem p packetEnd) \<and>
    is_ok (SkinnyValidateSoftKeySetDescription mem p packetEnd) \<and>
    (\<exists>valid. SkinnyValidateCcm5CallInfo mem p packetEnd = Inr valid \<and>
       (valid \<longrightarrow> (\<exists>k. p + 44 + int k + 1 \<le> packetEnd \<and> mem ! (nat p + 44 + k) = 0 \<and>
          (\<forall>j<k. party_char (mem ! (nat p + 44 + j))) \<and>
          party_at mem (nat p + 44 + k + 1) (nat (packetEnd - p - 44) - (k + 1)))))"
proof -
  have p: "0 \<le> p" "packetEnd \<le> int (length mem)" using assms by (simp_all add: in_packet_def)
  have "\<exists>v. read_u32 mem (p + k) = Inr v" if "p + k + 4 \<le> packetEnd" "0 \<le> k" for k
    using that p by (intro read_u32_ok) simp_all
  note reads = this [of 24] this [of 40] this [of 148] this [of 20] this [of 36] this [of 12]
  have strs: "\<exists>v. checkPartyString mem (p + k) n = Inr v" if "p + k + n \<le> packetEnd" "0 \<le> k" "0 \<le> n" for k n
    using that p by (intro checkPartyString_ok) (simp_all add: nat_add_distrib)
  have "\<exists>v. SkinnyValidateCallInfo mem p packetEnd = Inr v"
  proof (cases "p + 152 > packetEnd")
    case True
    then show ?thesis by (intro exI [of _ False]) (simp add: SkinnyValidateCallInfo_def if_valid_def)
  next
    case False
    with reads(3) obtain v where "read_u32 mem (p + 148) = Inr v" by auto
    with False show ?thesis unfolding SkinnyValidateCallInfo_def Let_def
      by (intro if_valid_ok strs) simp_all
  qed
  moreover have "\<exists>v. SkinnyValidateLineStat mem p packetEnd = Inr v"
  proof (cases "p + 80 > packetEnd")
    case True
    then show ?thesis by (intro exI [of _ False]) (simp add: SkinnyValidateLineStat_def if_valid_def)
  next
    case False
    then show ?thesis unfolding SkinnyValidateLineStat_def Let_def
      by (intro if_valid_ok strs) auto
  qed
  ultimately show ?thesis
    using reads Ccm5_iff [OF assms]
    by (auto simp: is_ok_iff SkinnyValidateStartMediaTransmission_def SkinnyValidateCcm7_1StartMediaTransmission_def
        SkinnyValidateStopMediaTransmission_def SkinyValidateCallStateMessage_def
        SkinnyValidateOpenReceiveChannelAck_def SkinnyValidateCcm7_1SkOpenReceiveChannelAckStruct_def
        SkinnyValidateSoftKeyEvent_def SkinnyValidateSoftKeySetDescription_def)
qed

theorem skinny_validators_safe_witness:
  "is_ok (SkinnyValidateCallInfo (replicate 152 0) 0 152) \<and> in_packet (replicate 152 0) 0 152"
  using skinny_validators_safe [of "replicate 152 0" 0 152] by (simp add: in_packet_def)

end
