(* ===== verification/SkinnyParsers.thy ===== *)
theory SkinnyParsers
  imports SipParsers SkinnyValidators
begin

text \<open>
  Skinny messages in a TCP packet: \<open>audiocaptureplugins/voip/SkinnyParsers.cpp\<close> and \<open>Win1251.cpp\<close>. The memory is
  a list of bytes, a message the offset of its header; structs are read at the offsets of their fields. A
  message reports events to the sessions, and the conversion of names, which happens only when the
  log is on, changes the packet in place.
\<close>

section \<open>Reading\<close>

definition chars_of :: "u8 list \<Rightarrow> string" where
  "chars_of bytes = map (\<lambda>b. char_of (unat b)) bytes"

definition read_be16 :: "u8 list \<Rightarrow> int \<Rightarrow> u16 result" where
  "read_be16 mem p = andThen (peek mem p) (\<lambda>a. andThen (peek mem (p + 1)) (\<lambda>b. Inr (256 * ucast a + ucast b)))"

text \<open>An address in host order, and a \<open>char\<close> array of \<open>n\<close> bytes.\<close>

definition read_be32 :: "u8 list \<Rightarrow> int \<Rightarrow> u32 result" where
  "read_be32 mem p = andThen (read_be16 mem p) (\<lambda>a. andThen (read_be16 mem (p + 2)) (\<lambda>b. Inr (65536 * ucast a + ucast b)))"

definition read_chars :: "u8 list \<Rightarrow> int \<Rightarrow> nat \<Rightarrow> string result" where
  "read_chars mem p n = andThen (mem_slice mem p n) (\<lambda>bytes. Inr (chars_of bytes))"

section \<open>Windows-1251\<close>

text \<open>The two bytes of a table entry in memory order: the letters from 192 on, in UTF-8.\<close>

definition utf_entry :: "u8 \<Rightarrow> u8 list" where
  "utf_entry c =
     (let code = (if unat c < 240 then 0xD090 + (unat c - 192) else 0xD180 + (unat c - 240))
      in [word_of_nat (code div 256), word_of_nat (code mod 256)])"

definition PARTY_NAME_SIZE :: nat where
  "PARTY_NAME_SIZE = 40"

fun convert_loop :: "u8 list \<Rightarrow> u8 list" where
  "convert_loop [] = []"
| "convert_loop (c # cs) = (if unat c > 191 then utf_entry c @ convert_loop cs else c # convert_loop cs)"

text \<open>The name is cut off at the size of the array.\<close>

definition ConvertWin1251ToUtf8 :: "u8 list \<Rightarrow> u8 list" where
  "ConvertWin1251ToUtf8 partyName = take PARTY_NAME_SIZE (convert_loop partyName)"

definition convert_at :: "u8 list \<Rightarrow> int \<Rightarrow> u8 list result" where
  "convert_at mem p =
     andThen (mem_slice mem p PARTY_NAME_SIZE) (\<lambda>name.
     Inr (take (nat p) mem @ ConvertWin1251ToUtf8 name @ drop (nat p + PARTY_NAME_SIZE) mem))"

section \<open>CallInfo\<close>

text \<open>The four strings of a CallInfo, each followed by the next array: one without a NUL runs on into it.\<close>

definition read_call_info :: "u8 list \<Rightarrow> int \<Rightarrow> SkCallInfo result" where
  "read_call_info mem p =
     andThen (read_chars mem (p + 12) 64) (\<lambda>calling.
     andThen (read_chars mem (p + 76) 64) (\<lambda>called.
     andThen (read_u32 mem (p + 140)) (\<lambda>line.
     andThen (read_u32 mem (p + 144)) (\<lambda>cid.
     andThen (read_u32 mem (p + 148)) (\<lambda>ctype.
     Inr \<lparr>callingPartyName = c_str calling, callingParty = c_str (drop 40 calling),
          calledPartyName = c_str called, calledParty = c_str (drop 40 called),
          lineInstance = line, callId = cid, callType = ctype\<rparr>)))))"

section \<open>CallInfo of Call Manager 5\<close>

text \<open>At most \<open>n\<close> tokens; the end of each is looked for up to and including \<open>limit\<close>.\<close>

fun party_tokens :: "nat \<Rightarrow> string \<Rightarrow> int \<Rightarrow> int \<Rightarrow> string list result" where
  "party_tokens 0 mem p limit = Inr []"
| "party_tokens (Suc n) mem p limit =
     (if p < limit then
        andThen (GrabTokenAcceptSpace mem p limit []) (\<lambda>party.
        andThen (party_tokens n mem (p + int (length party) + 1) limit) (\<lambda>parties. Inr (party # parties)))
      else Inr [])"

definition nth_token :: "nat \<Rightarrow> string list \<Rightarrow> string \<Rightarrow> string" where
  "nth_token k parts unchanged = (if 0 < k \<and> k \<le> length parts then parts ! (k - 1) else unchanged)"

text \<open>Calling and called party, calling and called name: the \<open>switch\<close> over the token numbers.\<close>

definition ccm5_parties :: "bool \<Rightarrow> u32 \<Rightarrow> u32 \<Rightarrow> string list \<Rightarrow> string \<times> string \<times> string \<times> string" where
  "ccm5_parties cucm7_1 headerVersion ctype parts =
     (let general = nth_token 1 parts [];
          extension = nth_token 5 parts [];
          calling = (if \<not> cucm7_1 \<and> extension \<noteq> [] \<and> ctype = SKINNY_CALL_TYPE_OUTBOUND then extension else general);
          called = (if cucm7_1 then nth_token 3 parts (nth_token 2 parts []) else nth_token 2 parts []);
          old = (headerVersion = 0);
          callingName = (if old then nth_token 9 parts [] else nth_token 10 parts []);
          calledName = (if old then nth_token 10 parts [] else nth_token 11 parts []);
          last = nth_token 12 parts []
      in (calling, called, callingName, if \<not> old \<and> length last > length calledName then last else calledName))"

text \<open>\<open>strcpy\<close> into an array of 24 and \<open>strncpy\<close> into an array of 40 that is followed by \<open>after\<close>.\<close>

definition strcpy_party :: "string \<Rightarrow> string result" where
  "strcpy_party s = (if length s < 24 then Inr s else Inl OutOfBounds)"

definition strncpy_name :: "string \<Rightarrow> string \<Rightarrow> string" where
  "strncpy_name s after = (if length s < 40 then s else take 40 s @ after)"

definition ccm5_call_info :: "bool \<Rightarrow> u8 list \<Rightarrow> int \<Rightarrow> int \<Rightarrow> SkCallInfo result" where
  "ccm5_call_info cucm7_1 mem p packetEnd =
     andThen (read_u32 mem (p + 4)) (\<lambda>headerVersion.
     andThen (read_u32 mem (p + 16)) (\<lambda>cid.
     andThen (read_u32 mem (p + 20)) (\<lambda>ctype.
     andThen (party_tokens 12 (chars_of mem) (p + 44) packetEnd) (\<lambda>parts.
     case ccm5_parties cucm7_1 headerVersion ctype parts of (calling, called, callingName, calledName) \<Rightarrow>
     andThen (strcpy_party called) (\<lambda>calledParty'.
     andThen (strcpy_party calling) (\<lambda>callingParty'.
     Inr \<lparr>callingPartyName = strncpy_name callingName callingParty', callingParty = callingParty',
          calledPartyName = strncpy_name calledName calledParty', calledParty = calledParty',
          lineInstance = 0, callId = cid, callType = ctype\<rparr>))))))"

section \<open>Messages\<close>

text \<open>The configuration flags read here, and whether the log of the parser is on.\<close>

record SkinnyEnv =
  se_cucm7_1Mode :: bool
  se_trackConferences :: bool
  se_infoEnabled :: bool

text \<open>A message that is not valid is ignored; the memory is returned because names are converted in place.\<close>

definition when_valid :: "bool result \<Rightarrow> u8 list \<Rightarrow> voip_event list result \<Rightarrow> (voip_event list \<times> u8 list) result" where
  "when_valid valid mem events =
     andThen valid (\<lambda>v. if v then andThen events (\<lambda>es. Inr (es, mem)) else Inr ([], mem))"

definition handle_start_media :: "u8 list \<Rightarrow> int \<Rightarrow> int \<Rightarrow> SkinnyPacket \<Rightarrow> (voip_event list \<times> u8 list) result" where
  "handle_start_media mem p packetEnd pkt =
     andThen (SkinnyValidateStartMediaTransmission mem p packetEnd) (\<lambda>valid.
     if valid then
       andThen (read_u32 mem (p + 16)) (\<lambda>party. andThen (read_be32 mem (p + 20)) (\<lambda>ip. andThen (read_u32 mem (p + 24)) (\<lambda>port.
       Inr ([SkinnyStartMedia ip port party pkt], mem))))
     else when_valid (SkinnyValidateCcm7_1StartMediaTransmission mem p packetEnd) mem
       (andThen (read_u32 mem (p + 16)) (\<lambda>party. andThen (read_be32 mem (p + 24)) (\<lambda>ip. andThen (read_u32 mem (p + 40)) (\<lambda>port.
        Inr [SkinnyStartMedia ip port party pkt])))))"

definition handle_stop_media :: "u8 list \<Rightarrow> int \<Rightarrow> int \<Rightarrow> SkinnyPacket \<Rightarrow> (voip_event list \<times> u8 list) result" where
  "handle_stop_media mem p packetEnd pkt =
     when_valid (SkinnyValidateStopMediaTransmission mem p packetEnd) mem
       (andThen (read_u32 mem (p + 12)) (\<lambda>conference. andThen (read_u32 mem (p + 16)) (\<lambda>party.
        Inr [SkinnyStopMedia conference party pkt])))"

definition handle_call_info :: "SkinnyEnv \<Rightarrow> u8 list \<Rightarrow> int \<Rightarrow> int \<Rightarrow> SkinnyPacket \<Rightarrow> (voip_event list \<times> u8 list) result" where
  "handle_call_info env mem p packetEnd pkt =
     andThen (SkinnyValidateCallInfo mem p packetEnd) (\<lambda>valid.
     if \<not> valid then Inr ([], mem)
     else andThen (if se_infoEnabled env
                   then andThen (convert_at mem (p + 12)) (\<lambda>mem1. convert_at mem1 (p + 76)) else Inr mem) (\<lambda>mem'.
          andThen (read_call_info mem' p) (\<lambda>info. Inr ([SkinnyCallInfo info pkt], mem'))))"

definition handle_ccm5 :: "SkinnyEnv \<Rightarrow> u8 list \<Rightarrow> int \<Rightarrow> int \<Rightarrow> SkinnyPacket \<Rightarrow> (voip_event list \<times> u8 list) result" where
  "handle_ccm5 env mem p packetEnd pkt =
     when_valid (SkinnyValidateCcm5CallInfo mem p packetEnd) mem
       (andThen (ccm5_call_info (se_cucm7_1Mode env) mem p packetEnd) (\<lambda>info. Inr [SkinnyCallInfo info pkt]))"

text \<open>There is no \<open>break\<close> after a call state: the message is then read as a CallInfo of Call Manager 5.\<close>

definition handle_call_state :: "SkinnyEnv \<Rightarrow> u8 list \<Rightarrow> int \<Rightarrow> int \<Rightarrow> SkinnyPacket \<Rightarrow> (voip_event list \<times> u8 list) result" where
  "handle_call_state env mem p packetEnd pkt =
     andThen (when_valid (SkinyValidateCallStateMessage mem p packetEnd) mem
       (andThen (read_u32 mem (p + 12)) (\<lambda>state. andThen (read_u32 mem (p + 20)) (\<lambda>cid. Inr [SkinnyCallState state cid pkt])))) (\<lambda>(es, mem1).
     andThen (handle_ccm5 env mem1 p packetEnd pkt) (\<lambda>(es', mem2). Inr (es @ es', mem2)))"

definition handle_open_receive :: "u8 list \<Rightarrow> int \<Rightarrow> int \<Rightarrow> SkinnyPacket \<Rightarrow> (voip_event list \<times> u8 list) result" where
  "handle_open_receive mem p packetEnd pkt =
     andThen (SkinnyValidateOpenReceiveChannelAck mem p packetEnd) (\<lambda>valid.
     if valid then
       andThen (read_be32 mem (p + 16)) (\<lambda>ip. andThen (read_u32 mem (p + 20)) (\<lambda>port. andThen (read_u32 mem (p + 24)) (\<lambda>party.
       Inr ([SkinnyOpenReceive ip port party pkt], mem))))
     else when_valid (SkinnyValidateCcm7_1SkOpenReceiveChannelAckStruct mem p packetEnd) mem
       (andThen (read_be32 mem (p + 20)) (\<lambda>ip. andThen (read_u32 mem (p + 36)) (\<lambda>port. andThen (read_u32 mem (p + 24)) (\<lambda>party.
        Inr [SkinnyOpenReceive ip port party pkt])))))"

definition handle_line_stat :: "u8 list \<Rightarrow> int \<Rightarrow> int \<Rightarrow> SkinnyPacket \<Rightarrow> (voip_event list \<times> u8 list) result" where
  "handle_line_stat mem p packetEnd pkt =
     when_valid (SkinnyValidateLineStat mem p packetEnd) mem
       (andThen (read_chars mem (p + 16) 24) (\<lambda>number. Inr [SkinnyLineStat (c_str number) pkt]))"

text \<open>The keys Hold (3), Resume (10) and Confrn (13).\<close>

definition handle_soft_key :: "SkinnyEnv \<Rightarrow> u8 list \<Rightarrow> int \<Rightarrow> int \<Rightarrow> SkinnyPacket \<Rightarrow> (voip_event list \<times> u8 list) result" where
  "handle_soft_key env mem p packetEnd pkt =
     when_valid (SkinnyValidateSoftKeyEvent mem p packetEnd) mem
       (andThen (read_u32 mem (p + 12)) (\<lambda>event. andThen (read_u32 mem (p + 20)) (\<lambda>cid.
        Inr (if event = 3 then [SkinnyHold cid pkt]
             else if event = 10 then [SkinnyResume cid pkt]
             else if event = 13 \<and> se_trackConferences env then [SkinnyConfPressed (ip_src pkt) pkt]
             else []))))"

text \<open>The key sets Conference (7) and Transfer (5).\<close>

definition handle_soft_key_set :: "SkinnyEnv \<Rightarrow> u8 list \<Rightarrow> int \<Rightarrow> int \<Rightarrow> SkinnyPacket \<Rightarrow> (voip_event list \<times> u8 list) result" where
  "handle_soft_key_set env mem p packetEnd pkt =
     when_valid (SkinnyValidateSoftKeySetDescription mem p packetEnd) mem
       (andThen (read_u32 mem (p + 16)) (\<lambda>cid. andThen (read_u32 mem (p + 20)) (\<lambda>description.
        Inr (if description = 7 then (if se_trackConferences env then [SkinnyConfConnected (ip_dest pkt) pkt] else [])
             else if description = 5 then [SkinnyTransfConnected cid pkt]
             else []))))"

definition HandleSkinnyMessage :: "SkinnyEnv \<Rightarrow> u8 list \<Rightarrow> int \<Rightarrow> int \<Rightarrow> SkinnyPacket \<Rightarrow> (voip_event list \<times> u8 list) result" where
  "HandleSkinnyMessage env mem p packetEnd pkt =
     andThen (read_u32 mem (p + 8)) (\<lambda>messageType.
     if messageType = 0x8A then handle_start_media mem p packetEnd pkt
     else if messageType = 0x8B \<or> messageType = 0x106 then handle_stop_media mem p packetEnd pkt
     else if messageType = 0x8F then handle_call_info env mem p packetEnd pkt
     else if messageType = 0x111 then handle_call_state env mem p packetEnd pkt
     else if messageType = 0x14A then handle_ccm5 env mem p packetEnd pkt
     else if messageType = 0x22 then handle_open_receive mem p packetEnd pkt
     else if messageType = 0x92 then handle_line_stat mem p packetEnd pkt
     else if messageType = 0x26 then handle_soft_key env mem p packetEnd pkt
     else if messageType = 0x110 then handle_soft_key_set env mem p packetEnd pkt
     else Inr ([], mem))"

text \<open>The loop over the messages of a packet. Every message is at least 10 bytes long: the fuel is the number of bytes.\<close>

fun scan_messages :: "nat \<Rightarrow> SkinnyEnv \<Rightarrow> u8 list \<Rightarrow> int \<Rightarrow> int \<Rightarrow> SkinnyPacket \<Rightarrow> (voip_event list \<times> u8 list) result" where
  "scan_messages 0 env mem p packetEnd pkt = Inr ([], mem)"
| "scan_messages (Suc n) env mem p packetEnd pkt =
     (if packetEnd - p > 12 then
        andThen (read_u32 mem p) (\<lambda>len.
        andThen (read_u32 mem (p + 8)) (\<lambda>messageType.
        if uint len > 1 \<and> uint len < 2048 \<and> uint messageType \<le> 0x200 then
          andThen (HandleSkinnyMessage env mem p packetEnd pkt) (\<lambda>(es, mem').
          andThen (read_u32 mem' p) (\<lambda>len'.
          andThen (scan_messages n env mem' (p + 8 + uint len') packetEnd pkt) (\<lambda>(es', mem'').
          Inr (es @ es', mem''))))
        else Inr ([], mem)))
      else Inr ([], mem))"

definition ScanAllSkinnyMessages :: "SkinnyEnv \<Rightarrow> u8 list \<Rightarrow> int \<Rightarrow> int \<Rightarrow> SkinnyPacket \<Rightarrow> (voip_event list \<times> u8 list) result" where
  "ScanAllSkinnyMessages env mem start packetEnd pkt = scan_messages (nat (packetEnd - start)) env mem start packetEnd pkt"

end
