(* ===== verification/IpFragmentation.thy ===== *)
theory IpFragmentation
  imports Prelude
begin

text \<open>
  Reassembly of fragmented IP packets: \<open>orkbasecxx/SizedBuffer.{h,cpp}\<close>, the header accessors of
  \<open>IpHeaderStruct\<close> and \<open>audiocaptureplugins/voip/IpFragmentation.cpp\<close>. A packet is the list of bytes
  readable from its header pointer on. \<open>size_t\<close> arithmetic is taken modulo \<open>2^64\<close>. \<open>time(NULL)\<close> is
  the parameter \<open>now\<close>; \<open>realloc\<close> is assumed to succeed.
\<close>

section \<open>Sized buffers\<close>

text \<open>\<open>None\<close> is the NULL buffer of size 0. Bytes that \<open>realloc\<close> leaves uninitialised read as 0.\<close>

type_synonym SizedBuffer = "u8 list option"

definition sb_bytes :: "SizedBuffer \<Rightarrow> u8 list" where
  "sb_bytes b = (case b of None \<Rightarrow> [] | Some bytes \<Rightarrow> bytes)"

definition SizedBuffer_get :: "SizedBuffer \<Rightarrow> u8 list result" where
  "SizedBuffer_get b = (case b of None \<Rightarrow> Inl (Thrown ''SizedBuffer out of bound'')
     | Some bytes \<Rightarrow> if bytes = [] then Inl (Thrown ''SizedBuffer out of bound'') else Inr bytes)"

definition SizedBuffer_resize :: "nat \<Rightarrow> SizedBuffer \<Rightarrow> SizedBuffer" where
  "SizedBuffer_resize newSize b =
     Some (take newSize (sb_bytes b) @ replicate (newSize - length (sb_bytes b)) 0)"

definition SizedBuffer_write :: "nat \<Rightarrow> u8 list \<Rightarrow> nat \<Rightarrow> SizedBuffer \<Rightarrow> SizedBuffer result" where
  "SizedBuffer_write offset buf len b =
     (let b1 = (if offset + len > length (sb_bytes b) then SizedBuffer_resize (offset + len) b else b)
      in andThen (mem_slice buf 0 len) (\<lambda>src.
         case b1 of
           None \<Rightarrow> if len = 0 then Inr None else Inl NullDereference
         | Some bytes \<Rightarrow> Inr (Some (take offset bytes @ src @ drop (offset + len) bytes))))"

definition SizedBuffer_append :: "u8 list \<Rightarrow> nat \<Rightarrow> SizedBuffer \<Rightarrow> SizedBuffer result" where
  "SizedBuffer_append buf len b = SizedBuffer_write (length (sb_bytes b)) buf len b"

definition SizedBuffer_reset :: "u8 list \<Rightarrow> nat \<Rightarrow> SizedBuffer \<Rightarrow> SizedBuffer result" where
  "SizedBuffer_reset buf len b = SizedBuffer_write 0 buf len None"

definition new_SizedBuffer :: "u8 list \<Rightarrow> nat \<Rightarrow> SizedBuffer result" where
  "new_SizedBuffer buf len = SizedBuffer_reset buf len None"

section \<open>The IP header\<close>

definition ntohs_at :: "u8 list \<Rightarrow> nat \<Rightarrow> nat" where
  "ntohs_at p i = unat (p ! i) * 256 + unat (p ! Suc i)"

definition packetId :: "u8 list \<Rightarrow> u16" where
  "packetId p = word_of_nat (ntohs_at p 4)"

definition frag_offset :: "u8 list \<Rightarrow> nat" where
  "frag_offset p = (ntohs_at p 6 mod 0x2000) * 8"

definition fragmentFlags :: "u8 list \<Rightarrow> nat" where
  "fragmentFlags p = ntohs_at p 6 div 0x2000"

definition isLastFragment :: "u8 list \<Rightarrow> bool" where
  "isLastFragment p \<longleftrightarrow> fragmentFlags p mod 2 = 0"

definition isFragmented :: "u8 list \<Rightarrow> bool" where
  "isFragmented p \<longleftrightarrow> \<not> isLastFragment p \<or> frag_offset p > 0"

definition headerLen :: "u8 list \<Rightarrow> nat" where
  "headerLen p = (unat (p ! 0) mod 16) * 4"

definition packetLen :: "u8 list \<Rightarrow> nat" where
  "packetLen p = ntohs_at p 2"

definition payloadLen :: "u8 list \<Rightarrow> nat" where
  "payloadLen p = (packetLen p + 2 ^ 64 - headerLen p) mod 2 ^ 64"

definition setPacketLen :: "nat \<Rightarrow> u8 list \<Rightarrow> u8 list" where
  "setPacketLen len p = p[2 := word_of_nat (len div 256), 3 := word_of_nat len]"

section \<open>Fragments in order\<close>

record ForwardSequentialAlgorithm =
  fs_drop :: bool
  fs_packetData :: "SizedBuffer option"
  fs_lastUpdate :: int
  fs_isComplete :: bool

definition new_ForwardSequential :: ForwardSequentialAlgorithm where
  "new_ForwardSequential = \<lparr>fs_drop = False, fs_packetData = None, fs_lastUpdate = 0, fs_isComplete = False\<rparr>"

text \<open>\<open>catch (const std::exception\<amp>)\<close>: an exception drops the packet, a memory fault stays one.\<close>

definition catch_drop :: "('s \<Rightarrow> 's) \<Rightarrow> 's \<Rightarrow> 's result \<Rightarrow> 's result" where
  "catch_drop set_drop s r = (case r of Inl (Thrown _) \<Rightarrow> Inr (set_drop s) | _ \<Rightarrow> r)"

definition finish_fragment :: "int \<Rightarrow> u8 list \<Rightarrow> ForwardSequentialAlgorithm \<Rightarrow> ForwardSequentialAlgorithm" where
  "finish_fragment now ipHeader s =
     (if isLastFragment ipHeader then s\<lparr>fs_isComplete := True, fs_lastUpdate := now\<rparr>
      else s\<lparr>fs_lastUpdate := now\<rparr>)"

definition fs_addFragment ::
  "int \<Rightarrow> u8 list \<Rightarrow> ForwardSequentialAlgorithm \<Rightarrow> ForwardSequentialAlgorithm result" where
  "fs_addFragment now ipHeader s = catch_drop (\<lambda>s. s\<lparr>fs_drop := True\<rparr>) s
     (case fs_packetData s of
        None \<Rightarrow>
          if frag_offset ipHeader \<noteq> 0 then Inr (s\<lparr>fs_drop := True\<rparr>)
          else andThen (new_SizedBuffer ipHeader (packetLen ipHeader)) (\<lambda>b.
               Inr (finish_fragment now ipHeader (s\<lparr>fs_packetData := Some b\<rparr>)))
      | Some b \<Rightarrow>
          andThen (SizedBuffer_get b) (\<lambda>ipHeaderOriginal.
          if payloadLen ipHeaderOriginal \<noteq> frag_offset ipHeader then Inr (s\<lparr>fs_drop := True\<rparr>)
          else andThen (SizedBuffer_append (drop (headerLen ipHeader) ipHeader) (payloadLen ipHeader) b) (\<lambda>b1.
               andThen (SizedBuffer_get b1) (\<lambda>h.
               Inr (finish_fragment now ipHeader (s\<lparr>fs_packetData :=
                 Some (Some (setPacketLen (headerLen h + payloadLen h + payloadLen ipHeader) h))\<rparr>))))))"

section \<open>Fragments in any order\<close>

record WaitAllAndSortAlgorithm =
  orderedFragments :: "SizedBuffer list"
  finalSize :: nat
  wa_lastUpdate :: int
  currentSize :: nat
  wa_isComplete :: bool
  wa_drop :: bool
  wa_packetData :: "SizedBuffer option"

definition new_WaitAllAndSort :: WaitAllAndSortAlgorithm where
  "new_WaitAllAndSort = \<lparr>orderedFragments = [], finalSize = 0, wa_lastUpdate = 0, currentSize = 0,
     wa_isComplete = False, wa_drop = False, wa_packetData = None\<rparr>"

text \<open>
  The search for the place of a fragment with offset \<open>off\<close>: how many fragments come before it, or
  \<open>None\<close> for a retransmission.
\<close>

fun find_place :: "SizedBuffer list \<Rightarrow> nat \<Rightarrow> nat option result" where
  "find_place [] off = Inr (Some 0)"
| "find_place (b # bs) off =
     andThen (SizedBuffer_get b) (\<lambda>header.
     if frag_offset header = off then Inr None
     else if frag_offset header > off then Inr (Some 0)
     else andThen (find_place bs off) (\<lambda>r. Inr (map_option Suc r)))"

text \<open>Replay the ordered fragments; \<open>None\<close> when the replay drops.\<close>

fun replay :: "int \<Rightarrow> SizedBuffer list \<Rightarrow> ForwardSequentialAlgorithm \<Rightarrow> ForwardSequentialAlgorithm option result" where
  "replay now [] h = Inr (Some h)"
| "replay now (b # bs) h =
     andThen (SizedBuffer_get b) (\<lambda>ipHeader.
     andThen (fs_addFragment now ipHeader h) (\<lambda>h1.
     if fs_drop h1 then Inr None else replay now bs h1))"

definition wa_addFragment ::
  "int \<Rightarrow> u8 list \<Rightarrow> WaitAllAndSortAlgorithm \<Rightarrow> WaitAllAndSortAlgorithm result" where
  "wa_addFragment now ipHeader s = catch_drop (\<lambda>s. s\<lparr>wa_drop := True\<rparr>) s
     (andThen (find_place (orderedFragments s) (frag_offset ipHeader)) (\<lambda>place.
      case place of
        None \<Rightarrow> Inr s
      | Some k \<Rightarrow>
          andThen (new_SizedBuffer ipHeader (packetLen ipHeader)) (\<lambda>b.
          let s1 = s\<lparr>orderedFragments := take k (orderedFragments s) @ b # drop k (orderedFragments s)\<rparr>;
              s2 = (if isLastFragment ipHeader
                    then s1\<lparr>finalSize := (frag_offset ipHeader + payloadLen ipHeader) mod 2 ^ 64\<rparr> else s1);
              s3 = s2\<lparr>currentSize := (currentSize s2 + payloadLen ipHeader) mod 2 ^ 64\<rparr>
          in if finalSize s3 \<noteq> 0 \<and> currentSize s3 > finalSize s3 then Inr (s3\<lparr>wa_drop := True\<rparr>)
             else if currentSize s3 = finalSize s3
             then andThen (replay now (orderedFragments s3) new_ForwardSequential) (\<lambda>r.
                  case r of
                    None \<Rightarrow> Inr (s3\<lparr>wa_drop := True\<rparr>)
                  | Some h \<Rightarrow> Inr (s3\<lparr>wa_packetData := fs_packetData h, wa_isComplete := True,
                                     wa_lastUpdate := now\<rparr>))
             else Inr (s3\<lparr>wa_lastUpdate := now\<rparr>))))"

section \<open>Dispatch\<close>

text \<open>The methods of a \<open>FragmentationAlgorithmInterface\<close>; \<open>FRAGMENTATION_ALGORITHM\<close> selects one.\<close>

record 'a FragmentationAlgorithm =
  alg_new :: 'a
  alg_addFragment :: "int \<Rightarrow> u8 list \<Rightarrow> 'a \<Rightarrow> 'a result"
  alg_drop :: "'a \<Rightarrow> bool"
  alg_isComplete :: "'a \<Rightarrow> bool"
  alg_lastUpdate :: "'a \<Rightarrow> int"
  alg_packetData :: "'a \<Rightarrow> SizedBuffer option"

definition ForwardSequential :: "ForwardSequentialAlgorithm FragmentationAlgorithm" where
  "ForwardSequential = \<lparr>alg_new = new_ForwardSequential, alg_addFragment = fs_addFragment, alg_drop = fs_drop,
     alg_isComplete = fs_isComplete, alg_lastUpdate = fs_lastUpdate, alg_packetData = fs_packetData\<rparr>"

definition WaitAllAndSort :: "WaitAllAndSortAlgorithm FragmentationAlgorithm" where
  "WaitAllAndSort = \<lparr>alg_new = new_WaitAllAndSort, alg_addFragment = wa_addFragment, alg_drop = wa_drop,
     alg_isComplete = wa_isComplete, alg_lastUpdate = wa_lastUpdate, alg_packetData = wa_packetData\<rparr>"

record 'a FragmentState =
  lastCheck :: int
  fragmentMap :: "u16 \<Rightarrow> 'a option"

definition new_FragmentState :: "'a FragmentState" where
  "new_FragmentState = \<lparr>lastCheck = 0, fragmentMap = (\<lambda>_. None)\<rparr>"

definition timeoutSec :: int where
  "timeoutSec = 60"

definition delete_old :: "'a FragmentationAlgorithm \<Rightarrow> int \<Rightarrow> 'a FragmentState \<Rightarrow> 'a FragmentState" where
  "delete_old alg now st =
     (if now - lastCheck st \<ge> timeoutSec
      then st\<lparr>fragmentMap := (\<lambda>k. case fragmentMap st k of
                 Some a \<Rightarrow> if now - alg_lastUpdate alg a \<ge> timeoutSec then None else Some a
               | None \<Rightarrow> None),
              lastCheck := now\<rparr>
      else st)"

text \<open>
  \<open>HandleIpFragment\<close>. Erasing the iterator a second time, when the algorithm reports both a drop and
  completion, is undefined behaviour.
\<close>

definition HandleIpFragment ::
  "'a FragmentationAlgorithm \<Rightarrow> int \<Rightarrow> u8 list \<Rightarrow> 'a FragmentState \<Rightarrow> (SizedBuffer option \<times> 'a FragmentState) result"
where
  "HandleIpFragment alg now ipHeader st =
     (let st1 = delete_old alg now st;
          pid = packetId ipHeader;
          a0 = (case fragmentMap st1 pid of None \<Rightarrow> alg_new alg | Some a \<Rightarrow> a)
      in andThen (alg_addFragment alg now ipHeader a0) (\<lambda>a1.
         if alg_drop alg a1 \<and> alg_isComplete alg a1 then Inl OutOfBounds
         else if alg_drop alg a1 then Inr (None, st1\<lparr>fragmentMap := (fragmentMap st1)(pid := None)\<rparr>)
         else if alg_isComplete alg a1 then
           (case alg_packetData alg a1 of
              None \<Rightarrow> Inl NullDereference
            | Some d \<Rightarrow> andThen (SizedBuffer_get d) (\<lambda>_.
                Inr (Some d, st1\<lparr>fragmentMap := (fragmentMap st1)(pid := None)\<rparr>)))
         else Inr (None, st1\<lparr>fragmentMap := (fragmentMap st1)(pid := Some a1)\<rparr>)))"

end
