(* ===== verification/IpReassembly.thy ===== *)
theory IpReassembly
  imports IpFragmentation
begin

text \<open>
  Fragment handling is safe for every algorithm behind the interface, and the algorithm in use
  reassembles a datagram from its fragments in whatever order, with retransmissions.
\<close>

section \<open>Valid fragments\<close>

text \<open>
  A header of at least 20 bytes, some payload, and the whole packet captured. The capture loop checks the length of the
  capture against that of the packet before it hands a fragment over, but not the header length field, which a
  well-formed packet sets to five words or more.
\<close>

definition valid_frag :: "u8 list \<Rightarrow> bool" where
  "valid_frag p \<longleftrightarrow> 20 \<le> headerLen p \<and> headerLen p < packetLen p \<and> packetLen p \<le> length p"

lemma ntohs_at_bound: "ntohs_at p i < 65536"
  using unsigned_less [of "p ! i", where ?'a = nat] unsigned_less [of "p ! Suc i", where ?'a = nat]
  by (simp add: ntohs_at_def)

lemma payloadLen_valid: "headerLen p \<le> packetLen p \<Longrightarrow> payloadLen p = packetLen p - headerLen p"
proof -
  assume le: "headerLen p \<le> packetLen p"
  then have "packetLen p + 2 ^ 64 - headerLen p = (packetLen p - headerLen p) + 2 ^ 64" by simp
  moreover have "packetLen p - headerLen p < 2 ^ 64"
    using ntohs_at_bound [of p 2] by (simp add: packetLen_def)
  ultimately show ?thesis by (simp only: payloadLen_def mod_add_self2 mod_less)
qed

lemma ntohs_at_take: "Suc i < n \<Longrightarrow> ntohs_at (take n p) i = ntohs_at p i"
  by (simp add: ntohs_at_def)

text \<open>The accessors see the copy of a fragment as they see the fragment.\<close>

definition copy_of :: "u8 list \<Rightarrow> u8 list" where
  "copy_of p = take (packetLen p) p"

lemma copy_accessors:
  assumes "valid_frag p"
  shows "packetLen (copy_of p) = packetLen p" "headerLen (copy_of p) = headerLen p"
    "frag_offset (copy_of p) = frag_offset p" "isLastFragment (copy_of p) = isLastFragment p"
    "payloadLen (copy_of p) = payloadLen p" "valid_frag (copy_of p)" "length (copy_of p) = packetLen p"
    "copy_of p \<noteq> []"
proof -
  have len: "20 < packetLen p" "packetLen p \<le> length p" using assms by (auto simp: valid_frag_def)
  then show acc: "packetLen (copy_of p) = packetLen p" "headerLen (copy_of p) = headerLen p"
      "frag_offset (copy_of p) = frag_offset p" "isLastFragment (copy_of p) = isLastFragment p"
      "length (copy_of p) = packetLen p"
    by (simp_all add: copy_of_def packetLen_def [of "take _ _"] headerLen_def frag_offset_def isLastFragment_def
        fragmentFlags_def ntohs_at_take) (simp_all add: packetLen_def ntohs_at_take)
  then show "payloadLen (copy_of p) = payloadLen p" "valid_frag (copy_of p)"
    using assms by (simp_all add: payloadLen_def valid_frag_def)
  show "copy_of p \<noteq> []" using acc(5) len by auto
qed

lemma new_SizedBuffer_copy:
  assumes "valid_frag p"
  shows "new_SizedBuffer p (packetLen p) = Inr (Some (copy_of p))"
proof -
  have "0 < packetLen p" "packetLen p \<le> length p" using assms by (auto simp: valid_frag_def)
  then show ?thesis
    by (simp add: new_SizedBuffer_def SizedBuffer_reset_def SizedBuffer_write_def SizedBuffer_resize_def
        sb_bytes_def mem_slice_ok Let_def copy_of_def)
qed

lemma SizedBuffer_append_ok:
  assumes "n \<le> length buf"
  shows "SizedBuffer_append buf n (Some bytes) = Inr (Some (bytes @ take n buf))"
  using assms
  by (simp add: SizedBuffer_append_def SizedBuffer_write_def SizedBuffer_resize_def sb_bytes_def mem_slice_ok Let_def)

section \<open>The forward algorithm\<close>

definition fs_ok :: "ForwardSequentialAlgorithm \<Rightarrow> bool" where
  "fs_ok s \<longleftrightarrow> (case fs_packetData s of None \<Rightarrow> True | Some b \<Rightarrow> \<exists>bytes. b = Some bytes \<and> bytes \<noteq> [])"

definition has_packet :: "SizedBuffer option \<Rightarrow> bool" where
  "has_packet d \<longleftrightarrow> (\<exists>bytes. d = Some (Some bytes) \<and> bytes \<noteq> [])"

definition payload_of :: "u8 list \<Rightarrow> u8 list" where
  "payload_of p = take (payloadLen p) (drop (headerLen p) p)"

lemma fs_addFragment_first:
  assumes "valid_frag p" "fs_packetData s = None"
  shows "fs_addFragment now p s =
     Inr (if frag_offset p \<noteq> 0 then s\<lparr>fs_drop := True\<rparr>
          else finish_fragment now p (s\<lparr>fs_packetData := Some (Some (copy_of p))\<rparr>))"
  using assms by (simp add: fs_addFragment_def new_SizedBuffer_copy catch_drop_def)

lemma fs_addFragment_next:
  assumes p: "valid_frag p" and s: "fs_packetData s = Some (Some bytes)" "bytes \<noteq> []"
  shows "fs_addFragment now p s =
     Inr (if payloadLen bytes \<noteq> frag_offset p then s\<lparr>fs_drop := True\<rparr>
          else (let h = bytes @ payload_of p
                in finish_fragment now p (s\<lparr>fs_packetData :=
                     Some (Some (setPacketLen (headerLen h + payloadLen h + payloadLen p) h))\<rparr>)))"
proof -
  have "payloadLen p \<le> length (drop (headerLen p) p)"
    using p by (auto simp: payloadLen_valid valid_frag_def intro: diff_le_mono)
  then have "SizedBuffer_append (drop (headerLen p) p) (payloadLen p) (Some bytes) = Inr (Some (bytes @ payload_of p))"
    by (simp add: SizedBuffer_append_ok payload_of_def)
  with s show ?thesis
    by (simp add: fs_addFragment_def SizedBuffer_get_def catch_drop_def Let_def)
qed

lemma fs_addFragment_ok:
  assumes "valid_frag p" "fs_ok s"
  shows "\<exists>s'. fs_addFragment now p s = Inr s' \<and> fs_ok s' \<and>
     (fs_drop s' \<longrightarrow> fs_drop s \<or> fs_isComplete s' = fs_isComplete s) \<and>
     (fs_drop s' \<or> has_packet (fs_packetData s')) \<and> (fs_drop s \<longrightarrow> fs_drop s')"
proof (cases "fs_packetData s")
  case None
  with assms show ?thesis
    by (simp add: fs_addFragment_first finish_fragment_def fs_ok_def has_packet_def copy_accessors(8))
next
  case (Some b)
  with assms(2) obtain bytes where b: "b = Some bytes" "bytes \<noteq> []" by (auto simp: fs_ok_def)
  then have "setPacketLen n (bytes @ x) \<noteq> []" for n x by (simp add: setPacketLen_def)
  with assms Some b show ?thesis
    by (simp add: fs_addFragment_next finish_fragment_def fs_ok_def has_packet_def Let_def)
qed

section \<open>The interface\<close>

text \<open>
  What the dispatcher relies on: a live object accepts any valid fragment without a fault and then
  has dropped the packet, or completed it, or is still live; never two of these at once.
\<close>

locale fragmentation_algorithm =
  fixes alg :: "'a FragmentationAlgorithm" and live :: "'a \<Rightarrow> bool"
  assumes new_live: "live (alg_new alg)"
    and add_ok: "live a \<Longrightarrow> valid_frag p \<Longrightarrow> \<exists>a'. alg_addFragment alg now p a = Inr a' \<and>
      (alg_drop alg a' \<and> \<not> alg_isComplete alg a' \<or>
       \<not> alg_drop alg a' \<and> alg_isComplete alg a' \<and> has_packet (alg_packetData alg a') \<or>
       \<not> alg_drop alg a' \<and> \<not> alg_isComplete alg a' \<and> live a')"
begin

definition map_live :: "'a FragmentState \<Rightarrow> bool" where
  "map_live st \<longleftrightarrow> (\<forall>k a. fragmentMap st k = Some a \<longrightarrow> live a)"

lemma new_map_live: "map_live new_FragmentState"
  by (simp add: map_live_def new_FragmentState_def)

lemma delete_old_live: "map_live st \<Longrightarrow> map_live (delete_old alg now st)"
  by (auto simp: map_live_def delete_old_def split: option.splits if_splits)

lemma handle_ok:
  assumes "map_live st" "valid_frag p"
  shows "\<exists>r st'. HandleIpFragment alg now p st = Inr (r, st') \<and> map_live st'"
proof -
  let ?st1 = "delete_old alg now st"
  let ?a0 = "case fragmentMap ?st1 (packetId p) of None \<Rightarrow> alg_new alg | Some a \<Rightarrow> a"
  have live1: "map_live ?st1" using assms(1) by (rule delete_old_live)
  then have "live ?a0" using new_live by (auto simp: map_live_def split: option.split)
  from add_ok [OF this assms(2), of now] obtain a1 where a1: "alg_addFragment alg now p ?a0 = Inr a1"
    "alg_drop alg a1 \<and> \<not> alg_isComplete alg a1 \<or>
     \<not> alg_drop alg a1 \<and> alg_isComplete alg a1 \<and> has_packet (alg_packetData alg a1) \<or>
     \<not> alg_drop alg a1 \<and> \<not> alg_isComplete alg a1 \<and> live a1" by blast
  then show ?thesis
    using live1 by (auto simp: HandleIpFragment_def Let_def map_live_def has_packet_def SizedBuffer_get_def)
qed

end

fun run_fragments :: "'a FragmentationAlgorithm \<Rightarrow> (int \<times> u8 list) list \<Rightarrow> 'a FragmentState \<Rightarrow>
    (SizedBuffer list \<times> 'a FragmentState) result" where
  "run_fragments alg [] st = Inr ([], st)"
| "run_fragments alg ((now, p) # ps) st =
     andThen (HandleIpFragment alg now p st) (\<lambda>(r, st1).
     andThen (run_fragments alg ps st1) (\<lambda>(out, st2).
     Inr ((case r of None \<Rightarrow> out | Some d \<Rightarrow> d # out), st2)))"

context fragmentation_algorithm begin

lemma run_ok:
  "map_live st \<Longrightarrow> list_all (\<lambda>(now, p). valid_frag p) ps \<Longrightarrow>
   \<exists>out st'. run_fragments alg ps st = Inr (out, st') \<and> map_live st'"
proof (induction ps arbitrary: st)
  case (Cons x ps)
  obtain now p where x: "x = (now, p)" by fastforce
  with Cons.prems handle_ok [of st p now] obtain r st1 where
    "HandleIpFragment alg now p st = Inr (r, st1)" "map_live st1" by auto
  with Cons x show ?case by fastforce
qed simp

end

text \<open>Both algorithms keep the contract.\<close>

interpretation forward: fragmentation_algorithm ForwardSequential
  "\<lambda>s. fs_ok s \<and> \<not> fs_drop s \<and> \<not> fs_isComplete s"
proof
  show "fs_ok (alg_new ForwardSequential) \<and> \<not> fs_drop (alg_new ForwardSequential) \<and>
      \<not> fs_isComplete (alg_new ForwardSequential)"
    by (simp add: ForwardSequential_def new_ForwardSequential_def fs_ok_def)
next
  fix a p now
  assume "fs_ok a \<and> \<not> fs_drop a \<and> \<not> fs_isComplete a" "valid_frag p"
  with fs_addFragment_ok [of p a now] show "\<exists>a'. alg_addFragment ForwardSequential now p a = Inr a' \<and>
      (alg_drop ForwardSequential a' \<and> \<not> alg_isComplete ForwardSequential a' \<or>
       \<not> alg_drop ForwardSequential a' \<and> alg_isComplete ForwardSequential a' \<and> has_packet (alg_packetData ForwardSequential a') \<or>
       \<not> alg_drop ForwardSequential a' \<and> \<not> alg_isComplete ForwardSequential a' \<and>
         fs_ok a' \<and> \<not> fs_drop a' \<and> \<not> fs_isComplete a')"
    by (auto simp: ForwardSequential_def)
qed

section \<open>Waiting for all fragments\<close>

definition stored_ok :: "SizedBuffer list \<Rightarrow> bool" where
  "stored_ok bs \<longleftrightarrow> list_all (\<lambda>b. case b of None \<Rightarrow> False | Some p \<Rightarrow> p \<noteq> [] \<and> valid_frag p) bs"

lemma stored_ok_simps [simp]:
  "stored_ok []"
  "stored_ok (b # bs) \<longleftrightarrow> (\<exists>p. b = Some p \<and> p \<noteq> [] \<and> valid_frag p) \<and> stored_ok bs"
  "stored_ok (bs @ cs) \<longleftrightarrow> stored_ok bs \<and> stored_ok cs"
  by (auto simp: stored_ok_def split: option.splits)

lemma stored_ok_take_drop: "stored_ok bs \<Longrightarrow> stored_ok (take k bs) \<and> stored_ok (drop k bs)"
  by (metis append_take_drop_id stored_ok_simps(3))

lemma find_place_total: "stored_ok bs \<Longrightarrow> \<exists>r. find_place bs off = Inr r"
  by (induction bs) (auto simp: SizedBuffer_get_def)

lemma replay_total:
  "stored_ok bs \<Longrightarrow> fs_ok h \<Longrightarrow> \<exists>r. replay now bs h = Inr r \<and>
     (\<forall>h'. r = Some h' \<longrightarrow> bs \<noteq> [] \<longrightarrow> has_packet (fs_packetData h'))"
proof (induction bs arbitrary: h)
  case (Cons b bs)
  then obtain p where p: "b = Some p" "p \<noteq> []" "valid_frag p" by auto
  from fs_addFragment_ok [OF p(3) Cons.prems(2), of now] obtain h1 where
    h1: "fs_addFragment now p h = Inr h1" "fs_ok h1" "fs_drop h1 \<or> has_packet (fs_packetData h1)" by blast
  show ?case
  proof (cases "fs_drop h1 \<or> bs = []")
    case True
    then show ?thesis using p h1 by (auto simp: SizedBuffer_get_def)
  next
    case False
    from Cons.IH [OF _ h1(2)] Cons.prems(1) obtain r where "replay now bs h1 = Inr r"
      "\<forall>h'. r = Some h' \<longrightarrow> bs \<noteq> [] \<longrightarrow> has_packet (fs_packetData h')" by auto
    then show ?thesis using p h1 False by (simp add: SizedBuffer_get_def)
  qed
qed simp

lemma fs_ok_new: "fs_ok new_ForwardSequential"
  by (simp add: fs_ok_def new_ForwardSequential_def)

definition wa_live :: "WaitAllAndSortAlgorithm \<Rightarrow> bool" where
  "wa_live s \<longleftrightarrow> stored_ok (orderedFragments s) \<and> \<not> wa_drop s \<and> \<not> wa_isComplete s"

lemma wa_addFragment_ok:
  assumes s: "wa_live s" and p: "valid_frag p"
  shows "\<exists>s'. wa_addFragment now p s = Inr s' \<and>
      (wa_drop s' \<and> \<not> wa_isComplete s' \<or>
       \<not> wa_drop s' \<and> wa_isComplete s' \<and> has_packet (wa_packetData s') \<or>
       \<not> wa_drop s' \<and> \<not> wa_isComplete s' \<and> wa_live s')"
proof -
  from s have live: "stored_ok (orderedFragments s)" "\<not> wa_drop s" "\<not> wa_isComplete s" by (auto simp: wa_live_def)
  obtain r where r: "find_place (orderedFragments s) (frag_offset p) = Inr r"
    using find_place_total [OF live(1)] by blast
  show ?thesis
  proof (cases r)
    case None
    then show ?thesis using r s live by (simp add: wa_addFragment_def catch_drop_def)
  next
    case (Some k)
    let ?frags = "take k (orderedFragments s) @ Some (copy_of p) # drop k (orderedFragments s)"
    have ok: "stored_ok ?frags"
      using stored_ok_take_drop [OF live(1), of k] copy_accessors(6,8) [OF p] by simp
    obtain q where q: "replay now ?frags new_ForwardSequential = Inr q"
      "\<forall>h'. q = Some h' \<longrightarrow> has_packet (fs_packetData h')"
      using replay_total [OF ok fs_ok_new, of now] by auto
    show ?thesis
      using q(2) live ok
      by (cases q) (auto simp: wa_addFragment_def r Some new_SizedBuffer_copy [OF p] q(1) catch_drop_def Let_def wa_live_def)
  qed
qed

interpretation wait_all: fragmentation_algorithm WaitAllAndSort wa_live
proof
  show "wa_live (alg_new WaitAllAndSort)"
    by (simp add: WaitAllAndSort_def new_WaitAllAndSort_def wa_live_def)
next
  fix a p now
  assume "wa_live a" "valid_frag p"
  from wa_addFragment_ok [OF this] show "\<exists>a'. alg_addFragment WaitAllAndSort now p a = Inr a' \<and>
      (alg_drop WaitAllAndSort a' \<and> \<not> alg_isComplete WaitAllAndSort a' \<or>
       \<not> alg_drop WaitAllAndSort a' \<and> alg_isComplete WaitAllAndSort a' \<and> has_packet (alg_packetData WaitAllAndSort a') \<or>
       \<not> alg_drop WaitAllAndSort a' \<and> \<not> alg_isComplete WaitAllAndSort a' \<and> wa_live a')"
    by (simp add: WaitAllAndSort_def)
qed

section \<open>The fragments of a datagram\<close>

text \<open>\<open>consecutive off fs\<close>: the fragments \<open>fs\<close> carry, in order, the payload of a datagram from \<open>off\<close> on.\<close>

fun consecutive :: "nat \<Rightarrow> u8 list list \<Rightarrow> bool" where
  "consecutive off [] = False"
| "consecutive off [p] = (valid_frag p \<and> frag_offset p = off \<and> isLastFragment p)"
| "consecutive off (p # q # ps) =
     (valid_frag p \<and> frag_offset p = off \<and> \<not> isLastFragment p \<and> consecutive (off + payloadLen p) (q # ps))"

definition total_payload :: "u8 list list \<Rightarrow> nat" where
  "total_payload fs = sum_list (map payloadLen fs)"

definition reassembled :: "u8 list list \<Rightarrow> u8 list" where
  "reassembled fs = setPacketLen (headerLen (hd fs) + total_payload fs)
     (copy_of (hd fs) @ concat (map payload_of (tl fs)))"

lemma payload_pos: "valid_frag p \<Longrightarrow> 0 < payloadLen p"
  by (auto simp: valid_frag_def payloadLen_valid)

lemma payload_bound: "valid_frag p \<Longrightarrow> frag_offset p + payloadLen p < 2 ^ 64"
  using ntohs_at_bound [of p 2] mod_less_divisor [of "0x2000" "ntohs_at p 6"]
  by (auto simp: valid_frag_def payloadLen_valid frag_offset_def packetLen_def)

lemma consecutive_valid: "consecutive off fs \<Longrightarrow> p \<in> set fs \<Longrightarrow> valid_frag p \<and> off \<le> frag_offset p"
  by (induction off fs rule: consecutive.induct) fastforce+

lemma consecutive_sorted: "consecutive off fs \<Longrightarrow> sorted_wrt (\<lambda>p q. frag_offset p < frag_offset q) fs"
proof (induction off fs rule: consecutive.induct)
  case (3 off p q ps)
  then have rest: "consecutive (off + payloadLen p) (q # ps)" and p: "valid_frag p" "frag_offset p = off" by auto
  have "frag_offset p < frag_offset r" if "r \<in> set (q # ps)" for r
    using consecutive_valid [OF rest that] payload_pos [OF p(1)] p(2) by linarith
  then show ?case using 3 by auto
qed auto

lemma consecutive_last:
  "consecutive off fs \<Longrightarrow> frag_offset (last fs) + payloadLen (last fs) = off + total_payload fs"
  by (induction off fs rule: consecutive.induct) (auto simp: total_payload_def)

lemma consecutive_isLast:
  "consecutive off fs \<Longrightarrow> p \<in> set fs \<Longrightarrow> isLastFragment p \<longleftrightarrow> p = last fs"
proof (induction off fs rule: consecutive.induct)
  case (3 off p' q ps)
  have "p' \<notin> set (q # ps)"
    using consecutive_sorted [OF "3.prems"(1)] by auto
  then have "p' \<noteq> last (q # ps)" using last_in_set [of "q # ps"] by auto
  with 3 show ?case by (cases "p = p'") auto
qed auto

lemma consecutive_distinct: "consecutive off fs \<Longrightarrow> distinct fs"
  using consecutive_sorted by (force simp: distinct_conv_nth sorted_wrt_iff_nth_less linorder_neq_iff)

lemma consecutive_total_bound:
  assumes "consecutive 0 fs"
  shows "total_payload fs < 2 ^ 64"
proof -
  from assms have "fs \<noteq> []" by auto
  then have "valid_frag (last fs)" using consecutive_valid [OF assms] last_in_set by blast
  then show ?thesis using payload_bound [of "last fs"] consecutive_last [OF assms] by simp
qed

section \<open>The replay of a complete datagram\<close>

lemma payload_of_copy: "valid_frag p \<Longrightarrow> payload_of (copy_of p) = payload_of p"
  by (simp add: payload_of_def copy_accessors) (simp add: copy_of_def drop_take payloadLen_valid valid_frag_def)

lemma setPacketLen_twice: "4 \<le> length x \<Longrightarrow> setPacketLen a (setPacketLen b x @ y) = setPacketLen a (x @ y)"
  by (simp add: setPacketLen_def list_update_append list_update_swap)

lemma length_setPacketLen [simp]: "length (setPacketLen n x) = length x"
  by (simp add: setPacketLen_def)

lemma headerLen_setPacketLen: "headerLen (setPacketLen n x) = headerLen x"
  by (simp add: setPacketLen_def headerLen_def)

lemma packetLen_setPacketLen:
  assumes "n < 65536" "4 \<le> length x"
  shows "packetLen (setPacketLen n x) = n"
proof -
  have "unat (word_of_nat (n div 256) :: u8) = n div 256" using assms(1) by (simp add: unat_of_nat)
  moreover have "unat (word_of_nat n :: u8) = n mod 256" by (simp add: unat_of_nat)
  ultimately show ?thesis using assms(2) by (simp add: packetLen_def ntohs_at_def setPacketLen_def)
qed

lemma payloadLen_setPacketLen:
  assumes "h + n < 65536" "4 \<le> length x" "headerLen x = h"
  shows "payloadLen (setPacketLen (h + n) x) = n"
  using assms by (simp add: payloadLen_valid packetLen_setPacketLen headerLen_setPacketLen)

lemma headerLen_append: "x \<noteq> [] \<Longrightarrow> headerLen (x @ y) = headerLen x"
  by (cases x) (simp_all add: headerLen_def)

lemma payloadLen_append: "4 \<le> length x \<Longrightarrow> payloadLen (x @ y) = payloadLen x"
  by (cases x) (simp_all add: payloadLen_def packetLen_def ntohs_at_def headerLen_def nth_append)

lemma replay_rest:
  assumes "consecutive off fs" "fs_packetData h = Some (Some bytes)" "20 \<le> length bytes"
    "payloadLen bytes = off" "\<not> fs_drop h" "headerLen bytes + off + total_payload fs < 65536"
  shows "\<exists>h'. replay now (map (Some \<circ> copy_of) fs) h = Inr (Some h') \<and> fs_packetData h' =
     Some (Some (setPacketLen (headerLen bytes + off + total_payload fs) (bytes @ concat (map payload_of fs))))"
  using assms
proof (induction off fs arbitrary: h bytes rule: consecutive.induct)
  case (2 off p)
  then have p: "valid_frag p" "frag_offset p = off" and ne: "bytes \<noteq> []" by auto
  show ?case
    using 2 p ne
    by (simp add: SizedBuffer_get_def copy_accessors fs_addFragment_next [OF copy_accessors(6) [OF p(1)]] payload_of_copy
        Let_def finish_fragment_def headerLen_append payloadLen_append total_payload_def)
next
  case (3 off p q ps)
  then have p: "valid_frag p" "frag_offset p = off" "\<not> isLastFragment p" by auto
  let ?n = "headerLen bytes + (off + payloadLen p)"
  let ?b = "setPacketLen ?n (bytes @ payload_of p)"
  let ?h = "h\<lparr>fs_packetData := Some (Some ?b), fs_lastUpdate := now\<rparr>"
  have ne: "bytes \<noteq> []" using "3.prems"(3) by auto
  have tot: "total_payload (p # q # ps) = payloadLen p + total_payload (q # ps)" by (simp add: total_payload_def)
  have hl: "headerLen ?b = headerLen bytes" by (simp add: headerLen_setPacketLen headerLen_append ne)
  have pl: "payloadLen ?b = off + payloadLen p"
    using "3.prems" ne tot by (intro payloadLen_setPacketLen) (auto simp: headerLen_append)
  have step: "replay now (map (Some \<circ> copy_of) (p # q # ps)) h = replay now (map (Some \<circ> copy_of) (q # ps)) ?h"
    using 3(2-) p ne
    by (simp add: SizedBuffer_get_def copy_accessors fs_addFragment_next [OF copy_accessors(6) [OF p(1)]] payload_of_copy
        Let_def finish_fragment_def headerLen_append payloadLen_append add.assoc)
  have data: "setPacketLen (headerLen ?b + (off + payloadLen p) + total_payload (q # ps))
       (?b @ concat (map payload_of (q # ps)))
     = setPacketLen (headerLen bytes + off + total_payload (p # q # ps)) (bytes @ concat (map payload_of (p # q # ps)))"
    using hl tot "3.prems"(3) by (simp add: setPacketLen_twice add.assoc)
  have "\<exists>h'. replay now (map (Some \<circ> copy_of) (q # ps)) ?h = Inr (Some h') \<and> fs_packetData h' =
     Some (Some (setPacketLen (headerLen ?b + (off + payloadLen p) + total_payload (q # ps))
       (?b @ concat (map payload_of (q # ps)))))"
    by (rule "3.IH") (use 3(2-) tot hl pl in auto)
  then show ?case unfolding step data .
qed simp

lemma replay_complete:
  assumes "consecutive 0 fs" "2 \<le> length fs" "headerLen (hd fs) + total_payload fs < 65536"
  shows "\<exists>h'. replay now (map (Some \<circ> copy_of) fs) new_ForwardSequential = Inr (Some h') \<and>
    fs_packetData h' = Some (Some (reassembled fs))"
proof -
  obtain p q ps where fs: "fs = p # q # ps"
    using assms(2) by (cases fs; cases "tl fs") auto
  with assms have p: "valid_frag p" "frag_offset p = 0" "\<not> isLastFragment p"
    and rest: "consecutive (payloadLen p) (q # ps)" by auto
  have tot: "total_payload fs = payloadLen p + total_payload (q # ps)" by (simp add: total_payload_def fs)
  let ?h = "new_ForwardSequential\<lparr>fs_packetData := Some (Some (copy_of p)), fs_lastUpdate := now\<rparr>"
  have "replay now (map (Some \<circ> copy_of) fs) new_ForwardSequential = replay now (map (Some \<circ> copy_of) (q # ps)) ?h"
    using p copy_accessors [OF p(1)]
    by (simp add: fs SizedBuffer_get_def fs_addFragment_first finish_fragment_def new_ForwardSequential_def)
       (simp add: copy_of_def)
  moreover have "\<exists>h'. replay now (map (Some \<circ> copy_of) (q # ps)) ?h = Inr (Some h') \<and> fs_packetData h' =
     Some (Some (setPacketLen (headerLen (copy_of p) + payloadLen p + total_payload (q # ps))
       (copy_of p @ concat (map payload_of (q # ps)))))"
    using assms(3) tot copy_accessors [OF p(1)] p(1)
    by (intro replay_rest [OF rest]) (auto simp: fs new_ForwardSequential_def valid_frag_def)
  ultimately show ?thesis
    using tot copy_accessors(2) [OF p(1)] by (simp add: reassembled_def fs add.assoc)
qed

section \<open>Fragments in any order, with retransmissions\<close>

definition tracks :: "u8 list list \<Rightarrow> u8 list set \<Rightarrow> WaitAllAndSortAlgorithm \<Rightarrow> bool" where
  "tracks fs S s \<longleftrightarrow> (let have_frags = filter (\<lambda>p. p \<in> S) fs in
     orderedFragments s = map (Some \<circ> copy_of) have_frags \<and> currentSize s = total_payload have_frags \<and>
     finalSize s = (if last fs \<in> S then total_payload fs else 0) \<and> \<not> wa_drop s \<and> \<not> wa_isComplete s)"

lemma tracks_new: "tracks fs {} new_WaitAllAndSort"
  by (simp add: tracks_def new_WaitAllAndSort_def total_payload_def)

lemma find_place_before:
  assumes "\<forall>p \<in> set A. valid_frag p \<and> frag_offset p < off"
  shows "find_place (map (Some \<circ> copy_of) A @ bs) off =
     andThen (find_place bs off) (\<lambda>r. Inr (map_option ((+) (length A)) r))"
  using assms
proof (induction A)
  case Nil
  show ?case by (cases "find_place bs off") (simp_all add: option.map_ident)
next
  case (Cons p A)
  then show ?case
    by (cases "find_place bs off") (auto simp: SizedBuffer_get_def copy_accessors map_option.compositionality comp_def)
qed

lemma find_place_here:
  "valid_frag p \<Longrightarrow> off \<le> frag_offset p \<Longrightarrow>
   find_place (Some (copy_of p) # bs) off = Inr (if frag_offset p = off then None else Some 0)"
  by (simp add: SizedBuffer_get_def copy_accessors)

lemma split_fragments:
  assumes fs: "consecutive 0 fs" and q: "q \<in> set fs"
  obtains A B where "fs = A @ q # B" "\<forall>p \<in> set A. valid_frag p \<and> frag_offset p < frag_offset q"
    "\<forall>p \<in> set B. valid_frag p \<and> frag_offset q < frag_offset p" "q \<notin> set A" "q \<notin> set B"
proof -
  from q obtain A B where AB: "fs = A @ q # B" by (auto simp: in_set_conv_decomp)
  moreover have "sorted_wrt (\<lambda>p q. frag_offset p < frag_offset q) fs" "distinct fs"
    using fs by (rule consecutive_sorted, intro consecutive_distinct)
  ultimately show thesis
    using consecutive_valid [OF fs] by (intro that [of A B]) (auto simp: sorted_wrt_append)
qed

lemma total_payload_filter:
  assumes "consecutive 0 fs" "q \<in> set fs" "q \<notin> S"
  shows "total_payload (filter (\<lambda>p. p \<in> insert q S) fs) = total_payload (filter (\<lambda>p. p \<in> S) fs) + payloadLen q"
    "total_payload (filter (\<lambda>p. p \<in> S) fs) + payloadLen q \<le> total_payload fs"
proof -
  from assms(1,2) obtain A B where AB: "fs = A @ q # B" "q \<notin> set A" "q \<notin> set B" by (rule split_fragments)
  have part: "total_payload (filter P xs) \<le> total_payload xs" for P xs
    by (induction xs) (auto simp: total_payload_def)
  have "filter (\<lambda>p. p = q \<or> p \<in> S) A = filter (\<lambda>p. p \<in> S) A" "filter (\<lambda>p. p = q \<or> p \<in> S) B = filter (\<lambda>p. p \<in> S) B"
    using AB by (auto intro: filter_cong)
  then show "total_payload (filter (\<lambda>p. p \<in> insert q S) fs) = total_payload (filter (\<lambda>p. p \<in> S) fs) + payloadLen q"
    using assms(3) by (simp add: AB total_payload_def)
  show "total_payload (filter (\<lambda>p. p \<in> S) fs) + payloadLen q \<le> total_payload fs"
    using assms(3) part [of _ A] part [of _ B] by (simp add: AB total_payload_def add_mono)
qed

lemma total_payload_filter_all:
  assumes "consecutive 0 fs" "total_payload (filter (\<lambda>p. p \<in> S) fs) = total_payload fs"
  shows "set fs \<subseteq> S"
proof
  fix q assume q: "q \<in> set fs"
  show "q \<in> S"
  proof (rule ccontr)
    assume "q \<notin> S"
    from total_payload_filter(2) [OF assms(1) q this] assms(2) have "payloadLen q = 0" by linarith
    moreover have "0 < payloadLen q" using consecutive_valid [OF assms(1) q] by (auto intro: payload_pos)
    ultimately show False by simp
  qed
qed

lemma wa_add_seen:
  assumes fs: "consecutive 0 fs" and t: "tracks fs S s" and q: "q \<in> set fs" "q \<in> S"
  shows "wa_addFragment now q s = Inr s"
proof -
  from fs q(1) obtain A B where AB: "fs = A @ q # B"
    "\<forall>p \<in> set A. valid_frag p \<and> frag_offset p < frag_offset q" by (rule split_fragments)
  have "valid_frag q" using consecutive_valid [OF fs q(1)] by simp
  then have "find_place (orderedFragments s) (frag_offset q) = Inr None"
    using t q(2) AB(2) find_place_before [of "filter (\<lambda>p. p \<in> S) A" "frag_offset q"]
      find_place_here [of q "frag_offset q"]
    by (simp add: tracks_def Let_def AB(1) del: find_place.simps)
  then show ?thesis by (simp add: wa_addFragment_def catch_drop_def)
qed

lemma wa_add_fresh:
  assumes fs: "consecutive 0 fs" and t: "tracks fs S s" and q: "q \<in> set fs" "q \<notin> S"
  shows "\<exists>s3. orderedFragments s3 = map (Some \<circ> copy_of) (filter (\<lambda>p. p \<in> insert q S) fs) \<and>
     currentSize s3 = total_payload (filter (\<lambda>p. p \<in> insert q S) fs) \<and>
     finalSize s3 = (if last fs \<in> insert q S then total_payload fs else 0) \<and> \<not> wa_drop s3 \<and> \<not> wa_isComplete s3 \<and>
     wa_addFragment now q s = catch_drop (\<lambda>s. s\<lparr>wa_drop := True\<rparr>) s
       (if finalSize s3 \<noteq> 0 \<and> currentSize s3 > finalSize s3 then Inr (s3\<lparr>wa_drop := True\<rparr>)
        else if currentSize s3 = finalSize s3
        then andThen (replay now (orderedFragments s3) new_ForwardSequential) (\<lambda>r.
             case r of
               None \<Rightarrow> Inr (s3\<lparr>wa_drop := True\<rparr>)
             | Some h \<Rightarrow> Inr (s3\<lparr>wa_packetData := fs_packetData h, wa_isComplete := True, wa_lastUpdate := now\<rparr>))
        else Inr (s3\<lparr>wa_lastUpdate := now\<rparr>))"
proof -
  let ?f = "\<lambda>S. filter (\<lambda>p. p \<in> S)"
  from fs q(1) obtain A B where AB: "fs = A @ q # B"
    "\<forall>p \<in> set A. valid_frag p \<and> frag_offset p < frag_offset q"
    "\<forall>p \<in> set B. valid_frag p \<and> frag_offset q < frag_offset p" "q \<notin> set A" "q \<notin> set B" by (rule split_fragments)
  have v: "valid_frag q" using consecutive_valid [OF fs q(1)] by simp
  have "?f (insert q S) A = ?f S A" "?f (insert q S) B = ?f S B"
    using AB(4,5) by (auto intro: filter_cong)
  then have parts: "?f S fs = ?f S A @ ?f S B" "?f (insert q S) fs = ?f S A @ q # ?f S B"
    using q(2) by (simp_all add: AB(1))
  have "find_place (map (Some \<circ> copy_of) (?f S B)) (frag_offset q) = Inr (Some 0)"
    using AB(3) by (cases "?f S B") (auto simp: find_place_here SizedBuffer_get_def copy_accessors dest: filter_eq_ConsD)
  then have place: "find_place (orderedFragments s) (frag_offset q) = Inr (Some (length (?f S A)))"
    using t AB(2) find_place_before [of "?f S A" "frag_offset q"] by (simp add: tracks_def Let_def parts(1))
  have last: "isLastFragment q \<longleftrightarrow> last fs = q" using consecutive_isLast [OF fs q(1)] by auto
  have "frag_offset (last fs) + payloadLen (last fs) = total_payload fs"
    using consecutive_last [OF fs] by simp
  then have final: "last fs = q \<Longrightarrow> (frag_offset q + payloadLen q) mod 2 ^ 64 = total_payload fs"
    using consecutive_total_bound [OF fs] by simp
  have current: "(total_payload (?f S fs) + payloadLen q) mod 2 ^ 64 = total_payload (?f (insert q S) fs)"
    using total_payload_filter [OF fs q] consecutive_total_bound [OF fs] by simp
  define s1 where "s1 = s\<lparr>orderedFragments := map (Some \<circ> copy_of) (?f (insert q S) fs)\<rparr>"
  define s2 where "s2 = (if isLastFragment q then s1\<lparr>finalSize := (frag_offset q + payloadLen q) mod 2 ^ 64\<rparr> else s1)"
  define s3 where "s3 = s2\<lparr>currentSize := (currentSize s2 + payloadLen q) mod 2 ^ 64\<rparr>"
  have ordered: "take (length (?f S A)) (orderedFragments s) @ Some (copy_of q) # drop (length (?f S A)) (orderedFragments s)
     = map (Some \<circ> copy_of) (?f (insert q S) fs)"
    unfolding parts(2) using t by (simp add: tracks_def Let_def parts(1))
  have fields: "orderedFragments s3 = map (Some \<circ> copy_of) (?f (insert q S) fs)"
     "currentSize s3 = total_payload (?f (insert q S) fs)"
     "finalSize s3 = (if last fs \<in> insert q S then total_payload fs else 0)" "\<not> wa_drop s3" "\<not> wa_isComplete s3"
    using t current final last q(2)
    by (auto simp: s3_def s2_def s1_def tracks_def Let_def)
  show ?thesis
    by (intro exI [of _ s3] conjI fields)
      (simp add: wa_addFragment_def place new_SizedBuffer_copy [OF v] ordered s3_def s2_def s1_def Let_def)
qed

lemma wa_add_new:
  assumes fs: "consecutive 0 fs" and t: "tracks fs S s" and q: "q \<in> set fs" "q \<notin> S"
    and more: "\<not> set fs \<subseteq> insert q S"
  shows "\<exists>s'. wa_addFragment now q s = Inr s' \<and> tracks fs (insert q S) s' \<and> wa_lastUpdate s' = now"
proof -
  let ?in = "filter (\<lambda>p. p \<in> insert q S) fs"
  from wa_add_fresh [OF fs t q, of now] obtain s3 where
    s3: "orderedFragments s3 = map (Some \<circ> copy_of) ?in"
      "currentSize s3 = total_payload ?in"
      "finalSize s3 = (if last fs \<in> insert q S then total_payload fs else 0)" "\<not> wa_drop s3" "\<not> wa_isComplete s3"
    and add: "wa_addFragment now q s = catch_drop (\<lambda>s. s\<lparr>wa_drop := True\<rparr>) s
       (if finalSize s3 \<noteq> 0 \<and> currentSize s3 > finalSize s3 then Inr (s3\<lparr>wa_drop := True\<rparr>)
        else if currentSize s3 = finalSize s3
        then andThen (replay now (orderedFragments s3) new_ForwardSequential) (\<lambda>r.
             case r of
               None \<Rightarrow> Inr (s3\<lparr>wa_drop := True\<rparr>)
             | Some h \<Rightarrow> Inr (s3\<lparr>wa_packetData := fs_packetData h, wa_isComplete := True, wa_lastUpdate := now\<rparr>))
        else Inr (s3\<lparr>wa_lastUpdate := now\<rparr>))" by (elim exE conjE)
  have le: "total_payload ?in \<le> total_payload fs" "0 < total_payload ?in"
    using total_payload_filter [OF fs q] payload_pos [of q] consecutive_valid [OF fs q(1)] by auto
  have ne: "total_payload ?in \<noteq> total_payload fs" using total_payload_filter_all [OF fs] more by blast
  have "\<not> (finalSize s3 \<noteq> 0 \<and> currentSize s3 > finalSize s3)" "currentSize s3 \<noteq> finalSize s3"
    using le ne by (auto simp: s3)
  then have "wa_addFragment now q s = Inr (s3\<lparr>wa_lastUpdate := now\<rparr>)"
    by (simp only: add if_False catch_drop_def sum.case)
  moreover have "tracks fs (insert q S) (s3\<lparr>wa_lastUpdate := now\<rparr>)"
    using s3 by (simp add: tracks_def Let_def)
  ultimately show ?thesis by (intro exI conjI) auto
qed

lemma wa_add_last:
  assumes fs: "consecutive 0 fs" and t: "tracks fs S s" and q: "q \<in> set fs" "q \<notin> S"
    and all: "set fs \<subseteq> insert q S" and len: "2 \<le> length fs" "headerLen (hd fs) + total_payload fs < 65536"
  shows "\<exists>s'. wa_addFragment now q s = Inr s' \<and> \<not> wa_drop s' \<and> wa_isComplete s' \<and>
     wa_packetData s' = Some (Some (reassembled fs))"
proof -
  have all': "filter (\<lambda>p. p \<in> insert q S) fs = fs" using all by (auto intro: filter_True)
  have "last fs \<in> insert q S" using subsetD [OF all last_in_set] fs by (cases "fs = []") auto
  with wa_add_fresh [OF fs t q, of now] obtain s3 where
    s3: "orderedFragments s3 = map (Some \<circ> copy_of) fs" "currentSize s3 = total_payload fs"
      "finalSize s3 = total_payload fs" "\<not> wa_drop s3" "\<not> wa_isComplete s3"
    and add: "wa_addFragment now q s = catch_drop (\<lambda>s. s\<lparr>wa_drop := True\<rparr>) s
       (if finalSize s3 \<noteq> 0 \<and> currentSize s3 > finalSize s3 then Inr (s3\<lparr>wa_drop := True\<rparr>)
        else if currentSize s3 = finalSize s3
        then andThen (replay now (orderedFragments s3) new_ForwardSequential) (\<lambda>r.
             case r of
               None \<Rightarrow> Inr (s3\<lparr>wa_drop := True\<rparr>)
             | Some h \<Rightarrow> Inr (s3\<lparr>wa_packetData := fs_packetData h, wa_isComplete := True, wa_lastUpdate := now\<rparr>))
        else Inr (s3\<lparr>wa_lastUpdate := now\<rparr>))" unfolding all' by auto
  from replay_complete [OF fs len, of now] obtain h where
    h: "replay now (orderedFragments s3) new_ForwardSequential = Inr (Some h)"
       "fs_packetData h = Some (Some (reassembled fs))" unfolding s3(1) by blast
  have "wa_addFragment now q s =
      Inr (s3\<lparr>wa_packetData := fs_packetData h, wa_isComplete := True, wa_lastUpdate := now\<rparr>)"
    unfolding add h(1) by (simp add: s3(2,3) catch_drop_def)
  then show ?thesis using h(2) s3(4) by simp
qed

definition entry_ok :: "u8 list list \<Rightarrow> u16 \<Rightarrow> int \<Rightarrow> u8 list set \<Rightarrow> WaitAllAndSortAlgorithm FragmentState \<Rightarrow> bool" where
  "entry_ok fs pid T S st \<longleftrightarrow> (case fragmentMap st pid of
     None \<Rightarrow> S = {} | Some s \<Rightarrow> tracks fs S s \<and> T \<le> wa_lastUpdate s)"

lemma entry_ok_delete_old:
  "entry_ok fs pid T S st \<Longrightarrow> now < T + timeoutSec \<Longrightarrow> entry_ok fs pid T S (delete_old WaitAllAndSort now st)"
  by (auto simp: entry_ok_def delete_old_def WaitAllAndSort_def split: option.splits)

lemma WaitAllAndSort_sel [simp]:
  "alg_new WaitAllAndSort = new_WaitAllAndSort" "alg_addFragment WaitAllAndSort = wa_addFragment"
  "alg_drop WaitAllAndSort = wa_drop" "alg_isComplete WaitAllAndSort = wa_isComplete"
  "alg_lastUpdate WaitAllAndSort = wa_lastUpdate" "alg_packetData WaitAllAndSort = wa_packetData"
  by (simp_all add: WaitAllAndSort_def)

lemma entry_object:
  assumes "entry_ok fs pid T S st"
  obtains s where "(case fragmentMap st pid of None \<Rightarrow> alg_new WaitAllAndSort | Some a \<Rightarrow> a) = s" "tracks fs S s"
    "S = {} \<or> T \<le> wa_lastUpdate s"
  using assms tracks_new by (auto simp: entry_ok_def split: option.splits)

lemma handle_more:
  assumes fs: "consecutive 0 fs" and e: "entry_ok fs pid T S st" and time: "T \<le> now" "now < T + timeoutSec"
    and q: "q \<in> set fs" "packetId q = pid" and more: "\<not> set fs \<subseteq> insert q S"
  shows "\<exists>st'. HandleIpFragment WaitAllAndSort now q st = Inr (None, st') \<and> entry_ok fs pid T (insert q S) st'"
proof -
  let ?st1 = "delete_old WaitAllAndSort now st"
  from entry_ok_delete_old [OF e time(2)] obtain s where
    s: "(case fragmentMap ?st1 pid of None \<Rightarrow> alg_new WaitAllAndSort | Some a \<Rightarrow> a) = s" "tracks fs S s"
       "S = {} \<or> T \<le> wa_lastUpdate s" by (rule entry_object)
  obtain s' where s': "wa_addFragment now q s = Inr s'" "tracks fs (insert q S) s'" "T \<le> wa_lastUpdate s'"
  proof (cases "q \<in> S")
    case True
    then have "insert q S = S" "S \<noteq> {}" by auto
    then show ?thesis using wa_add_seen [OF fs s(2) q(1) True] s(2,3) by (intro that [of s]) simp_all
  next
    case False
    from wa_add_new [OF fs s(2) q(1) False more, of now] show ?thesis using time(1) that by auto
  qed
  have live: "\<not> wa_drop s'" "\<not> wa_isComplete s'" using s'(2) by (auto simp: tracks_def Let_def)
  show ?thesis
    using s' live by (simp add: HandleIpFragment_def Let_def q(2) s(1) entry_ok_def)
qed

lemma handle_last:
  assumes fs: "consecutive 0 fs" "2 \<le> length fs" "headerLen (hd fs) + total_payload fs < 65536"
    and e: "entry_ok fs pid T S st" and time: "now < T + timeoutSec"
    and q: "q \<in> set fs" "packetId q = pid" "q \<notin> S" and all: "set fs \<subseteq> insert q S"
  shows "\<exists>st'. HandleIpFragment WaitAllAndSort now q st = Inr (Some (Some (reassembled fs)), st') \<and>
    fragmentMap st' pid = None"
proof -
  let ?st1 = "delete_old WaitAllAndSort now st"
  from entry_ok_delete_old [OF e time] obtain s where
    s: "(case fragmentMap ?st1 pid of None \<Rightarrow> alg_new WaitAllAndSort | Some a \<Rightarrow> a) = s" "tracks fs S s"
    by (rule entry_object)
  from wa_add_last [OF fs(1) s(2) q(1,3) all fs(2,3), of now] obtain s' where
    s': "wa_addFragment now q s = Inr s'" "\<not> wa_drop s'" "wa_isComplete s'"
      "wa_packetData s' = Some (Some (reassembled fs))" by blast
  have "valid_frag (hd fs)" using consecutive_valid [OF fs(1)] fs(2) hd_in_set [of fs] by (cases fs) auto
  then have "reassembled fs \<noteq> []"
    using copy_accessors(8) [of "hd fs"] by (simp add: reassembled_def setPacketLen_def)
  then show ?thesis
    using s' by (simp add: HandleIpFragment_def Let_def q(2) s(1) SizedBuffer_get_def)
qed

lemma run_fragments_snoc:
  assumes "run_fragments alg ps st = Inr (out, st1)" "HandleIpFragment alg now p st1 = Inr (r, st2)"
  shows "run_fragments alg (ps @ [(now, p)]) st = Inr (out @ (case r of None \<Rightarrow> [] | Some d \<Rightarrow> [d]), st2)"
  using assms
proof (induction ps arbitrary: st out)
  case (Cons x ps)
  obtain now' p' where "x = (now', p')" by fastforce
  with Cons show ?case by (fastforce simp: andThen_eq_Inr_iff split: option.splits prod.splits)
qed (simp split: option.splits)

lemma run_more:
  assumes fs: "consecutive 0 fs" "\<forall>p \<in> set fs. packetId p = pid"
  shows "entry_ok fs pid T S st \<Longrightarrow> \<forall>(now, p) \<in> set ps. T \<le> now \<and> now < T + timeoutSec \<and> p \<in> set fs \<Longrightarrow>
    \<not> set fs \<subseteq> S \<union> snd ` set ps \<Longrightarrow>
    \<exists>st'. run_fragments WaitAllAndSort ps st = Inr ([], st') \<and> entry_ok fs pid T (S \<union> snd ` set ps) st'"
proof (induction ps arbitrary: S st)
  case (Cons x ps)
  obtain now q where x: "x = (now, q)" by fastforce
  with Cons.prems(2,3) have q: "q \<in> set fs" "T \<le> now" "now < T + timeoutSec" "\<not> set fs \<subseteq> insert q S" by auto
  from handle_more [OF fs(1) Cons.prems(1) q(2,3) q(1) _ q(4)] fs(2) q(1) obtain st1 where
    st1: "HandleIpFragment WaitAllAndSort now q st = Inr (None, st1)" "entry_ok fs pid T (insert q S) st1" by blast
  have "\<exists>st'. run_fragments WaitAllAndSort ps st1 = Inr ([], st') \<and> entry_ok fs pid T (insert q S \<union> snd ` set ps) st'"
    using Cons.prems(2,3) x by (intro Cons.IH st1(2)) auto
  then show ?case using st1(1) x by auto
qed simp

section \<open>Properties\<close>

text \<open>C20: Whatever sequence of IP fragments arrives, each with its whole packet captured, a header of at least 20
  bytes and some payload (\<open>valid_frag\<close>), whatever their offsets, identifiers, order and arrival times, \<open>HandleIpFragment\<close> never reads or writes out of bounds, never throws and never erases a map entry
  twice, and the map keeps only objects that still wait for fragments.\<close>

theorem HandleIpFragment_safe:
  assumes "list_all (\<lambda>(now, p). valid_frag p) ps"
  shows "\<exists>out st. run_fragments WaitAllAndSort ps new_FragmentState = Inr (out, st) \<and>
     (\<forall>k a. fragmentMap st k = Some a \<longrightarrow> \<not> wa_drop a \<and> \<not> wa_isComplete a)"
proof -
  from wait_all.run_ok [OF wait_all.new_map_live assms] obtain out st where
    "run_fragments WaitAllAndSort ps new_FragmentState = Inr (out, st)" "wait_all.map_live st" by blast
  then show ?thesis by (auto simp: wait_all.map_live_def wa_live_def)
qed

definition example_frag :: "nat \<Rightarrow> bool \<Rightarrow> u8 list \<Rightarrow> u8 list" where
  "example_frag off8 isLast payload =
     [0x45, 0, 0, word_of_nat (20 + length payload), 0, 7, (if isLast then 0 else 0x20), word_of_nat off8]
     @ replicate 12 0 @ payload"

lemma HandleIpFragment_safe_witness:
  "\<exists>out st. run_fragments WaitAllAndSort [(5, example_frag 1 True [9]), (6, example_frag 0 False [1, 2, 3, 4, 5, 6, 7, 8])]
     new_FragmentState = Inr (out, st) \<and> (\<forall>k a. fragmentMap st k = Some a \<longrightarrow> \<not> wa_drop a \<and> \<not> wa_isComplete a)"
  by (rule HandleIpFragment_safe)
    (simp add: valid_frag_def example_frag_def headerLen_def packetLen_def ntohs_at_def)

text \<open>C19: When the fragments of one datagram (consecutive offsets, one identifier, the whole at most 65535
  bytes) arrive within a minute, in any order and with any retransmissions, nothing is delivered until the
  last missing fragment arrives; then exactly one packet is: the header of the first fragment with the total
  length filled in, followed by all the payloads in order. The entry of the identifier is removed.\<close>

theorem HandleIpFragment_reassembles:
  assumes fs: "consecutive 0 fs" "2 \<le> length fs" "headerLen (hd fs) + total_payload fs < 65536"
    and pid: "\<forall>p \<in> set fs. packetId p = pid" and new: "fragmentMap st pid = None"
    and ps: "\<forall>(now, p) \<in> set ps. T \<le> now \<and> now < T + 60 \<and> p \<in> set fs" and now: "T \<le> now" "now < T + 60"
    and last: "q \<notin> snd ` set ps" "insert q (snd ` set ps) = set fs"
  shows "\<exists>st1 st2. run_fragments WaitAllAndSort ps st = Inr ([], st1) \<and>
     run_fragments WaitAllAndSort (ps @ [(now, q)]) st = Inr ([Some (reassembled fs)], st2) \<and> fragmentMap st2 pid = None"
proof -
  have q: "q \<in> set fs" using last(2) by auto
  have "entry_ok fs pid T {} st" using new by (simp add: entry_ok_def)
  with run_more [OF fs(1) pid, of T "{}" st ps] ps last q obtain st1 where
    st1: "run_fragments WaitAllAndSort ps st = Inr ([], st1)" "entry_ok fs pid T (snd ` set ps) st1"
    by (auto simp: timeoutSec_def)
  from handle_last [OF fs st1(2) _ q _ last(1), of now] pid q now last(2) obtain st2 where
    "HandleIpFragment WaitAllAndSort now q st1 = Inr (Some (Some (reassembled fs)), st2)" "fragmentMap st2 pid = None"
    by (auto simp: timeoutSec_def)
  then show ?thesis using run_fragments_snoc [OF st1(1)] st1(1) by fastforce
qed

lemma HandleIpFragment_reassembles_witness:
  defines "f0 \<equiv> example_frag 0 False [1, 2, 3, 4, 5, 6, 7, 8]" and "f1 \<equiv> example_frag 1 True [9]"
  shows "\<exists>st1 st2. run_fragments WaitAllAndSort [(5, f1), (6, f1)] new_FragmentState = Inr ([], st1) \<and>
     run_fragments WaitAllAndSort ([(5, f1), (6, f1)] @ [(7, f0)]) new_FragmentState = Inr ([Some (reassembled [f0, f1])], st2) \<and>
     fragmentMap st2 7 = None"
  by (rule HandleIpFragment_reassembles [where T = 5])
    (auto simp: f0_def f1_def valid_frag_def example_frag_def headerLen_def packetLen_def ntohs_at_def payloadLen_def
      frag_offset_def isLastFragment_def fragmentFlags_def packetId_def total_payload_def new_FragmentState_def)

end
