(* ===== verification/SipTcp.thy ===== *)
theory SipTcp
  imports ParsingUtils
begin

text \<open>
  SIP over TCP: \<open>audiocaptureplugins/common/SafeBuffer.{h,cpp}\<close> and \<open>SipTcp.{h,cpp}\<close>. Memory is a list of
  characters and a pointer its index, as in the parsing utilities. What \<open>ParseSipMessage\<close> does with a
  message is outside this component: the functions return the messages it is called on, in order.
  Offsets (\<open>size_t\<close>) are integers. \<open>malloc\<close> is assumed to succeed.
\<close>

section \<open>Safe buffers\<close>

text \<open>\<open>m_pBuffer\<close> (\<open>None\<close> is NULL), a NUL behind its \<open>m_size\<close> bytes.\<close>

record SafeBuffer =
  m_pBytes :: "string option"
  sb_size :: int

definition new_SafeBuffer :: SafeBuffer where
  "new_SafeBuffer = \<lparr>m_pBytes = None, sb_size = 0\<rparr>"

definition NUL :: char where
  "NUL = char_of (0 :: nat)"

definition copy_in :: "string \<Rightarrow> int \<Rightarrow> int \<Rightarrow> string result" where
  "copy_in mem buf len = (if len < 0 then Inl OutOfBounds else mem_slice mem buf (nat len))"

definition SafeBuffer_Store :: "string \<Rightarrow> int \<Rightarrow> int \<Rightarrow> SafeBuffer \<Rightarrow> SafeBuffer result" where
  "SafeBuffer_Store mem buf len b =
     andThen (copy_in mem buf len) (\<lambda>s. Inr (b\<lparr>m_pBytes := Some (s @ [NUL]), sb_size := len\<rparr>))"

definition SafeBuffer_Add :: "string \<Rightarrow> int \<Rightarrow> int \<Rightarrow> SafeBuffer \<Rightarrow> SafeBuffer result" where
  "SafeBuffer_Add mem buf len b =
     (if sb_size b = 0 then SafeBuffer_Store mem buf len b
      else case m_pBytes b of
        None \<Rightarrow> Inl NullDereference
      | Some bytes \<Rightarrow> andThen (copy_in mem buf len) (\<lambda>s.
          Inr (b\<lparr>m_pBytes := Some (take (nat (sb_size b)) bytes @ s @ [NUL]), sb_size := sb_size b + len\<rparr>)))"

section \<open>Parsing a stream\<close>

text \<open>The \<open>memFindAfter\<close> of \<open>SipTcp.cpp\<close>, whose candidates are case sensitive.\<close>

definition tcpFindAfter :: "string \<Rightarrow> string \<Rightarrow> int \<Rightarrow> int \<Rightarrow> int option result" where
  "tcpFindAfter toFind mem start stop =
     andThen (search (strncasecmp_eq (length toFind) toFind mem) (\<lambda>c. c = hd toFind) mem start stop)
       (\<lambda>r. Inr (map_option (\<lambda>ptr. ptr + int (length toFind)) r))"

text \<open>The NUL-terminated string at a pointer.\<close>

definition c_string_at :: "string \<Rightarrow> int \<Rightarrow> string result" where
  "c_string_at mem p =
     (if 0 \<le> p \<and> p \<le> int (length mem) \<and> (\<exists>c \<in> set (drop (nat p) mem). code_of c = 0)
      then Inr (c_str (drop (nat p) mem)) else Inl OutOfBounds)"

text \<open>\<open>sscanf(p, "%d\r\n", &v)\<close>; without a number \<open>v\<close> keeps its uninitialised value.\<close>

definition scan_int :: "int \<Rightarrow> string \<Rightarrow> int \<Rightarrow> int result" where
  "scan_int garbage mem p =
     andThen (c_string_at mem p) (\<lambda>s.
     case strtol s of (v, rest) \<Rightarrow> Inr (if length rest = length s then garbage else sint (word_of_int v :: u32)))"

text \<open>
  The loop of \<open>ParseSipStream\<close> from message start \<open>msg\<close>: the bytes consumed and the messages, \<open>None\<close> when the
  fuel does not suffice.
\<close>

fun sip_loop :: "nat \<Rightarrow> int \<Rightarrow> string \<Rightarrow> int \<Rightarrow> int \<Rightarrow> int \<Rightarrow> int \<Rightarrow> (int \<times> string list) option result" where
  "sip_loop 0 garbage mem bufferStart bufferEnd msg offset = Inr None"
| "sip_loop (Suc n) garbage mem bufferStart bufferEnd msg offset =
     andThen (tcpFindAfter ''Content-Length: '' mem msg bufferEnd) (\<lambda>contentLenStart.
     case contentLenStart of
       None \<Rightarrow> Inr (Some (offset, []))
     | Some cl \<Rightarrow>
         andThen (scan_int garbage mem cl) (\<lambda>contentLen.
         andThen (tcpFindAfter [CHR 0x0D, CHR 0x0A, CHR 0x0D, CHR 0x0A] mem cl bufferEnd) (\<lambda>headerEnd.
         case headerEnd of
           None \<Rightarrow> Inr (Some (offset, []))
         | Some he \<Rightarrow>
             (let msgEnd = he + contentLen
              in if msgEnd > bufferEnd then Inr (Some (offset, []))
                 else andThen (sip_loop n garbage mem bufferStart bufferEnd msgEnd (msgEnd - bufferStart)) (\<lambda>r.
                      Inr (map_option (\<lambda>(off, msgs). (off, between mem msg msgEnd # msgs)) r))))))"

definition ParseSipStream :: "nat \<Rightarrow> int \<Rightarrow> string \<Rightarrow> int \<Rightarrow> int \<Rightarrow> (int \<times> string list) option result" where
  "ParseSipStream fuel garbage mem bufferStart bufferEnd = sip_loop fuel garbage mem bufferStart bufferEnd bufferStart 0"

section \<open>Streams\<close>

record SipTcpStream =
  m_senderIp :: u32
  m_receiverIp :: u32
  m_senderPort :: u16
  m_receiverPort :: u16
  m_expectingSeqNo :: u64
  m_lastSeqNo :: u64
  m_offset :: int
  m_entryTime :: int
  m_tcpBuffer :: SafeBuffer

record TcpSegment =
  ip_src :: u32
  ip_dest :: u32
  th_source :: u16
  th_dest :: u16
  th_seq :: u32
  th_mem :: string
  th_payload :: int
  th_payloadLen :: int

definition AddTcpPacket :: "string \<Rightarrow> int \<Rightarrow> int \<Rightarrow> SipTcpStream \<Rightarrow> SipTcpStream result" where
  "AddTcpPacket mem p len st = andThen (SafeBuffer_Add mem p len (m_tcpBuffer st)) (\<lambda>b. Inr (st\<lparr>m_tcpBuffer := b\<rparr>))"

definition same_connection :: "TcpSegment \<Rightarrow> SipTcpStream \<Rightarrow> bool" where
  "same_connection pkt st \<longleftrightarrow> m_senderIp st = ip_src pkt \<and> m_receiverIp st = ip_dest pkt \<and>
     m_senderPort st = th_source pkt \<and> m_receiverPort st = th_dest pkt"

definition is_duplicate :: "TcpSegment \<Rightarrow> SipTcpStream \<Rightarrow> bool" where
  "is_duplicate pkt st \<longleftrightarrow> same_connection pkt st \<and> m_lastSeqNo st \<ge> ucast (th_seq pkt)"

definition sip_starts :: "string list" where
  "sip_starts = [''INVITE'', ''ACK'', ''BYE'', ''SIP/2.0 200'', ''SIP/2.0 183 Session Progress'', ''REFER'', ''INFO'',
     ''SUBSCRIBE'', ''SIP/2.0 302 Moved Temporarily'', ''NOTIFY'', ''SIP/2.0 4'', ''SIP/2.0 5'', ''SIP/2.0 6'', ''CANCEL '']"

definition starts_message :: "TcpSegment \<Rightarrow> bool result" where
  "starts_message pkt =
     (if th_payloadLen pkt \<ge> 28 + 3
      then andThen (c_string_at (th_mem pkt) (th_payload pkt)) (\<lambda>s. Inr (list_ex (\<lambda>m. take (length m) s = m) sip_starts))
      else Inr False)"

definition new_stream :: "int \<Rightarrow> TcpSegment \<Rightarrow> int \<Rightarrow> SipTcpStream result" where
  "new_stream now pkt offset =
     AddTcpPacket (th_mem pkt) (th_payload pkt) (th_payloadLen pkt)
       \<lparr>m_senderIp = ip_src pkt, m_receiverIp = ip_dest pkt, m_senderPort = th_source pkt, m_receiverPort = th_dest pkt,
        m_expectingSeqNo = ucast (th_seq pkt + word_of_int (th_payloadLen pkt)), m_lastSeqNo = ucast (th_seq pkt),
        m_offset = offset, m_entryTime = now, m_tcpBuffer = new_SafeBuffer\<rparr>"

text \<open>One stream in the loop over the streams: the stream kept, if any, whether it took the segment, and the messages.\<close>

definition serve_stream :: "nat \<Rightarrow> int \<Rightarrow> int \<Rightarrow> TcpSegment \<Rightarrow> SipTcpStream \<Rightarrow>
    (SipTcpStream option \<times> bool \<times> string list) option result" where
  "serve_stream fuel garbage now pkt st =
     andThen
       (if same_connection pkt st \<and> m_expectingSeqNo st = ucast (th_seq pkt)
        then andThen (AddTcpPacket (th_mem pkt) (th_payload pkt) (th_payloadLen pkt) st) (\<lambda>st1.
             case m_pBytes (m_tcpBuffer st1) of
               None \<Rightarrow> Inl NullDereference
             | Some bytes \<Rightarrow>
                 andThen (ParseSipStream fuel garbage bytes (m_offset st1) (sb_size (m_tcpBuffer st1))) (\<lambda>r.
                 Inr (map_option (\<lambda>(off, msgs). (st1\<lparr>m_offset := m_offset st1 + off,
                   m_expectingSeqNo := m_expectingSeqNo st1 + word_of_int (th_payloadLen pkt)\<rparr>, True, msgs)) r)))
        else Inr (Some (st, False, []))) (\<lambda>r.
     Inr (map_option (\<lambda>(st2, took, msgs).
       (if m_offset st2 = sb_size (m_tcpBuffer st2) \<or> now - m_entryTime st2 \<ge> 60 then None else Some st2, took, msgs)) r))"

fun serve_streams :: "nat \<Rightarrow> int \<Rightarrow> int \<Rightarrow> TcpSegment \<Rightarrow> SipTcpStream list \<Rightarrow>
    (SipTcpStream list \<times> bool \<times> string list) option result" where
  "serve_streams fuel garbage now pkt [] = Inr (Some ([], False, []))"
| "serve_streams fuel garbage now pkt (st # sts) =
     andThen (serve_stream fuel garbage now pkt st) (\<lambda>r. case r of
       None \<Rightarrow> Inr None
     | Some (kept, took, msgs) \<Rightarrow>
         andThen (serve_streams fuel garbage now pkt sts) (\<lambda>r'. case r' of
           None \<Rightarrow> Inr None
         | Some (sts', took', msgs') \<Rightarrow>
             Inr (Some ((case kept of None \<Rightarrow> sts' | Some st' \<Rightarrow> st' # sts'), took \<or> took', msgs @ msgs'))))"

text \<open>\<open>TrySipTcp\<close>: the result, the messages parsed and the streams; \<open>None\<close> when the parser needs more fuel.\<close>

definition TrySipTcp :: "nat \<Rightarrow> int \<Rightarrow> int \<Rightarrow> TcpSegment \<Rightarrow> SipTcpStream list \<Rightarrow>
    (bool \<times> string list \<times> SipTcpStream list) option result" where
  "TrySipTcp fuel garbage now pkt streams =
     (if list_ex (is_duplicate pkt) streams then Inr (Some (True, [], streams))
      else andThen (starts_message pkt) (\<lambda>starts.
        if starts then
          andThen (ParseSipStream fuel garbage (th_mem pkt) (th_payload pkt) (th_payload pkt + th_payloadLen pkt)) (\<lambda>r.
          case r of
            None \<Rightarrow> Inr None
          | Some (off, msgs) \<Rightarrow>
              if off \<noteq> th_payloadLen pkt
              then andThen (new_stream now pkt off) (\<lambda>st. Inr (Some (True, msgs, streams @ [st])))
              else Inr (Some (True, msgs, streams)))
        else andThen (serve_streams fuel garbage now pkt streams) (\<lambda>r.
             Inr (map_option (\<lambda>(sts, took, msgs). (took, msgs, sts)) r))))"

end
