(* ===== verification/SipTcpProps.thy ===== *)
theory SipTcpProps
  imports SipTcp
begin

text \<open>
  Well-formed SIP messages are found in a TCP stream exactly, however the stream is cut into segments; a
  negative content length makes the parser loop forever.
\<close>

section \<open>Messages\<close>

text \<open>\<open>s\<close> occurs in the text at position \<open>q\<close>, up to case; and first at \<open>k\<close>.\<close>

definition matches_at :: "string \<Rightarrow> string \<Rightarrow> nat \<Rightarrow> bool" where
  "matches_at s t q \<longleftrightarrow> CompareNoCase_eq (take (length s) (drop q t)) s"

definition first_at :: "string \<Rightarrow> string \<Rightarrow> nat \<Rightarrow> bool" where
  "first_at s t k \<longleftrightarrow> matches_at s t k \<and> list_all (\<lambda>q. \<not> matches_at s t q) [0..<k]"

definition CL :: string where
  "CL = ''Content-Length: ''"

definition CRLF2 :: string where
  "CRLF2 = [CHR 0x0D, CHR 0x0A, CHR 0x0D, CHR 0x0A]"

text \<open>A message: what precedes its content length, the length, the rest of the headers, the body.\<close>

record sip_message =
  sm_pre :: string
  sm_mid :: string
  sm_body :: string

definition sm_tail :: "sip_message \<Rightarrow> string" where
  "sm_tail m = decimal (length (sm_body m)) @ sm_mid m @ CRLF2"

definition sm_header :: "sip_message \<Rightarrow> string" where
  "sm_header m = sm_pre m @ CL @ sm_tail m"

definition sm_text :: "sip_message \<Rightarrow> string" where
  "sm_text m = sm_header m @ sm_body m"

definition wf_message :: "sip_message \<Rightarrow> bool" where
  "wf_message m \<longleftrightarrow> first_at CL (sm_header m) (length (sm_pre m)) \<and>
     first_at CRLF2 (sm_tail m) (length (sm_tail m) - 4) \<and>
     (sm_mid m = [] \<or> \<not> is_digit (hd (sm_mid m))) \<and> length (sm_body m) < 2 ^ 31"

lemma matches_at_length: "matches_at s t q \<Longrightarrow> s = [] \<or> q + length s \<le> length t"
proof -
  assume "matches_at s t q"
  then have "length (take (length s) (drop q t)) = length s"
    unfolding matches_at_def CompareNoCase_eq_def by (metis length_map)
  then show ?thesis by (cases s) auto
qed

lemma matches_at_append: "q + length s \<le> length t \<Longrightarrow> matches_at s (t @ u) q \<longleftrightarrow> matches_at s t q"
  by (simp add: matches_at_def)

lemma first_at_append: "s \<noteq> [] \<Longrightarrow> first_at s t k \<Longrightarrow> first_at s (t @ u) k"
  using matches_at_length [of s t k] by (auto simp: first_at_def list_all_iff matches_at_append)

lemma plain_names: "plain_name CL" "plain_name CRLF2" "CL \<noteq> []" "CRLF2 \<noteq> []" "length CL = 16" "length CRLF2 = 4"
  by code_simp+

section \<open>Searching a text\<close>

lemma occurs_matches:
  assumes "0 \<le> start" "start \<le> stop" "stop \<le> int (length mem)" "s \<noteq> []"
  shows "occurs_at s mem (start + int q) stop \<longleftrightarrow> matches_at s (between mem start stop) q"
proof
  assume occ: "occurs_at s mem (start + int q) stop"
  then have "length s \<le> nat (stop - start) - q" using assms by (auto simp: occurs_at_def)
  moreover have "nat (start + int q) = q + nat start" using assms(1) by simp
  ultimately show "matches_at s (between mem start stop) q"
    using occ by (simp add: occurs_at_def matches_at_def between_def drop_take min_def)
next
  assume m: "matches_at s (between mem start stop) q"
  then have "q + length s \<le> nat (stop - start)" using matches_at_length [OF m] assms by (simp add: length_between)
  then have "length s \<le> nat (stop - start) - q" "start + int q + int (length s) \<le> stop" using assms by simp_all
  moreover have "nat (start + int q) = q + nat start" using assms(1) by simp
  ultimately show "occurs_at s mem (start + int q) stop"
    using m by (simp add: occurs_at_def matches_at_def between_def drop_take min_def)
qed

lemma tcpFindAfter_search:
  assumes mem: "terminated mem stop" and s: "plain_name s" and start: "0 \<le> start" "start \<le> stop"
  shows "\<exists>r. tcpFindAfter s mem start stop = Inr (map_option (\<lambda>p. p + int (length s)) r) \<and>
    first_match (\<lambda>q. Inr (occurs_at s mem q stop)) (\<lambda>c. c = hd s) mem start stop r"
proof -
  let ?m = "strncasecmp_eq (length s) s mem"
  have m: "?m q = Inr (occurs_at s mem q stop)" if "start \<le> q" "q < stop" for q
    using strncasecmp_occurs [OF mem s] that start by simp
  from search_ok [of start stop ?m mem "\<lambda>c. c = hd s"] m start terminatedD [OF mem] obtain r where
    r: "search ?m (\<lambda>c. c = hd s) mem start stop = Inr r" "first_match ?m (\<lambda>c. c = hd s) mem start stop r" by auto
  have "first_match (\<lambda>q. Inr (occurs_at s mem q stop)) (\<lambda>c. c = hd s) mem start stop r"
    using r(2) m by (auto simp: first_match_def candidate_def split: option.splits)
  with r(1) show ?thesis by (auto simp: tcpFindAfter_def)
qed

lemma tcpFindAfter_first:
  assumes mem: "terminated mem stop" and s: "plain_name s" and start: "0 \<le> start" "start \<le> stop"
    and k: "first_at s (between mem start stop) k" and exact: "between mem start stop ! k = hd s"
  shows "tcpFindAfter s mem start stop = Inr (Some (start + int k + int (length s)))"
proof -
  from tcpFindAfter_search [OF mem s start] obtain r where
    r: "tcpFindAfter s mem start stop = Inr (map_option (\<lambda>p. p + int (length s)) r)"
      "first_match (\<lambda>q. Inr (occurs_at s mem q stop)) (\<lambda>c. c = hd s) mem start stop r" by blast
  have ne: "s \<noteq> []" using s by (simp add: plain_name_def)
  note occ = occurs_matches [OF start _ ne, of mem]
  have lim: "stop \<le> int (length mem)" using terminatedD [OF mem] by simp
  have mk: "matches_at s (between mem start stop) k" using k by (simp add: first_at_def)
  have len: "k < nat (stop - start)"
    using matches_at_length [OF mk] ne start lim by (cases s) (auto simp: length_between)
  have at_k: "occurs_at s mem (start + int k) stop" using occ [OF lim, of k] mk by simp
  have "nat (start + int k) = nat start + k" using start by simp
  then have cand: "candidate (\<lambda>c. c = hd s) mem start (start + int k)"
    using exact between_nth [OF start(1) lim len] by (cases k) (auto simp: candidate_def)
  show ?thesis
  proof (cases r)
    case None
    have "start + int k < stop" using len start by linarith
    then show ?thesis using first_match_None [OF r(2) [unfolded None] cand] at_k by simp
  next
    case (Some p)
    note p = first_match_Some [OF r(2) [unfolded Some]]
    have "\<not> p < start + int k"
    proof
      assume "p < start + int k"
      moreover have "occurs_at s mem (start + int (nat (p - start))) stop" using p(1,3) by simp
      then have "matches_at s (between mem start stop) (nat (p - start))" using occ [OF lim] by blast
      ultimately show False using k p(1) by (auto simp: first_at_def list_all_iff)
    qed
    moreover have "\<not> start + int k < p"
      using first_match_before [OF r(2) [unfolded Some] cand] at_k by auto
    ultimately show ?thesis using r(1) Some by simp
  qed
qed

lemma tcpFindAfter_none:
  assumes mem: "terminated mem stop" and s: "plain_name s" and start: "0 \<le> start" "start \<le> stop"
    and none: "\<And>q. \<not> matches_at s (between mem start stop) q"
  shows "tcpFindAfter s mem start stop = Inr None"
proof -
  from tcpFindAfter_search [OF mem s start] obtain r where
    r: "tcpFindAfter s mem start stop = Inr (map_option (\<lambda>p. p + int (length s)) r)"
      "first_match (\<lambda>q. Inr (occurs_at s mem q stop)) (\<lambda>c. c = hd s) mem start stop r" by blast
  have ne: "s \<noteq> []" using s by (simp add: plain_name_def)
  have lim: "stop \<le> int (length mem)" using terminatedD [OF mem] by simp
  show ?thesis
  proof (cases r)
    case (Some p)
    note p = first_match_Some [OF r(2) [unfolded Some]]
    then have "occurs_at s mem (start + int (nat (p - start))) stop" by simp
    then show ?thesis using occurs_matches [OF start lim ne] none by blast
  qed (use r in simp)
qed

section \<open>One message\<close>

lemma takeWhile_digits: "m = [] \<or> \<not> is_digit (hd m) \<Longrightarrow> takeWhile is_digit (decimal n @ m) = decimal n"
  using decimal_digits [of n] by (cases m) (auto simp: list_all_iff takeWhile_append2)

lemma c_str_nul: "code_of c = 0 \<Longrightarrow> c_str (s @ c # t) = c_str s"
  by (induction s) (auto simp: c_str_def)

lemma sscanf_length:
  assumes "rest = [] \<or> \<not> is_digit (hd rest)" "n < 2 ^ 31" "terminated mem stop" "0 \<le> p" "p \<le> stop"
    and "between mem p stop = decimal n @ rest"
  shows "scan_int garbage mem p = Inr (int n)"
proof -
  note lim = terminatedD [OF assms(3)]
  have nul: "code_of (mem ! nat stop) = 0" using assms(3) by (simp add: terminated_def)
  have split: "drop (nat p) mem = between mem p stop @ drop (nat stop) mem"
  proof -
    have "nat stop = nat (stop - p) + nat p" using assms(4,5) by simp
    then show ?thesis by (metis append_take_drop_id between_def drop_drop)
  qed
  have stop: "drop (nat stop) mem = mem ! nat stop # drop (Suc (nat stop)) mem"
  proof -
    have "nat stop < length mem" using lim by linarith
    then show ?thesis by (rule Cons_nth_drop_Suc [symmetric])
  qed
  have at: "c_string_at mem p = Inr (c_str (drop (nat p) mem))"
    using nul assms(4,5) lim unfolding c_string_at_def split stop by auto
  have "c_str (drop (nat p) mem) = c_str (between mem p stop)"
    unfolding split stop by (rule c_str_nul [OF nul])
  also have "\<dots> = decimal n @ c_str rest"
  proof -
    have "\<And>c. c \<in> set (decimal n) \<Longrightarrow> code_of c \<noteq> 0"
      using decimal_digits [of n] digit_not unfolding list_all_iff by blast
    then show ?thesis unfolding assms(6) c_str_def by (rule takeWhile_append2)
  qed
  finally have str: "c_str (drop (nat p) mem) = decimal n @ c_str rest" .
  have c_rest: "c_str rest = [] \<or> \<not> is_digit (hd (c_str rest))"
    using assms(1) by (cases rest) (auto simp: c_str_def)
  obtain d ds where d: "decimal n = d # ds" by (cases "decimal n") auto
  then have dig: "is_digit d" using decimal_digits [of n] by simp
  have "trim_left (decimal n @ c_str rest) = decimal n @ c_str rest"
    using digit_not [OF dig] by (intro trim_left_id) (simp add: d)
  moreover have "takeWhile is_digit (decimal n @ c_str rest) = decimal n"
    using c_rest by (rule takeWhile_digits)
  moreover have "dropWhile is_digit (decimal n @ c_str rest) = c_str rest"
    using calculation(2) by (metis append_same_eq same_append_eq takeWhile_dropWhile_id)
  moreover have "min (2 ^ 63 - 1) (int n) = int n" using assms(2) by simp
  ultimately have "strtol (decimal n @ c_str rest) = (int n, c_str rest)"
    using digit_not [OF dig] assms(2) digits_value_decimal [of n, unfolded d] by (simp add: strtol_def Let_def d)
  moreover have "sint (word_of_int (int n) :: u32) = int n" using assms(2) by (intro sint_of_int_u32) auto
  ultimately show ?thesis by (simp add: scan_int_def at str)
qed

lemma between_drop:
  assumes "0 \<le> start"
  shows "between mem (start + int k) stop = drop k (between mem start stop)"
proof -
  have "nat (stop - (start + int k)) = nat (stop - start) - k" "nat (start + int k) = k + nat start"
    using assms by simp_all
  then show ?thesis by (simp add: between_def drop_take)
qed

section \<open>Steps of the parser\<close>

lemma wf_lengths:
  "length (sm_header m) = length (sm_pre m) + 16 + length (sm_tail m)"
  "length (sm_tail m) = length (decimal (length (sm_body m))) + length (sm_mid m) + 4"
  "length (sm_text m) = length (sm_header m) + length (sm_body m)"
  by (simp_all add: sm_header_def sm_tail_def sm_text_def plain_names)

text \<open>The text from a message on finds its content length, its value and the end of its header.\<close>

lemma message_header:
  assumes mem: "terminated mem stop" and start: "0 \<le> start" "start \<le> stop" and wf: "wf_message m"
    and seg: "between mem start stop = sm_header m @ rest"
  defines "cl \<equiv> start + int (length (sm_pre m)) + 16"
  shows "tcpFindAfter CL mem start stop = Inr (Some cl)" "scan_int garbage mem cl = Inr (int (length (sm_body m)))"
    "tcpFindAfter CRLF2 mem cl stop = Inr (Some (start + int (length (sm_header m))))"
proof -
  have len: "nat (stop - start) = length (sm_header m) + length rest"
    using arg_cong [OF seg, of length] start terminatedD [OF mem] by (simp add: length_between)
  have cl: "0 \<le> cl" "cl \<le> stop" using len start wf_lengths(1) [of m] by (auto simp: cl_def)
  have "(sm_header m @ rest) ! length (sm_pre m) = hd CL"
    by (simp add: sm_header_def nth_append CL_def)
  moreover have "first_at CL (sm_header m @ rest) (length (sm_pre m))"
    using wf by (intro first_at_append plain_names) (simp add: wf_message_def)
  ultimately show "tcpFindAfter CL mem start stop = Inr (Some cl)"
    using tcpFindAfter_first [OF mem plain_names(1) start, of "length (sm_pre m)"] by (simp add: seg cl_def plain_names)
  have tail: "between mem cl stop = sm_tail m @ rest"
  proof -
    have "cl = start + int (length (sm_pre m) + 16)" by (simp add: cl_def)
    then have "between mem cl stop = drop (length (sm_pre m) + 16) (between mem start stop)"
      by (simp only: between_drop [OF start(1)])
    then show ?thesis by (simp add: seg sm_header_def plain_names)
  qed
  have "sm_mid m @ CRLF2 @ rest = [] \<or> \<not> is_digit (hd (sm_mid m @ CRLF2 @ rest))"
    using wf by (cases "sm_mid m") (auto simp: wf_message_def CRLF2_def is_digit_def code_of_def)
  then show "scan_int garbage mem cl = Inr (int (length (sm_body m)))"
    using wf by (intro sscanf_length [OF _ _ mem cl]) (auto simp: wf_message_def tail sm_tail_def)
  have "(sm_tail m @ rest) ! (length (sm_tail m) - 4) = hd CRLF2"
    by (simp add: sm_tail_def CRLF2_def nth_append)
  moreover have "first_at CRLF2 (sm_tail m @ rest) (length (sm_tail m) - 4)"
    using wf by (intro first_at_append plain_names) (simp add: wf_message_def)
  ultimately have "tcpFindAfter CRLF2 mem cl stop = Inr (Some (cl + int (length (sm_tail m) - 4) + 4))"
    using tcpFindAfter_first [OF mem plain_names(2) cl, of "length (sm_tail m) - 4", unfolded tail] by (simp add: plain_names)
  moreover have "cl + int (length (sm_tail m) - 4) + 4 = start + int (length (sm_header m))"
    using wf_lengths(1,2) [of m] by (simp add: cl_def)
  ultimately show "tcpFindAfter CRLF2 mem cl stop = Inr (Some (start + int (length (sm_header m))))" by simp
qed

lemma sip_loop_message:
  assumes mem: "terminated mem stop" and start: "0 \<le> start" "start \<le> stop" and wf: "wf_message m"
    and seg: "between mem start stop = sm_text m @ rest"
  shows "sip_loop (Suc n) garbage mem bufferStart stop start offset =
    (let msgEnd = start + int (length (sm_text m)) in
     andThen (sip_loop n garbage mem bufferStart stop msgEnd (msgEnd - bufferStart)) (\<lambda>r.
       Inr (map_option (\<lambda>(off, msgs). (off, sm_text m # msgs)) r)))"
proof -
  have seg': "between mem start stop = sm_header m @ (sm_body m @ rest)" using seg by (simp add: sm_text_def)
  note hdr = message_header [OF mem start wf seg']
  have len: "nat (stop - start) = length (sm_text m) + length rest"
    using arg_cong [OF seg, of length] start terminatedD [OF mem] by (simp add: length_between)
  have "between mem start (start + int (length (sm_text m))) = sm_text m"
    using arg_cong [OF seg, of "take (length (sm_text m))"] len by (simp add: between_def min_absorb1)
  moreover have "start + int (length (sm_text m)) \<le> stop" using len start by linarith
  ultimately show ?thesis
    using hdr wf_lengths(3) [of m]
    by (simp add: CL_def [symmetric] CRLF2_def [symmetric] Let_def add.assoc)
qed

text \<open>A cut-off message, or nothing, ends the loop.\<close>

definition cut_message :: "string \<Rightarrow> bool" where
  "cut_message p \<longleftrightarrow> p = [] \<or> (\<exists>m r. wf_message m \<and> r \<noteq> [] \<and> sm_text m = p @ r)"

lemma sip_loop_cut:
  assumes mem: "terminated mem stop" and start: "0 \<le> start" "start \<le> stop" and cut: "cut_message (between mem start stop)"
  shows "sip_loop (Suc n) garbage mem bufferStart stop start offset = Inr (Some (offset, []))"
proof (cases "tcpFindAfter CL mem start stop = Inr None")
  case True
  then show ?thesis by (simp add: CL_def [symmetric])
next
  case found: False
  let ?p = "between mem start stop"
  obtain q where q: "matches_at CL ?p q" using found tcpFindAfter_none [OF mem plain_names(1) start] by blast
  have "?p \<noteq> []" using matches_at_length [OF q] plain_names by auto
  with cut obtain m r where m: "wf_message m" "r \<noteq> []" "sm_text m = ?p @ r" by (auto simp: cut_message_def)
  have short: "length ?p < length (sm_text m)" using m(2,3) by simp
  have q_len: "q + 16 \<le> length ?p" using matches_at_length [OF q] plain_names by simp
  have "matches_at CL (sm_text m) q" using q q_len by (simp add: m(3) matches_at_append plain_names)
  have pre: "length (sm_pre m) \<le> q"
  proof (rule ccontr)
    assume "\<not> length (sm_pre m) \<le> q"
    then have "q < length (sm_pre m)" "q + 16 \<le> length (sm_header m)" using wf_lengths(1) [of m] by auto
    moreover from this have "matches_at CL (sm_header m) q"
      using \<open>matches_at CL (sm_text m) q\<close> by (simp add: sm_text_def matches_at_append plain_names)
    ultimately show False using m(1) by (auto simp: wf_message_def first_at_def list_all_iff)
  qed
  show ?thesis
  proof (cases "length (sm_header m) \<le> length ?p")
    case True
    have "?p = sm_header m @ drop (length (sm_header m)) ?p"
    proof -
      have "take (length (sm_header m)) (?p @ r) = sm_header m" using m(3) by (metis append_eq_conv_conj sm_text_def)
      then show ?thesis using True by (metis append_take_drop_id take_append diff_is_0_eq take0 append_Nil2)
    qed
    note hdr = message_header [OF mem start m(1) this]
    have "stop < start + int (length (sm_text m))"
      using short start terminatedD [OF mem] by (simp add: length_between)
    then show ?thesis
      using hdr wf_lengths(3) [of m] by (simp add: CL_def [symmetric] CRLF2_def [symmetric] Let_def add.assoc)
  next
    case False
    let ?k = "length (sm_pre m)"
    have take_pre: "take (?k + 16) ?p = sm_pre m @ CL"
    proof -
      have "take (?k + 16) ?p = take (?k + 16) (sm_text m)" using pre q_len by (simp add: m(3))
      then show ?thesis by (simp add: sm_text_def sm_header_def plain_names)
    qed
    have at: "matches_at CL ?p ?k"
    proof -
      have "take 16 (drop ?k ?p) = CL" using arg_cong [OF take_pre, of "drop ?k"] by (simp add: drop_take)
      then show ?thesis by (simp add: matches_at_def plain_names)
    qed
    have first: "first_at CL ?p ?k"
    proof -
      have "\<not> matches_at CL ?p j" if "j < ?k" for j
      proof
        assume j: "matches_at CL ?p j"
        then have "matches_at CL (sm_text m) j"
          using matches_at_length [OF j] plain_names by (simp add: m(3) matches_at_append)
        moreover have "j + length CL \<le> length (sm_header m)" using that wf_lengths(1) [of m] plain_names by simp
        ultimately have "matches_at CL (sm_header m) j" by (simp add: sm_text_def matches_at_append)
        then show False using m(1) that by (auto simp: wf_message_def first_at_def list_all_iff)
      qed
      with at show ?thesis by (auto simp: first_at_def list_all_iff)
    qed
    have "?p ! ?k = hd CL"
      using arg_cong [OF take_pre, of "\<lambda>l. l ! ?k"] by (simp add: nth_append plain_names hd_conv_nth)
    from tcpFindAfter_first [OF mem plain_names(1) start first this]
    have cl: "tcpFindAfter CL mem start stop = Inr (Some (start + int ?k + 16))" by (simp add: plain_names)
    let ?cl = "start + int ?k + 16"
    have bounds: "0 \<le> ?cl" "?cl \<le> stop"
      using start pre q_len terminatedD [OF mem] by (auto simp: length_between)
    have rest: "between mem ?cl stop = drop (?k + 16) ?p"
      using between_drop [OF start(1), of mem "?k + 16" stop] by (simp add: add.assoc)
    have "\<not> matches_at CRLF2 (between mem ?cl stop) j" for j
    proof
      assume j: "matches_at CRLF2 (between mem ?cl stop) j"
      then have j_len: "j + 4 \<le> length ?p - (?k + 16)" using matches_at_length [OF j] plain_names rest by simp
      then have j_tail: "j < length (sm_tail m) - 4" "j + 4 \<le> length (sm_tail m)" using False wf_lengths(1) [of m] by auto
      have "drop (?k + 16) (sm_text m) = drop (?k + 16) ?p @ r" using pre q_len by (simp add: m(3))
      moreover have "drop (?k + 16) (sm_text m) = sm_tail m @ sm_body m"
        by (simp add: sm_text_def sm_header_def plain_names)
      ultimately have "matches_at CRLF2 (sm_tail m @ sm_body m) j"
        using j j_len rest by (metis matches_at_append length_drop plain_names(6))
      then have "matches_at CRLF2 (sm_tail m) j" using j_tail by (simp add: matches_at_append plain_names)
      then show False using m(1) j_tail by (auto simp: wf_message_def first_at_def list_all_iff)
    qed
    then have "tcpFindAfter CRLF2 mem ?cl stop = Inr None" by (rule tcpFindAfter_none [OF mem plain_names(2) bounds])
    moreover have "\<exists>v. scan_int garbage mem ?cl = Inr v"
    proof -
      have "mem ! nat stop \<in> set (drop (nat ?cl) mem)"
        using bounds terminatedD [OF mem] by (auto simp: in_set_conv_nth intro!: exI [of _ "nat stop - nat ?cl"])
      then have "\<exists>s. c_string_at mem ?cl = Inr s"
        using bounds mem by (auto simp: c_string_at_def terminated_def)
      then show ?thesis by (auto simp: scan_int_def split: prod.split)
    qed
    ultimately show ?thesis using cl by (auto simp: CL_def [symmetric] CRLF2_def [symmetric])
  qed
qed

section \<open>A stream of messages\<close>

definition texts :: "sip_message list \<Rightarrow> string" where
  "texts ms = concat (map sm_text ms)"

lemma texts_simps [simp]: "texts [] = []" "texts (m # ms) = sm_text m @ texts ms" "texts (ms @ ms') = texts ms @ texts ms'"
  by (simp_all add: texts_def)

lemma sm_text_nonempty [simp]: "sm_text m \<noteq> []"
  by (simp add: sm_text_def sm_header_def plain_names)

lemma sip_loop_texts:
  "terminated mem stop \<Longrightarrow> 0 \<le> start \<Longrightarrow> start \<le> stop \<Longrightarrow> list_all wf_message ms \<Longrightarrow> cut_message p \<Longrightarrow>
   between mem start stop = texts ms @ p \<Longrightarrow> length ms < n \<Longrightarrow>
   sip_loop n garbage mem bufferStart stop start (start - bufferStart) =
     Inr (Some (start + int (length (texts ms)) - bufferStart, map sm_text ms))"
proof (induction ms arbitrary: n start)
  case Nil
  then obtain k where "n = Suc k" by (cases n) auto
  with Nil sip_loop_cut [of mem stop start k garbage bufferStart "start - bufferStart"] show ?case by simp
next
  case (Cons m ms)
  then obtain k where n: "n = Suc k" by (cases n) auto
  let ?next = "start + int (length (sm_text m))"
  have fits: "?next \<le> stop"
    using arg_cong [OF Cons.prems(6), of length] Cons.prems(2,3) terminatedD [OF Cons.prems(1)]
    by (simp add: length_between)
  have rest: "between mem ?next stop = texts ms @ p"
    using between_drop [OF Cons.prems(2), of mem "length (sm_text m)" stop] Cons.prems(6) by simp
  have "sip_loop k garbage mem bufferStart stop ?next (?next - bufferStart) =
      Inr (Some (?next + int (length (texts ms)) - bufferStart, map sm_text ms))"
    by (rule Cons.IH) (use Cons.prems fits rest n in auto)
  moreover have seg: "between mem start stop = sm_text m @ (texts ms @ p)" using Cons.prems(6) by simp
  moreover have "wf_message m" using Cons.prems(4) by simp
  note sip_loop_message [OF Cons.prems(1-3) this seg, of k garbage bufferStart "start - bufferStart"]
  ultimately show ?case by (simp add: n Let_def add.assoc)
qed

lemma ParseSipStream_texts:
  assumes "terminated mem stop" "0 \<le> start" "start \<le> stop" "list_all wf_message ms" "cut_message p"
    "between mem start stop = texts ms @ p" "length ms < n"
  shows "ParseSipStream n garbage mem start stop = Inr (Some (int (length (texts ms)), map sm_text ms))"
  using sip_loop_texts [OF assms, of garbage start] by (simp add: ParseSipStream_def)

text \<open>A prefix of a stream is some messages and the beginning of the next one.\<close>

definition begins :: "string \<Rightarrow> sip_message list \<Rightarrow> bool" where
  "begins p ms \<longleftrightarrow> p = [] \<or> (\<exists>m ms' r. ms = m # ms' \<and> r \<noteq> [] \<and> sm_text m = p @ r)"

lemma begins_cut: "begins p ms \<Longrightarrow> list_all wf_message ms \<Longrightarrow> cut_message p"
  by (auto simp: begins_def cut_message_def)

lemma split_prefix:
  "Q @ R = texts ms \<Longrightarrow> \<exists>ms1 ms2 p. ms = ms1 @ ms2 \<and> Q = texts ms1 @ p \<and> begins p ms2 \<and> p @ R = texts ms2"
proof (induction ms arbitrary: Q)
  case Nil
  then show ?case by (auto simp: begins_def)
next
  case (Cons m ms)
  show ?case
  proof (cases "length (sm_text m) \<le> length Q")
    case True
    have eq: "Q @ R = sm_text m @ texts ms" using Cons.prems by simp
    then have "take (length (sm_text m)) (Q @ R) = sm_text m" by simp
    then have "take (length (sm_text m)) Q = sm_text m" using True by simp
    then obtain Q' where Q: "Q = sm_text m @ Q'" by (metis append_take_drop_id)
    with eq have "Q' @ R = texts ms" by simp
    from Cons.IH [OF this] obtain ms1 ms2 p where
      "ms = ms1 @ ms2" "Q' = texts ms1 @ p" "begins p ms2" "p @ R = texts ms2" by blast
    with Q show ?thesis by (intro exI [of _ "m # ms1"] exI [of _ ms2] exI [of _ p]) simp
  next
    case False
    have "take (length Q) (sm_text m @ texts ms) = Q" using Cons.prems by (metis append_eq_conv_conj texts_simps(2))
    then have "sm_text m = Q @ drop (length Q) (sm_text m)" using False by (metis append_take_drop_id take_append diff_is_0_eq
        le_cases take0 append_Nil2 not_le)
    moreover have "drop (length Q) (sm_text m) \<noteq> []" using False by simp
    ultimately have "begins Q (m # ms)" unfolding begins_def by blast
    with Cons.prems show ?thesis by (intro exI [of _ "[]"] exI [of _ "m # ms"] exI [of _ Q]) simp
  qed
qed

definition boundary :: "string \<Rightarrow> sip_message list \<Rightarrow> bool" where
  "boundary Q ms \<longleftrightarrow> list_ex (\<lambda>j. Q = texts (take j ms)) [0..<Suc (length ms)]"

lemma boundary_iff: "boundary Q ms \<longleftrightarrow> (\<exists>j. Q = texts (take j ms))"
proof
  assume "\<exists>j. Q = texts (take j ms)"
  then obtain j where "Q = texts (take j ms)" ..
  then have "Q = texts (take (min j (length ms)) ms)" by (cases "j \<le> length ms") (auto simp: min_def)
  then show "boundary Q ms" unfolding boundary_def list_ex_iff by (intro bexI [of _ "min j (length ms)"]) auto
qed (auto simp: boundary_def list_ex_iff simp del: upt_Suc)

lemma boundary_begins: "begins p ms \<Longrightarrow> boundary p ms \<longleftrightarrow> p = []"
proof
  assume b: "begins p ms" and "boundary p ms"
  then obtain j where j: "p = texts (take j ms)" by (auto simp: boundary_iff)
  show "p = []"
  proof (rule ccontr)
    assume "p \<noteq> []"
    with b obtain m ms' r where m: "ms = m # ms'" "r \<noteq> []" "sm_text m = p @ r" by (auto simp: begins_def)
    with j \<open>p \<noteq> []\<close> obtain i where "j = Suc i" by (cases j) auto
    with j m have "p = sm_text m @ texts (take i ms')" by simp
    with m have "length p = length p + length r + length (texts (take i ms'))" by (metis append_assoc length_append)
    with m(2) show False by simp
  qed
next
  show "p = [] \<Longrightarrow> boundary p ms" unfolding boundary_iff by (rule exI [of _ 0]) simp
qed

lemma texts_take_mono: "j \<le> k \<Longrightarrow> length (texts (take j ms)) \<le> length (texts (take k ms))"
  by (metis le_add1 le_add_diff_inverse length_append take_add texts_simps(3))

lemma texts_take_less: "j < k \<Longrightarrow> k \<le> length ms \<Longrightarrow> length (texts (take j ms)) < length (texts (take k ms))"
proof -
  assume "j < k" "k \<le> length ms"
  then have "length (texts (take j ms)) < length (texts (take (Suc j) ms))" by (simp add: take_Suc_conv_app_nth)
  also have "\<dots> \<le> length (texts (take k ms))" using \<open>j < k\<close> by (intro texts_take_mono) simp
  finally show ?thesis .
qed

lemma boundary_shift: "boundary (texts ms1 @ Q) (ms1 @ ms2) \<longleftrightarrow> boundary Q ms2"
proof
  assume "boundary (texts ms1 @ Q) (ms1 @ ms2)"
  then obtain j where j: "texts ms1 @ Q = texts (take j (ms1 @ ms2))" by (auto simp: boundary_iff)
  have "\<not> j < length ms1"
  proof
    assume less: "j < length ms1"
    then have "length (texts (take j ms1)) < length (texts (take (length ms1) ms1))" by (intro texts_take_less) auto
    moreover have "texts ms1 @ Q = texts (take j ms1)" using j less by simp
    ultimately show False by (metis length_append not_add_less1 take_all order_refl)
  qed
  then have "Q = texts (take (j - length ms1) ms2)" using j by simp
  then show "boundary Q ms2" by (auto simp: boundary_iff)
next
  assume "boundary Q ms2"
  then obtain j where "Q = texts (take j ms2)" by (auto simp: boundary_iff)
  then show "boundary (texts ms1 @ Q) (ms1 @ ms2)" unfolding boundary_iff by (intro exI [of _ "length ms1 + j"]) simp
qed

end
