(* ===== verification/SipTcpRun.thy ===== *)
theory SipTcpRun
  imports SipTcpProps
begin

text \<open>
  The SIP over TCP reassembly as a whole: the segments of a connection, however they cut the stream of its
  messages, make \<open>TrySipTcp\<close> parse exactly these messages; and what a negative content length does to it.
\<close>

section \<open>The segments of a connection\<close>

text \<open>The payload of a captured segment, with the NUL of the capture buffer behind it.\<close>

definition carries :: "TcpSegment \<Rightarrow> string \<Rightarrow> bool" where
  "carries pkt s \<longleftrightarrow> 0 \<le> th_payload pkt \<and> th_payloadLen pkt = int (length s) \<and>
     terminated (th_mem pkt) (th_payload pkt + int (length s)) \<and>
     between (th_mem pkt) (th_payload pkt) (th_payload pkt + int (length s)) = s"

definition same_addresses :: "TcpSegment \<Rightarrow> TcpSegment \<Rightarrow> bool" where
  "same_addresses c pkt \<longleftrightarrow> ip_src pkt = ip_src c \<and> ip_dest pkt = ip_dest c \<and>
     th_source pkt = th_source c \<and> th_dest pkt = th_dest c"

text \<open>The methods and responses that \<open>TrySipTcp\<close> takes for the start of a message, in a payload of 31 bytes or more.\<close>

definition known_start :: "string \<Rightarrow> bool" where
  "known_start s \<longleftrightarrow> list_ex (\<lambda>m. take (length m) s = m) sip_starts"

text \<open>
  Segments in order, \<open>Q\<close> the bytes before them: consecutive sequence numbers, no empty payload, times within a
  minute of \<open>T\<close>. A segment where a message starts has 31 bytes or more; one that goes on with a message has fewer, or
  does not begin like a message.
\<close>

fun flow :: "TcpSegment \<Rightarrow> nat \<Rightarrow> int \<Rightarrow> sip_message list \<Rightarrow> string \<Rightarrow> (int \<times> TcpSegment \<times> string) list \<Rightarrow> bool" where
  "flow c seq0 T ms Q [] \<longleftrightarrow> Q = texts ms"
| "flow c seq0 T ms Q ((now, pkt, s) # rs) \<longleftrightarrow>
     same_addresses c pkt \<and> th_seq pkt = word_of_nat (seq0 + length Q) \<and> s \<noteq> [] \<and> carries pkt s \<and>
     T \<le> now \<and> now < T + 60 \<and> (if boundary Q ms then 31 \<le> length s else length s < 31 \<or> \<not> known_start s) \<and>
     flow c seq0 T ms (Q @ s) rs"

fun run_segments :: "nat \<Rightarrow> int \<Rightarrow> (int \<times> TcpSegment \<times> string) list \<Rightarrow> SipTcpStream list \<Rightarrow>
    (string list \<times> SipTcpStream list) option result" where
  "run_segments fuel garbage [] sts = Inr (Some ([], sts))"
| "run_segments fuel garbage ((now, pkt, s) # rs) sts =
     andThen (TrySipTcp fuel garbage now pkt sts) (\<lambda>r. case r of
       None \<Rightarrow> Inr None
     | Some (_, msgs, sts') \<Rightarrow> andThen (run_segments fuel garbage rs sts') (\<lambda>r'.
         Inr (map_option (\<lambda>(msgs', sts''). (msgs @ msgs', sts'')) r')))"

lemma flow_prefix: "flow c seq0 T ms Q rs \<Longrightarrow> \<exists>R. Q @ R = texts ms"
proof (induction rs arbitrary: Q)
  case (Cons a rs)
  obtain now pkt s where a: "a = (now, pkt, s)" by (cases a) auto
  with Cons.IH [of "Q @ s"] Cons.prems obtain R where "(Q @ s) @ R = texts ms" by auto
  then show ?case by (intro exI [of _ "s @ R"]) simp
qed simp

lemma sip_starts_plain: "list_all (\<lambda>m. length m \<le> 31 \<and> list_all (\<lambda>c. code_of c \<noteq> 0) m) sip_starts"
  by code_simp

lemma take_c_str: "list_all (\<lambda>c. code_of c \<noteq> 0) m \<Longrightarrow> take (length m) (c_str (s @ NUL # t)) = m \<longleftrightarrow> take (length m) s = m"
proof (induction m arbitrary: s)
  case (Cons c m)
  then show ?case by (cases s) (auto simp: c_str_def NUL_def code_of_def)
qed simp

lemma code_of_zero: "code_of c = 0 \<Longrightarrow> c = NUL"
  by (metis NUL_def char_of_char code_of_def)

lemma carries_memory:
  assumes "carries pkt s"
  shows "\<exists>rest. drop (nat (th_payload pkt)) (th_mem pkt) = s @ NUL # rest \<and> 0 \<le> th_payload pkt \<and> th_payload pkt \<le> int (length (th_mem pkt))"
proof -
  let ?n = "nat (th_payload pkt + int (length s))"
  have c: "0 \<le> th_payload pkt" "terminated (th_mem pkt) (th_payload pkt + int (length s))"
    "between (th_mem pkt) (th_payload pkt) (th_payload pkt + int (length s)) = s" using assms by (simp_all add: carries_def)
  have end': "?n < length (th_mem pkt)" "th_mem pkt ! ?n = NUL"
    using c(2) code_of_zero by (auto simp: terminated_def)
  have "drop (nat (th_payload pkt)) (th_mem pkt) = s @ drop ?n (th_mem pkt)"
    using c(1,3) by (simp add: between_def nat_add_distrib) (metis append_take_drop_id drop_drop add.commute)
  moreover have "drop ?n (th_mem pkt) = NUL # drop (Suc ?n) (th_mem pkt)" using end' by (metis Cons_nth_drop_Suc)
  ultimately show ?thesis using c(1) end'(1) by (intro exI [of _ "drop (Suc ?n) (th_mem pkt)"]) simp
qed

lemma starts_message_carries:
  assumes "carries pkt s"
  shows "starts_message pkt = Inr (31 \<le> length s \<and> known_start s)"
proof -
  obtain rest where mem: "drop (nat (th_payload pkt)) (th_mem pkt) = s @ NUL # rest" "0 \<le> th_payload pkt"
    "th_payload pkt \<le> int (length (th_mem pkt))" using carries_memory [OF assms] by blast
  have "c_string_at (th_mem pkt) (th_payload pkt) = Inr (c_str (s @ NUL # rest))"
    by (simp add: c_string_at_def mem NUL_def code_of_def)
  moreover have "list_ex (\<lambda>m. take (length m) (c_str (s @ NUL # rest)) = m) sip_starts = known_start s"
    using sip_starts_plain take_c_str [of _ s rest] by (auto simp: known_start_def list_ex_iff list_all_iff)
  moreover have "th_payloadLen pkt = int (length s)" using assms by (simp add: carries_def)
  ultimately show ?thesis by (simp add: starts_message_def)
qed

lemma message_start_known:
  assumes "boundary Q ms" "Q @ s @ R = texts ms" "s \<noteq> []" "31 \<le> length s" "list_all (\<lambda>m. known_start (sm_text m)) ms"
  shows "known_start s"
proof -
  obtain j where "Q = texts (take j ms)" using assms(1) by (auto simp: boundary_iff)
  moreover have "texts ms = texts (take j ms) @ texts (drop j ms)" by (metis append_take_drop_id texts_simps(3))
  ultimately have left: "s @ R = texts (drop j ms)" using assms(2) by simp
  with assms(3) obtain m ms' where m: "drop j ms = m # ms'" by (cases "drop j ms") auto
  then have "m \<in> set ms" by (metis in_set_dropD list.set_intros(1))
  then obtain name where name: "name \<in> set sip_starts" "take (length name) (sm_text m) = name"
    using assms(5) by (auto simp: known_start_def list_all_iff list_ex_iff)
  have "length name \<le> 31" using sip_starts_plain name(1) by (auto simp: list_all_iff)
  moreover have "length name \<le> length (sm_text m)" by (metis name(2) length_take min.cobounded1)
  ultimately have "take (length name) s = name" using arg_cong [OF left, of "take (length name)"] name(2) m assms(4) by simp
  with name(1) show ?thesis by (auto simp: known_start_def list_ex_iff)
qed

section \<open>The pending stream\<close>

text \<open>A stream that holds consumed bytes \<open>D\<close> and the beginning \<open>p\<close> of the next message, \<open>k\<close> bytes into the flow.\<close>

definition pending :: "TcpSegment \<Rightarrow> nat \<Rightarrow> int \<Rightarrow> nat \<Rightarrow> string \<Rightarrow> SipTcpStream \<Rightarrow> bool" where
  "pending c seq0 T k p st \<longleftrightarrow>
     m_senderIp st = ip_src c \<and> m_receiverIp st = ip_dest c \<and> m_senderPort st = th_source c \<and>
     m_receiverPort st = th_dest c \<and> m_expectingSeqNo st = word_of_nat (seq0 + k) \<and>
     (\<exists>j<k. m_lastSeqNo st = word_of_nat (seq0 + j)) \<and> T \<le> m_entryTime st \<and>
     (\<exists>D. m_pBytes (m_tcpBuffer st) = Some (D @ p @ [NUL]) \<and> sb_size (m_tcpBuffer st) = int (length (D @ p)) \<and>
       m_offset st = int (length D))"

lemma ucast_seq: "n < 2 ^ 32 \<Longrightarrow> (ucast (word_of_nat n :: u32) :: u64) = word_of_nat n"
  by (simp add: unsigned_of_nat take_bit_nat_eq_self)

lemma u64_le_iff: "m < 2 ^ 32 \<Longrightarrow> n < 2 ^ 32 \<Longrightarrow> (word_of_nat m :: u64) \<le> word_of_nat n \<longleftrightarrow> m \<le> n"
  by (simp add: word_le_nat_alt unat_of_nat)

lemma copy_carries: "carries pkt s \<Longrightarrow> copy_in (th_mem pkt) (th_payload pkt) (th_payloadLen pkt) = Inr s"
  using terminatedD [of "th_mem pkt" "th_payload pkt + int (length s)"]
  by (simp add: carries_def copy_in_def mem_slice_def between_def nat_add_distrib) linarith

lemma NUL_code [simp]: "code_of NUL = 0"
  by (simp add: NUL_def code_of_def)

lemma between_middle: "between (D @ t @ [NUL]) (int (length D)) (int (length D) + int (length t)) = t"
  by (simp add: between_def)

lemma terminated_end: "terminated (D @ t @ [NUL]) (int (length D) + int (length t))"
proof -
  have "(D @ t @ [NUL]) ! nat (int (length D) + int (length t)) = NUL"
    by (simp add: nat_add_distrib nth_append)
  then show ?thesis by (simp add: terminated_def)
qed

text \<open>Served a segment, the stream yields the completed messages and keeps the beginning of the next one.\<close>

lemma serve_pending:
  assumes st: "pending c seq0 T k p st" and pkt: "same_addresses c pkt" "th_seq pkt = word_of_nat (seq0 + k)" "carries pkt s"
    and p: "p \<noteq> []" "s \<noteq> []" and time: "now < T + 60" and seq: "seq0 + k + length s < 2 ^ 32"
    and ms: "p @ s = texts ms1 @ p'" "list_all wf_message ms1" "cut_message p'" "length ms1 < fuel"
  shows "\<exists>kept. serve_stream fuel garbage now pkt st = Inr (Some (kept, True, map sm_text ms1)) \<and>
    (if p' = [] then kept = None else \<exists>st'. kept = Some st' \<and> pending c seq0 T (k + length s) p' st')"
proof -
  obtain D j where D: "m_pBytes (m_tcpBuffer st) = Some (D @ p @ [NUL])" "sb_size (m_tcpBuffer st) = int (length (D @ p))"
      "m_offset st = int (length D)" and j: "j < k" "m_lastSeqNo st = word_of_nat (seq0 + j)"
    using st by (auto simp: pending_def)
  have len: "th_payloadLen pkt = int (length s)" using pkt(3) by (simp add: carries_def)
  have taken: "same_connection pkt st \<and> m_expectingSeqNo st = ucast (th_seq pkt)"
    using st pkt(1,2) seq by (simp add: same_connection_def same_addresses_def pending_def ucast_seq del: of_nat_add)
  let ?b = "\<lparr>m_pBytes = Some (D @ (p @ s) @ [NUL]), sb_size = int (length (D @ p)) + int (length s)\<rparr>"
  have add: "AddTcpPacket (th_mem pkt) (th_payload pkt) (th_payloadLen pkt) st = Inr (st\<lparr>m_tcpBuffer := ?b\<rparr>)"
  proof -
    have "int (length D) + int (length p) \<noteq> 0" using p(1) by (cases p) auto
    then show ?thesis
      using D by (simp add: AddTcpPacket_def SafeBuffer_Add_def copy_carries [OF pkt(3), unfolded len] len nat_add_distrib)
  qed
  have "ParseSipStream fuel garbage (D @ (p @ s) @ [NUL]) (int (length D)) (int (length D) + int (length (p @ s))) =
      Inr (Some (int (length (texts ms1)), map sm_text ms1))"
    using ms by (intro ParseSipStream_texts [OF terminated_end]) (auto simp only: between_middle)
  then have parse: "ParseSipStream fuel garbage (D @ (p @ s) @ [NUL]) (int (length D)) (int (length (D @ p)) + int (length s)) =
      Inr (Some (int (length (texts ms1)), map sm_text ms1))" by (simp add: add.assoc)
  let ?st = "st\<lparr>m_tcpBuffer := ?b, m_offset := int (length D) + int (length (texts ms1)),
    m_expectingSeqNo := m_expectingSeqNo st + word_of_int (int (length s))\<rparr>"
  have lens: "length p + length s = length (texts ms1) + length p'" using arg_cong [OF ms(1), of length] by simp
  have time': "\<not> now - m_entryTime st \<ge> 60" using st time by (simp add: pending_def)
  have "serve_stream fuel garbage now pkt st =
      Inr (Some (if p' = [] then None else Some ?st, True, map sm_text ms1))"
  proof -
    have "(m_offset ?st = sb_size (m_tcpBuffer ?st)) = (p' = [])" using lens by (cases p') auto
    moreover have "m_offset st + int (length (texts ms1)) = int (length D) + int (length (texts ms1))" by (simp add: D)
    ultimately show ?thesis
      using taken time' by (simp add: serve_stream_def add [unfolded len, simplified] parse [simplified] len D(3))
  qed
  moreover have "pending c seq0 T (k + length s) p' ?st"
  proof -
    have "D @ p @ s = (D @ texts ms1) @ p'" using ms(1) by simp
    then have "D @ (p @ s) @ [NUL] = (D @ texts ms1) @ p' @ [NUL]" by (metis append_assoc)
    moreover have "j < k + length s" using j(1) by simp
    ultimately show ?thesis
      using st lens j(2) unfolding pending_def by (intro conjI exI [of _ "D @ texts ms1"] exI [of _ j]) (auto simp: add.assoc)
  qed
  ultimately show ?thesis by (cases "p' = []") auto
qed

text \<open>A first segment of messages on an idle connection.\<close>

lemma open_stream:
  assumes pkt: "same_addresses c pkt" "th_seq pkt = word_of_nat (seq0 + k)" "carries pkt s"
    and time: "T \<le> now" and seq: "seq0 + k + length s < 2 ^ 32"
    and ms: "s = texts ms1 @ p'" "list_all wf_message ms1" "cut_message p'" "length ms1 < fuel"
    and start: "starts_message pkt = Inr True"
  shows "\<exists>sts. TrySipTcp fuel garbage now pkt [] = Inr (Some (True, map sm_text ms1, sts)) \<and>
    (if p' = [] then sts = [] else \<exists>st. sts = [st] \<and> pending c seq0 T (k + length s) p' st)"
proof -
  have len: "th_payloadLen pkt = int (length s)" using pkt(3) by (simp add: carries_def)
  have parse: "ParseSipStream fuel garbage (th_mem pkt) (th_payload pkt) (th_payload pkt + th_payloadLen pkt) =
      Inr (Some (int (length (texts ms1)), map sm_text ms1))"
    using pkt(3) ms unfolding len by (intro ParseSipStream_texts) (auto simp: carries_def)
  have lens: "length s = length (texts ms1) + length p'" using arg_cong [OF ms(1), of length] by simp
  show ?thesis
  proof (cases "p' = []")
    case True
    with lens have "length (texts ms1) = length s" by simp
    with True show ?thesis by (simp add: TrySipTcp_def start parse [unfolded len] len)
  next
    case False
    then have differ: "length (texts ms1) \<noteq> length s" using lens by simp
    let ?st = "\<lparr>m_senderIp = ip_src pkt, m_receiverIp = ip_dest pkt, m_senderPort = th_source pkt, m_receiverPort = th_dest pkt,
        m_expectingSeqNo = ucast (th_seq pkt + word_of_int (int (length s))), m_lastSeqNo = ucast (th_seq pkt),
        m_offset = int (length (texts ms1)), m_entryTime = now,
        m_tcpBuffer = \<lparr>m_pBytes = Some (s @ [NUL]), sb_size = int (length s)\<rparr>\<rparr>"
    have "new_stream now pkt (int (length (texts ms1))) = Inr ?st"
      by (simp add: new_stream_def AddTcpPacket_def SafeBuffer_Add_def new_SafeBuffer_def SafeBuffer_Store_def
          copy_carries [OF pkt(3), unfolded len] len)
    then have "TrySipTcp fuel garbage now pkt [] = Inr (Some (True, map sm_text ms1, [?st]))"
      using differ by (simp add: TrySipTcp_def start parse [unfolded len] len)
    moreover have "pending c seq0 T (k + length s) p' ?st"
    proof -
      have next_seq: "th_seq pkt + word_of_int (int (length s)) = word_of_nat (seq0 + (k + length s))"
        using pkt(2) by (simp add: add.assoc)
      have last: "ucast (th_seq pkt) = (word_of_nat (seq0 + k) :: u64)"
        unfolding pkt(2) using seq by (intro ucast_seq) simp
      have k: "k < k + length s" using False lens by (cases p') auto
      show ?thesis
      proof (unfold pending_def, intro conjI)
        show "m_expectingSeqNo ?st = word_of_nat (seq0 + (k + length s))"
          unfolding SipTcpStream.select_convs next_seq using seq by (intro ucast_seq) simp
        show "\<exists>j<k + length s. m_lastSeqNo ?st = word_of_nat (seq0 + j)"
          unfolding SipTcpStream.select_convs using last k by blast
        show "\<exists>D. m_pBytes (m_tcpBuffer ?st) = Some (D @ p' @ [NUL]) \<and>
            sb_size (m_tcpBuffer ?st) = int (length (D @ p')) \<and> m_offset ?st = int (length D)"
          using lens ms(1) by (intro exI [of _ "texts ms1"]) simp
      qed (use pkt(1) time in \<open>simp_all add: same_addresses_def\<close>)
    qed
    ultimately show ?thesis using False by (intro exI [of _ "[?st]"]) simp
  qed
qed

section \<open>Every segmentation\<close>

definition idle_or_pending :: "TcpSegment \<Rightarrow> nat \<Rightarrow> int \<Rightarrow> nat \<Rightarrow> string \<Rightarrow> SipTcpStream list \<Rightarrow> bool" where
  "idle_or_pending c seq0 T k p sts \<longleftrightarrow> (if p = [] then sts = [] else \<exists>st. sts = [st] \<and> pending c seq0 T k p st)"

lemma segment_step:
  assumes pkt: "same_addresses c pkt" "th_seq pkt = word_of_nat (seq0 + k)" "carries pkt s" "s \<noteq> []"
    and time: "T \<le> now" "now < T + 60" and seq: "seq0 + k + length s < 2 ^ 32"
    and ms: "p @ s = texts ms1 @ p'" "list_all wf_message ms1" "cut_message p'" "length ms1 < fuel"
    and start: "starts_message pkt = Inr (p = [])" and sts: "idle_or_pending c seq0 T k p sts"
  shows "\<exists>b sts'. TrySipTcp fuel garbage now pkt sts = Inr (Some (b, map sm_text ms1, sts')) \<and>
    idle_or_pending c seq0 T (k + length s) p' sts'"
proof (cases "p = []")
  case True
  with sts have "sts = []" by (simp add: idle_or_pending_def)
  moreover from True start have "starts_message pkt = Inr True" by simp
  moreover from True ms(1) have "s = texts ms1 @ p'" by simp
  ultimately show ?thesis
    using open_stream [OF pkt(1-3) time(1) seq _ ms(2-4), of garbage] unfolding idle_or_pending_def by (cases "p' = []") auto
next
  case False
  then obtain st where st: "sts = [st]" "pending c seq0 T k p st" using sts by (auto simp: idle_or_pending_def)
  then obtain j where j: "j < k" "m_lastSeqNo st = word_of_nat (seq0 + j)" by (auto simp: pending_def)
  have "\<not> is_duplicate pkt st"
  proof -
    have u: "(ucast (th_seq pkt) :: u64) = word_of_nat (seq0 + k)" unfolding pkt(2) using seq by (intro ucast_seq) simp
    have "\<not> (word_of_nat (seq0 + k) :: u64) \<le> word_of_nat (seq0 + j)"
      using j(1) seq by (subst u64_le_iff) simp_all
    then show ?thesis by (simp only: is_duplicate_def u j(2)) simp
  qed
  moreover from serve_pending [OF st(2) pkt(1-3) False pkt(4) time(2) seq ms, of garbage] obtain kept where
    "serve_stream fuel garbage now pkt st = Inr (Some (kept, True, map sm_text ms1))"
    "if p' = [] then kept = None else \<exists>st'. kept = Some st' \<and> pending c seq0 T (k + length s) p' st'" by blast
  ultimately show ?thesis
    using start False st(1) by (cases "p' = []") (auto simp: TrySipTcp_def idle_or_pending_def)
qed

lemma run_segments_flow:
  "flow c seq0 T ms Q rs \<Longrightarrow> list_all (\<lambda>m. wf_message m \<and> known_start (sm_text m)) ms \<Longrightarrow> seq0 + length (texts ms) < 2 ^ 32 \<Longrightarrow> length ms < fuel \<Longrightarrow>
   ms = ms1 @ ms2 \<Longrightarrow> Q = texts ms1 @ p \<Longrightarrow> begins p ms2 \<Longrightarrow> idle_or_pending c seq0 T (length Q) p sts \<Longrightarrow>
   run_segments fuel garbage rs sts = Inr (Some (map sm_text ms2, []))"
proof (induction rs arbitrary: Q ms1 ms2 p sts)
  case Nil
  then have "texts ms2 = p" by simp
  with Nil.prems(7) have "ms2 = [] \<and> p = []"
    by (cases ms2) (auto simp: begins_def)
  with Nil.prems(8) show ?case by (simp add: idle_or_pending_def)
next
  case (Cons a rs)
  obtain now pkt s where a: "a = (now, pkt, s)" by (cases a) auto
  from Cons.prems(1) a have seg: "same_addresses c pkt" "th_seq pkt = word_of_nat (seq0 + length Q)" "carries pkt s"
      "s \<noteq> []" "T \<le> now" "now < T + 60" "if boundary Q ms then 31 \<le> length s else length s < 31 \<or> \<not> known_start s"
      "flow c seq0 T ms (Q @ s) rs"
    by simp_all
  from flow_prefix [OF seg(8)] obtain R where R: "(Q @ s) @ R = texts ms" by blast
  have known: "list_all (\<lambda>m. known_start (sm_text m)) ms" using Cons.prems(2) by (simp add: list_all_iff)
  have "starts_message pkt = Inr (boundary Q ms)"
    using seg(7) message_start_known [OF _ _ seg(4) _ known, of Q R] R
    by (cases "boundary Q ms") (auto simp: starts_message_carries [OF seg(3)])
  then have start: "starts_message pkt = Inr (p = [])"
    using Cons.prems(5-7) by (simp add: boundary_shift boundary_begins)
  from R Cons.prems(5,6) have "texts ms1 @ (p @ s) @ R = texts ms1 @ texts ms2" by simp
  then have "(p @ s) @ R = texts ms2" by (simp only: same_append_eq)
  from split_prefix [OF this] obtain msa msb p' where
    split: "ms2 = msa @ msb" "p @ s = texts msa @ p'" "begins p' msb" by blast
  have wf: "list_all wf_message msa" "list_all wf_message msb" using Cons.prems(2,5) split(1) by (simp_all add: list_all_iff)
  have bound: "seq0 + length Q + length s < 2 ^ 32" "length msa < fuel"
    using arg_cong [OF R, of length] Cons.prems(3,4,5) split(1) by simp_all
  from segment_step [OF seg(1-6) bound(1) split(2) wf(1) begins_cut [OF split(3) wf(2)] bound(2) start Cons.prems(8)]
  obtain b sts' where step: "TrySipTcp fuel garbage now pkt sts = Inr (Some (b, map sm_text msa, sts'))"
    "idle_or_pending c seq0 T (length Q + length s) p' sts'" by blast
  have "run_segments fuel garbage rs sts' = Inr (Some (map sm_text msb, []))"
  proof (rule Cons.IH [OF seg(8) Cons.prems(2-4)])
    show "ms = (ms1 @ msa) @ msb" using Cons.prems(5) split(1) by simp
    show "Q @ s = texts (ms1 @ msa) @ p'" using Cons.prems(6) split(2) by simp
    show "begins p' msb" by (rule split(3))
    show "idle_or_pending c seq0 T (length (Q @ s)) p' sts'" using step(2) by simp
  qed
  with step(1) a split(1) show ?case by simp
qed

section \<open>Properties\<close>

definition demo_message :: sip_message where
  "demo_message = \<lparr>sm_pre = ''BYE a'' @ [CHR 0x0D, CHR 0x0A], sm_mid = [], sm_body = ''v=0,s=cal''\<rparr>"

definition demo_segment :: "nat \<Rightarrow> nat \<Rightarrow> TcpSegment" where
  "demo_segment a b = \<lparr>ip_src = 1, ip_dest = 2, th_source = 5060, th_dest = 5060, th_seq = word_of_nat (100 + a),
     th_mem = ''##'' @ take (b - a) (drop a (sm_text demo_message)) @ [NUL], th_payload = 2, th_payloadLen = int (b - a)\<rparr>"

definition demo_flow :: "(int \<times> TcpSegment \<times> string) list" where
  "demo_flow = map (\<lambda>(a, b). (7, demo_segment a b, take (b - a) (drop a (sm_text demo_message)))) [(0, 31), (31, 34), (34, 37)]"

lemma wf_demo: "list_all wf_message [demo_message]"
proof -
  have "first_at CL (sm_header demo_message) (length (sm_pre demo_message))"
    "first_at CRLF2 (sm_tail demo_message) (length (sm_tail demo_message) - 4)" by code_simp+
  then show ?thesis by (simp add: wf_message_def) (simp add: demo_message_def)
qed

text \<open>A segment of less than 31 bytes starts no message: without a stream to go on with it is dropped.\<close>

lemma short_start_dropped: "th_payloadLen pkt < 31 \<Longrightarrow> TrySipTcp fuel garbage now pkt [] = Inr (Some (False, [], []))"
  by (simp add: TrySipTcp_def starts_message_def)

text \<open>C21: Running TrySipTcp over the in-order segments of a stream of well-formed SIP messages, each of which begins with one of
  the 14 methods and responses that it knows, parses exactly these messages, each once and in order, and leaves no stream
  behind. The stream may be cut anywhere, except that a segment where a message starts has 31 bytes or more
  (\<open>short_start_dropped\<close>) and that one of 31 bytes or more inside a message does not begin like a message; the segments
  come within a minute, and their sequence numbers do not wrap around.\<close>

theorem TrySipTcp_reassembles:
  assumes "flow c seq0 T ms [] rs" "list_all (\<lambda>m. wf_message m \<and> known_start (sm_text m)) ms"
    and "seq0 + length (texts ms) < 2 ^ 32" "length ms < fuel"
  shows "run_segments fuel garbage rs [] = Inr (Some (map sm_text ms, []))"
  using run_segments_flow [OF assms, of "[]" ms "[]"] by (simp add: begins_def idle_or_pending_def)

theorem TrySipTcp_reassembles_witness:
  "run_segments 2 0 demo_flow [] = Inr (Some ([sm_text demo_message], []))"
proof -
  have "flow (demo_segment 0 0) 100 0 [demo_message] [] demo_flow" by code_simp
  moreover have "length (texts [demo_message]) = 37" "known_start (sm_text demo_message)" by code_simp+
  moreover note wf_demo
  ultimately show ?thesis using TrySipTcp_reassembles [of "demo_segment 0 0" 100 0 "[demo_message]" demo_flow 2 0] by simp
qed

text \<open>C36: The text of well-formed SIP messages followed by a cut-off one, in any memory, is parsed into exactly these
  messages, and the offset returned is where the cut-off message starts; fuel above the number of messages suffices.\<close>

theorem ParseSipStream_parses:
  assumes "terminated mem stop" "0 \<le> start" "start \<le> stop" "list_all wf_message ms" "cut_message p"
    "between mem start stop = texts ms @ p" "length ms < n"
  shows "ParseSipStream n garbage mem start stop = Inr (Some (int (length (texts ms)), map sm_text ms))"
  by (rule ParseSipStream_texts [OF assms])

theorem ParseSipStream_parses_witness:
  "ParseSipStream 2 0 (sm_text demo_message @ [NUL]) 0 37 = Inr (Some (37, [sm_text demo_message]))"
proof -
  have "terminated (sm_text demo_message @ [NUL]) 37" "length (texts [demo_message]) = 37"
    "between (sm_text demo_message @ [NUL]) 0 37 = texts [demo_message] @ []" by code_simp+
  moreover have "cut_message []" by (simp add: cut_message_def)
  moreover note wf_demo
  ultimately show ?thesis
    using ParseSipStream_parses [of "sm_text demo_message @ [NUL]" 37 0 "[demo_message]" "[]" 2 0]
    by (simp del: texts_simps)
qed

text \<open>C26: A message whose content length is negative and leads back to its own start is parsed forever: whatever the
  fuel, the parser does not return. One such text is the 23 bytes of the witness.\<close>

theorem ParseSipStream_never_returns:
  assumes "tcpFindAfter ''Content-Length: '' mem start stop = Inr (Some cl)" "scan_int garbage mem cl = Inr v"
    "tcpFindAfter [CHR 0x0D, CHR 0x0A, CHR 0x0D, CHR 0x0A] mem cl stop = Inr (Some he)" "he + v = start" "start \<le> stop"
  shows "ParseSipStream n garbage mem start stop = Inr None"
proof -
  have "sip_loop n garbage mem start stop start offset = Inr None" for offset
    using assms by (induction n arbitrary: offset) (simp_all add: Let_def)
  then show ?thesis by (simp add: ParseSipStream_def)
qed

theorem ParseSipStream_never_returns_witness:
  "\<forall>n. ParseSipStream n 0 (''Content-Length: -23'' @ CRLF2 @ [NUL]) 0 23 = Inr None"
proof (rule allI, rule ParseSipStream_never_returns)
  show "tcpFindAfter ''Content-Length: '' (''Content-Length: -23'' @ CRLF2 @ [NUL]) 0 23 = Inr (Some 16)"
    "scan_int 0 (''Content-Length: -23'' @ CRLF2 @ [NUL]) 16 = Inr (- 23)"
    "tcpFindAfter [CHR 0x0D, CHR 0x0A, CHR 0x0D, CHR 0x0A] (''Content-Length: -23'' @ CRLF2 @ [NUL]) 16 23 = Inr (Some 23)"
    by code_simp+
qed simp_all

end
