(* ===== verification/PacketDispatch.thy ===== *)
theory PacketDispatch
  imports SipParsersProps SkinnyParsers IpReassembly SipTcpRun
begin

text \<open>
  From the captured frame to the parsers: \<open>TryRtp\<close>, \<open>TryRtcp\<close>, \<open>DetectUsefulUdpPacket\<close>, \<open>DetectUsefulTcpPacket\<close>,
  \<open>ProcessTransportLayer\<close> and \<open>HandlePacket\<close> of \<open>audiocaptureplugins/voip/VoIp.cpp\<close> and \<open>ParseSipMessage\<close> of
  \<open>audiocaptureplugins/common/SipTcp.cpp\<close>. A frame is a list of bytes and a header its offset; the structs of
  \<open>PacketHeaderDefs.h\<close> are read at the offsets of their fields, when the code reads them. What the code reports to the
  sessions is the list of events. A function that may run forever returns an \<open>outcome\<close>: \<open>None\<close> when it does.
\<close>

type_synonym 'a outcome = "'a result option"

definition proceed :: "'a outcome \<Rightarrow> ('a \<Rightarrow> 'b outcome) \<Rightarrow> 'b outcome" where
  "proceed m f = (case m of None \<Rightarrow> None | Some (Inl e) \<Rightarrow> Some (Inl e) | Some (Inr x) \<Rightarrow> f x)"

lemma proceed_simps [simp]:
  "proceed None f = None" "proceed (Some (Inl e)) f = Some (Inl e)" "proceed (Some (Inr x)) f = f x"
  by (simp_all add: proceed_def)

text \<open>What a parser returns: whether the packet was useful, and the events it reported.\<close>

type_synonym detected = "(bool \<times> voip_event list) result"

section \<open>Environment\<close>

text \<open>
  Besides the environment of the SIP parsers: the levels of the packet logs, the bytes of memory behind a SIP message that
  came over TCP, the bound on the messages of one TCP packet and the value of an \<open>int\<close> that \<open>sscanf\<close> did not set.
\<close>

record DetectEnv =
  de_parser :: ParserEnv
  de_rtpDebug :: bool
  de_skinnyInfo :: bool
  de_behind :: string
  de_fuel :: nat
  de_unset :: int

definition de_config :: "DetectEnv \<Rightarrow> VoIpSettings" where
  "de_config env = pe_config (de_parser env)"

text \<open>The IP packet at hand: the memory, its header, the arguments \<open>ipHeaderLength\<close> and \<open>ipPacketEnd\<close>, and the Ethernet addresses.\<close>

record IpPacket =
  k_mem :: "u8 list"
  k_ip :: int
  k_headerLength :: int
  k_end :: int
  k_sourceMac :: "u8 list"
  k_destinationMac :: "u8 list"

section \<open>Headers\<close>

definition ip_v :: "u8 list \<Rightarrow> int \<Rightarrow> nat result" where
  "ip_v mem ip = andThen (peek mem ip) (\<lambda>b. Inr (unat b div 16))"

definition ip_hl :: "u8 list \<Rightarrow> int \<Rightarrow> nat result" where
  "ip_hl mem ip = andThen (peek mem ip) (\<lambda>b. Inr (unat b mod 16))"

definition ip_len :: "u8 list \<Rightarrow> int \<Rightarrow> nat result" where
  "ip_len mem ip = andThen (read_be16 mem (ip + 2)) (\<lambda>n. Inr (unat n))"

definition ip_p :: "u8 list \<Rightarrow> int \<Rightarrow> nat result" where
  "ip_p mem ip = andThen (peek mem (ip + 9)) (\<lambda>b. Inr (unat b))"

text \<open>Source and destination address.\<close>

definition ip_addresses :: "u8 list \<Rightarrow> int \<Rightarrow> (u32 \<times> u32) result" where
  "ip_addresses mem ip = andThen (read_be32 mem (ip + 12)) (\<lambda>src. andThen (read_be32 mem (ip + 16)) (\<lambda>dest. Inr (src, dest)))"

text \<open>Source and destination port, of UDP and of TCP.\<close>

definition transport_ports :: "u8 list \<Rightarrow> int \<Rightarrow> (u16 \<times> u16) result" where
  "transport_ports mem h = andThen (read_be16 mem h) (\<lambda>source. andThen (read_be16 mem (h + 2)) (\<lambda>dest. Inr (source, dest)))"

definition udp_len :: "u8 list \<Rightarrow> int \<Rightarrow> u16 result" where
  "udp_len mem udp = read_be16 mem (udp + 4)"

definition tcp_off :: "u8 list \<Rightarrow> int \<Rightarrow> nat result" where
  "tcp_off mem tcp = andThen (peek mem (tcp + 12)) (\<lambda>b. Inr (unat b div 16))"

text \<open>The Ethernet addresses and the type of the frame.\<close>

definition ethernet_header :: "u8 list \<Rightarrow> int \<Rightarrow> (u8 list \<times> u8 list \<times> nat) result" where
  "ethernet_header mem eth =
     andThen (read_be16 mem (eth + 12)) (\<lambda>type.
     andThen (mem_slice mem eth 6) (\<lambda>destinationMac.
     andThen (mem_slice mem (eth + 6) 6) (\<lambda>sourceMac.
     Inr (sourceMac, destinationMac, unat type))))"

section \<open>RTP\<close>

text \<open>\<open>getFirstPayloadByte\<close>, of a header whose first byte is \<open>b0\<close>.\<close>

definition rtp_payload :: "u8 list \<Rightarrow> int \<Rightarrow> u8 \<Rightarrow> int result" where
  "rtp_payload mem rtp b0 =
     (let header = 12 + 4 * int (unat b0 mod 16)
      in if bit b0 4
         then andThen (read_be16 mem (rtp + header + 2)) (\<lambda>len. Inr (rtp + (header + 4 * (int (unat len) + 1))))
         else Inr (rtp + header))"

definition rtp_supported :: "nat \<Rightarrow> bool" where
  "rtp_supported pt \<longleftrightarrow> pt \<le> 34 \<and> pt \<noteq> 13 \<or> pt \<ge> 96 \<and> pt < 128"

text \<open>The packet of a supported payload type: the payload ends where the IP header says. One of 900 bytes or more is not reported.\<close>

definition report_rtp :: "DetectEnv \<Rightarrow> IpPacket \<Rightarrow> int \<Rightarrow> u8 \<Rightarrow> u16 \<Rightarrow> u16 \<Rightarrow> nat \<Rightarrow> u32 \<times> u32 \<Rightarrow> detected" where
  "report_rtp env k rtp b0 source dest pt addresses =
     (let mem = k_mem k
      in andThen (rtp_payload mem rtp b0) (\<lambda>payload.
         andThen (ip_len mem (k_ip k)) (\<lambda>len.
         let packetEnd = k_ip k + int len; payloadLength = packetEnd - payload
         in if packetEnd \<le> payload then Inr (False, [])
            else andThen (read_be16 mem (rtp + 2)) (\<lambda>seq.
                 andThen (read_be32 mem (rtp + 4)) (\<lambda>ts.
                 andThen (read_be32 mem (rtp + 8)) (\<lambda>ssrc.
                 if payloadLength < 900 then
                   andThen (mem_slice mem payload (nat payloadLength)) (\<lambda>bytes.
                   Inr (True, [Rtp \<lparr>m_sourceMac = k_sourceMac k, m_destMac = k_destinationMac k,
                     RtpPacketInfo.m_sourceIp = fst addresses, m_destIp = snd addresses,
                     m_sourcePort = source, m_destPort = dest, m_payloadType = pt, m_payload = bytes, m_seqNum = seq,
                     m_ssrc = ssrc, m_rtpTimestamp = ts, m_arrivalTimestamp = pe_now (de_parser env)\<rparr>]))
                 else Inr (True, [])))))))"

text \<open>A packet with a payload type of the block list is useful but not reported; with the log on its length is looked at.\<close>

definition drop_rtp :: "DetectEnv \<Rightarrow> IpPacket \<Rightarrow> int \<Rightarrow> u8 \<Rightarrow> detected" where
  "drop_rtp env k rtp b0 =
     (if de_rtpDebug env then
        andThen (rtp_payload (k_mem k) rtp b0) (\<lambda>payload.
        andThen (ip_len (k_mem k) (k_ip k)) (\<lambda>len. Inr (\<not> k_ip k + int len \<le> payload, [])))
      else Inr (True, []))"

definition TryRtp :: "DetectEnv \<Rightarrow> IpPacket \<Rightarrow> int \<Rightarrow> detected" where
  "TryRtp env k udp =
     (let mem = k_mem k; rtp = udp + 8; config = de_config env
      in andThen (udp_len mem udp) (\<lambda>len.
         if unat len < 12 then Inr (False, [])
         else andThen (peek mem rtp) (\<lambda>b0.
         if unat b0 div 64 = 2 \<and> unat b0 mod 16 = 0 \<and> \<not> bit b0 5 then
           andThen (transport_ports mem udp) (\<lambda>(source, dest).
           if even (unat source) \<and> even (unat dest) \<or> m_rtpDetectOnOddPorts config then
             andThen (peek mem (rtp + 1)) (\<lambda>b1.
             let pt = unat b1 mod 128
             in if map_find (word_of_nat pt) (m_rtpPayloadTypeBlockList config) \<noteq> None then drop_rtp env k rtp b0
                else if rtp_supported pt then
                  andThen (ip_addresses mem (k_ip k)) (\<lambda>(src, dst).
                  andThen (IpRanges_Matches (m_rtpBlockedIpRanges config) src) (\<lambda>blocked.
                  andThen (if blocked then Inr True else IpRanges_Matches (m_rtpBlockedIpRanges config) dst) (\<lambda>blocked'.
                  if blocked' then Inr (False, []) else report_rtp env k rtp b0 source dest pt (src, dst))))
                else Inr (False, []))
           else Inr (False, []))
         else Inr (False, []))))"

section \<open>RTCP\<close>

text \<open>The next header of a compound packet.\<close>

definition next_rtcp :: "u8 list \<Rightarrow> int \<Rightarrow> int result" where
  "next_rtcp mem r = andThen (read_be16 mem (r + 2)) (\<lambda>len. Inr (r + 4 * (int (unat len) + 1)))"

text \<open>The condition of the loops: the difference of two header pointers counts headers of four bytes.\<close>

definition rtcp_left :: "int \<Rightarrow> int \<Rightarrow> bool" where
  "rtcp_left r rtcpEnd \<longleftrightarrow> r < rtcpEnd \<and> (rtcpEnd - r) div 4 \<ge> 4"

lemma next_rtcp_gt: "next_rtcp mem r = Inr r' \<Longrightarrow> r < r'"
proof -
  assume "next_rtcp mem r = Inr r'"
  then obtain len :: u16 where "r' = r + 4 * (int (unat len) + 1)"
    unfolding next_rtcp_def andThen_eq_Inr_iff by blast
  moreover have "0 \<le> int (unat len)" by (rule of_nat_0_le_iff)
  ultimately show "r < r'" by (simp only: distrib_left)
qed

function rtcp_valid_end :: "u8 list \<Rightarrow> int \<Rightarrow> int \<Rightarrow> int result" where
  "rtcp_valid_end mem r rtcpEnd =
     (if rtcp_left r rtcpEnd then
        andThen (peek mem r) (\<lambda>vpc.
        if unat vpc div 64 \<noteq> 2 then Inr r
        else andThen (next_rtcp mem r) (\<lambda>r'. rtcp_valid_end mem r' rtcpEnd))
      else Inr r)"
  by pat_completeness auto
termination
  by (relation "measure (\<lambda>(mem, r, rtcpEnd). nat (rtcpEnd - r))")
    (auto simp: rtcp_left_def dest!: next_rtcp_gt)

declare rtcp_valid_end.simps [simp del]

text \<open>
  The items of a source description up to one of type 1 (CNAME) or 0. The length of an item does not count its two header
  bytes, but the next item is looked for at that distance; an item of length 0 is its own successor.
\<close>

partial_function (option) find_item :: "u8 list \<Rightarrow> int \<Rightarrow> int \<Rightarrow> int option outcome" where
  "find_item mem item end' =
     (if item < end' then
        (case peek mem item of
           Inl e \<Rightarrow> Some (Inl e)
         | Inr type \<Rightarrow>
             if type = 1 then Some (Inr (Some item))
             else if type = 0 then Some (Inr None)
             else (case peek mem (item + 1) of
                     Inl e \<Rightarrow> Some (Inl e)
                   | Inr len \<Rightarrow> find_item mem (item + int (unat len)) end'))
      else Some (Inr None))"

text \<open>The header of one packet: the next one, and whether it is a source description with a source.\<close>

definition sdes_header :: "u8 list \<Rightarrow> int \<Rightarrow> (int \<times> bool) result" where
  "sdes_header mem r =
     andThen (peek mem r) (\<lambda>vpc.
     andThen (next_rtcp mem r) (\<lambda>r'.
     andThen (peek mem (r + 1)) (\<lambda>pt. Inr (r', pt = 202 \<and> unat vpc mod 32 \<noteq> 0))))"

text \<open>The first CNAME, or \<open>None\<close>.\<close>

partial_function (option) find_cname :: "u8 list \<Rightarrow> int \<Rightarrow> int \<Rightarrow> int option outcome" where
  "find_cname mem r rtcpEnd =
     (if rtcp_left r rtcpEnd then
        (case sdes_header mem r of
           Inl e \<Rightarrow> Some (Inl e)
         | Inr (r', sdes) \<Rightarrow>
             Option.bind (if sdes then find_item mem (r + 8) r' else Some (Inr None)) (\<lambda>found.
             case found of
               Inl e \<Rightarrow> Some (Inl e)
             | Inr (Some item) \<Rightarrow> Some (Inr (Some item))
             | Inr None \<Rightarrow> find_cname mem r' rtcpEnd))
      else Some (Inr None))"

text \<open>\<open>GrabToken\<close> on a whole C string.\<close>

definition grab_c_string :: "string \<Rightarrow> string result" where
  "grab_c_string s = GrabToken (s @ [CHR 0x00]) 0 (int (length s)) []"

text \<open>The parts of a string before and behind the first \<open>c\<close>.\<close>

definition split_at :: "char \<Rightarrow> string \<Rightarrow> string \<times> string option" where
  "split_at c s = (takeWhile (\<lambda>x. x \<noteq> c) s,
     (case dropWhile (\<lambda>x. x \<noteq> c) s of [] \<Rightarrow> None | x # rest \<Rightarrow> Some rest))"

text \<open>User name and domain of \<open>user@host:port\<close>.\<close>

definition parse_cname :: "string \<Rightarrow> (string \<times> string) result" where
  "parse_cname cname =
     (case split_at (CHR ''@'') cname of
        (_, None) \<Rightarrow> andThen (grab_c_string (fst (split_at (CHR '':'') cname))) (\<lambda>domain. Inr ([], domain))
      | (user, Some host) \<Rightarrow>
          andThen (grab_c_string user) (\<lambda>username.
          andThen (if host \<noteq> [] then grab_c_string (fst (split_at (CHR '':'') host)) else Inr []) (\<lambda>domain.
          Inr (username, domain))))"

text \<open>The bytes of the item are copied without a look at the end of the packet.\<close>

definition report_cname :: "DetectEnv \<Rightarrow> IpPacket \<Rightarrow> int \<Rightarrow> int \<Rightarrow> detected" where
  "report_cname env k udp item =
     (let mem = k_mem k
      in andThen (ip_addresses mem (k_ip k)) (\<lambda>(src, dst).
         andThen (transport_ports mem udp) (\<lambda>(source, dest).
         andThen (peek mem (item + 1)) (\<lambda>len.
         andThen (read_chars mem (item + 2) (min 254 (unat len))) (\<lambda>bytes.
         let cname = c_str bytes; n = min 3 (unat len);
             extension = (unat len \<noteq> 0 \<and> map to_lower (take n cname) = take n ''ext'')
         in if \<not> extension \<and> (\<not> m_inInMode (de_config env) \<or> unat len = 0) then Inr (True, [])
            else andThen (parse_cname cname) (\<lambda>(username, domain).
                 Inr (True, [Rtcp \<lparr>RtcpSrcDescriptionPacketInfo.m_sourceIp = src, m_destIp = dst, m_sourcePort = source,
                   m_destPort = dest, m_cnameUsername = username, m_cnameDomain = domain\<rparr>]))))))) "

text \<open>The checks of the first header; the lengths are compared as unsigned numbers, so one below 8 passes.\<close>

definition rtcp_start :: "DetectEnv \<Rightarrow> IpPacket \<Rightarrow> int \<Rightarrow> (int \<times> int) option result" where
  "rtcp_start env k udp =
     (let mem = k_mem k; rtcp = udp + 8
      in if \<not> m_rtcpDetect (de_config env) then Inr None
         else andThen (udp_len mem udp) (\<lambda>len.
         if unat (word_of_int (int (unat len) - 8) :: u64) < 4 then Inr None
         else andThen (peek mem rtcp) (\<lambda>vpc.
         if unat vpc div 64 \<noteq> 2 then Inr None
         else andThen (peek mem (rtcp + 1)) (\<lambda>pt.
         if pt \<noteq> 200 \<and> pt \<noteq> 201 then Inr None
         else if bit vpc 5 then Inr None
         else let rtcpEnd = rtcp + (int (unat len) - 8)
              in andThen (next_rtcp mem rtcp) (\<lambda>r.
                 andThen (rtcp_valid_end mem r rtcpEnd) (\<lambda>r'.
                 Inr (if r' \<noteq> rtcpEnd then None else Some (r, rtcpEnd))))))))"

definition TryRtcp :: "DetectEnv \<Rightarrow> IpPacket \<Rightarrow> int \<Rightarrow> (bool \<times> voip_event list) outcome" where
  "TryRtcp env k udp =
     proceed (Some (rtcp_start env k udp)) (\<lambda>start. case start of
       None \<Rightarrow> Some (Inr (False, []))
     | Some (r, rtcpEnd) \<Rightarrow>
         proceed (find_cname (k_mem k) r rtcpEnd) (\<lambda>found. Some (case found of
           None \<Rightarrow> Inr (True, [])
         | Some item \<Rightarrow> report_cname env k udp item)))"

section \<open>SIP\<close>

definition ip_offset :: "u8 list \<Rightarrow> int \<Rightarrow> nat result" where
  "ip_offset mem ip = andThen (read_be16 mem (ip + 6)) (\<lambda>n. Inr ((unat n mod 0x2000) * 8))"

definition sip_packet :: "IpPacket \<Rightarrow> int \<Rightarrow> SipPacket result" where
  "sip_packet k udp =
     (let mem = k_mem k
      in andThen (udp_len mem udp) (\<lambda>len.
         andThen (ip_addresses mem (k_ip k)) (\<lambda>(src, dst).
         andThen (ip_offset mem (k_ip k)) (\<lambda>off.
         Inr \<lparr>p_mem = chars_of mem, p_payload = udp + 8, p_packetEnd = k_end k, p_udpLen = len, p_src = src, p_dest = dst,
           p_sourceMac = k_sourceMac k, p_destinationMac = k_destinationMac k, p_offset = off\<rparr>))))"

text \<open>The parsers are tried in turn until one finds the packet useful.\<close>

fun first_useful :: "parsed list \<Rightarrow> detected" where
  "first_useful [] = Inr (False, [])"
| "first_useful (p # ps) =
     andThen p (\<lambda>(useful, event).
     let events = (case event of None \<Rightarrow> [] | Some e \<Rightarrow> [e])
     in if useful then Inr (True, events)
        else andThen (first_useful ps) (\<lambda>(useful', events'). Inr (useful', events @ events')))"

definition sip_over_udp :: "ParserEnv \<Rightarrow> SipPacket \<Rightarrow> parsed list" where
  "sip_over_udp env pkt =
     (let config = pe_config env
      in [TrySipInvite env pkt, TrySip200Ok env pkt] @
         (if m_sipNotifySupport config then [TrySipNotify env pkt] else []) @
         (if m_sipDetectSessionProgress config then [TrySipSessionProgress env pkt] else []) @
         (if m_sip302MovedTemporarilySupport config then [TrySip302MovedTemporarily env pkt] else []) @
         [TrySipBye env pkt, TrySipRefer env pkt, TrySipInfo env pkt, TryLogFailedSip env pkt] @
         (if m_sipCallPickUpSupport config then [TrySipSubscribe env pkt] else []))"

definition ParseSipMessage :: "ParserEnv \<Rightarrow> SipPacket \<Rightarrow> detected" where
  "ParseSipMessage env pkt =
     first_useful [TrySipInvite env pkt, TrySip200Ok env pkt, TrySipNotify env pkt, TrySipSessionProgress env pkt,
       TrySip302MovedTemporarily env pkt, TrySipBye env pkt, TrySipRefer env pkt, TrySipInfo env pkt,
       TrySipSubscribe env pkt, TryLogFailedSip env pkt]"

text \<open>The messages of a TCP stream, each with a UDP header made up for it.\<close>

definition message_packet :: "DetectEnv \<Rightarrow> IpPacket \<Rightarrow> u32 \<times> u32 \<Rightarrow> nat \<Rightarrow> string \<Rightarrow> SipPacket" where
  "message_packet env k addresses off message =
     \<lparr>p_mem = message @ de_behind env, p_payload = 0, p_packetEnd = int (length message),
      p_udpLen = word_of_nat (length message + 8), p_src = fst addresses, p_dest = snd addresses,
      p_sourceMac = k_sourceMac k, p_destinationMac = k_destinationMac k, p_offset = off\<rparr>"

fun parse_messages :: "(string \<Rightarrow> detected) \<Rightarrow> string list \<Rightarrow> voip_event list result" where
  "parse_messages parse [] = Inr []"
| "parse_messages parse (m # ms) =
     andThen (parse m) (\<lambda>(useful, events). andThen (parse_messages parse ms) (\<lambda>events'. Inr (events @ events')))"

section \<open>Transport\<close>

text \<open>
  What a packet leads to: the events, the packet that the IAX2 parsers are tried on, if any (theory \<open>Iax2Capture\<close>), and the
  SIP streams over TCP.
\<close>

type_synonym transported = "(voip_event list \<times> IpPacket option \<times> SipTcpStream list) outcome"

definition detect_udp :: "DetectEnv \<Rightarrow> IpPacket \<Rightarrow> int \<Rightarrow> detected" where
  "detect_udp env k udp =
     andThen (TryRtp env k udp) (\<lambda>(useful, events).
     if useful then Inr (True, events)
     else andThen (sip_packet k udp) (\<lambda>pkt.
          andThen (first_useful (sip_over_udp (de_parser env) pkt)) (\<lambda>(useful', events'). Inr (useful', events @ events'))))"

definition DetectUsefulUdpPacket :: "DetectEnv \<Rightarrow> IpPacket \<Rightarrow> (voip_event list \<times> IpPacket option) outcome" where
  "DetectUsefulUdpPacket env k =
     (let udp = k_ip k + k_headerLength k; config = de_config env
      in proceed (Some (transport_ports (k_mem k) udp)) (\<lambda>(source, dest).
         if int (unat source) \<ge> m_udpMinPort config \<and> int (unat dest) \<ge> m_udpMinPort config then
           proceed (Some (detect_udp env k udp)) (\<lambda>(useful, events).
           proceed (if \<not> useful \<and> m_rtcpDetect config then TryRtcp env k udp else Some (Inr (useful, []))) (\<lambda>(useful', events').
           Some (Inr (events @ events', if m_iax2Support config \<and> \<not> useful' then Some k else None))))
         else Some (Inr ([], None))))"

definition tcp_segment :: "IpPacket \<Rightarrow> int \<Rightarrow> TcpSegment result" where
  "tcp_segment k tcp =
     (let mem = k_mem k
      in andThen (tcp_off mem tcp) (\<lambda>off.
         andThen (ip_len mem (k_ip k)) (\<lambda>len.
         andThen (ip_addresses mem (k_ip k)) (\<lambda>(src, dst).
         andThen (transport_ports mem tcp) (\<lambda>(source, dest).
         andThen (read_be32 mem (tcp + 4)) (\<lambda>seq.
         let payload = tcp + 4 * int off
         in Inr \<lparr>TcpSegment.ip_src = src, ip_dest = dst, th_source = source, th_dest = dest, th_seq = seq,
              th_mem = chars_of mem, th_payload = payload, th_payloadLen = k_ip k + int len - payload\<rparr>))))))"

definition detect_sip_tcp :: "DetectEnv \<Rightarrow> IpPacket \<Rightarrow> int \<Rightarrow> SipTcpStream list \<Rightarrow> (bool \<times> voip_event list \<times> SipTcpStream list) outcome" where
  "detect_sip_tcp env k tcp streams =
     proceed (Some (tcp_segment k tcp)) (\<lambda>seg.
     proceed (Some (ip_offset (k_mem k) (k_ip k))) (\<lambda>off.
     case TrySipTcp (de_fuel env) (de_unset env) (pe_now (de_parser env)) seg streams of
       Inl e \<Rightarrow> Some (Inl e)
     | Inr None \<Rightarrow> None
     | Inr (Some (useful, messages, streams')) \<Rightarrow>
         proceed (Some (parse_messages (\<lambda>m. ParseSipMessage (de_parser env)
             (message_packet env k (TcpSegment.ip_src seg, TcpSegment.ip_dest seg) off m)) messages)) (\<lambda>events.
         Some (Inr (useful, events, streams')))))"

text \<open>The text of a TCP packet from its payload on; its length assumes a TCP header of 20 bytes.\<close>

definition extract_url :: "DetectEnv \<Rightarrow> IpPacket \<Rightarrow> int \<Rightarrow> u16 \<Rightarrow> voip_event list result" where
  "extract_url env k tcp dest =
     (let mem = k_mem k; config = de_config env
      in if m_urlExtractorEnable config \<and> int (unat dest) = m_urlExtractorPort config then
           andThen (tcp_off mem tcp) (\<lambda>off.
           andThen (ip_len mem (k_ip k)) (\<lambda>len.
           andThen (ip_hl mem (k_ip k)) (\<lambda>hl.
           andThen (read_chars mem (tcp + 4 * int off) (nat (int len - 4 * int hl - 20))) (\<lambda>urlString.
           andThen (ip_addresses mem (k_ip k)) (\<lambda>(src, dst).
           Inr [Url urlString (if m_urlExtractorEndpointIsSender config then src else dst)])))))
         else Inr [])"

definition find_marker :: "DetectEnv \<Rightarrow> IpPacket \<Rightarrow> int \<Rightarrow> voip_event list result" where
  "find_marker env k tcp =
     (let mem = chars_of (k_mem k); config = de_config env
      in if m_onDemandTcpMarkerKey config \<noteq> [] then
           andThen (tcp_off (k_mem k) tcp) (\<lambda>off.
           andThen (memFindAfter (m_onDemandTcpMarkerKey config) mem (tcp + 4 * int off) (k_end k)) (\<lambda>key.
           case key of None \<Rightarrow> Inr []
           | Some p \<Rightarrow>
               andThen (if m_onDemandTcpMarkerValue config \<noteq> []
                        then memFindAfter (m_onDemandTcpMarkerValue config) mem p (k_end k) else Inr (Some p)) (\<lambda>found.
               if found = None then Inr []
               else andThen (ip_addresses (k_mem k) (k_ip k)) (\<lambda>(src, dst). Inr [OnDemandMarker src]))))
         else Inr [])"

definition scan_skinny :: "DetectEnv \<Rightarrow> IpPacket \<Rightarrow> int \<Rightarrow> u16 \<times> u16 \<Rightarrow> voip_event list result" where
  "scan_skinny env k tcp ports =
     (let mem = k_mem k; config = de_config env
      in andThen (tcp_off mem tcp) (\<lambda>off.
         andThen (ip_addresses mem (k_ip k)) (\<lambda>(src, dst).
         andThen (ScanAllSkinnyMessages
           \<lparr>se_cucm7_1Mode = m_cucm7_1Mode config, se_trackConferences = m_SkinnyTrackConferencesTransfers config,
            se_infoEnabled = de_skinnyInfo env\<rparr> mem (tcp + 4 * int off) (k_end k)
           \<lparr>SkinnyPacket.ip_src = src, ip_dest = dst, tcp_source = fst ports, tcp_dest = snd ports\<rparr>) (\<lambda>(events, mem').
         Inr events))))"

definition DetectUsefulTcpPacket :: "DetectEnv \<Rightarrow> IpPacket \<Rightarrow> SipTcpStream list \<Rightarrow> (voip_event list \<times> SipTcpStream list) outcome" where
  "DetectUsefulTcpPacket env k streams =
     (let tcp = k_ip k + k_headerLength k; config = de_config env
      in proceed (Some (transport_ports (k_mem k) tcp)) (\<lambda>(source, dest).
         proceed
           (if int (unat source) = m_skinnyTcpPort config \<or> int (unat dest) = m_skinnyTcpPort config
            then proceed (Some (scan_skinny env k tcp (source, dest))) (\<lambda>events. Some (Inr (True, events, streams)))
            else if m_sipOverTcpSupport config then detect_sip_tcp env k tcp streams
            else Some (Inr (False, [], streams))) (\<lambda>(useful, events, streams').
         if useful then Some (Inr (events, streams'))
         else proceed (Some (extract_url env k tcp dest)) (\<lambda>urls.
              proceed (Some (find_marker env k tcp)) (\<lambda>markers.
              Some (Inr (events @ urls @ markers, streams')))))))"

definition detect_transport :: "DetectEnv \<Rightarrow> IpPacket \<Rightarrow> SipTcpStream list \<Rightarrow> transported" where
  "detect_transport env k streams =
     proceed (Some (ip_p (k_mem k) (k_ip k))) (\<lambda>protocol.
     if protocol = 17 then proceed (DetectUsefulUdpPacket env k) (\<lambda>(events, iax2). Some (Inr (events, iax2, streams)))
     else if protocol = 6 then
       proceed (DetectUsefulTcpPacket env k streams) (\<lambda>(events, streams'). Some (Inr (events, None, streams')))
     else Some (Inr ([], None, streams)))"

section \<open>Frames\<close>

text \<open>A version 4 at one of five places is enough; the caller's pointer stays where it is.\<close>

fun version4_at :: "u8 list \<Rightarrow> int list \<Rightarrow> bool result" where
  "version4_at mem [] = Inr False"
| "version4_at mem (ip # ips) = andThen (ip_v mem ip) (\<lambda>v. if v = 4 then Inr True else version4_at mem ips)"

definition TryIpPacketV4 :: "u8 list \<Rightarrow> int \<Rightarrow> bool result" where
  "TryIpPacketV4 mem ip = version4_at mem [ip, ip + 2, ip + 4, ip + 6, ip + 18]"

text \<open>The packet of an encapsulated frame, when it has one: its header length is read from \<open>header\<close>.\<close>

definition inner_packet :: "u8 list \<Rightarrow> int \<Rightarrow> u8 list \<Rightarrow> u8 list \<Rightarrow> int \<Rightarrow> IpPacket option result" where
  "inner_packet mem ip sourceMac destinationMac header =
     andThen (TryIpPacketV4 mem ip) (\<lambda>valid.
     if \<not> valid then Inr None
     else andThen (ip_hl mem header) (\<lambda>hl.
          andThen (ip_len mem ip) (\<lambda>len.
          Inr (Some \<lparr>k_mem = mem, k_ip = ip, k_headerLength = 4 * int hl, k_end = ip + int len,
            k_sourceMac = sourceMac, k_destinationMac = destinationMac\<rparr>))))"

definition ProcessVXLANPacket :: "DetectEnv \<Rightarrow> u8 list \<Rightarrow> int \<Rightarrow> int \<Rightarrow> SipTcpStream list \<Rightarrow> transported" where
  "ProcessVXLANPacket env mem ip headerLength streams =
     (let eth = ip + headerLength + 8 + 8; nothing = Some (Inr ([], None, streams))
      in proceed (Some (ethernet_header mem eth)) (\<lambda>(sourceMac, destinationMac, type).
         if type \<noteq> 0x8100 \<and> type \<noteq> 0x0800 \<and> type \<noteq> 0x0806 then nothing
         else let inner = eth + (if type = 0x8100 then 18 else 14)
              in proceed (Some (inner_packet mem inner sourceMac destinationMac inner)) (\<lambda>k. case k of
                   None \<Rightarrow> nothing | Some k \<Rightarrow> detect_transport env k streams)))"

text \<open>GRE with ERSPAN or a bridged frame. The inner packet is given the header length of the outer one.\<close>

definition process_gre :: "DetectEnv \<Rightarrow> u8 list \<Rightarrow> int \<Rightarrow> int \<Rightarrow> SipTcpStream list \<Rightarrow> transported" where
  "process_gre env mem ip headerLength streams =
     (let gre = ip + headerLength; nothing = Some (Inr ([], None, streams))
      in proceed (Some (transport_ports mem gre)) (\<lambda>(flagVersion, protocolType).
         if flagVersion = 0x1000 \<and> protocolType = 0x88BE \<or> flagVersion = 0x2000 \<and> protocolType = 0x6558 then
           (let eth = gre + 8 + (if protocolType = 0x88BE then 8 else 0)
            in proceed (Some (ethernet_header mem eth)) (\<lambda>(sourceMac, destinationMac, type).
               proceed (Some (inner_packet mem (eth + (if type = 0x8100 then 18 else 14)) sourceMac destinationMac ip)) (\<lambda>k.
               case k of None \<Rightarrow> nothing | Some k \<Rightarrow> detect_transport env k streams)))
         else nothing))"

definition ProcessTransportLayer :: "DetectEnv \<Rightarrow> u8 list \<Rightarrow> int \<Rightarrow> u8 list \<Rightarrow> u8 list \<Rightarrow> SipTcpStream list \<Rightarrow> transported" where
  "ProcessTransportLayer env mem ip sourceMac destinationMac streams =
     proceed (Some (ip_hl mem ip)) (\<lambda>hl.
     proceed (Some (ip_len mem ip)) (\<lambda>len.
     proceed (Some (ip_p mem ip)) (\<lambda>protocol.
     let headerLength = 4 * int hl;
         k = \<lparr>k_mem = mem, k_ip = ip, k_headerLength = headerLength, k_end = ip + int len,
              k_sourceMac = sourceMac, k_destinationMac = destinationMac\<rparr>
     in if protocol = 17 then
          proceed (Some (transport_ports mem (ip + headerLength))) (\<lambda>(source, dest).
          if dest = 4789 then ProcessVXLANPacket env mem ip headerLength streams else detect_transport env k streams)
        else if protocol = 47 then process_gre env mem ip headerLength streams
        else detect_transport env k streams)))"

end
