(* ===== verification/PacketCapture.thy ===== *)
theory PacketCapture
  imports PacketDispatch
begin

text \<open>
  \<open>HandlePacket\<close> of \<open>audiocaptureplugins/voip/VoIp.cpp\<close>, the callback of \<open>pcap\<close>, and its composition with the sessions. The
  state is the global state of the module: packet counters, the SIP streams over TCP, the IP fragments and the time of the
  last expiry. The pauses of a file replay, the reports of the statistics to the log, and the reload of the party
  maps from their files are left out; the IAX2 sessions are added in \<open>Iax2Capture\<close>.
\<close>

section \<open>Packet counters\<close>

record PacketStats =
  s_numPackets :: u32
  s_numPacketsPerSecond :: u32
  s_minPacketsPerSecond :: u32
  s_maxPacketsPerSecond :: u32
  s_lastPacketsPerSecondTime :: int
  s_lastPcapStatsReportingTime :: int
  s_numUdpPacketsInUdpMode10s :: u32
  s_numLostUdpPacketsInUdpMode10s :: u32

definition count_captured :: "int \<Rightarrow> PacketStats \<Rightarrow> PacketStats" where
  "count_captured now st =
     (let st1 = st\<lparr>s_numPackets := s_numPackets st + 1, s_numPacketsPerSecond := s_numPacketsPerSecond st + 1\<rparr>
      in if s_lastPacketsPerSecondTime st1 \<noteq> now then
           (let pps = s_numPacketsPerSecond st1;
                st2 = st1\<lparr>s_lastPacketsPerSecondTime := now\<rparr>;
                st3 = (if pps > s_maxPacketsPerSecond st2 then st2\<lparr>s_maxPacketsPerSecond := pps\<rparr> else st2);
                st4 = (if s_minPacketsPerSecond st3 = 0 then st3\<lparr>s_minPacketsPerSecond := pps\<rparr> else st3);
                st5 = (if pps < s_minPacketsPerSecond st4 then st4\<lparr>s_minPacketsPerSecond := pps\<rparr> else st4)
            in st5\<lparr>s_numPacketsPerSecond := 0\<rparr>)
         else st1)"

definition report_stats :: "bool \<Rightarrow> bool \<Rightarrow> int \<Rightarrow> PacketStats \<Rightarrow> PacketStats" where
  "report_stats live encapsulation now st =
     (if live \<and> now - s_lastPcapStatsReportingTime st \<ge> 10 then
        (let st1 = st\<lparr>s_lastPcapStatsReportingTime := now\<rparr>;
             st2 = (if encapsulation then st1\<lparr>s_numUdpPacketsInUdpMode10s := 0, s_numLostUdpPacketsInUdpMode10s := 0\<rparr> else st1)
         in st2\<lparr>s_numPackets := 0, s_maxPacketsPerSecond := 0, s_minPacketsPerSecond := 0\<rparr>)
      else st)"

section \<open>Frames\<close>

record CaptureState =
  cs_stats :: PacketStats
  cs_streams :: "SipTcpStream list"
  cs_fragments :: "WaitAllAndSortAlgorithm FragmentState"
  s_lastHooveringTime :: int

text \<open>
  Where the IP header of a frame is: behind an Ethernet header, or behind a Linux cooked header, which is read as an
  Ethernet header two bytes further on. IPv6 is ignored.
\<close>

definition locate_ip :: "u8 list \<Rightarrow> (u8 list \<times> u8 list \<times> int) option result" where
  "locate_ip mem =
     andThen (ethernet_header mem 0) (\<lambda>(sourceMac, destinationMac, type).
     if type = 0x8100 then Inr (Some (sourceMac, destinationMac, 18))
     else if type = 0x0800 \<or> type = 0x0806 then Inr (Some (sourceMac, destinationMac, 14))
     else if type = 0x86DD then Inr None
     else andThen (ethernet_header mem 2) (\<lambda>(sourceMac', destinationMac', type').
          if type' = 0x8100 then Inr (Some (sourceMac', destinationMac', 20))
          else if type' = 0x86DD then Inr None
          else Inr (Some (sourceMac', destinationMac', 16))))"

text \<open>The checks of the IP header: the whole packet was captured and has more than 20 bytes behind its header.\<close>

definition whole_packet :: "u8 list \<Rightarrow> int \<Rightarrow> int \<Rightarrow> bool result" where
  "whole_packet mem caplen ip =
     andThen (TryIpPacketV4 mem ip) (\<lambda>valid.
     if \<not> valid then Inr False
     else andThen (ip_hl mem ip) (\<lambda>hl.
          andThen (ip_len mem ip) (\<lambda>len.
          let ipPacketEnd = ip + int len
          in Inr (\<not> (caplen < ipPacketEnd \<or> ipPacketEnd \<le> ip + 4 * int hl + 20)))))"

text \<open>A fragment is kept until its packet is complete; the reassembled packet is in a buffer of its own.\<close>

definition process_ip :: "DetectEnv \<Rightarrow> u8 list \<Rightarrow> int \<Rightarrow> u8 list \<Rightarrow> u8 list \<Rightarrow> CaptureState \<Rightarrow>
    (voip_event list \<times> IpPacket option \<times> CaptureState) outcome" where
  "process_ip env mem ip sourceMac destinationMac st =
     (let go = (\<lambda>mem ip st. proceed (ProcessTransportLayer env mem ip sourceMac destinationMac (cs_streams st))
                 (\<lambda>(events, iax2, streams). Some (Inr (events, iax2, st\<lparr>cs_streams := streams\<rparr>))))
      in proceed (Some (read_be16 mem (ip + 6))) (\<lambda>off.
         if m_ipFragmentsReassemble (de_config env) \<and> isFragmented (drop (nat ip) mem) then
           proceed (Some (HandleIpFragment WaitAllAndSort (pe_now (de_parser env)) (drop (nat ip) mem) (cs_fragments st)))
             (\<lambda>(packetData, fragments).
             let st1 = st\<lparr>cs_fragments := fragments\<rparr>
             in case packetData of
                  None \<Rightarrow> Some (Inr ([], None, st1))
                | Some buffer \<Rightarrow> proceed (Some (SizedBuffer_get buffer)) (\<lambda>packet. go packet 0 st1))
         else go mem ip st))"

definition HandlePacket :: "DetectEnv \<Rightarrow> bool \<Rightarrow> int \<Rightarrow> u8 list \<Rightarrow> CaptureState \<Rightarrow>
    (voip_event list \<times> IpPacket option \<times> CaptureState) outcome" where
  "HandlePacket env live caplen mem st =
     (let config = de_config env; now = pe_now (de_parser env);
          st1 = st\<lparr>cs_stats := report_stats live (m_orekaEncapsulationMode config) now (count_captured now (cs_stats st))\<rparr>;
          ignored = Some (Inr ([], None, st1))
      in if m_pcapTest config then ignored
         else proceed (Some (locate_ip mem)) (\<lambda>located. case located of
           None \<Rightarrow> ignored
         | Some (sourceMac, destinationMac, ip) \<Rightarrow>
             proceed (Some (whole_packet mem caplen ip)) (\<lambda>whole.
             if \<not> whole then ignored
             else proceed (Some (ip_addresses mem ip)) (\<lambda>(src, dst).
                  proceed (Some (IsPacketWanted config src dst)) (\<lambda>wanted.
                  if \<not> wanted then ignored
                  else proceed (process_ip env mem ip sourceMac destinationMac st1) (\<lambda>(events, iax2, st2).
                       if now - s_lastHooveringTime st2 > 5
                       then Some (Inr (events @ [Expire now], iax2, st2\<lparr>s_lastHooveringTime := now\<rparr>))
                       else Some (Inr (events, iax2, st2)))))))) "

section \<open>Composition with the sessions\<close>

fun handle_all :: "World \<Rightarrow> voip_event list \<Rightarrow> VoIpSessions \<Rightarrow> VoIpSessions result" where
  "handle_all w [] sessions = Inr sessions"
| "handle_all w (e # es) sessions = andThen (handle w e sessions) (handle_all w es)"

definition capture_packet :: "DetectEnv \<Rightarrow> World \<Rightarrow> bool \<Rightarrow> int \<Rightarrow> u8 list \<Rightarrow> CaptureState \<times> VoIpSessions \<Rightarrow>
    (CaptureState \<times> VoIpSessions) outcome" where
  "capture_packet env w live caplen mem = (\<lambda>(st, sessions).
     proceed (HandlePacket env live caplen mem st) (\<lambda>(events, iax2, st').
     proceed (Some (handle_all w events sessions)) (\<lambda>sessions'.
     Some (Inr (st', sessions')))))"

end
