(* ===== verification/VoipRunProps.thy ===== *)
theory VoipRunProps
  imports VoipRun VoipConfig
begin

text \<open>
  What holds of every state the session tables reach: handlers fault only in three named ways, the tables and the
  sessions agree, expiry removes exactly the idle sessions, and searches find the newest session.
\<close>

section \<open>Stopping leaves other sessions alone\<close>

lemma session_other [simp]:
  "r' \<noteq> r \<Longrightarrow> session (change r f st) r' = session st r'"
  "r' \<noteq> r \<Longrightarrow> session (return_of r c st) r' = session st r'"
  "r' \<noteq> r \<Longrightarrow> session (call g r st) r' = session st r'"
  by (simp_all add: session_def change_def return_of_def call_def)

lemma session_tables [simp]:
  "session (st\<lparr>m_byCallId := a\<rparr>) = session st" "session (st\<lparr>m_byIpAndPort := b\<rparr>) = session st"
  "session (st\<lparr>m_sipReferList := l\<rparr>) = session st"
  by (simp_all add: session_def fun_eq_iff)

lemma fold_Remove_session [simp]: "session (fold (RemoveFromMediaAddressMap r) as st) = session st"
  by (simp add: session_def fun_eq_iff)

lemma VoIpSessions_Stop_others:
  assumes "VoIpSessions_Stop w r st = Inr st'" "r' \<noteq> r"
  shows "session st' r' = session st r'"
proof -
  obtain st1 st2 where tag: "TaggingSipTransferCalls w r st = Inr st1"
    and stop: "call_result (VoIpSession_Stop w) r st1 = Inr st2"
    and st': "session st' r' = session st2 r'"
    using assms by (auto simp: VoIpSessions_Stop_def andThen_eq_Inr_iff Let_def)
  have "session st1 r' = session st r'"
    using tag assms(2) by (auto simp: TaggingSipTransferCalls_def Let_def split: if_splits option.splits)
  moreover have "session st2 r' = session st1 r'"
    using stop assms(2) by (auto simp: call_result_def andThen_eq_Inr_iff)
  ultimately show ?thesis by (simp add: st')
qed

text \<open>
  After stopping each of a list of sessions: the entries of these sessions are gone from the media addresses, the other
  media addresses and sessions are as before, and what is left under a call ID was there before.
\<close>

definition swept :: "nat list \<Rightarrow> VoIpSessions \<Rightarrow> VoIpSessions \<Rightarrow> bool" where
  "swept rs st st' \<longleftrightarrow>
     set (m_byIpAndPort st') = {(a, r) \<in> set (m_byIpAndPort st). r \<notin> set rs} \<and>
     set (m_byCallId st') \<subseteq> {(cid, r) \<in> set (m_byCallId st). cid = '''' \<or> r \<notin> set rs} \<and>
     (\<forall>r. r \<notin> set rs \<longrightarrow> session st' r = session st r)"

lemma Stop_sweeps:
  assumes "config_ok (DLLCONFIG w)" "consistent w st" "r < length (objects st)"
  shows "succeeds (VoIpSessions_Stop w r st) (\<lambda>st'. grows w st st' \<and> swept [r] st st')"
proof -
  obtain st' where st': "VoIpSessions_Stop w r st = Inr st'" "consistent w st'" "unlinked r st st'"
    using VoIpSessions_Stop_unlinks [OF assms] by (auto simp: succeeds_def)
  have entry: "\<forall>(cid, r') \<in> set (m_byCallId st). cid = '''' \<or> m_callId (session st r') = cid"
    using assms(2) by (auto simp: consistent_def coherent_def)
  have "swept [r] st st'"
    using st'(3) entry VoIpSessions_Stop_others [OF st'(1)] by (fastforce simp: swept_def unlinked_def)
  moreover have "grows w st st'"
    using stop_grows [OF assms] st'(1) by (simp add: succeeds_def)
  ultimately show ?thesis using st'(1) by simp
qed

lemma swept_Cons:
  assumes "swept [r] st st1" "swept rs st1 st2"
  shows "swept (r # rs) st st2"
  using assms unfolding swept_def by (auto simp: subset_iff) (blast dest: spec)+

lemma stop_each_sweeps:
  assumes "config_ok (DLLCONFIG w)" "consistent w st" "\<forall>r \<in> set rs. r < length (objects st)"
  shows "succeeds (stop_each w rs st) (swept rs st)"
  using assms(2,3)
proof (induction rs arbitrary: st)
  case (Cons r rs)
  show ?case
    unfolding stop_each.simps
  proof (rule succeeds_andThen [OF Stop_sweeps [OF assms(1) Cons.prems(1)]])
    show "r < length (objects st)" using Cons.prems(2) by simp
    fix st1 assume st1: "grows w st st1 \<and> swept [r] st st1"
    then have "succeeds (stop_each w rs st1) (swept rs st1)"
      using Cons.prems(2) grows_valid [of w st st1] by (intro Cons.IH grows_consistent) auto
    then show "succeeds (stop_each w rs st1) (swept (r # rs) st)"
      using st1 swept_Cons by (auto simp: succeeds_def)
  qed
qed (simp add: swept_def)


section \<open>Expiry\<close>

lemma Hoover_expires_consistent:
  assumes config: "config_ok (DLLCONFIG w)" and con: "consistent w st"
  shows "succeeds (Hoover w now st) (\<lambda>st'.
     (\<forall>(a, r) \<in> set (m_byIpAndPort st'). session st' r = session st r \<and> \<not> expired_rtp w now (session st r)) \<and>
     (\<forall>(cid, r) \<in> set (m_byCallId st'). cid = '''' \<or> \<not> expired_call w now (session st' r)) \<and>
     set (m_byIpAndPort st') \<subseteq> set (m_byIpAndPort st) \<and> set (m_byCallId st') \<subseteq> set (m_byCallId st) \<and>
     (\<forall>(a, r) \<in> set (m_byIpAndPort st). \<not> expired_rtp w now (session st r) \<and> \<not> expired_call w now (session st r) \<longrightarrow>
        (a, r) \<in> set (m_byIpAndPort st') \<and> session st' r = session st r))"
proof -
  let ?idle = "filter (\<lambda>r. expired_rtp w now (session st r)) (map snd (m_byIpAndPort st))"
  let ?quiet = "\<lambda>st1. filter (\<lambda>r. expired_call w now (session st1 r)) (map snd (m_byCallId st1))"
  have idle: "\<forall>r \<in> set ?idle. r < length (objects st)" using entries_valid(1) [OF con] by auto
  obtain st1 where st1: "stop_each w ?idle st = Inr st1" "swept ?idle st st1" "grows w st st1"
    using stop_each_sweeps [OF config con idle] stop_each_grows [OF config con idle] by (auto simp: succeeds_def)
  note con1 = grows_consistent [OF st1(3)]
  have quiet: "\<forall>r \<in> set (?quiet st1). r < length (objects st1)" using entries_valid(2) [OF con1] by auto
  obtain st2 where st2: "stop_each w (?quiet st1) st1 = Inr st2" "swept (?quiet st1) st1 st2"
    using stop_each_sweeps [OF config con1 quiet] by (auto simp: succeeds_def)
  have result: "Hoover w now st = Inr st2" by (simp add: Hoover_def st1(1) st2(1))
  have left1: "(a, r) \<in> set (m_byIpAndPort st1) \<longleftrightarrow> (a, r) \<in> set (m_byIpAndPort st) \<and> \<not> expired_rtp w now (session st r)" for a r
    using st1(2) by (force simp: swept_def)
  have left2: "(a, r) \<in> set (m_byIpAndPort st2) \<longleftrightarrow> (a, r) \<in> set (m_byIpAndPort st1) \<and> r \<notin> set (?quiet st1)" for a r
    using st2(2) by (auto simp: swept_def)
  have same: "r \<notin> set ?idle \<Longrightarrow> session st1 r = session st r" "r \<notin> set (?quiet st1) \<Longrightarrow> session st2 r = session st1 r" for r
    using st1(2) st2(2) by (simp_all add: swept_def)
  have rtp: "session st2 r = session st r \<and> \<not> expired_rtp w now (session st r)" if "(a, r) \<in> set (m_byIpAndPort st2)" for a r
    using that left1 [of a r] left2 [of a r] same [of r] by auto
  have called: "cid = '''' \<or> \<not> expired_call w now (session st2 r)" if "(cid, r) \<in> set (m_byCallId st2)" for cid r
  proof -
    have "(cid, r) \<in> set (m_byCallId st1)" "cid = '''' \<or> r \<notin> set (?quiet st1)"
      using that st2(2) by (auto simp: swept_def)
    then show ?thesis using same(2) [of r] by force
  qed
  have subset: "set (m_byIpAndPort st2) \<subseteq> set (m_byIpAndPort st)" "set (m_byCallId st2) \<subseteq> set (m_byCallId st)"
    using left1 left2 st1(2) st2(2) by (auto simp: swept_def)
  have kept: "(a, r) \<in> set (m_byIpAndPort st2) \<and> session st2 r = session st r"
    if "(a, r) \<in> set (m_byIpAndPort st)" "\<not> expired_rtp w now (session st r)" "\<not> expired_call w now (session st r)" for a r
  proof -
    have "session st1 r = session st r" using that(2) by (intro same(1)) simp
    with that have "r \<notin> set (?quiet st1)" by simp
    with that left1 [of a r] left2 [of a r] same(2) [of r] \<open>session st1 r = session st r\<close> show ?thesis by simp
  qed
  show ?thesis unfolding result succeeds_Inr using rtp called subset kept by blast
qed


section \<open>A concrete run\<close>

text \<open>The default configuration, a clock, and an RTP packet between two hosts.\<close>

definition example_world :: World where
  "example_world = \<lparr>DLLCONFIG = VoIpConfig.truncate default_settings, CONFIG = default_OrkConfig, now_us = 1700000000000000,
     local_time = (\<lambda>_. (2023, 11, 14, 22, 13, 20)), decoded_db = (\<lambda>_ _. 0),
     uninit = \<lparr>u_localIp = 0, u_remoteIp = 0, u_endPointIp = 0, u_endPointSignallingPort = 0, u_holdBegin = 0,
       u_ssrcCandidateTimestamp = 0, u_endpointInfoIp = 0, u_endpointInfoPort = 0\<rparr>\<rparr>"

definition example_rtp :: RtpPacketInfo where
  "example_rtp = \<lparr>m_sourceMac = [], m_destMac = [], m_sourceIp = 0x0A000001, m_destIp = 0x0A000002,
     m_sourcePort = 5000, m_destPort = 6000, m_payloadType = 0, m_payload = [], m_seqNum = 7, m_ssrc = 9, m_rtpTimestamp = 160,
     m_arrivalTimestamp = 1700000000\<rparr>"

lemma AlphaCounter_GetNext_int [code]:
  "AlphaCounter_GetNext n =
     (let i = int n; counter = (if i + 1 \<ge> 456976 then 0 else i + 1); remains = counter mod 17576; remains2 = remains mod 676
      in ([char_of (nat (counter div 17576) + 65), char_of (nat (remains div 676) + 65),
           char_of (nat (remains2 div 26) + 65), char_of (nat (remains2 mod 26) + 65)], nat counter))"
  by (simp add: AlphaCounter_GetNext_def Let_def nat_div_distrib nat_mod_distrib nat_add_distrib)

lemma example_first_packet:
  "\<exists>st. handle example_world (Rtp example_rtp) (new_VoIpSessions 0) = Inr st \<and> m_byIpAndPort st = [(0x200000A1770, 0)] \<and>
     m_lastUpdated (session st 0) = 1700000000 \<and> m_protocol (session st 0) = ProtRawRtp"
proof -
  have "case handle example_world (Rtp example_rtp) (new_VoIpSessions 0) of
      Inr st \<Rightarrow> m_byIpAndPort st = [(0x200000A1770, 0)] \<and> m_lastUpdated (session st 0) = 1700000000 \<and>
        m_protocol (session st 0) = ProtRawRtp
    | Inl _ \<Rightarrow> False"
    by code_simp
  then show ?thesis by (auto split: sum.splits)
qed

lemma example_config [simp]: "DLLCONFIG example_world = VoIpConfig.truncate default_settings"
  by (simp add: example_world_def)

lemma example_reachable:
  assumes "handle example_world (Rtp example_rtp) (new_VoIpSessions 0) = Inr st"
  shows "voip_reachable (VoIpConfig.truncate default_settings) st"
  by (rule voip_reachable.event [OF voip_reachable.start _ _ assms]) (simp_all add: delivered_def packet_ok_def example_rtp_def default_settings_simps VoIpConfig.truncate_def)

section \<open>Properties\<close>

text \<open>C1: In every reachable state, every message, packet, command and tick is handled without a null dereference, an access out
  of bounds or an exception, and leads to a reachable state, with three exceptions that are characterised exactly: an
  error response other than 407 for a call whose session has no INVITE is a null dereference, a NOTIFY that stores or
  reads a held party under a key outside of the array is an access out of bounds, and a URL with an incomplete escape
  throws. An INVITE has the payload map its parser builds, an RTP packet a type below 128, and below 127 where sessions
  are configured to start on the activity of the second side.\<close>

theorem voip_sessions_safe:
  assumes "config_ok config" "voip_reachable config st" "DLLCONFIG w = config" "delivered w e"
  shows "case fault_of w e st of
     None \<Rightarrow> \<exists>st'. handle w e st = Inr st' \<and> voip_reachable config st'
   | Some f \<Rightarrow> handle w e st = Inl f"
proof -
  have "consistent w st" by (rule voip_reachable_consistent [OF assms(2,1,3)])
  then show ?thesis
    using handle_cases [of w st e] voip_reachable.event [OF assms(2-4)] assms(1,3,4) by (auto simp: succeeds_def split: option.splits)
qed

text \<open>The session of the packet is expired, a percent sign at the end of a URL throws.\<close>

theorem voip_sessions_safe_witness:
  "\<exists>st st'. handle example_world (Rtp example_rtp) (new_VoIpSessions 0) = Inr st \<and>
     handle example_world (Expire 1700001000) st = Inr st' \<and> voip_reachable (VoIpConfig.truncate default_settings) st' \<and>
     handle example_world (Url ''k=v%'' 7) st = Inl (Thrown ''out_of_range'')"
proof -
  obtain st where st: "handle example_world (Rtp example_rtp) (new_VoIpSessions 0) = Inr st" using example_first_packet by blast
  note safe = voip_sessions_safe [OF default_config_ok example_reachable [OF st] example_config]
  have "\<not> url_ok ''k=v%''" by code_simp
  then show ?thesis
    using st safe [of "Expire 1700001000"] safe [of "Url ''k=v%'' 7"] by (auto simp: delivered_def fault_of_def)
qed

text \<open>C4: In every reachable state the tables are maps (distinct keys, in order) to existing sessions; a media address leads to
  a session that lists it (as its current one, unless several are allowed), a call ID to the session of this call; a SIP
  session has its INVITE, and its payload map has 32 entries that all have a decoder.\<close>

theorem voip_tables_typed:
  assumes "config_ok config" "voip_reachable config st"
  shows "map_sorted (m_byIpAndPort st) \<and> map_sorted (m_byCallId st) \<and>
     (\<forall>(a, r) \<in> set (m_byIpAndPort st). r < length (objects st) \<and> a \<in> set (m_mediaAddresses (session st r)) \<and>
        (m_rtpAllowMultipleMappings config \<or> a = m_ipAndPort (session st r))) \<and>
     (\<forall>(cid, r) \<in> set (m_byCallId st). r < length (objects st) \<and> (cid = '''' \<or> m_callId (session st r) = cid)) \<and>
     (\<forall>ss \<in> set (objects st). (m_protocol ss = ProtSip \<longrightarrow> m_invite ss \<noteq> None) \<and>
        length (m_orekaRtpPayloadTypeMap ss) = 32 \<and> decoders_ok (m_sessionStartsOnS2ActivityDb config) ss)"
proof -
  have "consistent (example_world\<lparr>DLLCONFIG := config\<rparr>) st"
    by (rule voip_reachable_consistent [OF assms(2,1)]) simp
  then show ?thesis by (fastforce simp: consistent_def coherent_def knows_address_def wf_session_def decoders_ok_def)
qed

theorem voip_tables_typed_witness:
  "\<exists>st. handle example_world (Rtp example_rtp) (new_VoIpSessions 0) = Inr st \<and>
     0x200000A1770 \<in> set (m_mediaAddresses (session st 0)) \<and> length (m_orekaRtpPayloadTypeMap (session st 0)) = 32"
proof -
  obtain st where st: "handle example_world (Rtp example_rtp) (new_VoIpSessions 0) = Inr st"
    "m_byIpAndPort st = [(0x200000A1770, 0)]" using example_first_packet by blast
  have "0 < length (objects st)" "session st 0 \<in> set (objects st) \<or> objects st = []"
    using voip_tables_typed [OF default_config_ok example_reachable [OF st(1)]] st(2) by (auto simp: session_def)
  then show ?thesis using voip_tables_typed [OF default_config_ok example_reachable [OF st(1)]] st by auto
qed

text \<open>C5: After expiry no session reached by media address has been idle longer than its time-out (by kind of session, hold
  state and whether RTP was seen), nor any reached by call ID; nothing is added, and a session within both time-outs
  keeps all its media addresses and is not touched.\<close>

theorem Hoover_expires:
  assumes "config_ok config" "voip_reachable config st" "DLLCONFIG w = config"
  shows "\<exists>st'. Hoover w now st = Inr st' \<and>
     (\<forall>(a, r) \<in> set (m_byIpAndPort st'). session st' r = session st r \<and> \<not> expired_rtp w now (session st r)) \<and>
     (\<forall>(cid, r) \<in> set (m_byCallId st'). cid = '''' \<or> \<not> expired_call w now (session st' r)) \<and>
     set (m_byIpAndPort st') \<subseteq> set (m_byIpAndPort st) \<and> set (m_byCallId st') \<subseteq> set (m_byCallId st) \<and>
     (\<forall>(a, r) \<in> set (m_byIpAndPort st). \<not> expired_rtp w now (session st r) \<and> \<not> expired_call w now (session st r) \<longrightarrow>
        (a, r) \<in> set (m_byIpAndPort st') \<and> session st' r = session st r)"
  using Hoover_expires_consistent [OF _ voip_reachable_consistent [OF assms(2,1,3)]] assms by (simp add: succeeds_def)

theorem Hoover_expires_witness:
  "\<exists>st st'. handle example_world (Rtp example_rtp) (new_VoIpSessions 0) = Inr st \<and> m_byIpAndPort st = [(0x200000A1770, 0)] \<and>
     Hoover example_world 1700001000 st = Inr st' \<and> m_byIpAndPort st' = []"
proof -
  obtain st where st: "handle example_world (Rtp example_rtp) (new_VoIpSessions 0) = Inr st"
    "m_byIpAndPort st = [(0x200000A1770, 0)]" "m_lastUpdated (session st 0) = 1700000000" "m_protocol (session st 0) = ProtRawRtp"
    using example_first_packet by blast
  note one = Hoover_expires [OF default_config_ok example_reachable [OF st(1)] example_config, of 1700001000]
  have "expired_rtp example_world 1700001000 (session st 0)"
    by (simp add: expired_rtp_def st example_world_def default_settings_simps VoIpConfig.truncate_def)
  then show ?thesis using one st by (cases "m_byIpAndPort (projr (Hoover example_world 1700001000 st))") (auto simp: subset_iff)
qed


section \<open>Searches for the newest session\<close>

text \<open>The first of the candidates whose time no other candidate exceeds.\<close>

definition newest :: "(nat \<Rightarrow> bool) \<Rightarrow> (nat \<Rightarrow> int) \<Rightarrow> nat list \<Rightarrow> nat option" where
  "newest candidate time rs = List.find (\<lambda>r. \<forall>s \<in> set (filter candidate rs). time s \<le> time r) (filter candidate rs)"

lemma newest_loop_found:
  "newest_loop candidate time rs (Some s) =
     List.find (\<lambda>r. \<forall>x \<in> set (s # filter candidate rs). time x \<le> time r) (s # filter candidate rs)"
proof (induction rs arbitrary: s)
  case (Cons r rs)
  let ?cs = "filter candidate rs"
  show ?case
  proof (cases "candidate r \<and> time r > time s")
    case True
    have "(\<forall>x \<in> set (s # r # ?cs). time x \<le> time y) = (\<forall>x \<in> set (r # ?cs). time x \<le> time y)" for y
      using True by auto
    moreover have "\<not> (\<forall>x \<in> set (r # ?cs). time x \<le> time s)" using True by auto
    ultimately show ?thesis using True Cons.IH [of r] by simp
  next
    case False
    have "(\<forall>x \<in> set (s # r # ?cs). time x \<le> time y) = (\<forall>x \<in> set (s # ?cs). time x \<le> time y)" if "candidate r" for y
      using False that by auto
    moreover have "(\<forall>x \<in> set (s # ?cs). time x \<le> time r) \<Longrightarrow> (\<forall>x \<in> set (s # ?cs). time x \<le> time s)" if "candidate r"
      using False that by auto
    ultimately show ?thesis using False Cons.IH [of s] by auto
  qed
qed simp

lemma newest_loop_newest: "newest_loop candidate time rs None = newest candidate time rs"
  by (induction rs) (auto simp: newest_def newest_loop_found)

text \<open>C39: The loops that search the call table by endpoint and by sender return the session a sort by time would: the first, in the
  order of call IDs, among the sessions of this endpoint (or whose INVITE came from this address) whose last call info (last
  INVITE) is the newest, and nothing exactly when there is none; the second search needs an INVITE in every session.\<close>

theorem newest_session_searches:
  "findNewestByEndpoint w st ip port =
     newest (\<lambda>r. m_endPointIp (session st r) = ip \<and>
         (if m_skinnyBehindNat (DLLCONFIG w) then m_endPointSignallingPort (session st r) = port else True))
       (\<lambda>r. m_skinnyLastCallInfoTime (session st r)) (map snd (m_byCallId st)) \<and>
   SipfindNewestBySenderIp st ip =
     (if \<exists>(cid, r) \<in> set (m_byCallId st). m_invite (session st r) = None then Inl NullDereference
      else Inr (newest (\<lambda>r. map_option SipInviteInfo.m_senderIp (m_invite (session st r)) = Some ip)
        (\<lambda>r. m_sipLastInvite (session st r)) (map snd (m_byCallId st))))"
  by (auto simp: findNewestByEndpoint_def SipfindNewestBySenderIp_def newest_loop_newest list_ex_iff Let_def if_bool_eq_conj)

end
