(* ===== verification/PacketDispatchProps.thy ===== *)
theory PacketDispatchProps
  imports PacketCapture VoipRunProps
begin

text \<open>
  The UDP path from the frame to the session tables: reading inside the frame, what the parsers report, and the loop over
  the items of an RTCP source description.
\<close>

section \<open>Reading a frame\<close>

lemma unat_be16: "unat (256 * ucast (a :: u8) + ucast (b :: u8) :: u16) = unat a * 256 + unat b"
proof -
  have "unat a < 2 ^ LENGTH(8)" "unat b < 2 ^ LENGTH(8)" by (rule unsigned_less)+
  moreover from this have "unat (ucast a :: u16) = unat a" "unat (ucast b :: u16) = unat b"
    by (simp_all add: unsigned_ucast_eq take_bit_nat_eq_self)
  ultimately show ?thesis by (simp add: unat_word_ariths)
qed

lemma read_be16_at:
  assumes "0 \<le> p" "p + 1 < int (length mem)"
  shows "\<exists>w. read_be16 mem p = Inr w \<and> unat w = ntohs_at mem (nat p)"
proof -
  have "nat (p + 1) = Suc (nat p)" using assms by simp
  then show ?thesis using assms by (simp add: read_be16_def ntohs_at_def unat_be16)
qed

lemma safe_read_be16 [safe]:
  "0 \<le> p \<Longrightarrow> p + 1 < int (length mem) \<Longrightarrow> memory_safe (read_be16 mem p) (\<lambda>w. unat w = ntohs_at mem (nat p))"
  using read_be16_at [of p mem] by auto

lemma safe_read_be32 [safe]:
  assumes "0 \<le> p" "p + 3 < int (length mem)"
  shows "memory_safe (read_be32 mem p) (\<lambda>_. True)"
  unfolding read_be32_def
  by (rule safe_andThen [OF safe_read_be16], use assms in simp, use assms in simp,
      rule safe_andThen [OF safe_read_be16]) (use assms in simp_all)

lemma safe_byte: "0 \<le> p \<Longrightarrow> p < int (length mem) \<Longrightarrow> memory_safe (peek mem p) (\<lambda>_. True)"
  by simp

lemma safe_slice: "0 \<le> p \<Longrightarrow> p + int n \<le> int (length mem) \<Longrightarrow> memory_safe (mem_slice mem p n) (\<lambda>_. True)"
  by (simp add: mem_slice_ok)

lemma safe_header_fields [safe]:
  "0 \<le> p \<Longrightarrow> p + 3 < int (length mem) \<Longrightarrow> memory_safe (ip_len mem p) (\<lambda>n. n = ntohs_at mem (nat (p + 2)))"
  "0 \<le> p \<Longrightarrow> p + 19 < int (length mem) \<Longrightarrow> memory_safe (ip_addresses mem p) (\<lambda>_. True)"
  "0 \<le> p \<Longrightarrow> p + 7 < int (length mem) \<Longrightarrow> memory_safe (ip_offset mem p) (\<lambda>_. True)"
  "0 \<le> p \<Longrightarrow> p + 3 < int (length mem) \<Longrightarrow> memory_safe (transport_ports mem p) (\<lambda>_. True)"
  "0 \<le> p \<Longrightarrow> p + 5 < int (length mem) \<Longrightarrow> memory_safe (udp_len mem p) (\<lambda>w. unat w = ntohs_at mem (nat (p + 4)))"
  unfolding ip_len_def ip_addresses_def ip_offset_def transport_ports_def udp_len_def
  by ((rule safe_andThen, rule safe, simp, simp) | (rule safe; simp) | (simp; fail))+

section \<open>What parsers report\<close>

definition reports :: "(voip_event \<Rightarrow> bool) \<Rightarrow> parsed \<Rightarrow> bool" where
  "reports P m \<longleftrightarrow> (case m of Inr (_, Some e) \<Rightarrow> P e | _ \<Rightarrow> True)"

lemma reports_simps [simp]:
  "reports P (Inl fault)" "reports P (Inr (b, None))" "reports P (Inr (b, Some e)) \<longleftrightarrow> P e"
  by (simp_all add: reports_def)

lemma reports_andThen: "(\<And>x. reports P (f x)) \<Longrightarrow> reports P (andThen m f)"
  by (cases m) simp_all

lemma reports_cases:
  "(b \<Longrightarrow> reports P m) \<Longrightarrow> (\<not> b \<Longrightarrow> reports P m') \<Longrightarrow> reports P (if b then m else m')"
  "(\<And>a b. reports P (g a b)) \<Longrightarrow> reports P (case x of (a, b) \<Rightarrow> g a b)"
  "reports P n \<Longrightarrow> (\<And>y. reports P (h y)) \<Longrightarrow> reports P (case z of None \<Rightarrow> n | Some y \<Rightarrow> h y)"
  by (auto split: prod.split option.split)

text \<open>Events that every state of the sessions can handle, unless sessions start on the activity of the second side.\<close>

definition fine :: "voip_event \<Rightarrow> bool" where
  "fine e \<longleftrightarrow> (case e of SipInvite i \<Rightarrow> invite_ok i | Rtp p \<Rightarrow> m_payloadType p < 128 | SipFailure i \<Rightarrow> False | SipNotify i \<Rightarrow> False
     | Url input ip \<Rightarrow> False | _ \<Rightarrow> True)"

lemma fine_ok: "fine e \<Longrightarrow> m_sessionStartsOnS2ActivityDb (DLLCONFIG w) = 0 \<Longrightarrow> delivered w e \<and> fault_of w e st = None"
  by (cases e) (simp_all add: fine_def delivered_def fault_of_def packet_ok_def)

lemma parsers_report_fine:
  "reports fine (TrySipBye env pkt)" "reports fine (TrySipInfo env pkt)" "reports fine (TrySipRefer env pkt)"
  "reports fine (TrySipSessionProgress env pkt)" "reports fine (TrySip200Ok env pkt)" "reports fine (TrySip302MovedTemporarily env pkt)"
  unfolding TrySipBye_def read_bye_def TrySipInfo_def read_info_def TrySipRefer_def read_refer_def TrySipSessionProgress_def
    read_session_progress_def TrySip200Ok_def read_200_ok_def TrySip302MovedTemporarily_def read_302_def Let_def
  by (intro reports_andThen reports_cases; simp add: fine_def)+

lemma invite_reports: "reports (\<lambda>e. \<exists>i. e = SipInvite i) (TrySipInvite env pkt)"
  unfolding TrySipInvite_def read_invite_def Let_def
  by (intro reports_andThen reports_cases; simp)+

text \<open>A parser that is safe and whose report is fine.\<close>

abbreviation all_fine :: "bool \<times> voip_event list \<Rightarrow> bool" where
  "all_fine \<equiv> \<lambda>(useful, events). list_all fine events"

lemma safe_reports: "memory_safe m (\<lambda>_. True) \<Longrightarrow> reports P m \<Longrightarrow> memory_safe m (\<lambda>(u, e). pred_option P e)"
  by (auto simp: memory_safe_def reports_def split: sum.splits fault.splits option.splits)

lemma invite_safe_fine:
  "parser_env_ok env \<Longrightarrow> packet_memory pkt n \<Longrightarrow> memory_safe (TrySipInvite env pkt) (\<lambda>(u, e). pred_option fine e)"
  using TrySipInvite_safe [of env pkt n] invite_reports [of env pkt]
  by (auto simp: memory_safe_def reports_def reported_ok_def fine_def split: sum.splits fault.splits option.splits)

lemma first_useful_safe:
  "list_all (\<lambda>p. memory_safe p (\<lambda>(u, e). pred_option fine e)) ps \<Longrightarrow> memory_safe (first_useful ps) all_fine"
proof (induction ps)
  case (Cons p ps)
  then have "memory_safe p (\<lambda>(u, e). pred_option fine e)" "memory_safe (first_useful ps) all_fine" by simp_all
  then show ?case
    by (auto simp: memory_safe_def andThen_def split: sum.splits fault.splits option.splits)
qed simp

section \<open>UDP packets\<close>

text \<open>
  A frame with a NUL at \<open>n\<close>, not before the ends of the packet that the IP and the UDP header announce, and 50 readable bytes
  behind it.
\<close>

definition udp_frame :: "IpPacket \<Rightarrow> int \<Rightarrow> bool" where
  "udp_frame k n \<longleftrightarrow> (let udp = k_ip k + k_headerLength k; mem = k_mem k
     in terminated (chars_of mem) n \<and> n + 50 < int (length mem) \<and> 0 \<le> k_ip k \<and> 20 \<le> k_headerLength k \<and> udp + 8 \<le> n \<and>
        0 \<le> k_end k \<and> k_end k \<le> n \<and> k_ip k + int (ntohs_at mem (nat (k_ip k + 2))) \<le> n \<and>
        udp + int (ntohs_at mem (nat (udp + 4))) \<le> n)"

text \<open>The features of the default configuration.\<close>

definition plain_config :: "VoIpSettings \<Rightarrow> bool" where
  "plain_config config \<longleftrightarrow> \<not> m_sipNotifySupport config \<and> \<not> m_sipLogFailedCalls config \<and> \<not> m_sipCallPickUpSupport config \<and>
     \<not> m_rtcpDetect config \<and> m_sessionStartsOnS2ActivityDb config = 0 \<and> ranges_ok (m_rtpBlockedIpRanges config)"

lemma plain_config_default: "plain_config default_settings"
  by (simp add: plain_config_def default_settings_simps ranges_ok_def no_ranges_def)

lemma Matches_safe: "ranges_ok r \<Longrightarrow> memory_safe (IpRanges_Matches r ip) (\<lambda>_. True)"
  using Matches_succeeds [of r ip] by (auto simp: succeeds_def)

lemma safe_rtp_payload:
  assumes "0 \<le> rtp" "rtp + 15 < int (length mem)" "unat b0 mod 16 = 0"
  shows "memory_safe (rtp_payload mem rtp b0) (\<lambda>payload. rtp + 12 \<le> payload)"
proof -
  have "memory_safe (read_be16 mem (rtp + 12 + 2)) (\<lambda>_. True)"
    by (rule memory_safe_mono [OF safe_read_be16]) (use assms in simp_all)
  then have "memory_safe (andThen (read_be16 mem (rtp + 12 + 2)) (\<lambda>len. Inr (rtp + (12 + 4 * (int (unat len) + 1))))) (\<lambda>payload. rtp + 12 \<le> payload)"
    by (rule safe_andThen) (simp del: of_nat_unat)
  then show ?thesis using assms(3) by (simp add: rtp_payload_def)
qed

lemma report_rtp_safe:
  assumes "0 \<le> k_ip k" "k_ip k + 20 \<le> rtp" "rtp + 15 < int (length (k_mem k))" "unat b0 mod 16 = 0" "pt < 128"
    and "k_ip k + int (ntohs_at (k_mem k) (nat (k_ip k + 2))) \<le> int (length (k_mem k))"
  shows "memory_safe (report_rtp env k rtp b0 source dest pt addresses) all_fine"
  unfolding report_rtp_def Let_def
proof (rule safe_andThen [OF safe_rtp_payload], use assms in simp, use assms in simp, rule assms(4), rule safe_andThen [OF safe_header_fields(1)],
    use assms in simp, use assms in simp, rule safe_if, simp, rule safe_andThen [OF safe_read_be16], use assms in simp, use assms in simp,
    rule safe_andThen [OF safe_read_be32], use assms in simp, use assms in simp, rule safe_andThen [OF safe_read_be32], use assms in simp,
    use assms in simp, rule safe_if)
  fix payload len seq ts ssrc
  assume payload: "rtp + 12 \<le> payload" "len = ntohs_at (k_mem k) (nat (k_ip k + 2))" "\<not> k_ip k + int len \<le> payload"
  show "memory_safe (andThen (mem_slice (k_mem k) payload (nat (k_ip k + int len - payload))) (\<lambda>bytes.
      Inr (True, [Rtp \<lparr>m_sourceMac = k_sourceMac k, m_destMac = k_destinationMac k,
        RtpPacketInfo.m_sourceIp = fst addresses, m_destIp = snd addresses, m_sourcePort = source, m_destPort = dest, m_payloadType = pt,
        m_payload = bytes, m_seqNum = seq, m_ssrc = ssrc, m_rtpTimestamp = ts, m_arrivalTimestamp = pe_now (de_parser env)\<rparr>]))) all_fine"
    by (rule safe_andThen [OF safe_slice]) (use payload assms in \<open>auto simp: fine_def\<close>)
qed simp_all


lemma chars_of_simps [simp]: "length (chars_of mem) = length mem"
  by (simp add: chars_of_def)

lemma udp_frameD:
  assumes "udp_frame k n"
  defines "udp \<equiv> k_ip k + k_headerLength k"
  shows "terminated (chars_of (k_mem k)) n" "n + 50 < int (length (k_mem k))" "0 \<le> k_ip k" "k_ip k + 20 \<le> udp" "udp + 8 \<le> n"
    "0 \<le> k_end k" "k_end k \<le> n" "k_ip k + int (ntohs_at (k_mem k) (nat (k_ip k + 2))) \<le> n"
    "udp + int (ntohs_at (k_mem k) (nat (udp + 4))) \<le> n"
  using assms by (auto simp: udp_frame_def Let_def)

lemma TryRtp_safe:
  assumes frame: "udp_frame k n" and config: "plain_config (de_config env)"
  shows "memory_safe (TryRtp env k (k_ip k + k_headerLength k)) all_fine"
proof -
  let ?udp = "k_ip k + k_headerLength k"
  note f = udp_frameD [OF frame]
  note c = config [unfolded plain_config_def]
  have drop: "memory_safe (drop_rtp env k (?udp + 8) b0) all_fine" if "unat b0 mod 16 = 0" for b0
    unfolding drop_rtp_def
    by (rule safe_if, rule safe_andThen [OF safe_rtp_payload], use f in simp, use f in simp, rule that,
        rule safe_andThen [OF safe_header_fields(1)]) (use f in simp_all)
  have report: "memory_safe (report_rtp env k (?udp + 8) b0 source dest pt a) all_fine"
    if "unat b0 mod 16 = 0" "pt < 128" for b0 source dest pt a
    by (rule report_rtp_safe [OF _ _ _ that]) (use f in simp_all)
  show ?thesis
    unfolding TryRtp_def Let_def
    apply (rule safe_andThen [OF safe_header_fields(5)], use f in simp, use f in simp)
    apply (rule safe_if, simp, rule safe_andThen [OF safe_byte], use f in simp, use f in simp)
    apply (rule safe_if)
     apply (rule safe_andThen [OF safe_header_fields(4)], use f in simp, use f in simp)
     apply (rule safe_case_prod', rule safe_if, rule safe_andThen [OF safe_byte], use f in simp, use f in simp)
      apply (rule safe_if, rule drop, blast)
      apply (rule safe_if, rule safe_andThen [OF safe_header_fields(2)], use f in simp, use f in simp)
       apply (rule safe_case_prod', rule safe_andThen_any [OF Matches_safe], use c in simp)
       apply (rule safe_andThen_any, rule safe_if, simp, rule Matches_safe, use c in simp)
       apply (rule safe_if, simp, rule report, blast, simp)
      apply simp_all
    done
qed

lemma sip_packet_safe:
  assumes frame: "udp_frame k n"
  shows "memory_safe (sip_packet k (k_ip k + k_headerLength k)) (\<lambda>pkt. packet_memory pkt n)"
proof -
  note f = udp_frameD [OF frame]
  show ?thesis
    unfolding sip_packet_def Let_def
    by (rule safe_andThen [OF safe_header_fields(5)], use f in simp, use f in simp, rule safe_andThen [OF safe_header_fields(2)], use f in simp,
        use f in simp, rule safe_case_prod', rule safe_andThen [OF safe_header_fields(3)], use f in simp, use f in simp)
      (use f in \<open>simp add: packet_memory_def inside_def sip_end_def sip_length_def del: of_nat_unat\<close>)
qed

lemma sip_over_udp_safe:
  assumes env: "parser_env_ok env" and config: "plain_config (pe_config env)" and pkt: "packet_memory pkt n"
  shows "memory_safe (first_useful (sip_over_udp env pkt)) all_fine"
proof (rule first_useful_safe)
  note safe = other_parsers_safe [OF env pkt] and fine = parsers_report_fine [of env pkt]
  have "TryLogFailedSip env pkt = Inr (False, None)" using config by (simp add: TryLogFailedSip_def plain_config_def)
  then show "list_all (\<lambda>p. memory_safe p (\<lambda>(u, e). pred_option fine e)) (sip_over_udp env pkt)"
    using config invite_safe_fine [OF env pkt] safe_reports [OF safe(1) fine(1)] safe_reports [OF safe(3) fine(2)]
      safe_reports [OF safe(8) fine(3)] safe_reports [OF safe(5) fine(4)] safe_reports [OF safe(6) fine(5)] safe_reports [OF safe(7) fine(6)]
    by (simp add: sip_over_udp_def Let_def plain_config_def)
qed

lemma detect_udp_safe:
  assumes env: "parser_env_ok (de_parser env)" and config: "plain_config (de_config env)" and frame: "udp_frame k n"
  shows "memory_safe (detect_udp env k (k_ip k + k_headerLength k)) all_fine"
proof -
  have sip: "memory_safe (first_useful (sip_over_udp (de_parser env) pkt)) all_fine" if "packet_memory pkt n" for pkt
    using sip_over_udp_safe [OF env _ that] config by (simp add: de_config_def)
  have rest: "memory_safe (if u then Inr (True, es) else andThen (sip_packet k (k_ip k + k_headerLength k)) (\<lambda>pkt.
      andThen (first_useful (sip_over_udp (de_parser env) pkt)) (\<lambda>(u', es'). Inr (u', es @ es')))) all_fine"
    if "list_all fine es" for u es
    by (rule safe_if, use that in simp, rule safe_andThen [OF sip_packet_safe [OF frame]], rule safe_andThen [OF sip], assumption)
      (use that in auto)
  show ?thesis
    unfolding detect_udp_def by (rule safe_andThen [OF TryRtp_safe [OF frame config]]) (use rest in auto)
qed

lemma DetectUsefulUdpPacket_safe:
  assumes env: "parser_env_ok (de_parser env)" and config: "plain_config (de_config env)" and frame: "udp_frame k n"
  shows "\<exists>r. DetectUsefulUdpPacket env k = Some r \<and> memory_safe r (\<lambda>(events, iax2). list_all fine events)"
proof -
  note f = udp_frameD [OF frame]
  let ?udp = "k_ip k + k_headerLength k"
  obtain source dest where ports: "transport_ports (k_mem k) ?udp = Inr (source, dest)"
    using read_be16_at [of ?udp "k_mem k"] read_be16_at [of "?udp + 2" "k_mem k"] f by (auto simp: transport_ports_def)
  from detect_udp_safe [OF assms] show ?thesis
    using config by (cases "detect_udp env k ?udp")
      (auto simp: DetectUsefulUdpPacket_def Let_def ports plain_config_def memory_safe_def split: fault.splits)
qed

section \<open>Handling what was reported\<close>

lemma handle_all_fine:
  assumes config: "config_ok config" "DLLCONFIG w = config" "m_sessionStartsOnS2ActivityDb config = 0"
  shows "list_all fine es \<Longrightarrow> voip_reachable config st \<Longrightarrow> \<exists>st'. handle_all w es st = Inr st' \<and> voip_reachable config st'"
proof (induction es arbitrary: st)
  case (Cons e es)
  have ok: "delivered w e" "fault_of w e st = None" using Cons.prems fine_ok [of e w st] config by auto
  have "consistent w st" using voip_reachable_consistent [OF Cons.prems(2) config(1,2)] .
  then obtain st1 where st1: "handle w e st = Inr st1"
    using handle_cases [of w st e] config ok by (auto simp: succeeds_def)
  with voip_reachable.event [OF Cons.prems(2) config(2) ok(1)] Cons show ?case by simp
qed simp


section \<open>Source descriptions\<close>

text \<open>An item that the loop goes past, and the chains of items that lead to one of length 0.\<close>

definition passed_item :: "u8 list \<Rightarrow> int \<Rightarrow> int \<Rightarrow> bool" where
  "passed_item mem end' item \<longleftrightarrow> 0 \<le> item \<and> item < end' \<and> item + 1 < int (length mem) \<and> mem ! nat item \<noteq> 0 \<and> mem ! nat item \<noteq> 1"

definition item_length :: "u8 list \<Rightarrow> int \<Rightarrow> nat" where
  "item_length mem item = unat (mem ! nat (item + 1))"

inductive reaches_empty_item :: "u8 list \<Rightarrow> int \<Rightarrow> int \<Rightarrow> bool" for mem end' where
  here: "passed_item mem end' item \<Longrightarrow> item_length mem item = 0 \<Longrightarrow> reaches_empty_item mem end' item"
| later: "passed_item mem end' item \<Longrightarrow> reaches_empty_item mem end' (item + int (item_length mem item)) \<Longrightarrow> reaches_empty_item mem end' item"

lemma find_item_passed:
  "passed_item mem end' item \<Longrightarrow> find_item mem item end' = find_item mem (item + int (item_length mem item)) end'"
  by (subst find_item.simps) (simp add: passed_item_def item_length_def)

lemma find_item_stops:
  assumes "\<not> passed_item mem end' item"
  shows "find_item mem item end' \<noteq> None"
  using assms by (subst find_item.simps) (auto simp: passed_item_def peek_def split: sum.splits if_splits)

lemma find_item_empty_hangs:
  assumes "find_item mem item end' = Some r"
  shows "\<not> (passed_item mem end' item \<and> item_length mem item = 0)"
proof (rule find_item.raw_induct [OF _ assms])
  fix loop :: "u8 list \<Rightarrow> int \<Rightarrow> int \<Rightarrow> int option outcome" and mem item end' r
  assume IH: "\<And>mem item end' r. loop mem item end' = Some r \<Longrightarrow> \<not> (passed_item mem end' item \<and> item_length mem item = 0)"
    and body: "(if item < end'
      then case peek mem item of Inl e \<Rightarrow> Some (Inl e)
           | Inr type \<Rightarrow>
               if type = 1 then Some (Inr (Some item))
               else if type = 0 then Some (Inr None)
                    else case peek mem (item + 1) of Inl e \<Rightarrow> Some (Inl e)
                         | Inr len \<Rightarrow> loop mem (item + int (unat len)) end'
      else Some (Inr None)) = Some r"
  show "\<not> (passed_item mem end' item \<and> item_length mem item = 0)"
  proof
    assume stuck: "passed_item mem end' item \<and> item_length mem item = 0"
    with body have "loop mem item end' = Some r" by (simp add: passed_item_def item_length_def)
    from IH [OF this] stuck show False by blast
  qed
qed

lemma find_item_None_iff: "find_item mem item end' = None \<longleftrightarrow> reaches_empty_item mem end' item"
proof
  show "reaches_empty_item mem end' item \<Longrightarrow> find_item mem item end' = None"
  proof (induction rule: reaches_empty_item.induct)
    case (here item)
    then show ?case using find_item_empty_hangs [of mem item end'] by (cases "find_item mem item end'") auto
  qed (simp add: find_item_passed)
  show "find_item mem item end' = None \<Longrightarrow> reaches_empty_item mem end' item"
  proof (induction "nat (end' - item)" arbitrary: item rule: less_induct)
    case less
    then have passed: "passed_item mem end' item" using find_item_stops by blast
    show ?case
    proof (cases "item_length mem item = 0")
      case False
      with passed have "nat (end' - (item + int (item_length mem item))) < nat (end' - item)" by (auto simp: passed_item_def)
      with less find_item_passed [OF passed] passed show ?thesis by (auto intro: reaches_empty_item.later)
    qed (use passed in \<open>rule reaches_empty_item.here\<close>)
  qed
qed

text \<open>A sender report followed by a source description whose first item (a user name) is empty, in a UDP packet.\<close>

definition empty_item_packet :: IpPacket where
  "empty_item_packet = \<lparr>k_mem = replicate 20 0 @ [0, 100, 0, 101, 0, 32, 0, 0] @ [0x80, 200, 0, 1, 0, 0, 0, 0] @
       [0x81, 202, 0, 3, 0, 0, 0, 1, 2, 0, 0, 0, 0, 0, 0, 0],
     k_ip = 0, k_headerLength = 20, k_end = 52, k_sourceMac = [], k_destinationMac = []\<rparr>"

definition rtcp_env :: DetectEnv where
  "rtcp_env = \<lparr>de_parser = example_env\<lparr>pe_config := default_settings\<lparr>m_rtcpDetect := True\<rparr>\<rparr>, de_rtpDebug = False,
     de_skinnyInfo = False, de_behind = [], de_fuel = 0, de_unset = 0\<rparr>"

lemma empty_item_start: "rtcp_start rtcp_env empty_item_packet 20 = Inr (Some (36, 52))"
  by code_simp

lemma empty_item_hangs: "TryRtcp rtcp_env empty_item_packet 20 = None"
proof -
  have "passed_item (k_mem empty_item_packet) 52 44" "item_length (k_mem empty_item_packet) 44 = 0"
    by code_simp+
  then have item: "find_item (k_mem empty_item_packet) 44 52 = None"
    unfolding find_item_None_iff by (rule reaches_empty_item.here)
  have header: "sdes_header (k_mem empty_item_packet) 36 = Inr (52, True)" "rtcp_left 36 52"
    by code_simp+
  have "find_cname (k_mem empty_item_packet) 36 52 = None"
    by (subst find_cname.simps) (simp add: header item)
  then show ?thesis by (simp add: TryRtcp_def empty_item_start)
qed

section \<open>Properties\<close>

text \<open>C2: The UDP path is robust with the features of the default configuration (\<open>plain_config_default\<close>): whatever bytes a UDP
  packet carries whose announced lengths end inside the capture, the parsers return (a SIP parser may throw on a malformed
  number) without reading outside of the memory, and every event they report is handled by the sessions, from every
  reachable state, without a fault, ending in a reachable state. The memory is the packet, a NUL and 50 readable bytes
  behind it (\<open>udp_frame\<close>): the code does not see to them, and its parsers do read there (lemmas
  \<open>subscribe_overread\<close>, \<open>extract_overread\<close>).\<close>

theorem udp_packets_handled:
  assumes "parser_env_ok (de_parser env)" "plain_config (de_config env)" "udp_frame k n"
    and "DLLCONFIG w = VoIpConfig.truncate (de_config env)" "config_ok (DLLCONFIG w)" "voip_reachable (DLLCONFIG w) st"
  shows "(\<exists>e. DetectUsefulUdpPacket env k = Some (Inl (Thrown e))) \<or>
    (\<exists>events iax2 st'. DetectUsefulUdpPacket env k = Some (Inr (events, iax2)) \<and> handle_all w events st = Inr st' \<and>
       voip_reachable (DLLCONFIG w) st')"
proof -
  obtain r where r: "DetectUsefulUdpPacket env k = Some r" "memory_safe r (\<lambda>(events, iax2). list_all fine events)"
    using DetectUsefulUdpPacket_safe assms(1-3) by blast
  show ?thesis
  proof (cases r)
    case (Inl e)
    with r show ?thesis by (cases e) simp_all
  next
    case (Inr result)
    have default: "m_sessionStartsOnS2ActivityDb (DLLCONFIG w) = 0"
      using assms(2,4) by (simp add: plain_config_def VoIpConfig.truncate_def)
    from Inr obtain events iax2 where "r = Inr (events, iax2)" "list_all fine events" using r(2) by (cases result) auto
    then show ?thesis using handle_all_fine [OF assms(5) refl default _ assms(6)] r(1) by blast
  qed
qed

definition plain_env :: DetectEnv where
  "plain_env = \<lparr>de_parser = example_env\<lparr>pe_now := 1700000000, pe_config := default_settings\<rparr>, de_rtpDebug = False,
     de_skinnyInfo = False, de_behind = [], de_fuel = 0, de_unset = 0\<rparr>"

text \<open>A BYE between two SIP ports, without fields.\<close>

definition bye_packet :: IpPacket where
  "bye_packet = \<lparr>k_mem = [0x45, 0, 0, 34, 0, 0, 0, 0, 64, 17, 0, 0, 10, 0, 0, 1, 10, 0, 0, 2] @
       [0x13, 0xC4, 0x13, 0xC4, 0, 14, 0, 0] @ [66, 89, 69, 32, 13, 10] @ replicate 60 0,
     k_ip = 0, k_headerLength = 20, k_end = 34, k_sourceMac = [], k_destinationMac = []\<rparr>"

lemma bye_packet_frame: "udp_frame bye_packet 34"
  by code_simp

lemma plain_env_ok: "parser_env_ok (de_parser plain_env)" "plain_config (de_config plain_env)"
  "VoIpConfig.truncate (de_config plain_env) = VoIpConfig.truncate default_settings"
proof -
  have config: "de_config plain_env = default_settings" by (simp add: plain_env_def de_config_def)
  then show "plain_config (de_config plain_env)" "VoIpConfig.truncate (de_config plain_env) = VoIpConfig.truncate default_settings"
    by (simp_all add: plain_config_default)
  show "parser_env_ok (de_parser plain_env)"
    by (simp add: plain_env_def example_env_def parser_env_ok_def default_settings_simps no_nul_def code_of_def)
qed

theorem udp_packets_handled_witness:
  "(\<exists>e. DetectUsefulUdpPacket plain_env bye_packet = Some (Inl (Thrown e))) \<or>
   (\<exists>events iax2 st'. DetectUsefulUdpPacket plain_env bye_packet = Some (Inr (events, iax2)) \<and>
      handle_all example_world events (new_VoIpSessions 0) = Inr st' \<and> voip_reachable (VoIpConfig.truncate default_settings) st')"
  using udp_packets_handled [of plain_env bye_packet 34 example_world "new_VoIpSessions 0"] plain_env_ok bye_packet_frame
    default_config_ok voip_reachable.start
  by simp

text \<open>C27: The loop over the items of an RTCP source description runs forever exactly when it comes, past items that are neither a
  CNAME nor the end of the list, to one of length 0: it steps by the length alone, without the two bytes of the header of
  the item (lemma \<open>empty_item_hangs\<close> is a packet of 52 bytes that makes \<open>TryRtcp\<close> never return).\<close>

theorem rtcp_item_loop_hangs_iff:
  "find_item mem item end' = None \<longleftrightarrow> reaches_empty_item mem end' item"
  by (rule find_item_None_iff)

end
