(* ===== verification/RtpFrames.thy ===== *)
theory RtpFrames
  imports PacketDispatchProps
begin

text \<open>
  A reference encoder for RTP packets, in RTP, UDP, IP and Ethernet headers without options, and the proof that
  \<open>HandlePacket\<close> reports exactly the packet that was encoded.
\<close>

section \<open>Encoding\<close>

definition be16_bytes :: "u16 \<Rightarrow> u8 list" where
  "be16_bytes w = [ucast (drop_bit 8 w), ucast w]"

definition be32_bytes :: "u32 \<Rightarrow> u8 list" where
  "be32_bytes w = be16_bytes (ucast (drop_bit 16 w)) @ be16_bytes (ucast w)"

text \<open>Version 2, no padding, no extension, no sources.\<close>

definition rtp_bytes :: "RtpPacketInfo \<Rightarrow> u8 list" where
  "rtp_bytes p = [0x80, word_of_nat (m_payloadType p)] @ be16_bytes (m_seqNum p) @ be32_bytes (m_rtpTimestamp p) @
     be32_bytes (m_ssrc p) @ m_payload p"

definition udp_bytes :: "u16 \<Rightarrow> u16 \<Rightarrow> u8 list \<Rightarrow> u8 list" where
  "udp_bytes source dest payload =
     be16_bytes source @ be16_bytes dest @ be16_bytes (word_of_nat (8 + length payload)) @ [0, 0] @ payload"

definition ip_bytes :: "u32 \<Rightarrow> u32 \<Rightarrow> u8 \<Rightarrow> u8 list \<Rightarrow> u8 list" where
  "ip_bytes src dst protocol payload =
     [0x45, 0] @ be16_bytes (word_of_nat (20 + length payload)) @ [0, 0, 0, 0, 64, protocol, 0, 0] @ be32_bytes src @
     be32_bytes dst @ payload"

definition rtp_frame :: "RtpPacketInfo \<Rightarrow> u8 list" where
  "rtp_frame p = m_destMac p @ m_sourceMac p @ [8, 0] @
     ip_bytes (RtpPacketInfo.m_sourceIp p) (m_destIp p) 17 (udp_bytes (m_sourcePort p) (m_destPort p) (rtp_bytes p))"

section \<open>Reading what was written\<close>

lemma unat_ucast_u8: "unat (ucast (w :: u16) :: u8) = unat w mod 256"
  by (simp add: unsigned_ucast_eq take_bit_eq_mod)

lemma be16_inverse: "256 * ucast (ucast (drop_bit 8 w) :: u8) + ucast (ucast w :: u8) = (w :: u16)"
proof -
  have "unat w < 2 ^ LENGTH(16)" by (rule unsigned_less)
  then have "unat (drop_bit 8 w) mod 256 = unat w div 256" by (simp add: drop_bit_eq_div unat_div_distrib)
  then have "unat (256 * ucast (ucast (drop_bit 8 w) :: u8) + ucast (ucast w :: u8) :: u16) = unat w"
    by (simp only: unat_be16 unat_ucast_u8) simp
  then show ?thesis by (simp only: unsigned_word_eqI)
qed

lemma be32_inverse: "65536 * ucast (ucast (drop_bit 16 w) :: u16) + ucast (ucast w :: u16) = (w :: u32)"
proof -
  have w: "unat w < 2 ^ LENGTH(32)" by (rule unsigned_less)
  have "unat (ucast (ucast (drop_bit 16 w) :: u16) :: u32) = unat w div 65536"
    "unat (ucast (ucast w :: u16) :: u32) = unat w mod 65536"
    using w by (simp_all add: unsigned_ucast_eq take_bit_eq_mod drop_bit_eq_div unat_div_distrib unat_mod_distrib)
  with w have "unat (65536 * ucast (ucast (drop_bit 16 w) :: u16) + ucast (ucast w :: u16) :: u32) = unat w"
    by (simp add: unat_word_ariths)
  then show ?thesis by (simp only: unsigned_word_eqI)
qed

text \<open>Reading behind a prefix of the frame.\<close>

lemma peek_append: "p = int (length xs) \<Longrightarrow> peek (xs @ b # ys) p = Inr b"
  by (simp add: peek_def nth_append)

lemma read_be16_bytes: "p = int (length xs) \<Longrightarrow> read_be16 (xs @ be16_bytes w @ ys) p = Inr w"
  using peek_append [of p xs "ucast (drop_bit 8 w)" "ucast w # ys"]
    peek_append [of "p + 1" "xs @ [ucast (drop_bit 8 w)]" "ucast w" ys]
  by (simp add: read_be16_def be16_bytes_def be16_inverse)

lemma read_be32_bytes: "p = int (length xs) \<Longrightarrow> read_be32 (xs @ be32_bytes w @ ys) p = Inr w"
  using read_be16_bytes [of p xs "ucast (drop_bit 16 w)" "be16_bytes (ucast w) @ ys"]
    read_be16_bytes [of "p + 2" "xs @ be16_bytes (ucast (drop_bit 16 w))" "ucast w" ys]
  by (simp add: read_be32_def be32_bytes_def be32_inverse be16_bytes_def)

lemma length_bytes [simp]: "length (be16_bytes w) = 2" "length (be32_bytes v) = 4"
  by (simp_all add: be16_bytes_def be32_bytes_def)


lemma peek_in: "mem = xs @ b # ys \<Longrightarrow> p = int (length xs) \<Longrightarrow> peek mem p = Inr b"
  by (simp add: peek_append)

lemma be16_in: "mem = xs @ be16_bytes w @ ys \<Longrightarrow> p = int (length xs) \<Longrightarrow> read_be16 mem p = Inr w"
  by (simp add: read_be16_bytes)

lemma be32_in: "mem = xs @ be32_bytes w @ ys \<Longrightarrow> p = int (length xs) \<Longrightarrow> read_be32 mem p = Inr w"
  by (simp add: read_be32_bytes)

lemma slice_in: "mem = xs @ bytes @ ys \<Longrightarrow> p = int (length xs) \<Longrightarrow> n = length bytes \<Longrightarrow> mem_slice mem p n = Inr bytes"
  by (simp add: mem_slice_def)

lemma bytes_constants: "[8, 0] = be16_bytes 0x0800" "[0, 0] = be16_bytes 0"
  by (simp_all add: be16_bytes_def)

section \<open>The fields of an encoded frame\<close>

text \<open>What an encoder can encode: addresses of six bytes, seven bits of payload type, and a payload that is reported.\<close>

definition encodable :: "RtpPacketInfo \<Rightarrow> bool" where
  "encodable p \<longleftrightarrow> length (m_destMac p) = 6 \<and> length (m_sourceMac p) = 6 \<and> 0 < length (m_payload p) \<and>
     length (m_payload p) < 900 \<and> m_payloadType p < 128"

text \<open>The frame up to the IP header, the addresses, the UDP header and the RTP header.\<close>

abbreviation "upto_ip p \<equiv> m_destMac p @ m_sourceMac p @ [8, 0]"
abbreviation "upto_addresses p \<equiv> upto_ip p @ [0x45, 0] @ be16_bytes (word_of_nat (40 + length (m_payload p))) @ [0, 0, 0, 0, 64, 17, 0, 0]"
abbreviation "upto_udp p \<equiv> upto_addresses p @ be32_bytes (RtpPacketInfo.m_sourceIp p) @ be32_bytes (m_destIp p)"
abbreviation "upto_rtp p \<equiv> upto_udp p @ be16_bytes (m_sourcePort p) @ be16_bytes (m_destPort p) @
  be16_bytes (word_of_nat (20 + length (m_payload p))) @ [0, 0]"

lemmas encoded = rtp_frame_def ip_bytes_def udp_bytes_def rtp_bytes_def encodable_def

lemma len_word:
  assumes e: "encodable p"
  shows "unat (word_of_nat (40 + length (m_payload p)) :: u16) = 40 + length (m_payload p)"
  "unat (word_of_nat (20 + length (m_payload p)) :: u16) = 20 + length (m_payload p)"
  using e by (simp_all only: unat_of_nat) (simp_all add: encodable_def)

lemma ethernet:
  assumes e: "encodable p"
  shows "ethernet_header (rtp_frame p) 0 = Inr (m_sourceMac p, m_destMac p, 0x0800)"
proof -
  have "read_be16 (rtp_frame p) (0 + 12) = Inr 0x0800"
    by (rule be16_in [where xs = "m_destMac p @ m_sourceMac p"]) (use e in \<open>simp_all add: encoded bytes_constants(1)\<close>)
  moreover have "mem_slice (rtp_frame p) 0 6 = Inr (m_destMac p)"
    by (rule slice_in [where xs = "[]"]) (use e in \<open>simp_all add: encoded\<close>)
  moreover have "mem_slice (rtp_frame p) (0 + 6) 6 = Inr (m_sourceMac p)"
    by (rule slice_in [where xs = "m_destMac p"]) (use e in \<open>simp_all add: encoded\<close>)
  ultimately show ?thesis by (simp add: ethernet_header_def)
qed

lemma ip_fields:
  assumes e: "encodable p"
  shows "ip_v (rtp_frame p) 14 = Inr 4" "ip_hl (rtp_frame p) 14 = Inr 5" "ip_p (rtp_frame p) 14 = Inr 17" "read_be16 (rtp_frame p) 20 = Inr 0"
  "ip_len (rtp_frame p) 14 = Inr (40 + length (m_payload p))"
proof -
  have "peek (rtp_frame p) 14 = Inr 0x45"
    by (rule peek_in [where xs = "upto_ip p"]) (use e in \<open>simp_all add: encoded\<close>)
  then show "ip_v (rtp_frame p) 14 = Inr 4" "ip_hl (rtp_frame p) 14 = Inr 5" by (simp_all add: ip_v_def ip_hl_def)
  have "peek (rtp_frame p) (14 + 9) = Inr 17"
    by (rule peek_in [where xs = "upto_ip p @ [0x45, 0] @ be16_bytes (word_of_nat (40 + length (m_payload p))) @ [0, 0, 0, 0, 64]"])
      (use e in \<open>simp_all add: encoded\<close>)
  then show "ip_p (rtp_frame p) 14 = Inr 17" by (simp add: ip_p_def)
  show "read_be16 (rtp_frame p) 20 = Inr 0"
    by (rule be16_in [where xs = "upto_ip p @ [0x45, 0] @ be16_bytes (word_of_nat (40 + length (m_payload p))) @ [0, 0]"])
      (use e in \<open>simp_all add: encoded be16_bytes_def\<close>)
  have "read_be16 (rtp_frame p) (14 + 2) = Inr (word_of_nat (40 + length (m_payload p)))"
    by (rule be16_in [where xs = "upto_ip p @ [0x45, 0]"]) (use e in \<open>simp_all add: encoded\<close>)
  then show "ip_len (rtp_frame p) 14 = Inr (40 + length (m_payload p))" unfolding ip_len_def by (simp only: andThen_Inr len_word [OF e])
qed

lemma addresses:
  assumes e: "encodable p"
  shows "ip_addresses (rtp_frame p) 14 = Inr (RtpPacketInfo.m_sourceIp p, m_destIp p)"
proof -
  have "read_be32 (rtp_frame p) (14 + 12) = Inr (RtpPacketInfo.m_sourceIp p)"
    by (rule be32_in [where xs = "upto_addresses p"]) (use e in \<open>simp_all add: encoded\<close>)
  moreover have "read_be32 (rtp_frame p) (14 + 16) = Inr (m_destIp p)"
    by (rule be32_in [where xs = "upto_addresses p @ be32_bytes (RtpPacketInfo.m_sourceIp p)"]) (use e in \<open>simp_all add: encoded\<close>)
  ultimately show ?thesis by (simp add: ip_addresses_def)
qed

lemma udp_fields:
  assumes e: "encodable p"
  shows "transport_ports (rtp_frame p) 34 = Inr (m_sourcePort p, m_destPort p)"
  "udp_len (rtp_frame p) 34 = Inr (word_of_nat (20 + length (m_payload p)))"
proof -
  have "read_be16 (rtp_frame p) 34 = Inr (m_sourcePort p)"
    by (rule be16_in [where xs = "upto_udp p"]) (use e in \<open>simp_all add: encoded\<close>)
  moreover have "read_be16 (rtp_frame p) (34 + 2) = Inr (m_destPort p)"
    by (rule be16_in [where xs = "upto_udp p @ be16_bytes (m_sourcePort p)"]) (use e in \<open>simp_all add: encoded\<close>)
  ultimately show "transport_ports (rtp_frame p) 34 = Inr (m_sourcePort p, m_destPort p)" by (simp add: transport_ports_def)
  show "udp_len (rtp_frame p) 34 = Inr (word_of_nat (20 + length (m_payload p)))" unfolding udp_len_def
    by (rule be16_in [where xs = "upto_udp p @ be16_bytes (m_sourcePort p) @ be16_bytes (m_destPort p)"]) (use e in \<open>simp_all add: encoded\<close>)
qed

lemma rtp_fields:
  assumes e: "encodable p"
  shows "peek (rtp_frame p) 42 = Inr 0x80" "peek (rtp_frame p) 43 = Inr (word_of_nat (m_payloadType p))"
  "read_be16 (rtp_frame p) 44 = Inr (m_seqNum p)" "read_be32 (rtp_frame p) 46 = Inr (m_rtpTimestamp p)" "read_be32 (rtp_frame p) 50 = Inr (m_ssrc p)"
  "mem_slice (rtp_frame p) 54 (length (m_payload p)) = Inr (m_payload p)"
proof -
  let ?fields = "be16_bytes (m_seqNum p) @ be32_bytes (m_rtpTimestamp p) @ be32_bytes (m_ssrc p)"
  let ?types = "[0x80, word_of_nat (m_payloadType p)]"
  show "peek (rtp_frame p) 42 = Inr 0x80" by (rule peek_in [where xs = "upto_rtp p"]) (use e in \<open>simp_all add: encoded\<close>)
  show "peek (rtp_frame p) 43 = Inr (word_of_nat (m_payloadType p))"
    by (rule peek_in [where xs = "upto_rtp p @ [0x80]"]) (use e in \<open>simp_all add: encoded\<close>)
  show "read_be16 (rtp_frame p) 44 = Inr (m_seqNum p)" by (rule be16_in [where xs = "upto_rtp p @ ?types"]) (use e in \<open>simp_all add: encoded\<close>)
  show "read_be32 (rtp_frame p) 46 = Inr (m_rtpTimestamp p)"
    by (rule be32_in [where xs = "upto_rtp p @ ?types @ be16_bytes (m_seqNum p)"]) (use e in \<open>simp_all add: encoded\<close>)
  show "read_be32 (rtp_frame p) 50 = Inr (m_ssrc p)"
    by (rule be32_in [where xs = "upto_rtp p @ ?types @ be16_bytes (m_seqNum p) @ be32_bytes (m_rtpTimestamp p)"])
      (use e in \<open>simp_all add: encoded\<close>)
  show "mem_slice (rtp_frame p) 54 (length (m_payload p)) = Inr (m_payload p)"
    by (rule slice_in [where xs = "upto_rtp p @ ?types @ ?fields" and ys = "[]"]) (use e in \<open>simp_all add: encoded\<close>)
qed

lemma type_word:
  assumes e: "encodable p"
  shows "unat (word_of_nat (m_payloadType p) :: u8) mod 128 = m_payloadType p"
  using e by (simp add: unat_of_nat encodable_def)


section \<open>Decoding\<close>

text \<open>The configuration lets the packet through: it is wanted, on ports that are looked at, of a type that is supported and not blocked.\<close>

definition lets_through :: "DetectEnv \<Rightarrow> RtpPacketInfo \<Rightarrow> bool" where
  "lets_through env p \<longleftrightarrow> (let config = de_config env
     in \<not> m_pcapTest config \<and> IsPacketWanted config (RtpPacketInfo.m_sourceIp p) (m_destIp p) = Inr True \<and>
        m_udpMinPort config \<le> int (unat (m_sourcePort p)) \<and> m_udpMinPort config \<le> int (unat (m_destPort p)) \<and>
        m_destPort p \<noteq> 4789 \<and>
        (even (unat (m_sourcePort p)) \<and> even (unat (m_destPort p)) \<or> m_rtpDetectOnOddPorts config) \<and>
        map_find (word_of_nat (m_payloadType p)) (m_rtpPayloadTypeBlockList config) = None \<and> rtp_supported (m_payloadType p) \<and>
        IpRanges_Matches (m_rtpBlockedIpRanges config) (RtpPacketInfo.m_sourceIp p) = Inr False \<and>
        IpRanges_Matches (m_rtpBlockedIpRanges config) (m_destIp p) = Inr False)"

lemma report_encoded:
  assumes e: "encodable p" and now: "m_arrivalTimestamp p = pe_now (de_parser env)"
    and k: "k_mem k = rtp_frame p" "k_ip k = 14" "k_sourceMac k = m_sourceMac p" "k_destinationMac k = m_destMac p"
  shows "report_rtp env k 42 0x80 (m_sourcePort p) (m_destPort p) (m_payloadType p) (RtpPacketInfo.m_sourceIp p, m_destIp p) =
    Inr (True, [Rtp p])"
proof -
  have "rtp_payload (rtp_frame p) 42 0x80 = Inr 54" by (simp add: rtp_payload_def)
  moreover have "0 < length (m_payload p)" "length (m_payload p) < 900" using e by (simp_all add: encodable_def)
  ultimately show ?thesis
    by (simp add: report_rtp_def k ip_fields [OF e] rtp_fields [OF e] flip: now)
qed

lemma TryRtp_encoded:
  assumes e: "encodable p" and through: "lets_through env p" and now: "m_arrivalTimestamp p = pe_now (de_parser env)"
    and k: "k_mem k = rtp_frame p" "k_ip k = 14" "k_sourceMac k = m_sourceMac p" "k_destinationMac k = m_destMac p"
  shows "TryRtp env k 34 = Inr (True, [Rtp p])"
proof -
  have long: "\<not> unat (word_of_nat (20 + length (m_payload p)) :: u16) < 12" by (simp only: len_word [OF e])
  have first: "unat (0x80 :: u8) div 64 = 2 \<and> unat (0x80 :: u8) mod 16 = 0 \<and> \<not> bit (0x80 :: u8) 5" by simp
  note t = through [unfolded lets_through_def Let_def]
  show ?thesis
    unfolding TryRtp_def Let_def k udp_fields [OF e] andThen_Inr if_not_P [OF long]
    using t rtp_fields(1,2) [OF e] type_word [OF e] addresses [OF e] report_encoded [OF e now k]
    by (simp add: first)
qed

lemma not_fragmented:
  assumes e: "encodable p"
  shows "\<not> isFragmented (drop 14 (rtp_frame p))"
proof -
  have len: "20 + 1 < length (rtp_frame p)" using e by (simp add: encoded)
  then obtain w where "read_be16 (rtp_frame p) 20 = Inr w" "unat w = ntohs_at (rtp_frame p) 20"
    using read_be16_at [of 20 "rtp_frame p"] by auto
  then have "ntohs_at (rtp_frame p) 20 = 0" using ip_fields(4) [OF e] by simp
  then have "ntohs_at (drop 14 (rtp_frame p)) 6 = 0" using len by (simp add: ntohs_at_def)
  then show ?thesis by (simp add: isFragmented_def isLastFragment_def fragmentFlags_def frag_offset_def)
qed

lemma transport_encoded:
  assumes e: "encodable p" and through: "lets_through env p" and now: "m_arrivalTimestamp p = pe_now (de_parser env)"
  shows "ProcessTransportLayer env (rtp_frame p) 14 (m_sourceMac p) (m_destMac p) streams = Some (Inr ([Rtp p], None, streams))"
proof -
  let ?k = "\<lparr>k_mem = rtp_frame p, k_ip = 14, k_headerLength = 20, k_end = 14 + int (40 + length (m_payload p)),
    k_sourceMac = m_sourceMac p, k_destinationMac = m_destMac p\<rparr>"
  have "DetectUsefulUdpPacket env ?k = Some (Inr ([Rtp p], None))"
    using through TryRtp_encoded [OF e through now, of ?k]
    by (simp add: DetectUsefulUdpPacket_def Let_def udp_fields [OF e] detect_udp_def lets_through_def)
  then have "detect_transport env ?k streams = Some (Inr ([Rtp p], None, streams))"
    by (simp add: detect_transport_def ip_fields [OF e])
  then show ?thesis
    using through by (simp add: ProcessTransportLayer_def Let_def ip_fields [OF e] udp_fields [OF e] lets_through_def)
qed

lemma located_encoded:
  assumes e: "encodable p" and caplen: "int (length (rtp_frame p)) \<le> caplen"
  shows "locate_ip (rtp_frame p) = Inr (Some (m_sourceMac p, m_destMac p, 14))" "whole_packet (rtp_frame p) caplen 14 = Inr True"
proof -
  show "locate_ip (rtp_frame p) = Inr (Some (m_sourceMac p, m_destMac p, 14))" by (simp add: locate_ip_def ethernet [OF e])
  have "length (rtp_frame p) = 54 + length (m_payload p)" "0 < length (m_payload p)" using e by (simp_all add: encoded)
  then show "whole_packet (rtp_frame p) caplen 14 = Inr True"
    using caplen by (simp add: whole_packet_def TryIpPacketV4_def ip_fields [OF e])
qed

section \<open>Properties\<close>

text \<open>C3: Decoding a captured frame inverts encoding: for a packet that the configuration lets through, the frame that carries it
  in RTP, UDP, IP and Ethernet headers makes \<open>HandlePacket\<close> report exactly this packet, with all its fields, followed
  by the expiry of sessions when it is due, and changes nothing but the counters and the time of the last expiry.\<close>

theorem rtp_frame_round_trip:
  assumes e: "encodable p" and through: "lets_through env p" and now: "m_arrivalTimestamp p = pe_now (de_parser env)"
    and caplen: "int (length (rtp_frame p)) \<le> caplen"
  shows "HandlePacket env live caplen (rtp_frame p) st = (let now = pe_now (de_parser env); due = now - s_lastHooveringTime st > 5
     in Some (Inr (Rtp p # (if due then [Expire now] else []), None,
      st\<lparr>cs_stats := report_stats live (m_orekaEncapsulationMode (de_config env)) now (count_captured now (cs_stats st)),
         s_lastHooveringTime := (if due then now else s_lastHooveringTime st)\<rparr>)))"
  using through
  by (simp add: HandlePacket_def Let_def located_encoded [OF e caplen] addresses [OF e] process_ip_def ip_fields [OF e]
      not_fragmented [OF e] transport_encoded [OF e through now] lets_through_def)

definition example_frame :: RtpPacketInfo where
  "example_frame = example_rtp\<lparr>m_sourceMac := [1, 2, 3, 4, 5, 6], m_destMac := [7, 8, 9, 10, 11, 12], m_payload := [0xFF, 0x7F]\<rparr>"

definition new_CaptureState :: CaptureState where
  "new_CaptureState = \<lparr>cs_stats = \<lparr>s_numPackets = 0, s_numPacketsPerSecond = 0, s_minPacketsPerSecond = 0,
       s_maxPacketsPerSecond = 0, s_lastPacketsPerSecondTime = 0, s_lastPcapStatsReportingTime = 0,
       s_numUdpPacketsInUdpMode10s = 0, s_numLostUdpPacketsInUdpMode10s = 0\<rparr>,
     cs_streams = [], cs_fragments = new_FragmentState, s_lastHooveringTime = 1699999999\<rparr>"

lemma example_frame_through: "lets_through plain_env example_frame"
  by (simp add: lets_through_def de_config_def plain_env_def example_env_def default_settings_simps IsPacketWanted_def
      example_frame_def example_rtp_def rtp_supported_def IpRanges_Matches_def no_ranges_def map_find_def Let_def)

lemma example_state: "pe_now (de_parser plain_env) = 1700000000" "s_lastHooveringTime new_CaptureState = 1699999999"
  by (simp_all add: plain_env_def new_CaptureState_def)

theorem rtp_frame_round_trip_witness:
  "\<exists>st. HandlePacket plain_env True 56 (rtp_frame example_frame) new_CaptureState = Some (Inr ([Rtp example_frame], None, st)) \<and>
     s_lastHooveringTime st = 1699999999"
proof -
  have "encodable example_frame" "length (rtp_frame example_frame) = 56"
    "m_arrivalTimestamp example_frame = pe_now (de_parser plain_env)"
    by (simp_all add: encoded example_frame_def example_rtp_def plain_env_def)
  then show ?thesis
    using rtp_frame_round_trip [of example_frame plain_env 56 True new_CaptureState] example_frame_through
    by (simp add: example_state Let_def)
qed

end
