(* ===== verification/Iax2Calls.thy ===== *)
theory Iax2Calls
  imports VoipConfig
begin

text \<open>
  IAX2 sessions: \<open>Iax2Session\<close> in \<open>audiocaptureplugins/voip/Iax2Session.{h,cpp}\<close>. Voice packets are shared objects
  that a session keeps and changes: a reference is the index of a packet in the list of all packets. A method runs on an
  \<open>Iax2Call\<close>, the session with the packets and the calls made to the capture callbacks. Members that only appear in the
  log are left out.
\<close>

section \<open>Data\<close>

record Iax2AcceptInfo =
  m_senderIp :: u32
  m_receiverIp :: u32
  m_sender_callno :: string
  m_receiver_callno :: string

record Iax2AuthreqInfo =
  m_senderIp :: u32
  m_receiverIp :: u32
  m_sender_callno :: string
  m_receiver_callno :: string

record Iax2HangupInfo =
  m_senderIp :: u32
  m_receiverIp :: u32
  m_sender_callno :: string
  m_receiver_callno :: string

record Iax2NewInfo =
  m_senderIp :: u32
  m_receiverIp :: u32
  m_caller :: string
  m_callee :: string
  m_callNo :: string
  m_callingName :: string
  m_localExtension :: string
  m_validated :: bool

definition new_Iax2NewInfo :: Iax2NewInfo where
  "new_Iax2NewInfo = \<lparr>m_senderIp = 0, m_receiverIp = 0, m_caller = ''HIDDEN'', m_callee = '''', m_callNo = '''',
     m_callingName = '''', m_localExtension = '''', m_validated = False\<rparr>"

definition IAX2_FRAME_FULL :: nat where
  "IAX2_FRAME_FULL = 1"

definition IAX2_FRAME_MINI :: nat where
  "IAX2_FRAME_MINI = 2"

text \<open>\<open>m_payload\<close> is the memory from the payload on; its first \<open>m_payloadSize\<close> bytes are the payload.\<close>

record Iax2PacketInfo =
  m_sourceIp :: u32
  m_destIp :: u32
  m_sourcecallno :: u16
  m_destcallno :: u16
  m_frame_type :: nat
  m_payloadSize :: u32
  m_payloadType :: u16
  m_payload :: "u8 list"
  m_timestamp :: u32
  m_arrivalTimestamp :: int

section \<open>Text\<close>

definition Iax2NewInfo_ToString :: "Iax2NewInfo \<Rightarrow> string" where
  "Iax2NewInfo_ToString i = ''sender:'' @ ip_string (Iax2NewInfo.m_senderIp i) @ '' receiver: '' @
     ip_string (Iax2NewInfo.m_receiverIp i) @ '' caller:'' @ m_caller i @ '' callee:'' @ m_callee i @ '' srccallno: '' @ m_callNo i @
     '' callername:'' @ m_callingName i @ '' localextension:'' @ m_localExtension i"

definition parties_string :: "u32 \<Rightarrow> u32 \<Rightarrow> string \<Rightarrow> string \<Rightarrow> string" where
  "parties_string sender receiver sender_callno receiver_callno =
     ''sender:'' @ ip_string sender @ '' receiver:'' @ ip_string receiver @ '' sender_callno:'' @ sender_callno @
     '' receiver_callno:'' @ receiver_callno"

definition Iax2AuthreqInfo_ToString :: "Iax2AuthreqInfo \<Rightarrow> string" where
  "Iax2AuthreqInfo_ToString i = parties_string (Iax2AuthreqInfo.m_senderIp i) (Iax2AuthreqInfo.m_receiverIp i)
     (Iax2AuthreqInfo.m_sender_callno i) (Iax2AuthreqInfo.m_receiver_callno i)"

definition Iax2AcceptInfo_ToString :: "Iax2AcceptInfo \<Rightarrow> string" where
  "Iax2AcceptInfo_ToString i = parties_string (Iax2AcceptInfo.m_senderIp i) (Iax2AcceptInfo.m_receiverIp i)
     (Iax2AcceptInfo.m_sender_callno i) (Iax2AcceptInfo.m_receiver_callno i)"

definition Iax2HangupInfo_ToString :: "Iax2HangupInfo \<Rightarrow> string" where
  "Iax2HangupInfo_ToString i = parties_string (Iax2HangupInfo.m_senderIp i) (Iax2HangupInfo.m_receiverIp i)
     (Iax2HangupInfo.m_sender_callno i) (Iax2HangupInfo.m_receiver_callno i)"

definition Iax2PacketInfo_ToString :: "Iax2PacketInfo \<Rightarrow> string" where
  "Iax2PacketInfo_ToString p = parties_string (m_sourceIp p) (m_destIp p) (IntToString (int (unat (m_sourcecallno p))))
     (IntToString (int (unat (m_destcallno p)))) @ '' type:'' @ IntToString (int (unat (m_payloadType p))) @ '' size:'' @
     IntToString (sint (m_payloadSize p)) @ '' timestamp:'' @ IntToString (int (unat (m_timestamp p)))"

section \<open>State\<close>

text \<open>The code has numbers for the states and assigns no others.\<close>

datatype iax2_state = IAX2_STATE_WAITING | IAX2_STATE_LINKED | IAX2_STATE_UP

fun iax2_state_to_str :: "iax2_state \<Rightarrow> string" where
  "iax2_state_to_str IAX2_STATE_WAITING = ''WAITING''"
| "iax2_state_to_str IAX2_STATE_LINKED = ''LINKED''"
| "iax2_state_to_str IAX2_STATE_UP = ''UP''"

record Iax2Session =
  m_trackingId :: string
  m_srcIpAndCallNo :: string
  m_destIpAndCallNo :: string
  m_new :: "Iax2NewInfo option"
  m_lastUpdated :: int
  m_localParty :: string
  m_remoteParty :: string
  m_localEntryPoint :: string
  m_direction :: DirectionEnum
  m_numIax2Packets :: int
  m_codec :: int
  m_iax2_state :: iax2_state
  m_lastIax2Packet :: "nat option"
  m_lastIax2PacketSide1 :: "nat option"
  m_lastIax2PacketSide2 :: "nat option"
  m_invitorIp :: u32
  m_inviteeIp :: u32
  m_localIp :: u32
  m_remoteIp :: u32
  m_invitor_scallno :: u16
  m_invitee_scallno :: u16
  m_capturePort :: string
  m_started :: bool
  m_stopped :: bool
  m_beginDate :: int
  m_orkUid :: string
  m_hasDuplicateIax2 :: bool
  m_news :: "Iax2NewInfo list"
  m_tags :: "(string, string) std_map"
  m_channel1SeqNo :: u16
  m_channel2SeqNo :: u16

record Iax2Call = Iax2Session +
  i_packets :: "Iax2PacketInfo list"
  i_callbacks :: "callback list"

text \<open>The configuration, the clock in seconds and \<open>apr_time_exp_lt\<close>.\<close>

record Iax2World =
  iw_config :: VoIpSettings
  iw_now :: int
  iw_local_time :: "int \<Rightarrow> int \<times> int \<times> int \<times> int \<times> int \<times> int"

definition new_Iax2Session :: "Iax2World \<Rightarrow> string \<Rightarrow> Iax2Session" where
  "new_Iax2Session w trackingId =
     \<lparr>m_trackingId = trackingId, m_srcIpAndCallNo = '''', m_destIpAndCallNo = '''', m_new = None, m_lastUpdated = iw_now w,
      m_localParty = '''', m_remoteParty = '''', m_localEntryPoint = '''', m_direction = DirUnkn, m_numIax2Packets = 0,
      m_codec = 0, m_iax2_state = IAX2_STATE_WAITING, m_lastIax2Packet = None, m_lastIax2PacketSide1 = None,
      m_lastIax2PacketSide2 = None, m_invitorIp = 0, m_inviteeIp = 0, m_localIp = 0, m_remoteIp = 0, m_invitor_scallno = 0,
      m_invitee_scallno = 0, m_capturePort = '''', m_started = False, m_stopped = False, m_beginDate = 0, m_orkUid = '''',
      m_hasDuplicateIax2 = False, m_news = [], m_tags = [], m_channel1SeqNo = 1, m_channel2SeqNo = 1\<rparr>"

section \<open>Events\<close>

definition iax2_capture :: "CaptureEvent \<Rightarrow> Iax2Call \<Rightarrow> Iax2Call" where
  "iax2_capture ev c = c\<lparr>i_callbacks := i_callbacks c @ [EventCallback ev (m_capturePort c)]\<rparr>"

definition iax2_report :: "EventTypeEnum \<Rightarrow> string \<Rightarrow> Iax2Call \<Rightarrow> Iax2Call" where
  "iax2_report t val c = iax2_capture (new_CaptureEvent t '''' val 0) c"

definition Iax2Session_Stop :: "Iax2Call \<Rightarrow> Iax2Call" where
  "Iax2Session_Stop c =
     (if m_started c \<and> \<not> m_stopped c
      then (iax2_capture ((new_CaptureEvent EtStop '''' '''' 0)\<lparr>ev_timestamp := m_lastUpdated c\<rparr>) c)\<lparr>m_stopped := True\<rparr>
      else c)"

definition Iax2Session_GenerateOrkUid :: "Iax2World \<Rightarrow> Iax2Call \<Rightarrow> Iax2Call" where
  "Iax2Session_GenerateOrkUid w c =
     (case iw_local_time w (m_beginDate c) of (year, month, day, hour, minute, second) \<Rightarrow>
      c\<lparr>m_orkUid := fmt_precision 4 year @ fmt_precision 2 month @ fmt_precision 2 day @ ''_'' @
         fmt_precision 2 hour @ fmt_precision 2 minute @ fmt_precision 2 second @ ''_'' @ m_trackingId c\<rparr>)"

definition Iax2Session_Start :: "Iax2World \<Rightarrow> Iax2Call \<Rightarrow> Iax2Call" where
  "Iax2Session_Start w c =
     (let c1 = Iax2Session_GenerateOrkUid w (c\<lparr>m_started := True, m_beginDate := iw_now w\<rparr>)
      in iax2_capture ((new_CaptureEvent EtStart '''' (m_trackingId c1) 0)\<lparr>ev_timestamp := m_beginDate c1\<rparr>) c1)"

section \<open>Metadata\<close>

definition invitor_port :: "Iax2Call \<Rightarrow> string" where
  "invitor_port c = ip_string (m_invitorIp c) @ '','' @ IntToString (int (unat (m_invitor_scallno c)))"

definition ProcessMetadataIax2Incoming :: "Iax2Call \<Rightarrow> Iax2Call result" where
  "ProcessMetadataIax2Incoming c =
     (case m_new c of
        None \<Rightarrow> Inl NullDereference
      | Some i \<Rightarrow> Inr (c\<lparr>m_remoteParty := m_caller i,
          m_localParty := (if m_localExtension i \<noteq> '''' then m_localExtension i else m_callee i),
          m_localEntryPoint := (if m_localExtension i \<noteq> '''' then m_callee i else ''''),
          m_direction := DirIn, m_localIp := m_inviteeIp c, m_remoteIp := m_invitorIp c, m_capturePort := invitor_port c\<rparr>))"

definition ProcessMetadataIax2Outgoing :: "Iax2Call \<Rightarrow> Iax2Call result" where
  "ProcessMetadataIax2Outgoing c =
     (case m_new c of
        None \<Rightarrow> Inl NullDereference
      | Some i \<Rightarrow> Inr (c\<lparr>m_remoteParty := m_callee i,
          m_localParty := (if m_localExtension i \<noteq> '''' then m_localExtension i else m_caller i),
          m_localEntryPoint := (if m_localExtension i \<noteq> '''' then m_caller i else ''''),
          m_direction := DirOut, m_capturePort := invitor_port c, m_localIp := m_invitorIp c, m_remoteIp := m_inviteeIp c\<rparr>))"

text \<open>A packet between strangers is logged, but used.\<close>

definition ProcessMetadataIax2 :: "Iax2World \<Rightarrow> Iax2PacketInfo \<Rightarrow> Iax2Call \<Rightarrow> Iax2Call result" where
  "ProcessMetadataIax2 w p c =
     (let c1 = c\<lparr>m_codec := int (unat (m_payloadType p))\<rparr>;
          lan = IsPartOfLan (VoIpConfig.truncate (iw_config w))
      in andThen (IsMediaGateway (iw_config w) (m_invitorIp c1)) (\<lambda>invitorGateway.
         if invitorGateway then
           andThen (IsMediaGateway (iw_config w) (m_inviteeIp c1)) (\<lambda>inviteeGateway.
           if inviteeGateway then ProcessMetadataIax2Incoming c1
           else if lan (m_inviteeIp c1) then ProcessMetadataIax2Incoming c1
           else ProcessMetadataIax2Incoming c1)
         else if lan (m_invitorIp c1) then ProcessMetadataIax2Outgoing c1
         else andThen (IsMediaGateway (iw_config w) (m_inviteeIp c1)) (\<lambda>inviteeGateway.
           if inviteeGateway then ProcessMetadataIax2Incoming c1
           else if lan (m_inviteeIp c1) then ProcessMetadataIax2Incoming c1
           else ProcessMetadataIax2Outgoing c1)))"

text \<open>\<open>UpdateMetadataIax2\<close>, which nothing calls: the last candidate in front of the first NEW that is validated.\<close>

fun find_new :: "(Iax2NewInfo \<Rightarrow> bool) \<Rightarrow> nat \<Rightarrow> Iax2NewInfo list \<Rightarrow> nat option \<Rightarrow> nat option" where
  "find_new matches i [] found = found"
| "find_new matches i (n # ns) found =
     (if m_validated n then found else find_new matches (i + 1) ns (if matches n then Some i else found))"

definition UpdateMetadataIax2 :: "Iax2PacketInfo \<Rightarrow> bool \<Rightarrow> Iax2Call \<Rightarrow> Iax2Call" where
  "UpdateMetadataIax2 p sourceIax2AddressIsNew c =
     (let address = (if sourceIax2AddressIsNew then m_sourceIp p else m_destIp p)
      in case find_new (\<lambda>n. address = Iax2NewInfo.m_receiverIp n) 0 (m_news c) None of
           None \<Rightarrow> c
         | Some k \<Rightarrow>
             let i = (m_news c ! k)\<lparr>m_validated := True\<rparr>;
                 c1 = c\<lparr>m_news := (m_news c)[k := i], m_remoteParty := m_caller i,
                        m_localParty := (if m_localExtension i \<noteq> '''' then m_localExtension i else m_callee i),
                        m_localEntryPoint := (if m_localExtension i \<noteq> '''' then m_callee i else ''''),
                        m_localIp := Iax2NewInfo.m_receiverIp i\<rparr>;
                 c2 = iax2_report EtRemoteParty (m_remoteParty c1) (iax2_report EtLocalParty (m_localParty c1) c1);
                 c3 = (if m_localEntryPoint c2 \<noteq> '''' then iax2_report EtLocalEntryPoint (m_localEntryPoint c2) c2 else c2)
             in iax2_report EtUpdate '''' (iax2_report EtLocalIp (ip_string (m_localIp c3)) c3))"

definition Iax2Session_ReportMetadata :: "Iax2Call \<Rightarrow> Iax2Call" where
  "Iax2Session_ReportMetadata c =
     (let c1 = (if m_localParty c = '''' then c\<lparr>m_localParty := ip_string (m_localIp c)\<rparr> else c);
          c2 = iax2_report EtRemoteParty (m_remoteParty c1) (iax2_report EtLocalParty (m_localParty c1) c1);
          c3 = (if m_localEntryPoint c2 \<noteq> '''' then iax2_report EtLocalEntryPoint (m_localEntryPoint c2) c2 else c2);
          c4 = iax2_report EtDirection (DirectionToString (m_direction c3)) c3;
          c5 = iax2_report EtRemoteIp (ip_string (m_remoteIp c4)) (iax2_report EtLocalIp (ip_string (m_localIp c4)) c4);
          c6 = iax2_report EtCallId (m_srcIpAndCallNo c5) (iax2_report EtOrkUid (m_orkUid c5) c5);
          c7 = fold (\<lambda>(key, val). iax2_capture (new_CaptureEvent EtKeyValue key val 0)) (m_tags c6) c6
      in iax2_report EtEndMetadata '''' c7)"

section \<open>Voice packets\<close>

text \<open>The \<open>switch\<close> of \<open>RtpTimestamp\<close> has no \<open>break\<close>.\<close>

definition RtpTimestamp :: "int \<Rightarrow> int" where
  "RtpTimestamp codec =
     (let ts = 0 :: int;
          ts = (if codec = 0 \<or> codec = 8 then 160 else ts);
          ts = (if codec = 0 \<or> codec = 8 \<or> codec = 18 then 20 else ts);
          ts = (if codec = 0 \<or> codec = 8 \<or> codec = 18 \<or> codec = 4 then 24 else ts);
          ts = 160
      in ts)"

definition rewrite_timestamp :: "nat \<Rightarrow> u32 \<Rightarrow> Iax2Call \<Rightarrow> Iax2Call" where
  "rewrite_timestamp r ts c = c\<lparr>i_packets := (i_packets c)[r := (i_packets c ! r)\<lparr>m_timestamp := ts\<rparr>]\<rparr>"

text \<open>
  The channel of a packet, \<open>None\<close> for a duplicate. The statement for side 1 is \<open>=+\<close>, an assignment.
\<close>

definition choose_side :: "Iax2World \<Rightarrow> nat \<Rightarrow> Iax2Call \<Rightarrow> nat option \<times> Iax2Call" where
  "choose_side w r c =
     (let p = i_packets c ! r; rewrite = m_Iax2RewriteTimestamps (iw_config w)
      in case m_lastIax2PacketSide1 c of
           None \<Rightarrow> (Some 1, c\<lparr>m_lastIax2PacketSide1 := Some r\<rparr>)
         | Some s1 \<Rightarrow>
             let p1 = i_packets c ! s1
             in if m_destIp p = m_destIp p1 then
                  if rewrite then (Some 1, (rewrite_timestamp r (m_timestamp p1 + 20) c)\<lparr>m_lastIax2PacketSide1 := Some r\<rparr>)
                  else if m_timestamp p = m_timestamp p1 then (None, c\<lparr>m_hasDuplicateIax2 := True\<rparr>)
                  else (Some 1, c\<lparr>m_lastIax2PacketSide1 := Some r\<rparr>)
                else (case m_lastIax2PacketSide2 c of
                    None \<Rightarrow> (Some 2, c\<lparr>m_lastIax2PacketSide2 := Some r\<rparr>)
                  | Some s2 \<Rightarrow>
                      let p2 = i_packets c ! s2
                      in if rewrite then
                           (Some 2, (rewrite_timestamp r (m_timestamp p + (m_timestamp p2 + 20)) c)\<lparr>m_lastIax2PacketSide2 := Some r\<rparr>)
                         else if m_timestamp p = m_timestamp p2 then (None, c\<lparr>m_hasDuplicateIax2 := True\<rparr>)
                         else (Some 2, c\<lparr>m_lastIax2PacketSide2 := Some r\<rparr>)))"

definition next_seq :: "u16 \<Rightarrow> u16" where
  "next_seq n = (if n + 1 \<ge> 65535 then 1 else n + 1)"

definition send_voice :: "nat \<Rightarrow> u16 \<Rightarrow> Iax2PacketInfo \<Rightarrow> Iax2Call \<Rightarrow> Iax2Call result" where
  "send_voice channel seq p c =
     (let details = details_Clear\<lparr>AudioChunkDetails.m_arrivalTimestamp := word_of_int (m_arrivalTimestamp p),
            m_numBytes := m_payloadSize p,
            AudioChunkDetails.m_timestamp := word_of_int (int (unat seq) * RtpTimestamp (m_codec c)),
            m_rtpPayloadType := word_of_int (m_codec c), m_channel := word_of_nat channel, m_sequenceNumber := ucast seq,
            m_encoding := AlawAudio\<rparr>
      in andThen (SetBuffer (Some (m_payload p)) details new_AudioChunk) (\<lambda>chunk.
         Inr (c\<lparr>i_callbacks := i_callbacks c @ [AudioChunkCallback chunk (m_capturePort c)],
                m_lastUpdated := m_arrivalTimestamp p\<rparr>)))"

definition count_voice :: "Iax2World \<Rightarrow> nat \<Rightarrow> nat \<Rightarrow> Iax2Call \<Rightarrow> Iax2Call result" where
  "count_voice w r channel c =
     (let c1 = c\<lparr>m_numIax2Packets := m_numIax2Packets c + 1\<rparr>;
          c2 = (if m_numIax2Packets c1 = 1 then Iax2Session_ReportMetadata (Iax2Session_Start w c1) else c1);
          c3 = (if channel = 1 then c2\<lparr>m_channel1SeqNo := next_seq (m_channel1SeqNo c2)\<rparr>
                else c2\<lparr>m_channel2SeqNo := next_seq (m_channel2SeqNo c2)\<rparr>);
          seq = (if channel = 1 then m_channel1SeqNo c3 else m_channel2SeqNo c3)
      in if m_started c3 then send_voice channel seq (i_packets c3 ! r) c3 else Inr c3)"

text \<open>The boolean is False when a voice packet comes before the call is linked.\<close>

definition AddIax2Packet :: "Iax2World \<Rightarrow> nat \<Rightarrow> Iax2Call \<Rightarrow> (bool \<times> Iax2Call) result" where
  "AddIax2Packet w r c =
     (let p = i_packets c ! r
      in if m_iax2_state c \<noteq> IAX2_STATE_LINKED \<and> m_iax2_state c \<noteq> IAX2_STATE_UP then Inr (False, c)
         else if m_lastIax2Packet c = None \<and> m_frame_type p \<noteq> IAX2_FRAME_FULL then Inr (True, c)
         else andThen (if m_lastIax2Packet c = None
                       then andThen (ProcessMetadataIax2 w p c) (\<lambda>c1. Inr (c1\<lparr>m_iax2_state := IAX2_STATE_UP\<rparr>))
                       else Inr c) (\<lambda>c1.
              let c2 = (if m_frame_type p = IAX2_FRAME_FULL then c1\<lparr>m_codec := int (unat (m_payloadType p))\<rparr> else c1);
                  c3 = c2\<lparr>m_lastIax2Packet := Some r\<rparr>
              in case choose_side w r c3 of
                   (None, c4) \<Rightarrow> Inr (True, c4)
                 | (Some channel, c4) \<Rightarrow> andThen (count_voice w r channel c4) (\<lambda>c5. Inr (True, c5))))"

section \<open>Signalling\<close>

definition Iax2Session_ReportIax2Authreq :: "Iax2AuthreqInfo \<Rightarrow> Iax2Call \<Rightarrow> Iax2Call result" where
  "Iax2Session_ReportIax2Authreq authreq c =
     andThen (StringToInt (Iax2AuthreqInfo.m_sender_callno authreq)) (\<lambda>n. Inr (c\<lparr>m_invitee_scallno := word_of_int n\<rparr>))"

definition Iax2Session_ReportIax2Accept :: "Iax2AcceptInfo \<Rightarrow> Iax2Call \<Rightarrow> Iax2Call result" where
  "Iax2Session_ReportIax2Accept acceptinfo c =
     andThen (StringToInt (Iax2AcceptInfo.m_sender_callno acceptinfo)) (\<lambda>n. Inr (c\<lparr>m_invitee_scallno := word_of_int n\<rparr>))"

text \<open>The calling name as a unique ID and, behind the first space, the local extension.\<close>

definition split_calling_name :: "Iax2World \<Rightarrow> Iax2NewInfo \<Rightarrow> Iax2Call \<Rightarrow> Iax2NewInfo \<times> Iax2Call" where
  "split_calling_name w invite c =
     (let name = m_callingName invite; uniqueId = takeWhile (\<lambda>x. x \<noteq> CHR '' '') name
      in if m_iax2TreatCallerIdNameAsXUniqueId (iw_config w) then
           (if CHR '' '' \<in> set name
            then (invite\<lparr>m_localExtension := drop (length uniqueId + 1) name\<rparr>,
                  c\<lparr>m_tags := map_insert ''X-Unique-ID'' uniqueId (m_tags c)\<rparr>)
            else (invite, c\<lparr>m_tags := map_insert ''X-Unique-ID'' name (m_tags c)\<rparr>))
         else (invite, c))"

definition Iax2Session_ReportIax2New :: "Iax2World \<Rightarrow> Iax2NewInfo \<Rightarrow> Iax2Call \<Rightarrow> Iax2Call result" where
  "Iax2Session_ReportIax2New w invite c =
     (case split_calling_name w invite c of (i, c1) \<Rightarrow>
      andThen (if m_new c1 = None
               then andThen (StringToInt (m_callNo i)) (\<lambda>n.
                    Inr (c1\<lparr>m_new := Some i, m_invitorIp := Iax2NewInfo.m_senderIp i, m_inviteeIp := Iax2NewInfo.m_receiverIp i,
                            m_invitor_scallno := word_of_int n,
                            m_srcIpAndCallNo := ip_string (Iax2NewInfo.m_senderIp i) @ '','' @ m_callNo i\<rparr>))
               else Inr c1) (\<lambda>c2.
      Inr (c2\<lparr>m_news := i # m_news c2\<rparr>)))"

end
