(* ===== verification/Iax2Tables.thy ===== *)
theory Iax2Tables
  imports Iax2Calls
begin

text \<open>
  The tables of IAX2 sessions: \<open>Iax2Sessions\<close> in \<open>audiocaptureplugins/voip/Iax2Session.cpp\<close>. A reference to a session is its
  index in the list of all sessions ever created; the maps hold references and never a null one.
\<close>

section \<open>State\<close>

record Iax2Sessions =
  i_objects :: "Iax2Session list"
  i_store :: "Iax2PacketInfo list"
  i_log :: "callback list"
  m_bySrcIpAndCallNo :: "(string, nat) std_map"
  m_byDestIpAndCallNo :: "(string, nat) std_map"
  i_alphaCounter :: nat

definition new_Iax2Sessions :: "nat \<Rightarrow> Iax2Sessions" where
  "new_Iax2Sessions counter = \<lparr>i_objects = [], i_store = [], i_log = [], m_bySrcIpAndCallNo = [], m_byDestIpAndCallNo = [],
     i_alphaCounter = counter\<rparr>"

section \<open>Calling a method\<close>

definition iax2_session :: "Iax2Sessions \<Rightarrow> nat \<Rightarrow> Iax2Session" where
  "iax2_session st r = i_objects st ! r"

definition iax2_call_of :: "Iax2Sessions \<Rightarrow> nat \<Rightarrow> Iax2Call" where
  "iax2_call_of st r = Iax2Session.extend (iax2_session st r) (Iax2Call.fields (i_store st) (i_log st))"

definition iax2_return :: "nat \<Rightarrow> Iax2Call \<Rightarrow> Iax2Sessions \<Rightarrow> Iax2Sessions" where
  "iax2_return r c st = st\<lparr>i_objects := (i_objects st)[r := Iax2Session.truncate c], i_store := i_packets c,
     i_log := i_callbacks c\<rparr>"

definition iax2_change :: "nat \<Rightarrow> (Iax2Session \<Rightarrow> Iax2Session) \<Rightarrow> Iax2Sessions \<Rightarrow> Iax2Sessions" where
  "iax2_change r f st = st\<lparr>i_objects := (i_objects st)[r := f (iax2_session st r)]\<rparr>"

definition ip_and_callno :: "u32 \<Rightarrow> string \<Rightarrow> string" where
  "ip_and_callno ip callno = ip_string ip @ '','' @ callno"

section \<open>Stopping\<close>

definition Iax2Sessions_Stop :: "nat \<Rightarrow> Iax2Sessions \<Rightarrow> Iax2Sessions" where
  "Iax2Sessions_Stop r st =
     (let st1 = iax2_return r (Iax2Session_Stop (iax2_call_of st r)) st;
          src = m_srcIpAndCallNo (iax2_session st1 r); dest = m_destIpAndCallNo (iax2_session st1 r);
          st2 = (if src \<noteq> '''' then st1\<lparr>m_bySrcIpAndCallNo := map_erase src (m_bySrcIpAndCallNo st1)\<rparr> else st1)
      in if dest \<noteq> '''' then st2\<lparr>m_byDestIpAndCallNo := map_erase dest (m_byDestIpAndCallNo st2)\<rparr> else st2)"

section \<open>Signalling\<close>

definition ReportIax2New :: "Iax2World \<Rightarrow> Iax2NewInfo \<Rightarrow> Iax2Sessions \<Rightarrow> Iax2Sessions result" where
  "ReportIax2New w invite st =
     (let key = ip_and_callno (Iax2NewInfo.m_senderIp invite) (m_callNo invite);
          create = (\<lambda>st. case AlphaCounter_GetNext (i_alphaCounter st) of (trackingId, counter) \<Rightarrow>
            let r = length (i_objects st);
                st1 = st\<lparr>i_objects := i_objects st @ [(new_Iax2Session w trackingId)\<lparr>m_srcIpAndCallNo := key\<rparr>], i_alphaCounter := counter\<rparr>
            in andThen (Iax2Session_ReportIax2New w invite (iax2_call_of st1 r)) (\<lambda>c.
               let st2 = iax2_return r c st1
               in Inr (st2\<lparr>m_bySrcIpAndCallNo := map_insert (m_srcIpAndCallNo (iax2_session st2 r)) r (m_bySrcIpAndCallNo st2)\<rparr>)))
      in case map_find key (m_bySrcIpAndCallNo st) of
           None \<Rightarrow> create st
         | Some r \<Rightarrow> if m_iax2_state (iax2_session st r) = IAX2_STATE_UP then Inr st else create (Iax2Sessions_Stop r st))"

text \<open>An ACCEPT links the session that the sender's call number already leads to, which need not be the session found first.\<close>

definition ReportIax2Accept :: "Iax2AcceptInfo \<Rightarrow> Iax2Sessions \<Rightarrow> Iax2Sessions result" where
  "ReportIax2Accept acceptinfo st =
     (let src = ip_and_callno (Iax2AcceptInfo.m_receiverIp acceptinfo) (Iax2AcceptInfo.m_receiver_callno acceptinfo);
          dest = ip_and_callno (Iax2AcceptInfo.m_senderIp acceptinfo) (Iax2AcceptInfo.m_sender_callno acceptinfo)
      in case map_find src (m_bySrcIpAndCallNo st) of
           None \<Rightarrow> Inr st
         | Some r \<Rightarrow>
             (case map_find dest (m_byDestIpAndCallNo st) of
                Some d \<Rightarrow> Inr (iax2_change d (\<lambda>s. s\<lparr>m_iax2_state := IAX2_STATE_LINKED\<rparr>) st)
              | None \<Rightarrow>
                  let st1 = iax2_change r (\<lambda>s. s\<lparr>m_destIpAndCallNo := dest, m_iax2_state := IAX2_STATE_LINKED\<rparr>) st;
                      st2 = st1\<lparr>m_byDestIpAndCallNo := map_insert dest r (m_byDestIpAndCallNo st1)\<rparr>
                  in andThen (Iax2Session_ReportIax2Accept acceptinfo (iax2_call_of st2 r)) (\<lambda>c. Inr (iax2_return r c st2))))"

definition ReportIax2Authreq :: "Iax2AuthreqInfo \<Rightarrow> Iax2Sessions \<Rightarrow> Iax2Sessions result" where
  "ReportIax2Authreq authreq st =
     (let src = ip_and_callno (Iax2AuthreqInfo.m_receiverIp authreq) (Iax2AuthreqInfo.m_receiver_callno authreq);
          dest = ip_and_callno (Iax2AuthreqInfo.m_senderIp authreq) (Iax2AuthreqInfo.m_sender_callno authreq)
      in case map_find src (m_bySrcIpAndCallNo st) of
           None \<Rightarrow> Inr st
         | Some r \<Rightarrow>
             let st1 = iax2_change r (\<lambda>s. s\<lparr>m_destIpAndCallNo := dest\<rparr>) st;
                 st2 = st1\<lparr>m_byDestIpAndCallNo := map_insert dest r (m_byDestIpAndCallNo st1)\<rparr>
             in andThen (Iax2Session_ReportIax2Authreq authreq (iax2_call_of st2 r)) (\<lambda>c.
                Inr (iax2_change r (\<lambda>s. s\<lparr>m_iax2_state := IAX2_STATE_WAITING\<rparr>) (iax2_return r c st2))))"

text \<open>A HANGUP from either side: up to four sessions.\<close>

definition hangup_by_src :: "string \<Rightarrow> Iax2Sessions \<Rightarrow> Iax2Sessions" where
  "hangup_by_src key st = (case map_find key (m_bySrcIpAndCallNo st) of None \<Rightarrow> st | Some r \<Rightarrow> Iax2Sessions_Stop r st)"

definition hangup_by_dest :: "string \<Rightarrow> Iax2Sessions \<Rightarrow> Iax2Sessions" where
  "hangup_by_dest key st = (case map_find key (m_byDestIpAndCallNo st) of None \<Rightarrow> st | Some r \<Rightarrow> Iax2Sessions_Stop r st)"

definition ReportIax2Hangup :: "Iax2HangupInfo \<Rightarrow> Iax2Sessions \<Rightarrow> Iax2Sessions" where
  "ReportIax2Hangup bye st =
     (let receiver = ip_and_callno (Iax2HangupInfo.m_receiverIp bye) (Iax2HangupInfo.m_receiver_callno bye);
          sender = ip_and_callno (Iax2HangupInfo.m_senderIp bye) (Iax2HangupInfo.m_sender_callno bye)
      in hangup_by_dest sender (hangup_by_dest receiver (hangup_by_src sender (hangup_by_src receiver st))))"

section \<open>Voice packets\<close>

definition add_to_session :: "Iax2World \<Rightarrow> nat \<Rightarrow> nat \<Rightarrow> Iax2Sessions \<Rightarrow> (bool \<times> Iax2Sessions) result" where
  "add_to_session w r p st =
     andThen (AddIax2Packet w p (iax2_call_of st r)) (\<lambda>(added, c).
     let st1 = iax2_return r c st
     in Inr (if added then (True, st1) else (False, Iax2Sessions_Stop r st1)))"

definition ReportIax2Packet :: "Iax2World \<Rightarrow> nat \<Rightarrow> Iax2Sessions \<Rightarrow> (bool \<times> Iax2Sessions) result" where
  "ReportIax2Packet w p st =
     (let packet = i_store st ! p; key = ip_and_callno (m_sourceIp packet) (IntToString (int (unat (m_sourcecallno packet))))
      in case map_find key (m_bySrcIpAndCallNo st) of
           Some r \<Rightarrow> add_to_session w r p st
         | None \<Rightarrow> (case map_find key (m_byDestIpAndCallNo st) of
             Some r \<Rightarrow> add_to_session w r p st
           | None \<Rightarrow> Inr (False, st)))"

section \<open>Expiry\<close>

definition iax2_expired :: "Iax2World \<Rightarrow> int \<Rightarrow> Iax2Sessions \<Rightarrow> nat \<Rightarrow> bool" where
  "iax2_expired w now st r \<longleftrightarrow>
     now - m_lastUpdated (iax2_session st r) > m_rtpSessionWithSignallingTimeoutSec (iw_config w)"

definition Iax2_Hoover :: "Iax2World \<Rightarrow> int \<Rightarrow> Iax2Sessions \<Rightarrow> Iax2Sessions" where
  "Iax2_Hoover w now st =
     (let st1 = fold Iax2Sessions_Stop (filter (iax2_expired w now st) (map snd (m_bySrcIpAndCallNo st))) st
      in fold Iax2Sessions_Stop (filter (iax2_expired w now st1) (map snd (m_byDestIpAndCallNo st1))) st1)"

definition Iax2_StopAll :: "Iax2World \<Rightarrow> Iax2Sessions \<Rightarrow> Iax2Sessions" where
  "Iax2_StopAll w st = Iax2_Hoover w (iw_now w + 2 * m_rtpSessionWithSignallingTimeoutSec (iw_config w)) st"

section \<open>Events\<close>

text \<open>
  What the parsers report. The packets of a trunk frame are one object that is overwritten for each entry: the first packet
  of an event list is a new object (\<open>Iax2Voice\<close>), the next ones reuse the last object (\<open>Iax2VoiceAgain\<close>).
\<close>

datatype iax2_event =
    Iax2New Iax2NewInfo | Iax2Accept Iax2AcceptInfo | Iax2Authreq Iax2AuthreqInfo | Iax2Hangup Iax2HangupInfo
  | Iax2Voice Iax2PacketInfo | Iax2VoiceAgain Iax2PacketInfo | Iax2Expire int | Iax2ExpireAll

definition voice :: "Iax2World \<Rightarrow> nat \<Rightarrow> Iax2Sessions \<Rightarrow> Iax2Sessions result" where
  "voice w p st = andThen (ReportIax2Packet w p st) (\<lambda>(added, st'). Inr st')"

definition handle_iax2 :: "Iax2World \<Rightarrow> iax2_event \<Rightarrow> Iax2Sessions \<Rightarrow> Iax2Sessions result" where
  "handle_iax2 w e st =
     (case e of
        Iax2New i \<Rightarrow> ReportIax2New w i st
      | Iax2Accept i \<Rightarrow> ReportIax2Accept i st
      | Iax2Authreq i \<Rightarrow> ReportIax2Authreq i st
      | Iax2Hangup i \<Rightarrow> Inr (ReportIax2Hangup i st)
      | Iax2Voice p \<Rightarrow> voice w (length (i_store st)) (st\<lparr>i_store := i_store st @ [p]\<rparr>)
      | Iax2VoiceAgain p \<Rightarrow>
          voice w (length (i_store st) - 1) (st\<lparr>i_store := (i_store st)[length (i_store st) - 1 := p]\<rparr>)
      | Iax2Expire now \<Rightarrow> Inr (Iax2_Hoover w now st)
      | Iax2ExpireAll \<Rightarrow> Inr (Iax2_StopAll w st))"

fun handle_all_iax2 :: "Iax2World \<Rightarrow> iax2_event list \<Rightarrow> Iax2Sessions \<Rightarrow> Iax2Sessions result" where
  "handle_all_iax2 w [] st = Inr st"
| "handle_all_iax2 w (e # es) st = andThen (handle_iax2 w e st) (handle_all_iax2 w es)"

end
