(* ===== verification/Iax2Parsing.thy ===== *)
theory Iax2Parsing
  imports PacketDispatch Iax2Tables
begin

text \<open>
  The IAX2 parsers: \<open>audiocaptureplugins/voip/Iax2Parsers.cpp\<close>, on the structs \<open>Iax2FullHeader\<close> (12 bytes),
  \<open>Iax2MiniHeader\<close> (4), \<open>Iax2MetaTrunkHeader\<close> (8), \<open>Iax2MetaTrunkEntry\<close> (4) and \<open>Iax2MetaTrunkEntryTs\<close> (6) of
  \<open>PacketHeaderDefs.h\<close>. Information elements are copied to an array of 1024 bytes on the stack; what it held before is the
  argument \<open>stage\<close>.
\<close>

section \<open>Codecs\<close>

definition iax2_codec_to_rtp_payloadtype :: "int \<Rightarrow> int" where
  "iax2_codec_to_rtp_payloadtype codec =
     (case map_of [(4, 0), (16, 2), (2, 3), (1, 4), (32, 5), (128, 7), (8, 8), (64, 9), (256, 18), (1024, 97)] codec of
        Some pt \<Rightarrow> pt | None \<Rightarrow> - 1)"

definition get_uncompressed_subclass :: "u8 \<Rightarrow> int" where
  "get_uncompressed_subclass c_sub =
     (if bit c_sub 7 then if c_sub = 0xFF then - 1 else sint (push_bit (unat (c_sub AND 0x1F)) 1 :: u32)
      else int (unat c_sub))"

section \<open>Information elements\<close>

text \<open>Pointers are offsets into the array.\<close>

record iax2_ies =
  ies_caller :: "nat option"
  ies_callee :: "nat option"
  ies_format :: u32
  ies_username :: "nat option"
  ies_authmethods :: u32
  ies_challenge :: "nat option"
  ies_calling_name :: "nat option"

definition no_ies :: iax2_ies where
  "no_ies = \<lparr>ies_caller = None, ies_callee = None, ies_format = 0, ies_username = None, ies_authmethods = 0,
     ies_challenge = None, ies_calling_name = None\<rparr>"

definition note_ie :: "nat \<Rightarrow> nat \<Rightarrow> u8 list \<Rightarrow> nat \<Rightarrow> iax2_ies \<Rightarrow> iax2_ies result" where
  "note_ie ie len mem p ies =
     (if ie = 4 then Inr (ies\<lparr>ies_calling_name := Some p\<rparr>)
      else if ie = 1 then Inr (ies\<lparr>ies_callee := Some p\<rparr>)
      else if ie = 2 then Inr (ies\<lparr>ies_caller := Some p\<rparr>)
      else if ie = 9 then
        (if len = 4 then andThen (read_be32 mem (int p)) (\<lambda>v. Inr (ies\<lparr>ies_format := v\<rparr>)) else Inr (ies\<lparr>ies_format := 0\<rparr>))
      else if ie = 6 then Inr (ies\<lparr>ies_username := Some p\<rparr>)
      else if ie = 14 then
        (if len = 4 then andThen (read_be32 mem (int p)) (\<lambda>v. Inr (ies\<lparr>ies_authmethods := v\<rparr>))
         else Inr (ies\<lparr>ies_authmethods := 0\<rparr>))
      else if ie = 15 then Inr (ies\<lparr>ies_challenge := Some p\<rparr>)
      else Inr ies)"

text \<open>
  The loop, from offset \<open>data\<close> on with \<open>datalen\<close> bytes left. The type of each element is overwritten with 0, which ends the
  text of the element before it; the last text is ended by the byte behind the elements. The result is the returned
  number, the elements and the array.
\<close>

function ies_loop :: "u8 list \<Rightarrow> nat \<Rightarrow> nat \<Rightarrow> iax2_ies \<Rightarrow> (int \<times> iax2_ies \<times> u8 list) result" where
  "ies_loop mem data datalen ies =
     (if datalen \<ge> 2 then
        andThen (peek mem (int data)) (\<lambda>ie.
        andThen (peek mem (int data + 1)) (\<lambda>len.
        if unat len > datalen - 2 then Inr (- 1, ies, mem)
        else andThen (note_ie (unat ie) (unat len) mem (data + 2) ies) (\<lambda>ies'.
             andThen (poke mem (int data) 0) (\<lambda>mem'.
             ies_loop mem' (data + (unat len + 2)) (datalen - (unat len + 2)) ies'))))
      else andThen (poke mem (int data) 0) (\<lambda>mem'. Inr (if datalen \<noteq> 0 then - 1 else 0, ies, mem')))"
  by pat_completeness auto
termination
  by (relation "measure (\<lambda>(mem, data, datalen, ies). datalen)") auto

declare ies_loop.simps [simp del]

definition parse_iax2_ies :: "u8 list \<Rightarrow> nat \<Rightarrow> (int \<times> iax2_ies \<times> u8 list) result" where
  "parse_iax2_ies mem datalen = ies_loop mem 0 datalen no_ies"

definition MAX_IES_LENGTH :: int where
  "MAX_IES_LENGTH = 1024"

text \<open>The elements, when they are valid, and the array that their pointers lead into.\<close>

definition staged_ies :: "u8 list \<Rightarrow> u8 list \<Rightarrow> int \<Rightarrow> int \<Rightarrow> (iax2_ies \<times> string) option result" where
  "staged_ies stage mem ie_data ies_len =
     andThen (mem_slice mem ie_data (nat ies_len)) (\<lambda>bytes.
     andThen (parse_iax2_ies (bytes @ drop (length bytes) stage) (length bytes)) (\<lambda>(status, ies, stage').
     Inr (if status \<noteq> 0 then None else Some (ies, chars_of stage'))))"

section \<open>Full frames\<close>

type_synonym iax2_parsed = "iax2_event list option result"

definition is_full_frame :: "DetectEnv \<Rightarrow> IpPacket \<Rightarrow> int \<Rightarrow> bool result" where
  "is_full_frame env k udp =
     (if \<not> m_iax2Support (de_config env) then Inr False
      else andThen (udp_len (k_mem k) udp) (\<lambda>len.
        if int (unat len) - 8 < 12 then Inr False
        else andThen (read_be16 (k_mem k) (udp + 8)) (\<lambda>scallno. Inr (bit scallno 15))))"

definition is_kind :: "u8 list \<Rightarrow> int \<Rightarrow> nat \<Rightarrow> int \<Rightarrow> bool result" where
  "is_kind mem fh frame command =
     andThen (peek mem (fh + 10)) (\<lambda>type.
     if unat type \<noteq> frame then Inr False
     else andThen (peek mem (fh + 11)) (\<lambda>c_sub. Inr (get_uncompressed_subclass c_sub = command)))"

text \<open>What is behind a header of \<open>n\<close> bytes, by the length of the IP packet.\<close>

definition length_behind :: "IpPacket \<Rightarrow> int \<Rightarrow> int \<Rightarrow> int result" where
  "length_behind k header n = andThen (ip_len (k_mem k) (k_ip k)) (\<lambda>len. Inr (k_ip k + int len - (header + n)))"

definition frame_callno :: "u8 list \<Rightarrow> int \<Rightarrow> u16 result" where
  "frame_callno mem p = andThen (read_be16 mem p) (\<lambda>n. Inr (n AND 0x7FFF))"

definition callno_string :: "u16 \<Rightarrow> string" where
  "callno_string n = IntToString (int (unat n))"

definition text_or_witheld :: "string \<Rightarrow> nat option \<Rightarrow> string result" where
  "text_or_witheld stage p = (case p of None \<Rightarrow> Inr ''WITHELD''
     | Some p \<Rightarrow> andThen (c_string_at stage (int p)) (\<lambda>s. Inr (if s = '''' then ''WITHELD'' else s)))"

definition report_new :: "IpPacket \<Rightarrow> int \<Rightarrow> iax2_ies \<Rightarrow> string \<Rightarrow> iax2_parsed" where
  "report_new k fh ies stage =
     (case ies_callee ies of
        None \<Rightarrow> Inr None
      | Some p \<Rightarrow>
          andThen (c_string_at stage (int p)) (\<lambda>callee.
          if callee = '''' then Inr None
          else andThen (text_or_witheld stage (ies_caller ies)) (\<lambda>caller.
               andThen (case ies_calling_name ies of None \<Rightarrow> Inr '''' | Some q \<Rightarrow> c_string_at stage (int q)) (\<lambda>name.
               andThen (ip_addresses (k_mem k) (k_ip k)) (\<lambda>(src, dst).
               andThen (frame_callno (k_mem k) fh) (\<lambda>callno.
               Inr (Some [Iax2New (new_Iax2NewInfo\<lparr>Iax2NewInfo.m_senderIp := src, m_receiverIp := dst, m_caller := caller,
                 m_callee := callee, m_callingName := name, m_callNo := callno_string callno\<rparr>)])))))))"

definition TryIax2New :: "u8 list \<Rightarrow> DetectEnv \<Rightarrow> IpPacket \<Rightarrow> int \<Rightarrow> iax2_parsed" where
  "TryIax2New stage env k udp =
     (let fh = udp + 8
      in andThen (is_full_frame env k udp) (\<lambda>full. if \<not> full then Inr None
         else andThen (length_behind k fh 12) (\<lambda>ies_len. if ies_len \<le> 0 \<or> ies_len > MAX_IES_LENGTH then Inr None
         else andThen (is_kind (k_mem k) fh 6 1) (\<lambda>new. if \<not> new then Inr None
         else andThen (staged_ies stage (k_mem k) (fh + 12) ies_len) (\<lambda>staged. case staged of
           None \<Rightarrow> Inr None
         | Some (ies, stage') \<Rightarrow> report_new k fh ies stage')))))"

text \<open>The other commands check the kind before the length.\<close>

definition command_ies :: "int \<Rightarrow> u8 list \<Rightarrow> DetectEnv \<Rightarrow> IpPacket \<Rightarrow> int \<Rightarrow> iax2_ies option result" where
  "command_ies command stage env k udp =
     (let fh = udp + 8
      in andThen (is_full_frame env k udp) (\<lambda>full. if \<not> full then Inr None
         else andThen (is_kind (k_mem k) fh 6 command) (\<lambda>b. if \<not> b then Inr None
         else andThen (length_behind k fh 12) (\<lambda>ies_len. if ies_len \<le> 0 \<or> ies_len > MAX_IES_LENGTH then Inr None
         else andThen (staged_ies stage (k_mem k) (fh + 12) ies_len) (\<lambda>staged. Inr (map_option fst staged))))))"

text \<open>Addresses and call numbers of the sender and the receiver.\<close>

definition frame_parties :: "IpPacket \<Rightarrow> int \<Rightarrow> (u32 \<times> u32 \<times> string \<times> string) result" where
  "frame_parties k fh =
     andThen (ip_addresses (k_mem k) (k_ip k)) (\<lambda>(src, dst).
     andThen (frame_callno (k_mem k) fh) (\<lambda>scallno.
     andThen (frame_callno (k_mem k) (fh + 2)) (\<lambda>dcallno.
     Inr (src, dst, callno_string scallno, callno_string dcallno))))"

definition TryIax2Accept :: "u8 list \<Rightarrow> DetectEnv \<Rightarrow> IpPacket \<Rightarrow> int \<Rightarrow> iax2_parsed" where
  "TryIax2Accept stage env k udp =
     andThen (command_ies 7 stage env k udp) (\<lambda>found. case found of
       None \<Rightarrow> Inr None
     | Some ies \<Rightarrow>
         if ies_format ies = 0 then Inr None
         else andThen (frame_parties k (udp + 8)) (\<lambda>(src, dst, scallno, dcallno).
              Inr (Some [Iax2Accept \<lparr>Iax2AcceptInfo.m_senderIp = src, m_receiverIp = dst, m_sender_callno = scallno,
                m_receiver_callno = dcallno\<rparr>])))"

definition TryIax2Authreq :: "u8 list \<Rightarrow> DetectEnv \<Rightarrow> IpPacket \<Rightarrow> int \<Rightarrow> iax2_parsed" where
  "TryIax2Authreq stage env k udp =
     andThen (command_ies 8 stage env k udp) (\<lambda>found. case found of
       None \<Rightarrow> Inr None
     | Some ies \<Rightarrow>
         if ies_username ies = None \<or> ies_authmethods ies = 0 \<or> ies_challenge ies = None then Inr None
         else andThen (frame_parties k (udp + 8)) (\<lambda>(src, dst, scallno, dcallno).
              Inr (Some [Iax2Authreq \<lparr>Iax2AuthreqInfo.m_senderIp = src, m_receiverIp = dst, m_sender_callno = scallno,
                m_receiver_callno = dcallno\<rparr>])))"

definition report_hangup :: "IpPacket \<Rightarrow> int \<Rightarrow> iax2_parsed" where
  "report_hangup k fh =
     andThen (frame_parties k fh) (\<lambda>(src, dst, scallno, dcallno).
     Inr (Some [Iax2Hangup \<lparr>Iax2HangupInfo.m_senderIp = src, m_receiverIp = dst, m_sender_callno = scallno,
       m_receiver_callno = dcallno\<rparr>]))"

definition TryIax2Hangup :: "u8 list \<Rightarrow> DetectEnv \<Rightarrow> IpPacket \<Rightarrow> int \<Rightarrow> iax2_parsed" where
  "TryIax2Hangup stage env k udp =
     andThen (command_ies 5 stage env k udp) (\<lambda>found. if found = None then Inr None else report_hangup k (udp + 8))"

definition TryIax2ControlHangup :: "DetectEnv \<Rightarrow> IpPacket \<Rightarrow> int \<Rightarrow> iax2_parsed" where
  "TryIax2ControlHangup env k udp =
     andThen (is_full_frame env k udp) (\<lambda>full. if \<not> full then Inr None
     else andThen (is_kind (k_mem k) (udp + 8) 4 1) (\<lambda>b. if \<not> b then Inr None else report_hangup k (udp + 8)))"

definition TryIax2Reject :: "u8 list \<Rightarrow> DetectEnv \<Rightarrow> IpPacket \<Rightarrow> int \<Rightarrow> iax2_parsed" where
  "TryIax2Reject stage env k udp =
     andThen (command_ies 6 stage env k udp) (\<lambda>found. if found = None then Inr None else report_hangup k (udp + 8))"

section \<open>Voice\<close>

text \<open>The payload length may be negative in a tunnelled packet; it is stored as an unsigned number.\<close>

definition TryIax2FullVoiceFrame :: "DetectEnv \<Rightarrow> IpPacket \<Rightarrow> int \<Rightarrow> iax2_parsed" where
  "TryIax2FullVoiceFrame env k udp =
     (let mem = k_mem k; fh = udp + 8
      in andThen (is_full_frame env k udp) (\<lambda>full. if \<not> full then Inr None
         else andThen (peek mem (fh + 10)) (\<lambda>type. if unat type \<noteq> 2 then Inr None
         else andThen (peek mem (fh + 11)) (\<lambda>c_sub.
         let pt = iax2_codec_to_rtp_payloadtype (get_uncompressed_subclass c_sub)
         in if pt < 0 then Inr None
            else andThen (length_behind k fh 12) (\<lambda>data_len. if data_len = 0 then Inr None
            else andThen (ip_addresses mem (k_ip k)) (\<lambda>(src, dst).
                 andThen (frame_callno mem fh) (\<lambda>scallno.
                 andThen (frame_callno mem (fh + 2)) (\<lambda>dcallno.
                 andThen (read_be32 mem (fh + 4)) (\<lambda>ts.
                 Inr (Some [Iax2Voice \<lparr>m_sourceIp = src, m_destIp = dst, m_sourcecallno = scallno, m_destcallno = dcallno,
                   m_frame_type = IAX2_FRAME_FULL, m_payloadSize = word_of_int data_len, m_payloadType = word_of_int pt,
                   m_payload = drop (nat (fh + 12)) mem, m_timestamp = ts,
                   m_arrivalTimestamp = pe_now (de_parser env)\<rparr>]))))))))))"

definition mini_packet :: "DetectEnv \<Rightarrow> u8 list \<Rightarrow> u32 \<times> u32 \<Rightarrow> u16 \<Rightarrow> int \<Rightarrow> int \<Rightarrow> u16 \<Rightarrow> Iax2PacketInfo" where
  "mini_packet env mem addresses scallno bytes payload ts =
     \<lparr>m_sourceIp = fst addresses, m_destIp = snd addresses, m_sourcecallno = scallno, m_destcallno = 0,
      m_frame_type = IAX2_FRAME_MINI, m_payloadSize = word_of_int bytes, m_payloadType = 0, m_payload = drop (nat payload) mem,
      m_timestamp = ucast ts, m_arrivalTimestamp = pe_now (de_parser env)\<rparr>"

text \<open>
  The entries of a trunk frame: length, call number and time stamp, or call number and length. The first that does not fit
  ends the loop.
\<close>

function trunk_entries :: "DetectEnv \<Rightarrow> u8 list \<Rightarrow> u32 \<times> u32 \<Rightarrow> bool \<Rightarrow> int \<Rightarrow> nat \<Rightarrow> Iax2PacketInfo list result" where
  "trunk_entries env mem addresses timestamps p data_len =
     (let header = (if timestamps then 6 else 4)
      in if data_len < header then Inr []
         else andThen (read_be16 mem (if timestamps then p else p + 2)) (\<lambda>len.
           if data_len < header + unat len then Inr []
           else andThen (frame_callno mem (if timestamps then p + 2 else p)) (\<lambda>scallno.
                andThen (if timestamps then read_be16 mem (p + 4) else Inr 0) (\<lambda>ts.
                andThen (trunk_entries env mem addresses timestamps (p + int header + int (unat len)) (data_len - (header + unat len))) (\<lambda>rest.
                Inr (mini_packet env mem addresses scallno (int (unat len)) (p + int header) ts # rest))))))"
  by pat_completeness auto
termination
  by (relation "measure (\<lambda>(env, mem, addresses, timestamps, p, data_len). data_len)") (auto split: if_splits)

declare trunk_entries.simps [simp del]

definition TryIax2MetaTrunkFrame :: "DetectEnv \<Rightarrow> IpPacket \<Rightarrow> int \<Rightarrow> iax2_parsed" where
  "TryIax2MetaTrunkFrame env k udp =
     (let mem = k_mem k; mh = udp + 8
      in if \<not> m_iax2Support (de_config env) then Inr None
         else andThen (udp_len mem udp) (\<lambda>len. if int (unat len) - 8 < 8 then Inr None
         else andThen (read_be16 mem mh) (\<lambda>meta. if meta \<noteq> 0 then Inr None
         else andThen (peek mem (mh + 2)) (\<lambda>metacmd. if bit metacmd 7 \<or> metacmd \<noteq> 1 then Inr None
         else andThen (length_behind k mh 8) (\<lambda>n.
         let data_len = unat (word_of_int n :: u32)
         in if data_len = 0 then Inr None
            else andThen (peek mem (mh + 3)) (\<lambda>cmddata.
                 andThen (ip_addresses mem (k_ip k)) (\<lambda>addresses.
                 andThen (trunk_entries env mem addresses (bit cmddata 0) (mh + 8) data_len) (\<lambda>packets.
                 Inr (case packets of [] \<Rightarrow> None | p # ps \<Rightarrow> Some (Iax2Voice p # map Iax2VoiceAgain ps)))))))))) "

text \<open>The result of the last parser, whether a session took the packet, is not used.\<close>

definition TryIax2MiniVoiceFrame :: "DetectEnv \<Rightarrow> IpPacket \<Rightarrow> int \<Rightarrow> iax2_parsed" where
  "TryIax2MiniVoiceFrame env k udp =
     (let mem = k_mem k; mini = udp + 8
      in if \<not> m_iax2Support (de_config env) then Inr None
         else andThen (udp_len mem udp) (\<lambda>len. if int (unat len) - 8 < 4 then Inr None
         else andThen (read_be16 mem mini) (\<lambda>scallno. if bit scallno 15 then Inr None
         else andThen (length_behind k mini 4) (\<lambda>data_len. if data_len = 0 then Inr None
         else andThen (ip_addresses mem (k_ip k)) (\<lambda>addresses.
              andThen (read_be16 mem (mini + 2)) (\<lambda>ts.
              Inr (Some [Iax2Voice (mini_packet env mem addresses (scallno AND 0x7FFF) data_len (mini + 4) ts)])))))))"

section \<open>In turn\<close>

fun iax2_in_turn :: "(IpPacket \<Rightarrow> int \<Rightarrow> iax2_parsed) list \<Rightarrow> IpPacket \<Rightarrow> int \<Rightarrow> iax2_event list result" where
  "iax2_in_turn [] k udp = Inr []"
| "iax2_in_turn (parser # parsers) k udp =
     andThen (parser k udp) (\<lambda>found. case found of None \<Rightarrow> iax2_in_turn parsers k udp | Some events \<Rightarrow> Inr events)"

definition iax2_parsers :: "u8 list \<Rightarrow> DetectEnv \<Rightarrow> (IpPacket \<Rightarrow> int \<Rightarrow> iax2_parsed) list" where
  "iax2_parsers stage env =
     [TryIax2New stage env, TryIax2Accept stage env, TryIax2Authreq stage env, TryIax2Hangup stage env,
      TryIax2ControlHangup env, TryIax2Reject stage env, TryIax2FullVoiceFrame env, TryIax2MetaTrunkFrame env,
      TryIax2MiniVoiceFrame env]"

definition DetectIax2 :: "u8 list \<Rightarrow> DetectEnv \<Rightarrow> IpPacket \<Rightarrow> iax2_event list result" where
  "DetectIax2 stage env k = iax2_in_turn (iax2_parsers stage env) k (k_ip k + k_headerLength k)"

section \<open>The log of a frame\<close>

text \<open>\<open>iax2_dump_frame\<close>: the two lines for a full header at \<open>fh\<close>. The code calls it in a part that is compiled out.\<close>

definition frame_names :: "string list" where
  "frame_names = [''(0?)'', ''DTMF   '', ''VOICE  '', ''VIDEO  '', ''CONTROL'', ''NULL   '', ''IAX    '', ''TEXT   '',
     ''IMAGE  '', ''HTML   '', ''CNG    '']"

definition iax_names :: "string list" where
  "iax_names = [''(0?)'', ''NEW    '', ''PING   '', ''PONG   '', ''ACK    '', ''HANGUP '', ''REJECT '', ''ACCEPT '',
     ''AUTHREQ'', ''AUTHREP'', ''INVAL  '', ''LAGRQ  '', ''LAGRP  '', ''REGREQ '', ''REGAUTH'', ''REGACK '', ''REGREJ '',
     ''REGREL '', ''VNAK   '', ''DPREQ  '', ''DPREP  '', ''DIAL   '', ''TXREQ  '', ''TXCNT  '', ''TXACC  '', ''TXREADY'',
     ''TXREL  '', ''TXREJ  '', ''QUELCH '', ''UNQULCH'', ''POKE   '', ''PAGE   '', ''MWI    '', ''UNSPRTD'', ''TRANSFR'',
     ''PROVISN'', ''FWDWNLD'', ''FWDATA '']"

definition control_names :: "string list" where
  "control_names = [''(0?)'', ''HANGUP '', ''RING   '', ''RINGING'', ''ANSWER '', ''BUSY   '', ''TKOFFHK'', ''OFFHOOK'']"

definition name_or_number :: "string list \<Rightarrow> nat \<Rightarrow> string" where
  "name_or_number names n = (if n < length names then names ! n else ''('' @ decimal n @ ''?)'')"

definition subclass_name :: "nat \<Rightarrow> nat \<Rightarrow> string" where
  "subclass_name type c_sub =
     (if type = 6 then name_or_number iax_names c_sub else if type = 4 then name_or_number control_names c_sub
      else decimal c_sub)"

definition iax2_dump_frame :: "u8 list \<Rightarrow> int \<Rightarrow> string \<Rightarrow> string \<Rightarrow> (string \<times> string) result" where
  "iax2_dump_frame mem fh source dest =
     andThen (peek mem (fh + 10)) (\<lambda>type.
     andThen (peek mem (fh + 11)) (\<lambda>c_sub.
     andThen (peek mem (fh + 8)) (\<lambda>oseqno.
     andThen (peek mem (fh + 9)) (\<lambda>iseqno.
     andThen (read_be32 mem (fh + 4)) (\<lambda>ts.
     andThen (frame_callno mem fh) (\<lambda>scallno.
     andThen (frame_callno mem (fh + 2)) (\<lambda>dcallno.
     Inr (''IAX2-Frame -- OSeqno: '' @ fmt_precision 3 (int (unat oseqno)) @ '' ISeqno: '' @ fmt_precision 3 (int (unat iseqno)) @
            '' Type: '' @ name_or_number frame_names (unat type) @ '' Subclass: '' @ subclass_name (unat type) (unat c_sub),
          ''   Timestamp: '' @ fmt_precision 5 (int (unat ts)) @ ''ms  SCall: '' @ fmt_precision 5 (int (unat scallno)) @
            ''  DCall: '' @ fmt_precision 5 (int (unat dcallno)) @ '' [Source: '' @ source @ '' Dest: '' @ dest @ '']''))))))))"

end
