(* ===== verification/Iax2Elements.thy ===== *)
theory Iax2Elements
  imports Iax2Parsing RtpFrames
begin

text \<open>
  Information elements: a reference encoder, and the proof that the parser finds in encoded elements the last text and the
  last number of each type, whatever the array on the stack held before.
\<close>

section \<open>Encoding\<close>

text \<open>An element is its type and its value of at most 255 bytes.\<close>

type_synonym element = "u8 \<times> u8 list"

definition ie_bytes :: "element \<Rightarrow> u8 list" where
  "ie_bytes e = [fst e, word_of_nat (length (snd e))] @ snd e"

definition ies_bytes :: "element list \<Rightarrow> u8 list" where
  "ies_bytes es = concat (map ie_bytes es)"

definition elements_ok :: "element list \<Rightarrow> bool" where
  "elements_ok es \<longleftrightarrow> list_all (\<lambda>e. length (snd e) \<le> 255) es"

text \<open>What the parser leaves of the elements: their types are 0.\<close>

definition cleared :: "element list \<Rightarrow> u8 list" where
  "cleared es = concat (map (\<lambda>e. [0, word_of_nat (length (snd e))] @ snd e) es)"

text \<open>The value of the last element of a type, its text and its number.\<close>

definition last_value :: "u8 \<Rightarrow> element list \<Rightarrow> u8 list option" where
  "last_value t es = map_of (rev es) t"

definition ie_text :: "u8 \<Rightarrow> element list \<Rightarrow> string option" where
  "ie_text t es = map_option (\<lambda>v. c_str (chars_of v)) (last_value t es)"

definition ie_number :: "u8 \<Rightarrow> element list \<Rightarrow> u32" where
  "ie_number t es = (case last_value t es of
     Some [a, b, c, d] \<Rightarrow> 65536 * ucast (256 * ucast a + ucast b :: u16) + ucast (256 * ucast c + ucast d :: u16) | _ \<Rightarrow> 0)"

lemma ies_bytes_simps [simp]:
  "ies_bytes [] = []" "ies_bytes (e # es) = ie_bytes e @ ies_bytes es" "ies_bytes (es @ fs) = ies_bytes es @ ies_bytes fs"
  by (simp_all add: ies_bytes_def)

lemma cleared_simps [simp]: "cleared [] = []" "cleared (es @ fs) = cleared es @ cleared fs"
  "cleared ((t, v) # es) = 0 # word_of_nat (length v) # v @ cleared es"
  by (simp_all add: cleared_def)

lemma length_ie_bytes [simp]: "length (ie_bytes (t, v)) = length v + 2"
  by (simp add: ie_bytes_def)

lemma length_cleared [simp]: "length (cleared es) = length (ies_bytes es)"
  by (induction es) (auto simp: cleared_def)

lemma last_value_append: "last_value t (es @ [(t', v)]) = (if t' = t then Some v else last_value t es)"
  by (simp add: last_value_def)

lemma elements_ok_simps [simp]: "elements_ok []" "elements_ok ((t, v) # es) \<longleftrightarrow> length v \<le> 255 \<and> elements_ok es"
  by (simp_all add: elements_ok_def)

section \<open>The parser follows the elements\<close>

text \<open>A pointer to the value of the last element of a type, or none.\<close>

definition points_to :: "element list \<Rightarrow> u8 \<Rightarrow> nat option \<Rightarrow> bool" where
  "points_to es t ptr \<longleftrightarrow> (case ptr of
     None \<Rightarrow> last_value t es = None
   | Some p \<Rightarrow> \<exists>es1 v es2. es = es1 @ (t, v) # es2 \<and> p = length (ies_bytes es1) + 2 \<and> last_value t es = Some v)"

lemma points_to_append:
  "points_to es t ptr \<Longrightarrow> points_to (es @ [(t', v)]) t (if t' = t then Some (length (ies_bytes es) + 2) else ptr)"
proof -
  assume "points_to es t ptr"
  moreover have "\<exists>es1' v'' es2'. es @ [(t', v)] = es1' @ (t, v'') # es2' \<and> p = length (ies_bytes es1') + 2 \<and>
      last_value t es = Some v''"
    if "es = es1 @ (t, v') # es2" "p = length (ies_bytes es1) + 2" "last_value t es = Some v'" for p es1 v' es2
    using that by (intro exI [of _ es1] exI [of _ v'] exI [of _ "es2 @ [(t', v)]"]) simp
  ultimately show ?thesis by (cases ptr) (auto simp: points_to_def last_value_append)
qed

definition found_ies :: "element list \<Rightarrow> iax2_ies \<Rightarrow> bool" where
  "found_ies es ies \<longleftrightarrow> points_to es 4 (ies_calling_name ies) \<and> points_to es 1 (ies_callee ies) \<and> points_to es 2 (ies_caller ies) \<and>
     points_to es 6 (ies_username ies) \<and> points_to es 15 (ies_challenge ies) \<and> ies_format ies = ie_number 9 es \<and>
     ies_authmethods ies = ie_number 14 es"

lemma found_none: "found_ies [] no_ies"
  by (simp add: found_ies_def no_ies_def points_to_def last_value_def ie_number_def)

lemma read_be32_four: "read_be32 (xs @ a # b # c # d # ys) (int (length xs)) =
    Inr (65536 * ucast (256 * ucast a + ucast b :: u16) + ucast (256 * ucast c + ucast d :: u16))"
proof -
  have "peek (xs @ ys) (int (length xs) + int n) = Inr (ys ! n)" if "n < length ys" for n ys
    using that by (simp add: peek_def nth_append nat_add_distrib)
  from this [of 0 "a # b # c # d # ys"] this [of 1 "a # b # c # d # ys"] this [of 2 "a # b # c # d # ys"]
    this [of 3 "a # b # c # d # ys"]
  show ?thesis by (simp add: read_be32_def read_be16_def add.commute)
qed

lemma ie_number_append:
  "ie_number t (es @ [(t', v)]) = (if t' = t then (case v of
     [a, b, c, d] \<Rightarrow> 65536 * ucast (256 * ucast a + ucast b :: u16) + ucast (256 * ucast c + ucast d :: u16) | _ \<Rightarrow> 0)
   else ie_number t es)"
  by (simp add: ie_number_def last_value_append)

lemma length_four: "length v = 4 \<Longrightarrow> \<exists>a b c d. v = [a, b, c, d]"
  by (simp add: length_Suc_conv numeral_eq_Suc) blast

lemma number_not_four: "length v \<noteq> 4 \<Longrightarrow> (case v of [a, b, c, d] \<Rightarrow> f a b c d | _ \<Rightarrow> 0) = (0 :: u32)"
  by (auto split: list.splits)

text \<open>The parser reads numbers in place.\<close>

lemma number_in_place:
  assumes "length v = 4"
  shows "read_be32 (xs @ v @ ys) (int (length xs)) = Inr (case v of
     [a, b, c, d] \<Rightarrow> 65536 * ucast (256 * ucast a + ucast b :: u16) + ucast (256 * ucast c + ucast d :: u16) | _ \<Rightarrow> 0)"
  using length_four [OF assms] read_be32_four by fastforce

lemma unat_type: "unat (t :: u8) = n \<longleftrightarrow> t = word_of_nat n" if "n < 256"
  using that by (auto simp: unat_of_nat)

lemma note_found:
  assumes "found_ies es ies" "xs = cleared es @ [t, word_of_nat (length v)]"
  shows "\<exists>ies'. note_ie (unat t) (length v) (xs @ v @ ys) (length (ies_bytes es) + 2) ies = Inr ies' \<and>
    found_ies (es @ [(t, v)]) ies'"
proof -
  have xs: "length xs = length (ies_bytes es) + 2" using assms(2) by simp
  note number = number_in_place [of v xs ys, unfolded xs]
  note pointers = points_to_append [of es 4 _ t v] points_to_append [of es 1 _ t v] points_to_append [of es 2 _ t v]
    points_to_append [of es 6 _ t v] points_to_append [of es 15 _ t v]
  consider "t = 4" | "t = 1" | "t = 2" | "t = 9" | "t = 6" | "t = 14" | "t = 15" | "t \<notin> {4, 1, 2, 9, 6, 14, 15}" by blast
  then show ?thesis
  proof cases
    case 4
    show ?thesis
      using assms(1) pointers number number_not_four [of v] 4
      by (cases "length v = 4") (auto simp: note_ie_def found_ies_def ie_number_append)
  next
    case 6
    show ?thesis
      using assms(1) pointers number number_not_four [of v] 6
      by (cases "length v = 4") (auto simp: note_ie_def found_ies_def ie_number_append)
  next
    case 8
    then have "unat t \<notin> {4, 1, 2, 9, 6, 14, 15}" by (auto simp: unat_type)
    then show ?thesis using assms(1) pointers 8 by (auto simp: note_ie_def found_ies_def ie_number_append)
  qed (use assms(1) pointers in \<open>auto simp: note_ie_def found_ies_def ie_number_append\<close>)
qed


text \<open>One round of the loop.\<close>

lemma ies_loop_step:
  assumes "length v \<le> 255" "found_ies ds ies"
  shows "\<exists>ies'. ies_loop (cleared ds @ ies_bytes ((t, v) # es) @ tail) (length (ies_bytes ds)) (length (ies_bytes ((t, v) # es))) ies =
      ies_loop (cleared (ds @ [(t, v)]) @ ies_bytes es @ tail) (length (ies_bytes (ds @ [(t, v)]))) (length (ies_bytes es)) ies' \<and>
    found_ies (ds @ [(t, v)]) ies'"
proof -
  let ?len = "word_of_nat (length v) :: u8" and ?rest = "ies_bytes es @ tail"
  let ?mem = "cleared ds @ ies_bytes ((t, v) # es) @ tail"
  have mem: "?mem = cleared ds @ t # ?len # v @ ?rest" by (simp add: ie_bytes_def)
  have len: "unat ?len = length v" using assms(1) by (simp add: unat_of_nat)
  have peeks: "peek ?mem (int (length (ies_bytes ds))) = Inr t" "peek ?mem (int (length (ies_bytes ds)) + 1) = Inr ?len"
    unfolding mem by (rule peek_in [where xs = "cleared ds"]; simp) (rule peek_in [where xs = "cleared ds @ [t]"]; simp)
  obtain ies' where found: "note_ie (unat t) (length v) ?mem (length (ies_bytes ds) + 2) ies = Inr ies'" "found_ies (ds @ [(t, v)]) ies'"
    using note_found [OF assms(2) refl, of t v ?rest] mem by auto
  have poke: "poke ?mem (int (length (ies_bytes ds))) 0 = Inr (cleared (ds @ [(t, v)]) @ ?rest)"
    unfolding mem by (simp add: poke_def list_update_append)
  have enough: "2 \<le> length (ies_bytes ((t, v) # es))" "\<not> length (ies_bytes ((t, v) # es)) - 2 < length v"
    "length (ies_bytes ((t, v) # es)) - (length v + 2) = length (ies_bytes es)"
    "length (ies_bytes (ds @ [(t, v)])) = length (ies_bytes ds) + (length v + 2)" by simp_all
  have "ies_loop ?mem (length (ies_bytes ds)) (length (ies_bytes ((t, v) # es))) ies =
      ies_loop (cleared (ds @ [(t, v)]) @ ?rest) (length (ies_bytes (ds @ [(t, v)]))) (length (ies_bytes es)) ies'"
    by (subst ies_loop.simps) (simp only: enough if_True if_False peeks andThen_Inr len found poke)
  with found(2) show ?thesis by blast
qed

lemma ies_loop_elements:
  assumes "elements_ok es" "found_ies ds ies"
  shows "\<exists>ies'. ies_loop (cleared ds @ ies_bytes es @ z # tail) (length (ies_bytes ds)) (length (ies_bytes es)) ies =
      Inr (0, ies', cleared (ds @ es) @ 0 # tail) \<and> found_ies (ds @ es) ies'"
  using assms
proof (induction es arbitrary: ds ies)
  case Nil
  then show ?case by (simp add: ies_loop.simps poke_def list_update_append)
next
  case (Cons e es)
  obtain t v where e: "e = (t, v)" by (cases e)
  with Cons.prems have v: "length v \<le> 255" "elements_ok es" by simp_all
  obtain ies' where step: "ies_loop (cleared ds @ ies_bytes (e # es) @ z # tail) (length (ies_bytes ds)) (length (ies_bytes (e # es))) ies =
      ies_loop (cleared (ds @ [e]) @ ies_bytes es @ z # tail) (length (ies_bytes (ds @ [e]))) (length (ies_bytes es)) ies'"
    "found_ies (ds @ [e]) ies'"
    using ies_loop_step [OF v(1) Cons.prems(2)] unfolding e by blast
  from Cons.IH [OF v(2) step(2)] show ?case by (auto simp only: step(1) append_assoc append_Cons append_Nil)
qed

lemma parse_elements:
  assumes "elements_ok es"
  shows "\<exists>ies. parse_iax2_ies (ies_bytes es @ z # tail) (length (ies_bytes es)) = Inr (0, ies, cleared es @ 0 # tail) \<and> found_ies es ies"
  using ies_loop_elements [OF assms found_none] by (simp add: parse_iax2_ies_def)

text \<open>When the elements fill the array, the terminator is written behind it.\<close>

lemma parse_elements_overflow:
  assumes "elements_ok es"
  shows "parse_iax2_ies (ies_bytes es) (length (ies_bytes es)) = Inl OutOfBounds"
proof -
  have "ies_loop (cleared ds @ ies_bytes es) (length (ies_bytes ds)) (length (ies_bytes es)) ies = Inl OutOfBounds"
    if "elements_ok es" "found_ies ds ies" for ds ies using that
  proof (induction es arbitrary: ds ies)
    case Nil
    then show ?case by (simp add: ies_loop.simps poke_def)
  next
    case (Cons e es)
    obtain t v where e: "e = (t, v)" by (cases e)
    with Cons.prems have v: "length v \<le> 255" "elements_ok es" by simp_all
    obtain ies' where step: "ies_loop (cleared ds @ ies_bytes (e # es)) (length (ies_bytes ds)) (length (ies_bytes (e # es))) ies =
        ies_loop (cleared (ds @ [e]) @ ies_bytes es) (length (ies_bytes (ds @ [e]))) (length (ies_bytes es)) ies'"
      "found_ies (ds @ [e]) ies'"
      using ies_loop_step [OF v(1) Cons.prems(2), of t es "[]"] unfolding e append_Nil2 by blast
    show ?case unfolding step(1) by (rule Cons.IH [OF v(2) step(2)])
  qed
  from this [OF assms found_none] show ?thesis by (simp add: parse_iax2_ies_def)
qed

section \<open>Reading the texts\<close>

lemma c_str_append_nul: "c_str (s @ char_of (0 :: nat) # rest) = c_str s"
  by (induction s) (auto simp: c_str_def code_of_def)

lemma cleared_head: "\<exists>rest. cleared es @ 0 # tail = 0 # rest"
  by (cases es) (auto simp: cleared_def)

lemma pointed_text:
  assumes "points_to es t (Some p)"
  shows "c_string_at (chars_of (cleared es @ 0 # tail)) (int p) = Inr (the (ie_text t es))"
proof -
  obtain es1 v es2 where es: "es = es1 @ (t, v) # es2" "p = length (ies_bytes es1) + 2" "last_value t es = Some v"
    using assms by (auto simp: points_to_def)
  obtain rest where rest: "cleared es2 @ 0 # tail = 0 # rest" using cleared_head by blast
  have "cleared es @ 0 # tail = (cleared es1 @ [0, word_of_nat (length v)]) @ v @ 0 # rest"
    using rest unfolding es(1) by simp
  then have "drop p (chars_of (cleared es @ 0 # tail)) = chars_of v @ char_of (0 :: nat) # chars_of rest"
    "p \<le> length (chars_of (cleared es @ 0 # tail))"
    unfolding es(2) by (simp_all add: chars_of_def)
  then show ?thesis
    by (auto simp: c_string_at_def es(3) ie_text_def c_str_append_nul code_of_def)
qed

lemma points_to_text: "points_to es t ptr \<Longrightarrow> (ptr = None \<longleftrightarrow> ie_text t es = None)"
  by (cases ptr) (auto simp: points_to_def ie_text_def)


section \<open>An encoded NEW\<close>

definition full_frame :: "u16 \<Rightarrow> u16 \<Rightarrow> u32 \<Rightarrow> u8 \<Rightarrow> u8 \<Rightarrow> u8 list \<Rightarrow> u8 list" where
  "full_frame scallno dcallno ts type c_sub content =
     be16_bytes (scallno OR 0x8000) @ be16_bytes dcallno @ be32_bytes ts @ [0, 0, type, c_sub] @ content"

definition iax2_datagram :: "u32 \<Rightarrow> u32 \<Rightarrow> u16 \<Rightarrow> u16 \<Rightarrow> u8 list \<Rightarrow> u8 list" where
  "iax2_datagram src dst source dest payload = ip_bytes src dst 17 (udp_bytes source dest payload)"

text \<open>An IP packet that stands in memory between other bytes.\<close>

definition packet_between :: "u8 list \<Rightarrow> u8 list \<Rightarrow> u8 list \<Rightarrow> IpPacket" where
  "packet_between before bytes behind =
     \<lparr>k_mem = before @ bytes @ behind, k_ip = int (length before), k_headerLength = 20,
      k_end = int (length before + length bytes), k_sourceMac = [], k_destinationMac = []\<rparr>"

lemma length_full_frame [simp]: "length (full_frame s d ts t c content) = 12 + length content"
  by (simp add: full_frame_def)

lemma datagram_fields:
  fixes before behind payload :: "u8 list" and src dst :: u32 and source dest :: u16
  assumes "length payload < 60000"
  defines "mem \<equiv> before @ iax2_datagram src dst source dest payload @ behind" and "ip \<equiv> int (length before)"
  shows "ip_len mem ip = Inr (28 + length payload)" "ip_addresses mem ip = Inr (src, dst)"
    "udp_len mem (ip + 20) = Inr (word_of_nat (8 + length payload))"
proof -
  let ?udp = "udp_bytes source dest payload"
  let ?start = "before @ [0x45, 0] @ be16_bytes (word_of_nat (20 + length ?udp)) @ [0, 0, 0, 0, 64, 17, 0, 0]"
  have udp: "length ?udp = 8 + length payload" by (simp add: udp_bytes_def)
  have mem: "mem = ?start @ be32_bytes src @ be32_bytes dst @ ?udp @ behind"
    by (simp add: mem_def iax2_datagram_def ip_bytes_def)
  have "read_be16 mem (ip + 2) = Inr (word_of_nat (20 + length ?udp))"
    unfolding mem by (rule be16_in [where xs = "before @ [0x45, 0]"]) (simp_all add: ip_def)
  moreover have "unat (word_of_nat (20 + length ?udp) :: u16) = 28 + length payload"
    using assms(1) by (simp only: udp unat_of_nat) simp
  ultimately show "ip_len mem ip = Inr (28 + length payload)" by (simp add: ip_len_def)
  have "read_be32 mem (ip + 12) = Inr src" unfolding mem by (rule be32_in [where xs = ?start]) (simp_all add: ip_def)
  moreover have "read_be32 mem (ip + 16) = Inr dst"
    unfolding mem by (rule be32_in [where xs = "?start @ be32_bytes src"]) (simp_all add: ip_def)
  ultimately show "ip_addresses mem ip = Inr (src, dst)" by (simp add: ip_addresses_def)
  show "udp_len mem (ip + 20) = Inr (word_of_nat (8 + length payload))" unfolding udp_len_def mem
    by (rule be16_in [where xs = "?start @ be32_bytes src @ be32_bytes dst @ be16_bytes source @ be16_bytes dest"])
      (simp_all add: ip_def udp_bytes_def)
qed

lemma datagram_payload:
  "\<exists>xs. before @ iax2_datagram src dst source dest payload @ behind = xs @ payload @ behind \<and> length xs = length before + 28"
  by (rule exI [of _ "before @ [0x45, 0] @ be16_bytes (word_of_nat (20 + length (udp_bytes source dest payload))) @
      [0, 0, 0, 0, 64, 17, 0, 0] @ be32_bytes src @ be32_bytes dst @ be16_bytes source @ be16_bytes dest @
      be16_bytes (word_of_nat (8 + length payload)) @ [0, 0]"])
    (simp add: iax2_datagram_def ip_bytes_def udp_bytes_def)

lemma callno_bits:
  assumes "callno < (0x8000 :: u16)"
  shows "bit (callno OR 0x8000) 15" "(callno OR 0x8000) AND 0x7FFF = callno"
proof -
  have "bit (0x8000 :: u16) 15" by simp
  then show "bit (callno OR 0x8000) 15" unfolding bit_or_iff by blast
  have "callno AND mask 15 = callno" by (rule less_mask_eq) (use assms in simp)
  then have "callno AND 0x7FFF = callno" by (simp add: mask_numeral)
  moreover have "(0x8000 :: u16) AND 0x7FFF = 0" by simp
  ultimately show "(callno OR 0x8000) AND 0x7FFF = callno" by (simp only: bit.conj_disj_distrib2 or.right_neutral)
qed

lemma full_frame_fields:
  fixes content before behind :: "u8 list" and src dst ts :: u32 and source dest callno dcallno :: u16 and type c_sub :: u8
  assumes "length content < 50000" "callno < 0x8000"
  defines "k \<equiv> packet_between before (iax2_datagram src dst source dest (full_frame callno dcallno ts type c_sub content)) behind"
    and "fh \<equiv> int (length before) + 28"
  shows "m_iax2Support (de_config env) \<Longrightarrow> is_full_frame env k (int (length before) + 20) = Inr True"
    "is_kind (k_mem k) fh frame command = Inr (unat type = frame \<and> get_uncompressed_subclass c_sub = command)"
    "length_behind k fh 12 = Inr (int (length content))" "frame_callno (k_mem k) fh = Inr callno"
    "mem_slice (k_mem k) (fh + 12) (length content) = Inr content" "ip_addresses (k_mem k) (k_ip k) = Inr (src, dst)"
proof -
  let ?payload = "full_frame callno dcallno ts type c_sub content"
  have short: "length ?payload < 60000" using assms(1) by simp
  note fields = datagram_fields [OF short, of before src dst source dest behind]
  have k: "k_mem k = before @ iax2_datagram src dst source dest ?payload @ behind" "k_ip k = int (length before)"
    by (simp_all add: k_def packet_between_def)
  obtain xs where xs: "k_mem k = xs @ ?payload @ behind" "int (length xs) = fh"
    using datagram_payload [of before src dst source dest ?payload behind] by (auto simp: k fh_def)
  have scallno: "read_be16 (k_mem k) fh = Inr (callno OR 0x8000)"
    unfolding xs(1) full_frame_def by (rule be16_in [where xs = xs]) (simp_all add: xs)
  then show "frame_callno (k_mem k) fh = Inr callno" by (simp add: frame_callno_def callno_bits [OF assms(2)])
  have udp: "unat (word_of_nat (8 + length ?payload) :: u16) = 8 + length ?payload" using short by (simp only: unat_of_nat) simp
  have long: "\<not> int (8 + length ?payload) - 8 < 12" by simp
  have udp_len: "udp_len (k_mem k) (int (length before) + 20) = Inr (word_of_nat (8 + length ?payload))"
    unfolding k by (rule fields(3))
  show "is_full_frame env k (int (length before) + 20) = Inr True" if "m_iax2Support (de_config env)"
    using that scallno unfolding is_full_frame_def udp_len andThen_Inr udp if_not_P [OF long]
    by (simp add: fh_def add.commute callno_bits [OF assms(2)])
  let ?start = "xs @ be16_bytes (callno OR 0x8000) @ be16_bytes dcallno @ be32_bytes ts @ [0, 0]"
  have "peek (k_mem k) (fh + 10) = Inr type"
    unfolding xs(1) full_frame_def by (rule peek_in [where xs = ?start]) (simp_all flip: xs)
  moreover have "peek (k_mem k) (fh + 11) = Inr c_sub"
    unfolding xs(1) full_frame_def by (rule peek_in [where xs = "?start @ [type]"]) (simp_all flip: xs)
  ultimately show "is_kind (k_mem k) fh frame command = Inr (unat type = frame \<and> get_uncompressed_subclass c_sub = command)"
    by (simp add: is_kind_def)
  show "length_behind k fh 12 = Inr (int (length content))"
    unfolding length_behind_def k fields(1) by (simp add: fh_def)
  show "mem_slice (k_mem k) (fh + 12) (length content) = Inr content"
    unfolding xs(1) full_frame_def by (rule slice_in [where xs = "?start @ [type, c_sub]"]) (simp_all flip: xs)
  show "ip_addresses (k_mem k) (k_ip k) = Inr (src, dst)" unfolding k by (rule fields(2))
qed


lemma staged_elements:
  assumes "elements_ok es" "length (ies_bytes es) < length stage" "mem_slice mem p (length (ies_bytes es)) = Inr (ies_bytes es)"
  shows "\<exists>ies tail. staged_ies stage mem p (int (length (ies_bytes es))) = Inr (Some (ies, chars_of (cleared es @ 0 # tail))) \<and>
    found_ies es ies"
proof -
  obtain z tail where tail: "drop (length (ies_bytes es)) stage = z # tail"
    using assms(2) by (cases "drop (length (ies_bytes es)) stage") auto
  from parse_elements [OF assms(1), of z tail] show ?thesis by (auto simp: staged_ies_def assms(3) tail)
qed

text \<open>\<open>WITHELD\<close> stands for a missing or empty caller.\<close>

definition caller_text :: "string option \<Rightarrow> string" where
  "caller_text s = (case s of None \<Rightarrow> ''WITHELD'' | Some t \<Rightarrow> if t = '''' then ''WITHELD'' else t)"

lemma report_new_elements:
  assumes "found_ies es ies" "ie_text 1 es = Some callee" "callee \<noteq> ''''" "ip_addresses (k_mem k) (k_ip k) = Inr (src, dst)"
    "frame_callno (k_mem k) fh = Inr callno"
  shows "report_new k fh ies (chars_of (cleared es @ 0 # tail)) = Inr (Some [Iax2New (new_Iax2NewInfo
    \<lparr>Iax2NewInfo.m_senderIp := src, m_receiverIp := dst, m_caller := caller_text (ie_text 2 es), m_callee := callee,
      m_callingName := (case ie_text 4 es of None \<Rightarrow> '''' | Some s \<Rightarrow> s), m_callNo := callno_string callno\<rparr>)])"
proof -
  let ?stage = "chars_of (cleared es @ 0 # tail)"
  have texts: "(case ptr of None \<Rightarrow> Inr d | Some p \<Rightarrow> andThen (c_string_at ?stage (int p)) f) =
      (case ie_text t es of None \<Rightarrow> Inr d | Some s \<Rightarrow> f s)" if "points_to es t ptr" for t ptr d and f :: "string \<Rightarrow> 'b result"
    using points_to_text [OF that] pointed_text [of es t _ tail] that by (cases ptr) auto
  have points: "points_to es 4 (ies_calling_name ies)" "points_to es 1 (ies_callee ies)" "points_to es 2 (ies_caller ies)"
    using assms(1) by (simp_all add: found_ies_def)
  have caller: "text_or_witheld ?stage (ies_caller ies) = Inr (caller_text (ie_text 2 es))"
    unfolding text_or_witheld_def texts [OF points(3)] by (simp add: caller_text_def split: option.split)
  have name: "(case ies_calling_name ies of None \<Rightarrow> Inr '''' | Some q \<Rightarrow> c_string_at ?stage (int q)) =
      Inr (case ie_text 4 es of None \<Rightarrow> '''' | Some s \<Rightarrow> s)"
    using points_to_text [OF points(1)] pointed_text [of es 4 _ tail] points(1) by (cases "ies_calling_name ies") auto
  show ?thesis
    unfolding report_new_def texts [OF points(2)] assms(2) caller name
    by (simp add: assms(3-5))
qed

text \<open>The bytes of a NEW frame with its IP and UDP headers.\<close>

definition new_frame :: "u32 \<Rightarrow> u32 \<Rightarrow> u16 \<Rightarrow> u16 \<Rightarrow> u16 \<Rightarrow> u16 \<Rightarrow> u32 \<Rightarrow> element list \<Rightarrow> u8 list" where
  "new_frame src dst source dest callno dcallno ts es =
     iax2_datagram src dst source dest (full_frame callno dcallno ts 6 1 (ies_bytes es))"

lemma subclass_new: "get_uncompressed_subclass 1 = 1"
  by (simp add: get_uncompressed_subclass_def bit_1_iff)



text \<open>A caller, a called number that is sent twice and an element of unknown type.\<close>

definition example_elements :: "element list" where
  "example_elements = [(1, [55]), (2, [49, 50]), (200, [1, 2, 3]), (1, [52, 53])]"


text \<open>Elements of exactly 1024 bytes pass the check of the length, and their terminator is written behind the array.\<close>

lemma iax2_ies_overflow:
  assumes "m_iax2Support (de_config env)" "length stage = 1024" "callno < 0x8000" "elements_ok es" "length (ies_bytes es) = 1024"
  shows "DetectIax2 stage env (packet_between before (new_frame src dst source dest callno dcallno ts es) behind) = Inl OutOfBounds"
proof -
  let ?k = "packet_between before (new_frame src dst source dest callno dcallno ts es) behind"
  have len: "length (ies_bytes es) < 50000" using assms(5) by simp
  note f = full_frame_fields [where before = before and src = src and dst = dst and source = source and dest = dest and
      dcallno = dcallno and ts = ts and type = 6 and c_sub = 1 and behind = behind, OF len assms(3), folded new_frame_def]
  have "staged_ies stage (k_mem ?k) (int (length before) + 28 + 12) 1024 = Inl OutOfBounds"
    using f(5) parse_elements_overflow [OF assms(4)] assms(2,5) by (simp add: staged_ies_def)
  then have "TryIax2New stage env ?k (int (length before) + 20) = Inl OutOfBounds"
    using f(1) [OF assms(1)] f(2) [of 6 1] f(3) assms(5) by (simp add: TryIax2New_def MAX_IES_LENGTH_def subclass_new add.assoc)
  moreover have "k_ip ?k + k_headerLength ?k = int (length before) + 20" by (simp add: packet_between_def)
  ultimately show ?thesis by (simp add: DetectIax2_def iax2_parsers_def)
qed

end
