(* ===== verification/Iax2Methods.thy ===== *)
theory Iax2Methods
  imports Iax2Tables VoipMethods
begin

text \<open>
  What the methods of an IAX2 session keep: references to packets stay inside the store, and audio is reported on a port
  only after the start of a recording was. The contract of a method is a locale; its consequence for the tables is proved
  once, and each method is an interpretation.
\<close>

section \<open>The calls of the callbacks\<close>

definition logged_start :: "callback list \<Rightarrow> string \<Rightarrow> bool" where
  "logged_start cbs port \<longleftrightarrow>
     list_ex (\<lambda>cb. case cb of EventCallback ev p \<Rightarrow> p = port \<and> ev_type ev = EtStart | AudioChunkCallback c p \<Rightarrow> False) cbs"

definition audio_after_start :: "callback list \<Rightarrow> bool" where
  "audio_after_start cbs \<longleftrightarrow> list_all (\<lambda>i. case cbs ! i of EventCallback ev p \<Rightarrow> True
     | AudioChunkCallback c port \<Rightarrow> logged_start (take i cbs) port) [0..<length cbs]"

named_theorems iax2

lemma logged_start_append [iax2]: "logged_start (xs @ ys) port \<longleftrightarrow> logged_start xs port \<or> logged_start ys port"
  by (simp add: logged_start_def)

lemma audio_after_start_simps [iax2]:
  "audio_after_start []" "audio_after_start (cbs @ [EventCallback ev p]) \<longleftrightarrow> audio_after_start cbs"
  "audio_after_start (cbs @ [AudioChunkCallback c port]) \<longleftrightarrow> audio_after_start cbs \<and> logged_start cbs port"
proof -
  have "list_all (\<lambda>i. case (cbs @ [x]) ! i of EventCallback ev p \<Rightarrow> True
        | AudioChunkCallback c port \<Rightarrow> logged_start (take i (cbs @ [x])) port) [0..<length cbs] \<longleftrightarrow> audio_after_start cbs" for x
    unfolding audio_after_start_def by (rule list.pred_cong) (auto simp: nth_append split: callback.split)
  then show "audio_after_start []" "audio_after_start (cbs @ [EventCallback ev p]) \<longleftrightarrow> audio_after_start cbs"
    "audio_after_start (cbs @ [AudioChunkCallback c port]) \<longleftrightarrow> audio_after_start cbs \<and> logged_start cbs port"
    by (simp_all add: audio_after_start_def [of "cbs @ [x]" for x]) (simp add: audio_after_start_def)
qed

section \<open>The invariant of a session\<close>

definition session_ok :: "callback list \<Rightarrow> Iax2PacketInfo list \<Rightarrow> 'a Iax2Session_scheme \<Rightarrow> bool" where
  "session_ok cbs store s \<longleftrightarrow> m_new s \<noteq> None \<and> pred_option (\<lambda>r. r < length store) (m_lastIax2PacketSide1 s) \<and>
     pred_option (\<lambda>r. r < length store) (m_lastIax2PacketSide2 s) \<and>
     (m_started s \<longrightarrow> m_lastIax2Packet s \<noteq> None \<and> logged_start cbs (m_capturePort s))"

lemma session_ok_mono:
  "session_ok cbs store s \<Longrightarrow> length store \<le> length store' \<Longrightarrow> session_ok (cbs @ later) store' s"
  by (cases "m_lastIax2PacketSide1 s"; cases "m_lastIax2PacketSide2 s") (auto simp: session_ok_def iax2)

definition call_ok :: "Iax2Call \<Rightarrow> bool" where
  "call_ok c \<longleftrightarrow> session_ok (i_callbacks c) (i_packets c) c \<and> audio_after_start (i_callbacks c)"

text \<open>What every method keeps.\<close>

definition grown :: "Iax2Call \<Rightarrow> Iax2Call \<Rightarrow> bool" where
  "grown c c' \<longleftrightarrow> call_ok c' \<and> m_srcIpAndCallNo c' = m_srcIpAndCallNo c \<and> length (i_packets c') = length (i_packets c) \<and>
     (\<exists>later. i_callbacks c' = i_callbacks c @ later)"

lemma grown_refl [iax2]: "call_ok c \<Longrightarrow> grown c c"
  by (simp add: grown_def)

lemma grown_trans: "grown c c' \<Longrightarrow> grown c' c'' \<Longrightarrow> grown c c''"
  by (auto simp: grown_def)

section \<open>Events\<close>

lemma grown_capture [iax2]: "call_ok c \<Longrightarrow> grown c (iax2_capture ev c)"
  by (auto simp: grown_def call_ok_def session_ok_def iax2_capture_def iax2)

lemma capture_fields [iax2]:
  "m_started (iax2_capture ev c) = m_started c" "m_capturePort (iax2_capture ev c) = m_capturePort c"
  "m_lastIax2Packet (iax2_capture ev c) = m_lastIax2Packet c" "i_packets (iax2_capture ev c) = i_packets c"
  by (simp_all add: iax2_capture_def)

lemma grown_fold_capture: "call_ok c \<Longrightarrow> grown c (fold (\<lambda>x. iax2_capture (f x)) xs c)"
proof (induction xs arbitrary: c)
  case (Cons x xs)
  then have "grown c (iax2_capture (f x) c)" by (simp add: iax2)
  with Cons.IH [of "iax2_capture (f x) c"] show ?case by (auto simp: grown_def)
qed (simp add: iax2)

lemma grown_Stop: "call_ok c \<Longrightarrow> grown c (Iax2Session_Stop c)"
  by (auto simp: Iax2Session_Stop_def grown_def call_ok_def session_ok_def iax2_capture_def iax2)


lemma grown_ReportMetadata:
  assumes "call_ok c"
  shows "grown c (Iax2Session_ReportMetadata c)" "m_started (Iax2Session_ReportMetadata c) = m_started c"
proof -
  have step: "grown c c' \<and> m_started c' = m_started c \<Longrightarrow> grown c (iax2_report t v c') \<and> m_started (iax2_report t v c') = m_started c"
    for c' t v
    using grown_trans [of c c'] grown_capture [of c'] by (auto simp: iax2_report_def iax2 grown_def)
  have many: "grown c c' \<and> m_started c' = m_started c \<Longrightarrow> grown c (fold (\<lambda>x. iax2_capture (f x)) xs c') \<and>
      m_started (fold (\<lambda>x. iax2_capture (f x)) xs c') = m_started c" for c' f and xs :: "(string \<times> string) list"
  proof (induction xs arbitrary: c')
    case (Cons x xs)
    have "grown c (iax2_capture (f x) c') \<and> m_started (iax2_capture (f x) c') = m_started c"
      using Cons.prems grown_trans [of c c'] grown_capture [of c'] by (auto simp: iax2 grown_def)
    from Cons.IH [OF this] show ?case by simp
  qed simp
  have first: "grown c (if m_localParty c = '''' then c\<lparr>m_localParty := ip_string (m_localIp c)\<rparr> else c) \<and>
      m_started (if m_localParty c = '''' then c\<lparr>m_localParty := ip_string (m_localIp c)\<rparr> else c) = m_started c"
    using assms by (auto simp: grown_def call_ok_def session_ok_def)
  have party: "grown c (if m_localEntryPoint c' \<noteq> '''' then iax2_report EtLocalEntryPoint (m_localEntryPoint c') c' else c') \<and>
      m_started (if m_localEntryPoint c' \<noteq> '''' then iax2_report EtLocalEntryPoint (m_localEntryPoint c') c' else c') = m_started c"
    if "grown c c' \<and> m_started c' = m_started c" for c' using that step by simp
  have "grown c (Iax2Session_ReportMetadata c) \<and> m_started (Iax2Session_ReportMetadata c) = m_started c"
    unfolding Iax2Session_ReportMetadata_def Let_def case_prod_beta
    by (intro step many party first)
  then show "grown c (Iax2Session_ReportMetadata c)" "m_started (Iax2Session_ReportMetadata c) = m_started c" by simp_all
qed

lemma grown_Start:
  assumes "call_ok c" "m_lastIax2Packet c \<noteq> None"
  shows "grown c (Iax2Session_Start w c)" "m_started (Iax2Session_Start w c)"
  using assms
  by (auto simp: Iax2Session_Start_def Iax2Session_GenerateOrkUid_def Let_def iax2_capture_def grown_def call_ok_def session_ok_def
      logged_start_def new_CaptureEvent_def iax2 split: prod.split)

section \<open>Voice packets\<close>

text \<open>A packet whose payload is in memory; the methods change its time stamp only.\<close>

definition packet_fine :: "Iax2PacketInfo \<Rightarrow> bool" where
  "packet_fine p \<longleftrightarrow> unat (m_payloadSize p) \<le> length (m_payload p)"

lemma send_voice_grown:
  assumes "call_ok c" "m_started c" "packet_fine p"
  shows "succeeds (send_voice channel seq p c) (grown c)"
proof -
  have "\<exists>chunk. SetBuffer (Some (m_payload p)) details new_AudioChunk = Inr chunk" if "m_numBytes details = m_payloadSize p" for details
    using assms(3) that by (simp add: SetBuffer_def new_AudioChunk_def packet_fine_def mem_slice_def Let_def)
  then obtain chunk where "SetBuffer (Some (m_payload p)) (details_Clear\<lparr>AudioChunkDetails.m_arrivalTimestamp := word_of_int (m_arrivalTimestamp p),
            m_numBytes := m_payloadSize p,
            AudioChunkDetails.m_timestamp := word_of_int (int (unat seq) * RtpTimestamp (m_codec c)),
            m_rtpPayloadType := word_of_int (m_codec c), m_channel := word_of_nat channel, m_sequenceNumber := ucast seq,
            m_encoding := AlawAudio\<rparr>) new_AudioChunk = Inr chunk" by fastforce
  then show ?thesis
    using assms by (auto simp: send_voice_def Let_def grown_def call_ok_def session_ok_def iax2)
qed

text \<open>An update of fields that the invariant does not mention.\<close>

lemma grown_seq:
  "call_ok c \<Longrightarrow> grown c (c\<lparr>m_channel1SeqNo := n\<rparr>)" "call_ok c \<Longrightarrow> grown c (c\<lparr>m_channel2SeqNo := n\<rparr>)"
  "call_ok c \<Longrightarrow> grown c (c\<lparr>m_numIax2Packets := k\<rparr>)"
  by (auto simp: grown_def call_ok_def session_ok_def)


lemma packets_ReportMetadata: "i_packets (Iax2Session_ReportMetadata c) = i_packets c"
proof -
  have "i_packets (fold (\<lambda>(key, val). iax2_capture (new_CaptureEvent EtKeyValue key val 0)) xs c) = i_packets c" for c xs
    by (induction xs arbitrary: c) (simp_all add: iax2 split: prod.split)
  then show ?thesis by (simp add: Iax2Session_ReportMetadata_def Let_def iax2_report_def iax2)
qed

lemma packets_Start: "i_packets (Iax2Session_Start w c) = i_packets c"
  by (simp add: Iax2Session_Start_def Iax2Session_GenerateOrkUid_def Let_def iax2 split: prod.split)

lemma count_voice_grown:
  assumes "call_ok c" "m_lastIax2Packet c \<noteq> None" "packet_fine (i_packets c ! r)"
  shows "succeeds (count_voice w r channel c) (grown c)"
proof -
  define c1 where "c1 = c\<lparr>m_numIax2Packets := m_numIax2Packets c + 1\<rparr>"
  define c2 where "c2 = (if m_numIax2Packets c1 = 1 then Iax2Session_ReportMetadata (Iax2Session_Start w c1) else c1)"
  define c3 where "c3 = (if channel = 1 then c2\<lparr>m_channel1SeqNo := next_seq (m_channel1SeqNo c2)\<rparr>
    else c2\<lparr>m_channel2SeqNo := next_seq (m_channel2SeqNo c2)\<rparr>)"
  have c1: "grown c c1" "m_lastIax2Packet c1 \<noteq> None" "i_packets c1 = i_packets c"
    using assms grown_seq(3) [of c] by (simp_all add: c1_def)
  then have ok: "call_ok c1" by (simp add: grown_def)
  have start: "grown c1 (Iax2Session_Start w c1)" by (rule grown_Start [OF ok c1(2)])
  then have "grown (Iax2Session_Start w c1) (Iax2Session_ReportMetadata (Iax2Session_Start w c1))"
    by (intro grown_ReportMetadata) (simp add: grown_def)
  with start have "grown c1 c2" using ok by (auto simp: c2_def iax2 intro: grown_trans)
  moreover have "grown c2 c3" using \<open>grown c1 c2\<close> grown_seq(1,2) [of c2] by (simp add: c3_def grown_def [of c1])
  ultimately have c3: "grown c c3" "call_ok c3" using grown_trans [OF c1(1)] grown_trans [of c1 c2 c3] by (auto simp: grown_def [of c2])
  have packets: "i_packets c3 = i_packets c"
    by (simp add: c3_def c2_def c1(3) packets_ReportMetadata packets_Start)
  have "succeeds (if m_started c3 then send_voice channel seq (i_packets c3 ! r) c3 else Inr c3) (grown c)" for seq
    using succeeds_mono [OF send_voice_grown [OF c3(2)] grown_trans [OF c3(1)]] c3(1) assms(3) packets by simp
  then show ?thesis unfolding count_voice_def Let_def c1_def [symmetric] c2_def [symmetric] c3_def [symmetric] .
qed

lemma choose_side_grown:
  assumes "call_ok c" "r < length (i_packets c)"
  shows "grown c (snd (choose_side w r c))" "m_lastIax2Packet (snd (choose_side w r c)) = m_lastIax2Packet c"
    "packet_fine (i_packets (snd (choose_side w r c)) ! r) = packet_fine (i_packets c ! r)"
  using assms
  by (auto simp: choose_side_def rewrite_timestamp_def Let_def grown_def call_ok_def session_ok_def packet_fine_def split: option.split)

lemma ProcessMetadataIax2_grown:
  assumes "call_ok c" "m_lastIax2Packet c = None" "ranges_ok (m_mediaGateways (iw_config w))"
  shows "succeeds (ProcessMetadataIax2 w p c) (\<lambda>c'. grown c c' \<and> i_packets c' = i_packets c)"
proof -
  define c1 where "c1 = c\<lparr>m_codec := int (unat (m_payloadType p))\<rparr>"
  obtain i where i: "m_new c = Some i" using assms(1) by (auto simp: call_ok_def session_ok_def)
  have idle: "\<not> m_started c" using assms(1,2) by (auto simp: call_ok_def session_ok_def)
  have ways: "succeeds (ProcessMetadataIax2Incoming c1) (\<lambda>c'. grown c c' \<and> i_packets c' = i_packets c)"
    "succeeds (ProcessMetadataIax2Outgoing c1) (\<lambda>c'. grown c c' \<and> i_packets c' = i_packets c)"
    using assms(1) i idle
    by (auto simp: ProcessMetadataIax2Incoming_def ProcessMetadataIax2Outgoing_def c1_def grown_def call_ok_def session_ok_def)
  note gateway = IsMediaGateway_succeeds [OF assms(3)]
  show ?thesis
    unfolding ProcessMetadataIax2_def Let_def c1_def [symmetric]
    by (intro succeeds_andThen [OF gateway] succeeds_if ways)
qed

lemma AddIax2Packet_grown:
  assumes "call_ok c" "r < length (i_packets c)" "packet_fine (i_packets c ! r)" "ranges_ok (m_mediaGateways (iw_config w))"
  shows "succeeds (AddIax2Packet w r c) (\<lambda>(added, c'). grown c c')"
proof -
  let ?p = "i_packets c ! r"
  have first: "succeeds (if m_lastIax2Packet c = None
      then andThen (ProcessMetadataIax2 w ?p c) (\<lambda>c1. Inr (c1\<lparr>m_iax2_state := IAX2_STATE_UP\<rparr>)) else Inr c)
      (\<lambda>c1. grown c c1 \<and> i_packets c1 = i_packets c)"
    using assms(1) by (auto intro!: succeeds_if succeeds_andThen [OF ProcessMetadataIax2_grown [OF assms(1) _ assms(4)]]
        simp: iax2) (auto simp: grown_def call_ok_def session_ok_def)
  have rest: "succeeds (case choose_side w r (c2\<lparr>m_lastIax2Packet := Some r\<rparr>) of
        (None, c4) \<Rightarrow> Inr (True, c4)
      | (Some channel, c4) \<Rightarrow> andThen (count_voice w r channel c4) (\<lambda>c5. Inr (True, c5))) (\<lambda>(added, c'). grown c c')"
    if c2: "grown c c2" "i_packets c2 = i_packets c" for c2
  proof -
    let ?c3 = "c2\<lparr>m_lastIax2Packet := Some r\<rparr>"
    have c3: "grown c ?c3" "call_ok ?c3" "r < length (i_packets ?c3)" "packet_fine (i_packets ?c3 ! r)"
      using c2 assms(2,3) by (auto simp: grown_def call_ok_def session_ok_def)
    note side = choose_side_grown [OF c3(2,3), of w]
    show ?thesis
    proof (cases "choose_side w r ?c3")
      case (Pair channel c4)
      with side c3(1,4) have c4: "grown c c4" "call_ok c4" "m_lastIax2Packet c4 \<noteq> None" "packet_fine (i_packets c4 ! r)"
        using grown_trans [of c ?c3 c4] by (auto simp: grown_def [of ?c3])
      then show ?thesis unfolding Pair
        using succeeds_andThen [OF count_voice_grown [OF c4(2-4)], of "\<lambda>c5. Inr (True, c5)" "\<lambda>(added, c'). grown c c'"]
          grown_trans [OF c4(1)] by (auto split: option.split)
    qed
  qed
  have codec: "grown c (if b then c1\<lparr>m_codec := n\<rparr> else c1) \<and> i_packets (if b then c1\<lparr>m_codec := n\<rparr> else c1) = i_packets c"
    if "grown c c1" "i_packets c1 = i_packets c" for b c1 n using that by (auto simp: grown_def call_ok_def session_ok_def)
  show ?thesis
    unfolding AddIax2Packet_def Let_def
    by (intro succeeds_if succeeds_andThen [OF first] rest) (use assms(1) codec in \<open>auto simp: iax2\<close>)
qed

section \<open>The contract\<close>

text \<open>A method that may look at the store of packets \<open>(ok)\<close> runs without a fault and keeps the invariant.\<close>

locale iax2_method =
  fixes ok :: "Iax2PacketInfo list \<Rightarrow> bool" and f :: "Iax2Call \<Rightarrow> ('a \<times> Iax2Call) result"
  assumes runs: "call_ok c \<Longrightarrow> ok (i_packets c) \<Longrightarrow> succeeds (f c) (\<lambda>(x, c'). grown c c')"

interpretation stop_call: iax2_method "\<lambda>_. True" "\<lambda>c. Inr ((), Iax2Session_Stop c)"
  by unfold_locales (simp add: grown_Stop)

interpretation add_packet: iax2_method
    "\<lambda>store. ranges_ok (m_mediaGateways (iw_config w)) \<and> r < length store \<and> packet_fine (store ! r)" "AddIax2Packet w r"
  by unfold_locales (auto intro: AddIax2Packet_grown)

interpretation accept_call: iax2_method "\<lambda>_. is_ok (StringToInt (Iax2AcceptInfo.m_sender_callno info))"
    "\<lambda>c. andThen (Iax2Session_ReportIax2Accept info c) (\<lambda>c'. Inr ((), c'))"
  by unfold_locales (auto simp: Iax2Session_ReportIax2Accept_def is_ok_iff grown_def call_ok_def session_ok_def)

interpretation authreq_call: iax2_method "\<lambda>_. is_ok (StringToInt (Iax2AuthreqInfo.m_sender_callno info))"
    "\<lambda>c. andThen (Iax2Session_ReportIax2Authreq info c) (\<lambda>c'. Inr ((), c'))"
  by unfold_locales (auto simp: Iax2Session_ReportIax2Authreq_def is_ok_iff grown_def call_ok_def session_ok_def)

end
