(* ===== verification/Iax2Safety.thy ===== *)
theory Iax2Safety
  imports Iax2Methods
begin

text \<open>
  The tables of IAX2 sessions in every reachable state: sorted maps to existing sessions that know their source key,
  references to existing packets, and audio only on ports whose start was reported. Every event that keeps the promises of
  the parsers is handled without a fault.
\<close>

section \<open>The invariant of the tables\<close>

definition iax2_tables_ok :: "Iax2Sessions \<Rightarrow> bool" where
  "iax2_tables_ok st \<longleftrightarrow> map_sorted (m_bySrcIpAndCallNo st) \<and> map_sorted (m_byDestIpAndCallNo st) \<and>
     list_all (\<lambda>(key, r). r < length (i_objects st) \<and> m_srcIpAndCallNo (iax2_session st r) = key) (m_bySrcIpAndCallNo st) \<and>
     list_all (\<lambda>(key, r). r < length (i_objects st)) (m_byDestIpAndCallNo st) \<and>
     list_all (session_ok (i_log st) (i_store st)) (i_objects st) \<and> audio_after_start (i_log st)"

lemma iax2_tables_okD:
  assumes "iax2_tables_ok st"
  shows "map_sorted (m_bySrcIpAndCallNo st)" "map_sorted (m_byDestIpAndCallNo st)"
    "map_find key (m_bySrcIpAndCallNo st) = Some r \<Longrightarrow> r < length (i_objects st) \<and> m_srcIpAndCallNo (iax2_session st r) = key"
    "map_find key (m_byDestIpAndCallNo st) = Some r \<Longrightarrow> r < length (i_objects st)"
    "r < length (i_objects st) \<Longrightarrow> session_ok (i_log st) (i_store st) (iax2_session st r)" "audio_after_start (i_log st)"
  using assms by (auto simp: iax2_tables_ok_def iax2_session_def list_all_iff dest!: map_find_set)

lemma session_ok_view:
  "session_ok cbs store (Iax2Session.truncate c) = session_ok cbs store c"
  "session_ok cbs store (Iax2Session.extend s m) = session_ok cbs store s"
  by (simp_all add: session_ok_def Iax2Session.defs)

lemma call_of_fields [iax2]:
  "i_packets (iax2_call_of st r) = i_store st" "i_callbacks (iax2_call_of st r) = i_log st"
  "m_srcIpAndCallNo (iax2_call_of st r) = m_srcIpAndCallNo (iax2_session st r)"
  "m_srcIpAndCallNo (Iax2Session.truncate c) = m_srcIpAndCallNo c"
  by (simp_all add: iax2_call_of_def Iax2Session.defs Iax2Call.defs)

lemma call_of_ok: "iax2_tables_ok st \<Longrightarrow> r < length (i_objects st) \<Longrightarrow> call_ok (iax2_call_of st r)"
  using iax2_tables_okD(5,6) [of st] by (simp add: call_ok_def iax2) (simp add: iax2_call_of_def session_ok_view)

text \<open>What a table keeps besides.\<close>

definition iax2_same_tables :: "Iax2Sessions \<Rightarrow> Iax2Sessions \<Rightarrow> bool" where
  "iax2_same_tables st st' \<longleftrightarrow> m_bySrcIpAndCallNo st' = m_bySrcIpAndCallNo st \<and> m_byDestIpAndCallNo st' = m_byDestIpAndCallNo st \<and>
     length (i_objects st') = length (i_objects st) \<and> length (i_store st') = length (i_store st)"

lemma return_ok:
  assumes st: "iax2_tables_ok st" and c: "grown (iax2_call_of st r) c"
  shows "iax2_tables_ok (iax2_return r c st) \<and> iax2_same_tables st (iax2_return r c st)"
proof -
  obtain later where later: "i_callbacks c = i_log st @ later" and len: "length (i_packets c) = length (i_store st)"
    and src: "m_srcIpAndCallNo c = m_srcIpAndCallNo (iax2_session st r)" and ok: "call_ok c"
    using c by (auto simp: grown_def iax2)
  have "list_all (session_ok (i_callbacks c) (i_packets c)) ((i_objects st)[r := Iax2Session.truncate c])"
    using st ok len session_ok_mono [of "i_log st" "i_store st" _ "i_packets c" later] set_update_subset_insert
    by (fastforce simp: list_all_iff iax2_tables_ok_def later [symmetric] call_ok_def session_ok_view)
  moreover have "m_srcIpAndCallNo (iax2_session (iax2_return r c st) r') = m_srcIpAndCallNo (iax2_session st r')"
    if "r' < length (i_objects st)" for r'
    using that src by (cases "r' = r") (simp_all add: iax2_session_def iax2_return_def iax2)
  ultimately show ?thesis
    using st ok len by (auto simp: iax2_tables_ok_def list_all_iff iax2_return_def iax2_same_tables_def call_ok_def)
qed

context iax2_method
begin

lemma tables:
  assumes "iax2_tables_ok st" "r < length (i_objects st)" "ok (i_store st)"
  shows "succeeds (andThen (f (iax2_call_of st r)) (\<lambda>(x, c). Inr (x, iax2_return r c st)))
    (\<lambda>(x, st'). iax2_tables_ok st' \<and> iax2_same_tables st st')"
  by (rule succeeds_andThen [OF runs [OF call_of_ok [OF assms(1,2)]]])
    (use assms return_ok [OF assms(1)] in \<open>auto simp: iax2\<close>)

end

section \<open>Handlers\<close>

lemma erase_ok:
  assumes "iax2_tables_ok st"
  shows "iax2_tables_ok (st\<lparr>m_bySrcIpAndCallNo := map_erase key (m_bySrcIpAndCallNo st)\<rparr>)"
    "iax2_tables_ok (st\<lparr>m_byDestIpAndCallNo := map_erase key (m_byDestIpAndCallNo st)\<rparr>)"
  using assms by (auto simp: iax2_tables_ok_def iax2_session_def list_all_iff map_sorted_erase) (auto simp: map_erase_def)

text \<open>What a stop keeps: the number of objects and packets, and it adds no entry.\<close>

definition shrunk :: "Iax2Sessions \<Rightarrow> Iax2Sessions \<Rightarrow> bool" where
  "shrunk st st' \<longleftrightarrow> iax2_tables_ok st' \<and> length (i_objects st') = length (i_objects st) \<and>
     length (i_store st') = length (i_store st) \<and> set (m_bySrcIpAndCallNo st') \<subseteq> set (m_bySrcIpAndCallNo st) \<and>
     set (m_byDestIpAndCallNo st') \<subseteq> set (m_byDestIpAndCallNo st)"

lemma shrunk_refl [iax2]: "iax2_tables_ok st \<Longrightarrow> shrunk st st"
  by (simp add: shrunk_def)

lemma shrunk_trans: "shrunk st st' \<Longrightarrow> shrunk st' st'' \<Longrightarrow> shrunk st st''"
  by (auto simp: shrunk_def)

lemma erase_shrunk: "iax2_tables_ok st \<Longrightarrow> shrunk st (st\<lparr>m_bySrcIpAndCallNo := map_erase key (m_bySrcIpAndCallNo st)\<rparr>)"
  "iax2_tables_ok st \<Longrightarrow> shrunk st (st\<lparr>m_byDestIpAndCallNo := map_erase key (m_byDestIpAndCallNo st)\<rparr>)"
  using erase_ok [of st key] by (auto simp: shrunk_def map_erase_def)

lemma Stop_shrunk:
  assumes "iax2_tables_ok st" "r < length (i_objects st)"
  shows "shrunk st (Iax2Sessions_Stop r st)"
proof -
  define st1 where "st1 = iax2_return r (Iax2Session_Stop (iax2_call_of st r)) st"
  define st2 where "st2 = (if m_srcIpAndCallNo (iax2_session st1 r) \<noteq> []
    then st1\<lparr>m_bySrcIpAndCallNo := map_erase (m_srcIpAndCallNo (iax2_session st1 r)) (m_bySrcIpAndCallNo st1)\<rparr> else st1)"
  have st1: "shrunk st st1" using stop_call.tables [OF assms] by (simp add: st1_def shrunk_def iax2_same_tables_def)
  then have "shrunk st1 st2" by (auto simp: st2_def shrunk_def [of st] iax2 intro: erase_shrunk)
  with st1 have st2: "shrunk st st2" by (rule shrunk_trans)
  then have "shrunk st2 (if m_destIpAndCallNo (iax2_session st1 r) \<noteq> []
      then st2\<lparr>m_byDestIpAndCallNo := map_erase (m_destIpAndCallNo (iax2_session st1 r)) (m_byDestIpAndCallNo st2)\<rparr> else st2)"
    by (auto simp: shrunk_def [of st] iax2 intro: erase_shrunk)
  with st2 have "shrunk st (if m_destIpAndCallNo (iax2_session st1 r) \<noteq> []
      then st2\<lparr>m_byDestIpAndCallNo := map_erase (m_destIpAndCallNo (iax2_session st1 r)) (m_byDestIpAndCallNo st2)\<rparr> else st2)"
    by (rule shrunk_trans)
  then show ?thesis unfolding Iax2Sessions_Stop_def Let_def st1_def [symmetric] st2_def [symmetric] .
qed

lemma fold_Stop_shrunk:
  "iax2_tables_ok st \<Longrightarrow> list_all (\<lambda>r. r < length (i_objects st)) rs \<Longrightarrow> shrunk st (fold Iax2Sessions_Stop rs st)"
proof (induction rs arbitrary: st)
  case (Cons r rs)
  then have stop: "shrunk st (Iax2Sessions_Stop r st)" by (simp add: Stop_shrunk)
  then have "iax2_tables_ok (Iax2Sessions_Stop r st)" "length (i_objects (Iax2Sessions_Stop r st)) = length (i_objects st)"
    by (simp_all add: shrunk_def)
  with Cons have "shrunk (Iax2Sessions_Stop r st) (fold Iax2Sessions_Stop rs (Iax2Sessions_Stop r st))" by simp
  with stop show ?case using shrunk_trans by auto
qed (simp add: iax2)


lemma change_ok:
  assumes "iax2_tables_ok st" "\<And>s cbs store. session_ok cbs store (f s) = session_ok cbs store s"
    "\<And>s. m_srcIpAndCallNo (f s) = m_srcIpAndCallNo s"
  shows "iax2_tables_ok (iax2_change r f st)" "iax2_same_tables st (iax2_change r f st)"
proof -
  have "m_srcIpAndCallNo (iax2_session (iax2_change r f st) r') = m_srcIpAndCallNo (iax2_session st r')"
    if "r' < length (i_objects st)" for r'
    using that by (cases "r' = r") (simp_all add: iax2_session_def iax2_change_def assms(3))
  moreover have "list_all (session_ok (i_log st) (i_store st)) ((i_objects st)[r := f (iax2_session st r)])"
  proof (cases "r < length (i_objects st)")
    case True
    then have "session_ok (i_log st) (i_store st) (f (iax2_session st r))"
      using iax2_tables_okD(5) [OF assms(1)] by (simp add: assms(2))
    then show ?thesis using assms(1) set_update_subset_insert by (fastforce simp: iax2_tables_ok_def list_all_iff)
  qed (use assms(1) in \<open>simp add: iax2_tables_ok_def list_update_beyond\<close>)
  ultimately show "iax2_tables_ok (iax2_change r f st)"
    using assms(1) by (auto simp: iax2_tables_ok_def iax2_change_def list_all_iff)
  show "iax2_same_tables st (iax2_change r f st)" by (simp add: iax2_same_tables_def iax2_change_def)
qed

lemma map_insert_subset: "set (map_insert k v m) \<subseteq> insert (k, v) (set m)"
  by (induction k v m rule: map_insert.induct) auto

lemma insert_ok:
  assumes "iax2_tables_ok st" "r < length (i_objects st)"
  shows "iax2_tables_ok (st\<lparr>m_byDestIpAndCallNo := map_insert key r (m_byDestIpAndCallNo st)\<rparr>)"
    "m_srcIpAndCallNo (iax2_session st r) = key \<Longrightarrow>
     iax2_tables_ok (st\<lparr>m_bySrcIpAndCallNo := map_insert key r (m_bySrcIpAndCallNo st)\<rparr>)"
  using assms map_insert_subset [of key r "m_byDestIpAndCallNo st"] map_insert_subset [of key r "m_bySrcIpAndCallNo st"]
  by (fastforce simp: iax2_tables_ok_def iax2_session_def list_all_iff map_sorted_insert)+

text \<open>What every handler leaves.\<close>

definition iax2_after :: "Iax2Sessions \<Rightarrow> Iax2Sessions \<Rightarrow> bool" where
  "iax2_after st st' \<longleftrightarrow> iax2_tables_ok st' \<and> length (i_store st) \<le> length (i_store st')"

lemma shrunk_after: "shrunk st st' \<Longrightarrow> iax2_after st st'"
  by (simp add: shrunk_def iax2_after_def)

lemma Accept_after:
  assumes st: "iax2_tables_ok st" and n: "is_ok (StringToInt (Iax2AcceptInfo.m_sender_callno info))"
  shows "succeeds (ReportIax2Accept info st) (iax2_after st)"
proof -
  let ?dest = "ip_and_callno (Iax2AcceptInfo.m_senderIp info) (Iax2AcceptInfo.m_sender_callno info)"
  let ?link = "\<lambda>s. s\<lparr>m_destIpAndCallNo := ?dest, m_iax2_state := IAX2_STATE_LINKED\<rparr>"
  have up: "iax2_after st (iax2_change d (\<lambda>s. s\<lparr>m_iax2_state := IAX2_STATE_LINKED\<rparr>) st)" for d
    using change_ok [OF st, of "\<lambda>s. s\<lparr>m_iax2_state := IAX2_STATE_LINKED\<rparr>" d] by (simp add: iax2_after_def iax2_same_tables_def session_ok_def)
  have link: "succeeds (andThen (Iax2Session_ReportIax2Accept info (iax2_call_of st2 r)) (\<lambda>c. Inr (iax2_return r c st2))) (iax2_after st)"
    if r: "r < length (i_objects st)" and st2: "st2 = (iax2_change r ?link st)
        \<lparr>m_byDestIpAndCallNo := map_insert ?dest r (m_byDestIpAndCallNo (iax2_change r ?link st))\<rparr>" for r st2
  proof -
    have change: "iax2_tables_ok (iax2_change r ?link st)" "iax2_same_tables st (iax2_change r ?link st)"
      using change_ok [OF st, of ?link r] by (simp_all add: session_ok_def)
    then have ok: "iax2_tables_ok st2" "r < length (i_objects st2)" "length (i_store st2) = length (i_store st)"
      using r insert_ok(1) [OF change(1), of r ?dest] by (simp_all add: st2 iax2_same_tables_def)
    from accept_call.tables [OF ok(1,2) n] ok(3) show ?thesis
      by (cases "Iax2Session_ReportIax2Accept info (iax2_call_of st2 r)") (auto simp: iax2_after_def iax2_same_tables_def)
  qed
  show ?thesis
    using iax2_tables_okD(3) [OF st] up link
    by (auto simp: ReportIax2Accept_def Let_def iax2_after_def st split: option.split)
qed

lemma Authreq_after:
  assumes st: "iax2_tables_ok st" and n: "is_ok (StringToInt (Iax2AuthreqInfo.m_sender_callno info))"
  shows "succeeds (ReportIax2Authreq info st) (iax2_after st)"
proof -
  let ?dest = "ip_and_callno (Iax2AuthreqInfo.m_senderIp info) (Iax2AuthreqInfo.m_sender_callno info)"
  let ?link = "\<lambda>s. s\<lparr>m_destIpAndCallNo := ?dest\<rparr>" and ?wait = "\<lambda>s. s\<lparr>m_iax2_state := IAX2_STATE_WAITING\<rparr>"
  have link: "succeeds (andThen (Iax2Session_ReportIax2Authreq info (iax2_call_of st2 r)) (\<lambda>c.
      Inr (iax2_change r ?wait (iax2_return r c st2)))) (iax2_after st)"
    if r: "r < length (i_objects st)" and st2: "st2 = (iax2_change r ?link st)
        \<lparr>m_byDestIpAndCallNo := map_insert ?dest r (m_byDestIpAndCallNo (iax2_change r ?link st))\<rparr>" for r st2
  proof -
    have change: "iax2_tables_ok (iax2_change r ?link st)" "iax2_same_tables st (iax2_change r ?link st)"
      using change_ok [OF st, of ?link r] by (simp_all add: session_ok_def)
    then have ok: "iax2_tables_ok st2" "r < length (i_objects st2)" "length (i_store st2) = length (i_store st)"
      using r insert_ok(1) [OF change(1), of r ?dest] by (simp_all add: st2 iax2_same_tables_def)
    have wait: "iax2_after st (iax2_change r ?wait st3)" if "iax2_tables_ok st3" "length (i_store st3) = length (i_store st)" for st3
      using change_ok [OF that(1), of ?wait r] that(2) by (simp add: iax2_after_def iax2_same_tables_def session_ok_def)
    from authreq_call.tables [OF ok(1,2) n] ok(3) wait show ?thesis
      by (cases "Iax2Session_ReportIax2Authreq info (iax2_call_of st2 r)") (auto simp: iax2_same_tables_def)
  qed
  show ?thesis
    using iax2_tables_okD(3) [OF st] link
    by (auto simp: ReportIax2Authreq_def Let_def iax2_after_def st split: option.split)
qed

lemma hangup_shrunk:
  "iax2_tables_ok st \<Longrightarrow> shrunk st (hangup_by_src key st)" "iax2_tables_ok st \<Longrightarrow> shrunk st (hangup_by_dest key st)"
  using iax2_tables_okD(3,4) [of st key]
  by (auto simp: hangup_by_src_def hangup_by_dest_def iax2 Stop_shrunk split: option.split)

lemma Hangup_shrunk: "iax2_tables_ok st \<Longrightarrow> shrunk st (ReportIax2Hangup info st)"
proof -
  have step: "shrunk st st' \<Longrightarrow> shrunk st (hangup_by_src key st')" "shrunk st st' \<Longrightarrow> shrunk st (hangup_by_dest key st')" for st' key
    using hangup_shrunk [of st' key] shrunk_trans [of st st'] by (auto simp: shrunk_def [of st st'])
  assume "iax2_tables_ok st"
  then show ?thesis unfolding ReportIax2Hangup_def Let_def by (intro step) (simp add: iax2)
qed

lemma Hoover_shrunk: "iax2_tables_ok st \<Longrightarrow> shrunk st (Iax2_Hoover w now st)"
proof -
  have refs: "list_all (\<lambda>r. r < length (i_objects st)) (filter P (map snd (m_bySrcIpAndCallNo st)))"
    "list_all (\<lambda>r. r < length (i_objects st)) (filter P (map snd (m_byDestIpAndCallNo st)))" if "iax2_tables_ok st" for P st
    using that by (auto simp: iax2_tables_ok_def list_all_iff)
  assume st: "iax2_tables_ok st"
  let ?st1 = "fold Iax2Sessions_Stop (filter (iax2_expired w now st) (map snd (m_bySrcIpAndCallNo st))) st"
  have st1: "shrunk st ?st1" by (rule fold_Stop_shrunk [OF st refs(1) [OF st]])
  then have "iax2_tables_ok ?st1" by (simp add: shrunk_def)
  from shrunk_trans [OF st1 fold_Stop_shrunk [OF this refs(2) [OF this]]] show ?thesis
    by (simp add: Iax2_Hoover_def Let_def)
qed


section \<open>New sessions\<close>

lemma append_ok:
  assumes "iax2_tables_ok st" "session_ok (i_log st) (i_store st) s"
  shows "iax2_tables_ok (st\<lparr>i_objects := i_objects st @ [s], i_alphaCounter := n\<rparr>)"
  using assms by (auto simp: iax2_tables_ok_def list_all_iff iax2_session_def nth_append)

text \<open>The session of a NEW: its key, and nothing is reported.\<close>

lemma session_ReportIax2New:
  assumes "is_ok (StringToInt (m_callNo i))" "c = iax2_call_of st1 r"
    "iax2_session st1 r = (new_Iax2Session w trackingId)\<lparr>m_srcIpAndCallNo := ip_and_callno (Iax2NewInfo.m_senderIp i) (m_callNo i)\<rparr>"
  shows "succeeds (Iax2Session_ReportIax2New w i c) (\<lambda>c'. i_packets c' = i_store st1 \<and> i_callbacks c' = i_log st1 \<and>
    m_srcIpAndCallNo c' = ip_and_callno (Iax2NewInfo.m_senderIp i) (m_callNo i) \<and> session_ok cbs store c')"
proof -
  have c: "m_new c = None" "m_lastIax2PacketSide1 c = None" "m_lastIax2PacketSide2 c = None" "\<not> m_started c"
    "i_packets c = i_store st1" "i_callbacks c = i_log st1"
    by (simp_all add: assms(2,3) iax2_call_of_def Iax2Session.defs Iax2Call.defs new_Iax2Session_def)
  obtain n where "StringToInt (m_callNo i) = Inr n" using assms(1) by (auto simp: is_ok_iff)
  then show ?thesis
    using c by (auto simp: Iax2Session_ReportIax2New_def split_calling_name_def Let_def ip_and_callno_def session_ok_def)
qed

lemma create_after:
  assumes st: "iax2_tables_ok st" and n: "is_ok (StringToInt (m_callNo i))"
    and key: "key = ip_and_callno (Iax2NewInfo.m_senderIp i) (m_callNo i)"
  shows "succeeds (case AlphaCounter_GetNext (i_alphaCounter st) of (trackingId, counter) \<Rightarrow>
      let r = length (i_objects st);
          st1 = st\<lparr>i_objects := i_objects st @ [(new_Iax2Session w trackingId)\<lparr>m_srcIpAndCallNo := key\<rparr>], i_alphaCounter := counter\<rparr>
      in andThen (Iax2Session_ReportIax2New w i (iax2_call_of st1 r)) (\<lambda>c.
         let st2 = iax2_return r c st1
         in Inr (st2\<lparr>m_bySrcIpAndCallNo := map_insert (m_srcIpAndCallNo (iax2_session st2 r)) r (m_bySrcIpAndCallNo st2)\<rparr>)))
    (iax2_after st)"
proof (cases "AlphaCounter_GetNext (i_alphaCounter st)")
  case (Pair trackingId counter)
  let ?r = "length (i_objects st)"
  define st1 where "st1 = st\<lparr>i_objects := i_objects st @ [(new_Iax2Session w trackingId)\<lparr>m_srcIpAndCallNo := key\<rparr>], i_alphaCounter := counter\<rparr>"
  have "iax2_session st1 ?r = (new_Iax2Session w trackingId)\<lparr>m_srcIpAndCallNo := key\<rparr>" by (simp add: st1_def iax2_session_def)
  then obtain c where c: "Iax2Session_ReportIax2New w i (iax2_call_of st1 ?r) = Inr c" "i_packets c = i_store st" "i_callbacks c = i_log st"
      "m_srcIpAndCallNo c = key" "session_ok (i_log st) (i_store st) c"
    using session_ReportIax2New [OF n refl, of st1 ?r w trackingId "i_log st" "i_store st"] unfolding key
    by (auto simp: succeeds_def) (simp add: st1_def)
  define st2 where "st2 = iax2_return ?r c st1"
  have "st2 = st\<lparr>i_objects := i_objects st @ [Iax2Session.truncate c], i_alphaCounter := counter\<rparr>"
    using c by (simp add: st2_def st1_def iax2_return_def)
  then have st2: "iax2_tables_ok st2" "?r < length (i_objects st2)" "m_srcIpAndCallNo (iax2_session st2 ?r) = key" "i_store st2 = i_store st"
    using append_ok [OF st, of "Iax2Session.truncate c" counter] c by (simp_all add: session_ok_view iax2_session_def iax2)
  then show ?thesis
    using insert_ok(2) [OF st2(1,2,3)] unfolding Pair by (simp add: Let_def iax2_after_def c(1) flip: st1_def st2_def)
qed

lemma New_after:
  assumes st: "iax2_tables_ok st" and n: "is_ok (StringToInt (m_callNo i))"
  shows "succeeds (ReportIax2New w i st) (iax2_after st)"
proof -
  note create = create_after [OF _ n refl]
  have stop: "shrunk st (Iax2Sessions_Stop r st)" if "map_find key (m_bySrcIpAndCallNo st) = Some r" for r key
    using Stop_shrunk [OF st] iax2_tables_okD(3) [OF st that] by simp
  have after: "succeeds x (iax2_after st') \<Longrightarrow> shrunk st st' \<Longrightarrow> succeeds x (iax2_after st)" for x st'
    by (auto simp: succeeds_def iax2_after_def shrunk_def)
  show ?thesis
    unfolding ReportIax2New_def Let_def
    using create [OF st, of w, unfolded Let_def] after [OF create [of _ w, unfolded Let_def] stop] stop st
    by (auto split: option.split simp: iax2_after_def shrunk_def)
qed

section \<open>Voice\<close>

lemma add_to_session_after:
  assumes st: "iax2_tables_ok st" and r: "r < length (i_objects st)" and p: "p < length (i_store st)" "packet_fine (i_store st ! p)"
    and config: "ranges_ok (m_mediaGateways (iw_config w))"
  shows "succeeds (add_to_session w r p st) (\<lambda>(added, st'). iax2_after st st')"
proof -
  from add_packet.tables [OF st r, of w p] p config
  obtain added c where c: "AddIax2Packet w p (iax2_call_of st r) = Inr (added, c)" "iax2_tables_ok (iax2_return r c st)"
    "iax2_same_tables st (iax2_return r c st)"
    by (cases "AddIax2Packet w p (iax2_call_of st r)") auto
  have "shrunk (iax2_return r c st) (Iax2Sessions_Stop r (iax2_return r c st))"
    using Stop_shrunk [OF c(2)] c(3) r by (simp add: iax2_same_tables_def)
  then show ?thesis using c by (simp add: add_to_session_def iax2_after_def shrunk_def iax2_same_tables_def Let_def)
qed

lemma voice_after:
  assumes st: "iax2_tables_ok st" and p: "p < length (i_store st)" "packet_fine (i_store st ! p)"
    and config: "ranges_ok (m_mediaGateways (iw_config w))"
  shows "succeeds (voice w p st) (iax2_after st)"
proof -
  have "succeeds (ReportIax2Packet w p st) (\<lambda>(added, st'). iax2_after st st')"
    unfolding ReportIax2Packet_def Let_def
    using add_to_session_after [OF st _ p config] iax2_tables_okD(3,4) [OF st]
    by (auto split: option.split simp: iax2_after_def st)
  then show ?thesis unfolding voice_def by (rule succeeds_andThen) auto
qed

lemma store_ok: "iax2_tables_ok st \<Longrightarrow> length (i_store st) \<le> length store \<Longrightarrow> iax2_tables_ok (st\<lparr>i_store := store\<rparr>)"
  using session_ok_mono [of "i_log st" "i_store st" _ store "[]"]
  by (auto simp: iax2_tables_ok_def list_all_iff iax2_session_def)

section \<open>Reachable states\<close>

text \<open>What the parsers promise of an event.\<close>

definition iax2_promise :: "Iax2Sessions \<Rightarrow> iax2_event \<Rightarrow> bool" where
  "iax2_promise st e \<longleftrightarrow> (case e of
     Iax2New i \<Rightarrow> is_ok (StringToInt (m_callNo i))
   | Iax2Accept i \<Rightarrow> is_ok (StringToInt (Iax2AcceptInfo.m_sender_callno i))
   | Iax2Authreq i \<Rightarrow> is_ok (StringToInt (Iax2AuthreqInfo.m_sender_callno i))
   | Iax2Voice p \<Rightarrow> packet_fine p
   | Iax2VoiceAgain p \<Rightarrow> packet_fine p \<and> i_store st \<noteq> []
   | _ \<Rightarrow> True)"

inductive iax2_reachable :: "VoIpSettings \<Rightarrow> Iax2Sessions \<Rightarrow> bool" for config :: VoIpSettings where
  start: "iax2_reachable config (new_Iax2Sessions counter)"
| step: "iax2_reachable config st \<Longrightarrow> iw_config w = config \<Longrightarrow> iax2_promise st e \<Longrightarrow> handle_iax2 w e st = Inr st' \<Longrightarrow>
    iax2_reachable config st'"

lemma handle_iax2_after:
  assumes st: "iax2_tables_ok st" and config: "ranges_ok (m_mediaGateways (iw_config w))" and e: "iax2_promise st e"
  shows "succeeds (handle_iax2 w e st) (iax2_after st)"
proof -
  have mono: "succeeds x (iax2_after st') \<Longrightarrow> length (i_store st) \<le> length (i_store st') \<Longrightarrow> succeeds x (iax2_after st)" for x st'
    by (auto simp: succeeds_def iax2_after_def)
  show ?thesis
  proof (cases e)
    case (Iax2Voice p)
    then have "iax2_tables_ok (st\<lparr>i_store := i_store st @ [p]\<rparr>)" "packet_fine p" using store_ok [OF st] e
      by (simp_all add: iax2_promise_def)
    from mono [OF voice_after [OF this(1), of "length (i_store st)" w]] this(2) config show ?thesis
      by (simp add: Iax2Voice handle_iax2_def)
  next
    case (Iax2VoiceAgain p)
    then have p: "packet_fine p" "i_store st \<noteq> []" using e by (simp_all add: iax2_promise_def)
    then have "iax2_tables_ok (st\<lparr>i_store := (i_store st)[length (i_store st) - 1 := p]\<rparr>)" using store_ok [OF st] by simp
    from mono [OF voice_after [OF this, of "length (i_store st) - 1" w]] p config show ?thesis
      by (simp add: Iax2VoiceAgain handle_iax2_def)
  qed (use e New_after [OF st] Accept_after [OF st] Authreq_after [OF st] Hangup_shrunk [OF st] Hoover_shrunk [OF st] in
    \<open>auto simp: handle_iax2_def iax2_promise_def Iax2_StopAll_def shrunk_after\<close>)
qed

lemma iax2_reachable_ok:
  assumes "iax2_reachable config st" "ranges_ok (m_mediaGateways config)"
  shows "iax2_tables_ok st"
  using assms
proof induction
  case (start counter)
  then show ?case by (simp add: iax2_tables_ok_def new_Iax2Sessions_def map_sorted_Nil iax2)
next
  case (step st w e st')
  then show ?case using handle_iax2_after [of st w e] by (auto simp: succeeds_def iax2_after_def)
qed

end
