(* ===== verification/Iax2Capture.thy ===== *)
theory Iax2Capture
  imports PacketCapture Iax2Parsing
begin

text \<open>
  The IAX2 sessions behind \<open>HandlePacket\<close> (\<open>audiocaptureplugins/voip/VoIp.cpp\<close>): a UDP packet that is neither RTP nor SIP nor
  RTCP is given to the IAX2 parsers, and expiry visits the IAX2 sessions after the others. The callbacks of both kinds of
  sessions are logged apart.
\<close>

definition iax2_packet :: "u8 list \<Rightarrow> DetectEnv \<Rightarrow> Iax2World \<Rightarrow> IpPacket option \<Rightarrow> Iax2Sessions \<Rightarrow> Iax2Sessions result" where
  "iax2_packet stage env iw found iax2 =
     (case found of
        None \<Rightarrow> Inr iax2
      | Some k \<Rightarrow> andThen (DetectIax2 stage env k) (\<lambda>events. handle_all_iax2 iw events iax2))"

text \<open>The ticks of the expiry.\<close>

definition iax2_ticks :: "voip_event list \<Rightarrow> iax2_event list" where
  "iax2_ticks events =
     concat (map (\<lambda>e. case e of Expire now \<Rightarrow> [Iax2Expire now] | ExpireAll \<Rightarrow> [Iax2ExpireAll] | _ \<Rightarrow> []) events)"

definition capture_all :: "u8 list \<Rightarrow> DetectEnv \<Rightarrow> World \<Rightarrow> Iax2World \<Rightarrow> bool \<Rightarrow> int \<Rightarrow> u8 list \<Rightarrow>
    CaptureState \<times> VoIpSessions \<times> Iax2Sessions \<Rightarrow> (CaptureState \<times> VoIpSessions \<times> Iax2Sessions) outcome" where
  "capture_all stage env w iw live caplen mem = (\<lambda>(st, sessions, iax2).
     proceed (HandlePacket env live caplen mem st) (\<lambda>(events, found, st').
     proceed (Some (handle_all w events sessions)) (\<lambda>sessions'.
     proceed (Some (iax2_packet stage env iw found iax2)) (\<lambda>iax2'.
     proceed (Some (handle_all_iax2 iw (iax2_ticks events) iax2')) (\<lambda>iax2''.
     Some (Inr (st', sessions', iax2''))))))) "

end
