(* ===== verification/Iax2Packets.thy ===== *)
theory Iax2Packets
  imports Iax2Elements Iax2Safety Iax2Capture
begin

text \<open>
  The IAX2 parsers on arbitrary bytes: inside a whole datagram they read within the memory, and their events keep what the
  sessions expect.
\<close>

section \<open>A whole datagram\<close>

text \<open>What \<open>HandlePacket\<close> has checked: the packet is in memory, and more than 20 bytes follow its header.\<close>

definition whole_datagram :: "IpPacket \<Rightarrow> bool" where
  "whole_datagram k \<longleftrightarrow> (let n = int (ntohs_at (k_mem k) (nat (k_ip k + 2)))
     in 0 \<le> k_ip k \<and> 20 \<le> k_headerLength k \<and> k_headerLength k + 20 < n \<and> k_ip k + n \<le> int (length (k_mem k)))"

named_theorems reads

lemma peek_reads [reads]: "0 \<le> p \<Longrightarrow> p < int (length mem) \<Longrightarrow> succeeds (peek mem p) (\<lambda>_. True)"
  by simp

lemma be16_reads [reads]: "0 \<le> p \<Longrightarrow> p + 1 < int (length mem) \<Longrightarrow> succeeds (read_be16 mem p) (\<lambda>_. True)"
  using read_be16_at [of p mem] by (auto simp: succeeds_def)

lemma be32_reads [reads]: "0 \<le> p \<Longrightarrow> p + 3 < int (length mem) \<Longrightarrow> succeeds (read_be32 mem p) (\<lambda>_. True)"
  unfolding read_be32_def by (intro succeeds_andThen [OF be16_reads]) simp_all

lemma addresses_reads [reads]: "0 \<le> p \<Longrightarrow> p + 19 < int (length mem) \<Longrightarrow> succeeds (ip_addresses mem p) (\<lambda>_. True)"
  unfolding ip_addresses_def by (intro succeeds_andThen [OF be32_reads]) simp_all

lemma callno_reads [reads]: "0 \<le> p \<Longrightarrow> p + 1 < int (length mem) \<Longrightarrow> succeeds (frame_callno mem p) (\<lambda>_. True)"
  unfolding frame_callno_def by (intro succeeds_andThen [OF be16_reads]) simp_all

lemma whole_datagramD:
  assumes "whole_datagram k"
  defines "udp \<equiv> k_ip k + k_headerLength k" and "n \<equiv> int (ntohs_at (k_mem k) (nat (k_ip k + 2)))"
  shows "0 \<le> k_ip k" "k_ip k + 20 \<le> udp" "udp + 20 < k_ip k + n" "k_ip k + n \<le> int (length (k_mem k))" "n < 65536"
    "length_behind k h m = Inr (k_ip k + n - (h + m))"
proof -
  show bounds: "0 \<le> k_ip k" "k_ip k + 20 \<le> udp" "udp + 20 < k_ip k + n" "k_ip k + n \<le> int (length (k_mem k))"
    using assms by (auto simp: whole_datagram_def Let_def)
  obtain w where w: "read_be16 (k_mem k) (k_ip k + 2) = Inr w" "unat w = ntohs_at (k_mem k) (nat (k_ip k + 2))"
    using read_be16_at [of "k_ip k + 2" "k_mem k"] bounds by auto
  then show "length_behind k h m = Inr (k_ip k + n - (h + m))" by (simp add: length_behind_def ip_len_def n_def)
  show "n < 65536" using uint_lt2p [of w] by (simp add: n_def flip: w(2))
qed

section \<open>Events\<close>

definition always_fine :: "iax2_event \<Rightarrow> bool" where
  "always_fine e \<longleftrightarrow> (case e of
     Iax2New i \<Rightarrow> is_ok (StringToInt (m_callNo i))
   | Iax2Accept i \<Rightarrow> is_ok (StringToInt (Iax2AcceptInfo.m_sender_callno i))
   | Iax2Authreq i \<Rightarrow> is_ok (StringToInt (Iax2AuthreqInfo.m_sender_callno i))
   | Iax2Voice p \<Rightarrow> packet_fine p
   | Iax2VoiceAgain p \<Rightarrow> False
   | _ \<Rightarrow> True)"

text \<open>One event, or the packets of a trunk frame.\<close>

definition batch_fine :: "iax2_event list \<Rightarrow> bool" where
  "batch_fine es \<longleftrightarrow> (\<exists>e. es = [e] \<and> always_fine e) \<or>
     (\<exists>p ps. es = Iax2Voice p # map Iax2VoiceAgain ps \<and> packet_fine p \<and> list_all packet_fine ps)"

lemma callno_ok: "is_ok (StringToInt (callno_string n))"
proof -
  have "- 2147483648 \<le> uint n" by (rule order_trans [OF _ uint_ge_0]) simp
  moreover have "uint n < 65536" using uint_lt2p [of n] by simp
  ultimately show ?thesis using StringToInt_IntToString [of "uint n"] by (simp add: callno_string_def)
qed

lemma voice_length: "voice w p st = Inr st' \<Longrightarrow> iax2_tables_ok st \<Longrightarrow> p < length (i_store st) \<Longrightarrow> packet_fine (i_store st ! p) \<Longrightarrow>
    ranges_ok (m_mediaGateways (iw_config w)) \<Longrightarrow> length (i_store st) \<le> length (i_store st')"
  using voice_after [of st p w] by (auto simp: succeeds_def iax2_after_def)

lemma handle_again:
  assumes "iax2_reachable (iw_config w) st" "ranges_ok (m_mediaGateways (iw_config w))" "i_store st \<noteq> []" "list_all packet_fine ps"
  shows "succeeds (handle_all_iax2 w (map Iax2VoiceAgain ps) st) (iax2_reachable (iw_config w))"
  using assms
proof (induction ps arbitrary: st)
  case (Cons p ps)
  then have promise: "iax2_promise st (Iax2VoiceAgain p)" by (simp add: iax2_promise_def)
  from handle_iax2_after [OF iax2_reachable_ok [OF Cons.prems(1,2)] Cons.prems(2) promise]
  obtain st' where st': "handle_iax2 w (Iax2VoiceAgain p) st = Inr st'" "iax2_after st st'" by (auto simp: succeeds_def)
  then have "iax2_reachable (iw_config w) st'" "i_store st' \<noteq> []"
    using iax2_reachable.step [OF Cons.prems(1) refl promise st'(1)] Cons.prems(3) by (auto simp: iax2_after_def)
  then show ?case using Cons st'(1) by simp
qed simp

lemma handle_batch:
  assumes st: "iax2_reachable (iw_config w) st" and config: "ranges_ok (m_mediaGateways (iw_config w))" and es: "batch_fine es"
  shows "succeeds (handle_all_iax2 w es st) (iax2_reachable (iw_config w))"
proof -
  have one: "\<exists>st'. handle_iax2 w e st = Inr st' \<and> iax2_reachable (iw_config w) st' \<and> length (i_store st) \<le> length (i_store st')"
    if "iax2_promise st e" for e
    using handle_iax2_after [OF iax2_reachable_ok [OF st config] config that] iax2_reachable.step [OF st refl that]
    by (auto simp: succeeds_def iax2_after_def)
  have grows: "i_store st' \<noteq> []" if "handle_iax2 w (Iax2Voice p) st = Inr st'" "packet_fine p" for p st'
  proof -
    have "iax2_tables_ok (st\<lparr>i_store := i_store st @ [p]\<rparr>)" using store_ok [OF iax2_reachable_ok [OF st config]] by simp
    then have "length (i_store st @ [p]) \<le> length (i_store st')"
      using voice_length [of w "length (i_store st)" "st\<lparr>i_store := i_store st @ [p]\<rparr>" st'] that config by (simp add: handle_iax2_def)
    then show ?thesis by auto
  qed
  from es show ?thesis unfolding batch_fine_def
  proof (elim disjE exE conjE)
    fix e assume e: "es = [e]" "always_fine e"
    then have "iax2_promise st e" by (auto simp: always_fine_def iax2_promise_def split: iax2_event.splits)
    from one [OF this] show ?thesis by (auto simp: e(1) succeeds_def)
  next
    fix p ps assume e: "es = Iax2Voice p # map Iax2VoiceAgain ps" "packet_fine p" "list_all packet_fine ps"
    then have "iax2_promise st (Iax2Voice p)" by (simp add: iax2_promise_def)
    from one [OF this] obtain st' where st': "handle_iax2 w (Iax2Voice p) st = Inr st'" "iax2_reachable (iw_config w) st'" by blast
    with handle_again [OF st'(2) config grows [OF st'(1) e(2)] e(3)] show ?thesis by (simp add: e(1))
  qed
qed

section \<open>Information elements of any bytes\<close>

definition pointers_upto :: "nat \<Rightarrow> iax2_ies \<Rightarrow> bool" where
  "pointers_upto n ies \<longleftrightarrow> pred_option (\<lambda>p. p \<le> n) (ies_caller ies) \<and> pred_option (\<lambda>p. p \<le> n) (ies_callee ies) \<and>
     pred_option (\<lambda>p. p \<le> n) (ies_calling_name ies)"

lemma pointers_upto_mono: "pointers_upto n ies \<Longrightarrow> n \<le> m \<Longrightarrow> pointers_upto m ies"
  by (cases "ies_caller ies"; cases "ies_callee ies"; cases "ies_calling_name ies") (auto simp: pointers_upto_def)

lemma note_ie_reads:
  assumes "pointers_upto p ies" "p + len < length mem"
  shows "succeeds (note_ie ie len mem p ies) (pointers_upto p)"
proof -
  have number: "succeeds (if len = 4 then andThen (read_be32 mem (int p)) (\<lambda>v. Inr (f v)) else Inr (f 0)) (pointers_upto p)"
    if "\<And>v. pointers_upto p (f v)" for f :: "u32 \<Rightarrow> iax2_ies"
    using that assms(2) by (auto intro!: succeeds_andThen [OF be32_reads])
  show ?thesis
    unfolding note_ie_def
    by (intro succeeds_if number) (use assms(1) in \<open>auto simp: pointers_upto_def\<close>)
qed

lemma ies_loop_reads:
  assumes "data + datalen < length mem" "pointers_upto data ies"
  shows "succeeds (ies_loop mem data datalen ies) (\<lambda>(status, ies', mem'). length mem' = length mem \<and>
    (status = 0 \<longrightarrow> (\<exists>e. e < length mem \<and> mem' ! e = 0 \<and> pointers_upto e ies')))"
  using assms
proof (induction mem data datalen ies rule: ies_loop.induct)
  case (1 mem data datalen ies)
  show ?case
  proof (cases "datalen \<ge> 2")
    case False
    then show ?thesis using "1.prems" by (subst ies_loop.simps) (auto simp: pointers_upto_def)
  next
    case True
    let ?ie = "mem ! data" and ?len = "mem ! (data + 1)"
    have peeks: "peek mem (int data) = Inr ?ie" "peek mem (int data + 1) = Inr ?len"
      using True 1 peek_ok [of "int data" mem] peek_ok [of "int data + 1" mem] by (simp_all add: nat_add_distrib)
    show ?thesis
    proof (cases "unat ?len > datalen - 2")
      case True
      then show ?thesis using \<open>datalen \<ge> 2\<close> peeks by (subst ies_loop.simps) simp
    next
      case False
      have "pointers_upto (data + 2) ies" by (rule pointers_upto_mono [OF "1.prems"(2)]) simp
      moreover have "data + 2 + unat ?len < length mem" using False True 1(2) by (simp add: not_less le_diff_conv2 )
      ultimately obtain ies' where found: "note_ie (unat ?ie) (unat ?len) mem (data + 2) ies = Inr ies'" "pointers_upto (data + 2) ies'"
        using note_ie_reads [of "data + 2" ies "unat ?len" mem "unat ?ie"] by (auto simp: succeeds_def)
      have poke: "poke mem (int data) 0 = Inr (mem[data := 0])" using True "1.prems"(1) by (simp add: poke_def)
      have next': "data + (unat ?len + 2) + (datalen - (unat ?len + 2)) < length (mem[data := 0])"
        "pointers_upto (data + (unat ?len + 2)) ies'"
        using False True "1.prems"(1) pointers_upto_mono [OF found(2), of "data + (unat ?len + 2)"] by simp_all
      from "1.IH" [OF True peeks(1) peeks(2) False found(1) poke next'] show ?thesis
        by (subst ies_loop.simps) (use True False in \<open>simp only: if_True if_False peeks andThen_Inr found poke length_list_update\<close>)
    qed
  qed
qed

lemma c_string_reads: "p \<le> e \<Longrightarrow> e < length mem \<Longrightarrow> mem ! e = 0 \<Longrightarrow> succeeds (c_string_at (chars_of mem) (int p)) (\<lambda>_. True)"
proof -
  assume e: "p \<le> e" "e < length mem" "mem ! e = 0"
  then have "char_of (0 :: nat) \<in> set (drop p (chars_of mem))"
    unfolding in_set_conv_nth by (intro exI [of _ "e - p"]) (simp add: chars_of_def)
  then have "\<exists>c \<in> set (drop p (chars_of mem)). code_of c = 0" by (intro bexI) (simp_all add: code_of_def)
  with e show ?thesis by (simp add: c_string_at_def)
qed


lemma staged_ies_reads:
  assumes "length stage = 1024" "0 < n" "n < 1024" "0 \<le> p" "p + n \<le> int (length mem)"
  shows "succeeds (staged_ies stage mem p n) (\<lambda>staged. case staged of None \<Rightarrow> True
    | Some (ies, text) \<Rightarrow> \<exists>bytes e. text = chars_of bytes \<and> e < length bytes \<and> bytes ! e = 0 \<and> pointers_upto e ies)"
proof -
  obtain bytes where bytes: "mem_slice mem p (nat n) = Inr bytes" "length bytes = nat n"
    using assms mem_slice_ok [of p "nat n" mem] by auto
  have fits: "0 + length bytes < length (bytes @ drop (length bytes) stage)" using bytes(2) assms(1-3) by simp
  have none: "pointers_upto 0 no_ies" by (simp add: pointers_upto_def no_ies_def)
  obtain status ies mem' where loop: "ies_loop (bytes @ drop (length bytes) stage) 0 (length bytes) no_ies = Inr (status, ies, mem')"
      "length mem' = length (bytes @ drop (length bytes) stage)" "status = 0 \<longrightarrow> (\<exists>e. e < length mem' \<and> mem' ! e = 0 \<and> pointers_upto e ies)"
    using ies_loop_reads [OF fits none] by (auto simp: succeeds_def)
  have "staged_ies stage mem p n = Inr (if status \<noteq> 0 then None else Some (ies, chars_of mem'))"
    by (simp add: staged_ies_def parse_iax2_ies_def bytes(1) loop(1))
  then show ?thesis using loop(3) by auto
qed

section \<open>The parsers\<close>

text \<open>In a whole datagram whose information elements do not fill the array exactly.\<close>

definition elements_fit :: "IpPacket \<Rightarrow> bool" where
  "elements_fit k \<longleftrightarrow> length_behind k (k_ip k + k_headerLength k + 8) 12 \<noteq> Inr 1024"

abbreviation "parses_fine r \<equiv> succeeds r (pred_option batch_fine)"

lemma full_reads:
  assumes "whole_datagram k"
  shows "succeeds (is_full_frame env k (k_ip k + k_headerLength k)) (\<lambda>_. True)"
    "succeeds (is_kind (k_mem k) (k_ip k + k_headerLength k + 8) frame command) (\<lambda>_. True)"
    "succeeds (frame_parties k (k_ip k + k_headerLength k + 8)) (\<lambda>(src, dst, s, d). is_ok (StringToInt s))"
  unfolding is_full_frame_def udp_len_def is_kind_def frame_parties_def case_prod_beta
  by (intro succeeds_if succeeds_andThen [OF be16_reads] succeeds_andThen [OF peek_reads] succeeds_andThen [OF addresses_reads]
      succeeds_andThen [OF callno_reads]; use whole_datagramD [OF assms] in \<open>simp add: callno_ok\<close>)+

lemma command_reads:
  assumes k: "whole_datagram k" "elements_fit k" and stage: "length stage = 1024"
  shows "succeeds (command_ies command stage env k (k_ip k + k_headerLength k)) (\<lambda>_. True)"
proof -
  note d = whole_datagramD [OF k(1)]
  let ?udp = "k_ip k + k_headerLength k" and ?n = "int (ntohs_at (k_mem k) (nat (k_ip k + 2)))"
  have length: "length_behind k (?udp + 8) 12 = Inr (k_ip k + ?n - (?udp + 20))" using d(6) [of "?udp + 8" 12] by simp
  have fit: "k_ip k + ?n - (?udp + 20) \<noteq> 1024" using k(2) length by (simp add: elements_fit_def)
  show ?thesis
    unfolding command_ies_def Let_def length andThen_Inr
    by (intro succeeds_andThen [OF full_reads(1)] succeeds_andThen [OF full_reads(2)] succeeds_if succeeds_andThen [OF staged_ies_reads] k stage)
      (use d fit in \<open>auto simp: MAX_IES_LENGTH_def\<close>)
qed

lemma report_new_reads:
  assumes k: "whole_datagram k" and stage: "e < length bytes" "bytes ! e = 0" "pointers_upto e ies"
  shows "parses_fine (report_new k (k_ip k + k_headerLength k + 8) ies (chars_of bytes))"
proof -
  have texts: "succeeds (c_string_at (chars_of bytes) (int p)) (\<lambda>_. True)" if "p \<le> e" for p
    using c_string_reads that stage by blast
  have caller: "succeeds (text_or_witheld (chars_of bytes) (ies_caller ies)) (\<lambda>_. True)"
    using stage(3) by (auto simp: text_or_witheld_def pointers_upto_def split: option.split intro!: succeeds_andThen [OF texts])
  have name: "succeeds (case ies_calling_name ies of None \<Rightarrow> Inr [] | Some q \<Rightarrow> c_string_at (chars_of bytes) (int q)) (\<lambda>_. True)"
    using stage(3) texts by (auto simp: pointers_upto_def split: option.split)
  show ?thesis
  proof (cases "ies_callee ies")
    case (Some p)
    then have "p \<le> e" using stage(3) by (simp add: pointers_upto_def)
    then show ?thesis
      unfolding report_new_def Some option.case case_prod_beta
      by (intro succeeds_andThen [OF texts] succeeds_andThen [OF caller] succeeds_andThen [OF name] succeeds_if
          succeeds_andThen [OF addresses_reads] succeeds_andThen [OF callno_reads])
        (use whole_datagramD [OF k] in \<open>simp_all add: batch_fine_def always_fine_def callno_ok\<close>)
  qed (simp add: report_new_def)
qed

lemma New_reads:
  assumes k: "whole_datagram k" "elements_fit k" and stage: "length stage = 1024"
  shows "parses_fine (TryIax2New stage env k (k_ip k + k_headerLength k))"
proof -
  note d = whole_datagramD [OF k(1)]
  let ?udp = "k_ip k + k_headerLength k" and ?n = "int (ntohs_at (k_mem k) (nat (k_ip k + 2)))"
  have length: "length_behind k (?udp + 8) 12 = Inr (k_ip k + ?n - (?udp + 20))" using d(6) [of "?udp + 8" 12] by simp
  have fit: "k_ip k + ?n - (?udp + 20) \<noteq> 1024" using k(2) length by (simp add: elements_fit_def)
  have report: "parses_fine (case staged of None \<Rightarrow> Inr None | Some (ies, text) \<Rightarrow> report_new k (?udp + 8) ies text)"
    if "case staged of None \<Rightarrow> True
      | Some (ies, text) \<Rightarrow> \<exists>bytes e. text = chars_of bytes \<and> e < length bytes \<and> bytes ! e = 0 \<and> pointers_upto e ies" for staged
    using that report_new_reads [OF k(1)] by (auto split: option.splits)
  show ?thesis
    unfolding TryIax2New_def Let_def length andThen_Inr
    by (intro succeeds_andThen [OF full_reads(1)] succeeds_andThen [OF full_reads(2)] succeeds_if
        succeeds_andThen [OF staged_ies_reads report] k stage)
      (use d fit in \<open>auto simp: MAX_IES_LENGTH_def\<close>)
qed

lemma report_hangup_reads: "whole_datagram k \<Longrightarrow> parses_fine (report_hangup k (k_ip k + k_headerLength k + 8))"
  unfolding report_hangup_def case_prod_beta
  by (intro succeeds_andThen [OF full_reads(3)]) (simp_all add: batch_fine_def always_fine_def)

lemma commands_read:
  assumes k: "whole_datagram k" "elements_fit k" and stage: "length stage = 1024"
  shows "parses_fine (TryIax2Accept stage env k (k_ip k + k_headerLength k))"
    "parses_fine (TryIax2Authreq stage env k (k_ip k + k_headerLength k))"
    "parses_fine (TryIax2Hangup stage env k (k_ip k + k_headerLength k))"
    "parses_fine (TryIax2Reject stage env k (k_ip k + k_headerLength k))"
    "parses_fine (TryIax2ControlHangup env k (k_ip k + k_headerLength k))"
proof -
  let ?fh = "k_ip k + k_headerLength k + 8"
  have accept: "parses_fine (andThen (frame_parties k ?fh) (\<lambda>(src, dst, s, d). Inr (Some [Iax2Accept
      \<lparr>Iax2AcceptInfo.m_senderIp = src, m_receiverIp = dst, m_sender_callno = s, m_receiver_callno = d\<rparr>])))"
    "parses_fine (andThen (frame_parties k ?fh) (\<lambda>(src, dst, s, d). Inr (Some [Iax2Authreq
      \<lparr>Iax2AuthreqInfo.m_senderIp = src, m_receiverIp = dst, m_sender_callno = s, m_receiver_callno = d\<rparr>])))"
    by (rule succeeds_andThen [OF full_reads(3) [OF k(1)]], auto simp: batch_fine_def always_fine_def)+
  show "parses_fine (TryIax2Accept stage env k (k_ip k + k_headerLength k))"
    "parses_fine (TryIax2Authreq stage env k (k_ip k + k_headerLength k))"
    "parses_fine (TryIax2Hangup stage env k (k_ip k + k_headerLength k))"
    "parses_fine (TryIax2Reject stage env k (k_ip k + k_headerLength k))"
    unfolding TryIax2Accept_def TryIax2Authreq_def TryIax2Hangup_def TryIax2Reject_def
    by (rule succeeds_andThen [OF command_reads [OF assms]], use accept report_hangup_reads [OF k(1)] in \<open>auto split: option.split\<close>)+
  show "parses_fine (TryIax2ControlHangup env k (k_ip k + k_headerLength k))"
    unfolding TryIax2ControlHangup_def
    by (intro succeeds_andThen [OF full_reads(1)] succeeds_andThen [OF full_reads(2)] succeeds_if report_hangup_reads k) simp_all
qed


section \<open>Voice\<close>

lemma unat_word_of_int: "0 \<le> i \<Longrightarrow> i < 65536 \<Longrightarrow> unat (word_of_int i :: u32) = nat i"
  by (simp add: unat_eq_nat_uint uint_of_int_u32)

lemma FullVoice_reads:
  assumes k: "whole_datagram k"
  shows "parses_fine (TryIax2FullVoiceFrame env k (k_ip k + k_headerLength k))"
proof -
  note d = whole_datagramD [OF k]
  let ?fh = "k_ip k + k_headerLength k + 8" and ?n = "int (ntohs_at (k_mem k) (nat (k_ip k + 2)))"
  have length: "length_behind k ?fh 12 = Inr (k_ip k + ?n - (?fh + 12))" by (rule d(6))
  have range: "0 \<le> k_ip k + ?n - (?fh + 12)" "k_ip k + ?n - (?fh + 12) < 65536" using d by simp_all
  have payload: "unat (word_of_int (k_ip k + ?n - (?fh + 12)) :: u32) \<le> length (drop (nat (?fh + 12)) (k_mem k))"
    unfolding unat_word_of_int [OF range] using d by simp
  show ?thesis
    unfolding TryIax2FullVoiceFrame_def Let_def length andThen_Inr case_prod_beta
    by (intro succeeds_andThen [OF full_reads(1)] succeeds_andThen [OF peek_reads] succeeds_andThen [OF addresses_reads]
        succeeds_andThen [OF callno_reads] succeeds_andThen [OF be32_reads] succeeds_if k)
      (use d payload in \<open>simp_all add: batch_fine_def always_fine_def packet_fine_def\<close>)
qed

lemma mini_fine:
  assumes "0 \<le> n" "n < 65536" "0 \<le> p" "p + n \<le> int (length mem)"
  shows "packet_fine (mini_packet env mem addresses scallno n p ts)"
  using assms by (simp add: packet_fine_def mini_packet_def unat_word_of_int)

lemma trunk_reads:
  assumes "0 \<le> p" "p + int data_len \<le> int (length mem)"
  shows "succeeds (trunk_entries env mem addresses timestamps p data_len) (list_all packet_fine)"
  using assms
proof (induction env mem addresses timestamps p data_len rule: trunk_entries.induct)
  case (1 env mem addresses timestamps p data_len)
  let ?header = "if timestamps then 6 else 4 :: nat"
  show ?case
  proof (cases "data_len < ?header")
    case False
    obtain len where len: "read_be16 mem (if timestamps then p else p + 2) = Inr len"
      using be16_reads [of "if timestamps then p else p + 2" mem] False "1.prems" by (auto simp: succeeds_def split: if_splits)
    show ?thesis
    proof (cases "data_len < ?header + unat len")
      case True
      then show ?thesis using False len by (subst trunk_entries.simps) (simp add: Let_def)
    next
      case fits: False
      obtain scallno where scallno: "frame_callno mem (if timestamps then p + 2 else p) = Inr scallno"
        using callno_reads [of "if timestamps then p + 2 else p" mem] False "1.prems" by (auto simp: succeeds_def split: if_splits)
      obtain ts where ts: "(if timestamps then read_be16 mem (p + 4) else Inr 0) = Inr ts"
        using be16_reads [of "p + 4" mem] False "1.prems" by (auto simp: succeeds_def split: if_splits)
      have room: "0 \<le> p + int ?header + int (unat len)"
        "p + int ?header + int (unat len) + int (data_len - (?header + unat len)) \<le> int (length mem)"
        using "1.prems" fits by auto
      have bound: "unat len < 65536" using unsigned_less [of len] by simp
      have fine: "packet_fine (mini_packet env mem addresses scallno (int (unat len)) (p + int ?header) ts)"
        by (rule mini_fine) (use "1.prems" fits bound in \<open>auto simp del: of_nat_unat\<close>)
      have rest: "succeeds (trunk_entries env mem addresses timestamps (p + int ?header + int (unat len))
          (data_len - (?header + unat len))) (list_all packet_fine)"
        by (rule "1.IH" [OF refl False len fits scallno ts room])
      show ?thesis
        by (subst trunk_entries.simps)
          (use False fits rest fine in \<open>auto simp only: Let_def if_False len scallno ts andThen_Inr intro!: succeeds_andThen [OF rest]\<close>;
            simp add: fine)
    qed
  qed (subst trunk_entries.simps, simp add: Let_def)
qed

lemma Trunk_reads:
  assumes k: "whole_datagram k"
  shows "parses_fine (TryIax2MetaTrunkFrame env k (k_ip k + k_headerLength k))"
proof -
  note d = whole_datagramD [OF k]
  let ?mh = "k_ip k + k_headerLength k + 8" and ?n = "int (ntohs_at (k_mem k) (nat (k_ip k + 2)))"
  have length: "length_behind k ?mh 8 = Inr (k_ip k + ?n - (?mh + 8))" by (rule d(6))
  have range: "0 \<le> k_ip k + ?n - (?mh + 8)" "k_ip k + ?n - (?mh + 8) < 65536" using d by simp_all
  have data_len: "int (unat (word_of_int (k_ip k + ?n - (?mh + 8)) :: u32)) = k_ip k + ?n - (?mh + 8)"
    unfolding unat_word_of_int [OF range] using range by simp
  have entries: "succeeds (trunk_entries env (k_mem k) addresses b (?mh + 8) (unat (word_of_int (k_ip k + ?n - (?mh + 8)) :: u32)))
      (list_all packet_fine)" for addresses b
    by (rule trunk_reads) (use d data_len in auto)
  show ?thesis
    unfolding TryIax2MetaTrunkFrame_def Let_def length andThen_Inr udp_len_def
    by (intro succeeds_if succeeds_andThen [OF be16_reads] succeeds_andThen [OF peek_reads] succeeds_andThen [OF addresses_reads]
        succeeds_andThen [OF entries])
      (use d in \<open>auto simp: batch_fine_def split: list.split\<close>)
qed

lemma Mini_reads:
  assumes k: "whole_datagram k"
  shows "parses_fine (TryIax2MiniVoiceFrame env k (k_ip k + k_headerLength k))"
proof -
  note d = whole_datagramD [OF k]
  let ?mini = "k_ip k + k_headerLength k + 8" and ?n = "int (ntohs_at (k_mem k) (nat (k_ip k + 2)))"
  have length: "length_behind k ?mini 4 = Inr (k_ip k + ?n - (?mini + 4))" by (rule d(6))
  have fine: "packet_fine (mini_packet env (k_mem k) addresses s (k_ip k + ?n - (?mini + 4)) (?mini + 4) ts)" for addresses s ts
    by (rule mini_fine) (use d in auto)
  show ?thesis
    unfolding TryIax2MiniVoiceFrame_def Let_def length andThen_Inr udp_len_def
    by (intro succeeds_if succeeds_andThen [OF be16_reads] succeeds_andThen [OF addresses_reads])
      (use d fine in \<open>auto simp: batch_fine_def always_fine_def\<close>)
qed


section \<open>All parsers in turn\<close>

lemma in_turn_reads:
  "list_all (\<lambda>parser. parses_fine (parser k udp)) parsers \<Longrightarrow>
   succeeds (iax2_in_turn parsers k udp) (\<lambda>es. es = [] \<or> batch_fine es)"
  by (induction parsers) (auto intro!: succeeds_andThen split: option.split)

lemma DetectIax2_reads:
  assumes "whole_datagram k" "elements_fit k" "length stage = 1024"
  shows "succeeds (DetectIax2 stage env k) (\<lambda>es. es = [] \<or> batch_fine es)"
  unfolding DetectIax2_def iax2_parsers_def
  by (rule in_turn_reads)
    (simp add: New_reads [OF assms] commands_read [OF assms] FullVoice_reads [OF assms(1)] Trunk_reads [OF assms(1)]
      Mini_reads [OF assms(1)])

text \<open>C6: The IAX2 path is robust: whatever bytes a whole datagram carries, the parsers read only memory of the packet and what they
  report is handled by the sessions, from every reachable state, without a fault; in the state that is reached the maps
  are sorted and lead to existing sessions, a session is filed under its own source key, its packets exist, and audio was
  reported on a port only after the start of a recording on it. Excluded are information elements of exactly 1024
  bytes (lemma \<open>iax2_ies_overflow\<close>).\<close>

theorem iax2_packets_handled:
  assumes "whole_datagram k" "elements_fit k" "length stage = 1024"
    and "ranges_ok (m_mediaGateways (iw_config w))" "iax2_reachable (iw_config w) st"
  shows "\<exists>events st'. DetectIax2 stage env k = Inr events \<and> handle_all_iax2 w events st = Inr st' \<and>
    iax2_reachable (iw_config w) st' \<and> iax2_tables_ok st'"
proof -
  obtain events where events: "DetectIax2 stage env k = Inr events" "events = [] \<or> batch_fine events"
    using DetectIax2_reads [OF assms(1-3), of env] by (auto simp: succeeds_def)
  have "succeeds (handle_all_iax2 w events st) (iax2_reachable (iw_config w))"
    using events(2) handle_batch [OF assms(5,4), of events] assms(5) by auto
  then show ?thesis using events(1) iax2_reachable_ok [OF _ assms(4)] by (auto simp: succeeds_def)
qed

definition example_iax2_world :: Iax2World where
  "example_iax2_world = \<lparr>iw_config = default_settings, iw_now = 1700000000, iw_local_time = (\<lambda>t. (2023, 11, 14, 22, 13, 20))\<rparr>"

definition example_new_packet :: IpPacket where
  "example_new_packet = packet_between [] (new_frame 1 2 4569 4569 5 0 0 example_elements) []"

lemma example_new_packet_whole: "whole_datagram example_new_packet" "elements_fit example_new_packet"
  by code_simp+

theorem iax2_packets_handled_witness:
  "\<exists>events st'. DetectIax2 (replicate 1024 7) (plain_env\<lparr>de_parser := (de_parser plain_env)\<lparr>pe_config := default_settings\<lparr>m_iax2Support := True\<rparr>\<rparr>\<rparr>)
       example_new_packet = Inr events \<and>
     handle_all_iax2 example_iax2_world events (new_Iax2Sessions 0) = Inr st' \<and>
     iax2_reachable (iw_config example_iax2_world) st' \<and> iax2_tables_ok st'"
  by (rule iax2_packets_handled [OF example_new_packet_whole])
    (simp_all add: example_iax2_world_def default_settings_simps ranges_ok_def no_ranges_def iax2_reachable.start)

end
