(* ===== verification/Iax2CallRun.thy ===== *)
theory Iax2CallRun
  imports Iax2Packets
begin

text \<open>
  One IAX2 call from its NEW to its HANGUP, in any state of the tables that does not know its two ends: what is reported to the
  capture callbacks, and that the tables forget the call.
\<close>

section \<open>What a session reports\<close>

text \<open>Events on one port, none of which ends the recording.\<close>

definition reports_on :: "string \<Rightarrow> callback list \<Rightarrow> bool" where
  "reports_on port cbs \<longleftrightarrow> list_all (\<lambda>cb. case cb of EventCallback ev p \<Rightarrow> p = port \<and> ev_type ev \<noteq> EtStop | _ \<Rightarrow> False) cbs"

lemma reports_on_simps [simp]: "reports_on port []" "reports_on port (cbs @ cbs') \<longleftrightarrow> reports_on port cbs \<and> reports_on port cbs'"
  "reports_on port (EventCallback ev p # cbs) \<longleftrightarrow> p = port \<and> ev_type ev \<noteq> EtStop \<and> reports_on port cbs"
  by (simp_all add: reports_on_def)

definition iax2_view :: "Iax2Call \<Rightarrow> _" where
  "iax2_view c = (m_started c, m_stopped c, m_capturePort c, m_srcIpAndCallNo c, m_destIpAndCallNo c, i_packets c)"

definition quiet :: "Iax2Call \<Rightarrow> Iax2Call \<Rightarrow> bool" where
  "quiet c c' \<longleftrightarrow> iax2_view c' = iax2_view c \<and> (\<exists>cbs. i_callbacks c' = i_callbacks c @ cbs \<and> reports_on (m_capturePort c) cbs)"

lemma quiet_capture: "quiet c c' \<Longrightarrow> ev_type ev \<noteq> EtStop \<Longrightarrow> quiet c (iax2_capture ev c')"
  by (auto simp: quiet_def iax2_view_def iax2_capture_def)

lemma quiet_report: "quiet c c' \<Longrightarrow> t \<noteq> EtStop \<Longrightarrow> quiet c (iax2_report t v c')"
  by (simp add: iax2_report_def quiet_capture new_CaptureEvent_def)

lemma quiet_tags: "quiet c c' \<Longrightarrow> quiet c (fold (\<lambda>(key, val). iax2_capture (new_CaptureEvent EtKeyValue key val 0)) tags c')"
proof (induction tags arbitrary: c')
  case (Cons tag tags)
  obtain key val where tag: "tag = (key, val)" by (cases tag)
  have "quiet c (iax2_capture (new_CaptureEvent EtKeyValue key val 0) c')"
    by (rule quiet_capture [OF Cons.prems]) (simp add: new_CaptureEvent_def)
  then show ?case by (simp add: tag Cons.IH)
qed simp

lemma ReportMetadata_reports:
  "\<exists>c'. Iax2Session_ReportMetadata c = iax2_report EtEndMetadata '''' c' \<and> quiet c c'"
proof -
  have party: "quiet c (if b then iax2_report EtLocalEntryPoint v c' else c')" if "quiet c c'" for b v c'
    using that by (simp add: quiet_report)
  have first: "quiet c (if m_localParty c = '''' then c\<lparr>m_localParty := ip_string (m_localIp c)\<rparr> else c)"
    by (auto simp: quiet_def iax2_view_def)
  show ?thesis
    unfolding Iax2Session_ReportMetadata_def Let_def
    by (rule exI, rule conjI, rule refl, intro quiet_tags quiet_report party first) simp_all
qed

section \<open>The first voice packet\<close>

text \<open>A session that is linked and has seen no packet.\<close>

definition ready :: "'a Iax2Session_scheme \<Rightarrow> bool" where
  "ready s \<longleftrightarrow> m_iax2_state s = IAX2_STATE_LINKED \<and> m_new s \<noteq> None \<and> m_lastIax2Packet s = None \<and> m_lastIax2PacketSide1 s = None \<and>
     m_numIax2Packets s = 0 \<and> \<not> m_started s \<and> \<not> m_stopped s"

lemma metadata_port:
  assumes "m_new c \<noteq> None" "ranges_ok (m_mediaGateways (iw_config w))"
  shows "succeeds (ProcessMetadataIax2 w p c) (\<lambda>c'. m_capturePort c' = invitor_port c \<and> m_started c' = m_started c \<and>
    m_stopped c' = m_stopped c \<and> m_srcIpAndCallNo c' = m_srcIpAndCallNo c \<and> m_destIpAndCallNo c' = m_destIpAndCallNo c \<and>
    i_packets c' = i_packets c \<and> i_callbacks c' = i_callbacks c \<and> m_numIax2Packets c' = m_numIax2Packets c \<and>
    m_lastIax2PacketSide1 c' = m_lastIax2PacketSide1 c \<and> m_trackingId c' = m_trackingId c)"
proof -
  obtain i where i: "m_new c = Some i" using assms(1) by auto
  note gateway = IsMediaGateway_succeeds [OF assms(2)]
  show ?thesis
    unfolding ProcessMetadataIax2_def Let_def
    by (intro succeeds_andThen [OF gateway] succeeds_if)
      (simp_all add: ProcessMetadataIax2Incoming_def ProcessMetadataIax2Outgoing_def i invitor_port_def)
qed

definition start_event :: "Iax2World \<Rightarrow> string \<Rightarrow> CaptureEvent" where
  "start_event w trackingId = (new_CaptureEvent EtStart '''' trackingId 0)\<lparr>ev_timestamp := iw_now w\<rparr>"

text \<open>The start, the metadata up to their end, and the audio.\<close>

lemma Start_reports:
  "i_callbacks (Iax2Session_Start w c) = i_callbacks c @ [EventCallback (start_event w (m_trackingId c)) (m_capturePort c)]"
  "iax2_view (Iax2Session_Start w c) = iax2_view (c\<lparr>m_started := True\<rparr>)"
  by (simp_all add: Iax2Session_Start_def Iax2Session_GenerateOrkUid_def start_event_def iax2_view_def iax2_capture_def Let_def
      split: prod.split)

definition end_metadata :: CaptureEvent where
  "end_metadata = new_CaptureEvent EtEndMetadata '''' '''' 0"

lemma count_voice_first:
  assumes "m_numIax2Packets c = 0" "packet_fine (i_packets c ! r)"
  shows "\<exists>c' cbs chunk. count_voice w r channel c = Inr c' \<and> i_callbacks c' = i_callbacks c @
      EventCallback (start_event w (m_trackingId c)) (m_capturePort c) # cbs @
      [EventCallback end_metadata (m_capturePort c), AudioChunkCallback chunk (m_capturePort c)] \<and>
    reports_on (m_capturePort c) cbs \<and> m_started c' \<and> m_stopped c' = m_stopped c \<and> m_srcIpAndCallNo c' = m_srcIpAndCallNo c \<and>
    m_destIpAndCallNo c' = m_destIpAndCallNo c \<and> m_capturePort c' = m_capturePort c \<and> i_packets c' = i_packets c \<and>
    m_lastUpdated c' = m_arrivalTimestamp (i_packets c ! r) \<and>
    (m_payloadSize (i_packets c ! r) \<noteq> 0 \<longrightarrow>
     m_pBuffer chunk = Some (take (unat (m_payloadSize (i_packets c ! r))) (m_payload (i_packets c ! r))))"
proof -
  let ?p = "i_packets c ! r"
  define c1 where "c1 = c\<lparr>m_numIax2Packets := m_numIax2Packets c + 1\<rparr>"
  define cs where "cs = Iax2Session_Start w c1"
  obtain cm where cm: "quiet cs cm" "Iax2Session_ReportMetadata cs = iax2_report EtEndMetadata '''' cm"
    using ReportMetadata_reports by blast
  obtain cbs where cbs: "i_callbacks cm = i_callbacks cs @ cbs" "reports_on (m_capturePort cs) cbs" "iax2_view cm = iax2_view cs"
    using cm(1) by (auto simp: quiet_def)
  have view: "iax2_view cs = iax2_view (c\<lparr>m_started := True\<rparr>)"
    "i_callbacks cs = i_callbacks c @ [EventCallback (start_event w (m_trackingId c)) (m_capturePort c)]"
    by (simp_all add: cs_def Start_reports c1_def) (simp add: iax2_view_def)
  define c3 where "c3 = (if channel = 1 then (iax2_report EtEndMetadata '''' cm)\<lparr>m_channel1SeqNo := next_seq (m_channel1SeqNo (iax2_report EtEndMetadata '''' cm))\<rparr>
    else (iax2_report EtEndMetadata '''' cm)\<lparr>m_channel2SeqNo := next_seq (m_channel2SeqNo (iax2_report EtEndMetadata '''' cm))\<rparr>)"
  have c3: "iax2_view c3 = iax2_view (c\<lparr>m_started := True\<rparr>)" "i_callbacks c3 = i_callbacks c @
      EventCallback (start_event w (m_trackingId c)) (m_capturePort c) # cbs @ [EventCallback end_metadata (m_capturePort c)]"
    using cbs view by (auto simp: c3_def iax2_report_def iax2_capture_def iax2_view_def end_metadata_def)
  have send: "\<exists>chunk. send_voice channel seq ?p c3 = Inr (c3\<lparr>i_callbacks := i_callbacks c3 @ [AudioChunkCallback chunk (m_capturePort c3)],
      m_lastUpdated := m_arrivalTimestamp ?p\<rparr>) \<and>
      (m_payloadSize ?p \<noteq> 0 \<longrightarrow> m_pBuffer chunk = Some (take (unat (m_payloadSize ?p)) (m_payload ?p)))" for seq
    using assms(2) by (auto simp: send_voice_def SetBuffer_def new_AudioChunk_def packet_fine_def mem_slice_def Let_def)
  have num: "(m_numIax2Packets c1 = 1) = True" using assms(1) by (simp add: c1_def)
  have fields: "m_started c3 = True" "i_packets c3 = i_packets c" using c3(1) by (simp_all add: iax2_view_def)
  have "count_voice w r channel c = send_voice channel (if channel = 1 then m_channel1SeqNo c3 else m_channel2SeqNo c3) ?p c3"
    unfolding count_voice_def Let_def c1_def [symmetric] num if_True cs_def [symmetric] cm(2) c3_def [symmetric] fields ..
  then show ?thesis using send c3 cbs(2) view(1) by (fastforce simp: iax2_view_def)
qed


lemma first_voice:
  assumes c: "ready c" and p: "m_frame_type (i_packets c ! r) = IAX2_FRAME_FULL" "packet_fine (i_packets c ! r)"
    and config: "ranges_ok (m_mediaGateways (iw_config w))"
  shows "\<exists>c' cbs chunk. AddIax2Packet w r c = Inr (True, c') \<and> i_callbacks c' = i_callbacks c @
      EventCallback (start_event w (m_trackingId c)) (invitor_port c) # cbs @
      [EventCallback end_metadata (invitor_port c), AudioChunkCallback chunk (invitor_port c)] \<and>
    reports_on (invitor_port c) cbs \<and> m_started c' \<and> \<not> m_stopped c' \<and> m_srcIpAndCallNo c' = m_srcIpAndCallNo c \<and>
    m_destIpAndCallNo c' = m_destIpAndCallNo c \<and> m_capturePort c' = invitor_port c \<and> i_packets c' = i_packets c \<and>
    m_lastUpdated c' = m_arrivalTimestamp (i_packets c ! r) \<and>
    (m_payloadSize (i_packets c ! r) \<noteq> 0 \<longrightarrow>
     m_pBuffer chunk = Some (take (unat (m_payloadSize (i_packets c ! r))) (m_payload (i_packets c ! r))))"
proof -
  let ?p = "i_packets c ! r"
  have s: "m_new c \<noteq> None" "m_lastIax2Packet c = None" "m_iax2_state c = IAX2_STATE_LINKED"
    using c by (simp_all add: ready_def)
  obtain c1 where c1: "ProcessMetadataIax2 w ?p c = Inr c1" "m_capturePort c1 = invitor_port c" "m_stopped c1 = m_stopped c"
      "m_srcIpAndCallNo c1 = m_srcIpAndCallNo c" "m_destIpAndCallNo c1 = m_destIpAndCallNo c" "i_packets c1 = i_packets c"
      "i_callbacks c1 = i_callbacks c" "m_numIax2Packets c1 = m_numIax2Packets c"
      "m_lastIax2PacketSide1 c1 = m_lastIax2PacketSide1 c" "m_trackingId c1 = m_trackingId c"
    using metadata_port [OF s(1) config, of ?p] by (auto simp: succeeds_def)
  define c4 where "c4 = c1\<lparr>m_iax2_state := IAX2_STATE_UP, m_codec := int (unat (m_payloadType ?p)), m_lastIax2Packet := Some r,
    m_lastIax2PacketSide1 := Some r\<rparr>"
  have c4: "m_numIax2Packets c4 = 0" "packet_fine (i_packets c4 ! r)" "i_packets c4 = i_packets c"
    using c p(2) c1 by (simp_all add: c4_def ready_def)
  have side: "choose_side w r (c1\<lparr>m_iax2_state := IAX2_STATE_UP, m_codec := int (unat (m_payloadType ?p)), m_lastIax2Packet := Some r\<rparr>) =
      (Some 1, c4)"
    using c c1(9) by (simp add: choose_side_def Let_def c4_def ready_def)
  have "AddIax2Packet w r c = andThen (count_voice w r 1 c4) (\<lambda>c5. Inr (True, c5))"
    using s p(1) side by (simp add: AddIax2Packet_def Let_def c1(1))
  then show ?thesis
    using count_voice_first [OF c4(1,2), of w 1] c c1 by (fastforce simp: c4_def ready_def)
qed

section \<open>The steps of a call\<close>

text \<open>A session made by a NEW from \<open>ip\<close> with call number \<open>n\<close>, before any voice packet.\<close>

definition calling :: "u32 \<Rightarrow> u16 \<Rightarrow> string \<Rightarrow> 'a Iax2Session_scheme \<Rightarrow> bool" where
  "calling ip n trackingId s \<longleftrightarrow> m_new s \<noteq> None \<and> m_lastIax2Packet s = None \<and> m_lastIax2PacketSide1 s = None \<and>
     m_numIax2Packets s = 0 \<and> \<not> m_started s \<and> \<not> m_stopped s \<and> m_srcIpAndCallNo s = ip_and_callno ip (callno_string n) \<and>
     m_invitorIp s = ip \<and> m_invitor_scallno s = n \<and> m_trackingId s = trackingId"

lemma callno_value: "StringToInt (callno_string n) = Inr (uint n)"
proof -
  have "- 2147483648 \<le> uint n" by (rule order_trans [OF _ uint_ge_0]) simp
  moreover have "uint n < 65536" using uint_lt2p [of n] by simp
  ultimately show ?thesis using StringToInt_IntToString [of "uint n"] by (simp add: callno_string_def)
qed

lemma session_calling:
  assumes "m_callNo i = callno_string n" "m_new c = None" "m_lastIax2Packet c = None" "m_lastIax2PacketSide1 c = None"
    "m_numIax2Packets c = 0" "\<not> m_started c" "\<not> m_stopped c"
  shows "\<exists>c'. Iax2Session_ReportIax2New w i c = Inr c' \<and> calling (Iax2NewInfo.m_senderIp i) n (m_trackingId c) c' \<and>
    i_packets c' = i_packets c \<and> i_callbacks c' = i_callbacks c"
  using assms callno_value [of n]
  by (auto simp: Iax2Session_ReportIax2New_def split_calling_name_def Let_def calling_def ip_and_callno_def)

lemma calling_truncate: "calling ip n t (Iax2Session.truncate c) = calling ip n t c"
  by (simp add: calling_def Iax2Session.defs)

lemma New_step:
  assumes "m_callNo i = callno_string n" "Iax2NewInfo.m_senderIp i = ip"
    and free: "map_find (ip_and_callno ip (callno_string n)) (m_bySrcIpAndCallNo st) = None"
  shows "\<exists>s counter. ReportIax2New w i st = Inr (st\<lparr>i_objects := i_objects st @ [s], i_alphaCounter := counter,
      m_bySrcIpAndCallNo := map_insert (ip_and_callno ip (callno_string n)) (length (i_objects st)) (m_bySrcIpAndCallNo st)\<rparr>) \<and>
    calling ip n (fst (AlphaCounter_GetNext (i_alphaCounter st))) s"
proof (cases "AlphaCounter_GetNext (i_alphaCounter st)")
  case (Pair trackingId counter)
  let ?key = "ip_and_callno ip (callno_string n)" and ?r = "length (i_objects st)"
  define st1 where "st1 = st\<lparr>i_objects := i_objects st @ [(new_Iax2Session w trackingId)\<lparr>m_srcIpAndCallNo := ?key\<rparr>], i_alphaCounter := counter\<rparr>"
  define c where "c = iax2_call_of st1 ?r"
  have c: "m_new c = None" "m_lastIax2Packet c = None" "m_lastIax2PacketSide1 c = None" "m_numIax2Packets c = 0" "\<not> m_started c"
    "\<not> m_stopped c" "m_trackingId c = trackingId" "i_packets c = i_store st" "i_callbacks c = i_log st"
    by (simp_all add: c_def st1_def iax2_call_of_def iax2_session_def Iax2Session.defs Iax2Call.defs new_Iax2Session_def)
  obtain c' where c': "Iax2Session_ReportIax2New w i c = Inr c'" "calling ip n trackingId c'" "i_packets c' = i_store st"
      "i_callbacks c' = i_log st"
    using session_calling [OF assms(1) c(1-6), of w] c(7-9) assms(2) by auto
  define st2 where "st2 = iax2_return ?r c' st1"
  have st2: "st2 = st\<lparr>i_objects := i_objects st @ [Iax2Session.truncate c'], i_alphaCounter := counter\<rparr>"
    using c'(3,4) by (simp add: st2_def iax2_return_def st1_def)
  have src: "m_srcIpAndCallNo (iax2_session st2 ?r) = ?key"
    using c'(2) by (simp add: st2 iax2_session_def calling_def iax2)
  have "ReportIax2New w i st = Inr (st2\<lparr>m_bySrcIpAndCallNo := map_insert ?key ?r (m_bySrcIpAndCallNo st2)\<rparr>)"
    using assms c'(1) src by (simp add: ReportIax2New_def Let_def Pair c_def flip: st1_def st2_def)
  then show ?thesis using c'(2) by (auto simp: st2 Pair calling_truncate)
qed

lemma Accept_step:
  assumes s: "r < length (i_objects st)" "calling ip n t (i_objects st ! r)"
    and i: "Iax2AcceptInfo.m_receiverIp i = ip" "Iax2AcceptInfo.m_receiver_callno i = callno_string n"
      "Iax2AcceptInfo.m_sender_callno i = callno_string m"
    and st: "map_find (ip_and_callno ip (callno_string n)) (m_bySrcIpAndCallNo st) = Some r"
      "map_find (ip_and_callno (Iax2AcceptInfo.m_senderIp i) (callno_string m)) (m_byDestIpAndCallNo st) = None"
  shows "\<exists>s'. ReportIax2Accept i st = Inr (st\<lparr>i_objects := (i_objects st)[r := s'], m_byDestIpAndCallNo :=
      map_insert (ip_and_callno (Iax2AcceptInfo.m_senderIp i) (callno_string m)) r (m_byDestIpAndCallNo st)\<rparr>) \<and>
    calling ip n t s' \<and> ready s' \<and> m_destIpAndCallNo s' = ip_and_callno (Iax2AcceptInfo.m_senderIp i) (callno_string m)"
proof -
  let ?dest = "ip_and_callno (Iax2AcceptInfo.m_senderIp i) (callno_string m)" and ?s = "i_objects st ! r"
  let ?s' = "?s\<lparr>m_destIpAndCallNo := ?dest, m_iax2_state := IAX2_STATE_LINKED, m_invitee_scallno := m\<rparr>"
  have s': "calling ip n t ?s'" "ready ?s'" "m_destIpAndCallNo ?s' = ?dest"
    using s(2) by (simp_all add: calling_def ready_def)
  have "ReportIax2Accept i st = Inr (st\<lparr>i_objects := (i_objects st)[r := ?s'], m_byDestIpAndCallNo := map_insert ?dest r (m_byDestIpAndCallNo st)\<rparr>)"
    using s(1) i st callno_value [of m]
    by (cases st, cases ?s) (simp add: ReportIax2Accept_def Iax2Session_ReportIax2Accept_def Let_def iax2_call_of_def iax2_session_def
        iax2_change_def Iax2Session.defs Iax2Call.defs iax2_return_def)
  with s' show ?thesis by blast
qed

lemma invitor_port_calling: "calling ip n t c \<Longrightarrow> invitor_port c = ip_and_callno ip (callno_string n)"
  by (simp add: calling_def invitor_port_def ip_and_callno_def callno_string_def)

lemma Voice_step:
  assumes s: "r < length (i_objects st)" "calling ip n t (i_objects st ! r)" "ready (i_objects st ! r)"
    and p: "m_sourceIp p = ip" "m_sourcecallno p = n" "m_frame_type p = IAX2_FRAME_FULL" "packet_fine p"
    and st: "map_find (ip_and_callno ip (callno_string n)) (m_bySrcIpAndCallNo st) = Some r"
    and config: "ranges_ok (m_mediaGateways (iw_config w))"
  defines "port \<equiv> ip_and_callno ip (callno_string n)"
  shows "\<exists>s' cbs chunk. handle_iax2 w (Iax2Voice p) st = Inr (st\<lparr>i_objects := (i_objects st)[r := s'], i_store := i_store st @ [p],
      i_log := i_log st @ EventCallback (start_event w t) port # cbs @ [EventCallback end_metadata port, AudioChunkCallback chunk port]\<rparr>) \<and>
    reports_on port cbs \<and> m_started s' \<and> \<not> m_stopped s' \<and> m_srcIpAndCallNo s' = port \<and>
    m_destIpAndCallNo s' = m_destIpAndCallNo (i_objects st ! r) \<and> m_capturePort s' = port \<and> m_lastUpdated s' = m_arrivalTimestamp p \<and>
    (m_payloadSize p \<noteq> 0 \<longrightarrow> m_pBuffer chunk = Some (take (unat (m_payloadSize p)) (m_payload p)))"
proof -
  define st1 where "st1 = st\<lparr>i_store := i_store st @ [p]\<rparr>"
  define c where "c = iax2_call_of st1 r"
  have c: "ready c" "calling ip n t c" "i_packets c ! length (i_store st) = p" "i_packets c = i_store st @ [p]" "i_callbacks c = i_log st"
    "m_destIpAndCallNo c = m_destIpAndCallNo (i_objects st ! r)"
    using s by (simp_all add: c_def st1_def iax2_call_of_def iax2_session_def Iax2Session.defs Iax2Call.defs ready_def calling_def)
  have fields: "invitor_port c = port" "m_trackingId c = t" "m_srcIpAndCallNo c = port"
    using c(2) invitor_port_calling [OF c(2)] by (simp_all add: port_def calling_def)
  obtain c' cbs chunk where c': "AddIax2Packet w (length (i_store st)) c = Inr (True, c')"
      "i_callbacks c' = i_log st @ EventCallback (start_event w t) port # cbs @ [EventCallback end_metadata port, AudioChunkCallback chunk port]"
      "reports_on port cbs" "m_started c'" "\<not> m_stopped c'" "m_srcIpAndCallNo c' = port"
      "m_destIpAndCallNo c' = m_destIpAndCallNo (i_objects st ! r)" "m_capturePort c' = port" "i_packets c' = i_store st @ [p]"
      "m_lastUpdated c' = m_arrivalTimestamp p"
      "m_payloadSize p \<noteq> 0 \<longrightarrow> m_pBuffer chunk = Some (take (unat (m_payloadSize p)) (m_payload p))"
    using first_voice [of c "length (i_store st)" w] c p(3,4) config fields by auto
  have key: "ip_and_callno (m_sourceIp p) (IntToString (int (unat (m_sourcecallno p)))) = port"
    by (simp add: p port_def callno_string_def)
  have add: "add_to_session w r (length (i_store st)) st1 = Inr (True, iax2_return r c' st1)"
    using c'(1) by (simp add: add_to_session_def Let_def c_def)
  have "handle_iax2 w (Iax2Voice p) st = Inr (iax2_return r c' st1)"
    using st add key unfolding port_def [symmetric]
    by (simp add: handle_iax2_def voice_def ReportIax2Packet_def Let_def st1_def del: of_nat_unat)
  also have "iax2_return r c' st1 = st\<lparr>i_objects := (i_objects st)[r := Iax2Session.truncate c'], i_store := i_store st @ [p],
      i_log := i_callbacks c'\<rparr>"
    by (simp add: iax2_return_def st1_def c'(9))
  finally show ?thesis
    by (intro exI [of _ "Iax2Session.truncate c'"] exI [of _ cbs] exI [of _ chunk]) (use c' in \<open>simp add: Iax2Session.defs\<close>)
qed


lemma map_erase_insert: "map_find k m = None \<Longrightarrow> map_erase k (map_insert k v m) = m"
proof (induction k v m rule: map_insert.induct)
  case (2 k v k' v' m)
  then show ?case using map_erase_None [of k "(k', v') # m"] by (auto simp: map_find_def map_erase_def split: if_splits)
qed (simp add: map_erase_def)

definition iax2_stop_event :: "int \<Rightarrow> CaptureEvent" where
  "iax2_stop_event t = (new_CaptureEvent EtStop '''' '''' 0)\<lparr>ev_timestamp := t\<rparr>"

lemma Stop_step:
  assumes s: "r < length (i_objects st)" "i_objects st ! r = s" "m_started s" "\<not> m_stopped s" "m_srcIpAndCallNo s = src"
      "m_destIpAndCallNo s = dest" "src \<noteq> ''''" "dest \<noteq> ''''"
  shows "\<exists>objects. Iax2Sessions_Stop r st = st\<lparr>i_objects := objects,
    i_log := i_log st @ [EventCallback (iax2_stop_event (m_lastUpdated s)) (m_capturePort s)],
    m_bySrcIpAndCallNo := map_erase src (m_bySrcIpAndCallNo st), m_byDestIpAndCallNo := map_erase dest (m_byDestIpAndCallNo st)\<rparr>"
proof -
  define c where "c = Iax2Session_Stop (iax2_call_of st r)"
  have c: "i_packets c = i_store st" "i_callbacks c = i_log st @ [EventCallback (iax2_stop_event (m_lastUpdated s)) (m_capturePort s)]"
    "m_srcIpAndCallNo c = src" "m_destIpAndCallNo c = dest"
    using s by (simp_all add: c_def Iax2Session_Stop_def iax2_call_of_def iax2_session_def iax2_capture_def iax2_stop_event_def
        Iax2Session.defs Iax2Call.defs)
  have session: "m_srcIpAndCallNo (iax2_session (iax2_return r c st) r) = src" "m_destIpAndCallNo (iax2_session (iax2_return r c st) r) = dest"
    using s(1) c(3,4) by (simp_all add: iax2_session_def iax2_return_def Iax2Session.defs)
  show ?thesis
    by (rule exI [of _ "(i_objects st)[r := Iax2Session.truncate c]"])
      (use s(7,8) c(1,2) session in \<open>simp add: Iax2Sessions_Stop_def Let_def iax2_return_def flip: c_def\<close>)
qed

section \<open>The call\<close>

lemma ip_and_callno_nonempty: "ip_and_callno ip s \<noteq> ''''"
  by (simp add: ip_and_callno_def)

text \<open>The four messages of a call from \<open>(ip, n)\<close> to \<open>(ip', m)\<close> with one voice packet.\<close>

definition call_events :: "Iax2NewInfo \<Rightarrow> Iax2PacketInfo \<Rightarrow> u32 \<Rightarrow> string \<Rightarrow> u32 \<Rightarrow> string \<Rightarrow> iax2_event list" where
  "call_events i p ip n ip' m = [Iax2New i,
     Iax2Accept \<lparr>Iax2AcceptInfo.m_senderIp = ip', m_receiverIp = ip, m_sender_callno = m, m_receiver_callno = n\<rparr>, Iax2Voice p,
     Iax2Hangup \<lparr>Iax2HangupInfo.m_senderIp = ip, m_receiverIp = ip', m_sender_callno = n, m_receiver_callno = m\<rparr>]"

lemma handle_all_iax2_append: "handle_all_iax2 w (es @ fs) st = andThen (handle_all_iax2 w es st) (handle_all_iax2 w fs)"
  by (induction es arbitrary: st) (auto simp: andThen_def split: sum.splits)

lemma handle_all_iax2_last: "andThen m (handle_all_iax2 w []) = m"
  by (cases m) simp_all

text \<open>After the NEW and its ACCEPT, both ends lead to one session that is ready for voice.\<close>

lemma call_linked:
  fixes ip ip' :: u32 and n m :: u16
  defines "caller \<equiv> ip_and_callno ip (callno_string n)" and "callee \<equiv> ip_and_callno ip' (callno_string m)"
  assumes "map_find caller (m_bySrcIpAndCallNo st) = None" "map_find callee (m_byDestIpAndCallNo st) = None"
    and "map_sorted (m_bySrcIpAndCallNo st)" "m_callNo i = callno_string n" "Iax2NewInfo.m_senderIp i = ip"
  shows "\<exists>s counter. handle_all_iax2 w [Iax2New i, Iax2Accept \<lparr>Iax2AcceptInfo.m_senderIp = ip', m_receiverIp = ip,
        m_sender_callno = callno_string m, m_receiver_callno = callno_string n\<rparr>] st =
      Inr (st\<lparr>i_objects := i_objects st @ [s], i_alphaCounter := counter,
        m_bySrcIpAndCallNo := map_insert caller (length (i_objects st)) (m_bySrcIpAndCallNo st),
        m_byDestIpAndCallNo := map_insert callee (length (i_objects st)) (m_byDestIpAndCallNo st)\<rparr>) \<and>
    calling ip n (fst (AlphaCounter_GetNext (i_alphaCounter st))) s \<and> ready s \<and> m_destIpAndCallNo s = callee"
proof -
  let ?r = "length (i_objects st)" and ?t = "fst (AlphaCounter_GetNext (i_alphaCounter st))"
  let ?accept = "\<lparr>Iax2AcceptInfo.m_senderIp = ip', m_receiverIp = ip, m_sender_callno = callno_string m, m_receiver_callno = callno_string n\<rparr>"
  obtain s counter where new: "ReportIax2New w i st = Inr (st\<lparr>i_objects := i_objects st @ [s], i_alphaCounter := counter,
      m_bySrcIpAndCallNo := map_insert caller ?r (m_bySrcIpAndCallNo st)\<rparr>)" "calling ip n ?t s"
    using New_step [OF assms(6,7), of st w] assms(3) unfolding caller_def by blast
  define st1 where "st1 = st\<lparr>i_objects := i_objects st @ [s], i_alphaCounter := counter,
      m_bySrcIpAndCallNo := map_insert caller ?r (m_bySrcIpAndCallNo st)\<rparr>"
  have st1: "?r < length (i_objects st1)" "i_objects st1 ! ?r = s" "map_find caller (m_bySrcIpAndCallNo st1) = Some ?r"
    "m_byDestIpAndCallNo st1 = m_byDestIpAndCallNo st"
    using assms(3,5) by (simp_all add: st1_def map_find_insert)
  obtain s2 where accept: "ReportIax2Accept ?accept st1 = Inr (st1\<lparr>i_objects := (i_objects st1)[?r := s2],
      m_byDestIpAndCallNo := map_insert callee ?r (m_byDestIpAndCallNo st1)\<rparr>)"
      "calling ip n ?t s2" "ready s2" "m_destIpAndCallNo s2 = callee"
    using Accept_step [of ?r st1 ip n ?t ?accept m] st1 new(2) assms(4) unfolding caller_def callee_def by auto
  show ?thesis
    by (rule exI [of _ s2], rule exI [of _ counter])
      (use new(1) accept in \<open>simp add: handle_iax2_def [of w "Iax2New i"] handle_iax2_def [of w "Iax2Accept ?accept"] flip: st1_def\<close>;
        simp add: st1_def)
qed

text \<open>The HANGUP of a started session stops it and takes both ends out of the tables.\<close>

lemma call_hung_up:
  fixes ip ip' :: u32 and n m :: string
  defines "caller \<equiv> ip_and_callno ip n" and "callee \<equiv> ip_and_callno ip' m"
  assumes "r < length (i_objects st)" "i_objects st ! r = s" "m_started s" "\<not> m_stopped s" "m_srcIpAndCallNo s = caller"
      "m_destIpAndCallNo s = callee"
    and "m_bySrcIpAndCallNo st = map_insert caller r by_src" "m_byDestIpAndCallNo st = map_insert callee r by_dest"
    and "map_sorted by_src" "map_sorted by_dest" "caller \<noteq> callee"
    and "map_find caller by_src = None" "map_find callee by_src = None" "map_find caller by_dest = None" "map_find callee by_dest = None"
  shows "\<exists>objects. handle_iax2 w (Iax2Hangup \<lparr>Iax2HangupInfo.m_senderIp = ip, m_receiverIp = ip', m_sender_callno = n,
      m_receiver_callno = m\<rparr>) st = Inr (st\<lparr>i_objects := objects,
        i_log := i_log st @ [EventCallback (iax2_stop_event (m_lastUpdated s)) (m_capturePort s)],
        m_bySrcIpAndCallNo := by_src, m_byDestIpAndCallNo := by_dest\<rparr>)"
proof -
  obtain objects where stop: "Iax2Sessions_Stop r st = st\<lparr>i_objects := objects,
      i_log := i_log st @ [EventCallback (iax2_stop_event (m_lastUpdated s)) (m_capturePort s)],
      m_bySrcIpAndCallNo := by_src, m_byDestIpAndCallNo := by_dest\<rparr>"
    using Stop_step [OF assms(3-8)] assms(9-17) by (auto simp: map_erase_insert caller_def callee_def ip_and_callno_nonempty)
  have "m_bySrcIpAndCallNo (Iax2Sessions_Stop r st) = by_src" "m_byDestIpAndCallNo (Iax2Sessions_Stop r st) = by_dest"
    by (simp_all add: stop)
  then show ?thesis
    by (intro exI [of _ objects])
      (use assms(9-17) in \<open>simp add: handle_iax2_def ReportIax2Hangup_def hangup_by_src_def hangup_by_dest_def map_find_insert
          flip: caller_def callee_def\<close>; simp add: stop)
qed

text \<open>C7: A call is recorded from end to end: in every reachable state that knows neither end of the call, a NEW, its ACCEPT, a full
  voice frame of the caller and a HANGUP report, in this order and all on the port named after the caller, the start
  with a fresh tracking ID, the metadata up to their end, one chunk that holds exactly the payload, and the stop; the
  two tables of sessions are left as they were.\<close>

theorem iax2_call_recorded:
  fixes ip ip' :: u32 and n m :: u16
  defines "caller \<equiv> ip_and_callno ip (callno_string n)" and "callee \<equiv> ip_and_callno ip' (callno_string m)"
  assumes "iax2_reachable (iw_config w) st" "ranges_ok (m_mediaGateways (iw_config w))" "caller \<noteq> callee"
    and "map_find caller (m_bySrcIpAndCallNo st) = None" "map_find callee (m_bySrcIpAndCallNo st) = None"
    and "map_find caller (m_byDestIpAndCallNo st) = None" "map_find callee (m_byDestIpAndCallNo st) = None"
    and "m_callNo i = callno_string n" "Iax2NewInfo.m_senderIp i = ip"
    and "m_sourceIp p = ip" "m_sourcecallno p = n" "m_frame_type p = IAX2_FRAME_FULL" "packet_fine p" "m_payloadSize p \<noteq> 0"
  shows "\<exists>st' metadata chunk. handle_all_iax2 w (call_events i p ip (callno_string n) ip' (callno_string m)) st = Inr st' \<and>
    i_log st' = i_log st @ EventCallback (start_event w (fst (AlphaCounter_GetNext (i_alphaCounter st)))) caller # metadata @
      [EventCallback end_metadata caller, AudioChunkCallback chunk caller, EventCallback (iax2_stop_event (m_arrivalTimestamp p)) caller] \<and>
    reports_on caller metadata \<and> m_pBuffer chunk = Some (take (unat (m_payloadSize p)) (m_payload p)) \<and>
    m_bySrcIpAndCallNo st' = m_bySrcIpAndCallNo st \<and> m_byDestIpAndCallNo st' = m_byDestIpAndCallNo st"
proof -
  let ?r = "length (i_objects st)" and ?t = "fst (AlphaCounter_GetNext (i_alphaCounter st))"
  let ?accept = "\<lparr>Iax2AcceptInfo.m_senderIp = ip', m_receiverIp = ip, m_sender_callno = callno_string m, m_receiver_callno = callno_string n\<rparr>"
  let ?hangup = "\<lparr>Iax2HangupInfo.m_senderIp = ip, m_receiverIp = ip', m_sender_callno = callno_string n, m_receiver_callno = callno_string m\<rparr>"
  have sorted: "map_sorted (m_bySrcIpAndCallNo st)" "map_sorted (m_byDestIpAndCallNo st)"
    using iax2_reachable_ok [OF assms(3,4)] by (simp_all add: iax2_tables_ok_def)
  obtain s counter where link: "handle_all_iax2 w [Iax2New i, Iax2Accept ?accept] st = Inr (st\<lparr>i_objects := i_objects st @ [s],
      i_alphaCounter := counter, m_bySrcIpAndCallNo := map_insert caller ?r (m_bySrcIpAndCallNo st),
      m_byDestIpAndCallNo := map_insert callee ?r (m_byDestIpAndCallNo st)\<rparr>)"
      "calling ip n ?t s" "ready s" "m_destIpAndCallNo s = callee"
    using call_linked [of ip n st ip' m i w] assms(6,9-11) sorted(1) unfolding caller_def callee_def by blast
  define st2 where "st2 = st\<lparr>i_objects := i_objects st @ [s], i_alphaCounter := counter,
      m_bySrcIpAndCallNo := map_insert caller ?r (m_bySrcIpAndCallNo st), m_byDestIpAndCallNo := map_insert callee ?r (m_byDestIpAndCallNo st)\<rparr>"
  have st2: "?r < length (i_objects st2)" "i_objects st2 ! ?r = s" "i_log st2 = i_log st" "map_find caller (m_bySrcIpAndCallNo st2) = Some ?r"
    using assms(6) sorted(1) by (simp_all add: st2_def map_find_insert)
  obtain s3 metadata chunk where voice: "handle_iax2 w (Iax2Voice p) st2 = Inr (st2\<lparr>i_objects := (i_objects st2)[?r := s3],
      i_store := i_store st2 @ [p], i_log := i_log st2 @ EventCallback (start_event w ?t) caller # metadata @
        [EventCallback end_metadata caller, AudioChunkCallback chunk caller]\<rparr>)"
      "reports_on caller metadata" "m_started s3" "\<not> m_stopped s3" "m_srcIpAndCallNo s3 = caller" "m_destIpAndCallNo s3 = callee"
      "m_capturePort s3 = caller" "m_lastUpdated s3 = m_arrivalTimestamp p"
      "m_pBuffer chunk = Some (take (unat (m_payloadSize p)) (m_payload p))"
    using Voice_step [of ?r st2 ip n ?t p w] st2 link(2-4) assms(4,12-16) unfolding caller_def callee_def by auto
  define st3 where "st3 = st2\<lparr>i_objects := (i_objects st2)[?r := s3], i_store := i_store st2 @ [p],
      i_log := i_log st2 @ EventCallback (start_event w ?t) caller # metadata @ [EventCallback end_metadata caller, AudioChunkCallback chunk caller]\<rparr>"
  have st3: "?r < length (i_objects st3)" "i_objects st3 ! ?r = s3" "m_bySrcIpAndCallNo st3 = map_insert caller ?r (m_bySrcIpAndCallNo st)"
    "m_byDestIpAndCallNo st3 = map_insert callee ?r (m_byDestIpAndCallNo st)"
    using st2(1) by (simp_all add: st3_def) (simp_all add: st2_def)
  obtain objects where hangup: "handle_iax2 w (Iax2Hangup ?hangup) st3 = Inr (st3\<lparr>i_objects := objects,
      i_log := i_log st3 @ [EventCallback (iax2_stop_event (m_arrivalTimestamp p)) caller],
      m_bySrcIpAndCallNo := m_bySrcIpAndCallNo st, m_byDestIpAndCallNo := m_byDestIpAndCallNo st\<rparr>)"
    using call_hung_up [where ip = ip and ip' = ip' and n = "callno_string n" and m = "callno_string m", folded caller_def callee_def,
        OF st3(1,2) voice(3-6) st3(3,4) sorted assms(5-9), of w] voice(7,8) by auto
  have "handle_all_iax2 w (call_events i p ip (callno_string n) ip' (callno_string m)) st = handle_iax2 w (Iax2Hangup ?hangup) st3"
    using link(1) voice(1) handle_all_iax2_append [of w "[Iax2New i, Iax2Accept ?accept]" "[Iax2Voice p, Iax2Hangup ?hangup]" st]
    by (simp add: call_events_def handle_all_iax2_last flip: st2_def st3_def)
  then show ?thesis
    using voice(2,9) hangup st2(3) by (simp add: st3_def)
qed


definition example_call_new :: Iax2NewInfo where
  "example_call_new = new_Iax2NewInfo\<lparr>Iax2NewInfo.m_senderIp := 1, m_receiverIp := 2, m_callee := ''45'', m_callNo := ''5''\<rparr>"

definition example_voice :: Iax2PacketInfo where
  "example_voice = \<lparr>m_sourceIp = 1, m_destIp = 2, m_sourcecallno = 5, m_destcallno = 6, m_frame_type = IAX2_FRAME_FULL,
     m_payloadSize = 3, m_payloadType = 0, m_payload = [10, 11, 12, 13], m_timestamp = 20, m_arrivalTimestamp = 1700000001\<rparr>"

lemma example_call: "callno_string 5 = ''5''" "callno_string 6 = ''6''" "ip_and_callno 1 ''5'' = ''0.0.0.1,5''"
  "ip_and_callno 2 ''6'' = ''0.0.0.2,6''" "fst (AlphaCounter_GetNext 0) = ''AAAB''"
  by code_simp+

theorem iax2_call_recorded_witness:
  "\<exists>st' metadata chunk. handle_all_iax2 example_iax2_world (call_events example_call_new example_voice 1 ''5'' 2 ''6'') (new_Iax2Sessions 0) = Inr st' \<and>
    i_log st' = EventCallback (start_event example_iax2_world ''AAAB'') ''0.0.0.1,5'' # metadata @ [EventCallback end_metadata ''0.0.0.1,5'',
      AudioChunkCallback chunk ''0.0.0.1,5'', EventCallback (iax2_stop_event 1700000001) ''0.0.0.1,5''] \<and>
    reports_on ''0.0.0.1,5'' metadata \<and> m_pBuffer chunk = Some [10, 11, 12] \<and>
    m_bySrcIpAndCallNo st' = [] \<and> m_byDestIpAndCallNo st' = []"
proof -
  have config: "ranges_ok (m_mediaGateways (iw_config example_iax2_world))"
    by (simp add: example_iax2_world_def default_settings_simps ranges_ok_def no_ranges_def)
  have "i_log (new_Iax2Sessions 0) = []" "i_alphaCounter (new_Iax2Sessions 0) = 0" "m_bySrcIpAndCallNo (new_Iax2Sessions 0) = []"
    "m_byDestIpAndCallNo (new_Iax2Sessions 0) = []" by (simp_all add: new_Iax2Sessions_def)
  then show ?thesis
    using iax2_call_recorded [of example_iax2_world "new_Iax2Sessions 0" 1 5 2 6 example_call_new example_voice]
      iax2_reachable.start config
    by (simp add: example_call example_call_new_def example_voice_def packet_fine_def map_find_def new_Iax2NewInfo_def)
qed

end
