(* ===== verification/SkinnyParsersProps.thy ===== *)
theory SkinnyParsersProps
  imports SkinnyParsers PacketMemory
begin

text \<open>
  Memory safety of the Skinny messages: all but the CallInfo of Call Manager 5 (and the call state, which falls through to it)
  stay inside the packet; that one overruns its arrays.
\<close>

section \<open>Reading\<close>

lemma read_u32_safe [safe]: "0 \<le> p \<Longrightarrow> p + 4 \<le> int (length mem) \<Longrightarrow> memory_safe (read_u32 mem p) (\<lambda>_. True)"
  using read_u32_ok [of p mem] by auto

lemma read_be32_safe [safe]: "0 \<le> p \<Longrightarrow> p + 4 \<le> int (length mem) \<Longrightarrow> memory_safe (read_be32 mem p) (\<lambda>_. True)"
  by (simp add: read_be32_def read_be16_def)

lemma read_chars_safe [safe]: "0 \<le> p \<Longrightarrow> p + int n \<le> int (length mem) \<Longrightarrow> memory_safe (read_chars mem p n) (\<lambda>_. True)"
  by (simp add: read_chars_def mem_slice_ok)

lemma checkPartyString_safe [safe]:
  assumes "0 \<le> p" "0 \<le> n" "p + n \<le> int (length mem)"
  shows "memory_safe (checkPartyString mem p n) (\<lambda>_. True)"
proof -
  have "nat p + nat n \<le> length mem" using assms by linarith
  with checkPartyString_ok [of p n mem] assms(1) show ?thesis by auto
qed

lemma safe_if_valid: "memory_safe v (\<lambda>valid. valid \<longrightarrow> Q) \<Longrightarrow> (Q \<Longrightarrow> memory_safe m (\<lambda>_. True)) \<Longrightarrow> memory_safe (if_valid v m) (\<lambda>valid. valid \<longrightarrow> Q)"
  by (auto simp: if_valid_def memory_safe_def andThen_def split: sum.splits fault.splits)

lemma safe_when_valid:
  "memory_safe v (\<lambda>valid. valid \<longrightarrow> Q) \<Longrightarrow> (Q \<Longrightarrow> memory_safe events (\<lambda>_. True)) \<Longrightarrow>
   memory_safe (when_valid v mem events) (\<lambda>(es, mem'). length mem' = length mem)"
  by (auto simp: when_valid_def memory_safe_def andThen_def split: sum.splits fault.splits)

section \<open>Converting names\<close>

lemma convert_loop_length: "length cs \<le> length (convert_loop cs)"
  by (induction cs) (simp_all add: utf_entry_def Let_def)

text \<open>The converted name takes the whole array and nothing else.\<close>

lemma convert_at_safe [safe]:
  assumes "0 \<le> p" "p + 40 \<le> int (length mem)"
  shows "memory_safe (convert_at mem p) (\<lambda>mem'. length mem' = length mem)"
proof -
  have "mem_slice mem p 40 = Inr (take 40 (drop (nat p) mem))" using assms by (simp add: mem_slice_ok)
  moreover have "length (ConvertWin1251ToUtf8 (take 40 (drop (nat p) mem))) = 40"
    using convert_loop_length [of "take 40 (drop (nat p) mem)"] assms by (simp add: ConvertWin1251ToUtf8_def PARTY_NAME_SIZE_def)
  ultimately show ?thesis using assms by (simp add: convert_at_def PARTY_NAME_SIZE_def)
qed

section \<open>Messages\<close>

text \<open>Each validator of fixed fields implies that the message lies in the packet.\<close>

lemma fixed_validators:
  assumes "in_packet mem p packetEnd"
  shows "memory_safe (SkinnyValidateStartMediaTransmission mem p packetEnd) (\<lambda>v. v \<longrightarrow> p + 28 \<le> int (length mem))"
    "memory_safe (SkinnyValidateCcm7_1StartMediaTransmission mem p packetEnd) (\<lambda>v. v \<longrightarrow> p + 44 \<le> int (length mem))"
    "memory_safe (SkinnyValidateStopMediaTransmission mem p packetEnd) (\<lambda>v. v \<longrightarrow> p + 20 \<le> int (length mem))"
    "memory_safe (SkinnyValidateOpenReceiveChannelAck mem p packetEnd) (\<lambda>v. v \<longrightarrow> p + 28 \<le> int (length mem))"
    "memory_safe (SkinnyValidateCcm7_1SkOpenReceiveChannelAckStruct mem p packetEnd) (\<lambda>v. v \<longrightarrow> p + 40 \<le> int (length mem))"
    "memory_safe (SkinnyValidateSoftKeyEvent mem p packetEnd) (\<lambda>v. v \<longrightarrow> p + 24 \<le> int (length mem))"
    "memory_safe (SkinnyValidateSoftKeySetDescription mem p packetEnd) (\<lambda>v. v \<longrightarrow> p + 24 \<le> int (length mem))"
  unfolding SkinnyValidateStartMediaTransmission_def SkinnyValidateCcm7_1StartMediaTransmission_def
    SkinnyValidateStopMediaTransmission_def SkinnyValidateOpenReceiveChannelAck_def
    SkinnyValidateCcm7_1SkOpenReceiveChannelAckStruct_def SkinnyValidateSoftKeyEvent_def SkinnyValidateSoftKeySetDescription_def
  using assms by (auto simp: in_packet_def intro!: safe_andThen [OF read_u32_safe])

lemma text_validators:
  assumes "in_packet mem p packetEnd"
  shows "memory_safe (SkinnyValidateCallInfo mem p packetEnd) (\<lambda>v. v \<longrightarrow> p + 152 \<le> int (length mem))"
    "memory_safe (SkinnyValidateLineStat mem p packetEnd) (\<lambda>v. v \<longrightarrow> p + 80 \<le> int (length mem))"
proof -
  have p: "0 \<le> p" "packetEnd \<le> int (length mem)" using assms by (simp_all add: in_packet_def)
  then have call: "memory_safe (if p + 152 > packetEnd then Inr False
      else andThen (read_u32 mem (p + 148)) (\<lambda>callType. Inr (\<not> uint callType > 3))) (\<lambda>v. v \<longrightarrow> p + 152 \<le> int (length mem))"
    by (auto intro!: safe_andThen [OF read_u32_safe])
  show "memory_safe (SkinnyValidateCallInfo mem p packetEnd) (\<lambda>v. v \<longrightarrow> p + 152 \<le> int (length mem))"
    unfolding SkinnyValidateCallInfo_def Let_def
    by ((rule safe_if_valid)+, rule call) (rule checkPartyString_safe; use p in simp)+
  show "memory_safe (SkinnyValidateLineStat mem p packetEnd) (\<lambda>v. v \<longrightarrow> p + 80 \<le> int (length mem))"
    unfolding SkinnyValidateLineStat_def Let_def
    by (rule safe_if_valid, rule safe_if_valid) (use p in \<open>auto intro!: checkPartyString_safe\<close>)
qed

lemma HandleSkinnyMessage_safe:
  assumes "in_packet mem p packetEnd" "read_u32 mem (p + 8) = Inr messageType" "messageType \<noteq> 0x111" "messageType \<noteq> 0x14A"
  shows "memory_safe (HandleSkinnyMessage env mem p packetEnd pkt) (\<lambda>(es, mem'). length mem' = length mem)"
proof -
  have p: "0 \<le> p" using assms(1) by (simp add: in_packet_def)
  note fixed = fixed_validators [OF assms(1)] and texts = text_validators [OF assms(1)]
  let ?ok = "\<lambda>(es :: voip_event list, mem'). length mem' = length mem"
  have start: "memory_safe (handle_start_media mem p packetEnd pkt) ?ok"
    unfolding handle_start_media_def
    by (rule safe_andThen [OF fixed(1)], rule safe_if)
      (use p in \<open>auto intro!: safe_andThen [OF read_u32_safe] safe_andThen [OF read_be32_safe] safe_when_valid [OF fixed(2)]\<close>)
  have stop: "memory_safe (handle_stop_media mem p packetEnd pkt) ?ok"
    unfolding handle_stop_media_def
    by (rule safe_when_valid [OF fixed(3)]) (use p in \<open>auto intro!: safe_andThen [OF read_u32_safe]\<close>)
  have open_ack: "memory_safe (handle_open_receive mem p packetEnd pkt) ?ok"
    unfolding handle_open_receive_def
    by (rule safe_andThen [OF fixed(4)], rule safe_if)
      (use p in \<open>auto intro!: safe_andThen [OF read_u32_safe] safe_andThen [OF read_be32_safe] safe_when_valid [OF fixed(5)]\<close>)
  have keys: "memory_safe (handle_soft_key env mem p packetEnd pkt) ?ok" "memory_safe (handle_soft_key_set env mem p packetEnd pkt) ?ok"
    unfolding handle_soft_key_def handle_soft_key_set_def
    by (rule safe_when_valid [OF fixed(6)] safe_when_valid [OF fixed(7)], use p in \<open>auto intro!: safe_andThen [OF read_u32_safe]\<close>)+
  have line: "memory_safe (handle_line_stat mem p packetEnd pkt) ?ok"
    unfolding handle_line_stat_def
    by (rule safe_when_valid [OF texts(2)]) (use p in \<open>auto intro!: safe_andThen [OF read_chars_safe]\<close>)
  have info: "memory_safe (read_call_info mem' p) (\<lambda>_. True)" if "length mem' = length mem" "p + 152 \<le> int (length mem)" for mem'
    unfolding read_call_info_def
    using that p by (auto intro!: safe_andThen [OF read_u32_safe] safe_andThen [OF read_chars_safe])
  have convert: "memory_safe (if se_infoEnabled env then andThen (convert_at mem (p + 12)) (\<lambda>mem1. convert_at mem1 (p + 76)) else Inr mem)
      (\<lambda>mem'. length mem' = length mem)" if "p + 152 \<le> int (length mem)"
    by (rule safe_if, rule safe_andThen [OF convert_at_safe], use that p in simp, use that p in simp,
        rule memory_safe_mono [OF convert_at_safe]) (use that p in auto)
  have call: "memory_safe (handle_call_info env mem p packetEnd pkt) ?ok"
    unfolding handle_call_info_def
    by (rule safe_andThen [OF texts(1)], rule safe_if, simp, rule safe_andThen [OF convert], blast, rule safe_andThen [OF info]) auto
  show ?thesis
    unfolding HandleSkinnyMessage_def assms(2) andThen_Inr
    using assms(3,4) start stop call open_ack line keys by simp
qed

section \<open>CallInfo of Call Manager 5\<close>

definition example_skinny_env :: SkinnyEnv where
  "example_skinny_env = \<lparr>se_cucm7_1Mode = False, se_trackConferences = False, se_infoEnabled = False\<rparr>"

definition example_skinny_packet :: SkinnyPacket where
  "example_skinny_packet = \<lparr>ip_src = 1, ip_dest = 2, tcp_source = 2000, tcp_dest = 40000\<rparr>"

text \<open>A message of this type with the parties of \<open>parties\<close>, followed by one more byte.\<close>

definition ccm5_message :: "u8 \<Rightarrow> u8 list \<Rightarrow> u8 list" where
  "ccm5_message type parties = [0, 0, 0, 0, 0, 0, 0, 0, type, 1, 0, 0] @ replicate 32 0 @ parties @ [0]"

text \<open>The parties are copied with \<open>strcpy\<close> into arrays of 24: a calling party of 24 characters overruns its array.\<close>

lemma ccm5_overflow:
  "HandleSkinnyMessage example_skinny_env (ccm5_message 0x4A (replicate 24 50 @ [0, 51, 0])) 0 71 example_skinny_packet = Inl OutOfBounds"
  by code_simp

text \<open>A call state message is also read as such a CallInfo: with a parties field it reports a call.\<close>

lemma call_state_falls_through:
  "(case HandleSkinnyMessage example_skinny_env (ccm5_message 0x11 [50, 0, 51, 0]) 0 48 example_skinny_packet of
      Inr ([SkinnyCallState s cid q, SkinnyCallInfo i q'], mem) \<Rightarrow> callingParty i = ''2'' \<and> calledParty i = ''3''
    | _ \<Rightarrow> False)"
  by code_simp

text \<open>The last token is looked for one byte past the end of the packet.\<close>

lemma ccm5_overread:
  "HandleSkinnyMessage example_skinny_env (butlast (ccm5_message 0x4A [50, 0, 51, 0, 52])) 0 49 example_skinny_packet = Inl OutOfBounds"
  by code_simp

end
