(* ===== verification/TapeConfig.thy ===== *)
theory TapeConfig
  imports StringUtils CaptureEnums StdMap
begin

text \<open>
  What a tape reads of the configuration (\<open>orkbasecxx/Config.{h,cpp}\<close>), the party filter (\<open>orkbasecxx/PartyFilter.cpp\<close>),
  the replacement of characters in parties, and the enumerations of \<open>orkbasecxx/AudioTape.{h,cpp}\<close>.
\<close>

section \<open>Configuration\<close>

record TapeConfig =
  m_audioOutputPath :: string
  m_audioOutputPathMcf :: string
  m_captureFileSizeLimitKb :: int
  m_storageAudioFormat :: FileFormatEnum
  m_audioKeepDirectionDefault :: string
  m_audioKeepDirectionIncomingDefault :: string
  m_audioKeepDirectionOutgoingDefault :: string
  m_remotePartyMaxDigits :: int
  m_partyFilter :: "string list"
  m_partyFilterMap :: "(char, char) std_map"
  m_dtmfReportingDetailed :: bool
  m_dynamicTags :: "string list"
  m_tagsListUseInitialValue :: "string list"
  m_directionForceOutgoingForRemotePartyPrefix :: string
  m_directionForceOutgoingForRemotePartyMinLength :: int
  m_tapeFileNaming :: "string list"
  m_tapePathNaming :: "string list"
  m_hostnameReportFqdn :: bool

text \<open>The start of the constructors: which direction a new tape keeps.\<close>

definition default_keep_direction :: "TapeConfig \<Rightarrow> AudioKeepDirectionEnum" where
  "default_keep_direction cfg =
     (if \<not> AudioKeepDirectionIsDefault (m_audioKeepDirectionIncomingDefault cfg)
      then AudioKeepDirectionToEnum (m_audioKeepDirectionIncomingDefault cfg)
      else if \<not> AudioKeepDirectionIsDefault (m_audioKeepDirectionOutgoingDefault cfg)
      then AudioKeepDirectionToEnum (m_audioKeepDirectionOutgoingDefault cfg)
      else AudioKeepDirectionToEnum (m_audioKeepDirectionDefault cfg))"

text \<open>
  The map from filtered characters to their replacements, as \<open>Config::Define\<close> builds it from two strings; \<open>?\<close> removes a
  character.
\<close>

definition party_filter_map :: "string \<Rightarrow> string \<Rightarrow> (char, char) std_map" where
  "party_filter_map chars with' =
     fold (\<lambda>i m. map_insert (chars ! i) (if i < length with' then with' ! i else CHR ''?'') m) [0..<length chars] []"

section \<open>Party filter\<close>

definition PartyFilterActive :: "TapeConfig \<Rightarrow> bool" where
  "PartyFilterActive cfg \<longleftrightarrow> m_partyFilter cfg \<noteq> []"

text \<open>
  One pattern: a party or a range of numbers. The pattern is cut to the 1023 characters of the buffer; what stands behind the
  first dash is the upper end.
\<close>

definition party_pattern_matches :: "int \<Rightarrow> string \<Rightarrow> string \<Rightarrow> bool" where
  "party_pattern_matches partyVal party pattern =
     (let buf = take 1023 (c_str pattern);
          lval = takeWhile (\<lambda>c. c \<noteq> CHR ''-'') buf;
          rval = tl (dropWhile (\<lambda>c. c \<noteq> CHR ''-'') buf)
      in if lval = [] then False
         else if CHR ''-'' \<in> set buf \<and> rval \<noteq> []
         then fst (strtol lval) \<le> partyVal \<and> partyVal \<le> fst (strtol rval)
         else lval = c_str party)"

definition PartyFilterMatches :: "TapeConfig \<Rightarrow> string \<Rightarrow> bool" where
  "PartyFilterMatches cfg party =
     (let partyVal = (case StringToInt party of Inr v \<Rightarrow> v | Inl _ \<Rightarrow> 0)
      in list_ex (party_pattern_matches partyVal party) (m_partyFilter cfg))"

section \<open>Replaced characters\<close>

text \<open>The loop over the occurrences of one character; \<open>None\<close> when it never ends.\<close>

partial_function (option) replace_char :: "char \<Rightarrow> char \<Rightarrow> string \<Rightarrow> string option" where
  "replace_char c d s =
     (case string_find s [c] of
        None \<Rightarrow> Some s
      | Some pos \<Rightarrow> if d \<noteq> CHR ''?'' then replace_char c d (s[pos := d]) else replace_char c d (take pos s @ drop (pos + 1) s))"

fun replace_party_chars :: "(char \<times> char) list \<Rightarrow> string \<Rightarrow> string option" where
  "replace_party_chars [] s = Some s"
| "replace_party_chars ((c, d) # m) s = Option.bind (replace_char c d s) (replace_party_chars m)"

section \<open>Enumerations\<close>

datatype StateEnum = StateUnknown | StateCreated | StateActive | StateStopped | StateError | StateInvalid

datatype MediaTypeEnum = UnKnownType | AudioType | VideoType | InstantMessageType

definition MediaTypeToEnum :: "string \<Rightarrow> MediaTypeEnum" where
  "MediaTypeToEnum = no_case_lookup [(''audio'', AudioType), (''video'', VideoType), (''im'', InstantMessageType)] UnKnownType"

definition MediaTypeToString :: "MediaTypeEnum \<Rightarrow> string" where
  "MediaTypeToString = switch [(AudioType, ''audio''), (VideoType, ''video''), (InstantMessageType, ''im'')] ''unknown''"

interpretation media_type: named_enum MediaTypeToString MediaTypeToEnum "[AudioType, VideoType, InstantMessageType]"
  by (rule table_named_enum [OF _ MediaTypeToEnum_def]) code_simp+

datatype TapeAttributeEnum =
    TaUnknown | TaNativeCallId | TaTrackingId | TaDirection | TaShortDirection | TaRemoteParty | TaLocalParty
  | TaLocalEntryPoint | TaLocalIp | TaRemoteIp | TaHostname | TaYear | TaDay | TaMonth | TaHour | TaMin | TaSec

definition tape_attributes :: "(string \<times> TapeAttributeEnum) list" where
  "tape_attributes =
     [(''[nativecallid]'', TaNativeCallId), (''[trackingid]'', TaTrackingId), (''[direction]'', TaDirection),
      (''[shortdirection]'', TaShortDirection), (''[remoteparty]'', TaRemoteParty), (''[localparty]'', TaLocalParty),
      (''[localentrypoint]'', TaLocalEntryPoint), (''[localip]'', TaLocalIp), (''[remoteip]'', TaRemoteIp),
      (''[hostname]'', TaHostname), (''[year]'', TaYear), (''[day]'', TaDay), (''[month]'', TaMonth),
      (''[hour]'', TaHour), (''[min]'', TaMin), (''[sec]'', TaSec)]"

definition TapeAttributeToEnum :: "string \<Rightarrow> TapeAttributeEnum" where
  "TapeAttributeToEnum = no_case_lookup tape_attributes TaUnknown"

definition TapeAttributeToString :: "TapeAttributeEnum \<Rightarrow> string" where
  "TapeAttributeToString = switch (map prod.swap tape_attributes) ''[UnknownAttribute]''"

interpretation tape_attribute: named_enum TapeAttributeToString TapeAttributeToEnum "map snd tape_attributes"
  by (rule table_named_enum [OF _ TapeAttributeToEnum_def refl]) code_simp

end
