(* ===== verification/MediaChunkFile.thy ===== *)
theory MediaChunkFile
  imports AudioChunk
begin

text \<open>
  Capture files of encoded audio: \<open>orkbasecxx/audiofile/MediaChunkFile.{h,cpp}\<close> over the base class of
  \<open>AudioFile.{h,cpp}\<close>. A file is a sequence of chunks, each its \<open>AudioChunkDetails\<close> as bytes followed by its buffer. The
  file system is a parameter: whether a file opens, what is on disk, and what a write to the stream stores. A method
  that throws returns its state and the exception, because the file is used further after it.
\<close>

section \<open>The file system\<close>

text \<open>
  \<open>fw_store old new\<close> is what a stream holds after \<open>new\<close> was written behind \<open>old\<close>, and whether the stream is still good.
  \<open>fw_padding\<close> are the two bytes that pad \<open>AudioChunkDetails\<close> to its size.
\<close>

record FileWorld =
  fw_opens :: "string \<Rightarrow> bool"
  fw_contents :: "string \<Rightarrow> u8 list option"
  fw_store :: "u8 list \<Rightarrow> u8 list \<Rightarrow> u8 list \<times> bool"
  fw_padding :: "u8 \<times> u8"
  m_captureFileBatchSizeKByte :: int

text \<open>\<open>std::fstream\<close>: the data from the start of the file, the position of the reader and the state bits.\<close>

record fstream =
  st_open :: bool
  st_eof :: bool
  st_fail :: bool
  st_data :: "u8 list"
  st_pos :: nat

definition new_fstream :: fstream where
  "new_fstream = \<lparr>st_open = False, st_eof = False, st_fail = False, st_data = [], st_pos = 0\<rparr>"

definition stream_write :: "FileWorld \<Rightarrow> u8 list \<Rightarrow> fstream \<Rightarrow> fstream" where
  "stream_write w bytes st =
     (if st_eof st \<or> st_fail st then st\<lparr>st_fail := True\<rparr>
      else case fw_store w (st_data st) bytes of (data, ok) \<Rightarrow> st\<lparr>st_data := data, st_fail := \<not> ok\<rparr>)"

definition stream_read :: "nat \<Rightarrow> fstream \<Rightarrow> u8 list \<times> fstream" where
  "stream_read n st =
     (if st_eof st \<or> st_fail st then ([], st\<lparr>st_fail := True\<rparr>)
      else let bytes = take n (drop (st_pos st) (st_data st)); short = length bytes < n
           in (bytes, st\<lparr>st_pos := st_pos st + length bytes, st_eof := short, st_fail := short\<rparr>))"

definition stream_open :: "bool \<Rightarrow> u8 list \<Rightarrow> fstream \<Rightarrow> fstream" where
  "stream_open opens data st =
     (if st_open st \<or> \<not> opens then st\<lparr>st_fail := True\<rparr>
      else \<lparr>st_open = True, st_eof = False, st_fail = False, st_data = data, st_pos = 0\<rparr>)"

section \<open>Details as bytes\<close>

fun AudioEncoding_value :: "AudioEncodingEnum \<Rightarrow> u32" where
  "AudioEncoding_value UnknownAudio = 0"
| "AudioEncoding_value PcmAudio = 1"
| "AudioEncoding_value AlawAudio = 2"
| "AudioEncoding_value UlawAudio = 3"
| "AudioEncoding_value GsmAudio = 4"
| "AudioEncoding_value IlbcAudio = 5"
| "AudioEncoding_value G722Audio = 6"
| "AudioEncoding_value G721Audio = 7"
| "AudioEncoding_value SilkAudio = 8"
| "AudioEncoding_value OpusAudio = 9"
| "AudioEncoding_value AmrNb = 10"
| "AudioEncoding_value AmrWb = 11"
| "AudioEncoding_value G729Audio = 12"
| "AudioEncoding_value InvalidAudio = 13"

text \<open>A number outside the enumeration is treated like \<open>InvalidAudio\<close> by every \<open>switch\<close> over encodings.\<close>

definition AudioEncoding_of :: "u32 \<Rightarrow> AudioEncodingEnum" where
  "AudioEncoding_of v =
     (case find (\<lambda>e. AudioEncoding_value e = v)
        [UnknownAudio, PcmAudio, AlawAudio, UlawAudio, GsmAudio, IlbcAudio, G722Audio, G721Audio, SilkAudio, OpusAudio,
         AmrNb, AmrWb, G729Audio] of Some e \<Rightarrow> e | None \<Rightarrow> InvalidAudio)"

definition u32_bytes :: "u32 \<Rightarrow> u8 list" where
  "u32_bytes v = [ucast v, ucast (drop_bit 8 v), ucast (drop_bit 16 v), ucast (drop_bit 24 v)]"

definition u32_at :: "u8 list \<Rightarrow> nat \<Rightarrow> u32" where
  "u32_at bs i = ucast (bs ! i) OR push_bit 8 (ucast (bs ! (i + 1))) OR push_bit 16 (ucast (bs ! (i + 2)))
                 OR push_bit 24 (ucast (bs ! (i + 3)))"

definition details_bytes :: "u8 \<times> u8 \<Rightarrow> AudioChunkDetails \<Rightarrow> u8 list" where
  "details_bytes padding d =
     u32_bytes (m_marker d) @ u32_bytes (AudioEncoding_value (m_encoding d)) @ u32_bytes (m_numBytes d) @
     u32_bytes (m_timestamp d) @ u32_bytes (m_arrivalTimestamp d) @ u32_bytes (m_sequenceNumber d) @
     u32_bytes (AudioChunkDetails.m_sampleRate d) @ [m_rtpPayloadType d, m_channel d, fst padding, snd padding]"

definition details_of_bytes :: "u8 list \<Rightarrow> AudioChunkDetails" where
  "details_of_bytes bs =
     \<lparr>m_marker = u32_at bs 0, m_encoding = AudioEncoding_of (u32_at bs 4), m_numBytes = u32_at bs 8,
      m_timestamp = u32_at bs 12, m_arrivalTimestamp = u32_at bs 16, m_sequenceNumber = u32_at bs 20,
      m_sampleRate = u32_at bs 24, m_rtpPayloadType = bs ! 28, m_channel = bs ! 29\<rparr>"

definition sizeof_AudioChunkDetails :: nat where
  "sizeof_AudioChunkDetails = 32"

section \<open>The file\<close>

datatype fileOpenModeEnum = READ | WRITE

record AudioFile =
  m_filename :: string
  m_mode :: fileOpenModeEnum
  m_numChunksWritten :: int
  m_sampleRate :: int
  m_numOutputChannels :: int

record MediaChunkFile = AudioFile +
  m_stream :: fstream
  m_chunkQueueDataSize :: u64
  m_chunkQueue :: "AudioChunk list"

definition new_MediaChunkFile :: MediaChunkFile where
  "new_MediaChunkFile =
     \<lparr>m_filename = [], m_mode = READ, m_numChunksWritten = 0, m_sampleRate = 0, m_numOutputChannels = 1,
      m_stream = new_fstream, m_chunkQueueDataSize = 0, m_chunkQueue = []\<rparr>"

definition MediaChunkFile_GetExtension :: string where
  "MediaChunkFile_GetExtension = ''.mcf''"

definition SetFilename :: "string \<Rightarrow> 'a AudioFile_scheme \<Rightarrow> 'a AudioFile_scheme" where
  "SetFilename filename f = f\<lparr>m_filename := filename\<rparr>"

text \<open>Writing a chunk from the queue reads \<open>GetNumBytes\<close> bytes of its buffer; a negative number is a fault.\<close>

definition write_one_chunk :: "FileWorld \<Rightarrow> AudioChunk \<Rightarrow> u8 list \<Rightarrow> fstream \<Rightarrow> fstream result" where
  "write_one_chunk w c buffer st =
     (let st1 = stream_write w (details_bytes (fw_padding w) (m_details c)) st
      in if st_fail st1 then Inr st1
         else if GetNumBytes c < 0 then Inl OutOfBounds
         else andThen (mem_slice buffer 0 (nat (GetNumBytes c))) (\<lambda>bytes. Inr (stream_write w bytes st1)))"

fun flush_loop :: "FileWorld \<Rightarrow> AudioChunk list \<Rightarrow> fstream \<Rightarrow> (AudioChunk list \<times> fstream \<times> bool) result" where
  "flush_loop w [] st = Inr ([], st, False)"
| "flush_loop w (c # cs) st =
     (case m_pBuffer c of
        None \<Rightarrow> flush_loop w cs st
      | Some buffer \<Rightarrow> andThen (write_one_chunk w c buffer st) (\<lambda>st1.
          if st_fail st1 then Inr (cs, st1, True) else flush_loop w cs st1))"

definition FlushToDisk :: "FileWorld \<Rightarrow> MediaChunkFile \<Rightarrow> (MediaChunkFile \<times> bool) result" where
  "FlushToDisk w f = andThen (flush_loop w (m_chunkQueue f) (m_stream f)) (\<lambda>(queue, st, writeError).
     Inr (f\<lparr>m_chunkQueue := queue, m_stream := st, m_chunkQueueDataSize := 0\<rparr>, writeError))"

definition MediaChunkFile_Close :: "FileWorld \<Rightarrow> MediaChunkFile \<Rightarrow> MediaChunkFile result" where
  "MediaChunkFile_Close w f =
     (if st_open (m_stream f)
      then andThen (FlushToDisk w f) (\<lambda>(f1, _). Inr (f1\<lparr>m_stream := (m_stream f1)\<lparr>st_open := False\<rparr>\<rparr>))
      else Inr f)"

definition MediaChunkFile_WriteChunk :: "FileWorld \<Rightarrow> AudioChunk \<Rightarrow> MediaChunkFile \<Rightarrow> (MediaChunkFile \<times> string option) result" where
  "MediaChunkFile_WriteChunk w c f =
     (if m_numBytes (m_details c) = 0 then Inr (f, None)
      else let f1 = f\<lparr>m_chunkQueueDataSize := m_chunkQueueDataSize f + word_of_int (GetNumBytes c),
                      m_chunkQueue := m_chunkQueue f @ [c]\<rparr>
           in if m_chunkQueueDataSize f1 > ucast (word_of_int (m_captureFileBatchSizeKByte w * 1024) :: u32)
              then if st_open (m_stream f1)
                   then andThen (FlushToDisk w f1) (\<lambda>(f2, writeError).
                        Inr (f2, if writeError then Some (''Could not write to file:'' @ m_filename f2) else None))
                   else Inr (f1, Some (''Write attempt on unopened file:'' @ m_filename f1))
              else Inr (f1, None))"

definition MAX_CHUNK_SIZE :: nat where
  "MAX_CHUNK_SIZE = 100000"

text \<open>
  \<open>ReadChunkMono\<close>: the chunk, the number returned (0 at the end of the file, otherwise the size of the details), and the
  file behind the chunk. The buffer \<open>temp\<close> has 200000 bytes; what an earlier chunk left in it is never used.
\<close>

definition MediaChunkFile_ReadChunkMono :: "MediaChunkFile \<Rightarrow> (AudioChunk \<times> nat \<times> MediaChunkFile) result" where
  "MediaChunkFile_ReadChunkMono f =
     (if \<not> st_open (m_stream f) then Inl (Thrown ''Read attempt on unopened file:'')
      else case stream_read sizeof_AudioChunkDetails (m_stream f) of (header, st) \<Rightarrow>
        let f1 = f\<lparr>m_stream := st\<rparr>
        in if st_eof st then Inr (new_AudioChunk, 0, f1)
           else if st_fail st then Inr (new_AudioChunk, sizeof_AudioChunkDetails, f1)
           else let details = details_of_bytes header
                in if m_marker details \<noteq> MEDIA_CHUNK_MARKER then Inl (Thrown ''Invalid marker in file:'')
                   else if unat (m_numBytes details) \<ge> MAX_CHUNK_SIZE then Inl (Thrown ''Chunk too big in file:'')
                   else case stream_read (unat (m_numBytes details)) st of (buffer, st2) \<Rightarrow>
                     if st_fail st2 then Inl (Thrown ''Incomplete chunk in file:'')
                     else andThen (SetBuffer (Some buffer) details new_AudioChunk) (\<lambda>c.
                          Inr (c, sizeof_AudioChunkDetails, f\<lparr>m_stream := st2\<rparr>)))"

text \<open>\<open>CStdString::Equals\<close>, which compares the file names, ignores case.\<close>

lemma CompareNoCase_eq_Nil [simp]: "CompareNoCase_eq [] s \<longleftrightarrow> s = []" "CompareNoCase_eq s [] \<longleftrightarrow> s = []"
  by (auto simp: CompareNoCase_eq_def)

definition MediaChunkFile_Open ::
  "FileWorld \<Rightarrow> string \<Rightarrow> fileOpenModeEnum \<Rightarrow> int \<Rightarrow> MediaChunkFile \<Rightarrow> MediaChunkFile \<times> string option" where
  "MediaChunkFile_Open w filename mode sampleRate f =
     (let f1 = (if m_sampleRate f = 0 then f\<lparr>m_sampleRate := sampleRate\<rparr> else f);
          f2 = (if \<not> CompareNoCase_eq (m_filename f1) filename then f1\<lparr>m_filename := filename @ MediaChunkFile_GetExtension\<rparr> else f1);
          st = (case mode of
                  READ \<Rightarrow> (case fw_contents w (m_filename f2) of
                            Some data \<Rightarrow> stream_open True data (m_stream f2)
                          | None \<Rightarrow> stream_open False [] (m_stream f2))
                | WRITE \<Rightarrow> stream_open (fw_opens w (m_filename f2)) [] (m_stream f2));
          f3 = f2\<lparr>m_mode := mode, m_stream := st\<rparr>
      in (f3, if st_open st then None else Some (''Could not open file: '' @ m_filename f3)))"

end
