(* ===== verification/AudioFiles.thy ===== *)
theory AudioFiles
  imports MediaChunkFile
begin

text \<open>
  Sound files over libsndfile, \<open>orkbasecxx/audiofile/LibSndFileFile.{h,cpp}\<close>, and the choice between the two file classes
  that a tape makes. The library is a parameter: which formats and files it accepts and what a write stores. A sound file
  holds the items handed to it, raw bytes or 16-bit samples.
\<close>

section \<open>The library\<close>

datatype sf_item = RawBytes "u8 list" | Samples "u16 list"

record sndfile =
  sf_items :: "sf_item list"
  sf_input :: "u16 list"

text \<open>\<open>sf_store old new\<close>: the items of the file after a write, and the count that the call returns.\<close>

record SndWorld =
  sf_format_check :: "int \<Rightarrow> int \<Rightarrow> int \<Rightarrow> bool"
  sf_opens :: "string \<Rightarrow> bool"
  sf_samples :: "string \<Rightarrow> u16 list"
  sf_store :: "sf_item list \<Rightarrow> sf_item \<Rightarrow> sf_item list \<times> int"
  m_tapeNumChannels :: int

section \<open>The file\<close>

record LibSndFileFile = AudioFile +
  m_format :: int
  m_channels :: int
  m_samplerate :: int
  m_pFile :: "sndfile option"

definition SF_FORMAT_WAV_PCM_16 :: int where
  "SF_FORMAT_WAV_PCM_16 = 0x10002"

definition new_LibSndFileFile :: "int \<Rightarrow> LibSndFileFile" where
  "new_LibSndFileFile fileFormat =
     \<lparr>m_filename = [], m_mode = READ, m_numChunksWritten = 0, m_sampleRate = 0, m_numOutputChannels = 1,
      m_format = fileFormat, m_channels = 0, m_samplerate = 0, m_pFile = None\<rparr>"

definition LibSndFileFile_GetExtension :: string where
  "LibSndFileFile_GetExtension = ''.wav''"

definition LibSndFileFile_SetNumOutputChannels :: "int \<Rightarrow> LibSndFileFile \<Rightarrow> LibSndFileFile" where
  "LibSndFileFile_SetNumOutputChannels numChan f = f\<lparr>m_numOutputChannels := numChan\<rparr>"

definition LibSndFileFile_Open ::
  "SndWorld \<Rightarrow> string \<Rightarrow> fileOpenModeEnum \<Rightarrow> int \<Rightarrow> LibSndFileFile \<Rightarrow> LibSndFileFile \<times> string option" where
  "LibSndFileFile_Open w filename mode sampleRate f =
     (let f1 = (if \<not> CompareNoCase_eq (m_filename f) filename then f\<lparr>m_filename := filename @ ''.wav''\<rparr> else f);
          f2 = f1\<lparr>m_mode := mode,
                  m_channels := (if m_numOutputChannels f1 = 2 \<and> m_tapeNumChannels w > 1 then m_tapeNumChannels w else 1)\<rparr>;
          f3 = (if m_sampleRate f2 = 0 then f2\<lparr>m_sampleRate := sampleRate, m_samplerate := sampleRate\<rparr> else f2)
      in if mode = WRITE \<and> \<not> sf_format_check w (m_format f3) (m_channels f3) (m_samplerate f3)
         then (f3, Some ''libsndfile: Selected output format not supported'')
         else if sf_opens w (m_filename f3)
         then (f3\<lparr>m_pFile := Some \<lparr>sf_items = [], sf_input = (if mode = READ then sf_samples w (m_filename f3) else [])\<rparr>\<rparr>, None)
         else (f3\<lparr>m_pFile := None\<rparr>, Some (''sf_open failed, audio file could not be created:'' @ m_filename f3)))"

fun collect :: "('a \<Rightarrow> 'b result) \<Rightarrow> 'a list \<Rightarrow> 'b list result" where
  "collect f [] = Inr []"
| "collect f (x # xs) = andThen (f x) (\<lambda>y. andThen (collect f xs) (\<lambda>ys. Inr (y # ys)))"

text \<open>The channels of a chunk, sample by sample: \<open>view\<close> reads a buffer as bytes or as 16-bit samples.\<close>

definition channel_sample :: "(u8 list \<Rightarrow> 'a list) \<Rightarrow> AudioChunk \<Rightarrow> int \<Rightarrow> int \<Rightarrow> 'a result" where
  "channel_sample view c x i =
     (case m_pChannelAudio c of
        None \<Rightarrow> Inl NullDereference
      | Some chans \<Rightarrow> andThen (peek chans i) (\<lambda>chan.
          case chan of None \<Rightarrow> Inl NullDereference | Some buffer \<Rightarrow> peek (view buffer) x))"

definition mux_audio :: "(u8 list \<Rightarrow> 'a list) \<Rightarrow> AudioChunk \<Rightarrow> int \<Rightarrow> 'a list result" where
  "mux_audio view c samples =
     collect (\<lambda>(x, i). channel_sample view c x i)
       (concat (map (\<lambda>x. map (Pair x) [0..m_numChannels c - 1]) [0..samples - 1]))"

definition mono_audio :: "(u8 list \<Rightarrow> 'a list) \<Rightarrow> AudioChunk \<Rightarrow> int \<Rightarrow> 'a list result" where
  "mono_audio view c samples =
     (case m_pBuffer c of
        None \<Rightarrow> Inl NullDereference
      | Some buffer \<Rightarrow> if samples < 0 then Inl OutOfBounds else mem_slice (view buffer) 0 (nat samples))"

text \<open>The audio that \<open>WriteChunk\<close> hands to the library; \<open>None\<close> for an encoding that it ignores.\<close>

definition sound_of :: "int \<Rightarrow> AudioChunk \<Rightarrow> sf_item option result" where
  "sound_of outputChannels c =
     (let stereo = (m_numChannels c > 0 \<and> outputChannels = 2)
      in if m_encoding (m_details c) \<in> {AlawAudio, UlawAudio}
         then andThen (GetNumSamples c) (\<lambda>n.
              if stereo \<and> n * m_numChannels c < 0 then Inl (Thrown ''sf_write_raw failed for stereo write: could not allocate bytes'')
              else andThen (if stereo then mux_audio id c n else mono_audio id c n) (\<lambda>bytes. Inr (Some (RawBytes bytes))))
         else if m_encoding (m_details c) = PcmAudio
         then andThen (GetNumSamples c) (\<lambda>n.
              andThen (if stereo then mux_audio shorts_of_bytes c n else mono_audio shorts_of_bytes c n) (\<lambda>ws.
              Inr (Some (Samples ws))))
         else Inr None)"

fun sf_call :: "sf_item \<Rightarrow> string" where
  "sf_call (RawBytes bytes) = ''sf_write_raw''"
| "sf_call (Samples ws) = ''sf_write_short''"

fun sf_count :: "sf_item \<Rightarrow> int" where
  "sf_count (RawBytes bytes) = int (length bytes)"
| "sf_count (Samples ws) = int (length ws)"

definition LibSndFileFile_WriteChunk :: "SndWorld \<Rightarrow> AudioChunk \<Rightarrow> LibSndFileFile \<Rightarrow> (LibSndFileFile \<times> string option) result" where
  "LibSndFileFile_WriteChunk w c f =
     (if m_numBytes (m_details c) = 0 then Inr (f, None)
      else case m_pFile f of
        None \<Rightarrow> Inr (f, Some (''Write attempt on unopened file:'' @ m_filename f))
      | Some snd_file \<Rightarrow>
          (case sound_of (m_numOutputChannels f) c of
             Inl (Thrown e) \<Rightarrow> Inr (f, Some e)
           | Inl e \<Rightarrow> Inl e
           | Inr None \<Rightarrow> Inr (f\<lparr>m_numChunksWritten := m_numChunksWritten f + 1\<rparr>, None)
           | Inr (Some item) \<Rightarrow>
               case sf_store w (sf_items snd_file) item of (items, count) \<Rightarrow>
                 let f1 = f\<lparr>m_pFile := Some (snd_file\<lparr>sf_items := items\<rparr>)\<rparr>
                 in if count \<noteq> sf_count item
                    then Inr (f1, Some (sf_call item @ '' failed, audio file '' @ m_filename f1 @ '' could not be written after chunks written''))
                    else Inr (f1\<lparr>m_numChunksWritten := m_numChunksWritten f1 + 1\<rparr>, None)))"

definition LibSndFileFile_ReadChunkMono :: "LibSndFileFile \<Rightarrow> (AudioChunk \<times> nat \<times> LibSndFileFile) result" where
  "LibSndFileFile_ReadChunkMono f =
     (case m_pFile f of
        None \<Rightarrow> Inl (Thrown ''Read attempt on unopened file:'')
      | Some snd_file \<Rightarrow>
          let temp = take 8000 (sf_input snd_file);
              details = details_Clear\<lparr>m_encoding := PcmAudio, m_numBytes := word_of_nat (2 * length temp)\<rparr>
          in andThen (SetBuffer (Some (bytes_of_shorts temp)) details new_AudioChunk) (\<lambda>c.
             Inr (c, length temp, f\<lparr>m_pFile := Some (snd_file\<lparr>sf_input := drop 8000 (sf_input snd_file)\<rparr>)\<rparr>)))"

definition LibSndFileFile_Close :: "LibSndFileFile \<Rightarrow> LibSndFileFile" where
  "LibSndFileFile_Close f = f\<lparr>m_pFile := None\<rparr>"

section \<open>The base class\<close>

text \<open>The virtual methods of \<open>AudioFile\<close>, dispatched on the class of the object.\<close>

datatype TapeFile = ChunkFile MediaChunkFile | SndFile LibSndFileFile

record AudioWorld =
  aw_files :: FileWorld
  aw_sounds :: SndWorld

fun AudioFile_GetExtension :: "TapeFile \<Rightarrow> string" where
  "AudioFile_GetExtension (ChunkFile f) = MediaChunkFile_GetExtension"
| "AudioFile_GetExtension (SndFile f) = LibSndFileFile_GetExtension"

fun AudioFile_Open :: "'w AudioWorld_scheme \<Rightarrow> string \<Rightarrow> fileOpenModeEnum \<Rightarrow> int \<Rightarrow> TapeFile \<Rightarrow> TapeFile \<times> string option" where
  "AudioFile_Open w filename mode rate (ChunkFile f) = apfst ChunkFile (MediaChunkFile_Open (aw_files w) filename mode rate f)"
| "AudioFile_Open w filename mode rate (SndFile f) = apfst SndFile (LibSndFileFile_Open (aw_sounds w) filename mode rate f)"

text \<open>\<open>Open\<close> without a name, which \<open>BatchProcessing\<close> calls, uses the name of the object.\<close>

definition AudioFile_Open_again :: "'w AudioWorld_scheme \<Rightarrow> fileOpenModeEnum \<Rightarrow> int \<Rightarrow> TapeFile \<Rightarrow> TapeFile \<times> string option" where
  "AudioFile_Open_again w mode rate f =
     AudioFile_Open w (case f of ChunkFile g \<Rightarrow> m_filename g | SndFile g \<Rightarrow> m_filename g) mode rate f"

fun AudioFile_WriteChunk :: "'w AudioWorld_scheme \<Rightarrow> AudioChunk \<Rightarrow> TapeFile \<Rightarrow> (TapeFile \<times> string option) result" where
  "AudioFile_WriteChunk w c (ChunkFile f) = andThen (MediaChunkFile_WriteChunk (aw_files w) c f) (\<lambda>(f', e). Inr (ChunkFile f', e))"
| "AudioFile_WriteChunk w c (SndFile f) = andThen (LibSndFileFile_WriteChunk (aw_sounds w) c f) (\<lambda>(f', e). Inr (SndFile f', e))"

fun AudioFile_Close :: "'w AudioWorld_scheme \<Rightarrow> TapeFile \<Rightarrow> TapeFile result" where
  "AudioFile_Close w (ChunkFile f) = andThen (MediaChunkFile_Close (aw_files w) f) (\<lambda>f'. Inr (ChunkFile f'))"
| "AudioFile_Close w (SndFile f) = Inr (SndFile (LibSndFileFile_Close f))"

fun AudioFile_ReadChunkMono :: "TapeFile \<Rightarrow> (AudioChunk \<times> nat \<times> TapeFile) result" where
  "AudioFile_ReadChunkMono (ChunkFile f) = andThen (MediaChunkFile_ReadChunkMono f) (\<lambda>(c, n, f'). Inr (c, n, ChunkFile f'))"
| "AudioFile_ReadChunkMono (SndFile f) = andThen (LibSndFileFile_ReadChunkMono f) (\<lambda>(c, n, f'). Inr (c, n, SndFile f'))"

end
