(* ===== verification/Serializers.thy ===== *)
theory Serializers
  imports UrlText StdMap
begin

text \<open>
  Messages as text: \<open>orkbasecxx/serializers/Serializer.{h,cpp}\<close>, \<open>SingleLineSerializer.{h,cpp}\<close> and
  \<open>UrlSerializer.{h,cpp}\<close>. What \<open>Define\<close> of a message does with a serializer is a list of fields: writing adds the
  text of each field, reading gets the value of each from the parsed pairs. Values are the message's own before reading.
\<close>

section \<open>Escapes\<close>

fun EscapeCsv :: "string \<Rightarrow> string" where
  "EscapeCsv [] = []"
| "EscapeCsv (c # cs) =
     (if c = CHR '','' then [CHR 0x25, CHR ''c''] else if c = CHR 0x25 then [CHR 0x25, CHR ''p''] else [c]) @ EscapeCsv cs"

text \<open>\<open>in[in.length()]\<close> is the terminating NUL, so an escape character at the end is dropped.\<close>

fun UnEscapeCsv :: "string \<Rightarrow> string" where
  "UnEscapeCsv [] = []"
| "UnEscapeCsv (c # cs) =
     (if c = CHR 0x25 then
        (case cs of
           [] \<Rightarrow> []
         | d # ds \<Rightarrow> (if d = CHR ''c'' then [CHR '',''] else if d = CHR ''p'' then [CHR 0x25] else []) @ UnEscapeCsv ds)
      else c # UnEscapeCsv cs)"

fun EscapePair :: "string \<Rightarrow> string" where
  "EscapePair [] = []"
| "EscapePair (c # cs) =
     (if c = CHR '':'' then [CHR 0x25, CHR ''k''] else if c = CHR 0x25 then [CHR 0x25, CHR ''p''] else [c]) @ EscapePair cs"

fun UnEscapePair :: "string \<Rightarrow> string" where
  "UnEscapePair [] = []"
| "UnEscapePair (c # cs) =
     (if c = CHR 0x25 then
        (case cs of
           [] \<Rightarrow> []
         | d # ds \<Rightarrow> (if d = CHR ''k'' then [CHR '':''] else if d = CHR ''p'' then [CHR 0x25] else []) @ UnEscapePair ds)
      else c # UnEscapePair cs)"

fun EscapeSingleLine :: "string \<Rightarrow> string" where
  "EscapeSingleLine [] = []"
| "EscapeSingleLine (c # cs) =
     (if c = CHR '' '' then [CHR 0x25, CHR ''s''] else if c = CHR 0x25 then [CHR 0x25, CHR ''p'']
      else if c = CHR ''='' then [CHR 0x25, CHR ''e''] else [c]) @ EscapeSingleLine cs"

fun UnEscapeSingleLine :: "string \<Rightarrow> string" where
  "UnEscapeSingleLine [] = []"
| "UnEscapeSingleLine (c # cs) =
     (if c = CHR 0x25 then
        (case cs of
           [] \<Rightarrow> []
         | d # ds \<Rightarrow> (if d = CHR ''s'' then [CHR '' ''] else if d = CHR ''p'' then [CHR 0x25]
             else if d = CHR ''e'' then [CHR ''=''] else []) @ UnEscapeSingleLine ds)
      else c # UnEscapeSingleLine cs)"

text \<open>\<open>strchr\<close> also finds the terminating NUL, so a NUL is not escaped.\<close>

definition url_ok_chars :: string where
  "url_ok_chars = ''-.0123456789@ABCDEFGHIJKLMNOPQRSTUVWXYZ_abcdefghijklmnopqrstuvwxyz''"

definition hex_digits :: string where
  "hex_digits = ''0123456789ABCDEF''"

fun EscapeUrl :: "string \<Rightarrow> string" where
  "EscapeUrl [] = []"
| "EscapeUrl (c # cs) =
     (if c = CHR '' '' then [CHR ''+'']
      else if c \<in> set url_ok_chars \<or> c = CHR 0x00 then [c]
      else [CHR 0x25, hex_digits ! (code_of c div 16), hex_digits ! (code_of c mod 16)]) @ EscapeUrl cs"

section \<open>Fields\<close>

text \<open>
  The key, the value and whether it is required. An \<open>EnumValue\<close> has its two conversions; \<open>DoubleValue\<close>,
  \<open>DateValue\<close> and \<open>IpRangesValue\<close> are used by no message that is modelled.
\<close>

datatype field =
    IntField string int bool
  | BoolField string bool bool
  | StringField string string bool
  | EnumField string int "string \<Rightarrow> int" "int \<Rightarrow> string" bool
  | CsvField string "string list" bool
  | CsvMapField string "(string, string) std_map" bool

fun field_key :: "field \<Rightarrow> string" where
  "field_key (IntField key _ _) = key"
| "field_key (BoolField key _ _) = key"
| "field_key (StringField key _ _) = key"
| "field_key (EnumField key _ _ _ _) = key"
| "field_key (CsvField key _ _) = key"
| "field_key (CsvMapField key _ _) = key"

fun AddCsv_loop :: "bool \<Rightarrow> string list \<Rightarrow> string" where
  "AddCsv_loop first [] = []"
| "AddCsv_loop first (e # es) = (if first then [] else '','') @ EscapeCsv e @ AddCsv_loop False es"

definition csv_pair :: "string \<times> string \<Rightarrow> string" where
  "csv_pair p = EscapePair (fst p) @ '':'' @ EscapePair (snd p)"

text \<open>The text that \<open>AddInt\<close>, \<open>AddBool\<close>, \<open>AddEnum\<close>, \<open>AddCsv\<close> and \<open>AddCsvMap\<close> hand to \<open>AddString\<close>.\<close>

fun field_text :: "field \<Rightarrow> string" where
  "field_text (IntField _ i _) = IntToString i"
| "field_text (BoolField _ b _) = (if b then ''true'' else ''false'')"
| "field_text (StringField _ s _) = s"
| "field_text (EnumField _ e _ toString _) = toString e"
| "field_text (CsvField _ es _) = AddCsv_loop True es"
| "field_text (CsvMapField _ m _) = AddCsv_loop True (map csv_pair m)"

section \<open>Reading fields\<close>

text \<open>\<open>KeyValueSerializer::GetString\<close>; \<open>None\<close> leaves the value alone.\<close>

definition GetString :: "(string, string) std_map \<Rightarrow> string \<Rightarrow> bool \<Rightarrow> string option result" where
  "GetString m key required =
     (case map_find key m of
        Some v \<Rightarrow> Inr (Some v)
      | None \<Rightarrow> if required then Inl (Thrown (''Serializer::GetString: required parameter missing:'' @ key)) else Inr None)"

text \<open>A local string that starts empty.\<close>

definition GetText :: "(string, string) std_map \<Rightarrow> string \<Rightarrow> bool \<Rightarrow> string result" where
  "GetText m key required = andThen (GetString m key required) (\<lambda>v. Inr (case v of None \<Rightarrow> [] | Some s \<Rightarrow> s))"

definition GetInt :: "(string, string) std_map \<Rightarrow> string \<Rightarrow> int \<Rightarrow> bool \<Rightarrow> int result" where
  "GetInt m key i required = andThen (GetText m key required) (\<lambda>s. if s \<noteq> [] then StringToInt s else Inr i)"

definition GetBool :: "(string, string) std_map \<Rightarrow> string \<Rightarrow> bool \<Rightarrow> bool \<Rightarrow> bool result" where
  "GetBool m key b required =
     andThen (GetText m key required) (\<lambda>s.
     let s = map to_lower s
     in if s = ''true'' \<or> s = ''yes'' \<or> s = ''1'' then Inr True
        else if s = ''false'' \<or> s = ''no'' \<or> s = ''0'' then Inr False
        else if s = [] then Inr b
        else Inl (Thrown (''Serializer: Invalid boolean value:'' @ s @ '' for parameter:'' @ key)))"

definition GetEnum :: "(string, string) std_map \<Rightarrow> string \<Rightarrow> int \<Rightarrow> (string \<Rightarrow> int) \<Rightarrow> bool \<Rightarrow> int result" where
  "GetEnum m key e toEnum required = andThen (GetText m key required) (\<lambda>s. Inr (if s \<noteq> [] then toEnum s else e))"

text \<open>The characters left, the element so far, whether no element was found yet, and the list.\<close>

fun csv_loop :: "string \<Rightarrow> string \<Rightarrow> bool \<Rightarrow> string list \<Rightarrow> string \<times> bool \<times> string list" where
  "csv_loop [] element first val = (element, first, val)"
| "csv_loop (c # cs) element first val =
     (if c = CHR '','' then csv_loop cs [] False ((if first then [] else val) @ [UnEscapeCsv (trim element)])
      else csv_loop cs (element @ [c]) first val)"

definition read_csv :: "string \<Rightarrow> string list \<Rightarrow> string list" where
  "read_csv s val =
     (case csv_loop s [] True val of (element, first, val1) \<Rightarrow>
      if element \<noteq> [] then (if first then [] else val1) @ [UnEscapeCsv (trim element)] else val1)"

definition GetCsv :: "(string, string) std_map \<Rightarrow> string \<Rightarrow> string list \<Rightarrow> bool \<Rightarrow> string list result" where
  "GetCsv m key val required = andThen (GetText m key required) (\<lambda>s. Inr (read_csv s val))"

fun csv_map_loop :: "string list \<Rightarrow> (string, string) std_map \<Rightarrow> (string, string) std_map result" where
  "csv_map_loop [] val = Inr val"
| "csv_map_loop (keyValuePair # pairs) val =
     (case string_find keyValuePair '':'' of
        Some colonPos \<Rightarrow>
          csv_map_loop pairs
            (map_insert (UnEscapePair (take colonPos keyValuePair)) (UnEscapePair (drop (colonPos + 1) keyValuePair)) val)
      | None \<Rightarrow> Inl (Thrown ''DeSerializer: GetCsvMap: missing colon in map element''))"

definition GetCsvMap :: "(string, string) std_map \<Rightarrow> string \<Rightarrow> (string, string) std_map \<Rightarrow> bool \<Rightarrow> (string, string) std_map result" where
  "GetCsvMap m key val required = andThen (GetCsv m key [] required) (\<lambda>pairs. csv_map_loop pairs val)"

fun get_field :: "(string, string) std_map \<Rightarrow> field \<Rightarrow> field result" where
  "get_field m (IntField key i req) = andThen (GetInt m key i req) (\<lambda>i. Inr (IntField key i req))"
| "get_field m (BoolField key b req) = andThen (GetBool m key b req) (\<lambda>b. Inr (BoolField key b req))"
| "get_field m (StringField key s req) =
     andThen (GetString m key req) (\<lambda>v. Inr (StringField key (case v of None \<Rightarrow> s | Some s \<Rightarrow> s) req))"
| "get_field m (EnumField key e toEnum toString req) =
     andThen (GetEnum m key e toEnum req) (\<lambda>e. Inr (EnumField key e toEnum toString req))"
| "get_field m (CsvField key es req) = andThen (GetCsv m key es req) (\<lambda>es. Inr (CsvField key es req))"
| "get_field m (CsvMapField key val req) = andThen (GetCsvMap m key val req) (\<lambda>val. Inr (CsvMapField key val req))"

fun get_fields :: "(string, string) std_map \<Rightarrow> field list \<Rightarrow> field list result" where
  "get_fields m [] = Inr []"
| "get_fields m (f # fs) = andThen (get_field m f) (\<lambda>f. andThen (get_fields m fs) (\<lambda>fs. Inr (f # fs)))"

section \<open>Key-value texts\<close>

datatype PairState = StartState | KeyState | ValueState | ErrorState

text \<open>
  One character of \<open>DeSerialize\<close>, which both serializers write out alike: \<open>SingleLineState\<close> with spaces between pairs,
  \<open>UrlState\<close> with ampersands.
\<close>

definition pair_step :: "char \<Rightarrow> char \<Rightarrow> PairState \<times> string \<times> string \<Rightarrow> PairState \<times> string \<times> string" where
  "pair_step sep c s =
     (case s of
        (StartState, key, val) \<Rightarrow>
          if c = sep then (StartState, key, val)
          else if is_alnum c then (KeyState, [c], val)
          else (ErrorState, key, val)
      | (KeyState, key, val) \<Rightarrow>
          if is_alnum c then (KeyState, key @ [c], val)
          else if c = CHR ''='' then (ValueState, key, [])
          else (ErrorState, key, val)
      | (ValueState, key, val) \<Rightarrow>
          if c = CHR ''='' then (ErrorState, key, val)
          else if c = sep then (StartState, key, val)
          else (ValueState, key, val @ [c])
      | (ErrorState, key, val) \<Rightarrow> (ErrorState, key, val))"

text \<open>A repeated key keeps its first value (\<open>insert\<close>); an error ends the loop and is not reported.\<close>

fun pair_loop :: "char \<Rightarrow> (string \<Rightarrow> string result) \<Rightarrow> string \<Rightarrow> PairState \<times> string \<times> string \<Rightarrow> (string, string) std_map \<Rightarrow>
    (string, string) std_map result" where
  "pair_loop sep decode [] s m = Inr m"
| "pair_loop sep decode (c # cs) s m =
     (if fst s = ErrorState then Inr m
      else case pair_step sep c s of (state, key, val) \<Rightarrow>
        if (state = StartState \<or> cs = []) \<and> key \<noteq> [] then
          andThen (decode val) (\<lambda>unescapedValue. pair_loop sep decode cs (state, [], []) (map_insert key unescapedValue m))
        else pair_loop sep decode cs (state, key, val) m)"

definition DeSerialize :: "char \<Rightarrow> (string \<Rightarrow> string result) \<Rightarrow> string \<Rightarrow> field list \<Rightarrow> field list result" where
  "DeSerialize sep decode input fields =
     andThen (pair_loop sep decode (trim input) (StartState, [], []) []) (\<lambda>m. get_fields m fields)"

definition SingleLine_AddString :: "string \<Rightarrow> string \<Rightarrow> string \<Rightarrow> string" where
  "SingleLine_AddString output key val = output @ key @ ''='' @ EscapeSingleLine val @ '' ''"

definition SingleLine_Serialize :: "field list \<Rightarrow> string" where
  "SingleLine_Serialize fields = foldl (\<lambda>output f. SingleLine_AddString output (field_key f) (field_text f)) [] fields"

definition SingleLine_DeSerialize :: "string \<Rightarrow> field list \<Rightarrow> field list result" where
  "SingleLine_DeSerialize = DeSerialize (CHR '' '') (\<lambda>val. Inr (UnEscapeSingleLine val))"

text \<open>The value goes through a \<open>PCSTR\<close>, so it ends at a NUL.\<close>

definition Url_AddString :: "string \<Rightarrow> string \<Rightarrow> string \<Rightarrow> string" where
  "Url_AddString output key val = output @ key @ ''='' @ c_str (EscapeUrl val) @ ''&''"

definition Url_Serialize :: "field list \<Rightarrow> string" where
  "Url_Serialize fields = foldl (\<lambda>output f. Url_AddString output (field_key f) (field_text f)) [] fields"

definition Url_DeSerialize :: "string \<Rightarrow> field list \<Rightarrow> field list result" where
  "Url_DeSerialize = DeSerialize (CHR ''&'') (\<lambda>val. UnEscapeUrl val [])"

section \<open>The class of a message\<close>

text \<open>The value of the first pair, in lower case; the separator is searched from the start.\<close>

definition FindClass :: "char \<Rightarrow> string \<Rightarrow> string" where
  "FindClass sep input =
     map to_lower
       (case string_find input ''='' of
          None \<Rightarrow> []
        | Some equalsPosition \<Rightarrow>
            (case string_find input [sep] of
               Some sepPosition \<Rightarrow>
                 if sepPosition > equalsPosition then take (sepPosition - equalsPosition - 1) (drop (equalsPosition + 1) input)
                 else drop (equalsPosition + 1) input
             | None \<Rightarrow> drop (equalsPosition + 1) input))"

definition SingleLine_FindClass :: "string \<Rightarrow> string" where
  "SingleLine_FindClass = FindClass (CHR '' '')"

definition Url_FindClass :: "string \<Rightarrow> string" where
  "Url_FindClass = FindClass (CHR ''&'')"

end
