(* ===== verification/SerializerProps.thy ===== *)
theory SerializerProps
  imports Serializers
begin

text \<open>
  The round trip of the serializers: what a message writes as a single line or as a URL is read back as it was. Lemmas on
  the escapes and their alphabets, on the CSV loops, and on the key-value loop shared by both formats.
\<close>

section \<open>Escapes\<close>

lemma UnEscapeCsv_EscapeCsv [simp]: "UnEscapeCsv (EscapeCsv s) = s"
  and UnEscapePair_EscapePair [simp]: "UnEscapePair (EscapePair s) = s"
  and UnEscapeSingleLine_EscapeSingleLine [simp]: "UnEscapeSingleLine (EscapeSingleLine s) = s"
  by (induction s) auto

lemma escaped_no_separator:
  "CHR '','' \<notin> set (EscapeCsv s)" "CHR '':'' \<notin> set (EscapePair s)"
  "CHR '' '' \<notin> set (EscapeSingleLine s)" "CHR ''='' \<notin> set (EscapeSingleLine s)"
  by (induction s) auto

text \<open>Escapes do not touch the ends of a string that no space begins or ends.\<close>

definition trimmed :: "string \<Rightarrow> bool" where
  "trimmed s \<longleftrightarrow> s = [] \<or> \<not> is_space (hd s) \<and> \<not> is_space (last s)"

lemma trim_trimmed: "trimmed s \<Longrightarrow> trim s = s"
proof (cases s rule: rev_cases)
  case (snoc t c)
  assume "trimmed s"
  then have "trim_left s = s" "\<not> is_space c" using snoc by (auto simp: trimmed_def intro: trim_left_id)
  then show ?thesis by (simp add: trim_def snoc)
qed (simp add: trim_def trim_left_def)

lemma percent_not_space [simp]: "\<not> is_space CHR 0x25" "\<not> is_space CHR '':''" "\<not> is_space CHR ''c''" "\<not> is_space CHR ''p''"
    "\<not> is_space CHR ''k''" "\<not> is_space CHR ''s''" "\<not> is_space CHR ''e''" "\<not> is_space CHR ''=''" "\<not> is_space CHR ''&''"
  by (simp_all add: is_space_def code_of_def)

lemma EscapeCsv_Nil [simp]: "EscapeCsv s = [] \<longleftrightarrow> s = []" and EscapePair_Nil [simp]: "EscapePair s = [] \<longleftrightarrow> s = []"
  and EscapeSingleLine_Nil [simp]: "EscapeSingleLine s = [] \<longleftrightarrow> s = []"
  by (cases s; simp)+

lemma escape_append:
  "EscapeCsv (s @ t) = EscapeCsv s @ EscapeCsv t" "EscapePair (s @ t) = EscapePair s @ EscapePair t"
  "EscapeSingleLine (s @ t) = EscapeSingleLine s @ EscapeSingleLine t"
  by (induction s) auto

lemma escape_ends:
  assumes "s \<noteq> []"
  shows "is_space (hd (EscapeCsv s)) \<Longrightarrow> is_space (hd s)" "is_space (last (EscapeCsv s)) \<Longrightarrow> is_space (last s)"
    "is_space (hd (EscapePair s)) \<Longrightarrow> is_space (hd s)" "is_space (last (EscapePair s)) \<Longrightarrow> is_space (last s)"
proof -
  obtain c cs where s: "s = c # cs" using assms by (cases s) auto
  show "is_space (hd (EscapeCsv s)) \<Longrightarrow> is_space (hd s)" "is_space (hd (EscapePair s)) \<Longrightarrow> is_space (hd s)"
    by (auto simp: s split: if_splits)
  obtain t d where "s = t @ [d]" using assms by (cases s rule: rev_cases) auto
  then show "is_space (last (EscapeCsv s)) \<Longrightarrow> is_space (last s)" "is_space (last (EscapePair s)) \<Longrightarrow> is_space (last s)"
    by (auto simp: escape_append split: if_splits)
qed

lemma trimmed_EscapeCsv: "trimmed s \<Longrightarrow> trimmed (EscapeCsv s)"
  using escape_ends [of s] by (auto simp: trimmed_def)

section \<open>Lists\<close>

lemma csv_loop_skip:
  "CHR '','' \<notin> set xs \<Longrightarrow> csv_loop (xs @ rest) element first val = csv_loop rest (element @ xs) first val"
  by (induction xs arbitrary: element) auto

lemma csv_loop_elements:
  assumes "list_all trimmed (e # es)"
  shows "csv_loop (EscapeCsv e @ AddCsv_loop False es) [] first val =
     (EscapeCsv (last (e # es)), first \<and> es = [], if es = [] then val else (if first then [] else val) @ butlast (e # es))"
  using assms
proof (induction es arbitrary: e first val)
  case Nil
  then show ?case using csv_loop_skip [OF escaped_no_separator(1), of e "[]"] by simp
next
  case (Cons x xs)
  have "trim (EscapeCsv e) = EscapeCsv e" using Cons.prems by (simp add: trim_trimmed trimmed_EscapeCsv)
  then show ?case
    using Cons.IH [of x False "(if first then [] else val) @ [e]"] Cons.prems
    by (simp add: csv_loop_skip [OF escaped_no_separator(1)])
qed

text \<open>A list is read back unless it ends with an empty element; an empty list leaves the value as it was.\<close>

definition csv_ok :: "string list \<Rightarrow> bool" where
  "csv_ok es \<longleftrightarrow> list_all trimmed es \<and> (es \<noteq> [] \<longrightarrow> last es \<noteq> [])"

lemma read_csv_AddCsv:
  assumes "csv_ok es"
  shows "read_csv (AddCsv_loop True es) val = (if es = [] then val else es)"
proof (cases es)
  case (Cons x xs)
  have "trim (EscapeCsv (last es)) = EscapeCsv (last es)"
    using assms Cons last_in_set [of es] by (intro trim_trimmed trimmed_EscapeCsv) (auto simp: csv_ok_def list_all_iff)
  moreover have "butlast es @ [last es] = es" "last es \<noteq> []" using assms Cons by (simp_all add: csv_ok_def)
  ultimately show ?thesis
    using assms csv_loop_elements [of x xs True val] Cons by (auto simp: read_csv_def csv_ok_def)
qed (simp add: read_csv_def)

section \<open>Maps\<close>

definition csv_map_ok :: "(string, string) std_map \<Rightarrow> bool" where
  "csv_map_ok m \<longleftrightarrow> map_sorted m \<and>
     list_all (\<lambda>(k, v). (k \<noteq> [] \<longrightarrow> \<not> is_space (hd k)) \<and> (v \<noteq> [] \<longrightarrow> \<not> is_space (last v))) m"

lemma csv_pair_ok:
  assumes "k \<noteq> [] \<longrightarrow> \<not> is_space (hd k)" "v \<noteq> [] \<longrightarrow> \<not> is_space (last v)"
  shows "trimmed (csv_pair (k, v))"
  using assms escape_ends(3) [of k] escape_ends(4) [of v]
  by (auto simp: trimmed_def csv_pair_def hd_append)

lemma string_find_skip: "c \<notin> set s \<Longrightarrow> string_find (s @ c # t) [c] = Some (length s)"
  by (induction s) auto

lemma csv_map_loop_pairs:
  "csv_map_loop (map csv_pair m) val = Inr (fold (\<lambda>(k, v). map_insert k v) m val)"
proof (induction m arbitrary: val)
  case (Cons p m)
  obtain k v where p: "p = (k, v)" by (cases p)
  have "string_find (csv_pair (k, v)) '':'' = Some (length (EscapePair k))"
    using string_find_skip [OF escaped_no_separator(2)] by (simp add: csv_pair_def)
  then show ?case using Cons.IH by (simp add: p csv_pair_def)
qed simp

lemma map_insert_last: "\<forall>k' \<in> fst ` set m. k' < k \<Longrightarrow> map_insert k v m = m @ [(k, v)]"
  by (induction k v m rule: map_insert.induct) (auto dest: less_not_sym)

lemma fold_map_insert_sorted:
  "map_sorted (m' @ m) \<Longrightarrow> fold (\<lambda>(k, v). map_insert k v) m m' = m' @ m"
proof (induction m arbitrary: m')
  case (Cons p m)
  then have "map_insert (fst p) (snd p) m' = m' @ [p]"
    by (subst map_insert_last) (auto simp: map_sorted_def sorted_wrt_append)
  then show ?case using Cons.IH [of "m' @ [p]"] Cons.prems by (cases p) simp
qed simp

lemma csv_map_round_trip:
  assumes "csv_map_ok m"
  shows "csv_map_loop (read_csv (AddCsv_loop True (map csv_pair m)) []) [] = Inr m"
proof -
  have "csv_ok (map csv_pair m)"
    using assms by (auto simp: csv_ok_def csv_map_ok_def list_all_iff last_map csv_pair_def [of "last m"]
        intro: csv_pair_ok)
  moreover have "fold (\<lambda>(k, v). map_insert k v) m [] = m"
    using fold_map_insert_sorted [of "[]" m] assms by (simp add: csv_map_ok_def)
  ultimately show ?thesis by (simp add: read_csv_AddCsv csv_map_loop_pairs)
qed


section \<open>Pairs\<close>

text \<open>A key of letters and digits, \<open>=\<close> and a value without \<open>=\<close> and separators.\<close>

definition key_ok :: "string \<Rightarrow> bool" where
  "key_ok key \<longleftrightarrow> key \<noteq> [] \<and> list_all is_alnum key"

lemma pair_loop_key:
  assumes "list_all is_alnum cs"
  shows "pair_loop sep decode (cs @ CHR ''='' # rest) (KeyState, key, val) m =
     pair_loop sep decode (CHR ''='' # rest) (KeyState, key @ cs, val) m"
  using assms by (induction cs arbitrary: key) (simp_all add: pair_step_def)

lemma equals_not_alnum [simp]: "\<not> is_alnum CHR ''=''" "\<not> is_alnum CHR '' ''" "\<not> is_alnum CHR ''&''"
  by (simp_all add: is_alnum_def is_digit_def is_upper_def is_lower_def code_of_def)

lemma pair_loop_start:
  assumes "key_ok key" "sep \<noteq> CHR ''=''" "\<not> is_alnum sep" "rest \<noteq> []"
  shows "pair_loop sep decode (key @ CHR ''='' # rest) (StartState, [], []) m = pair_loop sep decode rest (ValueState, key, []) m"
proof -
  obtain c cs where key: "key = c # cs" "is_alnum c" "list_all is_alnum cs" using assms(1) by (cases key) (auto simp: key_ok_def)
  moreover have "c \<noteq> sep" using key(2) assms(3) by blast
  ultimately show ?thesis
    using pair_loop_key [OF key(3), of sep decode rest "[c]" "[]" m] assms(4) by (simp add: pair_step_def)
qed

lemma pair_loop_value:
  assumes "CHR ''='' \<notin> set cs" "sep \<notin> set cs" "rest \<noteq> []"
  shows "pair_loop sep decode (cs @ rest) (ValueState, key, val) m = pair_loop sep decode rest (ValueState, key, val @ cs) m"
  using assms by (induction cs arbitrary: val) (auto simp: pair_step_def)

lemma pair_loop_pair:
  assumes "key_ok key" "sep \<noteq> CHR ''=''" "\<not> is_alnum sep" "CHR ''='' \<notin> set cs" "sep \<notin> set cs" "decode cs = Inr v"
  shows "pair_loop sep decode (key @ CHR ''='' # cs @ sep # rest) (StartState, [], []) m =
     pair_loop sep decode rest (StartState, [], []) (map_insert key v m)"
proof -
  have "key \<noteq> []" using assms(1) by (simp add: key_ok_def)
  then show ?thesis
    using assms by (simp add: pair_loop_start pair_loop_value) (simp add: pair_step_def)
qed

text \<open>The last pair may come without a separator.\<close>

lemma pair_loop_last:
  assumes "key_ok key" "sep \<noteq> CHR ''=''" "\<not> is_alnum sep" "CHR ''='' \<notin> set cs" "sep \<notin> set cs" "decode cs = Inr v"
  shows "pair_loop sep decode (key @ CHR ''='' # cs) (StartState, [], []) m = Inr (map_insert key v m)"
proof (cases cs rule: rev_cases)
  case Nil
  obtain c ks where key: "key = c # ks" "is_alnum c" "list_all is_alnum ks" using assms(1) by (cases key) (auto simp: key_ok_def)
  moreover have "c \<noteq> sep" using key(2) assms(3) by blast
  ultimately show ?thesis
    using pair_loop_key [OF key(3), of sep decode "[]" "[c]" "[]" m] Nil assms(6) by (simp add: pair_step_def)
next
  case (snoc ds d)
  have "key \<noteq> []" using assms(1) by (simp add: key_ok_def)
  moreover have "pair_loop sep decode (key @ CHR ''='' # ds @ [d]) (StartState, [], []) m =
      pair_loop sep decode [d] (ValueState, key, ds) m"
    using assms(1-5) snoc by (simp add: pair_loop_start pair_loop_value)
  ultimately show ?thesis using assms snoc by (auto simp: pair_step_def)
qed


section \<open>Texts\<close>

definition pair_text :: "char \<Rightarrow> (string \<Rightarrow> string) \<Rightarrow> field \<Rightarrow> string" where
  "pair_text sep encode f = field_key f @ CHR ''='' # encode (field_text f) @ [sep]"

definition insert_field :: "field \<Rightarrow> (string, string) std_map \<Rightarrow> (string, string) std_map" where
  "insert_field f = map_insert (field_key f) (field_text f)"

text \<open>A format: how values are written between separators, and that reading them gives them back.\<close>

locale pair_format =
  fixes sep :: char and encode :: "string \<Rightarrow> string" and decode :: "string \<Rightarrow> string result" and text_ok :: "string \<Rightarrow> bool"
  assumes separator: "sep \<noteq> CHR ''=''" "\<not> is_alnum sep"
    and encoded: "CHR ''='' \<notin> set (encode s)" "sep \<notin> set (encode s)"
    and decoded: "text_ok s \<Longrightarrow> decode (encode s) = Inr s"
begin

definition field_ok :: "field \<Rightarrow> bool" where
  "field_ok f \<longleftrightarrow> key_ok (field_key f) \<and> text_ok (field_text f)"

lemma pair_loop_fields:
  "list_all field_ok fs \<Longrightarrow> pair_loop sep decode (concat (map (pair_text sep encode) fs) @ rest) (StartState, [], []) m =
     pair_loop sep decode rest (StartState, [], []) (fold insert_field fs m)"
  by (induction fs arbitrary: m)
    (simp_all add: field_ok_def pair_text_def insert_field_def pair_loop_pair separator encoded decoded)

lemma pair_loop_text:
  assumes "list_all field_ok fs" "fs \<noteq> []"
  shows "pair_loop sep decode (concat (map (pair_text sep encode) fs)) (StartState, [], []) [] = Inr (fold insert_field fs [])"
    and "pair_loop sep decode (butlast (concat (map (pair_text sep encode) fs))) (StartState, [], []) [] = Inr (fold insert_field fs [])"
proof -
  show "pair_loop sep decode (concat (map (pair_text sep encode) fs)) (StartState, [], []) [] = Inr (fold insert_field fs [])"
    using pair_loop_fields [OF assms(1), of "[]"] by simp
  obtain gs f where fs: "fs = gs @ [f]" using assms(2) by (cases fs rule: rev_cases) auto
  have shape: "butlast (concat (map (pair_text sep encode) fs)) =
      concat (map (pair_text sep encode) gs) @ field_key f @ CHR ''='' # encode (field_text f)"
    by (simp add: fs pair_text_def butlast_append)
  have "pair_loop sep decode (field_key f @ CHR ''='' # encode (field_text f)) (StartState, [], []) m =
      Inr (insert_field f m)" for m
    using assms(1) unfolding insert_field_def
    by (intro pair_loop_last) (simp_all add: fs field_ok_def separator encoded decoded)
  then show "pair_loop sep decode (butlast (concat (map (pair_text sep encode) fs))) (StartState, [], []) [] =
      Inr (fold insert_field fs [])"
    using pair_loop_fields [of gs] assms(1) unfolding shape by (simp add: fs)
qed

end

text \<open>The map of the pairs.\<close>

lemma fold_insert_field:
  assumes "distinct (map field_key fs)" "map_sorted m" "\<forall>f \<in> set fs. map_find (field_key f) m = None"
  shows "(\<forall>f \<in> set fs. map_find (field_key f) (fold insert_field fs m) = Some (field_text f)) \<and>
     (\<forall>k. k \<notin> field_key ` set fs \<longrightarrow> map_find k (fold insert_field fs m) = map_find k m)"
  using assms
proof (induction fs arbitrary: m)
  case (Cons g fs)
  have m': "map_sorted (insert_field g m)" "\<forall>f \<in> set fs. map_find (field_key f) (insert_field g m) = None"
    using Cons.prems by (auto simp: insert_field_def std_map) (metis imageI)
  have "map_find k (insert_field g m) = (if k = field_key g then Some (field_text g) else map_find k m)" for k
    using Cons.prems by (auto simp: insert_field_def std_map)
  then show ?case using Cons.IH [OF _ m'] Cons.prems(1) by auto
qed simp

section \<open>Fields\<close>

text \<open>
  A field is read back by a message with the same fields (their values are overwritten): integers have 32 bits, enumerations
  their own names; lists end with a non-empty element, and list elements, keys and values neither begin nor end with spaces.
  Empty lists and maps leave the reader's own value alone, and map entries are added to it.
\<close>

fun reads_as :: "field \<Rightarrow> field \<Rightarrow> bool" where
  "reads_as (IntField k d r) (IntField k' i r') \<longleftrightarrow> k = k' \<and> r = r' \<and> - 2147483648 \<le> i \<and> i < 2147483648"
| "reads_as (BoolField k d r) (BoolField k' b r') \<longleftrightarrow> k = k' \<and> r = r'"
| "reads_as (StringField k d r) (StringField k' s r') \<longleftrightarrow> k = k' \<and> r = r'"
| "reads_as (EnumField k d toEnum toString r) (EnumField k' e toEnum' toString' r') \<longleftrightarrow>
     k = k' \<and> r = r' \<and> toEnum = toEnum' \<and> toString = toString' \<and> toString e \<noteq> [] \<and> toEnum (toString e) = e"
| "reads_as (CsvField k d r) (CsvField k' es r') \<longleftrightarrow> k = k' \<and> r = r' \<and> csv_ok es \<and> (es = [] \<longrightarrow> d = [])"
| "reads_as (CsvMapField k d r) (CsvMapField k' m r') \<longleftrightarrow> k = k' \<and> r = r' \<and> csv_map_ok m \<and> d = []"
| "reads_as _ _ \<longleftrightarrow> False"

lemma reads_as_key: "reads_as d f \<Longrightarrow> field_key d = field_key f"
  by (cases "(d, f)" rule: reads_as.cases) auto

lemma IntToString_nonempty: "IntToString i \<noteq> []"
  using decimal_nonempty by (auto simp: IntToString_def)

lemma get_field_reads:
  assumes "reads_as d f" "map_find (field_key f) m = Some (field_text f)"
  shows "get_field m d = Inr f"
  using assms
  by (cases "(d, f)" rule: reads_as.cases)
    (auto simp: GetInt_def GetBool_def GetEnum_def GetCsv_def GetCsvMap_def GetText_def GetString_def IntToString_nonempty
      StringToInt_IntToString read_csv_AddCsv csv_map_round_trip to_lower_def is_upper_def code_of_def)

lemma get_fields_read:
  assumes "list_all2 reads_as ds fs" "\<forall>f \<in> set fs. map_find (field_key f) m = Some (field_text f)"
  shows "get_fields m ds = Inr fs"
  using assms by (induction ds fs rule: list_all2_induct) (simp_all add: get_field_reads)

section \<open>The two formats\<close>

interpretation single_line: pair_format "CHR '' ''" EscapeSingleLine "\<lambda>val. Inr (UnEscapeSingleLine val)" "\<lambda>_. True"
  by unfold_locales (simp_all add: escaped_no_separator)

lemma hex_digit_value:
  assumes "k < 16"
  shows "xdigit_value (hex_digits ! k) = Some k" "hex_digits ! k \<noteq> CHR 0x25" "\<not> is_space (hex_digits ! k)"
    "hex_digits ! k \<noteq> CHR ''-''" "hex_digits ! k \<noteq> CHR ''+''" "code_of (hex_digits ! k) \<noteq> 0"
    "hex_digits ! k \<noteq> CHR ''=''" "hex_digits ! k \<noteq> CHR ''&''" "hex_digits ! k \<noteq> CHR 0x00"
proof -
  have "list_all (\<lambda>k. xdigit_value (hex_digits ! k) = Some k \<and> hex_digits ! k \<noteq> CHR 0x25 \<and> \<not> is_space (hex_digits ! k) \<and>
      hex_digits ! k \<noteq> CHR ''-'' \<and> hex_digits ! k \<noteq> CHR ''+'' \<and> code_of (hex_digits ! k) \<noteq> 0 \<and>
      hex_digits ! k \<noteq> CHR ''='' \<and> hex_digits ! k \<noteq> CHR ''&'' \<and> hex_digits ! k \<noteq> CHR 0x00) [0..<16]"
    by code_simp
  with assms show "xdigit_value (hex_digits ! k) = Some k" "hex_digits ! k \<noteq> CHR 0x25" "\<not> is_space (hex_digits ! k)"
    "hex_digits ! k \<noteq> CHR ''-''" "hex_digits ! k \<noteq> CHR ''+''" "code_of (hex_digits ! k) \<noteq> 0"
    "hex_digits ! k \<noteq> CHR ''=''" "hex_digits ! k \<noteq> CHR ''&''" "hex_digits ! k \<noteq> CHR 0x00"
    by (simp_all add: list_all_iff)
qed

lemma escaped_char_hex: "a < 16 \<Longrightarrow> b < 16 \<Longrightarrow> escaped_char (hex_digits ! a) (hex_digits ! b) = char_of (16 * a + b)"
proof -
  assume ab: "a < 16" "b < 16"
  then have "trim_left (c_str [hex_digits ! a, hex_digits ! b]) = [hex_digits ! a, hex_digits ! b]"
    by (simp add: c_str_def hex_digit_value trim_left_id)
  moreover have "xdigits 0 [hex_digits ! a, hex_digits ! b] = int (16 * a + b)"
    using ab by (simp add: hex_digit_value)
  moreover have "nat (int (16 * a + b) mod 256) = 16 * a + b" using ab by simp
  ultimately show ?thesis using ab by (simp add: escaped_char_def Let_def hex_digit_value)
qed

lemma url_ok_chars_plain: "list_all (\<lambda>c. c \<noteq> CHR ''+'' \<and> c \<noteq> CHR 0x25 \<and> c \<noteq> CHR ''&'' \<and> c \<noteq> CHR ''='') url_ok_chars"
  by code_simp

lemma code_of_split: "char_of (16 * (code_of c div 16) + code_of c mod 16) = c"
  by (simp add: code_of_def)

lemma code_of_nibbles: "code_of c div 16 < 16" "code_of c mod 16 < 16"
  using code_of_less [of c] by (simp_all add: less_mult_imp_div_less)

lemma UnEscapeUrl_EscapeUrl: "CHR 0x00 \<notin> set s \<Longrightarrow> UnEscapeUrl (EscapeUrl s) out = Inr (out @ s)"
proof (induction s arbitrary: out)
  case (Cons c s)
  consider "c = CHR '' ''" | "c \<noteq> CHR '' ''" "c \<in> set url_ok_chars" | "c \<noteq> CHR '' ''" "c \<notin> set url_ok_chars" by blast
  then show ?case
  proof cases
    case 2
    then have "c \<noteq> CHR ''+''" "c \<noteq> CHR 0x25" using url_ok_chars_plain by (auto simp: list_all_iff)
    then show ?thesis using 2 Cons by simp
  next
    case 3
    then show ?thesis
      using Cons by (simp add: hex_digit_value code_of_nibbles escaped_char_hex code_of_split)
  qed (use Cons in simp)
qed simp

lemma EscapeUrl_plain:
  assumes "c \<in> set (EscapeUrl s)"
  shows "c \<noteq> CHR ''='' \<and> c \<noteq> CHR ''&'' \<and> (CHR 0x00 \<notin> set s \<longrightarrow> c \<noteq> CHR 0x00)"
  using assms
proof (induction s)
  case (Cons d s)
  have "CHR 0x00 \<notin> set url_ok_chars" by code_simp
  then show ?case
    using Cons url_ok_chars_plain hex_digit_value(7-9) [OF code_of_nibbles(1) [of d]] hex_digit_value(7-9) [OF code_of_nibbles(2) [of d]]
    by (fastforce simp: list_all_iff split: if_splits)
qed simp

lemma c_str_EscapeUrl: "CHR 0x00 \<notin> set s \<Longrightarrow> c_str (EscapeUrl s) = EscapeUrl s"
proof -
  assume "CHR 0x00 \<notin> set s"
  then have "code_of c \<noteq> 0" if "c \<in> set (EscapeUrl s)" for c
    using EscapeUrl_plain [OF that] code_of_inj [of c "CHR 0x00"] by (auto simp: code_of_def [of "CHR 0x00"])
  then show ?thesis by (simp add: c_str_def)
qed

interpretation url: pair_format "CHR ''&''" "\<lambda>s. c_str (EscapeUrl s)" "\<lambda>val. UnEscapeUrl val []" "\<lambda>s. CHR 0x00 \<notin> set s"
proof unfold_locales
  fix s
  have "c \<in> set (EscapeUrl s)" if "c \<in> set (c_str (EscapeUrl s))" for c
    using that by (auto simp: c_str_def dest: set_takeWhileD)
  then show "CHR ''='' \<notin> set (c_str (EscapeUrl s))" "CHR ''&'' \<notin> set (c_str (EscapeUrl s))"
    using EscapeUrl_plain by blast+
qed (simp_all add: c_str_EscapeUrl UnEscapeUrl_EscapeUrl)

section \<open>Round trips\<close>

lemma SingleLine_Serialize_pairs: "SingleLine_Serialize fs = concat (map (pair_text (CHR '' '') EscapeSingleLine) fs)"
proof -
  have "foldl (\<lambda>output f. SingleLine_AddString output (field_key f) (field_text f)) out fs =
      out @ concat (map (pair_text (CHR '' '') EscapeSingleLine) fs)" for out
    by (induction fs arbitrary: out) (simp_all add: SingleLine_AddString_def pair_text_def)
  then show ?thesis by (simp add: SingleLine_Serialize_def)
qed

lemma Url_Serialize_pairs: "Url_Serialize fs = concat (map (pair_text (CHR ''&'') (\<lambda>s. c_str (EscapeUrl s))) fs)"
proof -
  have "foldl (\<lambda>output f. Url_AddString output (field_key f) (field_text f)) out fs =
      out @ concat (map (pair_text (CHR ''&'') (\<lambda>s. c_str (EscapeUrl s))) fs)" for out
    by (induction fs arbitrary: out) (simp_all add: Url_AddString_def pair_text_def)
  then show ?thesis by (simp add: Url_Serialize_def)
qed

lemma alnum_not_space: "is_alnum c \<Longrightarrow> \<not> is_space c"
  by (auto simp: is_alnum_def is_space_def is_digit_def is_upper_def is_lower_def)

text \<open>Spaces are written as escapes, other white space at the end of the line would be trimmed.\<close>

definition ends_ok :: "string \<Rightarrow> bool" where
  "ends_ok s \<longleftrightarrow> s \<noteq> [] \<longrightarrow> last s = CHR '' '' \<or> \<not> is_space (last s)"

lemma last_EscapeSingleLine: "ends_ok s \<Longrightarrow> s \<noteq> [] \<Longrightarrow> \<not> is_space (last (EscapeSingleLine s))"
  by (cases s rule: rev_cases) (auto simp: ends_ok_def escape_append)

lemma trim_snoc:
  "trim_left (x @ '' '') = x @ '' '' \<Longrightarrow> dropWhile is_space (rev x) = rev x \<Longrightarrow> trim (x @ '' '') = butlast (x @ '' '')"
  by (simp add: trim_def) (simp add: is_space_def code_of_def)

lemma trim_single_line:
  assumes "list_all (\<lambda>f. key_ok (field_key f)) fs" "fs \<noteq> []" "ends_ok (field_text (last fs))"
  shows "trim (SingleLine_Serialize fs) = butlast (SingleLine_Serialize fs)"
proof -
  obtain gs f where fs: "fs = gs @ [f]" using assms(2) by (cases fs rule: rev_cases) auto
  let ?line = "concat (map (pair_text (CHR '' '') EscapeSingleLine) gs) @ field_key f @ CHR ''='' # EscapeSingleLine (field_text f)"
  have line: "SingleLine_Serialize fs = ?line @ '' ''" by (simp add: SingleLine_Serialize_pairs fs pair_text_def)
  have "\<exists>c cs. SingleLine_Serialize fs = c # cs \<and> is_alnum c"
    using assms(1,2) by (cases fs) (auto simp: SingleLine_Serialize_pairs pair_text_def key_ok_def neq_Nil_conv)
  then have "trim_left (?line @ '' '') = ?line @ '' ''"
    unfolding line by (auto intro!: trim_left_id dest: alnum_not_space)
  moreover have "\<not> is_space (last ?line)"
    using last_EscapeSingleLine [of "field_text f"] assms(3) by (cases "field_text f = []") (simp_all add: fs)
  then have "dropWhile is_space (rev ?line) = rev ?line" unfolding dropWhile_eq_self_iff hd_rev by blast
  ultimately show ?thesis unfolding line by (intro trim_snoc)
qed

lemma trim_url:
  assumes "list_all (\<lambda>f. key_ok (field_key f)) fs"
  shows "trim (Url_Serialize fs) = Url_Serialize fs"
proof (cases "fs = []")
  case False
  then obtain gs f where fs: "fs = gs @ [f]" by (cases fs rule: rev_cases) auto
  have "\<exists>c cs. Url_Serialize fs = c # cs \<and> is_alnum c"
    using assms False by (cases fs) (auto simp: Url_Serialize_pairs pair_text_def key_ok_def neq_Nil_conv)
  moreover have "last (Url_Serialize fs) = CHR ''&''" by (simp add: Url_Serialize_pairs fs pair_text_def)
  ultimately show ?thesis by (intro trim_trimmed) (auto simp: trimmed_def dest: alnum_not_space)
qed (simp add: Url_Serialize_pairs trim_def trim_left_def)

lemma fields_of_text:
  assumes "distinct (map field_key fs)" "list_all2 reads_as ds fs"
  shows "get_fields (fold insert_field fs []) ds = Inr fs"
  by (rule get_fields_read [OF assms(2)], use fold_insert_field [OF assms(1), of "[]"] in \<open>simp add: std_map\<close>)

lemma SingleLine_round_trip:
  assumes "distinct (map field_key fs)" "list_all (\<lambda>f. key_ok (field_key f)) fs" "list_all2 reads_as ds fs"
    "fs \<noteq> [] \<Longrightarrow> ends_ok (field_text (last fs))"
  shows "SingleLine_DeSerialize (SingleLine_Serialize fs) ds = Inr fs"
proof (cases "fs = []")
  case False
  have "list_all single_line.field_ok fs" using assms(2) by (simp add: single_line.field_ok_def list_all_iff)
  then have "pair_loop (CHR '' '') (\<lambda>val. Inr (UnEscapeSingleLine val)) (trim (SingleLine_Serialize fs)) (StartState, [], []) [] =
      Inr (fold insert_field fs [])"
    using single_line.pair_loop_text(2) False trim_single_line [OF assms(2)] assms(4) by (simp add: SingleLine_Serialize_pairs)
  then show ?thesis by (simp add: SingleLine_DeSerialize_def DeSerialize_def fields_of_text assms(1,3))
qed (use assms(3) in \<open>simp add: SingleLine_Serialize_pairs SingleLine_DeSerialize_def DeSerialize_def trim_def trim_left_def\<close>)

lemma Url_round_trip:
  assumes "distinct (map field_key fs)" "list_all (\<lambda>f. key_ok (field_key f) \<and> CHR 0x00 \<notin> set (field_text f)) fs"
    "list_all2 reads_as ds fs"
  shows "Url_DeSerialize (Url_Serialize fs) ds = Inr fs"
proof -
  have "list_all url.field_ok fs" using assms(2) by (simp add: url.field_ok_def list_all_iff)
  then have "pair_loop (CHR ''&'') (\<lambda>val. UnEscapeUrl val []) (Url_Serialize fs) (StartState, [], []) [] =
      Inr (fold insert_field fs [])"
    using url.pair_loop_text(1) by (cases "fs = []") (simp_all add: Url_Serialize_pairs)
  moreover have "trim (Url_Serialize fs) = Url_Serialize fs" using assms(2) by (intro trim_url) (auto simp: list_all_iff)
  ultimately show ?thesis by (simp add: Url_DeSerialize_def DeSerialize_def fields_of_text assms(1,3))
qed

end
