(* ===== verification/Messages.thy ===== *)
theory Messages
  imports SerializerProps CaptureEnums
begin

text \<open>
  The messages of \<open>orkbasecxx/messages/\<close>: the fields that \<open>Define\<close> hands to a serializer, in its order, what a reader
  assigns from them, and \<open>Process\<close>. \<open>Process\<close> and \<open>HandleResponse\<close> return the calls they make to the capture plugin and
  to the file system; what the plugin returns is a parameter. Logging is left out.
\<close>

section \<open>Fields by position\<close>

definition str_field :: "field list \<Rightarrow> nat \<Rightarrow> string" where
  "str_field fs i = (case fs ! i of StringField _ s _ \<Rightarrow> s | _ \<Rightarrow> [])"

definition int_field :: "field list \<Rightarrow> nat \<Rightarrow> int" where
  "int_field fs i = (case fs ! i of IntField _ n _ \<Rightarrow> n | _ \<Rightarrow> 0)"

definition bool_field :: "field list \<Rightarrow> nat \<Rightarrow> bool" where
  "bool_field fs i = (case fs ! i of BoolField _ b _ \<Rightarrow> b | _ \<Rightarrow> False)"

definition map_field :: "field list \<Rightarrow> nat \<Rightarrow> (string, string) std_map" where
  "map_field fs i = (case fs ! i of CsvMapField _ m _ \<Rightarrow> m | _ \<Rightarrow> [])"

section \<open>Tape messages\<close>

record TapeMsg =
  m_recId :: string
  m_stage :: string
  m_timestamp :: int
  m_fileName :: string
  m_capturePort :: string
  m_localParty :: string
  m_localEntryPoint :: string
  m_remoteParty :: string
  m_direction :: string
  m_audioKeepDirection :: string
  m_duration :: int
  m_serviceName :: string
  m_localIp :: string
  m_remoteIp :: string
  m_localMac :: string
  m_remoteMac :: string
  m_nativeCallId :: string
  m_tags :: "(string, string) std_map"
  m_onDemand :: bool
  m_live :: bool
  m_hostname :: string

text \<open>
  The constructor; the service name comes from the configuration, the host name from the capture ports, and
  \<open>m_onDemand\<close> is not initialised.
\<close>

definition new_TapeMsg :: "string \<Rightarrow> string \<Rightarrow> bool \<Rightarrow> TapeMsg" where
  "new_TapeMsg serviceName hostname onDemand =
     \<lparr>m_recId = [], m_stage = [], m_timestamp = 0, m_fileName = [], m_capturePort = [], m_localParty = [],
      m_localEntryPoint = [], m_remoteParty = [], m_direction = DirectionToString DirUnkn,
      m_audioKeepDirection = AudioKeepDirectionToString AudioKeepDirectionBoth, m_duration = 0, m_serviceName = serviceName,
      m_localIp = [], m_remoteIp = [], m_localMac = [], m_remoteMac = [], m_nativeCallId = [], m_tags = [],
      m_onDemand = onDemand, m_live = True, m_hostname = hostname\<rparr>"

text \<open>\<open>(int&)m_timestamp\<close>: the low half of a 64-bit \<open>time_t\<close>, and its assignment.\<close>

definition low_int :: "int \<Rightarrow> int" where
  "low_int t = sint (word_of_int t :: u32)"

definition set_low_int :: "int \<Rightarrow> int \<Rightarrow> int" where
  "set_low_int i t = t - t mod 2 ^ 32 + i mod 2 ^ 32"

definition TapeMsg_Define :: "TapeMsg \<Rightarrow> field list" where
  "TapeMsg_Define msg =
     [StringField ''type'' ''tape'' True, StringField ''recid'' (m_recId msg) True, StringField ''stage'' (m_stage msg) True,
      StringField ''captureport'' (m_capturePort msg) True, IntField ''timestamp'' (low_int (m_timestamp msg)) True,
      StringField ''filename'' (m_fileName msg) True, StringField ''localparty'' (m_localParty msg) False,
      StringField ''localentrypoint'' (m_localEntryPoint msg) False, StringField ''remoteparty'' (m_remoteParty msg) False,
      StringField ''direction'' (m_direction msg) False, IntField ''duration'' (m_duration msg) False,
      StringField ''service'' (m_serviceName msg) False, StringField ''localip'' (m_localIp msg) False,
      StringField ''remoteip'' (m_remoteIp msg) False, StringField ''nativecallid'' (m_nativeCallId msg) False,
      CsvMapField ''tags'' (m_tags msg) False, BoolField ''ondemand'' (m_onDemand msg) False,
      StringField ''side'' (m_audioKeepDirection msg) False, BoolField ''live'' (m_live msg) False,
      StringField ''hostname'' (m_hostname msg) False]"

definition TapeMsg_assign :: "field list \<Rightarrow> TapeMsg \<Rightarrow> TapeMsg" where
  "TapeMsg_assign fs msg = msg\<lparr>
     m_recId := str_field fs 1, m_stage := str_field fs 2, m_capturePort := str_field fs 3,
     m_timestamp := set_low_int (int_field fs 4) (m_timestamp msg), m_fileName := str_field fs 5, m_localParty := str_field fs 6,
     m_localEntryPoint := str_field fs 7, m_remoteParty := str_field fs 8, m_direction := str_field fs 9,
     m_duration := int_field fs 10, m_serviceName := str_field fs 11, m_localIp := str_field fs 12,
     m_remoteIp := str_field fs 13, m_nativeCallId := str_field fs 14, m_tags := map_field fs 15,
     m_onDemand := bool_field fs 16, m_audioKeepDirection := str_field fs 17, m_live := bool_field fs 18,
     m_hostname := str_field fs 19\<rparr>"

definition TapeMsg_SerializeSingleLine :: "TapeMsg \<Rightarrow> string" where
  "TapeMsg_SerializeSingleLine msg = SingleLine_Serialize (TapeMsg_Define msg)"

definition TapeMsg_DeSerializeSingleLine :: "string \<Rightarrow> TapeMsg \<Rightarrow> TapeMsg result" where
  "TapeMsg_DeSerializeSingleLine input msg =
     andThen (SingleLine_DeSerialize input (TapeMsg_Define msg)) (\<lambda>fs. Inr (TapeMsg_assign fs msg))"

definition TapeMsg_SerializeUrl :: "TapeMsg \<Rightarrow> string" where
  "TapeMsg_SerializeUrl msg = Url_Serialize (TapeMsg_Define msg)"

definition TapeMsg_DeSerializeUrl :: "string \<Rightarrow> TapeMsg \<Rightarrow> TapeMsg result" where
  "TapeMsg_DeSerializeUrl input msg =
     andThen (Url_DeSerialize input (TapeMsg_Define msg)) (\<lambda>fs. Inr (TapeMsg_assign fs msg))"

definition TapeMsg_IsValid :: "TapeMsg \<Rightarrow> bool" where
  "TapeMsg_IsValid msg \<longleftrightarrow> m_recId msg \<noteq> []"

definition TapeMsg_IsRealtime :: "TapeMsg \<Rightarrow> bool" where
  "TapeMsg_IsRealtime msg \<longleftrightarrow> CompareNoCase_eq (m_stage msg) ''start'' \<or> CompareNoCase_eq (m_stage msg) ''stop''"

definition TapeMsg_Clone :: "string \<Rightarrow> string \<Rightarrow> TapeMsg \<Rightarrow> TapeMsg" where
  "TapeMsg_Clone serviceName hostname msg = (new_TapeMsg serviceName hostname False)\<lparr>
     m_recId := m_recId msg, m_fileName := m_fileName msg, m_stage := m_stage msg, m_capturePort := m_capturePort msg,
     m_localParty := m_localParty msg, m_localEntryPoint := m_localEntryPoint msg, m_remoteParty := m_remoteParty msg,
     m_direction := m_direction msg, m_audioKeepDirection := m_audioKeepDirection msg, m_duration := m_duration msg,
     m_timestamp := m_timestamp msg, m_localIp := m_localIp msg, m_remoteIp := m_remoteIp msg,
     m_nativeCallId := m_nativeCallId msg, m_onDemand := m_onDemand msg, m_live := m_live msg,
     m_tags := fold (\<lambda>(k, v). map_insert k v) (m_tags msg) []\<rparr>"

section \<open>Responses\<close>

record SimpleResponseMsg =
  m_success :: bool
  m_comment :: string

definition new_SimpleResponseMsg :: SimpleResponseMsg where
  "new_SimpleResponseMsg = \<lparr>m_success = False, m_comment = []\<rparr>"

definition SimpleResponseMsg_Define :: "'a SimpleResponseMsg_scheme \<Rightarrow> field list" where
  "SimpleResponseMsg_Define msg = [BoolField ''success'' (m_success msg) False, StringField ''comment'' (m_comment msg) False]"

record TapeResponse = SimpleResponseMsg +
  m_deleteTape :: bool

definition TapeResponse_Define :: "TapeResponse \<Rightarrow> field list" where
  "TapeResponse_Define msg = SimpleResponseMsg_Define msg @ [BoolField ''deletetape'' (m_deleteTape msg) False]"

text \<open>What messages do outside: remove a file, and the three calls of the capture plugin.\<close>

datatype command =
    RemoveFile string
  | StartCaptureCall string string string string
  | PauseCaptureCall string string string
  | StopCaptureCall string string string

record ResponseConfig =
  m_audioOutputPath :: string
  m_pauseRecordingOnRejectedStart :: bool
  rc_lookBackRecording :: bool
  m_allowAutomaticRecording :: bool

definition TapeMsg_HandleResponse :: "ResponseConfig \<Rightarrow> TapeResponse \<Rightarrow> TapeMsg \<Rightarrow> command list" where
  "TapeMsg_HandleResponse config tr msg =
     (if m_deleteTape tr \<and> CompareNoCase_eq (m_stage msg) ''ready''
      then [RemoveFile (m_audioOutputPath config @ ''/'' @ m_fileName msg)]
      else if m_deleteTape tr \<and> CompareNoCase_eq (m_stage msg) ''start'' \<and> m_pauseRecordingOnRejectedStart config
      then [PauseCaptureCall [] (m_recId msg) []]
      else if \<not> rc_lookBackRecording config \<and> m_allowAutomaticRecording config \<and> CompareNoCase_eq (m_stage msg) ''start''
      then [StartCaptureCall (m_localParty msg) [] [] [], StartCaptureCall (m_remoteParty msg) [] [] []]
      else [])"

section \<open>Capture commands\<close>

record PauseMsg =
  pm_party :: string
  pm_orkuid :: string
  pm_nativecallid :: string

definition PauseMsg_Define :: "PauseMsg \<Rightarrow> field list" where
  "PauseMsg_Define msg =
     [StringField ''type'' ''pause'' True, StringField ''party'' (pm_party msg) False,
      StringField ''orkuid'' (pm_orkuid msg) False, StringField ''nativecallid'' (pm_nativecallid msg) False]"

definition PauseMsg_Process :: "PauseMsg \<Rightarrow> command list \<times> SimpleResponseMsg" where
  "PauseMsg_Process msg =
     ([PauseCaptureCall (pm_party msg) (pm_orkuid msg) (pm_nativecallid msg)],
      \<lparr>m_success = True, m_comment = ''Pausing capture for party:'' @ pm_party msg @ '' orkuid:'' @ pm_orkuid msg @
         '' nativecallid:'' @ pm_nativecallid msg\<rparr>)"

text \<open>A \<open>StopMsg\<close> has the same members; \<open>qos\<close> is what the plugin returns.\<close>

definition StopMsg_Define :: "PauseMsg \<Rightarrow> field list" where
  "StopMsg_Define msg =
     [StringField ''type'' ''stop'' True, StringField ''party'' (pm_party msg) False,
      StringField ''orkuid'' (pm_orkuid msg) False, StringField ''nativecallid'' (pm_nativecallid msg) False]"

definition StopMsg_Process :: "(string \<Rightarrow> string \<Rightarrow> string \<Rightarrow> string) \<Rightarrow> PauseMsg \<Rightarrow> command list \<times> SimpleResponseMsg" where
  "StopMsg_Process qos msg =
     ([StopCaptureCall (pm_party msg) (pm_orkuid msg) (pm_nativecallid msg)],
      \<lparr>m_success = True, m_comment = ''Stopping capture for party:'' @ pm_party msg @ '' orkuid:'' @ pm_orkuid msg @
         '' nativecallid:'' @ pm_nativecallid msg @ '' '' @ qos (pm_party msg) (pm_orkuid msg) (pm_nativecallid msg)\<rparr>)"

record RecordMsg = PauseMsg +
  m_side :: string

definition RecordMsg_Define :: "RecordMsg \<Rightarrow> field list" where
  "RecordMsg_Define msg =
     [StringField ''type'' ''record'' True, StringField ''party'' (pm_party msg) False,
      StringField ''orkuid'' (pm_orkuid msg) False, StringField ''nativecallid'' (pm_nativecallid msg) False,
      StringField ''side'' (m_side msg) False]"

definition EnsureValidSide :: "RecordMsg \<Rightarrow> RecordMsg" where
  "EnsureValidSide msg =
     (if AudioKeepDirectionToEnum (m_side msg) = AudioKeepDirectionInvalid then msg\<lparr>m_side := ''both''\<rparr> else msg)"

definition RecordMsg_Process :: "RecordMsg \<Rightarrow> command list \<times> SimpleResponseMsg" where
  "RecordMsg_Process msg =
     (let msg1 = EnsureValidSide msg
      in ([StartCaptureCall (pm_party msg1) (pm_orkuid msg1) (pm_nativecallid msg1) (m_side msg1)],
          \<lparr>m_success = True, m_comment = ''Starting capture for party:'' @ pm_party msg1 @ '' orkuid:'' @ pm_orkuid msg1 @
             '' nativecallid:'' @ pm_nativecallid msg1 @ '' side:'' @ m_side msg1\<rparr>))"

section \<open>Other messages\<close>

record AddTagMsg =
  at_party :: string
  at_orkuid :: string
  m_tagType :: string
  m_tagText :: string
  m_dtagOffsetMs :: string
  at_success :: bool

definition AddTagMsg_Define :: "AddTagMsg \<Rightarrow> field list" where
  "AddTagMsg_Define msg =
     [StringField ''type'' ''addtag'' True, StringField ''localparty'' (at_party msg) False,
      StringField ''orkuid'' (at_orkuid msg) False, StringField ''tagtype'' (m_tagType msg) False,
      StringField ''tagtext'' (m_tagText msg) False, StringField ''offsetmsec'' (m_dtagOffsetMs msg) False]"

definition DeleteTapeMsg_Define :: "string \<Rightarrow> field list" where
  "DeleteTapeMsg_Define filename = [StringField ''type'' ''deletetape'' True, StringField ''filename'' filename True]"

text \<open>\<open>removed\<close> tells whether \<open>std::remove\<close> succeeds. \<open>m_success\<close> keeps the False of the constructor.\<close>

definition DeleteTapeMsg_Process :: "(string \<Rightarrow> bool) \<Rightarrow> string \<Rightarrow> command list \<times> SimpleResponseMsg" where
  "DeleteTapeMsg_Process removed filename =
     (if string_find filename ''/'' \<noteq> None \<and> (string_find filename ''.pcm'' \<noteq> None \<or> string_find filename ''.wav'' \<noteq> None)
      then ([RemoveFile filename],
            if \<not> removed filename then \<lparr>m_success = False, m_comment = ''could not delete file''\<rparr> else new_SimpleResponseMsg)
      else ([], \<lparr>m_success = False, m_comment = ''filename not valid''\<rparr>))"

definition PingMsg_Define :: "field list" where
  "PingMsg_Define = [StringField ''type'' ''ping'' True]"

definition PingMsg_Process :: "field list" where
  "PingMsg_Process = [BoolField ''success'' True False]"

definition CaptureMsg_Process :: "EventTypeEnum \<Rightarrow> SimpleResponseMsg" where
  "CaptureMsg_Process eventType =
     (if eventType = EtStart then \<lparr>m_success = True, m_comment = []\<rparr>
      else if eventType = EtStop then \<lparr>m_success = True, m_comment = []\<rparr>
      else \<lparr>m_success = False, m_comment = ''state needs to be start or stop''\<rparr>)"

record InitMsg =
  m_name :: string
  im_hostname :: string
  m_type :: string
  m_tcpPort :: int
  m_protocol :: string
  m_fileServePort :: int
  m_contextPath :: string
  m_servePath :: string
  m_absolutePath :: string
  m_streamingPort :: string
  m_username :: string
  m_password :: string
  m_sshPort :: int
  base_hostname :: string

text \<open>\<open>InitMsg::m_hostname\<close> hides the \<open>m_hostname\<close> of the base class; both are written, under one key.\<close>

definition new_InitMsg :: "string \<Rightarrow> InitMsg" where
  "new_InitMsg hostname =
     \<lparr>m_name = [], im_hostname = [], m_type = [], m_tcpPort = 59141, m_protocol = [], m_fileServePort = 8085,
      m_contextPath = [], m_servePath = [], m_absolutePath = [], m_streamingPort = [], m_username = [], m_password = [],
      m_sshPort = 22, base_hostname = hostname\<rparr>"

definition InitMsg_Define :: "InitMsg \<Rightarrow> field list" where
  "InitMsg_Define msg =
     [StringField ''type'' ''init'' True, StringField ''name'' (m_name msg) True, StringField ''hostname'' (im_hostname msg) True,
      StringField ''servicetype'' (m_type msg) True, IntField ''tcpport'' (m_tcpPort msg) False,
      StringField ''protocol'' (m_protocol msg) False, IntField ''fileserveport'' (m_fileServePort msg) False,
      StringField ''contextpath'' (m_contextPath msg) False, StringField ''servepath'' (m_servePath msg) False,
      StringField ''absolutepath'' (m_absolutePath msg) False, StringField ''streamingport'' (m_streamingPort msg) False,
      StringField ''username'' (m_username msg) False, StringField ''password'' (m_password msg) False,
      IntField ''sshport'' (m_sshPort msg) False, StringField ''hostname'' (base_hostname msg) False]"


section \<open>Lemmas\<close>

lemma low_int_small: "0 \<le> t \<Longrightarrow> t < 2147483648 \<Longrightarrow> low_int t = t"
  by (simp add: low_int_def sint_of_int_u32)

lemma set_low_int_fresh: "0 \<le> t \<Longrightarrow> t < 2147483648 \<Longrightarrow> set_low_int t 0 = t"
  by (simp add: set_low_int_def)

lemma TapeMsg_keys:
  "distinct (map field_key (TapeMsg_Define msg))" "list_all (\<lambda>f. key_ok (field_key f)) (TapeMsg_Define msg)"
proof -
  have keys: "map field_key (TapeMsg_Define msg) =
      [''type'', ''recid'', ''stage'', ''captureport'', ''timestamp'', ''filename'', ''localparty'', ''localentrypoint'',
       ''remoteparty'', ''direction'', ''duration'', ''service'', ''localip'', ''remoteip'', ''nativecallid'', ''tags'',
       ''ondemand'', ''side'', ''live'', ''hostname'']" (is "_ = ?keys")
    by (simp add: TapeMsg_Define_def)
  have "distinct ?keys" by code_simp
  then show "distinct (map field_key (TapeMsg_Define msg))" by (simp only: keys)
  have "list_all key_ok ?keys" unfolding key_ok_def by code_simp
  moreover have "list_all (\<lambda>f. key_ok (field_key f)) fs = list_all key_ok (map field_key fs)" for fs
    by (simp add: list.pred_map o_def)
  ultimately show "list_all (\<lambda>f. key_ok (field_key f)) (TapeMsg_Define msg)" by (simp only: keys)
qed

lemma TapeMsg_reads_as:
  assumes "0 \<le> m_timestamp msg" "m_timestamp msg < 2147483648" "- 2147483648 \<le> m_duration msg" "m_duration msg < 2147483648"
    "csv_map_ok (m_tags msg)" "m_tags reader = []"
  shows "list_all2 reads_as (TapeMsg_Define reader) (TapeMsg_Define msg)"
  using assms by (simp add: TapeMsg_Define_def low_int_small)

lemma TapeMsg_assign_Define:
  assumes "0 \<le> m_timestamp msg" "m_timestamp msg < 2147483648" "m_timestamp reader = 0"
  shows "TapeMsg_assign (TapeMsg_Define msg) reader = msg\<lparr>m_localMac := m_localMac reader, m_remoteMac := m_remoteMac reader\<rparr>"
  using assms
  by (simp add: TapeMsg_assign_def TapeMsg_Define_def str_field_def int_field_def bool_field_def map_field_def low_int_small
      set_low_int_fresh)

section \<open>Properties\<close>

text \<open>C40: A tape message written as a single line, or as a URL, is read back by a fresh message as it was, with all its tags: the
  time stamp has 31 bits, tags neither begin nor end with spaces, the host name does not end with a line break, and, in URLs,
  no text has a NUL. The two MAC addresses are not sent.\<close>

theorem tape_message_round_trip:
  assumes "0 \<le> m_timestamp msg" "m_timestamp msg < 2147483648" "- 2147483648 \<le> m_duration msg" "m_duration msg < 2147483648"
    and "csv_map_ok (m_tags msg)" "ends_ok (m_hostname msg)" "m_tags reader = []" "m_timestamp reader = 0"
  shows "TapeMsg_DeSerializeSingleLine (TapeMsg_SerializeSingleLine msg) reader =
       Inr (msg\<lparr>m_localMac := m_localMac reader, m_remoteMac := m_remoteMac reader\<rparr>) \<and>
     (list_all (\<lambda>f. CHR 0x00 \<notin> set (field_text f)) (TapeMsg_Define msg) \<longrightarrow>
       TapeMsg_DeSerializeUrl (TapeMsg_SerializeUrl msg) reader =
         Inr (msg\<lparr>m_localMac := m_localMac reader, m_remoteMac := m_remoteMac reader\<rparr>))"
proof (intro conjI impI)
  note reads = TapeMsg_reads_as [OF assms(1-5,7)] and assign = TapeMsg_assign_Define [OF assms(1,2,8)]
  have "field_text (last (TapeMsg_Define msg)) = m_hostname msg" by (simp add: TapeMsg_Define_def)
  then have "SingleLine_DeSerialize (SingleLine_Serialize (TapeMsg_Define msg)) (TapeMsg_Define reader) = Inr (TapeMsg_Define msg)"
    using assms(6) by (intro SingleLine_round_trip TapeMsg_keys reads) simp
  then show "TapeMsg_DeSerializeSingleLine (TapeMsg_SerializeSingleLine msg) reader =
      Inr (msg\<lparr>m_localMac := m_localMac reader, m_remoteMac := m_remoteMac reader\<rparr>)"
    by (simp add: TapeMsg_DeSerializeSingleLine_def TapeMsg_SerializeSingleLine_def assign)
  assume "list_all (\<lambda>f. CHR 0x00 \<notin> set (field_text f)) (TapeMsg_Define msg)"
  then have "Url_DeSerialize (Url_Serialize (TapeMsg_Define msg)) (TapeMsg_Define reader) = Inr (TapeMsg_Define msg)"
    using TapeMsg_keys(2) [of msg] by (intro Url_round_trip TapeMsg_keys(1) reads) (simp add: list_all_iff)
  then show "TapeMsg_DeSerializeUrl (TapeMsg_SerializeUrl msg) reader =
      Inr (msg\<lparr>m_localMac := m_localMac reader, m_remoteMac := m_remoteMac reader\<rparr>)"
    by (simp add: TapeMsg_DeSerializeUrl_def TapeMsg_SerializeUrl_def assign)
qed

definition example_tape :: TapeMsg where
  "example_tape = (new_TapeMsg ''orkaudio'' ''host'' False)\<lparr>m_recId := ''20230101_ABCD'', m_stage := ''stop'',
     m_timestamp := 42, m_duration := 61, m_fileName := ''a b=c.wav'', m_tags := [(''agent'', ''x, y:z''), (''ucid'', ''1%2'')]\<rparr>"

theorem tape_message_round_trip_witness:
  "TapeMsg_DeSerializeSingleLine (TapeMsg_SerializeSingleLine example_tape) (new_TapeMsg ''other'' '''' True) = Inr example_tape \<and>
   TapeMsg_DeSerializeUrl (TapeMsg_SerializeUrl example_tape) (new_TapeMsg ''other'' '''' True) = Inr example_tape"
proof -
  have tags: "csv_map_ok (m_tags example_tape)" unfolding csv_map_ok_def map_sorted_def by code_simp
  have texts: "list_all (\<lambda>f. CHR 0x00 \<notin> set (field_text f)) (TapeMsg_Define example_tape)"
  proof -
    have "list_all (list_all (\<lambda>c. c \<noteq> CHR 0x00)) (map field_text (TapeMsg_Define example_tape))" by code_simp
    then show ?thesis by (auto simp: list_all_iff)
  qed
  have "ends_ok (m_hostname example_tape)"
    by (simp add: example_tape_def new_TapeMsg_def ends_ok_def is_space_def code_of_def)
  then show ?thesis
    using tape_message_round_trip [of example_tape "new_TapeMsg ''other'' '''' True"] tags texts
    by (simp add: example_tape_def new_TapeMsg_def)
qed

end
