(* ===== verification/AudioTape.thy ===== *)
theory AudioTape
  imports TapeConfig AudioFiles Messages Dtmf
begin

text \<open>
  The recording of one call: \<open>AudioTape\<close> in \<open>orkbasecxx/AudioTape.{h,cpp}\<close>. The capture thread adds chunks and events, the
  writer thread takes chunks from the queue and writes them to a capture file, and the batch processing names the final
  file. The clock, the local time, the existing files and the file classes' worlds are parameters. What the log receives
  (the description of the call, levels and warnings) is left out.
\<close>

section \<open>State\<close>

record tm =
  tm_year :: int
  tm_mon :: int
  tm_mday :: int
  tm_hour :: int
  tm_min :: int
  tm_sec :: int

text \<open>
  \<open>tw_now\<close> is the time in seconds; \<open>tw_existing\<close> are the files that can be opened, finitely many; the last two are read by
  the constructor of \<open>TapeMsg\<close>.
\<close>

record TapeWorld = AudioWorld +
  CONFIG :: TapeConfig
  tw_now :: int
  tw_local_time :: "int \<Rightarrow> tm"
  tw_existing :: "string list"
  tw_hostname :: string
  tw_fqdn :: string
  tw_service :: string
  tw_capture_host :: string

record AudioDirectionMarks =
  mark_timestamp :: int
  mark_nextTimestampMark :: int
  mark_audioKeepDirectionEnum :: AudioKeepDirectionEnum

definition new_AudioDirectionMarks :: AudioDirectionMarks where
  "new_AudioDirectionMarks =
     \<lparr>mark_timestamp = 0, mark_nextTimestampMark = 0, mark_audioKeepDirectionEnum = AudioKeepDirectionBoth\<rparr>"

record AudioTape =
  m_audioDirectionMarks :: "AudioDirectionMarks list"
  m_portId :: string
  m_localParty :: string
  m_localEntryPoint :: string
  m_remoteParty :: string
  m_direction :: DirectionEnum
  m_localSide :: LocalSideEnum
  m_audioKeepDirectionEnum :: AudioKeepDirectionEnum
  m_beginDate :: int
  m_endDate :: int
  m_duration :: int
  m_localIp :: string
  m_remoteIp :: string
  m_trackingId :: string
  m_nativeCallId :: string
  m_state :: StateEnum
  m_numErrors :: int
  m_onDemand :: bool
  m_keep :: bool
  m_isExternal :: bool
  m_mediaType :: MediaTypeEnum
  m_isSuccessfulImported :: bool
  m_isDoneProcessed :: bool
  m_isQueued :: bool
  m_fromProcessMcf :: bool
  m_lastHoldTs :: int
  m_holdDuration :: int
  m_outputPath :: string
  m_filePath :: string
  m_fileIdentifier :: string
  m_fileExtension :: string
  m_year :: string
  m_day :: string
  m_month :: string
  m_hour :: string
  m_min :: string
  m_sec :: string
  m_tapeQueue :: "AudioChunk list"
  m_pushCount :: int
  m_popCount :: int
  m_highMark :: int
  m_RejectedCount :: int
  m_queuedBytes :: u32
  m_chunkQueueErrorReported :: bool
  m_eventQueue :: "CaptureEvent list"
  m_toSendEventQueue :: "CaptureEvent list"
  m_audioFileRef :: "TapeFile option"
  m_shouldStop :: bool
  m_readyForBatchProcessing :: bool
  m_orkUid :: string
  m_tapeTags :: "(string, string) std_map"
  m_bytesWritten :: int
  m_lastLogWarning :: int
  m_passedPartyFilterTest :: bool

section \<open>File names\<close>

text \<open>\<open>%.nd\<close>: at least \<open>n\<close> digits.\<close>

definition padded :: "nat \<Rightarrow> int \<Rightarrow> string" where
  "padded n i =
     (let ds = decimal (nat (abs i)) in (if i < 0 then ''-'' else []) @ replicate (n - length ds) (CHR ''0'') @ ds)"

definition PopulateTimeInfo :: "TapeWorld \<Rightarrow> AudioTape \<Rightarrow> AudioTape" where
  "PopulateTimeInfo w t =
     (let date = tw_local_time w (m_beginDate t)
      in t\<lparr>m_year := padded 4 (tm_year date + 1900), m_day := padded 2 (tm_mday date), m_month := padded 2 (tm_mon date + 1),
           m_hour := padded 2 (tm_hour date), m_min := padded 2 (tm_min date), m_sec := padded 2 (tm_sec date)\<rparr>)"

definition GenerateCaptureFilePathAndIdentifier :: "TapeWorld \<Rightarrow> AudioTape \<Rightarrow> AudioTape" where
  "GenerateCaptureFilePathAndIdentifier w t =
     (let date = tw_local_time w (m_beginDate t);
          year = padded 4 (tm_year date + 1900); month = padded 2 (tm_mon date + 1); day = padded 2 (tm_mday date);
          hour = padded 2 (tm_hour date); minute = padded 2 (tm_min date); sec = padded 2 (tm_sec date)
      in t\<lparr>m_filePath := year @ ''/'' @ month @ ''/'' @ day @ ''/'' @ hour @ ''/'',
           m_fileIdentifier := year @ month @ day @ ''_'' @ hour @ minute @ sec @ ''_'' @ m_portId t,
           m_year := year, m_day := day, m_month := month, m_hour := hour, m_min := minute, m_sec := sec\<rparr>)"

definition FileCanOpen :: "TapeWorld \<Rightarrow> string \<Rightarrow> bool" where
  "FileCanOpen w file \<longleftrightarrow> file \<in> set (tw_existing w)"

definition indexed_name :: "string \<Rightarrow> string \<Rightarrow> string \<Rightarrow> int \<Rightarrow> string" where
  "indexed_name path identifier extension i = path @ identifier @ ''-'' @ IntToString i @ extension"

text \<open>The loop of \<open>PreventFileIdentifierCollision\<close> from the file with index \<open>i\<close> on; it ends because there are finitely many files.\<close>

lemma int_string_inj: "IntToString i = IntToString j \<Longrightarrow> 0 \<le> i \<Longrightarrow> 0 \<le> j \<Longrightarrow> i = j"
  by (metis IntToString_def digits_value_decimal eq_nat_nat_iff not_less)

lemma finite_taken: "finite {j. n \<le> j \<and> indexed_name path ident extension (int j) \<in> set files}"
proof (rule finite_imageD)
  show "finite ((\<lambda>j. indexed_name path ident extension (int j)) ` {j. n \<le> j \<and> indexed_name path ident extension (int j) \<in> set files})"
    by (rule finite_subset [OF _ finite_set [of files]]) auto
  show "inj_on (\<lambda>j. indexed_name path ident extension (int j)) {j. n \<le> j \<and> indexed_name path ident extension (int j) \<in> set files}"
    by (rule inj_onI) (use int_string_inj in \<open>force simp: indexed_name_def\<close>)
qed

function free_index :: "TapeWorld \<Rightarrow> string \<Rightarrow> string \<Rightarrow> string \<Rightarrow> nat \<Rightarrow> nat" where
  "free_index w path ident extension i =
     (if FileCanOpen w (indexed_name path ident extension (int i))
      then free_index w path ident extension (i + 1) else i)"
  by auto
termination
proof (relation "measure (\<lambda>(w, path, ident, extension, i).
    card {j. i \<le> j \<and> indexed_name path ident extension (int j) \<in> set (tw_existing w)})", simp)
  fix w :: TapeWorld and path ident extension :: string and i
  let ?taken = "\<lambda>n. {j. n \<le> j \<and> indexed_name path ident extension (int j) \<in> set (tw_existing w)}"
  assume "FileCanOpen w (indexed_name path ident extension (int i))"
  then have "i \<in> ?taken i" by (simp add: FileCanOpen_def)
  moreover have "i \<notin> ?taken (i + 1)" "?taken (i + 1) \<subseteq> ?taken i" by auto
  ultimately have "?taken (i + 1) \<subset> ?taken i" by blast
  then show "((w, path, ident, extension, i + 1), w, path, ident, extension, i) \<in> measure (\<lambda>(w, path, ident, extension, i).
      card {j. i \<le> j \<and> indexed_name path ident extension (int j) \<in> set (tw_existing w)})"
    by (simp add: psubset_card_mono [OF finite_taken])
qed

declare free_index.simps [simp del]

text \<open>The index of the first free name, 0 when the name itself is free; only whether it is 0 matters for the new identifier.\<close>

definition collision_index :: "TapeWorld \<Rightarrow> string \<Rightarrow> string \<Rightarrow> string \<Rightarrow> nat" where
  "collision_index w path ident extension =
     (if FileCanOpen w (path @ ident @ extension) then free_index w path ident extension 1 else 0)"

definition PreventFileIdentifierCollision :: "TapeWorld \<Rightarrow> string \<Rightarrow> string \<Rightarrow> string \<Rightarrow> string \<Rightarrow> string" where
  "PreventFileIdentifierCollision w orkUid path ident extension =
     (if collision_index w path ident extension \<noteq> 0 then ident @ ''-'' @ orkUid else ident)"

text \<open>What one element of a naming scheme stands for; \<open>unknown\<close> is what an empty attribute is replaced with.\<close>

definition or_unknown :: "string \<Rightarrow> string \<Rightarrow> string" where
  "or_unknown unknown s = (if s \<noteq> [] then s else unknown)"

definition naming_element :: "string \<Rightarrow> AudioTape \<Rightarrow> string \<Rightarrow> string" where
  "naming_element hostname t element =
     (case TapeAttributeToEnum element of
        TaNativeCallId \<Rightarrow> or_unknown ''nonativecallid'' (m_nativeCallId t)
      | TaTrackingId \<Rightarrow> or_unknown ''notrackingid'' (m_trackingId t)
      | TaDirection \<Rightarrow> DirectionToString (m_direction t)
      | TaShortDirection \<Rightarrow> DirectionToShortString (m_direction t)
      | TaRemoteParty \<Rightarrow> or_unknown ''noremoteparty'' (m_remoteParty t)
      | TaLocalParty \<Rightarrow> or_unknown ''nolocalparty'' (m_localParty t)
      | TaLocalEntryPoint \<Rightarrow> or_unknown ''nolocalentrypoint'' (m_localEntryPoint t)
      | TaLocalIp \<Rightarrow> or_unknown ''nolocalip'' (m_localIp t)
      | TaRemoteIp \<Rightarrow> or_unknown ''noremoteip'' (m_remoteIp t)
      | TaHostname \<Rightarrow> or_unknown ''nohostname'' hostname
      | TaYear \<Rightarrow> m_year t
      | TaDay \<Rightarrow> m_day t
      | TaMonth \<Rightarrow> m_month t
      | TaHour \<Rightarrow> m_hour t
      | TaMin \<Rightarrow> m_min t
      | TaSec \<Rightarrow> m_sec t
      | TaUnknown \<Rightarrow>
          (case map_find (take (length element - 2) (drop 1 element)) (m_tapeTags t) of Some v \<Rightarrow> v | None \<Rightarrow> element))"

text \<open>An empty element throws from \<open>element.substr(1, ...)\<close>.\<close>

definition build_name :: "string \<Rightarrow> AudioTape \<Rightarrow> string list \<Rightarrow> string result" where
  "build_name hostname t elements =
     (if [] \<in> set elements then Inl (Thrown ''basic_string::substr'') else Inr (concat (map (naming_element hostname t) elements)))"

definition GenerateFinalFilePath :: "TapeWorld \<Rightarrow> AudioTape \<Rightarrow> AudioTape result" where
  "GenerateFinalFilePath w t =
     (let cfg = CONFIG w; hostname = (if m_hostnameReportFqdn cfg then tw_fqdn w else tw_hostname w)
      in andThen (build_name hostname t (m_tapePathNaming cfg)) (\<lambda>pathIdentifier.
         Inr (if pathIdentifier \<noteq> [] then t\<lparr>m_filePath := pathIdentifier\<rparr> else t)))"

definition GenerateFinalFilePathAndIdentifier :: "TapeWorld \<Rightarrow> AudioTape \<Rightarrow> AudioTape result" where
  "GenerateFinalFilePathAndIdentifier w t =
     (let cfg = CONFIG w
      in andThen (build_name (tw_hostname w) t (m_tapeFileNaming cfg)) (\<lambda>fileIdentifier.
         let t1 = (if fileIdentifier \<noteq> [] then t\<lparr>m_fileIdentifier := FileEscapeName fileIdentifier\<rparr> else t)
         in andThen (if m_tapePathNaming cfg \<noteq> [] then GenerateFinalFilePath w t1 else Inr t1) (\<lambda>t2.
         Inr (if m_tapePathNaming cfg \<noteq> [] \<or> m_tapeFileNaming cfg \<noteq> []
              then t2\<lparr>m_fileIdentifier := PreventFileIdentifierCollision w (m_orkUid t2)
                     (TapeConfig.m_audioOutputPath cfg @ ''/'' @ m_filePath t2 @ ''/'') (m_fileIdentifier t2) (m_fileExtension t2)\<rparr>
              else t2))))"

definition GetFilename :: "AudioTape \<Rightarrow> string" where
  "GetFilename t = m_filePath t @ m_fileIdentifier t @ m_fileExtension t"

end
