(* ===== verification/TapeRecording.thy ===== *)
theory TapeRecording
  imports AudioTape
begin

text \<open>
  The operations of \<open>AudioTape\<close> (\<open>orkbasecxx/AudioTape.cpp\<close>): construction, queueing and writing chunks, capture events and
  the messages for the tracker. An operation that can leave the defined behaviour returns a \<open>result\<close>; an event whose
  handling never ends is \<open>None\<close>.
\<close>

section \<open>Construction\<close>

text \<open>\<open>blank_tape u\<close>: a new object before the constructor body; numbers and flags are those found in memory.\<close>

definition blank_tape :: "AudioTape \<Rightarrow> AudioTape" where
  "blank_tape u = u\<lparr>m_audioDirectionMarks := [], m_portId := [], m_localParty := [], m_localEntryPoint := [], m_remoteParty := [],
     m_localIp := [], m_remoteIp := [], m_trackingId := [], m_nativeCallId := [], m_lastHoldTs := 0, m_holdDuration := 0,
     m_outputPath := [], m_filePath := [], m_fileIdentifier := [], m_fileExtension := [], m_year := [], m_day := [], m_month := [],
     m_hour := [], m_min := [], m_sec := [], m_tapeQueue := [], m_eventQueue := [], m_toSendEventQueue := [], m_audioFileRef := None,
     m_orkUid := [], m_tapeTags := []\<rparr>"

definition new_AudioTape :: "TapeWorld \<Rightarrow> AudioTape \<Rightarrow> string \<Rightarrow> AudioTape" where
  "new_AudioTape w u portId = GenerateCaptureFilePathAndIdentifier w ((blank_tape u)\<lparr>
     m_portId := portId, m_state := StateCreated, m_beginDate := tw_now w, m_endDate := 0, m_duration := 0,
     m_direction := DirUnkn, m_localSide := LocalSideUnkn, m_isExternal := False, m_mediaType := AudioType,
     m_isSuccessfulImported := True, m_isDoneProcessed := False, m_fromProcessMcf := False, m_isQueued := False,
     m_audioKeepDirectionEnum := default_keep_direction (CONFIG w), m_shouldStop := False, m_readyForBatchProcessing := False,
     m_trackingId := portId, m_bytesWritten := 0, m_lastLogWarning := 0, m_passedPartyFilterTest := False, m_numErrors := 0,
     m_onDemand := False, m_pushCount := 0, m_popCount := 0, m_highMark := 0, m_RejectedCount := 0, m_queuedBytes := 0,
     m_chunkQueueErrorReported := False, m_keep := True, m_outputPath := m_audioOutputPathMcf (CONFIG w)\<rparr>)"

text \<open>The path behind the output directory, \<open>Right(size - 1 - output.size())\<close>.\<close>

definition path_in_output :: "string \<Rightarrow> string \<Rightarrow> string" where
  "path_in_output output path =
     (if string_find path output \<noteq> None then drop (length path - (length path - 1 - length output)) path else path)"

definition new_AudioTape_file :: "TapeWorld \<Rightarrow> AudioTape \<Rightarrow> string \<Rightarrow> string \<Rightarrow> AudioTape" where
  "new_AudioTape_file w u portId file = (blank_tape u)\<lparr>
     m_passedPartyFilterTest := False, m_portId := portId, m_onDemand := False, m_localSide := LocalSideUnkn, m_isQueued := False,
     m_fromProcessMcf := False, m_isExternal := False, m_RejectedCount := 0,
     m_audioKeepDirectionEnum := default_keep_direction (CONFIG w), m_queuedBytes := 0, m_chunkQueueErrorReported := False,
     m_filePath := path_in_output (TapeConfig.m_audioOutputPath (CONFIG w)) (FilePath file),
     m_fileIdentifier := FileStripExtension (FileBaseName file),
     m_audioFileRef := Some (ChunkFile (SetFilename file new_MediaChunkFile))\<rparr>"

section \<open>Chunks\<close>

definition queue_limit :: "TapeWorld \<Rightarrow> u32" where
  "queue_limit w = word_of_int (m_captureFileBatchSizeKByte (aw_files w) * 3 * 1024)"

definition accepts_chunk :: "TapeWorld \<Rightarrow> AudioTape \<Rightarrow> bool" where
  "accepts_chunk w t \<longleftrightarrow> m_state t \<in> {StateCreated, StateActive} \<and> m_queuedBytes t < queue_limit w"

definition AddAudioChunk :: "TapeWorld \<Rightarrow> AudioChunk \<Rightarrow> AudioTape \<Rightarrow> AudioTape" where
  "AddAudioChunk w c t =
     (if m_state t \<in> {StateCreated, StateActive}
      then if m_queuedBytes t \<ge> queue_limit w
           then t\<lparr>m_chunkQueueErrorReported := True, m_RejectedCount := m_RejectedCount t + 1\<rparr>
           else let t1 = t\<lparr>m_tapeQueue := m_tapeQueue t @ [c], m_queuedBytes := m_queuedBytes t + word_of_int (GetNumBytes c),
                           m_pushCount := m_pushCount t + 1\<rparr>
                in if int (length (m_tapeQueue t1)) > m_highMark t1 then t1\<lparr>m_highMark := int (length (m_tapeQueue t1))\<rparr> else t1
      else t)"

definition pop_chunk :: "AudioTape \<Rightarrow> AudioTape" where
  "pop_chunk t =
     (case m_tapeQueue t of
        [] \<Rightarrow> t
      | c # cs \<Rightarrow> t\<lparr>m_tapeQueue := cs, m_popCount := m_popCount t + 1, m_queuedBytes := m_queuedBytes t - word_of_int (GetNumBytes c)\<rparr>)"

text \<open>The first chunk decides the class of the file. The name of the capture file is computed before the identifier may change.\<close>

definition new_tape_file :: "AudioChunk \<Rightarrow> TapeFile" where
  "new_tape_file c =
     (if m_encoding (m_details c) = PcmAudio then SndFile (new_LibSndFileFile SF_FORMAT_WAV_PCM_16) else ChunkFile new_MediaChunkFile)"

definition open_tape_file :: "TapeWorld \<Rightarrow> AudioChunk \<Rightarrow> AudioTape \<Rightarrow> AudioTape \<times> string option" where
  "open_tape_file w c t =
     (let cfg = CONFIG w; file = new_tape_file c; ext = AudioFile_GetExtension file;
          name = m_audioOutputPathMcf cfg @ ''/'' @ m_filePath t @ m_fileIdentifier t;
          ident = PreventFileIdentifierCollision w (m_orkUid t) (TapeConfig.m_audioOutputPath cfg @ ''/'' @ m_filePath t)
                    (m_fileIdentifier t) ext
      in case AudioFile_Open w name WRITE (sint (AudioChunkDetails.m_sampleRate (m_details c))) file of (opened, e) \<Rightarrow>
         let t1 = t\<lparr>m_state := StateActive, m_audioFileRef := Some opened, m_fileIdentifier := ident\<rparr>
         in case e of
              Some _ \<Rightarrow> (t1, e)
            | None \<Rightarrow>
                if m_storageAudioFormat cfg = FfNative then (t1\<lparr>m_fileExtension := ext\<rparr>, None)
                else (case FileFormatGetExtension (m_storageAudioFormat cfg) of
                        Inr final \<Rightarrow> (t1\<lparr>m_fileExtension := final\<rparr>, None)
                      | Inl (Thrown e) \<Rightarrow> (t1, Some e)
                      | Inl _ \<Rightarrow> (t1, Some [])))"

definition over_size_limit :: "TapeWorld \<Rightarrow> AudioTape \<Rightarrow> bool" where
  "over_size_limit w t \<longleftrightarrow> m_bytesWritten t div 1024 > m_captureFileSizeLimitKb (CONFIG w)"

definition store_chunk :: "TapeWorld \<Rightarrow> AudioChunk \<Rightarrow> AudioTape \<Rightarrow> (AudioTape \<times> string option) result" where
  "store_chunk w c t =
     (if m_state t \<noteq> StateActive then Inr (t, None)
      else if over_size_limit w t
      then Inr (if tw_now w - m_lastLogWarning t > 3600 then t\<lparr>m_lastLogWarning := tw_now w\<rparr> else t, None)
      else case m_audioFileRef t of
             None \<Rightarrow> Inl NullDereference
           | Some file \<Rightarrow> andThen (AudioFile_WriteChunk w c file) (\<lambda>(file', e).
               Inr (if e = None then t\<lparr>m_audioFileRef := Some file', m_bytesWritten := m_bytesWritten t + GetNumBytes c\<rparr>
                    else t\<lparr>m_audioFileRef := Some file'\<rparr>, e)))"

definition write_chunk :: "TapeWorld \<Rightarrow> AudioChunk \<Rightarrow> AudioTape \<Rightarrow> AudioTape result" where
  "write_chunk w c t =
     andThen (case (if m_state t = StateCreated then open_tape_file w c t else (t, None)) of
                (t1, Some e) \<Rightarrow> Inr (t1, Some e)
              | (t1, None) \<Rightarrow> store_chunk w c t1) (\<lambda>(t2, e).
     Inr (if e \<noteq> None then t2\<lparr>m_numErrors := m_numErrors t2 + 1\<rparr> else t2))"

text \<open>
  \<open>Write\<close> in the steps between which the mutex is free: one round of the loop, the end of the function, and, for a tape
  rejected by the party filter, the round that drops a chunk.
\<close>

definition rejected_by_filter :: "TapeWorld \<Rightarrow> AudioTape \<Rightarrow> bool" where
  "rejected_by_filter w t \<longleftrightarrow> \<not> m_passedPartyFilterTest t \<and> PartyFilterActive (CONFIG w)"

definition write_round :: "TapeWorld \<Rightarrow> AudioTape \<Rightarrow> AudioTape result" where
  "write_round w t =
     (if m_state t \<in> {StateStopped, StateError} then Inr t
      else case m_tapeQueue t of [] \<Rightarrow> Inr t | c # _ \<Rightarrow> write_chunk w c (pop_chunk t))"

definition end_write :: "TapeWorld \<Rightarrow> AudioTape \<Rightarrow> AudioTape result" where
  "end_write w t =
     (if (m_shouldStop t \<and> m_state t \<noteq> StateStopped) \<or> m_state t = StateError
      then let t1 = t\<lparr>m_state := StateStopped\<rparr>
           in case m_audioFileRef t1 of
                None \<Rightarrow> Inr t1
              | Some file \<Rightarrow> andThen (AudioFile_Close w file) (\<lambda>file'.
                  Inr (t1\<lparr>m_audioFileRef := Some file',
                         m_readyForBatchProcessing := (if m_bytesWritten t1 > 0 then True else m_readyForBatchProcessing t1)\<rparr>))
      else Inr t)"

text \<open>\<open>Write\<close> without interference: as many rounds as there are chunks in the queue.\<close>

fun write_rounds :: "TapeWorld \<Rightarrow> nat \<Rightarrow> AudioTape \<Rightarrow> AudioTape result" where
  "write_rounds w 0 t = Inr t"
| "write_rounds w (Suc n) t = andThen (write_round w t) (write_rounds w n)"

definition start_rejecting :: "AudioTape \<Rightarrow> AudioTape" where
  "start_rejecting t = (if m_state t = StateCreated then t\<lparr>m_state := StateActive\<rparr> else t)"

definition AudioTape_Write :: "TapeWorld \<Rightarrow> AudioTape \<Rightarrow> AudioTape result" where
  "AudioTape_Write w t =
     (if rejected_by_filter w t then Inr ((pop_chunk ^^ length (m_tapeQueue t)) (start_rejecting t))
      else andThen (write_rounds w (length (m_tapeQueue t)) t) (end_write w))"

definition SetShouldStop :: "AudioTape \<Rightarrow> AudioTape" where
  "SetShouldStop t = t\<lparr>m_shouldStop := True\<rparr>"

definition IsStoppedAndValid :: "AudioTape \<Rightarrow> bool" where
  "IsStoppedAndValid t \<longleftrightarrow> m_state t = StateStopped"

definition IsReadyForBatchProcessing :: "AudioTape \<Rightarrow> bool \<times> AudioTape" where
  "IsReadyForBatchProcessing t =
     (if m_readyForBatchProcessing t then (True, t\<lparr>m_readyForBatchProcessing := False\<rparr>) else (False, t))"

section \<open>Capture events\<close>

definition test_party :: "TapeWorld \<Rightarrow> string \<Rightarrow> AudioTape \<Rightarrow> AudioTape" where
  "test_party w party t =
     (if rejected_by_filter w t then t\<lparr>m_passedPartyFilterTest := PartyFilterMatches (CONFIG w) party\<rparr> else t)"

definition mark_direction :: "TapeWorld \<Rightarrow> AudioKeepDirectionEnum \<Rightarrow> AudioTape \<Rightarrow> AudioTape" where
  "mark_direction w kept t =
     (let marks = m_audioDirectionMarks t;
          ended = (if marks = [] then [] else butlast marks @ [(last marks)\<lparr>mark_nextTimestampMark := tw_now w\<rparr>])
      in t\<lparr>m_audioKeepDirectionEnum := kept,
           m_audioDirectionMarks := ended @ [new_AudioDirectionMarks\<lparr>mark_timestamp := tw_now w, mark_audioKeepDirectionEnum := kept\<rparr>]\<rparr>)"

definition stop_event :: "TapeWorld \<Rightarrow> int \<Rightarrow> AudioTape \<Rightarrow> AudioTape" where
  "stop_event w timestamp t =
     (let digits = m_remotePartyMaxDigits (CONFIG w); party = m_remoteParty t
      in t\<lparr>m_shouldStop := True, m_duration := timestamp - m_beginDate t,
           m_remoteParty := (if digits > 0 \<and> int (length party) > digits \<and> \<not> CompareNoCase_eq party (m_remoteIp t)
                             then drop (length party - nat digits) party else party)\<rparr>)"

definition key_value_event :: "string \<Rightarrow> string \<Rightarrow> AudioTape \<Rightarrow> AudioTape" where
  "key_value_event key val t =
     (if CompareNoCase_eq key ''ondemand''
      then if CompareNoCase_eq val ''true'' then t\<lparr>m_onDemand := True\<rparr>
           else if CompareNoCase_eq val ''false'' then t\<lparr>m_onDemand := False\<rparr> else t
      else if CompareNoCase_eq key ''Keep'' then t\<lparr>m_keep := CompareNoCase_eq val ''1''\<rparr>
      else t)"

definition apply_event :: "TapeWorld \<Rightarrow> CaptureEvent \<Rightarrow> AudioTape \<Rightarrow> AudioTape option" where
  "apply_event w ev t =
     (let val = ev_value ev; replace = replace_party_chars (m_partyFilterMap (CONFIG w))
      in case ev_type ev of
        EtStart \<Rightarrow>
          (let t1 = t\<lparr>m_trackingId := val\<rparr>
           in Some (if m_state t1 = StateCreated then GenerateCaptureFilePathAndIdentifier w (t1\<lparr>m_beginDate := ev_timestamp ev\<rparr>) else t1))
      | EtStop \<Rightarrow> Some (stop_event w (ev_timestamp ev) t)
      | EtLocalSide \<Rightarrow> Some (t\<lparr>m_localSide := LocalSideToEnum val\<rparr>)
      | EtAudioKeepDirection \<Rightarrow> Some (mark_direction w (AudioKeepDirectionToEnum val) t)
      | EtDirection \<Rightarrow> Some (t\<lparr>m_direction := DirectionToEnum val\<rparr>)
      | EtRemoteParty \<Rightarrow> map_option (\<lambda>p. (test_party w val t)\<lparr>m_remoteParty := p\<rparr>) (replace val)
      | EtLocalParty \<Rightarrow> map_option (\<lambda>p. (test_party w val t)\<lparr>m_localParty := p\<rparr>) (replace val)
      | EtLocalEntryPoint \<Rightarrow> Some (t\<lparr>m_localEntryPoint := val\<rparr>)
      | EtLocalIp \<Rightarrow> Some (t\<lparr>m_localIp := val\<rparr>)
      | EtRemoteIp \<Rightarrow> Some (t\<lparr>m_remoteIp := val\<rparr>)
      | EtOrkUid \<Rightarrow> Some (if m_state t = StateCreated then t\<lparr>m_orkUid := val, m_fileIdentifier := val\<rparr> else t\<lparr>m_orkUid := val\<rparr>)
      | EtCallId \<Rightarrow> Some (t\<lparr>m_nativeCallId := val\<rparr>)
      | EtKeyValue \<Rightarrow> Some (key_value_event (ev_key ev) val t)
      | _ \<Rightarrow> Some t)"

text \<open>Static tags: not digits, unless they are reported in detail, nor the configured dynamic tags.\<close>

definition is_static_tag :: "TapeConfig \<Rightarrow> CaptureEvent \<Rightarrow> bool" where
  "is_static_tag cfg ev \<longleftrightarrow> ev_type ev = EtKeyValue \<and> ev_value ev \<noteq> [] \<and> ev_key ev \<noteq> [] \<and>
     \<not> (\<not> TapeConfig.m_dtmfReportingDetailed cfg \<and> CompareNoCase_eq (ev_key ev) ''dtmfdigit'') \<and>
     \<not> list_ex (CompareNoCase_eq (ev_key ev)) (m_dynamicTags cfg)"

definition store_tag :: "TapeConfig \<Rightarrow> CaptureEvent \<Rightarrow> (string, string) std_map \<Rightarrow> (string, string) std_map" where
  "store_tag cfg ev tags =
     (if \<not> is_static_tag cfg ev then tags
      else if map_find (ev_key ev) tags = None then map_insert (ev_key ev) (ev_value ev) tags
      else if ev_key ev \<in> set (m_tagsListUseInitialValue cfg) then tags
      else map_change (ev_key ev) (\<lambda>_. ev_value ev) tags)"

definition AddCaptureEvent :: "TapeWorld \<Rightarrow> CaptureEvent \<Rightarrow> bool \<Rightarrow> AudioTape \<Rightarrow> AudioTape option" where
  "AddCaptureEvent w ev send t = map_option (\<lambda>t1.
     t1\<lparr>m_eventQueue := m_eventQueue t1 @ [ev],
        m_toSendEventQueue := (if send then m_toSendEventQueue t1 @ [ev] else m_toSendEventQueue t1),
        m_tapeTags := store_tag (CONFIG w) ev (m_tapeTags t1)\<rparr>) (apply_event w ev t)"

definition PopulateTag :: "string \<Rightarrow> string \<Rightarrow> AudioTape \<Rightarrow> AudioTape" where
  "PopulateTag key val t = t\<lparr>m_tapeTags := map_insert key val (m_tapeTags t)\<rparr>"

section \<open>Messages\<close>

definition has_prefix :: "TapeConfig \<Rightarrow> string \<Rightarrow> bool" where
  "has_prefix cfg party \<longleftrightarrow> 0 \<le> m_directionForceOutgoingForRemotePartyMinLength cfg \<and>
     m_directionForceOutgoingForRemotePartyMinLength cfg \<le> int (length party) \<and>
     string_find party (m_directionForceOutgoingForRemotePartyPrefix cfg) = Some 0"

definition PopulateTapeMessage :: "TapeWorld \<Rightarrow> AudioTape \<Rightarrow> EventTypeEnum \<Rightarrow> TapeMsg \<Rightarrow> TapeMsg" where
  "PopulateTapeMessage w t eventType msg =
     (if rejected_by_filter w t then msg
      else let cfg = CONFIG w;
               forced = m_directionForceOutgoingForRemotePartyPrefix cfg \<noteq> [];
               swapped = forced \<and> has_prefix cfg (m_localParty t);
               out = forced \<and> (has_prefix cfg (m_localParty t) \<or> has_prefix cfg (m_remoteParty t))
           in msg\<lparr>m_recId := m_orkUid t, m_fileName := GetFilename t, m_stage := EventTypeToString eventType,
                  TapeMsg.m_capturePort := m_portId t,
                  TapeMsg.m_localParty := (if swapped then m_remoteParty t else m_localParty t),
                  TapeMsg.m_localEntryPoint := m_localEntryPoint t,
                  TapeMsg.m_remoteParty := (if swapped then m_localParty t else m_remoteParty t),
                  TapeMsg.m_direction := (if out then ''out'' else DirectionToString (m_direction t)),
                  m_audioKeepDirection := AudioKeepDirectionToString (m_audioKeepDirectionEnum t),
                  TapeMsg.m_duration := low_int (m_duration t), TapeMsg.m_timestamp := m_beginDate t,
                  TapeMsg.m_localIp := m_localIp t, TapeMsg.m_remoteIp := m_remoteIp t,
                  TapeMsg.m_nativeCallId := m_nativeCallId t, TapeMsg.m_onDemand := m_onDemand t,
                  m_tags := fold (\<lambda>(k, v). map_insert k v) (m_tapeTags t) (m_tags msg)\<rparr>)"

text \<open>
  \<open>GetMessage\<close>: \<open>None\<close> when the message of the caller is left alone. \<open>m_onDemand\<close> of a new message is not initialised; it is
  an argument. The shell commands at start and stop exist only on Windows.
\<close>

definition GetMessage :: "TapeWorld \<Rightarrow> bool \<Rightarrow> AudioTape \<Rightarrow> TapeMsg option \<times> AudioTape" where
  "GetMessage w uninit t =
     (if rejected_by_filter w t then (None, t)
      else let msg = new_TapeMsg (tw_service w) (tw_capture_host w) uninit
           in case m_toSendEventQueue t of
                [] \<Rightarrow> (Some (if m_fromProcessMcf t \<or> m_isExternal t \<or> m_bytesWritten t > 0
                             then PopulateTapeMessage w t EtReady msg else msg), t)
              | ev # evs \<Rightarrow>
                  (let t1 = t\<lparr>m_toSendEventQueue := evs\<rparr>
                   in (Some (if ev_type ev \<in> {EtStop, EtStart, EtUpdate, EtHold, EtResume}
                             then PopulateTapeMessage w t1 (ev_type ev) msg else msg), t1)))"

definition GetDetails :: "TapeWorld \<Rightarrow> AudioTape \<Rightarrow> TapeMsg \<Rightarrow> TapeMsg" where
  "GetDetails w t msg = PopulateTapeMessage w t EtStop msg"

end
