(* ===== verification/MediaChunkFileProps.thy ===== *)
theory MediaChunkFileProps
  imports MediaChunkFile
begin

text \<open>
  Capture files hold what was written: while chunks are written, the stream followed by the queue is the encoding of all
  chunks so far, closing empties the queue, and reading the encoding gives the chunks back one by one.
\<close>

section \<open>Encoding of chunks\<close>

lemma u32_of_bytes:
  "ucast (ucast v :: u8) OR push_bit 8 (ucast (ucast (drop_bit 8 v) :: u8)) OR push_bit 16 (ucast (ucast (drop_bit 16 v) :: u8))
     OR push_bit 24 (ucast (ucast (drop_bit 24 v) :: u8)) = (v :: u32)"
proof (rule bit_word_eqI)
  fix n assume "n < LENGTH(32)"
  then consider "n < 8" | "8 \<le> n" "n < 16" | "16 \<le> n" "n < 24" | "24 \<le> n" "n < 32" by force
  then show "bit (ucast (ucast v :: u8) OR push_bit 8 (ucast (ucast (drop_bit 8 v) :: u8)) OR
      push_bit 16 (ucast (ucast (drop_bit 16 v) :: u8)) OR push_bit 24 (ucast (ucast (drop_bit 24 v) :: u8)) :: u32) n = bit v n"
    by cases (auto simp: bit_simps)
qed

lemma u32_at_here: "u32_at (u32_bytes v @ post) 0 = v"
  by (simp add: u32_at_def u32_bytes_def u32_of_bytes)

lemma length_u32_bytes [simp]: "length (u32_bytes v) = 4"
  by (simp add: u32_bytes_def)

lemma length_details_bytes [simp]: "length (details_bytes padding d) = 32"
  by (simp add: details_bytes_def)

lemma AudioEncoding_of_value [simp]: "AudioEncoding_of (AudioEncoding_value e) = e"
  by (cases e) (simp_all add: AudioEncoding_of_def)

lemma u32_at_drop: "0 < i \<Longrightarrow> i + 4 \<le> length bs \<Longrightarrow> u32_at bs i = u32_at (drop i bs) 0"
  by (simp add: u32_at_def)

lemma details_of_details_bytes [simp]: "details_of_bytes (details_bytes padding d) = d"
proof -
  have "details_bytes padding d ! 28 = m_rtpPayloadType d" "details_bytes padding d ! 29 = m_channel d"
    by (simp_all add: details_bytes_def nth_append)
  moreover have "u32_at (details_bytes padding d) 0 = m_marker d" "u32_at (details_bytes padding d) 4 = AudioEncoding_value (m_encoding d)"
    "u32_at (details_bytes padding d) 8 = m_numBytes d" "u32_at (details_bytes padding d) 12 = m_timestamp d"
    "u32_at (details_bytes padding d) 16 = m_arrivalTimestamp d" "u32_at (details_bytes padding d) 20 = m_sequenceNumber d"
    "u32_at (details_bytes padding d) 24 = AudioChunkDetails.m_sampleRate d"
    by (simp_all add: u32_at_drop) (simp_all add: details_bytes_def u32_at_here)
  ultimately show ?thesis by (simp add: details_of_bytes_def)
qed

text \<open>Chunks as the capture produces them, and what the file keeps of a chunk: not its separate channels.\<close>

definition recordable :: "AudioChunk \<Rightarrow> bool" where
  "recordable c \<longleftrightarrow> m_marker (m_details c) = MEDIA_CHUNK_MARKER \<and> 0 < unat (m_numBytes (m_details c)) \<and>
     unat (m_numBytes (m_details c)) < 2 ^ 31 \<and>
     (case m_pBuffer c of None \<Rightarrow> False | Some b \<Rightarrow> length b = unat (m_numBytes (m_details c)))"

definition kept_part :: "AudioChunk \<Rightarrow> AudioChunk" where
  "kept_part c = new_AudioChunk\<lparr>m_pBuffer := m_pBuffer c, m_details := m_details c\<rparr>"

definition chunk_bytes :: "FileWorld \<Rightarrow> AudioChunk \<Rightarrow> u8 list" where
  "chunk_bytes w c = details_bytes (fw_padding w) (m_details c) @ (case m_pBuffer c of Some b \<Rightarrow> b | None \<Rightarrow> [])"

definition stores_all :: "FileWorld \<Rightarrow> bool" where
  "stores_all w \<longleftrightarrow> fw_store w = (\<lambda>old new. (old @ new, True))"

lemma recordableD:
  assumes "recordable c"
  obtains b where "m_pBuffer c = Some b" "length b = unat (m_numBytes (m_details c))"
    "GetNumBytes c = int (length b)" "0 < length b" "m_marker (m_details c) = MEDIA_CHUNK_MARKER" "m_numBytes (m_details c) \<noteq> 0"
proof -
  from assms obtain b where b: "m_pBuffer c = Some b" "length b = unat (m_numBytes (m_details c))"
    by (auto simp: recordable_def split: option.splits)
  have "sint (m_numBytes (m_details c)) = int (unat (m_numBytes (m_details c)))"
    by (rule sint_small) (use assms in \<open>simp add: recordable_def\<close>)
  moreover have "m_numBytes (m_details c) \<noteq> 0" using assms by (auto simp: recordable_def)
  ultimately show thesis
    using that [OF b] b assms by (simp add: recordable_def GetNumBytes_def)
qed

section \<open>Writing\<close>

definition good_stream :: "fstream \<Rightarrow> bool" where
  "good_stream st \<longleftrightarrow> \<not> st_eof st \<and> \<not> st_fail st"

lemma stream_write_good:
  "stores_all w \<Longrightarrow> good_stream st \<Longrightarrow> stream_write w bytes st = st\<lparr>st_data := st_data st @ bytes\<rparr>"
  by (simp add: stream_write_def good_stream_def stores_all_def)

lemma write_one_chunk_good:
  assumes "stores_all w" "good_stream st" "recordable c" "m_pBuffer c = Some buffer"
  shows "write_one_chunk w c buffer st = Inr (st\<lparr>st_data := st_data st @ chunk_bytes w c\<rparr>)"
proof -
  obtain b where "m_pBuffer c = Some b" "GetNumBytes c = int (length b)" using assms(3) by (rule recordableD)
  then have "GetNumBytes c = int (length buffer)" using assms(4) by simp
  moreover have "good_stream (st\<lparr>st_data := d\<rparr>)" for d using assms(2) by (simp add: good_stream_def)
  moreover have "\<not> st_fail st" using assms(2) by (simp add: good_stream_def)
  ultimately show ?thesis
    using assms by (simp add: write_one_chunk_def stream_write_good chunk_bytes_def mem_slice_def)
qed

lemma flush_loop_good:
  "stores_all w \<Longrightarrow> good_stream st \<Longrightarrow> list_all recordable cs \<Longrightarrow>
     flush_loop w cs st = Inr ([], st\<lparr>st_data := st_data st @ concat (map (chunk_bytes w) cs)\<rparr>, False)"
proof (induction cs arbitrary: st)
  case (Cons c cs)
  then obtain b where b: "m_pBuffer c = Some b" by (auto elim: recordableD)
  have good: "good_stream (st\<lparr>st_data := d\<rparr>)" for d using Cons.prems(2) by (simp add: good_stream_def)
  have "\<not> st_fail st" using Cons.prems(2) by (simp add: good_stream_def)
  with Cons good b show ?case by (simp add: write_one_chunk_good)
qed simp

text \<open>The file holds the chunks written to it: what reached the stream, and the queue behind it.\<close>

definition file_holds :: "FileWorld \<Rightarrow> AudioChunk list \<Rightarrow> MediaChunkFile \<Rightarrow> bool" where
  "file_holds w cs f \<longleftrightarrow> st_open (m_stream f) \<and> good_stream (m_stream f) \<and> list_all recordable (m_chunkQueue f) \<and>
     st_data (m_stream f) @ concat (map (chunk_bytes w) (m_chunkQueue f)) = concat (map (chunk_bytes w) cs)"

lemma FlushToDisk_holds:
  assumes "stores_all w" "file_holds w cs f"
  shows "FlushToDisk w f = Inr (f\<lparr>m_chunkQueue := [], m_chunkQueueDataSize := 0,
           m_stream := (m_stream f)\<lparr>st_data := concat (map (chunk_bytes w) cs)\<rparr>\<rparr>, False)"
  using assms by (simp add: FlushToDisk_def flush_loop_good file_holds_def)

lemma WriteChunk_holds:
  assumes "stores_all w" "file_holds w cs f" "recordable c"
  shows "\<exists>f'. MediaChunkFile_WriteChunk w c f = Inr (f', None) \<and> file_holds w (cs @ [c]) f' \<and> m_filename f' = m_filename f"
proof -
  let ?f1 = "f\<lparr>m_chunkQueueDataSize := m_chunkQueueDataSize f + word_of_int (GetNumBytes c), m_chunkQueue := m_chunkQueue f @ [c]\<rparr>"
  have "file_holds w (cs @ [c]) ?f1" using assms(2,3) by (simp add: file_holds_def)
  moreover have "m_numBytes (m_details c) \<noteq> 0" using assms(3) by (auto elim: recordableD)
  moreover have "st_open (m_stream f)" using assms(2) by (simp add: file_holds_def)
  ultimately show ?thesis
    using FlushToDisk_holds [OF assms(1), of "cs @ [c]" ?f1]
    by (auto simp: MediaChunkFile_WriteChunk_def Let_def file_holds_def good_stream_def)
qed

lemma Close_holds:
  assumes "stores_all w" "file_holds w cs f"
  shows "\<exists>f'. MediaChunkFile_Close w f = Inr f' \<and> m_chunkQueue f' = [] \<and> \<not> st_open (m_stream f') \<and>
     st_data (m_stream f') = concat (map (chunk_bytes w) cs) \<and> m_filename f' = m_filename f"
  using assms(2) FlushToDisk_holds [OF assms] by (simp add: MediaChunkFile_Close_def file_holds_def)

text \<open>Writing a list of chunks to a file, as the users of the class do, stopping at the first exception.\<close>

fun write_chunks :: "FileWorld \<Rightarrow> AudioChunk list \<Rightarrow> MediaChunkFile \<Rightarrow> MediaChunkFile result" where
  "write_chunks w [] f = Inr f"
| "write_chunks w (c # cs) f = andThen (MediaChunkFile_WriteChunk w c f) (\<lambda>(f', e).
     case e of None \<Rightarrow> write_chunks w cs f' | Some msg \<Rightarrow> Inl (Thrown msg))"

lemma write_chunks_holds:
  "stores_all w \<Longrightarrow> file_holds w cs f \<Longrightarrow> list_all recordable new \<Longrightarrow>
     \<exists>f'. write_chunks w new f = Inr f' \<and> file_holds w (cs @ new) f' \<and> m_filename f' = m_filename f"
proof (induction new arbitrary: cs f)
  case (Cons c new)
  then obtain f1 where f1: "MediaChunkFile_WriteChunk w c f = Inr (f1, None)" "file_holds w (cs @ [c]) f1" "m_filename f1 = m_filename f"
    using WriteChunk_holds [of w cs f c] by auto
  with Cons.IH [of "cs @ [c]" f1] Cons.prems show ?case by auto
qed simp

lemma opened_holds:
  assumes "MediaChunkFile_Open w filename WRITE rate new_MediaChunkFile = (f, None)"
  shows "file_holds w [] f"
  using assms by (auto simp: MediaChunkFile_Open_def Let_def file_holds_def good_stream_def stream_open_def new_MediaChunkFile_def
      new_fstream_def split: if_splits)

section \<open>Reading\<close>

text \<open>The loop \<open>while(ReadChunkMono(chunk))\<close> of the users of a file, for at most \<open>n\<close> rounds.\<close>

fun read_chunks :: "nat \<Rightarrow> MediaChunkFile \<Rightarrow> AudioChunk list result" where
  "read_chunks 0 f = Inr []"
| "read_chunks (Suc n) f = andThen (MediaChunkFile_ReadChunkMono f) (\<lambda>(c, k, f').
     if k = 0 then Inr [] else andThen (read_chunks n f') (\<lambda>cs. Inr (c # cs)))"

definition reads_from :: "u8 list \<Rightarrow> MediaChunkFile \<Rightarrow> bool" where
  "reads_from bs f \<longleftrightarrow> st_open (m_stream f) \<and> good_stream (m_stream f) \<and> drop (st_pos (m_stream f)) (st_data (m_stream f)) = bs"

definition small_chunk :: "AudioChunk \<Rightarrow> bool" where
  "small_chunk c \<longleftrightarrow> unat (m_numBytes (m_details c)) < MAX_CHUNK_SIZE"

lemma stream_read_from:
  assumes "good_stream st" "drop (st_pos st) (st_data st) = bs @ rest"
  shows "stream_read (length bs) st = (bs, st\<lparr>st_pos := st_pos st + length bs\<rparr>)"
  using assms by (simp add: stream_read_def good_stream_def)

lemma drop_after: "drop p xs = bs @ rest \<Longrightarrow> drop (p + length bs) xs = rest"
  by (metis append_eq_conv_conj drop_drop add.commute)

lemma ReadChunkMono_end:
  assumes "reads_from [] f"
  shows "\<exists>f'. MediaChunkFile_ReadChunkMono f = Inr (new_AudioChunk, 0, f')"
  using assms
  by (simp add: MediaChunkFile_ReadChunkMono_def stream_read_def reads_from_def good_stream_def sizeof_AudioChunkDetails_def Let_def)

lemma ReadChunkMono_chunk:
  assumes "reads_from (chunk_bytes w c @ rest) f" "recordable c"
  shows "if small_chunk c then \<exists>f'. MediaChunkFile_ReadChunkMono f = Inr (kept_part c, 32, f') \<and> reads_from rest f'
         else MediaChunkFile_ReadChunkMono f = Inl (Thrown ''Chunk too big in file:'')"
proof -
  let ?st = "m_stream f" and ?header = "details_bytes (fw_padding w) (m_details c)"
  obtain b where b: "m_pBuffer c = Some b" "length b = unat (m_numBytes (m_details c))" "m_marker (m_details c) = MEDIA_CHUNK_MARKER"
    "m_numBytes (m_details c) \<noteq> 0" using assms(2) by (rule recordableD)
  let ?st1 = "?st\<lparr>st_pos := st_pos ?st + 32\<rparr>"
  have good: "st_open ?st" "good_stream ?st" "\<not> st_fail ?st" "\<not> st_eof ?st" and data: "drop (st_pos ?st) (st_data ?st) = ?header @ b @ rest"
    using assms(1) b(1) by (auto simp: reads_from_def good_stream_def chunk_bytes_def)
  have header: "stream_read 32 ?st = (?header, ?st1)"
    using stream_read_from [OF good(2) data] by simp
  have data1: "drop (st_pos ?st1) (st_data ?st1) = b @ rest" using drop_after [OF data] by simp
  have buffer: "stream_read (length b) ?st1 = (b, ?st1\<lparr>st_pos := st_pos ?st1 + length b\<rparr>)"
    by (rule stream_read_from [OF _ data1]) (use good(2) in \<open>simp add: good_stream_def\<close>)
  have "SetBuffer (Some b) (m_details c) new_AudioChunk = Inr (kept_part c)"
    using b by (simp add: SetBuffer_ok kept_part_def)
  moreover have "drop (st_pos ?st1 + length b) (st_data ?st1) = rest" using drop_after [OF data1] by simp
  ultimately show ?thesis
    using header buffer good b
    by (simp add: MediaChunkFile_ReadChunkMono_def sizeof_AudioChunkDetails_def Let_def small_chunk_def reads_from_def good_stream_def)
qed

lemma read_chunks_encoded:
  "reads_from (concat (map (chunk_bytes w) cs)) f \<Longrightarrow> list_all recordable cs \<Longrightarrow> length cs < n \<Longrightarrow>
     read_chunks n f = (if list_all small_chunk cs then Inr (map kept_part cs) else Inl (Thrown ''Chunk too big in file:''))"
proof (induction cs arbitrary: f n)
  case Nil
  then obtain m where "n = Suc m" by (cases n) auto
  then show ?case using ReadChunkMono_end [of f] Nil by auto
next
  case (Cons c cs)
  then obtain m where n: "n = Suc m" "length cs < m" by (cases n) auto
  have chunk: "reads_from (chunk_bytes w c @ concat (map (chunk_bytes w) cs)) f" "recordable c" using Cons.prems by simp_all
  show ?case
  proof (cases "small_chunk c")
    case True
    then obtain f' where "MediaChunkFile_ReadChunkMono f = Inr (kept_part c, 32, f')" "reads_from (concat (map (chunk_bytes w) cs)) f'"
      using ReadChunkMono_chunk [OF chunk] by auto
    then show ?thesis using Cons.IH [of f' m] Cons.prems n True by auto
  next
    case False
    then show ?thesis using ReadChunkMono_chunk [OF chunk] n by simp
  qed
qed

section \<open>Recording and replaying\<close>

text \<open>A file is recorded by a tape and opened again, through the same object, by the batch processing.\<close>

definition record_file :: "FileWorld \<Rightarrow> string \<Rightarrow> int \<Rightarrow> AudioChunk list \<Rightarrow> MediaChunkFile result" where
  "record_file w name rate cs =
     (case MediaChunkFile_Open w name WRITE rate new_MediaChunkFile of
        (f, Some e) \<Rightarrow> Inl (Thrown e)
      | (f, None) \<Rightarrow> andThen (write_chunks w cs f) (MediaChunkFile_Close w))"

definition replay_file :: "FileWorld \<Rightarrow> nat \<Rightarrow> MediaChunkFile \<Rightarrow> AudioChunk list result" where
  "replay_file w n f =
     (case MediaChunkFile_Open w (m_filename f) READ 8000 f of (g, Some e) \<Rightarrow> Inl (Thrown e) | (g, None) \<Rightarrow> read_chunks n g)"

definition on_disk :: "FileWorld \<Rightarrow> MediaChunkFile \<Rightarrow> FileWorld" where
  "on_disk w f = w\<lparr>fw_contents := (fw_contents w)(m_filename f \<mapsto> st_data (m_stream f))\<rparr>"

lemma opens_new: "name \<noteq> [] \<Longrightarrow> fw_opens w (name @ ''.mcf'') \<Longrightarrow>
    \<exists>f. MediaChunkFile_Open w name WRITE rate new_MediaChunkFile = (f, None) \<and> m_filename f = name @ ''.mcf''"
  by (simp add: MediaChunkFile_Open_def Let_def stream_open_def new_MediaChunkFile_def new_fstream_def MediaChunkFile_GetExtension_def)

text \<open>C10: A capture file gives back what was recorded: for any list of chunks with audio, recorded to a file that opens and
  takes all writes, nothing is thrown, and when the file is read again with more rounds than it has chunks, the chunks
  come back with their details and buffers, once each and in order, however the queue was flushed in between. The one
  exception is a chunk of 100000 bytes or more, which the writer accepts: it makes the reader throw.\<close>

theorem capture_file_round_trip:
  assumes "stores_all w" "name \<noteq> []" "fw_opens w (name @ ''.mcf'')" "list_all recordable cs" "length cs < n"
  shows "\<exists>f. record_file w name rate cs = Inr f \<and>
     replay_file (on_disk w f) n f =
       (if list_all small_chunk cs then Inr (map kept_part cs) else Inl (Thrown ''Chunk too big in file:''))"
proof -
  obtain f0 where f0: "MediaChunkFile_Open w name WRITE rate new_MediaChunkFile = (f0, None)" "m_filename f0 = name @ ''.mcf''"
    using opens_new assms(2,3) by blast
  from opened_holds [OF f0(1)] obtain f1 where f1: "write_chunks w cs f0 = Inr f1" "file_holds w cs f1"
    using write_chunks_holds [OF assms(1) _ assms(4), of "[]" f0] by auto
  obtain f where f: "MediaChunkFile_Close w f1 = Inr f" "\<not> st_open (m_stream f)"
    "st_data (m_stream f) = concat (map (chunk_bytes w) cs)"
    using Close_holds [OF assms(1) f1(2)] by auto
  obtain g where g: "MediaChunkFile_Open (on_disk w f) (m_filename f) READ 8000 f = (g, None)"
    "reads_from (concat (map (chunk_bytes w) cs)) g"
    using f by (simp add: MediaChunkFile_Open_def Let_def stream_open_def on_disk_def reads_from_def good_stream_def)
  have "record_file w name rate cs = Inr f" using f0 f1 f by (simp add: record_file_def)
  then show ?thesis
    using read_chunks_encoded [OF g(2) assms(4,5)] g(1) by (simp add: replay_file_def)
qed

definition sample_disk :: FileWorld where
  "sample_disk = \<lparr>fw_opens = (\<lambda>_. True), fw_contents = (\<lambda>_. None), fw_store = (\<lambda>old new. (old @ new, True)),
     fw_padding = (0, 0), m_captureFileBatchSizeKByte = 64\<rparr>"

definition sample_chunk :: "u8 list \<Rightarrow> AudioChunk" where
  "sample_chunk bytes = new_AudioChunk\<lparr>m_pBuffer := Some bytes,
     m_details := details_Clear\<lparr>m_encoding := UlawAudio, m_numBytes := word_of_nat (length bytes)\<rparr>\<rparr>"

theorem capture_file_round_trip_witness:
  "\<exists>f. record_file sample_disk ''call'' 8000 [sample_chunk [1, 2, 3], sample_chunk [4]] = Inr f \<and>
     replay_file (on_disk sample_disk f) 3 f = Inr [sample_chunk [1, 2, 3], sample_chunk [4]]"
proof -
  have cs: "list_all recordable [sample_chunk [1, 2, 3], sample_chunk [4]]" "list_all small_chunk [sample_chunk [1, 2, 3], sample_chunk [4]]"
    "map kept_part [sample_chunk [1, 2, 3], sample_chunk [4]] = [sample_chunk [1, 2, 3], sample_chunk [4]]"
    by (simp_all add: recordable_def small_chunk_def kept_part_def sample_chunk_def details_Clear_def MAX_CHUNK_SIZE_def)
  show ?thesis
    using capture_file_round_trip [of sample_disk "''call''" "[sample_chunk [1, 2, 3], sample_chunk [4]]" 3 8000] cs
    by (simp add: stores_all_def sample_disk_def)
qed

end
