(* ===== verification/TapeProps.thy ===== *)
theory TapeProps
  imports TapeRecording MediaChunkFileProps
begin

text \<open>
  Tapes: the replacement of characters in parties, the names of files, and the run of a tape from its construction to the
  batch processing.
\<close>

section \<open>Replaced characters\<close>

lemma find_char: "c \<notin> set u \<Longrightarrow> string_find (u @ c # v) [c] = Some (length u)"
  by (induction u) auto

lemma find_char_None: "c \<notin> set s \<Longrightarrow> string_find s [c] = None"
  by (induction s) auto

lemma replace_char_done: "c \<notin> set s \<Longrightarrow> replace_char c d s = Some s"
  by (subst replace_char.simps) (simp add: find_char_None)

lemma replace_char_next:
  assumes "c \<notin> set u"
  shows "replace_char c d (u @ c # v) = (if d = CHR ''?'' then replace_char c d (u @ v) else replace_char c d (u @ d # v))"
  by (subst replace_char.simps) (simp add: find_char [OF assms])

definition replaced :: "char \<Rightarrow> char \<Rightarrow> string \<Rightarrow> string" where
  "replaced c d s = (if d = CHR ''?'' then filter (\<lambda>x. x \<noteq> c) s else map (\<lambda>x. if x = c then d else x) s)"

lemma replace_char_behind:
  "c \<notin> set u \<Longrightarrow> c \<noteq> d \<or> d = CHR ''?'' \<Longrightarrow> replace_char c d (u @ v) = Some (u @ replaced c d v)"
proof (induction v arbitrary: u)
  case Nil
  then show ?case by (simp add: replace_char_done replaced_def)
next
  case (Cons x v)
  consider "x \<noteq> c" | "x = c" "d = CHR ''?''" | "x = c" "d \<noteq> CHR ''?''" by blast
  then show ?case
  proof cases
    case 1
    then show ?thesis using Cons.IH [of "u @ [x]"] Cons.prems by (simp add: replaced_def)
  next
    case 2
    then show ?thesis using Cons.IH [of u] Cons.prems by (simp add: replace_char_next replaced_def)
  next
    case 3
    then show ?thesis using Cons.IH [of "u @ [d]"] Cons.prems by (simp add: replace_char_next replaced_def)
  qed
qed

lemma replace_char_ends: "c \<noteq> d \<or> d = CHR ''?'' \<Longrightarrow> replace_char c d s = Some (replaced c d s)"
  using replace_char_behind [of c "[]" d s] by simp

text \<open>A character replaced with itself is found again and again.\<close>

lemma replace_char_result:
  assumes "replace_char c d s = Some r"
  shows "d = c \<longrightarrow> c \<noteq> CHR ''?'' \<longrightarrow> c \<notin> set s"
proof (rule replace_char.raw_induct [OF _ assms])
  fix self :: "char \<Rightarrow> char \<Rightarrow> string \<Rightarrow> string option" and c d s r
  assume IH: "\<And>c d s r. self c d s = Some r \<Longrightarrow> d = c \<longrightarrow> c \<noteq> CHR ''?'' \<longrightarrow> c \<notin> set s"
    and step: "(case string_find s [c] of None \<Rightarrow> Some s
        | Some pos \<Rightarrow> if d \<noteq> CHR ''?'' then self c d (s[pos := d]) else self c d (take pos s @ drop (pos + 1) s)) = Some r"
  show "d = c \<longrightarrow> c \<noteq> CHR ''?'' \<longrightarrow> c \<notin> set s"
  proof (intro impI notI)
    assume same: "d = c" "c \<noteq> CHR ''?''" and "c \<in> set s"
    then obtain u v where s: "s = u @ c # v" "c \<notin> set u" by (meson split_list_first)
    then have "self c c s = Some r" using step same by (simp add: find_char)
    then show False using IH same s by fastforce
  qed
qed

lemma replace_char_same: "c \<in> set s \<Longrightarrow> c \<noteq> CHR ''?'' \<Longrightarrow> replace_char c c s = None"
  using replace_char_result [of c c s] by (cases "replace_char c c s") auto

definition no_self :: "(char \<times> char) list \<Rightarrow> bool" where
  "no_self m \<longleftrightarrow> list_all (\<lambda>(c, d). c \<noteq> d \<or> d = CHR ''?'') m"

lemma replace_party_chars_ends:
  "no_self m \<Longrightarrow> replace_party_chars m s = Some (fold (\<lambda>(c, d). replaced c d) m s)"
  by (induction m arbitrary: s) (auto simp: no_self_def replace_char_ends)

lemma replace_party_chars_hangs:
  assumes "distinct (map fst m)" "(c, c) \<in> set m" "c \<noteq> CHR ''?''"
  shows "replace_party_chars m [c] = None"
  using assms(1,2)
proof (induction m)
  case (Cons p m)
  obtain x y where p: "p = (x, y)" by fastforce
  show ?case
  proof (cases "x = c")
    case True
    with Cons.prems have "y = c" by (force simp: p dest: set_zip_leftD)
    then show ?thesis using True assms(3) by (simp add: p replace_char_same)
  next
    case False
    then have "(c, c) \<in> set m" using Cons.prems by (auto simp: p)
    then show ?thesis using Cons False by (simp add: p replace_char_done)
  qed
qed simp

section \<open>Files of a tape\<close>

text \<open>A world in which files open and take everything written to them.\<close>

definition healthy :: "TapeWorld \<Rightarrow> bool" where
  "healthy w \<longleftrightarrow> stores_all (aw_files w) \<and> fw_opens (aw_files w) = (\<lambda>_. True) \<and>
     sf_format_check (aw_sounds w) = (\<lambda>_ _ _. True) \<and> sf_opens (aw_sounds w) = (\<lambda>_. True) \<and>
     sf_store (aw_sounds w) = (\<lambda>old item. (old @ [item], sf_count item)) \<and>
     m_storageAudioFormat (CONFIG w) \<notin> {FfUnknown, FfInvalid}"

text \<open>What a sound file keeps of a chunk, and a file that holds the given chunks.\<close>

definition sound_items :: "AudioChunk \<Rightarrow> sf_item list" where
  "sound_items c = (case sound_of 1 c of Inr (Some item) \<Rightarrow> [item] | _ \<Rightarrow> [])"

fun tape_file :: "TapeWorld \<Rightarrow> AudioChunk list \<Rightarrow> TapeFile \<Rightarrow> bool" where
  "tape_file w cs (ChunkFile f) \<longleftrightarrow> file_holds (aw_files w) cs f"
| "tape_file w cs (SndFile f) \<longleftrightarrow> m_numOutputChannels f = 1 \<and>
     (case m_pFile f of None \<Rightarrow> False | Some s \<Rightarrow> sf_items s = concat (map sound_items cs))"

fun closed_file :: "TapeWorld \<Rightarrow> AudioChunk list \<Rightarrow> TapeFile \<Rightarrow> bool" where
  "closed_file w cs (ChunkFile f) \<longleftrightarrow> m_chunkQueue f = [] \<and> \<not> st_open (m_stream f) \<and>
     st_data (m_stream f) = concat (map (chunk_bytes (aw_files w)) cs)"
| "closed_file w cs (SndFile f) \<longleftrightarrow> m_pFile f = None"

lemma sound_of_recordable:
  assumes "recordable c"
  shows "\<exists>item. sound_of 1 c = Inr item"
proof -
  obtain b where b: "m_pBuffer c = Some b" "length b = unat (m_numBytes (m_details c))" "GetNumBytes c = int (length b)"
    using assms by (rule recordableD)
  have "unat (m_numBytes (m_details c) div 2) = unat (m_numBytes (m_details c)) div 2"
    by (simp add: unat_div_distrib)
  moreover have "unat (m_numBytes (m_details c)) < 2 ^ 31" using assms by (simp add: recordable_def)
  ultimately have "sint (m_numBytes (m_details c) div 2) = int (unat (m_numBytes (m_details c)) div 2)"
    by (subst sint_small) simp_all
  then show ?thesis
    using b by (auto simp: sound_of_def mono_audio_def GetNumSamples_def GetNumBytes_def mem_slice_def Let_def length_shorts_of_bytes)
qed

lemma sound_write:
  assumes "healthy w" "tape_file w cs (SndFile f)" "recordable c"
  shows "\<exists>f'. LibSndFileFile_WriteChunk (aw_sounds w) c f = Inr (f', None) \<and> tape_file w (cs @ [c]) (SndFile f')"
proof -
  obtain item where item: "sound_of 1 c = Inr item" using sound_of_recordable [OF assms(3)] by auto
  have "m_numBytes (m_details c) \<noteq> 0" using assms(3) by (auto elim: recordableD)
  then show ?thesis
    using assms(1,2) item
    by (cases item; simp add: LibSndFileFile_WriteChunk_def healthy_def sound_items_def Let_def split: option.splits)
qed

lemma AudioFile_write:
  assumes "healthy w" "tape_file w cs f" "recordable c"
  shows "\<exists>f'. AudioFile_WriteChunk w c f = Inr (f', None) \<and> tape_file w (cs @ [c]) f'"
proof (cases f)
  case (ChunkFile g)
  have "stores_all (aw_files w)" "file_holds (aw_files w) cs g" using assms(1,2) ChunkFile by (simp_all add: healthy_def)
  from WriteChunk_holds [OF this assms(3)] obtain g' where
    "MediaChunkFile_WriteChunk (aw_files w) c g = Inr (g', None)" "file_holds (aw_files w) (cs @ [c]) g'" by auto
  then show ?thesis using ChunkFile by simp
next
  case (SndFile g)
  with sound_write [of w cs g c] assms show ?thesis by auto
qed

lemma AudioFile_close:
  assumes "healthy w" "tape_file w cs f"
  shows "\<exists>f'. AudioFile_Close w f = Inr f' \<and> closed_file w cs f'"
proof (cases f)
  case (ChunkFile g)
  with Close_holds [of "aw_files w" cs g] assms show ?thesis by (auto simp: healthy_def)
qed (simp add: LibSndFileFile_Close_def)

lemma AudioFile_open:
  assumes "healthy w" "name \<noteq> []"
  shows "\<exists>f. AudioFile_Open w name WRITE rate (new_tape_file c) = (f, None) \<and> tape_file w [] f"
proof (cases "m_encoding (m_details c) = PcmAudio")
  case True
  then show ?thesis
    using assms by (simp add: new_tape_file_def LibSndFileFile_Open_def new_LibSndFileFile_def healthy_def Let_def)
next
  case False
  have "fw_opens (aw_files w) (name @ ''.mcf'')" using assms(1) by (simp add: healthy_def)
  from opens_new [OF assms(2) this, of rate] obtain f where f: "MediaChunkFile_Open (aw_files w) name WRITE rate new_MediaChunkFile = (f, None)"
    by auto
  with opened_holds [OF f] False show ?thesis by (simp add: new_tape_file_def)
qed

end
