(* ===== verification/TapeRun.thy ===== *)
theory TapeRun
  imports TapeProps
begin

text \<open>
  The life of a tape as a state machine: the capture thread adds chunks and events, the writer thread takes its rounds, and
  the batch processing asks whether the tape is ready, in any order; between two steps the clock and the existing files may
  change. \<open>tape_run w t cs k\<close>: the tape \<open>t\<close> is reached with the chunks \<open>cs\<close> accepted so far, and \<open>k\<close> questions
  were answered with yes.
\<close>

section \<open>Runs\<close>

definition later :: "TapeWorld \<Rightarrow> TapeWorld \<Rightarrow> bool" where
  "later w w' \<longleftrightarrow> aw_files w' = aw_files w \<and> aw_sounds w' = aw_sounds w \<and> CONFIG w' = CONFIG w"

inductive tape_run :: "TapeWorld \<Rightarrow> AudioTape \<Rightarrow> AudioChunk list \<Rightarrow> nat \<Rightarrow> bool" for w where
  create: "later w w' \<Longrightarrow> tape_run w (new_AudioTape w' u portId) [] 0"
| add: "tape_run w t cs k \<Longrightarrow> tape_run w (AddAudioChunk w c t) (cs @ (if accepts_chunk w t then [c] else [])) k"
| event: "tape_run w t cs k \<Longrightarrow> later w w' \<Longrightarrow> AddCaptureEvent w' ev send t = Some t' \<Longrightarrow> tape_run w t' cs k"
| stop: "tape_run w t cs k \<Longrightarrow> tape_run w (SetShouldStop t) cs k"
| tag: "tape_run w t cs k \<Longrightarrow> tape_run w (PopulateTag key val t) cs k"
| message: "tape_run w t cs k \<Longrightarrow> later w w' \<Longrightarrow> tape_run w (snd (GetMessage w' b t)) cs k"
| round: "tape_run w t cs k \<Longrightarrow> later w w' \<Longrightarrow> \<not> rejected_by_filter w t \<Longrightarrow> write_round w' t = Inr t' \<Longrightarrow> tape_run w t' cs k"
| finish: "tape_run w t cs k \<Longrightarrow> later w w' \<Longrightarrow> \<not> rejected_by_filter w t \<Longrightarrow> end_write w' t = Inr t' \<Longrightarrow> tape_run w t' cs k"
| reject: "tape_run w t cs k \<Longrightarrow> PartyFilterActive (CONFIG w) \<Longrightarrow> tape_run w (pop_chunk (start_rejecting t)) cs k"
| ask: "tape_run w t cs k \<Longrightarrow>
    tape_run w (snd (IsReadyForBatchProcessing t)) cs (if fst (IsReadyForBatchProcessing t) then Suc k else k)"

section \<open>What events leave alone\<close>

definition tape_core :: "AudioTape \<Rightarrow> StateEnum \<times> AudioChunk list \<times> int \<times> int \<times> u32 \<times> int \<times> int \<times> TapeFile option \<times> bool" where
  "tape_core t = (m_state t, m_tapeQueue t, m_pushCount t, m_popCount t, m_queuedBytes t, m_numErrors t, m_bytesWritten t,
     m_audioFileRef t, m_readyForBatchProcessing t)"

lemma core_GenerateCapture [simp]: "tape_core (GenerateCaptureFilePathAndIdentifier w t) = tape_core t"
  by (simp add: GenerateCaptureFilePathAndIdentifier_def tape_core_def Let_def)

lemma core_event: "apply_event w ev t = Some t' \<Longrightarrow> tape_core t' = tape_core t"
  by (cases "ev_type ev")
    (auto simp: apply_event_def Let_def stop_event_def mark_direction_def test_party_def key_value_event_def tape_core_def
      GenerateCaptureFilePathAndIdentifier_def split: if_splits)

lemma core_AddCaptureEvent: "AddCaptureEvent w ev send t = Some t' \<Longrightarrow> tape_core t' = tape_core t"
  unfolding AddCaptureEvent_def using core_event by (fastforce simp: tape_core_def)

lemma core_SetShouldStop [simp]: "tape_core (SetShouldStop t) = tape_core t"
  by (simp add: SetShouldStop_def tape_core_def)

lemma core_PopulateTag [simp]: "tape_core (PopulateTag k v t) = tape_core t"
  by (simp add: PopulateTag_def tape_core_def)

lemma core_GetMessage [simp]: "tape_core (snd (GetMessage w b t)) = tape_core t"
  by (simp add: GetMessage_def tape_core_def Let_def split: list.split)

section \<open>The invariant\<close>

text \<open>The chunks that are written when the size of the file is limited: once it is passed, nothing more.\<close>

fun within_limit :: "int \<Rightarrow> int \<Rightarrow> AudioChunk list \<Rightarrow> AudioChunk list" where
  "within_limit kb n [] = []"
| "within_limit kb n (c # cs) = (if n div 1024 > kb then [] else c # within_limit kb (n + GetNumBytes c) cs)"

definition total_bytes :: "AudioChunk list \<Rightarrow> int" where
  "total_bytes cs = sum_list (map GetNumBytes cs)"

lemma total_bytes_simps [simp]:
  "total_bytes [] = 0" "total_bytes (c # cs) = GetNumBytes c + total_bytes cs" "total_bytes (cs @ ds) = total_bytes cs + total_bytes ds"
  by (simp_all add: total_bytes_def)

lemma within_limit_snoc:
  "within_limit kb n (cs @ [c]) =
     within_limit kb n cs @ (if (n + total_bytes (within_limit kb n cs)) div 1024 > kb then [] else [c])"
  by (induction cs arbitrary: n) (simp_all add: add.assoc)

definition kept_chunks :: "TapeWorld \<Rightarrow> AudioChunk list \<Rightarrow> AudioChunk list" where
  "kept_chunks w cs = within_limit (m_captureFileSizeLimitKb (CONFIG w)) 0 cs"

definition file_state :: "TapeWorld \<Rightarrow> AudioChunk list \<Rightarrow> StateEnum \<Rightarrow> TapeFile option \<Rightarrow> bool" where
  "file_state w popped state file \<longleftrightarrow>
     (case state of
        StateCreated \<Rightarrow> file = None \<and> popped = []
      | StateActive \<Rightarrow> (case file of None \<Rightarrow> False | Some f \<Rightarrow> tape_file w (kept_chunks w popped) f)
      | StateStopped \<Rightarrow> (case file of None \<Rightarrow> popped = [] | Some f \<Rightarrow> closed_file w (kept_chunks w popped) f)
      | _ \<Rightarrow> False)"

definition tape_inv :: "TapeWorld \<Rightarrow> AudioChunk list \<Rightarrow> AudioChunk list \<Rightarrow> AudioTape \<Rightarrow> bool" where
  "tape_inv w cs popped t \<longleftrightarrow> cs = popped @ m_tapeQueue t \<and> m_pushCount t = int (length cs) \<and> m_popCount t = int (length popped) \<and>
     m_queuedBytes t = word_of_int (total_bytes (m_tapeQueue t)) \<and> m_numErrors t = 0 \<and>
     m_bytesWritten t = total_bytes (kept_chunks w popped) \<and> file_state w popped (m_state t) (m_audioFileRef t)"

lemma tape_inv_core: "tape_core t' = tape_core t \<Longrightarrow> tape_inv w cs popped t' = tape_inv w cs popped t"
  by (simp add: tape_inv_def tape_core_def)

lemma later_healthy: "later w w' \<Longrightarrow> healthy w' = healthy w"
  by (simp add: later_def healthy_def)

lemma tape_file_later: "later w w' \<Longrightarrow> tape_file w' cs f = tape_file w cs f"
  by (cases f) (simp_all add: later_def)

lemma closed_file_later: "later w w' \<Longrightarrow> closed_file w' cs f = closed_file w cs f"
  by (cases f) (simp_all add: later_def)

lemma tape_inv_later:
  assumes "later w w'"
  shows "tape_inv w' cs popped t = tape_inv w cs popped t"
proof -
  have "kept_chunks w' = kept_chunks w" using assms by (simp add: kept_chunks_def [abs_def] later_def)
  then show ?thesis
    unfolding tape_inv_def file_state_def
    by (cases "m_state t"; cases "m_audioFileRef t") (simp_all add: tape_file_later [OF assms] closed_file_later [OF assms])
qed

section \<open>Steps\<close>

lemma inv_new: "tape_inv w [] [] (new_AudioTape w' u portId)"
proof -
  have "tape_core (new_AudioTape w' u portId) = (StateCreated, [], 0, 0, 0, 0, 0, None, False)"
    by (simp add: new_AudioTape_def) (simp add: tape_core_def blank_tape_def)
  then show ?thesis by (simp add: tape_core_def tape_inv_def file_state_def kept_chunks_def)
qed

lemma inv_add:
  assumes "tape_inv w cs popped t"
  shows "tape_inv w (cs @ (if accepts_chunk w t then [c] else [])) popped (AddAudioChunk w c t)"
  using assms by (auto simp: tape_inv_def AddAudioChunk_def accepts_chunk_def Let_def)

lemma pop_chunk_simps [simp]:
  "m_tapeQueue t = c # q \<Longrightarrow> pop_chunk t =
     t\<lparr>m_tapeQueue := q, m_popCount := m_popCount t + 1, m_queuedBytes := m_queuedBytes t - word_of_int (GetNumBytes c)\<rparr>"
  by (simp add: pop_chunk_def)

text \<open>Opening the file with the first chunk.\<close>

lemma open_tape_file_ok:
  assumes "healthy w"
  shows "\<exists>t' f. open_tape_file w c t = (t', None) \<and> tape_file w [] f \<and>
     tape_core t' = tape_core (t\<lparr>m_state := StateActive, m_audioFileRef := Some f\<rparr>)"
proof -
  obtain f where f: "AudioFile_Open w (m_audioOutputPathMcf (CONFIG w) @ ''/'' @ m_filePath t @ m_fileIdentifier t) WRITE
      (sint (AudioChunkDetails.m_sampleRate (m_details c))) (new_tape_file c) = (f, None)" "tape_file w [] f"
    using AudioFile_open [OF assms, of "m_audioOutputPathMcf (CONFIG w) @ ''/'' @ m_filePath t @ m_fileIdentifier t"] by auto
  have "m_storageAudioFormat (CONFIG w) \<noteq> FfNative \<Longrightarrow> \<exists>ext. FileFormatGetExtension (m_storageAudioFormat (CONFIG w)) = Inr ext"
    using assms by (cases "m_storageAudioFormat (CONFIG w)") (auto simp: FileFormatGetExtension_def healthy_def)
  with f show ?thesis by (auto simp: open_tape_file_def Let_def tape_core_def)
qed

lemma store_chunk_ok:
  assumes "healthy w" "recordable c" "m_state t = StateActive" "m_audioFileRef t = Some f" "tape_file w written f"
  shows "\<exists>t'. store_chunk w c t = Inr (t', None) \<and>
     (if over_size_limit w t then tape_core t' = tape_core t
      else \<exists>f'. t' = t\<lparr>m_audioFileRef := Some f', m_bytesWritten := m_bytesWritten t + GetNumBytes c\<rparr> \<and> tape_file w (written @ [c]) f')"
  using AudioFile_write [OF assms(1,5,2)] assms(3,4) by (auto simp: store_chunk_def tape_core_def)

lemma kept_snoc:
  "kept_chunks w (popped @ [c]) = kept_chunks w popped @
     (if total_bytes (kept_chunks w popped) div 1024 > m_captureFileSizeLimitKb (CONFIG w) then [] else [c])"
  by (simp add: kept_chunks_def within_limit_snoc)

lemma inv_active:
  assumes "healthy w" "recordable c" "tape_inv w cs popped t" "m_tapeQueue t = c # q" "m_state t = StateActive"
    and t1: "tape_core t1 = tape_core (pop_chunk t)"
  shows "\<exists>t'. store_chunk w c t1 = Inr (t', None) \<and> tape_inv w cs (popped @ [c]) t' \<and> m_state t' = StateActive"
proof -
  from assms(3,5) obtain f where f: "m_audioFileRef t = Some f" "tape_file w (kept_chunks w popped) f"
    by (auto simp: tape_inv_def file_state_def split: option.splits)
  have popped: "cs = (popped @ [c]) @ m_tapeQueue t1" "m_pushCount t1 = int (length cs)" "m_popCount t1 = int (length (popped @ [c]))"
    "m_queuedBytes t1 = word_of_int (total_bytes (m_tapeQueue t1))" "m_numErrors t1 = 0" "m_state t1 = StateActive"
    "m_audioFileRef t1 = Some f" "m_bytesWritten t1 = total_bytes (kept_chunks w popped)"
    using assms(3-5) f t1 by (simp_all add: tape_inv_def tape_core_def)
  show ?thesis
  proof (cases "over_size_limit w t1")
    case True
    then obtain t' where t': "store_chunk w c t1 = Inr (t', None)" "tape_core t' = tape_core t1"
      using store_chunk_ok [OF assms(1,2) popped(6,7) f(2)] by auto
    have "tape_inv w cs (popped @ [c]) t1"
      using popped f True by (simp add: tape_inv_def file_state_def kept_snoc over_size_limit_def)
    then show ?thesis using t' tape_inv_core [of t' t1] popped(6) by (auto simp: tape_core_def)
  next
    case False
    then obtain f' where f': "store_chunk w c t1 = Inr (t1\<lparr>m_audioFileRef := Some f', m_bytesWritten := m_bytesWritten t1 + GetNumBytes c\<rparr>, None)"
      "tape_file w (kept_chunks w popped @ [c]) f'"
      using store_chunk_ok [OF assms(1,2) popped(6,7) f(2)] by auto
    have "tape_inv w cs (popped @ [c]) (t1\<lparr>m_audioFileRef := Some f', m_bytesWritten := m_bytesWritten t1 + GetNumBytes c\<rparr>)"
      using popped f' False by (simp add: tape_inv_def file_state_def kept_snoc over_size_limit_def)
    then show ?thesis using f' popped(6) by auto
  qed
qed

lemma inv_write_chunk:
  assumes "healthy w" "recordable c" "tape_inv w cs popped t" "m_tapeQueue t = c # q" "m_state t \<in> {StateCreated, StateActive}"
  shows "\<exists>t'. write_chunk w c (pop_chunk t) = Inr t' \<and> tape_inv w cs (popped @ [c]) t' \<and> m_state t' = StateActive"
proof (cases "m_state t = StateActive")
  case True
  from inv_active [OF assms(1-4) True refl] show ?thesis using True assms(4) by (auto simp: write_chunk_def)
next
  case False
  then have created: "m_state t = StateCreated" using assms(5) by simp
  then have start: "popped = []" "m_audioFileRef t = None" using assms(3) by (simp_all add: tape_inv_def file_state_def)
  obtain t1 f where t1: "open_tape_file w c (pop_chunk t) = (t1, None)" "tape_file w [] f"
    "tape_core t1 = tape_core ((pop_chunk t)\<lparr>m_state := StateActive, m_audioFileRef := Some f\<rparr>)"
    using open_tape_file_ok [OF assms(1)] by metis
  let ?t = "t\<lparr>m_state := StateActive, m_audioFileRef := Some f\<rparr>"
  have "tape_inv w cs popped ?t" using assms(3) start t1(2) by (simp add: tape_inv_def file_state_def kept_chunks_def)
  moreover have "tape_core t1 = tape_core (pop_chunk ?t)" using t1(3) assms(4) by (simp add: tape_core_def)
  ultimately have "\<exists>t2. store_chunk w c t1 = Inr (t2, None) \<and> tape_inv w cs (popped @ [c]) t2 \<and> m_state t2 = StateActive"
    using inv_active [OF assms(1,2), of cs popped ?t q t1] assms(4) by simp
  then show ?thesis using t1(1) created assms(4) by (auto simp: write_chunk_def)
qed

lemma inv_round:
  assumes "healthy w" "list_all recordable cs" "tape_inv w cs popped t"
  shows "\<exists>t' popped'. write_round w t = Inr t' \<and> tape_inv w cs popped' t'"
proof (cases "m_state t \<in> {StateStopped, StateError} \<or> m_tapeQueue t = []")
  case True
  then show ?thesis using assms(3) by (auto simp: write_round_def)
next
  case False
  then obtain c q where q: "m_tapeQueue t = c # q" by (cases "m_tapeQueue t") auto
  have "recordable c" using assms(2,3) q by (simp add: tape_inv_def)
  moreover have "m_state t \<in> {StateCreated, StateActive}"
    using assms(3) False by (cases "m_state t") (auto simp: tape_inv_def file_state_def)
  ultimately show ?thesis
    using inv_write_chunk [OF assms(1) _ assms(3) q] q False by (auto simp: write_round_def)
qed

lemma inv_end:
  assumes "healthy w" "tape_inv w cs popped t"
  shows "\<exists>t'. end_write w t = Inr t' \<and> tape_inv w cs popped t'"
proof (cases "(m_shouldStop t \<and> m_state t \<noteq> StateStopped) \<or> m_state t = StateError")
  case True
  then have state: "m_state t \<noteq> StateStopped" by auto
  show ?thesis
  proof (cases "m_audioFileRef t")
    case None
    then show ?thesis using True assms(2) state
      by (cases "m_state t") (auto simp: end_write_def Let_def tape_inv_def file_state_def)
  next
    case (Some f)
    then have "tape_file w (kept_chunks w popped) f"
      using assms(2) state by (cases "m_state t") (auto simp: tape_inv_def file_state_def)
    from AudioFile_close [OF assms(1) this] Some True show ?thesis
      using assms(2) by (auto simp: end_write_def Let_def tape_inv_def file_state_def)
  qed
qed (use assms(2) in \<open>auto simp: end_write_def\<close>)

lemma inv_ask: "tape_inv w cs popped (snd (IsReadyForBatchProcessing t)) = tape_inv w cs popped t"
  by (simp add: IsReadyForBatchProcessing_def tape_inv_def)

lemma run_inv:
  assumes "tape_run w t cs k" "healthy w" "\<not> PartyFilterActive (CONFIG w)" "list_all recordable cs"
  shows "\<exists>popped. tape_inv w cs popped t"
  using assms(1,4)
proof induction
  case (create w' u portId)
  then show ?case using inv_new by blast
next
  case (add t cs k c)
  then have "list_all recordable cs" by auto
  then show ?case using add.IH inv_add by blast
next
  case (event t cs k w' ev send t')
  then show ?case using tape_inv_core core_AddCaptureEvent by blast
next
  case (round t cs k w' t')
  then obtain popped where "tape_inv w' cs popped t" using tape_inv_later by blast
  then show ?case using inv_round [of w' cs popped t] round later_healthy tape_inv_later assms(2) by fastforce
next
  case (finish t cs k w' t')
  then obtain popped where "tape_inv w' cs popped t" using tape_inv_later by blast
  then show ?case using inv_end [of w' cs popped t] finish later_healthy tape_inv_later assms(2) by fastforce
next
  case (ask t cs k)
  then show ?case using inv_ask by blast
qed (use assms(3) in \<open>auto simp: tape_inv_core [OF core_SetShouldStop] tape_inv_core [OF core_PopulateTag] tape_inv_core [OF core_GetMessage]\<close>)

section \<open>Writing without interference\<close>

lemma inv_rounds:
  "healthy w \<Longrightarrow> list_all recordable cs \<Longrightarrow> tape_inv w cs popped t \<Longrightarrow> m_state t \<in> {StateCreated, StateActive} \<Longrightarrow>
     \<exists>t'. write_rounds w (length (m_tapeQueue t)) t = Inr t' \<and> tape_inv w cs cs t' \<and> m_tapeQueue t' = [] \<and>
       m_state t' \<in> {StateCreated, StateActive}"
proof (induction "m_tapeQueue t" arbitrary: t popped)
  case Nil
  then have "popped = cs" by (simp add: tape_inv_def)
  then show ?case using Nil by auto
next
  case (Cons c q)
  then have q: "m_tapeQueue t = c # q" by simp
  have "recordable c" using Cons.prems(2,3) q by (simp add: tape_inv_def)
  then obtain t1 where t1: "write_chunk w c (pop_chunk t) = Inr t1" "tape_inv w cs (popped @ [c]) t1" "m_state t1 = StateActive"
    using inv_write_chunk [OF Cons.prems(1) _ Cons.prems(3) q Cons.prems(4)] by auto
  have "q = m_tapeQueue t1" using t1(2) Cons.prems(3) q by (simp add: tape_inv_def)
  with Cons.hyps(1) [of t1 "popped @ [c]"] Cons.prems t1 q show ?case by (auto simp: write_round_def)
qed

lemma rounds_stopped: "m_state t \<in> {StateStopped, StateError} \<Longrightarrow> write_rounds w n t = Inr t"
  by (induction n) (auto simp: write_round_def)

lemma Write_ok:
  assumes "healthy w" "\<not> PartyFilterActive (CONFIG w)" "list_all recordable cs" "tape_inv w cs popped t"
  shows "\<exists>t'. AudioTape_Write w t = Inr t' \<and> (m_state t \<noteq> StateStopped \<longrightarrow> m_tapeQueue t' = [] \<and> tape_inv w cs cs t')"
proof (cases "m_state t = StateStopped")
  case True
  then show ?thesis
    using inv_end [OF assms(1,4)] assms(2) by (auto simp: AudioTape_Write_def rejected_by_filter_def rounds_stopped)
next
  case False
  then have "m_state t \<in> {StateCreated, StateActive}"
    using assms(4) by (cases "m_state t") (auto simp: tape_inv_def file_state_def)
  then obtain t1 where t1: "write_rounds w (length (m_tapeQueue t)) t = Inr t1" "tape_inv w cs cs t1"
    using inv_rounds [OF assms(1,3,4)] by auto
  obtain t' where t': "end_write w t1 = Inr t'" "tape_inv w cs cs t'" using inv_end [OF assms(1) t1(2)] by auto
  then have "m_tapeQueue t' = []" by (simp add: tape_inv_def)
  then show ?thesis using t1 t' assms(2) by (auto simp: AudioTape_Write_def rejected_by_filter_def)
qed

section \<open>Properties\<close>

text \<open>C9: While the disk and the sound library open every file and take all that is written (\<open>healthy\<close>), no party filter is active
  (with one, \<open>late_party_reachable\<close> is a fault) and the chunks have a buffer of their size (\<open>recordable\<close>), a tape loses no
  audio: in every state that any interleaving of the capture thread and the writer thread reaches, the accepted chunks
  are those popped by the writer followed by the queue; the writer met no error; the file holds the popped chunks in
  order, up to the configured size limit, also after it was closed; and a whole call of \<open>Write\<close> returns and, unless the
  tape was stopped before, leaves nothing in the queue.\<close>

theorem tape_loses_nothing:
  assumes "healthy w" "\<not> PartyFilterActive (CONFIG w)" "tape_run w t cs k" "list_all recordable cs"
  shows "(\<exists>popped. cs = popped @ m_tapeQueue t \<and> m_numErrors t = 0 \<and> m_bytesWritten t = total_bytes (kept_chunks w popped) \<and>
       file_state w popped (m_state t) (m_audioFileRef t)) \<and>
     (\<forall>w'. later w w' \<longrightarrow> (\<exists>t'. AudioTape_Write w' t = Inr t' \<and> (m_state t \<noteq> StateStopped \<longrightarrow> m_tapeQueue t' = [])))"
proof (intro conjI allI impI)
  obtain popped where inv: "tape_inv w cs popped t" using run_inv [OF assms(3,1,2,4)] by auto
  then show "\<exists>popped. cs = popped @ m_tapeQueue t \<and> m_numErrors t = 0 \<and> m_bytesWritten t = total_bytes (kept_chunks w popped) \<and>
       file_state w popped (m_state t) (m_audioFileRef t)" unfolding tape_inv_def by blast
  fix w' assume later: "later w w'"
  then have "healthy w'" "\<not> PartyFilterActive (CONFIG w')" "tape_inv w' cs popped t"
    using assms(1,2) inv by (simp_all add: later_healthy tape_inv_later) (simp add: later_def)
  then show "\<exists>t'. AudioTape_Write w' t = Inr t' \<and> (m_state t \<noteq> StateStopped \<longrightarrow> m_tapeQueue t' = [])"
    using Write_ok assms(4) by blast
qed

definition sample_tape_config :: TapeConfig where
  "sample_tape_config = \<lparr>TapeConfig.m_audioOutputPath = ''/audio'', m_audioOutputPathMcf = ''/capture'', m_captureFileSizeLimitKb = 300000,
     m_storageAudioFormat = FfGsm, m_audioKeepDirectionDefault = ''both'', m_audioKeepDirectionIncomingDefault = ''both'',
     m_audioKeepDirectionOutgoingDefault = ''both'', m_remotePartyMaxDigits = 0, m_partyFilter = [], m_partyFilterMap = [],
     TapeConfig.m_dtmfReportingDetailed = False, m_dynamicTags = [], m_tagsListUseInitialValue = [],
     m_directionForceOutgoingForRemotePartyPrefix = [], m_directionForceOutgoingForRemotePartyMinLength = 11, m_tapeFileNaming = [],
     m_tapePathNaming = [], m_hostnameReportFqdn = False\<rparr>"

definition sample_tape_world :: TapeWorld where
  "sample_tape_world = \<lparr>aw_files = sample_disk,
     aw_sounds = \<lparr>sf_format_check = (\<lambda>_ _ _. True), sf_opens = (\<lambda>_. True), sf_samples = (\<lambda>_. []),
       sf_store = (\<lambda>old item. (old @ [item], sf_count item)), m_tapeNumChannels = 2\<rparr>,
     CONFIG = sample_tape_config, tw_now = 1000,
     tw_local_time = (\<lambda>_. \<lparr>tm_year = 125, tm_mon = 0, tm_mday = 2, tm_hour = 3, tm_min = 4, tm_sec = 5\<rparr>),
     tw_existing = [], tw_hostname = ''host'', tw_fqdn = ''host.example'', tw_service = ''orkaudio'', tw_capture_host = ''host''\<rparr>"

lemma sample_world_healthy: "healthy sample_tape_world" "\<not> PartyFilterActive (CONFIG sample_tape_world)"
  by (simp_all add: healthy_def stores_all_def sample_tape_world_def sample_disk_def sample_tape_config_def PartyFilterActive_def)

lemma new_tape_accepts: "accepts_chunk sample_tape_world (new_AudioTape w u portId)"
proof -
  have "tape_core (new_AudioTape w u portId) = (StateCreated, [], 0, 0, 0, 0, 0, None, False)"
    by (simp add: new_AudioTape_def) (simp add: tape_core_def blank_tape_def)
  then show ?thesis by (simp add: tape_core_def accepts_chunk_def queue_limit_def sample_tape_world_def sample_disk_def)
qed

theorem tape_loses_nothing_witness:
  "\<exists>t'. AudioTape_Write sample_tape_world
     (AddAudioChunk sample_tape_world (sample_chunk [1, 2, 3]) (new_AudioTape sample_tape_world undefined ''port'')) = Inr t' \<and>
     m_tapeQueue t' = []"
proof -
  let ?new = "new_AudioTape sample_tape_world undefined ''port''" and ?c = "sample_chunk [1, 2, 3]"
  have later: "later sample_tape_world sample_tape_world" by (simp add: later_def)
  have run: "tape_run sample_tape_world (AddAudioChunk sample_tape_world ?c ?new) [?c] 0"
    using tape_run.add [OF tape_run.create [OF later, of undefined "''port''"], of ?c] new_tape_accepts by simp
  have "list_all recordable [?c]"
    by (simp add: recordable_def sample_chunk_def details_Clear_def)
  moreover have "tape_core ?new = (StateCreated, [], 0, 0, 0, 0, 0, None, False)"
    by (simp add: new_AudioTape_def) (simp add: tape_core_def blank_tape_def)
  then have "m_state (AddAudioChunk sample_tape_world ?c ?new) \<noteq> StateStopped"
    by (simp add: AddAudioChunk_def tape_core_def Let_def)
  ultimately show ?thesis
    using tape_loses_nothing [OF sample_world_healthy run] later by blast
qed

section \<open>Batch processing\<close>

definition batch_inv :: "AudioTape \<Rightarrow> nat \<Rightarrow> bool" where
  "batch_inv t k \<longleftrightarrow> m_state t \<in> {StateCreated, StateActive, StateStopped} \<and> (m_audioFileRef t = None \<longrightarrow> m_bytesWritten t = 0) \<and>
     k + (if m_readyForBatchProcessing t then 1 else 0) = (if m_state t = StateStopped \<and> m_bytesWritten t > 0 then 1 else 0)"

lemma batch_inv_core: "tape_core t' = tape_core t \<Longrightarrow> batch_inv t' k = batch_inv t k"
  by (simp add: batch_inv_def tape_core_def)

lemma open_tape_file_batch:
  "open_tape_file w c t = (t', e) \<Longrightarrow> m_state t' = StateActive \<and> m_audioFileRef t' \<noteq> None \<and>
     m_bytesWritten t' = m_bytesWritten t \<and> m_readyForBatchProcessing t' = m_readyForBatchProcessing t"
  by (auto simp: open_tape_file_def Let_def split: prod.splits option.splits if_splits sum.splits fault.splits)

lemma store_chunk_batch:
  assumes "store_chunk w c t = Inr (t', e)"
  shows "m_state t' = m_state t \<and> m_readyForBatchProcessing t' = m_readyForBatchProcessing t \<and>
     (m_audioFileRef t = None \<longrightarrow> m_bytesWritten t' = m_bytesWritten t) \<and> (m_audioFileRef t' = None) = (m_audioFileRef t = None)"
proof -
  consider "m_state t \<noteq> StateActive" | "m_state t = StateActive" "over_size_limit w t"
    | "m_state t = StateActive" "\<not> over_size_limit w t" by blast
  then show ?thesis
  proof cases
    case 3
    then obtain f f' where "m_audioFileRef t = Some f" "t' = (if e = None
        then t\<lparr>m_audioFileRef := Some f', m_bytesWritten := m_bytesWritten t + GetNumBytes c\<rparr> else t\<lparr>m_audioFileRef := Some f'\<rparr>)"
      using assms by (auto simp: store_chunk_def andThen_eq_Inr_iff split: option.splits)
    then show ?thesis by (cases "e = None") simp_all
  qed (use assms in \<open>auto simp: store_chunk_def split: if_splits\<close>)
qed

lemma write_chunk_batch:
  assumes "write_chunk w c t = Inr t'" "batch_inv t k" "m_state t \<noteq> StateStopped"
  shows "batch_inv t' k"
proof -
  obtain t1 e1 where start: "(if m_state t = StateCreated then open_tape_file w c t else (t, None)) = (t1, e1)" by fastforce
  then have t1: "batch_inv t1 k \<and> m_state t1 \<noteq> StateStopped"
    using assms(2,3) open_tape_file_batch [of w c t t1 e1] by (auto simp: batch_inv_def split: if_splits)
  obtain t2 e where t2: "(case e1 of Some e \<Rightarrow> Inr (t1, Some e) | None \<Rightarrow> store_chunk w c t1) = Inr (t2, e)"
    "t' = (if e \<noteq> None then t2\<lparr>m_numErrors := m_numErrors t2 + 1\<rparr> else t2)"
    using assms(1) start by (auto simp: write_chunk_def andThen_eq_Inr_iff split: option.splits)
  have "batch_inv t2 k"
    using t1 t2(1) store_chunk_batch [of w c t1 t2 e] by (auto simp: batch_inv_def split: option.splits)
  moreover have "batch_inv (t2\<lparr>m_numErrors := n\<rparr>) k = batch_inv t2 k" for n by (simp add: batch_inv_def)
  ultimately show ?thesis by (simp add: t2(2))
qed

lemma end_write_batch:
  assumes "end_write w t = Inr t'" "batch_inv t k"
  shows "batch_inv t' k"
proof (cases "m_shouldStop t \<and> m_state t \<noteq> StateStopped")
  case True
  show ?thesis
  proof (cases "m_audioFileRef t")
    case None
    then have "t' = t\<lparr>m_state := StateStopped\<rparr>" using assms(1) True by (simp add: end_write_def Let_def)
    then show ?thesis using assms(2) None True by (simp add: batch_inv_def split: if_splits)
  next
    case (Some f)
    then obtain f' where "t' = t\<lparr>m_state := StateStopped, m_audioFileRef := Some f',
        m_readyForBatchProcessing := (if m_bytesWritten t > 0 then True else m_readyForBatchProcessing t)\<rparr>"
      using assms(1) True by (cases "AudioFile_Close w f"; cases "0 < m_bytesWritten t") (auto simp: end_write_def Let_def)
    then show ?thesis using assms(2) Some True by (simp add: batch_inv_def split: if_splits)
  qed
next
  case False
  moreover have "m_state t \<noteq> StateError" using assms(2) by (auto simp: batch_inv_def)
  ultimately show ?thesis using assms by (auto simp: end_write_def)
qed

lemma pop_chunk_batch: "batch_inv (pop_chunk t) k = batch_inv t k"
  by (cases "m_tapeQueue t") (simp_all add: pop_chunk_def batch_inv_def)

lemma round_batch:
  assumes "write_round w t = Inr t'" "batch_inv t k"
  shows "batch_inv t' k"
proof (cases "m_state t \<in> {StateStopped, StateError} \<or> m_tapeQueue t = []")
  case True
  then have "write_round w t = Inr t" by (cases "m_tapeQueue t") (auto simp: write_round_def)
  then show ?thesis using assms by simp
next
  case False
  then obtain c q where "m_tapeQueue t = c # q" by (cases "m_tapeQueue t") auto
  with False assms(1) have "write_chunk w c (pop_chunk t) = Inr t'" "m_state (pop_chunk t) \<noteq> StateStopped"
    by (auto simp: write_round_def)
  then show ?thesis using write_chunk_batch pop_chunk_batch assms(2) by blast
qed

lemma run_batch: "tape_run w t cs k \<Longrightarrow> batch_inv t k"
proof (induction rule: tape_run.induct)
  case (create w' u portId)
  have "tape_core (new_AudioTape w' u portId) = (StateCreated, [], 0, 0, 0, 0, 0, None, False)"
    by (simp add: new_AudioTape_def) (simp add: tape_core_def blank_tape_def)
  then show ?case by (simp add: tape_core_def batch_inv_def)
next
  case (add t cs k c)
  have "m_state (AddAudioChunk w c t) = m_state t" "m_audioFileRef (AddAudioChunk w c t) = m_audioFileRef t"
    "m_bytesWritten (AddAudioChunk w c t) = m_bytesWritten t"
    "m_readyForBatchProcessing (AddAudioChunk w c t) = m_readyForBatchProcessing t"
    by (simp_all add: AddAudioChunk_def Let_def)
  then show ?case using add.IH by (simp add: batch_inv_def)
next
  case (event t cs k w' ev send t')
  then show ?case using batch_inv_core core_AddCaptureEvent by blast
next
  case (reject t cs k)
  then have "batch_inv (start_rejecting t) k" by (cases "m_state t = StateCreated") (simp_all add: start_rejecting_def batch_inv_def)
  then show ?case by (simp add: pop_chunk_batch)
next
  case (ask t cs k)
  then show ?case
    by (cases "m_readyForBatchProcessing t"; cases "m_state t = StateStopped \<and> 0 < m_bytesWritten t")
      (simp_all add: IsReadyForBatchProcessing_def batch_inv_def)
qed (auto simp: batch_inv_core [OF core_SetShouldStop] batch_inv_core [OF core_PopulateTag] batch_inv_core [OF core_GetMessage]
    intro: round_batch end_write_batch)

text \<open>C11: A recording goes to the batch processing exactly once: in every reachable state, whatever the party filter and
  however files fail, the number of times that the question whether the tape is ready was answered with yes, plus one if
  it would be answered so now, is 1 if the tape is stopped and has written audio and 0 otherwise.\<close>

theorem tape_ready_once:
  assumes "tape_run w t cs k"
  shows "k + (if fst (IsReadyForBatchProcessing t) then 1 else 0) = (if IsStoppedAndValid t \<and> m_bytesWritten t > 0 then 1 else 0)"
  using run_batch [OF assms]
  by (cases "m_readyForBatchProcessing t") (simp_all add: batch_inv_def IsReadyForBatchProcessing_def IsStoppedAndValid_def)

theorem tape_ready_once_witness:
  "\<not> fst (IsReadyForBatchProcessing (new_AudioTape sample_tape_world undefined ''port''))"
proof -
  have "tape_run sample_tape_world (new_AudioTape sample_tape_world undefined ''port'') [] 0"
    by (rule tape_run.create) (simp add: later_def)
  moreover have "m_state (new_AudioTape sample_tape_world undefined ''port'') = StateCreated"
    by (simp add: new_AudioTape_def GenerateCaptureFilePathAndIdentifier_def Let_def)
  ultimately show ?thesis
    using tape_ready_once [of sample_tape_world "new_AudioTape sample_tape_world undefined ''port''" "[]" 0]
    by (simp add: IsStoppedAndValid_def split: if_splits)
qed

section \<open>Parties\<close>

lemma party_filter_map_sorted: "map_sorted (party_filter_map chars with')"
proof -
  have "map_sorted m \<Longrightarrow> map_sorted (fold (\<lambda>i. map_insert (chars ! i) (f i)) is m)" for f m and "is" :: "nat list"
    by (induction "is" arbitrary: m) (auto simp: map_sorted_insert)
  from this [OF map_sorted_Nil, of "\<lambda>i. if i < length with' then with' ! i else CHR ''?''" "[0..<length chars]"]
  show ?thesis by (simp only: party_filter_map_def)
qed

lemma apply_event_returns:
  assumes "no_self (m_partyFilterMap (CONFIG w))"
  shows "\<exists>t'. apply_event w ev t = Some t' \<and> (ev_type ev = EtRemoteParty \<longrightarrow>
     m_remoteParty t' = fold (\<lambda>(c, d). replaced c d) (m_partyFilterMap (CONFIG w)) (ev_value ev))"
  by (cases "ev_type ev") (simp_all add: apply_event_def Let_def replace_party_chars_ends [OF assms])

text \<open>C13: Every capture event is handled in finite time exactly when no filtered character is configured to be replaced with
  itself (other than \<open>?\<close>, which removes it): otherwise an event with that character in a party never returns. When
  events return, a reported party is stored with all filtered characters replaced or removed, one after the other.\<close>

theorem events_return_iff:
  assumes "m_partyFilterMap (CONFIG w) = party_filter_map chars with'"
  shows "if no_self (party_filter_map chars with')
     then \<forall>ev send t. \<exists>t'. AddCaptureEvent w ev send t = Some t' \<and> (ev_type ev = EtRemoteParty \<longrightarrow>
            m_remoteParty t' = fold (\<lambda>(c, d). replaced c d) (party_filter_map chars with') (ev_value ev))
     else \<exists>ev. \<forall>send t. AddCaptureEvent w ev send t = None"
proof (cases "no_self (party_filter_map chars with')")
  case True
  have "\<exists>t'. AddCaptureEvent w ev send t = Some t' \<and> (ev_type ev = EtRemoteParty \<longrightarrow>
      m_remoteParty t' = fold (\<lambda>(c, d). replaced c d) (party_filter_map chars with') (ev_value ev))" for ev send t
  proof -
    obtain t1 where "apply_event w ev t = Some t1" "ev_type ev = EtRemoteParty \<longrightarrow>
        m_remoteParty t1 = fold (\<lambda>(c, d). replaced c d) (party_filter_map chars with') (ev_value ev)"
      using apply_event_returns [of w ev t] True by (auto simp: assms)
    then show ?thesis by (cases send) (simp_all add: AddCaptureEvent_def)
  qed
  then show ?thesis using True by simp
next
  case False
  let ?m = "party_filter_map chars with'"
  obtain c where c: "(c, c) \<in> set ?m" "c \<noteq> CHR ''?''" using False by (auto simp: no_self_def list_all_iff)
  have "distinct (map fst ?m)" using party_filter_map_sorted [of chars with'] by (simp add: map_sorted_def strict_sorted_iff)
  then have "replace_party_chars ?m [c] = None" using c by (rule replace_party_chars_hangs)
  then have "AddCaptureEvent w (new_CaptureEvent EtRemoteParty [] [c] 0) send t = None" for send t
    by (simp add: AddCaptureEvent_def apply_event_def new_CaptureEvent_def assms)
  then show ?thesis using False by auto
qed

theorem events_return_iff_witness:
  "\<exists>ev. \<forall>send t. AddCaptureEvent (sample_tape_world\<lparr>CONFIG := sample_tape_config\<lparr>m_partyFilterMap := party_filter_map ''+-'' ''+''\<rparr>\<rparr>) ev send t = None"
proof -
  have "\<not> no_self (party_filter_map ''+-'' ''+'')" by code_simp
  then show ?thesis
    using events_return_iff [of "sample_tape_world\<lparr>CONFIG := sample_tape_config\<lparr>m_partyFilterMap := party_filter_map ''+-'' ''+''\<rparr>\<rparr>" "''+-''" "''+''"]
    by simp
qed

section \<open>Examples\<close>

text \<open>The identifier that avoids a collision is not checked against the existing files itself.\<close>

lemma collision_not_prevented:
  "PreventFileIdentifierCollision (sample_tape_world\<lparr>tw_existing := [''/a.wav'', ''/a-1.wav'', ''/a-9.wav'']\<rparr>) ''9'' ''/'' ''a'' ''.wav'' = ''a-9''"
proof -
  let ?w = "sample_tape_world\<lparr>tw_existing := [''/a.wav'', ''/a-1.wav'', ''/a-9.wav'']\<rparr>"
  have "free_index ?w ''/'' ''a'' ''.wav'' 1 \<ge> 1" if "free_index ?w ''/'' ''a'' ''.wav'' 1 \<ge> 1" using that .
  have "i \<le> free_index ?w ''/'' ''a'' ''.wav'' i" for i
    by (induction ?w "''/''" "''a''" "''.wav''" i rule: free_index.induct) (subst free_index.simps, force)
  then have "free_index ?w ''/'' ''a'' ''.wav'' 1 \<noteq> 0" by (metis not_one_le_zero)
  then show ?thesis by (simp add: PreventFileIdentifierCollision_def collision_index_def FileCanOpen_def)
qed

lemma late_party_crashes:
  assumes "m_state t = StateActive" "m_audioFileRef t = None" "m_tapeQueue t = [c]" "m_bytesWritten t = 0"
    and "m_passedPartyFilterTest t" "0 \<le> m_captureFileSizeLimitKb (CONFIG w)"
  shows "AudioTape_Write w t = Inl NullDereference"
  using assms by (simp add: AudioTape_Write_def rejected_by_filter_def write_round_def write_chunk_def store_chunk_def over_size_limit_def)

text \<open>C12: The party filter can crash the writer: when the first party of a call does not pass the filter and the writer has
  dropped its first chunk, the tape is active without a file; when a later party passes and another chunk arrives, the
  next call of \<open>Write\<close> dereferences the null file.\<close>

theorem late_party_reachable:
  assumes "PartyFilterActive (CONFIG w)" "PartyFilterMatches (CONFIG w) party" "no_self (m_partyFilterMap (CONFIG w))"
    and "0 < queue_limit w" "0 \<le> m_captureFileSizeLimitKb (CONFIG w)"
  shows "\<exists>t. tape_run w t [c, c] 0 \<and> AudioTape_Write w t = Inl NullDereference"
proof -
  let ?t0 = "new_AudioTape w undefined ''port''" and ?ev = "new_CaptureEvent EtRemoteParty [] party 0"
  have later: "later w w" by (simp add: later_def)
  have core0: "tape_core ?t0 = (StateCreated, [], 0, 0, 0, 0, 0, None, False)"
    by (simp add: new_AudioTape_def) (simp add: tape_core_def blank_tape_def)
  let ?t1 = "AddAudioChunk w c ?t0"
  have "accepts_chunk w ?t0" using core0 assms(4) by (simp add: accepts_chunk_def tape_core_def)
  then have run1: "tape_run w ?t1 [c] 0"
    using tape_run.add [OF tape_run.create [OF later, of undefined "''port''"], of c] by simp
  have core1: "m_state ?t1 = StateCreated" "m_tapeQueue ?t1 = [c]" "m_queuedBytes ?t1 = word_of_int (GetNumBytes c)"
    "m_audioFileRef ?t1 = None" "m_bytesWritten ?t1 = 0"
    using core0 assms(4) word_gt_0 [of "queue_limit w"] by (simp_all add: AddAudioChunk_def tape_core_def Let_def)
  let ?t2 = "pop_chunk (start_rejecting ?t1)"
  have run2: "tape_run w ?t2 [c] 0" using run1 assms(1) by (rule tape_run.reject)
  have core2: "m_state ?t2 = StateActive" "m_tapeQueue ?t2 = []" "m_queuedBytes ?t2 = 0" "m_audioFileRef ?t2 = None" "m_bytesWritten ?t2 = 0"
    using core1 by (simp_all add: start_rejecting_def)
  obtain t3 where t3: "AddCaptureEvent w ?ev True ?t2 = Some t3" "m_passedPartyFilterTest t3"
    using replace_party_chars_ends [OF assms(3)] assms(1,2)
    by (auto simp: AddCaptureEvent_def apply_event_def new_CaptureEvent_def test_party_def rejected_by_filter_def)
  have run3: "tape_run w t3 [c] 0" using run2 later t3(1) by (rule tape_run.event)
  have core3: "tape_core t3 = tape_core ?t2" by (rule core_AddCaptureEvent [OF t3(1)])
  let ?t4 = "AddAudioChunk w c t3"
  have "accepts_chunk w t3" using core2 core3 assms(4) by (simp add: accepts_chunk_def tape_core_def)
  then have "tape_run w ?t4 [c, c] 0" using tape_run.add [OF run3, of c] by simp
  moreover have "m_state ?t4 = StateActive" "m_audioFileRef ?t4 = None" "m_tapeQueue ?t4 = [c]" "m_bytesWritten ?t4 = 0"
    "m_passedPartyFilterTest ?t4"
    using core2 core3 assms(4) t3(2) word_gt_0 [of "queue_limit w"] by (simp_all add: AddAudioChunk_def tape_core_def Let_def)
  ultimately show ?thesis using late_party_crashes assms(5) by blast
qed

theorem late_party_reachable_witness:
  "\<exists>w t. m_partyFilter (CONFIG w) = [''100-199''] \<and> tape_run w t [sample_chunk [7], sample_chunk [7]] 0 \<and>
     AudioTape_Write w t = Inl NullDereference"
proof -
  let ?w = "sample_tape_world\<lparr>CONFIG := sample_tape_config\<lparr>m_partyFilter := [''100-199'']\<rparr>\<rparr>"
  have "PartyFilterMatches (CONFIG ?w) ''123''"
    by (simp add: PartyFilterMatches_def party_pattern_matches_def StringToInt_def strtol_def c_str_def trim_left_def is_space_def
      is_digit_def code_of_def digits_value_def digit_value_def Let_def sample_tape_config_def)
  moreover have "PartyFilterActive (CONFIG ?w)" "no_self (m_partyFilterMap (CONFIG ?w))" "0 \<le> m_captureFileSizeLimitKb (CONFIG ?w)"
    "m_partyFilter (CONFIG ?w) = [''100-199'']"
    by (simp_all add: PartyFilterActive_def no_self_def sample_tape_config_def)
  moreover have "0 < queue_limit ?w" by (simp add: queue_limit_def sample_tape_world_def sample_disk_def)
  ultimately show ?thesis using late_party_reachable [of ?w "''123''" "sample_chunk [7]"] by blast
qed

text \<open>Numbers are compared as 32-bit integers, so a ten-digit party matches no range around it.\<close>

lemma ten_digit_range: "\<not> PartyFilterMatches (sample_tape_config\<lparr>m_partyFilter := [''5551230000-5551239999'']\<rparr>) ''5551234567''"
  by (simp add: PartyFilterMatches_def party_pattern_matches_def StringToInt_def strtol_def c_str_def trim_left_def is_space_def
    is_digit_def code_of_def digits_value_def digit_value_def Let_def sample_tape_config_def)

end
