(* ===== verification/RtpMixer.thy ===== *)
theory RtpMixer
  imports AudioChunk
begin

text \<open>
  The RTP mixer filter of \<open>orkaudio/filters/rtpmixer/RtpMixer.cpp\<close>: the circular sample buffer, the
  timestamp correction of the two (or more) sides of a call, mixing with saturation, and the
  shipments it queues. Pointers into \<open>m_buffer\<close> are offsets from its start; the \<open>double\<close>s of the
  code only ever hold differences of 32-bit unsigned integers, which a double represents exactly,
  and are \<open>int\<close>s. \<open>(unsigned int)\<close> of a double is taken modulo \<open>2^32\<close>. Logging is left out.
  \<open>CONFIG.m_tapeNumChannels\<close> is the parameter \<open>tapeNumChannels\<close>.
\<close>

section \<open>State\<close>

definition NUM_SAMPLES_CIRCULAR_BUFFER :: int where
  "NUM_SAMPLES_CIRCULAR_BUFFER = 16000"

definition NUM_SAMPLES_TRIGGER :: int where
  "NUM_SAMPLES_TRIGGER = 12000"

definition NUM_SAMPLES_SHIPMENT_HOLDOFF :: int where
  "NUM_SAMPLES_SHIPMENT_HOLDOFF = 11000"

text \<open>The four counters that \<open>DoStats\<close> takes by reference.\<close>

record SeqStats =
  seqNumMisses :: int
  seqMaxGap :: int
  seqNumOutOfOrder :: int
  seqNumDiscontinuities :: int

definition no_stats :: SeqStats where
  "no_stats = \<lparr>seqNumMisses = 0, seqMaxGap = 0, seqNumOutOfOrder = 0, seqNumDiscontinuities = 0\<rparr>"

record RtpMixerChannel =
  ch_channel :: int
  ch_timestampCorrectiveDelta :: int
  ch_buffer :: "u16 list"
  ch_lastChunk :: "AudioChunk option"
  ch_stats :: SeqStats
  ch_lastTimestamp :: u32

record RtpMixer =
  m_numOutputChannels :: int
  m_outputQueue :: "AudioChunk list"
  m_writePtr :: int
  m_readPtr :: int
  m_readTimestamp :: u32
  m_writeTimestamp :: u32
  m_buffer :: "u16 list"
  m_shippedSamples :: u32
  m_timestampCorrectiveDelta :: int
  m_invalidChannelReported :: bool
  m_numProcessedSamples :: u64
  m_error :: bool
  m_oneS1PacketState :: bool
  m_lastTimestampS1 :: u32
  m_lastTimestampS2 :: u32
  m_lastChunkS1 :: "AudioChunk option"
  m_lastChunkS2 :: "AudioChunk option"
  m_statsS1 :: SeqStats
  m_statsS2 :: SeqStats
  m_numSampleTrigger :: int
  m_NumSampleShipmentHoldoff :: int
  m_numInputChannels :: int
  m_rtpMixerChannels :: "RtpMixerChannel list"
  m_toLog :: bool

definition silent_buffer :: "u16 list" where
  "silent_buffer = replicate (nat NUM_SAMPLES_CIRCULAR_BUFFER) 0"

definition new_RtpMixerChannel :: RtpMixerChannel where
  "new_RtpMixerChannel = \<lparr>ch_channel = 0, ch_timestampCorrectiveDelta = 0, ch_buffer = silent_buffer,
     ch_lastChunk = None, ch_stats = no_stats, ch_lastTimestamp = 0\<rparr>"

text \<open>
  The constructor. It does not initialise \<open>m_buffer\<close>, \<open>m_lastTimestampS1\<close> and \<open>m_lastTimestampS2\<close>;
  the memory found there is the argument \<open>mem\<close> and the two timestamps \<open>t1\<close>, \<open>t2\<close>.
\<close>

definition new_RtpMixer :: "u16 list \<Rightarrow> u32 \<Rightarrow> u32 \<Rightarrow> RtpMixer" where
  "new_RtpMixer mem t1 t2 = \<lparr>m_numOutputChannels = 1, m_outputQueue = [], m_writePtr = 0, m_readPtr = 0,
     m_readTimestamp = 0, m_writeTimestamp = 0, m_buffer = mem, m_shippedSamples = 0,
     m_timestampCorrectiveDelta = 0, m_invalidChannelReported = False, m_numProcessedSamples = 0,
     m_error = False, m_oneS1PacketState = False, m_lastTimestampS1 = t1, m_lastTimestampS2 = t2,
     m_lastChunkS1 = None, m_lastChunkS2 = None, m_statsS1 = no_stats, m_statsS2 = no_stats,
     m_numSampleTrigger = NUM_SAMPLES_TRIGGER,
     m_NumSampleShipmentHoldoff = NUM_SAMPLES_SHIPMENT_HOLDOFF, m_numInputChannels = 0,
     m_rtpMixerChannels = [], m_toLog = True\<rparr>"

definition SetNumOutputChannels :: "int \<Rightarrow> RtpMixer \<Rightarrow> RtpMixer" where
  "SetNumOutputChannels numChan s = s\<lparr>m_numOutputChannels := numChan\<rparr>"

definition Configure :: "int \<Rightarrow> int \<Rightarrow> RtpMixer \<Rightarrow> RtpMixer" where
  "Configure param1 param2 s = s\<lparr>m_numSampleTrigger := param1, m_NumSampleShipmentHoldoff := param2\<rparr>"

text \<open>\<open>for(; i < channelNumber; i++)\<close> from \<open>i = m_numInputChannels\<close>.\<close>

fun create_channels_loop :: "nat \<Rightarrow> RtpMixer \<Rightarrow> RtpMixer" where
  "create_channels_loop 0 s = s"
| "create_channels_loop (Suc n) s = create_channels_loop n
     (s\<lparr>m_rtpMixerChannels := m_rtpMixerChannels s @
            [new_RtpMixerChannel\<lparr>ch_channel := m_numInputChannels s + 1\<rparr>],
        m_numInputChannels := m_numInputChannels s + 1\<rparr>)"

definition CreateChannels :: "int \<Rightarrow> int \<Rightarrow> RtpMixer \<Rightarrow> RtpMixer" where
  "CreateChannels tapeNumChannels channelNumber s =
     (if m_numOutputChannels s = 1 then s
      else if tapeNumChannels \<le> 1 then s
      else if channelNumber \<le> m_numInputChannels s then s
      else create_channels_loop (nat (channelNumber - m_numInputChannels s)) s)"

section \<open>Statistics\<close>

definition DoStats :: "AudioChunkDetails \<Rightarrow> AudioChunkDetails \<Rightarrow> SeqStats \<Rightarrow> SeqStats" where
  "DoStats details lastDetails st =
     (let seqNumDelta = uint (m_sequenceNumber details) - uint (m_sequenceNumber lastDetails);
          timestampDelta = uint (m_timestamp details) - uint (m_timestamp lastDetails)
      in if \<bar>seqNumDelta\<bar> > 1000 \<and> \<bar>timestampDelta\<bar> > 160000
         then st\<lparr>seqNumDiscontinuities := seqNumDiscontinuities st + 1\<rparr>
         else
           (let st1 = (if seqNumDelta > seqMaxGap st
                       then st\<lparr>seqMaxGap := sint (word_of_int seqNumDelta :: u32)\<rparr> else st);
                st2 = (if seqNumDelta < 0
                       then st1\<lparr>seqNumOutOfOrder := seqNumOutOfOrder st1 + 1\<rparr> else st1)
            in if seqNumDelta \<noteq> 1 \<and> m_sequenceNumber details \<noteq> 1
               then st2\<lparr>seqNumMisses := seqNumMisses st2 + 1\<rparr> else st2))"

section \<open>The circular buffer\<close>

definition CircularPointerAddOffset :: "int \<Rightarrow> int \<Rightarrow> int" where
  "CircularPointerAddOffset ptr offset =
     (if ptr + offset \<ge> NUM_SAMPLES_CIRCULAR_BUFFER
      then offset - (NUM_SAMPLES_CIRCULAR_BUFFER - ptr) else ptr + offset)"

definition CicularPointerSubtractOffset :: "int \<Rightarrow> int \<Rightarrow> int" where
  "CicularPointerSubtractOffset ptr offset =
     (if ptr - offset < 0 then NUM_SAMPLES_CIRCULAR_BUFFER - offset + ptr else ptr - offset)"

definition UsedSpace :: "RtpMixer \<Rightarrow> u32" where
  "UsedSpace s =
     (if m_writePtr s \<ge> m_readPtr s then word_of_int (m_writePtr s - m_readPtr s)
      else word_of_int (NUM_SAMPLES_CIRCULAR_BUFFER + m_writePtr s - m_readPtr s))"

definition FreeSpace :: "RtpMixer \<Rightarrow> u32" where
  "FreeSpace s = word_of_int NUM_SAMPLES_CIRCULAR_BUFFER - UsedSpace s"

definition Reset :: "u32 \<Rightarrow> RtpMixer \<Rightarrow> RtpMixer" where
  "Reset timestamp s = s\<lparr>m_writePtr := 0, m_readPtr := 0, m_writeTimestamp := timestamp,
     m_readTimestamp := timestamp\<rparr>"

text \<open>Addition of two samples with saturation.\<close>

definition mix_sample :: "u16 \<Rightarrow> u16 \<Rightarrow> u16" where
  "mix_sample a b =
     (let sample = sint a + sint b;
          sample = (if sample > 32767 then 32767 else sample);
          sample = (if sample < - 32768 then - 32768 else sample)
      in word_of_int sample)"

text \<open>\<open>m_rtpMixerChannels[x]->m_buffer[ptr] = v\<close>.\<close>

definition write_channel :: "int \<Rightarrow> int \<Rightarrow> u16 \<Rightarrow> RtpMixerChannel list \<Rightarrow> RtpMixerChannel list result" where
  "write_channel x ptr v chans =
     andThen (peek chans x) (\<lambda>ch.
     andThen (poke (ch_buffer ch) ptr v) (\<lambda>buf.
     poke chans x (ch\<lparr>ch_buffer := buf\<rparr>)))"

text \<open>Zero the sample at \<open>ptr\<close> of the channels \<open>x, x + 1, \<dots>\<close>, \<open>n\<close> of them.\<close>

fun zero_channels :: "nat \<Rightarrow> int \<Rightarrow> int \<Rightarrow> RtpMixerChannel list \<Rightarrow> RtpMixerChannel list result" where
  "zero_channels 0 x ptr chans = Inr chans"
| "zero_channels (Suc n) x ptr chans =
     andThen (write_channel x ptr 0 chans) (zero_channels n (x + 1) ptr)"

fun zero_loop :: "nat \<Rightarrow> RtpMixer \<Rightarrow> RtpMixer result" where
  "zero_loop 0 s = Inr s"
| "zero_loop (Suc n) s =
     andThen (poke (m_buffer s) (m_writePtr s) 0) (\<lambda>buf.
     andThen (zero_channels (nat (m_numInputChannels s)) 0 (m_writePtr s) (m_rtpMixerChannels s)) (\<lambda>chans.
     zero_loop n (s\<lparr>m_buffer := buf, m_rtpMixerChannels := chans,
        m_writePtr := (if m_writePtr s + 1 \<ge> NUM_SAMPLES_CIRCULAR_BUFFER then 0 else m_writePtr s + 1)\<rparr>)))"

text \<open>The mixing loop: \<open>n\<close> more samples, the next is \<open>payload[i]\<close>, to be added at \<open>tempWritePtr\<close>.\<close>

fun mix_loop :: "nat \<Rightarrow> int \<Rightarrow> u16 list option \<Rightarrow> int option \<Rightarrow> int \<Rightarrow> RtpMixer \<Rightarrow> RtpMixer result" where
  "mix_loop 0 i payload myChannel tempWritePtr s = Inr s"
| "mix_loop (Suc n) i payload myChannel tempWritePtr s =
     andThen (peek (m_buffer s) tempWritePtr) (\<lambda>old.
     andThen (case payload of None \<Rightarrow> Inl NullDereference | Some p \<Rightarrow> peek p i) (\<lambda>v.
     andThen (poke (m_buffer s) tempWritePtr (mix_sample old v)) (\<lambda>buf.
     andThen (case myChannel of None \<Rightarrow> Inr (m_rtpMixerChannels s)
              | Some x \<Rightarrow> write_channel x tempWritePtr v (m_rtpMixerChannels s)) (\<lambda>chans.
     mix_loop n (i + 1) payload myChannel
       (if tempWritePtr + 1 \<ge> NUM_SAMPLES_CIRCULAR_BUFFER then 0 else tempWritePtr + 1)
       (s\<lparr>m_buffer := buf, m_rtpMixerChannels := chans\<rparr>)))))"

definition StoreRtpPacket :: "AudioChunk \<Rightarrow> u32 \<Rightarrow> RtpMixer \<Rightarrow> RtpMixer result" where
  "StoreRtpPacket audioChunk correctedTimestamp s =
     andThen (if m_numInputChannels s \<noteq> 0
              then (let x = uint (m_channel (m_details audioChunk)) - 1
                    in andThen (peek (m_rtpMixerChannels s) x) (\<lambda>_. Inr (Some x)))
              else Inr None) (\<lambda>myChannel.
     andThen (GetNumSamples audioChunk) (\<lambda>numSamples.
     let endRtpTimestamp64 = (uint correctedTimestamp + numSamples) mod 2 ^ 64 in
     if endRtpTimestamp64 \<ge> 4294967296 then Inr s
     else let endRtpTimestamp = (word_of_int endRtpTimestamp64 :: u32);
              silenceSize = uint endRtpTimestamp - uint (m_writeTimestamp s) in
     if silenceSize \<ge> NUM_SAMPLES_CIRCULAR_BUFFER then Inr (s\<lparr>m_toLog := False\<rparr>)
     else andThen (if silenceSize > 0
                   then andThen (zero_loop (nat silenceSize) s) (\<lambda>s1.
                        Inr (s1\<lparr>m_writeTimestamp := endRtpTimestamp\<rparr>))
                   else Inr s) (\<lambda>s1.
          let timestampDelta = uint (m_writeTimestamp s1) - uint correctedTimestamp in
          if timestampDelta < 0 \<or> timestampDelta \<ge> NUM_SAMPLES_CIRCULAR_BUFFER
          then Inr (s1\<lparr>m_toLog := False\<rparr>)
          else mix_loop (nat numSamples) 0 (map_option shorts_of_bytes (m_pBuffer audioChunk)) myChannel
                 (CicularPointerSubtractOffset (m_writePtr s1) timestampDelta) s1)))"

section \<open>Shipments\<close>

definition CheckChunkDetails :: "AudioChunkDetails \<Rightarrow> RtpMixer \<Rightarrow> bool \<times> RtpMixer" where
  "CheckChunkDetails details s =
     (if uint (m_numBytes details) > 100000 then (False, s\<lparr>m_error := True\<rparr>)
      else if m_numBytes details = 0 then (False, s)
      else (True, s))"

text \<open>Add \<open>m_buffer[p], m_buffer[p + 1], \<dots>\<close> of a channel to the samples mixed so far.\<close>

fun add_channel :: "u16 list \<Rightarrow> int \<Rightarrow> u16 list \<Rightarrow> u16 list result" where
  "add_channel buf p [] = Inr []"
| "add_channel buf p (a # as) =
     andThen (peek buf p) (\<lambda>v.
     andThen (add_channel buf (p + 1) as) (\<lambda>rest. Inr (mix_sample a v # rest)))"

text \<open>
  The loop over the input channels: channel number \<open>i + 1\<close> is mixed into \<open>tapeChannels[0]\<close> when
  even, into \<open>tapeChannels[1]\<close> when odd.
\<close>

fun mix_channels ::
  "nat \<Rightarrow> int \<Rightarrow> RtpMixerChannel list \<Rightarrow> int \<Rightarrow> u16 list \<times> u16 list \<Rightarrow> (u16 list \<times> u16 list) result" where
  "mix_channels 0 i chans p tape = Inr tape"
| "mix_channels (Suc n) i chans p tape =
     andThen (peek chans i) (\<lambda>ch.
     andThen (if (i + 1) mod 2 = 0
              then andThen (add_channel (ch_buffer ch) p (fst tape)) (\<lambda>t. Inr (t, snd tape))
              else andThen (add_channel (ch_buffer ch) p (snd tape)) (\<lambda>t. Inr (fst tape, t))) (\<lambda>tape'.
     mix_channels n (i + 1) chans p tape'))"

text \<open>The loop that zeroes output channels \<open>i + 1, i + 2, \<dots>\<close>, \<open>n\<close> of them.\<close>

fun silent_channels :: "nat \<Rightarrow> int \<Rightarrow> AudioChunkDetails \<Rightarrow> u16 list \<Rightarrow> AudioChunk \<Rightarrow> AudioChunk result" where
  "silent_channels 0 i details zeros chunk = Inr chunk"
| "silent_channels (Suc n) i details zeros chunk =
     andThen (SetBuffer_chan (Some (bytes_of_shorts zeros)) details (i + 1) chunk)
       (silent_channels n (i + 1) details zeros)"

text \<open>The memory a pointer into \<open>m_buffer\<close> can be read from.\<close>

definition mem_at :: "u16 list \<Rightarrow> int \<Rightarrow> u8 list result" where
  "mem_at buf p = (if 0 \<le> p \<and> nat p \<le> length buf then Inr (bytes_of_shorts (drop (nat p) buf))
     else Inl OutOfBounds)"

definition HandleMixedOutput ::
  "int \<Rightarrow> AudioChunk \<Rightarrow> AudioChunkDetails \<Rightarrow> int \<Rightarrow> RtpMixer \<Rightarrow> AudioChunk result" where
  "HandleMixedOutput tapeNumChannels chunk details readPtr s =
     (if m_numOutputChannels s = 1 then Inr chunk
      else if tapeNumChannels \<le> 1 then Inr chunk
      else
        andThen (if tapeNumChannels \<noteq> m_numInputChannels s
                 then andThen (mem_at (m_buffer s) readPtr) (\<lambda>src.
                      SetBuffer (Some src) details (new_AudioChunk_channels tapeNumChannels))
                 else Inr chunk) (\<lambda>chunk1.
        let zeros = replicate (unat (m_numBytes details) div 2) 0 in
        andThen (mix_channels (nat (m_numInputChannels s)) 0 (m_rtpMixerChannels s) readPtr (zeros, zeros)) (\<lambda>tape.
        andThen (SetBuffer_chan (Some (bytes_of_shorts (fst tape))) details 1 chunk1) (\<lambda>chunk2.
        andThen (SetBuffer_chan (Some (bytes_of_shorts (snd tape))) details 2 chunk2) (\<lambda>chunk3.
        silent_channels (nat (tapeNumChannels - 2)) 2 details zeros chunk3)))))"

text \<open>
  One block of \<open>CreateShipment\<close>: ship \<open>shortSize\<close> samples from \<open>fromPtr\<close> and advance the read
  pointer. The code has it twice, from \<open>m_readPtr\<close> and then from the start of the buffer.
\<close>

definition ship_block :: "int \<Rightarrow> int \<Rightarrow> int \<Rightarrow> RtpMixer \<Rightarrow> RtpMixer result" where
  "ship_block tapeNumChannels fromPtr shortSize s =
     (let chunk = (if m_numInputChannels s \<noteq> 0 then new_AudioChunk_channels (m_numInputChannels s)
                   else new_AudioChunk);
          details0 = (if m_numInputChannels s \<noteq> 0 then details_Clear\<lparr>m_channel := 100\<rparr> else details_Clear);
          details = details0\<lparr>m_encoding := PcmAudio, m_numBytes := word_of_int (shortSize * 2)\<rparr>;
          (good, s1) = CheckChunkDetails details s
      in andThen (if good
                  then andThen (mem_at (m_buffer s1) fromPtr) (\<lambda>src.
                       andThen (SetBuffer (Some src) details chunk) (\<lambda>chunk1.
                       andThen (if m_numOutputChannels s1 = 2
                                then HandleMixedOutput tapeNumChannels chunk1 details fromPtr s1
                                else Inr chunk1) (\<lambda>chunk2.
                       Inr (s1\<lparr>m_outputQueue := m_outputQueue s1 @ [chunk2]\<rparr>))))
                  else Inr s1) (\<lambda>s2.
         Inr (s2\<lparr>m_shippedSamples := m_shippedSamples s2 + word_of_int shortSize,
                 m_readPtr := CircularPointerAddOffset (m_readPtr s2) shortSize,
                 m_readTimestamp := m_readTimestamp s2 + word_of_int shortSize\<rparr>)))"

text \<open>Step 3 of \<open>CreateShipment\<close>: ship silence.\<close>

definition ship_silence :: "int \<Rightarrow> int \<Rightarrow> RtpMixer \<Rightarrow> RtpMixer result" where
  "ship_silence tapeNumChannels silenceSize s =
     (let multi = (m_numOutputChannels s = 2 \<and> tapeNumChannels > 1);
          chunk = (if multi then new_AudioChunk_channels tapeNumChannels else new_AudioChunk);
          details0 = (if multi then details_Clear\<lparr>m_channel := 100\<rparr> else details_Clear);
          details = details0\<lparr>m_encoding := PcmAudio, m_numBytes := word_of_int (silenceSize * 2)\<rparr>;
          (good, s1) = CheckChunkDetails details s
      in andThen (if good
                  then andThen (CreateBuffer details chunk) (\<lambda>chunk1.
                       Inr (s1\<lparr>m_outputQueue := m_outputQueue s1 @ [chunk1]\<rparr>))
                  else Inr s1) (\<lambda>s2.
         Inr (s2\<lparr>m_shippedSamples := m_shippedSamples s2 + word_of_int silenceSize,
                 m_readPtr := CircularPointerAddOffset (m_readPtr s2) silenceSize,
                 m_readTimestamp := m_readTimestamp s2 + word_of_int silenceSize\<rparr>)))"

definition CreateShipment :: "int \<Rightarrow> int \<Rightarrow> bool \<Rightarrow> RtpMixer \<Rightarrow> RtpMixer result" where
  "CreateShipment tapeNumChannels silenceSize force s =
     (let stopPtr = (if silenceSize \<noteq> 0 \<or> force then m_writePtr s
                     else CicularPointerSubtractOffset (m_writePtr s) (m_NumSampleShipmentHoldoff s));
          bufferWrapped = (stopPtr < m_readPtr s);
          wrappedStopPtr = stopPtr;
          stopPtr = (if bufferWrapped then NUM_SAMPLES_CIRCULAR_BUFFER else stopPtr)
      in andThen (ship_block tapeNumChannels (m_readPtr s) (stopPtr - m_readPtr s) s) (\<lambda>s1.
         andThen (if bufferWrapped then ship_block tapeNumChannels 0 wrappedStopPtr s1 else Inr s1) (\<lambda>s2.
         if silenceSize \<noteq> 0 then ship_silence tapeNumChannels silenceSize s2 else Inr s2)))"

definition AudioChunkOut :: "RtpMixer \<Rightarrow> AudioChunk option \<times> RtpMixer" where
  "AudioChunkOut s =
     (case m_outputQueue s of
        c # q \<Rightarrow> (Some c, s\<lparr>m_outputQueue := q\<rparr>)
      | [] \<Rightarrow> (None, s))"

section \<open>Input\<close>

definition ManageOutOfRangeTimestamp :: "int \<Rightarrow> AudioChunk \<Rightarrow> RtpMixer \<Rightarrow> RtpMixer result" where
  "ManageOutOfRangeTimestamp tapeNumChannels chunk s =
     (let details = m_details chunk;
          delta = uint (m_timestamp details) - uint (m_writeTimestamp s)
      in if m_channel details = 1
         then andThen (CreateShipment tapeNumChannels 0 True s) (\<lambda>s1.
              andThen (StoreRtpPacket chunk (m_timestamp details) (Reset (m_timestamp details) s1)) (\<lambda>s2.
              Inr (s2\<lparr>m_timestampCorrectiveDelta := 0\<rparr>)))
         else if m_channel details = 2
         then Inr (s\<lparr>m_timestampCorrectiveDelta := delta\<rparr>)
         else if m_numInputChannels s \<noteq> 0
         then (let chanIdx = uint (m_channel details) - 1
               in andThen (peek (m_rtpMixerChannels s) chanIdx) (\<lambda>ch.
                  andThen (poke (m_rtpMixerChannels s) chanIdx (ch\<lparr>ch_timestampCorrectiveDelta := delta\<rparr>)) (\<lambda>chans.
                  Inr (s\<lparr>m_rtpMixerChannels := chans\<rparr>))))
         else Inr s)"

text \<open>
  The statistics of \<open>m_rtpMixerChannels[chanIdx]\<close>, when there are channels: \<open>details\<close> are those of
  the chunk before its timestamp is corrected; the channel then refers to the chunk, whose
  details are \<open>chunk\<close> once \<open>AudioChunkIn\<close> is done with it.
\<close>

definition channel_stats :: "int \<Rightarrow> AudioChunkDetails \<Rightarrow> AudioChunk \<Rightarrow> RtpMixer \<Rightarrow> RtpMixer result" where
  "channel_stats chanIdx details chunk s =
     (if m_numInputChannels s = 0 then Inr s
      else andThen (peek (m_rtpMixerChannels s) chanIdx) (\<lambda>ch.
           let ch1 = (case ch_lastChunk ch of
                        None \<Rightarrow> ch
                      | Some lastChunk \<Rightarrow>
                          ch\<lparr>ch_stats := DoStats details (m_details lastChunk) (ch_stats ch)\<rparr>)
           in andThen (poke (m_rtpMixerChannels s) chanIdx (ch1\<lparr>ch_lastChunk := Some chunk\<rparr>)) (\<lambda>chans.
              Inr (s\<lparr>m_rtpMixerChannels := chans\<rparr>))))"

definition set_timestamp :: "u32 \<Rightarrow> AudioChunk \<Rightarrow> AudioChunk" where
  "set_timestamp t c = c\<lparr>m_details := (m_details c)\<lparr>m_timestamp := t\<rparr>\<rparr>"

text \<open>
  Correction of user agents that count in milliseconds: the new timestamp of the chunk and of
  \<open>m_lastTimestamp\<close>, given the previous chunk of the side.
\<close>

definition rogue_correction :: "u32 \<Rightarrow> AudioChunk option \<Rightarrow> AudioChunk \<Rightarrow> AudioChunk \<times> u32" where
  "rogue_correction lastTimestamp lastChunk chunk =
     (let ts = m_timestamp (m_details chunk)
      in case lastChunk of
           Some c \<Rightarrow> if ts - lastTimestamp = 20
                     then (set_timestamp (m_timestamp (m_details c) + 160) chunk, ts)
                     else (chunk, lastTimestamp)
         | None \<Rightarrow> (chunk, ts))"

definition apply_delta :: "u32 \<Rightarrow> int \<Rightarrow> u32" where
  "apply_delta ts delta = (let tmp = uint ts - delta in if tmp < 0 then ts else word_of_int tmp)"

definition input_side1 :: "AudioChunk \<Rightarrow> RtpMixer \<Rightarrow> (RtpMixer \<times> AudioChunk \<times> u32) result" where
  "input_side1 chunk s =
     (let details = m_details chunk;
          (chunk1, lastTs) = rogue_correction (m_lastTimestampS1 s) (m_lastChunkS1 s) chunk;
          stats = (case m_lastChunkS1 s of None \<Rightarrow> m_statsS1 s
                   | Some c \<Rightarrow> DoStats details (m_details c) (m_statsS1 s))
      in andThen (channel_stats 0 details chunk1 s) (\<lambda>s1.
         andThen (GetNumSamples chunk1) (\<lambda>numSamples.
         Inr (s1\<lparr>m_statsS1 := stats, m_lastTimestampS1 := lastTs, m_lastChunkS1 := Some chunk1,
                 m_numProcessedSamples := m_numProcessedSamples s1 + word_of_int numSamples\<rparr>,
              chunk1, m_timestamp (m_details chunk1)))))"

definition input_side2 :: "AudioChunk \<Rightarrow> RtpMixer \<Rightarrow> (RtpMixer \<times> AudioChunk \<times> u32) result" where
  "input_side2 chunk s =
     (let details = m_details chunk;
          (chunk1, lastTs) = rogue_correction (m_lastTimestampS2 s) (m_lastChunkS2 s) chunk;
          stats = (case m_lastChunkS2 s of None \<Rightarrow> m_statsS2 s
                   | Some c \<Rightarrow> DoStats details (m_details c) (m_statsS2 s));
          ts = m_timestamp (m_details chunk1);
          newDelta = uint ts - uint (m_writeTimestamp s);
          delta = (if m_oneS1PacketState s then newDelta
                   else if m_timestampCorrectiveDelta s = 0 \<and> m_writeTimestamp s \<noteq> 0 then newDelta
                   else m_timestampCorrectiveDelta s)
      in andThen (channel_stats 1 details chunk1 s) (\<lambda>s1.
         Inr (s1\<lparr>m_statsS2 := stats, m_lastTimestampS2 := lastTs, m_lastChunkS2 := Some chunk1,
                 m_timestampCorrectiveDelta := delta, m_oneS1PacketState := False\<rparr>,
              chunk1, apply_delta ts delta)))"

definition input_sideN :: "AudioChunk \<Rightarrow> RtpMixer \<Rightarrow> (RtpMixer \<times> AudioChunk \<times> u32) result" where
  "input_sideN chunk s =
     (if m_numInputChannels s = 0 then Inr (s\<lparr>m_invalidChannelReported := True\<rparr>, chunk, 0)
      else (let details = m_details chunk;
                chanIdx = uint (m_channel details) - 1
            in andThen (peek (m_rtpMixerChannels s) chanIdx) (\<lambda>ch.
               let (chunk1, lastTs) = rogue_correction (ch_lastTimestamp ch) (ch_lastChunk ch) chunk
               in andThen (channel_stats chanIdx details chunk1
                             (s\<lparr>m_rtpMixerChannels := (m_rtpMixerChannels s)[nat chanIdx := ch\<lparr>ch_lastTimestamp := lastTs\<rparr>]\<rparr>)) (\<lambda>s1.
                  Inr (s1, chunk1, apply_delta (m_timestamp (m_details chunk1)) (ch_timestampCorrectiveDelta ch))))))"

text \<open>The second half of \<open>AudioChunkIn\<close>, from \<open>rtpEndTimestamp\<close> on.\<close>

definition place_chunk :: "int \<Rightarrow> AudioChunk \<Rightarrow> u32 \<Rightarrow> RtpMixer \<Rightarrow> RtpMixer result" where
  "place_chunk tapeNumChannels chunk correctedTimestamp s =
     andThen (GetNumSamples chunk) (\<lambda>numSamples.
     let rtpEndTimestamp = correctedTimestamp + word_of_int numSamples in
     if m_writeTimestamp s = 0
     then (if m_channel (m_details chunk) = 1
           then StoreRtpPacket chunk correctedTimestamp
                  (s\<lparr>m_writeTimestamp := correctedTimestamp, m_readTimestamp := correctedTimestamp,
                     m_oneS1PacketState := True\<rparr>)
           else Inr s)
     else if correctedTimestamp \<ge> m_readTimestamp s
     then (if sint (rtpEndTimestamp - m_writeTimestamp s) \<le> sint (FreeSpace s) \<and>
              sint (m_writeTimestamp s - correctedTimestamp) \<le> sint (UsedSpace s)
           then andThen (StoreRtpPacket chunk correctedTimestamp s) (\<lambda>s1.
                if UsedSpace s1 > word_of_int (m_numSampleTrigger s1)
                then CreateShipment tapeNumChannels 0 False s1 else Inr s1)
           else ManageOutOfRangeTimestamp tapeNumChannels chunk s)
     else ManageOutOfRangeTimestamp tapeNumChannels chunk s)"

text \<open>
  \<open>AudioChunkIn\<close> takes the chunk by reference and may change its timestamp; the chunk it leaves is
  the second result.
\<close>

definition AudioChunkIn ::
  "int \<Rightarrow> AudioChunk option \<Rightarrow> RtpMixer \<Rightarrow> (RtpMixer \<times> AudioChunk option) result" where
  "AudioChunkIn tapeNumChannels chunkRef s =
     (if m_error s then Inr (s, chunkRef)
      else case chunkRef of
        None \<Rightarrow> Inr (s, None)
      | Some chunk \<Rightarrow>
          let details = m_details chunk in
          if m_marker details = MEDIA_CHUNK_EOS_MARKER
          then andThen (CreateShipment tapeNumChannels 0 True s) (\<lambda>s1. Inr (s1, Some chunk))
          else andThen (GetNumSamples chunk) (\<lambda>numSamples.
          if numSamples = 0 then Inr (s, Some chunk)
          else if GetNumBytes chunk > 100000 then Inr (s\<lparr>m_error := True\<rparr>, Some chunk)
          else if m_encoding details \<noteq> PcmAudio
          then Inl (Thrown ''RtpMixer input audio must be PCM !'')
          else let s1 = (if m_numOutputChannels s = 2
                         then CreateChannels tapeNumChannels (uint (m_channel details)) s else s) in
          andThen (if m_channel details = 1 then input_side1 chunk s1
                   else if m_channel details = 2 then input_side2 chunk s1
                   else input_sideN chunk s1) (\<lambda>(s2, chunk1, correctedTimestamp).
          andThen (place_chunk tapeNumChannels chunk1 correctedTimestamp s2) (\<lambda>s3.
          Inr (s3, Some chunk1)))))"

end
