(* ===== verification/RtpMixerBuffer.thy ===== *)
theory RtpMixerBuffer
  imports RtpMixer
begin

text \<open>
  The loops of the RTP mixer over its circular buffer, reduced to one pure function: \<open>circ_run f vs p\<close>
  combines the values \<open>vs\<close> with the cells \<open>p, p + 1, \<dots>\<close> modulo the buffer size. The lemmas say what
  every cell holds afterwards and that the loops of the model, with their bounds checks, compute it.
\<close>

section \<open>Circular arithmetic\<close>

definition NB :: nat where
  "NB = 16000"

lemma NB_int: "NUM_SAMPLES_CIRCULAR_BUFFER = int NB"
  by (simp add: NB_def NUM_SAMPLES_CIRCULAR_BUFFER_def)

lemma NB_pos [simp]: "0 < NB"
  by (simp add: NB_def)

definition circ :: "nat \<Rightarrow> nat" where
  "circ i = (if NB \<le> i then i - NB else i)"

definition circ_dist :: "nat \<Rightarrow> nat \<Rightarrow> nat" where
  "circ_dist p k = (if p \<le> k then k - p else k + NB - p)"

lemma circ_less: "i < 2 * NB \<Longrightarrow> circ i < NB"
  by (auto simp: circ_def)

lemma circ_less_NB: "p < NB \<Longrightarrow> i < NB \<Longrightarrow> circ (p + i) < NB"
  by (auto simp: circ_def)

lemma circ_dist_less: "p < NB \<Longrightarrow> k < NB \<Longrightarrow> circ_dist p k < NB"
  by (auto simp: circ_dist_def)

lemma circ_dist_circ: "p < NB \<Longrightarrow> i < NB \<Longrightarrow> circ_dist p (circ (p + i)) = i"
  by (auto simp: circ_dist_def circ_def)

lemma circ_dist_next:
  "p < NB \<Longrightarrow> k < NB \<Longrightarrow> k \<noteq> p \<Longrightarrow> circ_dist p k = Suc (circ_dist (circ (Suc p)) k)"
  by (auto simp: circ_dist_def circ_def)

lemma circ_dist_last: "p < NB \<Longrightarrow> Suc (circ_dist (circ (Suc p)) p) = NB"
  by (auto simp: circ_dist_def circ_def)

lemma circ_circ_add: "p < NB \<Longrightarrow> i + j < NB \<Longrightarrow> circ (circ (p + i) + j) = circ (p + (i + j))"
  by (auto simp: circ_def)

section \<open>Runs over the buffer\<close>

fun circ_run :: "('a \<Rightarrow> 'b \<Rightarrow> 'a) \<Rightarrow> 'b list \<Rightarrow> nat \<Rightarrow> 'a list \<Rightarrow> 'a list" where
  "circ_run f [] p b = b"
| "circ_run f (v # vs) p b = circ_run f vs (circ (Suc p)) (b[p := f (b ! p) v])"

lemma length_circ_run [simp]: "length (circ_run f vs p b) = length b"
  by (induction vs arbitrary: p b) auto

lemma circ_run_nth:
  assumes "length b = NB" "p < NB" "k < NB" "length vs \<le> NB"
  shows "circ_run f vs p b ! k =
     (if circ_dist p k < length vs then f (b ! k) (vs ! circ_dist p k) else b ! k)"
  using assms
proof (induction vs arbitrary: p b)
  case Nil
  then show ?case by simp
next
  case (Cons v vs)
  let ?b = "b[p := f (b ! p) v]"
  have p': "circ (Suc p) < NB" using Cons.prems(2) by (auto simp: circ_def)
  have IH: "circ_run f vs (circ (Suc p)) ?b ! k =
      (if circ_dist (circ (Suc p)) k < length vs then f (?b ! k) (vs ! circ_dist (circ (Suc p)) k)
       else ?b ! k)"
    using Cons.prems p' by (intro Cons.IH) simp_all
  show ?case
  proof (cases "k = p")
    case True
    then have "\<not> circ_dist (circ (Suc p)) k < length vs"
      using circ_dist_last [of p] Cons.prems by simp
    with True IH Cons.prems show ?thesis by (simp add: circ_dist_def)
  next
    case False
    then have "circ_dist p k = Suc (circ_dist (circ (Suc p)) k)"
      using Cons.prems by (intro circ_dist_next) simp_all
    with False IH show ?thesis by simp
  qed
qed

text \<open>The run read back from an offset \<open>r\<close>: cell \<open>r + j\<close> of the circle.\<close>

lemma circ_run_nth_offset:
  assumes "length b = NB" "r < NB" "q < NB" "j < NB" "q + length vs \<le> NB"
  shows "circ_run f vs (circ (r + q)) b ! circ (r + j) =
     (if q \<le> j \<and> j < q + length vs then f (b ! circ (r + j)) (vs ! (j - q)) else b ! circ (r + j))"
proof -
  have "circ_dist (circ (r + q)) (circ (r + j)) = (if q \<le> j then j - q else j + NB - q)"
    using assms by (auto simp: circ_dist_def circ_def)
  then show ?thesis
    using assms by (auto simp: circ_run_nth circ_less_NB)
qed

section \<open>The loops of the model are runs\<close>

definition bufs_ok :: "RtpMixerChannel list \<Rightarrow> bool" where
  "bufs_ok chans \<longleftrightarrow> (\<forall>ch \<in> set chans. length (ch_buffer ch) = NB)"

definition channels_ok :: "RtpMixer \<Rightarrow> bool" where
  "channels_ok s \<longleftrightarrow> 0 \<le> m_numInputChannels s \<and>
     length (m_rtpMixerChannels s) = nat (m_numInputChannels s) \<and> bufs_ok (m_rtpMixerChannels s)"

lemma bufs_ok_Nil [simp]: "bufs_ok []"
  by (simp add: bufs_ok_def)

lemma bufs_ok_append [simp]: "bufs_ok (xs @ ys) \<longleftrightarrow> bufs_ok xs \<and> bufs_ok ys"
  by (auto simp: bufs_ok_def)

lemma bufs_ok_singleton [simp]: "bufs_ok [ch] \<longleftrightarrow> length (ch_buffer ch) = NB"
  by (simp add: bufs_ok_def)

lemma bufs_ok_nth [simp]: "bufs_ok chans \<Longrightarrow> i < length chans \<Longrightarrow> length (ch_buffer (chans ! i)) = NB"
  by (simp add: bufs_ok_def)

lemma bufs_ok_update: "bufs_ok chans \<Longrightarrow> length (ch_buffer ch) = NB \<Longrightarrow> bufs_ok (chans[i := ch])"
  unfolding bufs_ok_def by (rule ball_list_update)

lemma write_channel_ok:
  assumes "0 \<le> x" "nat x < length chans" "0 \<le> p" "nat p < NB" "bufs_ok chans"
  shows "write_channel x p v chans =
     Inr (chans[nat x := (chans ! nat x)\<lparr>ch_buffer := (ch_buffer (chans ! nat x))[nat p := v]\<rparr>])"
  using assms by (simp add: write_channel_def)

lemma write_channel_lengths:
  assumes "0 \<le> x" "nat x < length chans" "0 \<le> p" "nat p < NB" "bufs_ok chans"
  shows "\<exists>chans'. write_channel x p v chans = Inr chans' \<and> length chans' = length chans \<and> bufs_ok chans'"
  using assms by (simp add: write_channel_ok bufs_ok_update)

lemma zero_channels_lengths:
  assumes "0 \<le> x" "nat x + n \<le> length chans" "0 \<le> p" "nat p < NB" "bufs_ok chans"
  shows "\<exists>chans'. zero_channels n x p chans = Inr chans' \<and> length chans' = length chans \<and> bufs_ok chans'"
  using assms
proof (induction n arbitrary: x chans)
  case 0
  then show ?case by simp
next
  case (Suc n)
  then obtain c1 where c1: "write_channel x p 0 chans = Inr c1" "length c1 = length chans" "bufs_ok c1"
    using write_channel_lengths [of x chans p 0] by auto
  moreover have "nat (x + 1) + n \<le> length c1"
    using Suc.prems c1(2) by (simp add: nat_add_distrib)
  ultimately show ?case
    using Suc.IH [of "x + 1" c1] Suc.prems by auto
qed

lemma zero_loop_run:
  assumes "length (m_buffer s) = NB" "0 \<le> m_writePtr s" "nat (m_writePtr s) < NB" "channels_ok s" "n \<le> NB"
  shows "\<exists>chans. zero_loop n s = Inr (s\<lparr>m_buffer := circ_run (\<lambda>_ v. v) (replicate n 0) (nat (m_writePtr s)) (m_buffer s),
            m_rtpMixerChannels := chans, m_writePtr := int (circ (nat (m_writePtr s) + n))\<rparr>) \<and>
          length chans = length (m_rtpMixerChannels s) \<and> bufs_ok chans"
  using assms
proof (induction n arbitrary: s)
  case 0
  then show ?case
    by (intro exI [of _ "m_rtpMixerChannels s"]) (simp add: channels_ok_def circ_def)
next
  case (Suc n)
  let ?w = "nat (m_writePtr s)"
  obtain c1 where c1: "zero_channels (nat (m_numInputChannels s)) 0 (m_writePtr s) (m_rtpMixerChannels s) = Inr c1"
      "length c1 = length (m_rtpMixerChannels s)" "bufs_ok c1"
    using Suc.prems zero_channels_lengths [of 0 "nat (m_numInputChannels s)" "m_rtpMixerChannels s" "m_writePtr s"]
    by (auto simp: channels_ok_def)
  let ?s1 = "s\<lparr>m_buffer := (m_buffer s)[?w := 0], m_rtpMixerChannels := c1, m_writePtr := int (circ (Suc ?w))\<rparr>"
  have "(if m_writePtr s + 1 \<ge> NUM_SAMPLES_CIRCULAR_BUFFER then 0 else m_writePtr s + 1) = int (circ (Suc ?w))"
    using Suc.prems by (auto simp: NB_int circ_def)
  with Suc.prems c1 have step: "zero_loop (Suc n) s = zero_loop n ?s1"
    by simp
  have pre: "length (m_buffer ?s1) = NB" "0 \<le> m_writePtr ?s1" "nat (m_writePtr ?s1) < NB" "channels_ok ?s1" "n \<le> NB"
    using Suc.prems c1 by (auto simp: channels_ok_def circ_def)
  have "circ (circ (Suc ?w) + n) = circ (?w + Suc n)"
    using Suc.prems by (auto simp: circ_def)
  with Suc.IH [OF pre] show ?case
    unfolding step using c1(2) by simp
qed

lemma take_drop_Suc: "i < length xs \<Longrightarrow> take (Suc n) (drop i xs) = xs ! i # take n (drop (Suc i) xs)"
  by (simp add: Cons_nth_drop_Suc [symmetric])

definition channel_index_ok :: "int option \<Rightarrow> RtpMixerChannel list \<Rightarrow> bool" where
  "channel_index_ok my chans = (case my of None \<Rightarrow> True | Some x \<Rightarrow> 0 \<le> x \<and> nat x < length chans)"

lemma channel_write_lengths:
  assumes "channel_index_ok my chans" "0 \<le> p" "nat p < NB" "bufs_ok chans"
  shows "\<exists>chans'. (case my of None \<Rightarrow> Inr chans | Some x \<Rightarrow> write_channel x p v chans) = Inr chans' \<and>
     length chans' = length chans \<and> bufs_ok chans'"
  using assms write_channel_lengths [of "the my" chans p v]
  by (auto simp: channel_index_ok_def split: option.splits)

lemma mix_loop_run:
  assumes "length (m_buffer s) = NB" "0 \<le> p" "nat p < NB" "bufs_ok (m_rtpMixerChannels s)"
    and "0 \<le> i" "nat i + n \<le> length ps" "channel_index_ok my (m_rtpMixerChannels s)"
  shows "\<exists>chans. mix_loop n i (Some ps) my p s =
       Inr (s\<lparr>m_buffer := circ_run mix_sample (take n (drop (nat i) ps)) (nat p) (m_buffer s), m_rtpMixerChannels := chans\<rparr>) \<and>
     length chans = length (m_rtpMixerChannels s) \<and> bufs_ok chans"
  using assms
proof (induction n arbitrary: i p s)
  case 0
  then show ?case by (intro exI [of _ "m_rtpMixerChannels s"]) simp
next
  case (Suc n)
  let ?p = "nat p" and ?v = "ps ! nat i"
  obtain c1 where c1: "(case my of None \<Rightarrow> Inr (m_rtpMixerChannels s)
        | Some x \<Rightarrow> write_channel x p ?v (m_rtpMixerChannels s)) = Inr c1"
      "length c1 = length (m_rtpMixerChannels s)" "bufs_ok c1"
    using channel_write_lengths Suc.prems by blast
  let ?s1 = "s\<lparr>m_buffer := (m_buffer s)[?p := mix_sample (m_buffer s ! ?p) ?v], m_rtpMixerChannels := c1\<rparr>"
  have next_ptr: "(if p + 1 \<ge> NUM_SAMPLES_CIRCULAR_BUFFER then 0 else p + 1) = int (circ (Suc ?p))"
    using Suc.prems by (auto simp: NB_int circ_def)
  have step: "mix_loop (Suc n) i (Some ps) my p s = mix_loop n (i + 1) (Some ps) my (int (circ (Suc ?p))) ?s1"
    using Suc.prems c1 by (simp add: next_ptr)
  have pre: "length (m_buffer ?s1) = NB" "0 \<le> int (circ (Suc ?p))" "nat (int (circ (Suc ?p))) < NB"
      "bufs_ok (m_rtpMixerChannels ?s1)" "0 \<le> i + 1" "nat (i + 1) + n \<le> length ps"
      "channel_index_ok my (m_rtpMixerChannels ?s1)"
    using Suc.prems c1 by (auto simp: circ_def channel_index_ok_def nat_add_distrib split: option.splits)
  have "take (Suc n) (drop (nat i) ps) = ?v # take n (drop (nat (i + 1)) ps)"
    using Suc.prems by (simp add: take_drop_Suc nat_add_distrib)
  with Suc.IH [OF pre] show ?case
    unfolding step using c1(2) by simp
qed

section \<open>Used and free space\<close>

definition ring_ok :: "RtpMixer \<Rightarrow> bool" where
  "ring_ok s \<longleftrightarrow> length (m_buffer s) = NB \<and> 0 \<le> m_writePtr s \<and> nat (m_writePtr s) < NB \<and>
     0 \<le> m_readPtr s \<and> nat (m_readPtr s) < NB"

definition used :: "RtpMixer \<Rightarrow> nat" where
  "used s = circ_dist (nat (m_readPtr s)) (nat (m_writePtr s))"

lemma used_less: "ring_ok s \<Longrightarrow> used s < NB"
  by (simp add: used_def ring_ok_def circ_dist_less)

lemma used_int: "ring_ok s \<Longrightarrow> int (used s) =
   (if m_readPtr s \<le> m_writePtr s then m_writePtr s - m_readPtr s
    else m_writePtr s - m_readPtr s + int NB)"
  by (auto simp: used_def circ_dist_def ring_ok_def)

lemma UsedSpace_used: "ring_ok s \<Longrightarrow> UsedSpace s = word_of_int (int (used s))"
  by (simp add: UsedSpace_def used_int NB_int algebra_simps)

lemma unat_UsedSpace: "ring_ok s \<Longrightarrow> unat (UsedSpace s) = used s"
  using used_less [of s] by (simp add: UsedSpace_used NB_def unat_of_nat)

lemma sint_UsedSpace: "ring_ok s \<Longrightarrow> sint (UsedSpace s) = int (used s)"
  using used_less [of s] by (simp add: sint_small unat_UsedSpace NB_def)

lemma FreeSpace_used: "ring_ok s \<Longrightarrow> FreeSpace s = word_of_int (int (NB - used s))"
  using used_less [of s] by (simp add: FreeSpace_def UsedSpace_used NB_int of_nat_diff)

lemma sint_FreeSpace: "ring_ok s \<Longrightarrow> sint (FreeSpace s) = int (NB - used s)"
proof -
  assume "ring_ok s"
  then have "unat (FreeSpace s) = NB - used s"
    by (simp add: FreeSpace_used unat_of_nat NB_def del: of_nat_diff)
  then show ?thesis by (simp add: sint_small NB_def)
qed

end
