(* ===== verification/RtpMixerStore.thy ===== *)
theory RtpMixerStore
  imports RtpMixerBuffer
begin

text \<open>
  What \<open>StoreRtpPacket\<close> does, branch by branch, in terms of the circular runs: the chunk is dropped
  when its end timestamp wraps or lies too far ahead, and otherwise mixed into the buffer after the
  gap up to its end has been zeroed.
\<close>

section \<open>The stored packet\<close>

definition payload :: "AudioChunk \<Rightarrow> u16 list" where
  "payload chunk = (case m_pBuffer chunk of None \<Rightarrow> [] | Some b \<Rightarrow> shorts_of_bytes b)"

definition numSamples :: "AudioChunk \<Rightarrow> nat" where
  "numSamples chunk = unat (m_numBytes (m_details chunk)) div 2"

definition pcm_chunk :: "AudioChunk \<Rightarrow> bool" where
  "pcm_chunk chunk \<longleftrightarrow> wf_chunk chunk \<and> m_encoding (m_details chunk) = PcmAudio"

lemma length_payload: "pcm_chunk chunk \<Longrightarrow> length (payload chunk) = numSamples chunk"
  by (auto simp: payload_def numSamples_def pcm_chunk_def wf_chunk_def length_shorts_of_bytes split: option.splits)

lemma GetNumSamples_numSamples: "pcm_chunk chunk \<Longrightarrow> GetNumSamples chunk = Inr (int (numSamples chunk))"
  by (simp add: GetNumSamples_pcm numSamples_def pcm_chunk_def)

lemma numSamples_bound: "numSamples chunk < 2 ^ 31"
  using unsigned_less [of "m_numBytes (m_details chunk)", where ?'a = nat] by (simp add: numSamples_def)

text \<open>The channel of a chunk has a slot in \<open>m_rtpMixerChannels\<close> when there are channels at all.\<close>

definition channel_ok :: "AudioChunk \<Rightarrow> RtpMixer \<Rightarrow> bool" where
  "channel_ok chunk s \<longleftrightarrow> m_numInputChannels s \<noteq> 0 \<longrightarrow>
     m_channel (m_details chunk) \<noteq> 0 \<and> uint (m_channel (m_details chunk)) \<le> m_numInputChannels s"

definition my_channel :: "AudioChunk \<Rightarrow> RtpMixer \<Rightarrow> int option" where
  "my_channel chunk s = (if m_numInputChannels s \<noteq> 0 then Some (uint (m_channel (m_details chunk)) - 1) else None)"

lemma channel_pos: "(x :: u8) \<noteq> 0 \<Longrightarrow> 1 \<le> uint x"
  using uint_ge_0 [of x] by (metis int_one_le_iff_zero_less order_le_less uint_0_iff)

lemma my_channel_ok:
  assumes "channels_ok s" "channel_ok chunk s"
  shows "channel_index_ok (my_channel chunk s) (m_rtpMixerChannels s)"
    and "(if m_numInputChannels s \<noteq> 0
          then (let x = uint (m_channel (m_details chunk)) - 1
                in andThen (peek (m_rtpMixerChannels s) x) (\<lambda>_. Inr (Some x)))
          else Inr None) = Inr (my_channel chunk s)"
  using assms channel_pos [of "m_channel (m_details chunk)"]
  by (auto simp: channels_ok_def channel_ok_def my_channel_def channel_index_ok_def Let_def)

section \<open>Branches\<close>

definition store_ready :: "AudioChunk \<Rightarrow> RtpMixer \<Rightarrow> bool" where
  "store_ready chunk s \<longleftrightarrow> pcm_chunk chunk \<and> ring_ok s \<and> channels_ok s \<and> channel_ok chunk s"

text \<open>The state after the gap of \<open>z\<close> samples up to the packet's end has been zeroed.\<close>

definition zeroed :: "nat \<Rightarrow> RtpMixerChannel list \<Rightarrow> RtpMixer \<Rightarrow> RtpMixer" where
  "zeroed z chans s = s\<lparr>m_buffer := circ_run (\<lambda>_ v. v) (replicate z 0) (nat (m_writePtr s)) (m_buffer s),
     m_rtpMixerChannels := chans, m_writePtr := int (circ (nat (m_writePtr s) + z)),
     m_writeTimestamp := word_of_int (uint (m_writeTimestamp s) + int z)\<rparr>"

lemma zeroed_0: "ring_ok s \<Longrightarrow> zeroed 0 (m_rtpMixerChannels s) s = s"
  by (simp add: zeroed_def ring_ok_def circ_def)

lemma ring_ok_zeroed: "ring_ok s \<Longrightarrow> z \<le> NB \<Longrightarrow> ring_ok (zeroed z chans s)"
  by (auto simp: ring_ok_def zeroed_def circ_def)

text \<open>\<open>StoreRtpPacket\<close> with its arithmetic over plain integers; \<open>e\<close> is the end timestamp.\<close>

lemma StoreRtpPacket_ready:
  assumes ready: "store_ready chunk s" and e: "e = uint corr + int (numSamples chunk)"
  shows "StoreRtpPacket chunk corr s =
     (if e \<ge> 4294967296 then Inr s
      else if e - uint (m_writeTimestamp s) \<ge> int NB then Inr (s\<lparr>m_toLog := False\<rparr>)
      else andThen (if e > uint (m_writeTimestamp s)
                    then andThen (zero_loop (nat (e - uint (m_writeTimestamp s))) s)
                           (\<lambda>s1. Inr (s1\<lparr>m_writeTimestamp := word_of_int e\<rparr>))
                    else Inr s) (\<lambda>s1.
           let timestampDelta = uint (m_writeTimestamp s1) - uint corr in
           if timestampDelta < 0 \<or> timestampDelta \<ge> int NB then Inr (s1\<lparr>m_toLog := False\<rparr>)
           else mix_loop (numSamples chunk) 0 (map_option shorts_of_bytes (m_pBuffer chunk))
                  (my_channel chunk s) (CicularPointerSubtractOffset (m_writePtr s1) timestampDelta) s1))"
proof -
  have "uint corr < 4294967296" by (rule uint_u32_bound)
  moreover have "int (numSamples chunk) < 2147483648"
    using numSamples_bound [of chunk] by simp
  ultimately have e64: "(uint corr + int (numSamples chunk)) mod 2 ^ 64 = e" and "0 \<le> e"
    using e by simp_all
  then have e32: "uint (word_of_int e :: u32) = e" if "e < 4294967296"
    using that by (intro uint_of_int_u32)
  from ready have n: "GetNumSamples chunk = Inr (int (numSamples chunk))"
    by (simp add: store_ready_def GetNumSamples_numSamples)
  from ready have my: "(if m_numInputChannels s \<noteq> 0
      then (let x = uint (m_channel (m_details chunk)) - 1
            in andThen (peek (m_rtpMixerChannels s) x) (\<lambda>_. Inr (Some x)))
      else Inr None) = Inr (my_channel chunk s)"
    by (intro my_channel_ok) (simp_all add: store_ready_def)
  show ?thesis
    unfolding StoreRtpPacket_def
    unfolding my n andThen_Inr e64 nat_int
    using e32 by (simp add: Let_def NB_int)
qed

lemma StoreRtpPacket_wraps:
  assumes "store_ready chunk s" "uint corr + int (numSamples chunk) \<ge> 4294967296"
  shows "StoreRtpPacket chunk corr s = Inr s"
  using assms by (simp add: StoreRtpPacket_ready [OF assms(1) refl])

lemma StoreRtpPacket_too_far:
  assumes "store_ready chunk s" "uint corr + int (numSamples chunk) < 4294967296"
    and "uint (m_writeTimestamp s) + int NB \<le> uint corr + int (numSamples chunk)"
  shows "StoreRtpPacket chunk corr s = Inr (s\<lparr>m_toLog := False\<rparr>)"
  using assms by (simp add: StoreRtpPacket_ready [OF assms(1) refl])

definition circ_sub :: "nat \<Rightarrow> nat \<Rightarrow> nat" where
  "circ_sub w d = (if d \<le> w then w - d else w + NB - d)"

lemma circ_sub_less: "w < NB \<Longrightarrow> d < NB \<Longrightarrow> circ_sub w d < NB"
  by (auto simp: circ_sub_def)

lemma CicularPointerSubtractOffset_circ_sub:
  "d < NB \<Longrightarrow> CicularPointerSubtractOffset (int w) (int d) = int (circ_sub w d)"
  by (auto simp: CicularPointerSubtractOffset_def circ_sub_def NB_int)

lemma mix_payload_run:
  assumes "store_ready chunk s" "ring_ok s1" "0 \<le> p" "nat p < NB"
    and "bufs_ok (m_rtpMixerChannels s1)" "length (m_rtpMixerChannels s1) = length (m_rtpMixerChannels s)"
  shows "\<exists>chans. mix_loop (numSamples chunk) 0 (map_option shorts_of_bytes (m_pBuffer chunk)) (my_channel chunk s) p s1 =
       Inr (s1\<lparr>m_buffer := circ_run mix_sample (payload chunk) (nat p) (m_buffer s1), m_rtpMixerChannels := chans\<rparr>) \<and>
     length chans = length (m_rtpMixerChannels s1) \<and> bufs_ok chans"
proof (cases "m_pBuffer chunk")
  case None
  with assms(1) have "numSamples chunk = 0" "payload chunk = []"
    by (simp_all add: store_ready_def pcm_chunk_def wf_chunk_def numSamples_def payload_def)
  with assms show ?thesis by (intro exI [of _ "m_rtpMixerChannels s1"]) simp
next
  case (Some b)
  have len: "length (payload chunk) = numSamples chunk"
    using assms(1) length_payload [of chunk] by (simp add: store_ready_def)
  have pay: "payload chunk = shorts_of_bytes b"
    by (simp add: payload_def Some)
  have "channel_index_ok (my_channel chunk s) (m_rtpMixerChannels s1)"
    using assms my_channel_ok(1) [of s chunk]
    by (auto simp: store_ready_def channel_index_ok_def split: option.splits)
  then show ?thesis
    using mix_loop_run [of s1 p 0 "numSamples chunk" "shorts_of_bytes b" "my_channel chunk s"] assms len pay Some
    by (simp add: ring_ok_def)
qed

text \<open>The zeroing phase never faults: \<open>z\<close> samples are zeroed, none when the packet ends before the window does.\<close>

lemma zero_phase:
  assumes ready: "store_ready chunk s" and z: "z = nat (e - uint (m_writeTimestamp s))" "z < NB"
  obtains chans where "(if e > uint (m_writeTimestamp s)
        then andThen (zero_loop z s) (\<lambda>s1. Inr (s1\<lparr>m_writeTimestamp := word_of_int e\<rparr>))
        else Inr s) = Inr (zeroed z chans s)"
      "length chans = length (m_rtpMixerChannels s)" "bufs_ok chans"
proof -
  let ?W = "uint (m_writeTimestamp s)"
  from ready have ring: "ring_ok s" and chans: "channels_ok s"
    by (simp_all add: store_ready_def)
  have "\<exists>chans. (if e > ?W
        then andThen (zero_loop z s) (\<lambda>s1. Inr (s1\<lparr>m_writeTimestamp := word_of_int e\<rparr>))
        else Inr s) = Inr (zeroed z chans s) \<and>
      length chans = length (m_rtpMixerChannels s) \<and> bufs_ok chans"
  proof (cases "e > ?W")
    case True
    with z have "?W + int z = e" by simp
    with True zero_loop_run [of s z] ring chans z show ?thesis
      by (auto simp: ring_ok_def zeroed_def)
  next
    case False
    with z chans show ?thesis
      by (intro exI [of _ "m_rtpMixerChannels s"]) (simp add: zeroed_0 [OF ring] channels_ok_def)
  qed
  with that show thesis by blast
qed

text \<open>
  The state after the packet is mixed in: \<open>z\<close> samples were zeroed and the packet starts \<open>d\<close> samples
  before the new write pointer.
\<close>

definition stored :: "nat \<Rightarrow> nat \<Rightarrow> AudioChunk \<Rightarrow> RtpMixerChannel list \<Rightarrow> RtpMixer \<Rightarrow> RtpMixer" where
  "stored z d chunk chans s = s\<lparr>
     m_buffer := circ_run mix_sample (payload chunk) (circ_sub (circ (nat (m_writePtr s) + z)) d)
       (circ_run (\<lambda>_ v. v) (replicate z 0) (nat (m_writePtr s)) (m_buffer s)),
     m_rtpMixerChannels := chans, m_writePtr := int (circ (nat (m_writePtr s) + z)),
     m_writeTimestamp := word_of_int (uint (m_writeTimestamp s) + int z)\<rparr>"

lemma mix_phase:
  assumes ready: "store_ready chunk s" and s1: "ring_ok s1" "length (m_rtpMixerChannels s1) = length (m_rtpMixerChannels s)"
    "bufs_ok (m_rtpMixerChannels s1)" and d: "d < NB"
  obtains chans where "mix_loop (numSamples chunk) 0 (map_option shorts_of_bytes (m_pBuffer chunk))
        (my_channel chunk s) (CicularPointerSubtractOffset (m_writePtr s1) (int d)) s1 =
      Inr (s1\<lparr>m_buffer := circ_run mix_sample (payload chunk) (circ_sub (nat (m_writePtr s1)) d) (m_buffer s1),
            m_rtpMixerChannels := chans\<rparr>)"
      "length chans = length (m_rtpMixerChannels s)" "bufs_ok chans"
proof -
  have ptr: "CicularPointerSubtractOffset (m_writePtr s1) (int d) = int (circ_sub (nat (m_writePtr s1)) d)"
    using CicularPointerSubtractOffset_circ_sub [OF d, of "nat (m_writePtr s1)"] s1(1)
    by (simp add: ring_ok_def)
  have "circ_sub (nat (m_writePtr s1)) d < NB"
    using s1(1) d by (intro circ_sub_less) (simp_all add: ring_ok_def)
  then have "\<exists>chans. mix_loop (numSamples chunk) 0 (map_option shorts_of_bytes (m_pBuffer chunk)) (my_channel chunk s)
        (int (circ_sub (nat (m_writePtr s1)) d)) s1 =
      Inr (s1\<lparr>m_buffer := circ_run mix_sample (payload chunk) (circ_sub (nat (m_writePtr s1)) d) (m_buffer s1),
            m_rtpMixerChannels := chans\<rparr>) \<and>
      length chans = length (m_rtpMixerChannels s1) \<and> bufs_ok chans"
    using mix_payload_run [OF ready s1(1), of "int (circ_sub (nat (m_writePtr s1)) d)"] s1
    by simp
  with that s1(2) show thesis unfolding ptr by auto
qed

lemma StoreRtpPacket_stored:
  assumes ready: "store_ready chunk s" and e: "e = uint corr + int (numSamples chunk)" "e < 4294967296"
    and z: "z = nat (e - uint (m_writeTimestamp s))" "z < NB"
    and d: "int d = max e (uint (m_writeTimestamp s)) - uint corr" "d < NB"
  shows "\<exists>chans. StoreRtpPacket chunk corr s = Inr (stored z d chunk chans s) \<and>
     length chans = length (m_rtpMixerChannels s) \<and> bufs_ok chans"
proof -
  let ?W = "uint (m_writeTimestamp s)"
  obtain c1 where c1: "(if e > ?W
        then andThen (zero_loop z s) (\<lambda>s1. Inr (s1\<lparr>m_writeTimestamp := word_of_int e\<rparr>))
        else Inr s) = Inr (zeroed z c1 s)"
      "length c1 = length (m_rtpMixerChannels s)" "bufs_ok c1"
    using zero_phase [OF ready z] .
  have ring1: "ring_ok (zeroed z c1 s)" using ready z
    by (intro ring_ok_zeroed) (simp_all add: store_ready_def)
  have "uint (word_of_int (max e ?W) :: u32) = max e ?W"
    using e uint_u32_bound [of "m_writeTimestamp s"] by (intro uint_of_int_u32) (auto simp: max_def)
  moreover have "?W + int z = max e ?W" using z by (auto simp: max_def)
  ultimately have delta: "uint (m_writeTimestamp (zeroed z c1 s)) - uint corr = int d"
    using d by (simp add: zeroed_def)
  have "e - ?W < int NB" using z by linarith
  then have step: "StoreRtpPacket chunk corr s =
      mix_loop (numSamples chunk) 0 (map_option shorts_of_bytes (m_pBuffer chunk)) (my_channel chunk s)
        (CicularPointerSubtractOffset (m_writePtr (zeroed z c1 s)) (int d)) (zeroed z c1 s)"
    unfolding StoreRtpPacket_ready [OF ready e(1)] z(1) [symmetric] c1(1) andThen_Inr Let_def delta
    using e(2) d(2) by simp
  have "length (m_rtpMixerChannels (zeroed z c1 s)) = length (m_rtpMixerChannels s)"
      "bufs_ok (m_rtpMixerChannels (zeroed z c1 s))"
    using c1 by (simp_all add: zeroed_def)
  then obtain c2 where c2: "mix_loop (numSamples chunk) 0 (map_option shorts_of_bytes (m_pBuffer chunk)) (my_channel chunk s)
        (CicularPointerSubtractOffset (m_writePtr (zeroed z c1 s)) (int d)) (zeroed z c1 s) =
      Inr ((zeroed z c1 s)\<lparr>m_buffer := circ_run mix_sample (payload chunk)
             (circ_sub (nat (m_writePtr (zeroed z c1 s))) d) (m_buffer (zeroed z c1 s)),
           m_rtpMixerChannels := c2\<rparr>)" "length c2 = length (m_rtpMixerChannels s)" "bufs_ok c2"
    using mix_phase [OF ready ring1 _ _ d(2)] by metis
  have "StoreRtpPacket chunk corr s = Inr (stored z d chunk c2 s)"
    unfolding step c2(1) by (simp add: stored_def zeroed_def)
  with c2 show ?thesis by blast
qed

section \<open>Safety\<close>

text \<open>What \<open>StoreRtpPacket\<close> leaves alone: everything but the buffers, the write side and \<open>m_toLog\<close>.\<close>

definition same_but_store :: "RtpMixer \<Rightarrow> RtpMixer \<Rightarrow> bool" where
  "same_but_store s s' \<longleftrightarrow> s' = s\<lparr>m_buffer := m_buffer s', m_rtpMixerChannels := m_rtpMixerChannels s',
     m_writePtr := m_writePtr s', m_writeTimestamp := m_writeTimestamp s', m_toLog := m_toLog s'\<rparr>"

lemma ring_ok_stored: "ring_ok s \<Longrightarrow> z < NB \<Longrightarrow> ring_ok (stored z d chunk chans s)"
  by (auto simp: ring_ok_def stored_def circ_def)

lemma channels_ok_chans:
  assumes "channels_ok s" "length chans = length (m_rtpMixerChannels s)" "bufs_ok chans"
  shows "channels_ok (zeroed z chans s)" "channels_ok (stored z d chunk chans s)"
  using assms by (simp_all add: channels_ok_def zeroed_def stored_def)

lemma same_but_store_stored: "same_but_store s (stored z d chunk chans s)" "same_but_store s (zeroed z chans s)"
  by (simp_all add: same_but_store_def stored_def zeroed_def)

lemma nat_less_NB: "nat x < NB \<longleftrightarrow> x < int NB"
  using NB_pos by linarith

lemma StoreRtpPacket_safe:
  assumes ready: "store_ready chunk s"
  shows "\<exists>s'. StoreRtpPacket chunk corr s = Inr s' \<and> ring_ok s' \<and> channels_ok s' \<and> same_but_store s s'"
proof -
  let ?W = "uint (m_writeTimestamp s)" and ?e = "uint corr + int (numSamples chunk)"
  let ?z = "nat (?e - ?W)" and ?d = "nat (max ?e ?W - uint corr)"
  have ok: "ring_ok s" "channels_ok s" using ready by (simp_all add: store_ready_def)
  consider "?e \<ge> 4294967296" | "?e < 4294967296" "?e - ?W \<ge> int NB"
    | "?e < 4294967296" "?z < NB" "?d < NB" | "?e < 4294967296" "?z < NB" "\<not> ?d < NB"
    unfolding nat_less_NB by linarith
  then show ?thesis
  proof cases
    case 1
    with StoreRtpPacket_wraps [OF ready] ok show ?thesis by (simp add: same_but_store_def)
  next
    case 2
    with StoreRtpPacket_too_far [OF ready] ok show ?thesis
      by (simp add: same_but_store_def ring_ok_def channels_ok_def)
  next
    case 3
    have "int ?d = max ?e ?W - uint corr" by (auto simp: max_def)
    with 3 obtain chans where "StoreRtpPacket chunk corr s = Inr (stored ?z ?d chunk chans s)"
        "length chans = length (m_rtpMixerChannels s)" "bufs_ok chans"
      using StoreRtpPacket_stored [OF ready refl _ refl, of corr ?d] by blast
    then show ?thesis
      using ring_ok_stored [OF ok(1) 3(2)] channels_ok_chans [OF ok(2)] same_but_store_stored by metis
  next
    case 4
    obtain c1 where c1: "(if ?e > ?W
          then andThen (zero_loop ?z s) (\<lambda>s1. Inr (s1\<lparr>m_writeTimestamp := word_of_int ?e\<rparr>))
          else Inr s) = Inr (zeroed ?z c1 s)"
        "length c1 = length (m_rtpMixerChannels s)" "bufs_ok c1"
      using zero_phase [OF ready refl 4(2)] .
    have "uint (word_of_int (max ?e ?W) :: u32) = max ?e ?W"
      using 4 uint_u32_bound [of "m_writeTimestamp s"] by (intro uint_of_int_u32) (auto simp: max_def)
    moreover have "?W + int ?z = max ?e ?W" by (auto simp: max_def)
    ultimately have delta: "uint (m_writeTimestamp (zeroed ?z c1 s)) - uint corr \<ge> int NB"
      using 4 by (simp add: zeroed_def)
    have "?e - ?W < int NB" using 4 by linarith
    then have "StoreRtpPacket chunk corr s = Inr ((zeroed ?z c1 s)\<lparr>m_toLog := False\<rparr>)"
      unfolding StoreRtpPacket_ready [OF ready refl] c1(1) andThen_Inr Let_def
      using 4(1) delta by simp
    moreover have "ring_ok (zeroed ?z c1 s)" "channels_ok (zeroed ?z c1 s)"
      using ok c1 4 by (simp_all add: ring_ok_zeroed channels_ok_chans)
    ultimately show ?thesis
      by (simp add: ring_ok_def channels_ok_def same_but_store_def zeroed_def)
  qed
qed

end
