(* ===== verification/RtpMixerShip.thy ===== *)
theory RtpMixerShip
  imports RtpMixerStore
begin

text \<open>
  Shipping: what \<open>CreateShipment\<close> takes from the circular buffer and what it queues. No block faults,
  each ships exactly the samples it removes from the window, and the forced shipment empties it.
\<close>

section \<open>Mixed output\<close>

lemma add_channel_ok:
  assumes "0 \<le> p" "nat p + length as \<le> length buf"
  shows "add_channel buf p as = Inr (map2 mix_sample as (drop (nat p) buf))"
  using assms
proof (induction as arbitrary: p)
  case (Cons a as)
  then have "nat p < length buf" "nat (p + 1) = Suc (nat p)" by (simp_all add: nat_add_distrib)
  with Cons show ?case by (simp add: Cons_nth_drop_Suc [symmetric])
qed simp

lemma mix_channels_lengths:
  assumes "0 \<le> i" "nat i + n \<le> length chans" "bufs_ok chans" "0 \<le> p"
    and "nat p + length (fst tape) \<le> NB" "nat p + length (snd tape) \<le> NB"
  shows "\<exists>tape'. mix_channels n i chans p tape = Inr tape' \<and>
     length (fst tape') = length (fst tape) \<and> length (snd tape') = length (snd tape)"
  using assms
proof (induction n arbitrary: i tape)
  case (Suc n)
  let ?ch = "chans ! nat i"
  have len: "length (ch_buffer ?ch) = NB" using Suc.prems by simp
  define t where "t = (if (i + 1) mod 2 = 0 then (map2 mix_sample (fst tape) (drop (nat p) (ch_buffer ?ch)), snd tape)
      else (fst tape, map2 mix_sample (snd tape) (drop (nat p) (ch_buffer ?ch))))"
  have step: "mix_channels (Suc n) i chans p tape = mix_channels n (i + 1) chans p t"
    using Suc.prems len by (simp add: add_channel_ok t_def)
  have lens: "length (fst t) = length (fst tape)" "length (snd t) = length (snd tape)"
    using Suc.prems len by (auto simp: t_def)
  have "nat (i + 1) + n \<le> length chans" using Suc.prems by (simp add: nat_add_distrib)
  with Suc.IH [of "i + 1" t] Suc.prems lens show ?case unfolding step by simp
qed simp

lemma SetBuffer_chan_keeps:
  assumes "wf_chunk c" "1 \<le> chan" "chan \<le> m_numChannels c"
    and "m_numBytes details \<noteq> 0" "unat (m_numBytes details) \<le> length src"
  shows "\<exists>c'. SetBuffer_chan (Some src) details chan c = Inr c' \<and> wf_chunk c' \<and>
     m_pBuffer c' = m_pBuffer c \<and> m_details c' = m_details c \<and> m_numChannels c' = m_numChannels c"
proof -
  from SetBuffer_chan_ok [OF assms] obtain chans where
    r: "SetBuffer_chan (Some src) details chan c =
       Inr (c\<lparr>m_pChannelAudio := Some (chans[nat (chan - 1) := Some (take (unat (m_numBytes details)) src)])\<rparr>)"
    by blast
  with SetBuffer_chan_wf [OF assms(1)] show ?thesis by simp
qed

lemma silent_channels_keeps:
  assumes "wf_chunk c" "0 \<le> i" "i + int n \<le> m_numChannels c"
    and "m_numBytes details \<noteq> 0" "unat (m_numBytes details) \<le> 2 * length zeros"
  shows "\<exists>c'. silent_channels n i details zeros c = Inr c' \<and> wf_chunk c' \<and>
     m_pBuffer c' = m_pBuffer c \<and> m_details c' = m_details c \<and> m_numChannels c' = m_numChannels c"
  using assms
proof (induction n arbitrary: i c)
  case (Suc n)
  obtain c1 where c1: "SetBuffer_chan (Some (bytes_of_shorts zeros)) details (i + 1) c = Inr c1" "wf_chunk c1"
     "m_pBuffer c1 = m_pBuffer c" "m_details c1 = m_details c" "m_numChannels c1 = m_numChannels c"
    using SetBuffer_chan_keeps [of c "i + 1" details "bytes_of_shorts zeros"] Suc.prems by auto
  with Suc.IH [of c1 "i + 1"] Suc.prems show ?case by (auto simp: algebra_simps)
qed simp

text \<open>The details of a block of \<open>n\<close> samples, and the samples themselves.\<close>

definition block_details :: "AudioChunkDetails \<Rightarrow> nat \<Rightarrow> bool" where
  "block_details d n \<longleftrightarrow> 0 < n \<and> n \<le> NB \<and> m_numBytes d = word_of_nat (2 * n) \<and> m_encoding d = PcmAudio"

lemma block_numBytes: "block_details d n \<Longrightarrow> unat (m_numBytes d) = 2 * n"
  by (simp add: block_details_def unat_of_nat_u32 NB_def del: of_nat_mult)

lemma block_numBytes_pos: "block_details d n \<Longrightarrow> m_numBytes d \<noteq> 0"
  using block_numBytes [of d n] by (auto simp: block_details_def)

lemma block_good: "block_details d n \<Longrightarrow> CheckChunkDetails d s = (True, s)"
  using block_numBytes [of d n] block_numBytes_pos [of d n]
  by (simp add: CheckChunkDetails_def block_details_def NB_def uint_nat)

lemma SetBuffer_block:
  assumes "block_details d n" "p + n \<le> length buf"
  shows "SetBuffer (Some (bytes_of_shorts (drop p buf))) d c =
     Inr (c\<lparr>m_pBuffer := Some (bytes_of_shorts (take n (drop p buf))), m_details := d\<rparr>)"
  using assms block_numBytes_pos [OF assms(1)]
  by (simp add: SetBuffer_ok block_numBytes take_bytes_of_shorts)

lemma wf_block:
  assumes "wf_chunk c" "block_details d n" "p + n \<le> length buf"
  shows "wf_chunk (c\<lparr>m_pBuffer := Some (bytes_of_shorts (take n (drop p buf))), m_details := d\<rparr>)"
  using assms by (simp add: wf_chunk_def block_numBytes)

lemma HandleMixedOutput_ok:
  assumes ok: "ring_ok s" "channels_ok s" and d: "block_details d n" and p: "0 \<le> p" "nat p + n \<le> NB"
    and c: "wf_chunk c" "m_numChannels c = m_numInputChannels s"
      "m_pBuffer c = Some (bytes_of_shorts (take n (drop (nat p) (m_buffer s))))" "m_details c = d"
  shows "\<exists>c'. HandleMixedOutput tape c d p s = Inr c' \<and> wf_chunk c' \<and> m_pBuffer c' = m_pBuffer c \<and>
     m_details c' = d"
proof (cases "m_numOutputChannels s = 1 \<or> tape \<le> 1")
  case True
  with c show ?thesis by (auto simp: HandleMixedOutput_def)
next
  case False
  have len: "length (m_buffer s) = NB" using ok by (simp add: ring_ok_def)
  let ?new = "(new_AudioChunk_channels tape)\<lparr>m_pBuffer := m_pBuffer c, m_details := d\<rparr>"
  define c1 where "c1 = (if tape \<noteq> m_numInputChannels s then ?new else c)"
  have "mem_at (m_buffer s) p = Inr (bytes_of_shorts (drop (nat p) (m_buffer s)))"
    using p len by (simp add: mem_at_def)
  moreover have "SetBuffer (Some (bytes_of_shorts (drop (nat p) (m_buffer s)))) d (new_AudioChunk_channels tape) = Inr ?new"
    using SetBuffer_block [OF d, of "nat p" "m_buffer s"] p len c by simp
  ultimately have first: "(if tape \<noteq> m_numInputChannels s
       then andThen (mem_at (m_buffer s) p) (\<lambda>src. SetBuffer (Some src) d (new_AudioChunk_channels tape))
       else Inr c) = Inr c1" by (simp add: c1_def)
  have c1: "wf_chunk c1" "m_numChannels c1 = tape" "m_pBuffer c1 = m_pBuffer c" "m_details c1 = d"
    using c False p len wf_block [OF wf_new_AudioChunk_channels d, of "nat p" "m_buffer s" tape]
    by (auto simp: c1_def new_AudioChunk_channels_def)
  define zeros :: "u16 list" where "zeros = replicate (unat (m_numBytes d) div 2) 0"
  have lz: "length zeros = n" by (simp add: zeros_def block_numBytes [OF d])
  obtain t where t: "mix_channels (nat (m_numInputChannels s)) 0 (m_rtpMixerChannels s) p (zeros, zeros) = Inr t"
      "length (fst t) = n" "length (snd t) = n"
    using mix_channels_lengths [of 0 "nat (m_numInputChannels s)" "m_rtpMixerChannels s" p "(zeros, zeros)"] ok p lz
    by (auto simp: channels_ok_def)
  have pos: "m_numBytes d \<noteq> 0" "unat (m_numBytes d) = 2 * n"
    using d by (rule block_numBytes_pos, rule block_numBytes)
  obtain c2 where c2: "SetBuffer_chan (Some (bytes_of_shorts (fst t))) d 1 c1 = Inr c2" "wf_chunk c2"
      "m_pBuffer c2 = m_pBuffer c1" "m_details c2 = m_details c1" "m_numChannels c2 = m_numChannels c1"
    using SetBuffer_chan_keeps [of c1 1 d "bytes_of_shorts (fst t)"] c1 pos t False by auto
  obtain c3 where c3: "SetBuffer_chan (Some (bytes_of_shorts (snd t))) d 2 c2 = Inr c3" "wf_chunk c3"
      "m_pBuffer c3 = m_pBuffer c2" "m_details c3 = m_details c2" "m_numChannels c3 = m_numChannels c2"
    using SetBuffer_chan_keeps [of c2 2 d "bytes_of_shorts (snd t)"] c1 c2 pos t False by auto
  obtain c4 where c4: "silent_channels (nat (tape - 2)) 2 d zeros c3 = Inr c4" "wf_chunk c4"
      "m_pBuffer c4 = m_pBuffer c3" "m_details c4 = m_details c3"
    using silent_channels_keeps [of c3 2 "nat (tape - 2)" d zeros] c1 c2 c3 pos lz False by auto
  have "HandleMixedOutput tape c d p s = Inr c4"
    unfolding HandleMixedOutput_def first andThen_Inr Let_def zeros_def [symmetric]
    using False t c2 c3 c4 by simp
  with c1 c2 c3 c4 show ?thesis by auto
qed

section \<open>Blocks\<close>

text \<open>The samples of a list of chunks, and what a shipment adds to the queue.\<close>

definition samples_of :: "AudioChunk list \<Rightarrow> u16 list" where
  "samples_of q = concat (map payload q)"

lemma samples_of_simps [simp]: "samples_of [] = []" "samples_of (c # q) = payload c @ samples_of q"
  "samples_of (q @ q') = samples_of q @ samples_of q'"
  by (simp_all add: samples_of_def)

definition good_chunk :: "AudioChunk \<Rightarrow> bool" where
  "good_chunk c \<longleftrightarrow> pcm_chunk c \<and> 0 < numSamples c \<and> numSamples c \<le> NB"

definition advance :: "nat \<Rightarrow> int \<Rightarrow> AudioChunk list \<Rightarrow> RtpMixer \<Rightarrow> RtpMixer" where
  "advance n ptr q s = s\<lparr>m_outputQueue := m_outputQueue s @ q,
     m_shippedSamples := m_shippedSamples s + word_of_nat n, m_readPtr := ptr,
     m_readTimestamp := m_readTimestamp s + word_of_nat n\<rparr>"

lemma advance_ok:
  "ring_ok s \<Longrightarrow> 0 \<le> ptr \<Longrightarrow> ptr < int NB \<Longrightarrow> ring_ok (advance n ptr q s)"
  "channels_ok s \<Longrightarrow> channels_ok (advance n ptr q s)"
  by (simp_all add: ring_ok_def channels_ok_def advance_def)

lemma good_block:
  assumes "wf_chunk c" "m_pBuffer c = Some (bytes_of_shorts (take n (drop p buf)))" "m_details c = d"
    and "block_details d n"
  shows "good_chunk c" "payload c = take n (drop p buf)"
  using assms block_numBytes [OF assms(4)]
  by (simp_all add: good_chunk_def pcm_chunk_def numSamples_def payload_def block_details_def)

lemma ship_block_empty:
  "ship_block tape p 0 s = Inr (advance 0 (CircularPointerAddOffset (m_readPtr s) 0) [] s)"
  by (simp add: ship_block_def CheckChunkDetails_def Let_def advance_def)

lemma ship_block_ok:
  assumes ok: "ring_ok s" "channels_ok s" and n: "0 < n" and p: "0 \<le> p" "nat p + n \<le> NB"
  shows "\<exists>c. ship_block tape p (int n) s =
       Inr (advance n (CircularPointerAddOffset (m_readPtr s) (int n)) [c] s) \<and>
     good_chunk c \<and> payload c = take n (drop (nat p) (m_buffer s))"
proof -
  have len: "length (m_buffer s) = NB" and numIn: "0 \<le> m_numInputChannels s"
    using ok by (simp_all add: ring_ok_def channels_ok_def)
  define chunk where "chunk = (if m_numInputChannels s \<noteq> 0 then new_AudioChunk_channels (m_numInputChannels s)
      else new_AudioChunk)"
  define d where "d = (if m_numInputChannels s \<noteq> 0 then details_Clear\<lparr>m_channel := 100\<rparr> else details_Clear)
      \<lparr>m_encoding := PcmAudio, m_numBytes := word_of_int (int n * 2)\<rparr>"
  have d: "block_details d n"
    using n p by (simp add: d_def block_details_def mult.commute)
  have chunk: "wf_chunk chunk" "m_numChannels chunk = m_numInputChannels s"
    using numIn by (simp_all add: chunk_def)
      (simp_all add: new_AudioChunk_channels_def new_AudioChunk_def Let_def)
  define c1 where "c1 = chunk\<lparr>m_pBuffer := Some (bytes_of_shorts (take n (drop (nat p) (m_buffer s)))), m_details := d\<rparr>"
  have c1: "wf_chunk c1" "m_numChannels c1 = m_numInputChannels s" "m_details c1 = d"
     "m_pBuffer c1 = Some (bytes_of_shorts (take n (drop (nat p) (m_buffer s))))"
    using wf_block [OF chunk(1) d] chunk p len by (simp_all add: c1_def)
  have src: "mem_at (m_buffer s) p = Inr (bytes_of_shorts (drop (nat p) (m_buffer s)))"
    using p len by (simp add: mem_at_def)
  have set: "SetBuffer (Some (bytes_of_shorts (drop (nat p) (m_buffer s)))) d chunk = Inr c1"
    using SetBuffer_block [OF d] p len by (simp add: c1_def)
  obtain c2 where c2: "(if m_numOutputChannels s = 2 then HandleMixedOutput tape c1 d p s else Inr c1) = Inr c2"
      "wf_chunk c2" "m_pBuffer c2 = m_pBuffer c1" "m_details c2 = d"
    using HandleMixedOutput_ok [OF ok d p c1(1,2) c1(4) c1(3), of tape] c1 by (cases "m_numOutputChannels s = 2") auto
  have "ship_block tape p (int n) s = Inr (advance n (CircularPointerAddOffset (m_readPtr s) (int n)) [c2] s)"
    unfolding ship_block_def Let_def chunk_def [symmetric] d_def [symmetric] block_good [OF d] prod.case
    by (simp add: src set c2(1) advance_def)
  moreover have "good_chunk c2" "payload c2 = take n (drop (nat p) (m_buffer s))"
    using good_block [OF c2(2) _ c2(4) d] c2(3) c1(4) by simp_all
  ultimately show ?thesis by blast
qed

text \<open>Both cases together: the queue grows by the block, one chunk or none.\<close>

lemma ship_block_queue:
  assumes "ring_ok s" "channels_ok s" "0 \<le> p" "nat p + n \<le> NB"
  obtains q where "ship_block tape p (int n) s =
       Inr (advance n (CircularPointerAddOffset (m_readPtr s) (int n)) q s)"
     "\<forall>c \<in> set q. good_chunk c" "samples_of q = take n (drop (nat p) (m_buffer s))"
proof (cases "n = 0")
  case True
  with that [of "[]"] show thesis by (simp add: ship_block_empty)
next
  case False
  with ship_block_ok [OF assms(1,2) _ assms(3,4), of tape] that show thesis by fastforce
qed

section \<open>Shipments\<close>

text \<open>The window of samples between the read and the write pointer, from oldest to newest.\<close>

definition window :: "RtpMixer \<Rightarrow> u16 list" where
  "window s = map (\<lambda>j. m_buffer s ! circ (nat (m_readPtr s) + j)) [0..<used s]"

lemma length_window [simp]: "length (window s) = used s"
  by (simp add: window_def)

definition stop_ptr :: "bool \<Rightarrow> RtpMixer \<Rightarrow> int" where
  "stop_ptr force s = (if force then m_writePtr s
     else CicularPointerSubtractOffset (m_writePtr s) (m_NumSampleShipmentHoldoff s))"

definition cells :: "'a list \<Rightarrow> nat \<Rightarrow> nat \<Rightarrow> 'a list" where
  "cells b r n = map (\<lambda>j. b ! circ (r + j)) [0..<n]"

lemma cells_straight: "r + n \<le> NB \<Longrightarrow> length b = NB \<Longrightarrow> r < NB \<Longrightarrow> cells b r n = take n (drop r b)"
  by (rule nth_equalityI) (auto simp: cells_def circ_def)

lemma cells_wrapped:
  assumes "length b = NB" "r < NB" "k \<le> r"
  shows "cells b r (NB - r + k) = drop r b @ take k b"
  using assms by (intro nth_equalityI) (auto simp: cells_def circ_def nth_append ac_simps)

lemma take_cells: "take m (cells b r n) = cells b r (min m n)"
  by (auto simp: cells_def take_map min_def)

lemma drop_cells:
  assumes "r < NB" "n \<le> NB" "m \<le> n" "m < NB"
  shows "drop m (cells b r n) = cells b (circ (r + m)) (n - m)"
proof (rule nth_equalityI)
  fix i
  assume "i < length (drop m (cells b r n))"
  then have "i < n - m" by (simp add: cells_def)
  moreover from this assms have "circ (circ (r + m) + i) = circ (r + (m + i))"
    by (intro circ_circ_add) simp_all
  ultimately show "drop m (cells b r n) ! i = cells b (circ (r + m)) (n - m) ! i"
    by (simp add: cells_def less_diff_conv add.commute [of m])
qed (simp add: cells_def)

lemma CreateShipment_ok:
  assumes ok: "ring_ok s" "channels_ok s" and stop: "0 \<le> stop_ptr force s" "nat (stop_ptr force s) < NB"
  shows "\<exists>q. CreateShipment tape 0 force s =
       Inr (advance (circ_dist (nat (m_readPtr s)) (nat (stop_ptr force s))) (stop_ptr force s) q s) \<and>
     (\<forall>c \<in> set q. good_chunk c) \<and>
     samples_of q = cells (m_buffer s) (nat (m_readPtr s)) (circ_dist (nat (m_readPtr s)) (nat (stop_ptr force s)))"
proof -
  define r k where "r = nat (m_readPtr s)" and "k = nat (stop_ptr force s)"
  have rk: "m_readPtr s = int r" "stop_ptr force s = int k" "r < NB" "k < NB" and len: "length (m_buffer s) = NB"
    using ok stop by (simp_all add: r_def k_def ring_ok_def)
  have stop_eq: "(if (0::int) \<noteq> 0 \<or> force then m_writePtr s
      else CicularPointerSubtractOffset (m_writePtr s) (m_NumSampleShipmentHoldoff s)) = int k"
    using rk(2) by (simp add: stop_ptr_def)
  show ?thesis
  proof (cases "k < r")
    case False
    obtain q where q: "ship_block tape (int r) (int (k - r)) s =
         Inr (advance (k - r) (CircularPointerAddOffset (m_readPtr s) (int (k - r))) q s)"
       "\<forall>c \<in> set q. good_chunk c" "samples_of q = take (k - r) (drop r (m_buffer s))"
      using ship_block_queue [OF ok, of "int r" "k - r"] rk False by auto
    have "CircularPointerAddOffset (m_readPtr s) (int (k - r)) = int k"
      using False rk by (simp add: CircularPointerAddOffset_def NB_int)
    moreover have "circ_dist r k = k - r" using False by (simp add: circ_dist_def)
    moreover have "CreateShipment tape 0 force s = ship_block tape (int r) (int (k - r)) s"
      unfolding CreateShipment_def stop_eq Let_def using False rk
      by (cases "ship_block tape (int r) (int k - int r) s") (simp_all add: of_nat_diff)
    ultimately show ?thesis
      using q False rk len by (auto simp: r_def [symmetric] k_def [symmetric] cells_straight)
  next
    case True
    have to_end: "CircularPointerAddOffset (m_readPtr s) (int (NB - r)) = 0"
      using rk by (simp add: CircularPointerAddOffset_def NB_int of_nat_diff)
    obtain q1 where q1: "ship_block tape (int r) (int (NB - r)) s = Inr (advance (NB - r) 0 q1 s)"
       "\<forall>c \<in> set q1. good_chunk c" "samples_of q1 = take (NB - r) (drop r (m_buffer s))"
      using ship_block_queue [OF ok, of "int r" "NB - r"] rk to_end by auto
    let ?s1 = "advance (NB - r) 0 q1 s"
    have "CircularPointerAddOffset (m_readPtr ?s1) (int k) = int k"
      using rk by (simp add: CircularPointerAddOffset_def NB_int advance_def)
    moreover have "ring_ok ?s1" "channels_ok ?s1" using ok by (simp_all add: advance_ok)
    ultimately obtain q2 where q2: "ship_block tape 0 (int k) ?s1 = Inr (advance k (int k) q2 ?s1)"
       "\<forall>c \<in> set q2. good_chunk c" "samples_of q2 = take k (m_buffer s)"
      using ship_block_queue [of ?s1 0 k] rk by (auto simp: advance_def)
    have "CreateShipment tape 0 force s = Inr (advance k (int k) q2 ?s1)"
      unfolding CreateShipment_def stop_eq Let_def using True rk q1(1) q2(1)
      by (simp add: NB_int of_nat_diff)
    moreover have "advance k (int k) q2 ?s1 = advance (NB - r + k) (int k) (q1 @ q2) s"
      by (simp add: advance_def)
    moreover have "circ_dist r k = NB - r + k" using True rk by (simp add: circ_dist_def)
    ultimately show ?thesis
      using q1 q2 True rk cells_wrapped [OF len rk(3), of k]
      by (intro exI [of _ "q1 @ q2"]) (auto simp del: of_nat_diff simp: len r_def [symmetric] k_def [symmetric])
  qed
qed

end
