(* ===== verification/FilterInterface.thy ===== *)
theory FilterInterface
  imports AudioChunk
begin

text \<open>
  The contract of the \<open>Filter\<close> class of \<open>orkbasecxx/Filter.h\<close>, as its users rely on it: a filter is
  fed chunks with \<open>AudioChunkIn\<close> and drained with \<open>AudioChunkOut\<close>, in any order, and never faults on
  the chunks it accepts. \<open>AudioChunkIn\<close> may change the chunk it is given, so it returns it.
\<close>

datatype filter_op = Feed AudioChunk | Drain

fun run_filter :: "(AudioChunk option \<Rightarrow> 's \<Rightarrow> ('s \<times> AudioChunk option) result) \<Rightarrow>
    ('s \<Rightarrow> AudioChunk option \<times> 's) \<Rightarrow> filter_op list \<Rightarrow> 's \<Rightarrow> (AudioChunk list \<times> 's) result" where
  "run_filter chunk_in chunk_out [] s = Inr ([], s)"
| "run_filter chunk_in chunk_out (Feed c # ops) s =
     andThen (chunk_in (Some c) s) (\<lambda>(s', _). run_filter chunk_in chunk_out ops s')"
| "run_filter chunk_in chunk_out (Drain # ops) s =
     (case chunk_out s of
        (None, s') \<Rightarrow> run_filter chunk_in chunk_out ops s'
      | (Some c, s') \<Rightarrow> andThen (run_filter chunk_in chunk_out ops s') (\<lambda>(out, s''). Inr (c # out, s'')))"

definition accepted :: "(AudioChunk \<Rightarrow> bool) \<Rightarrow> filter_op list \<Rightarrow> bool" where
  "accepted accepts ops \<longleftrightarrow> list_all (\<lambda>op. case op of Feed c \<Rightarrow> accepts c | Drain \<Rightarrow> True) ops"

lemma accepted_simps [simp]:
  "accepted accepts []" "accepted accepts (Feed c # ops) \<longleftrightarrow> accepts c \<and> accepted accepts ops"
  "accepted accepts (Drain # ops) \<longleftrightarrow> accepted accepts ops"
  by (simp_all add: accepted_def)

locale audio_filter =
  fixes chunk_in :: "AudioChunk option \<Rightarrow> 's \<Rightarrow> ('s \<times> AudioChunk option) result"
    and chunk_out :: "'s \<Rightarrow> AudioChunk option \<times> 's"
    and inv :: "'s \<Rightarrow> bool"
    and accepts :: "AudioChunk \<Rightarrow> bool"
    and delivers :: "AudioChunk \<Rightarrow> bool"
  assumes in_safe: "inv s \<Longrightarrow> accepts c \<Longrightarrow> \<exists>s' c'. chunk_in (Some c) s = Inr (s', Some c') \<and> inv s'"
    and out_safe: "inv s \<Longrightarrow> inv (snd (chunk_out s))"
    and out_good: "inv s \<Longrightarrow> fst (chunk_out s) = Some c \<Longrightarrow> delivers c"
begin

lemma run_filter_safe:
  assumes "inv s" "accepted accepts ops"
  shows "\<exists>out s'. run_filter chunk_in chunk_out ops s = Inr (out, s') \<and> inv s' \<and> (\<forall>c \<in> set out. delivers c)"
  using assms
proof (induction ops arbitrary: s)
  case (Cons op ops)
  show ?case
  proof (cases op)
    case (Feed c)
    with in_safe [of s c] Cons.prems obtain s1 c1 where "chunk_in (Some c) s = Inr (s1, Some c1)" "inv s1" by auto
    with Feed Cons show ?thesis by simp
  next
    case Drain
    obtain r s1 where out: "chunk_out s = (r, s1)" by fastforce
    with out_safe [of s] Cons.prems have "inv s1" by simp
    with Cons Drain obtain out s2 where rest: "run_filter chunk_in chunk_out ops s1 = Inr (out, s2)" "inv s2"
        "\<forall>c \<in> set out. delivers c" by fastforce
    moreover have "delivers c" if "r = Some c" for c
      using out_good [of s c] Cons.prems out that by simp
    ultimately show ?thesis using Drain out by (cases r) auto
  qed
qed simp

end

end
