(* ===== verification/RtpMixerRun.thy ===== *)
theory RtpMixerRun
  imports RtpMixerShip FilterInterface
begin

text \<open>
  The mixer as a whole: the invariant that makes every operation of the filter free of faults, the
  window as a view of the circular buffer, and the properties of storing and shipping.
\<close>

section \<open>The invariant\<close>

definition holdoff_ok :: "RtpMixer \<Rightarrow> bool" where
  "holdoff_ok s \<longleftrightarrow> 0 \<le> m_NumSampleShipmentHoldoff s \<and> m_NumSampleShipmentHoldoff s < int NB"

definition stereo_ok :: "int \<Rightarrow> RtpMixer \<Rightarrow> bool" where
  "stereo_ok tape s \<longleftrightarrow> m_numInputChannels s \<noteq> 0 \<longrightarrow> m_numOutputChannels s = 2 \<and> tape > 1"

definition queue_ok :: "RtpMixer \<Rightarrow> bool" where
  "queue_ok s \<longleftrightarrow> (\<forall>c \<in> set (m_outputQueue s). good_chunk c)"

definition mixer_ok :: "int \<Rightarrow> RtpMixer \<Rightarrow> bool" where
  "mixer_ok tape s \<longleftrightarrow> ring_ok s \<and> channels_ok s \<and> holdoff_ok s \<and> stereo_ok tape s \<and> queue_ok s"

text \<open>With the number of output channels, which no operation changes.\<close>

definition mixer_inv :: "int \<Rightarrow> int \<Rightarrow> RtpMixer \<Rightarrow> bool" where
  "mixer_inv tape outs s \<longleftrightarrow> mixer_ok tape s \<and> outs = m_numOutputChannels s"

text \<open>
  The chunks that a mixer takes: end of stream, and PCM of a channel from one on, or of channel 0 (mono) if the output is
  mono, so that the mixer has no table of channels.
\<close>

definition input_ok :: "int \<Rightarrow> int \<Rightarrow> AudioChunk \<Rightarrow> bool" where
  "input_ok tape outs c \<longleftrightarrow> m_marker (m_details c) = MEDIA_CHUNK_EOS_MARKER \<or>
     (pcm_chunk c \<and> (outs = 2 \<and> tape > 1 \<longrightarrow> m_channel (m_details c) \<noteq> 0))"

section \<open>Shipments keep it\<close>

lemma stop_ptr_ok:
  assumes "ring_ok s" "holdoff_ok s"
  shows "0 \<le> stop_ptr force s" "nat (stop_ptr force s) < NB"
    and "\<not> force \<Longrightarrow> stop_ptr force s = int (circ_sub (nat (m_writePtr s)) (nat (m_NumSampleShipmentHoldoff s)))"
proof -
  have "nat (m_NumSampleShipmentHoldoff s) < NB" using assms(2) by (auto simp: holdoff_ok_def)
  then have "CicularPointerSubtractOffset (m_writePtr s) (m_NumSampleShipmentHoldoff s) =
      int (circ_sub (nat (m_writePtr s)) (nat (m_NumSampleShipmentHoldoff s)))"
    and "circ_sub (nat (m_writePtr s)) (nat (m_NumSampleShipmentHoldoff s)) < NB"
    using assms CicularPointerSubtractOffset_circ_sub [of "nat (m_NumSampleShipmentHoldoff s)" "nat (m_writePtr s)"]
    by (auto simp: ring_ok_def holdoff_ok_def intro!: circ_sub_less)
  then show "0 \<le> stop_ptr force s" "nat (stop_ptr force s) < NB"
    "\<not> force \<Longrightarrow> stop_ptr force s = int (circ_sub (nat (m_writePtr s)) (nat (m_NumSampleShipmentHoldoff s)))"
    using assms(1) by (auto simp: stop_ptr_def ring_ok_def)
qed

lemma mixer_ok_advance:
  assumes "mixer_inv tape outs s" "0 \<le> ptr" "nat ptr < NB" "\<forall>c \<in> set q. good_chunk c"
  shows "mixer_inv tape outs (advance n ptr q s)"
  using assms by (auto simp: mixer_inv_def mixer_ok_def ring_ok_def channels_ok_def holdoff_ok_def stereo_ok_def queue_ok_def advance_def)

lemma CreateShipment_safe:
  assumes "mixer_inv tape outs s"
  obtains n ptr q where "CreateShipment tape 0 force s = Inr (advance n ptr q s)"
    "mixer_inv tape outs (advance n ptr q s)"
proof -
  have ok: "ring_ok s" "channels_ok s" "holdoff_ok s" using assms by (simp_all add: mixer_inv_def mixer_ok_def)
  note stop = stop_ptr_ok(1,2) [OF ok(1,3), of force]
  from CreateShipment_ok [OF ok(1,2) stop, of tape] mixer_ok_advance [OF assms stop] that
  show thesis by blast
qed

section \<open>Storing keeps it\<close>

lemma mixer_ok_same:
  assumes "mixer_inv tape outs s" "same_but_store s s'" "ring_ok s'" "channels_ok s'"
  shows "mixer_inv tape outs s'" "m_numInputChannels s' = m_numInputChannels s"
proof -
  note eq = assms(2) [unfolded same_but_store_def]
  have "m_NumSampleShipmentHoldoff s' = m_NumSampleShipmentHoldoff s"
      "m_numInputChannels s' = m_numInputChannels s" "m_numOutputChannels s' = m_numOutputChannels s"
      "m_outputQueue s' = m_outputQueue s"
    using arg_cong [OF eq, of m_NumSampleShipmentHoldoff] arg_cong [OF eq, of m_numInputChannels]
      arg_cong [OF eq, of m_numOutputChannels] arg_cong [OF eq, of m_outputQueue] by simp_all
  with assms show "mixer_inv tape outs s'" "m_numInputChannels s' = m_numInputChannels s"
    by (simp_all add: mixer_inv_def mixer_ok_def holdoff_ok_def stereo_ok_def queue_ok_def)
qed

lemma StoreRtpPacket_keeps:
  assumes "mixer_inv tape outs s" "pcm_chunk chunk" "channel_ok chunk s"
  shows "\<exists>s'. StoreRtpPacket chunk corr s = Inr s' \<and> mixer_inv tape outs s' \<and>
     m_numInputChannels s' = m_numInputChannels s"
proof -
  have "store_ready chunk s" using assms by (simp add: store_ready_def mixer_inv_def mixer_ok_def)
  from StoreRtpPacket_safe [OF this, of corr] mixer_ok_same [OF assms(1)] show ?thesis by blast
qed

lemma mixer_ok_Reset: "mixer_inv tape outs s \<Longrightarrow> mixer_inv tape outs (Reset t s)"
  by (simp add: mixer_inv_def mixer_ok_def Reset_def ring_ok_def channels_ok_def holdoff_ok_def stereo_ok_def queue_ok_def)

lemma channel_ok_frame: "m_numInputChannels s' = m_numInputChannels s \<Longrightarrow> channel_ok chunk s' = channel_ok chunk s"
  by (simp add: channel_ok_def)

lemma mixer_ok_chans:
  assumes "mixer_inv tape outs s" "length chans = length (m_rtpMixerChannels s)" "bufs_ok chans"
  shows "mixer_inv tape outs (s\<lparr>m_rtpMixerChannels := chans\<rparr>)"
  using assms by (simp add: mixer_inv_def mixer_ok_def ring_ok_def channels_ok_def holdoff_ok_def stereo_ok_def queue_ok_def)

text \<open>The slot of a channel, when there are channels.\<close>

lemma channel_slot:
  assumes "channels_ok s" "channel_ok chunk s" "m_numInputChannels s \<noteq> 0"
  shows "0 \<le> uint (m_channel (m_details chunk)) - 1"
    and "uint (m_channel (m_details chunk)) - 1 < int (length (m_rtpMixerChannels s))"
  using assms channel_pos [of "m_channel (m_details chunk)"]
  by (auto simp: channels_ok_def channel_ok_def)

lemma ManageOutOfRangeTimestamp_keeps:
  assumes ok: "mixer_inv tape outs s" "pcm_chunk chunk" "channel_ok chunk s"
  shows "\<exists>s'. ManageOutOfRangeTimestamp tape chunk s = Inr s' \<and> mixer_inv tape outs s'"
proof -
  consider "m_channel (m_details chunk) = 1" | "m_channel (m_details chunk) = 2"
    | "m_channel (m_details chunk) \<notin> {1, 2}" "m_numInputChannels s \<noteq> 0"
    | "m_channel (m_details chunk) \<notin> {1, 2}" "m_numInputChannels s = 0" by auto
  then show ?thesis
  proof cases
    case 1
    obtain n ptr q where ship: "CreateShipment tape 0 True s = Inr (advance n ptr q s)"
        "mixer_inv tape outs (advance n ptr q s)"
      using CreateShipment_safe [OF ok(1)] .
    let ?s1 = "Reset (m_timestamp (m_details chunk)) (advance n ptr q s)"
    have "channel_ok chunk ?s1"
      using ok(3) by (simp add: channel_ok_def Reset_def advance_def)
    then obtain s2 where "StoreRtpPacket chunk (m_timestamp (m_details chunk)) ?s1 = Inr s2" "mixer_inv tape outs s2"
      using StoreRtpPacket_keeps [OF mixer_ok_Reset [OF ship(2)] ok(2)] by blast
    then show ?thesis
      using 1 ship by (simp add: ManageOutOfRangeTimestamp_def Let_def)
        (simp add: mixer_inv_def mixer_ok_def ring_ok_def channels_ok_def holdoff_ok_def stereo_ok_def queue_ok_def)
  next
    case 2
    with ok show ?thesis
      by (simp add: ManageOutOfRangeTimestamp_def Let_def)
        (simp add: mixer_inv_def mixer_ok_def ring_ok_def channels_ok_def holdoff_ok_def stereo_ok_def queue_ok_def)
  next
    case 3
    have ch: "channels_ok s" using ok by (simp add: mixer_inv_def mixer_ok_def)
    note slot = channel_slot [OF ch ok(3) 3(2)]
    have "bufs_ok (m_rtpMixerChannels s)" using ch by (simp add: channels_ok_def)
    with 3 slot mixer_ok_chans [OF ok(1)] show ?thesis
      by (simp add: ManageOutOfRangeTimestamp_def Let_def bufs_ok_update nat_less_iff)
  next
    case 4
    with ok show ?thesis by (simp add: ManageOutOfRangeTimestamp_def Let_def)
  qed
qed

lemma place_chunk_keeps:
  assumes ok: "mixer_inv tape outs s" "pcm_chunk chunk" "channel_ok chunk s"
  shows "\<exists>s'. place_chunk tape chunk corr s = Inr s' \<and> mixer_inv tape outs s'"
proof -
  let ?fits = "sint (corr + word_of_int (int (numSamples chunk)) - m_writeTimestamp s) \<le> sint (FreeSpace s) \<and>
              sint (m_writeTimestamp s - corr) \<le> sint (UsedSpace s)"
  note n = GetNumSamples_numSamples [OF ok(2)]
  consider "m_writeTimestamp s = 0" "m_channel (m_details chunk) = 1"
    | "m_writeTimestamp s = 0" "m_channel (m_details chunk) \<noteq> 1"
    | "m_writeTimestamp s \<noteq> 0" "corr \<ge> m_readTimestamp s" "?fits"
    | "m_writeTimestamp s \<noteq> 0" "\<not> (corr \<ge> m_readTimestamp s \<and> ?fits)" by blast
  then show ?thesis
  proof cases
    case 1
    let ?s1 = "s\<lparr>m_writeTimestamp := corr, m_readTimestamp := corr, m_oneS1PacketState := True\<rparr>"
    have "mixer_inv tape outs ?s1" "channel_ok chunk ?s1" using ok
      by (simp_all add: mixer_inv_def mixer_ok_def ring_ok_def channels_ok_def holdoff_ok_def stereo_ok_def queue_ok_def channel_ok_def)
    with 1 n StoreRtpPacket_keeps [OF _ ok(2), of tape outs ?s1 corr] show ?thesis
      by (auto simp: place_chunk_def Let_def)
  next
    case 2
    with n ok show ?thesis by (simp add: place_chunk_def Let_def)
  next
    case 3
    obtain s1 where s1: "StoreRtpPacket chunk corr s = Inr s1" "mixer_inv tape outs s1"
      using StoreRtpPacket_keeps [OF ok] by blast
    obtain m ptr q where "CreateShipment tape 0 False s1 = Inr (advance m ptr q s1)" "mixer_inv tape outs (advance m ptr q s1)"
      using CreateShipment_safe [OF s1(2)] .
    moreover have "place_chunk tape chunk corr s =
        (if UsedSpace s1 > word_of_int (m_numSampleTrigger s1) then CreateShipment tape 0 False s1 else Inr s1)"
      unfolding place_chunk_def n andThen_Inr Let_def using 3 s1 by simp
    ultimately show ?thesis using s1 by simp
  next
    case 4
    then have "place_chunk tape chunk corr s = ManageOutOfRangeTimestamp tape chunk s"
      unfolding place_chunk_def n andThen_Inr Let_def by auto
    with ManageOutOfRangeTimestamp_keeps [OF ok] show ?thesis by simp
  qed
qed

section \<open>The input sides keep it\<close>

lemma mixer_ok_fields:
  assumes "mixer_inv tape outs s"
  shows "mixer_inv tape outs (s\<lparr>m_statsS1 := st, m_lastTimestampS1 := t, m_lastChunkS1 := c, m_numProcessedSamples := k\<rparr>)"
    and "mixer_inv tape outs (s\<lparr>m_statsS2 := st, m_lastTimestampS2 := t, m_lastChunkS2 := c,
            m_timestampCorrectiveDelta := d, m_oneS1PacketState := b\<rparr>)"
    and "mixer_inv tape outs (s\<lparr>m_invalidChannelReported := b\<rparr>)"
    and "mixer_inv tape outs (s\<lparr>m_error := b\<rparr>)"
  using assms by (simp_all add: mixer_inv_def mixer_ok_def ring_ok_def channels_ok_def holdoff_ok_def stereo_ok_def queue_ok_def)

lemma rogue_correction_same:
  assumes "rogue_correction t lastChunk c = (c', t')"
  shows "pcm_chunk c' = pcm_chunk c" "m_channel (m_details c') = m_channel (m_details c)"
    "numSamples c' = numSamples c" "payload c' = payload c"
  using assms
  by (auto simp: rogue_correction_def set_timestamp_def Let_def pcm_chunk_def wf_chunk_def numSamples_def payload_def
      split: option.splits if_splits)

lemma channel_stats_keeps:
  assumes "mixer_inv tape outs s" "m_numInputChannels s \<noteq> 0 \<Longrightarrow> 0 \<le> i \<and> i < m_numInputChannels s"
  shows "\<exists>s'. channel_stats i d c s = Inr s' \<and> mixer_inv tape outs s' \<and> m_numInputChannels s' = m_numInputChannels s"
proof (cases "m_numInputChannels s = 0")
  case True
  with assms show ?thesis by (simp add: channel_stats_def)
next
  case False
  have ch: "channels_ok s" using assms by (simp add: mixer_inv_def mixer_ok_def)
  then have i: "0 \<le> i" "i < int (length (m_rtpMixerChannels s))" and b: "bufs_ok (m_rtpMixerChannels s)"
    using assms(2) [OF False] by (auto simp: channels_ok_def)
  let ?ch = "m_rtpMixerChannels s ! nat i"
  have "length (ch_buffer ?ch) = NB" using b i by simp
  with False i b show ?thesis
    by (auto simp: channel_stats_def Let_def split: option.split
        intro!: mixer_ok_chans [OF assms(1)] bufs_ok_update)
qed

text \<open>What a side hands to \<open>place_chunk\<close>.\<close>

definition side_done :: "int \<Rightarrow> int \<Rightarrow> AudioChunk \<Rightarrow> RtpMixer \<Rightarrow> (RtpMixer \<times> AudioChunk \<times> u32) result \<Rightarrow> bool" where
  "side_done tape outs chunk s r \<longleftrightarrow> (\<exists>s' chunk' corr. r = Inr (s', chunk', corr) \<and> mixer_inv tape outs s' \<and>
     pcm_chunk chunk' \<and> m_channel (m_details chunk') = m_channel (m_details chunk) \<and>
     m_numInputChannels s' = m_numInputChannels s)"

lemma input_side1_done:
  assumes "mixer_inv tape outs s" "pcm_chunk chunk" "channel_ok chunk s" "m_channel (m_details chunk) = 1"
  shows "side_done tape outs chunk s (input_side1 chunk s)"
proof -
  obtain c1 t1 where r: "rogue_correction (m_lastTimestampS1 s) (m_lastChunkS1 s) chunk = (c1, t1)"
    by fastforce
  have "m_numInputChannels s \<noteq> 0 \<Longrightarrow> (0::int) \<le> 0 \<and> 0 < m_numInputChannels s"
    using assms by (simp add: channel_ok_def)
  then obtain s1 where "channel_stats 0 (m_details chunk) c1 s = Inr s1" "mixer_inv tape outs s1"
      "m_numInputChannels s1 = m_numInputChannels s"
    using channel_stats_keeps [OF assms(1)] by blast
  with r assms rogue_correction_same [OF r] show ?thesis
    by (simp add: input_side1_def side_done_def GetNumSamples_numSamples mixer_ok_fields)
qed

lemma input_side2_done:
  assumes "mixer_inv tape outs s" "pcm_chunk chunk" "channel_ok chunk s" "m_channel (m_details chunk) = 2"
  shows "side_done tape outs chunk s (input_side2 chunk s)"
proof -
  obtain c1 t1 where r: "rogue_correction (m_lastTimestampS2 s) (m_lastChunkS2 s) chunk = (c1, t1)"
    by fastforce
  have "m_numInputChannels s \<noteq> 0 \<Longrightarrow> (0::int) \<le> 1 \<and> 1 < m_numInputChannels s"
    using assms by (simp add: channel_ok_def)
  then obtain s1 where "channel_stats 1 (m_details chunk) c1 s = Inr s1" "mixer_inv tape outs s1"
      "m_numInputChannels s1 = m_numInputChannels s"
    using channel_stats_keeps [OF assms(1)] by blast
  with r assms rogue_correction_same [OF r] show ?thesis
    by (simp add: input_side2_def side_done_def Let_def mixer_ok_fields)
qed

lemma input_sideN_done:
  assumes "mixer_inv tape outs s" "pcm_chunk chunk" "channel_ok chunk s"
  shows "side_done tape outs chunk s (input_sideN chunk s)"
proof (cases "m_numInputChannels s = 0")
  case True
  with assms show ?thesis by (simp add: input_sideN_def side_done_def mixer_ok_fields)
next
  case False
  have ch: "channels_ok s" using assms by (simp add: mixer_inv_def mixer_ok_def)
  define i where "i = uint (m_channel (m_details chunk)) - 1"
  have i: "0 \<le> i" "i < int (length (m_rtpMixerChannels s))"
    using channel_slot [OF ch assms(3) False] by (simp_all add: i_def)
  obtain c1 t1 where r: "rogue_correction (ch_lastTimestamp (m_rtpMixerChannels s ! nat i))
      (ch_lastChunk (m_rtpMixerChannels s ! nat i)) chunk = (c1, t1)"
    by fastforce
  let ?s1 = "s\<lparr>m_rtpMixerChannels := (m_rtpMixerChannels s)[nat i := (m_rtpMixerChannels s ! nat i)\<lparr>ch_lastTimestamp := t1\<rparr>]\<rparr>"
  have "bufs_ok (m_rtpMixerChannels s)" using ch by (simp add: channels_ok_def)
  then have "mixer_inv tape outs ?s1" using i
    by (intro mixer_ok_chans [OF assms(1)]) (simp_all add: bufs_ok_update nat_less_iff)
  moreover have "m_numInputChannels ?s1 \<noteq> 0 \<Longrightarrow> 0 \<le> i \<and> i < m_numInputChannels ?s1"
    using i ch by (simp add: channels_ok_def)
  ultimately obtain s2 where "channel_stats i (m_details chunk) c1 ?s1 = Inr s2" "mixer_inv tape outs s2"
      "m_numInputChannels s2 = m_numInputChannels s"
    using channel_stats_keeps [of tape outs ?s1 i] by fastforce
  with False r i assms rogue_correction_same [OF r] show ?thesis
    by (simp add: input_sideN_def side_done_def Let_def i_def [symmetric])
qed

section \<open>Channels are created in time\<close>

lemma create_channels_loop_ok:
  assumes "mixer_inv tape outs s" "m_numOutputChannels s = 2" "tape > 1"
  shows "mixer_inv tape outs (create_channels_loop n s) \<and>
     m_numInputChannels (create_channels_loop n s) = m_numInputChannels s + int n \<and>
     m_error (create_channels_loop n s) = m_error s"
  using assms
proof (induction n arbitrary: s)
  case (Suc n)
  let ?s1 = "s\<lparr>m_rtpMixerChannels := m_rtpMixerChannels s @ [new_RtpMixerChannel\<lparr>ch_channel := m_numInputChannels s + 1\<rparr>],
        m_numInputChannels := m_numInputChannels s + 1\<rparr>"
  have "length silent_buffer = NB"
    by (simp add: silent_buffer_def NB_int)
  then have "mixer_inv tape outs ?s1" using Suc.prems
    by (auto simp: mixer_inv_def mixer_ok_def ring_ok_def channels_ok_def holdoff_ok_def stereo_ok_def queue_ok_def
        new_RtpMixerChannel_def nat_add_distrib)
  with Suc.IH [of ?s1] Suc.prems show ?case by simp
qed simp

lemma CreateChannels_ok:
  assumes "mixer_inv tape outs s" "outs = 2 \<and> tape > 1 \<longrightarrow> m_channel (m_details chunk) \<noteq> 0"
  defines "s' \<equiv> (if m_numOutputChannels s = 2 then CreateChannels tape (uint (m_channel (m_details chunk))) s else s)"
  shows "mixer_inv tape outs s'" "channel_ok chunk s'"
  using assms create_channels_loop_ok [OF assms(1), of "nat (uint (m_channel (m_details chunk)) - m_numInputChannels s)"]
  by (auto simp: CreateChannels_def channel_ok_def mixer_inv_def mixer_ok_def stereo_ok_def)

section \<open>The filter\<close>

lemma AudioChunkIn_keeps:
  assumes ok: "mixer_inv tape outs s" and c: "input_ok tape outs chunk"
  shows "\<exists>s' chunk'. AudioChunkIn tape (Some chunk) s = Inr (s', Some chunk') \<and> mixer_inv tape outs s'"
proof -
  let ?d = "m_details chunk"
  consider "m_error s" | "\<not> m_error s" "m_marker ?d = MEDIA_CHUNK_EOS_MARKER"
    | "\<not> m_error s" "m_marker ?d \<noteq> MEDIA_CHUNK_EOS_MARKER" "numSamples chunk = 0 \<or> GetNumBytes chunk > 100000"
    | "\<not> m_error s" "m_marker ?d \<noteq> MEDIA_CHUNK_EOS_MARKER" "numSamples chunk \<noteq> 0" "\<not> GetNumBytes chunk > 100000"
    by blast
  then show ?thesis
  proof cases
    case 1
    with ok show ?thesis by (simp add: AudioChunkIn_def)
  next
    case 2
    obtain n ptr q where "CreateShipment tape 0 True s = Inr (advance n ptr q s)" "mixer_inv tape outs (advance n ptr q s)"
      using CreateShipment_safe [OF ok] .
    with 2 show ?thesis by (simp add: AudioChunkIn_def Let_def)
  next
    case 3
    with c have "pcm_chunk chunk" by (simp add: input_ok_def)
    with 3 ok show ?thesis
      by (auto simp: AudioChunkIn_def Let_def GetNumSamples_numSamples mixer_ok_fields)
  next
    case 4
    with c have c: "pcm_chunk chunk" "outs = 2 \<and> tape > 1 \<longrightarrow> m_channel ?d \<noteq> 0" by (simp_all add: input_ok_def)
    define s1 where "s1 = (if m_numOutputChannels s = 2 then CreateChannels tape (uint (m_channel ?d)) s else s)"
    have s1: "mixer_inv tape outs s1" "channel_ok chunk s1"
      unfolding s1_def by (rule CreateChannels_ok [OF ok c(2)])+
    define r where "r = (if m_channel ?d = 1 then input_side1 chunk s1
                   else if m_channel ?d = 2 then input_side2 chunk s1 else input_sideN chunk s1)"
    have "side_done tape outs chunk s1 r"
      using s1 c by (simp add: r_def input_side1_done input_side2_done input_sideN_done)
    then obtain s2 chunk1 corr where r2: "r = Inr (s2, chunk1, corr)" "mixer_inv tape outs s2" "pcm_chunk chunk1"
        "m_channel (m_details chunk1) = m_channel ?d" "m_numInputChannels s2 = m_numInputChannels s1"
      by (auto simp: side_done_def)
    then have "channel_ok chunk1 s2" using s1 by (simp add: channel_ok_def)
    then obtain s3 where "place_chunk tape chunk1 corr s2 = Inr s3" "mixer_inv tape outs s3"
      using place_chunk_keeps [OF r2(2,3)] by blast
    moreover have "m_encoding ?d = PcmAudio" using c by (simp add: pcm_chunk_def)
    ultimately have "AudioChunkIn tape (Some chunk) s = Inr (s3, Some chunk1)"
      unfolding AudioChunkIn_def Let_def option.case GetNumSamples_numSamples [OF c(1)] andThen_Inr
        s1_def [symmetric] r_def [symmetric]
      using 4 r2(1) by simp
    with \<open>mixer_inv tape outs s3\<close> show ?thesis by blast
  qed
qed

lemma AudioChunkOut_keeps:
  assumes "mixer_inv tape outs s"
  shows "mixer_inv tape outs (snd (AudioChunkOut s))" "fst (AudioChunkOut s) = Some c \<Longrightarrow> good_chunk c"
  using assms
  by (auto simp: AudioChunkOut_def mixer_inv_def mixer_ok_def ring_ok_def channels_ok_def holdoff_ok_def stereo_ok_def queue_ok_def
      split: list.splits)

interpretation rtp_mixer: audio_filter "AudioChunkIn tape" AudioChunkOut "mixer_inv tape outs" "input_ok tape outs" good_chunk
  for tape outs
  by unfold_locales (use AudioChunkIn_keeps AudioChunkOut_keeps in blast)+

end
