(* ===== verification/RtpMixerProps.thy ===== *)
theory RtpMixerProps
  imports RtpMixerRun
begin

text \<open>
  The properties of the mixer over its window, the samples between the read and the write pointer:
  a stored packet is mixed into the window at its timestamp, a shipment moves a prefix of the window
  to the output, and the whole filter never faults.
\<close>

section \<open>Storing into the window\<close>

text \<open>Mix \<open>vs\<close> into \<open>base\<close> at offset \<open>q\<close>.\<close>

definition mix_at :: "nat \<Rightarrow> u16 list \<Rightarrow> u16 list \<Rightarrow> u16 list" where
  "mix_at q vs base = map (\<lambda>j. if q \<le> j \<and> j < q + length vs then mix_sample (base ! j) (vs ! (j - q)) else base ! j)
     [0..<length base]"

text \<open>The timestamps of the two pointers differ by the length of the window.\<close>

definition synced :: "RtpMixer \<Rightarrow> bool" where
  "synced s \<longleftrightarrow> uint (m_readTimestamp s) + int (used s) = uint (m_writeTimestamp s)"

lemma circ_dist_add: "r < NB \<Longrightarrow> u + z < NB \<Longrightarrow> circ_dist r w = u \<Longrightarrow> w < NB \<Longrightarrow> circ_dist r (circ (w + z)) = u + z"
  by (auto simp: circ_dist_def circ_def split: if_splits)

lemma circ_of_dist: "r < NB \<Longrightarrow> w < NB \<Longrightarrow> circ (r + circ_dist r w) = w"
  by (auto simp: circ_dist_def circ_def)

lemma circ_sub_offset:
  "r < NB \<Longrightarrow> k < NB \<Longrightarrow> d \<le> k \<Longrightarrow> circ_sub (circ (r + k)) d = circ (r + (k - d))"
  by (auto simp: circ_sub_def circ_def)

lemma window_stored:
  assumes ring: "ring_ok s" and fit: "used s + z < NB" and d: "d \<le> used s + z" "length (payload chunk) \<le> d"
  shows "used (stored z d chunk chans s) = used s + z"
    and "window (stored z d chunk chans s) =
      mix_at (used s + z - d) (payload chunk) (window s @ replicate z 0)"
proof -
  define r w where "r = nat (m_readPtr s)" and "w = nat (m_writePtr s)"
  have rw: "r < NB" "w < NB" and len: "length (m_buffer s) = NB" and u: "circ_dist r w = used s"
    using ring by (simp_all add: r_def w_def ring_ok_def used_def)
  show used': "used (stored z d chunk chans s) = used s + z"
    using circ_dist_add [OF rw(1) fit u rw(2)] by (simp add: used_def stored_def r_def w_def)
  let ?b1 = "circ_run (\<lambda>_ v. v) (replicate z 0) w (m_buffer s)"
  have w: "w = circ (r + used s)" using circ_of_dist [OF rw] u by simp
  have wz: "circ (w + z) = circ (r + (used s + z))"
    unfolding w using rw fit by (intro circ_circ_add) simp_all
  have start: "circ_sub (circ (w + z)) d = circ (r + (used s + z - d))"
    unfolding wz using rw fit d by (intro circ_sub_offset) simp_all
  show "window (stored z d chunk chans s) = mix_at (used s + z - d) (payload chunk) (window s @ replicate z 0)"
  proof (rule nth_equalityI)
    fix j
    assume "j < length (window (stored z d chunk chans s))"
    then have j: "j < used s + z" by (simp add: used')
    have b1: "?b1 ! circ (r + j) = (window s @ replicate z 0) ! j"
      using circ_run_nth_offset [OF len rw(1), of "used s" j "replicate z 0" "\<lambda>_ v. v"] fit j
      by (auto simp: w [symmetric] nth_append window_def r_def [symmetric])
    have "window (stored z d chunk chans s) ! j =
        circ_run mix_sample (payload chunk) (circ (r + (used s + z - d))) ?b1 ! circ (r + j)"
      using j by (simp add: window_def used') (simp add: stored_def start r_def [symmetric] w_def [symmetric])
    also have "\<dots> = (if used s + z - d \<le> j \<and> j < used s + z - d + length (payload chunk)
        then mix_sample (?b1 ! circ (r + j)) (payload chunk ! (j - (used s + z - d))) else ?b1 ! circ (r + j))"
      using rw fit j d len by (intro circ_run_nth_offset) simp_all
    finally show "window (stored z d chunk chans s) ! j =
        mix_at (used s + z - d) (payload chunk) (window s @ replicate z 0) ! j"
      using j by (simp add: mix_at_def b1)
  qed (simp add: used' mix_at_def)
qed

lemma StoreRtpPacket_window:
  assumes ready: "store_ready chunk s" and sync: "synced s" and R: "m_readTimestamp s \<le> corr"
    and fit: "uint corr + int (numSamples chunk) < uint (m_readTimestamp s) + int NB"
    and no_wrap: "uint corr + int (numSamples chunk) < 4294967296"
  shows "\<exists>s'. StoreRtpPacket chunk corr s = Inr s' \<and> synced s' \<and> ring_ok s' \<and>
     window s' = mix_at (nat (uint corr - uint (m_readTimestamp s))) (payload chunk)
       (window s @ replicate (nat (uint corr + int (numSamples chunk) - uint (m_writeTimestamp s))) 0)"
proof -
  let ?W = "uint (m_writeTimestamp s)" and ?R = "uint (m_readTimestamp s)"
  let ?e = "uint corr + int (numSamples chunk)"
  have ring: "ring_ok s" and pcm: "pcm_chunk chunk" using ready by (simp_all add: store_ready_def)
  note u = used_less [OF ring]
  define z where "z = nat (?e - ?W)"
  define d where "d = nat (max ?e ?W - uint corr)"
  have RW: "?R + int (used s) = ?W" using sync by (simp add: synced_def)
  have R': "?R \<le> uint corr" using R by (simp add: word_le_def)
  have d: "int d = max ?e ?W - uint corr" by (auto simp: d_def max_def)
  have z: "int (used s + z) = max ?e ?W - ?R" using RW by (auto simp: z_def max_def)
  have bounds: "z < NB" "d < NB" "used s + z < NB" "d \<le> used s + z" "length (payload chunk) \<le> d"
    using fit u RW R' z d length_payload [OF pcm] by (auto simp: max_def split: if_splits)
  obtain chans where store: "StoreRtpPacket chunk corr s = Inr (stored z d chunk chans s)"
    using StoreRtpPacket_stored [OF ready refl no_wrap z_def bounds(1) d bounds(2)] by blast
  note win = window_stored [OF ring bounds(3-5), of chans]
  have "uint (word_of_int (?W + int z) :: u32) = ?W + int z"
    using no_wrap uint_u32_bound [of "m_writeTimestamp s"] by (intro uint_of_int_u32) (auto simp: z_def)
  moreover have "m_readTimestamp (stored z d chunk chans s) = m_readTimestamp s"
    "m_writeTimestamp (stored z d chunk chans s) = word_of_int (?W + int z)" by (simp_all add: stored_def)
  ultimately have "synced (stored z d chunk chans s)"
    unfolding synced_def win(1) using RW by simp
  moreover have "used s + z - d = nat (uint corr - ?R)" using z d bounds by linarith
  ultimately show ?thesis
    using store win(2) ring_ok_stored [OF ring bounds(1)] by (auto simp: z_def)
qed

section \<open>Shipping from the window\<close>

lemma window_cells: "window s = cells (m_buffer s) (nat (m_readPtr s)) (used s)"
  by (simp add: window_def cells_def)

lemma circ_dist_sub:
  "r < NB \<Longrightarrow> w < NB \<Longrightarrow> h < NB \<Longrightarrow> h \<le> circ_dist r w \<Longrightarrow> circ_dist r (circ_sub w h) = circ_dist r w - h"
  by (auto simp: circ_dist_def circ_sub_def split: if_splits)

lemma circ_dist_shift:
  "r < NB \<Longrightarrow> w < NB \<Longrightarrow> n \<le> circ_dist r w \<Longrightarrow> circ_dist (circ (r + n)) w = circ_dist r w - n"
  by (auto simp: circ_dist_def circ_def split: if_splits)

lemma CreateShipment_prefix:
  assumes ring: "ring_ok s" "channels_ok s" and stop: "0 \<le> stop_ptr force s" "nat (stop_ptr force s) < NB"
    and n: "circ_dist (nat (m_readPtr s)) (nat (stop_ptr force s)) = n" "n \<le> used s"
  shows "\<exists>s'. CreateShipment tape 0 force s = Inr s' \<and>
     samples_of (m_outputQueue s') = samples_of (m_outputQueue s) @ take n (window s) \<and>
     window s' = drop n (window s) \<and> m_readTimestamp s' = m_readTimestamp s + word_of_nat n \<and>
     m_writeTimestamp s' = m_writeTimestamp s \<and> m_shippedSamples s' = m_shippedSamples s + word_of_nat n"
proof -
  define r w where "r = nat (m_readPtr s)" and "w = nat (m_writePtr s)"
  have rw: "r < NB" "w < NB" using ring by (simp_all add: r_def w_def ring_ok_def)
  obtain q where q: "CreateShipment tape 0 force s = Inr (advance n (stop_ptr force s) q s)"
      "samples_of q = cells (m_buffer s) r n"
    using CreateShipment_ok [OF ring stop, of tape] n r_def by auto
  have "circ (r + n) = nat (stop_ptr force s)"
    using circ_of_dist [OF rw(1) stop(2)] n r_def by simp
  moreover from this have "circ_dist (nat (stop_ptr force s)) w = used s - n"
    using circ_dist_shift [OF rw, of n] n by (simp add: used_def r_def w_def)
  then have "used (advance n (stop_ptr force s) q s) = used s - n"
    by (simp add: used_def advance_def w_def)
  ultimately have "window (advance n (stop_ptr force s) q s) = drop n (window s)"
    using drop_cells [OF rw(1), of "used s" n "m_buffer s"] used_less [OF ring(1)] n
    by (simp add: window_cells r_def [symmetric]) (simp add: advance_def)
  moreover have "samples_of q = take n (window s)"
    using q(2) n by (simp add: window_cells take_cells r_def min_def)
  ultimately show ?thesis
    using q(1) by (intro exI [of _ "advance n (stop_ptr force s) q s"]) (simp add: advance_def)
qed

text \<open>How many samples a shipment takes: all of them when forced, otherwise all but the holdoff.\<close>

definition ship_size :: "bool \<Rightarrow> RtpMixer \<Rightarrow> nat" where
  "ship_size force s = (if force then used s else used s - nat (m_NumSampleShipmentHoldoff s))"

lemma CreateShipment_ships:
  assumes ok: "mixer_ok tape s" and held: "\<not> force \<Longrightarrow> nat (m_NumSampleShipmentHoldoff s) \<le> used s"
  shows "\<exists>s'. CreateShipment tape 0 force s = Inr s' \<and>
     samples_of (m_outputQueue s') = samples_of (m_outputQueue s) @ take (ship_size force s) (window s) \<and>
     window s' = drop (ship_size force s) (window s) \<and>
     m_readTimestamp s' = m_readTimestamp s + word_of_nat (ship_size force s) \<and>
     m_writeTimestamp s' = m_writeTimestamp s \<and>
     m_shippedSamples s' = m_shippedSamples s + word_of_nat (ship_size force s)"
proof -
  have ring: "ring_ok s" "channels_ok s" "holdoff_ok s" using ok by (simp_all add: mixer_ok_def)
  have rw: "nat (m_readPtr s) < NB" "nat (m_writePtr s) < NB" "nat (m_NumSampleShipmentHoldoff s) < NB"
    using ring by (auto simp: ring_ok_def holdoff_ok_def)
  have "circ_dist (nat (m_readPtr s)) (nat (stop_ptr force s)) = ship_size force s"
  proof (cases force)
    case True
    then show ?thesis by (simp add: stop_ptr_def ship_size_def used_def)
  next
    case False
    then show ?thesis
      using stop_ptr_ok(3) [OF ring(1,3) False] circ_dist_sub [OF rw] held [OF False]
      by (simp add: ship_size_def used_def)
  qed
  then show ?thesis
    by (intro CreateShipment_prefix ring stop_ptr_ok [OF ring(1,3)]) (simp_all add: ship_size_def)
qed

section \<open>Mixing two samples\<close>

lemma sint_of_int_u16: "- 32768 \<le> k \<Longrightarrow> k \<le> 32767 \<Longrightarrow> sint (word_of_int k :: u16) = k"
  by (simp add: sint_sbintrunc' signed_take_bit_int_eq_self)

lemma sint_mix_sample: "sint (mix_sample a b) = max (- 32768) (min 32767 (sint a + sint b))"
  by (simp add: mix_sample_def Let_def sint_of_int_u16)

section \<open>Inputs for the witnesses\<close>

definition sample_chunk :: "u8 \<Rightarrow> u32 \<Rightarrow> u16 list \<Rightarrow> AudioChunk" where
  "sample_chunk channel ts samples = new_AudioChunk\<lparr>
     m_details := details_Clear\<lparr>m_encoding := PcmAudio, m_numBytes := word_of_nat (2 * length samples),
                    m_timestamp := ts, m_channel := channel\<rparr>,
     m_pBuffer := Some (bytes_of_shorts samples)\<rparr>"

lemma sample_chunk_ok:
  assumes "length samples < 20000"
  shows "pcm_chunk (sample_chunk channel ts samples)" "payload (sample_chunk channel ts samples) = samples"
    "numSamples (sample_chunk channel ts samples) = length samples"
    "m_channel (m_details (sample_chunk channel ts samples)) = channel"
  using assms
  by (simp_all del: of_nat_mult
      add: pcm_chunk_def wf_chunk_def sample_chunk_def new_AudioChunk_def payload_def numSamples_def unat_of_nat_u32)

definition fresh_mixer :: RtpMixer where
  "fresh_mixer = (new_RtpMixer silent_buffer 0 0)\<lparr>m_writeTimestamp := 100, m_readTimestamp := 100\<rparr>"

lemma new_RtpMixer_ok: "length mem = NB \<Longrightarrow> mixer_ok tape (new_RtpMixer mem t1 t2)"
  by (simp add: mixer_ok_def ring_ok_def channels_ok_def holdoff_ok_def stereo_ok_def queue_ok_def new_RtpMixer_def
      NUM_SAMPLES_SHIPMENT_HOLDOFF_def NB_def)

lemma fresh_mixer_ok: "mixer_ok tape fresh_mixer" "synced fresh_mixer" "used fresh_mixer = 0" "window fresh_mixer = []"
    "store_ready (sample_chunk 1 ts [1, 2, 3]) fresh_mixer"
proof -
  have "mixer_ok tape (new_RtpMixer silent_buffer 0 0)" for tape
    by (rule new_RtpMixer_ok) (simp add: silent_buffer_def NB_int)
  then show m: "mixer_ok tape fresh_mixer" for tape
    by (simp add: mixer_ok_def ring_ok_def channels_ok_def holdoff_ok_def stereo_ok_def queue_ok_def fresh_mixer_def)
  show u: "used fresh_mixer = 0"
    by (simp add: used_def fresh_mixer_def new_RtpMixer_def circ_dist_def)
  then show "synced fresh_mixer" by (simp add: synced_def fresh_mixer_def)
  from u show "window fresh_mixer = []" by (simp add: window_def)
  from m show "store_ready (sample_chunk 1 ts [1, 2, 3]) fresh_mixer"
    by (simp add: store_ready_def mixer_ok_def sample_chunk_ok channel_ok_def fresh_mixer_def new_RtpMixer_def)
qed

section \<open>Properties\<close>

text \<open>A mono chunk in a mixer that has a table of channels: the code reads entry -1 of the table.\<close>

lemma mono_chunk_faults:
  assumes "mixer_ok tape s" "m_numInputChannels s \<noteq> 0" "\<not> m_error s"
    and "pcm_chunk chunk" "m_channel (m_details chunk) = 0" "m_marker (m_details chunk) \<noteq> MEDIA_CHUNK_EOS_MARKER"
    and "numSamples chunk \<noteq> 0" "GetNumBytes chunk \<le> 100000"
  shows "AudioChunkIn tape (Some chunk) s = Inl OutOfBounds"
proof -
  have "CreateChannels tape 0 s = s" using assms(1) by (simp add: CreateChannels_def mixer_ok_def channels_ok_def)
  moreover have "input_sideN chunk s = Inl OutOfBounds" using assms(2,5) by (simp add: input_sideN_def Let_def peek_def)
  moreover have "m_encoding (m_details chunk) = PcmAudio" using assms(4) by (simp add: pcm_chunk_def)
  ultimately show ?thesis using assms(3,5-) by (simp add: AudioChunkIn_def Let_def GetNumSamples_numSamples [OF assms(4)])
qed

text \<open>C14: The filter never faults on the chunks it is built for: whatever sequence of PCM or end-of-stream chunks is fed to a mixer
  in a well-formed state, in whatever order with draining its output, no access leaves the sample buffers or the channel
  table, no exception is thrown, and every chunk that comes out is PCM with between 1 and 16000 samples. The channels are
  numbered from 1; channel 0, a mono chunk, is allowed where the output is mono. Where it is not, such a chunk makes the
  mixer read outside of its table once it has channels (\<open>mono_chunk_faults\<close>).\<close>

theorem mixer_run_safe:
  assumes "mixer_ok tape s" "accepted (input_ok tape (m_numOutputChannels s)) ops"
  shows "\<exists>out s'. run_filter (AudioChunkIn tape) AudioChunkOut ops s = Inr (out, s') \<and>
     mixer_ok tape s' \<and> list_all good_chunk out"
  using rtp_mixer.run_filter_safe [of tape "m_numOutputChannels s" s ops] assms by (auto simp: list_all_iff mixer_inv_def)

theorem mixer_run_safe_witness:
  "\<exists>out s'. run_filter (AudioChunkIn 2) AudioChunkOut
       [Feed (sample_chunk 1 100 [1, 2, 3]), Drain, Feed (sample_chunk 3 7 [4]), Feed (sample_chunk 0 900 [5]), Drain]
       (new_RtpMixer silent_buffer 5 6) = Inr (out, s') \<and> mixer_ok 2 s' \<and> list_all good_chunk out"
proof (rule mixer_run_safe)
  show "mixer_ok 2 (new_RtpMixer silent_buffer 5 6)"
    by (rule new_RtpMixer_ok) (simp add: silent_buffer_def NB_int)
  show "accepted (input_ok 2 (m_numOutputChannels (new_RtpMixer silent_buffer 5 6)))
      [Feed (sample_chunk 1 100 [1, 2, 3]), Drain, Feed (sample_chunk 3 7 [4]), Feed (sample_chunk 0 900 [5]), Drain]"
    by (simp add: input_ok_def sample_chunk_ok new_RtpMixer_def)
qed

text \<open>C15: Storing a packet mixes it into the window at its timestamp: when its end stays within one
  buffer length of the read timestamp, the window afterwards is the window before, extended with
  silence up to the packet's end, with the packet's samples added (saturating) at the offset
  \<open>correctedTimestamp - m_readTimestamp\<close>; the timestamps keep describing the window.\<close>

theorem StoreRtpPacket_mixes:
  assumes "store_ready chunk s" "synced s" "m_readTimestamp s \<le> corr"
    and "uint corr + int (numSamples chunk) < uint (m_readTimestamp s) + int NB"
    and "uint corr + int (numSamples chunk) < 4294967296"
  shows "\<exists>s'. StoreRtpPacket chunk corr s = Inr s' \<and> synced s' \<and>
     window s' = mix_at (nat (uint corr - uint (m_readTimestamp s))) (payload chunk)
       (window s @ replicate (nat (uint corr + int (numSamples chunk) - uint (m_writeTimestamp s))) 0)"
  using StoreRtpPacket_window [OF assms] by blast

theorem StoreRtpPacket_mixes_witness:
  "\<exists>s'. StoreRtpPacket (sample_chunk 1 102 [1, 2, 3]) 102 fresh_mixer = Inr s' \<and> synced s' \<and>
     window s' = [0, 0, 1, 2, 3]"
proof -
  have "m_readTimestamp fresh_mixer = 100" "m_writeTimestamp fresh_mixer = 100"
    by (simp_all add: fresh_mixer_def)
  moreover have "mix_at 2 [1, 2, 3] (replicate 5 0) = [0, 0, 1, 2, 3]"
    by (simp add: mix_at_def upt_rec mix_sample_def)
  ultimately show ?thesis
    using StoreRtpPacket_mixes [of "sample_chunk 1 102 [1, 2, 3]" fresh_mixer 102] fresh_mixer_ok
    by (simp add: sample_chunk_ok NB_def)
qed

text \<open>C16: A shipment moves a prefix of the window to the output, in order and unchanged: everything
  when forced (end of stream), otherwise all but the newest \<open>m_NumSampleShipmentHoldoff\<close> samples.
  The read timestamp and the count of shipped samples advance by the same amount, so queued samples
  followed by the window stay the same stream.\<close>

theorem CreateShipment_stream:
  assumes "mixer_ok tape s" "\<not> force \<Longrightarrow> nat (m_NumSampleShipmentHoldoff s) \<le> used s"
  shows "\<exists>s'. CreateShipment tape 0 force s = Inr s' \<and>
     samples_of (m_outputQueue s') @ window s' = samples_of (m_outputQueue s) @ window s \<and>
     length (window s') = (if force then 0 else nat (m_NumSampleShipmentHoldoff s)) \<and>
     m_readTimestamp s' = m_readTimestamp s + word_of_nat (ship_size force s) \<and>
     m_shippedSamples s' = m_shippedSamples s + word_of_nat (ship_size force s)"
proof -
  obtain s' where s': "CreateShipment tape 0 force s = Inr s'"
     "samples_of (m_outputQueue s') = samples_of (m_outputQueue s) @ take (ship_size force s) (window s)"
     "window s' = drop (ship_size force s) (window s)"
     "m_readTimestamp s' = m_readTimestamp s + word_of_nat (ship_size force s)"
     "m_shippedSamples s' = m_shippedSamples s + word_of_nat (ship_size force s)"
    using CreateShipment_ships [OF assms] by blast
  have "length (window s') = used s - ship_size force s"
    unfolding s'(3) by (simp del: length_window add: window_def)
  then have "length (window s') = (if force then 0 else nat (m_NumSampleShipmentHoldoff s))"
    using assms(2) by (cases force) (simp_all add: ship_size_def)
  moreover have "samples_of (m_outputQueue s') @ window s' = samples_of (m_outputQueue s) @ window s"
    unfolding s'(2,3) by simp
  ultimately show ?thesis using s'(1,4,5) by blast
qed

theorem CreateShipment_stream_witness:
  "\<exists>s1 s'. StoreRtpPacket (sample_chunk 1 100 [1, 2, 3]) 100 fresh_mixer = Inr s1 \<and>
     CreateShipment 1 0 True s1 = Inr s' \<and> samples_of (m_outputQueue s') @ window s' = [1, 2, 3]"
proof -
  have ts: "m_readTimestamp fresh_mixer = 100" "m_writeTimestamp fresh_mixer = 100"
      "m_numInputChannels fresh_mixer = 0" "m_outputQueue fresh_mixer = []"
    by (simp_all add: fresh_mixer_def new_RtpMixer_def)
  have mix: "mix_at 0 [1, 2, 3] (replicate 3 0) = [1, 2, 3]"
    by (simp add: mix_at_def upt_rec mix_sample_def)
  obtain s1 where s1: "StoreRtpPacket (sample_chunk 1 100 [1, 2, 3]) 100 fresh_mixer = Inr s1" "window s1 = [1, 2, 3]"
    using StoreRtpPacket_window [of "sample_chunk 1 100 [1, 2, 3]" fresh_mixer 100] fresh_mixer_ok ts mix
    by (auto simp: sample_chunk_ok NB_def)
  moreover have "mixer_inv 1 (m_numOutputChannels fresh_mixer) fresh_mixer" using fresh_mixer_ok(1) by (simp add: mixer_inv_def)
  then obtain s2 where "StoreRtpPacket (sample_chunk 1 100 [1, 2, 3]) 100 fresh_mixer = Inr s2" "mixer_ok 1 s2"
      "same_but_store fresh_mixer s2"
    using StoreRtpPacket_safe [OF fresh_mixer_ok(5), of 100 100] mixer_ok_same(1) by (fastforce simp: mixer_inv_def)
  ultimately have m: "mixer_ok 1 s1" and same: "same_but_store fresh_mixer s1" by simp_all
  have "m_outputQueue s1 = []"
    using arg_cong [OF same [unfolded same_but_store_def], of m_outputQueue] ts by simp
  with CreateShipment_stream [OF m, where force = True] s1 show ?thesis by auto
qed

text \<open>C17: Samples are added in 16 bits with saturation, never with wrap-around, and the order in which
  two sides are mixed does not matter.\<close>

theorem mix_sample_saturates:
  "sint (mix_sample a b) = max (- 32768) (min 32767 (sint a + sint b)) \<and> mix_sample a b = mix_sample b a"
  by (simp add: sint_mix_sample) (simp add: mix_sample_def add.commute)

text \<open>A packet whose end fills the buffer to the last sample: the write pointer meets the read pointer.\<close>

lemma StoreRtpPacket_full:
  assumes ready: "store_ready chunk s" and sync: "synced s" and R: "m_readTimestamp s < corr" and u: "0 < used s"
    and fill: "uint corr + int (numSamples chunk) = uint (m_readTimestamp s) + int NB"
    and no_wrap: "uint corr + int (numSamples chunk) < 4294967296"
  shows "\<exists>s'. StoreRtpPacket chunk corr s = Inr s' \<and> used s' = 0 \<and> ring_ok s' \<and> same_but_store s s'"
proof -
  let ?W = "uint (m_writeTimestamp s)" and ?R = "uint (m_readTimestamp s)"
  have ring: "ring_ok s" using ready by (simp add: store_ready_def)
  note lt = used_less [OF ring]
  define z d where "z = NB - used s" and "d = numSamples chunk"
  have RW: "?R + int (used s) = ?W" using sync by (simp add: synced_def)
  have R': "?R < uint corr" using R by (simp add: word_less_def)
  have "z = nat (uint corr + int (numSamples chunk) - ?W)" "z < NB" "d < NB"
       "int d = max (uint corr + int (numSamples chunk)) ?W - uint corr"
    using RW R' fill u lt by (auto simp: z_def d_def max_def)
  then obtain chans where store: "StoreRtpPacket chunk corr s = Inr (stored z d chunk chans s)"
    using StoreRtpPacket_stored [OF ready refl no_wrap] by blast
  define r w where "r = nat (m_readPtr s)" and "w = nat (m_writePtr s)"
  have "r < NB" "w < NB" using ring by (simp_all add: r_def w_def ring_ok_def)
  moreover have "z = NB - circ_dist r w" "0 < circ_dist r w" using u by (simp_all add: z_def used_def r_def w_def)
  ultimately have "circ_dist r (circ (w + z)) = 0"
    by (auto simp: circ_dist_def circ_def split: if_splits)
  then have "used (stored z d chunk chans s) = 0" by (simp add: used_def stored_def r_def w_def)
  with store ring_ok_stored [OF ring \<open>z < NB\<close>] same_but_store_stored show ?thesis by blast
qed

text \<open>C18: The size check of \<open>AudioChunkIn\<close> accepts a chunk that fills the circular buffer exactly
  (\<open>\<le> FreeSpace()\<close>). The write pointer then meets the read pointer, the window counts as empty, and
  the samples stored so far are neither shipped nor kept: nothing is added to the output.\<close>

theorem place_chunk_full_loses:
  assumes "mixer_ok tape s" "pcm_chunk chunk" "channel_ok chunk s" "synced s" "m_readTimestamp s < corr"
    and "0 < used s" "m_numSampleTrigger s = 12000"
    and "uint corr + int (numSamples chunk) = uint (m_readTimestamp s) + int NB"
    and "uint corr + int (numSamples chunk) < 4294967296"
  shows "\<exists>s'. place_chunk tape chunk corr s = Inr s' \<and> window s' = [] \<and> m_outputQueue s' = m_outputQueue s"
proof -
  let ?W = "uint (m_writeTimestamp s)"
  have ring: "ring_ok s" and ready: "store_ready chunk s"
    using assms(1-3) by (simp_all add: mixer_ok_def store_ready_def)
  obtain s1 where s1: "StoreRtpPacket chunk corr s = Inr s1" "used s1 = 0" "ring_ok s1" "same_but_store s s1"
    using StoreRtpPacket_full [OF ready assms(4-6,8,9)] by blast
  have W: "uint (m_readTimestamp s) + int (used s) = ?W" using assms(4) by (simp add: synced_def)
  have R: "uint (m_readTimestamp s) < uint corr" using assms(5) by (simp add: word_less_def)
  note lt = used_less [OF ring]
  have n: "GetNumSamples chunk = Inr (int (numSamples chunk))" by (rule GetNumSamples_numSamples [OF assms(2)])
  have "corr + word_of_int (int (numSamples chunk)) - m_writeTimestamp s =
      word_of_int (uint corr + int (numSamples chunk) - ?W)" by simp
  also have "uint corr + int (numSamples chunk) - ?W = int (NB - used s)"
    using assms(8) W lt by simp
  finally have end_fits: "corr + word_of_int (int (numSamples chunk)) - m_writeTimestamp s = FreeSpace s"
    by (simp only: FreeSpace_used [OF ring])
  have "m_writeTimestamp s - corr = word_of_int (?W - uint corr)" by simp
  moreover have "sint (word_of_int (?W - uint corr) :: u32) = ?W - uint corr"
    using assms(8) W R lt numSamples_bound [of chunk] by (intro sint_of_int_u32) (simp_all add: NB_def)
  ultimately have start_fits: "sint (m_writeTimestamp s - corr) \<le> sint (UsedSpace s)"
    using W R by (simp add: sint_UsedSpace [OF ring])
  have "m_numSampleTrigger s1 = 12000" "m_outputQueue s1 = m_outputQueue s"
    using arg_cong [OF s1(4) [unfolded same_but_store_def], of m_numSampleTrigger]
      arg_cong [OF s1(4) [unfolded same_but_store_def], of m_outputQueue] assms(7) by simp_all
  moreover have "UsedSpace s1 = 0" by (simp add: UsedSpace_used [OF s1(3)] s1(2))
  moreover have "0 < ?W" using W assms(6) uint_ge_0 [of "m_readTimestamp s"] by linarith
  then have "m_writeTimestamp s \<noteq> 0" by auto
  ultimately have "place_chunk tape chunk corr s = Inr s1"
    unfolding place_chunk_def n andThen_Inr Let_def end_fits using start_fits less_imp_le [OF assms(5)] s1(1) by simp
  with s1 \<open>m_outputQueue s1 = m_outputQueue s\<close> show ?thesis by (auto simp: window_def)
qed

theorem place_chunk_full_loses_witness:
  "\<exists>s'. place_chunk 1 (sample_chunk 1 103 (replicate 15997 7)) 103
     (fresh_mixer\<lparr>m_writePtr := 4, m_writeTimestamp := 104\<rparr>) = Inr s' \<and> window s' = [] \<and> m_outputQueue s' = []"
proof -
  let ?s = "fresh_mixer\<lparr>m_writePtr := 4, m_writeTimestamp := 104\<rparr>" and ?c = "sample_chunk 1 103 (replicate 15997 7)"
  have used: "used ?s = 4"
    by (simp add: used_def circ_dist_def fresh_mixer_def new_RtpMixer_def)
  have ok: "mixer_ok 1 ?s"
    using fresh_mixer_ok(1) [of 1]
    by (simp add: mixer_ok_def ring_ok_def channels_ok_def holdoff_ok_def stereo_ok_def queue_ok_def NB_def)
  have "pcm_chunk ?c" "numSamples ?c = 15997"
    using sample_chunk_ok [of "replicate 15997 7" 1 103] by simp_all
  moreover have "channel_ok ?c ?s" "m_outputQueue ?s = []" "m_numSampleTrigger ?s = 12000" "m_readTimestamp ?s = 100"
    by (simp_all add: channel_ok_def fresh_mixer_def new_RtpMixer_def NUM_SAMPLES_TRIGGER_def)
  moreover from this used have "synced ?s" by (simp add: synced_def)
  ultimately show ?thesis
    using place_chunk_full_loses [OF ok, of ?c 103] used by (simp add: NB_def)
qed

end
