(* ===== verification/Simulation.thy ===== *)
theory Simulation
  imports Prelude
begin

text \<open>
  The refinement contract of the containers of \<open>orkbasecxx\<close>: a fallible step function on the
  code's data structure implements a total step function on an abstract value. A sequence of
  operations then never faults and computes what the abstract sequence does.
\<close>

fun run_steps :: "('op \<Rightarrow> 's \<Rightarrow> 's result) \<Rightarrow> 'op list \<Rightarrow> 's \<Rightarrow> 's result" where
  "run_steps step [] s = Inr s"
| "run_steps step (op # ops) s = andThen (step op s) (run_steps step ops)"

lemma run_steps_append:
  "run_steps step (ops @ ops') s = andThen (run_steps step ops s) (run_steps step ops')"
proof (induction ops arbitrary: s)
  case (Cons op ops)
  then show ?case by (cases "step op s") simp_all
qed simp

locale simulation =
  fixes step :: "'op \<Rightarrow> 's \<Rightarrow> 's result"
    and astep :: "'op \<Rightarrow> 'a \<Rightarrow> 'a"
    and inv :: "'s \<Rightarrow> bool"
    and abs :: "'s \<Rightarrow> 'a"
  assumes step_simulates: "inv s \<Longrightarrow> \<exists>s'. step op s = Inr s' \<and> inv s' \<and> abs s' = astep op (abs s)"
begin

lemma run_simulates:
  "inv s \<Longrightarrow> \<exists>s'. run_steps step ops s = Inr s' \<and> inv s' \<and> abs s' = fold astep ops (abs s)"
proof (induction ops arbitrary: s)
  case (Cons op ops)
  from step_simulates [OF Cons.prems] obtain s1 where
    "step op s = Inr s1" "inv s1" "abs s1 = astep op (abs s)" by blast
  with Cons.IH [of s1] show ?case by simp
qed simp

end

end
