(* ===== verification/LruMap.thy ===== *)
theory LruMap
  imports Simulation "HOL-Library.AList"
begin

text \<open>
  The bounded map of \<open>orkbasecxx/OrkLruMap.h\<close>. \<open>m_list\<close> is the \<open>std::list\<close> of keys with their insertion
  times, oldest first; its iterators, which \<open>m_map\<close> stores, stay valid until their node is erased, so a
  node carries an identity. \<open>m_map\<close> is an association list without duplicate keys.
\<close>

section \<open>The map\<close>

record ('k, 'v) OrekaLruMap =
  m_size :: nat
  m_list :: "(nat \<times> 'k \<times> u64) list"
  m_map :: "('k \<times> 'v \<times> nat) list"
  next_node :: nat

definition new_OrekaLruMap :: "nat \<Rightarrow> ('k, 'v) OrekaLruMap" where
  "new_OrekaLruMap n = \<lparr>m_size = n, m_list = [], m_map = [], next_node = 0\<rparr>"

definition lru_Find :: "'k \<Rightarrow> ('k, 'v) OrekaLruMap \<Rightarrow> ('v \<times> nat) option" where
  "lru_Find key s = map_of (m_map s) key"

definition GetOldestPair :: "('k, 'v) OrekaLruMap \<Rightarrow> ('v \<times> nat) option" where
  "GetOldestPair s = (case m_list s of (_, k, _) # _ \<Rightarrow> lru_Find k s | [] \<Rightarrow> None)"

definition GetNewestPair :: "('k, 'v) OrekaLruMap \<Rightarrow> ('v \<times> nat) option" where
  "GetNewestPair s = (if m_list s \<noteq> [] then lru_Find (fst (snd (last (m_list s)))) s else None)"

text \<open>\<open>m_list.erase(it)\<close>, undefined when the node is not in the list.\<close>

definition erase_node :: "nat \<Rightarrow> (nat \<times> 'k \<times> u64) list \<Rightarrow> (nat \<times> 'k \<times> u64) list result" where
  "erase_node i l = (if i \<in> fst ` set l then Inr (filter (\<lambda>n. fst n \<noteq> i) l) else Inl OutOfBounds)"

definition pop_front :: "('k, 'v) OrekaLruMap \<Rightarrow> ('k, 'v) OrekaLruMap result" where
  "pop_front s = (case m_list s of
     [] \<Rightarrow> Inl OutOfBounds
   | (_, k, _) # l \<Rightarrow> Inr (s\<lparr>m_map := AList.delete k (m_map s), m_list := l\<rparr>))"

definition erase_entry :: "'k \<Rightarrow> ('k, 'v) OrekaLruMap \<Rightarrow> ('k, 'v) OrekaLruMap result" where
  "erase_entry key s = (case lru_Find key s of
     None \<Rightarrow> Inr s
   | Some (_, it2) \<Rightarrow> andThen (erase_node it2 (m_list s)) (\<lambda>l.
       Inr (s\<lparr>m_list := l, m_map := AList.delete key (m_map s)\<rparr>)))"

definition InsertPair :: "u64 \<Rightarrow> 'k \<Rightarrow> 'v \<Rightarrow> ('k, 'v) OrekaLruMap \<Rightarrow> ('k, 'v) OrekaLruMap result" where
  "InsertPair now key val s =
     andThen (if length (m_map s) \<ge> m_size s then pop_front s else Inr s) (\<lambda>s1.
     andThen (erase_entry key s1) (\<lambda>s2.
     Inr (s2\<lparr>m_list := m_list s2 @ [(next_node s2, key, now)],
            m_map := m_map s2 @ [(key, val, next_node s2)], next_node := next_node s2 + 1\<rparr>)))"

definition GetValue :: "'k \<Rightarrow> ('k, 'v) OrekaLruMap \<Rightarrow> 'v option" where
  "GetValue key s = map_option fst (lru_Find key s)"

definition GetEntryTs :: "'k \<Rightarrow> ('k, 'v) OrekaLruMap \<Rightarrow> u64 result" where
  "GetEntryTs key s = (case lru_Find key s of
     None \<Rightarrow> Inr (- 1)
   | Some (_, it) \<Rightarrow> (case map_of (m_list s) it of None \<Rightarrow> Inl OutOfBounds | Some (_, ts) \<Rightarrow> Inr ts))"

definition GetOldestTs :: "('k, 'v) OrekaLruMap \<Rightarrow> u64" where
  "GetOldestTs s = (case m_list s of (_, _, ts) # _ \<Rightarrow> ts | [] \<Rightarrow> - 1)"

definition RemoveOldest :: "('k, 'v) OrekaLruMap \<Rightarrow> ('k, 'v) OrekaLruMap result" where
  "RemoveOldest s = (if m_list s \<noteq> [] then pop_front s else Inr s)"

definition Remove :: "'k \<Rightarrow> ('k, 'v) OrekaLruMap \<Rightarrow> (bool \<times> ('k, 'v) OrekaLruMap) result" where
  "Remove key s = andThen (erase_entry key s) (\<lambda>s'. Inr (lru_Find key s \<noteq> None, s'))"

definition Clear :: "('k, 'v) OrekaLruMap \<Rightarrow> ('k, 'v) OrekaLruMap" where
  "Clear s = s\<lparr>m_map := [], m_list := []\<rparr>"

definition Count :: "('k, 'v) OrekaLruMap \<Rightarrow> nat" where
  "Count s = length (m_map s)"

definition SetSize :: "nat \<Rightarrow> ('k, 'v) OrekaLruMap \<Rightarrow> nat \<times> ('k, 'v) OrekaLruMap" where
  "SetSize n s = (let s' = (if n \<ge> m_size s then s\<lparr>m_size := n\<rparr> else s) in (m_size s', s'))"

section \<open>Abstract value\<close>

text \<open>The capacity and the entries, oldest first.\<close>

type_synonym ('k, 'v) lru = "nat \<times> ('k \<times> 'v \<times> u64) list"

definition lru_abs :: "('k, 'v) OrekaLruMap \<Rightarrow> ('k, 'v) lru" where
  "lru_abs s = (m_size s, map (\<lambda>(i, k, ts). (k, the (GetValue k s), ts)) (m_list s))"

definition lru_inv :: "('k, 'v) OrekaLruMap \<Rightarrow> bool" where
  "lru_inv s \<longleftrightarrow> 0 < m_size s \<and> length (m_list s) \<le> m_size s \<and> length (m_map s) = length (m_list s) \<and>
     distinct (map fst (m_list s)) \<and> distinct (map (fst \<circ> snd) (m_list s)) \<and> distinct (map fst (m_map s)) \<and>
     (\<forall>(i, k, ts) \<in> set (m_list s). i < next_node s \<and> (\<exists>v. lru_Find k s = Some (v, i)))"

datatype ('k, 'v) lru_op = OpInsert u64 'k 'v | OpRemove 'k | OpRemoveOldest | OpClear | OpSetSize nat

fun lru_step :: "('k, 'v) lru_op \<Rightarrow> ('k, 'v) OrekaLruMap \<Rightarrow> ('k, 'v) OrekaLruMap result" where
  "lru_step (OpInsert now k v) s = InsertPair now k v s"
| "lru_step (OpRemove k) s = andThen (Remove k s) (\<lambda>(_, s'). Inr s')"
| "lru_step OpRemoveOldest s = RemoveOldest s"
| "lru_step OpClear s = Inr (Clear s)"
| "lru_step (OpSetSize n) s = Inr (snd (SetSize n s))"

definition without :: "'k \<Rightarrow> ('k \<times> 'v \<times> u64) list \<Rightarrow> ('k \<times> 'v \<times> u64) list" where
  "without k xs = filter (\<lambda>e. fst e \<noteq> k) xs"

fun lru_astep :: "('k, 'v) lru_op \<Rightarrow> ('k, 'v) lru \<Rightarrow> ('k, 'v) lru" where
  "lru_astep (OpInsert now k v) (cap, xs) =
     (cap, without k (if length xs \<ge> cap then tl xs else xs) @ [(k, v, now)])"
| "lru_astep (OpRemove k) (cap, xs) = (cap, without k xs)"
| "lru_astep OpRemoveOldest (cap, xs) = (cap, tl xs)"
| "lru_astep OpClear (cap, xs) = (cap, [])"
| "lru_astep (OpSetSize n) (cap, xs) = (max cap n, xs)"

section \<open>The code implements the abstract value\<close>

lemma delete_length:
  "distinct (map fst xs) \<Longrightarrow> k \<in> fst ` set xs \<Longrightarrow> length (AList.delete k xs) = length xs - 1"
proof -
  assume d: "distinct (map fst xs)" and k: "k \<in> fst ` set xs"
  have "length (AList.delete k xs) = length (map fst (AList.delete k xs))" by simp
  also have "\<dots> = length (remove1 k (map fst xs))"
    by (simp only: delete_keys distinct_remove1_removeAll [OF d])
  finally show ?thesis using k by (simp add: length_remove1)
qed

lemma lru_keys:
  assumes "lru_inv s"
  shows "fst ` set (m_map s) = (fst \<circ> snd) ` set (m_list s)"
proof (rule sym, rule card_subset_eq)
  show "(fst \<circ> snd) ` set (m_list s) \<subseteq> fst ` set (m_map s)"
    using assms by (force simp: lru_inv_def lru_Find_def dest!: map_of_SomeD simp del: map_of_eq_Some_iff)
  show "card ((fst \<circ> snd) ` set (m_list s)) = card (fst ` set (m_map s))"
    using assms distinct_card [of "map (fst \<circ> snd) (m_list s)"] distinct_card [of "map fst (m_map s)"]
    by (simp add: lru_inv_def)
qed simp

lemma lru_Find_node:
  assumes "lru_inv s" "lru_Find k s = Some (v, i)"
  obtains ts where "(i, k, ts) \<in> set (m_list s)"
proof -
  from assms(2) have "k \<in> fst ` set (m_map s)" by (force simp: lru_Find_def dest: map_of_SomeD)
  with lru_keys [OF assms(1)] obtain j ts where "(j, k, ts) \<in> set (m_list s)" by auto
  with assms that show thesis by (fastforce simp: lru_inv_def lru_Find_def)
qed

lemma lru_Find_None: "lru_inv s \<Longrightarrow> lru_Find k s = None \<longleftrightarrow> k \<notin> (fst \<circ> snd) ` set (m_list s)"
  using lru_keys [of s] by (auto simp: lru_Find_def map_of_eq_None_iff)

lemma erase_entry_simulates:
  assumes inv: "lru_inv s"
  shows "\<exists>s'. erase_entry key s = Inr s' \<and> lru_inv s' \<and> lru_abs s' = (m_size s, without key (snd (lru_abs s))) \<and>
     next_node s' = next_node s \<and> key \<notin> (fst \<circ> snd) ` set (m_list s') \<and> m_size s' = m_size s"
proof (cases "lru_Find key s")
  case None
  then have "key \<notin> (fst \<circ> snd) ` set (m_list s)" using lru_Find_None [OF inv] by simp
  then have "without key (snd (lru_abs s)) = snd (lru_abs s)" by (force simp: without_def lru_abs_def filter_id_conv)
  with None inv \<open>key \<notin> (fst \<circ> snd) ` set (m_list s)\<close> show ?thesis
    by (simp add: erase_entry_def) (simp add: lru_abs_def)
next
  case (Some e)
  then obtain v i where e: "lru_Find key s = Some (v, i)" by (cases e) auto
  from lru_Find_node [OF inv this] obtain ts where node: "(i, key, ts) \<in> set (m_list s)" .
  let ?l = "filter (\<lambda>n. fst n \<noteq> i) (m_list s)"
  let ?s = "s\<lparr>m_list := ?l, m_map := AList.delete key (m_map s)\<rparr>"
  have same: "fst n \<noteq> i \<longleftrightarrow> fst (snd n) \<noteq> key" if "n \<in> set (m_list s)" for n
  proof -
    have inj: "inj_on fst (set (m_list s))" "inj_on (fst \<circ> snd) (set (m_list s))"
      using inv by (auto simp: lru_inv_def distinct_map)
    have "fst n = i \<Longrightarrow> n = (i, key, ts)" using inj_onD [OF inj(1) _ that node] by simp
    moreover have "fst (snd n) = key \<Longrightarrow> n = (i, key, ts)" using inj_onD [OF inj(2) _ that node] by simp
    ultimately show ?thesis by (metis fst_conv snd_conv)
  qed
  then have l: "?l = filter (\<lambda>n. fst (snd n) \<noteq> key) (m_list s)" by (rule filter_cong [OF refl])
  have "i \<in> fst ` set (m_list s)" "distinct (map fst (m_list s))" using inv node by (force simp: lru_inv_def)+
  moreover have "AList.delete i (m_list s) = ?l" by (auto simp: AList.delete_eq intro: filter_cong)
  ultimately have len: "length ?l = length (m_list s) - 1" using delete_length [of "m_list s" i] by simp
  have len': "length (AList.delete key (m_map s)) = length (m_map s) - 1"
    using e inv by (intro delete_length) (force simp: lru_inv_def lru_Find_def dest: map_of_SomeD)+
  have "erase_entry key s = Inr ?s"
    using node by (force simp: erase_entry_def e erase_node_def)
  moreover have "lru_inv ?s"
  proof -
    have "lru_Find k ?s = (if k = key then None else lru_Find k s)" for k
      by (simp add: lru_Find_def delete_conv')
    then show ?thesis
      using inv len len' by (auto simp: lru_inv_def l distinct_map_filter distinct_delete)
  qed
  moreover have "lru_abs ?s = (m_size s, without key (snd (lru_abs s)))"
    by (auto simp: lru_abs_def l without_def filter_map comp_def case_prod_beta GetValue_def lru_Find_def delete_conv'
        intro!: map_cong)
  ultimately show ?thesis by (auto simp: l)
qed

lemma pop_front_erase:
  assumes inv: "lru_inv s" and l: "m_list s \<noteq> []"
  shows "pop_front s = erase_entry (fst (snd (hd (m_list s)))) s"
proof -
  obtain i k ts l where list: "m_list s = (i, k, ts) # l" using l by (cases "m_list s") auto
  have "\<exists>v. lru_Find k s = Some (v, i)" using inv by (simp add: list lru_inv_def)
  moreover have "\<forall>n \<in> set l. fst n \<noteq> i" using inv by (auto simp: list lru_inv_def)
  ultimately show ?thesis
    by (auto simp: pop_front_def erase_entry_def erase_node_def list filter_id_conv)
qed

lemma without_hd: "distinct (map fst xs) \<Longrightarrow> xs \<noteq> [] \<Longrightarrow> without (fst (hd xs)) xs = tl xs"
  by (cases xs) (force simp: without_def filter_id_conv)+

lemma lru_abs_keys: "map fst (snd (lru_abs s)) = map (fst \<circ> snd) (m_list s)"
  by (simp add: lru_abs_def comp_def case_prod_beta)

lemma pop_front_simulates:
  assumes inv: "lru_inv s" and l: "m_list s \<noteq> []"
  shows "\<exists>s'. pop_front s = Inr s' \<and> lru_inv s' \<and> lru_abs s' = (m_size s, tl (snd (lru_abs s))) \<and> m_size s' = m_size s"
proof -
  have "snd (lru_abs s) \<noteq> []" "distinct (map fst (snd (lru_abs s)))"
    using inv l by (auto simp: lru_abs_keys) (simp_all add: lru_abs_def lru_inv_def)
  moreover have "fst (hd (snd (lru_abs s))) = fst (snd (hd (m_list s)))"
    using l by (cases "m_list s") (auto simp: lru_abs_def)
  ultimately have "without (fst (snd (hd (m_list s)))) (snd (lru_abs s)) = tl (snd (lru_abs s))"
    using without_hd by metis
  with erase_entry_simulates [OF inv, of "fst (snd (hd (m_list s)))"] pop_front_erase [OF inv l]
  show ?thesis by auto
qed

lemma lru_lengths:
  "lru_inv s \<Longrightarrow> length (m_map s) = length (snd (lru_abs s)) \<and> length (m_list s) = length (snd (lru_abs s))"
  by (simp add: lru_inv_def lru_abs_def)

lemma insert_back:
  fixes now :: u64 and val :: 'v and s :: "('k, 'v) OrekaLruMap"
  assumes inv: "lru_inv s" and new: "key \<notin> (fst \<circ> snd) ` set (m_list s)" and room: "length (m_list s) < m_size s"
  defines "s' \<equiv> s\<lparr>m_list := m_list s @ [(next_node s, key, now)],
     m_map := m_map s @ [(key, val, next_node s)], next_node := next_node s + 1\<rparr>"
  shows "lru_inv s' \<and> lru_abs s' = (m_size s, snd (lru_abs s) @ [(key, val, now)])"
proof -
  have none: "map_of (m_map s) key = None" using lru_Find_None [OF inv, of key] new by (simp add: lru_Find_def)
  have ids: "\<forall>n \<in> set (m_list s). fst n < next_node s" using inv by (auto simp: lru_inv_def)
  have find: "lru_Find k s' = (if k = key then Some (val, next_node s) else lru_Find k s)" for k
    using none by (auto simp: lru_Find_def s'_def map_add_def split: option.splits)
  have keys: "fst ` set (m_map s) = (fst \<circ> snd) ` set (m_list s)" by (rule lru_keys [OF inv])
  have fields: "m_list s' = m_list s @ [(next_node s, key, now)]" "m_map s' = m_map s @ [(key, val, next_node s)]"
    "next_node s' = Suc (next_node s)" "m_size s' = m_size s" by (simp_all add: s'_def)
  have node: "i < next_node s' \<and> (\<exists>v. lru_Find k s' = Some (v, i))" if "(i, k, ts) \<in> set (m_list s')" for i k ts
  proof (cases "(i, k, ts) \<in> set (m_list s)")
    case True
    then have "k \<noteq> key" using new by force
    then show ?thesis using inv True by (auto simp: lru_inv_def find fields)
  next
    case False
    then show ?thesis using that by (simp add: fields find)
  qed
  have "distinct (map fst (m_list s'))" "distinct (map (fst \<circ> snd) (m_list s'))" "distinct (map fst (m_map s'))"
    using inv ids new keys by (auto simp: fields lru_inv_def)
  with inv room node have "lru_inv s'"
    by (auto simp: lru_inv_def fields)
  moreover have "lru_abs s' = (m_size s, snd (lru_abs s) @ [(key, val, now)])"
    using new by (force simp: lru_abs_def find fields GetValue_def)
  ultimately show ?thesis by blast
qed

lemma without_length_le: "length (without k xs) \<le> length xs"
  by (simp add: without_def)

lemma InsertPair_simulates:
  assumes inv: "lru_inv s"
  shows "\<exists>s'. InsertPair now key val s = Inr s' \<and> lru_inv s' \<and> lru_abs s' = lru_astep (OpInsert now key val) (lru_abs s)"
proof -
  have cap: "0 < m_size s" "length (snd (lru_abs s)) \<le> m_size s" "fst (lru_abs s) = m_size s"
    using inv by (auto simp: lru_inv_def lru_abs_def)
  obtain s1 where s1: "(if length (m_map s) \<ge> m_size s then pop_front s else Inr s) = Inr s1" "lru_inv s1"
      "snd (lru_abs s1) = (if length (snd (lru_abs s)) \<ge> m_size s then tl (snd (lru_abs s)) else snd (lru_abs s))"
      "m_size s1 = m_size s"
  proof (cases "length (m_map s) \<ge> m_size s")
    case True
    then have "m_list s \<noteq> []" using inv cap by (auto simp: lru_inv_def)
    from pop_front_simulates [OF inv this] obtain s1 where "pop_front s = Inr s1" "lru_inv s1"
      "lru_abs s1 = (m_size s, tl (snd (lru_abs s)))" "m_size s1 = m_size s" by blast
    then show ?thesis using True lru_lengths [OF inv] by (intro that [of s1]) auto
  next
    case False
    then show ?thesis using inv lru_lengths [OF inv] by (intro that [of s]) auto
  qed
  from erase_entry_simulates [OF s1(2), of key] obtain s2 where s2: "erase_entry key s1 = Inr s2" "lru_inv s2"
      "snd (lru_abs s2) = without key (snd (lru_abs s1))" "key \<notin> (fst \<circ> snd) ` set (m_list s2)" "m_size s2 = m_size s"
    using s1(4) by auto
  have "length (snd (lru_abs s1)) < m_size s" using cap s1(3) by auto
  then have "length (m_list s2) < m_size s2"
    using s2(3,5) without_length_le [of key "snd (lru_abs s1)"] lru_lengths [OF s2(2)] by simp
  from insert_back [OF s2(2,4) this, where now = now and val = val] show ?thesis
    using s1 s2 cap by (cases "lru_abs s") (simp add: InsertPair_def)
qed

lemma set_size_inv: "lru_inv s \<Longrightarrow> m_size s \<le> n \<Longrightarrow> lru_inv (s\<lparr>m_size := n\<rparr>)"
  by (simp add: lru_inv_def lru_Find_def del: map_of_eq_Some_iff)

lemma set_size_abs: "lru_abs (s\<lparr>m_size := n\<rparr>) = (n, snd (lru_abs s))"
  by (simp add: lru_abs_def GetValue_def lru_Find_def)

lemma lru_simulates: "lru_inv s \<Longrightarrow> \<exists>s'. lru_step op s = Inr s' \<and> lru_inv s' \<and> lru_abs s' = lru_astep op (lru_abs s)"
proof (cases op)
  case (OpInsert now k v)
  then show "lru_inv s \<Longrightarrow> ?thesis" using InsertPair_simulates [of s now k v] by simp
next
  case (OpRemove k)
  then show "lru_inv s \<Longrightarrow> ?thesis"
    using erase_entry_simulates [of s k] by (auto simp: Remove_def) (simp add: lru_abs_def)
next
  case OpRemoveOldest
  show "lru_inv s \<Longrightarrow> ?thesis"
    using pop_front_simulates [of s] OpRemoveOldest
    by (cases "m_list s = []") (auto simp: RemoveOldest_def lru_abs_def)
next
  case OpClear
  then show "lru_inv s \<Longrightarrow> ?thesis" by (simp add: lru_inv_def Clear_def lru_abs_def)
next
  case (OpSetSize n)
  then show "lru_inv s \<Longrightarrow> ?thesis"
    by (cases "lru_abs s") (auto simp: SetSize_def Let_def set_size_inv set_size_abs max_def, auto simp: lru_abs_def)
qed

interpretation lru: simulation lru_step lru_astep lru_inv lru_abs
  by unfold_locales (rule lru_simulates)

section \<open>Recency\<close>

definition recent :: "nat \<Rightarrow> 'k \<Rightarrow> 'v \<Rightarrow> u64 \<Rightarrow> ('k, 'v) lru \<Rightarrow> bool" where
  "recent j k v ts a \<longleftrightarrow> (\<exists>as bs. snd a = as @ (k, v, ts) # bs \<and> k \<notin> fst ` set as \<and> length bs \<le> j)"

lemma recent_insert:
  "recent j k v ts (cap, xs) \<Longrightarrow> Suc j < cap \<Longrightarrow> k' \<noteq> k \<Longrightarrow>
   recent (Suc j) k v ts (lru_astep (OpInsert now k' v') (cap, xs))"
proof -
  assume r: "recent j k v ts (cap, xs)" and j: "Suc j < cap" and k': "k' \<noteq> k"
  then obtain as bs where xs: "xs = as @ (k, v, ts) # bs" "k \<notin> fst ` set as" "length bs \<le> j"
    by (auto simp: recent_def)
  let ?as = "if length xs \<ge> cap then tl as else as"
  have "length xs \<ge> cap \<Longrightarrow> as \<noteq> []" using xs(1,3) j by auto
  then have "(if length xs \<ge> cap then tl xs else xs) = ?as @ (k, v, ts) # bs"
    using xs(1) by (cases as) auto
  then have "snd (lru_astep (OpInsert now k' v') (cap, xs)) =
      without k' ?as @ (k, v, ts) # (without k' bs @ [(k', v', now)])"
    using k' by (simp add: without_def)
  moreover have "k \<notin> fst ` set (without k' ?as)"
    using xs(2) by (cases as) (auto simp: without_def)
  moreover have "length (without k' bs @ [(k', v', now)]) \<le> Suc j"
    using xs(3) without_length_le [of k' bs] by simp
  ultimately show ?thesis unfolding recent_def by blast
qed

lemma recent_inserts:
  "recent j k v ts (cap, xs) \<Longrightarrow> j + length kvs < cap \<Longrightarrow> k \<notin> (fst \<circ> snd) ` set kvs \<Longrightarrow>
   recent (j + length kvs) k v ts (fold lru_astep (map (\<lambda>(now, k, v). OpInsert now k v) kvs) (cap, xs))"
proof (induction kvs arbitrary: j xs)
  case (Cons e kvs)
  obtain now k' v' where e: "e = (now, k', v')" by (cases e) auto
  from Cons.prems e have "recent (Suc j) k v ts (lru_astep (OpInsert now k' v') (cap, xs))"
    by (intro recent_insert) auto
  with Cons.IH [of "Suc j" "snd (lru_astep (OpInsert now k' v') (cap, xs))"] Cons.prems e show ?case
    by simp
qed simp

lemma GetValue_abs:
  assumes "lru_inv s"
  shows "GetValue k s = map_option fst (map_of (snd (lru_abs s)) k)"
proof (cases "lru_Find k s")
  case None
  then have "k \<notin> fst ` set (snd (lru_abs s))"
    using lru_Find_None [OF assms] lru_abs_keys [of s] by (metis list.set_map)
  then show ?thesis using None by (simp add: GetValue_def map_of_eq_None_iff [THEN iffD2])
next
  case (Some e)
  then obtain v i where e: "lru_Find k s = Some (v, i)" by (cases e) auto
  from lru_Find_node [OF assms this] obtain ts where "(i, k, ts) \<in> set (m_list s)" .
  then have "(k, v, ts) \<in> set (snd (lru_abs s))"
    using e by (force simp: lru_abs_def GetValue_def)
  moreover have "distinct (map fst (snd (lru_abs s)))" using assms unfolding lru_abs_keys by (simp add: lru_inv_def)
  ultimately show ?thesis using e by (simp add: GetValue_def)
qed

lemma new_lru_inv: "0 < n \<Longrightarrow> lru_inv (new_OrekaLruMap n)" "lru_abs (new_OrekaLruMap n) = (n, [])"
  by (simp_all add: lru_inv_def new_OrekaLruMap_def lru_abs_def)

section \<open>Properties\<close>

text \<open>C31: From an empty map of positive size, any sequence of insertions, removals, evictions, \<open>Clear\<close> and
  \<open>SetSize\<close> runs without touching a dead list node and leaves the map that the same sequence builds on a
  plain list of entries in insertion order: lookups agree with that list and the size bound holds.\<close>

theorem OrekaLruMap_implements_list:
  assumes "0 < n"
  shows "\<exists>s. run_steps lru_step ops (new_OrekaLruMap n) = Inr s \<and>
     lru_abs s = fold lru_astep ops (n, []) \<and> Count s \<le> m_size s \<and>
     (\<forall>k. GetValue k s = map_option fst (map_of (snd (fold lru_astep ops (n, []))) k))"
proof -
  from lru.run_simulates [OF new_lru_inv(1) [OF assms], of ops] obtain s where
    "run_steps lru_step ops (new_OrekaLruMap n) = Inr s" "lru_inv s" "lru_abs s = fold lru_astep ops (n, [])"
    unfolding new_lru_inv(2) by blast
  then show ?thesis using GetValue_abs [of s] by (auto simp: Count_def lru_inv_def)
qed

lemma OrekaLruMap_implements_list_witness:
  "\<exists>s. run_steps lru_step [OpInsert 1 ''a'' (10::int), OpInsert 2 ''b'' 20, OpInsert 3 ''a'' 30] (new_OrekaLruMap 2) = Inr s \<and>
     lru_abs s = (2, [(''b'', 20, 2), (''a'', 30, 3)])"
  using OrekaLruMap_implements_list [of 2 "[OpInsert 1 ''a'' (10::int), OpInsert 2 ''b'' 20, OpInsert 3 ''a'' 30]"]
  by (auto simp: without_def)

text \<open>C32: In a map of capacity \<open>n\<close>, whatever happened before, an inserted value is still found after fewer
  than \<open>n\<close> further insertions of other keys.\<close>

theorem OrekaLruMap_keeps_recent:
  assumes "0 < n" "length kvs < n" "k \<notin> (fst \<circ> snd) ` set kvs"
  shows "\<exists>s. run_steps lru_step (ops @ OpInsert now k v # map (\<lambda>(now, k, v). OpInsert now k v) kvs) (new_OrekaLruMap n)
     = Inr s \<and> GetValue k s = Some v"
proof -
  let ?ops = "ops @ OpInsert now k v # map (\<lambda>(now, k, v). OpInsert now k v) kvs"
  from lru.run_simulates [OF new_lru_inv(1) [OF assms(1)], of ?ops] obtain s where
    s: "run_steps lru_step ?ops (new_OrekaLruMap n) = Inr s" "lru_inv s" "lru_abs s = fold lru_astep ?ops (n, [])"
    unfolding new_lru_inv(2) by blast
  have "fst a \<le> fst (fold lru_astep ops a)" for a
  proof (induction ops arbitrary: a)
    case (Cons op ops)
    have "fst a \<le> fst (lru_astep op a)" by (cases "(op, a)" rule: lru_astep.cases) auto
    then show ?case using Cons [of "lru_astep op a"] by simp
  qed simp
  then obtain m xs where xs: "fold lru_astep ops (n, []) = (m, xs)" "n \<le> m"
    by (metis fst_conv surj_pair)
  obtain ys where ys: "lru_astep (OpInsert now k v) (m, xs) = (m, ys)" by simp
  have "recent 0 k v now (m, ys)" using ys by (force simp: recent_def without_def)
  from recent_inserts [OF this, of kvs] assms(2,3) xs(2) have "recent (length kvs) k v now (lru_abs s)"
    unfolding s(3) by (simp add: xs ys del: lru_astep.simps)
  then have "map_of (snd (lru_abs s)) k = Some (v, now)"
    by (auto simp: recent_def map_add_def split: option.splits dest!: map_of_SomeD) force+
  then show ?thesis using s GetValue_abs [OF s(2), of k] by auto
qed

lemma OrekaLruMap_keeps_recent_witness:
  "\<exists>s. run_steps lru_step ([OpInsert 1 ''x'' (0::int), OpInsert 2 ''y'' 0] @ OpInsert 3 ''k'' 7 #
      map (\<lambda>(now, k, v). OpInsert now k v) [(4, ''z'', 1)]) (new_OrekaLruMap 2) = Inr s \<and> GetValue ''k'' s = Some 7"
  by (rule OrekaLruMap_keeps_recent) simp_all

text \<open>Inserting an existing key into a full map evicts the oldest entry although no room is needed.\<close>

lemma InsertPair_full_evicts:
  "lru_astep (OpInsert now ''b'' 3) (2, [(''a'', 1, 1), (''b'', 2, 2)]) = (2, [(''b'', 3, now)])"
  by (simp add: without_def)

text \<open>With size 0 the first insertion reads the front of an empty list.\<close>

lemma InsertPair_size_zero: "InsertPair now k v (new_OrekaLruMap 0) = Inl OutOfBounds"
  by (simp add: InsertPair_def new_OrekaLruMap_def pop_front_def)

end
