(* ===== verification/ThreadSafeQueue.thy ===== *)
theory ThreadSafeQueue
  imports Prelude
begin

text \<open>
  The work queue of \<open>orkbasecxx/ThreadSafeQueue.h\<close> and the semaphore of \<open>orkbasecxx/Utils.h\<close> it counts its
  elements with. Threads interleave at the two points where they hold a mutex: \<open>push\<close> is one step;
  \<open>pop\<close> is two, taking the semaphore (possible only while its count is positive) and then taking the
  element under the queue's mutex. \<open>m_inflight\<close> counts the threads between the two; it stands for their
  program counters. The semaphore's count is an unbounded integer.
\<close>

section \<open>Operations\<close>

record OrkSemaphore =
  m_count :: int

definition new_OrkSemaphore :: OrkSemaphore where
  "new_OrkSemaphore = \<lparr>m_count = 1\<rparr>"

definition OrkSemaphore_release :: "OrkSemaphore \<Rightarrow> OrkSemaphore" where
  "OrkSemaphore_release s = s\<lparr>m_count := m_count s + 1\<rparr>"

text \<open>\<open>acquire\<close> waits for a positive count: \<open>None\<close> while it has to wait.\<close>

definition OrkSemaphore_acquire :: "OrkSemaphore \<Rightarrow> OrkSemaphore option" where
  "OrkSemaphore_acquire s = (if m_count s > 0 then Some (s\<lparr>m_count := m_count s - 1\<rparr>) else None)"

text \<open>With a timeout, \<open>acquire\<close> returns either way.\<close>

definition OrkSemaphore_acquire_timeout :: "OrkSemaphore \<Rightarrow> OrkSemaphore" where
  "OrkSemaphore_acquire_timeout s = (case OrkSemaphore_acquire s of None \<Rightarrow> s | Some s' \<Rightarrow> s')"

record 'a ThreadSafeQueue =
  q_size :: u32
  m_semaphore :: OrkSemaphore
  m_queue :: "'a list"
  m_inflight :: nat

definition new_ThreadSafeQueue :: "u32 \<Rightarrow> 'a ThreadSafeQueue" where
  "new_ThreadSafeQueue n = \<lparr>q_size = n,
     m_semaphore = (case OrkSemaphore_acquire new_OrkSemaphore of None \<Rightarrow> new_OrkSemaphore | Some s \<Rightarrow> s),
     m_queue = [], m_inflight = 0\<rparr>"

definition tsq_push :: "'a \<Rightarrow> 'a ThreadSafeQueue \<Rightarrow> bool \<times> 'a ThreadSafeQueue" where
  "tsq_push element q =
     (let room = length (m_queue q) < unat (q_size q);
          q1 = (if room then q\<lparr>m_queue := m_queue q @ [element]\<rparr> else q)
      in (room, q1\<lparr>m_semaphore := OrkSemaphore_release (m_semaphore q1)\<rparr>))"

definition tsq_pop_acquire :: "'a ThreadSafeQueue \<Rightarrow> 'a ThreadSafeQueue option" where
  "tsq_pop_acquire q = map_option (\<lambda>s. q\<lparr>m_semaphore := s, m_inflight := m_inflight q + 1\<rparr>)
     (OrkSemaphore_acquire (m_semaphore q))"

text \<open>\<open>None\<close> is the default-constructed element that \<open>pop\<close> returns from an empty queue.\<close>

definition tsq_pop_take :: "'a ThreadSafeQueue \<Rightarrow> 'a option \<times> 'a ThreadSafeQueue" where
  "tsq_pop_take q = (case m_queue q of
     [] \<Rightarrow> (None, q\<lparr>m_inflight := m_inflight q - 1\<rparr>)
   | e # es \<Rightarrow> (Some e, q\<lparr>m_queue := es, m_inflight := m_inflight q - 1\<rparr>))"

definition tsq_setSize :: "u32 \<Rightarrow> 'a ThreadSafeQueue \<Rightarrow> 'a ThreadSafeQueue" where
  "tsq_setSize n q = q\<lparr>q_size := n\<rparr>"

section \<open>Interleaved runs\<close>

datatype 'a queue_event = Pushed 'a bool | Acquired | Popped "'a option" | Resized

inductive queue_step :: "'a ThreadSafeQueue \<Rightarrow> 'a queue_event \<Rightarrow> 'a ThreadSafeQueue \<Rightarrow> bool" where
  push: "tsq_push e q = (ok, q') \<Longrightarrow> queue_step q (Pushed e ok) q'"
| acquire: "tsq_pop_acquire q = Some q' \<Longrightarrow> queue_step q Acquired q'"
| take_element: "0 < m_inflight q \<Longrightarrow> tsq_pop_take q = (r, q') \<Longrightarrow> queue_step q (Popped r) q'"
| resize: "queue_step q Resized (tsq_setSize n q)"

inductive queue_run :: "u32 \<Rightarrow> 'a queue_event list \<Rightarrow> 'a ThreadSafeQueue \<Rightarrow> bool" for n where
  start: "queue_run n [] (new_ThreadSafeQueue n)"
| step: "queue_run n es q \<Longrightarrow> queue_step q e q' \<Longrightarrow> queue_run n (es @ [e]) q'"

inductive_cases queue_stepE [elim]:
  "queue_step q (Pushed e ok) q'" "queue_step q Acquired q'" "queue_step q (Popped r) q'" "queue_step q Resized q'"

fun accepted_elements :: "'a queue_event list \<Rightarrow> 'a list" where
  "accepted_elements [] = []"
| "accepted_elements (Pushed e True # es) = e # accepted_elements es"
| "accepted_elements (_ # es) = accepted_elements es"

fun popped_elements :: "'a queue_event list \<Rightarrow> 'a list" where
  "popped_elements [] = []"
| "popped_elements (Popped (Some e) # es) = e # popped_elements es"
| "popped_elements (_ # es) = popped_elements es"

fun rejected_pushes :: "'a queue_event list \<Rightarrow> nat" where
  "rejected_pushes [] = 0"
| "rejected_pushes (Pushed e False # es) = Suc (rejected_pushes es)"
| "rejected_pushes (_ # es) = rejected_pushes es"

fun empty_pops :: "'a queue_event list \<Rightarrow> nat" where
  "empty_pops [] = 0"
| "empty_pops (Popped None # es) = Suc (empty_pops es)"
| "empty_pops (_ # es) = empty_pops es"

lemma accepted_append [simp]: "accepted_elements (es @ fs) = accepted_elements es @ accepted_elements fs"
  by (induction es rule: accepted_elements.induct) auto

lemma popped_append [simp]: "popped_elements (es @ fs) = popped_elements es @ popped_elements fs"
  by (induction es rule: popped_elements.induct) auto

lemma rejected_append [simp]: "rejected_pushes (es @ fs) = rejected_pushes es + rejected_pushes fs"
  by (induction es rule: rejected_pushes.induct) auto

lemma empty_append [simp]: "empty_pops (es @ fs) = empty_pops es + empty_pops fs"
  by (induction es rule: empty_pops.induct) auto

section \<open>Invariant\<close>

definition queue_inv :: "'a queue_event list \<Rightarrow> 'a ThreadSafeQueue \<Rightarrow> bool" where
  "queue_inv es q \<longleftrightarrow> accepted_elements es = popped_elements es @ m_queue q \<and>
     m_count (m_semaphore q) + int (m_inflight q) + int (empty_pops es) = int (length (m_queue q)) + int (rejected_pushes es) \<and>
     0 \<le> m_count (m_semaphore q) \<and> empty_pops es \<le> rejected_pushes es"

lemma queue_step_inv:
  assumes "queue_step q e q'" "queue_inv es q"
  shows "queue_inv (es @ [e]) q'"
  using assms
proof (cases rule: queue_step.cases)
  case (push x ok)
  then show ?thesis
    using assms(2) by (cases ok) (auto simp: queue_inv_def tsq_push_def Let_def OrkSemaphore_release_def split: if_splits)
next
  case acquire
  then show ?thesis
    using assms(2) by (auto simp: queue_inv_def tsq_pop_acquire_def OrkSemaphore_acquire_def split: if_splits)
next
  case (take_element r)
  then show ?thesis
    using assms(2) by (cases "m_queue q") (auto simp: queue_inv_def tsq_pop_take_def)
next
  case (resize n)
  then show ?thesis using assms(2) by (simp add: queue_inv_def tsq_setSize_def)
qed

lemma queue_run_inv: "queue_run n es q \<Longrightarrow> queue_inv es q"
proof (induction rule: queue_run.induct)
  case start
  show ?case by (simp add: queue_inv_def new_ThreadSafeQueue_def OrkSemaphore_acquire_def new_OrkSemaphore_def)
next
  case (step es q e q')
  then show ?case by (blast intro: queue_step_inv)
qed

section \<open>Properties\<close>

text \<open>C33: However producers, consumers and resizes interleave, the elements consumers receive, followed by
  the elements still queued, are exactly the elements \<open>push\<close> accepted, in the order it accepted them; and
  a consumer gets a default element at most once per rejected push.\<close>

theorem queue_fifo:
  assumes "queue_run n es q"
  shows "accepted_elements es = popped_elements es @ m_queue q \<and> empty_pops es \<le> rejected_pushes es"
  using queue_run_inv [OF assms] by (simp add: queue_inv_def)

lemma example_run:
  "queue_run 1 [Pushed ''a'' True, Pushed ''b'' False, Acquired, Acquired, Popped (Some ''a''), Popped None]
     \<lparr>q_size = 1, m_semaphore = \<lparr>m_count = 0\<rparr>, m_queue = [], m_inflight = 0\<rparr>"
proof -
  let ?q = "\<lambda>c es i. \<lparr>q_size = 1, m_semaphore = \<lparr>m_count = c\<rparr>, m_queue = es, m_inflight = i\<rparr> :: string ThreadSafeQueue"
  note defs = tsq_push_def tsq_pop_acquire_def tsq_pop_take_def OrkSemaphore_release_def OrkSemaphore_acquire_def
  have "queue_run 1 [] (?q 0 [] 0)"
    using start [of 1] by (simp add: new_ThreadSafeQueue_def OrkSemaphore_acquire_def new_OrkSemaphore_def)
  from step [OF this push, of "''a''" True "?q 1 [''a''] 0"] have "queue_run 1 [Pushed ''a'' True] (?q 1 [''a''] 0)"
    by (simp add: defs)
  from step [OF this push, of "''b''" False "?q 2 [''a''] 0"]
  have "queue_run 1 [Pushed ''a'' True, Pushed ''b'' False] (?q 2 [''a''] 0)" by (simp add: defs)
  from step [OF this acquire, of "?q 1 [''a''] 1"]
  have "queue_run 1 [Pushed ''a'' True, Pushed ''b'' False, Acquired] (?q 1 [''a''] 1)" by (simp add: defs)
  from step [OF this acquire, of "?q 0 [''a''] 2"]
  have "queue_run 1 [Pushed ''a'' True, Pushed ''b'' False, Acquired, Acquired] (?q 0 [''a''] 2)" by (simp add: defs)
  from step [OF this take_element, of "Some ''a''" "?q 0 [] 1"]
  have "queue_run 1 [Pushed ''a'' True, Pushed ''b'' False, Acquired, Acquired, Popped (Some ''a'')] (?q 0 [] 1)"
    by (simp add: defs)
  from step [OF this take_element, of None "?q 0 [] 0"] show ?thesis by (simp add: defs)
qed

lemma queue_fifo_witness:
  "accepted_elements [Pushed ''a'' True, Pushed ''b'' False, Acquired, Acquired, Popped (Some ''a''), Popped None]
     = popped_elements [Pushed ''a'' True, Pushed ''b'' False, Acquired, Acquired, Popped (Some ''a''), Popped None] @ []"
  using queue_fifo [OF example_run] by simp

text \<open>C34: No wake-up is lost: whenever an element is queued, a consumer can go on, because it already holds
  the semaphore or because the semaphore lets one through, and that consumer receives an element.\<close>

theorem queue_no_lost_wakeup:
  assumes "queue_run n es q" "m_queue q \<noteq> []"
  shows "(0 < m_inflight q \<and> queue_step q (Popped (Some (hd (m_queue q)))) (snd (tsq_pop_take q))) \<or>
     (\<exists>q'. queue_step q Acquired q' \<and> queue_step q' (Popped (Some (hd (m_queue q)))) (snd (tsq_pop_take q')))"
proof -
  from queue_run_inv [OF assms(1)] assms(2) have inv: "0 \<le> m_count (m_semaphore q)"
    "0 < m_count (m_semaphore q) + int (m_inflight q)" by (cases "m_queue q"; force simp: queue_inv_def)+
  show ?thesis
  proof (cases "0 < m_inflight q")
    case True
    have "tsq_pop_take q = (Some (hd (m_queue q)), snd (tsq_pop_take q))"
      using assms(2) by (cases "m_queue q") (simp_all add: tsq_pop_take_def)
    with True show ?thesis by (blast intro: take_element)
  next
    case False
    with inv have "0 < m_count (m_semaphore q)" by simp
    then obtain q' where q': "tsq_pop_acquire q = Some q'" "0 < m_inflight q'" "m_queue q' = m_queue q"
      by (simp add: tsq_pop_acquire_def OrkSemaphore_acquire_def)
    have "tsq_pop_take q' = (Some (hd (m_queue q)), snd (tsq_pop_take q'))"
      using assms(2) q'(3) by (cases "m_queue q") (simp_all add: tsq_pop_take_def)
    with q' show ?thesis by (blast intro: take_element acquire)
  qed
qed

lemma queue_no_lost_wakeup_witness:
  "\<exists>q :: string ThreadSafeQueue. \<exists>q'. queue_step q Acquired q' \<and> queue_step q' (Popped (Some ''a'')) (snd (tsq_pop_take q'))"
proof -
  let ?q = "\<lparr>q_size = 1, m_semaphore = \<lparr>m_count = 1\<rparr>, m_queue = [''a''], m_inflight = 0\<rparr>"
  have "queue_run 1 [] (new_ThreadSafeQueue 1)" by (rule start)
  from step [OF this push, of "''a''" True ?q] have "queue_run 1 [Pushed ''a'' True] ?q"
    by (simp add: tsq_push_def OrkSemaphore_release_def new_ThreadSafeQueue_def OrkSemaphore_acquire_def new_OrkSemaphore_def)
  from queue_no_lost_wakeup [OF this] show ?thesis by simp blast
qed

end
