(* ===== verification/VoipConfigRead.thy ===== *)
theory VoipConfigRead
  imports VoipConfig Serializers
begin

text \<open>
  The settings of the plugin as \<open>config.xml\<close> gives them: \<open>Define\<close> of \<open>AcpConfig\<close> and \<open>VoIpConfig\<close> with a serializer that
  reads, then \<open>Validate\<close>. The elements of the plugin's node are the map \<open>m\<close> from their names to their texts, as
  \<open>DomSerializer::GetString\<close> finds them (the XML library is not modelled); an element without text is not in it.
  \<open>strtod\<close> is the function of the C library: the number and the rest of the text.
\<close>

section \<open>Values\<close>

type_synonym 's setting_read = "'s \<Rightarrow> 's result"

text \<open>The pairs of the node, the key, and the field with its update.\<close>

type_synonym ('s, 'v) setting_value = "(string, string) std_map \<Rightarrow> string \<Rightarrow> ('s \<Rightarrow> 'v) \<Rightarrow> (('v \<Rightarrow> 'v) \<Rightarrow> 's \<Rightarrow> 's) \<Rightarrow> 's setting_read"

definition StringToDouble :: "(string \<Rightarrow> real \<times> string) \<Rightarrow> string \<Rightarrow> real result" where
  "StringToDouble strtod s =
     (case strtod (c_str s) of (v, rest) \<Rightarrow> if rest = c_str s then Inl (Thrown ''StringToDouble: invalid double'') else Inr v)"

definition GetDouble :: "(string \<Rightarrow> real \<times> string) \<Rightarrow> (string, string) std_map \<Rightarrow> string \<Rightarrow> real \<Rightarrow> bool \<Rightarrow> real result" where
  "GetDouble strtod m key v required =
     andThen (GetText m key required) (\<lambda>s. if s \<noteq> [] then StringToDouble strtod s else Inr v)"

definition GetIpRanges :: "nat list \<Rightarrow> (string, string) std_map \<Rightarrow> string \<Rightarrow> IpRanges \<Rightarrow> bool \<Rightarrow> IpRanges result" where
  "GetIpRanges garbage m key r required =
     andThen (GetCsv m key (m_asciiIpRanges r) required) (\<lambda>entries. IpRanges_Compute garbage (r\<lparr>m_asciiIpRanges := entries\<rparr>))"

text \<open>One call of the serializer: the field is read and written back.\<close>

definition int_value :: "('s, int) setting_value" where
  "int_value m key field update s = andThen (GetInt m key (field s) False) (\<lambda>i. Inr (update (\<lambda>_. i) s))"

definition bool_value :: "('s, bool) setting_value" where
  "bool_value m key field update s = andThen (GetBool m key (field s) False) (\<lambda>b. Inr (update (\<lambda>_. b) s))"

definition string_value :: "('s, string) setting_value" where
  "string_value m key field update s =
     andThen (GetString m key False) (\<lambda>v. Inr (update (\<lambda>_. case v of None \<Rightarrow> field s | Some t \<Rightarrow> t) s))"

definition csv_value :: "('s, string list) setting_value" where
  "csv_value m key field update s = andThen (GetCsv m key (field s) False) (\<lambda>es. Inr (update (\<lambda>_. es) s))"

definition double_value :: "(string \<Rightarrow> real \<times> string) \<Rightarrow> ('s, real) setting_value" where
  "double_value strtod m key field update s = andThen (GetDouble strtod m key (field s) False) (\<lambda>v. Inr (update (\<lambda>_. v) s))"

definition ip_ranges_value :: "nat list \<Rightarrow> ('s, IpRanges) setting_value" where
  "ip_ranges_value garbage m key field update s = andThen (GetIpRanges garbage m key (field s) False) (\<lambda>r. Inr (update (\<lambda>_. r) s))"

text \<open>\<open>PopulateIntMapFromCsv\<close>, with the list that it reads.\<close>

definition int_map_value :: "('s, (u32, u32) std_map) setting_value" where
  "int_map_value m param field update s =
     andThen (GetCsv m param [] False) (\<lambda>csvList.
     andThen (PopulateIntMapFromCsv csvList (field s)) (\<lambda>intList. Inr (update (\<lambda>_. intList) s)))"

fun run_reads :: "'s setting_read list \<Rightarrow> 's setting_read" where
  "run_reads [] s = Inr s"
| "run_reads (read # reads) s = andThen (read s) (run_reads reads)"

section \<open>Parameters\<close>

definition AcpConfig_Define :: "(string \<Rightarrow> real \<times> string) \<Rightarrow> nat list \<Rightarrow> (string, string) std_map \<Rightarrow> VoIpSettings setting_read" where
  "AcpConfig_Define strtod garbage m = run_reads
     [bool_value m ''RtpReportDtmf'' m_rtpReportDtmf m_rtpReportDtmf_update,
      bool_value m ''DtmfReportFullStringAsTag'' m_dtmfReportFullStringAsTag m_dtmfReportFullStringAsTag_update,
      string_value m ''OnDemandViaDtmfDigitsString'' m_onDemandViaDtmfDigitsString m_onDemandViaDtmfDigitsString_update,
      int_value m ''RtpEventPayloadTypeDefaultValue'' m_rtpEventPayloadTypeDefaultValue m_rtpEventPayloadTypeDefaultValue_update,
      string_value m ''OnDemandPauseViaDtmfDigitsString'' m_onDemandPauseViaDtmfDigitsString m_onDemandPauseViaDtmfDigitsString_update,
      bool_value m ''RtpS1S2MappingDeterministic'' m_rtpS1S2MappingDeterministic m_rtpS1S2MappingDeterministic_update,
      bool_value m ''RtpS1S2MappingDeterministicS1IsLocal'' m_rtpS1S2MappingDeterministicS1IsLocal m_rtpS1S2MappingDeterministicS1IsLocal_update,
      ip_ranges_value garbage m ''MediaGateways'' m_mediaGateways m_mediaGateways_update,
      bool_value m ''CtiDrivenEnable'' m_ctiDrivenEnable m_ctiDrivenEnable_update,
      int_value m ''CtiDrivenMatchingTimeoutSec'' m_ctiDrivenMatchingTimeoutSec m_ctiDrivenMatchingTimeoutSec_update,
      csv_value m ''CtiDrivenMatchingCriteria'' m_ctiDrivenMatchingCriteria m_ctiDrivenMatchingCriteria_update,
      bool_value m ''CtiDrivenStopIgnore'' m_ctiDrivenStopIgnore m_ctiDrivenStopIgnore_update,
      csv_value m ''CtiDrivenMatchingTapeMetadataTagPair'' m_ctiDrivenMatchingTapeMetadataTagPair m_ctiDrivenMatchingTapeMetadataTagPair_update,
      bool_value m ''CtiDrivenEarlyStartReconsider'' m_ctiDrivenEarlyStartReconsider m_ctiDrivenEarlyStartReconsider_update,
      int_value m ''CtiDrivenEarlyStartReconsiderTimeout'' m_ctiDrivenEarlyStartReconsiderTimeout m_ctiDrivenEarlyStartReconsiderTimeout_update,
      bool_value m ''SipReportFullAddress'' m_sipReportFullAddress m_sipReportFullAddress_update,
      int_value m ''RtpS1MinNumPacketsBeforeStart'' m_rtpS1MinNumPacketsBeforeStart m_rtpS1MinNumPacketsBeforeStart_update,
      int_value m ''RtpS2MinNumPacketsBeforeStart'' m_rtpS2MinNumPacketsBeforeStart m_rtpS2MinNumPacketsBeforeStart_update,
      double_value strtod m ''SessionStartsOnS2ActivityDb'' m_sessionStartsOnS2ActivityDb m_sessionStartsOnS2ActivityDb_update,
      string_value m ''SipUcidFieldName'' m_sipUcidFieldName m_sipUcidFieldName_update,
      bool_value m ''SipRemotePartyFrom200OKEnable'' m_sipRemotePartyFrom200OKEnable m_sipRemotePartyFrom200OKEnable_update]"

definition VoIpConfig_Define :: "(string \<Rightarrow> real \<times> string) \<Rightarrow> nat list \<Rightarrow> (string, string) std_map \<Rightarrow> VoIpSettings setting_read" where
  "VoIpConfig_Define strtod garbage m s = andThen (AcpConfig_Define strtod garbage m s) (run_reads
     [string_value m ''Device'' m_device m_device_update, csv_value m ''Devices'' m_devices m_devices_update,
      csv_value m ''LanMasks'' m_asciiLanMasks m_asciiLanMasks_update,
      csv_value m ''RtpTrackUsingIpAddresses'' m_asciiRtpTrackUsingIpAddresses m_asciiRtpTrackUsingIpAddresses_update,
      csv_value m ''BlockedIpRanges'' m_asciiBlockedIpRanges m_asciiBlockedIpRanges_update,
      csv_value m ''AllowedIpRanges'' m_asciiAllowedIpRanges m_asciiAllowedIpRanges_update,
      string_value m ''PcapFile'' m_pcapFile m_pcapFile_update,
      string_value m ''PcapDirectory'' m_pcapDirectory m_pcapDirectory_update,
      bool_value m ''PcapRepeat'' m_pcapRepeat m_pcapRepeat_update,
      bool_value m ''PcapFastReplay'' m_pcapFastReplay m_pcapFastReplay_update,
      int_value m ''PcapFastReplaySleepUsPerSec'' m_pcapFastReplaySleepUsPerSec m_pcapFastReplaySleepUsPerSec_update,
      bool_value m ''SipDropIndirectInvite'' m_sipDropIndirectInvite m_sipDropIndirectInvite_update,
      int_value m ''PcapSocketBufferSize'' m_pcapSocketBufferSize m_pcapSocketBufferSize_update,
      int_value m ''UdpListenerSocketBufferSize'' m_udpListenerSocketBufferSize m_udpListenerSocketBufferSize_update,
      int_value m ''RtpSessionTimeoutSec'' m_rtpSessionTimeoutSec m_rtpSessionTimeoutSec_update,
      int_value m ''RtpSessionWithSignallingTimeoutSec'' m_rtpSessionWithSignallingTimeoutSec m_rtpSessionWithSignallingTimeoutSec_update,
      int_value m ''RtpSessionWithSignallingInitialTimeoutSec'' m_rtpSessionWithSignallingInitialTimeoutSec m_rtpSessionWithSignallingInitialTimeoutSec_update,
      int_value m ''RtpSessionOnHoldTimeOutSec'' m_rtpSessionOnHoldTimeOutSec m_rtpSessionOnHoldTimeOutSec_update,
      ip_ranges_value garbage m ''RtpBlockedIpRanges'' m_rtpBlockedIpRanges m_rtpBlockedIpRanges_update,
      bool_value m ''RtpTrackByUdpPortOnly'' m_rtpTrackByUdpPortOnly m_rtpTrackByUdpPortOnly_update,
      bool_value m ''RtpAllowMultipleMappings'' m_rtpAllowMultipleMappings m_rtpAllowMultipleMappings_update,
      int_value m ''RtpSeqGapThreshold'' m_rtpSeqGapThreshold m_rtpSeqGapThreshold_update,
      bool_value m ''PcapTest'' m_pcapTest m_pcapTest_update,
      string_value m ''PcapFilter'' m_pcapFilter m_pcapFilter_update,
      bool_value m ''RtpDiscontinuityDetect'' m_rtpDiscontinuityDetect m_rtpDiscontinuityDetect_update,
      int_value m ''RtpDiscontinuityMinSeqDelta'' m_rtpDiscontinuityMinSeqDelta m_rtpDiscontinuityMinSeqDelta_update,
      csv_value m ''DnisNumbers'' m_dnisNumbers m_dnisNumbers_update,
      bool_value m ''Iax2Support'' m_iax2Support m_iax2Support_update,
      bool_value m ''Iax2TreatCallerIdNameAsXUniqueId'' m_iax2TreatCallerIdNameAsXUniqueId m_iax2TreatCallerIdNameAsXUniqueId_update,
      bool_value m ''RtpDetectOnOddPorts'' m_rtpDetectOnOddPorts m_rtpDetectOnOddPorts_update,
      int_map_value m ''RtpPayloadTypeBlockList'' m_rtpPayloadTypeBlockList m_rtpPayloadTypeBlockList_update,
      csv_value m ''SipExtractFields'' m_sipExtractFields m_sipExtractFields_update,
      csv_value m ''SipExtractKeyValues'' m_sipExtractKeyValues m_sipExtractKeyValues_update,
      bool_value m ''SipNotifySupport'' m_sipNotifySupport m_sipNotifySupport_update,
      bool_value m ''SipOverTcpSupport'' m_sipOverTcpSupport m_sipOverTcpSupport_update,
      bool_value m ''SipLogFailedCalls'' m_sipLogFailedCalls m_sipLogFailedCalls_update,
      bool_value m ''SipUse200OkMediaAddress'' m_sipUse200OkMediaAddress m_sipUse200OkMediaAddress_update,
      bool_value m ''SipDetectSessionProgress'' m_sipDetectSessionProgress m_sipDetectSessionProgress_update,
      bool_value m ''SipDynamicMediaAddress'' m_sipDynamicMediaAddress m_sipDynamicMediaAddress_update,
      ip_ranges_value garbage m ''SipIgnoredMediaAddresses'' m_sipIgnoredMediaAddresses m_sipIgnoredMediaAddresses_update,
      bool_value m ''SipIgnoreBye'' m_sipIgnoreBye m_sipIgnoreBye_update,
      bool_value m ''SipReportNamesAsTags'' m_sipReportNamesAsTags m_sipReportNamesAsTags_update,
      bool_value m ''SipRequestUriAsLocalParty'' m_sipRequestUriAsLocalParty m_sipRequestUriAsLocalParty_update,
      bool_value m ''SipTreat200OkAsInvite'' m_sipTreat200OkAsInvite m_sipTreat200OkAsInvite_update,
      bool_value m ''SipAllowMultipleMediaAddresses'' m_sipAllowMultipleMediaAddresses m_sipAllowMultipleMediaAddresses_update,
      bool_value m ''Sip302MovedTemporarilySupport'' m_sip302MovedTemporarilySupport m_sip302MovedTemporarilySupport_update,
      bool_value m ''SipInviteCanPutOffHold'' m_sipInviteCanPutOffHold m_sipInviteCanPutOffHold_update,
      bool_value m ''SipPickUpSupport'' m_sipCallPickUpSupport m_sipCallPickUpSupport_update,
      string_value m ''SipOnDemandFieldName'' m_sipOnDemandFieldName m_sipOnDemandFieldName_update,
      string_value m ''SipOnDemandFieldValue'' m_sipOnDemandFieldValue m_sipOnDemandFieldValue_update,
      string_value m ''SipOnDemandFieldValueOff'' m_sipOnDemandFieldValueOff m_sipOnDemandFieldValueOff_update,
      string_value m ''SipDialedNumberFieldName'' m_sipDialedNumberFieldName m_sipDialedNumberFieldName_update,
      string_value m ''SipRemotePartyFieldName'' m_sipRemotePartyFieldName m_sipRemotePartyFieldName_update,
      string_value m ''SipGroupPickUpPattern'' m_sipGroupPickUpPattern m_sipGroupPickUpPattern_update,
      bool_value m ''SipTrackMediaAddressOnSender'' m_sipTrackMediaAddressOnSender m_sipTrackMediaAddressOnSender_update,
      bool_value m ''SipAllowMetadataUpdateOnRtpChange'' m_sipAllowMetadataUpdateOnRtpChange m_sipAllowMetadataUpdateOnRtpChange_update,
      bool_value m ''SipAllowMediaAddressTransfer'' m_sipAllowMediaAddressTransfer m_sipAllowMediaAddressTransfer_update,
      bool_value m ''RtcpDetect'' m_rtcpDetect m_rtcpDetect_update, bool_value m ''InInMode'' m_inInMode m_inInMode_update,
      bool_value m ''UseMacIfNoLocalParty'' m_useMacIfNoLocalParty m_useMacIfNoLocalParty_update,
      bool_value m ''LocalPartyForceLocalIp'' m_localPartyForceLocalIp m_localPartyForceLocalIp_update,
      bool_value m ''LocalPartyForceLocalMac'' m_localPartyForceLocalMac m_localPartyForceLocalMac_update,
      bool_value m ''LocalPartyUseName'' m_localPartyUseName m_localPartyUseName_update,
      bool_value m ''PartiesUseName'' m_partiesUseName m_partiesUseName_update,
      bool_value m ''SkinnyIgnoreStopMediaTransmission'' m_skinnyIgnoreStopMediaTransmission m_skinnyIgnoreStopMediaTransmission_update,
      bool_value m ''SkinnyIgnoreOpenReceiveChannelAck'' m_skinnyIgnoreOpenReceiveChannelAck m_skinnyIgnoreOpenReceiveChannelAck_update,
      bool_value m ''SkinnyDynamicMediaAddress'' m_skinnyDynamicMediaAddress m_skinnyDynamicMediaAddress_update,
      bool_value m ''SkinnyAllowCallInfoUpdate'' m_skinnyAllowCallInfoUpdate m_skinnyAllowCallInfoUpdate_update,
      int_value m ''SkinnyTcpPort'' m_skinnyTcpPort m_skinnyTcpPort_update,
      bool_value m ''SkinnyAllowLateCallInfo'' m_skinnyAllowLateCallInfo m_skinnyAllowLateCallInfo_update,
      bool_value m ''SkinnyNameAsLocalParty'' m_skinnyNameAsLocalParty m_skinnyNameAsLocalParty_update,
      bool_value m ''SkinnyCallInfoStopsPrevious'' m_skinnyCallInfoStopsPrevious m_skinnyCallInfoStopsPrevious_update,
      int_value m ''SkinnyCallInfoStopsPreviousToleranceSec'' m_skinnyCallInfoStopsPreviousToleranceSec m_skinnyCallInfoStopsPreviousToleranceSec_update,
      csv_value m ''SkinnyReportTags'' m_skinnyReportTags m_skinnyReportTags_update,
      bool_value m ''Cucm7-1Mode'' m_cucm7_1Mode m_cucm7_1Mode_update,
      bool_value m ''SkinnyCucm7Mode'' m_cucm7_1Mode m_cucm7_1Mode_update,
      bool_value m ''SkinnyAllowMediaAddressTransfer'' m_skinnyAllowMediaAddressTransfer m_skinnyAllowMediaAddressTransfer_update,
      bool_value m ''SkinnyRtpSearchesForCallInfo'' m_skinnyRtpSearchesForCallInfo m_skinnyRtpSearchesForCallInfo_update,
      bool_value m ''SkinnyTrackConferencesTransfers'' m_SkinnyTrackConferencesTransfers m_SkinnyTrackConferencesTransfers_update,
      bool_value m ''SkinnyBehindNat'' m_skinnyBehindNat m_skinnyBehindNat_update,
      bool_value m ''SkinnyIgnoreHold'' m_skinnyIgnoreHold m_skinnyIgnoreHold_update,
      int_value m ''SangomaRxTcpPortStart'' m_sangomaRxTcpPortStart m_sangomaRxTcpPortStart_update,
      int_value m ''SangomaTxTcpPortStart'' m_sangomaTxTcpPortStart m_sangomaTxTcpPortStart_update,
      csv_value m ''SipDomains'' m_sipDomains m_sipDomains_update,
      ip_ranges_value garbage m ''SipDirectionReferenceIpAddresses'' m_sipDirectionReferenceIpAddresses m_sipDirectionReferenceIpAddresses_update,
      csv_value m ''SipDirectionReferenceUserAgents'' m_sipDirectionReferenceUserAgents m_sipDirectionReferenceUserAgents_update,
      ip_ranges_value garbage m ''LanIpRanges'' m_lanIpRanges m_lanIpRanges_update,
      ip_ranges_value garbage m ''MediaAddressBlockedIpRanges'' m_mediaAddressBlockedIpRanges m_mediaAddressBlockedIpRanges_update,
      ip_ranges_value garbage m ''MediaAddressAllowedIpRanges'' m_mediaAddressAllowedIpRanges m_mediaAddressAllowedIpRanges_update,
      bool_value m ''DahdiIntercept'' m_dahdiIntercept m_dahdiIntercept_update,
      bool_value m ''HoldReportStats'' m_holdReportStats m_holdReportStats_update,
      bool_value m ''Iax2RewriteTimestamps'' m_Iax2RewriteTimestamps m_Iax2RewriteTimestamps_update,
      bool_value m ''TrackRawRtpSessionInNonLookBackMode'' m_trackRawRtpSessionInNonLookBackMode m_trackRawRtpSessionInNonLookBackMode_update,
      bool_value m ''UrlExtractorEnable'' m_urlExtractorEnable m_urlExtractorEnable_update,
      bool_value m ''UrlExtractorEndpointIsSender'' m_urlExtractorEndpointIsSender m_urlExtractorEndpointIsSender_update,
      int_value m ''UrlExtractorPort'' m_urlExtractorPort m_urlExtractorPort_update,
      string_value m ''UrlExtractorPattern'' m_urlExtractorPattern m_urlExtractorPattern_update,
      string_value m ''RemotePartyUseExtractedKey'' m_remotePartyUseExtractedKey m_remotePartyUseExtractedKey_update,
      int_value m ''RtpMinAmountOfPacketsBeforeStart'' m_rtpMinAmountOfPacketsBeforeStart m_rtpMinAmountOfPacketsBeforeStart_update,
      bool_value m ''RtpBreakupOnStreamPause'' m_rtpBreakupOnStreamPause m_rtpBreakupOnStreamPause_update,
      bool_value m ''LocalPartyAddLocalIp'' m_localPartyAddLocalIp m_localPartyAddLocalIp_update,
      bool_value m ''RtpLogAllSsrc'' m_rtpLogAllSsrc m_rtpLogAllSsrc_update,
      int_value m ''OrekaEncapsulationPort'' m_orekaEncapsulationPort m_orekaEncapsulationPort_update,
      string_value m ''OrekaEncapsulationHost'' m_orekaEncapsulationHost m_orekaEncapsulationHost_update,
      bool_value m ''OrekaEncapsulationMode'' m_orekaEncapsulationMode m_orekaEncapsulationMode_update,
      string_value m ''OnDemandTcpMarkerKey'' m_onDemandTcpMarkerKey m_onDemandTcpMarkerKey_update,
      string_value m ''OnDemandTcpMarkerValue'' m_onDemandTcpMarkerValue m_onDemandTcpMarkerValue_update,
      bool_value m ''SipInfoDtmfRfc2976Detect'' m_sipInfoDtmfRfc2976Detect m_sipInfoDtmfRfc2976Detect_update,
      bool_value m ''MediaAddressUseSecondRtpAddress'' m_mediaAddressUseSecondRtpAddress m_mediaAddressUseSecondRtpAddress_update,
      int_value m ''TransferTimeOutInSec'' m_transferTimeOutInSec m_transferTimeOutInSec_update,
      bool_value m ''RtpDtmfOnlyLocal'' m_rtpDtmfOnlyLocal m_rtpDtmfOnlyLocal_update,
      int_value m ''UdpMinPort'' m_udpMinPort m_udpMinPort_update,
      bool_value m ''LocalPartyNameMapEnable'' m_localPartyNameMapEnable m_localPartyNameMapEnable_update,
      bool_value m ''IpFragmentsReassemble'' m_ipFragmentsReassemble m_ipFragmentsReassemble_update,
      string_value m ''NecNotifyDispLine'' m_necNotifyDispLine m_necNotifyDispLine_update,
      csv_value m ''NecGatewayNames'' m_necVoipGatewayNames m_necVoipGatewayNames_update,
      bool_value m ''SipMetadataUseLastInvite'' m_sipMetadataUseLastInvite m_sipMetadataUseLastInvite_update,
      string_value m ''SipNecOnHoldMarker'' m_necOnHoldMarker m_necOnHoldMarker_update,
      string_value m ''SipNecOffHoldMarker'' m_necOffHoldMarker m_necOffHoldMarker_update,
      int_value m ''MtuMaxSize'' m_mtuMaxSize m_mtuMaxSize_update,
      string_value m ''SipLocalPartyFieldName'' m_sipLocalPartyFieldName m_sipLocalPartyFieldName_update])"

text \<open>A new object, read and validated. \<open>Configure\<close> keeps it; after an exception it logs and keeps the object it had.\<close>

definition read_config :: "(string \<Rightarrow> real \<times> string) \<Rightarrow> nat list \<Rightarrow> int \<Rightarrow> (string, string) std_map \<Rightarrow> OrkConfig \<Rightarrow>
    (VoIpSettings \<times> OrkConfig) result" where
  "read_config strtod garbage delta m c =
     andThen (new_VoIpConfig garbage delta) (\<lambda>s0.
     andThen (VoIpConfig_Define strtod garbage m s0) (\<lambda>s. VoIpConfig_Validate garbage (s, c)))"

section \<open>What reading establishes\<close>

definition read_keeps :: "('s \<Rightarrow> bool) \<Rightarrow> 's setting_read \<Rightarrow> bool" where
  "read_keeps P read \<longleftrightarrow> (\<forall>s s'. P s \<longrightarrow> read s = Inr s' \<longrightarrow> P s')"

lemma andThen_keeps: "read_keeps P read \<Longrightarrow> read_keeps P read' \<Longrightarrow> read_keeps P (\<lambda>s. andThen (read s) read')"
  unfolding read_keeps_def andThen_eq_Inr_iff by blast

lemma run_reads_keeps: "list_all (read_keeps P) reads \<Longrightarrow> read_keeps P (run_reads reads)"
proof (induction reads)
  case (Cons read reads)
  have "run_reads (read # reads) = (\<lambda>s. andThen (read s) (run_reads reads))" by (rule ext) simp
  then show ?case using Cons andThen_keeps [of P read "run_reads reads"] by simp
qed (simp add: read_keeps_def)

lemma update_keeps:
  assumes "\<And>v s. P (update (\<lambda>_. v) s) = P s"
  shows "read_keeps P (\<lambda>s. andThen (g s) (\<lambda>v. Inr (update (\<lambda>_. h s v) s)))"
  unfolding read_keeps_def andThen_eq_Inr_iff by (clarify, simp add: assms)

lemma value_keeps:
  "(\<And>v s. P (int_update (\<lambda>_. v) s) = P s) \<Longrightarrow> read_keeps P (int_value m key int_field int_update)"
  "(\<And>v s. P (bool_update (\<lambda>_. v) s) = P s) \<Longrightarrow> read_keeps P (bool_value m key bool_field bool_update)"
  "(\<And>v s. P (string_update (\<lambda>_. v) s) = P s) \<Longrightarrow> read_keeps P (string_value m key string_field string_update)"
  "(\<And>v s. P (csv_update (\<lambda>_. v) s) = P s) \<Longrightarrow> read_keeps P (csv_value m key csv_field csv_update)"
  "(\<And>v s. P (double_update (\<lambda>_. v) s) = P s) \<Longrightarrow> read_keeps P (double_value strtod m key double_field double_update)"
  unfolding int_value_def [abs_def] bool_value_def [abs_def] string_value_def [abs_def] csv_value_def [abs_def] double_value_def [abs_def]
  by (erule update_keeps)+

lemma int_map_value_keeps:
  assumes "\<And>v s. P (update (\<lambda>_. v) s) = P s"
  shows "read_keeps P (int_map_value m key field update)"
  unfolding read_keeps_def int_map_value_def andThen_eq_Inr_iff by (clarify, simp add: assms)

lemma ip_ranges_value_keeps:
  assumes "\<And>r s. ranges_ok r \<Longrightarrow> P s \<Longrightarrow> P (update (\<lambda>_. r) s)"
  shows "read_keeps P (ip_ranges_value garbage m key field update)"
  using assms IpRanges_Compute_ok by (fastforce simp: read_keeps_def ip_ranges_value_def GetIpRanges_def andThen_eq_Inr_iff)

lemma AcpConfig_Define_keeps: "read_keeps ranges_read (AcpConfig_Define strtod garbage m)"
  unfolding AcpConfig_Define_def
  by (rule run_reads_keeps, simp only: list.pred_inject, intro conjI TrueI value_keeps int_map_value_keeps ip_ranges_value_keeps)
    (simp_all add: ranges_read_def)

lemma VoIpConfig_Define_keeps: "read_keeps ranges_read (VoIpConfig_Define strtod garbage m)"
  unfolding VoIpConfig_Define_def [abs_def]
  by (rule andThen_keeps [OF AcpConfig_Define_keeps run_reads_keeps], simp only: list.pred_inject,
      intro conjI TrueI value_keeps int_map_value_keeps ip_ranges_value_keeps) (simp_all add: ranges_read_def)

lemma read_config_ranges:
  assumes "read_config strtod garbage delta m c = Inr (s', c')"
  obtains s where "VoIpConfig_Validate garbage (s, c) = Inr (s', c')" "ranges_read s"
proof -
  obtain s0 s where s0: "new_VoIpConfig garbage delta = Inr s0" and s: "VoIpConfig_Define strtod garbage m s0 = Inr s"
    and valid: "VoIpConfig_Validate garbage (s, c) = Inr (s', c')"
    using assms unfolding read_config_def andThen_eq_Inr_iff by blast
  obtain lan where "IpRanges_Compute garbage standard_lan_ranges = Inr lan" "m_lanIpRanges s0 = lan"
    "m_sipDirectionReferenceIpAddresses s0 = no_ranges" "m_sipIgnoredMediaAddresses s0 = no_ranges" "m_rtpBlockedIpRanges s0 = no_ranges"
    "m_mediaAddressBlockedIpRanges s0 = no_ranges" "m_mediaAddressAllowedIpRanges s0 = no_ranges"
    using s0 by (auto simp: new_VoIpConfig_def andThen_eq_Inr_iff)
  moreover have "ranges_ok no_ranges" by (simp add: ranges_ok_def no_ranges_def)
  ultimately have "ranges_read s0" using IpRanges_Compute_ok by (simp add: ranges_read_def)
  with VoIpConfig_Define_keeps s have "ranges_read s" unfolding read_keeps_def by blast
  with valid show thesis by (rule that)
qed

lemma validated_numbers:
  assumes checks: "run_checks (number_checks s1) = Inr ()" and s': "s' = final_settings (derived_settings s1)"
  shows "0 < m_rtpSessionTimeoutSec s' \<and> 0 < m_rtpSessionWithSignallingTimeoutSec s' \<and> 0 < m_rtpSessionOnHoldTimeOutSec s' \<and>
     0 < m_rtpSessionWithSignallingInitialTimeoutSec s' \<and>
     (m_sangomaRxTcpPortStart s' \<noteq> 0 \<longrightarrow> m_sangomaEnable s' \<and> 0 \<le> m_sangomaTcpPortDelta s' \<and>
        m_sangomaTcpPortDelta s' = m_sangomaTxTcpPortStart s' - m_sangomaRxTcpPortStart s')"
proof -
  have numbers: "m_rtpSessionTimeoutSec s' = m_rtpSessionTimeoutSec s1"
    "m_rtpSessionWithSignallingTimeoutSec s' = m_rtpSessionWithSignallingTimeoutSec s1"
    "m_rtpSessionOnHoldTimeOutSec s' = m_rtpSessionOnHoldTimeOutSec s1"
    "m_rtpSessionWithSignallingInitialTimeoutSec s' = m_rtpSessionWithSignallingInitialTimeoutSec s1"
    "m_sangomaRxTcpPortStart s' = m_sangomaRxTcpPortStart s1" "m_sangomaTxTcpPortStart s' = m_sangomaTxTcpPortStart s1"
    by (simp_all add: s' derived_settings_def final_settings_def Let_def)
  have sangoma: "m_sangomaRxTcpPortStart s1 > 0 \<Longrightarrow> m_sangomaTxTcpPortStart s1 > 0 \<Longrightarrow>
      m_sangomaEnable s' \<and> m_sangomaTcpPortDelta s' = m_sangomaTxTcpPortStart s1 - m_sangomaRxTcpPortStart s1"
    by (simp add: s' derived_settings_def final_settings_def Let_def)
  have "0 < m_rtpSessionTimeoutSec s1 \<and> 0 < m_rtpSessionWithSignallingTimeoutSec s1 \<and>
      0 < m_rtpSessionOnHoldTimeOutSec s1 \<and> 0 < m_rtpSessionWithSignallingInitialTimeoutSec s1 \<and>
      (m_sangomaRxTcpPortStart s1 \<noteq> 0 \<longrightarrow> 0 < m_sangomaRxTcpPortStart s1) \<and>
      m_sangomaRxTcpPortStart s1 \<le> m_sangomaTxTcpPortStart s1"
    using checks unfolding run_checks_iff number_checks_def by (simp add: sangoma_port_invalid_def) arith
  then show ?thesis using sangoma by (simp add: numbers)
qed

section \<open>A concrete file\<close>

text \<open>A value that is not in the file stays as it is.\<close>

lemma value_unset:
  assumes "map_find key m = None"
  shows "int_value m key int_field int_update s = Inr (int_update (\<lambda>_. int_field s) s)"
    "bool_value m key bool_field bool_update s = Inr (bool_update (\<lambda>_. bool_field s) s)"
    "string_value m key string_field string_update s = Inr (string_update (\<lambda>_. string_field s) s)"
    "csv_value m key csv_field csv_update s = Inr (csv_update (\<lambda>_. csv_field s) s)"
    "double_value strtod m key double_field double_update s = Inr (double_update (\<lambda>_. double_field s) s)"
    "int_map_value m key map_field map_update s = Inr (map_update (\<lambda>_. map_field s) s)"
    "ip_ranges_value garbage m key ranges ranges_update s =
       andThen (IpRanges_Compute garbage (ranges s)) (\<lambda>r. Inr (ranges_update (\<lambda>_. r) s))"
  using assms
  by (simp_all add: int_value_def GetInt_def GetText_def GetString_def bool_value_def GetBool_def string_value_def csv_value_def GetCsv_def
      read_csv_def double_value_def GetDouble_def int_map_value_def ip_ranges_value_def GetIpRanges_def)

lemma default_ranges:
  "m_mediaGateways default_settings = no_ranges" "m_rtpBlockedIpRanges default_settings = no_ranges"
  "m_sipIgnoredMediaAddresses default_settings = no_ranges" "m_sipDirectionReferenceIpAddresses default_settings = no_ranges"
  "m_mediaAddressBlockedIpRanges default_settings = no_ranges" "m_mediaAddressAllowedIpRanges default_settings = no_ranges"
  by (simp_all add: default_settings_simps)

lemma default_lan: "IpRanges_Compute [0, 0, 0] (m_lanIpRanges default_settings) = Inr (m_lanIpRanges default_settings)"
proof -
  let ?lan = "standard_lan_ranges\<lparr>m_ipRangePrefixes := [10, 0xC0A8, 0xAC100], m_ipRangeBitWidths := [24, 16, 12]\<rparr>"
  have lan: "IpRanges_Compute [0, 0, 0] standard_lan_ranges = Inr ?lan"
    using IpRanges_Compute_lan by (simp add: standard_lan_ranges_def no_ranges_def)
  have "m_lanIpRanges default_settings = ?lan" by (simp add: default_settings_def new_VoIpConfig_def lan)
  moreover have "IpRanges_Compute [0, 0, 0] ?lan = IpRanges_Compute [0, 0, 0] standard_lan_ranges" by (simp add: IpRanges_Compute_def)
  ultimately show ?thesis by (simp add: lan)
qed

definition blocking_file :: "(string, string) std_map" where
  "blocking_file = [(''BlockedIpRanges'', ''10.1.2.0/24'')]"

lemma blocking_file_find: "map_find key blocking_file = (if key = ''BlockedIpRanges'' then Some ''10.1.2.0/24'' else None)"
  by (simp add: blocking_file_def map_find_def)

lemma blocking_file_csv: "csv_value blocking_file ''BlockedIpRanges'' m_asciiBlockedIpRanges m_asciiBlockedIpRanges_update default_settings =
  Inr blocking_settings"
proof -
  have "trim ''10.1.2.0/24'' = ''10.1.2.0/24''" by code_simp
  then have "read_csv ''10.1.2.0/24'' val = [''10.1.2.0/24'']" for val
    by (simp add: read_csv_def)
  then show ?thesis by (simp add: csv_value_def GetCsv_def GetText_def GetString_def blocking_file_find blocking_settings_def)
qed

lemma blocking_file_acp: "AcpConfig_Define strtod [0, 0, 0] blocking_file default_settings = Inr default_settings"
  by (simp add: AcpConfig_Define_def value_unset blocking_file_find default_ranges)

lemma blocking_ranges:
  "m_rtpBlockedIpRanges blocking_settings = no_ranges"
  "m_sipIgnoredMediaAddresses blocking_settings = no_ranges" "m_sipDirectionReferenceIpAddresses blocking_settings = no_ranges"
  "m_mediaAddressBlockedIpRanges blocking_settings = no_ranges" "m_mediaAddressAllowedIpRanges blocking_settings = no_ranges"
  "IpRanges_Compute [0, 0, 0] (m_lanIpRanges blocking_settings) = Inr (m_lanIpRanges blocking_settings)"
  by (simp_all add: blocking_settings_def default_ranges default_lan)

lemma blocking_file_read: "VoIpConfig_Define strtod [0, 0, 0] blocking_file default_settings = Inr blocking_settings"
  by (simp add: VoIpConfig_Define_def value_unset blocking_file_find default_ranges default_lan blocking_ranges blocking_file_acp blocking_file_csv)


section \<open>Property\<close>

text \<open>C38: Settings that were read from any configuration file and validated decide on every packet: it is wanted exactly when both
  its addresses lie in allowed ranges (or none are configured) and neither lies in a blocked one, where an entry stands
  for the addresses that agree with its address in as many leading bits as it says, all 32 if it says nothing. The
  time-outs are positive and, with Sangoma ports configured, the distance of the ports is the one between the two ports;
  all lists of ranges have one width for each prefix, so matching an address against them never leaves them.\<close>

theorem validated_settings:
  assumes "read_config strtod garbage delta m c = Inr (s', c')"
  shows "IsPacketWanted s' src dest = Inr (
       (m_asciiAllowedIpRanges s' = [] \<or>
          list_ex (in_entry garbage src) (m_asciiAllowedIpRanges s') \<and> list_ex (in_entry garbage dest) (m_asciiAllowedIpRanges s')) \<and>
       \<not> list_ex (in_entry garbage src) (m_asciiBlockedIpRanges s') \<and> \<not> list_ex (in_entry garbage dest) (m_asciiBlockedIpRanges s')) \<and>
     0 < m_rtpSessionTimeoutSec s' \<and> 0 < m_rtpSessionWithSignallingTimeoutSec s' \<and> 0 < m_rtpSessionOnHoldTimeOutSec s' \<and>
     0 < m_rtpSessionWithSignallingInitialTimeoutSec s' \<and>
     (m_sangomaRxTcpPortStart s' \<noteq> 0 \<longrightarrow> m_sangomaEnable s' \<and> 0 \<le> m_sangomaTcpPortDelta s' \<and>
        m_sangomaTcpPortDelta s' = m_sangomaTxTcpPortStart s' - m_sangomaRxTcpPortStart s') \<and>
     config_ok (VoIpConfig.truncate s') \<and> ranges_ok (m_rtpBlockedIpRanges s')"
proof (rule read_config_ranges [OF assms])
  fix s assume valid: "VoIpConfig_Validate garbage (s, c) = Inr (s', c')" and read: "ranges_read s"
  show ?thesis
  proof (rule VoIpConfig_Validate_Inr [OF valid])
    fix s0 lan tracked s1 and as bs :: "u32 list \<times> u32 list"
    assume parse: "parse_ranges garbage ''AllowedIpRanges'' ''AllowedIpRanges'' (m_asciiAllowedIpRanges s0) ([], []) = Inr as"
        "parse_ranges garbage ''blockedIpRanges'' ''BlockedIpRanges'' (m_asciiBlockedIpRanges s0) ([], []) = Inr bs"
      and s1: "s1 = s0\<lparr>m_lanMasks := lan, m_rtpTrackUsingIpAddresses := tracked, m_allowedIpRangePrefixes := fst as,
         m_allowedIpRangeBitWidths := snd as, m_blockedIpRangePrefixes := fst bs, m_blockedIpRangeBitWidths := snd bs\<rparr>"
      and checks: "run_checks (number_checks s1) = Inr ()" and s': "s' = final_settings (derived_settings s1)"
    have "parse_ranges garbage ''AllowedIpRanges'' ''AllowedIpRanges'' (m_asciiAllowedIpRanges s0) ([], []) = Inr (fst as, snd as)"
      "parse_ranges garbage ''blockedIpRanges'' ''BlockedIpRanges'' (m_asciiBlockedIpRanges s0) ([], []) = Inr (fst bs, snd bs)"
      using parse by simp_all
    note a = parse_ranges_entries [OF this(1)] and b = parse_ranges_entries [OF this(2)]
    have lists: "m_allowedIpRangePrefixes s' = fst as" "m_allowedIpRangeBitWidths s' = snd as"
      "m_blockedIpRangePrefixes s' = fst bs" "m_blockedIpRangeBitWidths s' = snd bs"
      "m_asciiAllowedIpRanges s' = m_asciiAllowedIpRanges s0" "m_asciiBlockedIpRanges s' = m_asciiBlockedIpRanges s0"
      by (simp_all add: s' s1 derived_settings_keeps final_settings_keeps settings_keep_ascii)
    have wanted: "IsPacketWanted s' src dest = Inr (
         (m_asciiAllowedIpRanges s' = [] \<or>
            list_ex (in_entry garbage src) (m_asciiAllowedIpRanges s') \<and> list_ex (in_entry garbage dest) (m_asciiAllowedIpRanges s')) \<and>
         \<not> list_ex (in_entry garbage src) (m_asciiBlockedIpRanges s') \<and> \<not> list_ex (in_entry garbage dest) (m_asciiBlockedIpRanges s'))"
      by (subst IsPacketWanted_zip) (simp_all add: lists a b)
    show ?thesis using wanted validated_numbers [OF checks s'] VoIpConfig_Validate_config_ok [OF valid read] by blast
  qed
qed

lemma validated_blocked:
  assumes "VoIpConfig_Validate garbage (s, c) = Inr (s', c')"
  shows "m_asciiBlockedIpRanges s' = m_asciiBlockedIpRanges s"
proof (rule VoIpConfig_Validate_Inr [OF assms])
  fix s0 lan tracked allowed blocked s1
  assume acp: "AcpConfig_Validate garbage (s, c) = Inr (s0, c')"
    and s1: "s1 = s0\<lparr>m_lanMasks := lan, m_rtpTrackUsingIpAddresses := tracked,
       m_allowedIpRangePrefixes := fst allowed, m_allowedIpRangeBitWidths := snd allowed,
       m_blockedIpRangePrefixes := fst blocked, m_blockedIpRangeBitWidths := snd blocked\<rparr>"
    and s': "s' = final_settings (derived_settings s1)"
  show ?thesis using AcpConfig_Validate_keeps(2) [OF acp] by (simp add: s' s1 settings_keep_ascii)
qed

text \<open>The file blocks 10.1.2.0/24, so a packet from 10.1.2.3 is not wanted.\<close>

theorem validated_settings_witness:
  "\<exists>s'. read_config (\<lambda>s. (0, s)) [0, 0, 0] 0 blocking_file default_OrkConfig = Inr (s', default_OrkConfig) \<and>
     IsPacketWanted s' 0x0A010203 0x0A010303 = Inr False \<and> 0 < m_rtpSessionTimeoutSec s' \<and> config_ok (VoIpConfig.truncate s')"
proof -
  obtain s' where valid: "VoIpConfig_Validate [0, 0, 0] (blocking_settings, default_OrkConfig) = Inr (s', default_OrkConfig)"
    using blocking_settings_valid by blast
  then have read: "read_config (\<lambda>s. (0, s)) [0, 0, 0] 0 blocking_file default_OrkConfig = Inr (s', default_OrkConfig)"
    by (simp add: read_config_def new_VoIpConfig_default blocking_file_read)
  have "m_asciiBlockedIpRanges s' = [''10.1.2.0/24'']"
    using validated_blocked [OF valid] by (simp add: blocking_settings_def)
  moreover have "compute_entry [0, 0, 0] ''10.1.2.0/24'' = Inr (0x0A0102, 8)" by code_simp
  from compute_entry_matches [OF this, where ip = "0x0A010203"] have "in_entry [0, 0, 0] 0x0A010203 ''10.1.2.0/24''" by simp
  ultimately show ?thesis using validated_settings [OF read, where src = "0x0A010203" and dest = "0x0A010303"] read by simp
qed

end
