(* ===== verification/Spec2Isabelle.thy ===== *)
theory Spec2Isabelle
  imports RtpFrames Iax2CallRun SkinnyParsersProps TapeRun RtpMixerProps CaptureEnums SkinnyEnums SkinnyValidators StringUtils NetUtils IpReassembly
    LruMap ThreadSafeQueue Dtmf SipTcpRun VoipRunProps VoipConfigRead Messages SipParsersProps
begin

text \<open>
  Oreka records telephone calls. The process \<open>orkaudio\<close> captures packets with its VoIP plugin
  (\<open>orkaudio/audiocaptureplugins/voip\<close>), follows SIP, Skinny and IAX2 signalling, gives the RTP packets of a call to its session,
  and hands audio chunks and events to the base library (\<open>orkbasecxx\<close>), where a tape collects them in a capture file,
  filters such as the RTP mixer turn them into a recording, and messages report the recording to a tracker. This library
  models these parts as functions of Isabelle/HOL and proves what makes them correct.

  \<^bold>\<open>From the packet to the tape.\<close>
  \<^item> \<open>PacketCapture\<close>, \<open>PacketDispatch\<close>: \<open>HandlePacket\<close> and the detection functions of \<open>VoIp.cpp\<close>. The frame is a list of bytes,
    a pointer an offset in it. The result of a packet is the list of events it reports and the new global state (counters,
    incomplete datagrams, incomplete SIP streams, time of the last expiry).
  \<^item> \<open>IpFragmentation\<close>, \<open>IpReassembly\<close>: \<open>IpFragmentation.cpp\<close>, \<open>SizedBuffer.cpp\<close>.
  \<^item> \<open>SipTcp\<close>, \<open>SipTcpProps\<close>, \<open>SipTcpRun\<close>: SIP messages in TCP streams, \<open>SipTcp.cpp\<close> and \<open>SafeBuffer.cpp\<close>.
  \<^item> \<open>SipParsers\<close>, \<open>SipParsersProps\<close> over \<open>MemScan\<close>, \<open>ParsingUtils\<close>, \<open>PacketMemory\<close>: \<open>SipParsers.cpp\<close>, \<open>ParsingUtils.cpp\<close>,
    \<open>MemUtils.cpp\<close>; the messages they build are in \<open>SipHeaders\<close>.
  \<^item> \<open>SkinnyParsers\<close>, \<open>SkinnyParsersProps\<close>, \<open>SkinnyValidators\<close>, \<open>SkinnyEnums\<close>: \<open>SkinnyParsers.cpp\<close>, \<open>Win1251.cpp\<close>,
    \<open>PacketHeaderDefs.cpp\<close>.
  \<^item> \<open>Iax2Parsing\<close>: the IAX2 parsers, \<open>Iax2Parsers.cpp\<close>; \<open>Iax2Calls\<close> and \<open>Iax2Tables\<close>: the classes \<open>Iax2Session\<close> and
    \<open>Iax2Sessions\<close> of \<open>Iax2Session.cpp\<close>; \<open>Iax2Capture\<close>: both kinds of sessions behind \<open>HandlePacket\<close>. Their lemmas are in
    \<open>Iax2Elements\<close>, \<open>Iax2Methods\<close>, \<open>Iax2Safety\<close>, \<open>Iax2Packets\<close> and \<open>Iax2CallRun\<close>.
  \<^item> \<open>VoipTypes\<close>, \<open>VoipSession\<close>, \<open>VoipRtp\<close>: the methods of one session in \<open>VoIpSession.cpp\<close>; \<open>VoipTables\<close>, \<open>VoipSip\<close>,
    \<open>VoipSkinny\<close>, \<open>VoipDispatch\<close>: the tables of sessions and their handlers. \<open>OrkSession\<close> and \<open>Dtmf\<close> are the base class and
    its digits (\<open>audiocaptureplugins/common\<close>), \<open>VoipConfig\<close> and \<open>VoipConfigRead\<close> the configuration of the plugin, \<open>UrlText\<close> the
    escapes in URLs.
  \<^item> \<open>TapeConfig\<close>, \<open>AudioTape\<close>, \<open>TapeRecording\<close>: \<open>AudioTape.cpp\<close> and \<open>PartyFilter.cpp\<close>; \<open>MediaChunkFile\<close> and \<open>AudioFiles\<close>: the
    capture files of \<open>audiofile/\<close>; \<open>AudioChunk\<close> and \<open>CaptureEnums\<close>: what passes from the plugin to the tape.
  \<^item> \<open>RtpMixer\<close>: the mixer filter, with \<open>RtpMixerBuffer\<close>, \<open>RtpMixerStore\<close>, \<open>RtpMixerShip\<close>, \<open>RtpMixerRun\<close>, \<open>RtpMixerProps\<close>;
    \<open>FilterInterface\<close> is the contract of filters.
  \<^item> \<open>Messages\<close>, \<open>Serializers\<close>, \<open>SerializerProps\<close>: \<open>messages/\<close> and the single-line and URL serializers.
  \<^item> \<open>StringUtils\<close>, \<open>NetUtils\<close>, \<open>NamedEnum\<close>, \<open>StdMap\<close>, \<open>LruMap\<close>, \<open>ThreadSafeQueue\<close>, \<open>Simulation\<close>: utilities and containers.
    \<open>Prelude\<close> holds machine integers, faults, bounds-checked memory and strings.

  \<^bold>\<open>Conventions.\<close> A class is a record with the members of the code; a method is a function that returns the new object. What can
  leave the defined behaviour of C++ or throw returns a \<open>result\<close>, \<open>Inl\<close> with the fault or \<open>Inr\<close>. A loop that may run forever is
  a \<open>partial_function (option)\<close>, whose \<open>None\<close> is not returning. Shared sessions are indices into a list of all sessions.
  The clock, random choices, uninitialised members, the file system and libraries are arguments. Capture events that a
  method reports are returned in order. Threads are steps of an inductive relation, one per critical section.

  \<^bold>\<open>Lemma groups.\<close>
  \<^item> Memory safety: \<open>PacketMemory\<close> derives from a terminated packet that the parsing utilities stay inside it; the collection
    \<open>safe\<close> carries this through the parsers, the validators and the dispatch. \<open>udp_packets_handled\<close> composes them with the
    sessions: whatever a UDP packet carries, with the default features and readable memory behind it (a NUL and 50 bytes, which
    the code does not see to), nothing outside is read and no handler faults.
  \<^item> Session tables: \<open>VoipFrame\<close> says what a method leaves alone, the locale \<open>session_method\<close> of \<open>VoipMethods\<close> is the contract of
    the methods, \<open>VoipCoherence\<close> the invariant of the tables, \<open>VoipSipProps\<close>, \<open>VoipSkinnyProps\<close> and \<open>VoipDispatchProps\<close> its
    preservation, \<open>VoipRun\<close> and \<open>VoipRunProps\<close> the reachable states and what holds in them. \<open>fault_of\<close> names the three kinds of
    messages that the handlers do not survive; \<open>voip_sessions_safe\<close> shows that there are no others.
  \<^item> Configuration: \<open>VoipConfigRead\<close> follows the settings from the file through \<open>Define\<close> and \<open>Validate\<close>; the lists of ranges that
    the session theorems need (\<open>config_ok\<close>) are what reading and validating produce.
  \<^item> IAX2: \<open>Iax2Elements\<close> inverts an encoder of information elements, the locale \<open>iax2_method\<close> of \<open>Iax2Methods\<close> is the
    contract of the methods, \<open>Iax2Safety\<close> the invariant of the tables in the reachable states, \<open>Iax2Packets\<close> composes both:
    every datagram is handled; \<open>Iax2CallRun\<close> follows a call from its NEW to its HANGUP.
  \<^item> Streams: reassembly of IP fragments and of SIP over TCP against the list of what was sent; \<open>RtpFrames\<close> inverts an encoder
    of RTP frames.
  \<^item> Audio: the window of the mixer as a view of its circular buffer; \<open>TapeRun\<close>, the interleaving of the capture and the writer
    thread, with \<open>TapeProps\<close> and \<open>MediaChunkFileProps\<close>: accepted audio reaches the file in order, the file gives it back.
  \<^item> Containers: the locale \<open>simulation\<close> relates the LRU map to a list; the queue is a transition system with the semaphore.
  \<^item> Enumerations and formats: the locales \<open>named_enum\<close> and \<open>pair_format\<close>, instantiated by every enumeration and serializer.

  \<^bold>\<open>Bounds and fuel.\<close> The scans for Skinny messages and for SDP lines recurse over as many rounds as the packet has bytes; every
  round consumes at least one byte (a Skinny message at least ten), so they are never cut off. \<open>ParseSipStream\<close> takes fuel:
  a stream of well-formed messages needs one round each (\<open>ParseSipStream_parses\<close>), and a negative content length needs more
  than any fuel (\<open>ParseSipStream_never_returns\<close>). Replacing characters in parties and the items of an RTCP source description
  may run forever, and theorems say when. The search for a free file name ends because there are finitely many files; reading a
  capture file takes one round more than it has chunks. Integers wrap at their width where the code lets them; byte and
  chunk counters of tapes and sessions are unbounded, because the size limit and the idle time-out keep them small; so are
  \<open>m_bytesWritten\<close> of a tape, an \<open>int\<close> that the writer compares with the limit at every chunk, and the count of the
  semaphore of a queue, an \<open>int\<close> that would wrap after 2^31 pushes without a pop.

  \<^bold>\<open>Findings.\<close> Lemmas named after what goes wrong (\<open>subscribe_overread\<close>, \<open>ccm5_overflow\<close>, \<open>empty_item_hangs\<close>, \<open>late_party_reachable\<close>
  and others) show, on concrete input, where the code departs from what it means to do.

  \<^bold>\<open>Not modelled.\<close> The log, sockets, TLS, threads and the process itself; pcap devices and the pauses of a replay; codec
  libraries and the vendored codecs; the XML library behind \<open>DomSerializer\<close> (the settings are read from the map of its elements); the final encoding of recordings by the batch
  processing; sound cards and the call generator; the command port. The
  callbacks of IAX2 sessions, which are off by default, and of the others are logged apart. A SIP message over TCP stands in memory whose rest is an arbitrary parameter. Doubles occur in the code only
  in logs and in levels and delays; the latter are exact integers or parameters.
\<close>

end
